(* ===== verification/Prelude.thy ===== *)
theory Prelude
  imports Main "HOL-Library.Word"
begin

text \<open>
  Shared by every theory of the development: the named collections that drive
  the automation, the types in which the Go program's scalars are read, and
  the generic lemmas on lists and sorted tables that several components use.

  A Go \<open>string\<close> is a sequence of bytes, here a HOL \<open>string\<close> (a list of
  8-bit characters), so \<open>len(s)\<close> is \<open>length s\<close>.  A \<open>time.Time\<close> is
  its number of nanoseconds since the Unix epoch, a \<open>time.Duration\<close> a number
  of nanoseconds; the zero \<open>time.Time\<close> (on which \<open>IsZero\<close> holds) is 1 January
  of year 1.
\<close>

named_theorems go_defs \<open>definitions of small Go helpers, unfolded by the component proofs\<close>
named_theorems wp_rules \<open>weakest-precondition equations of the effect combinators\<close>
named_theorems keeps_rules \<open>introduction rules for invariant preservation\<close>

type_synonym gostring = string
type_synonym instant = int
type_synonym duration = int

definition zero_time :: instant where
  "zero_time = - 62135596800000000000"

definition is_zero_time :: "instant \<Rightarrow> bool" where
  "is_zero_time t = (t = zero_time)"

definition nanosecond :: duration where "nanosecond = 1"
definition millisecond :: duration where "millisecond = 1000000"
definition second :: duration where "second = 1000000000"
definition minute :: duration where "minute = 60 * 1000000000"
definition hour :: duration where "hour = 3600 * 1000000000"

lemmas unit_defs = nanosecond_def millisecond_def second_def minute_def hour_def

lemma units_pos [simp]:
  "0 < nanosecond" "0 < millisecond" "0 < second" "0 < minute" "0 < hour"
  by (simp_all add: unit_defs)

definition int64_max :: int where "int64_max = 9223372036854775807"
definition int64_min :: int where "int64_min = - 9223372036854775808"

definition fits_int64 :: "int \<Rightarrow> bool" where
  "fits_int64 i = (int64_min \<le> i \<and> i \<le> int64_max)"

lemmas int64_defs = int64_max_def int64_min_def fits_int64_def

text \<open>The value of a Go \<open>int64\<close> (or \<open>int\<close>) computation that wraps around.\<close>

definition wrap64 :: "int \<Rightarrow> int" where
  "wrap64 i = sint (word_of_int i :: 64 word)"

lemma wrap64_eq: "wrap64 i = (i + 2 ^ 63) mod 2 ^ 64 - 2 ^ 63"
  by (simp add: wrap64_def sint_uint signed_take_bit_eq_take_bit_shift take_bit_eq_mod
      uint_word_of_int mod_simps)

lemma wrap64_id: "fits_int64 i \<Longrightarrow> wrap64 i = i"
  by (simp add: wrap64_eq int64_defs mod_pos_pos_trivial)

lemma wrap64_fits: "fits_int64 (wrap64 i)"
proof -
  have "0 \<le> (i + 2 ^ 63) mod 2 ^ 64" "(i + 2 ^ 63) mod 2 ^ 64 < 2 ^ 64" by simp_all
  then show ?thesis unfolding wrap64_eq int64_defs by auto
qed

text \<open>\<open>time.Time.Sub\<close> saturates at the ends of the \<open>int64\<close> range.\<close>

definition time_sub :: "instant \<Rightarrow> instant \<Rightarrow> duration" where
  "time_sub t u = max int64_min (min int64_max (t - u))"

text \<open>Go's integer division and remainder truncate towards zero.\<close>

definition go_quot :: "int \<Rightarrow> int \<Rightarrow> int" where
  "go_quot a b = sgn a * sgn b * (\<bar>a\<bar> div \<bar>b\<bar>)"

definition go_rem :: "int \<Rightarrow> int \<Rightarrow> int" where
  "go_rem a b = a - go_quot a b * b"

section \<open>Lists\<close>

fun first_where :: "('a \<Rightarrow> bool) \<Rightarrow> 'a list \<Rightarrow> 'a option" where
  "first_where P [] = None"
| "first_where P (x # xs) = (if P x then Some x else first_where P xs)"

lemma first_where_None [simp]: "first_where P xs = None \<longleftrightarrow> (\<forall>x\<in>set xs. \<not> P x)"
  by (induction xs) auto

lemma first_where_SomeD: "first_where P xs = Some x \<Longrightarrow> x \<in> set xs \<and> P x"
  by (induction xs) (auto split: if_splits)

lemma first_where_append:
  "first_where P (xs @ ys) =
    (case first_where P xs of None \<Rightarrow> first_where P ys | Some x \<Rightarrow> Some x)"
  by (induction xs) auto

lemma first_where_filter: "first_where P (filter Q xs) = first_where (\<lambda>x. Q x \<and> P x) xs"
  by (induction xs) auto

definition map_where :: "('a \<Rightarrow> bool) \<Rightarrow> ('a \<Rightarrow> 'a) \<Rightarrow> 'a list \<Rightarrow> 'a list" where
  "map_where P f xs = map (\<lambda>x. if P x then f x else x) xs"

lemma first_where_update:
  "(\<And>x. Q (f x) = Q x) \<Longrightarrow>
    first_where Q (map_where P f xs) = map_option (\<lambda>x. if P x then f x else x) (first_where Q xs)"
  by (induction xs) (auto simp: map_where_def)

lemma map_where_length [simp]: "length (map_where P f xs) = length xs"
  by (simp add: map_where_def)

lemma map_where_none: "\<forall>x\<in>set xs. \<not> P x \<Longrightarrow> map_where P f xs = xs"
  unfolding map_where_def by (induction xs) auto

lemma map_where_keep: "(\<And>x. k (f x) = k x) \<Longrightarrow> map k (map_where P f xs) = map k xs"
  by (simp add: map_where_def)

lemma set_map_where: "x \<in> set (map_where P f xs) \<longleftrightarrow>
  (\<exists>y\<in>set xs. x = (if P y then f y else y))"
  by (auto simp: map_where_def)

lemma ball_mw: "(\<forall>x\<in>set (map_where P f xs). R x) \<longleftrightarrow> (\<forall>y\<in>set xs. R (if P y then f y else y))"
  unfolding map_where_def by auto

lemma bex_mw: "(\<exists>x\<in>set (map_where P f xs). R x) \<longleftrightarrow> (\<exists>y\<in>set xs. R (if P y then f y else y))"
  unfolding map_where_def by auto

lemma ball_map_where:
  "(\<And>x. Q (f x) = Q x) \<Longrightarrow> (\<forall>x\<in>set (map_where P f xs). Q x) = (\<forall>x\<in>set xs. Q x)"
  unfolding map_where_def by (induction xs) auto

lemma ball_map_where_I:
  "\<forall>x\<in>set xs. Q x \<Longrightarrow> (\<And>x. Q (f x)) \<Longrightarrow> \<forall>x\<in>set (map_where P f xs). Q x"
  unfolding map_where_def by (induction xs) auto

lemma bex_map_where:
  "(\<And>x. Q (f x) = Q x) \<Longrightarrow> (\<exists>x\<in>set (map_where P f xs). Q x) = (\<exists>x\<in>set xs. Q x)"
  unfolding map_where_def by (induction xs) auto

lemma filter_map_where_keys:
  assumes "\<And>x. x \<in> set xs \<Longrightarrow> Q x \<Longrightarrow> P (f x) \<Longrightarrow> P x \<and> k (f x) = k x"
  shows "set (map k (filter P (map_where Q f xs))) \<subseteq> set (map k (filter P xs))"
  using assms by (auto simp: set_map_where split: if_splits)

lemma distinct_filter_map_where:
  assumes "distinct (map k (filter P xs))"
    and "\<And>x. x \<in> set xs \<Longrightarrow> Q x \<Longrightarrow> P (f x) \<Longrightarrow> P x \<and> k (f x) = k x"
  shows "distinct (map k (filter P (map_where Q f xs)))"
  using assms
proof (induction xs)
  case Nil then show ?case by (simp add: map_where_def)
next
  case (Cons x xs)
  have step: "map_where Q f (x # xs) = (if Q x then f x else x) # map_where Q f xs"
    by (simp add: map_where_def)
  have sub: "set (map k (filter P (map_where Q f xs))) \<subseteq> set (map k (filter P xs))"
    using Cons.prems(2) by (intro filter_map_where_keys) simp
  have ih: "distinct (map k (filter P (map_where Q f xs)))"
  proof (rule Cons.IH)
    show "distinct (map k (filter P xs))" using Cons.prems(1) by (cases "P x") simp_all
  qed (use Cons.prems(2) in simp)
  show ?case
  proof (cases "P (if Q x then f x else x)")
    case True
    then have "P x \<and> k (if Q x then f x else x) = k x" using Cons.prems(2) [of x] by (cases "Q x") simp_all
    then show ?thesis using ih sub Cons.prems(1) True by (simp only: step) auto
  qed (simp add: step ih)
qed

lemma distinct_map_where:
  "distinct (map k xs) \<Longrightarrow> (\<And>x. x \<in> set xs \<Longrightarrow> Q x \<Longrightarrow> k (f x) = k x) \<Longrightarrow>
    distinct (map k (map_where Q f xs))"
  using distinct_filter_map_where [of k "\<lambda>_. True" xs Q f] by simp

lemma sorted_wrt_filter_less: "sorted_wrt R xs \<Longrightarrow> sorted_wrt R (filter P xs)"
  by (induction xs) auto

lemma map_filter_sorted:
  "sorted_wrt (<) (map k xs) \<Longrightarrow> sorted_wrt (<) (map k (filter P xs))"
  by (induction xs) auto

lemma sorted_wrt_take_drop:
  "sorted_wrt R xs \<Longrightarrow> sorted_wrt R (take n xs)"
  "sorted_wrt R xs \<Longrightarrow> sorted_wrt R (drop n xs)"
  by (simp_all add: sorted_wrt_take sorted_wrt_drop)

lemma distinct_map_inj: "distinct (map k xs) \<Longrightarrow> x \<in> set xs \<Longrightarrow> y \<in> set xs \<Longrightarrow> k x = k y \<Longrightarrow> x = y"
  by (auto simp: distinct_map inj_on_def)

lemma sum_le_sum_filter:
  "length (filter P xs) + length (filter (\<lambda>x. \<not> P x) xs) = length xs"
  by (rule sum_length_filter_compl)

end
