(* ===== verification/Effects.thy ===== *)
theory Effects
  imports Prelude
begin

text \<open>
  How the model runs Go code with effects: a computation takes the state and
  returns either an error or a value, with the new state (the state survives
  an error, as in Go).  Early returns are \<open>throw\<close>; code that logs an error and
  goes on is \<open>attempt\<close>.

  The SQL database may refuse any statement (a lock timeout, a full disk, a
  cancelled context).  The state therefore carries an oracle, the list
  \<open>faults\<close>, from which every statement takes one bit: \<open>True\<close> makes it fail.  An
  exhausted oracle lets every further statement succeed.  Every theorem holds for
  all oracles unless it says otherwise, so every \<open>if err != nil\<close> branch of a
  store call is a branch of the model.  \<open>tx\<close> is a transaction with the deferred
  \<open>Rollback\<close> of the code: on an error every table is as it was.
\<close>

type_synonym ('s, 'e, 'a) prog = "'s \<Rightarrow> ('e + 'a) \<times> 's"

definition ret :: "'a \<Rightarrow> ('s, 'e, 'a) prog" where
  "ret a s = (Inr a, s)"

definition throw :: "'e \<Rightarrow> ('s, 'e, 'a) prog" where
  "throw e s = (Inl e, s)"

definition bindE :: "('s, 'e, 'a) prog \<Rightarrow> ('a \<Rightarrow> ('s, 'e, 'b) prog) \<Rightarrow> ('s, 'e, 'b) prog" where
  "bindE m k s = (case m s of (Inl e, t) \<Rightarrow> (Inl e, t) | (Inr a, t) \<Rightarrow> k a t)"

definition andthen :: "('s, 'e, 'a) prog \<Rightarrow> ('s, 'e, 'b) prog \<Rightarrow> ('s, 'e, 'b) prog" where
  "andthen m n = bindE m (\<lambda>_. n)"

definition gets :: "('s \<Rightarrow> 'a) \<Rightarrow> ('s, 'e, 'a) prog" where
  "gets f s = (Inr (f s), s)"

definition modify :: "('s \<Rightarrow> 's) \<Rightarrow> ('s, 'e, unit) prog" where
  "modify f s = (Inr (), f s)"

definition guardE :: "bool \<Rightarrow> 'e \<Rightarrow> ('s, 'e, unit) prog" where
  "guardE b e = (if b then ret () else throw e)"

definition attempt :: "('s, 'e, 'a) prog \<Rightarrow> ('s, 'f, 'e + 'a) prog" where
  "attempt m s = (case m s of (r, t) \<Rightarrow> (Inr r, t))"

definition map_error :: "('e \<Rightarrow> 'f) \<Rightarrow> ('s, 'e, 'a) prog \<Rightarrow> ('s, 'f, 'a) prog" where
  "map_error f m s = (case m s of (Inl e, t) \<Rightarrow> (Inl (f e), t) | (Inr a, t) \<Rightarrow> (Inr a, t))"

definition of_option :: "'e \<Rightarrow> 'a option \<Rightarrow> ('s, 'e, 'a) prog" where
  "of_option e x = (case x of None \<Rightarrow> throw e | Some a \<Rightarrow> ret a)"

fun for_each :: "('a \<Rightarrow> ('s, 'e, unit) prog) \<Rightarrow> 'a list \<Rightarrow> ('s, 'e, unit) prog" where
  "for_each f [] = ret ()"
| "for_each f (x # xs) = andthen (f x) (for_each f xs)"

text \<open>A loop which collects what its rounds return.\<close>

fun map_each :: "('a \<Rightarrow> ('s, 'e, 'b) prog) \<Rightarrow> 'a list \<Rightarrow> ('s, 'e, 'b list) prog" where
  "map_each f [] = ret []"
| "map_each f (x # xs) = bindE (f x) (\<lambda>y. bindE (map_each f xs) (\<lambda>ys. ret (y # ys)))"

definition of_result :: "'e + 'a \<Rightarrow> ('s, 'e, 'a) prog" where
  "of_result x = (case x of Inl e \<Rightarrow> throw e | Inr a \<Rightarrow> ret a)"

record sqldb =
  faults :: "bool list"

definition stmt :: "'e \<Rightarrow> ('z sqldb_scheme, 'e, unit) prog" where
  "stmt e s =
    (case faults s of
       [] \<Rightarrow> (Inr (), s)
     | f # fs \<Rightarrow> (if f then Inl e else Inr (), s\<lparr>faults := fs\<rparr>))"

definition tx :: "('z sqldb_scheme, 'e, 'a) prog \<Rightarrow> ('z sqldb_scheme, 'e, 'a) prog" where
  "tx m s = (case m s of (Inl e, t) \<Rightarrow> (Inl e, s\<lparr>faults := faults t\<rparr>) | (Inr a, t) \<Rightarrow> (Inr a, t))"

text \<open>Nothing but the oracle changed.\<close>

definition only_oracle :: "'z sqldb_scheme \<Rightarrow> 'z sqldb_scheme \<Rightarrow> bool" where
  "only_oracle s t = (t = s\<lparr>faults := faults t\<rparr>)"

section \<open>Equations\<close>

lemma bindE_ret [simp]: "bindE (ret a) k = k a"
  by (simp add: bindE_def ret_def fun_eq_iff)

lemma bindE_throw [simp]: "bindE (throw e) k = throw e"
  by (simp add: bindE_def throw_def fun_eq_iff)

lemma bindE_assoc: "bindE (bindE m k) l = bindE m (\<lambda>a. bindE (k a) l)"
  by (auto simp: bindE_def fun_eq_iff split: prod.splits sum.splits)

lemma bindE_ret_right: "bindE m ret = m"
  by (auto simp: bindE_def ret_def fun_eq_iff split: prod.splits sum.splits)

lemmas run_defs = ret_def throw_def bindE_def andthen_def gets_def modify_def guardE_def
  attempt_def map_error_def of_option_def stmt_def tx_def

section \<open>Weakest preconditions\<close>

definition wp :: "('s, 'e, 'a) prog \<Rightarrow> ('e + 'a \<Rightarrow> 's \<Rightarrow> bool) \<Rightarrow> 's \<Rightarrow> bool" where
  "wp m Q s = (case m s of (r, t) \<Rightarrow> Q r t)"

definition onE :: "('e \<Rightarrow> 's \<Rightarrow> bool) \<Rightarrow> ('a \<Rightarrow> 's \<Rightarrow> bool) \<Rightarrow> 'e + 'a \<Rightarrow> 's \<Rightarrow> bool" where
  "onE E Q r t = (case r of Inl e \<Rightarrow> E e t | Inr a \<Rightarrow> Q a t)"

lemma onE_simps [simp, wp_rules]: "onE E Q (Inl e) t = E e t" "onE E Q (Inr a) t = Q a t"
  by (simp_all add: onE_def)

lemma wp_ret [wp_rules]: "wp (ret a) Q s = Q (Inr a) s"
  by (simp add: wp_def ret_def)

lemma wp_throw [wp_rules]: "wp (throw e) Q s = Q (Inl e) s"
  by (simp add: wp_def throw_def)

lemma wp_bindE [wp_rules]:
  "wp (bindE m k) Q s = wp m (onE (\<lambda>e. Q (Inl e)) (\<lambda>a. wp (k a) Q)) s"
  by (auto simp: wp_def bindE_def split: prod.splits sum.splits)

lemma wp_andthen [wp_rules]:
  "wp (andthen m n) Q s = wp m (onE (\<lambda>e. Q (Inl e)) (\<lambda>a. wp n Q)) s"
  by (simp add: andthen_def wp_bindE)

lemma wp_gets [wp_rules]: "wp (gets f) Q s = Q (Inr (f s)) s"
  by (simp add: wp_def gets_def)

lemma wp_modify [wp_rules]: "wp (modify f) Q s = Q (Inr ()) (f s)"
  by (simp add: wp_def modify_def)

lemma wp_guardE [wp_rules]: "wp (guardE b e) Q s = (if b then Q (Inr ()) s else Q (Inl e) s)"
  by (simp add: guardE_def wp_rules)

lemma wp_attempt [wp_rules]: "wp (attempt m) Q s = wp m (\<lambda>r. Q (Inr r)) s"
  by (simp add: wp_def attempt_def split: prod.splits)

lemma wp_map_error [wp_rules]:
  "wp (map_error f m) Q s = wp m (onE (\<lambda>e. Q (Inl (f e))) (\<lambda>a. Q (Inr a))) s"
  by (auto simp: wp_def map_error_def split: prod.splits sum.splits)

lemma wp_of_option [wp_rules]:
  "wp (of_option e x) Q s = (case x of None \<Rightarrow> Q (Inl e) s | Some a \<Rightarrow> Q (Inr a) s)"
  by (simp add: of_option_def wp_rules split: option.splits)

lemma wp_of_result [wp_rules]:
  "wp (of_result x) Q s = (case x of Inl e \<Rightarrow> Q (Inl e) s | Inr a \<Rightarrow> Q (Inr a) s)"
  by (simp add: of_result_def wp_rules split: sum.splits)

lemma wp_if [wp_rules]: "wp (if b then m else n) Q s = (if b then wp m Q s else wp n Q s)"
  by simp

lemma wp_mono: "wp m Q s \<Longrightarrow> (\<And>r t. Q r t \<Longrightarrow> R r t) \<Longrightarrow> wp m R s"
  by (auto simp: wp_def split: prod.splits)

lemma wp_run: "wp m Q s \<Longrightarrow> m s = (r, t) \<Longrightarrow> Q r t"
  by (simp add: wp_def)

lemma wp_conj: "wp m Q s \<Longrightarrow> wp m R s \<Longrightarrow> wp m (\<lambda>r t. Q r t \<and> R r t) s"
  by (auto simp: wp_def split: prod.splits)

text \<open>Sequencing, from what the first step promises.\<close>

lemma wp_bind:
  assumes "wp m (onE E P) s" and "\<And>e t. E e t \<Longrightarrow> Q (Inl e) t" and "\<And>a t. P a t \<Longrightarrow> wp (k a) Q t"
  shows "wp (bindE m k) Q s"
  unfolding wp_bindE
  by (rule wp_mono [OF assms(1)]) (auto simp: onE_def assms(2,3) split: sum.splits)

lemma wp_then:
  assumes "wp m (onE E P) s" and "\<And>e t. E e t \<Longrightarrow> Q (Inl e) t" and "\<And>a t. P a t \<Longrightarrow> wp n Q t"
  shows "wp (andthen m n) Q s"
  unfolding andthen_def by (rule wp_bind [OF assms])

lemma wp_guard_then:
  "(b \<Longrightarrow> wp n Q s) \<Longrightarrow> (\<not> b \<Longrightarrow> Q (Inl e) s) \<Longrightarrow> wp (andthen (guardE b e) n) Q s"
  by (simp add: wp_andthen wp_guardE)

lemma wp_option_bind:
  "(x = None \<Longrightarrow> Q (Inl e) s) \<Longrightarrow> (\<And>a. x = Some a \<Longrightarrow> wp (k a) Q s) \<Longrightarrow>
    wp (bindE (of_option e x) k) Q s"
  by (cases x) (simp_all add: wp_bindE wp_of_option)

lemma wp_if_prog:
  "(b \<Longrightarrow> wp m Q s) \<Longrightarrow> (\<not> b \<Longrightarrow> wp n Q s) \<Longrightarrow> wp (if b then m else n) Q s"
  by simp

text \<open>Sequencing after a step whose outcome is known.\<close>

lemma wp_bindE_run: "m s = (Inr a, u) \<Longrightarrow> wp (bindE m k) Q s = wp (k a) Q u"
  by (simp add: wp_def bindE_def)

lemma wp_andthen_run: "m s = (Inr a, u) \<Longrightarrow> wp (andthen m n) Q s = wp n Q u"
  by (simp add: andthen_def wp_bindE_run)

lemma wp_bindE_fail: "m s = (Inl e, u) \<Longrightarrow> wp (bindE m k) Q s = Q (Inl e) u"
  by (simp add: wp_def bindE_def)

lemma wp_andthen_fail: "m s = (Inl e, u) \<Longrightarrow> wp (andthen m n) Q s = Q (Inl e) u"
  by (simp add: andthen_def wp_bindE_fail)

text \<open>Sequencing after a step that cannot fail.\<close>

definition never :: "'e \<Rightarrow> 's \<Rightarrow> bool" where "never e s = False"

lemma wp_bind_ok:
  assumes "wp m (onE never P) s" and "\<And>a t. P a t \<Longrightarrow> wp (k a) Q t"
  shows "wp (bindE m k) Q s"
  unfolding wp_bindE
  by (rule wp_mono [OF assms(1)]) (auto simp: onE_def never_def assms(2) split: sum.splits)

lemma wp_then_ok:
  assumes "wp m (onE never P) s" and "\<And>a t. P a t \<Longrightarrow> wp n Q t"
  shows "wp (andthen m n) Q s"
  unfolding andthen_def by (rule wp_bind_ok [OF assms])

lemma wp_ok_mono:
  assumes "wp m (onE never P) s" and "\<And>a t. P a t \<Longrightarrow> Q (Inr a) t"
  shows "wp m Q s"
  by (rule wp_mono [OF assms(1)]) (auto simp: onE_def never_def assms(2) split: sum.splits)

section \<open>Invariant preservation\<close>

definition keeps :: "('s \<Rightarrow> bool) \<Rightarrow> ('s, 'e, 'a) prog \<Rightarrow> bool" where
  "keeps I m = (\<forall>s. I s \<longrightarrow> I (snd (m s)))"

lemma keepsD: "keeps I m \<Longrightarrow> I s \<Longrightarrow> m s = (r, t) \<Longrightarrow> I t"
  by (force simp: keeps_def)

lemma keeps_wp: "keeps I m \<longleftrightarrow> (\<forall>s. I s \<longrightarrow> wp m (\<lambda>r. I) s)"
  by (simp add: keeps_def wp_def case_prod_beta)

lemma keeps_ret [keeps_rules, intro!, simp]: "keeps I (ret a)"
  by (simp add: keeps_def ret_def)

lemma keeps_throw [keeps_rules, intro!, simp]: "keeps I (throw e)"
  by (simp add: keeps_def throw_def)

lemma keeps_gets [keeps_rules, intro!, simp]: "keeps I (gets f)"
  by (simp add: keeps_def gets_def)

lemma keeps_guardE [keeps_rules, intro!, simp]: "keeps I (guardE b e)"
  by (simp add: guardE_def)

lemma keeps_of_option [keeps_rules, intro!, simp]: "keeps I (of_option e x)"
  by (simp add: of_option_def split: option.splits)

lemma keeps_bindE [keeps_rules]: "keeps I m \<Longrightarrow> (\<And>a. keeps I (k a)) \<Longrightarrow> keeps I (bindE m k)"
  by (force simp: keeps_def bindE_def split: prod.splits sum.splits)

lemma keeps_andthen [keeps_rules]: "keeps I m \<Longrightarrow> keeps I n \<Longrightarrow> keeps I (andthen m n)"
  by (simp add: andthen_def keeps_bindE)

lemma keeps_modify [keeps_rules]: "(\<And>s. I s \<Longrightarrow> I (f s)) \<Longrightarrow> keeps I (modify f)"
  by (simp add: keeps_def modify_def)

lemma keeps_attempt [keeps_rules]: "keeps I m \<Longrightarrow> keeps I (attempt m)"
  by (force simp: keeps_def attempt_def split: prod.splits)

lemma keeps_map_error [keeps_rules]: "keeps I m \<Longrightarrow> keeps I (map_error f m)"
  by (force simp: keeps_def map_error_def split: prod.splits sum.splits)

lemma keeps_if [keeps_rules]: "(b \<Longrightarrow> keeps I m) \<Longrightarrow> (\<not> b \<Longrightarrow> keeps I n) \<Longrightarrow> keeps I (if b then m else n)"
  by simp

lemma keeps_case_prod [keeps_rules]:
  "(\<And>a b. keeps I (f a b)) \<Longrightarrow> keeps I (case p of (a, b) \<Rightarrow> f a b)"
  by (cases p) simp

lemma keeps_for_each [keeps_rules]: "(\<And>x. x \<in> set xs \<Longrightarrow> keeps I (f x)) \<Longrightarrow> keeps I (for_each f xs)"
  by (induction xs) (auto intro: keeps_andthen)

lemma keeps_map_each [keeps_rules]: "(\<And>x. x \<in> set xs \<Longrightarrow> keeps I (f x)) \<Longrightarrow> keeps I (map_each f xs)"
  by (induction xs) (auto intro!: keeps_bindE)

lemma keeps_of_result [keeps_rules, intro!, simp]: "keeps I (of_result x)"
  by (simp add: of_result_def split: sum.splits)

text \<open>
  A property of the tables, which by itself does not look at the fault oracle:
  statements and transactions keep it.
\<close>

locale db_invariant =
  fixes I :: "'z sqldb_scheme \<Rightarrow> bool"
  assumes oracle_blind: "I (s\<lparr>faults := fs\<rparr>) = I s"
begin

lemma keeps_stmt [keeps_rules]: "keeps I (stmt e)"
  by (auto simp: keeps_def stmt_def oracle_blind split: list.splits)

lemma keeps_tx [keeps_rules]: "keeps I m \<Longrightarrow> keeps I (tx m)"
  by (force simp: keeps_def tx_def oracle_blind split: prod.splits sum.splits)

lemma wp_stmt_then:
  assumes "I s" "\<And>t. I t \<Longrightarrow> wp k Q t" "\<And>t. I t \<Longrightarrow> Q (Inl e) t"
  shows "wp (andthen (stmt e) k) Q s"
proof -
  have "I (s\<lparr>faults := fs\<rparr>)" for fs using assms(1) by (simp add: oracle_blind)
  then show ?thesis
    using assms(2,3) by (auto simp: wp_def andthen_def bindE_def stmt_def assms(1) split: list.splits)
qed

lemma wp_stmt_keep: "I s \<Longrightarrow> wp (stmt e) (\<lambda>r. I) s"
  using keeps_stmt [of e] by (simp add: keeps_wp)

end

text \<open>The trivial property is one; so is any property of the other fields.\<close>

definition no_condition :: "'z sqldb_scheme \<Rightarrow> bool" where "no_condition s = True"

interpretation any_db: db_invariant no_condition
  by unfold_locales (simp add: no_condition_def)

text \<open>A failed transaction changes nothing but the oracle.\<close>

lemma tx_rollback: "tx m s = (Inl e, t) \<Longrightarrow> t = s\<lparr>faults := faults t\<rparr>"
  by (auto simp: tx_def split: prod.splits sum.splits)

lemma tx_commit: "tx m s = (Inr a, t) \<longleftrightarrow> m s = (Inr a, t)"
  by (auto simp: tx_def split: prod.splits sum.splits)

lemma wp_tx:
  "wp (tx m) Q s = wp m (onE (\<lambda>e t. Q (Inl e) (s\<lparr>faults := faults t\<rparr>)) (\<lambda>a. Q (Inr a))) s"
  by (auto simp: wp_def tx_def split: prod.splits sum.splits)

lemma wp_stmt:
  "wp (stmt e) Q s =
    (case faults s of [] \<Rightarrow> Q (Inr ()) s
     | f # fs \<Rightarrow> if f then Q (Inl e) (s\<lparr>faults := fs\<rparr>) else Q (Inr ()) (s\<lparr>faults := fs\<rparr>))"
  by (auto simp: wp_def stmt_def split: list.splits)

lemma wp_stmt_all:
  "(\<And>fs. Q (Inl e) (s\<lparr>faults := fs\<rparr>)) \<Longrightarrow> (\<And>fs. Q (Inr ()) (s\<lparr>faults := fs\<rparr>)) \<Longrightarrow> wp (stmt e) Q s"
  by (auto simp: wp_stmt split: list.splits) (metis sqldb.surjective sqldb.update_convs(1))

lemma stmt_cases:
  obtains fs where "stmt e s = (Inr (), s\<lparr>faults := fs\<rparr>)" | fs where "stmt e s = (Inl e, s\<lparr>faults := fs\<rparr>)"
proof (cases "faults s")
  case Nil
  then have "stmt e s = (Inr (), s\<lparr>faults := faults s\<rparr>)" by (simp add: stmt_def)
  then show ?thesis by (rule that(1))
next
  case (Cons f fs)
  show ?thesis
    by (cases f) (use Cons in \<open>auto simp: stmt_def intro: that\<close>)
qed

text \<open>How a computation returned a value, step by step.\<close>

named_theorems returned \<open>equations for a computation that returned a value\<close>

lemma returned_bindE [returned]:
  "bindE m k s = (Inr b, t) \<longleftrightarrow> (\<exists>a u. m s = (Inr a, u) \<and> k a u = (Inr b, t))"
  by (auto simp: bindE_def split: prod.splits sum.splits)

lemma returned_andthen [returned]:
  "andthen m n s = (Inr b, t) \<longleftrightarrow> (\<exists>a u. m s = (Inr a, u) \<and> n u = (Inr b, t))"
  by (simp add: andthen_def returned_bindE)

lemma returned_basic [returned]:
  "ret a s = (Inr b, t) \<longleftrightarrow> b = a \<and> t = s"
  "throw e s = (Inr b, t) \<longleftrightarrow> False"
  "gets f s = (Inr c, t) \<longleftrightarrow> c = f s \<and> t = s"
  "modify g s = (Inr u, t) \<longleftrightarrow> t = g s"
  "guardE p e s = (Inr u, t) \<longleftrightarrow> p \<and> t = s"
  "of_option e x s = (Inr d, t) \<longleftrightarrow> x = Some d \<and> t = s"
  by (auto simp: run_defs split: option.splits)

lemma returned_map_error [returned]: "map_error f m s = (Inr a, t) \<longleftrightarrow> m s = (Inr a, t)"
  by (auto simp: map_error_def split: prod.splits sum.splits)

lemma returned_attempt [returned]: "attempt m s = (Inr x, t) \<longleftrightarrow> m s = (x, t)"
  by (auto simp: attempt_def split: prod.splits)

lemma returned_stmt: "stmt e s = (Inr u, t) \<Longrightarrow> \<exists>fs. t = s\<lparr>faults := fs\<rparr>"
  by (metis stmt_cases prod.inject sum.distinct(1))

lemma only_oracle_refl [simp]: "only_oracle s s"
  by (simp add: only_oracle_def)

lemma only_oracle_faults [simp]: "only_oracle s (s\<lparr>faults := fs\<rparr>)"
  by (simp add: only_oracle_def)

lemma only_oracle_ex: "only_oracle s t \<longleftrightarrow> (\<exists>fs. t = s\<lparr>faults := fs\<rparr>)"
  by (auto simp: only_oracle_def)

lemma only_oracle_trans: "only_oracle s t \<Longrightarrow> only_oracle t u \<Longrightarrow> only_oracle s u"
  by (auto simp: only_oracle_ex)

lemma fold_blind:
  assumes "\<And>x s fs. f x (s\<lparr>faults := fs\<rparr>) = (f x s)\<lparr>faults := fs\<rparr>"
  shows "fold f xs (s\<lparr>faults := fs\<rparr>) = (fold f xs s)\<lparr>faults := fs\<rparr>"
  by (induction xs arbitrary: s) (simp_all add: assms)

text \<open>A loop of statements that all succeed applies its updates in order.\<close>

lemma for_each_stmts:
  assumes "for_each (\<lambda>x. andthen (stmt (e x)) (modify (f x))) xs s = (Inr u, t)"
    and "\<And>x s fs. f x (s\<lparr>faults := fs\<rparr>) = (f x s)\<lparr>faults := fs\<rparr>"
  shows "\<exists>fs. t = (fold f xs s)\<lparr>faults := fs\<rparr>"
  using assms(1)
proof (induction xs arbitrary: s)
  case Nil
  then have "t = s\<lparr>faults := faults s\<rparr>" by (simp add: ret_def)
  then show ?case by (metis fold_simps(1))
next
  case (Cons x xs)
  note blind = fold_blind [of f, OF assms(2)]
  show ?case
  proof (rule stmt_cases [of "e x" s])
    fix fs assume st: "stmt (e x) s = (Inr (), s\<lparr>faults := fs\<rparr>)"
    then have "for_each (\<lambda>x. andthen (stmt (e x)) (modify (f x))) xs ((f x s)\<lparr>faults := fs\<rparr>) = (Inr u, t)"
      using Cons.prems
      by (simp only: for_each.simps returned) (auto simp: assms(2))
    then show ?case using Cons.IH by (fastforce simp: blind)
  next
    fix fs assume "stmt (e x) s = (Inl (e x), s\<lparr>faults := fs\<rparr>)"
    then show ?case using Cons.prems by (simp add: andthen_def bindE_def)
  qed
qed

lemma stmt_no_fault [simp]: "faults s = [] \<Longrightarrow> stmt e s = (Inr (), s)"
  by (simp add: stmt_def)

section \<open>What succeeded ran as if nothing could fail\<close>

text \<open>
  A computation without \<open>attempt\<close> that returned a value did what it does with an empty oracle, so
  what is known of the runs without faults holds for every run that succeeds.
\<close>

named_theorems calm_rules \<open>computations whose successful runs ignore the oracle\<close>

definition calm :: "('z sqldb_scheme, 'e, 'a) prog \<Rightarrow> bool" where
  "calm m \<longleftrightarrow> (\<forall>s a t. m s = (Inr a, t) \<longrightarrow> m (s\<lparr>faults := []\<rparr>) = (Inr a, t\<lparr>faults := []\<rparr>))"

definition blind :: "('z sqldb_scheme \<Rightarrow> 'a) \<Rightarrow> bool" where
  "blind f \<longleftrightarrow> (\<forall>s fs. f (s\<lparr>faults := fs\<rparr>) = f s)"

definition blind_update :: "('z sqldb_scheme \<Rightarrow> 'z sqldb_scheme) \<Rightarrow> bool" where
  "blind_update f \<longleftrightarrow> (\<forall>s fs. f (s\<lparr>faults := fs\<rparr>) = (f s)\<lparr>faults := fs\<rparr>)"

lemma calmD: "calm m \<Longrightarrow> m s = (Inr a, t) \<Longrightarrow> m (s\<lparr>faults := []\<rparr>) = (Inr a, t\<lparr>faults := []\<rparr>)"
  by (simp add: calm_def)

lemma calm_basic [calm_rules, simp]:
  "calm (ret a)" "calm (throw e)" "calm (guardE b e)" "calm (of_option e x)" "calm (of_result y)"
  by (auto simp: calm_def ret_def throw_def guardE_def of_option_def of_result_def
      split: option.splits sum.splits if_splits)

lemma calm_gets [calm_rules]: "blind f \<Longrightarrow> calm (gets f)"
  by (simp add: calm_def gets_def blind_def)

lemma calm_modify [calm_rules]: "blind_update f \<Longrightarrow> calm (modify f)"
  by (auto simp: calm_def modify_def blind_update_def)

lemma calm_stmt [calm_rules, simp]: "calm (stmt e)"
  by (auto simp: calm_def stmt_def split: list.splits if_splits)

lemma calm_bindE [calm_rules]: "calm m \<Longrightarrow> (\<And>a. calm (k a)) \<Longrightarrow> calm (bindE m k)"
  unfolding calm_def returned_bindE by blast

lemma calm_andthen [calm_rules]: "calm m \<Longrightarrow> calm n \<Longrightarrow> calm (andthen m n)"
  by (simp add: andthen_def calm_bindE)

lemma calm_if [calm_rules]: "(b \<Longrightarrow> calm m) \<Longrightarrow> (\<not> b \<Longrightarrow> calm n) \<Longrightarrow> calm (if b then m else n)"
  by simp

lemma calm_case_option [calm_rules]:
  "calm m \<Longrightarrow> (\<And>a. calm (k a)) \<Longrightarrow> calm (case x of None \<Rightarrow> m | Some a \<Rightarrow> k a)"
  by (simp split: option.split)

lemma calm_case_prod [calm_rules]: "(\<And>a b. calm (f a b)) \<Longrightarrow> calm (case p of (a, b) \<Rightarrow> f a b)"
  by (cases p) simp

lemma calm_tx [calm_rules]: "calm m \<Longrightarrow> calm (tx m)"
  by (auto simp: calm_def tx_commit)

lemma calm_map_error [calm_rules]: "calm m \<Longrightarrow> calm (map_error f m)"
  by (force simp: calm_def map_error_def split: prod.splits sum.splits)

lemma calm_for_each [calm_rules]: "(\<And>x. calm (f x)) \<Longrightarrow> calm (for_each f xs)"
  by (induction xs) (auto intro: calm_andthen)

lemma calm_map_each [calm_rules]: "(\<And>x. calm (f x)) \<Longrightarrow> calm (map_each f xs)"
  by (induction xs) (auto intro!: calm_bindE)

text \<open>Reads change nothing but the oracle, and what fails before or inside its only
  transaction has changed nothing.\<close>

named_theorems atomic_rules \<open>computations which change nothing when they fail\<close>

definition reading :: "('z sqldb_scheme, 'e, 'a) prog \<Rightarrow> bool" where
  "reading m \<longleftrightarrow> (\<forall>s r t. m s = (r, t) \<longrightarrow> only_oracle s t)"

definition atomic :: "('z sqldb_scheme, 'e, 'a) prog \<Rightarrow> bool" where
  "atomic m \<longleftrightarrow> (\<forall>s e t. m s = (Inl e, t) \<longrightarrow> only_oracle s t)"

lemma atomicD: "atomic m \<Longrightarrow> m s = (Inl e, t) \<Longrightarrow> only_oracle s t"
  by (simp add: atomic_def)

lemma readingD: "reading m \<Longrightarrow> m s = (r, t) \<Longrightarrow> only_oracle s t"
  by (simp add: reading_def)

lemma reading_basic [atomic_rules, simp]:
  "reading (ret a)" "reading (throw e)" "reading (guardE b e)" "reading (of_option e x)"
  "reading (of_result y)" "reading (gets f)" "reading (stmt e)"
  by (auto simp: reading_def ret_def throw_def guardE_def of_option_def of_result_def gets_def stmt_def
      split: option.splits sum.splits if_splits list.splits)

lemma reading_bindE [atomic_rules]: "reading m \<Longrightarrow> (\<And>a. reading (k a)) \<Longrightarrow> reading (bindE m k)"
  by (fastforce simp: reading_def bindE_def split: prod.splits sum.splits intro: only_oracle_trans)

lemma reading_andthen [atomic_rules]: "reading m \<Longrightarrow> reading n \<Longrightarrow> reading (andthen m n)"
  by (simp add: andthen_def reading_bindE)

lemma atomic_reading: "reading m \<Longrightarrow> atomic m"
  by (auto simp: atomic_def reading_def)

lemma atomic_tx [atomic_rules]: "atomic (tx m)"
  by (auto simp: atomic_def only_oracle_def dest: tx_rollback)

lemma atomic_bindE [atomic_rules]: "reading m \<Longrightarrow> (\<And>a. atomic (k a)) \<Longrightarrow> atomic (bindE m k)"
  by (fastforce simp: reading_def atomic_def bindE_def split: prod.splits sum.splits intro: only_oracle_trans)

lemma atomic_andthen [atomic_rules]: "reading m \<Longrightarrow> atomic n \<Longrightarrow> atomic (andthen m n)"
  by (simp add: andthen_def atomic_bindE)

lemma atomic_if [atomic_rules]: "(b \<Longrightarrow> atomic m) \<Longrightarrow> (\<not> b \<Longrightarrow> atomic n) \<Longrightarrow> atomic (if b then m else n)"
  by simp

text \<open>A transaction followed by reads: when anything fails either nothing has changed or all of it has.\<close>

lemma atomic_then_read:
  assumes "atomic m" "\<And>a. reading (k a)" "bindE m k s = (r, t)"
  shows "(only_oracle s t \<and> (\<exists>e. r = Inl e)) \<or> (\<exists>a u. m s = (Inr a, u) \<and> only_oracle u t)"
proof (cases "m s")
  case (Pair x u)
  then show ?thesis
    using assms(1,3) readingD [OF assms(2)]
    by (cases x) (auto simp: bindE_def atomic_def)
qed

lemma reading_attempt [atomic_rules]: "reading m \<Longrightarrow> reading (attempt m)"
  by (auto simp: reading_def attempt_def split: prod.splits)

lemma reading_map_error [atomic_rules]: "reading m \<Longrightarrow> reading (map_error f m)"
  by (force simp: reading_def map_error_def split: prod.splits sum.splits)

lemma atomic_map_error [atomic_rules]: "atomic m \<Longrightarrow> atomic (map_error f m)"
  by (force simp: atomic_def map_error_def split: prod.splits sum.splits)

section \<open>Computations that cannot fail\<close>

lemma attempt_total: "\<exists>r. attempt m w = (Inr r, snd (m w))"
  by (simp add: attempt_def split: prod.split)

definition total :: "('s, 'e, 'a) prog \<Rightarrow> bool" where
  "total m \<longleftrightarrow> (\<forall>w. \<exists>a t. m w = (Inr a, t))"

lemma total_basic: "total (ret a)" "total (attempt m)" "total (modify f)" "total (gets g)"
  by (simp_all add: total_def ret_def attempt_def modify_def gets_def split: prod.split)

lemma total_bindE:
  assumes "total m" and "\<And>a. total (k a)"
  shows "total (bindE m k)"
  unfolding total_def
proof
  fix w
  obtain a t where "m w = (Inr a, t)" using assms(1) unfolding total_def by blast
  then show "\<exists>b u. bindE m k w = (Inr b, u)"
    using assms(2) [of a] by (simp add: bindE_def total_def)
qed

lemma total_andthen: "total m \<Longrightarrow> total n \<Longrightarrow> total (andthen m n)"
  by (simp add: andthen_def total_bindE)

lemmas total_rules = total_basic total_bindE total_andthen

lemma atomic_then_total:
  assumes "atomic m" and "\<And>a. total (k a)"
  shows "atomic (bindE m k)"
  unfolding atomic_def
proof (intro allI impI)
  fix s e t assume run: "bindE m k s = (Inl e, t)"
  show "only_oracle s t"
  proof (cases "m s")
    case (Pair x u)
    then show ?thesis
    proof (cases x)
      case (Inl f) then show ?thesis using run Pair atomicD [OF assms(1)] by (simp add: bindE_def)
    next
      case (Inr a)
      obtain b v where "k a u = (Inr b, v)" using assms(2) [of a] unfolding total_def by blast
      then show ?thesis using run Pair Inr by (simp add: bindE_def)
    qed
  qed
qed

text \<open>The steps of a run without faults.\<close>

lemma quiet_steps:
  "faults w = [] \<Longrightarrow> andthen (stmt e) n w = n w"
  "bindE (gets f) k w = k (f w) w"
  "andthen (modify g) n w = n (g w)"
  "b \<Longrightarrow> andthen (guardE b e) n w = n w"
  by (simp_all add: run_defs)

lemma andthen_run: "m w = (Inr a, u) \<Longrightarrow> andthen m n w = n u"
  by (simp add: andthen_def bindE_def)

lemma for_each_quiet:
  assumes "\<And>x s. faults (f x s) = faults s" and "faults s = []"
  shows "for_each (\<lambda>x. andthen (stmt (e x)) (modify (f x))) xs s = (Inr (), fold f xs s)"
  using assms(2)
  by (induction xs arbitrary: s) (simp_all add: run_defs assms(1))

section \<open>The interface of a run guard\<close>

text \<open>
  The interface of a run guard: background work of a kind is claimed under a key before
  it starts and released when it ends.  The deploy engine claims per service
  (service/cutover.go), the database jobs claim one slot (service/database.go).
\<close>

locale run_guard =
  fixes claim :: "'k \<Rightarrow> ('s, 'e, unit) prog" and release :: "'k \<Rightarrow> 's \<Rightarrow> 's"
    and active :: "'k \<Rightarrow> 's \<Rightarrow> bool"
  assumes claim_free: "\<not> active k s \<Longrightarrow> \<exists>t. claim k s = (Inr (), t) \<and> active k t"
    and claim_busy: "active k s \<Longrightarrow> \<exists>m. claim k s = (Inl m, s)"
    and claim_others: "j \<noteq> k \<Longrightarrow> active j (snd (claim k s)) = active j s"
    and release_frees: "\<not> active k (release k s)"
    and release_others: "j \<noteq> k \<Longrightarrow> active j (release k s) = active j s"
begin

lemma claim_iff: "(\<exists>t. claim k s = (Inr (), t)) \<longleftrightarrow> \<not> active k s"
  using claim_free claim_busy by (metis prod.inject sum.distinct(1))

lemma claim_twice: "claim k s = (Inr (), t) \<Longrightarrow> \<exists>m. claim k t = (Inl m, t)"
  using claim_free [of k s] claim_iff claim_busy by (metis prod.inject)

lemma claim_after_release: "\<exists>t. claim k (release k s) = (Inr (), t)"
  using claim_iff release_frees by blast

end

end
