(* ===== verification/Tables.thy ===== *)
theory Tables
  imports Effects
begin

text \<open>
  SQL tables whose primary key is \<open>INTEGER PRIMARY KEY AUTOINCREMENT\<close>: the rows in
  insertion order, and the last key handed out (never handed out again, also
  after a delete).  The interface \<open>rowid_table\<close> gives what every such table
  promises; each component interprets it on its own row type.
\<close>

record 'a table =
  rows :: "'a list"
  seq :: int

definition empty_table :: "'a table" where
  "empty_table = \<lparr>rows = [], seq = 0\<rparr>"

definition t_insert :: "(int \<Rightarrow> 'a \<Rightarrow> 'a) \<Rightarrow> 'a \<Rightarrow> 'a table \<Rightarrow> 'a table" where
  "t_insert put r t = t\<lparr>rows := rows t @ [put (seq t + 1) r], seq := seq t + 1\<rparr>"

definition t_delete :: "('a \<Rightarrow> bool) \<Rightarrow> 'a table \<Rightarrow> 'a table" where
  "t_delete P t = t\<lparr>rows := filter (\<lambda>r. \<not> P r) (rows t)\<rparr>"

definition t_update :: "('a \<Rightarrow> bool) \<Rightarrow> ('a \<Rightarrow> 'a) \<Rightarrow> 'a table \<Rightarrow> 'a table" where
  "t_update P f t = t\<lparr>rows := map_where P f (rows t)\<rparr>"

definition t_count :: "('a \<Rightarrow> bool) \<Rightarrow> 'a table \<Rightarrow> nat" where
  "t_count P t = length (filter P (rows t))"

definition t_find :: "('a \<Rightarrow> bool) \<Rightarrow> 'a table \<Rightarrow> 'a option" where
  "t_find P t = first_where P (rows t)"

text \<open>\<open>LIMIT n\<close>, where SQLite reads a negative bound as no bound.\<close>

definition sql_limit :: "int \<Rightarrow> 'a list \<Rightarrow> 'a list" where
  "sql_limit n xs = (if n < 0 then xs else take (nat n) xs)"

text \<open>\<open>SELECT ... WHERE P ORDER BY id DESC LIMIT n\<close>.\<close>

definition newest :: "('a \<Rightarrow> bool) \<Rightarrow> int \<Rightarrow> 'a table \<Rightarrow> 'a list" where
  "newest P n t = sql_limit n (rev (filter P (rows t)))"

definition table_ok :: "('a \<Rightarrow> int) \<Rightarrow> 'a table \<Rightarrow> bool" where
  "table_ok rid t \<longleftrightarrow>
    sorted_wrt (<) (map rid (rows t)) \<and> list_all (\<lambda>r. 0 < rid r \<and> rid r \<le> seq t) (rows t) \<and> 0 \<le> seq t"

lemmas table_defs = t_insert_def t_delete_def t_update_def t_count_def t_find_def

lemma table_ok_empty [simp]: "table_ok rid empty_table"
  by (simp add: table_ok_def empty_table_def)

lemma sql_limit_length: "0 \<le> n \<Longrightarrow> length (sql_limit n xs) \<le> nat n"
  by (simp add: sql_limit_def)

lemma sql_limit_subset: "set (sql_limit n xs) \<subseteq> set xs"
  by (auto simp: sql_limit_def dest: in_set_takeD)

lemma sql_limit_sorted: "sorted_wrt R xs \<Longrightarrow> sorted_wrt R (sql_limit n xs)"
  by (simp add: sql_limit_def sorted_wrt_take)

lemma rows_t_delete [simp]: "rows (t_delete P t) = filter (\<lambda>r. \<not> P r) (rows t)"
  by (simp add: t_delete_def)

lemma rows_t_update [simp]: "rows (t_update P f t) = map_where P f (rows t)"
  by (simp add: t_update_def)

lemma rows_t_insert [simp]: "rows (t_insert put r t) = rows t @ [put (seq t + 1) r]"
  by (simp add: t_insert_def)

lemma seq_table [simp]:
  "seq (t_delete P t) = seq t" "seq (t_update P f t) = seq t" "seq (t_insert put r t) = seq t + 1"
  by (simp_all add: table_defs)

locale rowid_table =
  fixes rid :: "'a \<Rightarrow> int" and put :: "int \<Rightarrow> 'a \<Rightarrow> 'a"
  assumes rid_put [simp]: "rid (put i r) = i"
begin

lemma ok_insert: "table_ok rid t \<Longrightarrow> table_ok rid (t_insert put r t)"
  unfolding table_ok_def
  by (fastforce simp: sorted_wrt_append list_all_iff)

lemma ok_delete: "table_ok rid t \<Longrightarrow> table_ok rid (t_delete P t)"
  unfolding table_ok_def by (auto simp: map_filter_sorted list_all_iff)

lemma ok_update:
  assumes "\<And>r. rid (f r) = rid r" and ok: "table_ok rid t"
  shows "table_ok rid (t_update P f t)"
proof -
  have "map rid (map_where P f (rows t)) = map rid (rows t)"
    by (rule map_where_keep) (rule assms)
  then show ?thesis using ok assms(1) unfolding table_ok_def
    by (auto simp: list_all_iff set_map_where)
qed

lemma ids_distinct: "table_ok rid t \<Longrightarrow> distinct (map rid (rows t))"
  by (auto simp: table_ok_def dest: strict_sorted_iff [THEN iffD1])

lemma fresh_id: "table_ok rid t \<Longrightarrow> r \<in> set (rows t) \<Longrightarrow> rid r < seq t + 1"
  by (auto simp: table_ok_def list_all_iff)

lemma row_unique:
  "table_ok rid t \<Longrightarrow> r \<in> set (rows t) \<Longrightarrow> r' \<in> set (rows t) \<Longrightarrow> rid r = rid r' \<Longrightarrow> r = r'"
  using ids_distinct distinct_map_inj by metis

lemma another_row:
  assumes "table_ok rid t" "1 < t_count P t"
  shows "\<exists>r'\<in>set (rows t). P r' \<and> rid r' \<noteq> i"
proof (rule ccontr)
  assume none: "\<not> ?thesis"
  have d: "distinct (map rid (filter P (rows t)))"
    using ids_distinct [OF assms(1)] by (simp add: distinct_map_filter)
  have "set (map rid (filter P (rows t))) \<subseteq> {i}" using none by auto
  then have "card (set (map rid (filter P (rows t)))) \<le> 1"
    by (metis card.empty card_insert_disjoint card_mono empty_iff finite.emptyI finite.insertI One_nat_def)
  then show False using assms(2) distinct_card [OF d] by (simp add: t_count_def)
qed

lemma find_inserted:
  assumes "table_ok rid t"
  shows "t_find (\<lambda>x. rid x = seq t + 1) (t_insert put r t) = Some (put (seq t + 1) r)"
proof -
  have "first_where (\<lambda>x. rid x = seq t + 1) (rows t) = None"
    using fresh_id [OF assms] by force
  then show ?thesis by (simp add: t_find_def first_where_append del: first_where_None)
qed

lemma find_other:
  "j \<noteq> seq t + 1 \<Longrightarrow> t_find (\<lambda>x. rid x = j) (t_insert put r t) = t_find (\<lambda>x. rid x = j) t"
  by (auto simp: t_find_def first_where_append simp del: first_where_None split: option.splits)

lemma newest_descending:
  assumes "table_ok rid t"
  shows "sorted_wrt (\<lambda>r r'. rid r' < rid r) (newest P n t)"
proof -
  have "sorted_wrt (<) (map rid (filter P (rows t)))"
    using assms by (simp add: table_ok_def map_filter_sorted)
  then show ?thesis
    by (simp add: newest_def sql_limit_sorted sorted_wrt_rev sorted_wrt_map)
qed

lemma newest_after_insert:
  "0 < n \<Longrightarrow> P (put (seq t + 1) r) \<Longrightarrow>
    newest P n (t_insert put r t) = put (seq t + 1) r # newest P (n - 1) t"
  by (auto simp: newest_def sql_limit_def take_Cons' nat_diff_distrib)

end

lemma newest_filter: "set (newest P n t) \<subseteq> {r \<in> set (rows t). P r}"
  using sql_limit_subset [of n "rev (filter P (rows t))"] by (auto simp: newest_def)

lemma newest_bounded: "0 \<le> n \<Longrightarrow> length (newest P n t) \<le> nat n"
  by (simp add: newest_def sql_limit_length)

section \<open>Page bounds\<close>

text \<open>
  The page bounds of the list operations: \<open>clampLimit\<close> (service/resources.go),
  \<open>clampSearchLimit\<close> and \<open>clampContextLines\<close> (service/log_collector.go),
  \<open>securityLimit\<close> (store/security.go) and \<open>containerLimit\<close>
  (store/container_inventory.go).  The interface \<open>page_bound\<close> is what the list
  operations rely on: a positive bound, never above the maximum, which leaves an
  acceptable request alone.
\<close>

definition defaultListLimit :: int where "defaultListLimit = 100"
definition maxListLimit :: int where "maxListLimit = 1000"
definition defaultLogSearch :: int where "defaultLogSearch = 100"
definition maxLogSearchLimit :: int where "maxLogSearchLimit = 1000"
definition maxContextLines :: int where "maxContextLines = 1000"

definition clampLimit :: "int \<Rightarrow> int" where
  "clampLimit limit =
    (if limit \<le> 0 then defaultListLimit
     else if limit > maxListLimit then maxListLimit else limit)"

definition clampSearchLimit :: "int \<Rightarrow> int" where
  "clampSearchLimit limit =
    (if limit \<le> 0 then defaultLogSearch
     else if limit > maxLogSearchLimit then maxLogSearchLimit else limit)"

definition clampContextLines :: "int \<Rightarrow> int" where
  "clampContextLines n = (if n < 0 then 0 else if n > maxContextLines then maxContextLines else n)"

definition securityLimit :: "int \<Rightarrow> int" where
  "securityLimit v = (if v \<le> 0 \<or> v > 1000 then 100 else v)"

definition containerLimit :: "int \<Rightarrow> int" where
  "containerLimit limit = (if limit \<le> 0 \<or> limit > 500 then 100 else limit)"

locale page_bound =
  fixes bound :: "int \<Rightarrow> int" and most :: int
  assumes positive: "0 < bound n"
    and at_most: "bound n \<le> most"
    and accepts: "0 < n \<Longrightarrow> n \<le> most \<Longrightarrow> bound n = n"
begin

lemma idempotent: "bound (bound n) = bound n"
  by (simp add: accepts positive at_most)

lemma page_length: "length (newest P (bound n) t) \<le> nat most"
proof -
  have "length (newest P (bound n) t) \<le> nat (bound n)"
    using positive [of n] by (intro newest_bounded) simp
  also have "\<dots> \<le> nat most" using at_most by (rule nat_mono)
  finally show ?thesis .
qed

lemma page_full:
  "t_count P t \<le> nat (bound n) \<Longrightarrow> set (newest P (bound n) t) = {r \<in> set (rows t). P r}"
  using positive [of n] by (auto simp: newest_def sql_limit_def t_count_def)

end

interpretation list_page: page_bound clampLimit maxListLimit
  by unfold_locales (auto simp: clampLimit_def defaultListLimit_def maxListLimit_def)

interpretation search_page: page_bound clampSearchLimit maxLogSearchLimit
  by unfold_locales (auto simp: clampSearchLimit_def defaultLogSearch_def maxLogSearchLimit_def)

interpretation security_page: page_bound securityLimit 1000
  by unfold_locales (auto simp: securityLimit_def)

interpretation container_page: page_bound containerLimit 500
  by unfold_locales (auto simp: containerLimit_def)

lemma clampContextLines_range: "0 \<le> clampContextLines n \<and> clampContextLines n \<le> maxContextLines"
  by (auto simp: clampContextLines_def maxContextLines_def)

end
