(* ===== verification/Go_Strings.thy ===== *)
theory Go_Strings
  imports Prelude "HOL-Library.List_Lexorder" "HOL-Library.Char_ord"
begin

text \<open>
  The operations of Go's \<open>strings\<close>, \<open>strconv\<close> and \<open>unicode/utf8\<close> packages that
  the program uses, on byte strings.  \<open>strings.Cut\<close>, \<open>HasPrefix\<close>,
  \<open>HasSuffix\<close>, \<open>Contains\<close>, \<open>Split\<close> and \<open>Join\<close> are exact; \<open>TrimSpace\<close>
  knows the UTF-8 encodings of every Unicode white-space rune;
  \<open>ParseInt(s, 10, 64)\<close> and \<open>Itoa\<close> are exact with a round-trip lemma.
\<close>

section \<open>Prefixes, substrings, splitting\<close>

definition has_prefix :: "gostring \<Rightarrow> gostring \<Rightarrow> bool" where
  "has_prefix s p = (take (length p) s = p)"

definition has_suffix :: "gostring \<Rightarrow> gostring \<Rightarrow> bool" where
  "has_suffix s p = has_prefix (rev s) (rev p)"

definition trim_prefix :: "gostring \<Rightarrow> gostring \<Rightarrow> gostring" where
  "trim_prefix s p = (if has_prefix s p then drop (length p) s else s)"

definition trim_suffix :: "gostring \<Rightarrow> gostring \<Rightarrow> gostring" where
  "trim_suffix s p = (if has_suffix s p then take (length s - length p) s else s)"

definition cut_suffix :: "gostring \<Rightarrow> gostring \<Rightarrow> gostring option" where
  "cut_suffix s p = (if has_suffix s p then Some (take (length s - length p) s) else None)"

fun contains :: "gostring \<Rightarrow> gostring \<Rightarrow> bool" where
  "contains [] p = (p = [])"
| "contains (c # cs) p = (has_prefix (c # cs) p \<or> contains cs p)"

fun cut_char :: "char \<Rightarrow> gostring \<Rightarrow> (gostring \<times> gostring) option" where
  "cut_char d [] = None"
| "cut_char d (c # cs) =
    (if c = d then Some ([], cs)
     else case cut_char d cs of None \<Rightarrow> None | Some (a, b) \<Rightarrow> Some (c # a, b))"

fun split_char :: "char \<Rightarrow> gostring \<Rightarrow> gostring list" where
  "split_char d [] = [[]]"
| "split_char d (c # cs) =
    (if c = d then [] # split_char d cs
     else case split_char d cs of [] \<Rightarrow> [[c]] | w # ws \<Rightarrow> (c # w) # ws)"

fun join_with :: "gostring \<Rightarrow> gostring list \<Rightarrow> gostring" where
  "join_with sep [] = []"
| "join_with sep [w] = w"
| "join_with sep (w # v # ws) = w @ sep @ join_with sep (v # ws)"

abbreviation newline :: char where "newline \<equiv> CHR 0x0A"

lemma has_prefix_append [simp]: "has_prefix (p @ s) p"
  by (simp add: has_prefix_def)

lemma has_prefix_iff: "has_prefix s p \<longleftrightarrow> (\<exists>r. s = p @ r)"
  unfolding has_prefix_def by (metis append_eq_conv_conj append_take_drop_id)

lemma has_prefix_Nil [simp]: "has_prefix s []"
  by (simp add: has_prefix_def)

lemma has_suffix_iff: "has_suffix s p \<longleftrightarrow> (\<exists>r. s = r @ p)"
  unfolding has_suffix_def has_prefix_iff
  by (metis rev_append rev_rev_ident)

lemma cut_suffix_Some: "cut_suffix s p = Some r \<longleftrightarrow> s = r @ p"
  by (auto simp: cut_suffix_def has_suffix_iff)

lemma contains_iff: "contains s p \<longleftrightarrow> (\<exists>a b. s = a @ p @ b)"
proof (induction s)
  case Nil then show ?case by auto
next
  case (Cons c cs)
  show ?case
  proof
    assume "contains (c # cs) p"
    then show "\<exists>a b. c # cs = a @ p @ b"
      using Cons.IH by (auto simp: has_prefix_iff) (metis append_Cons append_Nil)+
  next
    assume "\<exists>a b. c # cs = a @ p @ b"
    then obtain a b where *: "c # cs = a @ p @ b" by blast
    show "contains (c # cs) p"
    proof (cases a)
      case Nil
      then have "has_prefix (c # cs) p" using * by (auto simp: has_prefix_iff)
      then show ?thesis by simp
    next
      case (Cons x xs) then show ?thesis using * Cons.IH by auto
    qed
  qed
qed

lemma split_char_not_Nil [simp]: "split_char d s \<noteq> []"
  by (induction s) (auto split: list.splits)

lemma split_char_no_sep: "w \<in> set (split_char d s) \<Longrightarrow> d \<notin> set w"
  by (induction s arbitrary: w) (auto split: list.splits if_splits)

lemma join_split: "join_with [d] (split_char d s) = s"
proof (induction s)
  case Nil then show ?case by simp
next
  case (Cons c cs)
  show ?case
  proof (cases "split_char d cs")
    case Nil then show ?thesis by (simp add: split_char_not_Nil [THEN notE])
  next
    case (Cons w ws) then show ?thesis using Cons.IH by (cases ws) auto
  qed
qed

lemma cut_char_append: "d \<notin> set a \<Longrightarrow> cut_char d (a @ d # b) = Some (a, b)"
  by (induction a) auto

lemma cut_char_SomeD: "cut_char d s = Some (a, b) \<Longrightarrow> s = a @ d # b \<and> d \<notin> set a"
  by (induction s arbitrary: a) (auto split: option.splits if_splits)

lemma cut_char_Some: "cut_char d s = Some (a, b) \<longleftrightarrow> s = a @ d # b \<and> d \<notin> set a"
  using cut_char_append cut_char_SomeD by blast

lemma cut_char_None: "cut_char d s = None \<longleftrightarrow> d \<notin> set s"
  by (induction s) (auto split: option.splits)

section \<open>Character classes and trimming\<close>

abbreviation code :: "char \<Rightarrow> nat" where "code c \<equiv> (of_char c :: nat)"

definition is_digit :: "char \<Rightarrow> bool" where "is_digit c = (48 \<le> code c \<and> code c \<le> 57)"
definition is_lower :: "char \<Rightarrow> bool" where "is_lower c = (97 \<le> code c \<and> code c \<le> 122)"
definition is_upper :: "char \<Rightarrow> bool" where "is_upper c = (65 \<le> code c \<and> code c \<le> 90)"

definition ascii_lower :: "char \<Rightarrow> char" where
  "ascii_lower c = (if is_upper c then char_of (code c + 32) else c)"

definition ascii_space :: "char \<Rightarrow> bool" where
  "ascii_space c = (code c = 32 \<or> (9 \<le> code c \<and> code c \<le> 13))"

text \<open>The UTF-8 encodings of the runes on which \<open>unicode.IsSpace\<close> holds.\<close>

definition space_encodings :: "gostring list" where
  "space_encodings =
    map (map char_of)
     ([[32], [9], [10], [11], [12], [13], [194, 133], [194, 160], [225, 154, 128 :: nat]]
      @ map (\<lambda>k. [226, 128, 128 + k]) [0 ..< 11]
      @ [[226, 128, 168], [226, 128, 169], [226, 128, 175], [226, 129, 159], [227, 128, 128]])"

lemma space_encodings_nonempty: "p \<in> set space_encodings \<Longrightarrow> p \<noteq> []"
  by (auto simp: space_encodings_def)

fun strip_any :: "gostring list \<Rightarrow> gostring \<Rightarrow> gostring option" where
  "strip_any [] s = None"
| "strip_any (p # ps) s =
    (if p \<noteq> [] \<and> has_prefix s p then Some (drop (length p) s) else strip_any ps s)"

lemma strip_any_shorter: "strip_any ps s = Some r \<Longrightarrow> length r < length s"
  by (induction ps) (auto simp: has_prefix_iff split: if_splits)

function trim_any :: "gostring list \<Rightarrow> gostring \<Rightarrow> gostring" where
  "trim_any ps s = (case strip_any ps s of None \<Rightarrow> s | Some r \<Rightarrow> trim_any ps r)"
  by pat_completeness auto
termination by (relation "measure (length \<circ> snd)") (auto dest: strip_any_shorter)

declare trim_any.simps [simp del]

definition trim_space :: "gostring \<Rightarrow> gostring" where
  "trim_space s =
    rev (trim_any (map rev space_encodings) (rev (trim_any space_encodings s)))"

lemma strip_any_suffix: "strip_any ps s = Some r \<Longrightarrow> \<exists>p. s = p @ r"
  by (induction ps) (auto simp: has_prefix_iff split: if_splits)

lemma trim_any_suffix: "\<exists>p. s = p @ trim_any ps s"
proof (induction ps s rule: trim_any.induct)
  case (1 ps s)
  show ?case
  proof (cases "strip_any ps s")
    case None then show ?thesis by (simp add: trim_any.simps)
  next
    case (Some r)
    then obtain p q where "s = p @ r" "r = q @ trim_any ps r"
      using strip_any_suffix "1.IH" by blast
    then have "s = (p @ q) @ trim_any ps s"
      using Some by (subst trim_any.simps) simp
    then show ?thesis by blast
  qed
qed

lemma trim_any_length: "length (trim_any ps s) \<le> length s"
  using trim_any_suffix [of s ps] by (metis length_append le_add2)

lemma trim_space_length: "length (trim_space s) \<le> length s"
  unfolding trim_space_def using trim_any_length
  by (metis length_rev le_trans)

lemma trim_space_Nil [simp]: "trim_space [] = []"
  using trim_space_length [of "[]"] by simp

text \<open>Printable ASCII without the blank: nothing to trim.\<close>

definition plain :: "char \<Rightarrow> bool" where "plain c = (33 \<le> code c \<and> code c \<le> 126)"

lemma spaces_not_plain: "\<forall>p\<in>set space_encodings. \<forall>c\<in>set p. \<not> plain c"
  by code_simp

lemma strip_any_plain:
  "\<forall>p\<in>set ps. \<forall>c\<in>set p. \<not> plain c \<Longrightarrow> list_all plain s \<Longrightarrow> strip_any ps s = None"
proof (induction ps)
  case (Cons p ps)
  have "p = [] \<or> \<not> has_prefix s p"
    using Cons.prems by (cases p) (auto simp: has_prefix_iff list_all_iff)
  then show ?case using Cons by auto
qed simp

lemma trim_any_plain:
  "\<forall>p\<in>set ps. \<forall>c\<in>set p. \<not> plain c \<Longrightarrow> list_all plain s \<Longrightarrow> trim_any ps s = s"
  by (subst trim_any.simps) (simp add: strip_any_plain)

lemma trim_space_plain: "list_all plain s \<Longrightarrow> trim_space s = s"
  unfolding trim_space_def using spaces_not_plain by (simp add: trim_any_plain)

section \<open>Numbers\<close>

definition digit_char :: "nat \<Rightarrow> char" where "digit_char n = char_of (48 + n mod 10)"
definition digit_val :: "char \<Rightarrow> nat" where "digit_val c = code c - 48"

fun show_nat :: "nat \<Rightarrow> gostring" where
  "show_nat n = (if n < 10 then [digit_char n] else show_nat (n div 10) @ [digit_char n])"

declare show_nat.simps [simp del]

definition itoa :: "int \<Rightarrow> gostring" where
  "itoa i = (if i < 0 then CHR ''-'' # show_nat (nat (- i)) else show_nat (nat i))"

definition digits_val :: "gostring \<Rightarrow> nat" where
  "digits_val ds = foldl (\<lambda>n c. n * 10 + digit_val c) 0 ds"

definition parse_digits :: "gostring \<Rightarrow> nat option" where
  "parse_digits ds = (if ds \<noteq> [] \<and> list_all is_digit ds then Some (digits_val ds) else None)"

text \<open>\<open>strconv.ParseInt(s, 10, 64)\<close> and \<open>strconv.Atoi\<close> on a 64-bit platform.\<close>

definition parse_int :: "gostring \<Rightarrow> int option" where
  "parse_int s =
    (case s of
       [] \<Rightarrow> None
     | c # cs \<Rightarrow>
        (let neg = (c = CHR ''-''); ds = (if neg \<or> c = CHR ''+'' then cs else s) in
         case parse_digits ds of
           None \<Rightarrow> None
         | Some n \<Rightarrow>
            (let v = (if neg then - int n else int n) in
             if fits_int64 v then Some v else None)))"

lemma char_of_digit [simp]:
  "char_of (48 :: nat) = CHR ''0''" "char_of (49 :: nat) = CHR ''1''" "char_of (50 :: nat) = CHR ''2''"
  "char_of (51 :: nat) = CHR ''3''" "char_of (52 :: nat) = CHR ''4''" "char_of (53 :: nat) = CHR ''5''"
  "char_of (54 :: nat) = CHR ''6''" "char_of (55 :: nat) = CHR ''7''" "char_of (56 :: nat) = CHR ''8''"
  "char_of (57 :: nat) = CHR ''9''"
  by code_simp+

lemma digit_char_is_digit [simp]: "is_digit (digit_char n)"
  by (simp add: is_digit_def digit_char_def)

lemma digit_val_char [simp]: "digit_val (digit_char n) = n mod 10"
  by (simp add: digit_val_def digit_char_def)

lemma show_nat_digits: "list_all is_digit (show_nat n) \<and> show_nat n \<noteq> []"
proof (induction n rule: show_nat.induct)
  case (1 n)
  then show ?case by (subst (1 2) show_nat.simps) simp
qed

lemma digits_val_show_nat: "digits_val (show_nat n) = n"
proof (induction n rule: show_nat.induct)
  case (1 n)
  show ?case
  proof (cases "n < 10")
    case True then show ?thesis by (subst show_nat.simps) (simp add: digits_val_def)
  next
    case False
    then have "digits_val (show_nat (n div 10)) = n div 10" using 1 by simp
    then show ?thesis using False
      by (subst show_nat.simps) (simp add: digits_val_def)
  qed
qed

lemma parse_digits_show_nat [simp]: "parse_digits (show_nat n) = Some n"
  by (simp add: parse_digits_def show_nat_digits digits_val_show_nat)

lemma show_nat_head: "\<exists>c cs. show_nat n = c # cs \<and> is_digit c"
  using show_nat_digits [of n] by (cases "show_nat n") auto

lemma parse_int_itoa: "fits_int64 i \<Longrightarrow> parse_int (itoa i) = Some i"
proof -
  assume fits: "fits_int64 i"
  obtain c cs where hd: "show_nat (nat i) = c # cs" "is_digit c" using show_nat_head by blast
  have c: "c \<noteq> CHR ''-''" "c \<noteq> CHR ''+''" using hd(2) by (auto simp: is_digit_def)
  have p: "parse_digits (c # cs) = Some (nat i)"
    using parse_digits_show_nat [of "nat i"] hd(1) by simp
  show ?thesis
  proof (cases "i < 0")
    case True then show ?thesis using fits by (simp add: itoa_def parse_int_def Let_def)
  next
    case False then show ?thesis
      using fits hd c p by (simp add: itoa_def parse_int_def Let_def)
  qed
qed

lemma itoa_inject: "fits_int64 i \<Longrightarrow> fits_int64 j \<Longrightarrow> itoa i = itoa j \<longleftrightarrow> i = j"
  using parse_int_itoa by (metis option.inject)

lemma parse_int_fits: "parse_int s = Some i \<Longrightarrow> fits_int64 i"
  by (auto simp: parse_int_def Let_def split: list.splits option.splits if_splits)

end
