(* ===== verification/Timestamps.thy ===== *)
theory Timestamps
  imports Go_Strings
begin

text \<open>
  How the store writes times (\<open>internal/store/time.go\<close>).  A \<open>TEXT\<close> column holds
  the date and time to the second, nineteen characters for the years 0000 to
  9999, then the fraction of the second and the letter Z.  SQL compares such columns
  character by character.  The first nineteen characters order as the seconds do, so
  the model keeps them as a number and writes out the rest.

  \<open>formatTime\<close> uses RFC3339Nano, which drops trailing zeros of the fraction
  (and the point, when nothing is left); \<open>formatFixedTime\<close> writes nine digits.
\<close>

fun fixed_digits :: "nat \<Rightarrow> nat \<Rightarrow> gostring" where
  "fixed_digits 0 n = []"
| "fixed_digits (Suc k) n = fixed_digits k (n div 10) @ [digit_char n]"

definition drop_zeros :: "gostring \<Rightarrow> gostring" where
  "drop_zeros ds = rev (dropWhile (\<lambda>c. c = CHR ''0'') (rev ds))"

type_synonym stored_time = "int \<times> gostring"

definition nanos :: "instant \<Rightarrow> nat" where "nanos t = nat (t mod second)"

definition formatTime :: "instant \<Rightarrow> stored_time" where
  "formatTime t =
    (t div second,
     (let ds = drop_zeros (fixed_digits 9 (nanos t)) in
      (if ds = [] then [] else CHR ''.'' # ds) @ ''Z''))"

definition formatFixedTime :: "instant \<Rightarrow> stored_time" where
  "formatFixedTime t = (t div second, CHR ''.'' # fixed_digits 9 (nanos t) @ ''Z'')"

text \<open>The comparison of two such columns.\<close>

definition text_less :: "stored_time \<Rightarrow> stored_time \<Rightarrow> bool" where
  "text_less a b = (fst a < fst b \<or> (fst a = fst b \<and> snd a < snd b))"

definition text_le :: "stored_time \<Rightarrow> stored_time \<Rightarrow> bool" where
  "text_le a b = (text_less a b \<or> a = b)"

text \<open>\<open>ORDER BY k DESC\<close>, keeping the order of equal keys, and the same on a time column.\<close>

definition desc_by :: "('a \<Rightarrow> 'k :: linorder) \<Rightarrow> 'a list \<Rightarrow> 'a list" where
  "desc_by k xs = rev (sort_key k (rev xs))"

definition time_desc :: "('a \<Rightarrow> instant) \<Rightarrow> 'a list \<Rightarrow> 'a list" where
  "time_desc f xs = desc_by (\<lambda>r. fst (formatTime (f r))) (desc_by (\<lambda>r. snd (formatTime (f r))) xs)"

lemma set_desc_by [simp]: "set (desc_by k xs) = set xs"
  by (simp add: desc_by_def)

lemma set_time_desc [simp]: "set (time_desc f xs) = set xs"
  by (simp add: time_desc_def)

section \<open>Fixed layout: the text order is the order of time\<close>

lemma fixed_digits_length [simp]: "length (fixed_digits k n) = k"
  by (induction k arbitrary: n) auto

lemma lex_snoc:
  fixes x y :: "'a :: linorder"
  assumes "length a = length b"
  shows "a @ x # s < b @ y # t \<longleftrightarrow> a < b \<or> (a = b \<and> (x < y \<or> (x = y \<and> s < t)))"
  using assms by (induction a b rule: list_induct2) auto

lemma digit_char_less: "digit_char m < digit_char n \<longleftrightarrow> m mod 10 < n mod 10"
  by (simp add: digit_char_def less_char_def)

lemma digit_char_eq: "digit_char m = digit_char n \<longleftrightarrow> m mod 10 = n mod 10"
  by (metis digit_val_char digit_char_def)

lemma place_value_less:
  fixes a c :: nat
  assumes "b < 10" "d < 10"
  shows "10 * a + b < 10 * c + d \<longleftrightarrow> a < c \<or> (a = c \<and> b < d)"
  using assms by arith

lemma div_mod_less:
  fixes m n :: nat
  shows "m < n \<longleftrightarrow> m div 10 < n div 10 \<or> (m div 10 = n div 10 \<and> m mod 10 < n mod 10)"
  using place_value_less [of "m mod 10" "n mod 10" "m div 10" "n div 10"] by simp

lemma fixed_digits_eq:
  "m < 10 ^ k \<Longrightarrow> n < 10 ^ k \<Longrightarrow> fixed_digits k m = fixed_digits k n \<longleftrightarrow> m = n"
proof (induction k arbitrary: m n)
  case 0 then show ?case by simp
next
  case (Suc k)
  have "m div 10 < 10 ^ k" "n div 10 < 10 ^ k" using Suc.prems by (auto simp: less_mult_imp_div_less)
  then have "fixed_digits k (m div 10) = fixed_digits k (n div 10) \<longleftrightarrow> m div 10 = n div 10"
    by (rule Suc.IH)
  then show ?case by (simp add: digit_char_eq) (metis div_mult_mod_eq)
qed

lemma fixed_digits_less:
  "m < 10 ^ k \<Longrightarrow> n < 10 ^ k \<Longrightarrow> fixed_digits k m @ s < fixed_digits k n @ s \<longleftrightarrow> m < n"
proof (induction k arbitrary: m n s)
  case 0 then show ?case by simp
next
  case (Suc k)
  have b: "m div 10 < 10 ^ k" "n div 10 < 10 ^ k" using Suc.prems by (auto simp: less_mult_imp_div_less)
  have lt: "fixed_digits k (m div 10) < fixed_digits k (n div 10) \<longleftrightarrow> m div 10 < n div 10"
    using Suc.IH [OF b, of "[]"] by simp
  have eq: "fixed_digits k (m div 10) = fixed_digits k (n div 10) \<longleftrightarrow> m div 10 = n div 10"
    using fixed_digits_eq [OF b] .
  have "fixed_digits (Suc k) m @ s < fixed_digits (Suc k) n @ s \<longleftrightarrow>
      fixed_digits k (m div 10) @ digit_char m # s < fixed_digits k (n div 10) @ digit_char n # s"
    by (simp only: fixed_digits.simps append_assoc append_Cons append_Nil)
  also have "\<dots> \<longleftrightarrow> m < n"
    unfolding lex_snoc [OF trans [OF fixed_digits_length fixed_digits_length [symmetric]]]
      lt eq digit_char_less div_mod_less [of m n]
    using less_irrefl [of s] by blast
  finally show ?case .
qed

lemma nanos_bound: "nanos t < 10 ^ 9"
proof -
  have "0 \<le> t mod second" "t mod second < 1000000000" by (simp_all add: second_def)
  then have "nat (t mod second) < 1000000000" by linarith
  then show ?thesis unfolding nanos_def by simp
qed

lemma quot_rem_less:
  fixes t u k :: int
  assumes "0 < k"
  shows "t < u \<longleftrightarrow> t div k < u div k \<or> (t div k = u div k \<and> t mod k < u mod k)"
proof (cases "t div k = u div k")
  case True
  have "t = k * (t div k) + t mod k" "u = k * (t div k) + u mod k"
    by (simp, subst True, simp)
  then show ?thesis using True by linarith
next
  case False
  have "u \<le> t \<Longrightarrow> u div k \<le> t div k" "t \<le> u \<Longrightarrow> t div k \<le> u div k"
    using assms by (auto intro: zdiv_mono1)
  then show ?thesis using False by linarith
qed

lemma time_split: "t < u \<longleftrightarrow> t div second < u div second \<or> (t div second = u div second \<and> nanos t < nanos u)"
proof -
  have "nat (t mod second) < nat (u mod second) \<longleftrightarrow> t mod second < u mod second"
    by (subst nat_less_eq_zless) (simp_all add: second_def)
  moreover have "t < u \<longleftrightarrow> t div second < u div second \<or>
      (t div second = u div second \<and> t mod second < u mod second)"
    by (rule quot_rem_less) simp
  ultimately show ?thesis unfolding nanos_def by simp
qed

lemma text_less_fixed: "text_less (formatFixedTime t) (formatFixedTime u) \<longleftrightarrow> t < u"
  using fixed_digits_less [OF nanos_bound nanos_bound, of t "''Z''" u] time_split [of t u]
  by (auto simp: text_less_def formatFixedTime_def)

section \<open>The variable layout: right across seconds\<close>

lemma text_less_seconds:
  "t div second \<noteq> u div second \<Longrightarrow> text_less (formatTime t) (formatTime u) \<longleftrightarrow> t < u"
  using time_split [of t u] by (auto simp: text_less_def formatTime_def)

lemma text_le_refl [simp]: "text_le a a"
  by (simp add: text_le_def)

lemma fixed_digits_9:
  "fixed_digits 9 n = map (\<lambda>k. digit_char (n div k))
     [100000000, 10000000, 1000000, 100000, 10000, 1000, 100, 10, 1]"
proof -
  have nine: "(9 :: nat) = Suc (Suc (Suc (Suc (Suc (Suc (Suc (Suc (Suc 0))))))))" by simp
  show ?thesis unfolding nine by (simp add: div_mult2_eq [symmetric])
qed

lemma longer_fraction_first: "text_less (formatTime 150000000) (formatTime 100000000)"
proof -
  have n: "nanos 150000000 = 150000000" "nanos 100000000 = 100000000"
    by (simp_all add: nanos_def second_def)
  have "fixed_digits 9 150000000 = ''150000000''" "fixed_digits 9 100000000 = ''100000000''"
    unfolding fixed_digits_9 by (simp_all add: digit_char_def)
  then show ?thesis
    by (simp add: text_less_def formatTime_def n second_def drop_zeros_def Let_def less_char_def)
qed

text \<open>The fixed layout orders stored times as time does, for any two instants; the
  variable layout does so across seconds, but inside one second a longer fraction can
  sort before a shorter one that precedes it.\<close>

theorem text_order:
  "(text_less (formatFixedTime t) (formatFixedTime u) \<longleftrightarrow> t < u) \<and>
   (t div second \<noteq> u div second \<longrightarrow> (text_less (formatTime t) (formatTime u) \<longleftrightarrow> t < u)) \<and>
   (\<exists>a b. a < b \<and> text_less (formatTime b) (formatTime a))"
proof -
  from longer_fraction_first have "\<exists>a b. a < b \<and> text_less (formatTime b) (formatTime a)"
    by (intro exI [of _ 100000000] exI [of _ 150000000]) simp
  then show ?thesis using text_less_fixed text_less_seconds by blast
qed

lemma text_order_witness:
  "text_less (formatTime 3000000000) (formatTime 4500000000)"
  using text_order [of 3000000000 4500000000] by (simp add: second_def)

section \<open>The calendar\<close>

text \<open>
  The date and time of an instant in UTC, and the layout \<open>20060102T150405Z\<close> of
  \<open>time.Time.Format\<close> which names the backups: the proleptic Gregorian calendar of Go's
  \<open>time\<close> package, by eras of 400 years that start on the first of March.
\<close>

definition days_of :: "instant \<Rightarrow> int" where
  "days_of t = t div second div 86400"

definition civil :: "int \<Rightarrow> int \<times> int \<times> int" where
  "civil days =
    (let z = days + 719468; era = z div 146097; doe = z mod 146097;
         yoe = (doe - doe div 1460 + doe div 36524 - doe div 146096) div 365;
         doy = doe - (365 * yoe + yoe div 4 - yoe div 100);
         mp = (5 * doy + 2) div 153;
         d = doy - (153 * mp + 2) div 5 + 1;
         m = (if mp < 10 then mp + 3 else mp - 9)
     in (yoe + era * 400 + (if m \<le> 2 then 1 else 0), m, d))"

definition two_digits :: "int \<Rightarrow> gostring" where
  "two_digits n = fixed_digits 2 (nat n)"

definition year_digits :: "int \<Rightarrow> gostring" where
  "year_digits y =
    (if y < 0 then ''-'' else []) @
    (if \<bar>y\<bar> < 10000 then fixed_digits 4 (nat \<bar>y\<bar>) else show_nat (nat \<bar>y\<bar>))"

definition compact_stamp :: "instant \<Rightarrow> gostring" where
  "compact_stamp t =
    (case civil (days_of t) of (y, m, d) \<Rightarrow>
      (let s = t div second mod 86400 in
       year_digits y @ two_digits m @ two_digits d @ ''T'' @
       two_digits (s div 3600) @ two_digits (s div 60 mod 60) @ two_digits (s mod 60) @ ''Z''))"

lemma fixed_digits_are_digits: "list_all is_digit (fixed_digits k n)"
  by (induction k arbitrary: n) simp_all

definition stamp_char :: "char \<Rightarrow> bool" where
  "stamp_char c = (is_digit c \<or> c = CHR ''-'' \<or> c = CHR ''T'' \<or> c = CHR ''Z'')"

lemma digits_stamp: "list_all is_digit ds \<Longrightarrow> list_all stamp_char ds"
  by (auto simp: list_all_iff stamp_char_def)

lemma compact_stamp_chars: "list_all stamp_char (compact_stamp t)"
  unfolding compact_stamp_def two_digits_def year_digits_def Let_def case_prod_beta list_all_append
  by (simp add: digits_stamp fixed_digits_are_digits show_nat_digits) (simp add: stamp_char_def)

lemma compact_stamp_nonempty: "compact_stamp t \<noteq> []"
  by (simp add: compact_stamp_def Let_def case_prod_beta)

section \<open>Parsing times\<close>

text \<open>
  \<open>time.Parse\<close> for the two layouts which the program reads: the compact stamp of the snapshot names
  and RFC 3339 with nanoseconds, with the rules of Go's parser for fractions, single-digit
  hours, offsets, and dates that do not exist.
\<close>

text \<open>The day number of a date; the inverse of \<open>civil\<close>.\<close>

definition days_from_civil :: "int \<Rightarrow> int \<Rightarrow> int \<Rightarrow> int" where
  "days_from_civil y m d =
    (let y' = (if m \<le> 2 then y - 1 else y); era = y' div 400; yoe = y' mod 400;
         doy = (153 * (if 2 < m then m - 3 else m + 9) + 2) div 5 + d - 1;
         doe = yoe * 365 + yoe div 4 - yoe div 100 + doy
     in era * 146097 + doe - 719468)"

definition leap_year :: "int \<Rightarrow> bool" where
  "leap_year y \<longleftrightarrow> y mod 4 = 0 \<and> (y mod 100 \<noteq> 0 \<or> y mod 400 = 0)"

definition days_in :: "int \<Rightarrow> int \<Rightarrow> int" where
  "days_in m y =
    (if m = 2 then (if leap_year y then 29 else 28) else if m \<in> {4, 6, 9, 11} then 30 else 31)"

text \<open>A number of so many digits at the head of a string.\<close>

definition take_number :: "nat \<Rightarrow> gostring \<Rightarrow> (int \<times> gostring) option" where
  "take_number k s =
    (if length s < k \<or> \<not> list_all is_digit (take k s) then None
     else Some (int (digits_val (take k s)), drop k s))"

text \<open>A fraction may follow the seconds, though the layout names none; nine digits of it count.\<close>

definition take_fraction :: "gostring \<Rightarrow> int \<times> gostring" where
  "take_fraction s =
    (case s of
       c # d # r \<Rightarrow>
         (if (c = CHR ''.'' \<or> c = CHR '','') \<and> is_digit d
          then (let ds = takeWhile is_digit (d # r); used = take 9 ds in
            (int (digits_val used) * 10 ^ (9 - length used), drop (length ds) (d # r)))
          else (0, s))
     | _ \<Rightarrow> (0, s))"

definition take_literal :: "gostring \<Rightarrow> gostring \<Rightarrow> gostring option" where
  "take_literal p s = (if has_prefix s p then Some (drop (length p) s) else None)"

text \<open>\<open>time.Parse\<close> of the layout \<open>20060102T150405Z\<close>.\<close>

definition parse_stamp :: "gostring \<Rightarrow> instant option" where
  "parse_stamp s =
    Option.bind (take_number 4 s) (\<lambda>(y, s).
    Option.bind (take_number 2 s) (\<lambda>(mo, s).
    Option.bind (take_number 2 s) (\<lambda>(d, s).
    Option.bind (take_literal ''T'' s) (\<lambda>s.
    Option.bind (take_number 2 s) (\<lambda>(h, s).
    Option.bind (take_number 2 s) (\<lambda>(mi, s).
    Option.bind (take_number 2 s) (\<lambda>(se, s).
    (case take_fraction s of (ns, s) \<Rightarrow>
      if s \<noteq> ''Z'' \<or> mo < 1 \<or> 12 < mo \<or> d < 1 \<or> days_in mo y < d \<or> 24 \<le> h \<or> 60 \<le> mi \<or> 60 \<le> se then None
      else Some ((((days_from_civil y mo d * 24 + h) * 60 + mi) * 60 + se) * second + ns)))))))))"

text \<open>The hour alone may have one digit.\<close>

definition take_hour :: "gostring \<Rightarrow> (int \<times> gostring) option" where
  "take_hour s = (case take_number 2 s of None \<Rightarrow> take_number 1 s | Some r \<Rightarrow> Some r)"

text \<open>The seconds by which local time is ahead, and what follows.\<close>

definition take_zone :: "gostring \<Rightarrow> (int \<times> gostring) option" where
  "take_zone s =
    (case s of
       [] \<Rightarrow> None
     | c # r \<Rightarrow>
        if c = CHR ''Z'' then Some (0, r)
        else if c = CHR ''+'' \<or> c = CHR ''-'' then
          Option.bind (take_number 2 r) (\<lambda>(h, r).
          Option.bind (take_literal '':'' r) (\<lambda>r.
          Option.bind (take_number 2 r) (\<lambda>(m, r).
            if 24 < h \<or> 60 < m then None
            else Some ((if c = CHR ''-'' then - 1 else 1) * (h * 60 + m) * 60, r))))
        else None)"

text \<open>The layout \<open>2006-01-02T15:04:05.999999999Z07:00\<close>.\<close>

definition parse_rfc3339 :: "gostring \<Rightarrow> instant option" where
  "parse_rfc3339 s =
    Option.bind (take_number 4 s) (\<lambda>(y, s).
    Option.bind (take_literal ''-'' s) (\<lambda>s.
    Option.bind (take_number 2 s) (\<lambda>(mo, s).
    Option.bind (take_literal ''-'' s) (\<lambda>s.
    Option.bind (take_number 2 s) (\<lambda>(d, s).
    Option.bind (take_literal ''T'' s) (\<lambda>s.
    Option.bind (take_hour s) (\<lambda>(h, s).
    Option.bind (take_literal '':'' s) (\<lambda>s.
    Option.bind (take_number 2 s) (\<lambda>(mi, s).
    Option.bind (take_literal '':'' s) (\<lambda>s.
    Option.bind (take_number 2 s) (\<lambda>(se, s).
    (case take_fraction s of (ns, s) \<Rightarrow>
    Option.bind (take_zone s) (\<lambda>(off, s).
      if s \<noteq> [] \<or> mo < 1 \<or> 12 < mo \<or> d < 1 \<or> days_in mo y < d \<or> 24 \<le> h \<or> 60 \<le> mi \<or> 60 \<le> se then None
      else Some ((((days_from_civil y mo d * 24 + h) * 60 + mi) * 60 + se - off) * second + ns))))))))))))))"

end
