(* ===== verification/Go_Float.thy ===== *)
theory Go_Float
  imports Prelude Complex_Main "HOL-Library.Log_Nat" Go_Strings
begin

text \<open>
  Go's \<open>float64\<close>: a finite value is the rational it denotes, and an operation rounds its exact
  result to 53 significant bits, halves to even.  The values of this development stay far from
  overflow and from the subnormal numbers, so neither is modelled.
\<close>

text \<open>The exponent of the leading bit of a positive rational.\<close>

definition leading_bit :: "rat \<Rightarrow> int" where
  "leading_bit q =
    (case quotient_of q of (a, b) \<Rightarrow>
      (let k = bitlen a - bitlen b in if 2 powi k \<le> q then k else k - 1))"

definition round_even :: "rat \<Rightarrow> int" where
  "round_even q =
    (let n = \<lfloor>q\<rfloor>; d = q - of_int n in
     if d < 1 / 2 \<or> (d = 1 / 2 \<and> even n) then n else n + 1)"

definition round64 :: "rat \<Rightarrow> rat" where
  "round64 q =
    (if q = 0 then 0
     else (let e = leading_bit \<bar>q\<bar> - 52 in sgn q * (of_int (round_even (\<bar>q\<bar> / 2 powi e)) * 2 powi e)))"

definition float_mult :: "rat \<Rightarrow> rat \<Rightarrow> rat" where "float_mult x y = round64 (x * y)"
definition float_divide :: "rat \<Rightarrow> rat \<Rightarrow> rat" where "float_divide x y = round64 (x / y)"

text \<open>The conversion \<open>float64(n)\<close> of an integer.\<close>

definition float_of :: "int \<Rightarrow> rat" where "float_of n = round64 (of_int n)"

text \<open>\<open>Duration.Seconds\<close>.\<close>

definition duration_seconds :: "duration \<Rightarrow> rat" where
  "duration_seconds d =
    round64 (float_of (go_quot d second) + float_divide (float_of (go_rem d second)) 1000000000)"

lemma leading_bit_bounds:
  assumes "0 < q"
  shows "2 powi leading_bit q \<le> q" "q < 2 * 2 powi leading_bit q"
proof -
  obtain a b where ab: "quotient_of q = (a, b)" by fastforce
  have b: "0 < b" using ab quotient_of_denom_pos by blast
  have q: "q = of_int a / of_int b" using ab by (rule quotient_of_div)
  have a: "0 < a" using assms b by (simp add: q zero_less_divide_iff)
  let ?k = "bitlen a - bitlen b"
  have pos: "0 < bitlen a" "0 < bitlen b" using a b using bitlen_eq_zero_iff [of a] bitlen_eq_zero_iff [of b] bitlen_nonneg [of a] bitlen_nonneg [of b]
    by linarith+
  have bounds: "(2::rat) powi (bitlen x - 1) \<le> of_int x \<and> of_int x < (2::rat) powi bitlen x"
    if "0 < x" "0 < bitlen x" for x
  proof -
    have x: "2 ^ nat (bitlen x - 1) \<le> x \<and> x < 2 ^ nat (bitlen x)" using bitlen_bounds [OF that(1)] .
    have "(2::rat) powi (bitlen x - 1) = of_int (2 ^ nat (bitlen x - 1))"
      "(2::rat) powi (bitlen x) = of_int (2 ^ nat (bitlen x))"
      using that(2) by (simp_all add: power_int_def)
    then show ?thesis using x by (simp only: of_int_le_iff of_int_less_iff)
  qed
  note A = bounds [OF a pos(1)] and B = bounds [OF b pos(2)]
  have up: "q < 2 * 2 powi ?k"
  proof -
    have "of_int a < (2::rat) powi bitlen a" using A by simp
    also have "\<dots> = 2 * 2 powi ?k * 2 powi (bitlen b - 1)"
      by (simp add: power_int_diff field_simps)
    also have "\<dots> \<le> 2 * 2 powi ?k * of_int b" using B by (intro mult_left_mono) auto
    finally show ?thesis using b by (simp add: q divide_less_eq)
  qed
  have low: "2 powi (?k - 1) \<le> q"
  proof -
    have "2 powi (?k - 1) * of_int b \<le> 2 powi (?k - 1) * (2::rat) powi bitlen b"
      using B by (intro mult_left_mono) auto
    also have "\<dots> = 2 powi (bitlen a - 1)"
      by (simp add: power_int_diff power_int_add field_simps)
    also have "\<dots> \<le> of_int a" using A by simp
    finally show ?thesis using b by (simp add: q le_divide_eq)
  qed
  show "2 powi leading_bit q \<le> q" using low by (simp add: leading_bit_def ab Let_def)
  show "q < 2 * 2 powi leading_bit q"
    using up by (auto simp: leading_bit_def ab Let_def power_int_diff power_int_add)
qed

lemma round_even_bounds:
  "q - 1 / 2 \<le> of_int (round_even q)" "of_int (round_even q) \<le> q + 1 / 2"
proof -
  have f: "of_int \<lfloor>q\<rfloor> \<le> q" "q < of_int \<lfloor>q\<rfloor> + 1" by linarith+
  show "q - 1 / 2 \<le> of_int (round_even q)" "of_int (round_even q) \<le> q + 1 / 2"
    using f unfolding round_even_def Let_def by (cases "q - of_int \<lfloor>q\<rfloor> < 1 / 2"; cases "even \<lfloor>q\<rfloor>"; simp split: if_split; linarith)+
qed

lemma round_even_le: "q \<le> of_int n \<Longrightarrow> round_even q \<le> n"
proof -
  assume q: "q \<le> of_int n"
  have "of_int (round_even q) \<le> q + 1 / 2" by (rule round_even_bounds)
  also have "\<dots> < of_int n + 1" using q by simp
  finally have "of_int (round_even q) < (of_int (n + 1) :: rat)" by simp
  then show ?thesis by (simp only: of_int_less_iff)
qed

lemma round_even_nonneg: "0 \<le> q \<Longrightarrow> 0 \<le> round_even q"
proof -
  assume "0 \<le> q"
  then have "- 1 < (of_int (round_even q) :: rat)" using round_even_bounds(1) [of q] by linarith
  then have "of_int (- 1) < (of_int (round_even q) :: rat)" by simp
  then show ?thesis by (simp only: of_int_less_iff)
qed

lemma round64_nonneg: "0 \<le> q \<Longrightarrow> 0 \<le> round64 q"
  by (auto simp: round64_def Let_def intro!: mult_nonneg_nonneg round_even_nonneg)

text \<open>Rounding does not pass a number that has 53 bits itself.\<close>

lemma round64_le:
  assumes "0 < q" "q \<le> of_int m * 2 powi k" "leading_bit q \<le> k + 52"
  shows "round64 q \<le> of_int m * 2 powi k"
proof -
  let ?e = "leading_bit q - 52"
  let ?n = "m * 2 ^ nat (k - ?e)"
  have "of_int (2 ^ nat (k - ?e)) = (2::rat) powi (k - ?e)"
    using assms(3) by (simp add: power_int_def)
  then have n: "of_int ?n * (2::rat) powi ?e = of_int m * 2 powi k"
    by (simp only: of_int_mult) (simp add: power_int_diff)
  have "q / 2 powi ?e \<le> of_int ?n"
    using assms(2) unfolding n [symmetric] by (simp add: divide_le_eq)
  then have "round_even (q / 2 powi ?e) \<le> ?n" by (rule round_even_le)
  then have "of_int (round_even (q / 2 powi ?e)) \<le> (of_int ?n :: rat)"
    by (simp only: of_int_le_iff)
  from mult_right_mono [OF this, of "2 powi ?e"]
  have "of_int (round_even (q / 2 powi ?e)) * (2::rat) powi ?e \<le> of_int m * 2 powi k"
    unfolding n by simp
  then show ?thesis using assms(1) by (simp add: round64_def Let_def)
qed

text \<open>Rounding is monotone, and exact on what has 53 bits.\<close>

lemma round_even_ge: "of_int n \<le> q \<Longrightarrow> n \<le> round_even q"
proof -
  assume "of_int n \<le> q"
  then have "(of_int n :: rat) < of_int (round_even q) + 1" using round_even_bounds(1) [of q] by linarith
  then have "of_int n < (of_int (round_even q + 1) :: rat)" by simp
  then show ?thesis by (simp only: of_int_less_iff)
qed

lemma round_even_of_int [simp]: "round_even (of_int n) = n"
  by (intro antisym round_even_le round_even_ge) simp_all

lemma round_even_mono:
  assumes "q \<le> r"
  shows "round_even q \<le> round_even r"
proof (cases "\<lfloor>q\<rfloor> = \<lfloor>r\<rfloor>")
  case True
  then show ?thesis using assms by (auto simp: round_even_def Let_def)
next
  case False
  then have less: "\<lfloor>q\<rfloor> + 1 \<le> \<lfloor>r\<rfloor>" using floor_mono [OF assms] by simp
  have "round_even q \<le> \<lfloor>q\<rfloor> + 1" by (rule round_even_le) linarith
  also have "\<dots> \<le> \<lfloor>r\<rfloor>" by (rule less)
  also have "\<dots> \<le> round_even r" by (rule round_even_ge) simp
  finally show ?thesis .
qed

lemma powi_less_exp: "(2::rat) powi m < 2 powi n \<Longrightarrow> m < n"
  using power_int_increasing [of n m "2::rat"] by (cases "m < n") auto

lemma leading_bit_unique:
  assumes "2 powi k \<le> q" "q < 2 * 2 powi k"
  shows "leading_bit q = k"
proof -
  have q: "0 < q" using assms(1) zero_less_power_int [of "2::rat" k] by linarith
  note b = leading_bit_bounds [OF q]
  have "(2::rat) powi leading_bit q < 2 powi (k + 1)" "(2::rat) powi k < 2 powi (leading_bit q + 1)"
    using b assms by (simp_all add: power_int_add)
  then have "leading_bit q < k + 1" "k < leading_bit q + 1" by - (rule powi_less_exp; simp)+
  then show ?thesis by simp
qed

lemma leading_bit_mono:
  assumes "0 < q" "q \<le> r"
  shows "leading_bit q \<le> leading_bit r"
proof -
  have "(2::rat) powi leading_bit q < 2 powi (leading_bit r + 1)"
    using leading_bit_bounds(1) [OF assms(1)] leading_bit_bounds(2) [of r] assms by (simp add: power_int_add)
  then have "leading_bit q < leading_bit r + 1" by (rule powi_less_exp)
  then show ?thesis by simp
qed

text \<open>A rounded number keeps its leading bit, or is the next power of two.\<close>

lemma round64_range:
  assumes "0 < q"
  shows "2 powi leading_bit q \<le> round64 q" "round64 q \<le> 2 * 2 powi leading_bit q"
proof -
  let ?e = "leading_bit q - 52"
  have e: "(2::rat) powi leading_bit q = of_int (2 ^ 52) * 2 powi ?e"
    by (simp add: power_int_diff)
  have pos: "0 < (2::rat) powi ?e" by simp
  have "of_int (2 ^ 52) \<le> q / 2 powi ?e" "q / 2 powi ?e \<le> of_int (2 ^ 53)"
    using leading_bit_bounds [OF assms] pos unfolding e by (simp_all add: field_simps)
  then have "2 ^ 52 \<le> round_even (q / 2 powi ?e)" "round_even (q / 2 powi ?e) \<le> 2 ^ 53"
    by - (rule round_even_ge round_even_le; assumption)+
  then have "(of_int (2 ^ 52) :: rat) \<le> of_int (round_even (q / 2 powi ?e))"
    "of_int (round_even (q / 2 powi ?e)) \<le> (of_int (2 ^ 53) :: rat)"
    by (simp_all only: of_int_le_iff)
  then have "of_int (2 ^ 52) * 2 powi ?e \<le> of_int (round_even (q / 2 powi ?e)) * (2::rat) powi ?e"
    "of_int (round_even (q / 2 powi ?e)) * (2::rat) powi ?e \<le> of_int (2 ^ 53) * 2 powi ?e"
    using pos by (simp_all only: mult_right_mono less_imp_le)
  then show "2 powi leading_bit q \<le> round64 q" "round64 q \<le> 2 * 2 powi leading_bit q"
    using assms unfolding e by (simp_all add: round64_def Let_def)
qed

lemma round64_mono_pos:
  assumes "0 < q" "q \<le> r"
  shows "round64 q \<le> round64 r"
proof (cases "leading_bit q = leading_bit r")
  case True
  have "q / 2 powi (leading_bit r - 52) \<le> r / 2 powi (leading_bit r - 52)"
    using assms by (intro divide_right_mono) auto
  then have "of_int (round_even (q / 2 powi (leading_bit r - 52))) \<le>
      (of_int (round_even (r / 2 powi (leading_bit r - 52))) :: rat)"
    by (simp only: of_int_le_iff round_even_mono)
  then show ?thesis using assms True by (simp add: round64_def Let_def mult_right_mono)
next
  case False
  then have "leading_bit q + 1 \<le> leading_bit r" using leading_bit_mono [OF assms] by simp
  then have "(2::rat) powi (leading_bit q + 1) \<le> 2 powi leading_bit r" by (simp add: power_int_increasing)
  then have "round64 q \<le> 2 powi leading_bit r"
    using round64_range(2) [OF assms(1)] by (simp add: power_int_add)
  also have "\<dots> \<le> round64 r" using assms by (intro round64_range(1)) simp
  finally show ?thesis .
qed

lemma round64_mono: "0 \<le> q \<Longrightarrow> q \<le> r \<Longrightarrow> round64 q \<le> round64 r"
  using round64_mono_pos [of q r] round64_nonneg [of r] by (cases "q = 0") (auto simp: round64_def)

text \<open>Numbers with 53 bits are their own rounding.\<close>

lemma round64_exact_pos:
  assumes "q = of_int m * 2 powi k" "0 < m" "m < 2 ^ 53"
  shows "round64 q = q"
proof -
  let ?e = "leading_bit q - 52"
  have q: "0 < q" using assms by simp
  have "(2::rat) powi leading_bit q \<le> of_int m * 2 powi k"
    using leading_bit_bounds(1) [OF q] assms(1) by simp
  also have "\<dots> < of_int (2 ^ 53) * 2 powi k"
    by (rule mult_strict_right_mono) (use assms(3) in \<open>simp_all only: of_int_less_iff zero_less_power_int zero_less_numeral\<close>)
  also have "\<dots> = 2 powi (53 + k)" by (simp add: power_int_add)
  finally have "leading_bit q < 53 + k" by (rule powi_less_exp)
  then have "(2::rat) powi (k - ?e) = of_int (2 ^ nat (k - ?e))" by (simp add: power_int_def)
  then have "q / 2 powi ?e = of_int (m * 2 ^ nat (k - ?e))"
    unfolding assms(1) of_int_mult by (metis (no_types) mult.assoc nonzero_eq_divide_eq power_int_add
      diff_add_cancel power_int_not_zero zero_neq_numeral)
  then have "of_int (round_even (q / 2 powi ?e)) = q / 2 powi ?e" by (simp only: round_even_of_int)
  then show ?thesis using q by (simp add: round64_def Let_def)
qed

lemma round64_one [simp]: "round64 1 = 1"
  using round64_exact_pos [of 1 1 0] by simp

lemma float_of_exact: "0 \<le> n \<Longrightarrow> n < 2 ^ 53 \<Longrightarrow> float_of n = of_int n"
  using round64_exact_pos [of "of_int n" n 0] by (cases "n = 0") (simp_all add: float_of_def round64_def)

lemma float_of_mono: "0 \<le> m \<Longrightarrow> m \<le> n \<Longrightarrow> float_of m \<le> float_of n"
  unfolding float_of_def by (rule round64_mono) simp_all

lemma float_of_pos: "0 < n \<Longrightarrow> 0 < float_of n"
  using float_of_mono [of 1 n] float_of_exact [of 1] by simp

section \<open>Number parsing and fields\<close>

text \<open>
  \<open>strings.Fields\<close>, \<open>strings.FieldsFunc\<close>, \<open>strconv.ParseUint\<close> and \<open>strconv.ParseFloat\<close> of Go's standard
  library.  \<open>ParseFloat\<close> reads decimal and hexadecimal literals with underscores between digits and
  rounds the exact value once to the nearest \<open>float64\<close>, subnormals included; infinities and NaN are
  values of their own.
\<close>

subsection \<open>Fields\<close>

fun until_any :: "gostring list \<Rightarrow> gostring \<Rightarrow> gostring" where
  "until_any ps [] = []"
| "until_any ps (c # cs) = (if strip_any ps (c # cs) \<noteq> None then [] else c # until_any ps cs)"

lemma until_any_length: "length (until_any ps s) \<le> length s"
  by (induction s) auto

lemma trim_any_stops: "strip_any ps (trim_any ps s) = None"
  by (induction ps s rule: trim_any.induct) (subst trim_any.simps, simp split: option.split)

text \<open>The maximal runs between separators.\<close>

function fields_by :: "gostring list \<Rightarrow> gostring \<Rightarrow> gostring list" where
  "fields_by ps s =
    (let t = trim_any ps s in
     if t = [] then [] else until_any ps t # fields_by ps (drop (length (until_any ps t)) t))"
  by pat_completeness auto
termination
proof (relation "measure (length \<circ> snd)", simp)
  fix ps s t assume t: "t = trim_any ps s" "t \<noteq> []"
  obtain c cs where c: "t = c # cs" using t(2) by (cases t) auto
  have "until_any ps t \<noteq> []" using trim_any_stops [of ps s] unfolding t(1) [symmetric] c by simp
  then have "length (drop (length (until_any ps t)) t) < length t"
    using t until_any_length [of ps t] by (cases t) auto
  also have "\<dots> \<le> length s" using trim_any_length t by simp
  finally show "((ps, drop (length (until_any ps t)) t), ps, s) \<in> measure (length \<circ> snd)" by simp
qed

declare fields_by.simps [simp del]

definition all_fields :: "gostring \<Rightarrow> gostring list" where
  "all_fields = fields_by space_encodings"

subsection \<open>Integers\<close>

definition parse_uint64 :: "gostring \<Rightarrow> nat option" where
  "parse_uint64 s =
    (case parse_digits s of None \<Rightarrow> None | Some n \<Rightarrow> if n < 2 ^ 64 then Some n else None)"

subsection \<open>Floating-point numbers\<close>

datatype float_value = Finite rat | Infinite bool | NaN

text \<open>The nearest \<open>float64\<close>: the exponent of the last bit does not go below that of the subnormals.\<close>

definition round_double :: "rat \<Rightarrow> rat" where
  "round_double q =
    (if q = 0 then 0
     else (let e = max (leading_bit \<bar>q\<bar> - 52) (- 1074)
           in sgn q * (of_int (round_even (\<bar>q\<bar> / 2 powi e)) * 2 powi e)))"

definition hex_letter :: "char \<Rightarrow> bool" where
  "hex_letter c = (97 \<le> code (ascii_lower c) \<and> code (ascii_lower c) \<le> 102)"

definition hex_val :: "char \<Rightarrow> nat" where
  "hex_val c = (if is_digit c then digit_val c else code (ascii_lower c) - 87)"

text \<open>The digits of a mantissa: its value, the digits after the point, whether there was a digit, the rest.\<close>

fun scan_mantissa ::
  "bool \<Rightarrow> bool \<Rightarrow> nat \<times> nat \<times> bool \<Rightarrow> gostring \<Rightarrow> (nat \<times> nat \<times> bool) \<times> gostring" where
  "scan_mantissa hex dot acc [] = (acc, [])"
| "scan_mantissa hex dot (m, k, saw) (c # cs) =
    (if c = CHR ''_'' then scan_mantissa hex dot (m, k, saw) cs
     else if c = CHR ''.'' then
       (if dot then ((m, k, saw), c # cs) else scan_mantissa hex True (m, k, saw) cs)
     else if is_digit c \<or> (hex \<and> hex_letter c)
     then scan_mantissa hex dot
       (m * (if hex then 16 else 10) + hex_val c, (if dot then k + 1 else k), True) cs
     else ((m, k, saw), c # cs))"

text \<open>The digits of an exponent; from 10000 on no further digit is read into it.\<close>

fun scan_exponent :: "nat \<Rightarrow> gostring \<Rightarrow> nat \<times> gostring" where
  "scan_exponent e [] = (e, [])"
| "scan_exponent e (c # cs) =
    (if c = CHR ''_'' then scan_exponent e cs
     else if is_digit c then scan_exponent (if e < 10000 then e * 10 + digit_val c else e) cs
     else (e, c # cs))"

definition read_exponent :: "bool \<Rightarrow> gostring \<Rightarrow> (int \<times> gostring) option" where
  "read_exponent hex s =
    (case s of
       [] \<Rightarrow> if hex then None else Some (0, [])
     | c # cs \<Rightarrow>
        if ascii_lower c \<noteq> (if hex then CHR ''p'' else CHR ''e'') then (if hex then None else Some (0, s))
        else
         (let neg = (cs \<noteq> [] \<and> hd cs = CHR ''-'');
              ds = (if cs \<noteq> [] \<and> (hd cs = CHR ''+'' \<or> hd cs = CHR ''-'') then tl cs else cs)
          in if ds = [] \<or> \<not> is_digit (hd ds) then None
             else (case scan_exponent 0 ds of (e, rest) \<Rightarrow> Some (if neg then - int e else int e, rest))))"

text \<open>\<open>underscoreOK\<close>: an underscore stands between digits, or between a base prefix and a digit.\<close>

datatype seen = SeenStart | SeenDigit | SeenUnderscore | SeenOther

fun underscores_ok :: "bool \<Rightarrow> seen \<Rightarrow> gostring \<Rightarrow> bool" where
  "underscores_ok hex saw [] \<longleftrightarrow> saw \<noteq> SeenUnderscore"
| "underscores_ok hex saw (c # cs) \<longleftrightarrow>
    (if is_digit c \<or> (hex \<and> hex_letter c) then underscores_ok hex SeenDigit cs
     else if c = CHR ''_'' then saw = SeenDigit \<and> underscores_ok hex SeenUnderscore cs
     else saw \<noteq> SeenUnderscore \<and> underscores_ok hex SeenOther cs)"

definition strip_sign :: "gostring \<Rightarrow> bool \<times> gostring" where
  "strip_sign s =
    (case s of [] \<Rightarrow> (False, [])
     | c # cs \<Rightarrow> if c = CHR ''-'' then (True, cs) else if c = CHR ''+'' then (False, cs) else (False, s))"

definition base_letter :: "gostring \<Rightarrow> char option" where
  "base_letter s =
    (if 2 \<le> length s \<and> s ! 0 = CHR ''0'' \<and> ascii_lower (s ! 1) \<in> {CHR ''b'', CHR ''o'', CHR ''x''}
     then Some (ascii_lower (s ! 1)) else None)"

definition underscoreOK :: "gostring \<Rightarrow> bool" where
  "underscoreOK s =
    (let t = snd (strip_sign s) in
     case base_letter t of
       None \<Rightarrow> underscores_ok False SeenStart t
     | Some b \<Rightarrow> underscores_ok (b = CHR ''x'') SeenDigit (drop 2 t))"

text \<open>A hexadecimal literal needs something after its prefix.\<close>

definition read_float :: "gostring \<Rightarrow> rat option" where
  "read_float s =
    (let (neg, t) = strip_sign s;
         hex = (2 < length t \<and> base_letter t = Some (CHR ''x''));
         ((m, k, saw), rest) = scan_mantissa hex False (0, 0, False) (if hex then drop 2 t else t)
     in if \<not> saw then None
        else (case read_exponent hex rest of
          None \<Rightarrow> None
        | Some (e, rest') \<Rightarrow>
           if rest' \<noteq> [] \<or> (CHR ''_'' \<in> set s \<and> \<not> underscoreOK s) then None
           else Some ((if neg then - 1 else 1) * of_nat m *
             (if hex then 2 powi (e - 4 * int k) else 10 powi (e - int k)))))"

definition special_float :: "gostring \<Rightarrow> float_value option" where
  "special_float s =
    (let (neg, t) = strip_sign s; u = map ascii_lower t in
     if u = ''inf'' \<or> u = ''infinity'' then Some (Infinite neg)
     else if map ascii_lower s = ''nan'' then Some NaN else None)"

text \<open>A value that rounds to \<open>2 ^ 1024\<close> or beyond is a range error.\<close>

definition ParseFloat :: "gostring \<Rightarrow> float_value option" where
  "ParseFloat s =
    (case special_float s of
       Some v \<Rightarrow> Some v
     | None \<Rightarrow>
        (case read_float s of
           None \<Rightarrow> None
         | Some q \<Rightarrow>
            (let r = round_double q in if 2 ^ 1024 \<le> \<bar>r\<bar> then None else Some (Finite r))))"

definition float_add :: "rat \<Rightarrow> rat \<Rightarrow> rat" where "float_add x y = round64 (x + y)"
definition float_sub :: "rat \<Rightarrow> rat \<Rightarrow> rat" where "float_sub x y = round64 (x - y)"

end
