(* ===== verification/World.thy ===== *)
theory World
  imports Tables Timestamps Go_Float
begin

text \<open>
  The data of the deploy side of the program (\<open>internal/model\<close>) and the SQL store
  under it (\<open>internal/store/services.go\<close>, \<open>audit.go\<close>, \<open>deploys.go\<close>,
  \<open>notifications.go\<close>).  The state \<open>world\<close> extends the fault oracle of
  \<open>Effects\<close> with the tables and the events sent to the browsers.  The constraints of
  the schema (unique keys, foreign keys, CHECK lists) are the conditions under which an
  INSERT fails.  Readings of the clock are arguments.
\<close>

section \<open>Errors\<close>

datatype err =
    ErrServiceNotFound gostring
  | ErrInvalidInput gostring
  | ErrConflict gostring
  | ErrUnauthorized
  | ErrUserNotFound
  | ErrDatabaseUnconfigured
  | ErrDatabaseBusy
  | ErrDBJobNotFound int
  | ErrContainerNotFound gostring
  | ErrCollectorCursorNotFound gostring
  | ErrNoRows
  | ErrOther gostring

section \<open>Model types\<close>

abbreviation StrategyUnknown :: gostring where "StrategyUnknown \<equiv> ''unknown''"
abbreviation StrategyBlueGreen :: gostring where "StrategyBlueGreen \<equiv> ''bluegreen''"
abbreviation StrategyRecreate :: gostring where "StrategyRecreate \<equiv> ''recreate''"

text \<open>A service row; \<open>svc_config\<close> is the raw JSON text.\<close>

record service =
  svc_id :: gostring
  svc_name :: gostring
  svc_strategy :: gostring
  svc_project :: gostring
  svc_dir :: gostring
  svc_config :: gostring

record audit =
  au_id :: int
  au_service :: "gostring option"
  au_actor :: gostring
  au_action :: gostring
  au_result :: gostring
  au_detail :: gostring
  au_at :: instant

record deploy =
  dp_id :: int
  dp_service :: gostring
  dp_sha :: gostring
  dp_actor :: gostring
  dp_type :: gostring
  dp_outcome :: gostring
  dp_started :: "instant option"
  dp_finished :: "instant option"
  dp_duration :: "int option"
  dp_downtime :: "rat option"
  dp_notes :: gostring
  dp_created :: instant

record deploy_probe =
  pr_id :: int
  pr_service :: gostring
  pr_ok :: bool
  pr_status :: int
  pr_latency_ms :: int
  pr_at :: instant

record notification =
  nt_id :: int
  nt_service :: gostring
  nt_kind :: gostring
  nt_title :: gostring
  nt_body :: gostring
  nt_created :: instant
  nt_read :: "instant option"

record event =
  ev_type :: gostring
  ev_service :: gostring
  ev_message :: gostring
  ev_at :: instant

abbreviation AuditSuccess :: gostring where "AuditSuccess \<equiv> ''success''"
abbreviation AuditFailure :: gostring where "AuditFailure \<equiv> ''failure''"
abbreviation DeploySuccess :: gostring where "DeploySuccess \<equiv> ''success''"
abbreviation DeployFailure :: gostring where "DeployFailure \<equiv> ''failure''"
abbreviation DeployCutover :: gostring where "DeployCutover \<equiv> ''cutover''"
abbreviation DeployRollback :: gostring where "DeployRollback \<equiv> ''rollback''"
abbreviation DeployManual :: gostring where "DeployManual \<equiv> ''manual''"
abbreviation DeployDeploy :: gostring where "DeployDeploy \<equiv> ''deploy''"

definition audit_actions :: "gostring list" where
  "audit_actions =
    [''cutover'', ''rollback'', ''login'', ''deploy'', ''service_create'', ''service_delete'',
     ''user_create'', ''user_update'', ''user_delete'', ''container_approve'',
     ''container_ignore'', ''security_acknowledge'', ''security_resolve'',
     ''security_suppress'', ''security_policy_create'', ''security_policy_update'',
     ''security_policy_delete'']"

text \<open>The CHECK lists of the schema (migrations 0006, 0011 and 0020).\<close>

definition audit_actions_sql :: "gostring list" where
  "audit_actions_sql = audit_actions @ [''db_backup'', ''db_restore'']"

definition deploy_types_sql :: "gostring list" where
  "deploy_types_sql = [DeployCutover, DeployRollback, DeployManual, DeployDeploy]"

definition results_sql :: "gostring list" where
  "results_sql = [''success'', ''failure'']"

text \<open>
  \<open>child_rows\<close> holds, as pairs of table and service, the rows of the eight
  tables which refer to a service and which no operation of these theories reads.
\<close>

record world = sqldb +
  services :: "service list"
  deploys :: "deploy table"
  probes :: "deploy_probe table"
  notifications :: "notification table"
  audits :: "audit table"
  child_rows :: "(gostring \<times> gostring) list"
  events :: "event list"

interpretation deploy_rows: rowid_table dp_id "\<lambda>i r. r\<lparr>dp_id := i\<rparr>"
  by unfold_locales simp

interpretation probe_rows: rowid_table pr_id "\<lambda>i r. r\<lparr>pr_id := i\<rparr>"
  by unfold_locales simp

interpretation notification_rows: rowid_table nt_id "\<lambda>i r. r\<lparr>nt_id := i\<rparr>"
  by unfold_locales simp

interpretation audit_rows: rowid_table au_id "\<lambda>i r. r\<lparr>au_id := i\<rparr>"
  by unfold_locales simp

section \<open>store.ServiceStore\<close>

definition service_row :: "gostring \<Rightarrow> 'z world_scheme \<Rightarrow> service option" where
  "service_row sid w = first_where (\<lambda>r. svc_id r = sid) (services w)"

definition svc_all :: "('z world_scheme, err, service list) prog" where
  "svc_all = andthen (stmt (ErrOther ''querying services''))
     (andthen (stmt (ErrOther ''scanning service''))
       (gets (\<lambda>w. sort_key svc_id (services w))))"

definition svc_get :: "gostring \<Rightarrow> ('z world_scheme, err, service) prog" where
  "svc_get sid = andthen (stmt (ErrOther ''scanning service''))
     (bindE (gets (service_row sid)) (of_option (ErrServiceNotFound sid)))"

definition svc_insert_ok :: "service \<Rightarrow> 'z world_scheme \<Rightarrow> bool" where
  "svc_insert_ok svc w \<longleftrightarrow>
    svc_strategy svc \<in> {StrategyBlueGreen, StrategyRecreate} \<and>
    (\<forall>r\<in>set (services w). svc_id r \<noteq> svc_id svc \<and> svc_name r \<noteq> svc_name svc)"

definition svc_create :: "service \<Rightarrow> ('z world_scheme, err, unit) prog" where
  "svc_create svc = andthen (stmt (ErrOther ''creating service''))
     (bindE (gets (svc_insert_ok svc)) (\<lambda>ok.
      andthen (guardE ok (ErrOther ''creating service''))
       (modify (\<lambda>w. w\<lparr>services := services w @ [svc]\<rparr>))))"

definition svc_update_config :: "gostring \<Rightarrow> gostring \<Rightarrow> ('z world_scheme, err, unit) prog" where
  "svc_update_config sid cfg = andthen (stmt (ErrOther ''updating service config''))
     (bindE (gets (\<lambda>w. length (filter (\<lambda>r. svc_id r = sid) (services w)))) (\<lambda>affected.
      andthen (modify (\<lambda>w. w\<lparr>services :=
          map_where (\<lambda>r. svc_id r = sid) (\<lambda>r. r\<lparr>svc_config := cfg\<rparr>) (services w)\<rparr>))
     (andthen (stmt (ErrOther ''counting updated services''))
       (guardE (affected \<noteq> 0) (ErrServiceNotFound sid)))))"

definition serviceChildren :: "gostring list" where
  "serviceChildren =
    [''alert_rules'', ''api_keys'', ''audit'', ''deploy_probes'', ''deploys'', ''issue_rules'',
     ''issues'', ''log_lines'', ''metrics'', ''notifications'', ''occurrences'', ''sdk_logs'']"

definition delete_child :: "gostring \<Rightarrow> gostring \<Rightarrow> 'z world_scheme \<Rightarrow> 'z world_scheme" where
  "delete_child sid tbl w =
    (if tbl = ''audit'' then w\<lparr>audits := t_delete (\<lambda>r. au_service r = Some sid) (audits w)\<rparr>
     else if tbl = ''deploy_probes'' then w\<lparr>probes := t_delete (\<lambda>r. pr_service r = sid) (probes w)\<rparr>
     else if tbl = ''deploys'' then w\<lparr>deploys := t_delete (\<lambda>r. dp_service r = sid) (deploys w)\<rparr>
     else if tbl = ''notifications''
     then w\<lparr>notifications := t_delete (\<lambda>r. nt_service r = sid) (notifications w)\<rparr>
     else w\<lparr>child_rows := filter (\<lambda>(t, k). \<not> (t = tbl \<and> k = sid)) (child_rows w)\<rparr>)"

text \<open>What the foreign keys ask before a service row may go.\<close>

definition no_references :: "gostring \<Rightarrow> 'z world_scheme \<Rightarrow> bool" where
  "no_references sid w \<longleftrightarrow>
    (\<forall>r\<in>set (rows (audits w)). au_service r \<noteq> Some sid) \<and>
    (\<forall>r\<in>set (rows (probes w)). pr_service r \<noteq> sid) \<and>
    (\<forall>r\<in>set (rows (deploys w)). dp_service r \<noteq> sid) \<and>
    (\<forall>r\<in>set (rows (notifications w)). nt_service r \<noteq> sid) \<and>
    (\<forall>p\<in>set (child_rows w). snd p \<noteq> sid)"

definition svc_delete :: "gostring \<Rightarrow> ('z world_scheme, err, unit) prog" where
  "svc_delete sid =
    andthen (stmt (ErrOther ''starting service delete transaction''))
     (tx (andthen
       (for_each (\<lambda>tbl. andthen (stmt (ErrOther (''deleting service '' @ tbl)))
                          (modify (delete_child sid tbl))) serviceChildren)
      (andthen (stmt (ErrOther ''deleting service''))
       (bindE (gets (no_references sid)) (\<lambda>free.
        andthen (guardE free (ErrOther ''deleting service''))
       (bindE (gets (\<lambda>w. length (filter (\<lambda>r. svc_id r = sid) (services w)))) (\<lambda>affected.
        andthen (modify (\<lambda>w. w\<lparr>services := filter (\<lambda>r. svc_id r \<noteq> sid) (services w)\<rparr>))
       (andthen (stmt (ErrOther ''counting deleted services''))
       (andthen (guardE (affected \<noteq> 0) (ErrServiceNotFound sid))
        (stmt (ErrOther ''committing service delete'')))))))))))"

section \<open>store.AuditStore\<close>

definition has_service :: "gostring \<Rightarrow> 'z world_scheme \<Rightarrow> bool" where
  "has_service sid w = (\<exists>r\<in>set (services w). svc_id r = sid)"

definition audit_insert_ok :: "audit \<Rightarrow> 'z world_scheme \<Rightarrow> bool" where
  "audit_insert_ok a w \<longleftrightarrow>
    au_action a \<in> set audit_actions_sql \<and> au_result a \<in> set results_sql \<and>
    (case au_service a of None \<Rightarrow> True | Some sid \<Rightarrow> has_service sid w)"

definition audit_insert :: "instant \<Rightarrow> audit \<Rightarrow> ('z world_scheme, err, int) prog" where
  "audit_insert now a0 =
    (let a = (if is_zero_time (au_at a0) then a0\<lparr>au_at := now\<rparr> else a0) in
     andthen (stmt (ErrOther ''inserting audit entry''))
      (bindE (gets (audit_insert_ok a)) (\<lambda>ok.
       andthen (guardE ok (ErrOther ''inserting audit entry''))
      (andthen (modify (\<lambda>w. w\<lparr>audits := t_insert (\<lambda>i r. r\<lparr>au_id := i\<rparr>) a (audits w)\<rparr>))
      (andthen (stmt (ErrOther ''reading audit id''))
       (gets (\<lambda>w. seq (audits w))))))))"

definition audit_list :: "gostring \<Rightarrow> int \<Rightarrow> ('z world_scheme, err, audit list) prog" where
  "audit_list sid limit =
    andthen (stmt (ErrOther ''querying audit''))
     (andthen (stmt (ErrOther ''scanning audit entry''))
      (gets (\<lambda>w. newest (\<lambda>r. sid = [] \<or> au_service r = Some sid) limit (audits w))))"

section \<open>store.DeployStore\<close>

definition deploy_insert_ok :: "deploy \<Rightarrow> 'z world_scheme \<Rightarrow> bool" where
  "deploy_insert_ok d w \<longleftrightarrow>
    dp_type d \<in> set deploy_types_sql \<and> dp_outcome d \<in> set results_sql \<and>
    has_service (dp_service d) w"

definition deploy_insert :: "instant \<Rightarrow> deploy \<Rightarrow> ('z world_scheme, err, int) prog" where
  "deploy_insert now d0 =
    (let d = (if is_zero_time (dp_created d0) then d0\<lparr>dp_created := now\<rparr> else d0) in
     andthen (stmt (ErrOther ''recording deploy''))
      (bindE (gets (deploy_insert_ok d)) (\<lambda>ok.
       andthen (guardE ok (ErrOther ''recording deploy''))
      (andthen (modify (\<lambda>w. w\<lparr>deploys := t_insert (\<lambda>i r. r\<lparr>dp_id := i\<rparr>) d (deploys w)\<rparr>))
      (andthen (stmt (ErrOther ''reading deploy id''))
       (gets (\<lambda>w. seq (deploys w))))))))"

definition deploys_by_service :: "gostring \<Rightarrow> int \<Rightarrow> ('z world_scheme, err, deploy list) prog" where
  "deploys_by_service sid limit =
    andthen (stmt (ErrOther ''querying deploys''))
     (andthen (stmt (ErrOther ''scanning deploy''))
      (gets (\<lambda>w. newest (\<lambda>r. dp_service r = sid) limit (deploys w))))"

definition probe_insert :: "instant \<Rightarrow> deploy_probe \<Rightarrow> ('z world_scheme, err, int) prog" where
  "probe_insert now p0 =
    (let p = (if is_zero_time (pr_at p0) then p0\<lparr>pr_at := now\<rparr> else p0) in
     andthen (stmt (ErrOther ''inserting deploy probe''))
      (bindE (gets (has_service (pr_service p))) (\<lambda>ok.
       andthen (guardE ok (ErrOther ''inserting deploy probe''))
      (andthen (modify (\<lambda>w. w\<lparr>probes := t_insert (\<lambda>i r. r\<lparr>pr_id := i\<rparr>) p (probes w)\<rparr>))
      (andthen (stmt (ErrOther ''reading deploy probe id''))
       (gets (\<lambda>w. seq (probes w))))))))"

text \<open>The bounds of the window are compared as the column's text.\<close>

definition in_window :: "instant \<Rightarrow> instant \<Rightarrow> instant \<Rightarrow> bool" where
  "in_window since until t \<longleftrightarrow>
    text_le (formatTime since) (formatTime t) \<and> text_less (formatTime t) (formatTime until)"

definition failed_probe_count ::
  "gostring \<Rightarrow> instant \<Rightarrow> instant \<Rightarrow> ('z world_scheme, err, int) prog" where
  "failed_probe_count sid since until =
    andthen (stmt (ErrOther ''counting failed deploy probes''))
     (gets (\<lambda>w. int (t_count (\<lambda>r. pr_service r = sid \<and> \<not> pr_ok r \<and> in_window since until (pr_at r))
        (probes w))))"

definition trim_probes :: "instant \<Rightarrow> ('z world_scheme, err, int) prog" where
  "trim_probes cutoff =
    (let old = (\<lambda>r. text_less (formatTime (pr_at r)) (formatTime cutoff)) in
     andthen (stmt (ErrOther ''trimming deploy probes''))
      (bindE (gets (\<lambda>w. int (t_count old (probes w)))) (\<lambda>n.
       andthen (modify (\<lambda>w. w\<lparr>probes := t_delete old (probes w)\<rparr>))
      (andthen (stmt (ErrOther ''counting trimmed deploy probes'')) (ret n)))))"

definition trim_deploys :: "instant \<Rightarrow> ('z world_scheme, err, int) prog" where
  "trim_deploys cutoff =
    (let old = (\<lambda>r. text_less (formatTime (dp_created r)) (formatTime cutoff)) in
     andthen (stmt (ErrOther ''trimming deploys''))
      (bindE (gets (\<lambda>w. int (t_count old (deploys w)))) (\<lambda>n.
       andthen (modify (\<lambda>w. w\<lparr>deploys := t_delete old (deploys w)\<rparr>))
      (andthen (stmt (ErrOther ''counting trimmed deploys'')) (ret n)))))"

section \<open>store.NotificationStore\<close>

text \<open>A notification without a service is stored with a NULL, read back as the empty string.\<close>

definition notification_insert ::
  "instant \<Rightarrow> gostring \<Rightarrow> gostring \<Rightarrow> gostring \<Rightarrow> gostring \<Rightarrow> ('z world_scheme, err, notification) prog" where
  "notification_insert now sid kind title body =
    (let n = \<lparr>nt_id = 0, nt_service = sid, nt_kind = kind, nt_title = title, nt_body = body,
              nt_created = now, nt_read = None\<rparr> in
     andthen (stmt (ErrOther ''inserting notification''))
      (bindE (gets (\<lambda>w. sid = [] \<or> has_service sid w)) (\<lambda>ok.
       andthen (guardE ok (ErrOther ''inserting notification''))
      (andthen (modify (\<lambda>w. w\<lparr>notifications := t_insert (\<lambda>i r. r\<lparr>nt_id := i\<rparr>) n (notifications w)\<rparr>))
      (andthen (stmt (ErrOther ''reading notification id''))
      (bindE (gets (\<lambda>w. seq (notifications w))) (\<lambda>i. ret (n\<lparr>nt_id := i\<rparr>))))))))"

definition notification_list :: "gostring \<Rightarrow> int \<Rightarrow> ('z world_scheme, err, notification list) prog" where
  "notification_list sid limit =
    andthen (stmt (ErrOther ''querying notifications''))
     (andthen (stmt (ErrOther ''scanning notification''))
      (gets (\<lambda>w. newest (\<lambda>r. sid = [] \<or> nt_service r = sid) limit (notifications w))))"

definition notification_mark_read :: "instant \<Rightarrow> int \<Rightarrow> ('z world_scheme, err, unit) prog" where
  "notification_mark_read now i =
    andthen (stmt (ErrOther ''marking notification read''))
     (modify (\<lambda>w. w\<lparr>notifications :=
        t_update (\<lambda>r. nt_id r = i \<and> nt_read r = None) (\<lambda>r. r\<lparr>nt_read := Some now\<rparr>) (notifications w)\<rparr>))"

definition notification_unread :: "gostring \<Rightarrow> notification \<Rightarrow> bool" where
  "notification_unread sid r = (nt_read r = None \<and> (sid = [] \<or> nt_service r = sid))"

definition notification_mark_all_read :: "instant \<Rightarrow> gostring \<Rightarrow> ('z world_scheme, err, int) prog" where
  "notification_mark_all_read now sid =
    andthen (stmt (ErrOther ''marking notifications read''))
     (bindE (gets (\<lambda>w. int (t_count (notification_unread sid) (notifications w)))) (\<lambda>n.
      andthen (modify (\<lambda>w. w\<lparr>notifications :=
         t_update (notification_unread sid) (\<lambda>r. r\<lparr>nt_read := Some now\<rparr>) (notifications w)\<rparr>))
     (andthen (stmt (ErrOther ''counting read notifications'')) (ret n))))"

definition notification_count_unread :: "gostring \<Rightarrow> ('z world_scheme, err, int) prog" where
  "notification_count_unread sid =
    andthen (stmt (ErrOther ''counting unread notifications''))
     (gets (\<lambda>w. int (t_count (notification_unread sid) (notifications w))))"

definition trim_notifications :: "instant \<Rightarrow> ('z world_scheme, err, int) prog" where
  "trim_notifications cutoff =
    (let old = (\<lambda>r. text_less (formatTime (nt_created r)) (formatTime cutoff)) in
     andthen (stmt (ErrOther ''trimming notifications''))
      (bindE (gets (\<lambda>w. int (t_count old (notifications w)))) (\<lambda>n.
       andthen (modify (\<lambda>w. w\<lparr>notifications := t_delete old (notifications w)\<rparr>))
      (andthen (stmt (ErrOther ''counting trimmed notifications'')) (ret n)))))"

definition emit_event :: "event \<Rightarrow> ('z world_scheme, 'e, unit) prog" where
  "emit_event e = modify (\<lambda>w. w\<lparr>events := events w @ [e]\<rparr>)"

lemmas world_op_defs =
  svc_all_def svc_get_def svc_create_def svc_update_config_def svc_delete_def
  audit_insert_def audit_list_def deploy_insert_def deploys_by_service_def probe_insert_def
  failed_probe_count_def trim_probes_def trim_deploys_def notification_insert_def
  notification_list_def notification_mark_read_def notification_mark_all_read_def
  notification_count_unread_def trim_notifications_def emit_event_def

definition empty_world :: world where
  "empty_world =
    \<lparr>faults = [], services = [], deploys = empty_table, probes = empty_table,
     notifications = empty_table, audits = empty_table, child_rows = [], events = []\<rparr>"

end
