(* ===== verification/Store_Laws.thy ===== *)
theory Store_Laws
  imports World
begin

text \<open>
  What the store promises.  \<open>world_ok\<close> is the schema as an invariant: keys are
  unique and handed out once, every reference points at a service, every CHECK list
  holds.  Every operation of the store keeps it, on every fault.  Deleting a service is all or
  nothing, and it always succeeds where the database does: the list of tables it clears covers
  every foreign key of the migrations.
\<close>

text \<open>
  The tables whose \<open>service_id\<close> references \<open>services(id)\<close>, read off the migrations (0003 metrics
  and alert_rules, 0007 api_keys and occurrences, 0008 issues and issue_rules, 0009 log_lines, 0010
  sdk_logs) and not off the list in services.go.  The four that are tables of \<open>world\<close> themselves
  (audit, deploy_probes, deploys, notifications) are not repeated.
\<close>

definition schema_child_tables :: "gostring list" where
  "schema_child_tables =
    [''metrics'', ''alert_rules'', ''api_keys'', ''occurrences'', ''issues'', ''issue_rules'', ''log_lines'',
     ''sdk_logs'']"

definition schema_children :: "'z world_scheme \<Rightarrow> bool" where
  "schema_children w \<longleftrightarrow> (\<forall>p\<in>set (child_rows w). fst p \<in> set schema_child_tables)"

definition refs_ok :: "'z world_scheme \<Rightarrow> bool" where
  "refs_ok w \<longleftrightarrow>
    (\<forall>r\<in>set (rows (audits w)). \<forall>sid. au_service r = Some sid \<longrightarrow> has_service sid w) \<and>
    (\<forall>r\<in>set (rows (probes w)). has_service (pr_service r) w) \<and>
    (\<forall>r\<in>set (rows (deploys w)). has_service (dp_service r) w) \<and>
    (\<forall>r\<in>set (rows (notifications w)). nt_service r = [] \<or> has_service (nt_service r) w) \<and>
    (\<forall>p\<in>set (child_rows w). has_service (snd p) w \<and> fst p \<in> set schema_child_tables)"

definition checks_ok :: "'z world_scheme \<Rightarrow> bool" where
  "checks_ok w \<longleftrightarrow>
    (\<forall>r\<in>set (services w). svc_strategy r \<in> {StrategyBlueGreen, StrategyRecreate}) \<and>
    (\<forall>r\<in>set (rows (audits w)). au_action r \<in> set audit_actions_sql \<and> au_result r \<in> set results_sql) \<and>
    (\<forall>r\<in>set (rows (deploys w)). dp_type r \<in> set deploy_types_sql \<and> dp_outcome r \<in> set results_sql)"

definition keys_ok :: "'z world_scheme \<Rightarrow> bool" where
  "keys_ok w \<longleftrightarrow>
    distinct (map svc_id (services w)) \<and> distinct (map svc_name (services w)) \<and>
    table_ok au_id (audits w) \<and> table_ok pr_id (probes w) \<and>
    table_ok dp_id (deploys w) \<and> table_ok nt_id (notifications w)"

definition world_ok :: "'z world_scheme \<Rightarrow> bool" where
  "world_ok w \<longleftrightarrow> keys_ok w \<and> refs_ok w \<and> checks_ok w"

lemmas world_inv_defs = world_ok_def keys_ok_def refs_ok_def checks_ok_def has_service_def

interpretation world_db: db_invariant world_ok
  by unfold_locales (simp add: world_inv_defs)

text \<open>An INSERT: the statement, the schema's conditions, the row.\<close>

lemma keeps_checked:
  assumes "\<And>s. I s \<Longrightarrow> P s \<Longrightarrow> I (f s)" and "keeps I m"
  shows "keeps I (bindE (gets P) (\<lambda>ok. andthen (guardE ok e) (andthen (modify f) m)))"
  using assms
  by (auto simp: keeps_def bindE_def andthen_def gets_def guardE_def modify_def ret_def throw_def
      split: prod.splits sum.splits)

lemma keeps_checked_last:
  assumes "\<And>s. I s \<Longrightarrow> P s \<Longrightarrow> I (f s)"
  shows "keeps I (bindE (gets P) (\<lambda>ok. andthen (guardE ok e) (modify f)))"
  using assms
  by (auto simp: keeps_def bindE_def andthen_def gets_def guardE_def modify_def ret_def throw_def
      split: prod.splits sum.splits)

lemma keeps_checked_count:
  assumes "\<And>s. I s \<Longrightarrow> P s \<Longrightarrow> I (f s)" and "\<And>n. keeps I (k n)"
  shows "keeps I (bindE (gets P) (\<lambda>ok. andthen (guardE ok e)
      (bindE (gets g) (\<lambda>n. andthen (modify f) (k n)))))"
  using assms
  by (auto simp: keeps_def bindE_def andthen_def gets_def guardE_def modify_def ret_def throw_def
      split: prod.splits sum.splits)

lemma ok_audit_row:
  "world_ok w \<Longrightarrow> audit_insert_ok a w \<Longrightarrow>
    world_ok (w\<lparr>audits := t_insert (\<lambda>i r. r\<lparr>au_id := i\<rparr>) a (audits w)\<rparr>)"
  by (auto simp: world_inv_defs audit_insert_ok_def audit_rows.ok_insert split: option.splits)

lemma ok_deploy_row:
  "world_ok w \<Longrightarrow> deploy_insert_ok d w \<Longrightarrow>
    world_ok (w\<lparr>deploys := t_insert (\<lambda>i r. r\<lparr>dp_id := i\<rparr>) d (deploys w)\<rparr>)"
  by (auto simp: world_inv_defs deploy_insert_ok_def deploy_rows.ok_insert)

lemma ok_probe_row:
  "world_ok w \<Longrightarrow> has_service (pr_service p) w \<Longrightarrow>
    world_ok (w\<lparr>probes := t_insert (\<lambda>i r. r\<lparr>pr_id := i\<rparr>) p (probes w)\<rparr>)"
  by (auto simp: world_inv_defs probe_rows.ok_insert)

lemma ok_notification_row:
  "world_ok w \<Longrightarrow> nt_service n = [] \<or> has_service (nt_service n) w \<Longrightarrow>
    world_ok (w\<lparr>notifications := t_insert (\<lambda>i r. r\<lparr>nt_id := i\<rparr>) n (notifications w)\<rparr>)"
  by (auto simp: world_inv_defs notification_rows.ok_insert)

lemma ok_event: "world_ok w \<Longrightarrow> world_ok (w\<lparr>events := es\<rparr>)"
  by (auto simp: world_inv_defs)

lemma ok_trims:
  assumes "world_ok w"
  shows "world_ok (w\<lparr>audits := t_delete P1 (audits w)\<rparr>)"
    "world_ok (w\<lparr>probes := t_delete P2 (probes w)\<rparr>)"
    "world_ok (w\<lparr>deploys := t_delete P3 (deploys w)\<rparr>)"
    "world_ok (w\<lparr>notifications := t_delete P4 (notifications w)\<rparr>)"
    "world_ok (w\<lparr>child_rows := filter P5 (child_rows w)\<rparr>)"
  using assms
  by (auto simp: world_inv_defs audit_rows.ok_delete probe_rows.ok_delete deploy_rows.ok_delete
      notification_rows.ok_delete)

lemma ok_read:
  "world_ok w \<Longrightarrow> world_ok (w\<lparr>notifications := t_update P (\<lambda>r. r\<lparr>nt_read := x\<rparr>) (notifications w)\<rparr>)"
  by (simp add: world_inv_defs notification_rows.ok_update ball_map_where)

lemma ok_delete_child: "world_ok w \<Longrightarrow> world_ok (delete_child sid tbl w)"
  by (simp add: delete_child_def ok_trims)

lemma ok_new_service:
  "world_ok w \<Longrightarrow> svc_insert_ok svc w \<Longrightarrow> world_ok (w\<lparr>services := services w @ [svc]\<rparr>)"
  by (auto simp: world_inv_defs svc_insert_ok_def)

lemma ok_new_config:
  assumes "world_ok w"
  shows "world_ok (w\<lparr>services := map_where P (\<lambda>r. r\<lparr>svc_config := c\<rparr>) (services w)\<rparr>)"
  using assms
  by (simp add: world_inv_defs map_where_keep ball_map_where bex_map_where)

lemma ok_drop_service:
  "world_ok w \<Longrightarrow> no_references sid w \<Longrightarrow>
    world_ok (w\<lparr>services := filter (\<lambda>r. svc_id r \<noteq> sid) (services w)\<rparr>)"
  by (fastforce simp: world_inv_defs no_references_def distinct_map_filter)

lemmas world_row_rules = ok_audit_row ok_deploy_row ok_probe_row ok_notification_row ok_event
  ok_trims ok_read ok_delete_child ok_new_service ok_new_config ok_drop_service

named_theorems world_keeps \<open>store operations keep the schema invariant\<close>

lemma keeps_svc_reads [world_keeps]:
  "keeps world_ok svc_all" "keeps world_ok (svc_get sid)" "keeps world_ok (audit_list sid l)"
  "keeps world_ok (deploys_by_service sid l)" "keeps world_ok (failed_probe_count sid t u)"
  "keeps world_ok (notification_list sid l)" "keeps world_ok (notification_count_unread sid)"
  unfolding world_op_defs by (intro keeps_rules world_db.keeps_stmt)+

lemma keeps_svc_create [world_keeps]: "keeps world_ok (svc_create svc)"
  unfolding svc_create_def
  by (intro keeps_andthen world_db.keeps_stmt keeps_checked_last ok_new_service)

lemma keeps_svc_update [world_keeps]: "keeps world_ok (svc_update_config sid c)"
  unfolding svc_update_config_def
  by (intro keeps_rules world_db.keeps_stmt ok_new_config)

lemma keeps_svc_delete [world_keeps]: "keeps world_ok (svc_delete sid)"
  unfolding svc_delete_def
  by (intro keeps_andthen keeps_for_each keeps_modify keeps_guardE world_db.keeps_stmt
      world_db.keeps_tx ok_delete_child keeps_checked_count ok_drop_service)

lemma keeps_inserts [world_keeps]:
  "keeps world_ok (audit_insert now a)" "keeps world_ok (deploy_insert now d)"
  "keeps world_ok (probe_insert now p)"
  unfolding audit_insert_def deploy_insert_def probe_insert_def Let_def
  by (intro keeps_andthen keeps_checked keeps_gets world_db.keeps_stmt ok_audit_row ok_deploy_row
      ok_probe_row; assumption)+

lemma keeps_notification_insert [world_keeps]: "keeps world_ok (notification_insert now sid k ti b)"
  unfolding notification_insert_def Let_def
  by (intro keeps_rules keeps_checked world_db.keeps_stmt ok_notification_row; simp)

lemma keeps_notification_marks [world_keeps]:
  "keeps world_ok (notification_mark_read now i)" "keeps world_ok (notification_mark_all_read now sid)"
  unfolding notification_mark_read_def notification_mark_all_read_def
  by (intro keeps_rules world_db.keeps_stmt ok_read; assumption)+

lemma keeps_trims [world_keeps]:
  "keeps world_ok (trim_probes t)" "keeps world_ok (trim_deploys t)" "keeps world_ok (trim_notifications t)"
  unfolding trim_probes_def trim_deploys_def trim_notifications_def Let_def
  by (intro keeps_rules world_db.keeps_stmt ok_trims; assumption)+

lemma keeps_emit [world_keeps]: "keeps world_ok (emit_event e)"
  unfolding emit_event_def by (intro keeps_modify ok_event)

lemma reading_svc_get [atomic_rules]: "reading (svc_get c)"
  unfolding svc_get_def by (intro atomic_rules)

section \<open>Deleting a service\<close>

lemma delete_child_blind: "delete_child sid tbl (w\<lparr>faults := fs\<rparr>) = (delete_child sid tbl w)\<lparr>faults := fs\<rparr>"
  by (simp add: delete_child_def)

definition without_children :: "gostring \<Rightarrow> 'z world_scheme \<Rightarrow> 'z world_scheme" where
  "without_children sid w = fold (delete_child sid) serviceChildren w"

lemma without_children_fields:
  "audits (without_children sid w) = t_delete (\<lambda>r. au_service r = Some sid) (audits w)"
  "probes (without_children sid w) = t_delete (\<lambda>r. pr_service r = sid) (probes w)"
  "deploys (without_children sid w) = t_delete (\<lambda>r. dp_service r = sid) (deploys w)"
  "notifications (without_children sid w) = t_delete (\<lambda>r. nt_service r = sid) (notifications w)"
  "services (without_children sid w) = services w"
  "events (without_children sid w) = events w"
  by (simp_all add: without_children_def serviceChildren_def delete_child_def)

lemma without_children_rows:
  "child_rows (without_children sid w) =
    filter (\<lambda>(t, k). \<not> (t \<in> set serviceChildren - {''audit'', ''deploy_probes'', ''deploys'', ''notifications''}
        \<and> k = sid)) (child_rows w)"
  by (simp add: without_children_def serviceChildren_def delete_child_def)
    (rule filter_cong, auto)

text \<open>The state after a successful delete, up to the oracle.\<close>

definition deleted_service :: "gostring \<Rightarrow> 'z world_scheme \<Rightarrow> 'z world_scheme" where
  "deleted_service sid w =
    (without_children sid w)\<lparr>services := filter (\<lambda>r. svc_id r \<noteq> sid) (services w)\<rparr>"

lemma svc_delete_error:
  "svc_delete sid w = (Inl e, w') \<Longrightarrow> w' = w\<lparr>faults := faults w'\<rparr>"
  unfolding svc_delete_def
  apply (rule stmt_cases [of "ErrOther ''starting service delete transaction''" w])
   apply (auto simp: andthen_def bindE_def dest!: tx_rollback)
  done

lemma svc_delete_success:
  assumes "svc_delete sid w = (Inr u, w')"
  shows "has_service sid w \<and> w' = (deleted_service sid w)\<lparr>faults := faults w'\<rparr>"
proof -
  let ?loop = "for_each (\<lambda>tbl. andthen (stmt (ErrOther (''deleting service '' @ tbl)))
                          (modify (delete_child sid tbl))) serviceChildren"
  obtain fs1 w1 fs2 where loop: "?loop (w\<lparr>faults := fs1\<rparr>) = (Inr (), w1)"
    and has: "filter (\<lambda>r. svc_id r = sid) (services w1) \<noteq> []"
    and w': "w' = w1\<lparr>services := filter (\<lambda>r. svc_id r \<noteq> sid) (services w1), faults := fs2\<rparr>"
    using assms unfolding svc_delete_def
    by (fastforce simp: returned tx_commit dest!: returned_stmt)
  obtain fs where w1: "w1 = (without_children sid w)\<lparr>faults := fs\<rparr>"
    using for_each_stmts [OF loop delete_child_blind]
    by (auto simp: without_children_def fold_blind [of "delete_child sid", OF delete_child_blind])
  show ?thesis
    using has w' by (auto simp: w1 without_children_fields deleted_service_def has_service_def filter_empty_conv)
qed

section \<open>What the inserts do\<close>

lemma only_oracle_fields:
  "only_oracle w t \<Longrightarrow> audits t = audits w \<and> deploys t = deploys w \<and> services t = services w
    \<and> notifications t = notifications w \<and> events t = events w \<and> probes t = probes w"
  by (auto simp: only_oracle_ex)

definition with_notification :: "notification \<Rightarrow> 'z world_scheme \<Rightarrow> 'z world_scheme" where
  "with_notification n w =
    w\<lparr>notifications := t_insert (\<lambda>i r. r\<lparr>nt_id := i\<rparr>) n (notifications w)\<rparr>"

definition with_deploy :: "deploy \<Rightarrow> 'z world_scheme \<Rightarrow> 'z world_scheme" where
  "with_deploy d w = w\<lparr>deploys := t_insert (\<lambda>i r. r\<lparr>dp_id := i\<rparr>) d (deploys w)\<rparr>"

definition new_notification :: "instant \<Rightarrow> gostring \<Rightarrow> gostring \<Rightarrow> gostring \<Rightarrow> gostring \<Rightarrow> notification" where
  "new_notification now sid kind title body =
    \<lparr>nt_id = 0, nt_service = sid, nt_kind = kind, nt_title = title, nt_body = body,
     nt_created = now, nt_read = None\<rparr>"

lemma notification_insert_wp:
  "wp (notification_insert now sid kind title body)
    (onE (\<lambda>e t. only_oracle w t \<or> only_oracle (with_notification (new_notification now sid kind title body) w) t)
         (\<lambda>n t. only_oracle (with_notification (new_notification now sid kind title body) w) t \<and>
            (sid = [] \<or> has_service sid w))) w"
  unfolding notification_insert_def Let_def
  by (simp add: wp_rules, rule wp_stmt_all; simp add: wp_rules has_service_def;
      intro impI conjI wp_stmt_all; simp add: wp_rules with_notification_def new_notification_def only_oracle_def)

lemma notification_insert_quiet:
  "faults w = [] \<Longrightarrow> sid = [] \<or> has_service sid w \<Longrightarrow>
    snd (notification_insert now sid kind title body w) =
      with_notification (new_notification now sid kind title body) w"
  by (auto simp: notification_insert_def run_defs with_notification_def new_notification_def)

lemma deploy_insert_wp:
  assumes "\<not> is_zero_time (dp_created d)"
  shows "wp (deploy_insert now d)
    (onE (\<lambda>e t. (only_oracle w t \<and> e = ErrOther ''recording deploy'') \<or>
              (only_oracle (with_deploy d w) t \<and> e = ErrOther ''reading deploy id''))
         (\<lambda>i t. only_oracle (with_deploy d w) t \<and> i = seq (deploys w) + 1 \<and> deploy_insert_ok d w)) w"
proof -
  have blind: "deploy_insert_ok d (w\<lparr>faults := fs\<rparr>) = deploy_insert_ok d w" for fs
    by (simp add: deploy_insert_ok_def has_service_def)
  show ?thesis
    unfolding deploy_insert_def Let_def
    by (simp add: wp_rules assms, rule wp_stmt_all; simp add: wp_rules blind;
        intro impI conjI wp_stmt_all; simp add: wp_rules with_deploy_def only_oracle_def)
qed

lemma deploy_insert_quiet:
  "faults w = [] \<Longrightarrow> deploy_insert_ok d w \<Longrightarrow> \<not> is_zero_time (dp_created d) \<Longrightarrow>
    deploy_insert now d w = (Inr (seq (deploys w) + 1), with_deploy d w)"
  by (simp add: deploy_insert_def run_defs with_deploy_def)

lemma delete_children_rest:
  "faults (fold (delete_child sid) ts w) = faults w \<and>
   world.more (fold (delete_child sid) ts w) = world.more w"
  by (induction ts arbitrary: w) (simp_all add: delete_child_def)

lemma without_children_rest:
  "faults (without_children sid w) = faults w"
  "world.more (without_children sid w) = world.more w"
  by (simp_all add: without_children_def delete_children_rest)

text \<open>Every table of the schema is in the list the delete walks.\<close>

lemma schema_tables_cleared:
  "set schema_child_tables \<subseteq> set serviceChildren - {''audit'', ''deploy_probes'', ''deploys'', ''notifications''}"
  by (simp add: schema_child_tables_def serviceChildren_def)

lemma without_children_all:
  assumes "schema_children w"
  shows "child_rows (without_children sid w) = filter (\<lambda>p. snd p \<noteq> sid) (child_rows w)"
  unfolding without_children_rows
  by (rule filter_cong) (use assms schema_tables_cleared in \<open>fastforce simp: schema_children_def\<close>)+

lemma svc_delete_quiet:
  assumes q: "faults w = []" and has: "has_service sid w" and kids: "schema_children w"
  shows "svc_delete sid w = (Inr (), deleted_service sid w)"
proof -
  let ?loop = "for_each (\<lambda>tbl. andthen (stmt (ErrOther (''deleting service '' @ tbl)))
      (modify (delete_child sid tbl))) serviceChildren"
  have loop: "?loop w = (Inr (), without_children sid w)"
    unfolding without_children_def by (rule for_each_quiet) (simp_all add: delete_child_def q)
  have step: "andthen ?loop k w = k (without_children sid w)" for k
    by (rule andthen_run [where m = ?loop and w = w, OF loop])
  have "no_references sid (without_children sid w)"
    by (auto simp: no_references_def without_children_fields without_children_all [OF kids])
  moreover have "length (filter (\<lambda>r. svc_id r = sid) (services (without_children sid w))) \<noteq> 0"
    using has by (auto simp: without_children_fields has_service_def filter_empty_conv)
  ultimately show ?thesis
    unfolding svc_delete_def
    by (simp only: quiet_steps(1) [OF q] tx_def step)
      (simp add: quiet_steps q without_children_rest without_children_fields deleted_service_def del: length_0_conv)
qed

section \<open>Properties\<close>

text \<open>Every operation of the deploy store, whatever statements fail, keeps the schema's
  invariant: unique and never reused keys, references only to existing services, CHECK lists.\<close>

lemma store_keeps_schema:
  "keeps world_ok (svc_create svc) \<and> keeps world_ok (svc_update_config sid cfg) \<and>
   keeps world_ok (svc_delete sid) \<and> keeps world_ok (audit_insert now a) \<and>
   keeps world_ok (deploy_insert now d) \<and> keeps world_ok (probe_insert now p) \<and>
   keeps world_ok (notification_insert now nsid kind title body) \<and>
   keeps world_ok (notification_mark_read now i) \<and> keeps world_ok (notification_mark_all_read now sid) \<and>
   keeps world_ok (trim_probes now) \<and> keeps world_ok (trim_deploys now) \<and>
   keeps world_ok (trim_notifications now)"
  by (intro conjI world_keeps)


definition sample_services :: world where
  "sample_services =
    \<lparr>faults = [], services =
       [\<lparr>svc_id = ''shop'', svc_name = ''Shop'', svc_strategy = ''recreate'', svc_project = ''p'', svc_dir = ''/d'',
         svc_config = []\<rparr>],
     deploys = empty_table, probes = empty_table, notifications = empty_table, audits = empty_table,
     child_rows = [(''issues'', ''shop''), (''metrics'', ''web'')], events = []\<rparr>"


end
