(* ===== verification/Audit_Log.thy ===== *)
theory Audit_Log
  imports Store_Laws Tables
begin

text \<open>
  \<open>service.Audit\<close> (service/audit.go): recording and listing the action log.
\<close>

record audit_record =
  ar_service :: gostring
  ar_actor :: gostring
  ar_action :: gostring
  ar_result :: gostring
  ar_detail :: gostring

definition audit_entry :: "instant \<Rightarrow> audit_record \<Rightarrow> audit" where
  "audit_entry now rec =
    \<lparr>au_id = 0, au_service = (if ar_service rec = [] then None else Some (ar_service rec)),
     au_actor = ar_actor rec, au_action = ar_action rec, au_result = ar_result rec,
     au_detail = ar_detail rec, au_at = now\<rparr>"

definition audit_Record :: "instant \<Rightarrow> audit_record \<Rightarrow> ('z world_scheme, err, int) prog" where
  "audit_Record now rec =
    andthen (if ar_service rec \<noteq> [] then andthen (svc_get (ar_service rec)) (ret ()) else ret ())
   (andthen (guardE (ar_action rec \<in> set audit_actions) (ErrInvalidInput ''unsupported audit action''))
   (andthen (guardE (ar_result rec = AuditSuccess \<or> ar_result rec = AuditFailure)
       (ErrInvalidInput ''result''))
   (andthen (guardE (ar_actor rec \<noteq> []) (ErrInvalidInput ''actor is required''))
     (audit_insert now (audit_entry now rec)))))"

definition audit_List :: "gostring \<Rightarrow> int \<Rightarrow> ('z world_scheme, err, audit list) prog" where
  "audit_List sid limit =
    andthen (if sid \<noteq> [] then andthen (svc_get sid) (ret ()) else ret ())
     (audit_list sid (clampLimit limit))"

definition audit_valid :: "audit_record \<Rightarrow> bool" where
  "audit_valid rec \<longleftrightarrow>
    ar_action rec \<in> set audit_actions \<and> (ar_result rec = AuditSuccess \<or> ar_result rec = AuditFailure) \<and>
    ar_actor rec \<noteq> []"

lemma keeps_audit_Record [world_keeps]: "keeps world_ok (audit_Record now rec)"
  unfolding audit_Record_def by (intro keeps_rules world_keeps)

lemma keeps_audit_List [world_keeps]: "keeps world_ok (audit_List sid l)"
  unfolding audit_List_def by (intro keeps_rules world_keeps)

text \<open>The world with one more audit row.\<close>

definition with_audit :: "audit \<Rightarrow> 'z world_scheme \<Rightarrow> 'z world_scheme" where
  "with_audit a w = w\<lparr>audits := t_insert (\<lambda>i r. r\<lparr>au_id := i\<rparr>) a (audits w)\<rparr>"

lemma svc_get_wp:
  "wp (svc_get sid)
    (onE (\<lambda>e t. only_oracle w t \<and>
            (e = ErrOther ''scanning service'' \<or> (e = ErrServiceNotFound sid \<and> service_row sid w = None)))
         (\<lambda>s t. only_oracle w t \<and> service_row sid w = Some s)) w"
  unfolding svc_get_def
  by (simp add: wp_rules, rule wp_stmt_all) (simp_all add: wp_rules service_row_def split: option.split)

lemma audit_insert_wp:
  assumes "\<not> is_zero_time (au_at a)"
  shows "wp (audit_insert now a)
    (onE (\<lambda>e t. (only_oracle w t \<and> e = ErrOther ''inserting audit entry'') \<or>
              (only_oracle (with_audit a w) t \<and> e = ErrOther ''reading audit id''))
         (\<lambda>i t. only_oracle (with_audit a w) t \<and> i = seq (audits w) + 1 \<and> audit_insert_ok a w)) w"
proof -
  have blind: "audit_insert_ok a (w\<lparr>faults := fs\<rparr>) = audit_insert_ok a w" for fs
    by (simp add: audit_insert_ok_def has_service_def split: option.split)
  show ?thesis
    unfolding audit_insert_def Let_def
    by (simp add: wp_rules assms, rule wp_stmt_all; simp add: wp_rules blind;
        intro impI conjI wp_stmt_all; simp add: wp_rules with_audit_def only_oracle_def)
qed

text \<open>Without the oracle's faults the statements all succeed.\<close>

lemma audit_insert_quiet:
  "faults w = [] \<Longrightarrow> audit_insert_ok a w \<Longrightarrow> \<not> is_zero_time (au_at a) \<Longrightarrow>
    audit_insert now a w = (Inr (seq (audits w) + 1), with_audit a w)"
  by (simp add: audit_insert_def run_defs with_audit_def)

lemma has_service_row: "has_service sid w \<longleftrightarrow> (\<exists>s. service_row sid w = Some s)"
  unfolding has_service_def service_row_def
  by (metis (mono_tags, lifting) first_where_None not_None_eq)

lemma svc_get_quiet:
  "faults w = [] \<Longrightarrow> service_row sid w = Some s \<Longrightarrow> svc_get sid w = (Inr s, w)"
  by (simp add: svc_get_def run_defs)

lemma returned_guard: "wp (guardE b e) Q s \<longleftrightarrow> (b \<longrightarrow> Q (Inr ()) s) \<and> (\<not> b \<longrightarrow> Q (Inl e) s)"
  by (simp add: wp_guardE)

text \<open>The service named by a record is known, where it names one.\<close>

definition audit_service_known :: "audit_record \<Rightarrow> 'z world_scheme \<Rightarrow> bool" where
  "audit_service_known rec w \<longleftrightarrow> ar_service rec = [] \<or> service_row (ar_service rec) w \<noteq> None"

lemma audit_entry_ok:
  "audit_valid rec \<Longrightarrow> audit_service_known rec w \<Longrightarrow> audit_insert_ok (audit_entry now rec) w"
  by (auto simp: audit_valid_def audit_service_known_def audit_insert_ok_def audit_entry_def
      audit_actions_sql_def results_sql_def has_service_row)

lemma only_oracle_insert:
  "only_oracle w t \<Longrightarrow> only_oracle (with_audit a t) u \<Longrightarrow> only_oracle (with_audit a w) u"
  by (auto simp: only_oracle_ex with_audit_def)

lemma audit_insert_from:
  assumes w: "only_oracle w t" and z: "\<not> is_zero_time (au_at a)"
    and "\<And>u. only_oracle w u \<Longrightarrow> E (ErrOther ''inserting audit entry'') u"
    and "\<And>u. only_oracle (with_audit a w) u \<Longrightarrow> E (ErrOther ''reading audit id'') u"
    and "\<And>u. only_oracle (with_audit a w) u \<Longrightarrow> Q (seq (audits w) + 1) u"
  shows "wp (audit_insert now a) (onE E Q) t"
  by (rule wp_mono [OF audit_insert_wp [OF z, of now t]])
    (use assms only_oracle_fields [OF w] in \<open>auto simp: onE_def dest: only_oracle_insert only_oracle_trans
      split: sum.splits\<close>)

lemma audit_Record_wp:
  assumes now: "\<not> is_zero_time now"
  shows "wp (audit_Record now rec)
    (onE (\<lambda>e t. only_oracle w t \<or>
            (only_oracle (with_audit (audit_entry now rec) w) t \<and> e = ErrOther ''reading audit id''))
         (\<lambda>i t. only_oracle (with_audit (audit_entry now rec) w) t \<and> i = seq (audits w) + 1 \<and>
            audit_valid rec \<and> audit_service_known rec w)) w"
proof -
  let ?Q = "onE (\<lambda>e t. only_oracle w t \<or>
            (only_oracle (with_audit (audit_entry now rec) w) t \<and> e = ErrOther ''reading audit id''))
         (\<lambda>i t. only_oracle (with_audit (audit_entry now rec) w) t \<and> i = seq (audits w) + 1 \<and>
            audit_valid rec \<and> audit_service_known rec w)"
  have z: "\<not> is_zero_time (au_at (audit_entry now rec))" using now by (simp add: audit_entry_def)
  have tail: "wp (andthen (guardE (ar_action rec \<in> set audit_actions) (ErrInvalidInput ''unsupported audit action''))
   (andthen (guardE (ar_result rec = AuditSuccess \<or> ar_result rec = AuditFailure)
       (ErrInvalidInput ''result''))
   (andthen (guardE (ar_actor rec \<noteq> []) (ErrInvalidInput ''actor is required''))
     (audit_insert now (audit_entry now rec))))) ?Q t"
    if "only_oracle w t" "audit_service_known rec w" for t
    using that z by (simp add: wp_rules audit_insert_from audit_valid_def)
  show ?thesis
  proof (cases "ar_service rec = []")
    case True
    then show ?thesis using tail [of w]
      by (simp add: audit_Record_def wp_andthen [of "ret ()"] wp_ret audit_service_known_def)
  next
    case False
    then show ?thesis
      unfolding audit_Record_def
      apply (simp add: wp_andthen [of "andthen (svc_get _) _"] wp_andthen [of "svc_get _"] wp_ret)
      apply (rule wp_mono [OF svc_get_wp [of "ar_service rec" w]])
      apply (auto simp: onE_def audit_service_known_def wp_ret
          tail [unfolded audit_service_known_def, simplified] split: sum.splits)
      done
  qed
qed

lemma audit_Record_quiet:
  assumes "faults w = []" "audit_valid rec" "audit_service_known rec w" "\<not> is_zero_time now"
  shows "audit_Record now rec w =
    (Inr (seq (audits w) + 1), with_audit (audit_entry now rec) w)"
proof -
  have "audit_insert now (audit_entry now rec) w =
      (Inr (seq (audits w) + 1), with_audit (audit_entry now rec) w)"
    using assms by (intro audit_insert_quiet audit_entry_ok) (simp_all add: audit_entry_def)
  then show ?thesis
    using assms svc_get_quiet [OF assms(1), of "ar_service rec"]
    by (auto simp: audit_Record_def audit_valid_def audit_service_known_def andthen_def bindE_def
        guardE_def ret_def)
qed

text \<open>An entry of the audit log is accepted exactly when its service (if it names one) is
  known, its action and result are in their lists and it has an actor; it is then appended
  with the next id, and every refusal leaves the log as it was.\<close>

theorem audit_Record_accepts:
  assumes "faults w = []" and "\<not> is_zero_time now"
  shows "audit_Record now rec w =
    (if \<not> audit_service_known rec w then (Inl (ErrServiceNotFound (ar_service rec)), w)
     else if ar_action rec \<notin> set audit_actions then (Inl (ErrInvalidInput ''unsupported audit action''), w)
     else if ar_result rec \<noteq> AuditSuccess \<and> ar_result rec \<noteq> AuditFailure
     then (Inl (ErrInvalidInput ''result''), w)
     else if ar_actor rec = [] then (Inl (ErrInvalidInput ''actor is required''), w)
     else (Inr (seq (audits w) + 1), with_audit (audit_entry now rec) w))"
proof (cases "audit_service_known rec w")
  case False
  then show ?thesis using assms(1)
    by (simp add: audit_Record_def audit_service_known_def svc_get_def run_defs)
next
  case True
  then have get: "ar_service rec \<noteq> [] \<Longrightarrow> \<exists>s. svc_get (ar_service rec) w = (Inr s, w)"
    using svc_get_quiet [OF assms(1)] by (auto simp: audit_service_known_def)
  show ?thesis
  proof (cases "audit_valid rec")
    case valid: True
    then show ?thesis using audit_Record_quiet [OF assms(1) valid True assms(2)] True
      by (auto simp: audit_valid_def)
  next
    case False
    then show ?thesis using get True unfolding audit_valid_def
      by (auto simp: audit_Record_def andthen_def bindE_def guardE_def throw_def ret_def)
  qed
qed

lemma audit_Record_accepts_witness:
  "audit_Record 5 \<lparr>ar_service = [], ar_actor = ''ada'', ar_action = ''login'', ar_result = ''success'',
      ar_detail = []\<rparr> empty_world =
    (Inr 1, with_audit (audit_entry 5 \<lparr>ar_service = [], ar_actor = ''ada'', ar_action = ''login'',
      ar_result = ''success'', ar_detail = []\<rparr>) empty_world)"
proof -
  have q: "faults empty_world = []" "\<not> is_zero_time 5"
    by (simp_all add: empty_world_def is_zero_time_def zero_time_def)
  show ?thesis
    unfolding audit_Record_accepts [OF q]
    by (simp add: audit_service_known_def audit_actions_def empty_world_def empty_table_def)
qed

end
