(* ===== verification/Deploy_History.thy ===== *)
theory Deploy_History
  imports Audit_Log
begin

text \<open>
  \<open>service.Deploys\<close> (service/deploys.go): recording and listing deploy history.
  A duration is \<open>int64(finished.Sub(started).Seconds())\<close>: the saturating difference
  in seconds, cut towards zero.  (Below 2 to the 23 seconds the floating-point detour
  of the code is exact; the model is the exact quotient.)
\<close>

record deploy_record =
  dr_service :: gostring
  dr_sha :: gostring
  dr_actor :: gostring
  dr_type :: gostring
  dr_outcome :: gostring
  dr_notes :: gostring
  dr_started :: "instant option"
  dr_finished :: "instant option"
  dr_downtime :: "rat option"

definition deploy_secs :: "deploy_record \<Rightarrow> int option" where
  "deploy_secs rec =
    (case (dr_started rec, dr_finished rec) of
       (Some s, Some f) \<Rightarrow> Some (go_quot (time_sub f s) second)
     | _ \<Rightarrow> None)"

definition deploy_entry :: "instant \<Rightarrow> deploy_record \<Rightarrow> deploy" where
  "deploy_entry now rec =
    \<lparr>dp_id = 0, dp_service = dr_service rec, dp_sha = dr_sha rec, dp_actor = dr_actor rec,
     dp_type = dr_type rec, dp_outcome = dr_outcome rec, dp_started = dr_started rec,
     dp_finished = dr_finished rec, dp_duration = deploy_secs rec, dp_downtime = dr_downtime rec,
     dp_notes = dr_notes rec, dp_created = now\<rparr>"

definition deploys_Record :: "instant \<Rightarrow> deploy_record \<Rightarrow> ('z world_scheme, err, int) prog" where
  "deploys_Record now rec =
    andthen (svc_get (dr_service rec))
   (andthen (guardE (dr_type rec \<in> {DeployCutover, DeployRollback, DeployManual, DeployDeploy})
       (ErrInvalidInput ''type''))
   (andthen (guardE (dr_outcome rec \<in> {DeploySuccess, DeployFailure}) (ErrInvalidInput ''outcome''))
   (andthen (guardE (dr_sha rec \<noteq> []) (ErrInvalidInput ''sha is required''))
   (andthen (guardE (dr_actor rec \<noteq> []) (ErrInvalidInput ''actor is required''))
   (andthen (guardE (case deploy_secs rec of None \<Rightarrow> True | Some secs \<Rightarrow> 0 \<le> secs)
       (ErrInvalidInput ''finished_at precedes started_at''))
     (deploy_insert now (deploy_entry now rec)))))))"

definition deploys_History :: "gostring \<Rightarrow> int \<Rightarrow> ('z world_scheme, err, deploy list) prog" where
  "deploys_History sid limit = andthen (svc_get sid) (deploys_by_service sid (clampLimit limit))"

lemma keeps_deploys_Record [world_keeps]: "keeps world_ok (deploys_Record now rec)"
  unfolding deploys_Record_def by (intro keeps_rules world_keeps)

lemma keeps_deploys_History [world_keeps]: "keeps world_ok (deploys_History sid l)"
  unfolding deploys_History_def by (intro keeps_rules world_keeps)

definition deploy_valid :: "deploy_record \<Rightarrow> bool" where
  "deploy_valid rec \<longleftrightarrow>
    dr_type rec \<in> {DeployCutover, DeployRollback, DeployManual, DeployDeploy} \<and>
    dr_outcome rec \<in> {DeploySuccess, DeployFailure} \<and> dr_sha rec \<noteq> [] \<and> dr_actor rec \<noteq> [] \<and>
    (case deploy_secs rec of None \<Rightarrow> True | Some secs \<Rightarrow> 0 \<le> secs)"

lemma only_oracle_deploy:
  "only_oracle w t \<Longrightarrow> only_oracle (with_deploy a t) u \<Longrightarrow> only_oracle (with_deploy a w) u"
  by (auto simp: only_oracle_ex with_deploy_def)

lemma deploy_insert_from:
  assumes w: "only_oracle w t" and z: "\<not> is_zero_time (dp_created d)"
    and "\<And>u. only_oracle w u \<Longrightarrow> E (ErrOther ''recording deploy'') u"
    and "\<And>u. only_oracle (with_deploy d w) u \<Longrightarrow> E (ErrOther ''reading deploy id'') u"
    and "\<And>u. only_oracle (with_deploy d w) u \<Longrightarrow> Q (seq (deploys w) + 1) u"
  shows "wp (deploy_insert now d) (onE E Q) t"
  by (rule wp_mono [OF deploy_insert_wp [OF z, of now t]])
    (use assms only_oracle_fields [OF w] in \<open>auto simp: onE_def dest: only_oracle_deploy only_oracle_trans
      split: sum.splits\<close>)

lemma deploys_Record_wp:
  assumes now: "\<not> is_zero_time now"
  shows "wp (deploys_Record now rec)
    (onE (\<lambda>e t. only_oracle w t \<or>
            (only_oracle (with_deploy (deploy_entry now rec) w) t \<and> e = ErrOther ''reading deploy id''))
         (\<lambda>i t. only_oracle (with_deploy (deploy_entry now rec) w) t \<and> i = seq (deploys w) + 1 \<and>
            deploy_valid rec \<and> service_row (dr_service rec) w \<noteq> None)) w"
proof -
  have z: "\<not> is_zero_time (dp_created (deploy_entry now rec))" using now by (simp add: deploy_entry_def)
  show ?thesis
    unfolding deploys_Record_def
    apply (subst wp_andthen)
    apply (rule wp_mono [OF svc_get_wp [of "dr_service rec" w]])
    apply (auto simp: onE_def [of _ _ r for r :: "err + service"] wp_andthen [of "guardE _ _"]
        wp_guardE deploy_valid_def split: sum.splits intro!: deploy_insert_from [OF _ z])
    done
qed

lemma deploys_Record_quiet:
  assumes "faults w = []" "deploy_valid rec" "service_row (dr_service rec) w = Some s"
    "\<not> is_zero_time now"
  shows "deploys_Record now rec w =
    (Inr (seq (deploys w) + 1), with_deploy (deploy_entry now rec) w)"
proof -
  have "deploy_insert_ok (deploy_entry now rec) w"
    using assms by (auto simp: deploy_insert_ok_def deploy_entry_def deploy_types_sql_def
        results_sql_def deploy_valid_def has_service_row)
  then have "deploy_insert now (deploy_entry now rec) w =
      (Inr (seq (deploys w) + 1), with_deploy (deploy_entry now rec) w)"
    using assms by (intro deploy_insert_quiet) (simp_all add: deploy_entry_def)
  then show ?thesis
    using assms svc_get_quiet [OF assms(1,3)]
    by (auto simp: deploys_Record_def deploy_valid_def andthen_def bindE_def guardE_def ret_def)
qed

section \<open>Acceptance\<close>

lemma go_quot_second_nonneg: "0 \<le> go_quot d second \<longleftrightarrow> - second < d"
proof (cases "0 \<le> d")
  case True
  then show ?thesis using go_quot_def [of d second] by (simp add: second_def pos_imp_zdiv_nonneg_iff sgn_if)
next
  case False
  have "(- d) div second = 0 \<longleftrightarrow> - d < second" "0 \<le> (- d) div second"
    using False by (auto simp: second_def zdiv_eq_0_iff pos_imp_zdiv_nonneg_iff)
  then show ?thesis using False by (auto simp: go_quot_def sgn_if second_def)
qed

lemma time_sub_above: "- second < time_sub t u \<longleftrightarrow> u - t < second"
  by (auto simp: time_sub_def int64_defs second_def)

lemma deploy_secs_nonneg:
  "(case deploy_secs rec of None \<Rightarrow> True | Some secs \<Rightarrow> 0 \<le> secs) \<longleftrightarrow>
    (\<forall>s f. dr_started rec = Some s \<longrightarrow> dr_finished rec = Some f \<longrightarrow> s - f < second)"
  by (auto simp: deploy_secs_def go_quot_second_nonneg time_sub_above split: option.splits)

text \<open>A history entry is accepted exactly when its service is known, its type and
  outcome are in their lists, sha and actor are given, and it does not finish a
  whole second or more before it starts; it is then stored as the newest row with the next id and the
  duration in whole seconds.  On a refusal the tables stay as they were.  (A finish less
  than a second before the start passes, with duration 0.)\<close>

theorem deploys_Record_accepts:
  assumes "faults w = []" and "\<not> is_zero_time now"
  shows "deploys_Record now rec w =
    (if service_row (dr_service rec) w = None then (Inl (ErrServiceNotFound (dr_service rec)), w)
     else if dr_type rec \<notin> {DeployCutover, DeployRollback, DeployManual, DeployDeploy}
     then (Inl (ErrInvalidInput ''type''), w)
     else if dr_outcome rec \<notin> {DeploySuccess, DeployFailure} then (Inl (ErrInvalidInput ''outcome''), w)
     else if dr_sha rec = [] then (Inl (ErrInvalidInput ''sha is required''), w)
     else if dr_actor rec = [] then (Inl (ErrInvalidInput ''actor is required''), w)
     else if (\<exists>s f. dr_started rec = Some s \<and> dr_finished rec = Some f \<and> f + second \<le> s)
     then (Inl (ErrInvalidInput ''finished_at precedes started_at''), w)
     else (Inr (seq (deploys w) + 1), with_deploy (deploy_entry now rec) w))"
proof (cases "service_row (dr_service rec) w")
  case None
  then show ?thesis using assms(1) by (simp add: deploys_Record_def svc_get_def run_defs)
next
  case (Some s)
  have early: "(\<exists>s f. dr_started rec = Some s \<and> dr_finished rec = Some f \<and> f + second \<le> s) \<longleftrightarrow>
      \<not> (case deploy_secs rec of None \<Rightarrow> True | Some secs \<Rightarrow> 0 \<le> secs)"
    unfolding deploy_secs_nonneg by (auto simp: not_less)
  show ?thesis
  proof (cases "deploy_valid rec")
    case True
    then show ?thesis
      using deploys_Record_quiet [OF assms(1) True Some assms(2)] Some
      unfolding early by (simp add: deploy_valid_def)
  next
    case False
    then show ?thesis
      using svc_get_quiet [OF assms(1) Some] Some
      unfolding early deploy_valid_def
      by (auto simp: deploys_Record_def andthen_def bindE_def guardE_def throw_def ret_def)
  qed
qed

definition demo_service :: service where
  "demo_service =
    \<lparr>svc_id = ''api'', svc_name = ''API'', svc_strategy = ''recreate'', svc_project = ''shop'',
     svc_dir = ''/srv/shop'', svc_config = ''{}''\<rparr>"

definition demo_world :: world where
  "demo_world =
    \<lparr>faults = [], services = [demo_service], deploys = empty_table, probes = empty_table,
     notifications = empty_table, audits = empty_table, child_rows = [], events = []\<rparr>"

definition demo_record :: deploy_record where
  "demo_record =
    \<lparr>dr_service = ''api'', dr_sha = ''abc'', dr_actor = ''ada'', dr_type = ''manual'',
     dr_outcome = ''success'', dr_notes = [], dr_started = Some (2 * second),
     dr_finished = Some (2 * second - 1), dr_downtime = None\<rparr>"

lemma deploys_Record_accepts_witness:
  "deploys_Record 5 demo_record demo_world =
    (Inr 1, with_deploy (deploy_entry 5 demo_record) demo_world) \<and>
    deploy_secs demo_record = Some 0"
proof -
  have q: "faults demo_world = []" "\<not> is_zero_time 5"
    by (simp_all add: demo_world_def is_zero_time_def zero_time_def)
  have "deploys_Record 5 demo_record demo_world =
    (Inr 1, with_deploy (deploy_entry 5 demo_record) demo_world)"
    unfolding deploys_Record_accepts [OF q]
    by (simp add: demo_record_def demo_world_def demo_service_def service_row_def second_def empty_table_def)
  moreover have "deploy_secs demo_record = Some 0"
    by (simp add: demo_record_def deploy_secs_def time_sub_def int64_defs second_def go_quot_def)
  ultimately show ?thesis by simp
qed

end
