(* ===== verification/Json_Config.thy ===== *)
theory Json_Config
  imports Go_Strings
begin

text \<open>
  The strategy configuration of a service (\<open>internal/model/service.go\<close>) as
  \<open>json.Unmarshal\<close> fills it.  The JSON grammar itself, from the text to the tree, is
  a parameter (\<open>None\<close> for malformed text); what is modelled is the decoding of the tree
  into a Go struct: fields are found by their name up to case, a null leaves a
  field alone, a later field overwrites, unknown fields are ignored, a value of the wrong type
  makes the whole decoding fail.
\<close>

datatype json =
    JNull
  | JBool bool
  | JNum gostring
  | JStr gostring
  | JArr "json list"
  | JObj "(gostring \<times> json) list"

type_synonym json_text = "gostring \<Rightarrow> json option"

text \<open>Case folding of keys: ASCII, and the two other runes that fold to ASCII letters.\<close>

function fold_name :: "gostring \<Rightarrow> gostring" where
  "fold_name [] = []"
| "fold_name (c # cs) =
    (if has_prefix (c # cs) [CHR 0xE2, CHR 0x84, CHR 0xAA] then CHR ''k'' # fold_name (drop 2 cs)
     else if has_prefix (c # cs) [CHR 0xC5, CHR 0xBF] then CHR ''s'' # fold_name (drop 1 cs)
     else ascii_lower c # fold_name cs)"
  by pat_completeness auto
termination by (relation "measure length") auto

declare fold_name.simps(2) [simp del]

definition str_field :: "(gostring \<Rightarrow> 'c \<Rightarrow> 'c) \<Rightarrow> json \<Rightarrow> 'c \<Rightarrow> 'c option" where
  "str_field put j c = (case j of JNull \<Rightarrow> Some c | JStr s \<Rightarrow> Some (put s c) | _ \<Rightarrow> None)"

definition bool_field :: "(bool \<Rightarrow> 'c \<Rightarrow> 'c) \<Rightarrow> json \<Rightarrow> 'c \<Rightarrow> 'c option" where
  "bool_field put j c = (case j of JNull \<Rightarrow> Some c | JBool b \<Rightarrow> Some (put b c) | _ \<Rightarrow> None)"

definition int_field :: "(int \<Rightarrow> 'c \<Rightarrow> 'c) \<Rightarrow> json \<Rightarrow> 'c \<Rightarrow> 'c option" where
  "int_field put j c =
    (case j of JNull \<Rightarrow> Some c
     | JNum lit \<Rightarrow> (case parse_int lit of None \<Rightarrow> None | Some i \<Rightarrow> Some (put i c))
     | _ \<Rightarrow> None)"

fun decode_fields ::
  "(gostring \<Rightarrow> json \<Rightarrow> 'c \<Rightarrow> 'c option) \<Rightarrow> (gostring \<times> json) list \<Rightarrow> 'c \<Rightarrow> 'c option" where
  "decode_fields f [] c = Some c"
| "decode_fields f ((k, j) # kvs) c =
    (case f (fold_name k) j c of None \<Rightarrow> None | Some c' \<Rightarrow> decode_fields f kvs c')"

definition unmarshal ::
  "json_text \<Rightarrow> (gostring \<Rightarrow> json \<Rightarrow> 'c \<Rightarrow> 'c option) \<Rightarrow> 'c \<Rightarrow> gostring \<Rightarrow> 'c option" where
  "unmarshal jt f zero raw =
    (case jt raw of
       Some (JObj kvs) \<Rightarrow> decode_fields f kvs zero
     | Some JNull \<Rightarrow> Some zero
     | _ \<Rightarrow> None)"

section \<open>BlueGreenConfig\<close>

record blue_green_config =
  bg_blue_service :: gostring
  bg_green_service :: gostring
  bg_blue_target :: gostring
  bg_green_target :: gostring
  bg_legacy_target :: gostring
  bg_nginx_conf :: gostring
  bg_marker :: gostring
  bg_blue_url :: gostring
  bg_green_url :: gostring
  bg_public_url :: gostring
  bg_cutover_script :: gostring
  bg_restore_script :: gostring
  bg_compose_file :: gostring
  bg_project :: gostring
  bg_env_file :: gostring
  bg_sudo :: bool
  bg_settle_secs :: int
  bg_health_timeout :: int
  bg_public_timeout :: int

definition zero_blue_green :: blue_green_config where
  "zero_blue_green =
    \<lparr>bg_blue_service = [], bg_green_service = [], bg_blue_target = [], bg_green_target = [],
     bg_legacy_target = [], bg_nginx_conf = [], bg_marker = [], bg_blue_url = [],
     bg_green_url = [], bg_public_url = [], bg_cutover_script = [], bg_restore_script = [],
     bg_compose_file = [], bg_project = [], bg_env_file = [], bg_sudo = False,
     bg_settle_secs = 0, bg_health_timeout = 0, bg_public_timeout = 0\<rparr>"

definition blue_green_field ::
  "gostring \<Rightarrow> json \<Rightarrow> blue_green_config \<Rightarrow> blue_green_config option" where
  "blue_green_field k =
    (if k = ''blue_service'' then str_field (\<lambda>s c. c\<lparr>bg_blue_service := s\<rparr>)
     else if k = ''green_service'' then str_field (\<lambda>s c. c\<lparr>bg_green_service := s\<rparr>)
     else if k = ''blue_target'' then str_field (\<lambda>s c. c\<lparr>bg_blue_target := s\<rparr>)
     else if k = ''green_target'' then str_field (\<lambda>s c. c\<lparr>bg_green_target := s\<rparr>)
     else if k = ''legacy_target'' then str_field (\<lambda>s c. c\<lparr>bg_legacy_target := s\<rparr>)
     else if k = ''nginx_conf'' then str_field (\<lambda>s c. c\<lparr>bg_nginx_conf := s\<rparr>)
     else if k = ''marker'' then str_field (\<lambda>s c. c\<lparr>bg_marker := s\<rparr>)
     else if k = ''blue_url'' then str_field (\<lambda>s c. c\<lparr>bg_blue_url := s\<rparr>)
     else if k = ''green_url'' then str_field (\<lambda>s c. c\<lparr>bg_green_url := s\<rparr>)
     else if k = ''public_url'' then str_field (\<lambda>s c. c\<lparr>bg_public_url := s\<rparr>)
     else if k = ''cutover_script'' then str_field (\<lambda>s c. c\<lparr>bg_cutover_script := s\<rparr>)
     else if k = ''restore_script'' then str_field (\<lambda>s c. c\<lparr>bg_restore_script := s\<rparr>)
     else if k = ''compose_file'' then str_field (\<lambda>s c. c\<lparr>bg_compose_file := s\<rparr>)
     else if k = ''project'' then str_field (\<lambda>s c. c\<lparr>bg_project := s\<rparr>)
     else if k = ''env_file'' then str_field (\<lambda>s c. c\<lparr>bg_env_file := s\<rparr>)
     else if k = ''sudo'' then bool_field (\<lambda>b c. c\<lparr>bg_sudo := b\<rparr>)
     else if k = ''settle_secs'' then int_field (\<lambda>i c. c\<lparr>bg_settle_secs := i\<rparr>)
     else if k = ''health_timeout'' then int_field (\<lambda>i c. c\<lparr>bg_health_timeout := i\<rparr>)
     else if k = ''public_timeout'' then int_field (\<lambda>i c. c\<lparr>bg_public_timeout := i\<rparr>)
     else (\<lambda>j c. Some c))"

definition decodeBlueGreen :: "json_text \<Rightarrow> gostring \<Rightarrow> blue_green_config option" where
  "decodeBlueGreen jt raw = unmarshal jt blue_green_field zero_blue_green raw"

section \<open>RecreateConfig\<close>

record recreate_config =
  rc_service :: gostring
  rc_health_url :: gostring
  rc_public_url :: gostring
  rc_deploy_script :: gostring
  rc_rollback_script :: gostring

definition zero_recreate :: recreate_config where
  "zero_recreate =
    \<lparr>rc_service = [], rc_health_url = [], rc_public_url = [], rc_deploy_script = [],
     rc_rollback_script = []\<rparr>"

definition recreate_field :: "gostring \<Rightarrow> json \<Rightarrow> recreate_config \<Rightarrow> recreate_config option" where
  "recreate_field k =
    (if k = ''service'' then str_field (\<lambda>s c. c\<lparr>rc_service := s\<rparr>)
     else if k = ''health_url'' then str_field (\<lambda>s c. c\<lparr>rc_health_url := s\<rparr>)
     else if k = ''public_url'' then str_field (\<lambda>s c. c\<lparr>rc_public_url := s\<rparr>)
     else if k = ''deploy_script'' then str_field (\<lambda>s c. c\<lparr>rc_deploy_script := s\<rparr>)
     else if k = ''rollback_script'' then str_field (\<lambda>s c. c\<lparr>rc_rollback_script := s\<rparr>)
     else (\<lambda>j c. Some c))"

definition decodeRecreate :: "json_text \<Rightarrow> gostring \<Rightarrow> recreate_config option" where
  "decodeRecreate jt raw = unmarshal jt recreate_field zero_recreate raw"

section \<open>Encoding and decoding agree\<close>

definition recreate_json :: "recreate_config \<Rightarrow> json" where
  "recreate_json c = JObj
    [(''service'', JStr (rc_service c)), (''health_url'', JStr (rc_health_url c)),
     (''public_url'', JStr (rc_public_url c)), (''deploy_script'', JStr (rc_deploy_script c)),
     (''rollback_script'', JStr (rc_rollback_script c))]"

definition ascii_key :: "gostring \<Rightarrow> bool" where
  "ascii_key k = list_all (\<lambda>c. code c < 128 \<and> \<not> is_upper c) k"

lemma fold_name_key: "ascii_key k \<Longrightarrow> fold_name k = k"
proof (induction k)
  case (Cons c cs)
  then have "code c < 128" "\<not> is_upper c" "fold_name cs = cs" by (auto simp: ascii_key_def)
  have "\<not> code CHR 0xE2 < 128" "\<not> code CHR 0xC5 < 128" by simp_all
  then have "c \<noteq> CHR 0xE2" "c \<noteq> CHR 0xC5" using \<open>code c < 128\<close> by blast+
  then have "\<not> has_prefix (c # cs) [CHR 0xE2, CHR 0x84, CHR 0xAA]" "\<not> has_prefix (c # cs) [CHR 0xC5, CHR 0xBF]"
    by (simp_all add: has_prefix_def)
  moreover have "ascii_lower c = c" using \<open>\<not> is_upper c\<close> by (simp add: ascii_lower_def)
  ultimately show ?case using \<open>fold_name cs = cs\<close> by (simp only: fold_name.simps if_False)
qed simp

lemma recreate_keys:
  "fold_name ''service'' = ''service''" "fold_name ''health_url'' = ''health_url''"
  "fold_name ''public_url'' = ''public_url''" "fold_name ''deploy_script'' = ''deploy_script''"
  "fold_name ''rollback_script'' = ''rollback_script''"
  by (rule fold_name_key, simp add: ascii_key_def is_upper_def)+

lemma decode_recreate_fields:
  "recreate_field ''service'' (JStr s) c = Some (c\<lparr>rc_service := s\<rparr>)"
  "recreate_field ''health_url'' (JStr s) c = Some (c\<lparr>rc_health_url := s\<rparr>)"
  "recreate_field ''public_url'' (JStr s) c = Some (c\<lparr>rc_public_url := s\<rparr>)"
  "recreate_field ''deploy_script'' (JStr s) c = Some (c\<lparr>rc_deploy_script := s\<rparr>)"
  "recreate_field ''rollback_script'' (JStr s) c = Some (c\<lparr>rc_rollback_script := s\<rparr>)"
  by (simp_all add: recreate_field_def str_field_def)

lemma recreate_roundtrip:
  "jt raw = Some (recreate_json c) \<Longrightarrow> decodeRecreate jt raw = Some c"
  by (simp add: decodeRecreate_def unmarshal_def recreate_json_def recreate_keys
      decode_recreate_fields zero_recreate_def)

end
