(* ===== verification/Live_Target.thy ===== *)
theory Live_Target
  imports Go_Strings
begin

text \<open>
  \<open>internal/probe\<close>: the live colour of a blue-green service, read from the nginx
  configuration (nginx.go), and one health check (health.go).  A file is what opening
  and reading it gives: nothing, or its bytes with a flag for a read that fails after them.
\<close>

section \<open>bufio.Scanner on lines\<close>

type_synonym file_read = "(gostring \<times> bool) option"

definition scan_limit :: nat where "scan_limit = 65536"

definition drop_cr :: "gostring \<Rightarrow> gostring" where
  "drop_cr s = (case cut_suffix s [CHR 0x0D] of None \<Rightarrow> s | Some r \<Rightarrow> r)"

text \<open>The pieces between newlines; a last empty piece is no line.\<close>

definition raw_lines :: "gostring \<Rightarrow> gostring list" where
  "raw_lines s = (let ws = split_char newline s in if last ws = [] then butlast ws else ws)"

text \<open>The lines a \<open>bufio.Scanner\<close> yields, and whether it ends in an error.\<close>

fun scan_tokens :: "bool \<Rightarrow> gostring list \<Rightarrow> gostring list \<times> bool" where
  "scan_tokens failed [] = ([], failed)"
| "scan_tokens failed (l # ls) =
    (if length l \<ge> scan_limit then ([], True)
     else case scan_tokens failed ls of (ts, e) \<Rightarrow> (drop_cr l # ts, e))"

definition scan_lines :: "gostring \<times> bool \<Rightarrow> gostring list \<times> bool" where
  "scan_lines f = scan_tokens (snd f) (raw_lines (fst f))"

section \<open>The regular expression\<close>

definition re_space :: "char \<Rightarrow> bool" where
  "re_space c = (code c \<in> {9, 10, 12, 13, 32})"

text \<open>
  \<open>server\s+([^;]+);\<close> anchored here.  The white space is taken greedily; when the
  semicolon follows it at once the last blank is given back to the group.
\<close>

definition server_here :: "gostring \<Rightarrow> gostring option" where
  "server_here s =
    (if \<not> has_prefix s ''server'' then None
     else
      (let r = drop 6 s; ws = takeWhile re_space r; t = dropWhile re_space r in
       if ws = [] then None
       else case cut_char CHR '';'' t of
              None \<Rightarrow> None
            | Some (g, _) \<Rightarrow>
               (if g \<noteq> [] then Some g else if length ws \<ge> 2 then Some [last ws] else None)))"

text \<open>\<open>FindStringSubmatch\<close>: the leftmost match.\<close>

fun server_match :: "gostring \<Rightarrow> gostring option" where
  "server_match [] = None"
| "server_match (c # cs) =
    (case server_here (c # cs) of Some g \<Rightarrow> Some g | None \<Rightarrow> server_match cs)"

section \<open>LiveTarget\<close>

datatype probe_error = OpenFailed | MarkerNotFound | ReadFailed

fun live_in_lines :: "gostring \<Rightarrow> gostring list \<Rightarrow> bool \<Rightarrow> probe_error + gostring" where
  "live_in_lines marker [] failed = Inl (if failed then ReadFailed else MarkerNotFound)"
| "live_in_lines marker (l # ls) failed =
    (if \<not> contains l marker then live_in_lines marker ls failed
     else case server_match l of
            None \<Rightarrow> Inl MarkerNotFound
          | Some g \<Rightarrow> Inr (filter (\<lambda>c. c \<noteq> CHR '' '') g))"

definition LiveTarget :: "file_read \<Rightarrow> gostring \<Rightarrow> probe_error + gostring" where
  "LiveTarget conf marker =
    (case conf of
       None \<Rightarrow> Inl OpenFailed
     | Some f \<Rightarrow> (case scan_lines f of (ls, failed) \<Rightarrow> live_in_lines marker ls failed))"

section \<open>Health checks\<close>

definition healthyStatus :: int where "healthyStatus = 200"

record probe_result =
  healthy :: bool
  status_code :: int

text \<open>The reply of the HTTP client: an error or a status.\<close>

definition Check :: "(gostring \<Rightarrow> gostring + int) \<Rightarrow> gostring \<Rightarrow> gostring + probe_result" where
  "Check http target =
    (case http target of
       Inl e \<Rightarrow> Inl e
     | Inr status \<Rightarrow> Inr \<lparr>healthy = (status = healthyStatus), status_code = status\<rparr>)"

section \<open>Lemmas\<close>

lemma live_in_lines_skip:
  "\<forall>l\<in>set pre. \<not> contains l marker \<Longrightarrow>
    live_in_lines marker (pre @ ls) failed = live_in_lines marker ls failed"
  by (induction pre) auto

lemma live_in_lines_first:
  "live_in_lines marker ls failed =
    (case first_where (\<lambda>l. contains l marker) ls of
       None \<Rightarrow> Inl (if failed then ReadFailed else MarkerNotFound)
     | Some l \<Rightarrow> (case server_match l of None \<Rightarrow> Inl MarkerNotFound
                  | Some g \<Rightarrow> Inr (filter (\<lambda>c. c \<noteq> CHR '' '') g)))"
  by (induction ls) auto

lemma server_here_no_semicolon: "server_here s = Some g \<Longrightarrow> CHR '';'' \<notin> set g"
proof -
  assume a: "server_here s = Some g"
  have "c \<in> set (takeWhile re_space t) \<Longrightarrow> c \<noteq> CHR '';''" for c t
    by (auto dest: set_takeWhileD simp: re_space_def)
  then show ?thesis
    using a by (auto simp: server_here_def Let_def dest!: cut_char_SomeD split: if_splits option.splits)
      (metis last_in_set)
qed

lemma server_match_no_semicolon: "server_match s = Some g \<Longrightarrow> CHR '';'' \<notin> set g"
  by (induction s) (auto dest: server_here_no_semicolon split: option.splits)

lemma server_here_written:
  assumes "t \<noteq> []" "CHR '';'' \<notin> set t" "\<not> re_space (hd t)" "ws \<noteq> []" "\<forall>c\<in>set ws. re_space c"
  shows "server_here (''server'' @ ws @ t @ '';'' @ rest) = Some t"
proof -
  have d: "dropWhile re_space (ws @ t @ '';'' @ rest) = t @ '';'' @ rest"
    "takeWhile re_space (ws @ t @ '';'' @ rest) = ws"
    using assms by (cases t; simp add: dropWhile_append takeWhile_append)+
  have c: "cut_char CHR '';'' (t @ '';'' @ rest) = Some (t, rest)"
    using assms(2) cut_char_append by simp
  have p: "has_prefix (''server'' @ ws @ t @ '';'' @ rest) ''server''" by (simp only: has_prefix_append)
  have r: "drop 6 (''server'' @ ws @ t @ '';'' @ rest) = ws @ t @ '';'' @ rest" by simp
  show ?thesis
    unfolding server_here_def Let_def r d c using p assms(1,4) by simp
qed

lemma server_match_indent:
  assumes "CHR ''s'' \<notin> set ind" "server_here s = Some g"
  shows "server_match (ind @ s) = Some g"
  using assms(1)
proof (induction ind)
  case Nil
  have "s \<noteq> []" using assms(2) by (auto simp: server_here_def has_prefix_def)
  then show ?case using assms(2) by (cases s) auto
next
  case (Cons c cs)
  then have "server_here ((c # cs) @ s) = None" by (auto simp: server_here_def has_prefix_def)
  then show ?case using Cons by simp
qed

text \<open>A file written line by line is read back line by line.\<close>

definition unlines :: "gostring list \<Rightarrow> gostring" where
  "unlines ls = concat (map (\<lambda>l. l @ [newline]) ls)"

lemma split_char_line: "d \<notin> set l \<Longrightarrow> split_char d (l @ d # s) = l # split_char d s"
  by (induction l) auto

lemma split_unlines: "\<forall>l\<in>set ls. newline \<notin> set l \<Longrightarrow> split_char newline (unlines ls) = ls @ [[]]"
  unfolding unlines_def by (induction ls) (auto simp: split_char_line)

lemma raw_lines_unlines: "\<forall>l\<in>set ls. newline \<notin> set l \<Longrightarrow> raw_lines (unlines ls) = ls"
  by (simp add: raw_lines_def split_unlines Let_def)

definition plain_line :: "gostring \<Rightarrow> bool" where
  "plain_line l \<longleftrightarrow> newline \<notin> set l \<and> length l < scan_limit \<and> \<not> has_suffix l [CHR 0x0D]"

lemma scan_tokens_plain: "\<forall>l\<in>set ls. plain_line l \<Longrightarrow> scan_tokens b ls = (ls, b)"
proof (induction ls)
  case (Cons l ls)
  have "drop_cr l = l" using Cons.prems by (simp add: plain_line_def drop_cr_def cut_suffix_def)
  moreover have "\<not> scan_limit \<le> length l" using Cons.prems by (simp add: plain_line_def)
  ultimately show ?case using Cons by simp
qed simp

lemma scan_unlines: "\<forall>l\<in>set ls. plain_line l \<Longrightarrow> scan_lines (unlines ls, b) = (ls, b)"
proof -
  assume a: "\<forall>l\<in>set ls. plain_line l"
  then have "\<forall>l\<in>set ls. newline \<notin> set l" unfolding plain_line_def by blast
  then show ?thesis using a by (simp only: scan_lines_def fst_conv snd_conv raw_lines_unlines scan_tokens_plain)
qed

lemma filter_no_blank: "CHR '' '' \<notin> set t \<Longrightarrow> filter (\<lambda>c. c \<noteq> CHR '' '') t = t"
  by (induction t) auto

lemma LiveTarget_written:
  assumes "\<forall>l\<in>set (pre @ line # post). plain_line l"
    and "\<forall>l\<in>set pre. \<not> contains l marker" and "contains line marker"
    and "line = ind @ ''server'' @ ws @ t @ '';'' @ rest"
    and "CHR ''s'' \<notin> set ind" "ws \<noteq> []" "\<forall>c\<in>set ws. re_space c"
    and "t \<noteq> []" "\<forall>c\<in>set t. c \<noteq> CHR '';'' \<and> \<not> re_space c"
  shows "LiveTarget (Some (unlines (pre @ line # post), b)) marker = Inr t"
proof -
  have "re_space CHR '' ''" by (simp add: re_space_def)
  then have nb: "CHR '' '' \<notin> set t" using assms(9) by blast
  have here: "server_here (''server'' @ ws @ t @ '';'' @ rest) = Some t"
  proof (rule server_here_written)
    show "t \<noteq> []" "ws \<noteq> []" "\<forall>c\<in>set ws. re_space c" by fact+
    show "CHR '';'' \<notin> set t" using assms(9) by blast
    show "\<not> re_space (hd t)" using assms(8,9) hd_in_set by blast
  qed
  then have "server_match line = Some t" unfolding assms(4) by (rule server_match_indent [OF assms(5)])
  then show ?thesis
    unfolding LiveTarget_def option.case scan_unlines [OF assms(1)] prod.case
      live_in_lines_skip [OF assms(2)]
    using assms(3) nb by (simp add: filter_no_blank)
qed

text \<open>The live target is read back as it was written: in a file of ordinary lines whose first
  line with the marker says \<open>server TARGET;\<close>, indented and followed by anything, the
  result is TARGET.\<close>

theorem LiveTarget_roundtrip:
  assumes "\<forall>l\<in>set (pre @ (ind @ ''server'' @ ws @ t @ '';'' @ rest) # post). plain_line l"
    and "\<forall>l\<in>set pre. \<not> contains l marker"
    and "contains (ind @ ''server'' @ ws @ t @ '';'' @ rest) marker"
    and "CHR ''s'' \<notin> set ind" and "ws \<noteq> [] \<and> (\<forall>c\<in>set ws. re_space c)"
    and "t \<noteq> [] \<and> (\<forall>c\<in>set t. c \<noteq> CHR '';'' \<and> \<not> re_space c)"
  shows "LiveTarget (Some (unlines (pre @ (ind @ ''server'' @ ws @ t @ '';'' @ rest) # post), b)) marker
    = Inr t"
  using assms by (intro LiveTarget_written [OF assms(1-3) refl]) blast+

lemma LiveTarget_roundtrip_witness:
  "LiveTarget (Some (unlines [''upstream api {'', ''  server 10.0.0.1:80; # live'', ''}''], False)) ''# live''
    = Inr ''10.0.0.1:80''"
proof -
  have blanks: "re_space CHR '' ''" by (simp add: re_space_def)
  have plain: "\<forall>l\<in>set ([''upstream api {''] @ (''  '' @ ''server'' @ '' '' @ ''10.0.0.1:80'' @ '';'' @ '' # live'')
      # [''}'']). plain_line l"
    by (simp add: plain_line_def scan_limit_def has_suffix_def has_prefix_def)
  have first: "\<forall>l\<in>set [''upstream api {'']. \<not> contains l ''# live''"
    by (simp add: has_prefix_def)
  have mark: "contains (''  '' @ ''server'' @ '' '' @ ''10.0.0.1:80'' @ '';'' @ '' # live'') ''# live''"
    by (simp add: has_prefix_def)
  have "CHR ''s'' \<notin> set ''  ''" by simp
  moreover have "'' '' \<noteq> [] \<and> (\<forall>c\<in>set '' ''. re_space c)" using blanks by simp
  moreover have "''10.0.0.1:80'' \<noteq> [] \<and> (\<forall>c\<in>set ''10.0.0.1:80''. c \<noteq> CHR '';'' \<and> \<not> re_space c)"
    by (simp add: re_space_def)
  ultimately show ?thesis using LiveTarget_roundtrip [OF plain first mark, of False] by simp
qed

end
