(* ===== verification/Service_View.thy ===== *)
theory Service_View
  imports World Json_Config Live_Target
begin

text \<open>
  \<open>service.Inventory\<close> (service/deploy.go): the live state of the managed services,
  joined from the definitions, the running containers, the nginx configuration
  and direct health checks.
\<close>

section \<open>Containers\<close>

record container =
  ct_id :: gostring
  ct_name :: gostring
  ct_image :: gostring
  ct_image_id :: gostring
  ct_state :: gostring
  ct_status :: gostring
  ct_ports :: "gostring list"
  ct_labels :: "gostring \<rightharpoonup> gostring"

abbreviation LabelComposeProject :: gostring where
  "LabelComposeProject \<equiv> ''com.docker.compose.project''"
abbreviation LabelComposeService :: gostring where
  "LabelComposeService \<equiv> ''com.docker.compose.service''"

text \<open>A missing key of a Go map of strings reads as the empty string.\<close>

definition label :: "container \<Rightarrow> gostring \<Rightarrow> gostring" where
  "label c k = (case ct_labels c k of None \<Rightarrow> [] | Some v \<Rightarrow> v)"

definition belongsTo :: "container \<Rightarrow> gostring \<Rightarrow> gostring list \<Rightarrow> bool" where
  "belongsTo c project want \<longleftrightarrow>
    label c LabelComposeProject = project \<and> label c LabelComposeService \<in> set want"

definition shortIDLen :: nat where "shortIDLen = 12"

definition shortID :: "gostring \<Rightarrow> gostring" where
  "shortID i = (if length i > shortIDLen then take shortIDLen i else i)"

record container_view =
  cv_id :: gostring
  cv_name :: gostring
  cv_image :: gostring
  cv_sha :: gostring
  cv_state :: gostring
  cv_status :: gostring
  cv_ports :: "gostring list"

definition container_view_of :: "container \<Rightarrow> container_view" where
  "container_view_of c =
    \<lparr>cv_id = shortID (ct_id c), cv_name = ct_name c, cv_image = ct_image c,
     cv_sha = shortID (trim_prefix (ct_image_id c) ''sha256:''), cv_state = ct_state c,
     cv_status = ct_status c, cv_ports = ct_ports c\<rparr>"

definition matchContainers :: "service \<Rightarrow> gostring list \<Rightarrow> container list \<Rightarrow> container_view list" where
  "matchContainers def names cs =
    map container_view_of (filter (\<lambda>c. belongsTo c (svc_project def) names) cs)"

definition runningServices :: "gostring \<Rightarrow> container list \<Rightarrow> gostring list" where
  "runningServices project cs =
    filter (\<lambda>s. s \<noteq> [])
      (map (\<lambda>c. label c LabelComposeService) (filter (\<lambda>c. label c LabelComposeProject = project) cs))"

section \<open>Live colour and health\<close>

abbreviation colorBlue :: gostring where "colorBlue \<equiv> ''blue''"
abbreviation colorGreen :: gostring where "colorGreen \<equiv> ''green''"
abbreviation colorLegacy :: gostring where "colorLegacy \<equiv> ''legacy''"
abbreviation colorUnknown :: gostring where "colorUnknown \<equiv> ''unknown''"
abbreviation HealthUnknown :: gostring where "HealthUnknown \<equiv> ''unknown''"
abbreviation HealthHealthy :: gostring where "HealthHealthy \<equiv> ''healthy''"
abbreviation HealthUnhealthy :: gostring where "HealthUnhealthy \<equiv> ''unhealthy''"

text \<open>What the outside shows: files by path, HTTP checks by URL, and the JSON grammar.\<close>

record outside =
  os_json :: json_text
  os_file :: "gostring \<Rightarrow> file_read"
  os_check :: "gostring \<Rightarrow> gostring + probe_result"

definition liveColor :: "'y outside_scheme \<Rightarrow> blue_green_config \<Rightarrow> gostring" where
  "liveColor env cfg =
    (case LiveTarget (os_file env (bg_nginx_conf cfg)) (bg_marker cfg) of
       Inl _ \<Rightarrow> colorUnknown
     | Inr t \<Rightarrow>
        (if t = bg_blue_target cfg then colorBlue
         else if t = bg_green_target cfg then colorGreen
         else if t = bg_legacy_target cfg then colorLegacy
         else colorUnknown))"

definition zero_result :: probe_result where "zero_result = \<lparr>healthy = False, status_code = 0\<rparr>"

definition probeAll :: "'y outside_scheme \<Rightarrow> gostring list \<Rightarrow> gostring \<Rightarrow> probe_result" where
  "probeAll env urls u =
    (if u \<in> set urls then (case os_check env u of Inl _ \<Rightarrow> zero_result | Inr r \<Rightarrow> r) else zero_result)"

definition colorHealth :: "probe_result \<Rightarrow> gostring" where
  "colorHealth r = (if healthy r then HealthHealthy else HealthUnhealthy)"

definition serviceHealth :: "gostring \<Rightarrow> probe_result \<Rightarrow> probe_result \<Rightarrow> gostring" where
  "serviceHealth live blue green =
    (if live = colorBlue then colorHealth blue
     else if live = colorGreen then colorHealth green else HealthUnknown)"

record color_view =
  col_name :: gostring
  col_live :: bool
  col_health :: gostring
  col_target :: gostring
  col_url :: gostring

record service_view =
  sv_id :: gostring
  sv_name :: gostring
  sv_strategy :: gostring
  sv_live :: gostring
  sv_health :: gostring
  sv_colors :: "color_view list"
  sv_containers :: "container_view list"

definition blueGreenView ::
  "'y outside_scheme \<Rightarrow> service \<Rightarrow> container list \<Rightarrow> err + service_view" where
  "blueGreenView env def cs =
    (case decodeBlueGreen (os_json env) (svc_config def) of
       None \<Rightarrow> Inl (ErrOther ''invalid blue-green config'')
     | Some cfg \<Rightarrow>
        (let live = liveColor env cfg;
             running = runningServices (svc_project def) cs;
             targets = [(colorBlue, bg_blue_service cfg, bg_blue_url cfg),
                        (colorGreen, bg_green_service cfg, bg_green_url cfg)];
             urls = map (\<lambda>(_, _, u). u) (filter (\<lambda>(n, s, _). live = n \<or> s \<in> set running) targets);
             results = probeAll env urls
         in Inr
          \<lparr>sv_id = svc_id def, sv_name = svc_name def, sv_strategy = svc_strategy def,
           sv_live = live,
           sv_health = serviceHealth live (results (bg_blue_url cfg)) (results (bg_green_url cfg)),
           sv_colors =
            [\<lparr>col_name = colorBlue, col_live = (live = colorBlue),
              col_health = colorHealth (results (bg_blue_url cfg)),
              col_target = bg_blue_target cfg, col_url = bg_blue_url cfg\<rparr>,
             \<lparr>col_name = colorGreen, col_live = (live = colorGreen),
              col_health = colorHealth (results (bg_green_url cfg)),
              col_target = bg_green_target cfg, col_url = bg_green_url cfg\<rparr>],
           sv_containers = matchContainers def [bg_blue_service cfg, bg_green_service cfg] cs\<rparr>))"

definition recreateView ::
  "'y outside_scheme \<Rightarrow> service \<Rightarrow> container list \<Rightarrow> err + service_view" where
  "recreateView env def cs =
    (case decodeRecreate (os_json env) (svc_config def) of
       None \<Rightarrow> Inl (ErrOther ''invalid recreate config'')
     | Some cfg \<Rightarrow>
        (let health = (case os_check env (rc_health_url cfg) of
                         Inl _ \<Rightarrow> HealthUnhealthy
                       | Inr r \<Rightarrow> if \<not> healthy r then HealthUnhealthy else HealthHealthy)
         in Inr
          \<lparr>sv_id = svc_id def, sv_name = svc_name def, sv_strategy = svc_strategy def,
           sv_live = [], sv_health = health, sv_colors = [],
           sv_containers = matchContainers def [rc_service cfg] cs\<rparr>))"

definition view :: "'y outside_scheme \<Rightarrow> container list \<Rightarrow> service \<Rightarrow> err + service_view" where
  "view env cs def =
    (if svc_strategy def = StrategyBlueGreen then blueGreenView env def cs
     else if svc_strategy def = StrategyRecreate then recreateView env def cs
     else Inl (ErrOther ''service has unknown strategy''))"

fun views :: "'y outside_scheme \<Rightarrow> container list \<Rightarrow> service list \<Rightarrow> err + service_view list" where
  "views env cs [] = Inr []"
| "views env cs (d # ds) =
    (case view env cs d of
       Inl e \<Rightarrow> Inl e
     | Inr v \<Rightarrow> (case views env cs ds of Inl e \<Rightarrow> Inl e | Inr vs \<Rightarrow> Inr (v # vs)))"

text \<open>\<open>docker.List\<close> is a parameter: the containers, or an error.\<close>

definition Services ::
  "'y outside_scheme \<Rightarrow> container list option \<Rightarrow> ('z world_scheme, err, service_view list) prog" where
  "Services env listed =
    bindE (map_error (\<lambda>_. ErrOther ''loading services'') svc_all) (\<lambda>defs.
    bindE (of_option (ErrOther ''listing containers'') listed) (\<lambda>cs.
      case views env cs defs of Inl e \<Rightarrow> throw e | Inr vs \<Rightarrow> ret vs))"

definition serviceNames :: "'y outside_scheme \<Rightarrow> service \<Rightarrow> err + gostring list" where
  "serviceNames env def =
    (if svc_strategy def = StrategyBlueGreen then
       (case decodeBlueGreen (os_json env) (svc_config def) of
          None \<Rightarrow> Inl (ErrOther ''invalid blue-green config'')
        | Some cfg \<Rightarrow> Inr [bg_blue_service cfg, bg_green_service cfg])
     else if svc_strategy def = StrategyRecreate then
       (case decodeRecreate (os_json env) (svc_config def) of
          None \<Rightarrow> Inl (ErrOther ''invalid recreate config'')
        | Some cfg \<Rightarrow> Inr [rc_service cfg])
     else Inl (ErrOther ''service has unknown strategy''))"

section \<open>Lemmas\<close>

lemma shortID_length: "length (shortID i) \<le> shortIDLen"
  by (simp add: shortID_def)

lemma views_Inr: "views env cs ds = Inr vs \<Longrightarrow> list_all2 (\<lambda>d v. view env cs d = Inr v) ds vs"
  by (induction ds arbitrary: vs) (auto split: sum.splits)

lemma view_identity:
  "view env cs d = Inr v \<Longrightarrow> sv_id v = svc_id d \<and> sv_name v = svc_name d \<and> sv_strategy v = svc_strategy d"
  by (auto simp: view_def blueGreenView_def recreateView_def Let_def split: if_splits option.splits)

text \<open>At most one colour is live, and the service's health is that colour's.\<close>

lemma blueGreenView_live:
  assumes "blueGreenView env def cs = Inr v"
  shows "length (filter col_live (sv_colors v)) \<le> 1 \<and>
    (\<forall>c\<in>set (sv_colors v). col_live c \<longrightarrow> col_name c = sv_live v \<and> col_health c = sv_health v)"
  using assms
  by (auto simp: blueGreenView_def Let_def serviceHealth_def split: option.splits)

text \<open>In the view of a blue-green service at most one colour is live, it is the colour
  the service names, and the service's health is that colour's.\<close>

theorem blueGreenView_one_live:
  assumes "view env cs def = Inr v" and "svc_strategy def = StrategyBlueGreen"
  shows "length (filter col_live (sv_colors v)) \<le> 1 \<and>
    (\<forall>c\<in>set (sv_colors v). col_live c \<longrightarrow> col_name c = sv_live v \<and> col_health c = sv_health v) \<and>
    (sv_live v \<notin> {colorBlue, colorGreen} \<longrightarrow> sv_health v = HealthUnknown)"
proof -
  have "blueGreenView env def cs = Inr v" using assms by (simp add: view_def)
  then show ?thesis
    by (auto simp: blueGreenView_def Let_def serviceHealth_def split: option.splits)
qed

lemma blueGreenView_one_live_witness:
  "\<exists>v. view \<lparr>os_json = (\<lambda>_. Some JNull), os_file = (\<lambda>_. None), os_check = (\<lambda>_. Inl [])\<rparr> []
      \<lparr>svc_id = ''a'', svc_name = ''a'', svc_strategy = ''bluegreen'', svc_project = [], svc_dir = [],
       svc_config = ''null''\<rparr> = Inr v \<and> sv_health v = ''unknown''"
proof -
  let ?env = "\<lparr>os_json = (\<lambda>_. Some JNull), os_file = (\<lambda>_. None), os_check = (\<lambda>_. Inl [])\<rparr>"
  let ?def = "\<lparr>svc_id = ''a'', svc_name = ''a'', svc_strategy = ''bluegreen'', svc_project = [],
    svc_dir = [], svc_config = ''null''\<rparr>"
  obtain v where v: "view ?env [] ?def = Inr v" "sv_live v = ''unknown''"
    by (simp add: view_def blueGreenView_def decodeBlueGreen_def unmarshal_def liveColor_def LiveTarget_def
        Let_def)
  have "svc_strategy ?def = StrategyBlueGreen" by simp
  from blueGreenView_one_live [OF v(1) this] v show ?thesis by auto
qed

end
