(* ===== verification/Cutover.thy ===== *)
theory Cutover
  imports Deploy_History Service_View
begin

unbundle bit_operations_syntax

text \<open>
  \<open>service.Cutover\<close> (service/cutover.go), the deploy engine: validating and
  claiming a run, resolving its target, running the script, probing the public URL while it
  runs, verifying the target, and recording the outcome.  The state adds the map \<open>runs\<close>
  of services with a run in flight.  \<open>os/exec\<close>, the file system, HTTP and docker are
  parameters; what they show during one run is a \<open>run_obs\<close>.
\<close>

record cutover_world = world +
  runs :: "gostring set"

record operation =
  op_def :: service
  op_script :: gostring
  op_args :: "gostring list"
  op_sha_service :: gostring
  op_health_url :: gostring
  op_public_url :: gostring
  op_target :: gostring
  op_actor :: gostring
  op_type :: gostring
  op_verify :: bool

text \<open>\<open>os.Stat\<close>: nothing, or whether it is a directory, and the mode bits.\<close>

record host = outside +
  os_stat :: "gostring \<Rightarrow> (bool \<times> nat) option"

definition checkExecutable :: "host \<Rightarrow> gostring \<Rightarrow> bool" where
  "checkExecutable env path =
    (case os_stat env path of
       None \<Rightarrow> False
     | Some (dir, mode) \<Rightarrow> \<not> dir \<and> mode AND 73 \<noteq> 0)"

section \<open>The run guard\<close>

definition claimRun :: "gostring \<Rightarrow> ('z cutover_world_scheme, err, unit) prog" where
  "claimRun sid =
    bindE (gets (\<lambda>w. sid \<in> runs w)) (\<lambda>busy.
    andthen (guardE (\<not> busy) (ErrConflict ''deploy already running''))
     (modify (\<lambda>w. w\<lparr>runs := insert sid (runs w)\<rparr>)))"

definition Active :: "gostring \<Rightarrow> 'z cutover_world_scheme \<Rightarrow> bool" where
  "Active sid w = (sid \<in> runs w)"

definition releaseRun :: "gostring \<Rightarrow> 'z cutover_world_scheme \<Rightarrow> 'z cutover_world_scheme" where
  "releaseRun sid w = w\<lparr>runs := runs w - {sid}\<rparr>"

section \<open>Resolution\<close>

abbreviation TargetAuto :: gostring where "TargetAuto \<equiv> ''auto''"

definition idle_color :: "blue_green_config \<Rightarrow> gostring \<Rightarrow> gostring option" where
  "idle_color cfg live =
    (if live = bg_blue_target cfg then Some colorGreen
     else if live = bg_green_target cfg then Some colorBlue else None)"

definition resolve :: "host \<Rightarrow> blue_green_config \<Rightarrow> gostring \<Rightarrow> err + gostring" where
  "resolve env cfg target0 =
    (if target0 \<notin> {[], TargetAuto, colorBlue, colorGreen} then Inl (ErrInvalidInput ''target'')
     else
      (let target = (if target0 = [] then TargetAuto else target0) in
       if bg_cutover_script cfg = [] then Inl (ErrInvalidInput ''cutover is not configured'')
       else if \<not> checkExecutable env (bg_cutover_script cfg) then Inl (ErrInvalidInput ''cutover script'')
       else if target \<noteq> TargetAuto then Inr target
       else
         (case LiveTarget (os_file env (bg_nginx_conf cfg)) (bg_marker cfg) of
            Inl _ \<Rightarrow> Inl (ErrInvalidInput ''live color unknown'')
          | Inr live \<Rightarrow>
             (case idle_color cfg live of
                Some c \<Rightarrow> Inr c
              | None \<Rightarrow> Inl (ErrInvalidInput ''cannot auto-resolve target'')))))"

definition resolveRollback :: "host \<Rightarrow> blue_green_config \<Rightarrow> err + gostring" where
  "resolveRollback env cfg =
    (if bg_cutover_script cfg = [] then Inl (ErrInvalidInput ''rollback is not configured'')
     else if \<not> checkExecutable env (bg_cutover_script cfg) then Inl (ErrInvalidInput ''rollback script'')
     else
       (case LiveTarget (os_file env (bg_nginx_conf cfg)) (bg_marker cfg) of
          Inl _ \<Rightarrow> Inl (ErrInvalidInput ''live color unknown'')
        | Inr live \<Rightarrow>
           (case idle_color cfg live of
              Some c \<Rightarrow> Inr c
            | None \<Rightarrow> Inl (ErrInvalidInput ''rollback supports blue/green only''))))"

definition resolveRecreate :: "host \<Rightarrow> recreate_config \<Rightarrow> gostring \<Rightarrow> err + unit" where
  "resolveRecreate env cfg script =
    (if script = [] then Inl (ErrInvalidInput ''not configured'')
     else if \<not> checkExecutable env script then Inl (ErrInvalidInput ''script'')
     else if rc_service cfg = [] then Inl (ErrInvalidInput ''requires service'')
     else if rc_health_url cfg = [] then Inl (ErrInvalidInput ''requires health_url'')
     else Inr ())"

definition of_sum :: "'e + 'a \<Rightarrow> ('s, 'e, 'a) prog" where
  "of_sum x = (case x of Inl e \<Rightarrow> throw e | Inr a \<Rightarrow> ret a)"

section \<open>Script arguments\<close>

definition recreateArgs :: "service \<Rightarrow> recreate_config \<Rightarrow> gostring list" where
  "recreateArgs def cfg =
    [''--service'', rc_service cfg, ''--project'', svc_project def, ''--compose-dir'', svc_dir def]"

definition colorService :: "blue_green_config \<Rightarrow> gostring \<Rightarrow> gostring" where
  "colorService cfg target =
    (if target = colorBlue then bg_blue_service cfg else bg_green_service cfg)"

definition colorURL :: "blue_green_config \<Rightarrow> gostring \<Rightarrow> gostring" where
  "colorURL cfg target = (if target = colorBlue then bg_blue_url cfg else bg_green_url cfg)"

definition opt_arg :: "bool \<Rightarrow> gostring list \<Rightarrow> gostring list" where
  "opt_arg b as = (if b then as else [])"

definition cutoverArgs :: "service \<Rightarrow> blue_green_config \<Rightarrow> gostring \<Rightarrow> gostring list" where
  "cutoverArgs def cfg target =
    [''--target'', target,
     ''--compose-dir'', svc_dir def,
     ''--nginx-conf'', bg_nginx_conf cfg,
     ''--blue-server'', bg_blue_target cfg,
     ''--green-server'', bg_green_target cfg,
     ''--legacy-server'', bg_legacy_target cfg,
     ''--blue-url'', bg_blue_url cfg,
     ''--green-url'', bg_green_url cfg,
     ''--public-url'', bg_public_url cfg]
    @ opt_arg (bg_compose_file cfg \<noteq> []) [''--compose-file'', bg_compose_file cfg]
    @ opt_arg (bg_project cfg \<noteq> []) [''--project'', bg_project cfg]
    @ opt_arg (bg_env_file cfg \<noteq> []) [''--env-file'', bg_env_file cfg]
    @ (if bg_sudo cfg then [''--sudo''] else [''--no-sudo''])
    @ opt_arg (bg_settle_secs cfg > 0) [''--settle-seconds'', itoa (bg_settle_secs cfg)]
    @ opt_arg (bg_health_timeout cfg > 0) [''--health-timeout'', itoa (bg_health_timeout cfg)]
    @ opt_arg (bg_public_timeout cfg > 0) [''--public-timeout'', itoa (bg_public_timeout cfg)]"

section \<open>Starting a run\<close>

text \<open>
  A start returns the resolved target and the operation it launched: the goroutine
  \<open>execute\<close> runs it later.
\<close>

definition begin_cutover ::
  "host \<Rightarrow> service \<Rightarrow> blue_green_config \<Rightarrow> gostring \<Rightarrow> gostring
    \<Rightarrow> ('z cutover_world_scheme, err, gostring \<times> operation) prog" where
  "begin_cutover env def cfg target actor =
    bindE (of_sum (resolve env cfg target)) (\<lambda>resolved.
    andthen (claimRun (svc_id def))
     (ret (resolved,
       \<lparr>op_def = def, op_script = bg_cutover_script cfg, op_args = cutoverArgs def cfg resolved,
        op_sha_service = colorService cfg resolved, op_health_url = [],
        op_public_url = bg_public_url cfg, op_target = resolved, op_actor = actor,
        op_type = DeployCutover, op_verify = False\<rparr>)))"

definition beginRollback ::
  "host \<Rightarrow> service \<Rightarrow> blue_green_config \<Rightarrow> gostring
    \<Rightarrow> ('z cutover_world_scheme, err, gostring \<times> operation) prog" where
  "beginRollback env def cfg actor =
    bindE (of_sum (resolveRollback env cfg)) (\<lambda>resolved.
    andthen (claimRun (svc_id def))
     (ret (resolved,
       \<lparr>op_def = def, op_script = bg_cutover_script cfg, op_args = cutoverArgs def cfg resolved,
        op_sha_service = colorService cfg resolved, op_health_url = colorURL cfg resolved,
        op_public_url = bg_public_url cfg, op_target = resolved, op_actor = actor,
        op_type = DeployRollback, op_verify = True\<rparr>)))"

definition launchRecreate ::
  "service \<Rightarrow> recreate_config \<Rightarrow> gostring \<Rightarrow> gostring \<Rightarrow> gostring
    \<Rightarrow> ('z cutover_world_scheme, err, gostring \<times> operation) prog" where
  "launchRecreate def cfg script dtype actor =
    andthen (claimRun (svc_id def))
     (ret (rc_service cfg,
       \<lparr>op_def = def, op_script = script, op_args = recreateArgs def cfg,
        op_sha_service = rc_service cfg, op_health_url = rc_health_url cfg,
        op_public_url = rc_public_url cfg, op_target = rc_service cfg, op_actor = actor,
        op_type = dtype, op_verify = True\<rparr>))"

definition beginDeploy ::
  "host \<Rightarrow> service \<Rightarrow> recreate_config \<Rightarrow> gostring
    \<Rightarrow> ('z cutover_world_scheme, err, gostring \<times> operation) prog" where
  "beginDeploy env def cfg actor =
    andthen (of_sum (resolveRecreate env cfg (rc_deploy_script cfg)))
     (launchRecreate def cfg (rc_deploy_script cfg) DeployDeploy actor)"

definition beginRecreateRollback ::
  "host \<Rightarrow> service \<Rightarrow> recreate_config \<Rightarrow> gostring
    \<Rightarrow> ('z cutover_world_scheme, err, gostring \<times> operation) prog" where
  "beginRecreateRollback env def cfg actor =
    andthen (of_sum (resolveRecreate env cfg (rc_rollback_script cfg)))
     (launchRecreate def cfg (rc_rollback_script cfg) DeployRollback actor)"

definition Start ::
  "host \<Rightarrow> gostring \<Rightarrow> gostring \<Rightarrow> gostring \<Rightarrow> ('z cutover_world_scheme, err, gostring \<times> operation) prog" where
  "Start env sid target actor =
    bindE (svc_get sid) (\<lambda>def.
    andthen (guardE (svc_strategy def = StrategyBlueGreen)
       (ErrInvalidInput ''cutover requires a blue-green service''))
    (bindE (of_option (ErrInvalidInput ''cutover config is invalid'')
       (decodeBlueGreen (os_json env) (svc_config def))) (\<lambda>cfg.
     begin_cutover env def cfg target actor)))"

definition StartDeploy ::
  "host \<Rightarrow> gostring \<Rightarrow> gostring \<Rightarrow> ('z cutover_world_scheme, err, gostring \<times> operation) prog" where
  "StartDeploy env sid actor =
    bindE (svc_get sid) (\<lambda>def.
    andthen (guardE (svc_strategy def = StrategyRecreate)
       (ErrInvalidInput ''deploy requires a recreate service''))
    (bindE (of_option (ErrInvalidInput ''deploy config is invalid'')
       (decodeRecreate (os_json env) (svc_config def))) (\<lambda>cfg.
     beginDeploy env def cfg actor)))"

definition StartRollback ::
  "host \<Rightarrow> gostring \<Rightarrow> gostring \<Rightarrow> ('z cutover_world_scheme, err, gostring \<times> operation) prog" where
  "StartRollback env sid actor =
    bindE (svc_get sid) (\<lambda>def.
    if svc_strategy def = StrategyBlueGreen then
      bindE (of_option (ErrInvalidInput ''rollback config is invalid'')
         (decodeBlueGreen (os_json env) (svc_config def))) (\<lambda>cfg.
       beginRollback env def cfg actor)
    else if svc_strategy def = StrategyRecreate then
      bindE (of_option (ErrInvalidInput ''rollback config is invalid'')
         (decodeRecreate (os_json env) (svc_config def))) (\<lambda>cfg.
       beginRecreateRollback env def cfg actor)
    else throw (ErrInvalidInput ''service has unknown strategy''))"

section \<open>The line writer\<close>

text \<open>\<open>Write\<close> appends to the buffer and emits its complete lines one by one.\<close>

function emit_lines :: "gostring \<Rightarrow> gostring list \<times> gostring" where
  "emit_lines buf =
    (case cut_char newline buf of
       None \<Rightarrow> ([], buf)
     | Some (l, rest) \<Rightarrow> (case emit_lines rest of (ls, r) \<Rightarrow> (l # ls, r)))"
  by pat_completeness auto
termination by (relation "measure length") (auto dest: cut_char_SomeD)

declare emit_lines.simps [simp del]

definition lw_write :: "gostring \<Rightarrow> gostring \<Rightarrow> gostring list \<times> gostring" where
  "lw_write buf data = emit_lines (buf @ data)"

definition lw_flush :: "gostring \<Rightarrow> gostring list" where
  "lw_flush buf = (if buf = [] then [] else [buf])"

text \<open>The lines \<open>runScript\<close> emits for the chunks the script wrote, the final flush included.\<close>

fun lw_run :: "gostring \<Rightarrow> gostring list \<Rightarrow> gostring list" where
  "lw_run buf [] = lw_flush buf"
| "lw_run buf (d # ds) = (case lw_write buf d of (ls, r) \<Rightarrow> ls @ lw_run r ds)"

section \<open>One run\<close>

text \<open>
  What a run meets: the output of the script in chunks and how it exited, the time of
  each emitted line, the samples of the probe loop (time, health check, latency), the
  prober for the verification (absent, or the check of a URL), the container list, and
  the readings of the clock.
\<close>

record run_obs =
  ro_chunks :: "gostring list"
  ro_exit :: "gostring option"
  ro_line_at :: "nat \<Rightarrow> instant"
  ro_samples :: "(instant \<times> (gostring + probe_result) \<times> int) list"
  ro_prober :: "(gostring \<Rightarrow> gostring + probe_result) option"
  ro_listed :: "container list option"
  ro_started :: instant
  ro_finished :: instant
  ro_now_deploy :: instant
  ro_now_notify :: instant
  ro_now_audit :: instant

record event_types =
  et_started :: gostring
  et_progress :: gostring
  et_finished :: gostring

definition deployEvents :: "gostring \<Rightarrow> event_types" where
  "deployEvents dtype =
    (if dtype = DeployRollback
     then \<lparr>et_started = ''rollback_started'', et_progress = ''rollback_progress'',
           et_finished = ''rollback_finished''\<rparr>
     else \<lparr>et_started = ''deploy_started'', et_progress = ''deploy_progress'',
           et_finished = ''deploy_finished''\<rparr>)"

definition auditAction :: "gostring \<Rightarrow> gostring" where
  "auditAction dtype =
    (if dtype = DeployRollback then ''rollback''
     else if dtype = DeployDeploy then ''deploy'' else ''cutover'')"

definition auditResult :: "gostring \<Rightarrow> gostring" where
  "auditResult outcome = (if outcome = DeployFailure then AuditFailure else AuditSuccess)"

definition sample_ok :: "gostring + probe_result \<Rightarrow> bool" where
  "sample_ok r = (case r of Inl _ \<Rightarrow> False | Inr p \<Rightarrow> healthy p)"

definition sampleProbe ::
  "gostring \<Rightarrow> instant \<times> (gostring + probe_result) \<times> int \<Rightarrow> ('z cutover_world_scheme, err, unit) prog" where
  "sampleProbe sid smp =
    (case smp of (tick, res, latency) \<Rightarrow>
      andthen (attempt (probe_insert tick
        \<lparr>pr_id = 0, pr_service = sid, pr_ok = sample_ok res,
         pr_status = (case res of Inl _ \<Rightarrow> 0 | Inr p \<Rightarrow> status_code p),
         pr_latency_ms = latency, pr_at = tick\<rparr>))
      (ret ()))"

text \<open>
  The probe loop and its stop function: no URL, no samples and no downtime; otherwise the failed
  samples times the interval in seconds, in \<open>float64\<close>.
\<close>

definition failed_samples :: "run_obs \<Rightarrow> int" where
  "failed_samples obs = int (length (filter (\<lambda>(_, r, _). \<not> sample_ok r) (ro_samples obs)))"

definition startProbeLoop ::
  "duration \<Rightarrow> run_obs \<Rightarrow> operation \<Rightarrow> ('z cutover_world_scheme, err, rat option) prog" where
  "startProbeLoop interval obs op =
    (if op_public_url op = [] then ret None
     else andthen (for_each (sampleProbe (svc_id (op_def op))) (ro_samples obs))
       (ret (Some (float_mult (float_of (failed_samples obs)) (duration_seconds interval)))))"

definition verifyTarget :: "run_obs \<Rightarrow> operation \<Rightarrow> bool" where
  "verifyTarget obs op =
    (case ro_prober obs of
       None \<Rightarrow> False
     | Some check \<Rightarrow> (case check (op_health_url op) of Inl _ \<Rightarrow> False | Inr r \<Rightarrow> healthy r))"

definition progress_events :: "run_obs \<Rightarrow> operation \<Rightarrow> event list" where
  "progress_events obs op =
    (let ls = lw_run [] (ro_chunks obs) in
     map (\<lambda>i. \<lparr>ev_type = et_progress (deployEvents (op_type op)), ev_service = svc_id (op_def op),
                ev_message = ls ! i, ev_at = ro_line_at obs i\<rparr>) [0 ..< length ls])"

definition run_verdict :: "run_obs \<Rightarrow> operation \<Rightarrow> gostring \<times> gostring" where
  "run_verdict obs op =
    (case ro_exit obs of
       Some e \<Rightarrow> (DeployFailure, ''deploy script failed: '' @ e)
     | None \<Rightarrow>
        (if \<not> op_verify op then (DeploySuccess, [])
         else if \<not> verifyTarget obs op
         then (DeployFailure, op_type op @ '' target '' @ op_target op @ '' failed post-'' @ op_type op
                 @ '' health check'')
         else (DeploySuccess, [])))"

definition runAndVerify ::
  "duration \<Rightarrow> run_obs \<Rightarrow> operation
    \<Rightarrow> ('z cutover_world_scheme, err, gostring \<times> gostring \<times> rat option) prog" where
  "runAndVerify interval obs op =
    andthen (for_each emit_event (progress_events obs op))
    (bindE (startProbeLoop interval obs op) (\<lambda>downtime.
      case run_verdict obs op of (outcome, notes) \<Rightarrow> ret (outcome, notes, downtime)))"

abbreviation unknownSHA :: gostring where "unknownSHA \<equiv> ''unknown''"

definition liveSHA :: "run_obs \<Rightarrow> operation \<Rightarrow> gostring" where
  "liveSHA obs op =
    (case ro_listed obs of
       None \<Rightarrow> unknownSHA
     | Some cs \<Rightarrow>
        (case first_where (\<lambda>c. belongsTo c (svc_project (op_def op)) [op_sha_service op]) cs of
           None \<Rightarrow> unknownSHA
         | Some c \<Rightarrow> ct_image_id c))"

definition recordDeploy ::
  "run_obs \<Rightarrow> operation \<Rightarrow> gostring \<Rightarrow> gostring \<Rightarrow> gostring \<Rightarrow> rat option
    \<Rightarrow> ('z cutover_world_scheme, err, unit) prog" where
  "recordDeploy obs op sha outcome notes downtime =
    andthen (attempt (deploys_Record (ro_now_deploy obs)
      \<lparr>dr_service = svc_id (op_def op), dr_sha = sha, dr_actor = op_actor op, dr_type = op_type op,
       dr_outcome = outcome, dr_notes = notes, dr_started = Some (ro_started obs),
       dr_finished = Some (ro_finished obs), dr_downtime = downtime\<rparr>))
    (ret ())"

definition arrow :: gostring where
  "arrow = [CHR '' '', CHR 0xE2, CHR 0x86, CHR 0x92, CHR '' '']"

definition finishOperation ::
  "run_obs \<Rightarrow> operation \<Rightarrow> gostring \<Rightarrow> gostring \<Rightarrow> ('z cutover_world_scheme, err, unit) prog" where
  "finishOperation obs op outcome notes =
    (let sid = svc_id (op_def op);
         summary = op_type op @ '' to '' @ op_target op @ '': '' @ outcome;
         title = op_type op @ '' '' @ outcome @ '': '' @ sid @ arrow @ op_target op;
         detail = summary @ (if notes \<noteq> [] then ''; '' @ notes else [])
     in
     andthen (emit_event \<lparr>ev_type = et_finished (deployEvents (op_type op)), ev_service = sid,
                          ev_message = summary, ev_at = ro_finished obs\<rparr>)
    (andthen (attempt (notification_insert (ro_now_notify obs) sid ''deploy'' title notes))
    (andthen (attempt (audit_Record (ro_now_audit obs)
        \<lparr>ar_service = sid, ar_actor = op_actor op, ar_action = auditAction (op_type op),
         ar_result = auditResult outcome, ar_detail = detail\<rparr>))
     (ret ()))))"

text \<open>The clock never shows the zero time of year 1.\<close>

definition clock_ok :: "run_obs \<Rightarrow> bool" where
  "clock_ok obs \<longleftrightarrow> \<not> is_zero_time (ro_now_deploy obs) \<and> \<not> is_zero_time (ro_now_audit obs)"

text \<open>The body of \<open>execute\<close>, and its deferred release.\<close>

definition execute_body ::
  "duration \<Rightarrow> run_obs \<Rightarrow> operation \<Rightarrow> ('z cutover_world_scheme, err, unit) prog" where
  "execute_body interval obs op =
    andthen (emit_event
      \<lparr>ev_type = et_started (deployEvents (op_type op)), ev_service = svc_id (op_def op),
       ev_message = op_type op @ '' to '' @ op_target op @ '' started'', ev_at = ro_started obs\<rparr>)
    (bindE (runAndVerify interval obs op) (\<lambda>(outcome, notes, downtime).
      andthen (recordDeploy obs op (liveSHA obs op) outcome notes downtime)
       (finishOperation obs op outcome notes)))"

definition execute ::
  "duration \<Rightarrow> run_obs \<Rightarrow> operation \<Rightarrow> ('z cutover_world_scheme, err, unit) prog" where
  "execute interval obs op =
    andthen (execute_body interval obs op) (modify (releaseRun (svc_id (op_def op))))"

section \<open>The engine as a whole\<close>

text \<open>
  The goroutines in flight, each with a mark that its body is over: requests start runs or
  are refused, bodies run in any order and among any other requests, and a run ends
  with its release.  Every request sees a host of its own (files change in between).
\<close>

type_synonym engine = "cutover_world \<times> (operation \<times> bool) list"

inductive engine_step :: "engine \<Rightarrow> engine \<Rightarrow> bool" where
  start: "Start env sid target actor w = (Inr (c, op), w') \<Longrightarrow>
    engine_step (w, ops) (w', ops @ [(op, False)])"
| deploy: "StartDeploy env sid actor w = (Inr (c, op), w') \<Longrightarrow>
    engine_step (w, ops) (w', ops @ [(op, False)])"
| rollback: "StartRollback env sid actor w = (Inr (c, op), w') \<Longrightarrow>
    engine_step (w, ops) (w', ops @ [(op, False)])"
| refused_start: "Start env sid target actor w = (Inl e, w') \<Longrightarrow> engine_step (w, ops) (w', ops)"
| refused_deploy: "StartDeploy env sid actor w = (Inl e, w') \<Longrightarrow> engine_step (w, ops) (w', ops)"
| refused_rollback: "StartRollback env sid actor w = (Inl e, w') \<Longrightarrow> engine_step (w, ops) (w', ops)"
| body: "clock_ok obs \<Longrightarrow> execute_body interval obs op w = (r, w') \<Longrightarrow>
    engine_step (w, ops @ (op, False) # ops') (w', ops @ (op, True) # ops')"
| finish: "engine_step (w, ops @ (op, True) # ops') (releaseRun (svc_id (op_def op)) w, ops @ ops')"

inductive engine_reach :: "engine \<Rightarrow> bool" where
  boot: "runs w = {} \<Longrightarrow> engine_reach (w, [])"
| step: "engine_reach s \<Longrightarrow> engine_step s t \<Longrightarrow> engine_reach t"

inductive_cases engine_stepE: "engine_step s t"

end
