(* ===== verification/Cutover_Laws.thy ===== *)
theory Cutover_Laws
  imports Cutover Effects
begin

text \<open>
  What the deploy engine promises: one run per service at a time, targets that are never
  the live colour, output lines that do not depend on how the script's writes were
  cut, and a record of every run.
\<close>

section \<open>The line writer\<close>

lemma emit_lines_append:
  "emit_lines (a @ b) =
    (case emit_lines a of (ls, r) \<Rightarrow> (case emit_lines (r @ b) of (ls', r') \<Rightarrow> (ls @ ls', r')))"
proof (induction a rule: emit_lines.induct)
  case (1 a)
  show ?case
  proof (cases "cut_char newline a")
    case None
    then have "emit_lines a = ([], a)" by (subst emit_lines.simps) simp
    then show ?thesis by (simp split: prod.split)
  next
    case (Some p)
    then obtain l rest where p: "p = (l, rest)" by (cases p)
    with Some have a: "a = l @ newline # rest" "newline \<notin> set l" by (auto dest: cut_char_SomeD)
    have cut: "cut_char newline (a @ b) = Some (l, rest @ b)"
      using a by (simp add: cut_char_append)
    have IH: "emit_lines (rest @ b) = (case emit_lines rest of (ls, r) \<Rightarrow>
        (case emit_lines (r @ b) of (ls', r') \<Rightarrow> (ls @ ls', r')))"
      using "1.IH" Some p by blast
    have "emit_lines (a @ b) = (case emit_lines (rest @ b) of (ls, r) \<Rightarrow> (l # ls, r))"
      by (subst emit_lines.simps) (simp add: cut)
    moreover have "emit_lines a = (case emit_lines rest of (ls, r) \<Rightarrow> (l # ls, r))"
      by (subst emit_lines.simps) (simp add: Some p)
    ultimately show ?thesis using IH by (simp split: prod.splits)
  qed
qed

lemma emit_lines_split:
  "emit_lines s = (butlast (split_char newline s), last (split_char newline s))"
proof (induction s rule: emit_lines.induct)
  case (1 s)
  show ?case
  proof (cases "cut_char newline s")
    case None
    then have "newline \<notin> set s" by (simp add: cut_char_None)
    then have "split_char newline s = [s]" by (induction s) auto
    then show ?thesis using None by (subst emit_lines.simps) simp
  next
    case (Some p)
    then obtain l rest where p: "p = (l, rest)" by (cases p)
    with Some have a: "s = l @ newline # rest" "newline \<notin> set l" by (auto dest: cut_char_SomeD)
    have "split_char newline s = l # split_char newline rest"
      using a by (simp add: split_char_line)
    moreover have "emit_lines s = (case emit_lines rest of (ls, r) \<Rightarrow> (l # ls, r))"
      by (subst emit_lines.simps) (simp add: Some p)
    ultimately show ?thesis using 1 Some p by simp
  qed
qed

lemma emit_lines_rest: "emit_lines s = (ls, r) \<Longrightarrow> newline \<notin> set r"
  using split_char_no_sep [of "last (split_char newline s)" newline s]
  by (auto simp: emit_lines_split)

lemma lw_run_emit: "lw_run buf ds = (case emit_lines (buf @ concat ds) of (ls, r) \<Rightarrow> ls @ lw_flush r)"
  if "newline \<notin> set buf"
  using that
proof (induction ds arbitrary: buf)
  case Nil
  then have "emit_lines buf = ([], buf)"
    by (subst emit_lines.simps) (simp add: cut_char_None [THEN iffD2])
  then show ?case by simp
next
  case (Cons d ds)
  obtain ls r where e: "emit_lines (buf @ d) = (ls, r)" by (cases "emit_lines (buf @ d)")
  have "lw_run buf (d # ds) = ls @ lw_run r ds" by (simp add: lw_write_def e)
  also have "\<dots> = ls @ (case emit_lines (r @ concat ds) of (ls', r') \<Rightarrow> ls' @ lw_flush r')"
    by (simp add: Cons.IH emit_lines_rest [OF e])
  also have "\<dots> = (case emit_lines ((buf @ d) @ concat ds) of (ls, r) \<Rightarrow> ls @ lw_flush r)"
    by (subst emit_lines_append) (simp add: e split: prod.split)
  finally show ?case by simp
qed

lemma lw_run_lines: "lw_run [] ds = raw_lines (concat ds)"
proof -
  have "split_char newline (concat ds) \<noteq> []" by simp
  then show ?thesis
    by (simp add: lw_run_emit emit_lines_split raw_lines_def Let_def lw_flush_def append_butlast_last_id)
qed

section \<open>The run guard\<close>

interpretation service_runs: run_guard claimRun releaseRun Active
  by unfold_locales
    (auto simp: claimRun_def releaseRun_def Active_def run_defs)

section \<open>Resolution\<close>

lemma idle_color_idle:
  "LiveTarget (os_file env (bg_nginx_conf cfg)) (bg_marker cfg) = Inr live \<Longrightarrow>
    idle_color cfg live = Some c \<Longrightarrow>
    c \<in> {colorBlue, colorGreen} \<and> liveColor env cfg \<in> {colorBlue, colorGreen} \<and>
    liveColor env cfg \<noteq> c"
  by (auto simp: idle_color_def liveColor_def split: if_splits)

lemma resolve_Inr:
  assumes "resolve env cfg target = Inr c"
  shows "c \<in> {colorBlue, colorGreen} \<and> bg_cutover_script cfg \<noteq> [] \<and>
    checkExecutable env (bg_cutover_script cfg) \<and>
    (target \<in> {colorBlue, colorGreen} \<longrightarrow> c = target) \<and>
    (target \<notin> {colorBlue, colorGreen} \<longrightarrow>
       liveColor env cfg \<in> {colorBlue, colorGreen} - {c})"
  using assms idle_color_idle [of env cfg]
  by (auto simp: resolve_def Let_def split: if_splits sum.splits option.splits)

lemma resolve_Inl: "resolve env cfg target = Inl e \<Longrightarrow> \<exists>m. e = ErrInvalidInput m"
  by (auto simp: resolve_def Let_def split: if_splits sum.splits option.splits)

lemma resolveRollback_Inr:
  assumes "resolveRollback env cfg = Inr c"
  shows "c \<in> {colorBlue, colorGreen} \<and> bg_cutover_script cfg \<noteq> [] \<and>
    checkExecutable env (bg_cutover_script cfg) \<and>
    liveColor env cfg \<in> {colorBlue, colorGreen} - {c}"
  using assms idle_color_idle [of env cfg]
  by (auto simp: resolveRollback_def split: if_splits sum.splits option.splits)

text \<open>A rollback goes where an automatic cutover would.\<close>

lemma rollback_is_auto:
  "resolveRollback env cfg = Inr c \<longleftrightarrow> resolve env cfg TargetAuto = Inr c"
  by (auto simp: resolve_def resolveRollback_def Let_def split: if_splits sum.splits option.splits)

section \<open>Starting\<close>

text \<open>The states a start may leave: the same, or with the run claimed.\<close>

definition launched :: "gostring \<Rightarrow> 'z cutover_world_scheme \<Rightarrow> err + (gostring \<times> operation)
    \<Rightarrow> 'z cutover_world_scheme \<Rightarrow> bool" where
  "launched sid w r t =
    (case r of
       Inl e \<Rightarrow> only_oracle w t
     | Inr (target, op) \<Rightarrow>
         only_oracle (w\<lparr>runs := insert sid (runs w)\<rparr>) t \<and> sid \<notin> runs w \<and>
         svc_id (op_def op) = sid \<and> op_target op = target \<and> op_type op \<noteq> DeployManual \<and>
         op_type op \<in> set deploy_types_sql \<and> service_row sid w = Some (op_def op))"

lemma wp_of_sum [wp_rules]: "wp (of_sum x) Q s = Q x s"
  by (simp add: of_sum_def wp_rules split: sum.split)

lemma wp_claimRun [wp_rules]:
  "wp (claimRun sid) Q w =
    (if sid \<in> runs w then Q (Inl (ErrConflict ''deploy already running'')) w
     else Q (Inr ()) (w\<lparr>runs := insert sid (runs w)\<rparr>))"
  by (simp add: claimRun_def wp_rules)

lemma service_row_id: "service_row sid w = Some d \<Longrightarrow> svc_id d = sid"
  unfolding service_row_def by (auto dest: first_where_SomeD)

lemma claim_launched:
  assumes "only_oracle w t" "service_row sid w = Some (op_def op)" "op_target op = target"
    "op_type op \<in> {DeployCutover, DeployRollback, DeployDeploy}"
  shows "wp (andthen (claimRun sid) (ret (target, op))) (launched sid w) t"
proof -
  from assms(1) obtain fs where t: "t = w\<lparr>faults := fs\<rparr>" by (auto simp: only_oracle_ex)
  show ?thesis
    using assms(2-4) service_row_id [OF assms(2)]
    by (auto simp: t wp_rules launched_def deploy_types_sql_def only_oracle_def)
qed

lemma throw_launched: "only_oracle w t \<Longrightarrow> launched sid w (Inl e) t"
  by (simp add: launched_def)

lemma begin_launched:
  assumes t: "only_oracle w t" and d: "service_row sid w = Some def"
  shows "wp (begin_cutover env def cfg target actor) (launched sid w) t"
    "wp (beginRollback env def cfg actor) (launched sid w) t"
    "wp (beginDeploy env def rcfg actor) (launched sid w) t"
    "wp (beginRecreateRollback env def rcfg actor) (launched sid w) t"
  using service_row_id [OF d] d
  by (auto simp: begin_cutover_def beginRollback_def beginDeploy_def beginRecreateRollback_def
      launchRecreate_def wp_bindE wp_of_sum wp_andthen [of "of_sum _"] onE_def throw_launched [OF t]
      split: sum.splits intro!: claim_launched [OF t])

lemma wp_launched_get:
  assumes "\<And>def t. only_oracle w t \<Longrightarrow> service_row sid w = Some def \<Longrightarrow> wp (k def) (launched sid w) t"
  shows "wp (bindE (svc_get sid) k) (launched sid w) w"
  unfolding wp_bindE
  by (rule wp_mono [OF svc_get_wp]) (auto simp: onE_def assms throw_launched split: sum.splits)

lemma Start_launched: "wp (Start env sid target actor) (launched sid w) w"
  unfolding Start_def
  by (rule wp_launched_get)
    (auto simp: wp_andthen [of "guardE _ _"] wp_guardE wp_bindE [of "of_option _ _"] wp_of_option
      throw_launched begin_launched split: option.splits)

lemma StartDeploy_launched: "wp (StartDeploy env sid actor) (launched sid w) w"
  unfolding StartDeploy_def
  by (rule wp_launched_get)
    (auto simp: wp_andthen [of "guardE _ _"] wp_guardE wp_bindE [of "of_option _ _"] wp_of_option
      throw_launched begin_launched split: option.splits)

lemma StartRollback_launched: "wp (StartRollback env sid actor) (launched sid w) w"
  unfolding StartRollback_def
  by (rule wp_launched_get)
    (auto simp: wp_throw wp_bindE [of "of_option _ _"] wp_of_option
      throw_launched begin_launched split: option.splits)

section \<open>Executing\<close>

text \<open>Everything but the probe samples and the oracle is as it was.\<close>

definition same_but_probes :: "'z cutover_world_scheme \<Rightarrow> 'z cutover_world_scheme \<Rightarrow> bool" where
  "same_but_probes w t = (t = w\<lparr>probes := probes t, faults := faults t\<rparr>)"

lemma same_but_probes_ex: "same_but_probes w t \<longleftrightarrow> (\<exists>ps fs. t = w\<lparr>probes := ps, faults := fs\<rparr>)"
  by (auto simp: same_but_probes_def)

lemma same_but_probes_trans: "same_but_probes w t \<Longrightarrow> same_but_probes t u \<Longrightarrow> same_but_probes w u"
proof -
  assume "same_but_probes w t" "same_but_probes t u"
  then obtain ps fs qs gs where "t = w\<lparr>probes := ps, faults := fs\<rparr>" "u = t\<lparr>probes := qs, faults := gs\<rparr>"
    by (auto simp: same_but_probes_ex)
  then show ?thesis by (simp add: same_but_probes_def)
qed

lemma probe_insert_wp:
  "wp (probe_insert now p) (\<lambda>r t. same_but_probes w t) w"
  unfolding probe_insert_def Let_def
  by (simp add: wp_rules, rule conjI; intro impI wp_stmt_all; simp add: wp_rules same_but_probes_def;
      intro impI conjI wp_stmt_all; simp add: wp_rules same_but_probes_def)

lemma samples_wp:
  "wp (for_each (sampleProbe sid) ss) (onE never (\<lambda>_ t. same_but_probes w t)) w"
proof (induction ss arbitrary: w)
  case Nil
  then show ?case by (simp add: wp_rules same_but_probes_def)
next
  case (Cons x xs)
  obtain moment res lat where x: "x = (moment, res, lat)" by (cases x)
  show ?case
    unfolding for_each.simps x wp_andthen
    apply (simp add: sampleProbe_def wp_rules)
    apply (rule wp_mono [OF probe_insert_wp])
    apply (simp add: wp_ret)
    apply (rule wp_mono [OF Cons.IH])
    apply (auto simp: onE_def split: sum.splits dest: same_but_probes_trans)
    done
qed

lemma wp_emit: "wp (andthen (emit_event e) n) Q w = wp n Q (w\<lparr>events := events w @ [e]\<rparr>)"
  by (simp add: wp_rules emit_event_def)

lemma emit_all: "wp (for_each emit_event es) Q w = Q (Inr ()) (w\<lparr>events := events w @ es\<rparr>)"
  by (induction es arbitrary: w) (simp_all add: wp_rules emit_event_def)

definition deploy_row :: "run_obs \<Rightarrow> operation \<Rightarrow> gostring \<Rightarrow> gostring \<Rightarrow> rat option \<Rightarrow> deploy_record" where
  "deploy_row obs op outcome notes downtime =
    \<lparr>dr_service = svc_id (op_def op), dr_sha = liveSHA obs op, dr_actor = op_actor op,
     dr_type = op_type op, dr_outcome = outcome, dr_notes = notes,
     dr_started = Some (ro_started obs), dr_finished = Some (ro_finished obs),
     dr_downtime = downtime\<rparr>"

definition run_downtime :: "duration \<Rightarrow> run_obs \<Rightarrow> operation \<Rightarrow> rat option" where
  "run_downtime interval obs op =
    (if op_public_url op = [] then None else Some (float_mult (float_of (failed_samples obs)) (duration_seconds interval)))"

definition run_summary :: "run_obs \<Rightarrow> operation \<Rightarrow> gostring" where
  "run_summary obs op = op_type op @ '' to '' @ op_target op @ '': '' @ fst (run_verdict obs op)"

definition run_title :: "run_obs \<Rightarrow> operation \<Rightarrow> gostring" where
  "run_title obs op = op_type op @ '' '' @ fst (run_verdict obs op) @ '': '' @ svc_id (op_def op)
     @ arrow @ op_target op"

definition run_detail :: "run_obs \<Rightarrow> operation \<Rightarrow> gostring" where
  "run_detail obs op = run_summary obs op @
     (if snd (run_verdict obs op) \<noteq> [] then ''; '' @ snd (run_verdict obs op) else [])"

definition run_events :: "run_obs \<Rightarrow> operation \<Rightarrow> event list" where
  "run_events obs op =
    \<lparr>ev_type = et_started (deployEvents (op_type op)), ev_service = svc_id (op_def op),
     ev_message = op_type op @ '' to '' @ op_target op @ '' started'', ev_at = ro_started obs\<rparr>
    # progress_events obs op @
    [\<lparr>ev_type = et_finished (deployEvents (op_type op)), ev_service = svc_id (op_def op),
      ev_message = run_summary obs op, ev_at = ro_finished obs\<rparr>]"

definition the_deploy :: "duration \<Rightarrow> run_obs \<Rightarrow> operation \<Rightarrow> deploy" where
  "the_deploy interval obs op =
    deploy_entry (ro_now_deploy obs)
      (deploy_row obs op (fst (run_verdict obs op)) (snd (run_verdict obs op)) (run_downtime interval obs op))"

definition the_notification :: "run_obs \<Rightarrow> operation \<Rightarrow> notification" where
  "the_notification obs op =
    new_notification (ro_now_notify obs) (svc_id (op_def op)) ''deploy'' (run_title obs op)
      (snd (run_verdict obs op))"

definition the_audit :: "run_obs \<Rightarrow> operation \<Rightarrow> audit_record" where
  "the_audit obs op =
    \<lparr>ar_service = svc_id (op_def op), ar_actor = op_actor op, ar_action = auditAction (op_type op),
     ar_result = auditResult (fst (run_verdict obs op)), ar_detail = run_detail obs op\<rparr>"

lemma recordDeploy_wp:
  assumes "\<not> is_zero_time (ro_now_deploy obs)"
  shows "wp (recordDeploy obs op (liveSHA obs op) outcome notes downtime)
    (onE never (\<lambda>_ t. only_oracle w t \<or>
       only_oracle (with_deploy (deploy_entry (ro_now_deploy obs) (deploy_row obs op outcome notes downtime)) w) t)) w"
  unfolding recordDeploy_def wp_andthen wp_attempt deploy_row_def [symmetric]
  by (rule wp_mono [OF deploys_Record_wp [OF assms]])
    (auto simp: onE_def wp_ret never_def split: sum.splits)

text \<open>Any run, on any faults: one start and one finish event around the output, at most
  one row of each kind, and the service is free again.\<close>

definition run_done ::
  "duration \<Rightarrow> run_obs \<Rightarrow> operation \<Rightarrow> 'z cutover_world_scheme \<Rightarrow> 'z cutover_world_scheme \<Rightarrow> bool" where
  "run_done interval obs op w t \<longleftrightarrow>
    events t = events w @ run_events obs op \<and>
    runs t = runs w - {svc_id (op_def op)} \<and> services t = services w \<and>
    deploys t \<in> {deploys w, deploys (with_deploy (the_deploy interval obs op) w)} \<and>
    notifications t \<in> {notifications w, notifications (with_notification (the_notification obs op) w)} \<and>
    audits t \<in> {audits w, audits (with_audit (audit_entry (ro_now_audit obs) (the_audit obs op)) w)}"

lemma only_oracle_more:
  "only_oracle w t \<Longrightarrow> runs t = runs w"
  by (auto simp: only_oracle_ex)

lemma with_fields:
  "deploys (with_audit a w) = deploys w" "deploys (with_notification n w) = deploys w"
  "notifications (with_audit a w) = notifications w" "notifications (with_deploy d w) = notifications w"
  "audits (with_deploy d w) = audits w" "audits (with_notification n w) = audits w"
  "events (with_deploy d w) = events w" "events (with_notification n w) = events w"
  "events (with_audit a w) = events w" "services (with_deploy d w) = services w"
  "services (with_notification n w) = services w" "services (with_audit a w) = services w"
  by (simp_all add: with_audit_def with_notification_def with_deploy_def)

lemma with_runs:
  fixes w :: "'z cutover_world_scheme"
  shows "runs (with_audit a w) = runs w" "runs (with_notification n w) = runs w"
    "runs (with_deploy d w) = runs w"
  by (simp_all add: with_audit_def with_notification_def with_deploy_def)

lemma with_same:
  "deploys (with_deploy d w) = t_insert (\<lambda>i r. r\<lparr>dp_id := i\<rparr>) d (deploys w)"
  "notifications (with_notification n w) = t_insert (\<lambda>i r. r\<lparr>nt_id := i\<rparr>) n (notifications w)"
  "audits (with_audit a w) = t_insert (\<lambda>i r. r\<lparr>au_id := i\<rparr>) a (audits w)"
  by (simp_all add: with_audit_def with_notification_def with_deploy_def)

lemmas with_simps = with_fields with_runs with_same

lemma attempt_notification_wp:
  "wp (attempt (notification_insert now sid kind title body))
    (onE never (\<lambda>_ t. only_oracle w t \<or>
       only_oracle (with_notification (new_notification now sid kind title body) w) t)) w"
  unfolding wp_attempt
  by (rule wp_mono [OF notification_insert_wp]) (auto simp: onE_def split: sum.splits)

lemma attempt_audit_wp:
  assumes "\<not> is_zero_time now"
  shows "wp (attempt (audit_Record now rec))
    (onE never (\<lambda>_ t. only_oracle w t \<or> only_oracle (with_audit (audit_entry now rec) w) t)) w"
  unfolding wp_attempt
  by (rule wp_mono [OF audit_Record_wp [OF assms]]) (auto simp: onE_def split: sum.splits)

text \<open>After the finish event: what the notification and the audit may leave.\<close>

definition finished_in ::
  "run_obs \<Rightarrow> operation \<Rightarrow> 'z cutover_world_scheme \<Rightarrow> 'z cutover_world_scheme \<Rightarrow> bool" where
  "finished_in obs op w t \<longleftrightarrow>
    events t = events w @ [\<lparr>ev_type = et_finished (deployEvents (op_type op)),
       ev_service = svc_id (op_def op), ev_message = run_summary obs op, ev_at = ro_finished obs\<rparr>] \<and>
    runs t = runs w \<and> services t = services w \<and> deploys t = deploys w \<and>
    notifications t \<in> {notifications w, notifications (with_notification (the_notification obs op) w)} \<and>
    audits t \<in> {audits w, audits (with_audit (audit_entry (ro_now_audit obs) (the_audit obs op)) w)}"

lemma only_oracle_all:
  fixes w :: "'z cutover_world_scheme"
  shows "only_oracle w t \<Longrightarrow> events t = events w \<and> runs t = runs w \<and> services t = services w \<and>
    deploys t = deploys w \<and> notifications t = notifications w \<and> audits t = audits w"
  by (auto simp: only_oracle_ex)

lemma finishOperation_wp:
  assumes now: "\<not> is_zero_time (ro_now_audit obs)" and v: "run_verdict obs op = (outcome, notes)"
  shows "wp (finishOperation obs op outcome notes)
    (onE never (\<lambda>_ t. finished_in obs op w t)) w"
proof -
  have aud: "\<lparr>ar_service = svc_id (op_def op), ar_actor = op_actor op, ar_action = auditAction (op_type op),
      ar_result = auditResult outcome,
      ar_detail = (op_type op @ '' to '' @ op_target op @ '': '' @ outcome) @
         (if notes \<noteq> [] then ''; '' @ notes else [])\<rparr> = the_audit obs op"
    by (simp add: the_audit_def run_detail_def run_summary_def v)
  have nt: "new_notification (ro_now_notify obs) (svc_id (op_def op)) ''deploy''
      (op_type op @ '' '' @ outcome @ '': '' @ svc_id (op_def op) @ arrow @ op_target op) notes
      = the_notification obs op"
    by (simp add: the_notification_def run_title_def v)
  let ?w1 = "w\<lparr>events := events w @ [\<lparr>ev_type = et_finished (deployEvents (op_type op)),
       ev_service = svc_id (op_def op), ev_message = run_summary obs op, ev_at = ro_finished obs\<rparr>]\<rparr>"
  have last: "wp (andthen (attempt (audit_Record (ro_now_audit obs) (the_audit obs op))) (ret ()))
      (onE never (\<lambda>_ t. finished_in obs op w t)) t"
    if "only_oracle ?w1 t \<or> only_oracle (with_notification (the_notification obs op) ?w1) t" for t
  proof (rule wp_then_ok [OF attempt_audit_wp [OF now]])
    fix r u
    assume "only_oracle t u \<or> only_oracle (with_audit (audit_entry (ro_now_audit obs) (the_audit obs op)) t) u"
    with that show "wp (ret ()) (onE never (\<lambda>_ t. finished_in obs op w t)) u"
      by (auto simp: wp_ret finished_in_def with_simps dest!: only_oracle_all)
  qed
  show ?thesis
    unfolding finishOperation_def Let_def aud
    apply (simp only: wp_emit)
    apply (rule wp_then_ok [OF attempt_notification_wp])
    apply (rule last)
    apply (simp add: nt [symmetric] run_summary_def v)
    done
qed

lemma startProbeLoop_wp:
  "wp (startProbeLoop interval obs op)
    (onE never (\<lambda>d t. d = run_downtime interval obs op \<and> same_but_probes w t)) w"
proof (cases "op_public_url op = []")
  case True
  then show ?thesis by (simp add: startProbeLoop_def run_downtime_def wp_ret same_but_probes_def)
next
  case False
  then show ?thesis
    unfolding startProbeLoop_def run_downtime_def
    by simp (rule wp_then_ok [OF samples_wp], simp add: wp_ret)
qed

lemma runAndVerify_wp:
  assumes v: "run_verdict obs op = (outcome, notes)"
  shows "wp (runAndVerify interval obs op)
    (onE never (\<lambda>x t. x = (outcome, notes, run_downtime interval obs op) \<and>
       same_but_probes (w\<lparr>events := events w @ progress_events obs op\<rparr>) t)) w"
  unfolding runAndVerify_def wp_andthen emit_all onE_simps
  by (rule wp_bind_ok [OF startProbeLoop_wp]) (simp add: v wp_ret)

lemma same_but_probes_all:
  "same_but_probes w t \<Longrightarrow> events t = events w \<and> runs t = runs w \<and> services t = services w \<and>
    deploys t = deploys w \<and> notifications t = notifications w \<and> audits t = audits w"
  by (auto simp: same_but_probes_ex)

lemma deploy_row_recorded:
  fixes w :: "'z cutover_world_scheme"
  assumes "only_oracle w t \<or> only_oracle (with_deploy d w) t"
  shows "events t = events w \<and> runs t = runs w \<and> services t = services w \<and>
    deploys t \<in> {deploys w, deploys (with_deploy d w)} \<and> notifications t = notifications w \<and>
    audits t = audits w"
  using assms
proof
  assume "only_oracle w t"
  from only_oracle_all [OF this] show ?thesis by simp
next
  assume "only_oracle (with_deploy d w) t"
  from only_oracle_all [OF this] show ?thesis by (simp add: with_fields with_runs)
qed

lemma released_fields:
  "events (releaseRun sid w) = events w" "services (releaseRun sid w) = services w"
  "deploys (releaseRun sid w) = deploys w" "notifications (releaseRun sid w) = notifications w"
  "audits (releaseRun sid w) = audits w" "runs (releaseRun sid w) = runs w - {sid}"
  by (simp_all add: releaseRun_def)

lemma run_done_steps:
  assumes "same_but_probes (w\<lparr>events := events w @ [e], events :=
        events (w\<lparr>events := events w @ [e]\<rparr>) @ progress_events obs op\<rparr>) t1"
    and "only_oracle t1 t2 \<or> only_oracle (with_deploy (the_deploy interval obs op) t1) t2"
    and "finished_in obs op t2 t3"
    and "run_events obs op = e # progress_events obs op @ [f]"
  shows "run_done interval obs op w (releaseRun (svc_id (op_def op)) t3)"
proof -
  have 1: "events t1 = (events w @ [e]) @ progress_events obs op" "runs t1 = runs w"
    "services t1 = services w" "deploys t1 = deploys w" "notifications t1 = notifications w"
    "audits t1 = audits w"
    using same_but_probes_all [OF assms(1)] by simp_all
  note 2 = deploy_row_recorded [OF assms(2)]
  note 3 = assms(3) [unfolded finished_in_def]
  have f: "events t3 = events w @ run_events obs op"
    using 1 2 3 assms(4) by (simp add: run_events_def)
  have d: "deploys t3 \<in> {deploys w, deploys (with_deploy (the_deploy interval obs op) w)}"
    using 1(4) 2 3 by (simp add: with_same)
  have r: "runs t3 = runs w" "services t3 = services w" using 1 2 3 by simp_all
  have nts: "notifications t2 = notifications w" "audits t2 = audits w" using 1 2 by simp_all
  show ?thesis
    unfolding run_done_def released_fields
    using f d r 3 nts by (simp only: with_same simp_thms)
qed

lemma execute_flat:
  "execute interval obs op =
    andthen (emit_event
      \<lparr>ev_type = et_started (deployEvents (op_type op)), ev_service = svc_id (op_def op),
       ev_message = op_type op @ '' to '' @ op_target op @ '' started'', ev_at = ro_started obs\<rparr>)
    (bindE (runAndVerify interval obs op) (\<lambda>(outcome, notes, downtime).
      andthen (recordDeploy obs op (liveSHA obs op) outcome notes downtime)
     (andthen (finishOperation obs op outcome notes)
      (modify (releaseRun (svc_id (op_def op)))))))"
  by (simp add: execute_def execute_body_def andthen_def bindE_assoc split_def)

lemma execute_wp:
  assumes ck: "clock_ok obs"
  shows "wp (execute interval obs op) (onE never (\<lambda>_ t. run_done interval obs op w t)) w"
proof -
  obtain outcome nts where v: "run_verdict obs op = (outcome, nts)" by (cases "run_verdict obs op")
  have ck': "\<not> is_zero_time (ro_now_deploy obs)" "\<not> is_zero_time (ro_now_audit obs)"
    using ck by (auto simp: clock_ok_def)
  show ?thesis
    unfolding execute_flat
    apply (simp only: wp_emit)
    apply (rule wp_bind_ok [OF runAndVerify_wp [OF v]])
    apply (clarsimp simp only: prod.case)
    apply (rule wp_then_ok [OF recordDeploy_wp [OF ck'(1)]])
    apply (rule wp_then_ok [OF finishOperation_wp [OF ck'(2) v]])
    apply (simp only: wp_modify onE_simps)
    apply (erule run_done_steps)
      apply (simp only: the_deploy_def v fst_conv snd_conv)
     apply assumption
    apply (simp add: run_events_def)
    done
qed

section \<open>A run without faults leaves exactly one row of each kind\<close>

definition quiet :: "'z sqldb_scheme \<Rightarrow> bool" where "quiet w = (faults w = [])"

lemma keeps_quiet_stmt: "keeps quiet (stmt e)"
  by (auto simp: keeps_def stmt_def quiet_def split: list.splits)

lemma keeps_quiet_samples: "keeps quiet (for_each (sampleProbe sid) ss)"
proof -
  have upd: "quiet w \<Longrightarrow> quiet (w\<lparr>probes := ps\<rparr>)" for w :: "'a cutover_world_scheme" and ps
    by (simp add: quiet_def)
  have ins: "keeps quiet (probe_insert now p :: ('a cutover_world_scheme, err, int) prog)" for now p
    unfolding probe_insert_def Let_def
    by (intro keeps_rules keeps_quiet_stmt upd; assumption)
  have "keeps quiet (sampleProbe sid x :: ('a cutover_world_scheme, err, unit) prog)" for x
    unfolding sampleProbe_def by (cases x) (simp, intro keeps_rules ins)
  then show ?thesis by (intro keeps_for_each)
qed

definition op_ok :: "run_obs \<Rightarrow> operation \<Rightarrow> 'z world_scheme \<Rightarrow> bool" where
  "op_ok obs op w \<longleftrightarrow>
    service_row (svc_id (op_def op)) w \<noteq> None \<and>
    op_type op \<in> {DeployCutover, DeployRollback, DeployDeploy} \<and> op_actor op \<noteq> [] \<and>
    liveSHA obs op \<noteq> [] \<and> ro_started obs \<le> ro_finished obs"

lemma verdict_outcome: "fst (run_verdict obs op) \<in> {DeploySuccess, DeployFailure}"
  by (auto simp: run_verdict_def split: option.splits)

lemma go_quot_nonneg: "0 \<le> a \<Longrightarrow> 0 < b \<Longrightarrow> 0 \<le> go_quot a b"
  by (simp add: go_quot_def pos_imp_zdiv_nonneg_iff sgn_if)

lemma deploy_row_valid:
  assumes "op_ok obs op w" "run_verdict obs op = (outcome, nts)"
  shows "deploy_valid (deploy_row obs op outcome nts d)"
proof -
  have "0 \<le> time_sub (ro_finished obs) (ro_started obs)"
    using assms(1) by (simp add: op_ok_def time_sub_def int64_defs)
  then show ?thesis
    using assms verdict_outcome [of obs op]
    by (auto simp: deploy_valid_def deploy_row_def op_ok_def deploy_secs_def go_quot_nonneg)
qed

lemma the_audit_valid: "op_ok obs op w \<Longrightarrow> audit_valid (the_audit obs op)"
  by (auto simp: audit_valid_def the_audit_def op_ok_def auditAction_def auditResult_def audit_actions_def)

definition run_recorded ::
  "duration \<Rightarrow> run_obs \<Rightarrow> operation \<Rightarrow> 'z cutover_world_scheme \<Rightarrow> 'z cutover_world_scheme \<Rightarrow> bool" where
  "run_recorded interval obs op w t \<longleftrightarrow>
    deploys t = deploys (with_deploy (the_deploy interval obs op) w) \<and>
    notifications t = notifications (with_notification (the_notification obs op) w) \<and>
    audits t = audits (with_audit (audit_entry (ro_now_audit obs) (the_audit obs op)) w)"

lemma finishOperation_steps:
  "run_verdict obs op = (outcome, nts) \<Longrightarrow>
    finishOperation obs op outcome nts =
      andthen (emit_event \<lparr>ev_type = et_finished (deployEvents (op_type op)),
         ev_service = svc_id (op_def op), ev_message = run_summary obs op, ev_at = ro_finished obs\<rparr>)
     (andthen (attempt (notification_insert (ro_now_notify obs) (svc_id (op_def op)) ''deploy''
         (run_title obs op) nts))
     (andthen (attempt (audit_Record (ro_now_audit obs) (the_audit obs op))) (ret ())))"
  by (simp only: finishOperation_def Let_def the_audit_def run_detail_def run_summary_def run_title_def
      fst_conv snd_conv)

lemma finish_quiet:
  fixes w :: "'z cutover_world_scheme"
  assumes ok: "op_ok obs op w" and q: "faults w = []" and now: "\<not> is_zero_time (ro_now_audit obs)"
    and v: "run_verdict obs op = (outcome, nts)"
  shows "\<exists>t. finishOperation obs op outcome nts w = (Inr (), t) \<and> deploys t = deploys w \<and>
     notifications t = notifications (with_notification (the_notification obs op) w) \<and>
     audits t = audits (with_audit (audit_entry (ro_now_audit obs) (the_audit obs op)) w)"
proof -
  let ?sid = "svc_id (op_def op)"
  let ?w1 = "w\<lparr>events := events w @ [\<lparr>ev_type = et_finished (deployEvents (op_type op)),
       ev_service = ?sid, ev_message = run_summary obs op, ev_at = ro_finished obs\<rparr>]\<rparr>"
  have "has_service ?sid w" using ok by (auto simp: op_ok_def has_service_row)
  then have has: "has_service ?sid ?w1" by (simp add: has_service_def)
  obtain r where n: "notification_insert (ro_now_notify obs) ?sid ''deploy'' (run_title obs op) nts ?w1
      = (r, with_notification (the_notification obs op) ?w1)"
    using notification_insert_quiet [of ?w1 ?sid "ro_now_notify obs" "''deploy''" "run_title obs op" nts] has q
    by (cases "notification_insert (ro_now_notify obs) ?sid ''deploy'' (run_title obs op) nts ?w1")
      (simp add: the_notification_def v)
  let ?w2 = "with_notification (the_notification obs op) ?w1"
  have "audit_service_known (the_audit obs op) ?w2"
    using ok by (auto simp: op_ok_def audit_service_known_def the_audit_def service_row_def with_notification_def)
  then have a: "audit_Record (ro_now_audit obs) (the_audit obs op) ?w2 =
      (Inr (seq (audits ?w2) + 1), with_audit (audit_entry (ro_now_audit obs) (the_audit obs op)) ?w2)"
    using q now the_audit_valid [OF ok] by (intro audit_Record_quiet) (simp_all add: with_notification_def)
  have run: "finishOperation obs op outcome nts w =
      (Inr (), with_audit (audit_entry (ro_now_audit obs) (the_audit obs op)) ?w2)"
    using n a
    by (simp add: finishOperation_steps [OF v] andthen_def bindE_def emit_event_def modify_def attempt_def
        ret_def)
  then show ?thesis by (simp add: with_simps)
qed

lemma op_ok_services: "services t = services w \<Longrightarrow> op_ok obs op t = op_ok obs op w"
  by (simp add: op_ok_def service_row_def)

lemma startProbeLoop_quiet:
  assumes "faults w = []"
  shows "wp (startProbeLoop interval obs op)
    (onE never (\<lambda>d t. d = run_downtime interval obs op \<and> same_but_probes w t \<and> faults t = [])) w"
proof -
  have "keeps quiet (startProbeLoop interval obs op :: ('a cutover_world_scheme, err, rat option) prog)"
    unfolding startProbeLoop_def by (intro keeps_rules keeps_quiet_samples)
  then have "wp (startProbeLoop interval obs op) (\<lambda>r. quiet) w"
    using assms unfolding keeps_wp by (simp add: quiet_def)
  from wp_conj [OF startProbeLoop_wp [of interval obs op w] this] show ?thesis
    by (rule wp_mono) (auto simp: onE_def never_def quiet_def split: sum.splits)
qed

lemma execute_quiet:
  fixes w :: "'z cutover_world_scheme"
  assumes ok: "op_ok obs op w" and q: "faults w = []" and ck: "clock_ok obs"
  shows "wp (execute interval obs op) (onE never (\<lambda>_ t. run_recorded interval obs op w t)) w"
proof -
  obtain outcome nts where v: "run_verdict obs op = (outcome, nts)" by (cases "run_verdict obs op")
  have ck': "\<not> is_zero_time (ro_now_deploy obs)" "\<not> is_zero_time (ro_now_audit obs)"
    using ck by (auto simp: clock_ok_def)
  let ?d = "run_downtime interval obs op"
  have rest: "wp (andthen (recordDeploy obs op (liveSHA obs op) outcome nts ?d)
      (andthen (finishOperation obs op outcome nts) (modify (releaseRun (svc_id (op_def op))))))
      (onE never (\<lambda>_ t. run_recorded interval obs op w t)) u"
    if u: "same_but_probes w1 u" "faults u = []"
      and w1: "deploys w1 = deploys w" "notifications w1 = notifications w" "audits w1 = audits w"
        "services w1 = services w" for u w1 :: "'z cutover_world_scheme"
  proof -
    note f = same_but_probes_all [OF u(1)]
    have oku: "op_ok obs op u" using ok op_ok_services f w1(4) by metis
    then obtain s where s: "service_row (dr_service (deploy_row obs op outcome nts ?d)) u = Some s"
      by (auto simp: op_ok_def deploy_row_def)
    let ?u2 = "with_deploy (the_deploy interval obs op) u"
    have rec: "recordDeploy obs op (liveSHA obs op) outcome nts ?d u = (Inr (), ?u2)"
      using deploys_Record_quiet [OF u(2) deploy_row_valid [OF oku v] s ck'(1)]
      by (simp add: recordDeploy_def deploy_row_def the_deploy_def v andthen_def bindE_def attempt_def ret_def)
    have "op_ok obs op ?u2" "faults ?u2 = []"
      using oku u(2) by (simp_all add: op_ok_services [of ?u2 u] with_fields) (simp add: with_deploy_def)
    from finish_quiet [OF this ck'(2) v] obtain t where
      t: "finishOperation obs op outcome nts ?u2 = (Inr (), t)" "deploys t = deploys ?u2"
      "notifications t = notifications (with_notification (the_notification obs op) ?u2)"
      "audits t = audits (with_audit (audit_entry (ro_now_audit obs) (the_audit obs op)) ?u2)" by blast
    show ?thesis
      unfolding wp_def andthen_def bindE_def
      using rec t f w1 by (simp add: modify_def run_recorded_def released_fields with_same with_fields)
  qed
  show ?thesis
    unfolding execute_flat runAndVerify_def
    apply (simp only: wp_emit wp_bindE wp_andthen [of "for_each emit_event _"] emit_all onE_simps)
    apply (rule wp_ok_mono [OF startProbeLoop_quiet])
     apply (simp add: q)
    apply (simp only: onE_simps v prod.case wp_ret)
    apply (elim conjE)
    apply hypsubst
    apply (rule rest, assumption, assumption, simp_all)
    done
qed

section \<open>One run per service\<close>

definition in_flight :: "(operation \<times> bool) list \<Rightarrow> gostring list" where
  "in_flight ops = map (\<lambda>p. svc_id (op_def (fst p))) ops"

definition engine_ok :: "engine \<Rightarrow> bool" where
  "engine_ok s \<longleftrightarrow> distinct (in_flight (snd s)) \<and> runs (fst s) = set (in_flight (snd s))"

lemma in_flight_simps [simp]:
  "in_flight [] = []" "in_flight (a @ b) = in_flight a @ in_flight b"
  "in_flight (p # ps) = svc_id (op_def (fst p)) # in_flight ps"
  by (simp_all add: in_flight_def)

text \<open>Only claims and releases touch the map of runs.\<close>

definition runs_are :: "gostring set \<Rightarrow> 'z cutover_world_scheme \<Rightarrow> bool" where
  "runs_are R w = (runs w = R)"

interpretation runs_db: db_invariant "runs_are R"
  by unfold_locales (simp add: runs_are_def)

lemma execute_body_keeps: "keeps (runs_are R) (execute_body interval obs op)"
proof -
  have g: "keeps (runs_are R) (svc_get sid)" for sid
    unfolding svc_get_def by (intro keeps_rules runs_db.keeps_stmt)
  have p: "keeps (runs_are R) (probe_insert now x)" for now x
    unfolding probe_insert_def Let_def
    by (intro keeps_rules runs_db.keeps_stmt) (simp add: runs_are_def)
  have d: "keeps (runs_are R) (deploys_Record now x)" for now x
    unfolding deploys_Record_def deploy_insert_def Let_def
    by (intro keeps_rules runs_db.keeps_stmt g) (simp add: runs_are_def)
  have a: "keeps (runs_are R) (audit_Record now x)" for now x
    unfolding audit_Record_def audit_insert_def Let_def
    by (intro keeps_rules runs_db.keeps_stmt g) (simp add: runs_are_def)
  have n: "keeps (runs_are R) (notification_insert now s k t b)" for now s k t b
    unfolding notification_insert_def Let_def
    by (intro keeps_rules runs_db.keeps_stmt) (simp add: runs_are_def)
  have e: "keeps (runs_are R) (emit_event ev)" for ev
    unfolding emit_event_def by (intro keeps_rules) (simp add: runs_are_def)
  show ?thesis
    unfolding execute_body_def runAndVerify_def startProbeLoop_def sampleProbe_def recordDeploy_def
      finishOperation_def Let_def
    by (intro keeps_rules p d a n e)
qed

lemma execute_body_runs: "execute_body interval obs op w = (r, w') \<Longrightarrow> runs w' = runs w"
proof -
  assume run: "execute_body interval obs op w = (r, w')"
  have "runs_are (runs w) w" by (simp add: runs_are_def)
  from keepsD [OF execute_body_keeps this run] show ?thesis by (simp add: runs_are_def)
qed

lemma launched_step:
  assumes "wp m (launched sid w) w" "m w = (Inr (c, op), w')" "engine_ok (w, ops)"
  shows "engine_ok (w', ops @ [(op, b)])"
  using wp_run [OF assms(1,2)] assms(3)
  by (auto simp: launched_def engine_ok_def dest!: only_oracle_more)

lemma refused_step:
  assumes "wp m (launched sid w) w" "m w = (Inl e, w')" "engine_ok (w, ops)"
  shows "engine_ok (w', ops)"
  using wp_run [OF assms(1,2)] assms(3)
  by (auto simp: launched_def engine_ok_def dest!: only_oracle_more)

lemma engine_step_ok: "engine_step s t \<Longrightarrow> engine_ok s \<Longrightarrow> engine_ok t"
proof (induction rule: engine_step.induct)
  case (body obs interval op w r w' ops ops')
  then show ?case
    by (auto simp: engine_ok_def execute_body_runs [OF body(2)])
next
  case (finish w ops op ops')
  then show ?case by (auto simp: engine_ok_def released_fields)
qed (auto intro: launched_step refused_step Start_launched StartDeploy_launched StartRollback_launched)

lemma engine_reach_ok: "engine_reach s \<Longrightarrow> engine_ok s"
proof (induction rule: engine_reach.induct)
  case (boot w)
  then show ?case by (simp add: engine_ok_def)
next
  case (step s t)
  then show ?case using engine_step_ok by blast
qed

section \<open>Arguments are read back as they were meant\<close>

text \<open>How a script reads its flags: \<open>--sudo\<close> and \<open>--no-sudo\<close> stand alone, every
  other flag takes the next word, whatever it looks like.\<close>

fun parse_flags :: "gostring list \<Rightarrow> (gostring \<times> gostring) list option" where
  "parse_flags [] = Some []"
| "parse_flags (f # as) =
    (if f = ''--sudo'' \<or> f = ''--no-sudo'' then map_option ((#) (f, [])) (parse_flags as)
     else case as of [] \<Rightarrow> None | v # as' \<Rightarrow> map_option ((#) (f, v)) (parse_flags as'))"

definition opt_flag :: "bool \<Rightarrow> gostring \<Rightarrow> gostring \<Rightarrow> (gostring \<times> gostring) list" where
  "opt_flag b f v = (if b then [(f, v)] else [])"

lemma parse_opt:
  "f \<noteq> ''--sudo'' \<Longrightarrow> f \<noteq> ''--no-sudo'' \<Longrightarrow>
    parse_flags (opt_arg b [f, v] @ rest) = map_option ((@) (opt_flag b f v)) (parse_flags rest)"
  by (cases "parse_flags rest") (simp_all add: opt_arg_def opt_flag_def)

lemma parse_value:
  "f \<noteq> ''--sudo'' \<Longrightarrow> f \<noteq> ''--no-sudo'' \<Longrightarrow>
    parse_flags (f # v # rest) = map_option ((#) (f, v)) (parse_flags rest)"
  by simp

lemma parse_sudo:
  "parse_flags ((if b then [''--sudo''] else [''--no-sudo'']) @ rest) =
    map_option ((#) (if b then ''--sudo'' else ''--no-sudo'', [])) (parse_flags rest)"
  by simp

text \<open>Whatever the configured values are, a script that reads the cutover's
  arguments flag by flag gets exactly the configuration: no value is taken for a flag, none is lost.\<close>

theorem cutoverArgs_roundtrip:
  "parse_flags (cutoverArgs def cfg target) =
    Some ([(''--target'', target), (''--compose-dir'', svc_dir def),
           (''--nginx-conf'', bg_nginx_conf cfg), (''--blue-server'', bg_blue_target cfg),
           (''--green-server'', bg_green_target cfg), (''--legacy-server'', bg_legacy_target cfg),
           (''--blue-url'', bg_blue_url cfg), (''--green-url'', bg_green_url cfg),
           (''--public-url'', bg_public_url cfg)]
      @ opt_flag (bg_compose_file cfg \<noteq> []) ''--compose-file'' (bg_compose_file cfg)
      @ opt_flag (bg_project cfg \<noteq> []) ''--project'' (bg_project cfg)
      @ opt_flag (bg_env_file cfg \<noteq> []) ''--env-file'' (bg_env_file cfg)
      @ [(if bg_sudo cfg then ''--sudo'' else ''--no-sudo'', [])]
      @ opt_flag (bg_settle_secs cfg > 0) ''--settle-seconds'' (itoa (bg_settle_secs cfg))
      @ opt_flag (bg_health_timeout cfg > 0) ''--health-timeout'' (itoa (bg_health_timeout cfg))
      @ opt_flag (bg_public_timeout cfg > 0) ''--public-timeout'' (itoa (bg_public_timeout cfg)))"
proof -
  have last: "parse_flags (opt_arg b [''--public-timeout'', v]) = Some (opt_flag b ''--public-timeout'' v)" for b v
    by (simp add: opt_arg_def opt_flag_def)
  show ?thesis
    unfolding cutoverArgs_def append_assoc append_Cons append_Nil
    by (simp only: parse_value parse_opt parse_sudo last option.map list.inject char.inject not_False_eq_True
        append_assoc append_Cons append_Nil list.distinct simp_thms)
qed

text \<open>The lines shown for a script's output are the lines of everything it wrote: they do
  not depend on how the writes were cut, nothing is lost and a last line without a
  newline is flushed.\<close>

theorem lw_run_is_lines: "lw_run [] chunks = raw_lines (concat chunks)"
  by (rule lw_run_lines)

text \<open>A resolved cutover target is blue or green and its script is an executable file;
  an explicit colour is taken as it is, and an automatic choice is never the colour
  the service view shows as live, which must be known.  A rollback resolves as an automatic
  cutover does, and every refusal is an invalid input.\<close>

theorem resolve_never_live:
  "case resolve env cfg target of
     Inl e \<Rightarrow> \<exists>m. e = ErrInvalidInput m
   | Inr c \<Rightarrow> c \<in> {colorBlue, colorGreen} \<and> checkExecutable env (bg_cutover_script cfg) \<and>
       (if target \<in> {colorBlue, colorGreen} then c = target
        else liveColor env cfg \<in> {colorBlue, colorGreen} - {c} \<and> resolveRollback env cfg = Inr c)"
proof (cases "resolve env cfg target")
  case (Inl e)
  then show ?thesis using resolve_Inl by fastforce
next
  case (Inr c)
  then have "target \<notin> {colorBlue, colorGreen} \<Longrightarrow> resolve env cfg TargetAuto = Inr c"
    by (auto simp: resolve_def Let_def split: if_splits)
  then show ?thesis using resolve_Inr [OF Inr] Inr by (auto simp: rollback_is_auto)
qed

text \<open>C1: In every reachable state of the engine, with requests, bodies and releases in any
  order, at most one run of a service is in flight, the map of runs holds exactly the
  services with a run in flight, and a further start of such a service is refused.\<close>

theorem engine_one_run_per_service:
  assumes "engine_reach (w, ops)"
  shows "distinct (in_flight ops) \<and> runs w = set (in_flight ops) \<and>
    (\<forall>sid\<in>set (in_flight ops). \<forall>env target actor.
       fst (Start env sid target actor w) \<notin> range Inr \<and>
       fst (StartDeploy env sid actor w) \<notin> range Inr \<and>
       fst (StartRollback env sid actor w) \<notin> range Inr)"
proof -
  have ok: "distinct (in_flight ops)" "runs w = set (in_flight ops)"
    using engine_reach_ok [OF assms] by (simp_all add: engine_ok_def)
  have no: "fst (m w) \<notin> range Inr"
    if "wp m (launched sid w) w" "sid \<in> set (in_flight ops)"
    for m :: "(cutover_world, err, gostring \<times> operation) prog" and sid
    using that ok(2) by (auto simp: wp_def launched_def split: prod.splits)
  show ?thesis using ok no Start_launched StartDeploy_launched StartRollback_launched by blast
qed

text \<open>C3: Whatever statements fail, a run returns, shows one start event, its output and one
  finish event, frees its service, and adds at most one deploy, one notification and
  one audit row: those of its verdict.\<close>

theorem execute_always_finishes:
  assumes "clock_ok obs"
  shows "\<exists>t. execute interval obs op w = (Inr (), t) \<and> run_done interval obs op w t"
  using execute_wp [OF assms, of interval op w]
  by (auto simp: wp_def onE_def never_def split: prod.splits sum.splits)

text \<open>C2: Let every statement of the database succeed (with failing ones C3 holds), let the clock be past
  year 1 and not run backwards, and let the operation be what a start launches: of one of the three kinds,
  by a named actor, with a non-empty image id, for a service that is still stored.  Then the run
  stores exactly one deploy row, one notification and one audit row, and each carries the same verdict: success
  exactly when the script exited cleanly and, where the operation asks for it, the target is healthy.
  All three name the service; the deploy and the audit name the actor.\<close>

theorem execute_records_verdict:
  assumes "op_ok obs op w" and "faults w = []" and "clock_ok obs" and "svc_id (op_def op) \<noteq> []"
  defines "good \<equiv> ro_exit obs = None \<and> (op_verify op \<longrightarrow> verifyTarget obs op)"
  shows "\<exists>t d n a notes. execute interval obs op w = (Inr (), t) \<and>
    rows (deploys t) = rows (deploys w) @ [d] \<and>
    rows (notifications t) = rows (notifications w) @ [n] \<and>
    rows (audits t) = rows (audits w) @ [a] \<and>
    (notes = [] \<longleftrightarrow> good) \<and>
    dp_service d = svc_id (op_def op) \<and> dp_actor d = op_actor op \<and> dp_type d = op_type op \<and>
    dp_outcome d = (if good then ''success'' else ''failure'') \<and> dp_notes d = notes \<and>
    nt_service n = svc_id (op_def op) \<and> nt_kind n = ''deploy'' \<and> nt_body n = notes \<and> nt_read n = None \<and>
    nt_title n = op_type op @ '' '' @ (if good then ''success'' else ''failure'') @ '': '' @ svc_id (op_def op)
      @ arrow @ op_target op \<and>
    au_service a = Some (svc_id (op_def op)) \<and> au_actor a = op_actor op \<and>
    au_action a = auditAction (op_type op) \<and> au_result a = (if good then ''success'' else ''failure'') \<and>
    au_detail a = op_type op @ '' to '' @ op_target op @ '': '' @ (if good then ''success'' else ''failure'')
      @ (if good then [] else ''; '' @ notes)"
proof -
  obtain t where t: "execute interval obs op w = (Inr (), t)" "run_recorded interval obs op w t"
    using execute_quiet [OF assms(1-3), of interval]
    by (auto simp: wp_def onE_def never_def split: prod.splits sum.splits)
  have v: "fst (run_verdict obs op) = (if good then ''success'' else ''failure'')"
    "snd (run_verdict obs op) = [] \<longleftrightarrow> good"
    by (auto simp: run_verdict_def good_def split: option.splits)
  show ?thesis
    using t v assms(4)
    by (intro exI [of _ t] exI [of _ "snd (run_verdict obs op)"])
      (simp add: run_recorded_def with_same the_deploy_def deploy_entry_def deploy_row_def
        the_audit_def audit_entry_def auditResult_def the_notification_def new_notification_def run_title_def
        run_detail_def run_summary_def)
qed

section \<open>A concrete engine\<close>

definition demo_config :: recreate_config where
  "demo_config =
    \<lparr>rc_service = ''api'', rc_health_url = ''http://api/health'', rc_public_url = [],
     rc_deploy_script = ''/srv/deploy.sh'', rc_rollback_script = []\<rparr>"

definition demo_host :: host where
  "demo_host =
    \<lparr>os_json = (\<lambda>_. Some (recreate_json demo_config)), os_file = (\<lambda>_. None),
     os_check = (\<lambda>_. Inl ''down''), os_stat = (\<lambda>_. Some (False, 73))\<rparr>"

definition demo_engine :: cutover_world where
  "demo_engine =
    \<lparr>faults = [], services = [demo_service], deploys = empty_table, probes = empty_table,
     notifications = empty_table, audits = empty_table, child_rows = [], events = [], runs = {}\<rparr>"

definition demo_op :: operation where
  "demo_op =
    \<lparr>op_def = demo_service, op_script = ''/srv/deploy.sh'',
     op_args = recreateArgs demo_service demo_config, op_sha_service = ''api'',
     op_health_url = ''http://api/health'', op_public_url = [], op_target = ''api'',
     op_actor = ''ada'', op_type = ''deploy'', op_verify = True\<rparr>"

lemma demo_start:
  "StartDeploy demo_host ''api'' ''ada'' demo_engine =
    (Inr (''api'', demo_op), demo_engine\<lparr>runs := {''api''}\<rparr>)"
proof -
  have d: "decodeRecreate (os_json demo_host) cfg = Some demo_config" for cfg
    by (rule recreate_roundtrip) (simp add: demo_host_def)
  have g: "svc_get ''api'' demo_engine = (Inr demo_service, demo_engine)"
    by (simp add: svc_get_def run_defs service_row_def demo_engine_def demo_service_def)
  have x: "checkExecutable demo_host p" for p
    by (simp add: checkExecutable_def demo_host_def)
  show ?thesis
    by (simp add: StartDeploy_def bindE_def [of "svc_get _"] g d x beginDeploy_def resolveRecreate_def
        launchRecreate_def of_sum_def of_option_def claimRun_def demo_config_def andthen_def
        demo_op_def run_defs)
      (simp add: demo_service_def demo_engine_def)
qed

definition demo_obs :: run_obs where
  "demo_obs =
    \<lparr>ro_chunks = [''pulling'', [newline]], ro_exit = None, ro_line_at = (\<lambda>_. 1), ro_samples = [],
     ro_prober = Some (\<lambda>_. Inr \<lparr>healthy = True, status_code = 200\<rparr>), ro_listed = None,
     ro_started = 1, ro_finished = 2, ro_now_deploy = 3, ro_now_notify = 4, ro_now_audit = 5\<rparr>"

lemma demo_clock: "clock_ok demo_obs"
  by (simp add: clock_ok_def demo_obs_def is_zero_time_def zero_time_def)

lemma demo_op_ok: "op_ok demo_obs demo_op demo_engine"
  by (simp add: op_ok_def demo_op_def demo_obs_def demo_engine_def demo_service_def service_row_def
      liveSHA_def)

lemma engine_one_run_per_service_witness:
  "engine_reach (demo_engine\<lparr>runs := {''api''}\<rparr>, [(demo_op, False)]) \<and>
    fst (Start demo_host ''api'' ''auto'' ''ada'' (demo_engine\<lparr>runs := {''api''}\<rparr>)) \<notin> range Inr"
proof -
  have "engine_reach (demo_engine, [])" by (rule boot) (simp add: demo_engine_def)
  from step [OF this deploy [OF demo_start]]
  have r: "engine_reach (demo_engine\<lparr>runs := {''api''}\<rparr>, [(demo_op, False)])" by simp
  have "''api'' \<in> set (in_flight [(demo_op, False)])"
    by (simp add: demo_op_def demo_service_def)
  with engine_one_run_per_service [OF r] r show ?thesis by blast
qed

lemma execute_always_finishes_witness:
  "\<exists>t. execute second demo_obs demo_op demo_engine = (Inr (), t) \<and>
    run_done second demo_obs demo_op demo_engine t"
  by (rule execute_always_finishes [OF demo_clock])

lemma execute_records_verdict_witness:
  "\<exists>t d n. execute second demo_obs demo_op demo_engine = (Inr (), t) \<and> rows (deploys t) = [d] \<and>
    dp_outcome d = ''success'' \<and> rows (notifications t) = [n] \<and> nt_body n = []"
proof -
  have f: "faults demo_engine = []" and i: "svc_id (op_def demo_op) \<noteq> []"
    by (simp_all add: demo_engine_def demo_op_def demo_service_def)
  have e: "rows (deploys demo_engine) = []" "rows (notifications demo_engine) = []"
    by (simp_all add: demo_engine_def empty_table_def)
  have v: "ro_exit demo_obs = None" "verifyTarget demo_obs demo_op"
    by (simp_all add: demo_obs_def demo_op_def verifyTarget_def)
  show ?thesis
    using execute_records_verdict [OF demo_op_ok f demo_clock i, of second] v e by auto
qed

end
