(* ===== verification/Users.thy ===== *)
theory Users
  imports Audit_Log
begin

text \<open>
  Login accounts: \<open>store.UserStore\<close> (store/users.go) and \<open>service.Users\<close>
  (service/users.go).  bcrypt is a parameter: the hash made by one call (or its error) is
  an argument of the operations that hash, and \<open>matches\<close> compares a hash with a password.
  The state adds the \<open>users\<close> table to the world, whose audit log the service writes.
\<close>

abbreviation RoleAdmin :: gostring where "RoleAdmin \<equiv> ''admin''"
abbreviation RoleViewer :: gostring where "RoleViewer \<equiv> ''viewer''"

record user =
  us_id :: int
  us_name :: gostring
  us_hash :: gostring
  us_role :: gostring
  us_disabled :: "instant option"
  us_created :: instant

definition disabled :: "user \<Rightarrow> bool" where "disabled u = (us_disabled u \<noteq> None)"

record users_world = world +
  users :: "user table"

interpretation user_rows: rowid_table us_id "\<lambda>i r. r\<lparr>us_id := i\<rparr>"
  by unfold_locales simp

section \<open>store.UserStore\<close>

definition user_insert_ok :: "user \<Rightarrow> 'z users_world_scheme \<Rightarrow> bool" where
  "user_insert_ok u w \<longleftrightarrow>
    us_role u \<in> {RoleAdmin, RoleViewer} \<and> (\<forall>r\<in>set (rows (users w)). us_name r \<noteq> us_name u)"

definition user_create :: "instant \<Rightarrow> user \<Rightarrow> ('z users_world_scheme, err, user) prog" where
  "user_create now u0 =
    (let u = (if is_zero_time (us_created u0) then u0\<lparr>us_created := now\<rparr> else u0) in
     andthen (stmt (ErrOther ''creating user''))
      (bindE (gets (user_insert_ok u)) (\<lambda>ok.
       andthen (guardE ok (ErrOther ''creating user''))
      (andthen (modify (\<lambda>w. w\<lparr>users := t_insert (\<lambda>i r. r\<lparr>us_id := i\<rparr>) u (users w)\<rparr>))
      (andthen (stmt (ErrOther ''reading user id''))
      (bindE (gets (\<lambda>w. seq (users w))) (\<lambda>i. ret (u\<lparr>us_id := i\<rparr>))))))))"

definition user_by_id :: "int \<Rightarrow> ('z users_world_scheme, err, user) prog" where
  "user_by_id i = andthen (stmt (ErrOther ''scanning user''))
     (bindE (gets (\<lambda>w. t_find (\<lambda>r. us_id r = i) (users w))) (of_option ErrUserNotFound))"

definition user_by_name :: "gostring \<Rightarrow> ('z users_world_scheme, err, user) prog" where
  "user_by_name n = andthen (stmt (ErrOther ''scanning user''))
     (bindE (gets (\<lambda>w. t_find (\<lambda>r. us_name r = n) (users w))) (of_option ErrUserNotFound))"

definition user_list :: "int \<Rightarrow> ('z users_world_scheme, err, user list) prog" where
  "user_list limit = andthen (stmt (ErrOther ''querying users''))
     (andthen (stmt (ErrOther ''scanning user''))
      (gets (\<lambda>w. sql_limit limit (rows (users w)))))"

text \<open>The mutable columns of \<open>u\<close> written over a row.\<close>

definition rewrite_user :: "user \<Rightarrow> user \<Rightarrow> user" where
  "rewrite_user u r = r\<lparr>us_hash := us_hash u, us_role := us_role u, us_disabled := us_disabled u\<rparr>"

definition user_update :: "user \<Rightarrow> ('z users_world_scheme, err, unit) prog" where
  "user_update u = andthen (stmt (ErrOther ''updating user''))
     (bindE (gets (\<lambda>w. t_count (\<lambda>r. us_id r = us_id u) (users w))) (\<lambda>affected.
      andthen (guardE (affected = 0 \<or> us_role u \<in> {RoleAdmin, RoleViewer}) (ErrOther ''updating user''))
     (andthen (modify (\<lambda>w. w\<lparr>users := t_update (\<lambda>r. us_id r = us_id u) (rewrite_user u) (users w)\<rparr>))
     (andthen (stmt (ErrOther ''counting updated users''))
       (guardE (affected \<noteq> 0) ErrUserNotFound)))))"

definition user_delete :: "int \<Rightarrow> ('z users_world_scheme, err, unit) prog" where
  "user_delete i = andthen (stmt (ErrOther ''deleting user''))
     (bindE (gets (\<lambda>w. t_count (\<lambda>r. us_id r = i) (users w))) (\<lambda>affected.
      andthen (modify (\<lambda>w. w\<lparr>users := t_delete (\<lambda>r. us_id r = i) (users w)\<rparr>))
     (andthen (stmt (ErrOther ''counting deleted users''))
       (guardE (affected \<noteq> 0) ErrUserNotFound))))"

definition enabled_admin :: "user \<Rightarrow> bool" where
  "enabled_admin u \<longleftrightarrow> us_role u = RoleAdmin \<and> us_disabled u = None"

definition count_enabled_admins :: "('z users_world_scheme, err, int) prog" where
  "count_enabled_admins = andthen (stmt (ErrOther ''counting enabled admins''))
     (gets (\<lambda>w. int (t_count enabled_admin (users w))))"

section \<open>Validation\<close>

definition minPasswordLength :: nat where "minPasswordLength = 12"
definition maxPasswordLength :: nat where "maxPasswordLength = 72"
definition maxUsernameLength :: nat where "maxUsernameLength = 64"
abbreviation bootstrapAdmin :: gostring where "bootstrapAdmin \<equiv> ''admin''"

definition username_char :: "char \<Rightarrow> bool" where
  "username_char c \<longleftrightarrow> is_lower c \<or> is_digit c \<or> c = CHR ''-''"

record user_input =
  ui_name :: gostring
  ui_password :: gostring
  ui_role :: gostring

definition checkPassword :: "gostring \<Rightarrow> err option" where
  "checkPassword pw =
    (if length pw < minPasswordLength then Some (ErrInvalidInput ''password is too short'')
     else if length pw > maxPasswordLength then Some (ErrInvalidInput ''password is too long'')
     else None)"

definition of_check :: "err option \<Rightarrow> ('s, err, unit) prog" where
  "of_check c = (case c of None \<Rightarrow> ret () | Some e \<Rightarrow> throw e)"

definition checkUserInput :: "user_input \<Rightarrow> gostring \<Rightarrow> ('z users_world_scheme, err, unit) prog" where
  "checkUserInput input actor =
    andthen (guardE (actor \<noteq> []) (ErrInvalidInput ''actor is required''))
   (andthen (guardE (length (ui_name input) \<noteq> 0 \<and> length (ui_name input) \<le> maxUsernameLength \<and>
        list_all username_char (ui_name input)) (ErrInvalidInput ''username''))
   (bindE (attempt (user_by_name (ui_name input))) (\<lambda>found.
     case found of
       Inr _ \<Rightarrow> throw (ErrConflict ''username already exists'')
     | Inl e \<Rightarrow>
        andthen (guardE (e = ErrUserNotFound) (ErrOther ''checking username''))
       (andthen (guardE (ui_role input = RoleAdmin \<or> ui_role input = RoleViewer) (ErrInvalidInput ''role''))
         (of_check (checkPassword (ui_password input)))))))"

definition requireAnotherAdmin :: "user \<Rightarrow> ('z users_world_scheme, err, unit) prog" where
  "requireAnotherAdmin u =
    (if us_role u \<noteq> RoleAdmin \<or> disabled u then ret ()
     else bindE count_enabled_admins (\<lambda>count.
       guardE (1 < count) (ErrConflict ''cannot remove the last enabled admin'')))"

section \<open>service.Users\<close>

definition global_audit :: "gostring \<Rightarrow> gostring \<Rightarrow> gostring \<Rightarrow> audit_record" where
  "global_audit actor action detail =
    \<lparr>ar_service = [], ar_actor = actor, ar_action = action, ar_result = AuditSuccess,
     ar_detail = detail\<rparr>"

text \<open>The audit entry after a change: its failure is the operation's error.\<close>

definition audited :: "instant \<Rightarrow> audit_record \<Rightarrow> gostring \<Rightarrow> ('z users_world_scheme, err, unit) prog" where
  "audited now rec what =
    andthen (map_error (\<lambda>_. ErrOther what) (audit_Record now rec)) (ret ())"

definition users_Create ::
  "instant \<Rightarrow> gostring option \<Rightarrow> user_input \<Rightarrow> gostring \<Rightarrow> ('z users_world_scheme, err, user) prog" where
  "users_Create now hashed input actor =
    andthen (checkUserInput input actor)
   (bindE (of_option (ErrOther ''hashing password'') hashed) (\<lambda>hash.
    bindE (map_error (\<lambda>_. ErrOther ''creating user'') (user_create now
      \<lparr>us_id = 0, us_name = ui_name input, us_hash = hash, us_role = ui_role input,
       us_disabled = None, us_created = zero_time\<rparr>)) (\<lambda>created.
    andthen (audited now (global_audit actor ''user_create''
        (''created user '' @ us_name created @ '' ('' @ us_role created @ '')'')) ''auditing user create'')
     (ret created))))"

definition users_List :: "('z users_world_scheme, err, user list) prog" where
  "users_List = user_list maxListLimit"

definition users_Verify ::
  "(gostring \<Rightarrow> gostring \<Rightarrow> bool) \<Rightarrow> gostring \<Rightarrow> gostring \<Rightarrow> ('z users_world_scheme, err, user) prog" where
  "users_Verify matches name pw =
    bindE (attempt (user_by_name name)) (\<lambda>found.
     case found of
       Inl e \<Rightarrow> throw (if e = ErrUserNotFound then ErrUnauthorized else ErrOther ''looking up user'')
     | Inr u \<Rightarrow>
        andthen (guardE (\<not> disabled u) ErrUnauthorized)
       (andthen (guardE (matches (us_hash u) pw) ErrUnauthorized)
         (ret u)))"

definition users_Lookup :: "gostring \<Rightarrow> ('z users_world_scheme, err, user) prog" where
  "users_Lookup name =
    bindE (attempt (user_by_name name)) (\<lambda>found.
     case found of
       Inl e \<Rightarrow> throw (if e = ErrUserNotFound then ErrUnauthorized else ErrOther ''looking up user'')
     | Inr u \<Rightarrow> andthen (guardE (\<not> disabled u) ErrUnauthorized) (ret u))"

definition users_SetRole ::
  "instant \<Rightarrow> int \<Rightarrow> gostring \<Rightarrow> gostring \<Rightarrow> ('z users_world_scheme, err, user) prog" where
  "users_SetRole now i role actor =
    andthen (guardE (actor \<noteq> []) (ErrInvalidInput ''actor is required''))
   (andthen (guardE (role = RoleAdmin \<or> role = RoleViewer) (ErrInvalidInput ''role''))
   (bindE (user_by_id i) (\<lambda>u.
    andthen (if us_role u = RoleAdmin \<and> role = RoleViewer then requireAnotherAdmin u else ret ())
   (let u' = u\<lparr>us_role := role\<rparr> in
    andthen (user_update u')
   (andthen (audited now (global_audit actor ''user_update''
        (''changed role of user '' @ us_name u @ '' to '' @ role)) ''auditing user update'')
     (ret u'))))))"

definition users_SetPassword ::
  "instant \<Rightarrow> gostring option \<Rightarrow> int \<Rightarrow> gostring \<Rightarrow> gostring \<Rightarrow> ('z users_world_scheme, err, unit) prog" where
  "users_SetPassword now hashed i pw actor =
    andthen (guardE (actor \<noteq> []) (ErrInvalidInput ''actor is required''))
   (andthen (of_check (checkPassword pw))
   (bindE (user_by_id i) (\<lambda>u.
    bindE (of_option (ErrOther ''hashing password'') hashed) (\<lambda>hash.
    andthen (user_update (u\<lparr>us_hash := hash\<rparr>))
     (audited now (global_audit actor ''user_update'' (''reset password of user '' @ us_name u))
        ''auditing user update'')))))"

definition users_SetDisabled ::
  "instant \<Rightarrow> int \<Rightarrow> bool \<Rightarrow> gostring \<Rightarrow> ('z users_world_scheme, err, user) prog" where
  "users_SetDisabled now i dis actor =
    andthen (guardE (actor \<noteq> []) (ErrInvalidInput ''actor is required''))
   (bindE (user_by_id i) (\<lambda>u.
    andthen (if dis \<and> \<not> disabled u then requireAnotherAdmin u else ret ())
   (let u' = u\<lparr>us_disabled := (if dis then Some now else None)\<rparr> in
    andthen (user_update u')
   (andthen (audited now (global_audit actor ''user_update''
        ((if dis then ''disabled'' else ''enabled'') @ '' user '' @ us_name u)) ''auditing user update'')
     (ret u')))))"

definition users_Delete :: "instant \<Rightarrow> int \<Rightarrow> gostring \<Rightarrow> ('z users_world_scheme, err, unit) prog" where
  "users_Delete now i actor =
    andthen (guardE (actor \<noteq> []) (ErrInvalidInput ''actor is required''))
   (bindE (user_by_id i) (\<lambda>u.
    andthen (requireAnotherAdmin u)
   (andthen (user_delete i)
     (audited now (global_audit actor ''user_delete'' (''deleted user '' @ us_name u))
        ''auditing user delete''))))"

definition users_EnsureAdmin ::
  "instant \<Rightarrow> gostring option \<Rightarrow> gostring \<Rightarrow> ('z users_world_scheme, err, bool) prog" where
  "users_EnsureAdmin now hashed pw =
    bindE count_enabled_admins (\<lambda>count.
    if 0 < count then ret False
    else
      andthen (of_check (checkPassword pw))
     (bindE (of_option (ErrOther ''hashing password'') hashed) (\<lambda>hash.
      bindE (attempt (user_by_name bootstrapAdmin)) (\<lambda>existing.
       case existing of
         Inl e \<Rightarrow>
          if e = ErrUserNotFound then
            andthen (map_error (\<lambda>_. ErrOther ''seeding admin'') (user_create now
              \<lparr>us_id = 0, us_name = bootstrapAdmin, us_hash = hash, us_role = RoleAdmin,
               us_disabled = None, us_created = zero_time\<rparr>)) (ret True)
          else throw (ErrOther ''looking up admin'')
       | Inr u \<Rightarrow>
          andthen (map_error (\<lambda>_. ErrOther ''repairing admin'')
            (user_update (u\<lparr>us_hash := hash, us_role := RoleAdmin, us_disabled := None\<rparr>)))
           (ret True)))))"

end
