(* ===== verification/Users_Laws.thy ===== *)
theory Users_Laws
  imports Users
begin

text \<open>
  What the account service promises: usernames are unique, roles are known, and, once
  there is one, an enabled administrator is always left, after every operation on every fault.
\<close>

definition accounts_ok :: "user table \<Rightarrow> bool" where
  "accounts_ok t \<longleftrightarrow>
    table_ok us_id t \<and> distinct (map us_name (rows t)) \<and>
    (\<forall>r\<in>set (rows t). us_role r \<in> {RoleAdmin, RoleViewer})"

definition has_admin :: "user table \<Rightarrow> bool" where
  "has_admin t \<longleftrightarrow> (\<exists>r\<in>set (rows t). enabled_admin r)"

definition safe :: "user table \<Rightarrow> bool" where
  "safe t \<longleftrightarrow> accounts_ok t \<and> has_admin t"

section \<open>The store's steps, by their effect on the table\<close>

definition users_are :: "user table \<Rightarrow> 'z users_world_scheme \<Rightarrow> bool" where
  "users_are t w = (users w = t)"

interpretation users_db: db_invariant "users_are t"
  by unfold_locales (simp add: users_are_def)

lemma keeps_users_audit: "keeps (users_are U) (audit_Record now rec)"
  unfolding audit_Record_def audit_insert_def svc_get_def Let_def
  by (intro keeps_rules users_db.keeps_stmt) (simp add: users_are_def)

lemma keeps_users_audited: "keeps (users_are U) (audited now rec what)"
  unfolding audited_def by (intro keeps_rules keeps_users_audit)

lemma keeps_users_reads:
  "keeps (users_are U) (user_by_id i)" "keeps (users_are U) (user_by_name n)"
  "keeps (users_are U) count_enabled_admins"
  unfolding user_by_id_def user_by_name_def count_enabled_admins_def
  by (intro keeps_rules users_db.keeps_stmt)+

lemma keeps_users_check: "keeps (users_are U) (of_check c)"
  by (simp add: of_check_def split: option.splits)

lemma keeps_users_input: "keeps (users_are U) (checkUserInput input actor)"
  unfolding checkUserInput_def
  by (intro keeps_rules keeps_users_reads) (auto split: sum.splits intro!: keeps_andthen keeps_users_check)

text \<open>A step that leaves the users alone, in a proof about the table.\<close>

lemma wp_users_kept:
  assumes "keeps (users_are (users w)) m"
  shows "wp m (onE (\<lambda>e t. users t = users w) (\<lambda>a t. users t = users w)) w"
proof -
  have "wp m (\<lambda>r. users_are (users w)) w"
    using assms unfolding keeps_wp by (simp add: users_are_def)
  then show ?thesis by (rule wp_mono) (auto simp: onE_def users_are_def split: sum.splits)
qed

lemma user_by_id_wp:
  "wp (user_by_id i) (onE (\<lambda>e t. users t = users w)
     (\<lambda>u t. users t = users w \<and> t_find (\<lambda>r. us_id r = i) (users w) = Some u)) w"
  unfolding user_by_id_def
  by (simp add: wp_rules, rule wp_stmt_all) (simp_all add: wp_rules split: option.splits)

lemma user_by_name_wp:
  "wp (user_by_name n) (onE (\<lambda>e t. users t = users w \<and>
        (e = ErrUserNotFound \<longrightarrow> t_find (\<lambda>r. us_name r = n) (users w) = None))
     (\<lambda>u t. users t = users w \<and> t_find (\<lambda>r. us_name r = n) (users w) = Some u)) w"
  unfolding user_by_name_def
  by (simp add: wp_rules, rule wp_stmt_all) (simp_all add: wp_rules split: option.splits)

lemma require_wp:
  "wp (requireAnotherAdmin u) (onE (\<lambda>e t. users t = users w)
     (\<lambda>_ t. users t = users w \<and> (enabled_admin u \<longrightarrow> 1 < t_count enabled_admin (users w)))) w"
  unfolding requireAnotherAdmin_def count_enabled_admins_def
  by (auto simp: wp_rules enabled_admin_def disabled_def intro!: wp_stmt_all)

definition updated :: "user \<Rightarrow> user table \<Rightarrow> user table" where
  "updated u t = t_update (\<lambda>r. us_id r = us_id u) (rewrite_user u) t"

lemma user_update_wp:
  "us_role u \<in> {RoleAdmin, RoleViewer} \<Longrightarrow>
    wp (user_update u) (onE (\<lambda>e t. users t = users w \<or> users t = updated u (users w))
     (\<lambda>_ t. users t = updated u (users w))) w"
  unfolding user_update_def
  by (simp add: wp_rules, rule wp_stmt_all; simp add: wp_rules; intro wp_stmt_all;
      simp add: wp_rules updated_def)

lemma user_delete_wp:
  "wp (user_delete i) (onE (\<lambda>e t. users t = users w \<or> users t = t_delete (\<lambda>r. us_id r = i) (users w))
     (\<lambda>_ t. users t = t_delete (\<lambda>r. us_id r = i) (users w))) w"
  unfolding user_delete_def
  by (simp add: wp_rules, rule wp_stmt_all; simp add: wp_rules; intro wp_stmt_all;
      simp add: wp_rules)

definition inserted :: "user \<Rightarrow> user table \<Rightarrow> user table" where
  "inserted u t = t_insert (\<lambda>i r. r\<lparr>us_id := i\<rparr>) u t"

lemma user_create_wp:
  fixes w :: "'z users_world_scheme"
  assumes "is_zero_time (us_created u0)"
  shows "wp (user_create now u0)
    (onE (\<lambda>e t. users t = users w \<or>
            (users t = inserted (u0\<lparr>us_created := now\<rparr>) (users w) \<and> user_insert_ok u0 w))
         (\<lambda>u t. users t = inserted (u0\<lparr>us_created := now\<rparr>) (users w) \<and> user_insert_ok u0 w \<and>
            u = u0\<lparr>us_created := now, us_id := seq (users w) + 1\<rparr>)) w"
proof -
  have blind: "user_insert_ok (u0\<lparr>us_created := now\<rparr>) (w\<lparr>faults := fs\<rparr>) = user_insert_ok u0 w" for fs
    by (simp add: user_insert_ok_def)
  show ?thesis
    unfolding user_create_def Let_def
    by (simp add: wp_rules assms, rule wp_stmt_all; simp add: wp_rules blind;
        intro impI conjI wp_stmt_all; simp add: wp_rules inserted_def)
qed

section \<open>Tables stay safe\<close>

lemma updated_ok:
  assumes "accounts_ok t" "us_role u \<in> {RoleAdmin, RoleViewer}"
  shows "accounts_ok (updated u t)"
proof -
  have "map us_name (map_where P (rewrite_user u) (rows t)) = map us_name (rows t)" for P
    by (rule map_where_keep) (simp add: rewrite_user_def)
  moreover have "table_ok us_id (updated u t)"
    unfolding updated_def using assms(1)
    by (intro user_rows.ok_update) (simp_all add: rewrite_user_def accounts_ok_def)
  moreover have "\<forall>x\<in>set (map_where P (rewrite_user u) (rows t)). us_role x \<in> {RoleAdmin, RoleViewer}" for P
    using assms unfolding accounts_ok_def
    by (intro ball_map_where_I) (simp_all add: rewrite_user_def)
  ultimately show ?thesis using assms(1)
    by (simp add: accounts_ok_def updated_def)
qed

text \<open>A change of one row keeps an administrator, if the row was none, stays one, or is not the last.\<close>

lemma updated_admin:
  assumes ok: "accounts_ok t" and adm: "has_admin t"
    and find: "t_find (\<lambda>r. us_id r = us_id u) t = Some old"
    and cond: "enabled_admin old \<Longrightarrow> enabled_admin u \<or> 1 < t_count enabled_admin t"
  shows "has_admin (updated u t)"
proof -
  have tok: "table_ok us_id t" using ok by (simp add: accounts_ok_def)
  have old: "old \<in> set (rows t)" "us_id old = us_id u"
    using find by (auto simp: t_find_def dest: first_where_SomeD)
  have other: "has_admin (updated u t)" if "r \<in> set (rows t)" "enabled_admin r" "us_id r \<noteq> us_id u" for r
    using that unfolding has_admin_def updated_def by (auto simp: set_map_where intro!: bexI [of _ r])
  show ?thesis
  proof (cases "enabled_admin old")
    case False
    obtain r where r: "r \<in> set (rows t)" "enabled_admin r" using adm by (auto simp: has_admin_def)
    then have "us_id r \<noteq> us_id u"
      using False old user_rows.row_unique [OF tok] by metis
    then show ?thesis using other r by blast
  next
    case True
    then consider "enabled_admin u" | "1 < t_count enabled_admin t" using cond by blast
    then show ?thesis
    proof cases
      case 1
      have "rewrite_user u old \<in> set (rows (updated u t))"
        unfolding updated_def rows_t_update set_map_where using old
        by (intro bexI [of _ old]) simp_all
      moreover have "enabled_admin (rewrite_user u old)"
        using 1 by (simp add: enabled_admin_def rewrite_user_def)
      ultimately show ?thesis unfolding has_admin_def by blast
    next
      case 2
      from user_rows.another_row [OF tok 2, of "us_id u"] show ?thesis using other by blast
    qed
  qed
qed

lemma deleted_ok: "accounts_ok t \<Longrightarrow> accounts_ok (t_delete P t)"
  by (auto simp: accounts_ok_def user_rows.ok_delete distinct_map_filter)

lemma deleted_admin:
  assumes ok: "accounts_ok t" and adm: "has_admin t"
    and find: "t_find (\<lambda>r. us_id r = i) t = Some old"
    and cond: "enabled_admin old \<Longrightarrow> 1 < t_count enabled_admin t"
  shows "has_admin (t_delete (\<lambda>r. us_id r = i) t)"
proof -
  have tok: "table_ok us_id t" using ok by (simp add: accounts_ok_def)
  have old: "old \<in> set (rows t)" "us_id old = i"
    using find by (auto simp: t_find_def dest: first_where_SomeD)
  obtain r where "r \<in> set (rows t)" "enabled_admin r" "us_id r \<noteq> i"
  proof (cases "enabled_admin old")
    case True
    with cond user_rows.another_row [OF tok, of enabled_admin i] that show ?thesis by blast
  next
    case False
    obtain r where r: "r \<in> set (rows t)" "enabled_admin r" using adm by (auto simp: has_admin_def)
    with False old user_rows.row_unique [OF tok] have "us_id r \<noteq> i" by metis
    with r that show ?thesis by blast
  qed
  then show ?thesis by (auto simp: has_admin_def)
qed

lemma inserted_ok: "accounts_ok (users w) \<Longrightarrow> user_insert_ok u w \<Longrightarrow> accounts_ok (inserted (u\<lparr>us_created := c\<rparr>) (users w))"
  by (auto simp: accounts_ok_def inserted_def user_insert_ok_def user_rows.ok_insert)

lemma inserted_admin: "has_admin t \<Longrightarrow> has_admin (inserted u t)"
  by (auto simp: has_admin_def inserted_def)

lemma find_role: "accounts_ok t \<Longrightarrow> t_find P t = Some u \<Longrightarrow> us_role u \<in> {RoleAdmin, RoleViewer}"
  unfolding accounts_ok_def t_find_def by (blast dest: first_where_SomeD)

lemma find_id: "t_find (\<lambda>r. us_id r = i) t = Some u \<Longrightarrow> us_id u = i"
  unfolding t_find_def by (auto dest: first_where_SomeD)

section \<open>Every operation keeps an administrator\<close>

definition safe_world :: "'z users_world_scheme \<Rightarrow> bool" where
  "safe_world w = safe (users w)"

lemma wp_kept_then:
  assumes "keeps (users_are (users w)) m" "safe_world w"
    and "\<And>a t. users t = users w \<Longrightarrow> wp (k a) (\<lambda>r. safe_world) t"
  shows "wp (bindE m k) (\<lambda>r. safe_world) w"
  by (rule wp_bind [OF wp_users_kept [OF assms(1)]]) (use assms in \<open>auto simp: safe_world_def\<close>)

lemma wp_kept_last:
  assumes "keeps (users_are (users w)) m" "safe_world w"
  shows "wp m (\<lambda>r. safe_world) w"
  by (rule wp_mono [OF wp_users_kept [OF assms(1)]])
    (use assms(2) in \<open>auto simp: onE_def safe_world_def split: sum.splits\<close>)

lemma wp_audited_ret:
  "safe_world w \<Longrightarrow> wp (andthen (audited now rec what) (ret u)) (\<lambda>r. safe_world) w"
  by (rule wp_kept_last) (intro keeps_rules keeps_users_audited)

lemma update_safe:
  assumes s: "safe (users w)" and find: "t_find (\<lambda>r. us_id r = us_id u) (users w) = Some old"
    and role: "us_role u \<in> {RoleAdmin, RoleViewer}"
    and cond: "enabled_admin old \<Longrightarrow> enabled_admin u \<or> 1 < t_count enabled_admin (users w)"
  shows "wp (user_update u) (onE (\<lambda>e t. safe_world t) (\<lambda>_ t. safe_world t)) w"
proof -
  have "safe (updated u (users w))"
    using s updated_ok [OF _ role] updated_admin [OF _ _ find cond] by (simp add: safe_def)
  then show ?thesis
    using s by (intro wp_mono [OF user_update_wp [OF role]])
      (auto simp: onE_def safe_world_def split: sum.splits)
qed

lemma wp_update_then:
  assumes "safe (users w)" "t_find (\<lambda>r. us_id r = us_id u) (users w) = Some old"
    "us_role u \<in> {RoleAdmin, RoleViewer}"
    "enabled_admin old \<Longrightarrow> enabled_admin u \<or> 1 < t_count enabled_admin (users w)"
    "\<And>t. safe_world t \<Longrightarrow> wp n (\<lambda>r. safe_world) t"
  shows "wp (andthen (user_update u) n) (\<lambda>r. safe_world) w"
  by (rule wp_then [OF update_safe [OF assms(1-4)]]) (use assms(5) in auto)

lemma SetRole_safe: "keeps safe_world (users_SetRole now i role actor)"
proof -
  have body: "wp (andthen (if us_role u = RoleAdmin \<and> role = RoleViewer then requireAnotherAdmin u else ret ())
      (andthen (user_update (u\<lparr>us_role := role\<rparr>)) (andthen (audited now rec what) (ret v))))
      (\<lambda>r. safe_world) t"
    if s: "safe (users t)" and u: "t_find (\<lambda>r. us_id r = i) (users t) = Some u"
      and r: "role = RoleAdmin \<or> role = RoleViewer"
    for t :: "'a users_world_scheme" and u v :: user and rec what
  proof (rule wp_then [where E = "\<lambda>e x. users x = users t" and P = "\<lambda>a x. users x = users t \<and>
        (us_role u = RoleAdmin \<and> role = RoleViewer \<longrightarrow> enabled_admin u \<longrightarrow> 1 < t_count enabled_admin (users t))"])
    show "wp (if us_role u = RoleAdmin \<and> role = RoleViewer then requireAnotherAdmin u else ret ())
      (onE (\<lambda>e x. users x = users t) (\<lambda>a x. users x = users t \<and>
        (us_role u = RoleAdmin \<and> role = RoleViewer \<longrightarrow> enabled_admin u \<longrightarrow> 1 < t_count enabled_admin (users t)))) t"
      by (auto simp: wp_ret onE_def intro!: wp_mono [OF require_wp] split: sum.splits)
  next
    fix a x assume x: "users x = users t \<and>
        (us_role u = RoleAdmin \<and> role = RoleViewer \<longrightarrow> enabled_admin u \<longrightarrow> 1 < t_count enabled_admin (users t))"
    show "wp (andthen (user_update (u\<lparr>us_role := role\<rparr>)) (andthen (audited now rec what) (ret v))) (\<lambda>r. safe_world) x"
      by (rule wp_update_then [where old = u])
        (use x s u r find_id [OF u] in \<open>auto simp: enabled_admin_def intro: wp_audited_ret\<close>)
  qed (use s in \<open>simp add: safe_world_def\<close>)
  show ?thesis
    unfolding keeps_wp users_SetRole_def Let_def
    by (intro allI impI wp_guard_then wp_bind [OF user_by_id_wp]; (rule body)?; simp add: safe_world_def)
qed

lemma SetDisabled_safe: "keeps safe_world (users_SetDisabled now i dis actor)"
proof -
  have body: "wp (andthen (if dis \<and> \<not> disabled u then requireAnotherAdmin u else ret ())
      (andthen (user_update (u\<lparr>us_disabled := d\<rparr>)) (andthen (audited now rec what) (ret v))))
      (\<lambda>r. safe_world) t"
    if s: "safe (users t)" and u: "t_find (\<lambda>r. us_id r = i) (users t) = Some u" and d: "d = None \<or> dis"
    for t :: "'a users_world_scheme" and u v :: user and rec what d
  proof (rule wp_then [where E = "\<lambda>e x. users x = users t" and P = "\<lambda>a x. users x = users t \<and>
        (dis \<longrightarrow> enabled_admin u \<longrightarrow> 1 < t_count enabled_admin (users t))"])
    show "wp (if dis \<and> \<not> disabled u then requireAnotherAdmin u else ret ())
      (onE (\<lambda>e x. users x = users t) (\<lambda>a x. users x = users t \<and>
        (dis \<longrightarrow> enabled_admin u \<longrightarrow> 1 < t_count enabled_admin (users t)))) t"
      by (auto simp: wp_ret onE_def enabled_admin_def disabled_def intro!: wp_mono [OF require_wp]
          split: sum.splits)
  next
    fix a x assume x: "users x = users t \<and> (dis \<longrightarrow> enabled_admin u \<longrightarrow> 1 < t_count enabled_admin (users t))"
    show "wp (andthen (user_update (u\<lparr>us_disabled := d\<rparr>)) (andthen (audited now rec what) (ret v))) (\<lambda>r. safe_world) x"
      by (rule wp_update_then [where old = u])
        (use x s u d find_id [OF u] find_role [OF _ u] in \<open>auto simp: enabled_admin_def safe_def intro: wp_audited_ret\<close>)
  qed (use s in \<open>simp add: safe_world_def\<close>)
  show ?thesis
    unfolding keeps_wp users_SetDisabled_def Let_def
    by (intro allI impI wp_guard_then wp_bind [OF user_by_id_wp]; (rule body)?; simp add: safe_world_def)
qed

lemma wp_audited_last: "safe_world w \<Longrightarrow> wp (audited now rec what) (\<lambda>r. safe_world) w"
  by (rule wp_kept_last) (intro keeps_users_audited)

lemma Delete_safe: "keeps safe_world (users_Delete now i actor)"
proof -
  have body: "wp (andthen (requireAnotherAdmin u) (andthen (user_delete i) (audited now rec what)))
      (\<lambda>r. safe_world) t"
    if s: "safe (users t)" and u: "t_find (\<lambda>r. us_id r = i) (users t) = Some u"
    for t :: "'a users_world_scheme" and u rec what
  proof (rule wp_then [OF require_wp])
    fix a x assume x: "users x = users t \<and> (enabled_admin u \<longrightarrow> 1 < t_count enabled_admin (users t))"
    then have del: "safe (t_delete (\<lambda>r. us_id r = i) (users x))"
      using s u deleted_ok [of "users t"] deleted_admin [OF _ _ u] by (simp add: safe_def)
    show "wp (andthen (user_delete i) (audited now rec what)) (\<lambda>r. safe_world) x"
      by (rule wp_then [OF user_delete_wp]) (use s x del in \<open>auto simp: safe_world_def intro!: wp_audited_last\<close>)
  qed (use s in \<open>simp add: safe_world_def\<close>)
  show ?thesis
    unfolding keeps_wp users_Delete_def
    by (intro allI impI wp_guard_then wp_bind [OF user_by_id_wp]; (rule body)?; simp add: safe_world_def)
qed

lemma create_safe:
  assumes "safe (users w)" "is_zero_time (us_created u)"
  shows "wp (user_create now u) (onE (\<lambda>e t. safe_world t) (\<lambda>_ t. safe_world t)) w"
proof -
  have "user_insert_ok u w \<Longrightarrow> safe (inserted (u\<lparr>us_created := now\<rparr>) (users w))"
    using assms(1) inserted_ok inserted_admin by (auto simp: safe_def)
  then show ?thesis
    using assms(1) by (intro wp_mono [OF user_create_wp [OF assms(2)]])
      (auto simp: onE_def safe_world_def split: sum.splits)
qed

lemma wp_map_then:
  assumes "wp m (onE E P) s" and "\<And>e t. E e t \<Longrightarrow> Q (Inl (f e)) t" and "\<And>a t. P a t \<Longrightarrow> wp (k a) Q t"
  shows "wp (bindE (map_error f m) k) Q s"
  unfolding wp_bindE wp_map_error
  by (rule wp_mono [OF assms(1)]) (auto simp: onE_def assms(2,3) split: sum.splits)

lemma Create_safe: "keeps safe_world (users_Create now hashed input actor)"
  unfolding keeps_wp
proof (intro allI impI)
  fix w :: "'a users_world_scheme" assume w: "safe_world w"
  show "wp (users_Create now hashed input actor) (\<lambda>r. safe_world) w"
    unfolding users_Create_def andthen_def
  proof (rule wp_kept_then [OF keeps_users_input w])
    fix a t assume "users t = users w"
    then have t: "safe_world t" using w by (simp add: safe_world_def)
    then show "wp (bindE (of_option (ErrOther ''hashing password'') hashed)
      (\<lambda>hash. bindE (map_error (\<lambda>_. ErrOther ''creating user'') (user_create now
         \<lparr>us_id = 0, us_name = ui_name input, us_hash = hash, us_role = ui_role input,
          us_disabled = None, us_created = zero_time\<rparr>))
       (\<lambda>created. bindE (audited now (global_audit actor ''user_create''
          (''created user '' @ us_name created @ '' ('' @ us_role created @ '')'')) ''auditing user create'')
          (\<lambda>_. ret created)))) (\<lambda>r. safe_world) t"
      by (auto simp: wp_bindE [of "of_option _ _"] wp_of_option safe_world_def is_zero_time_def
          simp del: not_None_eq split: option.split
          intro!: wp_map_then [OF create_safe] wp_audited_ret [unfolded andthen_def])
  qed
qed

lemma SetPassword_safe: "keeps safe_world (users_SetPassword now hashed i pw actor)"
proof -
  have body: "wp (bindE (of_option (ErrOther ''hashing password'') hashed) (\<lambda>hash.
      andthen (user_update (u\<lparr>us_hash := hash\<rparr>)) (audited now rec what))) (\<lambda>r. safe_world) t"
    if s: "safe (users t)" and u: "t_find (\<lambda>r. us_id r = i) (users t) = Some u"
    for t :: "'a users_world_scheme" and u rec what
  proof (cases hashed)
    case None
    then show ?thesis using s by (simp add: wp_bindE wp_of_option safe_world_def)
  next
    case (Some h)
    have "us_role u \<in> {RoleAdmin, RoleViewer}" using s find_role [OF _ u] by (simp add: safe_def)
    then have "wp (andthen (user_update (u\<lparr>us_hash := h\<rparr>)) (audited now rec what)) (\<lambda>r. safe_world) t"
      by (intro wp_update_then [where old = u])
        (use s u find_id [OF u] in \<open>auto simp: enabled_admin_def intro: wp_audited_last\<close>)
    then show ?thesis using Some by (simp add: wp_bindE [of "of_option _ _"] wp_of_option)
  qed
  have check: "wp (andthen (of_check c) n) (\<lambda>r. safe_world) t"
    if "safe_world t" "wp n (\<lambda>r. safe_world) t" for c n and t :: "'a users_world_scheme"
    using that by (simp add: of_check_def wp_rules split: option.split)
  show ?thesis
    unfolding keeps_wp users_SetPassword_def
    by (intro allI impI wp_guard_then check wp_bind [OF user_by_id_wp]; (rule body)?; simp add: safe_world_def)
qed

section \<open>The bootstrap administrator\<close>

lemma wp_check_then:
  "(c = None \<Longrightarrow> wp n Q s) \<Longrightarrow> (\<And>e. c = Some e \<Longrightarrow> Q (Inl e) s) \<Longrightarrow> wp (andthen (of_check c) n) Q s"
  by (cases c) (simp_all add: of_check_def wp_andthen wp_ret wp_throw)

lemma inserted_new_admin:
  "us_role u = RoleAdmin \<Longrightarrow> us_disabled u = None \<Longrightarrow> has_admin (inserted u t)"
  by (auto simp: has_admin_def inserted_def enabled_admin_def)

lemma updated_new_admin:
  assumes "t_find (\<lambda>r. us_id r = us_id u) t = Some old" "enabled_admin u"
  shows "has_admin (updated u t)"
proof -
  have "old \<in> set (rows t)" "us_id old = us_id u"
    using assms(1) by (auto simp: t_find_def dest: first_where_SomeD)
  then have "rewrite_user u old \<in> set (rows (updated u t))"
    unfolding updated_def rows_t_update set_map_where by (intro bexI [of _ old]) simp_all
  moreover have "enabled_admin (rewrite_user u old)"
    using assms(2) by (simp add: enabled_admin_def rewrite_user_def)
  ultimately show ?thesis unfolding has_admin_def by blast
qed

lemma find_by_name_id:
  assumes "accounts_ok t" "t_find (\<lambda>r. us_name r = n) t = Some u"
  shows "t_find (\<lambda>r. us_id r = us_id u) t = Some u"
proof -
  have u: "u \<in> set (rows t)" using assms(2) by (auto simp: t_find_def dest: first_where_SomeD)
  then obtain v where v: "t_find (\<lambda>r. us_id r = us_id u) t = Some v"
    unfolding t_find_def by (metis (mono_tags, lifting) first_where_None not_None_eq)
  then have "v \<in> set (rows t)" "us_id v = us_id u" by (auto simp: t_find_def dest: first_where_SomeD)
  then show ?thesis using v u assms(1) user_rows.row_unique by (metis accounts_ok_def)
qed

definition ensured :: "'z users_world_scheme \<Rightarrow> err + bool \<Rightarrow> 'z users_world_scheme \<Rightarrow> bool" where
  "ensured w r t =
    onE (\<lambda>e t. accounts_ok (users t) \<and> (has_admin (users w) \<longrightarrow> users t = users w))
        (\<lambda>b t. safe (users t) \<and> (has_admin (users w) \<longrightarrow> \<not> b \<and> users t = users w)) r t"

lemma EnsureAdmin_wp:
  fixes w :: "'z users_world_scheme"
  assumes ok: "accounts_ok (users w)"
  shows "wp (users_EnsureAdmin now hashed pw) (ensured w) w"
    (is "wp _ ?Q w")
proof -
  have bad: "users t = users w \<Longrightarrow> ensured w (Inl e) t" for e t
    using ok by (simp add: ensured_def)
  have cnt: "0 < t_count enabled_admin t \<longleftrightarrow> has_admin t" for t
    by (auto simp: t_count_def has_admin_def filter_empty_conv)
  have count: "wp count_enabled_admins (onE (\<lambda>e t. users t = users w)
      (\<lambda>n t. users t = users w \<and> n = int (t_count enabled_admin (users w)))) w"
    unfolding count_enabled_admins_def by (simp add: wp_rules, rule wp_stmt_all) (simp_all add: wp_rules)
  let ?seed = "\<lambda>hash. map_error (\<lambda>_. ErrOther ''seeding admin'') (user_create now
              \<lparr>us_id = 0, us_name = bootstrapAdmin, us_hash = hash, us_role = RoleAdmin,
               us_disabled = None, us_created = zero_time\<rparr>)"
  have seed: "wp (andthen (?seed hash) (ret True)) ?Q t"
    if t: "users t = users w" "\<not> has_admin (users w)" for hash and t :: "'z users_world_scheme"
  proof -
    let ?u = "\<lparr>us_id = 0, us_name = bootstrapAdmin, us_hash = hash, us_role = RoleAdmin,
               us_disabled = None, us_created = zero_time\<rparr>"
    have new: "user_insert_ok ?u t \<Longrightarrow> safe (inserted (?u\<lparr>us_created := now\<rparr>) (users t))"
      using ok t(1) inserted_ok [of t ?u] inserted_new_admin by (simp add: safe_def)
    show ?thesis unfolding andthen_def
      by (rule wp_map_then [OF user_create_wp])
        (use t ok new in \<open>auto simp: is_zero_time_def wp_ret safe_def ensured_def\<close>)
  qed
  have repair: "wp (andthen (map_error (\<lambda>_. ErrOther ''repairing admin'')
      (user_update (u\<lparr>us_hash := hash, us_role := RoleAdmin, us_disabled := None\<rparr>))) (ret True)) ?Q t"
    if t: "users t = users w" "\<not> has_admin (users w)"
      and u: "t_find (\<lambda>r. us_name r = bootstrapAdmin) (users w) = Some u"
    for hash u and t :: "'z users_world_scheme"
  proof -
    let ?u = "u\<lparr>us_hash := hash, us_role := RoleAdmin, us_disabled := None\<rparr>"
    have "accounts_ok (updated ?u (users w))" using ok by (intro updated_ok) simp_all
    moreover have "has_admin (updated ?u (users w))"
      by (rule updated_new_admin [of _ _ u])
        (use find_by_name_id [OF ok u] in \<open>simp_all add: enabled_admin_def\<close>)
    ultimately have new: "safe (updated ?u (users w))" by (simp add: safe_def)
    show ?thesis unfolding andthen_def
      by (rule wp_map_then [OF user_update_wp]) (use t ok new in \<open>auto simp: wp_ret safe_def ensured_def\<close>)
  qed
  have found: "wp (bindE (attempt (user_by_name bootstrapAdmin)) (\<lambda>existing.
       case existing of
         Inl e \<Rightarrow> if e = ErrUserNotFound then andthen (?seed hash) (ret True)
                  else throw (ErrOther ''looking up admin'')
       | Inr u \<Rightarrow>
          andthen (map_error (\<lambda>_. ErrOther ''repairing admin'')
            (user_update (u\<lparr>us_hash := hash, us_role := RoleAdmin, us_disabled := None\<rparr>)))
           (ret True))) ?Q t"
    if t: "users t = users w" "\<not> has_admin (users w)" for hash and t :: "'z users_world_scheme"
  proof -
    have after: "wp (case r of
         Inl e \<Rightarrow> if e = ErrUserNotFound then andthen (?seed hash) (ret True)
                  else throw (ErrOther ''looking up admin'')
       | Inr u \<Rightarrow>
          andthen (map_error (\<lambda>_. ErrOther ''repairing admin'')
            (user_update (u\<lparr>us_hash := hash, us_role := RoleAdmin, us_disabled := None\<rparr>)))
           (ret True)) ?Q x"
      if "users x = users w" "\<forall>u. r = Inr u \<longrightarrow> t_find (\<lambda>r. us_name r = bootstrapAdmin) (users w) = Some u"
      for r and x :: "'z users_world_scheme"
    proof (cases r)
      case (Inl e)
      have "wp (throw (ErrOther ''looking up admin'')) ?Q x" using that by (simp add: wp_throw bad)
      then show ?thesis using Inl seed [OF that(1) t(2)] by (simp only: sum.case split: if_split) blast
    next
      case (Inr u)
      then show ?thesis using repair [OF that(1) t(2)] that(2) by (simp only: sum.case)
    qed
    show ?thesis
      unfolding wp_bindE wp_attempt onE_simps
      by (rule wp_mono [OF user_by_name_wp], rule after)
        (use t in \<open>auto simp: onE_def split: sum.splits\<close>)
  qed
  show ?thesis
    unfolding users_EnsureAdmin_def
    apply (rule wp_bind [OF count])
     apply (simp add: bad)
    apply (rule wp_if_prog)
     apply (simp add: cnt wp_ret safe_def ok ensured_def)
    apply (rule wp_check_then)
     apply (rule wp_option_bind)
      apply (simp add: bad)
     apply (rule found)
      apply simp
     apply (simp add: cnt)
    apply (simp add: bad)
    done
qed

lemma EnsureAdmin_safe: "keeps safe_world (users_EnsureAdmin now hashed pw)"
  unfolding keeps_wp
proof (intro allI impI)
  fix w :: "'a users_world_scheme" assume "safe_world w"
  then show "wp (users_EnsureAdmin now hashed pw) (\<lambda>r. safe_world) w"
    by (intro wp_mono [OF EnsureAdmin_wp])
      (auto simp: safe_world_def safe_def ensured_def onE_def split: sum.splits)
qed

section \<open>Logging in\<close>

lemma user_by_name_quiet:
  "faults w = [] \<Longrightarrow> user_by_name n w =
    (case t_find (\<lambda>r. us_name r = n) (users w) of None \<Rightarrow> (Inl ErrUserNotFound, w) | Some u \<Rightarrow> (Inr u, w))"
  by (simp add: user_by_name_def run_defs split: option.split)

lemma Create_inserted:
  fixes w :: "'z users_world_scheme"
  shows "wp (users_Create now (Some h) input actor)
    (onE (\<lambda>e t. True) (\<lambda>u t. \<exists>u0. us_name u0 = ui_name input \<and> us_hash u0 = h \<and> us_role u0 = ui_role input \<and>
       us_disabled u0 = None \<and> user_insert_ok u0 w \<and> users t = inserted (u0\<lparr>us_created := now\<rparr>) (users w) \<and>
       u = u0\<lparr>us_created := now, us_id := seq (users w) + 1\<rparr>)) w"
    (is "wp _ ?Q w")
proof -
  let ?u0 = "\<lparr>us_id = 0, us_name = ui_name input, us_hash = h, us_role = ui_role input,
       us_disabled = None, us_created = zero_time\<rparr>"
  have z: "is_zero_time (us_created ?u0)" by (simp add: is_zero_time_def)
  have last: "wp (andthen (audited now rec what) (ret u)) ?Q x"
    if "users x = inserted (?u0\<lparr>us_created := now\<rparr>) (users w)" "user_insert_ok ?u0 w"
      "u = ?u0\<lparr>us_created := now, us_id := seq (users w) + 1\<rparr>"
    for rec what u and x :: "'z users_world_scheme"
    by (rule wp_then [OF wp_users_kept [OF keeps_users_audited]])
      (use that in \<open>auto simp: wp_ret intro!: exI [of _ ?u0]\<close>)
  show ?thesis
    unfolding users_Create_def
    apply (rule wp_then [OF wp_users_kept [OF keeps_users_input]], simp)
    apply (simp only: of_option_def option.case bindE_ret)
    apply (rule wp_map_then [OF user_create_wp [OF z]], simp)
    apply (rule last)
      apply (auto simp: user_insert_ok_def)
    done
qed

lemma find_new_name:
  "user_insert_ok u w \<Longrightarrow> t_find (\<lambda>r. us_name r = us_name u) (inserted (u\<lparr>us_created := c\<rparr>) (users w)) =
    Some (u\<lparr>us_created := c, us_id := seq (users w) + 1\<rparr>)"
proof -
  assume "user_insert_ok u w"
  then have "first_where (\<lambda>r. us_name r = us_name u) (rows (users w)) = None"
    by (simp add: user_insert_ok_def)
  then show ?thesis by (simp add: t_find_def inserted_def first_where_append del: first_where_None)
qed

lemma Verify_quiet:
  "faults w = [] \<Longrightarrow> users_Verify matches n pw w =
    (case t_find (\<lambda>r. us_name r = n) (users w) of
       None \<Rightarrow> (Inl ErrUnauthorized, w)
     | Some u \<Rightarrow> if disabled u \<or> \<not> matches (us_hash u) pw then (Inl ErrUnauthorized, w) else (Inr u, w))"
  by (simp add: users_Verify_def bindE_def attempt_def user_by_name_quiet andthen_def guardE_def ret_def throw_def
      split: option.split)

text \<open>
  What the service relies on of \<open>bcrypt\<close> for the hash \<open>h\<close> it made of a password \<open>p\<close>: \<open>p\<close> itself matches,
  and no other password does among those that \<open>bcrypt\<close> tells apart.  It reads at most 72 bytes and repeats
  a shorter password after a zero byte, so nothing is asked of longer ones and of those with a
  zero byte.
\<close>

definition comparable :: "gostring \<Rightarrow> bool" where
  "comparable pw \<longleftrightarrow> length pw \<le> 72 \<and> CHR 0x00 \<notin> set pw"

definition hash_of :: "(gostring \<Rightarrow> gostring \<Rightarrow> bool) \<Rightarrow> gostring \<Rightarrow> gostring \<Rightarrow> bool" where
  "hash_of matches h p \<longleftrightarrow>
    matches h p \<and> (\<forall>pw. comparable p \<and> comparable pw \<and> matches h pw \<longrightarrow> pw = p)"

lemma user_update_success:
  "user_update u w = (Inr x, t) \<Longrightarrow> users t = updated u (users w)"
  by (auto simp: user_update_def returned updated_def dest!: returned_stmt)

lemma audited_users: "audited now rec what w = (r, t) \<Longrightarrow> users t = users w"
  using wp_users_kept [OF keeps_users_audited, of now rec what w]
  by (auto simp: wp_def onE_def split: sum.splits)

text \<open>Disabling rewrites every row with the id.\<close>

lemma SetDisabled_success:
  assumes "users_SetDisabled now i True actor w = (Inr u, t)"
  shows "\<exists>v. us_id v = i \<and> us_disabled v = Some now \<and> users t = updated v (users w)"
proof -
  obtain a v x y z where run: "user_by_id i w = (Inr v, x)"
    "(if \<not> disabled v then requireAnotherAdmin v else ret ()) x = (Inr a, y)"
    "user_update (v\<lparr>us_disabled := Some now\<rparr>) y = (Inr (), z)"
    and last: "\<exists>rec what r. audited now rec what z = (r, t)"
    using assms by (auto simp: users_SetDisabled_def Let_def returned) blast
  have x: "users x = users w" "us_id v = i"
    using wp_run [OF user_by_id_wp run(1)] find_id by auto
  have "users y = users x"
    using run(2) wp_run [OF require_wp, of v x] by (cases "disabled v") (auto simp: returned)
  then have "users t = updated (v\<lparr>us_disabled := Some now\<rparr>) (users w)"
    using user_update_success [OF run(3)] last audited_users x(1) by metis
  then show ?thesis using x(2) by (intro exI [of _ "v\<lparr>us_disabled := Some now\<rparr>"]) simp
qed

lemma find_updated:
  "t_find (\<lambda>r. us_name r = n) (users w) = Some u \<Longrightarrow> us_id v = us_id u \<Longrightarrow>
    t_find (\<lambda>r. us_name r = n) (updated v (users w)) = Some (rewrite_user v u)"
  by (simp add: t_find_def updated_def t_update_def first_where_update rewrite_user_def)

section \<open>Properties\<close>

text \<open>C24: Once there is an enabled administrator, every account operation, run to its end or
  stopped by a failing statement anywhere, leaves one; usernames stay unique, ids are
  never reused and roles stay admin or viewer.\<close>

theorem users_keep_an_admin:
  "keeps safe_world (users_Create now hashed input actor) \<and>
   keeps safe_world (users_SetRole now i role actor) \<and>
   keeps safe_world (users_SetPassword now hashed i pw actor) \<and>
   keeps safe_world (users_SetDisabled now i dis actor) \<and>
   keeps safe_world (users_Delete now i actor) \<and>
   keeps safe_world (users_EnsureAdmin now hashed pw)"
  by (intro conjI Create_safe SetRole_safe SetPassword_safe SetDisabled_safe Delete_safe EnsureAdmin_safe)

text \<open>When the start-up check for an administrator succeeds there is an enabled one, whatever
  the table held; where there was one already no account is touched and nothing is
  reported as seeded.\<close>

theorem EnsureAdmin_ensures:
  assumes "accounts_ok (users w)" and "users_EnsureAdmin now hashed pw w = (Inr seeded, t)"
  shows "safe (users t) \<and> (has_admin (users w) \<longrightarrow> \<not> seeded \<and> users t = users w)"
  using wp_run [OF EnsureAdmin_wp [OF assms(1)] assms(2)] by (simp add: ensured_def)

text \<open>C27: An account just created logs in with its password, and no other password that \<open>bcrypt\<close> tells apart
  from it logs in; a wrong password and an unknown name give the same answer, and so does, for every
  password, the right one included, any account that is disabled, as this one is once it
  was disabled.\<close>

theorem Create_then_Verify:
  assumes "users_Create now (Some h) input actor w = (Inr u, t)" and "faults t = []"
    and "hash_of matches h (ui_password input)"
  shows "users_Verify matches (ui_name input) (ui_password input) t = (Inr u, t) \<and> us_role u = ui_role input \<and>
    (\<forall>pw. comparable (ui_password input) \<and> comparable pw \<and> pw \<noteq> ui_password input \<longrightarrow>
       users_Verify matches (ui_name input) pw t = (Inl ErrUnauthorized, t)) \<and>
    (\<forall>name pw. t_find (\<lambda>r. us_name r = name) (users t) = None \<longrightarrow>
       users_Verify matches name pw t = (Inl ErrUnauthorized, t)) \<and>
    (\<forall>name v pw. t_find (\<lambda>r. us_name r = name) (users t) = Some v \<and> us_disabled v \<noteq> None \<longrightarrow>
       users_Verify matches name pw t = (Inl ErrUnauthorized, t)) \<and>
    (\<forall>now' actor' u' t' pw. users_SetDisabled now' (us_id u) True actor' t = (Inr u', t') \<and> faults t' = [] \<longrightarrow>
       users_Verify matches (ui_name input) pw t' = (Inl ErrUnauthorized, t'))"
proof -
  obtain u0 where u0: "us_name u0 = ui_name input" "us_hash u0 = h" "us_role u0 = ui_role input"
    "us_disabled u0 = None" "user_insert_ok u0 w"
    "users t = inserted (u0\<lparr>us_created := now\<rparr>) (users w)"
    "u = u0\<lparr>us_created := now, us_id := seq (users w) + 1\<rparr>"
    using wp_run [OF Create_inserted assms(1)] by auto
  have find: "t_find (\<lambda>r. us_name r = ui_name input) (users t) = Some u"
    using find_new_name [OF u0(5), of now] u0 by simp
  have gone: "users_Verify matches (ui_name input) pw t' = (Inl ErrUnauthorized, t')"
    if dis: "users_SetDisabled now' (us_id u) True actor' t = (Inr u', t')" "faults t' = []" for now' actor' u' t' pw
  proof -
    obtain v where v: "us_id v = us_id u" "us_disabled v = Some now'" "users t' = updated v (users t)"
      using SetDisabled_success [OF dis(1)] by blast
    then show ?thesis
      using find_updated [OF find v(1)] dis(2) by (simp add: Verify_quiet disabled_def rewrite_user_def)
  qed
  have "users_Verify matches (ui_name input) pw t = (if matches h pw then (Inr u, t) else (Inl ErrUnauthorized, t))" for pw
    using find assms(2) u0 by (simp add: Verify_quiet disabled_def)
  then show ?thesis
    using gone assms(2,3) u0(3,7) by (auto simp: hash_of_def Verify_quiet disabled_def)
qed

text \<open>The guard and the write of an account change are two statements: when two requests both pass
  the guard for two different administrators before either writes, both writes succeed
  and no administrator is left.\<close>

theorem last_admin_race:
  "\<exists>(w :: users_world) a b. safe (users w) \<and> enabled_admin a \<and> enabled_admin b \<and>
    t_find (\<lambda>r. us_id r = us_id a) (users w) = Some a \<and> t_find (\<lambda>r. us_id r = us_id b) (users w) = Some b \<and>
    requireAnotherAdmin a w = (Inr (), w) \<and> requireAnotherAdmin b w = (Inr (), w) \<and>
    (case user_update (a\<lparr>us_disabled := Some 1\<rparr>) w of (ra, v) \<Rightarrow>
     case user_update (b\<lparr>us_disabled := Some 1\<rparr>) v of (rb, t) \<Rightarrow>
       ra = Inr () \<and> rb = Inr () \<and> \<not> has_admin (users t))"
proof -
  let ?a = "\<lparr>us_id = 1, us_name = ''ada'', us_hash = [], us_role = ''admin'', us_disabled = None, us_created = 1\<rparr>"
  let ?b = "\<lparr>us_id = 2, us_name = ''bob'', us_hash = [], us_role = ''admin'', us_disabled = None, us_created = 1\<rparr>"
  let ?w = "\<lparr>faults = [], services = [], deploys = empty_table, probes = empty_table,
     notifications = empty_table, audits = empty_table, child_rows = [], events = [],
     users = \<lparr>rows = [?a, ?b], seq = 2\<rparr>\<rparr>"
  show ?thesis
    by (intro exI [of _ ?w] exI [of _ ?a] exI [of _ ?b])
      (simp add: safe_def accounts_ok_def has_admin_def enabled_admin_def table_ok_def t_find_def
        requireAnotherAdmin_def count_enabled_admins_def disabled_def user_update_def run_defs table_defs
        map_where_def rewrite_user_def)
qed

definition demo_users :: users_world where
  "demo_users =
    \<lparr>faults = [], services = [], deploys = empty_table, probes = empty_table,
     notifications = empty_table, audits = empty_table, child_rows = [], events = [],
     users = empty_table\<rparr>"

lemma EnsureAdmin_ensures_witness:
  "\<exists>t. users_EnsureAdmin 1 (Some ''h'') ''correct horse'' demo_users = (Inr True, t) \<and> safe (users t)"
proof -
  obtain t where t: "users_EnsureAdmin 1 (Some ''h'') ''correct horse'' demo_users = (Inr True, t)"
    by (simp add: users_EnsureAdmin_def count_enabled_admins_def user_by_name_def user_create_def demo_users_def
        run_defs table_defs empty_table_def of_check_def checkPassword_def minPasswordLength_def
        maxPasswordLength_def user_insert_ok_def is_zero_time_def)
  have "accounts_ok (users demo_users)" by (simp add: demo_users_def accounts_ok_def empty_table_def table_ok_def)
  from EnsureAdmin_ensures [OF this t] t show ?thesis by blast
qed

lemma Create_then_Verify_witness:
  "\<exists>u t. users_Create 1 (Some ''correct horse'') \<lparr>ui_name = ''ada'', ui_password = ''correct horse'', ui_role = ''viewer''\<rparr>
      ''admin'' demo_users = (Inr u, t) \<and>
    users_Verify (\<lambda>h pw. pw = h) ''ada'' ''correct horse'' t = (Inr u, t) \<and>
    users_Verify (\<lambda>h pw. pw = h) ''ada'' ''guess'' t = (Inl ErrUnauthorized, t)"
proof -
  let ?in = "\<lparr>ui_name = ''ada'', ui_password = ''correct horse'', ui_role = ''viewer''\<rparr>"
  obtain u t where t: "users_Create 1 (Some ''correct horse'') ?in ''admin'' demo_users = (Inr u, t)" "faults t = []"
    by (simp add: users_Create_def checkUserInput_def user_by_name_def user_create_def demo_users_def
        run_defs table_defs empty_table_def of_check_def checkPassword_def minPasswordLength_def
        maxPasswordLength_def maxUsernameLength_def user_insert_ok_def is_zero_time_def username_char_def
        is_lower_def audited_def audit_Record_def audit_actions_def global_audit_def audit_insert_def Let_def
        audit_entry_def audit_insert_ok_def audit_actions_sql_def results_sql_def zero_time_def)
  have h: "hash_of (\<lambda>h pw. pw = h) ''correct horse'' (ui_password ?in)" by (simp add: hash_of_def)
  show ?thesis
    using t Create_then_Verify [OF t h] by (auto simp: comparable_def)
qed

end
