(* ===== verification/Auth.thy ===== *)
theory Auth
  imports Users_Laws
begin

text \<open>
  Sessions, login rate limiting and authorisation: \<open>internal/http/auth.go\<close>, the path
  labels of middleware.go and the API routes of server.go.  The state adds the session
  and failure maps of the \<open>Authenticator\<close>.  The random bytes of a token (or the
  failure to read them) are an argument of the login; cookies and JSON bodies are given decoded.
\<close>

section \<open>The Authenticator\<close>

definition maxFailures :: nat where "maxFailures = 5"
definition failureWindow :: duration where "failureWindow = minute"
definition sessionExpiry :: duration where "sessionExpiry = 24 * hour"

record session =
  se_user :: gostring
  se_expires :: instant

record identity =
  id_name :: gostring
  id_role :: gostring

definition Admin :: "identity \<Rightarrow> bool" where "Admin i = (id_role i = RoleAdmin)"

record auth_world = users_world +
  sessions :: "gostring \<rightharpoonup> session"
  failures :: "gostring \<Rightarrow> instant list"

text \<open>\<open>hex.EncodeToString\<close>.\<close>

definition hex_digit :: "nat \<Rightarrow> char" where
  "hex_digit n = (if n < 10 then char_of (48 + n) else char_of (87 + n))"

definition hex_string :: "gostring \<Rightarrow> gostring" where
  "hex_string bs = concat (map (\<lambda>b. [hex_digit (code b div 16), hex_digit (code b mod 16)]) bs)"

definition Login ::
  "(gostring \<Rightarrow> gostring \<Rightarrow> bool) \<Rightarrow> instant \<Rightarrow> gostring option \<Rightarrow> gostring \<Rightarrow> gostring
    \<Rightarrow> ('z auth_world_scheme, err, gostring option) prog" where
  "Login matches now rand name pw =
    bindE (attempt (users_Verify matches name pw)) (\<lambda>r.
     case (r, rand) of
       (Inr u, Some bytes) \<Rightarrow>
         andthen (modify (\<lambda>w. w\<lparr>sessions := (sessions w)
            (hex_string bytes \<mapsto> \<lparr>se_user = us_name u, se_expires = now + sessionExpiry\<rparr>)\<rparr>))
          (ret (Some (hex_string bytes)))
     | _ \<Rightarrow> ret None)"

definition drop_session :: "gostring \<Rightarrow> 'z auth_world_scheme \<Rightarrow> 'z auth_world_scheme" where
  "drop_session token w = w\<lparr>sessions := (sessions w)(token := None)\<rparr>"

definition Logout :: "gostring \<Rightarrow> ('z auth_world_scheme, err, unit) prog" where
  "Logout token = modify (drop_session token)"

definition Authenticate ::
  "instant \<Rightarrow> gostring option \<Rightarrow> ('z auth_world_scheme, err, identity option) prog" where
  "Authenticate now cookie =
    (case cookie of
       None \<Rightarrow> ret None
     | Some tok \<Rightarrow>
        if tok = [] then ret None
        else
          bindE (gets (\<lambda>w. sessions w tok)) (\<lambda>found.
           case found of
             None \<Rightarrow> andthen (modify (drop_session tok)) (ret None)
           | Some s \<Rightarrow>
              if se_expires s < now then andthen (modify (drop_session tok)) (ret None)
              else
                bindE (attempt (users_Lookup (se_user s))) (\<lambda>r.
                 case r of
                   Inl e \<Rightarrow> andthen (if e = ErrUnauthorized then Logout tok else ret ()) (ret None)
                 | Inr u \<Rightarrow> ret (Some \<lparr>id_name = us_name u, id_role = us_role u\<rparr>))))"

definition recent_failures :: "instant \<Rightarrow> instant list \<Rightarrow> instant list" where
  "recent_failures now fs = filter (\<lambda>f. now - failureWindow < f) fs"

definition AttemptsExceeded :: "instant \<Rightarrow> gostring \<Rightarrow> ('z auth_world_scheme, err, bool) prog" where
  "AttemptsExceeded now ip =
    bindE (gets (\<lambda>w. recent_failures now (failures w ip))) (\<lambda>recent.
    andthen (modify (\<lambda>w. w\<lparr>failures := (failures w)(ip := recent)\<rparr>))
     (ret (maxFailures \<le> length recent)))"

definition RegisterFailure :: "instant \<Rightarrow> gostring \<Rightarrow> bool \<Rightarrow> ('z auth_world_scheme, err, unit) prog" where
  "RegisterFailure now ip failed =
    modify (\<lambda>w. w\<lparr>failures := (failures w)(ip := (if failed then failures w ip @ [now] else []))\<rparr>)"

section \<open>Requests\<close>

definition auditLogin ::
  "instant \<Rightarrow> gostring \<Rightarrow> gostring \<Rightarrow> gostring \<Rightarrow> ('z auth_world_scheme, err, unit) prog" where
  "auditLogin now name result detail =
    andthen (attempt (audit_Record now
      \<lparr>ar_service = [], ar_actor = name, ar_action = ''login'', ar_result = result, ar_detail = detail\<rparr>))
     (ret ())"

abbreviation defaultLoginUsername :: gostring where "defaultLoginUsername \<equiv> ''admin''"

text \<open>
  A login reads the clock at four places: when the failures of its address are counted, when the session is
  opened, when a failure is recorded, and when it is audited.
\<close>

record login_times =
  lt_attempt :: instant
  lt_session :: instant
  lt_failure :: instant
  lt_audit :: instant

definition refuseLogin ::
  "instant \<Rightarrow> gostring \<Rightarrow> gostring \<Rightarrow> ('z auth_world_scheme, err, nat \<times> gostring option) prog" where
  "refuseLogin now ip name =
    andthen (auditLogin now name AuditFailure (''rate-limited login from '' @ ip)) (ret (429, None))"

definition answerLogin ::
  "instant \<Rightarrow> gostring \<Rightarrow> gostring \<Rightarrow> gostring option \<Rightarrow> ('z auth_world_scheme, err, nat \<times> gostring option) prog" where
  "answerLogin now ip name token =
    (case token of
       None \<Rightarrow> andthen (auditLogin now name AuditFailure (''failed login from '' @ ip)) (ret (401, None))
     | Some tok \<Rightarrow> andthen (auditLogin now name AuditSuccess (''login from '' @ ip)) (ret (204, Some tok)))"

text \<open>The body as decoded (\<open>None\<close>: not JSON).  The result is the status and the cookie set.\<close>

definition handleLogin ::
  "(gostring \<Rightarrow> gostring \<Rightarrow> bool) \<Rightarrow> login_times \<Rightarrow> gostring option \<Rightarrow> gostring
    \<Rightarrow> (gostring \<times> gostring) option \<Rightarrow> ('z auth_world_scheme, err, nat \<times> gostring option) prog" where
  "handleLogin matches lt rand ip body =
    (case body of
       None \<Rightarrow> ret (400, None)
     | Some (name0, pw) \<Rightarrow>
        (let name = (if name0 = [] then defaultLoginUsername else name0) in
         bindE (AttemptsExceeded (lt_attempt lt) ip) (\<lambda>exceeded.
          if exceeded then refuseLogin (lt_audit lt) ip name
          else
            bindE (Login matches (lt_session lt) rand name pw) (\<lambda>token.
            andthen (RegisterFailure (lt_failure lt) ip (token = None))
             (answerLogin (lt_audit lt) ip name token)))))"

definition handleLogout :: "gostring option \<Rightarrow> ('z auth_world_scheme, err, unit) prog" where
  "handleLogout cookie = (case cookie of None \<Rightarrow> ret () | Some tok \<Rightarrow> Logout tok)"

definition isPublic :: "gostring \<Rightarrow> bool" where
  "isPublic path \<longleftrightarrow> path = ''/api/health'' \<or> path = ''/api/auth/login'' \<or>
    path = ''/api/ingest'' \<or> path = ''/api/ingest/logs''"

text \<open>What the middleware does with a request: reject it, or pass it on with an identity or none.\<close>

definition Middleware ::
  "instant \<Rightarrow> gostring \<Rightarrow> gostring option \<Rightarrow> ('z auth_world_scheme, err, identity option option) prog" where
  "Middleware now path cookie =
    (if isPublic path \<or> \<not> has_prefix path ''/api/'' then ret (Some None)
     else bindE (Authenticate now cookie) (\<lambda>who.
       ret (case who of None \<Rightarrow> None | Some i \<Rightarrow> Some (Some i))))"

definition requestActor :: "identity option \<Rightarrow> gostring" where
  "requestActor who = (case who of None \<Rightarrow> ''unknown'' | Some i \<Rightarrow> id_name i)"

definition requireAdmin :: "identity option \<Rightarrow> bool" where
  "requireAdmin who = (case who of None \<Rightarrow> False | Some i \<Rightarrow> Admin i)"

section \<open>Logins at the same time\<close>

text \<open>
  Requests run concurrently, and the mutex of the \<open>Authenticator\<close> is held for the count and for the record of a
  failure only, not for the check of the password between them.  The state of the gate: the world, the
  logins that were let in and have not been recorded yet, each with the outcome of its check once that
  is made, and the latest reading of the clock; and, for the statements, the checks made so far (address,
  time, whether it succeeded) and, per address, the most logins that were ever open at once.
\<close>

record login_attempt =
  la_ip :: gostring
  la_name :: gostring
  la_pw :: gostring
  la_token :: "gostring option option"

record gate =
  ga_world :: auth_world
  ga_open :: "login_attempt list"
  ga_now :: instant
  ga_checks :: "(gostring \<times> instant \<times> bool) list"
  ga_peak :: "gostring \<Rightarrow> nat"

definition open_from :: "gostring \<Rightarrow> gate \<Rightarrow> nat" where
  "open_from ip g = length (filter (\<lambda>l. la_ip l = ip) (ga_open g))"

definition admitted :: "instant \<Rightarrow> login_attempt \<Rightarrow> auth_world \<Rightarrow> gate \<Rightarrow> gate" where
  "admitted now l w g =
    g\<lparr>ga_world := w, ga_now := now, ga_open := ga_open g @ [l],
      ga_peak := (ga_peak g)(la_ip l := max (ga_peak g (la_ip l)) (Suc (open_from (la_ip l) g)))\<rparr>"

text \<open>The last rule is every other request and every audit row: what leaves the failures alone.\<close>

inductive login_step :: "(gostring \<Rightarrow> gostring \<Rightarrow> bool) \<Rightarrow> gate \<Rightarrow> gate \<Rightarrow> bool" for matches where
  admit: "ga_now g \<le> now \<Longrightarrow> AttemptsExceeded now ip (ga_world g) = (Inr False, w) \<Longrightarrow>
    login_step matches g (admitted now \<lparr>la_ip = ip, la_name = name, la_pw = pw, la_token = None\<rparr> w g)"
| refuse: "ga_now g \<le> now \<Longrightarrow> AttemptsExceeded now ip (ga_world g) = (Inr True, w) \<Longrightarrow>
    login_step matches g (g\<lparr>ga_world := w, ga_now := now\<rparr>)"
| check: "ga_now g \<le> now \<Longrightarrow> ga_open g = ls @ l # ls' \<Longrightarrow> la_token l = None \<Longrightarrow>
    Login matches now rand (la_name l) (la_pw l) (ga_world g) = (Inr token, w) \<Longrightarrow>
    login_step matches g
      (g\<lparr>ga_world := w, ga_now := now, ga_open := ls @ l\<lparr>la_token := Some token\<rparr> # ls',
         ga_checks := ga_checks g @ [(la_ip l, now, token \<noteq> None)]\<rparr>)"
| register: "ga_now g \<le> now \<Longrightarrow> ga_open g = ls @ l # ls' \<Longrightarrow> la_token l = Some token \<Longrightarrow>
    RegisterFailure now (la_ip l) (token = None) (ga_world g) = (Inr (), w) \<Longrightarrow>
    login_step matches g (g\<lparr>ga_world := w, ga_now := now, ga_open := ls @ ls'\<rparr>)"
| other: "failures w = failures (ga_world g) \<Longrightarrow> login_step matches g (g\<lparr>ga_world := w\<rparr>)"

text \<open>The process starts without failures.\<close>

inductive login_reach :: "(gostring \<Rightarrow> gostring \<Rightarrow> bool) \<Rightarrow> gate \<Rightarrow> bool" for matches where
  boot: "failures w = (\<lambda>_. []) \<Longrightarrow>
    login_reach matches \<lparr>ga_world = w, ga_open = [], ga_now = now, ga_checks = [], ga_peak = (\<lambda>_. 0)\<rparr>"
| step: "login_reach matches g \<Longrightarrow> login_step matches g h \<Longrightarrow> login_reach matches h"

section \<open>Routes\<close>

text \<open>Method, path pattern, whether \<open>requireAdmin\<close> wraps the handler, the handler.\<close>

definition api_routes :: "(gostring \<times> gostring \<times> bool \<times> gostring) list" where
  "api_routes =
    [(''GET'', ''/api/health'', False, ''handleHealth''),
     (''GET'', ''/api/services'', False, ''handleServices''),
     (''POST'', ''/api/services'', True, ''handleCreateService''),
     (''DELETE'', ''/api/services/{id}'', True, ''handleDeleteService''),
     (''GET'', ''/api/onboarding/suggest'', False, ''handleOnboardingSuggest''),
     (''GET'', ''/api/services/{id}/metrics'', False, ''handleMetrics''),
     (''GET'', ''/api/services/{id}/deploys'', False, ''handleDeploys''),
     (''POST'', ''/api/services/{id}/deploys'', True, ''handleRecordDeploy''),
     (''POST'', ''/api/services/{id}/cutover'', True, ''handleCutover''),
     (''POST'', ''/api/services/{id}/rollback'', True, ''handleRollback''),
     (''POST'', ''/api/services/{id}/deploy'', True, ''handleDeploy''),
     (''GET'', ''/api/alerts/rules'', False, ''handleRules''),
     (''POST'', ''/api/alerts/rules'', True, ''handleCreateRule''),
     (''DELETE'', ''/api/alerts/rules/{id}'', True, ''handleDeleteRule''),
     (''GET'', ''/api/notifications'', False, ''handleNotifications''),
     (''POST'', ''/api/notifications/{id}/read'', True, ''handleMarkNotificationRead''),
     (''POST'', ''/api/notifications/read'', True, ''handleMarkNotificationsRead''),
     (''GET'', ''/api/audit'', False, ''handleAudit''),
     (''GET'', ''/api/events'', False, ''handleEvents''),
     (''POST'', ''/api/auth/login'', False, ''handleLogin''),
     (''POST'', ''/api/auth/logout'', False, ''handleLogout''),
     (''GET'', ''/api/auth/me'', False, ''handleMe''),
     (''GET'', ''/api/users'', True, ''handleUsers''),
     (''POST'', ''/api/users'', True, ''handleCreateUser''),
     (''POST'', ''/api/users/{id}/password'', True, ''handleUserPassword''),
     (''POST'', ''/api/users/{id}/role'', True, ''handleUserRole''),
     (''POST'', ''/api/users/{id}/disable'', True, ''handleUserDisable''),
     (''POST'', ''/api/users/{id}/enable'', True, ''handleUserEnable''),
     (''DELETE'', ''/api/users/{id}'', True, ''handleDeleteUser''),
     (''POST'', ''/api/ingest'', False, ''handleIngest''),
     (''POST'', ''/api/ingest/logs'', False, ''handleIngestLogs''),
     (''POST'', ''/api/keys'', True, ''handleCreateKey''),
     (''GET'', ''/api/keys'', False, ''handleKeys''),
     (''POST'', ''/api/keys/{id}/revoke'', True, ''handleRevokeKey''),
     (''GET'', ''/api/issues'', False, ''handleIssues''),
     (''GET'', ''/api/issues/occurrences'', False, ''handleOccurrences''),
     (''GET'', ''/api/issues/{id}'', False, ''handleIssue''),
     (''GET'', ''/api/issues/{id}/logs'', False, ''handleIssueLogs''),
     (''POST'', ''/api/issues/rules'', True, ''handleCreateIssueRule''),
     (''GET'', ''/api/issues/rules'', False, ''handleIssueRules''),
     (''DELETE'', ''/api/issues/rules/{id}'', True, ''handleDeleteIssueRule''),
     (''GET'', ''/api/logs'', False, ''handleLogs''),
     (''GET'', ''/api/logs/stats'', False, ''handleLogStats''),
     (''GET'', ''/api/logs/{id}'', False, ''handleLogContext''),
     (''GET'', ''/api/docker/images'', False, ''handleDockerImages''),
     (''POST'', ''/api/docker/images/prune'', True, ''handlePruneImages''),
     (''GET'', ''/api/system'', False, ''handleSystem''),
     (''GET'', ''/api/system/containers'', False, ''handleContainers''),
     (''GET'', ''/api/system/containers/{id}'', False, ''handleContainer''),
     (''POST'', ''/api/system/containers/{id}/approve'', True, ''handleApproveContainer''),
     (''POST'', ''/api/system/containers/{id}/ignore'', True, ''handleIgnoreContainer''),
     (''GET'', ''/api/security/summary'', False, ''handleSecuritySummary''),
     (''GET'', ''/api/security/findings'', False, ''handleSecurityFindings''),
     (''GET'', ''/api/security/findings/{id}'', False, ''handleSecurityFinding''),
     (''GET'', ''/api/security/policies'', False, ''handleSecurityPolicies''),
     (''POST'', ''/api/security/findings/{id}/acknowledge'', True, ''handleSecurityAcknowledge''),
     (''POST'', ''/api/security/findings/{id}/resolve'', True, ''handleSecurityResolve''),
     (''POST'', ''/api/security/findings/{id}/suppress'', True, ''handleSecuritySuppress''),
     (''POST'', ''/api/security/policies'', True, ''handleCreateSecurityPolicy''),
     (''PATCH'', ''/api/security/policies/{id}'', True, ''handleUpdateSecurityPolicy''),
     (''DELETE'', ''/api/security/policies/{id}'', True, ''handleDeleteSecurityPolicy''),
     (''GET'', ''/api/system/history'', False, ''handleSystemHistory''),
     (''GET'', ''/api/databases'', False, ''handleDatabases''),
     (''GET'', ''/api/databases/backups'', False, ''handleBackups''),
     (''POST'', ''/api/databases/backups'', True, ''handleStartBackup''),
     (''GET'', ''/api/databases/jobs'', False, ''handleJobs''),
     (''GET'', ''/api/databases/jobs/{id}'', False, ''handleJob''),
     (''POST'', ''/api/databases/backups/{name}/verify'', True, ''handleVerifyBackup''),
     (''POST'', ''/api/databases/restore'', True, ''handleRestore''),
     (''GET'', ''/api/performance/summary'', False, ''handlePerformanceSummary''),
     (''GET'', ''/api/performance/timeline'', False, ''handlePerformanceTimeline''),
     (''GET'', ''/api/performance/routes'', False, ''handlePerformanceRoutes''),
     (''GET'', ''/api/performance/postgres'', False, ''handlePerformancePostgres''),
     (''GET'', ''/api/performance/redis'', False, ''handlePerformanceRedis''),
     (''GET'', ''/api/collectors/status'', False, ''handleCollectorStatus''),
     (''GET'', ''/api/services/{id}/performance/summary'', False, ''handlePerformanceSummary''),
     (''GET'', ''/api/services/{id}/performance/timeline'', False, ''handlePerformanceTimeline''),
     (''GET'', ''/api/services/{id}/performance/routes'', False, ''handlePerformanceRoutes''),
     (''GET'', ''/api/services/{id}/performance/postgres'', False, ''handlePerformancePostgres''),
     (''GET'', ''/api/services/{id}/performance/redis'', False, ''handlePerformanceRedis'')]"

text \<open>A pattern matches segment by segment; a segment in braces matches anything.  A GET
  pattern also serves HEAD.\<close>

definition wildcard :: "gostring \<Rightarrow> bool" where
  "wildcard seg = (has_prefix seg ''{'')"

definition path_matches :: "gostring \<Rightarrow> gostring \<Rightarrow> bool" where
  "path_matches pat path =
    list_all2 (\<lambda>p s. wildcard p \<or> p = s) (split_char CHR ''/'' pat) (split_char CHR ''/'' path)"

definition method_matches :: "gostring \<Rightarrow> gostring \<Rightarrow> bool" where
  "method_matches m req = (m = req \<or> (m = ''GET'' \<and> req = ''HEAD''))"

text \<open>The handlers a request may reach, with the identity they see.\<close>

definition serve ::
  "instant \<Rightarrow> gostring \<Rightarrow> gostring \<Rightarrow> gostring option
    \<Rightarrow> ('z auth_world_scheme, err, (gostring \<times> identity option) list) prog" where
  "serve now req path cookie =
    bindE (Middleware now path cookie) (\<lambda>passed.
     ret (case passed of
            None \<Rightarrow> []
          | Some who \<Rightarrow>
             map (\<lambda>(m, p, adm, h). (h, who))
              (filter (\<lambda>(m, p, adm, h). method_matches m req \<and> path_matches p path \<and>
                 (adm \<longrightarrow> requireAdmin who)) api_routes)))"

section \<open>Path labels in the request log\<close>

definition loggedAPIFamilies :: "gostring list" where
  "loggedAPIFamilies =
    [''alerts'', ''audit'', ''auth'', ''collectors'', ''databases'', ''docker'', ''health'', ''images'',
     ''ingest'', ''issues'', ''keys'', ''logs'', ''notifications'', ''onboarding'', ''performance'',
     ''services'', ''system'', ''users'']"

definition safeRequestPath :: "gostring \<Rightarrow> gostring" where
  "safeRequestPath path =
    (if path = ''/api/health'' then path
     else if has_prefix path ''/api/'' then
       (let rest = drop 5 path;
            family = (case cut_char CHR ''/'' rest of None \<Rightarrow> rest | Some (f, _) \<Rightarrow> f)
        in if family \<in> set loggedAPIFamilies then ''/api/'' @ family else ''/api/other'')
     else if path = ''/docs'' \<or> has_prefix path ''/docs/'' then ''docs''
     else ''web'')"

end
