(* ===== verification/Auth_Laws.thy ===== *)
theory Auth_Laws
  imports Auth
begin

text \<open>
  What authentication promises: an identity is that of a live, enabled account; guessing
  is bounded by the rate limit; nothing that changes state is reached without an
  administrator's session.
\<close>

section \<open>Sessions\<close>

lemma Lookup_quiet:
  "faults w = [] \<Longrightarrow> users_Lookup n w =
    (case t_find (\<lambda>r. us_name r = n) (users w) of
       None \<Rightarrow> (Inl ErrUnauthorized, w)
     | Some u \<Rightarrow> if disabled u then (Inl ErrUnauthorized, w) else (Inr u, w))"
  by (simp add: users_Lookup_def bindE_def attempt_def user_by_name_quiet andthen_def guardE_def ret_def throw_def
      split: option.split)

text \<open>A session is honoured exactly while it has not expired and its account exists and is
  enabled, with the name and role the account has at that moment; in every other case the
  caller is nobody and the session is gone.\<close>

theorem Authenticate_decides:
  assumes "faults w = []" and "tok \<noteq> []"
  shows "Authenticate now (Some tok) w =
    (case sessions w tok of
       None \<Rightarrow> (Inr None, drop_session tok w)
     | Some s \<Rightarrow>
        if se_expires s < now then (Inr None, drop_session tok w)
        else (case t_find (\<lambda>r. us_name r = se_user s) (users w) of
                None \<Rightarrow> (Inr None, drop_session tok w)
              | Some u \<Rightarrow>
                 if disabled u then (Inr None, drop_session tok w)
                 else (Inr (Some \<lparr>id_name = us_name u, id_role = us_role u\<rparr>), w)))"
  using assms
  by (simp add: Authenticate_def gets_def bindE_def attempt_def Lookup_quiet andthen_def modify_def ret_def
      Logout_def split: option.split)

section \<open>Rate limiting\<close>

definition failures_are :: "(gostring \<Rightarrow> instant list) \<Rightarrow> 'z auth_world_scheme \<Rightarrow> bool" where
  "failures_are F w = (failures w = F)"

interpretation failures_db: db_invariant "failures_are F"
  by unfold_locales (simp add: failures_are_def)

lemma keeps_failures_audit: "keeps (failures_are F) (auditLogin now n r d)"
  unfolding auditLogin_def audit_Record_def audit_insert_def svc_get_def Let_def
  by (intro keeps_rules failures_db.keeps_stmt) (simp add: failures_are_def)

lemma keeps_failures_login: "keeps (failures_are F) (Login matches now rand n pw)"
proof -
  have "keeps (failures_are F) (users_Verify matches n pw :: ('a auth_world_ext users_world_ext world_ext sqldb_scheme, err, user) prog)"
    unfolding users_Verify_def user_by_name_def
    by (intro keeps_rules failures_db.keeps_stmt) (auto split: sum.split intro!: keeps_rules)
  then show ?thesis
    unfolding Login_def
    by (intro keeps_rules) (auto split: sum.split option.split simp: failures_are_def intro!: keeps_rules)
qed

lemma wp_failures_kept:
  assumes "keeps (failures_are (failures w)) m"
  shows "wp m (onE (\<lambda>e t. failures t = failures w) (\<lambda>a t. failures t = failures w)) w"
proof -
  have "wp m (\<lambda>r. failures_are (failures w)) w"
    using assms unfolding keeps_wp by (simp add: failures_are_def)
  then show ?thesis by (rule wp_mono) (auto simp: onE_def failures_are_def split: sum.splits)
qed

lemma auditLogin_ok: "fst (auditLogin now n r d w) = Inr ()"
  by (simp add: auditLogin_def andthen_def bindE_def attempt_def ret_def split: prod.split)

lemma Login_ok: "\<exists>x. fst (Login matches now rand n pw w) = Inr x"
  by (auto simp: Login_def andthen_def bindE_def attempt_def ret_def modify_def split: prod.split sum.split option.split)

text \<open>The sections of the lock, by their effect on the failures of an address.\<close>

lemma AttemptsExceeded_run:
  "AttemptsExceeded now ip w = (Inr (maxFailures \<le> length (recent_failures now (failures w ip))),
     w\<lparr>failures := (failures w)(ip := recent_failures now (failures w ip))\<rparr>)"
  by (simp add: AttemptsExceeded_def bindE_def gets_def andthen_def modify_def ret_def)

lemma RegisterFailure_run:
  "RegisterFailure now ip failed w =
    (Inr (), w\<lparr>failures := (failures w)(ip := (if failed then failures w ip @ [now] else []))\<rparr>)"
  by (simp add: RegisterFailure_def modify_def)

lemma Login_failures: "Login matches now rand n pw w = (r, t) \<Longrightarrow> failures t = failures w"
  using wp_failures_kept [of w "Login matches now rand n pw", OF keeps_failures_login]
  by (auto simp: wp_def onE_def split: sum.splits)

lemma auditLogin_failures: "auditLogin now n r d w = (x, t) \<Longrightarrow> failures t = failures w"
  using wp_failures_kept [of w "auditLogin now n r d", OF keeps_failures_audit]
  by (auto simp: wp_def onE_def split: sum.splits)

lemma answers_failures:
  "refuseLogin now ip n w = (r, t) \<Longrightarrow> failures t = failures w"
  "answerLogin now ip n tok w = (r, t) \<Longrightarrow> failures t = failures w"
  using auditLogin_failures
  by (fastforce simp: refuseLogin_def answerLogin_def andthen_def bindE_def ret_def
      split: prod.splits sum.splits option.splits)+

text \<open>A login that nothing comes between is a path of the relation.\<close>

lemma handleLogin_path:
  assumes "handleLogin matches lt rand ip (Some (name, pw)) (ga_world g) = (r, w)"
    and "ga_now g \<le> lt_attempt lt" "lt_attempt lt \<le> lt_session lt" "lt_session lt \<le> lt_failure lt"
  shows "\<exists>h. rtranclp (login_step matches) g h \<and> ga_world h = w"
proof -
  let ?n = "if name = [] then defaultLoginUsername else name"
  let ?l = "\<lparr>la_ip = ip, la_name = ?n, la_pw = pw, la_token = None\<rparr>"
  obtain b w1 where a: "AttemptsExceeded (lt_attempt lt) ip (ga_world g) = (Inr b, w1)"
    using AttemptsExceeded_run by metis
  show ?thesis
  proof (cases b)
    case True
    let ?g = "g\<lparr>ga_world := w1, ga_now := lt_attempt lt\<rparr>"
    have "refuseLogin (lt_audit lt) ip ?n w1 = (r, w)"
      using assms(1) a True by (simp add: handleLogin_def Let_def bindE_def)
    then have "login_step matches ?g (?g\<lparr>ga_world := w\<rparr>)"
      using answers_failures(1) by (intro other) simp
    moreover have "login_step matches g ?g" by (rule refuse) (use assms(2) a True in simp_all)
    ultimately have "rtranclp (login_step matches) g (?g\<lparr>ga_world := w\<rparr>)" by simp
    then show ?thesis by (intro exI [of _ "?g\<lparr>ga_world := w\<rparr>"]) simp
  next
    case False
    obtain tok w2 where l: "Login matches (lt_session lt) rand ?n pw w1 = (Inr tok, w2)"
      using Login_ok by (metis eq_fst_iff)
    obtain w3 where f: "RegisterFailure (lt_failure lt) ip (tok = None) w2 = (Inr (), w3)"
      using RegisterFailure_run by metis
    have ans: "answerLogin (lt_audit lt) ip ?n tok w3 = (r, w)"
      using assms(1) a l f False by (simp add: handleLogin_def Let_def bindE_def andthen_def)
    let ?g1 = "admitted (lt_attempt lt) ?l w1 g"
    let ?g2 = "?g1\<lparr>ga_world := w2, ga_now := lt_session lt, ga_open := ga_open g @ ?l\<lparr>la_token := Some tok\<rparr> # [],
       ga_checks := ga_checks ?g1 @ [(la_ip ?l, lt_session lt, tok \<noteq> None)]\<rparr>"
    let ?g3 = "?g2\<lparr>ga_world := w3, ga_now := lt_failure lt, ga_open := ga_open g @ []\<rparr>"
    have "login_step matches g ?g1" by (rule admit) (use assms(2) a False in simp_all)
    moreover have "login_step matches ?g1 ?g2"
      using assms(3) l by (intro check) (simp_all add: admitted_def)
    moreover have "login_step matches ?g2 ?g3"
      using assms(4) f by (intro register [where l = "?l\<lparr>la_token := Some tok\<rparr>"]) simp_all
    moreover have "login_step matches ?g3 (?g3\<lparr>ga_world := w\<rparr>)"
      using answers_failures(2) [OF ans] by (intro other) simp
    ultimately have "rtranclp (login_step matches) g (?g3\<lparr>ga_world := w\<rparr>)"
      by (meson rtranclp.rtrancl_into_rtrancl rtranclp.rtrancl_refl)
    then show ?thesis by (intro exI [of _ "?g3\<lparr>ga_world := w\<rparr>"]) simp
  qed
qed

subsection \<open>The counts\<close>

text \<open>The checks, recorded failures and open logins of one address, with their number after an instant.\<close>

definition checks_after :: "gostring \<Rightarrow> instant \<Rightarrow> gate \<Rightarrow> nat" where
  "checks_after ip x g = length (filter (\<lambda>(a, n, ok). a = ip \<and> x < n) (ga_checks g))"

definition fails_after :: "gostring \<Rightarrow> instant \<Rightarrow> gate \<Rightarrow> nat" where
  "fails_after ip x g = length (filter (\<lambda>n. x < n) (failures (ga_world g) ip))"

definition pending :: "gostring \<Rightarrow> gate \<Rightarrow> nat" where
  "pending ip g = length (filter (\<lambda>l. la_ip l = ip \<and> la_token l = None) (ga_open g))"

definition tried :: "gostring \<Rightarrow> gate \<Rightarrow> nat" where
  "tried ip g = length (filter (\<lambda>l. la_ip l = ip \<and> la_token l \<noteq> None) (ga_open g))"

lemma open_split: "open_from ip g = pending ip g + tried ip g"
proof -
  have "length (filter (\<lambda>l. la_ip l = ip) ls) = length (filter (\<lambda>l. la_ip l = ip \<and> la_token l = None) ls)
      + length (filter (\<lambda>l. la_ip l = ip \<and> la_token l \<noteq> None) ls)" for ls
    by (induction ls) auto
  then show ?thesis by (simp add: open_from_def pending_def tried_def)
qed

text \<open>The checks of one address in the minute that ends at \<open>t\<close>.\<close>

definition checked_in :: "gostring \<Rightarrow> instant \<Rightarrow> gate \<Rightarrow> nat" where
  "checked_in ip t g =
    length (filter (\<lambda>(a, n, ok). a = ip \<and> t - failureWindow < n \<and> n \<le> t) (ga_checks g))"

definition none_succeeded :: "gostring \<Rightarrow> gate \<Rightarrow> bool" where
  "none_succeeded ip g \<longleftrightarrow> (\<forall>(a, n, ok)\<in>set (ga_checks g). a = ip \<longrightarrow> \<not> ok)"

lemma filter_length_mono: "(\<And>x. x \<in> set xs \<Longrightarrow> P x \<Longrightarrow> Q x) \<Longrightarrow> length (filter P xs) \<le> length (filter Q xs)"
  by (induction xs) auto

lemma checks_after_mono: "x \<le> y \<Longrightarrow> checks_after ip y g \<le> checks_after ip x g"
  unfolding checks_after_def by (rule filter_length_mono) auto

lemma checked_in_le: "checked_in ip t g \<le> checks_after ip (t - failureWindow) g"
  unfolding checked_in_def checks_after_def by (rule filter_length_mono) auto

text \<open>
  What holds in every reachable state as long as no check of the address succeeded: in the window that ends
  now every check is a recorded failure or a login still open, and the checks made and to come are at
  most four more than the logins that were ever open at once.
\<close>

definition gate_bounds :: "gostring \<Rightarrow> gate \<Rightarrow> bool" where
  "gate_bounds ip g \<longleftrightarrow>
    (\<forall>x. ga_now g - failureWindow \<le> x \<longrightarrow>
       checks_after ip x g \<le> fails_after ip x g + tried ip g \<and>
       checks_after ip x g + pending ip g \<le> 4 + ga_peak g ip) \<and>
    (\<forall>t. checked_in ip t g \<le> 4 + ga_peak g ip)"

definition gate_inv :: "gostring \<Rightarrow> gate \<Rightarrow> bool" where
  "gate_inv ip g \<longleftrightarrow>
    (\<forall>(a, n, ok)\<in>set (ga_checks g). n \<le> ga_now g) \<and>
    (\<forall>l\<in>set (ga_open g). \<forall>tok. la_token l = Some (Some tok) \<longrightarrow> (\<exists>n. (la_ip l, n, True) \<in> set (ga_checks g))) \<and>
    (none_succeeded ip g \<longrightarrow> gate_bounds ip g)"

lemma window_pos: "0 \<le> failureWindow" by (simp add: failureWindow_def unit_defs)

lemma recent_after:
  "now - failureWindow \<le> x \<Longrightarrow> length (filter (\<lambda>n. x < n) (recent_failures now fs)) = length (filter (\<lambda>n. x < n) fs)"
  unfolding recent_failures_def filter_filter by (rule arg_cong [where f = length], rule filter_cong) auto

text \<open>Time passes and the failures of the window stay.\<close>

lemma bounds_later:
  assumes "gate_bounds ip g" "ga_now g \<le> ga_now h"
    and "ga_checks h = ga_checks g" "ga_open h = ga_open g" "ga_peak h = ga_peak g"
    and "\<And>x. ga_now h - failureWindow \<le> x \<Longrightarrow> fails_after ip x h = fails_after ip x g"
  shows "gate_bounds ip h"
  using assms
  by (auto simp: gate_bounds_def checks_after_def tried_def pending_def checked_in_def)

lemma bounds_refuse:
  assumes "gate_bounds ip g" "ga_now g \<le> now" "AttemptsExceeded now a (ga_world g) = (r, w)"
  shows "gate_bounds ip (g\<lparr>ga_world := w, ga_now := now\<rparr>)"
proof (rule bounds_later [OF assms(1)])
  have w: "w = (ga_world g)\<lparr>failures := (failures (ga_world g))(a := recent_failures now (failures (ga_world g) a))\<rparr>"
    using assms(3) by (simp add: AttemptsExceeded_run)
  fix x assume "ga_now (g\<lparr>ga_world := w, ga_now := now\<rparr>) - failureWindow \<le> x"
  then show "fails_after ip x (g\<lparr>ga_world := w, ga_now := now\<rparr>) = fails_after ip x g"
    using recent_after by (simp add: w fails_after_def)
qed (use assms(2) in simp_all)

lemma bounds_admit:
  assumes b: "gate_bounds ip g" and now: "ga_now g \<le> now"
    and a: "AttemptsExceeded now (la_ip l) (ga_world g) = (Inr False, w)" and l: "la_token l = None"
  shows "gate_bounds ip (admitted now l w g)"
proof -
  let ?g = "g\<lparr>ga_world := w, ga_now := now\<rparr>"
  let ?h = "admitted now l w g"
  have g: "gate_bounds ip ?g" using bounds_refuse [OF b now a] .
  have same: "checks_after ip x ?h = checks_after ip x ?g" "fails_after ip x ?h = fails_after ip x ?g"
    "checked_in ip t ?h = checked_in ip t ?g" "tried ip ?h = tried ip ?g" "ga_now ?h = now" "ga_now ?g = now" for x t
    using l by (simp_all add: admitted_def checks_after_def fails_after_def checked_in_def tried_def)
  show ?thesis
  proof (cases "la_ip l = ip")
    case False
    then have "pending ip ?h = pending ip ?g" "ga_peak ?h ip = ga_peak ?g ip"
      by (auto simp: admitted_def pending_def)
    then show ?thesis using g by (simp add: gate_bounds_def same)
  next
    case True
    have p: "pending ip ?h = Suc (pending ip ?g)" "pending ip ?g = pending ip g" "tried ip ?g = tried ip g"
      using True l by (auto simp: admitted_def pending_def tried_def)
    have peak: "ga_peak ?h ip = max (ga_peak ?g ip) (Suc (pending ip ?g + tried ip ?g))"
      using True by (simp add: admitted_def open_split p)
    have "fails_after ip (now - failureWindow) ?g = length (recent_failures now (failures (ga_world g) ip))"
      using a True by (auto simp: fails_after_def AttemptsExceeded_run recent_failures_def)
    then have few: "fails_after ip (now - failureWindow) ?g \<le> 4"
      using a True by (auto simp: AttemptsExceeded_run maxFailures_def)
    have "checks_after ip x ?g + Suc (pending ip ?g) \<le> 4 + ga_peak ?h ip" if "now - failureWindow \<le> x" for x
    proof -
      have "checks_after ip x ?g \<le> checks_after ip (now - failureWindow) ?g" by (rule checks_after_mono [OF that])
      also have "\<dots> \<le> fails_after ip (now - failureWindow) ?g + tried ip ?g"
        using g by (simp add: gate_bounds_def)
      finally show ?thesis using few peak by simp
    qed
    moreover have "ga_peak ?g ip \<le> ga_peak ?h ip" using peak by simp
    ultimately show ?thesis
      using g unfolding gate_bounds_def same p(1) by (auto intro: order_trans)
  qed
qed

lemma bounds_check:
  assumes b: "gate_bounds ip g" and now: "ga_now g \<le> now" and opn: "ga_open g = ls @ l # ls'"
    and l: "la_token l = None" and w: "failures w = failures (ga_world g)"
    and past: "\<forall>(a, n, ok)\<in>set (ga_checks g). n \<le> ga_now g"
  shows "gate_bounds ip (g\<lparr>ga_world := w, ga_now := now, ga_open := ls @ l\<lparr>la_token := Some token\<rparr> # ls',
     ga_checks := ga_checks g @ [(la_ip l, now, ok)]\<rparr>)" (is "gate_bounds ip ?h")
proof (cases "la_ip l = ip")
  case False
  then have "checks_after ip x ?h = checks_after ip x g" "fails_after ip x ?h = fails_after ip x g"
    "checked_in ip t ?h = checked_in ip t g" "tried ip ?h = tried ip g" "pending ip ?h = pending ip g" for x t
    by (simp_all add: checks_after_def fails_after_def checked_in_def tried_def pending_def opn w)
  then show ?thesis using b now by (simp add: gate_bounds_def)
next
  case True
  have cnt: "checks_after ip x ?h = checks_after ip x g + (if x < now then 1 else 0)"
    "fails_after ip x ?h = fails_after ip x g" "tried ip ?h = Suc (tried ip g)" "Suc (pending ip ?h) = pending ip g" for x
    using True l by (simp_all add: checks_after_def fails_after_def tried_def pending_def opn w)
  have all: "checks_after ip x ?h + pending ip ?h \<le> 4 + ga_peak g ip" if "now - failureWindow \<le> x" for x
  proof (cases "x < now")
    case True
    then show ?thesis using b now that by (auto simp: gate_bounds_def cnt(1) cnt(4) [symmetric])
  next
    case False
    have "checks_after ip x ?h + pending ip ?h \<le> checks_after ip (now - failureWindow) ?h + pending ip ?h"
      using checks_after_mono [OF that] by simp
    also have "\<dots> = checks_after ip (now - failureWindow) g + pending ip g"
      using window_pos False that cnt(1,4) by (simp add: failureWindow_def unit_defs)
    also have "\<dots> \<le> 4 + ga_peak g ip" using b now by (simp add: gate_bounds_def)
    finally show ?thesis .
  qed
  have "checked_in ip t ?h \<le> 4 + ga_peak g ip" for t
  proof (cases "now \<le> t")
    case True
    have "checked_in ip t ?h \<le> checks_after ip (now - failureWindow) ?h"
      using checked_in_le checks_after_mono True by (meson diff_mono order.refl order_trans)
    then show ?thesis using all [of "now - failureWindow"] by simp
  next
    case False
    then have "checked_in ip t ?h = checked_in ip t g" by (simp add: checked_in_def)
    then show ?thesis using b by (simp add: gate_bounds_def)
  qed
  moreover have "checks_after ip x ?h \<le> fails_after ip x ?h + tried ip ?h" if "now - failureWindow \<le> x" for x
  proof -
    have "checks_after ip x g \<le> fails_after ip x g + tried ip g" using b now that by (simp add: gate_bounds_def)
    then show ?thesis by (simp add: cnt(1-3))
  qed
  ultimately show ?thesis using all by (simp add: gate_bounds_def)
qed

lemma bounds_register:
  assumes b: "gate_bounds ip g" and now: "ga_now g \<le> now" and opn: "ga_open g = ls @ l # ls'"
    and l: "la_token l = Some token" and fail: "la_ip l = ip \<longrightarrow> token = None"
    and w: "RegisterFailure now (la_ip l) (token = None) (ga_world g) = (Inr (), w)"
    and past: "\<forall>(a, n, ok)\<in>set (ga_checks g). n \<le> ga_now g"
  shows "gate_bounds ip (g\<lparr>ga_world := w, ga_now := now, ga_open := ls @ ls'\<rparr>)" (is "gate_bounds ip ?h")
proof (cases "la_ip l = ip")
  case False
  then have "checks_after ip x ?h = checks_after ip x g" "fails_after ip x ?h = fails_after ip x g"
    "checked_in ip t ?h = checked_in ip t g" "tried ip ?h = tried ip g" "pending ip ?h = pending ip g" for x t
    using w by (auto simp: checks_after_def fails_after_def checked_in_def tried_def pending_def opn RegisterFailure_run)
  then show ?thesis using b now by (simp add: gate_bounds_def)
next
  case True
  have cnt: "checks_after ip x ?h = checks_after ip x g" "checked_in ip t ?h = checked_in ip t g"
    "fails_after ip x ?h = fails_after ip x g + (if x < now then 1 else 0)" "Suc (tried ip ?h) = tried ip g"
    "pending ip ?h = pending ip g" for x t
    using True l fail w
    by (auto simp: checks_after_def checked_in_def fails_after_def tried_def pending_def opn RegisterFailure_run)
  have "checks_after ip x ?h \<le> fails_after ip x ?h + tried ip ?h" if "now - failureWindow \<le> x" for x
  proof (cases "x < now")
    case True
    then show ?thesis using b now that by (auto simp: gate_bounds_def cnt(1,3) cnt(4) [symmetric])
  next
    case False
    then have "checks_after ip x g = 0" using past now by (auto simp: checks_after_def filter_empty_conv)
    then show ?thesis by (simp add: cnt(1))
  qed
  then show ?thesis using b now by (auto simp: gate_bounds_def cnt(1,2,5))
qed

lemma gate_inv_step:
  assumes "login_step matches g h" "gate_inv ip g"
  shows "gate_inv ip h"
  using assms
proof (induction rule: login_step.induct)
  case (admit g now a w name pw)
  then show ?case
    using bounds_admit [OF _ admit.hyps(1), of ip "\<lparr>la_ip = a, la_name = name, la_pw = pw, la_token = None\<rparr>" w]
    by (fastforce simp: gate_inv_def none_succeeded_def admitted_def)
next
  case (refuse g now a w)
  then show ?case using bounds_refuse by (fastforce simp: gate_inv_def none_succeeded_def)
next
  case (check g now ls l ls' rand token w)
  have w: "failures w = failures (ga_world g)" using Login_failures [OF check.hyps(4)] .
  have past: "\<forall>(a, n, ok)\<in>set (ga_checks g). n \<le> ga_now g" using check.prems by (simp add: gate_inv_def)
  let ?h = "g\<lparr>ga_world := w, ga_now := now, ga_open := ls @ l\<lparr>la_token := Some token\<rparr> # ls',
     ga_checks := ga_checks g @ [(la_ip l, now, token \<noteq> None)]\<rparr>"
  have "\<forall>(a, n, ok)\<in>set (ga_checks ?h). n \<le> ga_now ?h" using past check.hyps(1) by fastforce
  moreover have "\<exists>n. (la_ip k, n, True) \<in> set (ga_checks ?h)"
    if k: "k \<in> set (ga_open ?h)" "la_token k = Some (Some tok)" for k tok
  proof (cases "k \<in> set (ga_open g)")
    case True
    then show ?thesis using check.prems k(2) by (auto simp: gate_inv_def)
  next
    case False
    then have "k = l\<lparr>la_token := Some token\<rparr>" using k(1) check.hyps(2) by auto
    then show ?thesis using k(2) by (auto intro!: exI [of _ now])
  qed
  moreover have "gate_bounds ip ?h" if "none_succeeded ip ?h"
  proof -
    have "none_succeeded ip g" using that by (simp add: none_succeeded_def)
    then have "gate_bounds ip g" using check.prems by (simp add: gate_inv_def)
    from bounds_check [OF this check.hyps(1-3) w past] show ?thesis .
  qed
  ultimately show ?case by (simp add: gate_inv_def)
next
  case (register g now ls l ls' token w)
  have past: "\<forall>(a, n, ok)\<in>set (ga_checks g). n \<le> ga_now g" using register.prems by (simp add: gate_inv_def)
  have "la_ip l = ip \<longrightarrow> token = None" if "none_succeeded ip g"
    using register.prems register.hyps(2,3) that
    by (cases token) (fastforce simp: gate_inv_def none_succeeded_def)+
  then have "gate_bounds ip (g\<lparr>ga_world := w, ga_now := now, ga_open := ls @ ls'\<rparr>)" if "none_succeeded ip g"
    using register.prems that bounds_register [OF _ register.hyps(1-3) _ register.hyps(4) past]
    by (simp add: gate_inv_def)
  moreover have "\<forall>(a, n, ok)\<in>set (ga_checks g). n \<le> now" using past register.hyps(1) by fastforce
  ultimately show ?case using register.prems register.hyps(2) by (simp add: gate_inv_def none_succeeded_def)
next
  case (other w g)
  have "gate_bounds ip (g\<lparr>ga_world := w\<rparr>)" if "gate_bounds ip g"
    using that by (rule bounds_later) (simp_all add: fails_after_def other.hyps)
  then show ?case using other.prems by (simp add: gate_inv_def none_succeeded_def)
qed

lemma gate_inv_reach: "login_reach matches g \<Longrightarrow> gate_inv ip g"
proof (induction rule: login_reach.induct)
  case (boot w now)
  then show ?case
    by (simp add: gate_inv_def none_succeeded_def gate_bounds_def checks_after_def pending_def checked_in_def)
next
  case (step g h)
  then show ?case using gate_inv_step by blast
qed

text \<open>C26: However the requests interleave, as long as no login of an address succeeds, the passwords checked
  for it in any window of a minute are at most four more than the logins of the address that were ever open at
  once, that is let in and not yet recorded as failed.  Logins one after the other are so held to
  five; concurrent ones exceed it, because the count and the record are two sections of the lock with the
  check between them.\<close>

theorem guesses_bounded:
  assumes "login_reach matches g" and "none_succeeded ip g"
  shows "length (filter (\<lambda>(a, n, ok). a = ip \<and> t - failureWindow < n \<and> n \<le> t) (ga_checks g))
    \<le> 4 + ga_peak g ip"
  using gate_inv_reach [OF assms(1), of ip] assms(2) by (simp add: gate_inv_def gate_bounds_def checked_in_def)

subsection \<open>The bound is reached\<close>

text \<open>Any number of simultaneous logins is let in and checked: they all count the failures before the first
  of them is recorded.\<close>

definition empty_auth :: auth_world where
  "empty_auth =
    \<lparr>faults = [], services = [], deploys = empty_table, probes = empty_table,
     notifications = empty_table, audits = empty_table, child_rows = [], events = [],
     users = empty_table, sessions = (\<lambda>_. None), failures = (\<lambda>_. [])\<rparr>"

definition guess :: "gostring option option \<Rightarrow> login_attempt" where
  "guess token = \<lparr>la_ip = ''ip'', la_name = ''ada'', la_pw = ''guess'', la_token = token\<rparr>"

lemma race_admits:
  "\<exists>peak. login_reach matches \<lparr>ga_world = empty_auth, ga_open = replicate n (guess None), ga_now = 0,
     ga_checks = [], ga_peak = peak\<rparr>"
proof (induction n)
  case 0
  have "failures empty_auth = (\<lambda>_. [])" by (simp add: empty_auth_def)
  from login_reach.boot [OF this] show ?case by auto
next
  case (Suc n)
  then obtain peak where g: "login_reach matches \<lparr>ga_world = empty_auth, ga_open = replicate n (guess None),
     ga_now = 0, ga_checks = [], ga_peak = peak\<rparr>" (is "login_reach matches ?g") by blast
  have "AttemptsExceeded 0 ''ip'' empty_auth = (Inr False, empty_auth)"
    by (simp add: AttemptsExceeded_run recent_failures_def empty_auth_def maxFailures_def fun_upd_def)
  then have "login_step matches ?g (admitted 0 (guess None) empty_auth ?g)"
    unfolding guess_def by (intro admit) simp_all
  from login_reach.step [OF g this] show ?case by (auto simp: admitted_def replicate_append_same)
qed

lemma race_checks:
  assumes "k \<le> n"
  shows "\<exists>peak. login_reach matches \<lparr>ga_world = empty_auth,
     ga_open = replicate k (guess (Some None)) @ replicate (n - k) (guess None), ga_now = 0,
     ga_checks = replicate k (''ip'', 0, False), ga_peak = peak\<rparr>"
  using assms
proof (induction k)
  case 0
  then show ?case using race_admits by simp
next
  case (Suc k)
  then obtain peak where g: "login_reach matches \<lparr>ga_world = empty_auth,
     ga_open = replicate k (guess (Some None)) @ replicate (n - k) (guess None), ga_now = 0,
     ga_checks = replicate k (''ip'', 0, False), ga_peak = peak\<rparr>" (is "login_reach matches ?g") by auto
  have "n - k = Suc (n - Suc k)" using Suc.prems by simp
  then have split: "ga_open ?g = replicate k (guess (Some None)) @ guess None # replicate (n - Suc k) (guess None)"
    by simp
  have "Login matches 0 None (la_name (guess None)) (la_pw (guess None)) (ga_world ?g) = (Inr None, empty_auth)"
    by (simp add: Login_def attempt_def bindE_def Verify_quiet empty_auth_def empty_table_def t_find_def ret_def)
  from login_step.check [where now = 0, OF _ split _ this]
  have "login_step matches ?g (?g\<lparr>ga_world := empty_auth, ga_now := 0,
      ga_open := replicate k (guess (Some None)) @ (guess None)\<lparr>la_token := Some None\<rparr> # replicate (n - Suc k) (guess None),
      ga_checks := ga_checks ?g @ [(la_ip (guess None), 0, None \<noteq> None)]\<rparr>)" by (simp add: guess_def)
  from login_reach.step [OF g this] show ?case
    by (auto simp: guess_def replicate_append_same replicate_app_Cons_same)
qed

lemma guesses_race:
  "\<exists>g. login_reach matches g \<and> none_succeeded ''ip'' g \<and> checked_in ''ip'' 0 g = n"
proof -
  obtain peak where g: "login_reach matches \<lparr>ga_world = empty_auth, ga_open = replicate n (guess (Some None)),
     ga_now = 0, ga_checks = replicate n (''ip'', 0, False), ga_peak = peak\<rparr>" (is "login_reach matches ?g")
    using race_checks [of n n] by auto
  have "checked_in ''ip'' 0 ?g = n" "none_succeeded ''ip'' ?g"
    by (simp_all add: checked_in_def none_succeeded_def failureWindow_def minute_def)
  then show ?thesis using g by blast
qed

section \<open>Authorisation\<close>

lemma Authenticate_sound:
  assumes "Authenticate now cookie w = (Inr (Some i), t)"
  shows "\<exists>tok s u. cookie = Some tok \<and> sessions w tok = Some s \<and> now \<le> se_expires s \<and>
    t_find (\<lambda>r. us_name r = se_user s) (users w) = Some u \<and> us_disabled u = None \<and>
    i = \<lparr>id_name = us_name u, id_role = us_role u\<rparr>"
proof -
  obtain tok s where s: "cookie = Some tok" "sessions w tok = Some s" "now \<le> se_expires s"
    and rest: "bindE (attempt (users_Lookup (se_user s))) (\<lambda>r.
       case r of Inl e \<Rightarrow> andthen (if e = ErrUnauthorized then Logout tok else ret ()) (ret None)
       | Inr u \<Rightarrow> ret (Some \<lparr>id_name = us_name u, id_role = us_role u\<rparr>)) w = (Inr (Some i), t)"
    using assms
    by (auto simp: Authenticate_def returned split: option.splits if_splits)
  then obtain u x where u: "users_Lookup (se_user s) w = (Inr u, x)" "i = \<lparr>id_name = us_name u, id_role = us_role u\<rparr>"
    by (auto simp: bindE_def attempt_def andthen_def ret_def split: prod.splits sum.splits if_splits)
  obtain y where y: "user_by_name (se_user s) w = (Inr u, y)" "\<not> disabled u"
    using u(1) by (auto simp: users_Lookup_def bindE_def attempt_def andthen_def guardE_def ret_def throw_def
        split: prod.splits sum.splits if_splits)
  have "t_find (\<lambda>r. us_name r = se_user s) (users w) = Some u" using wp_run [OF user_by_name_wp y(1)] by simp
  then show ?thesis using s u(2) y(2) by (auto simp: disabled_def)
qed

text \<open>A pattern without a wildcard is matched by itself only.\<close>

lemma plain_pattern:
  assumes "\<forall>seg\<in>set (split_char CHR ''/'' pat). \<not> wildcard seg" "path_matches pat path"
  shows "path = pat"
proof -
  have "list_all2 (=) (split_char CHR ''/'' pat) (split_char CHR ''/'' path)"
    using assms unfolding path_matches_def list_all2_conv_all_nth by auto
  then have "split_char CHR ''/'' pat = split_char CHR ''/'' path" by (simp add: list.rel_eq)
  then show ?thesis by (metis join_split)
qed

text \<open>The paths of the handlers without \<open>requireAdmin\<close> that change state.\<close>

lemma open_paths:
  assumes "(m, p, False, h) \<in> set api_routes" "m \<noteq> ''GET''" "path_matches p path"
  shows "(h = ''handleLogout'' \<and> path = ''/api/auth/logout'') \<or>
    (h \<in> {''handleLogin'', ''handleIngest'', ''handleIngestLogs''} \<and> isPublic path)"
proof -
  have pats: "(h, p) \<in> {(''handleLogin'', ''/api/auth/login''), (''handleLogout'', ''/api/auth/logout''),
      (''handleIngest'', ''/api/ingest''), (''handleIngestLogs'', ''/api/ingest/logs'')}"
  proof -
    have "filter (\<lambda>(m, p, adm, h). m \<noteq> ''GET'' \<and> \<not> adm) api_routes =
      [(''POST'', ''/api/auth/login'', False, ''handleLogin''), (''POST'', ''/api/auth/logout'', False, ''handleLogout''),
       (''POST'', ''/api/ingest'', False, ''handleIngest''), (''POST'', ''/api/ingest/logs'', False, ''handleIngestLogs'')]"
      by (simp add: api_routes_def)
    moreover have "(m, p, False, h) \<in> set (filter (\<lambda>(m, p, adm, h). m \<noteq> ''GET'' \<and> \<not> adm) api_routes)"
      using assms(1,2) by simp
    ultimately show ?thesis by auto
  qed
  have "\<forall>seg\<in>set (split_char CHR ''/'' p). \<not> wildcard seg"
    using pats by (auto simp: wildcard_def has_prefix_def)
  from plain_pattern [OF this assms(3)] pats show ?thesis by (auto simp: isPublic_def)
qed

text \<open>C25: A request other than GET or HEAD reaches one of three handlers without an identity: the login, and the
  two ingestion calls, which ask for an API key instead.  It reaches any other handler only with a
  session that exists and has not expired, of an account that exists and is enabled, under the name and
  role the account has at that moment; and apart from the logout, the role is administrator.\<close>

theorem changes_need_admin:
  assumes "serve now req path cookie w = (Inr reached, t)" and "(h, who) \<in> set reached"
    and "req \<noteq> ''GET''" and "req \<noteq> ''HEAD''"
  shows "(h \<in> {''handleLogin'', ''handleIngest'', ''handleIngestLogs''} \<and> who = None) \<or>
    (\<exists>tok s u. cookie = Some tok \<and> sessions w tok = Some s \<and> now \<le> se_expires s \<and>
       t_find (\<lambda>r. us_name r = se_user s) (users w) = Some u \<and> us_disabled u = None \<and>
       who = Some \<lparr>id_name = us_name u, id_role = us_role u\<rparr> \<and>
       (h = ''handleLogout'' \<or> us_role u = ''admin''))"
proof -
  obtain m p adm x where r: "(m, p, adm, h) \<in> set api_routes" "method_matches m req" "path_matches p path"
      "adm \<longrightarrow> requireAdmin who" and mid: "Middleware now path cookie w = (Inr (Some who), x)"
    using assms(1,2) by (auto simp: serve_def returned split: option.splits)
  then have m: "m \<noteq> ''GET''" using assms(3,4) by (auto simp: method_matches_def)
  have pub: "who = None" if "isPublic path \<or> \<not> has_prefix path ''/api/''"
    using mid that by (auto simp: Middleware_def returned)
  have auth: "\<exists>i. who = Some i \<and> Authenticate now cookie w = (Inr (Some i), x)"
    if "\<not> isPublic path" "has_prefix path ''/api/''"
    using mid that by (auto simp: Middleware_def returned split: option.splits)
  show ?thesis
  proof (cases who)
    case None
    then have "\<not> adm" using r(4) by (auto simp: requireAdmin_def)
    then have o: "(h = ''handleLogout'' \<and> path = ''/api/auth/logout'') \<or>
      (h \<in> {''handleLogin'', ''handleIngest'', ''handleIngestLogs''} \<and> isPublic path)"
      using open_paths [of m p h path] m r(1,3) by simp
    have "\<not> (path = ''/api/auth/logout'')" using auth None by (auto simp: isPublic_def has_prefix_def)
    then show ?thesis using o None by blast
  next
    case (Some i)
    then have "\<not> isPublic path" "has_prefix path ''/api/''" using pub by auto
    then have a: "Authenticate now cookie w = (Inr (Some i), x)" using auth Some by auto
    have "h = ''handleLogout'' \<or> Admin i"
    proof (cases adm)
      case True
      then show ?thesis using r(4) Some by (simp add: requireAdmin_def)
    next
      case False
      then show ?thesis using open_paths [of m p h path] m r(1,3) \<open>\<not> isPublic path\<close> by auto
    qed
    then show ?thesis using Authenticate_sound [OF a] Some by (auto simp: Admin_def)
  qed
qed

text \<open>A request path is logged only as one of a fixed list of labels: no segment chosen by a
  caller gets into the log.\<close>

theorem safeRequestPath_fixed:
  "safeRequestPath path \<in> set ([''/api/health'', ''/api/other'', ''docs'', ''web'']
     @ map (\<lambda>f. ''/api/'' @ f) loggedAPIFamilies)"
  unfolding safeRequestPath_def Let_def by auto

section \<open>A concrete authenticator\<close>

definition demo_admin :: user where
  "demo_admin =
    \<lparr>us_id = 1, us_name = ''ada'', us_hash = ''h'', us_role = ''admin'', us_disabled = None, us_created = 1\<rparr>"

definition demo_auth :: auth_world where
  "demo_auth =
    \<lparr>faults = [], services = [], deploys = empty_table, probes = empty_table,
     notifications = empty_table, audits = empty_table, child_rows = [], events = [],
     users = \<lparr>rows = [demo_admin], seq = 1\<rparr>,
     sessions = [''tok'' \<mapsto> \<lparr>se_user = ''ada'', se_expires = 100\<rparr>], failures = (\<lambda>_. [])\<rparr>"

lemma demo_session:
  "Authenticate 50 (Some ''tok'') demo_auth = (Inr (Some \<lparr>id_name = ''ada'', id_role = ''admin''\<rparr>), demo_auth)"
  by (simp add: Authenticate_def gets_def bindE_def attempt_def Lookup_quiet ret_def demo_auth_def
      demo_admin_def t_find_def disabled_def)

lemma Authenticate_decides_witness:
  "Authenticate 50 (Some ''tok'') demo_auth = (Inr (Some \<lparr>id_name = ''ada'', id_role = ''admin''\<rparr>), demo_auth) \<and>
    Authenticate 150 (Some ''tok'') demo_auth = (Inr None, drop_session ''tok'' demo_auth)"
proof -
  have q: "faults demo_auth = []" "''tok'' \<noteq> []" by (simp_all add: demo_auth_def)
  show ?thesis
    using Authenticate_decides [OF q, of 50] Authenticate_decides [OF q, of 150]
    by (simp add: demo_auth_def demo_admin_def t_find_def disabled_def)
qed

lemma guesses_bounded_witness:
  "\<exists>g. login_reach (\<lambda>_ _. False) g \<and>
    length (filter (\<lambda>(a, n, ok). a = ''ip'' \<and> 0 - failureWindow < n \<and> n \<le> 0) (ga_checks g)) = 7 \<and>
    7 \<le> 4 + ga_peak g ''ip''"
proof -
  obtain g where g: "login_reach (\<lambda>_ _. False) g" "none_succeeded ''ip'' g" "checked_in ''ip'' 0 g = 7"
    using guesses_race by blast
  then show ?thesis using guesses_bounded [OF g(1,2), of 0] by (auto simp: checked_in_def)
qed

lemma changes_need_admin_witness:
  "\<exists>reached. serve 50 ''POST'' ''/api/keys'' (Some ''tok'') demo_auth = (Inr reached, demo_auth) \<and>
    (''handleCreateKey'', Some \<lparr>id_name = ''ada'', id_role = ''admin''\<rparr>) \<in> set reached \<and>
    Admin \<lparr>id_name = ''ada'', id_role = ''admin''\<rparr>"
proof -
  let ?i = "\<lparr>id_name = ''ada'', id_role = ''admin''\<rparr>"
  obtain reached where s: "serve 50 ''POST'' ''/api/keys'' (Some ''tok'') demo_auth = (Inr reached, demo_auth)"
    and m: "reached = map (\<lambda>(m, p, adm, h). (h, Some ?i))
              (filter (\<lambda>(m, p, adm, h). method_matches m ''POST'' \<and> path_matches p ''/api/keys'' \<and>
                 (adm \<longrightarrow> requireAdmin (Some ?i))) api_routes)"
    by (simp add: serve_def Middleware_def isPublic_def has_prefix_def bindE_def ret_def demo_session)
  have "(''POST'', ''/api/keys'', True, ''handleCreateKey'') \<in> set api_routes"
    by (simp add: api_routes_def)
  then have mem: "(''handleCreateKey'', Some ?i) \<in> set reached"
    unfolding m by (force simp: method_matches_def path_matches_def requireAdmin_def Admin_def list_all2_same)
  show ?thesis
    using changes_need_admin [OF s mem] s mem by (auto simp: Admin_def)
qed

end
