(* ===== verification/Sha256.thy ===== *)
theory Sha256
  imports Go_Strings
begin

unbundle bit_operations_syntax

text \<open>
  \<open>crypto/sha256\<close> and \<open>encoding/hex\<close> of Go's standard library, as the backup
  checksums use them: the padded message in blocks of sixteen 32-bit words, 64 rounds
  per block, and the lower-case hexadecimal text of the eight words.
\<close>

type_synonym u32 = "32 word"

text \<open>
  The constants are, by the standard, the first 32 bits of the fractions of roots of the first
  primes: \<open>floor_root k n\<close> finds the integer root bit by bit (36 bits are enough for the
  numbers below).
\<close>

definition floor_root :: "nat \<Rightarrow> nat \<Rightarrow> nat" where
  "floor_root k n =
    foldl (\<lambda>r b. if (r + 2 ^ b) ^ k \<le> n then r + 2 ^ b else r) 0 (rev [0 ..< 36])"

definition primes_below :: "nat \<Rightarrow> nat list" where
  "primes_below m = filter (\<lambda>n. list_all (\<lambda>d. n mod d \<noteq> 0) [2 ..< n]) [2 ..< m]"

definition sha_k :: "u32 list" where
  "sha_k = map (\<lambda>p. of_nat (floor_root 3 (p * 2 ^ 96))) (primes_below 312)"

definition sha_init :: "u32 list" where
  "sha_init = map (\<lambda>p. of_nat (floor_root 2 (p * 2 ^ 64))) (primes_below 20)"

definition rotr :: "nat \<Rightarrow> u32 \<Rightarrow> u32" where
  "rotr n x = (drop_bit n x OR push_bit (32 - n) x)"

definition word_of_bytes :: "nat list \<Rightarrow> u32" where
  "word_of_bytes bs = foldl (\<lambda>w b. push_bit 8 w OR of_nat b) 0 bs"

function chunks :: "nat \<Rightarrow> 'a list \<Rightarrow> 'a list list" where
  "chunks k xs = (if k = 0 \<or> xs = [] then [] else take k xs # chunks k (drop k xs))"
  by pat_completeness auto
termination by (relation "measure (length \<circ> snd)") auto

declare chunks.simps [simp del]

definition big_endian :: "nat \<Rightarrow> nat \<Rightarrow> nat list" where
  "big_endian k n = map (\<lambda>i. n div 256 ^ (k - 1 - i) mod 256) [0 ..< k]"

definition sha_pad :: "nat list \<Rightarrow> nat list" where
  "sha_pad m = m @ [128] @ replicate ((119 - length m mod 64) mod 64) 0 @ big_endian 8 (8 * length m)"

definition next_word :: "u32 list \<Rightarrow> u32" where
  "next_word ws =
    (let t = length ws; a = ws ! (t - 15); b = ws ! (t - 2);
         s0 = rotr 7 a XOR rotr 18 a XOR drop_bit 3 a;
         s1 = rotr 17 b XOR rotr 19 b XOR drop_bit 10 b
     in ws ! (t - 16) + s0 + ws ! (t - 7) + s1)"

definition schedule :: "u32 list \<Rightarrow> u32 list" where
  "schedule ws = fold (\<lambda>_ ws. ws @ [next_word ws]) [0 ..< 48 :: nat] ws"

definition sha_round :: "u32 \<times> u32 \<Rightarrow> u32 list \<Rightarrow> u32 list" where
  "sha_round kw st =
    (case st of
       [a, b, c, d, e, f, g, h] \<Rightarrow>
        (let s1 = rotr 6 e XOR rotr 11 e XOR rotr 25 e;
             ch = (e AND f) XOR (NOT e AND g);
             t1 = h + s1 + ch + fst kw + snd kw;
             s0 = rotr 2 a XOR rotr 13 a XOR rotr 22 a;
             maj = (a AND b) XOR (a AND c) XOR (b AND c)
         in [t1 + (s0 + maj), a, b, c, d + t1, e, f, g])
     | _ \<Rightarrow> st)"

definition sha_block :: "u32 list \<Rightarrow> nat list \<Rightarrow> u32 list" where
  "sha_block st bs =
    map2 (+) st (fold sha_round (zip sha_k (schedule (map word_of_bytes (chunks 4 bs)))) st)"

definition sha256_words :: "nat list \<Rightarrow> u32 list" where
  "sha256_words m = foldl sha_block sha_init (chunks 64 (sha_pad m))"

definition hex_digit :: "nat \<Rightarrow> char" where
  "hex_digit n = (if n < 10 then char_of (48 + n) else char_of (87 + n))"

definition hex_word :: "u32 \<Rightarrow> gostring" where
  "hex_word w = map (\<lambda>i. hex_digit (unat (drop_bit (28 - 4 * i) w) mod 16)) [0 ..< 8]"

definition sha256_hex :: "gostring \<Rightarrow> gostring" where
  "sha256_hex s = concat (map hex_word (sha256_words (map of_char s)))"

text \<open>The digest text: hexadecimal digits, so no blank and nothing to trim.\<close>

definition is_hex :: "char \<Rightarrow> bool" where
  "is_hex c = (is_digit c \<or> (97 \<le> code c \<and> code c \<le> 102))"

lemma hex_digit_is_hex: "n < 16 \<Longrightarrow> is_hex (hex_digit n)"
  by (auto simp: hex_digit_def is_hex_def is_digit_def)

lemma sha256_hex_is_hex: "list_all is_hex (sha256_hex s)"
proof -
  have "list_all is_hex (hex_word w)" for w
    by (simp add: hex_word_def list_all_iff hex_digit_is_hex)
  then show ?thesis by (auto simp: sha256_hex_def list_all_iff)
qed

lemma sha_round_length: "length (sha_round kw st) = length st"
  by (simp add: sha_round_def Let_def split: list.split)

lemma sha_rounds_length: "length (fold sha_round kws st) = length st"
  by (induction kws arbitrary: st) (simp_all add: sha_round_length)

lemma sha_blocks_length: "length (foldl sha_block st bs) = length st"
  by (induction bs arbitrary: st) (simp_all add: sha_block_def sha_rounds_length)

lemma sha_init_length: "length sha_init = 8"
proof -
  have "primes_below 20 = [2, 3, 5, 7, 11, 13, 17, 19]"
    by (simp add: primes_below_def upt_rec)
  then show ?thesis by (simp add: sha_init_def)
qed

lemma sha256_hex_length: "length (sha256_hex s) = 64"
proof -
  have w: "length (hex_word w) = 8" for w by (simp add: hex_word_def)
  have "length (concat (map hex_word ws)) = 8 * length ws" for ws
    by (induction ws) (simp_all add: w)
  then show ?thesis
    by (simp add: sha256_hex_def sha256_words_def sha_blocks_length sha_init_length)
qed

end
