(* ===== verification/Backups.thy ===== *)
theory Backups
  imports World Timestamps Sha256 Live_Target "HOL-Library.Product_Lexorder"
begin

text \<open>
  The backup directory of \<open>service.Database\<close> (service/database.go): the names of
  backups, the listing, the trimming, the checksum sidecars, and the commands run through
  docker.  The state \<open>db_world\<close> adds to the store the \<open>db_jobs\<close> table, the busy
  flag, the directory (absent, or its entries under distinct names) and the commands run so far.
  What a command writes and whether it fails is the parameter \<open>dbc_run\<close>, any
  function of the commands before it; file system calls take their failures from the oracle.
\<close>

abbreviation DBJobBackup :: gostring where "DBJobBackup \<equiv> ''backup''"
abbreviation DBJobRestore :: gostring where "DBJobRestore \<equiv> ''restore''"
abbreviation DBJobRunning :: gostring where "DBJobRunning \<equiv> ''running''"
abbreviation DBJobSuccess :: gostring where "DBJobSuccess \<equiv> ''success''"
abbreviation DBJobFailed :: gostring where "DBJobFailed \<equiv> ''failed''"

record db_job =
  dj_id :: int
  dj_kind :: gostring
  dj_target :: gostring
  dj_status :: gostring
  dj_detail :: gostring
  dj_started :: instant
  dj_finished :: "instant option"

text \<open>An entry of the directory; \<open>bf_dir\<close> marks a subdirectory.\<close>

record bfile =
  bf_name :: gostring
  bf_dir :: bool
  bf_data :: gostring
  bf_mtime :: instant

text \<open>A command: its arguments and its standard input.\<close>

type_synonym command = "gostring list \<times> gostring"

text \<open>Given the commands before, the output of one and, if it failed, the error.\<close>

type_synonym runner = "command list \<Rightarrow> command \<Rightarrow> gostring \<times> gostring option"

record database =
  dbc_container :: gostring
  dbc_user :: gostring
  dbc_name :: gostring
  dbc_dir :: gostring
  dbc_keep :: int
  dbc_redis :: gostring
  dbc_run :: runner

record db_world = world +
  db_jobs :: "db_job table"
  db_busy :: bool
  bdir :: "bfile list option"
  commands :: "command list"

definition NewDatabase :: "database \<Rightarrow> database" where
  "NewDatabase cfg =
    cfg\<lparr>dbc_dir := (if dbc_dir cfg = [] then ''./backups'' else dbc_dir cfg),
        dbc_keep := max (dbc_keep cfg) 1\<rparr>"

section \<open>Names\<close>

definition name_char :: "char \<Rightarrow> bool" where
  "name_char c =
    (is_upper c \<or> is_lower c \<or> is_digit c \<or> c = CHR ''_'' \<or> c = CHR ''.'' \<or> c = CHR ''-'')"

definition backup_name :: "gostring \<Rightarrow> bool" where
  "backup_name s = (has_suffix s ''.dump'' \<and> 5 < length s \<and> list_all name_char s)"

definition validateBackupName :: "gostring \<Rightarrow> err + unit" where
  "validateBackupName name =
    (if backup_name name then Inr () else Inl (ErrInvalidInput (''backup name '' @ name)))"

text \<open>Each run of hostile characters becomes one underscore.\<close>

fun sanitize_from :: "bool \<Rightarrow> gostring \<Rightarrow> gostring" where
  "sanitize_from hostile [] = []"
| "sanitize_from hostile (c # cs) =
    (if name_char c then c # sanitize_from False cs
     else if hostile then sanitize_from True cs
     else CHR ''_'' # sanitize_from True cs)"

definition sanitizeName :: "gostring \<Rightarrow> gostring" where
  "sanitizeName name = sanitize_from False name"

definition backupFileName :: "gostring \<Rightarrow> instant \<Rightarrow> gostring" where
  "backupFileName db moment = sanitizeName db @ ''-'' @ compact_stamp moment @ ''.dump''"

definition safetyFileName :: "gostring \<Rightarrow> instant \<Rightarrow> gostring" where
  "safetyFileName db moment = sanitizeName db @ ''-pre-restore-'' @ compact_stamp moment @ ''.dump''"

section \<open>The directory\<close>

definition entries :: "'z db_world_scheme \<Rightarrow> bfile list" where
  "entries w = (case bdir w of None \<Rightarrow> [] | Some fs \<Rightarrow> fs)"

definition file_of :: "gostring \<Rightarrow> 'z db_world_scheme \<Rightarrow> bfile option" where
  "file_of name w = first_where (\<lambda>f. bf_name f = name) (entries w)"

definition put_file :: "bfile \<Rightarrow> 'z db_world_scheme \<Rightarrow> 'z db_world_scheme" where
  "put_file f w = w\<lparr>bdir := Some (filter (\<lambda>g. bf_name g \<noteq> bf_name f) (entries w) @ [f])\<rparr>"

definition del_file :: "gostring \<Rightarrow> 'z db_world_scheme \<Rightarrow> 'z db_world_scheme" where
  "del_file name w = w\<lparr>bdir := map_option (filter (\<lambda>g. bf_name g \<noteq> name)) (bdir w)\<rparr>"

definition mkdir :: "'z db_world_scheme \<Rightarrow> 'z db_world_scheme" where
  "mkdir w = w\<lparr>bdir := Some (entries w)\<rparr>"

abbreviation shaSuffix :: gostring where "shaSuffix \<equiv> ''.sha256''"

record backup_info =
  bi_name :: gostring
  bi_size :: int
  bi_created :: instant
  bi_sha :: gostring

definition info_of :: "'z db_world_scheme \<Rightarrow> bfile \<Rightarrow> backup_info" where
  "info_of w f =
    \<lparr>bi_name = bf_name f, bi_size = int (length (bf_data f)), bi_created = bf_mtime f,
     bi_sha = (if file_of (bf_name f @ shaSuffix) w = None then ''missing'' else ''present'')\<rparr>"

text \<open>Newest first, and by falling name at the same time.\<close>

definition backup_listing :: "'z db_world_scheme \<Rightarrow> backup_info list" where
  "backup_listing w =
    rev (sort_key (\<lambda>b. (bi_created b, bi_name b))
      (map (info_of w) (filter (\<lambda>f. \<not> bf_dir f \<and> backup_name (bf_name f)) (entries w))))"

definition Backups :: "('z db_world_scheme, err, backup_info list) prog" where
  "Backups =
    bindE (gets bdir) (\<lambda>d.
      case d of
        None \<Rightarrow> ret []
      | Some fs \<Rightarrow>
         andthen (stmt (ErrOther ''listing backups''))
         (andthen (stmt (ErrOther ''statting backup''))
          (gets backup_listing)))"

definition lastBackupAt :: "('z db_world_scheme, err, instant option) prog" where
  "lastBackupAt =
    bindE (attempt Backups) (\<lambda>r.
      ret (case r of Inl _ \<Rightarrow> None | Inr [] \<Rightarrow> None | Inr (b # bs) \<Rightarrow> Some (bi_created b)))"

text \<open>Reading and removing: a missing file and any other failure are errors.\<close>

definition open_file :: "gostring \<Rightarrow> gostring \<Rightarrow> ('z db_world_scheme, err, bfile) prog" where
  "open_file msg name =
    andthen (stmt (ErrOther msg)) (bindE (gets (file_of name)) (of_option (ErrOther msg)))"

definition remove_file :: "gostring \<Rightarrow> ('z db_world_scheme, err, unit) prog" where
  "remove_file name =
    bindE (open_file ''removing a file'' name) (\<lambda>_. modify (del_file name))"

definition trim_one :: "backup_info \<Rightarrow> ('z db_world_scheme, err, unit) prog" where
  "trim_one b =
    bindE (attempt (remove_file (bi_name b))) (\<lambda>r.
      case r of
        Inl _ \<Rightarrow> ret ()
      | Inr _ \<Rightarrow> andthen (attempt (remove_file (bi_name b @ shaSuffix))) (ret ()))"

definition trimBackups :: "database \<Rightarrow> ('z db_world_scheme, err, unit) prog" where
  "trimBackups db = bindE Backups (\<lambda>bs. for_each trim_one (drop (nat (dbc_keep db)) bs))"

section \<open>Checksums\<close>

definition sidecar_text :: "gostring \<Rightarrow> gostring \<Rightarrow> gostring" where
  "sidecar_text name content = sha256_hex content @ ''  '' @ name @ [newline]"

text \<open>A directory can be opened but not read.\<close>

definition hash_file :: "gostring \<Rightarrow> ('z db_world_scheme, err, gostring) prog" where
  "hash_file name =
    bindE (open_file ''hashing backup'' name) (\<lambda>f.
    andthen (guardE (\<not> bf_dir f) (ErrOther ''hashing backup''))
     (ret (bf_data f)))"

definition writeSHA256 :: "gostring \<Rightarrow> instant \<Rightarrow> ('z db_world_scheme, err, unit) prog" where
  "writeSHA256 name moment =
    bindE (hash_file name) (\<lambda>content.
    andthen (stmt (ErrOther ''writing backup checksum''))
    (bindE (gets (file_of (name @ shaSuffix))) (\<lambda>old.
    andthen (guardE (case old of None \<Rightarrow> True | Some g \<Rightarrow> \<not> bf_dir g) (ErrOther ''writing backup checksum''))
     (modify (put_file \<lparr>bf_name = name @ shaSuffix, bf_dir = False,
                        bf_data = sidecar_text name content, bf_mtime = moment\<rparr>)))))"

definition first_word :: "gostring \<Rightarrow> gostring" where
  "first_word s = (case cut_char (CHR '' '') s of None \<Rightarrow> s | Some (a, b) \<Rightarrow> a)"

definition checkSHA256 :: "gostring \<Rightarrow> ('z db_world_scheme, err, bool) prog" where
  "checkSHA256 name =
    andthen (stmt (ErrOther ''reading backup checksum''))
    (bindE (gets (file_of (name @ shaSuffix))) (\<lambda>side.
      case side of
        None \<Rightarrow> ret True
      | Some sf \<Rightarrow>
         andthen (guardE (\<not> bf_dir sf) (ErrOther ''reading backup checksum''))
         (bindE (hash_file name) (\<lambda>content.
          ret (sha256_hex content = trim_space (first_word (bf_data sf)))))))"

section \<open>Commands\<close>

definition dockerArgs :: "gostring \<Rightarrow> bool \<Rightarrow> gostring list \<Rightarrow> gostring list" where
  "dockerArgs container interactive tool =
    ''exec'' # (if interactive then [''-i''] else []) @ container # tool"

definition run_command ::
  "database \<Rightarrow> gostring list \<Rightarrow> gostring \<Rightarrow> ('z db_world_scheme, err, gostring \<times> gostring option) prog" where
  "run_command db args stdin =
    bindE (gets (\<lambda>w. dbc_run db (commands w) (args, stdin))) (\<lambda>r.
    andthen (modify (\<lambda>w. w\<lparr>commands := commands w @ [(args, stdin)]\<rparr>))
     (ret r))"

definition execOut :: "database \<Rightarrow> gostring list \<Rightarrow> gostring \<Rightarrow> ('z db_world_scheme, err, gostring) prog" where
  "execOut db args stdin =
    bindE (run_command db args stdin) (\<lambda>(out, failed).
      case failed of Some e \<Rightarrow> throw (ErrOther e) | None \<Rightarrow> ret (trim_space out))"

definition psql_args :: "database \<Rightarrow> gostring \<Rightarrow> gostring list" where
  "psql_args db query =
    dockerArgs (dbc_container db) False
      [''psql'', ''-U'', dbc_user db, ''-d'', dbc_name db, ''-tA'', ''-c'', query]"

definition psql :: "database \<Rightarrow> gostring \<Rightarrow> ('z db_world_scheme, err, gostring) prog" where
  "psql db query = execOut db (psql_args db query) []"

definition postgresInt :: "database \<Rightarrow> gostring \<Rightarrow> ('z db_world_scheme, err, int) prog" where
  "postgresInt db query =
    bindE (psql db query) (\<lambda>raw.
      of_option (ErrOther ''parsing postgres number'') (parse_int (trim_space raw)))"

end
