(* ===== verification/Db_Jobs.thy ===== *)
theory Db_Jobs
  imports Backups
begin

text \<open>
  \<open>store.DBJobStore\<close> (store/database.go) and the backup and restore jobs of
  \<open>service.Database\<close> (service/database.go): the job history, the one-at-a-time guard,
  the start of a job, its run in the background, and the record it leaves.
\<close>

section \<open>store.DBJobStore\<close>

interpretation job_rows: rowid_table dj_id "\<lambda>i r. r\<lparr>dj_id := i\<rparr>"
  by unfold_locales simp

definition maxDBJobs :: int where "maxDBJobs = 50"

definition job_row_ok :: "db_job \<Rightarrow> bool" where
  "job_row_ok j \<longleftrightarrow>
    dj_kind j \<in> {DBJobBackup, DBJobRestore} \<and>
    dj_status j \<in> {DBJobRunning, DBJobSuccess, DBJobFailed}"

definition jobs_trim :: "int \<Rightarrow> ('z db_world_scheme, err, unit) prog" where
  "jobs_trim keep =
    andthen (stmt (ErrOther ''trimming database jobs''))
     (modify (\<lambda>w. w\<lparr>db_jobs :=
        t_delete (\<lambda>r. dj_id r \<notin> set (map dj_id (newest (\<lambda>_. True) keep (db_jobs w)))) (db_jobs w)\<rparr>))"

definition jobs_Create :: "instant \<Rightarrow> db_job \<Rightarrow> ('z db_world_scheme, err, int) prog" where
  "jobs_Create now j0 =
    (let j = (if is_zero_time (dj_started j0) then j0\<lparr>dj_started := now\<rparr> else j0) in
     andthen (jobs_trim (maxDBJobs - 1))
     (andthen (stmt (ErrOther ''creating database job''))
     (andthen (guardE (job_row_ok j) (ErrOther ''creating database job''))
     (andthen (modify (\<lambda>w. w\<lparr>db_jobs := t_insert (\<lambda>i r. r\<lparr>dj_id := i\<rparr>) j (db_jobs w)\<rparr>))
     (andthen (stmt (ErrOther ''reading database job id''))
      (gets (\<lambda>w. seq (db_jobs w))))))))"

definition jobs_Get :: "int \<Rightarrow> ('z db_world_scheme, err, db_job) prog" where
  "jobs_Get i =
    andthen (stmt (ErrOther ''scanning database job''))
     (bindE (gets (\<lambda>w. t_find (\<lambda>r. dj_id r = i) (db_jobs w)))
       (of_option (ErrDBJobNotFound i)))"

definition jobs_Finish ::
  "int \<Rightarrow> gostring \<Rightarrow> gostring \<Rightarrow> instant \<Rightarrow> ('z db_world_scheme, err, unit) prog" where
  "jobs_Finish i status detail moment =
    andthen (stmt (ErrOther ''finishing database job''))
    (bindE (gets (\<lambda>w. t_count (\<lambda>r. dj_id r = i) (db_jobs w))) (\<lambda>affected.
     andthen (guardE (affected = 0 \<or> status \<in> {DBJobRunning, DBJobSuccess, DBJobFailed})
        (ErrOther ''finishing database job''))
    (andthen (modify (\<lambda>w. w\<lparr>db_jobs :=
        t_update (\<lambda>r. dj_id r = i)
          (\<lambda>r. r\<lparr>dj_status := status, dj_detail := detail, dj_finished := Some moment\<rparr>) (db_jobs w)\<rparr>))
    (andthen (stmt (ErrOther ''reading database job update''))
      (guardE (affected \<noteq> 0) (ErrDBJobNotFound i))))))"

definition jobs_FailRunning :: "instant \<Rightarrow> gostring \<Rightarrow> ('z db_world_scheme, err, int) prog" where
  "jobs_FailRunning now detail =
    andthen (stmt (ErrOther ''failing running database jobs''))
    (bindE (gets (\<lambda>w. t_count (\<lambda>r. dj_status r = DBJobRunning) (db_jobs w))) (\<lambda>affected.
     andthen (modify (\<lambda>w. w\<lparr>db_jobs :=
        t_update (\<lambda>r. dj_status r = DBJobRunning)
          (\<lambda>r. r\<lparr>dj_status := DBJobFailed, dj_detail := detail, dj_finished := Some now\<rparr>) (db_jobs w)\<rparr>))
    (andthen (stmt (ErrOther ''reading database job update''))
      (ret (int affected)))))"

definition jobs_List :: "int \<Rightarrow> ('z db_world_scheme, err, db_job list) prog" where
  "jobs_List limit =
    andthen (stmt (ErrOther ''querying database jobs''))
    (andthen (stmt (ErrOther ''scanning database job''))
     (gets (\<lambda>w. newest (\<lambda>_. True) limit (db_jobs w))))"

definition db_Jobs :: "('z db_world_scheme, err, db_job list) prog" where
  "db_Jobs = jobs_List 20"

section \<open>The guard\<close>

definition db_claim :: "unit \<Rightarrow> ('z db_world_scheme, err, unit) prog" where
  "db_claim u =
    bindE (gets db_busy) (\<lambda>busy.
    andthen (guardE (\<not> busy) ErrDatabaseBusy)
     (modify (\<lambda>w. w\<lparr>db_busy := True\<rparr>)))"

definition db_release :: "unit \<Rightarrow> 'z db_world_scheme \<Rightarrow> 'z db_world_scheme" where
  "db_release u w = w\<lparr>db_busy := False\<rparr>"

definition db_Active :: "unit \<Rightarrow> 'z db_world_scheme \<Rightarrow> bool" where
  "db_Active u w = db_busy w"

definition Reconcile :: "instant \<Rightarrow> ('z db_world_scheme, err, unit) prog" where
  "Reconcile now = andthen (jobs_FailRunning now ''interrupted by restart'') (ret ())"

section \<open>Starting a job\<close>

record job_request =
  jr_id :: int
  jr_kind :: gostring
  jr_target :: gostring
  jr_actor :: gostring

text \<open>
  A start returns the request it handed to the goroutine \<open>execute\<close>; the job id is
  \<open>jr_id\<close>.
\<close>

definition launch ::
  "instant \<Rightarrow> gostring \<Rightarrow> gostring \<Rightarrow> gostring \<Rightarrow> ('z db_world_scheme, err, job_request) prog" where
  "launch now kind target actor =
    andthen (db_claim ())
    (bindE (attempt (jobs_Create now
        \<lparr>dj_id = 0, dj_kind = kind, dj_target = target, dj_status = DBJobRunning, dj_detail = [],
         dj_started = now, dj_finished = None\<rparr>)) (\<lambda>r.
      case r of
        Inl e \<Rightarrow> andthen (modify (db_release ())) (throw (ErrOther (''creating '' @ kind @ '' job'')))
      | Inr i \<Rightarrow> ret \<lparr>jr_id = i, jr_kind = kind, jr_target = target, jr_actor = actor\<rparr>))"

definition StartBackup ::
  "database \<Rightarrow> instant \<Rightarrow> gostring \<Rightarrow> ('z db_world_scheme, err, job_request) prog" where
  "StartBackup db now actor =
    andthen (guardE (dbc_container db \<noteq> []) ErrDatabaseUnconfigured)
     (launch now DBJobBackup (backupFileName (dbc_name db) now) actor)"

definition lift_sum :: "'e + 'a \<Rightarrow> ('s, 'e, 'a) prog" where
  "lift_sum x = (case x of Inl e \<Rightarrow> throw e | Inr a \<Rightarrow> ret a)"

definition StartRestore ::
  "database \<Rightarrow> instant \<Rightarrow> gostring \<Rightarrow> gostring \<Rightarrow> ('z db_world_scheme, err, job_request) prog" where
  "StartRestore db now name actor =
    andthen (lift_sum (validateBackupName name))
    (andthen (guardE (dbc_container db \<noteq> []) ErrDatabaseUnconfigured)
    (andthen (stmt (ErrOther (''statting backup '' @ name)))
    (bindE (gets (file_of name)) (\<lambda>f.
     andthen (guardE (f \<noteq> None) (ErrInvalidInput (''backup not found '' @ name)))
      (launch now DBJobRestore name actor)))))"

text \<open>A scheduled tick starts a backup or logs why not; \<open>None\<close> is a skipped tick.\<close>

definition scheduledBackup :: "database \<Rightarrow> instant \<Rightarrow> ('z db_world_scheme, err, job_request option) prog" where
  "scheduledBackup db now =
    bindE (attempt (StartBackup db now ''scheduler'')) (\<lambda>r.
      ret (case r of Inl _ \<Rightarrow> None | Inr req \<Rightarrow> Some req))"

section \<open>Running a job\<close>

text \<open>The readings of the clock and the file times of one job.\<close>

record job_obs =
  jo_safety_at :: instant
  jo_dump_mtime :: instant
  jo_sum_mtime :: instant
  jo_audit_at :: instant
  jo_audit_now :: instant
  jo_finished :: instant

text \<open>On an error the half-made file is removed, and the removal may fail as well.\<close>

definition or_remove :: "gostring \<Rightarrow> ('z db_world_scheme, err, 'a) prog \<Rightarrow> ('z db_world_scheme, err, 'a) prog" where
  "or_remove name m =
    bindE (attempt m) (\<lambda>r.
      case r of
        Inl e \<Rightarrow> andthen (attempt (remove_file name)) (throw e)
      | Inr a \<Rightarrow> ret a)"

definition create_file :: "gostring \<Rightarrow> instant \<Rightarrow> ('z db_world_scheme, err, unit) prog" where
  "create_file name moment =
    andthen (stmt (ErrOther ''creating backup file''))
    (bindE (gets (file_of name)) (\<lambda>old.
     andthen (guardE (old = None) (ErrOther ''creating backup file''))
      (modify (put_file \<lparr>bf_name = name, bf_dir = False, bf_data = [], bf_mtime = moment\<rparr>))))"

definition dump_args :: "database \<Rightarrow> gostring list" where
  "dump_args db =
    dockerArgs (dbc_container db) False
      [''pg_dump'', ''-U'', dbc_user db, ''-d'', dbc_name db, ''-Fc'']"

text \<open>\<open>pg_dump\<close> writes into the open file, also when it fails later.\<close>

definition dump_postgres :: "database \<Rightarrow> gostring \<Rightarrow> instant \<Rightarrow> ('z db_world_scheme, err, unit) prog" where
  "dump_postgres db name moment =
    bindE (run_command db (dump_args db) []) (\<lambda>(out, failed).
    andthen (modify (put_file \<lparr>bf_name = name, bf_dir = False, bf_data = out, bf_mtime = moment\<rparr>))
     (case failed of
        Some e \<Rightarrow> throw (ErrOther (''dumping postgres: '' @ e))
      | None \<Rightarrow> ret ()))"

definition runBackup ::
  "database \<Rightarrow> job_obs \<Rightarrow> gostring \<Rightarrow> ('z db_world_scheme, err, gostring) prog" where
  "runBackup db obs name =
    andthen (stmt (ErrOther ''creating backup dir''))
    (andthen (modify mkdir)
    (andthen (create_file name (jo_dump_mtime obs))
    (andthen (or_remove name
       (andthen (dump_postgres db name (jo_dump_mtime obs))
       (andthen (stmt (ErrOther ''closing backup file''))
        (writeSHA256 name (jo_sum_mtime obs)))))
    (bindE (open_file ''statting backup file'' name) (\<lambda>f.
     andthen (trimBackups db)
      (ret (name @ '' ('' @ itoa (int (length (bf_data f))) @ '' bytes)'')))))))"

fun double_quotes :: "gostring \<Rightarrow> gostring" where
  "double_quotes [] = []"
| "double_quotes (c # cs) =
    (if c = CHR 0x27 then CHR 0x27 # CHR 0x27 # double_quotes cs else c # double_quotes cs)"

definition terminate_query :: "database \<Rightarrow> gostring" where
  "terminate_query db =
    ''SELECT pg_terminate_backend(pid) FROM pg_stat_activity '' @
    ''WHERE datname = '' @ [CHR 0x27] @ double_quotes (dbc_name db) @ [CHR 0x27] @
    '' AND pid <> pg_backend_pid()''"

definition terminateBackends :: "database \<Rightarrow> ('z db_world_scheme, err, unit) prog" where
  "terminateBackends db =
    map_error (\<lambda>_. ErrOther ''terminating postgres backends'')
      (andthen (psql db (terminate_query db)) (ret ()))"

definition restore_args :: "database \<Rightarrow> gostring list" where
  "restore_args db =
    dockerArgs (dbc_container db) True
      [''pg_restore'', ''-U'', dbc_user db, ''-d'', dbc_name db, ''--clean'', ''--if-exists'']"

definition count_query :: gostring where
  "count_query =
    ''SELECT count(*) FROM pg_tables WHERE schemaname = '' @ [CHR 0x27] @ ''public'' @ [CHR 0x27]"

definition runRestore ::
  "database \<Rightarrow> job_obs \<Rightarrow> gostring \<Rightarrow> ('z db_world_scheme, err, gostring) prog" where
  "runRestore db obs name =
    (let safety = safetyFileName (dbc_name db) (jo_safety_at obs) in
     andthen (map_error (\<lambda>_. ErrOther ''safety backup failed'') (runBackup db obs safety))
     (andthen (terminateBackends db)
     (bindE (open_file ''opening backup'' name) (\<lambda>f.
      bindE (run_command db (restore_args db) (bf_data f)) (\<lambda>(out, failed).
      andthen (guardE (failed = None) (ErrOther ''restoring postgres''))
     (bindE (map_error (\<lambda>_. ErrOther ''verifying restore'') (psql db ''SELECT 1'')) (\<lambda>one.
      andthen (guardE (one = ''1'') (ErrOther ''verifying restore: SELECT 1''))
     (bindE (map_error (\<lambda>_. ErrOther ''verifying restore'') (postgresInt db count_query)) (\<lambda>n.
      ret (name @ '' restored ('' @ itoa n @ '' public tables, safety backup '' @ safety @ '')''))))))))))"

definition err_text :: "err \<Rightarrow> gostring" where
  "err_text e =
    (case e of
       ErrServiceNotFound s \<Rightarrow> ''service not found: '' @ s
     | ErrInvalidInput s \<Rightarrow> ''invalid input: '' @ s
     | ErrConflict s \<Rightarrow> ''conflict: '' @ s
     | ErrUnauthorized \<Rightarrow> ''unauthorized''
     | ErrUserNotFound \<Rightarrow> ''user not found''
     | ErrDatabaseUnconfigured \<Rightarrow> ''service: postgres is not configured''
     | ErrDatabaseBusy \<Rightarrow> ''service: a database job is already running''
     | ErrDBJobNotFound i \<Rightarrow> ''store: database job not found: '' @ itoa i
     | ErrContainerNotFound c \<Rightarrow> ''store: container not found: '' @ c
     | ErrCollectorCursorNotFound c \<Rightarrow> ''store: collector cursor not found: '' @ c
     | ErrNoRows \<Rightarrow> ''sql: no rows in result set''
     | ErrOther s \<Rightarrow> s)"

definition db_audit ::
  "job_obs \<Rightarrow> gostring \<Rightarrow> gostring \<Rightarrow> gostring \<Rightarrow> gostring \<Rightarrow> ('z db_world_scheme, err, unit) prog" where
  "db_audit obs actor action result detail =
    andthen (attempt (audit_insert (jo_audit_now obs)
      \<lparr>au_id = 0, au_service = None, au_actor = actor, au_action = action, au_result = result,
       au_detail = detail, au_at = jo_audit_at obs\<rparr>)) (ret ())"

definition job_status :: "err + gostring \<Rightarrow> gostring" where
  "job_status r = (case r of Inl _ \<Rightarrow> DBJobFailed | Inr _ \<Rightarrow> DBJobSuccess)"

definition job_detail :: "err + gostring \<Rightarrow> gostring" where
  "job_detail r = (case r of Inl e \<Rightarrow> err_text e | Inr d \<Rightarrow> d)"

definition job_audit_detail :: "job_request \<Rightarrow> err + gostring \<Rightarrow> gostring" where
  "job_audit_detail req r =
    jr_kind req @ '' '' @ jr_target req @ '': '' @ job_status r @
    (if job_detail r \<noteq> [] then ''; '' @ job_detail r else [])"

definition finishJob ::
  "job_obs \<Rightarrow> job_request \<Rightarrow> err + gostring \<Rightarrow> ('z db_world_scheme, err, unit) prog" where
  "finishJob obs req r =
    andthen (db_audit obs (jr_actor req)
       (if jr_kind req = DBJobRestore then ''db_restore'' else ''db_backup'')
       (case r of Inl _ \<Rightarrow> AuditFailure | Inr _ \<Rightarrow> AuditSuccess)
       (job_audit_detail req r))
    (andthen (attempt (jobs_Finish (jr_id req) (job_status r) (job_detail r) (jo_finished obs)))
     (ret ()))"

definition job_work ::
  "database \<Rightarrow> job_obs \<Rightarrow> job_request \<Rightarrow> ('z db_world_scheme, err, gostring) prog" where
  "job_work db obs req =
    (if jr_kind req = DBJobRestore then runRestore db obs (jr_target req)
     else runBackup db obs (jr_target req))"

definition job_body ::
  "database \<Rightarrow> job_obs \<Rightarrow> job_request \<Rightarrow> ('z db_world_scheme, err, unit) prog" where
  "job_body db obs req = bindE (attempt (job_work db obs req)) (finishJob obs req)"

definition db_execute ::
  "database \<Rightarrow> job_obs \<Rightarrow> job_request \<Rightarrow> ('z db_world_scheme, err, unit) prog" where
  "db_execute db obs req = andthen (job_body db obs req) (modify (db_release ()))"

section \<open>Verifying a backup\<close>

definition Verify ::
  "database \<Rightarrow> gostring \<Rightarrow> ('z db_world_scheme, err, gostring \<times> bool) prog" where
  "Verify db name =
    andthen (lift_sum (validateBackupName name))
    (andthen (guardE (dbc_container db \<noteq> []) ErrDatabaseUnconfigured)
    (andthen (stmt (ErrOther ''statting backup''))
    (bindE (gets (file_of name)) (\<lambda>f.
     andthen (guardE (f \<noteq> None) (ErrInvalidInput ''backup not found''))
    (bindE (checkSHA256 name) (\<lambda>ok.
     if \<not> ok then ret (name, False)
     else
       bindE (open_file ''opening backup'' name) (\<lambda>g.
       bindE (run_command db (dockerArgs (dbc_container db) True [''pg_restore'', ''--list'']) (bf_data g))
         (\<lambda>(out, failed). ret (name, failed = None)))))))))"

section \<open>The jobs as a whole\<close>

text \<open>The clock never shows the zero time of year 1.\<close>

definition job_clock_ok :: "job_obs \<Rightarrow> bool" where
  "job_clock_ok obs = (\<not> is_zero_time (jo_audit_at obs))"

text \<open>
  The job goroutine, if any, with a mark that its body is over, among requests and
  scheduler ticks in any order.  The maintenance worker runs beside them and deletes rows of the history,
  by age or to free space and whatever their status (\<open>deleteBefore\<close> and \<open>deleteOldest\<close> on \<open>db_jobs\<close>,
  store/maintenance.go): any deletion is a step, and the third component collects the ids it took.  The
  body leaves the history alone until its last statement, so a deletion during it is one before it.
\<close>

type_synonym db_engine = "db_world \<times> (job_request \<times> bool) list \<times> int set"

inductive db_step :: "database \<Rightarrow> db_engine \<Rightarrow> db_engine \<Rightarrow> bool" for db where
  backup: "StartBackup db now actor w = (Inr req, w') \<Longrightarrow>
    db_step db (w, js, gone) (w', js @ [(req, False)], gone)"
| restore: "StartRestore db now name actor w = (Inr req, w') \<Longrightarrow>
    db_step db (w, js, gone) (w', js @ [(req, False)], gone)"
| refused_backup: "StartBackup db now actor w = (Inl e, w') \<Longrightarrow> db_step db (w, js, gone) (w', js, gone)"
| refused_restore: "StartRestore db now name actor w = (Inl e, w') \<Longrightarrow> db_step db (w, js, gone) (w', js, gone)"
| verify: "Verify db name w = (v, w') \<Longrightarrow> db_step db (w, js, gone) (w', js, gone)"
| body: "job_clock_ok obs \<Longrightarrow> job_body db obs req w = (r, w') \<Longrightarrow>
    db_step db (w, js @ (req, False) # js', gone) (w', js @ (req, True) # js', gone)"
| finish: "db_step db (w, js @ (req, True) # js', gone) (db_release () w, js @ js', gone)"
| retention: "db_step db (w, js, gone)
    (w\<lparr>db_jobs := t_delete old (db_jobs w)\<rparr>, js, gone \<union> dj_id ` {r \<in> set (rows (db_jobs w)). old r})"

text \<open>The process starts with a free guard and tries to reconcile the rows a crash left.\<close>

inductive db_reach :: "database \<Rightarrow> db_engine \<Rightarrow> bool" for db where
  boot: "\<not> db_busy w \<Longrightarrow> length (rows (db_jobs w)) \<le> 50 \<Longrightarrow> table_ok dj_id (db_jobs w) \<Longrightarrow>
    Reconcile now w = (r, w') \<Longrightarrow> db_reach db (w', [], {})"
| step: "db_reach db s \<Longrightarrow> db_step db s t \<Longrightarrow> db_reach db t"

inductive_cases db_stepE: "db_step db s t"

section \<open>Samples\<close>

text \<open>Concrete inputs for the theorems about this part.\<close>

definition sample_db :: database where
  "sample_db =
    \<lparr>dbc_container = ''pg'', dbc_user = ''u'', dbc_name = ''app'', dbc_dir = ''/b'', dbc_keep = 1,
     dbc_redis = [], dbc_run = (\<lambda>_ _. (''1'', None))\<rparr>"

definition sample_job_obs :: job_obs where
  "sample_job_obs =
    \<lparr>jo_safety_at = 5, jo_dump_mtime = 5, jo_sum_mtime = 6, jo_audit_at = 7, jo_audit_now = 7,
     jo_finished = 8\<rparr>"

definition sample_backup :: bfile where
  "sample_backup = \<lparr>bf_name = ''a.dump'', bf_dir = False, bf_data = ''x'', bf_mtime = 1\<rparr>"

definition sample_db_world :: db_world where
  "sample_db_world =
    \<lparr>faults = [], services = [], deploys = empty_table, probes = empty_table,
     notifications = empty_table, audits = empty_table, child_rows = [], events = [],
     db_jobs = empty_table, db_busy = False, bdir = Some [sample_backup], commands = []\<rparr>"

end
