(* ===== verification/Db_Jobs_Laws.thy ===== *)
theory Db_Jobs_Laws
  imports Db_Jobs Effects
begin

text \<open>
  What the database jobs promise: one job at a time, a bounded history, a record of every
  job, names that stay in the backup directory, a trim that keeps the newest backups, and the
  order of the commands of a restore.
\<close>

interpretation db_slot: run_guard db_claim db_release db_Active
  by unfold_locales (auto simp: db_claim_def db_release_def db_Active_def run_defs)

section \<open>The job table\<close>

definition jobs_ok :: "'z db_world_scheme \<Rightarrow> bool" where
  "jobs_ok w \<longleftrightarrow> length (rows (db_jobs w)) \<le> 50 \<and> table_ok dj_id (db_jobs w)"

lemma newest_ids_filter_length:
  assumes "distinct (map k xs)"
  shows "length (filter (\<lambda>x. k x \<in> set (map k (take n (rev xs)))) xs) \<le> n"
proof -
  let ?ys = "filter (\<lambda>x. k x \<in> set (map k (take n (rev xs)))) xs"
  have "distinct (map k ?ys)" using assms by (rule distinct_map_filter)
  then have "length ?ys = card (set (map k ?ys))" using distinct_card by fastforce
  also have "\<dots> \<le> card (set (map k (take n (rev xs))))" by (rule card_mono) auto
  also have "\<dots> \<le> length (map k (take n (rev xs)))" by (rule card_length)
  also have "\<dots> \<le> n" by simp
  finally show ?thesis .
qed

lemma jobs_trimmed:
  assumes "table_ok dj_id t" "0 \<le> n"
  shows "length (rows (t_delete (\<lambda>r. dj_id r \<notin> set (map dj_id (newest (\<lambda>_. True) n t))) t)) \<le> nat n"
  using newest_ids_filter_length [OF job_rows.ids_distinct [OF assms(1)], of "nat n"] assms(2)
  by (simp add: newest_def sql_limit_def)

text \<open>What a creation leaves: the new row, or nothing new.\<close>

definition created :: "db_job \<Rightarrow> bool \<Rightarrow> err + int \<Rightarrow> 'z db_world_scheme \<Rightarrow> bool" where
  "created j busy r t \<longleftrightarrow>
    jobs_ok t \<and> db_busy t = busy \<and>
    (\<forall>i. r = Inr i \<longrightarrow> (\<exists>x\<in>set (rows (db_jobs t)). dj_id x = i \<and> dj_kind x = dj_kind j \<and>
       dj_target x = dj_target j \<and> dj_status x = dj_status j))"

lemma created_Inl: "jobs_ok t \<Longrightarrow> db_busy t = busy \<Longrightarrow> created j busy (Inl e) t"
  by (simp add: created_def)

lemma create_insert_wp:
  assumes ok: "table_ok dj_id (db_jobs s)" and len: "length (rows (db_jobs s)) \<le> 49"
    and same: "dj_kind j' = dj_kind j" "dj_target j' = dj_target j" "dj_status j' = dj_status j"
  shows "wp (andthen (stmt (ErrOther ''creating database job''))
     (andthen (guardE (job_row_ok j') (ErrOther ''creating database job''))
     (andthen (modify (\<lambda>w. w\<lparr>db_jobs := t_insert (\<lambda>i r. r\<lparr>dj_id := i\<rparr>) j' (db_jobs w)\<rparr>))
     (andthen (stmt (ErrOther ''reading database job id'')) (gets (\<lambda>w. seq (db_jobs w)))))))
    (created j (db_busy s)) s"
proof -
  let ?ins = "t_insert (\<lambda>i r. r\<lparr>dj_id := i\<rparr>) j' (db_jobs s)"
  have failed: "created j (db_busy s) (Inl e) t"
    if "db_jobs t \<in> {db_jobs s, ?ins}" "db_busy t = db_busy s" for e and t :: "'a db_world_scheme"
    using that ok len job_rows.ok_insert [OF ok, of j'] by (auto simp: created_def jobs_ok_def)
  have inserted: "created j (db_busy s) (Inr (seq ?ins)) t"
    if "db_jobs t = ?ins" "db_busy t = db_busy s" for t :: "'a db_world_scheme"
    using that len same job_rows.ok_insert [OF ok, of j'] by (auto simp: created_def jobs_ok_def)
  show ?thesis
    using inserted
    by (auto simp: wp_rules wp_stmt split: list.splits intro!: failed)
qed

lemma jobs_Create_wp:
  assumes "jobs_ok w"
  shows "wp (jobs_Create now j) (created j (db_busy w)) w"
proof -
  let ?t = "t_delete (\<lambda>r. dj_id r \<notin> set (map dj_id (newest (\<lambda>_. True) 49 (db_jobs w)))) (db_jobs w)"
  have ok: "table_ok dj_id ?t" using assms by (simp add: jobs_ok_def job_rows.ok_delete)
  have len: "length (rows ?t) \<le> 49"
    using jobs_trimmed [of "db_jobs w" 49] assms by (simp add: jobs_ok_def)
  have trim: "wp (jobs_trim (maxDBJobs - 1))
      (onE (\<lambda>e t. only_oracle w t) (\<lambda>_ t. only_oracle (w\<lparr>db_jobs := ?t\<rparr>) t)) w"
    by (simp add: jobs_trim_def maxDBJobs_def wp_rules wp_stmt only_oracle_def split: list.split)
  show ?thesis
    unfolding jobs_Create_def Let_def
  proof (rule wp_then [OF trim])
    fix e t assume "only_oracle w t"
    then show "created j (db_busy w) (Inl e) t"
      using assms by (auto simp: only_oracle_ex jobs_ok_def created_def)
  next
    fix a t assume "only_oracle (w\<lparr>db_jobs := ?t\<rparr>) t"
    then have t: "table_ok dj_id (db_jobs t)" "length (rows (db_jobs t)) \<le> 49" "db_busy t = db_busy w"
      using ok len by (auto simp: only_oracle_ex)
    show "wp (andthen (stmt (ErrOther ''creating database job''))
       (andthen (guardE (job_row_ok (if is_zero_time (dj_started j) then j\<lparr>dj_started := now\<rparr> else j))
           (ErrOther ''creating database job''))
       (andthen (modify (\<lambda>w. w\<lparr>db_jobs := t_insert (\<lambda>i r. r\<lparr>dj_id := i\<rparr>)
           (if is_zero_time (dj_started j) then j\<lparr>dj_started := now\<rparr> else j) (db_jobs w)\<rparr>))
       (andthen (stmt (ErrOther ''reading database job id'')) (gets (\<lambda>w. seq (db_jobs w)))))))
      (created j (db_busy w)) t"
      unfolding t(3) [symmetric] by (rule create_insert_wp [OF t(1,2)]) simp_all
  qed
qed

text \<open>A start claims the slot and stores a running row, or leaves the slot as it was.\<close>

definition job_held :: "job_request \<Rightarrow> 'z db_world_scheme \<Rightarrow> bool" where
  "job_held req w = (\<exists>x\<in>set (rows (db_jobs w)). dj_id x = jr_id req \<and> dj_kind x = jr_kind req \<and>
     dj_target x = jr_target req \<and> dj_status x = DBJobRunning)"

definition started :: "'z db_world_scheme \<Rightarrow> err + job_request \<Rightarrow> 'z db_world_scheme \<Rightarrow> bool" where
  "started w r t \<longleftrightarrow>
    jobs_ok t \<and>
    (case r of
       Inl e \<Rightarrow> db_busy t = db_busy w \<and> (db_busy w \<longrightarrow> db_jobs t = db_jobs w)
     | Inr req \<Rightarrow> \<not> db_busy w \<and> db_busy t \<and> job_held req t)"

lemma started_same: "jobs_ok w \<Longrightarrow> only_oracle w t \<Longrightarrow> started w (Inl e) t"
  by (auto simp: started_def only_oracle_ex jobs_ok_def)

lemma launch_wp:
  assumes ok: "jobs_ok w" and t: "only_oracle w t"
  shows "wp (launch now kind target actor) (started w) t"
proof -
  from t obtain fs where t': "t = w\<lparr>faults := fs\<rparr>" by (auto simp: only_oracle_ex)
  show ?thesis
  proof (cases "db_busy w")
    case True
    then show ?thesis
      using started_same [OF ok t] by (simp add: launch_def db_claim_def wp_rules t')
  next
    case False
    let ?u = "t\<lparr>db_busy := True\<rparr>"
    let ?j = "\<lparr>dj_id = 0, dj_kind = kind, dj_target = target, dj_status = DBJobRunning, dj_detail = [],
         dj_started = now, dj_finished = None\<rparr>"
    have u: "jobs_ok ?u" using ok by (simp add: t' jobs_ok_def)
    have "wp (bindE (attempt (jobs_Create now ?j)) (\<lambda>r.
      case r of
        Inl e \<Rightarrow> andthen (modify (db_release ())) (throw (ErrOther (''creating '' @ kind @ '' job'')))
      | Inr i \<Rightarrow> ret \<lparr>jr_id = i, jr_kind = kind, jr_target = target, jr_actor = actor\<rparr>)) (started w) ?u"
      unfolding wp_bindE wp_attempt
      by (rule wp_mono [OF jobs_Create_wp [OF u]])
        (auto simp: wp_rules started_def created_def job_held_def db_release_def jobs_ok_def False
          split: sum.splits)
    moreover have "db_claim () t = (Inr (), ?u)"
      using False by (simp add: db_claim_def run_defs t')
    ultimately show ?thesis by (simp only: launch_def wp_andthen_run)
  qed
qed

lemma StartBackup_wp: "jobs_ok w \<Longrightarrow> wp (StartBackup db now actor) (started w) w"
  unfolding StartBackup_def by (rule wp_guard_then) (simp_all add: launch_wp started_same)

lemma StartRestore_wp: "jobs_ok w \<Longrightarrow> wp (StartRestore db now name actor) (started w) w"
  unfolding StartRestore_def lift_sum_def
  by (auto simp: wp_rules wp_andthen [of "stmt _"] started_same launch_wp validateBackupName_def
      intro!: wp_stmt_all split: sum.splits)

section \<open>What the work of a job leaves alone\<close>

text \<open>The directory and the commands are all that a backup, a restore or a check changes.\<close>

definition store_is ::
  "db_job table \<Rightarrow> bool \<Rightarrow> audit table \<Rightarrow> service list \<Rightarrow> 'z db_world_scheme \<Rightarrow> bool" where
  "store_is T b A S w \<longleftrightarrow> db_jobs w = T \<and> db_busy w = b \<and> audits w = A \<and> services w = S"

interpretation store_is: db_invariant "store_is T b A S"
  by unfold_locales (simp add: store_is_def)

lemma store_is_updates [simp]:
  "store_is T b A S (w\<lparr>commands := cs\<rparr>) = store_is T b A S w"
  "store_is T b A S (put_file f w) = store_is T b A S w"
  "store_is T b A S (del_file n w) = store_is T b A S w"
  "store_is T b A S (mkdir w) = store_is T b A S w"
  by (simp_all add: store_is_def put_file_def del_file_def mkdir_def)

lemmas store_frame = keeps_rules store_is.keeps_stmt

lemma open_file_frame: "keeps (store_is T b A S) (open_file msg name)"
  unfolding open_file_def by (intro store_frame)

lemma remove_file_frame: "keeps (store_is T b A S) (remove_file name)"
  unfolding remove_file_def by (intro store_frame open_file_frame) simp

lemma Backups_frame: "keeps (store_is T b A S) Backups"
  unfolding Backups_def by (intro store_frame) (auto intro!: store_frame split: option.split)

lemma trimBackups_frame: "keeps (store_is T b A S) (trimBackups db)"
  unfolding trimBackups_def trim_one_def
  by (intro store_frame Backups_frame remove_file_frame)
    (auto intro!: store_frame remove_file_frame split: sum.split)

lemma hash_file_frame: "keeps (store_is T b A S) (hash_file name)"
  unfolding hash_file_def by (intro store_frame open_file_frame)

lemma writeSHA256_frame: "keeps (store_is T b A S) (writeSHA256 name moment)"
  unfolding writeSHA256_def by (intro store_frame hash_file_frame) simp

lemma run_command_frame: "keeps (store_is T b A S) (run_command db args stdin)"
  unfolding run_command_def by (intro store_frame) simp

lemma psql_frame: "keeps (store_is T b A S) (psql db query)"
  unfolding psql_def execOut_def
  by (intro store_frame run_command_frame) (auto split: option.split)

lemma postgresInt_frame: "keeps (store_is T b A S) (postgresInt db query)"
  unfolding postgresInt_def by (intro store_frame psql_frame)

lemma dump_postgres_frame: "keeps (store_is T b A S) (dump_postgres db name moment)"
  unfolding dump_postgres_def
  by (intro store_frame run_command_frame) (auto split: option.split)

lemma runBackup_frame: "keeps (store_is T b A S) (runBackup db obs name)"
  unfolding runBackup_def create_file_def or_remove_def
  by (intro store_frame open_file_frame trimBackups_frame dump_postgres_frame writeSHA256_frame)
    (auto intro!: store_frame remove_file_frame split: sum.split)

lemma runRestore_frame: "keeps (store_is T b A S) (runRestore db obs name)"
  unfolding runRestore_def Let_def terminateBackends_def
  by (intro store_frame open_file_frame runBackup_frame run_command_frame psql_frame postgresInt_frame)

lemma job_work_frame: "keeps (store_is T b A S) (job_work db obs req)"
  unfolding job_work_def by (intro store_frame runBackup_frame runRestore_frame)

lemma checkSHA256_frame: "keeps (store_is T b A S) (checkSHA256 name)"
  unfolding checkSHA256_def
  by (intro store_frame) (auto intro!: store_frame hash_file_frame split: option.split)

lemma Verify_frame: "keeps (store_is T b A S) (Verify db name)"
  unfolding Verify_def lift_sum_def
  by (intro store_frame checkSHA256_frame)
    (auto intro!: store_frame open_file_frame run_command_frame split: sum.split)

lemma job_work_store:
  "job_work db obs req w = (v, u) \<Longrightarrow> store_is (db_jobs w) (db_busy w) (audits w) (services w) u"
  by (rule keepsD [OF job_work_frame]) (simp_all add: store_is_def)

lemma Verify_store:
  "Verify db name w = (v, u) \<Longrightarrow> store_is (db_jobs w) (db_busy w) (audits w) (services w) u"
  by (rule keepsD [OF Verify_frame]) (simp_all add: store_is_def)

section \<open>The record of a job\<close>

definition the_job_audit :: "job_obs \<Rightarrow> job_request \<Rightarrow> err + gostring \<Rightarrow> audit" where
  "the_job_audit obs req v =
    \<lparr>au_id = 0, au_service = None, au_actor = jr_actor req,
     au_action = (if jr_kind req = DBJobRestore then ''db_restore'' else ''db_backup''),
     au_result = (case v of Inl _ \<Rightarrow> AuditFailure | Inr _ \<Rightarrow> AuditSuccess),
     au_detail = job_audit_detail req v, au_at = jo_audit_at obs\<rparr>"

definition finished_jobs :: "job_obs \<Rightarrow> job_request \<Rightarrow> err + gostring \<Rightarrow> db_job table \<Rightarrow> db_job table" where
  "finished_jobs obs req v =
    t_update (\<lambda>r. dj_id r = jr_id req)
      (\<lambda>r. r\<lparr>dj_status := job_status v, dj_detail := job_detail v, dj_finished := Some (jo_finished obs)\<rparr>)"

text \<open>What is left when a job ends: the two writes, each made or lost to a fault.\<close>

definition job_recorded ::
  "job_obs \<Rightarrow> job_request \<Rightarrow> err + gostring \<Rightarrow> 'z db_world_scheme \<Rightarrow> 'z db_world_scheme \<Rightarrow> bool" where
  "job_recorded obs req v w t \<longleftrightarrow>
    db_busy t = db_busy w \<and> services t = services w \<and>
    db_jobs t \<in> {db_jobs w, finished_jobs obs req v (db_jobs w)} \<and>
    audits t \<in> {audits w, t_insert (\<lambda>i r. r\<lparr>au_id := i\<rparr>) (the_job_audit obs req v) (audits w)}"

lemma job_audit_ok: "audit_insert_ok (the_job_audit obs req v) w"
  by (auto simp: audit_insert_ok_def the_job_audit_def audit_actions_sql_def results_sql_def
      split: sum.split)

lemma audit_row_wp:
  fixes w :: "'z db_world_scheme"
  assumes "\<not> is_zero_time (au_at a)" "\<And>w :: 'z db_world_scheme. audit_insert_ok a w"
  shows "wp (attempt (audit_insert now a))
    (onE never (\<lambda>_ t. db_busy t = db_busy w \<and> services t = services w \<and> db_jobs t = db_jobs w \<and>
      audits t \<in> {audits w, t_insert (\<lambda>i r. r\<lparr>au_id := i\<rparr>) a (audits w)} \<and>
      (faults w = [] \<longrightarrow> faults t = [] \<and> audits t = t_insert (\<lambda>i r. r\<lparr>au_id := i\<rparr>) a (audits w)))) w"
  using assms by (simp add: audit_insert_def wp_rules wp_stmt split: list.split)

lemma jobs_Finish_wp:
  assumes "status \<in> {DBJobSuccess, DBJobFailed}"
  shows "wp (attempt (jobs_Finish i status detail moment))
    (onE never (\<lambda>_ t. db_busy t = db_busy w \<and> services t = services w \<and> audits t = audits w \<and>
      db_jobs t \<in> {db_jobs w, t_update (\<lambda>r. dj_id r = i)
          (\<lambda>r. r\<lparr>dj_status := status, dj_detail := detail, dj_finished := Some moment\<rparr>) (db_jobs w)} \<and>
      (faults w = [] \<longrightarrow> db_jobs t = t_update (\<lambda>r. dj_id r = i)
          (\<lambda>r. r\<lparr>dj_status := status, dj_detail := detail, dj_finished := Some moment\<rparr>) (db_jobs w)))) w"
proof -
  have "status = DBJobRunning \<or> status = DBJobSuccess \<or> status = DBJobFailed" using assms by auto
  then show ?thesis by (simp add: jobs_Finish_def wp_rules wp_stmt split: list.split)
qed

lemma job_status_terminal: "job_status v \<in> {DBJobSuccess, DBJobFailed}"
  by (simp add: job_status_def split: sum.split)

text \<open>The end of a job, for any faults, and with no fault left.\<close>

lemma finishJob_wp:
  assumes "job_clock_ok obs"
  shows "wp (finishJob obs req v)
    (onE never (\<lambda>_ t. job_recorded obs req v w t \<and>
      (faults w = [] \<longrightarrow> db_jobs t = finished_jobs obs req v (db_jobs w) \<and>
         audits t = t_insert (\<lambda>i r. r\<lparr>au_id := i\<rparr>) (the_job_audit obs req v) (audits w)))) w"
proof -
  have z: "\<not> is_zero_time (au_at (the_job_audit obs req v))"
    using assms by (simp add: the_job_audit_def job_clock_ok_def)
  have aud: "wp (db_audit obs (jr_actor req)
       (if jr_kind req = DBJobRestore then ''db_restore'' else ''db_backup'')
       (case v of Inl _ \<Rightarrow> AuditFailure | Inr _ \<Rightarrow> AuditSuccess) (job_audit_detail req v))
     (onE never (\<lambda>_ t. db_busy t = db_busy w \<and> services t = services w \<and> db_jobs t = db_jobs w \<and>
      audits t \<in> {audits w, t_insert (\<lambda>i r. r\<lparr>au_id := i\<rparr>) (the_job_audit obs req v) (audits w)} \<and>
      (faults w = [] \<longrightarrow> faults t = [] \<and>
        audits t = t_insert (\<lambda>i r. r\<lparr>au_id := i\<rparr>) (the_job_audit obs req v) (audits w)))) w"
    unfolding db_audit_def the_job_audit_def [symmetric]
    by (rule wp_then_ok [OF audit_row_wp [OF z job_audit_ok]]) (simp add: wp_ret)
  show ?thesis
    unfolding finishJob_def
    by (rule wp_then_ok [OF aud], rule wp_then_ok [OF jobs_Finish_wp [OF job_status_terminal]])
      (auto simp: wp_ret job_recorded_def finished_jobs_def)
qed

text \<open>A backup or restore job always ends with the slot free, whatever fails on the
  way.  Its row and its audit entry carry the verdict and the detail of the work, success or
  failure; each is lost only to a failed statement, and both are there when no statement after
  the work fails.\<close>

theorem db_execute_records:
  assumes "job_clock_ok obs"
  shows "\<exists>t. db_execute db obs req w = (Inr (), t) \<and> \<not> db_busy t \<and> services t = services w \<and>
    (let v = fst (job_work db obs req w);
         finished = finished_jobs obs req v (db_jobs w);
         audited = t_insert (\<lambda>i r. r\<lparr>au_id := i\<rparr>) (the_job_audit obs req v) (audits w)
     in db_jobs t \<in> {db_jobs w, finished} \<and> audits t \<in> {audits w, audited} \<and>
        (faults (snd (job_work db obs req w)) = [] \<longrightarrow> db_jobs t = finished \<and> audits t = audited))"
proof -
  obtain v u where work: "job_work db obs req w = (v, u)" by (cases "job_work db obs req w")
  from job_work_store [OF work] have u: "services u = services w" "db_jobs u = db_jobs w" "audits u = audits w"
    by (simp_all add: store_is_def)
  have "wp (finishJob obs req v)
    (onE never (\<lambda>_ t. job_recorded obs req v u t \<and>
      (faults u = [] \<longrightarrow> db_jobs t = finished_jobs obs req v (db_jobs u) \<and>
         audits t = t_insert (\<lambda>i r. r\<lparr>au_id := i\<rparr>) (the_job_audit obs req v) (audits u)))) u"
    by (rule finishJob_wp [OF assms])
  then obtain t where t: "finishJob obs req v u = (Inr (), t)" "job_recorded obs req v u t"
      "faults u = [] \<longrightarrow> db_jobs t = finished_jobs obs req v (db_jobs u) \<and>
         audits t = t_insert (\<lambda>i r. r\<lparr>au_id := i\<rparr>) (the_job_audit obs req v) (audits u)"
    by (auto simp: wp_def onE_def never_def split: prod.splits sum.splits)
  have "db_execute db obs req w = (Inr (), db_release () t)"
    by (simp add: db_execute_def job_body_def andthen_def bindE_def attempt_def work t(1) modify_def)
  then show ?thesis using t(2,3) u work
    by (auto simp: Let_def job_recorded_def db_release_def)
qed

section \<open>One job at a time\<close>

definition db_inv :: "db_engine \<Rightarrow> bool" where
  "db_inv s \<longleftrightarrow>
    (case s of (w, js, gone) \<Rightarrow>
      jobs_ok w \<and> length js \<le> 1 \<and> (db_busy w \<longleftrightarrow> js \<noteq> []) \<and>
      (\<forall>(req, over)\<in>set js. \<not> over \<longrightarrow> jr_id req \<in> gone \<or> job_held req w))"

lemma jobs_ok_finished: "jobs_ok w \<Longrightarrow> db_jobs t \<in> {db_jobs w, finished_jobs obs req v (db_jobs w)} \<Longrightarrow> jobs_ok t"
  by (auto simp: jobs_ok_def finished_jobs_def intro!: job_rows.ok_update)

lemma db_inv_start:
  assumes "db_inv (w, js, gone)" "started w r t"
  shows "case r of Inl e \<Rightarrow> db_inv (t, js, gone) | Inr req \<Rightarrow> db_inv (t, js @ [(req, False)], gone)"
  using assms by (fastforce simp: db_inv_def started_def job_held_def split: sum.splits)

lemma db_inv_same_store:
  "db_inv (w, js, gone) \<Longrightarrow> store_is (db_jobs w) (db_busy w) (audits w) (services w) t \<Longrightarrow> db_inv (t, js, gone)"
  by (auto simp: db_inv_def store_is_def jobs_ok_def job_held_def)

lemma db_inv_one: "db_inv (w, js @ x # js', gone) \<Longrightarrow> js = [] \<and> js' = []"
  by (simp add: db_inv_def)

lemma db_inv_body:
  assumes "db_inv (w, js @ (req, False) # js', gone)" "job_body db obs req w = (r, t)" "job_clock_ok obs"
  shows "db_inv (t, js @ (req, True) # js', gone)"
proof -
  obtain v u where work: "job_work db obs req w = (v, u)" by (cases "job_work db obs req w")
  have fin: "finishJob obs req v u = (r, t)"
    using assms(2) by (simp add: job_body_def bindE_def attempt_def work)
  from wp_run [OF finishJob_wp [OF assms(3)] fin] have rec: "job_recorded obs req v u t"
    by (auto simp: onE_def never_def split: sum.splits)
  from job_work_store [OF work] rec
  have t: "db_busy t = db_busy w" "db_jobs t \<in> {db_jobs w, finished_jobs obs req v (db_jobs w)}"
    by (auto simp: store_is_def job_recorded_def)
  from db_inv_one [OF assms(1)] have one: "js = []" "js' = []" by auto
  have "jobs_ok w" "db_busy w" using assms(1) by (auto simp: db_inv_def one)
  then show ?thesis using t jobs_ok_finished [of w t obs req v] by (simp add: db_inv_def one)
qed

lemma db_inv_finish: "db_inv (w, js @ x # js', gone) \<Longrightarrow> db_inv (db_release () w, js @ js', gone)"
  by (auto simp: db_inv_def db_release_def jobs_ok_def)

lemma filter_length_50: "length xs \<le> 50 \<Longrightarrow> length (filter P xs) \<le> 50"
  by (rule order_trans [OF length_filter_le])

lemma db_inv_retention:
  assumes "db_inv (w, js, gone)"
  shows "db_inv (w\<lparr>db_jobs := t_delete old (db_jobs w)\<rparr>, js, gone \<union> dj_id ` {r \<in> set (rows (db_jobs w)). old r})"
proof -
  have ok: "jobs_ok (w\<lparr>db_jobs := t_delete old (db_jobs w)\<rparr>)"
    using assms by (auto simp: db_inv_def jobs_ok_def filter_length_50 job_rows.ok_delete)
  have "jr_id req \<in> dj_id ` {r \<in> set (rows (db_jobs w)). old r} \<or> job_held req (w\<lparr>db_jobs := t_delete old (db_jobs w)\<rparr>)"
    if h: "job_held req w" for req
  proof -
    obtain x where x: "x \<in> set (rows (db_jobs w))" "dj_id x = jr_id req" "dj_kind x = jr_kind req"
      "dj_target x = jr_target req" "dj_status x = DBJobRunning" using h by (auto simp: job_held_def)
    then show ?thesis by (cases "old x") (force simp: job_held_def)+
  qed
  then show ?thesis using assms ok by (fastforce simp: db_inv_def)
qed

lemma db_inv_step: "db_step db s t \<Longrightarrow> db_inv s \<Longrightarrow> db_inv t"
proof (induction rule: db_step.induct)
  case (backup now actor w req w' js gone)
  have "started w (Inr req) w'"
    using wp_run [OF StartBackup_wp backup.hyps] backup.prems by (simp add: db_inv_def)
  then show ?case using db_inv_start [OF backup.prems] by force
next
  case (restore now name actor w req w' js gone)
  have "started w (Inr req) w'"
    using wp_run [OF StartRestore_wp restore.hyps] restore.prems by (simp add: db_inv_def)
  then show ?case using db_inv_start [OF restore.prems] by force
next
  case (refused_backup now actor w e w' js gone)
  have "started w (Inl e) w'"
    using wp_run [OF StartBackup_wp refused_backup.hyps] refused_backup.prems by (simp add: db_inv_def)
  then show ?case using db_inv_start [OF refused_backup.prems] by force
next
  case (refused_restore now name actor w e w' js gone)
  have "started w (Inl e) w'"
    using wp_run [OF StartRestore_wp refused_restore.hyps] refused_restore.prems by (simp add: db_inv_def)
  then show ?case using db_inv_start [OF refused_restore.prems] by force
next
  case (verify name w v w' js gone)
  then show ?case using db_inv_same_store Verify_store by blast
next
  case (body obs req w r w' js js')
  then show ?case using db_inv_body by blast
next
  case (finish js req js' w)
  then show ?case by (rule db_inv_finish)
next
  case (retention w js gone old)
  then show ?case by (rule db_inv_retention)
qed

lemma Reconcile_wp:
  assumes "jobs_ok w"
  shows "wp (Reconcile now) (\<lambda>r t. jobs_ok t \<and> db_busy t = db_busy w) w"
  using assms
  by (auto simp: Reconcile_def jobs_FailRunning_def wp_rules wp_stmt jobs_ok_def
      intro!: job_rows.ok_update split: list.split)

lemma db_inv_reach: "db_reach db s \<Longrightarrow> db_inv s"
proof (induction rule: db_reach.induct)
  case (boot w now r w')
  then have "jobs_ok w" by (simp add: jobs_ok_def)
  from wp_run [OF Reconcile_wp [OF this] boot.hyps(4)] boot.hyps(1) show ?case by (simp add: db_inv_def)
next
  case (step s t)
  then show ?case using db_inv_step by blast
qed

text \<open>C28: In every reachable state at most one backup or restore job is in flight, and a further backup or
  restore is refused, the backup as busy and without a change; the history holds at most 50 rows.  The row of
  the job in flight is in it and reads running until the job is over, unless the maintenance worker deleted
  it: trimming the history at a start never removes it.\<close>

theorem db_one_job:
  assumes "db_reach db (w, js, gone)"
  shows "length js \<le> 1 \<and> length (rows (db_jobs w)) \<le> 50 \<and>
    (\<forall>(req, over)\<in>set js. \<not> over \<longrightarrow> jr_id req \<in> gone \<or>
       (\<exists>x\<in>set (rows (db_jobs w)). dj_id x = jr_id req \<and> dj_kind x = jr_kind req \<and>
          dj_target x = jr_target req \<and> dj_status x = DBJobRunning)) \<and>
    (js \<noteq> [] \<and> dbc_container db \<noteq> [] \<longrightarrow>
       StartBackup db now actor w = (Inl ErrDatabaseBusy, w)) \<and>
    (js \<noteq> [] \<longrightarrow> fst (StartRestore db now name actor w) \<notin> range Inr)"
proof -
  have inv: "db_inv (w, js, gone)" using db_inv_reach [OF assms] .
  have "StartBackup db now actor w = (Inl ErrDatabaseBusy, w)" if "js \<noteq> []" "dbc_container db \<noteq> []"
    using that inv
    by (simp add: StartBackup_def launch_def db_claim_def db_inv_def run_defs)
  moreover have "fst (StartRestore db now name actor w) \<notin> range Inr" if "js \<noteq> []"
    using that inv StartRestore_wp [of w db now name actor]
    by (auto simp: db_inv_def wp_def started_def split: prod.splits)
  ultimately show ?thesis using inv by (auto simp: db_inv_def jobs_ok_def job_held_def)
qed

text \<open>A successful reconciliation at start-up leaves no job running: the rows that read
  running read failed with the interruption as their detail, and every other row is as it was.\<close>

theorem Reconcile_fails_running:
  assumes "Reconcile now w = (Inr (), t)"
  shows "(\<forall>x\<in>set (rows (db_jobs t)). dj_status x \<noteq> DBJobRunning) \<and>
    map dj_id (rows (db_jobs t)) = map dj_id (rows (db_jobs w)) \<and>
    (\<forall>x\<in>set (rows (db_jobs w)).
       (if dj_status x = DBJobRunning
        then x\<lparr>dj_status := DBJobFailed, dj_detail := ''interrupted by restart'', dj_finished := Some now\<rparr>
        else x) \<in> set (rows (db_jobs t)))"
proof -
  have t: "rows (db_jobs t) = map_where (\<lambda>r. dj_status r = DBJobRunning)
      (\<lambda>r. r\<lparr>dj_status := DBJobFailed, dj_detail := ''interrupted by restart'', dj_finished := Some now\<rparr>)
      (rows (db_jobs w))"
    using assms
    by (auto simp: Reconcile_def jobs_FailRunning_def run_defs split: list.splits if_splits)
  show ?thesis unfolding t by (auto simp: map_where_def)
qed

section \<open>Names stay in the directory\<close>

lemma suffixed_name:
  "has_suffix s p \<and> length p < length s \<and> list_all P s \<longleftrightarrow>
    (\<exists>stem. s = stem @ p \<and> stem \<noteq> [] \<and> list_all P stem \<and> list_all P p)"
  unfolding has_suffix_iff by auto

lemma backup_name_iff:
  "backup_name s \<longleftrightarrow> (\<exists>stem. s = stem @ ''.dump'' \<and> stem \<noteq> [] \<and> list_all name_char stem)"
proof -
  have "list_all name_char ''.dump''" by code_simp
  moreover have "length ''.dump'' = 5" by simp
  ultimately show ?thesis
    using suffixed_name [of s "''.dump''" name_char] unfolding backup_name_def by presburger
qed

lemma sanitize_name_char: "list_all name_char (sanitize_from b s)"
  by (induction s arbitrary: b) (auto simp: name_char_def [of "CHR ''_''"])

lemma stamp_name_char: "stamp_char c \<Longrightarrow> name_char c"
  by (auto simp: stamp_char_def name_char_def is_upper_def)

lemma stamp_names: "list_all name_char (compact_stamp moment)"
  using compact_stamp_chars [of moment] by (auto simp: list_all_iff stamp_name_char)

lemma generated_name_ok:
  assumes "list_all name_char sep"
  shows "backup_name (sanitizeName db @ sep @ compact_stamp moment @ ''.dump'')"
  unfolding backup_name_iff sanitizeName_def
  by (rule exI [of _ "sanitize_from False db @ sep @ compact_stamp moment"])
    (simp add: assms stamp_names sanitize_name_char compact_stamp_nonempty)

text \<open>A name that passes the validation is a plain file name of the backup directory: it
  has no path separator and no zero byte and is neither empty nor a dot name.  The names the
  service makes itself, for backups and for the safety copies of a restore, always pass, whatever
  the database is called.\<close>

theorem backup_names_safe:
  "(validateBackupName name = Inr () \<longrightarrow>
      CHR ''/'' \<notin> set name \<and> CHR 0x00 \<notin> set name \<and> name \<notin> {[], ''.'', ''..''} \<and>
      (\<exists>stem. stem \<noteq> [] \<and> name = stem @ ''.dump'')) \<and>
   validateBackupName (backupFileName db moment) = Inr () \<and>
   validateBackupName (safetyFileName db moment) = Inr ()"
proof -
  have "CHR ''/'' \<notin> set name \<and> CHR 0x00 \<notin> set name \<and> name \<notin> {[], ''.'', ''..''} \<and>
      (\<exists>stem. stem \<noteq> [] \<and> name = stem @ ''.dump'')" if "backup_name name"
  proof -
    have bad: "\<not> name_char (CHR ''/'')" "\<not> name_char (CHR 0x00)" by code_simp+
    from that have "list_all name_char name" "5 < length name" by (simp_all add: backup_name_def)
    then have "CHR ''/'' \<notin> set name" "CHR 0x00 \<notin> set name" "name \<notin> {[], ''.'', ''..''}"
      using bad by (blast dest: list_all_iff [THEN iffD1], blast dest: list_all_iff [THEN iffD1], force)
    then show ?thesis using that backup_name_iff by blast
  qed
  moreover have "backup_name (backupFileName db moment)"
    unfolding backupFileName_def
    by (rule generated_name_ok) code_simp
  moreover have "backup_name (safetyFileName db moment)"
    unfolding safetyFileName_def
    by (rule generated_name_ok) code_simp
  ultimately show ?thesis by (auto simp: validateBackupName_def split: if_splits)
qed

end
