(* ===== verification/Backup_Laws.thy ===== *)
theory Backup_Laws
  imports Db_Jobs_Laws
begin

text \<open>
  What happens to the backup directory: the order of the listing, what a trim removes, the
  checksum sidecars, and the commands and the safety copy of a restore.
\<close>

section \<open>The listing\<close>

lemma insort_key_map: "insort_key k (g x) (map g xs) = map g (insort_key (\<lambda>a. k (g a)) x xs)"
  by (induction xs) auto

lemma sort_key_map: "sort_key k (map g xs) = map g (sort_key (\<lambda>a. k (g a)) xs)"
  by (induction xs) (simp_all add: insort_key_map)

lemma insort_key_before: "k y < k f \<Longrightarrow> insort_key k y (zs @ [f]) = insort_key k y zs @ [f]"
  by (induction zs) auto

lemma sort_key_snoc: "\<forall>y\<in>set ys. k y < k f \<Longrightarrow> sort_key k (ys @ [f]) = sort_key k ys @ [f]"
  by (induction ys) (simp_all add: insort_key_before)

lemma filter_not_dropped:
  assumes "distinct (map k xs)"
  shows "filter (\<lambda>x. k x \<notin> set (map k (drop n xs))) xs = take n xs"
proof -
  have "set (map k (take n xs)) \<inter> set (map k (drop n xs)) = {}"
    using assms by (metis append_take_drop_id distinct_append map_append)
  then have "filter (\<lambda>x. k x \<notin> set (map k (drop n xs))) (take n xs) = take n xs"
    by (auto simp: filter_id_conv)
  moreover have "filter (\<lambda>x. k x \<notin> set (map k (drop n xs))) (drop n xs) = []"
    by (auto simp: filter_empty_conv)
  ultimately have "filter (\<lambda>x. k x \<notin> set (map k (drop n xs))) (take n xs @ drop n xs) = take n xs"
    unfolding filter_append by simp
  then show ?thesis by simp
qed

definition is_backup :: "bfile \<Rightarrow> bool" where
  "is_backup f = (\<not> bf_dir f \<and> backup_name (bf_name f))"

definition file_key :: "bfile \<Rightarrow> int \<times> gostring" where
  "file_key f = (bf_mtime f, bf_name f)"

text \<open>The backups, newest first.\<close>

definition ordered_files :: "'z db_world_scheme \<Rightarrow> bfile list" where
  "ordered_files w = rev (sort_key file_key (filter is_backup (entries w)))"

definition dir_ok :: "'z db_world_scheme \<Rightarrow> bool" where
  "dir_ok w = distinct (map bf_name (entries w))"

lemma backup_listing_files: "backup_listing w = map (info_of w) (ordered_files w)"
proof -
  have "(\<lambda>f. (bi_created (info_of w f), bi_name (info_of w f))) = file_key"
    by (auto simp: info_of_def file_key_def)
  moreover have "(\<lambda>f. \<not> bf_dir f \<and> backup_name (bf_name f)) = is_backup"
    by (auto simp: is_backup_def)
  ultimately show ?thesis
    by (simp add: backup_listing_def ordered_files_def sort_key_map rev_map)
qed

lemma bi_name_info [simp]: "bi_name (info_of w f) = bf_name f"
  by (simp add: info_of_def)

lemma listing_names: "map bi_name (backup_listing w) = map bf_name (ordered_files w)"
  by (simp add: backup_listing_files)

lemma set_ordered_files: "set (ordered_files w) = {f \<in> set (entries w). is_backup f}"
  by (auto simp: ordered_files_def)

lemma ordered_distinct: "dir_ok w \<Longrightarrow> distinct (map bf_name (ordered_files w))"
  by (simp add: dir_ok_def ordered_files_def rev_map distinct_map inj_on_def)

lemma ordered_filter:
  "entries t = filter P (entries w) \<Longrightarrow> ordered_files t = filter P (ordered_files w)"
proof -
  assume "entries t = filter P (entries w)"
  moreover have "filter is_backup (filter P xs) = filter P (filter is_backup xs)" for xs
    by (induction xs) auto
  ultimately show ?thesis by (simp add: ordered_files_def filter_sort rev_filter [symmetric])
qed

lemma last_suffix: "s @ p = t @ q \<Longrightarrow> p \<noteq> [] \<Longrightarrow> q \<noteq> [] \<Longrightarrow> last p = last q"
  by (metis last_appendR)

lemma sidecar_not_backup: "\<not> backup_name (n @ shaSuffix)"
proof
  assume "backup_name (n @ shaSuffix)"
  then obtain stem where "n @ shaSuffix = stem @ ''.dump''"
    unfolding backup_name_iff by blast
  then have "last shaSuffix = last ''.dump''" by (rule last_suffix) simp_all
  then show False by simp
qed

section \<open>Removing\<close>

lemma file_of_None: "file_of n w = None \<longleftrightarrow> n \<notin> bf_name ` set (entries w)"
  by (auto simp: file_of_def)

lemma entries_simps [simp]:
  "entries (w\<lparr>faults := fs\<rparr>) = entries w"
  "entries (w\<lparr>commands := cs\<rparr>) = entries w"
  "entries (mkdir w) = entries w"
  "entries (put_file f w) = filter (\<lambda>g. bf_name g \<noteq> bf_name f) (entries w) @ [f]"
  "entries (del_file n w) = filter (\<lambda>g. bf_name g \<noteq> n) (entries w)"
  by (simp_all add: entries_def mkdir_def put_file_def del_file_def split: option.split)

lemma file_of_simps [simp]:
  "file_of n (w\<lparr>faults := fs\<rparr>) = file_of n w"
  "file_of n (w\<lparr>commands := cs\<rparr>) = file_of n w"
  "file_of n (mkdir w) = file_of n w"
  by (simp_all add: file_of_def)

lemma first_where_others:
  "n \<noteq> m \<Longrightarrow> first_where (\<lambda>g. bf_name g = n) (filter (\<lambda>g. bf_name g \<noteq> m) gs) =
    first_where (\<lambda>g. bf_name g = n) gs"
  by (induction gs) auto

lemma file_of_del [simp]: "file_of n (del_file m w) = (if n = m then None else file_of n w)"
  by (simp add: file_of_def first_where_others)

lemma file_of_put [simp]: "file_of n (put_file f w) = (if n = bf_name f then Some f else file_of n w)"
proof (cases "n = bf_name f")
  case True
  have "first_where (\<lambda>g. bf_name g = n) (filter (\<lambda>g. bf_name g \<noteq> bf_name f) (entries w)) = None"
    using True by simp
  then show ?thesis using True by (simp add: file_of_def first_where_append del: first_where_None)
next
  case False
  then show ?thesis
    by (simp add: file_of_def first_where_append first_where_others del: first_where_None split: option.split)
qed

lemma info_of_faults [simp]: "info_of (w\<lparr>faults := fs\<rparr>) = info_of w"
  by (simp add: info_of_def fun_eq_iff)

text \<open>Outside the names \<open>X\<close> the directory is as it was.\<close>

definition files_kept :: "gostring set \<Rightarrow> 'z db_world_scheme \<Rightarrow> 'z db_world_scheme \<Rightarrow> bool" where
  "files_kept X w t = (\<forall>n. n \<notin> X \<longrightarrow> file_of n t = file_of n w)"

interpretation files_kept: db_invariant "files_kept X w"
  by unfold_locales (simp add: files_kept_def)

lemmas kept_frame = keeps_rules files_kept.keeps_stmt

lemma open_file_kept: "keeps (files_kept X w) (open_file msg name)"
  unfolding open_file_def by (intro kept_frame)

lemma remove_file_kept: "name \<in> X \<Longrightarrow> keeps (files_kept X w) (remove_file name)"
  unfolding remove_file_def
  by (intro kept_frame open_file_kept) (auto simp: files_kept_def)

definition dropped_names :: "database \<Rightarrow> 'z db_world_scheme \<Rightarrow> gostring set" where
  "dropped_names db w =
    (let ns = set (map bf_name (drop (nat (dbc_keep db)) (ordered_files w)))
     in ns \<union> (\<lambda>n. n @ shaSuffix) ` ns)"

lemma trim_one_kept:
  "{bi_name b, bi_name b @ shaSuffix} \<subseteq> X \<Longrightarrow> keeps (files_kept X w) (trim_one b)"
  unfolding trim_one_def
  by (intro kept_frame remove_file_kept)
    (auto intro!: kept_frame remove_file_kept split: sum.split)

lemma Backups_wp:
  "wp Backups (\<lambda>r t. only_oracle w t \<and> (\<forall>bs. r = Inr bs \<longrightarrow> bs = backup_listing w)) w"
proof -
  have l: "backup_listing (w\<lparr>faults := fs\<rparr>) = backup_listing w" for fs
    by (simp add: backup_listing_def)
  have "bdir w = None \<Longrightarrow> backup_listing w = []" by (simp add: backup_listing_def entries_def)
  then show ?thesis
    by (auto simp: Backups_def wp_rules wp_stmt l split: option.split list.split)
qed

lemma trimBackups_kept:
  "wp (trimBackups db) (\<lambda>r. files_kept (dropped_names db w) w) w"
proof -
  have "keeps (files_kept (dropped_names db w) w)
      (for_each trim_one (drop (nat (dbc_keep db)) (backup_listing w)))"
    by (intro keeps_for_each trim_one_kept)
      (auto simp: backup_listing_files drop_map dropped_names_def Let_def)
  then have each: "files_kept (dropped_names db w) w t \<Longrightarrow>
      wp (for_each trim_one (drop (nat (dbc_keep db)) (backup_listing w)))
        (\<lambda>r. files_kept (dropped_names db w) w) t" for t
    by (simp add: keeps_wp)
  have same: "only_oracle w t \<Longrightarrow> files_kept X w t" for X t
    by (auto simp: only_oracle_ex files_kept_def)
  have listed: "wp Backups (onE (\<lambda>e t. only_oracle w t) (\<lambda>bs t. only_oracle w t \<and> bs = backup_listing w)) w"
    by (rule wp_mono [OF Backups_wp]) (simp add: onE_def split: sum.split)
  show ?thesis
    unfolding trimBackups_def
  proof (rule wp_bind [OF listed])
    fix e t assume "only_oracle w t"
    then show "files_kept (dropped_names db w) w t" by (rule same)
  next
    fix bs t assume "only_oracle w t \<and> bs = backup_listing w"
    then show "wp (for_each trim_one (drop (nat (dbc_keep db)) bs)) (\<lambda>r. files_kept (dropped_names db w) w) t"
      using each [OF same] by simp
  qed
qed

section \<open>A trim that meets no fault\<close>

definition drop_backup :: "gostring \<Rightarrow> 'z db_world_scheme \<Rightarrow> 'z db_world_scheme" where
  "drop_backup n w = del_file (n @ shaSuffix) (del_file n w)"

lemma open_file_run:
  "faults w = [] \<Longrightarrow> open_file msg n w =
    (case file_of n w of None \<Rightarrow> (Inl (ErrOther msg), w) | Some f \<Rightarrow> (Inr f, w))"
  by (simp add: open_file_def run_defs split: option.split)

lemma remove_file_run:
  "faults w = [] \<Longrightarrow> remove_file n w =
    (if file_of n w = None then (Inl (ErrOther ''removing a file''), w) else (Inr (), del_file n w))"
  by (auto simp: remove_file_def bindE_def open_file_run modify_def split: option.split)

lemma faults_files [simp]:
  "faults (del_file n w) = faults w" "faults (put_file f w) = faults w" "faults (mkdir w) = faults w"
  "faults (drop_backup n w) = faults w"
  by (simp_all add: del_file_def put_file_def mkdir_def drop_backup_def)

lemma del_absent: "file_of n w = None \<Longrightarrow> del_file n w = w"
proof -
  assume "file_of n w = None"
  then have "filter (\<lambda>g. bf_name g \<noteq> n) fs = fs" if "bdir w = Some fs" for fs
    using that by (auto simp: file_of_None entries_def filter_id_conv)
  then show ?thesis by (cases "bdir w") (simp_all add: del_file_def)
qed

lemma trim_one_run:
  assumes "faults w = []" "file_of (bi_name b) w \<noteq> None"
  shows "trim_one b w = (Inr (), drop_backup (bi_name b) w)"
proof -
  have "del_file (bi_name b @ shaSuffix) (del_file (bi_name b) w) = del_file (bi_name b) w"
    if "file_of (bi_name b @ shaSuffix) (del_file (bi_name b) w) = None"
    by (rule del_absent [OF that])
  moreover have "remove_file (bi_name b) w = (Inr (), del_file (bi_name b) w)"
    using assms by (simp add: remove_file_run)
  ultimately show ?thesis using assms(1)
    by (simp add: trim_one_def bindE_def andthen_def attempt_def ret_def remove_file_run drop_backup_def
        del: file_of_del)
qed

lemma trims_run:
  assumes "faults w = []" "distinct (map bi_name bs)"
    and "\<forall>b\<in>set bs. file_of (bi_name b) w \<noteq> None \<and> backup_name (bi_name b)"
  shows "for_each trim_one bs w = (Inr (), fold (\<lambda>b. drop_backup (bi_name b)) bs w)"
  using assms
proof (induction bs arbitrary: w)
  case Nil
  then show ?case by (simp add: ret_def)
next
  case (Cons b bs)
  have "file_of (bi_name c) (drop_backup (bi_name b) w) \<noteq> None" if "c \<in> set bs" for c
  proof -
    have "bi_name c \<in> bi_name ` set bs" using that by (rule imageI)
    then have "bi_name c \<noteq> bi_name b" using Cons.prems(2) by auto
    moreover have "bi_name c \<noteq> bi_name b @ shaSuffix"
      using Cons.prems(3) that sidecar_not_backup [of "bi_name b"] by auto
    ultimately show ?thesis using Cons.prems(3) that by (simp add: drop_backup_def)
  qed
  then have "for_each trim_one bs (drop_backup (bi_name b) w) =
      (Inr (), fold (\<lambda>b. drop_backup (bi_name b)) bs (drop_backup (bi_name b) w))"
    using Cons.prems by (intro Cons.IH) auto
  then show ?case
    using trim_one_run [of w b] Cons.prems by (simp add: andthen_def bindE_def)
qed

lemma entries_drops:
  "entries (fold (\<lambda>b. drop_backup (bi_name b)) bs w) =
    filter (\<lambda>f. bf_name f \<notin> bi_name ` set bs \<union> (\<lambda>n. n @ shaSuffix) ` bi_name ` set bs) (entries w)"
  by (induction bs arbitrary: w) (auto simp: drop_backup_def intro!: filter_cong)

lemma faults_drops: "faults (fold (\<lambda>b. drop_backup (bi_name b)) bs w) = faults w"
  by (induction bs arbitrary: w) simp_all

lemma trimBackups_run:
  assumes "faults w = []" "dir_ok w"
  shows "\<exists>t. trimBackups db w = (Inr (), t) \<and> faults t = [] \<and>
    entries t = filter (\<lambda>f. bf_name f \<notin> dropped_names db w) (entries w) \<and>
    ordered_files t = take (nat (dbc_keep db)) (ordered_files w)"
proof -
  let ?bs = "drop (nat (dbc_keep db)) (backup_listing w)"
  let ?t = "fold (\<lambda>b. drop_backup (bi_name b)) ?bs w"
  have names: "map bi_name ?bs = map bf_name (drop (nat (dbc_keep db)) (ordered_files w))"
    by (simp add: backup_listing_files drop_map)
  have in_dir: "\<forall>b\<in>set ?bs. file_of (bi_name b) w \<noteq> None \<and> backup_name (bi_name b)"
    using set_ordered_files [of w]
    by (auto simp: backup_listing_files drop_map file_of_None is_backup_def dest!: in_set_dropD)
  have "distinct (map bi_name ?bs)"
    unfolding names using ordered_distinct [OF assms(2)] by (simp add: drop_map [symmetric])
  then have "for_each trim_one ?bs w = (Inr (), ?t)"
    by (rule trims_run [OF assms(1) _ in_dir])
  moreover have "Backups w = (Inr (backup_listing w), w)"
    using assms(1)
    by (cases "bdir w") (simp_all add: Backups_def run_defs backup_listing_def entries_def)
  ultimately have run: "trimBackups db w = (Inr (), ?t)"
    by (simp add: trimBackups_def bindE_def)
  have set_names: "bi_name ` set ?bs = set (map bf_name (drop (nat (dbc_keep db)) (ordered_files w)))"
    using names by (metis list.set_map)
  have ent: "entries ?t = filter (\<lambda>f. bf_name f \<notin> dropped_names db w) (entries w)"
    unfolding entries_drops set_names dropped_names_def Let_def ..
  have "ordered_files ?t = filter (\<lambda>f. bf_name f \<notin> dropped_names db w) (ordered_files w)"
    by (rule ordered_filter [OF ent])
  also have "\<dots> = filter (\<lambda>f. bf_name f \<notin> set (map bf_name (drop (nat (dbc_keep db)) (ordered_files w))))
      (ordered_files w)"
    using sidecar_not_backup
    by (intro filter_cong) (auto simp: set_ordered_files is_backup_def dropped_names_def Let_def)
  also have "\<dots> = take (nat (dbc_keep db)) (ordered_files w)"
    by (rule filter_not_dropped [OF ordered_distinct [OF assms(2)]])
  finally have "ordered_files ?t = take (nat (dbc_keep db)) (ordered_files w)" .
  moreover have "faults ?t = []"
    using assms(1) by (simp add: faults_drops)
  ultimately show ?thesis using run ent by blast
qed

text \<open>A trim touches nothing but backups older than the newest \<open>keep\<close> and their
  sidecars, whatever fails; when nothing fails it leaves exactly the newest \<open>keep\<close> backups, in the
  order of the listing.\<close>

theorem trim_keeps_newest:
  assumes "dir_ok w"
  shows "(\<forall>n. n \<notin> dropped_names db w \<longrightarrow> file_of n (snd (trimBackups db w)) = file_of n w) \<and>
    (faults w = [] \<longrightarrow> fst (trimBackups db w) = Inr () \<and>
       map bi_name (backup_listing (snd (trimBackups db w))) =
       take (nat (dbc_keep db)) (map bi_name (backup_listing w)))"
proof -
  have "files_kept (dropped_names db w) w (snd (trimBackups db w))"
    using trimBackups_kept [of db w] by (simp add: wp_def case_prod_beta)
  moreover have "fst (trimBackups db w) = Inr () \<and>
       map bi_name (backup_listing (snd (trimBackups db w))) =
       take (nat (dbc_keep db)) (map bi_name (backup_listing w))" if "faults w = []"
    using trimBackups_run [OF that assms, of db] by (auto simp: listing_names take_map)
  ultimately show ?thesis by (simp add: files_kept_def)
qed

section \<open>Checksums\<close>

lemma hex_plain: "is_hex c \<Longrightarrow> plain c"
  by (auto simp: is_hex_def is_digit_def plain_def)

lemma trim_space_hex: "list_all is_hex s \<Longrightarrow> trim_space s = s"
  by (rule trim_space_plain) (auto simp: list_all_iff hex_plain)

lemma first_word_sidecar: "first_word (sidecar_text name content) = sha256_hex content"
proof -
  have "\<not> is_hex (CHR '' '')" by code_simp
  then have "CHR '' '' \<notin> set (sha256_hex content)"
    using sha256_hex_is_hex [of content] by (auto simp: list_all_iff)
  then show ?thesis
    using cut_char_append [of "CHR '' ''" "sha256_hex content" "CHR '' '' # name @ [newline]"]
    by (simp add: first_word_def sidecar_text_def)
qed

lemma check_run:
  assumes "faults t = []" "file_of (name @ shaSuffix) t = Some sf" "\<not> bf_dir sf"
    and "bf_data sf = sidecar_text name content" "file_of name t = Some g" "\<not> bf_dir g"
  shows "checkSHA256 name t = (Inr (sha256_hex (bf_data g) = sha256_hex content), t)"
  using assms
  by (simp add: checkSHA256_def hash_file_def open_file_run run_defs first_word_sidecar
      trim_space_hex sha256_hex_is_hex)

text \<open>The check of a backup accepts it right after its checksum was written, and after the
  file was replaced by another accepts it exactly when the digests agree.\<close>

theorem checksum_roundtrip:
  assumes "writeSHA256 name moment w = (Inr (), t)" "faults t = []"
  shows "\<exists>f. file_of name w = Some f \<and> checkSHA256 name t = (Inr True, t) \<and>
    (\<forall>g. bf_name g = name \<and> \<not> bf_dir g \<longrightarrow>
      checkSHA256 name (put_file g t) = (Inr (sha256_hex (bf_data g) = sha256_hex (bf_data f)), put_file g t))"
proof -
  obtain f where f: "file_of name w = Some f" "\<not> bf_dir f"
    and t: "file_of (name @ shaSuffix) t = Some \<lparr>bf_name = name @ shaSuffix, bf_dir = False,
        bf_data = sidecar_text name (bf_data f), bf_mtime = moment\<rparr>" "file_of name t = Some f"
    using assms(1)
    by (auto simp: writeSHA256_def hash_file_def open_file_def returned dest!: returned_stmt)
  have "checkSHA256 name t = (Inr True, t)"
    by (subst check_run [OF assms(2) t(1) _ _ t(2) f(2)]) simp_all
  moreover have "checkSHA256 name (put_file g t) =
      (Inr (sha256_hex (bf_data g) = sha256_hex (bf_data f)), put_file g t)"
    if "bf_name g = name" "\<not> bf_dir g" for g
    by (rule check_run [where sf = "\<lparr>bf_name = name @ shaSuffix, bf_dir = False,
        bf_data = sidecar_text name (bf_data f), bf_mtime = moment\<rparr>"]) (use assms(2) t that in auto)
  ultimately show ?thesis using f by blast
qed

section \<open>The commands and the file of a backup\<close>

definition cmds_are :: "command list \<Rightarrow> 'z db_world_scheme \<Rightarrow> bool" where
  "cmds_are cs w = (commands w = cs)"

interpretation cmds_are: db_invariant "cmds_are cs"
  by unfold_locales (simp add: cmds_are_def)

lemma cmds_are_updates [simp]:
  "cmds_are cs (put_file f w) = cmds_are cs w" "cmds_are cs (del_file n w) = cmds_are cs w"
  "cmds_are cs (mkdir w) = cmds_are cs w"
  by (simp_all add: cmds_are_def put_file_def del_file_def mkdir_def)

lemmas cmds_frame = keeps_rules cmds_are.keeps_stmt

lemma open_file_cmds: "keeps (cmds_are cs) (open_file msg name)"
  unfolding open_file_def by (intro cmds_frame)

lemma remove_file_cmds: "keeps (cmds_are cs) (remove_file name)"
  unfolding remove_file_def by (intro cmds_frame open_file_cmds) simp

lemma trimBackups_cmds: "keeps (cmds_are cs) (trimBackups db)"
  unfolding trimBackups_def trim_one_def Backups_def
  by (intro cmds_frame remove_file_cmds)
    (auto intro!: cmds_frame remove_file_cmds split: sum.split option.split)

lemma writeSHA256_cmds: "keeps (cmds_are cs) (writeSHA256 name moment)"
  unfolding writeSHA256_def hash_file_def by (intro cmds_frame open_file_cmds) simp

definition dumped :: "database \<Rightarrow> job_obs \<Rightarrow> gostring \<Rightarrow> command list \<Rightarrow> bfile" where
  "dumped db obs name cs =
    \<lparr>bf_name = name, bf_dir = False, bf_data = fst (dbc_run db cs (dump_args db, [])),
     bf_mtime = jo_dump_mtime obs\<rparr>"

text \<open>After a dump: the command ran and succeeded, and its output is the one new backup.\<close>

definition fresh_dump :: "database \<Rightarrow> job_obs \<Rightarrow> gostring \<Rightarrow> 'z db_world_scheme \<Rightarrow> 'z db_world_scheme \<Rightarrow> bool" where
  "fresh_dump db obs name w u \<longleftrightarrow>
    commands u = commands w @ [(dump_args db, [])] \<and>
    snd (dbc_run db (commands w) (dump_args db, [])) = None \<and>
    file_of name w = None \<and> file_of name u = Some (dumped db obs name (commands w)) \<and>
    filter is_backup (entries u) = filter is_backup (entries w) @ [dumped db obs name (commands w)]"

lemma fresh_dump_oracle: "fresh_dump db obs name w (u\<lparr>faults := fs\<rparr>) = fresh_dump db obs name w u"
  by (simp add: fresh_dump_def)

lemma create_file_wp:
  "wp (create_file name moment)
    (onE (\<lambda>e t. commands t = commands w)
      (\<lambda>_ t. commands t = commands w \<and> file_of name w = None \<and>
        entries t = filter (\<lambda>g. bf_name g \<noteq> name) (entries w) @
          [\<lparr>bf_name = name, bf_dir = False, bf_data = [], bf_mtime = moment\<rparr>])) w"
  by (auto simp: create_file_def wp_rules wp_stmt put_file_def entries_def split: list.split)

lemma writeSHA256_wp:
  "wp (writeSHA256 name moment)
    (onE (\<lambda>e t. commands t = commands w)
      (\<lambda>_ t. commands t = commands w \<and> file_of name t = file_of name w \<and>
        filter is_backup (entries t) = filter is_backup (entries w))) w"
proof -
  have n: "\<not> is_backup \<lparr>bf_name = name @ shaSuffix, bf_dir = False, bf_data = d, bf_mtime = moment\<rparr>" for d
    by (simp add: is_backup_def sidecar_not_backup)
  have f: "filter (\<lambda>g. bf_name g \<noteq> name @ shaSuffix \<and> is_backup g) gs = filter is_backup gs" for gs
    by (rule filter_cong) (auto simp: is_backup_def sidecar_not_backup)
  have "commands (put_file f u) = commands u" for f and u :: "'a db_world_scheme"
    by (simp add: put_file_def)
  then show ?thesis
    by (simp add: writeSHA256_def hash_file_def open_file_def wp_rules wp_stmt n f split: list.split option.split)
qed

lemma filter_no_name:
  assumes "file_of name w = None"
  shows "filter (\<lambda>g. bf_name g \<noteq> name) (entries w) = entries w"
proof -
  have "bf_name g \<noteq> name" if "g \<in> set (entries w)" for g
    using assms that by (force simp: file_of_None)
  then show ?thesis by (auto simp: filter_id_conv)
qed

definition dump_written :: "database \<Rightarrow> job_obs \<Rightarrow> gostring \<Rightarrow> 'z db_world_scheme \<Rightarrow> 'z db_world_scheme \<Rightarrow> bool" where
  "dump_written db obs name w u \<longleftrightarrow>
    commands u = commands w @ [(dump_args db, [])] \<and> file_of name w = None \<and>
    entries u = entries w @ [dumped db obs name (commands w)]"

lemma dump_postgres_wp:
  assumes v: "commands v = commands w" "file_of name w = None"
    "entries v = entries w @ [\<lparr>bf_name = name, bf_dir = False, bf_data = [], bf_mtime = moment\<rparr>]"
    and moment: "moment = jo_dump_mtime obs"
  shows "wp (dump_postgres db name moment)
    (onE (\<lambda>e t. commands t = commands w @ [(dump_args db, [])])
      (\<lambda>_ t. dump_written db obs name w t \<and> snd (dbc_run db (commands w) (dump_args db, [])) = None)) v"
proof -
  obtain out failed where r: "dbc_run db (commands w) (dump_args db, []) = (out, failed)" by fastforce
  have "commands (put_file f u) = commands u" for f and u :: "'a db_world_scheme"
    by (simp add: put_file_def)
  then show ?thesis
    using v r filter_no_name [OF v(2)]
    by (simp add: dump_postgres_def run_command_def wp_rules dump_written_def dumped_def moment split: option.split)
qed

lemma dump_written_oracle: "only_oracle u v \<Longrightarrow> dump_written db obs name w u \<Longrightarrow> dump_written db obs name w v"
  by (auto simp: only_oracle_ex dump_written_def)

lemma wp_stmt_oracle: "wp (stmt e) (onE (\<lambda>e t. only_oracle w t) (\<lambda>_ t. only_oracle w t)) w"
  by (rule wp_stmt_all) (simp_all add: onE_def)

lemma wp_or_remove:
  assumes "wp m (onE (\<lambda>e t. commands t = cs) P) w"
  shows "wp (or_remove name m) (onE (\<lambda>e t. commands t = cs) P) w"
proof -
  have rem: "wp (andthen (attempt (remove_file name)) (throw e)) (onE (\<lambda>e t. commands t = cs) P) t"
    if "commands t = cs" for e t
  proof -
    have "cmds_are cs t" using that by (simp add: cmds_are_def)
    then have "wp (remove_file name) (\<lambda>r. cmds_are cs) t"
      by (rule remove_file_cmds [unfolded keeps_wp, rule_format])
    then show ?thesis
      unfolding wp_andthen wp_attempt
      by (rule wp_mono) (simp add: cmds_are_def wp_throw onE_def)
  qed
  show ?thesis
    unfolding or_remove_def wp_bindE wp_attempt
    by (rule wp_mono [OF assms]) (auto simp: onE_def wp_ret rem split: sum.splits)
qed

lemma dump_and_sum_wp:
  assumes v: "commands v = commands w" "file_of name w = None"
    "entries v = entries w @ [\<lparr>bf_name = name, bf_dir = False, bf_data = [], bf_mtime = jo_dump_mtime obs\<rparr>]"
    and name: "backup_name name"
  shows "wp (or_remove name
       (andthen (dump_postgres db name (jo_dump_mtime obs))
       (andthen (stmt (ErrOther ''closing backup file'')) (writeSHA256 name (jo_sum_mtime obs)))))
    (onE (\<lambda>e t. commands t = commands w @ [(dump_args db, [])]) (\<lambda>_ t. fresh_dump db obs name w t)) v"
proof (rule wp_or_remove, rule wp_then [OF dump_postgres_wp [OF v refl]])
  fix a t
  assume d: "dump_written db obs name w t \<and> snd (dbc_run db (commands w) (dump_args db, [])) = None"
  then have c: "commands t = commands w @ [(dump_args db, [])]" by (simp add: dump_written_def)
  show "wp (andthen (stmt (ErrOther ''closing backup file'')) (writeSHA256 name (jo_sum_mtime obs)))
    (onE (\<lambda>e t. commands t = commands w @ [(dump_args db, [])]) (\<lambda>_ t. fresh_dump db obs name w t)) t"
  proof (rule wp_then [OF wp_stmt_oracle])
    fix a u assume u: "only_oracle t u"
    from dump_written_oracle [OF u] d have d': "dump_written db obs name w u" by blast
    have b: "is_backup (dumped db obs name (commands w))" using name by (simp add: is_backup_def dumped_def)
    have "file_of name u = Some (dumped db obs name (commands w))"
      using d' by (auto simp: dump_written_def file_of_def first_where_append dumped_def
          split: option.split dest!: first_where_SomeD)
    then show "wp (writeSHA256 name (jo_sum_mtime obs))
      (onE (\<lambda>e t. commands t = commands w @ [(dump_args db, [])]) (\<lambda>_ t. fresh_dump db obs name w t)) u"
      using d d' b
      by (intro wp_mono [OF writeSHA256_wp])
        (auto simp: onE_def fresh_dump_def dump_written_def split: sum.splits)
  qed (use c in \<open>auto simp: only_oracle_ex\<close>)
qed simp

definition backup_post :: "database \<Rightarrow> job_obs \<Rightarrow> gostring \<Rightarrow> 'z db_world_scheme \<Rightarrow> 'z db_world_scheme \<Rightarrow> bool" where
  "backup_post db obs name w t \<longleftrightarrow>
    (\<exists>u. fresh_dump db obs name w u \<and> commands t = commands u \<and> files_kept (dropped_names db u) u t)"

definition dump_ran :: "database \<Rightarrow> 'z db_world_scheme \<Rightarrow> 'z db_world_scheme \<Rightarrow> bool" where
  "dump_ran db w t = (commands t \<in> {commands w, commands w @ [(dump_args db, [])]})"

lemma trim_after_dump:
  assumes "fresh_dump db obs name w v"
  shows "wp (trimBackups db) (onE (\<lambda>e t. dump_ran db w t) (\<lambda>_ t. backup_post db obs name w t)) v"
proof -
  have "cmds_are (commands v) v" by (simp add: cmds_are_def)
  then have "wp (trimBackups db) (\<lambda>r. cmds_are (commands v)) v"
    by (rule trimBackups_cmds [unfolded keeps_wp, rule_format])
  from wp_conj [OF this trimBackups_kept [of db v]] show ?thesis
    by (rule wp_mono)
      (use assms in \<open>auto simp: onE_def dump_ran_def backup_post_def cmds_are_def fresh_dump_def split: sum.split\<close>)
qed

lemma open_file_wp: "wp (open_file msg name)
  (onE (\<lambda>e t. only_oracle w t) (\<lambda>f t. only_oracle w t \<and> file_of name w = Some f)) w"
  by (auto simp: open_file_def wp_rules wp_stmt only_oracle_ex split: list.split option.split)
    (metis sqldb.surjective sqldb.update_convs(1))+

lemma runBackup_wp:
  fixes w :: "'z db_world_scheme"
  assumes "backup_name name"
  shows "wp (runBackup db obs name)
    (onE (\<lambda>e t. dump_ran db w t) (\<lambda>_ t. backup_post db obs name w t)) w"
  unfolding runBackup_def
proof (rule wp_then [OF wp_stmt_oracle])
  fix a v assume v: "only_oracle w v"
  let ?rest = "bindE (open_file ''statting backup file'' name) (\<lambda>f.
     andthen (trimBackups db) (ret (name @ '' ('' @ itoa (int (length (bf_data f))) @ '' bytes)'')))"
  have tail: "wp ?rest (onE (\<lambda>e t. dump_ran db w t) (\<lambda>_ t. backup_post db obs name w t)) t"
    if "fresh_dump db obs name w t" for t
  proof (rule wp_bind [OF open_file_wp])
    fix f u assume "only_oracle t u \<and> file_of name t = Some f"
    then have "fresh_dump db obs name w u" using that by (auto simp: only_oracle_ex fresh_dump_oracle)
    from trim_after_dump [OF this]
    show "wp (andthen (trimBackups db) (ret (name @ '' ('' @ itoa (int (length (bf_data f))) @ '' bytes)'')))
      (onE (\<lambda>e t. dump_ran db w t) (\<lambda>_ t. backup_post db obs name w t)) u"
      by (rule wp_then) (simp_all add: wp_ret)
  qed (use that in \<open>auto simp: only_oracle_ex dump_ran_def fresh_dump_def\<close>)
  have rest: "wp (andthen (or_remove name
       (andthen (dump_postgres db name (jo_dump_mtime obs))
       (andthen (stmt (ErrOther ''closing backup file'')) (writeSHA256 name (jo_sum_mtime obs))))) ?rest)
    (onE (\<lambda>e t. dump_ran db w t) (\<lambda>_ t. backup_post db obs name w t)) t"
    if "commands t = commands w" "file_of name w = None"
      "entries t = entries w @ [\<lparr>bf_name = name, bf_dir = False, bf_data = [], bf_mtime = jo_dump_mtime obs\<rparr>]" for t
    by (rule wp_then [OF dump_and_sum_wp [OF that assms]]) (simp add: dump_ran_def, erule tail)
  have m: "commands (mkdir v) = commands w" "file_of name (mkdir v) = file_of name w" "entries (mkdir v) = entries w"
    using v by (auto simp: only_oracle_ex mkdir_def file_of_def entries_def)
  show "wp (andthen (modify mkdir) (andthen (create_file name (jo_dump_mtime obs)) (andthen (or_remove name
       (andthen (dump_postgres db name (jo_dump_mtime obs))
       (andthen (stmt (ErrOther ''closing backup file'')) (writeSHA256 name (jo_sum_mtime obs))))) ?rest)))
    (onE (\<lambda>e t. dump_ran db w t) (\<lambda>_ t. backup_post db obs name w t)) v"
    unfolding wp_andthen [of "modify mkdir"] wp_modify onE_simps
  proof (rule wp_then [OF create_file_wp])
    fix e and t :: "'z db_world_scheme" assume "commands t = commands (mkdir v)"
    then show "onE (\<lambda>e t. dump_ran db w t) (\<lambda>_ t. backup_post db obs name w t) (Inl e) t"
      using m by (simp add: dump_ran_def)
  next
    fix c and t :: "'z db_world_scheme"
    assume "commands t = commands (mkdir v) \<and> file_of name (mkdir v) = None \<and>
      entries t = filter (\<lambda>g. bf_name g \<noteq> name) (entries (mkdir v)) @
        [\<lparr>bf_name = name, bf_dir = False, bf_data = [], bf_mtime = jo_dump_mtime obs\<rparr>]"
    then have "commands t = commands w" "file_of name w = None"
      "entries t = entries w @ [\<lparr>bf_name = name, bf_dir = False, bf_data = [], bf_mtime = jo_dump_mtime obs\<rparr>]"
      unfolding m using filter_no_name [of name w] by simp_all
    then show "wp (andthen (or_remove name
       (andthen (dump_postgres db name (jo_dump_mtime obs))
       (andthen (stmt (ErrOther ''closing backup file'')) (writeSHA256 name (jo_sum_mtime obs))))) ?rest)
      (onE (\<lambda>e t. dump_ran db w t) (\<lambda>_ t. backup_post db obs name w t)) t"
      by (rule rest)
  qed
qed (auto simp: only_oracle_ex dump_ran_def)

text \<open>A dump younger than every file heads the listing, so the trim spares it.\<close>

definition younger :: "job_obs \<Rightarrow> 'z db_world_scheme \<Rightarrow> bool" where
  "younger obs w = (\<forall>f\<in>set (entries w). bf_mtime f < jo_dump_mtime obs)"

lemma fresh_ordered:
  assumes "fresh_dump db obs name w u" "younger obs w"
  shows "ordered_files u = dumped db obs name (commands w) # ordered_files w"
proof -
  have "\<forall>f\<in>set (filter is_backup (entries w)). file_key f < file_key (dumped db obs name (commands w))"
    using assms(2) by (auto simp: younger_def file_key_def dumped_def less_prod_def)
  then show ?thesis using assms(1)
    by (simp add: ordered_files_def fresh_dump_def sort_key_snoc)
qed

lemma safety_kept:
  assumes "backup_post db obs name w t" "younger obs w" "1 \<le> dbc_keep db" "backup_name name"
  shows "file_of name t = Some (dumped db obs name (commands w))"
proof -
  obtain u where u: "fresh_dump db obs name w u" "files_kept (dropped_names db u) u t"
    using assms(1) by (auto simp: backup_post_def)
  have none: "bf_name f \<noteq> name" if "f \<in> set (entries w)" for f
    using u(1) that by (force simp: fresh_dump_def file_of_None)
  obtain k where "nat (dbc_keep db) = Suc k" using assms(3) by (cases "nat (dbc_keep db)") auto
  then have "drop (nat (dbc_keep db)) (ordered_files u) = drop k (ordered_files w)"
    by (simp add: fresh_ordered [OF u(1) assms(2)])
  then have "name \<notin> dropped_names db u"
    using none assms(4) sidecar_not_backup set_ordered_files [of w]
    by (auto simp: dropped_names_def Let_def dest!: in_set_dropD)
  then show ?thesis using u by (simp add: files_kept_def fresh_dump_def)
qed

end
