(* ===== verification/Restore_Laws.thy ===== *)
theory Restore_Laws
  imports Backup_Laws
begin

text \<open>
  The commands of a restore in their order, the safety copy that must be on disk before the
  first of them can do harm, and the case in which a restore deletes its own target.
\<close>

section \<open>Commands, exactly\<close>

lemma wp_run_command:
  "wp (run_command db args stdin) Q w =
    Q (Inr (dbc_run db (commands w) (args, stdin))) (w\<lparr>commands := commands w @ [(args, stdin)]\<rparr>)"
  by (simp add: run_command_def wp_rules)

lemma wp_psql_all:
  "(\<And>r. Q r (w\<lparr>commands := commands w @ [(psql_args db q, [])]\<rparr>)) \<Longrightarrow> wp (psql db q) Q w"
  by (simp add: psql_def execOut_def wp_bindE wp_run_command wp_ret wp_throw split: prod.split option.split)

lemma wp_postgresInt_all:
  "(\<And>r. Q r (w\<lparr>commands := commands w @ [(psql_args db q, [])]\<rparr>)) \<Longrightarrow> wp (postgresInt db q) Q w"
  unfolding postgresInt_def wp_bindE
  by (rule wp_psql_all) (auto simp: onE_def wp_of_option split: sum.split option.split)

definition restore_script :: "database \<Rightarrow> gostring \<Rightarrow> command list" where
  "restore_script db stdin =
    [(dump_args db, []), (psql_args db (terminate_query db), []), (restore_args db, stdin),
     (psql_args db ''SELECT 1'', []), (psql_args db count_query, [])]"

text \<open>The safety copy is on disk and holds what the dump wrote.\<close>

definition safe_copy :: "database \<Rightarrow> job_obs \<Rightarrow> command list \<Rightarrow> 'z db_world_scheme \<Rightarrow> bool" where
  "safe_copy db obs cs t \<longleftrightarrow>
    snd (dbc_run db cs (dump_args db, [])) = None \<and>
    file_of (safetyFileName (dbc_name db) (jo_safety_at obs)) t =
      Some (dumped db obs (safetyFileName (dbc_name db) (jo_safety_at obs)) cs)"

definition restore_at ::
  "database \<Rightarrow> job_obs \<Rightarrow> command list \<Rightarrow> gostring \<Rightarrow> nat \<Rightarrow> gostring \<Rightarrow> 'z db_world_scheme \<Rightarrow> bool" where
  "restore_at db obs cs name n stdin t \<longleftrightarrow>
    commands t = cs @ take n (restore_script db stdin) \<and>
    (2 \<le> n \<longrightarrow> safe_copy db obs cs t) \<and>
    (3 \<le> n \<longrightarrow> (\<exists>f. file_of name t = Some f \<and> bf_data f = stdin))"

definition restore_post ::
  "database \<Rightarrow> job_obs \<Rightarrow> command list \<Rightarrow> gostring \<Rightarrow> err + gostring \<Rightarrow> 'z db_world_scheme \<Rightarrow> bool" where
  "restore_post db obs cs name r t \<longleftrightarrow>
    (\<exists>n stdin. n \<le> 5 \<and> restore_at db obs cs name n stdin t \<and> ((\<exists>d. r = Inr d) \<longrightarrow> n = 5))"

lemma restore_postI:
  "restore_at db obs cs name n stdin t \<Longrightarrow> n \<le> 5 \<Longrightarrow> restore_post db obs cs name (Inl e) t"
  "restore_at db obs cs name 5 stdin t \<Longrightarrow> restore_post db obs cs name (Inr d) t"
  unfolding restore_post_def by blast+

lemma safe_copy_updates [simp]:
  "safe_copy db obs cs (t\<lparr>commands := ds\<rparr>) = safe_copy db obs cs t"
  "safe_copy db obs cs (t\<lparr>faults := fs\<rparr>) = safe_copy db obs cs t"
  by (simp_all add: safe_copy_def)

lemma take_script:
  "take 0 (restore_script db s) = []"
  "take (Suc 0) (restore_script db s) = [(dump_args db, [])]"
  "take 2 (restore_script db s) = take (Suc 0) (restore_script db s) @ [(psql_args db (terminate_query db), [])]"
  "take 3 (restore_script db s) = take 2 (restore_script db s) @ [(restore_args db, s)]"
  "take 4 (restore_script db s) = take 3 (restore_script db s) @ [(psql_args db ''SELECT 1'', [])]"
  "take 5 (restore_script db s) = take 4 (restore_script db s) @ [(psql_args db count_query, [])]"
  by (simp_all only: restore_script_def) (simp_all add: eval_nat_numeral)

lemma restore_step:
  "restore_at db obs cs name 2 s t \<Longrightarrow> only_oracle t u \<Longrightarrow> restore_at db obs cs name 2 s u"
  "restore_at db obs cs name 3 s t \<Longrightarrow>
    restore_at db obs cs name 4 s (t\<lparr>commands := commands t @ [(psql_args db ''SELECT 1'', [])]\<rparr>)"
  "restore_at db obs cs name 4 s t \<Longrightarrow>
    restore_at db obs cs name 5 s (t\<lparr>commands := commands t @ [(psql_args db count_query, [])]\<rparr>)"
  by (auto simp: restore_at_def only_oracle_ex take_script)

lemma terminate_wp:
  "wp (terminateBackends db)
    (\<lambda>r u. u = t\<lparr>commands := commands t @ [(psql_args db (terminate_query db), [])]\<rparr>) t"
  unfolding terminateBackends_def wp_andthen wp_map_error wp_ret
  by (rule wp_psql_all) (simp add: onE_def split: sum.split)

lemma verify_wp:
  assumes "restore_at db obs cs name 3 s t"
  shows "wp (bindE (map_error (\<lambda>_. ErrOther ''verifying restore'') (psql db ''SELECT 1'')) (\<lambda>one.
      andthen (guardE (one = ''1'') (ErrOther ''verifying restore: SELECT 1''))
     (bindE (map_error (\<lambda>_. ErrOther ''verifying restore'') (postgresInt db count_query)) (\<lambda>n.
      ret (d n))))) (restore_post db obs cs name) t"
proof -
  let ?t4 = "t\<lparr>commands := commands t @ [(psql_args db ''SELECT 1'', [])]\<rparr>"
  have at4: "restore_at db obs cs name 4 s ?t4" by (rule restore_step(2) [OF assms])
  have last: "wp (bindE (map_error (\<lambda>_. ErrOther ''verifying restore'') (postgresInt db count_query))
      (\<lambda>n. ret (d n))) (restore_post db obs cs name) ?t4"
    unfolding wp_bindE wp_map_error wp_ret
    by (rule wp_postgresInt_all)
      (simp only: onE_def split: sum.split,
       blast intro: restore_postI [OF restore_step(3) [OF at4]] le_refl)
  have four: "restore_post db obs cs name (Inl e) ?t4" for e
    by (rule restore_postI(1) [OF at4]) simp
  have "wp (andthen (guardE (one = ''1'') (ErrOther ''verifying restore: SELECT 1''))
     (bindE (map_error (\<lambda>_. ErrOther ''verifying restore'') (postgresInt db count_query)) (\<lambda>n. ret (d n))))
     (restore_post db obs cs name) ?t4" for one
    by (rule wp_guard_then) (use last four in auto)
  then show ?thesis
    unfolding wp_bindE [of "map_error _ (psql _ _)"] wp_map_error
    by (intro wp_psql_all) (auto simp: onE_def split: sum.split intro: four)
qed

lemma restore_tail_wp:
  fixes t :: "'z db_world_scheme"
  assumes "commands t = cs @ [(dump_args db, [])]" "safe_copy db obs cs t"
  shows "wp (andthen (terminateBackends db)
     (bindE (open_file ''opening backup'' name) (\<lambda>f.
      bindE (run_command db (restore_args db) (bf_data f)) (\<lambda>(out, failed).
      andthen (guardE (failed = None) (ErrOther ''restoring postgres''))
     (bindE (map_error (\<lambda>_. ErrOther ''verifying restore'') (psql db ''SELECT 1'')) (\<lambda>one.
      andthen (guardE (one = ''1'') (ErrOther ''verifying restore: SELECT 1''))
     (bindE (map_error (\<lambda>_. ErrOther ''verifying restore'') (postgresInt db count_query)) (\<lambda>n.
      ret (d n))))))))) (restore_post db obs cs name) t"
proof -
  let ?t2 = "t\<lparr>commands := commands t @ [(psql_args db (terminate_query db), [])]\<rparr>"
  let ?rest = "\<lambda>(out, failed).
      andthen (guardE (failed = None) (ErrOther ''restoring postgres''))
     (bindE (map_error (\<lambda>_. ErrOther ''verifying restore'') (psql db ''SELECT 1'')) (\<lambda>one.
      andthen (guardE (one = ''1'') (ErrOther ''verifying restore: SELECT 1''))
     (bindE (map_error (\<lambda>_. ErrOther ''verifying restore'') (postgresInt db count_query)) (\<lambda>n.
      ret (d n)))))"
  have at2: "restore_at db obs cs name 2 s ?t2" for s
    using assms by (simp add: restore_at_def take_script)
  have opened: "wp (bindE (run_command db (restore_args db) (bf_data f)) ?rest) (restore_post db obs cs name) u"
    if "only_oracle ?t2 u" "file_of name ?t2 = Some f" for f and u :: "'z db_world_scheme"
  proof -
    let ?u3 = "u\<lparr>commands := commands u @ [(restore_args db, bf_data f)]\<rparr>"
    have at3: "restore_at db obs cs name 3 (bf_data f) ?u3"
      using restore_step(1) [OF at2 that(1), of "bf_data f"] that
      by (auto simp: restore_at_def take_script only_oracle_ex)
    show ?thesis
      unfolding wp_bindE [of "run_command _ _ _"] wp_run_command onE_simps case_prod_beta
      by (rule wp_guard_then [OF verify_wp [OF at3] restore_postI(1) [OF at3]]) simp
  qed
  show ?thesis
    unfolding wp_andthen [of "terminateBackends db"]
    apply (rule wp_mono [OF terminate_wp])
    apply (simp only: onE_def split: sum.split)
    apply (intro conjI allI impI)
     apply (simp add: restore_postI(1) [OF at2])
    apply (rule wp_bind [OF open_file_wp])
     apply (simp add: restore_postI(1) [OF restore_step(1) [OF at2]])
    apply (rule opened)
     apply simp_all
    done
qed

text \<open>C29: A restore runs a prefix of one fixed sequence of commands: dump, disconnect the other
  sessions, \<open>pg_restore\<close> fed with the backup asked for, and two checks; all five if
  it reports success.  Before the first of them that touches the live data, a dump has
  succeeded and its complete output is on disk under the safety name and survives
  the trim (given a clock ahead of the files and at least one backup to keep).\<close>

theorem restore_order:
  assumes "younger obs w" "1 \<le> dbc_keep db" "runRestore db obs name w = (r, t)"
  shows "\<exists>n stdin. n \<le> 5 \<and> commands t = commands w @ take n (restore_script db stdin) \<and>
    ((\<exists>d. r = Inr d) \<longrightarrow> n = 5) \<and>
    (3 \<le> n \<longrightarrow> (\<exists>f. file_of name t = Some f \<and> bf_data f = stdin)) \<and>
    (2 \<le> n \<longrightarrow> snd (dbc_run db (commands w) (dump_args db, [])) = None \<and>
       (\<exists>f. file_of (safetyFileName (dbc_name db) (jo_safety_at obs)) t = Some f \<and>
          bf_data f = fst (dbc_run db (commands w) (dump_args db, []))))"
proof -
  let ?safety = "safetyFileName (dbc_name db) (jo_safety_at obs)"
  have name: "backup_name ?safety"
    using backup_names_safe [of "[]" "dbc_name db" "jo_safety_at obs"]
    by (simp add: validateBackupName_def split: if_splits)
  have post: "commands u = commands w @ [(dump_args db, [])] \<and> safe_copy db obs (commands w) u"
    if "backup_post db obs ?safety w u" for u
    using safety_kept [OF that assms(1,2) name] that
    by (auto simp: backup_post_def fresh_dump_def safe_copy_def)
  have "wp (runRestore db obs name) (restore_post db obs (commands w) name) w"
    unfolding runRestore_def Let_def
  proof (rule wp_then)
    show "wp (map_error (\<lambda>_. ErrOther ''safety backup failed'') (runBackup db obs ?safety))
      (onE (\<lambda>e t. dump_ran db w t) (\<lambda>_ t. backup_post db obs ?safety w t)) w"
      unfolding wp_map_error
      by (rule wp_mono [OF runBackup_wp [OF name]]) (simp add: onE_def split: sum.splits)
    show "restore_post db obs (commands w) name (Inl e) u" if "dump_ran db w u" for e u
    proof -
      from that have "restore_at db obs (commands w) name 0 [] u \<or> restore_at db obs (commands w) name 1 [] u"
        by (auto simp: dump_ran_def restore_at_def take_script)
      then show ?thesis using restore_postI(1) by fastforce
    qed
  qed (rule restore_tail_wp; use post in blast)
  from wp_run [OF this assms(3)] obtain n stdin where
    n: "n \<le> 5" "restore_at db obs (commands w) name n stdin t" "(\<exists>d. r = Inr d) \<longrightarrow> n = 5"
    by (auto simp: restore_post_def)
  then show ?thesis
    by (intro exI [of _ n] exI [of _ stdin]) (simp add: restore_at_def safe_copy_def dumped_def)
qed

section \<open>A restore that deletes its target\<close>

lemma dir_ok_updates [simp]:
  "dir_ok (w\<lparr>commands := cs\<rparr>) = dir_ok w" "dir_ok (w\<lparr>faults := fs\<rparr>) = dir_ok w"
  "dir_ok (mkdir w) = dir_ok w" "dir_ok w \<Longrightarrow> dir_ok (put_file f w)"
  by (auto simp: dir_ok_def distinct_map_filter)

lemma put_file_fields [simp]:
  "commands (put_file f w) = commands w" "commands (mkdir w) = commands w"
  by (simp_all add: put_file_def mkdir_def)

definition sidecar :: "job_obs \<Rightarrow> gostring \<Rightarrow> gostring \<Rightarrow> bfile" where
  "sidecar obs name content =
    \<lparr>bf_name = name @ shaSuffix, bf_dir = False, bf_data = sidecar_text name content,
     bf_mtime = jo_sum_mtime obs\<rparr>"

definition empty_dump :: "job_obs \<Rightarrow> gostring \<Rightarrow> bfile" where
  "empty_dump obs name = \<lparr>bf_name = name, bf_dir = False, bf_data = [], bf_mtime = jo_dump_mtime obs\<rparr>"

definition backed_up :: "database \<Rightarrow> job_obs \<Rightarrow> gostring \<Rightarrow> 'z db_world_scheme \<Rightarrow> 'z db_world_scheme" where
  "backed_up db obs name w =
    put_file (sidecar obs name (fst (dbc_run db (commands w) (dump_args db, []))))
      (put_file (dumped db obs name (commands w))
        ((put_file (empty_dump obs name) (mkdir w))\<lparr>commands := commands w @ [(dump_args db, [])]\<rparr>))"

lemma runBackup_run:
  assumes "faults w = []" "file_of name w = None" "file_of (name @ shaSuffix) w = None"
    and "snd (dbc_run db (commands w) (dump_args db, [])) = None"
    and "trimBackups db (backed_up db obs name w) = (Inr (), t)"
  shows "\<exists>d. runBackup db obs name w = (Inr d, t)"
proof -
  let ?w1 = "put_file (empty_dump obs name) (mkdir w)"
  let ?w2 = "put_file (dumped db obs name (commands w)) (?w1\<lparr>commands := commands w @ [(dump_args db, [])]\<rparr>)"
  obtain out where r: "dbc_run db (commands w) (dump_args db, []) = (out, None)"
    using assms(4) by (metis prod.collapse)
  have d: "dump_postgres db name (jo_dump_mtime obs) ?w1 = (Inr (), ?w2)"
    by (simp add: dump_postgres_def run_command_def run_defs r dumped_def)
  have s: "writeSHA256 name (jo_sum_mtime obs) ?w2 = (Inr (), backed_up db obs name w)"
    using assms(1,3) r
    by (simp add: writeSHA256_def hash_file_def open_file_run run_defs dumped_def empty_dump_def
        backed_up_def sidecar_def)
  have c: "create_file name (jo_dump_mtime obs) (mkdir w) = (Inr (), ?w1)"
    using assms(1,2) by (simp add: create_file_def run_defs empty_dump_def)
  have o: "or_remove name (andthen (dump_postgres db name (jo_dump_mtime obs))
      (andthen (stmt (ErrOther ''closing backup file'')) (writeSHA256 name (jo_sum_mtime obs)))) ?w1 =
      (Inr (), backed_up db obs name w)"
    using assms(1) d s by (simp add: or_remove_def bindE_def andthen_def attempt_def ret_def)
  have f: "open_file ''statting backup file'' name (backed_up db obs name w) =
      (Inr (dumped db obs name (commands w)), backed_up db obs name w)"
    using assms(1) by (simp add: open_file_run backed_up_def sidecar_def dumped_def)
  have st: "stmt (ErrOther ''creating backup dir'') w = (Inr (), w)" using assms(1) by simp
  show ?thesis
    by (simp add: runBackup_def andthen_def bindE_def st modify_def c o [unfolded andthen_def] f assms(5) ret_def)
qed

text \<open>C30: A restore whose target is among the oldest of the backups kept (always when one
  backup is kept) destroys it: the trim after the safety copy deletes the target before it is
  opened, and the restore fails after the other sessions were disconnected.  No
  fault is needed.\<close>

theorem restore_loses_target:
  assumes "faults w = []" "dir_ok w" "younger obs w" "1 \<le> dbc_keep db"
    and target: "name \<in> set (drop (nat (dbc_keep db) - 1) (map bi_name (backup_listing w)))"
    and new: "file_of (safetyFileName (dbc_name db) (jo_safety_at obs)) w = None"
      "file_of (safetyFileName (dbc_name db) (jo_safety_at obs) @ shaSuffix) w = None"
    and dump: "snd (dbc_run db (commands w) (dump_args db, [])) = None"
    and disconnect: "snd (dbc_run db (commands w @ [(dump_args db, [])])
       (psql_args db (terminate_query db), [])) = None"
  shows "\<exists>t f. file_of name w = Some f \<and>
    runRestore db obs name w = (Inl (ErrOther ''opening backup''), t) \<and>
    file_of name t = None \<and>
    commands t = commands w @ [(dump_args db, []), (psql_args db (terminate_query db), [])]"
proof -
  let ?safety = "safetyFileName (dbc_name db) (jo_safety_at obs)"
  let ?u = "backed_up db obs ?safety w"
  have name: "backup_name ?safety"
    using backup_names_safe [of "[]" "dbc_name db" "jo_safety_at obs"]
    by (simp add: validateBackupName_def split: if_splits)
  have side: "\<not> is_backup (sidecar obs ?safety c)" for c
    by (simp add: is_backup_def sidecar_def sidecar_not_backup)
  have "filter is_backup (entries ?u) = filter is_backup (entries w) @ [dumped db obs ?safety (commands w)]"
    using name filter_no_name [OF new(1)] filter_no_name [OF new(2)] side
    by (simp add: backed_up_def sidecar_def empty_dump_def dumped_def is_backup_def)
  then have "fresh_dump db obs ?safety w ?u"
    using dump new by (simp add: fresh_dump_def backed_up_def sidecar_def dumped_def)
  from fresh_ordered [OF this assms(3)]
  have ord: "ordered_files ?u = dumped db obs ?safety (commands w) # ordered_files w" .
  have u: "faults ?u = []" "dir_ok ?u" using assms(1,2) by (simp_all add: backed_up_def)
  from trimBackups_run [OF u, of db] obtain t where t: "trimBackups db ?u = (Inr (), t)" "faults t = []"
      "entries t = filter (\<lambda>f. bf_name f \<notin> dropped_names db ?u) (entries ?u)" by blast
  obtain k where k: "nat (dbc_keep db) = Suc k" using assms(4) by (cases "nat (dbc_keep db)") auto
  have "name \<in> set (map bf_name (drop k (ordered_files w)))"
    using target k by (simp add: listing_names drop_map)
  then have "name \<in> dropped_names db ?u" by (simp add: dropped_names_def Let_def ord k)
  then have gone: "file_of name t = None" by (auto simp: file_of_None t(3))
  have "name \<in> bf_name ` set (ordered_files w)"
    using target in_set_dropD by (fastforce simp: listing_names)
  then have "file_of name w \<noteq> None"
    unfolding set_ordered_files by (auto simp: file_of_None)
  moreover obtain d where bk: "runBackup db obs ?safety w = (Inr d, t)"
    using runBackup_run [OF assms(1) new dump t(1)] by blast
  have "cmds_are (commands ?u) ?u" by (simp add: cmds_are_def)
  from keepsD [OF trimBackups_cmds this t(1)] have ct: "commands t = commands w @ [(dump_args db, [])]"
    by (simp add: cmds_are_def backed_up_def)
  obtain out where r: "dbc_run db (commands w @ [(dump_args db, [])]) (psql_args db (terminate_query db), [])
      = (out, None)" using disconnect by (metis prod.collapse)
  let ?t2 = "t\<lparr>commands := commands t @ [(psql_args db (terminate_query db), [])]\<rparr>"
  have gone_sessions: "terminateBackends db t = (Inr (), ?t2)"
    by (simp add: terminateBackends_def psql_def execOut_def run_command_def run_defs ct r)
  have "runRestore db obs name w = (Inl (ErrOther ''opening backup''), ?t2)"
    by (simp add: runRestore_def Let_def andthen_def bindE_def map_error_def bk gone_sessions open_file_run t(2) gone)
  ultimately show ?thesis using gone ct by auto
qed

section \<open>The theorems on concrete inputs\<close>

lemmas sample_defs = sample_db_def sample_job_obs_def sample_db_world_def sample_backup_def

lemma db_execute_records_witness:
  "\<exists>t. db_execute sample_db sample_job_obs
      \<lparr>jr_id = 1, jr_kind = DBJobBackup, jr_target = ''b.dump'', jr_actor = ''admin''\<rparr> sample_db_world =
      (Inr (), t) \<and> \<not> db_busy t"
  using db_execute_records [of sample_job_obs sample_db _ sample_db_world]
  by (auto simp: job_clock_ok_def sample_job_obs_def is_zero_time_def zero_time_def)

lemma sample_start:
  "\<exists>req t. StartBackup sample_db 1 ''admin'' sample_db_world = (Inr req, t)"
  by (simp add: StartBackup_def launch_def db_claim_def jobs_Create_def jobs_trim_def run_defs
      sample_defs Let_def job_row_ok_def is_zero_time_def zero_time_def)

lemma sample_reach: "db_reach sample_db (sample_db_world, [], {})"
proof -
  have "Reconcile 0 sample_db_world = (Inr (), sample_db_world)"
    by (simp add: Reconcile_def jobs_FailRunning_def run_defs sample_defs table_defs empty_table_def map_where_def)
  moreover have "\<not> db_busy sample_db_world" "length (rows (db_jobs sample_db_world)) \<le> 50"
      "table_ok dj_id (db_jobs sample_db_world)"
    by (simp_all add: sample_db_world_def) (simp add: empty_table_def)
  ultimately show ?thesis by (rule db_reach.boot [rotated 3])
qed

lemma db_one_job_witness:
  "\<exists>w js. db_reach sample_db (w, js, {}) \<and> js \<noteq> [] \<and> length js \<le> 1 \<and> length (rows (db_jobs w)) > 0 \<and>
    StartBackup sample_db 2 ''admin'' w = (Inl ErrDatabaseBusy, w)"
proof -
  obtain req t where st: "StartBackup sample_db 1 ''admin'' sample_db_world = (Inr req, t)"
    using sample_start by blast
  from db_reach.step [OF sample_reach db_step.backup [OF st]]
  have r: "db_reach sample_db (t, [(req, False)], {})" by simp
  show ?thesis using db_one_job [OF r, of 2 "''admin''"] r
    by (intro exI [of _ t] exI [of _ "[(req, False)]"]) (auto simp: sample_db_def)
qed

definition sample_crashed :: db_world where
  "sample_crashed =
    sample_db_world\<lparr>db_jobs := \<lparr>rows = [\<lparr>dj_id = 1, dj_kind = DBJobBackup, dj_target = ''a.dump'',
      dj_status = DBJobRunning, dj_detail = [], dj_started = 1, dj_finished = None\<rparr>], seq = 1\<rparr>\<rparr>"

lemma Reconcile_fails_running_witness:
  "fst (Reconcile 9 sample_crashed) = Inr () \<and>
   filter (\<lambda>x. dj_status x = DBJobRunning) (rows (db_jobs (snd (Reconcile 9 sample_crashed)))) = [] \<and>
   length (rows (db_jobs (snd (Reconcile 9 sample_crashed)))) = 1"
proof -
  have "\<exists>t. Reconcile 9 sample_crashed = (Inr (), t)"
    by (simp add: Reconcile_def jobs_FailRunning_def run_defs sample_defs sample_crashed_def)
  then obtain t where r: "Reconcile 9 sample_crashed = (Inr (), t)" by blast
  from Reconcile_fails_running [OF r]
  have s: "\<forall>x\<in>set (rows (db_jobs t)). dj_status x \<noteq> DBJobRunning"
    "map dj_id (rows (db_jobs t)) = map dj_id (rows (db_jobs sample_crashed))" by blast+
  from arg_cong [OF s(2), of length] have "length (rows (db_jobs t)) = 1"
    by (simp add: sample_crashed_def)
  with s(1) show ?thesis unfolding r by (simp add: filter_empty_conv)
qed

lemma backup_names_safe_witness: "CHR ''/'' \<notin> set ''a.dump''"
proof -
  have "validateBackupName ''a.dump'' = Inr ()" by code_simp
  then show ?thesis using backup_names_safe [of "''a.dump''" "''app''" 0] by blast
qed

lemma sample_listing: "map bi_name (backup_listing sample_db_world) = [''a.dump'']"
proof -
  have "backup_name ''a.dump''" by code_simp
  then show ?thesis
    by (simp add: listing_names ordered_files_def entries_def sample_defs is_backup_def)
qed

lemma trim_keeps_newest_witness:
  "map bi_name (backup_listing (snd (trimBackups sample_db sample_db_world))) = [''a.dump'']"
proof -
  have "dir_ok sample_db_world" by (simp add: dir_ok_def entries_def sample_db_world_def)
  from trim_keeps_newest [OF this, of sample_db] show ?thesis
    unfolding sample_listing by (simp add: sample_db_world_def sample_db_def)
qed

lemma checksum_roundtrip_witness:
  "\<exists>t. writeSHA256 ''a.dump'' 3 sample_db_world = (Inr (), t) \<and> checkSHA256 ''a.dump'' t = (Inr True, t)"
proof -
  have "\<exists>t. writeSHA256 ''a.dump'' 3 sample_db_world = (Inr (), t) \<and> faults t = []"
    by (simp add: writeSHA256_def hash_file_def open_file_def run_defs sample_defs file_of_def entries_def)
  then obtain t where t: "writeSHA256 ''a.dump'' 3 sample_db_world = (Inr (), t)" "faults t = []" by blast
  from checksum_roundtrip [OF t] t show ?thesis by blast
qed

lemma sample_younger: "younger sample_job_obs sample_db_world"
  by (simp add: younger_def entries_def sample_defs)

lemma restore_order_witness:
  "\<exists>n stdin. n \<le> 5 \<and>
    commands (snd (runRestore sample_db sample_job_obs ''a.dump'' sample_db_world)) =
      take n (restore_script sample_db stdin)"
proof -
  obtain r t where run: "runRestore sample_db sample_job_obs ''a.dump'' sample_db_world = (r, t)" by fastforce
  have "1 \<le> dbc_keep sample_db" "commands sample_db_world = []" by (simp_all add: sample_defs)
  then show ?thesis using restore_order [OF sample_younger _ run] run by auto
qed

lemma long_safety: "length (safetyFileName db moment) > 13"
  by (simp add: safetyFileName_def)

lemma restore_loses_target_witness:
  "\<exists>t. runRestore sample_db sample_job_obs ''a.dump'' sample_db_world =
      (Inl (ErrOther ''opening backup''), t) \<and> file_of ''a.dump'' t = None"
proof -
  let ?safety = "safetyFileName (dbc_name sample_db) (jo_safety_at sample_job_obs)"
  have n: "?safety \<noteq> ''a.dump''" "?safety @ shaSuffix \<noteq> ''a.dump''"
    using long_safety [of "dbc_name sample_db" "jo_safety_at sample_job_obs"] by auto
  have ent: "entries sample_db_world = [sample_backup]" by (simp add: entries_def sample_db_world_def)
  have absent: "file_of ?safety sample_db_world = None" "file_of (?safety @ shaSuffix) sample_db_world = None"
    using n by (auto simp: file_of_None ent sample_backup_def)
  have t: "''a.dump'' \<in> set (drop (nat (dbc_keep sample_db) - 1) (map bi_name (backup_listing sample_db_world)))"
    unfolding sample_listing by (simp add: sample_db_def)
  have rest: "faults sample_db_world = []" "dir_ok sample_db_world" "1 \<le> dbc_keep sample_db"
    "snd (dbc_run sample_db (commands sample_db_world) (dump_args sample_db, [])) = None"
    "snd (dbc_run sample_db (commands sample_db_world @ [(dump_args sample_db, [])])
       (psql_args sample_db (terminate_query sample_db), [])) = None"
    by (simp_all add: dir_ok_def ent) (simp_all add: sample_db_world_def sample_db_def)
  from restore_loses_target [OF rest(1,2) sample_younger rest(3) t absent rest(4,5)]
  show ?thesis by blast
qed

end
