(* ===== verification/Db_Health.thy ===== *)
theory Db_Health
  imports Restore_Laws
begin

text \<open>
  The health entries of the databases view (service/database.go, store/database.go): probes
  of postgres and redis through docker and of the embedded SQLite database, each of which
  degrades field by field instead of failing.  The version and the integrity verdict of SQLite and
  the size of its files are parameters.
\<close>

record db_health =
  dh_id :: gostring
  dh_label :: gostring
  dh_configured :: bool
  dh_reachable :: bool
  dh_version :: "gostring option"
  dh_size :: "int option"
  dh_used :: "int option"
  dh_max :: "int option"
  dh_uptime :: "int option"
  dh_memory :: "int option"
  dh_integrity :: "gostring option"
  dh_last_backup :: "instant option"

definition health_entry :: "gostring \<Rightarrow> gostring \<Rightarrow> bool \<Rightarrow> db_health" where
  "health_entry i label configured =
    \<lparr>dh_id = i, dh_label = label, dh_configured = configured, dh_reachable = False, dh_version = None,
     dh_size = None, dh_used = None, dh_max = None, dh_uptime = None, dh_memory = None,
     dh_integrity = None, dh_last_backup = None\<rparr>"

text \<open>The first match of \<open>PostgreSQL (\d+(?:\.\d+)?)\<close>.\<close>

definition version_at :: "gostring \<Rightarrow> gostring option" where
  "version_at s =
    (if has_prefix s ''PostgreSQL ''
     then (let rest = drop 11 s; major = takeWhile is_digit rest; r = dropWhile is_digit rest;
               minor = (case r of [] \<Rightarrow> [] | c # cs \<Rightarrow> if c = CHR ''.'' then takeWhile is_digit cs else [])
           in if major = [] then None
              else Some (if minor = [] then major else major @ ''.'' @ minor))
     else None)"

fun find_version :: "gostring \<Rightarrow> gostring option" where
  "find_version [] = None"
| "find_version (c # cs) =
    (case version_at (c # cs) of Some v \<Rightarrow> Some v | None \<Rightarrow> find_version cs)"

definition postgresVersion :: "database \<Rightarrow> ('z db_world_scheme, err, gostring) prog" where
  "postgresVersion db =
    bindE (psql db ''SELECT version()'') (\<lambda>raw.
      of_option (ErrOther ''parsing postgres version'') (find_version raw))"

definition ok_option :: "'e + 'a \<Rightarrow> 'a option" where
  "ok_option r = (case r of Inl _ \<Rightarrow> None | Inr a \<Rightarrow> Some a)"

definition probeInt :: "database \<Rightarrow> gostring \<Rightarrow> ('z db_world_scheme, err, int option) prog" where
  "probeInt db query = bindE (attempt (postgresInt db query)) (\<lambda>r. ret (ok_option r))"

definition ready_args :: "database \<Rightarrow> gostring list" where
  "ready_args db =
    dockerArgs (dbc_container db) False [''pg_isready'', ''-U'', dbc_user db, ''-d'', dbc_name db]"

definition postgresHealth :: "database \<Rightarrow> ('z db_world_scheme, err, db_health) prog" where
  "postgresHealth db =
    bindE lastBackupAt (\<lambda>last_at.
    let h = (health_entry ''postgres'' ''PostgreSQL'' (dbc_container db \<noteq> []))\<lparr>dh_last_backup := last_at\<rparr> in
    if \<not> dh_configured h then ret h
    else
      bindE (run_command db (ready_args db) []) (\<lambda>(out, failed).
      if failed \<noteq> None then ret h
      else
        bindE (attempt (postgresVersion db)) (\<lambda>version.
        bindE (probeInt db ''SELECT pg_database_size(current_database())'') (\<lambda>size_bytes.
        bindE (probeInt db ''SELECT count(*) FROM pg_stat_activity'') (\<lambda>used.
        bindE (probeInt db ''SHOW max_connections'') (\<lambda>most.
        bindE (probeInt db ''SELECT EXTRACT(EPOCH FROM now() - pg_postmaster_start_time())::bigint'') (\<lambda>up.
        ret (h\<lparr>dh_reachable := True, dh_version := ok_option version, dh_size := size_bytes,
               dh_used := used, dh_max := most, dh_uptime := up\<rparr>))))))))"

text \<open>The value of the first line that reads \<open>key:value\<close>.\<close>

fun field_in :: "gostring \<Rightarrow> gostring list \<Rightarrow> gostring" where
  "field_in key [] = []"
| "field_in key (l # ls) =
    (case cut_char (CHR '':'') (trim_space l) of
       Some (n, v) \<Rightarrow> if n = key then v else field_in key ls
     | None \<Rightarrow> field_in key ls)"

definition infoField :: "gostring \<Rightarrow> gostring \<Rightarrow> gostring" where
  "infoField info key = field_in key (raw_lines info)"

definition infoNumber :: "gostring \<Rightarrow> gostring \<Rightarrow> err + int" where
  "infoNumber info key =
    (case parse_int (infoField info key) of
       None \<Rightarrow> Inl (ErrOther (''parsing redis '' @ key))
     | Some v \<Rightarrow> Inr v)"

definition infoSeconds :: "gostring \<Rightarrow> gostring \<Rightarrow> int option" where
  "infoSeconds info key = ok_option (infoNumber info key)"

definition redis_args :: "database \<Rightarrow> gostring \<Rightarrow> gostring list" where
  "redis_args db section_name = dockerArgs (dbc_redis db) False [''redis-cli'', ''info'', section_name]"

definition redisHealth :: "database \<Rightarrow> ('z db_world_scheme, err, db_health) prog" where
  "redisHealth db =
    (let h = health_entry ''redis'' ''Redis'' (dbc_redis db \<noteq> []) in
     if \<not> dh_configured h then ret h
     else
       bindE (attempt (execOut db (redis_args db ''server'') [])) (\<lambda>srv.
       case srv of
         Inl _ \<Rightarrow> ret h
       | Inr info \<Rightarrow>
          (let version = infoField info ''redis_version'';
               h1 = h\<lparr>dh_reachable := True,
                      dh_version := (if version \<noteq> [] then Some version else None),
                      dh_uptime := infoSeconds info ''uptime_in_seconds''\<rparr>
           in
           bindE (attempt (execOut db (redis_args db ''memory'') [])) (\<lambda>mem.
             case mem of
               Inl _ \<Rightarrow> ret h1
             | Inr memory \<Rightarrow> ret (h1\<lparr>dh_memory := ok_option (infoNumber memory ''used_memory'')\<rparr>)))))"

definition SQLiteHealth :: "gostring \<times> gostring \<Rightarrow> ('z db_world_scheme, err, gostring \<times> gostring) prog" where
  "SQLiteHealth facts =
    andthen (stmt (ErrOther ''querying sqlite version''))
    (andthen (stmt (ErrOther ''checking sqlite integrity''))
     (ret facts))"

definition sqliteHealth :: "int \<Rightarrow> gostring \<times> gostring \<Rightarrow> ('z db_world_scheme, err, db_health) prog" where
  "sqliteHealth bytes facts =
    (let h = (health_entry ''sqlite'' ''SQLite'' True)\<lparr>dh_size := Some bytes\<rparr> in
     bindE (attempt (SQLiteHealth facts)) (\<lambda>r.
       case r of
         Inl _ \<Rightarrow> ret h
       | Inr (version, integrity) \<Rightarrow>
          ret (h\<lparr>dh_reachable := True, dh_version := Some version, dh_integrity := Some integrity\<rparr>)))"

definition Databases ::
  "database \<Rightarrow> int \<Rightarrow> gostring \<times> gostring \<Rightarrow> ('z db_world_scheme, err, db_health list) prog" where
  "Databases db bytes facts =
    bindE (postgresHealth db) (\<lambda>p.
    bindE (redisHealth db) (\<lambda>r.
    bindE (sqliteHealth bytes facts) (\<lambda>s.
     ret [p, r, s])))"

section \<open>The entries never fail\<close>

text \<open>An entry without a configuration is unreachable, and one that is unreachable shows no
  statistics.\<close>

definition degraded :: "db_health \<Rightarrow> bool" where
  "degraded h \<longleftrightarrow>
    (\<not> dh_configured h \<longrightarrow> \<not> dh_reachable h) \<and>
    (\<not> dh_reachable h \<longrightarrow>
      dh_version h = None \<and> dh_used h = None \<and> dh_max h = None \<and> dh_uptime h = None \<and>
      dh_memory h = None \<and> dh_integrity h = None)"

text \<open>Steps that always return, and may change anything.\<close>

definition returns :: "('s, err, 'a) prog \<Rightarrow> ('a \<Rightarrow> bool) \<Rightarrow> bool" where
  "returns m P = (\<forall>w. \<exists>a t. m w = (Inr a, t) \<and> P a)"

lemma returns_ret [intro]: "P a \<Longrightarrow> returns (ret a) P"
  by (simp add: returns_def ret_def)

lemma returns_attempt [intro]: "returns (attempt m) (\<lambda>_. True)"
  by (simp add: returns_def attempt_def split: prod.split)

lemma returnsE:
  assumes "returns m P"
  obtains a t where "m w = (Inr a, t)" "P a"
  using assms unfolding returns_def by blast

lemma returns_bind: "returns m Q \<Longrightarrow> (\<And>a. Q a \<Longrightarrow> returns (k a) P) \<Longrightarrow> returns (bindE m k) P"
  unfolding returns_def bindE_def by (metis (mono_tags, lifting) case_prod_conv sum.simps(6))

lemma returns_then: "returns m (\<lambda>_. True) \<Longrightarrow> (\<And>a. returns (k a) P) \<Longrightarrow> returns (bindE m k) P"
  by (rule returns_bind)

lemma returns_if: "(b \<Longrightarrow> returns m P) \<Longrightarrow> (\<not> b \<Longrightarrow> returns n P) \<Longrightarrow> returns (if b then m else n) P"
  by simp

lemma returns_prod: "(\<And>a b. returns (f a b) P) \<Longrightarrow> returns (case p of (a, b) \<Rightarrow> f a b) P"
  by (cases p) simp

lemma returns_sum:
  "(\<And>e. returns (f e) P) \<Longrightarrow> (\<And>a. returns (g a) P) \<Longrightarrow> returns (case r of Inl e \<Rightarrow> f e | Inr a \<Rightarrow> g a) P"
  by (cases r) simp_all

lemma returns_run_command: "returns (run_command db args stdin) (\<lambda>_. True)"
  by (auto simp: returns_def run_command_def run_defs)

lemma returns_lastBackupAt: "returns lastBackupAt (\<lambda>_. True)"
  unfolding lastBackupAt_def by (intro returns_then returns_attempt returns_ret TrueI)

lemma returns_probeInt: "returns (probeInt db q) (\<lambda>_. True)"
  unfolding probeInt_def by (intro returns_then returns_attempt returns_ret TrueI)

lemmas returns_rules = returns_then returns_if returns_prod returns_sum returns_attempt
  returns_run_command returns_lastBackupAt returns_probeInt returns_ret

definition health_of :: "gostring \<Rightarrow> bool \<Rightarrow> db_health \<Rightarrow> bool" where
  "health_of i configured h \<longleftrightarrow> dh_id h = i \<and> dh_configured h = configured \<and> degraded h"

lemma health_entry_fields [simp]:
  "dh_id (health_entry i l c) = i" "dh_configured (health_entry i l c) = c"
  "dh_reachable (health_entry i l c) = False" "dh_version (health_entry i l c) = None"
  "dh_used (health_entry i l c) = None" "dh_max (health_entry i l c) = None"
  "dh_uptime (health_entry i l c) = None" "dh_memory (health_entry i l c) = None"
  "dh_integrity (health_entry i l c) = None"
  by (simp_all add: health_entry_def)

lemma postgresHealth_returns: "returns (postgresHealth db) (health_of ''postgres'' (dbc_container db \<noteq> []))"
  unfolding postgresHealth_def Let_def
  by (intro returns_rules) (simp_all add: health_of_def degraded_def)

lemma redisHealth_returns: "returns (redisHealth db) (health_of ''redis'' (dbc_redis db \<noteq> []))"
  unfolding redisHealth_def Let_def
  by (intro returns_rules) (simp_all add: health_of_def degraded_def)

lemma sqliteHealth_returns: "returns (sqliteHealth bytes facts) (health_of ''sqlite'' True)"
  unfolding sqliteHealth_def Let_def
  by (intro returns_rules) (simp_all add: health_of_def degraded_def)

text \<open>The databases view always gets its three entries in the order postgres, redis, SQLite,
  whatever commands and statements fail: an entry that is not configured is unreachable, and one that
  is unreachable shows no version and no statistics.\<close>

theorem Databases_degrade:
  "\<exists>p r s. fst (Databases db bytes facts w) = Inr [p, r, s] \<and>
    map dh_id [p, r, s] = [''postgres'', ''redis'', ''sqlite''] \<and>
    map dh_configured [p, r, s] = [dbc_container db \<noteq> [], dbc_redis db \<noteq> [], True] \<and>
    list_all degraded [p, r, s]"
proof -
  obtain p w1 where p: "postgresHealth db w = (Inr p, w1)" "health_of ''postgres'' (dbc_container db \<noteq> []) p"
    by (rule returnsE [OF postgresHealth_returns])
  obtain r w2 where r: "redisHealth db w1 = (Inr r, w2)" "health_of ''redis'' (dbc_redis db \<noteq> []) r"
    by (rule returnsE [OF redisHealth_returns])
  obtain s w3 where s: "sqliteHealth bytes facts w2 = (Inr s, w3)" "health_of ''sqlite'' True s"
    by (rule returnsE [OF sqliteHealth_returns])
  have "fst (Databases db bytes facts w) = Inr [p, r, s]"
    by (simp add: Databases_def bindE_def p(1) r(1) s(1) ret_def)
  then show ?thesis using p(2) r(2) s(2)
    by (intro exI [of _ p] exI [of _ r] exI [of _ s]) (simp add: health_of_def)
qed

end
