(* ===== verification/Json_Text.thy ===== *)
theory Json_Text
  imports Go_Strings
begin

text \<open>
  The texts of \<open>encoding/json\<close> which the program hashes or measures: strings with
  the escapes of \<open>json.Marshal\<close> (quotes, control characters, the characters that are unsafe in
  HTML, the two line separators, a replacement rune for every byte that is no UTF-8),
  arrays, objects with given fields.
\<close>

section \<open>UTF-8\<close>

definition byte_in :: "nat \<Rightarrow> nat \<Rightarrow> char \<Rightarrow> bool" where
  "byte_in lo hi c = (lo \<le> code c \<and> code c \<le> hi)"

text \<open>The length of the rune at the head of a string, or 0 when its bytes are not valid.\<close>

definition rune_len :: "gostring \<Rightarrow> nat" where
  "rune_len s =
    (case s of
       [] \<Rightarrow> 0
     | a # r1 \<Rightarrow>
        if byte_in 0 127 a then 1
        else (case r1 of
          [] \<Rightarrow> 0
        | b # r2 \<Rightarrow>
           if byte_in 194 223 a \<and> byte_in 128 191 b then 2
           else (case r2 of
             [] \<Rightarrow> 0
           | c # r3 \<Rightarrow>
              if byte_in 224 239 a \<and> byte_in 128 191 c \<and>
                 byte_in (if code a = 224 then 160 else 128) (if code a = 237 then 159 else 191) b then 3
              else (case r3 of
                [] \<Rightarrow> 0
              | d # r4 \<Rightarrow>
                 if byte_in 240 244 a \<and> byte_in 128 191 c \<and> byte_in 128 191 d \<and>
                    byte_in (if code a = 240 then 144 else 128) (if code a = 244 then 143 else 191) b
                 then 4 else 0))))"

lemma rune_len_bound: "rune_len s \<le> length s"
  by (auto simp: rune_len_def split: list.splits)

section \<open>Strings\<close>

definition low_hex :: "nat \<Rightarrow> char" where
  "low_hex n = (if n < 10 then char_of (48 + n) else char_of (87 + n))"

definition quote_byte :: "char \<Rightarrow> gostring" where
  "quote_byte c =
    (if code c \<in> {34, 92} then [CHR 0x5C, c]
     else if code c = 8 then [CHR 0x5C, CHR ''b'']
     else if code c = 12 then [CHR 0x5C, CHR ''f'']
     else if code c = 10 then [CHR 0x5C, CHR ''n'']
     else if code c = 13 then [CHR 0x5C, CHR ''r'']
     else if code c = 9 then [CHR 0x5C, CHR ''t'']
     else if code c < 32 \<or> code c \<in> {38, 60, 62}
     then [CHR 0x5C, CHR ''u'', CHR ''0'', CHR ''0'', low_hex (code c div 16), low_hex (code c mod 16)]
     else [c])"

definition line_separators :: "gostring list" where
  "line_separators = [map char_of [226, 128, 168 :: nat], map char_of [226, 128, 169 :: nat]]"

function quote_runes :: "gostring \<Rightarrow> gostring" where
  "quote_runes [] = []"
| "quote_runes (c # cs) =
    (if code c < 128 then quote_byte c @ quote_runes cs
     else if rune_len (c # cs) = 0 then CHR 0x5C # ''ufffd'' @ quote_runes cs
     else if take 3 (c # cs) = line_separators ! 0 then CHR 0x5C # ''u2028'' @ quote_runes (drop 2 cs)
     else if take 3 (c # cs) = line_separators ! 1 then CHR 0x5C # ''u2029'' @ quote_runes (drop 2 cs)
     else take (rune_len (c # cs)) (c # cs) @ quote_runes (drop (rune_len (c # cs) - 1) cs))"
  by pat_completeness auto
termination by (relation "measure length") auto

declare quote_runes.simps(2) [simp del]

definition json_string :: "gostring \<Rightarrow> gostring" where
  "json_string s = CHR 0x22 # quote_runes s @ [CHR 0x22]"

section \<open>Values\<close>

definition json_bool :: "bool \<Rightarrow> gostring" where
  "json_bool b = (if b then ''true'' else ''false'')"

definition json_array :: "('a \<Rightarrow> gostring) \<Rightarrow> 'a list \<Rightarrow> gostring" where
  "json_array f xs = CHR ''['' # join_with '','' (map f xs) @ '']''"

text \<open>A nil pointer or slice is \<open>null\<close>.\<close>

definition json_nullable :: "('a \<Rightarrow> gostring) \<Rightarrow> 'a option \<Rightarrow> gostring" where
  "json_nullable f x = (case x of None \<Rightarrow> ''null'' | Some a \<Rightarrow> f a)"

definition json_field :: "gostring \<Rightarrow> gostring \<Rightarrow> gostring" where
  "json_field k v = json_string k @ '':'' @ v"

definition json_object :: "(gostring \<times> gostring) list \<Rightarrow> gostring" where
  "json_object kvs = CHR ''{'' # join_with '','' (map (\<lambda>(k, v). json_field k v) kvs) @ ''}''"

text \<open>A Go map, given as its entries in any order, is written in the order of its keys.\<close>

definition json_map :: "(gostring \<times> gostring) list \<Rightarrow> gostring" where
  "json_map kvs = json_object (map (\<lambda>(k, v). (k, json_string v)) (sort_key fst kvs))"

section \<open>What the reader of a field needs\<close>

text \<open>A value that goes into an object is read back from where it stands.\<close>

lemma join_with_neq:
  "x \<noteq> y \<Longrightarrow> join_with sep (pre @ x # post) \<noteq> join_with sep (pre @ y # post)"
proof (induction pre)
  case Nil
  then show ?case by (cases post) auto
next
  case (Cons a as)
  have j: "join_with sep (a # zs) = a @ sep @ join_with sep zs" if "zs \<noteq> []" for zs
    using that by (cases zs) auto
  show ?case using Cons by (simp add: j)
qed

lemma json_object_differs:
  assumes "v \<noteq> v'"
  shows "json_object (pre @ (k, v) # post) \<noteq> json_object (pre @ (k, v') # post)"
  using assms by (simp add: json_object_def json_field_def join_with_neq)

end
