(* ===== verification/Sec_World.thy ===== *)
theory Sec_World
  imports Store_Laws Tables Timestamps Sha256 Json_Text
begin

text \<open>
  The data of the container inventory and of the security workflow (\<open>internal/model\<close>,
  containers.go, security.go, maintenance.go), and the state \<open>sec_world\<close>, which adds their
  tables to the store.  A \<open>float64\<close> is carried as its bits; the columns \<open>updated_at\<close> of
  the inventory and of the cursors, which nothing reads, are left out.  Where the code tells a nil
  slice from an empty one the field is an option, otherwise both are the empty list.  A map
  of evidence is the list of its entries.
\<close>

abbreviation (input) ClassUnspecified :: gostring where "ClassUnspecified \<equiv> []"
abbreviation ClassManaged :: gostring where "ClassManaged \<equiv> ''managed''"
abbreviation ClassApproved :: gostring where "ClassApproved \<equiv> ''approved_observed''"
abbreviation ClassUnknown :: gostring where "ClassUnknown \<equiv> ''unknown''"
abbreviation ClassIgnored :: gostring where "ClassIgnored \<equiv> ''ignored''"
abbreviation ClassMissing :: gostring where "ClassMissing \<equiv> ''missing_expected''"

definition classes_sql :: "gostring list" where
  "classes_sql = [ClassManaged, ClassApproved, ClassUnknown, ClassIgnored, ClassMissing]"

record safe_mount =
  mt_type :: gostring
  mt_destination :: gostring
  mt_writable :: bool

record inspection =
  in_complete :: bool
  in_user :: gostring
  in_entrypoint :: gostring
  in_command :: gostring
  in_privileged :: bool
  in_readonly :: bool
  in_caps :: "gostring list option"
  in_pid :: gostring
  in_ipc :: gostring
  in_network :: gostring
  in_restart :: gostring
  in_memory :: int
  in_cpus :: int
  in_pids :: "int option"
  in_mounts :: "safe_mount list option"
  in_ports :: "gostring list"
  in_socket :: bool

record instance_row =
  ci_id :: gostring
  ci_name :: gostring
  ci_image :: gostring
  ci_image_id :: gostring
  ci_state :: gostring
  ci_status :: gostring
  ci_project :: gostring
  ci_compose :: gostring
  ci_service :: gostring
  ci_class :: gostring
  ci_current :: bool
  ci_present :: bool
  ci_first :: instant
  ci_last :: instant
  ci_absent :: "instant option"
  ci_image_fp :: gostring
  ci_config_fp :: gostring
  ci_inspection :: inspection
  ci_cpu :: "64 word option"
  ci_mem :: "int option"
  ci_limit :: "int option"
  ci_restarts :: "int option"

record inventory_batch =
  ib_observed :: instant
  ib_instances :: "instance_row list"
  ib_complete :: bool
  ib_grace :: duration
  ib_error :: gostring

record inventory_state =
  iv_reconciled :: "instant option"
  iv_complete :: bool
  iv_error :: gostring
  iv_observed :: int

record inventory_summary = inventory_state +
  iv_current :: int
  iv_present :: int

record baseline =
  bl_id :: int
  bl_container :: gostring
  bl_image_fp :: gostring
  bl_config_fp :: gostring
  bl_by :: gostring
  bl_at :: instant
  bl_active :: bool

record container_ignore =
  ig_container :: gostring
  ig_reason :: gostring
  ig_expires :: "instant option"
  ig_non_expiring :: bool
  ig_actor :: gostring
  ig_created :: instant

record policy =
  po_id :: int
  po_scope :: gostring
  po_scope_id :: gostring
  po_privileged :: bool
  po_host_pid :: bool
  po_host_network :: bool
  po_socket :: bool
  po_root :: bool
  po_writable_root :: bool
  po_caps :: "gostring list"
  po_ports :: "gostring list"
  po_executables :: "gostring list"
  po_writable :: "gostring list"
  po_by :: gostring
  po_at :: instant

record observation =
  ob_container :: gostring
  ob_rule :: gostring
  ob_category :: gostring
  ob_severity :: gostring
  ob_confidence :: gostring
  ob_detected :: bool
  ob_complete :: bool
  ob_evidence :: "(gostring \<times> gostring) list"
  ob_at :: instant

record finding =
  fd_id :: int
  fd_fingerprint :: gostring
  fd_episode :: int
  fd_container :: gostring
  fd_rule :: gostring
  fd_category :: gostring
  fd_severity :: gostring
  fd_confidence :: gostring
  fd_status :: gostring
  fd_count :: int
  fd_opened :: instant
  fd_last :: instant
  fd_evidence :: "(gostring \<times> gostring) list"
  fd_ack_at :: "instant option"
  fd_ack_by :: gostring
  fd_resolved_at :: "instant option"
  fd_resolved_by :: gostring
  fd_until :: "instant option"
  fd_reason :: gostring
  fd_actor :: gostring
  fd_notified :: gostring

text \<open>A zero time stands for a column that is NULL.\<close>

record cursor =
  cu_source :: gostring
  cu_identity :: gostring
  cu_offset :: int
  cu_recorded :: instant
  cu_success :: instant
  cu_error :: gostring
  cu_dropped :: int
  cu_complete :: bool
  cu_interval :: int

record sec_world = world +
  sw_instances :: "instance_row list"
  sw_inventory :: inventory_state
  sw_activation :: "instant option \<times> gostring"
  sw_baselines :: "baseline table"
  sw_ignores :: "container_ignore list"
  sw_policies :: "policy table"
  sw_observations :: "(int \<times> observation) table"
  sw_findings :: "finding table"
  sw_cursors :: "cursor list"

interpretation baseline_rows: rowid_table bl_id "\<lambda>i r. r\<lparr>bl_id := i\<rparr>"
  by unfold_locales simp

interpretation policy_rows: rowid_table po_id "\<lambda>i r. r\<lparr>po_id := i\<rparr>"
  by unfold_locales simp

interpretation observation_rows: rowid_table fst "\<lambda>i (j, r). (i, r)"
  by unfold_locales auto

interpretation finding_rows: rowid_table fd_id "\<lambda>i r. r\<lparr>fd_id := i\<rparr>"
  by unfold_locales simp

section \<open>Samples\<close>

definition sample_inspection :: inspection where
  "sample_inspection =
    \<lparr>in_complete = True, in_user = ''app'', in_entrypoint = [], in_command = [], in_privileged = False,
     in_readonly = True, in_caps = None, in_pid = [], in_ipc = [], in_network = [], in_restart = [],
     in_memory = 1, in_cpus = 1, in_pids = Some 1, in_mounts = Some [], in_ports = [], in_socket = False\<rparr>"

definition sample_instance :: "gostring \<Rightarrow> gostring \<Rightarrow> gostring \<Rightarrow> instance_row" where
  "sample_instance cid name cls =
    \<lparr>ci_id = cid, ci_name = name, ci_image = ''img'', ci_image_id = ''sha'', ci_state = ''running'',
     ci_status = ''Up'', ci_project = [], ci_compose = [], ci_service = [], ci_class = cls,
     ci_current = True, ci_present = True, ci_first = 1, ci_last = 1, ci_absent = None,
     ci_image_fp = ''sha'', ci_config_fp = [], ci_inspection = sample_inspection, ci_cpu = None,
     ci_mem = None, ci_limit = None, ci_restarts = None\<rparr>"

definition sample_sec_world :: sec_world where
  "sample_sec_world =
    \<lparr>faults = [], services = [], deploys = empty_table, probes = empty_table,
     notifications = empty_table, audits = empty_table, child_rows = [], events = [],
     sw_instances = [sample_instance ''a'' ''web'' ClassManaged],
     sw_inventory = \<lparr>iv_reconciled = None, iv_complete = False, iv_error = [], iv_observed = 0\<rparr>,
     sw_activation = (Some 1, ''root''), sw_baselines = empty_table, sw_ignores = [],
     sw_policies = empty_table, sw_observations = empty_table, sw_findings = empty_table,
     sw_cursors = []\<rparr>"

end
