(* ===== verification/Containers.thy ===== *)
theory Containers
  imports Sec_World
begin

text \<open>
  The durable container inventory (\<open>internal/store/container_inventory.go\<close>): one row per Docker
  identity, reconciled in one transaction per batch, and the listings.
\<close>

section \<open>Reconciliation\<close>

definition boundedID :: "instance_row \<Rightarrow> err + unit" where
  "boundedID r =
    (if trim_space (ci_id r) = [] \<or> trim_space (ci_name r) = []
     then Inl (ErrOther ''reconciling containers: id and name are required'')
     else if 128 < length (ci_id r) \<or> 256 < length (ci_name r)
     then Inl (ErrOther ''reconciling containers: bounded identity is too long'')
     else Inr ())"

fun validate_from :: "gostring list \<Rightarrow> instance_row list \<Rightarrow> err + unit" where
  "validate_from seen [] = Inr ()"
| "validate_from seen (r # rs) =
    (case boundedID r of
       Inl e \<Rightarrow> Inl e
     | Inr _ \<Rightarrow>
        if ci_id r \<in> set seen then Inl (ErrOther ''reconciling containers: duplicate id'')
        else validate_from (ci_id r # seen) rs)"

definition validateInventoryBatch :: "inventory_batch \<Rightarrow> err + unit" where
  "validateInventoryBatch b = validate_from [] (ib_instances b)"

text \<open>The classes which the statements of a complete batch select.\<close>

definition expected_sql :: "gostring list" where
  "expected_sql = [ClassManaged, ClassApproved, ClassMissing]"

definition promoted_sql :: "gostring list" where
  "promoted_sql = [ClassManaged, ClassApproved]"

definition observed_sql :: "gostring list" where
  "observed_sql = [ClassUnknown, ClassIgnored]"

definition mark_absent :: "instant \<Rightarrow> instance_row list \<Rightarrow> instance_row list" where
  "mark_absent t =
    map_where (\<lambda>r. ci_current r \<and> ci_class r \<in> set expected_sql)
      (\<lambda>r. r\<lparr>ci_current := True, ci_present := False,
            ci_absent := Some (case ci_absent r of None \<Rightarrow> t | Some a \<Rightarrow> a)\<rparr>)"

definition promote_missing :: "instant \<Rightarrow> instance_row list \<Rightarrow> instance_row list" where
  "promote_missing cutoff =
    map_where (\<lambda>r. ci_current r \<and> \<not> ci_present r \<and> ci_class r \<in> set promoted_sql \<and>
        (case ci_absent r of None \<Rightarrow> False | Some a \<Rightarrow> text_le (formatTime a) (formatTime cutoff)))
      (\<lambda>r. r\<lparr>ci_class := ClassMissing\<rparr>)"

definition retire_observed :: "instant \<Rightarrow> instance_row list \<Rightarrow> instance_row list" where
  "retire_observed t =
    map_where (\<lambda>r. ci_current r \<and> ci_class r \<in> set observed_sql)
      (\<lambda>r. r\<lparr>ci_current := False, ci_present := False, ci_absent := Some t\<rparr>)"

definition retire_name :: "instant \<Rightarrow> instance_row \<Rightarrow> instance_row list \<Rightarrow> instance_row list" where
  "retire_name t i =
    map_where (\<lambda>r. ci_name r = ci_name i \<and> ci_id r \<noteq> ci_id i \<and> ci_current r)
      (\<lambda>r. r\<lparr>ci_current := False, ci_present := False, ci_absent := Some t\<rparr>)"

definition clamp_uint :: "int option \<Rightarrow> int option" where
  "clamp_uint = map_option (min int64_max)"

text \<open>A row holds no nil slices.\<close>

definition slice :: "'a list option \<Rightarrow> 'a list option" where
  "slice xs = Some (case xs of None \<Rightarrow> [] | Some ys \<Rightarrow> ys)"

definition normalizeSafeInspection :: "inspection \<Rightarrow> inspection" where
  "normalizeSafeInspection v = v\<lparr>in_caps := slice (in_caps v), in_mounts := slice (in_mounts v)\<rparr>"

text \<open>A live metric is kept when the batch has none, and dropped when the container does not run.\<close>

definition live_metric :: "gostring \<Rightarrow> 'a option \<Rightarrow> 'a option \<Rightarrow> 'a option" where
  "live_metric st new old =
    (if st = ''running'' then (case new of None \<Rightarrow> old | Some v \<Rightarrow> Some v) else None)"

definition row_class :: "instance_row \<Rightarrow> gostring" where
  "row_class i = (if ci_class i = ClassUnspecified then ClassUnknown else ci_class i)"

definition new_row :: "instant \<Rightarrow> instance_row \<Rightarrow> instance_row" where
  "new_row t i =
    i\<lparr>ci_class := row_class i, ci_current := True, ci_present := True, ci_first := t, ci_last := t,
      ci_absent := None, ci_inspection := normalizeSafeInspection (ci_inspection i),
      ci_mem := clamp_uint (ci_mem i), ci_limit := clamp_uint (ci_limit i)\<rparr>"

definition merge_row :: "instant \<Rightarrow> instance_row \<Rightarrow> instance_row \<Rightarrow> instance_row" where
  "merge_row t i old =
    (new_row t i)\<lparr>ci_first := ci_first old,
      ci_cpu := live_metric (ci_state i) (ci_cpu i) (ci_cpu old),
      ci_mem := live_metric (ci_state i) (clamp_uint (ci_mem i)) (ci_mem old),
      ci_limit := live_metric (ci_state i) (clamp_uint (ci_limit i)) (ci_limit old),
      ci_restarts := live_metric (ci_state i) (ci_restarts i) (ci_restarts old)\<rparr>"

definition upsert_row :: "instant \<Rightarrow> instance_row \<Rightarrow> instance_row list \<Rightarrow> instance_row list" where
  "upsert_row t i rs =
    (if ci_id i \<in> set (map ci_id rs)
     then map_where (\<lambda>r. ci_id r = ci_id i) (merge_row t i) rs
     else rs @ [new_row t i])"

text \<open>An absent expected container is retired once a present one has taken its place.\<close>

definition replaces :: "instance_row \<Rightarrow> instance_row \<Rightarrow> bool" where
  "replaces r m \<longleftrightarrow>
    ci_current r \<and> ci_present r \<and> ci_id r \<noteq> ci_id m \<and>
    ((ci_service m \<noteq> [] \<and> ci_service r = ci_service m) \<or>
     (ci_project m \<noteq> [] \<and> ci_compose m \<noteq> [] \<and>
      ci_project r = ci_project m \<and> ci_compose r = ci_compose m))"

definition retire_replaced :: "instance_row list \<Rightarrow> instance_row list" where
  "retire_replaced rs =
    map_where (\<lambda>m. ci_current m \<and> \<not> ci_present m \<and> ci_class m = ClassMissing \<and>
        list_ex (\<lambda>r. replaces r m) rs)
      (\<lambda>m. m\<lparr>ci_current := False\<rparr>) rs"

definition with_instances :: "(instance_row list \<Rightarrow> instance_row list) \<Rightarrow> 'z sec_world_scheme \<Rightarrow> 'z sec_world_scheme" where
  "with_instances f w = w\<lparr>sw_instances := f (sw_instances w)\<rparr>"

definition upsertContainer :: "instant \<Rightarrow> instance_row \<Rightarrow> ('z sec_world_scheme, err, unit) prog" where
  "upsertContainer t i =
    andthen (stmt (ErrOther ''upserting container''))
    (andthen (guardE (row_class i \<in> set classes_sql) (ErrOther ''upserting container''))
     (modify (with_instances (upsert_row t i))))"

definition reconcile_one :: "instant \<Rightarrow> instance_row \<Rightarrow> ('z sec_world_scheme, err, unit) prog" where
  "reconcile_one t i =
    andthen (stmt (ErrOther ''retiring reused container name''))
    (andthen (modify (with_instances (retire_name t i)))
     (upsertContainer t i))"

definition mark_expected :: "instant \<Rightarrow> duration \<Rightarrow> ('z sec_world_scheme, err, unit) prog" where
  "mark_expected t grace =
    andthen (stmt (ErrOther ''marking expected containers absent''))
    (andthen (modify (with_instances (mark_absent t)))
    (andthen (stmt (ErrOther ''promoting absent expected containers after grace period''))
    (andthen (modify (with_instances (promote_missing (t - grace))))
    (andthen (stmt (ErrOther ''retiring unseen observed containers''))
     (modify (with_instances (retire_observed t)))))))"

definition retire_step :: "('z sec_world_scheme, err, unit) prog" where
  "retire_step =
    andthen (stmt (ErrOther ''retiring replaced expected containers''))
     (modify (with_instances retire_replaced))"

definition reconcile_body :: "instant \<Rightarrow> inventory_batch \<Rightarrow> ('z sec_world_scheme, err, unit) prog" where
  "reconcile_body t b =
    andthen (if ib_complete b then mark_expected t (ib_grace b) else ret ())
    (andthen (for_each (reconcile_one t) (ib_instances b))
    (andthen (if ib_complete b then retire_step else ret ())
    (andthen (stmt (ErrOther ''updating inventory state''))
    (andthen (modify (\<lambda>w. w\<lparr>sw_inventory :=
       \<lparr>iv_reconciled = Some t, iv_complete = ib_complete b, iv_error = ib_error b,
        iv_observed = int (length (ib_instances b))\<rparr>\<rparr>))
     (stmt (ErrOther ''committing container reconciliation''))))))"

definition containers_Reconcile :: "instant \<Rightarrow> inventory_batch \<Rightarrow> ('z sec_world_scheme, err, unit) prog" where
  "containers_Reconcile now b =
    (let t = (if is_zero_time (ib_observed b) then now else ib_observed b) in
     andthen (of_result (validateInventoryBatch b))
     (andthen (stmt (ErrOther ''beginning container reconciliation''))
      (tx (reconcile_body t b))))"

section \<open>Reads\<close>

definition instance_of :: "gostring \<Rightarrow> 'z sec_world_scheme \<Rightarrow> instance_row option" where
  "instance_of cid w = first_where (\<lambda>r. ci_id r = cid) (sw_instances w)"

definition containers_Get :: "gostring \<Rightarrow> ('z sec_world_scheme, err, instance_row) prog" where
  "containers_Get cid =
    andthen (stmt (ErrOther ''scanning container''))
     (bindE (gets (instance_of cid)) (of_option (ErrContainerNotFound cid)))"

record container_query =
  cq_class :: gostring
  cq_state :: gostring
  cq_service :: gostring
  cq_historical :: bool
  cq_sort :: gostring
  cq_limit :: int
  cq_offset :: int

text \<open>The orders of \<open>containerOrder\<close>: a list that is sorted by the last key first.\<close>

definition containerOrder :: "gostring \<Rightarrow> (instance_row list \<Rightarrow> instance_row list) option" where
  "containerOrder srt =
    (if srt \<in> {[], ''name''} then Some (\<lambda>rs. sort_key ci_name (sort_key ci_id rs))
     else if srt = ''last_seen''
     then Some (\<lambda>rs. time_desc ci_last (sort_key ci_id rs))
     else if srt = ''state''
     then Some (\<lambda>rs. sort_key ci_state (sort_key ci_name (sort_key ci_id rs)))
     else None)"


definition by_name :: "instance_row list \<Rightarrow> instance_row list" where
  "by_name rs = sort_key ci_name (sort_key ci_id rs)"

definition query_matches :: "container_query \<Rightarrow> instance_row \<Rightarrow> bool" where
  "query_matches q r \<longleftrightarrow>
    (cq_historical q \<or> ci_current r) \<and>
    (cq_class q = ClassUnspecified \<or> ci_class r = cq_class q) \<and>
    (cq_state q = [] \<or> ci_state r = cq_state q) \<and>
    (cq_service q = [] \<or> ci_service r = cq_service q)"

definition containers_List :: "container_query \<Rightarrow> ('z sec_world_scheme, err, instance_row list) prog" where
  "containers_List q =
    bindE (of_option (ErrOther ''unknown container sort'') (containerOrder (cq_sort q))) (\<lambda>order.
    andthen (stmt (ErrOther ''listing containers''))
    (andthen (stmt (ErrOther ''iterating containers''))
     (gets (\<lambda>w. take (nat (containerLimit (cq_limit q)))
        (drop (nat (max (cq_offset q) 0))
          (order (filter (query_matches q) (sw_instances w))))))))"

definition ListAllRunning :: "('z sec_world_scheme, err, instance_row list) prog" where
  "ListAllRunning =
    andthen (stmt (ErrOther ''listing running containers''))
    (andthen (stmt (ErrOther ''iterating running containers''))
     (gets (\<lambda>w. by_name
       (filter (\<lambda>r. ci_current r \<and> ci_present r \<and> ci_state r = ''running'') (sw_instances w)))))"

definition ListAllCurrent :: "('z sec_world_scheme, err, instance_row list) prog" where
  "ListAllCurrent =
    andthen (stmt (ErrOther ''listing current containers''))
    (andthen (stmt (ErrOther ''iterating current containers''))
     (gets (\<lambda>w. by_name (filter ci_current (sw_instances w)))))"

definition active_statuses :: "gostring list" where
  "active_statuses = [''open'', ''acknowledged'', ''suppressed'']"

definition classification_rules :: "gostring list" where
  "classification_rules = [''inventory.unknown_container'', ''inventory.missing_expected'']"

definition has_inventory_finding :: "gostring \<Rightarrow> 'z sec_world_scheme \<Rightarrow> bool" where
  "has_inventory_finding cid w \<longleftrightarrow>
    (\<exists>f\<in>set (rows (sw_findings w)). fd_container f = cid \<and> fd_status f \<in> set active_statuses \<and>
      fd_rule f \<in> set classification_rules)"

definition ListClassificationCandidates :: "('z sec_world_scheme, err, instance_row list) prog" where
  "ListClassificationCandidates =
    andthen (stmt (ErrOther ''listing classification candidates''))
    (andthen (stmt (ErrOther ''iterating classification candidates''))
     (gets (\<lambda>w. by_name
       (filter (\<lambda>r. ci_current r \<or> has_inventory_finding (ci_id r) w) (sw_instances w)))))"

definition containers_Summary :: "('z sec_world_scheme, err, inventory_summary) prog" where
  "containers_Summary =
    andthen (stmt (ErrOther ''querying inventory summary''))
     (gets (\<lambda>w. let s = sw_inventory w in
       \<lparr>iv_reconciled = iv_reconciled s, iv_complete = iv_complete s, iv_error = iv_error s,
        iv_observed = iv_observed s,
        iv_current = int (length (filter ci_current (sw_instances w))),
        iv_present = int (length (filter (\<lambda>r. ci_current r \<and> ci_present r) (sw_instances w)))\<rparr>))"

end
