(* ===== verification/Containers_Laws.thy ===== *)
theory Containers_Laws
  imports Containers
begin

text \<open>
  What the inventory keeps: Docker identities are unique, at most one current row has a given name,
  classes come from the CHECK list; on any fault.  After a complete batch that held no name twice the
  present rows are the batch.
\<close>

definition instances_ok :: "instance_row list \<Rightarrow> bool" where
  "instances_ok rs \<longleftrightarrow>
    distinct (map ci_id rs) \<and> distinct (map ci_name (filter ci_current rs)) \<and>
    (\<forall>r\<in>set rs. ci_class r \<in> set classes_sql)"

definition inventory_ok :: "'z sec_world_scheme \<Rightarrow> bool" where
  "inventory_ok w \<longleftrightarrow> instances_ok (sw_instances w)"

interpretation inventory_db: db_invariant inventory_ok
  by unfold_locales (simp add: inventory_ok_def)

text \<open>An update that keeps identities, makes nothing current and keeps a name of what is current.\<close>

lemma instances_ok_map_where:
  assumes ok: "instances_ok rs"
    and f: "\<And>r. r \<in> set rs \<Longrightarrow> Q r \<Longrightarrow>
      ci_id (f r) = ci_id r \<and> (ci_current (f r) \<longrightarrow> ci_current r \<and> ci_name (f r) = ci_name r) \<and>
      ci_class (f r) \<in> set classes_sql"
  shows "instances_ok (map_where Q f rs)"
  unfolding instances_ok_def
proof (intro conjI)
  show "distinct (map ci_id (map_where Q f rs))"
    using ok f by (intro distinct_map_where) (auto simp: instances_ok_def)
  show "distinct (map ci_name (filter ci_current (map_where Q f rs)))"
    using ok f by (intro distinct_filter_map_where) (auto simp: instances_ok_def)
  show "\<forall>r\<in>set (map_where Q f rs). ci_class r \<in> set classes_sql"
    using ok f by (auto simp: set_map_where instances_ok_def)
qed

lemma classes_sql_mem [simp]:
  "ClassManaged \<in> set classes_sql" "ClassApproved \<in> set classes_sql" "ClassUnknown \<in> set classes_sql"
  "ClassIgnored \<in> set classes_sql" "ClassMissing \<in> set classes_sql"
  by (simp_all add: classes_sql_def)

lemma classes_of: "instances_ok rs \<Longrightarrow> r \<in> set rs \<Longrightarrow> ci_class r \<in> set classes_sql"
  by (simp add: instances_ok_def)

lemma ok_mark_absent: "instances_ok rs \<Longrightarrow> instances_ok (mark_absent t rs)"
  unfolding mark_absent_def by (rule instances_ok_map_where) (auto dest: classes_of)

lemma ok_promote: "instances_ok rs \<Longrightarrow> instances_ok (promote_missing c rs)"
  unfolding promote_missing_def by (rule instances_ok_map_where) auto

lemma ok_retire_observed: "instances_ok rs \<Longrightarrow> instances_ok (retire_observed t rs)"
  unfolding retire_observed_def by (rule instances_ok_map_where) (auto dest: classes_of)

lemma ok_retire_name: "instances_ok rs \<Longrightarrow> instances_ok (retire_name t i rs)"
  unfolding retire_name_def by (rule instances_ok_map_where) (auto dest: classes_of)

lemma ok_retire_replaced: "instances_ok rs \<Longrightarrow> instances_ok (retire_replaced rs)"
  unfolding retire_replaced_def by (rule instances_ok_map_where) (auto dest: classes_of)

text \<open>After \<open>retire_name\<close> the name is free for the new row.\<close>

definition name_free :: "instance_row \<Rightarrow> instance_row list \<Rightarrow> bool" where
  "name_free i rs \<longleftrightarrow> (\<forall>r\<in>set rs. ci_name r = ci_name i \<and> ci_current r \<longrightarrow> ci_id r = ci_id i)"

lemma retire_name_free: "name_free i (retire_name t i rs)"
  by (auto simp: name_free_def retire_name_def set_map_where)

lemma new_row_fields [simp]:
  "ci_id (new_row t i) = ci_id i" "ci_name (new_row t i) = ci_name i" "ci_class (new_row t i) = row_class i"
  "ci_current (new_row t i) = True" "ci_present (new_row t i) = True"
  by (simp_all add: new_row_def)

lemma merge_row_fields [simp]:
  "ci_id (merge_row t i r) = ci_id i" "ci_name (merge_row t i r) = ci_name i"
  "ci_class (merge_row t i r) = row_class i" "ci_current (merge_row t i r) = True"
  "ci_present (merge_row t i r) = True"
  by (simp_all add: merge_row_def)

lemma distinct_replace_one:
  assumes "distinct (map k xs)" "\<And>x. k x = a \<Longrightarrow> k (f x) = a"
    and "distinct (map n (filter P xs))" "\<And>x. x \<in> set xs \<Longrightarrow> P x \<Longrightarrow> n x = b \<Longrightarrow> k x = a"
    and "\<And>x. n (f x) = b"
  shows "distinct (map n (filter P (map_where (\<lambda>x. k x = a) f xs)))"
  using assms(1,3,4)
proof (induction xs)
  case Nil then show ?case by (simp add: map_where_def)
next
  case (Cons x xs)
  have step: "map_where (\<lambda>x. k x = a) f (x # xs) = (if k x = a then f x else x) # map_where (\<lambda>x. k x = a) f xs"
    by (simp add: map_where_def)
  have ih: "distinct (map n (filter P (map_where (\<lambda>x. k x = a) f xs)))"
    using Cons.prems by (intro Cons.IH) (auto split: if_splits)
  show ?case
  proof (cases "k x = a")
    case True
    then have rest: "map_where (\<lambda>x. k x = a) f xs = xs"
      using Cons.prems(1)
      by (intro map_where_none ballI) (metis distinct.simps(2) imageI list.set_map list.simps(9))
    have "b \<notin> n ` set (filter P xs)"
    proof
      assume "b \<in> n ` set (filter P xs)"
      then obtain y where y: "y \<in> set xs" "P y" "n y = b" by auto
      then have "k y = a" using Cons.prems(3) by simp
      then show False using y(1) True Cons.prems(1) by (metis distinct.simps(2) imageI list.set_map list.simps(9))
    qed
    then show ?thesis using True Cons.prems(2) assms(5)
      by (simp only: step rest) (auto split: if_splits)
  next
    case False
    have "n x \<notin> n ` set (filter P (map_where (\<lambda>x. k x = a) f xs))" if "P x"
    proof
      assume "n x \<in> n ` set (filter P (map_where (\<lambda>x. k x = a) f xs))"
      then obtain y where y: "y \<in> set xs" "n x = n (if k y = a then f y else y)"
        "P (if k y = a then f y else y)" by (auto simp: set_map_where)
      then show False using that False Cons.prems(2,3) assms(5) by (auto split: if_splits)
    qed
    then show ?thesis using False ih by (simp only: step) auto
  qed
qed

lemma ok_upsert:
  assumes ok: "instances_ok rs" and free: "name_free i rs" and cls: "row_class i \<in> set classes_sql"
  shows "instances_ok (upsert_row t i rs)"
proof (cases "ci_id i \<in> set (map ci_id rs)")
  case True
  have "distinct (map ci_name (filter ci_current (map_where (\<lambda>r. ci_id r = ci_id i) (merge_row t i) rs)))"
    using ok free by (intro distinct_replace_one [where b = "ci_name i"])
      (auto simp: instances_ok_def name_free_def)
  moreover have "distinct (map ci_id (map_where (\<lambda>r. ci_id r = ci_id i) (merge_row t i) rs))"
    using ok by (intro distinct_map_where) (auto simp: instances_ok_def)
  ultimately show ?thesis using True ok cls
    by (auto simp: upsert_row_def instances_ok_def set_map_where)
next
  case False
  have "ci_name i \<notin> ci_name ` set (filter ci_current rs)"
    using free False by (auto simp: name_free_def) (metis imageI)
  then show ?thesis using ok False cls
    by (auto simp: upsert_row_def instances_ok_def)
qed

lemma with_instances_sel [simp]: "sw_instances (with_instances f w) = f (sw_instances w)"
  by (simp add: with_instances_def)

lemma ok_with: "inventory_ok w \<Longrightarrow> (\<And>rs. instances_ok rs \<Longrightarrow> instances_ok (f rs)) \<Longrightarrow>
    inventory_ok (with_instances f w)"
  by (simp add: inventory_ok_def)

lemmas inventory_frame = keeps_rules inventory_db.keeps_stmt inventory_db.keeps_tx

lemma keeps_mark_expected: "keeps inventory_ok (mark_expected t g)"
  unfolding mark_expected_def
  by (intro inventory_frame ok_with ok_mark_absent ok_promote ok_retire_observed)

lemma keeps_reconcile_one: "keeps inventory_ok (reconcile_one t i)"
  unfolding keeps_wp
proof (intro allI impI)
  fix w :: "'z sec_world_scheme" assume ok: "inventory_ok w"
  have free: "inventory_ok v \<Longrightarrow> wp (upsertContainer t i) (\<lambda>r. inventory_ok) v" if "name_free i (sw_instances v)" for v
    using that unfolding upsertContainer_def
    by (simp add: wp_andthen) (rule wp_stmt_all; simp add: wp_rules inventory_ok_def ok_upsert)
  show "wp (reconcile_one t i) (\<lambda>r. inventory_ok) w"
    unfolding reconcile_one_def wp_andthen
  proof (rule wp_stmt_all; simp add: wp_rules)
    fix fs
    show "inventory_ok (w\<lparr>faults := fs\<rparr>)" using ok by (simp add: inventory_ok_def)
    show "wp (upsertContainer t i) (\<lambda>r. inventory_ok) (with_instances (retire_name t i) (w\<lparr>faults := fs\<rparr>))"
      using ok by (intro free) (simp_all add: retire_name_free inventory_ok_def ok_retire_name)
  qed
qed

lemma keeps_reconcile_body: "keeps inventory_ok (reconcile_body t b)"
  unfolding reconcile_body_def retire_step_def
  by (intro inventory_frame keeps_mark_expected keeps_reconcile_one ok_with ok_retire_replaced)
    (simp_all add: inventory_ok_def)

lemma keeps_containers_Reconcile: "keeps inventory_ok (containers_Reconcile now b)"
  unfolding containers_Reconcile_def Let_def
  by (intro inventory_frame keeps_reconcile_body)

section \<open>What a batch leaves\<close>

text \<open>The rows after a batch, as a function.\<close>

definition batch_step :: "instant \<Rightarrow> instance_row \<Rightarrow> instance_row list \<Rightarrow> instance_row list" where
  "batch_step t i rs = upsert_row t i (retire_name t i rs)"

definition batch_rows :: "instant \<Rightarrow> inventory_batch \<Rightarrow> instance_row list \<Rightarrow> instance_row list" where
  "batch_rows t b rs =
    (if ib_complete b
     then retire_replaced (fold (batch_step t) (ib_instances b)
       (retire_observed t (promote_missing (t - ib_grace b) (mark_absent t rs))))
     else fold (batch_step t) (ib_instances b) rs)"

lemma reconcile_one_returned:
  assumes "reconcile_one t i w = (Inr u, w')"
  shows "sw_instances w' = batch_step t i (sw_instances w)"
  using assms unfolding reconcile_one_def upsertContainer_def
  by (auto simp: returned batch_step_def dest!: returned_stmt)

lemma reconcile_all_returned:
  "for_each (reconcile_one t) is w = (Inr u, w') \<Longrightarrow>
    sw_instances w' = fold (batch_step t) is (sw_instances w)"
proof (induction "is" arbitrary: w)
  case Nil then show ?case by (simp add: ret_def)
next
  case (Cons i "is")
  then obtain v where "reconcile_one t i w = (Inr (), v)" "for_each (reconcile_one t) is v = (Inr u, w')"
    by (auto simp: returned)
  then show ?case using Cons.IH reconcile_one_returned by fastforce
qed

lemma reconcile_body_returned:
  assumes "reconcile_body t b w = (Inr u, w')"
  shows "sw_instances w' = batch_rows t b (sw_instances w)"
proof (cases "ib_complete b")
  case True
  then obtain w1 w2 where m: "mark_expected t (ib_grace b) w = (Inr (), w1)"
    and f: "for_each (reconcile_one t) (ib_instances b) w1 = (Inr (), w2)"
    and w': "sw_instances w' = retire_replaced (sw_instances w2)"
    using assms unfolding reconcile_body_def retire_step_def
    by (auto simp: returned dest!: returned_stmt)
  have "sw_instances w1 = retire_observed t (promote_missing (t - ib_grace b) (mark_absent t (sw_instances w)))"
    using m unfolding mark_expected_def by (auto simp: returned dest!: returned_stmt)
  then show ?thesis using True w' reconcile_all_returned [OF f] by (simp add: batch_rows_def)
next
  case False
  then obtain w2 where f: "for_each (reconcile_one t) (ib_instances b) w = (Inr (), w2)"
    and w': "sw_instances w' = sw_instances w2"
    using assms unfolding reconcile_body_def
    by (auto simp: returned dest!: returned_stmt)
  then show ?thesis using False reconcile_all_returned [OF f] by (simp add: batch_rows_def)
qed

definition batch_time :: "instant \<Rightarrow> inventory_batch \<Rightarrow> instant" where
  "batch_time now b = (if is_zero_time (ib_observed b) then now else ib_observed b)"

lemma validate_from_distinct:
  "validate_from seen rs = Inr () \<Longrightarrow> distinct (map ci_id rs) \<and> set (map ci_id rs) \<inter> set seen = {}"
proof (induction rs arbitrary: seen)
  case Nil then show ?case by simp
next
  case (Cons r rs)
  then have "ci_id r \<notin> set seen" and "validate_from (ci_id r # seen) rs = Inr ()"
    by (simp_all split: sum.splits if_splits)
  moreover from this(2) have "distinct (map ci_id rs)" "ci_id r \<notin> set (map ci_id rs)"
    "set (map ci_id rs) \<inter> set seen = {}" using Cons.IH [of "ci_id r # seen"] by auto
  ultimately show ?case by simp
qed

lemma Reconcile_returned:
  assumes "containers_Reconcile now b w = (Inr u, w')"
  shows "sw_instances w' = batch_rows (batch_time now b) b (sw_instances w) \<and>
    distinct (map ci_id (ib_instances b))"
proof -
  have v: "validateInventoryBatch b = Inr ()"
    using assms unfolding containers_Reconcile_def
    by (auto simp: returned of_result_def split: sum.splits)
  then obtain fs where "reconcile_body (batch_time now b) b (w\<lparr>faults := fs\<rparr>) = (Inr (), w')"
    using assms unfolding containers_Reconcile_def Let_def batch_time_def [symmetric]
    by (auto simp: returned of_result_def tx_commit dest!: returned_stmt)
  then show ?thesis
    using reconcile_body_returned validate_from_distinct [of "[]"] v
    by (fastforce simp: validateInventoryBatch_def)
qed

text \<open>The present rows: their identities, names and owners.\<close>

definition key_of :: "instance_row \<Rightarrow> gostring \<times> gostring \<times> gostring \<times> gostring \<times> gostring" where
  "key_of r = (ci_id r, ci_name r, ci_service r, ci_project r, ci_compose r)"

definition live :: "instance_row list \<Rightarrow> (gostring \<times> gostring \<times> gostring \<times> gostring \<times> gostring) set" where
  "live rs = key_of ` {r \<in> set rs. ci_current r \<and> ci_present r}"

lemma key_of_sel [simp]: "fst (key_of r) = ci_id r" "fst (snd (key_of r)) = ci_name r"
  by (simp_all add: key_of_def)

lemma live_iff: "k \<in> live rs \<longleftrightarrow> (\<exists>r\<in>set rs. ci_current r \<and> ci_present r \<and> key_of r = k)"
  by (auto simp: live_def)

lemma live_retire_name:
  "live (retire_name t i rs) = {k \<in> live rs. fst (snd k) = ci_name i \<longrightarrow> fst k = ci_id i}"
  (is "?L = ?R")
proof (rule set_eqI)
  fix k
  have "k \<in> ?L \<longleftrightarrow> (\<exists>r\<in>set rs. \<not> (ci_name r = ci_name i \<and> ci_id r \<noteq> ci_id i \<and> ci_current r) \<and>
      ci_current r \<and> ci_present r \<and> key_of r = k)"
    unfolding live_iff retire_name_def bex_mw by (rule bex_cong) (simp_all split: if_split)
  also have "\<dots> \<longleftrightarrow> k \<in> ?R" unfolding mem_Collect_eq live_iff by fastforce
  finally show "k \<in> ?L \<longleftrightarrow> k \<in> ?R" .
qed

lemma live_upsert:
  "live (upsert_row t i rs) = {k \<in> live rs. fst k \<noteq> ci_id i} \<union> {key_of i}" (is "?L = ?R")
proof (rule set_eqI)
  fix k
  have n: "key_of (new_row t i) = key_of i" by (simp add: key_of_def new_row_def)
  have m: "key_of (merge_row t i r) = key_of i" for r by (simp add: key_of_def merge_row_def new_row_def)
  show "k \<in> ?L \<longleftrightarrow> k \<in> ?R"
  proof (cases "ci_id i \<in> set (map ci_id rs)")
    case True
    have "k \<in> ?L \<longleftrightarrow> (\<exists>r\<in>set rs. if ci_id r = ci_id i then key_of i = k
        else ci_current r \<and> ci_present r \<and> key_of r = k)"
      using True unfolding upsert_row_def if_P [OF True] live_iff bex_mw
      by (intro bex_cong) (simp_all add: m)
    also have "\<dots> \<longleftrightarrow> k \<in> ?R"
      unfolding Un_iff mem_Collect_eq live_iff using True by (auto split: if_splits)
    finally show ?thesis .
  next
    case False
    have "k \<in> ?L \<longleftrightarrow> k \<in> live rs \<or> k = key_of i"
      unfolding upsert_row_def if_not_P [OF False] live_iff by (auto simp: n)
    also have "\<dots> \<longleftrightarrow> k \<in> ?R"
      unfolding Un_iff mem_Collect_eq live_iff using False by (auto simp: image_iff)
    finally show ?thesis .
  qed
qed

lemma live_retire_replaced: "live (retire_replaced rs) = live rs"
  unfolding retire_replaced_def
proof (rule set_eqI, unfold live_iff bex_mw, rule bex_cong [OF refl])
  fix k r
  show "(ci_current (if ci_current r \<and> \<not> ci_present r \<and> ci_class r = ClassMissing \<and>
         list_ex (\<lambda>ra. replaces ra r) rs then r\<lparr>ci_current := False\<rparr> else r) \<and>
      ci_present (if ci_current r \<and> \<not> ci_present r \<and> ci_class r = ClassMissing \<and>
         list_ex (\<lambda>ra. replaces ra r) rs then r\<lparr>ci_current := False\<rparr> else r) \<and>
      key_of (if ci_current r \<and> \<not> ci_present r \<and> ci_class r = ClassMissing \<and>
         list_ex (\<lambda>ra. replaces ra r) rs then r\<lparr>ci_current := False\<rparr> else r) = k) =
      (ci_current r \<and> ci_present r \<and> key_of r = k)"
    by (cases "ci_present r") simp_all
qed

lemma class_cases: "c \<in> set classes_sql \<Longrightarrow> c \<in> set expected_sql \<or> c \<in> set observed_sql"
  by (auto simp: classes_sql_def expected_sql_def observed_sql_def)

lemma classes_apart: "c \<in> set expected_sql \<Longrightarrow> c \<notin> set observed_sql"
  "ClassMissing \<in> set expected_sql" "c \<in> set promoted_sql \<Longrightarrow> c \<in> set expected_sql"
  by (auto simp: expected_sql_def observed_sql_def promoted_sql_def)

text \<open>Nobody is present before the batch is read in.\<close>

definition swept :: "instance_row list \<Rightarrow> bool" where
  "swept rs \<longleftrightarrow> (\<forall>r\<in>set rs. ci_current r \<and> ci_present r \<longrightarrow> ci_class r \<in> set observed_sql)"

lemma swept_mark_absent: "instances_ok rs \<Longrightarrow> swept (mark_absent t rs)"
  unfolding instances_ok_def
  by (auto simp: swept_def mark_absent_def set_map_where) (meson class_cases)

lemma swept_promote: "swept rs \<Longrightarrow> swept (promote_missing c rs)"
  by (auto simp: swept_def promote_missing_def set_map_where)

lemma live_retire_observed: "swept rs \<Longrightarrow> live (retire_observed t rs) = {}"
  unfolding swept_def retire_observed_def set_eq_iff live_iff bex_mw by auto

lemma live_none:
  "instances_ok rs \<Longrightarrow> live (retire_observed t (promote_missing c (mark_absent t rs))) = {}"
  by (intro live_retire_observed swept_promote swept_mark_absent)

lemma live_batch:
  assumes "distinct (map ci_id is)" "distinct (map ci_name is)"
    and "\<forall>k\<in>live rs. fst k \<notin> set (map ci_id is) \<and> fst (snd k) \<notin> set (map ci_name is)"
  shows "live (fold (batch_step t) is rs) = live rs \<union> key_of ` set is"
  using assms
proof (induction "is" arbitrary: rs)
  case Nil then show ?case by simp
next
  case (Cons i "is")
  have one: "live (batch_step t i rs) = live rs \<union> {key_of i}"
    using Cons.prems(3) unfolding batch_step_def live_upsert live_retire_name by auto
  have "live (fold (batch_step t) is (batch_step t i rs)) = live (batch_step t i rs) \<union> key_of ` set is"
  proof (rule Cons.IH)
    show "\<forall>k\<in>live (batch_step t i rs). fst k \<notin> set (map ci_id is) \<and> fst (snd k) \<notin> set (map ci_name is)"
      using Cons.prems unfolding one by auto
  qed (use Cons.prems in simp_all)
  then show ?case by (auto simp: one)
qed

lemma ok_batch_step: "instances_ok rs \<Longrightarrow> row_class i \<in> set classes_sql \<Longrightarrow> instances_ok (batch_step t i rs)"
  unfolding batch_step_def by (intro ok_upsert ok_retire_name retire_name_free)

text \<open>An expected container that the batch does not touch.\<close>

definition absent_row :: "instant \<Rightarrow> duration \<Rightarrow> instance_row \<Rightarrow> instance_row" where
  "absent_row t grace r =
    (let a = (case ci_absent r of None \<Rightarrow> t | Some x \<Rightarrow> x) in
     r\<lparr>ci_present := False, ci_absent := Some a,
       ci_class := (if ci_class r \<in> set promoted_sql \<and> text_le (formatTime a) (formatTime (t - grace))
                    then ClassMissing else ci_class r)\<rparr>)"

definition untouched :: "inventory_batch \<Rightarrow> instance_row \<Rightarrow> bool" where
  "untouched b r \<longleftrightarrow>
    (\<forall>i\<in>set (ib_instances b). ci_id i \<noteq> ci_id r \<and> ci_name i \<noteq> ci_name r)"

definition taken_over :: "inventory_batch \<Rightarrow> instance_row \<Rightarrow> bool" where
  "taken_over b r \<longleftrightarrow>
    (\<exists>i\<in>set (ib_instances b).
      (ci_service r \<noteq> [] \<and> ci_service i = ci_service r) \<or>
      (ci_project r \<noteq> [] \<and> ci_compose r \<noteq> [] \<and> ci_project i = ci_project r \<and> ci_compose i = ci_compose r))"

lemma absent_row_keys [simp]:
  "ci_id (absent_row t g r) = ci_id r" "ci_name (absent_row t g r) = ci_name r"
  "ci_current (absent_row t g r) = ci_current r" "ci_present (absent_row t g r) = False"
  "ci_service (absent_row t g r) = ci_service r" "ci_project (absent_row t g r) = ci_project r"
  "ci_compose (absent_row t g r) = ci_compose r"
  by (simp_all add: absent_row_def Let_def)

lemma swept_absent_row:
  assumes r: "r \<in> set rs" "ci_current r" "ci_class r \<in> set expected_sql"
  shows "absent_row t g r \<in> set (retire_observed t (promote_missing (t - g) (mark_absent t rs)))"
proof -
  let ?a = "case ci_absent r of None \<Rightarrow> t | Some x \<Rightarrow> x"
  let ?m = "r\<lparr>ci_current := True, ci_present := False, ci_absent := Some ?a\<rparr>"
  have m: "?m \<in> set (mark_absent t rs)"
    unfolding mark_absent_def set_map_where by (rule bexI [OF _ r(1)]) (simp add: r)
  have cur: "ci_current (absent_row t g r)" using r(2) by simp
  have "absent_row t g r = (if ci_class ?m \<in> set promoted_sql \<and> text_le (formatTime ?a) (formatTime (t - g))
      then ?m\<lparr>ci_class := ClassMissing\<rparr> else ?m)"
    using r(2) by (simp add: absent_row_def Let_def)
  then have p: "absent_row t g r \<in> set (promote_missing (t - g) (mark_absent t rs))"
    unfolding promote_missing_def set_map_where by (intro bexI [OF _ m]) simp
  have "ci_class (absent_row t g r) \<in> set expected_sql"
    using r(3) classes_apart by (simp add: absent_row_def Let_def)
  then have "ci_class (absent_row t g r) \<notin> set observed_sql" by (rule classes_apart)
  then show ?thesis unfolding retire_observed_def set_map_where by (intro bexI [OF _ p]) simp
qed

lemma batch_step_keeps:
  "r \<in> set rs \<Longrightarrow> ci_id i \<noteq> ci_id r \<Longrightarrow> ci_name i \<noteq> ci_name r \<Longrightarrow> r \<in> set (batch_step t i rs)"
proof -
  assume r: "r \<in> set rs" "ci_id i \<noteq> ci_id r" "ci_name i \<noteq> ci_name r"
  have "r \<in> set (retire_name t i rs)"
    unfolding retire_name_def set_map_where using r by (intro bexI [OF _ r(1)]) simp
  then have "r \<in> set (upsert_row t i (retire_name t i rs))"
    unfolding upsert_row_def set_map_where if_distrib [of set] using r(2)
    by (auto simp: set_map_where intro!: bexI [of _ r])
  then show "r \<in> set (batch_step t i rs)" by (simp add: batch_step_def)
qed

lemma batch_steps_keep:
  "r \<in> set rs \<Longrightarrow> \<forall>i\<in>set is. ci_id i \<noteq> ci_id r \<and> ci_name i \<noteq> ci_name r \<Longrightarrow>
    r \<in> set (fold (batch_step t) is rs)"
  by (induction "is" arbitrary: rs) (simp_all add: batch_step_keeps)

text \<open>Whatever batch is reconciled and whatever statement fails, Docker identities stay
  unique, at most one current container has a given name, and every class is one of the five of
  the schema.\<close>

theorem Reconcile_keeps_inventory:
  "keeps inventory_ok (containers_Reconcile now b)"
  by (rule keeps_containers_Reconcile)

text \<open>C6: A complete batch in which no name stands twice, once reconciled, decides what is present:
  the current and present rows are exactly its containers, with their names and owners.  A
  container that was expected and that the batch neither holds nor replaces stays on the books as
  absent, since when it was first missed, and turns into a missing one after the grace period.\<close>

theorem Reconcile_complete:
  assumes "inventory_ok w" and "containers_Reconcile now b w = (Inr u, w')" and "ib_complete b"
    and "distinct (map ci_name (ib_instances b))"
  shows "live (sw_instances w') = key_of ` set (ib_instances b) \<and>
    (\<forall>r\<in>set (sw_instances w). ci_current r \<and> ci_class r \<in> set expected_sql \<and> untouched b r \<and> \<not> taken_over b r \<longrightarrow>
      absent_row (batch_time now b) (ib_grace b) r \<in> set (sw_instances w'))"
proof -
  let ?t = "batch_time now b"
  let ?swept = "retire_observed ?t (promote_missing (?t - ib_grace b) (mark_absent ?t (sw_instances w)))"
  let ?rows = "fold (batch_step ?t) (ib_instances b) ?swept"
  have rows: "sw_instances w' = retire_replaced ?rows" and ids: "distinct (map ci_id (ib_instances b))"
    using Reconcile_returned [OF assms(2)] assms(3) by (simp_all add: batch_rows_def)
  have none: "live ?swept = {}" using assms(1) by (simp add: live_none inventory_ok_def)
  have live: "live ?rows = key_of ` set (ib_instances b)"
    using live_batch [OF ids assms(4), of ?swept ?t] none by simp
  have keep: "absent_row ?t (ib_grace b) r \<in> set (retire_replaced ?rows)"
    if r: "r \<in> set (sw_instances w)" "ci_current r" "ci_class r \<in> set expected_sql" "untouched b r"
      and no: "\<not> taken_over b r" for r
  proof -
    let ?a = "absent_row ?t (ib_grace b) r"
    have a: "?a \<in> set ?rows"
      using r(4) by (intro batch_steps_keep swept_absent_row [OF r(1-3)]) (simp add: untouched_def)
    have "\<not> list_ex (\<lambda>x. replaces x ?a) ?rows"
    proof
      assume "list_ex (\<lambda>x. replaces x ?a) ?rows"
      then obtain x where x: "x \<in> set ?rows" "replaces x ?a" by (auto simp: list_ex_iff)
      then have "key_of x \<in> live ?rows" by (auto simp: live_iff replaces_def)
      then obtain i where "i \<in> set (ib_instances b)" "key_of x = key_of i" using live by auto
      then show False using x(2) no by (auto simp: replaces_def taken_over_def key_of_def)
    qed
    then show ?thesis unfolding retire_replaced_def set_map_where by (intro bexI [OF _ a]) simp
  qed
  show ?thesis using live keep by (simp add: rows live_retire_replaced)
qed

text \<open>Without faults a batch that passes the checks goes in.\<close>

lemma with_instances_faults [simp]: "faults (with_instances f w) = faults w"
  by (simp add: with_instances_def)

lemma reconcile_one_run:
  "faults w = [] \<Longrightarrow> row_class i \<in> set classes_sql \<Longrightarrow>
    reconcile_one t i w = (Inr (), with_instances (batch_step t i) w)"
  by (simp add: reconcile_one_def upsertContainer_def andthen_def bindE_def modify_def guardE_def ret_def
      with_instances_def batch_step_def)

lemma reconcile_all_run:
  "faults w = [] \<Longrightarrow> \<forall>i\<in>set is. row_class i \<in> set classes_sql \<Longrightarrow>
    \<exists>w'. for_each (reconcile_one t) is w = (Inr (), w') \<and> faults w' = []"
proof (induction "is" arbitrary: w)
  case Nil then show ?case by (simp add: ret_def)
next
  case (Cons i "is")
  then show ?case by (simp add: andthen_def bindE_def reconcile_one_run)
qed

lemma mark_expected_run:
  "faults w = [] \<Longrightarrow> \<exists>w'. mark_expected t g w = (Inr (), w') \<and> faults w' = []"
  by (simp add: mark_expected_def andthen_def bindE_def modify_def)

lemma Reconcile_succeeds:
  assumes "faults w = []" "validateInventoryBatch b = Inr ()"
    "\<forall>i\<in>set (ib_instances b). row_class i \<in> set classes_sql"
  shows "fst (containers_Reconcile now b w) = Inr ()"
proof -
  let ?t = "batch_time now b"
  obtain w1 where m: "(if ib_complete b then mark_expected ?t (ib_grace b) else ret ()) w = (Inr (), w1)"
    and f1: "faults w1 = []"
    using assms(1) mark_expected_run [OF assms(1), of ?t "ib_grace b"] by (cases "ib_complete b") (auto simp: ret_def)
  obtain w2 where e: "for_each (reconcile_one ?t) (ib_instances b) w1 = (Inr (), w2)" and f2: "faults w2 = []"
    using reconcile_all_run [OF f1 assms(3)] by blast
  have "fst (reconcile_body ?t b w) = Inr ()"
    unfolding reconcile_body_def andthen_def retire_step_def
    using m e f2 by (cases "ib_complete b") (simp_all add: bindE_def modify_def ret_def)
  then obtain w3 where "reconcile_body ?t b w = (Inr (), w3)" by (metis prod.collapse)
  then show ?thesis
    unfolding containers_Reconcile_def Let_def batch_time_def [symmetric]
    by (simp add: andthen_def bindE_def of_result_def assms ret_def tx_def)
qed

definition sample_batch :: inventory_batch where
  "sample_batch =
    \<lparr>ib_observed = 5, ib_instances = [sample_instance ''b'' ''db'' ClassUnknown], ib_complete = True,
     ib_grace = 240, ib_error = []\<rparr>"

lemma sample_inventory_ok: "inventory_ok sample_sec_world"
  by (simp add: inventory_ok_def instances_ok_def sample_sec_world_def sample_instance_def)

lemma sample_reconciles: "fst (containers_Reconcile 5 sample_batch sample_sec_world) = Inr ()"
proof (rule Reconcile_succeeds)
  show "validateInventoryBatch sample_batch = Inr ()"
  proof -
    have "list_all plain ''b''" "list_all plain ''db''" by code_simp+
    then show ?thesis
      by (simp add: validateInventoryBatch_def sample_batch_def sample_instance_def boundedID_def trim_space_plain)
  qed
  have "row_class (sample_instance ''b'' ''db'' ClassUnknown) \<in> set classes_sql" by code_simp
  then show "\<forall>i\<in>set (ib_instances sample_batch). row_class i \<in> set classes_sql"
    by (simp add: sample_batch_def)
qed (simp add: sample_sec_world_def)

lemma Reconcile_complete_witness:
  "live (sw_instances (snd (containers_Reconcile 5 sample_batch sample_sec_world))) =
    {key_of (sample_instance ''b'' ''db'' ClassUnknown)}"
  using Reconcile_complete [OF sample_inventory_ok, of 5 sample_batch "()"] sample_reconciles
  by (simp add: prod_eq_iff sample_batch_def sample_instance_def)

end
