(* ===== verification/Security.thy ===== *)
theory Security
  imports Containers
begin

text \<open>
  The security store (\<open>internal/store/security.go\<close>) and the cursors of the collectors
  (\<open>internal/store/maintenance.go\<close>): activation, approvals, ignores, classification, the
  episodes of the findings, suppressions and policies.  A transaction is \<open>tx\<close>.  References of
  baselines and ignores to the inventory hold because both are written after the row was found.
  \<open>json.Marshal\<close> cannot fail on these types; its texts count for the hash and the size limit.
\<close>

abbreviation FindingOpen :: gostring where "FindingOpen \<equiv> ''open''"
abbreviation FindingAcknowledged :: gostring where "FindingAcknowledged \<equiv> ''acknowledged''"
abbreviation FindingResolved :: gostring where "FindingResolved \<equiv> ''resolved''"
abbreviation FindingSuppressed :: gostring where "FindingSuppressed \<equiv> ''suppressed''"

definition is_active :: "finding \<Rightarrow> bool" where
  "is_active f \<longleftrightarrow> fd_status f \<in> {FindingOpen, FindingAcknowledged, FindingSuppressed}"

section \<open>Fingerprints\<close>

fun json_mount :: "safe_mount \<Rightarrow> gostring" where
  "json_mount m =
    json_object
     [(''type'', json_string (mt_type m)), (''destination'', json_string (mt_destination m)),
      (''writable'', json_bool (mt_writable m))]"

text \<open>The comparison of the mounts looks at type and destination; the sort is taken to be stable.\<close>

definition sort_mounts :: "safe_mount list \<Rightarrow> safe_mount list" where
  "sort_mounts ms = sort_key mt_type (sort_key mt_destination ms)"

text \<open>Sorting collects into a nil slice, so no ports are \<open>null\<close>.\<close>

definition canonical_ports :: "gostring list \<Rightarrow> gostring" where
  "canonical_ports ps = (if ps = [] then ''null'' else json_array json_string (sort ps))"

definition canonical_head :: "inspection \<Rightarrow> (gostring \<times> gostring) list" where
  "canonical_head v =
    [(''User'', json_string (in_user v)), (''EntrypointHash'', json_string (in_entrypoint v)),
     (''CommandHash'', json_string (in_command v)), (''PIDMode'', json_string (in_pid v)),
     (''IPCMode'', json_string (in_ipc v)), (''NetworkMode'', json_string (in_network v)),
     (''RestartPolicy'', json_string (in_restart v)), (''Privileged'', json_bool (in_privileged v)),
     (''ReadonlyRootFS'', json_bool (in_readonly v)), (''HasDockerSocket'', json_bool (in_socket v))]"

definition canonical_caps :: "gostring list option \<Rightarrow> gostring" where
  "canonical_caps cs = json_nullable (json_array json_string) (map_option sort cs)"

definition canonical_tail :: "inspection \<Rightarrow> (gostring \<times> gostring) list" where
  "canonical_tail v =
    [(''MemoryBytes'', itoa (in_memory v)), (''NanoCPUs'', itoa (in_cpus v)),
     (''PIDsLimit'', json_nullable itoa (in_pids v)),
     (''Mounts'', json_nullable (json_array json_mount) (map_option sort_mounts (in_mounts v))),
     (''PublishedPorts'', canonical_ports (in_ports v))]"

definition canonical_inspection :: "inspection \<Rightarrow> gostring" where
  "canonical_inspection v =
    json_object (canonical_head v @ (''CapAdd'', canonical_caps (in_caps v)) # canonical_tail v)"

definition FingerprintInspection :: "inspection \<Rightarrow> gostring" where
  "FingerprintInspection v = sha256_hex (canonical_inspection v)"

definition findingFingerprint :: "gostring \<Rightarrow> gostring \<Rightarrow> gostring \<Rightarrow> gostring" where
  "findingFingerprint cid rule base = sha256_hex (cid @ CHR 0x00 # rule @ CHR 0x00 # base)"

section \<open>Activation, approval, ignores\<close>

definition security_Activation :: "('z sec_world_scheme, err, instant option \<times> gostring) prog" where
  "security_Activation =
    andthen (stmt (ErrOther ''reading security activation'')) (gets sw_activation)"

definition security_Activate ::
  "instant \<Rightarrow> gostring \<Rightarrow> ('z sec_world_scheme, err, instant option \<times> gostring) prog" where
  "security_Activate now actor =
    andthen (guardE (trim_space actor \<noteq> []) (ErrOther ''activating security: actor is required''))
    (andthen (stmt (ErrOther ''activating security''))
    (andthen (modify (\<lambda>w. w\<lparr>sw_activation :=
        (case fst (sw_activation w) of
           None \<Rightarrow> (Some now, actor) | Some moment \<Rightarrow> (Some moment, snd (sw_activation w)))\<rparr>))
     security_Activation))"

definition security_audit :: "instant \<Rightarrow> gostring \<Rightarrow> gostring \<Rightarrow> gostring \<Rightarrow> audit" where
  "security_audit now actor action detail =
    \<lparr>au_id = 0, au_service = None, au_actor = actor, au_action = action, au_result = AuditSuccess,
     au_detail = detail, au_at = now\<rparr>"

definition insertSecurityAudit ::
  "instant \<Rightarrow> gostring \<Rightarrow> gostring \<Rightarrow> gostring \<Rightarrow> ('z sec_world_scheme, err, unit) prog" where
  "insertSecurityAudit now actor action detail =
    andthen (stmt (ErrOther ''inserting atomic security audit''))
    (bindE (gets (audit_insert_ok (security_audit now actor action detail))) (\<lambda>ok.
     andthen (guardE ok (ErrOther ''inserting atomic security audit''))
      (modify (\<lambda>w. w\<lparr>audits :=
         t_insert (\<lambda>i r. r\<lparr>au_id := i\<rparr>) (security_audit now actor action detail) (audits w)\<rparr>))))"

text \<open>An UPDATE of one row that must exist, with the error for no row.\<close>

definition update_instance ::
  "gostring \<Rightarrow> gostring \<Rightarrow> (instance_row \<Rightarrow> instance_row) \<Rightarrow> ('z sec_world_scheme, err, unit) prog" where
  "update_instance what cid f =
    andthen (stmt (ErrOther what))
    (bindE (gets (instance_of cid)) (\<lambda>r.
     andthen (guardE (r \<noteq> None) (ErrContainerNotFound cid))
      (modify (with_instances (map_where (\<lambda>r. ci_id r = cid) f)))))"

record approval =
  ap_container :: gostring
  ap_image_fp :: gostring
  ap_config_fp :: gostring
  ap_actor :: gostring
  ap_at :: instant

definition same_baseline :: "approval \<Rightarrow> baseline \<Rightarrow> bool" where
  "same_baseline a b \<longleftrightarrow>
    bl_container b = ap_container a \<and> bl_image_fp b = ap_image_fp a \<and> bl_config_fp b = ap_config_fp a"

definition save_baseline :: "approval \<Rightarrow> baseline table \<Rightarrow> baseline table" where
  "save_baseline a t =
    (if list_ex (same_baseline a) (rows t)
     then t_update (same_baseline a)
       (\<lambda>b. b\<lparr>bl_by := ap_actor a, bl_at := ap_at a, bl_active := True\<rparr>) t
     else t_insert (\<lambda>i r. r\<lparr>bl_id := i\<rparr>)
       \<lparr>bl_id = 0, bl_container = ap_container a, bl_image_fp = ap_image_fp a,
        bl_config_fp = ap_config_fp a, bl_by = ap_actor a, bl_at = ap_at a, bl_active = True\<rparr> t)"

definition retire_baselines :: "gostring \<Rightarrow> baseline table \<Rightarrow> baseline table" where
  "retire_baselines cid = t_update (\<lambda>b. bl_container b = cid) (\<lambda>b. b\<lparr>bl_active := False\<rparr>)"

definition active_baselines :: "gostring \<Rightarrow> 'z sec_world_scheme \<Rightarrow> baseline list" where
  "active_baselines cid w =
    time_desc bl_at (rev (filter (\<lambda>b. bl_container b = cid \<and> bl_active b) (rows (sw_baselines w))))"

definition security_Baseline :: "gostring \<Rightarrow> ('z sec_world_scheme, err, baseline) prog" where
  "security_Baseline cid =
    andthen (stmt (ErrOther ''reading baseline''))
     (bindE (gets (active_baselines cid)) (\<lambda>bs.
      of_option ErrNoRows (case bs of [] \<Rightarrow> None | b # _ \<Rightarrow> Some b)))"

definition approve_body :: "instant \<Rightarrow> approval \<Rightarrow> ('z sec_world_scheme, err, unit) prog" where
  "approve_body audit_now a =
    andthen (update_instance ''classifying approved container'' (ap_container a)
       (\<lambda>r. r\<lparr>ci_class := ClassApproved, ci_image_fp := ap_image_fp a, ci_config_fp := ap_config_fp a\<rparr>))
    (andthen (stmt (ErrOther ''retiring container baseline''))
    (andthen (modify (\<lambda>w. w\<lparr>sw_baselines := retire_baselines (ap_container a) (sw_baselines w)\<rparr>))
    (andthen (stmt (ErrOther ''saving container baseline''))
    (andthen (modify (\<lambda>w. w\<lparr>sw_baselines := save_baseline a (sw_baselines w)\<rparr>))
    (andthen (stmt (ErrOther ''clearing container ignore''))
    (andthen (modify (\<lambda>w. w\<lparr>sw_ignores := filter (\<lambda>g. ig_container g \<noteq> ap_container a) (sw_ignores w)\<rparr>))
    (andthen (insertSecurityAudit audit_now (ap_actor a) ''container_approve''
        (''container_id='' @ ap_container a @ '' image_fingerprint='' @ ap_image_fp a))
     (stmt (ErrOther ''committing container approval'')))))))))"

definition security_Approve ::
  "instant \<Rightarrow> instant \<Rightarrow> approval \<Rightarrow> ('z sec_world_scheme, err, baseline) prog" where
  "security_Approve now audit_now a0 =
    andthen (guardE (ap_container a0 \<noteq> [] \<and> ap_image_fp a0 \<noteq> [] \<and> ap_config_fp a0 \<noteq> [] \<and>
        trim_space (ap_actor a0) \<noteq> [])
      (ErrOther ''approving container: id, fingerprints, and actor are required''))
    (let a = (if is_zero_time (ap_at a0) then a0\<lparr>ap_at := now\<rparr> else a0) in
     andthen (stmt (ErrOther ''beginning container approval''))
     (andthen (tx (approve_body audit_now a))
      (security_Baseline (ap_container a))))"

definition save_ignore :: "container_ignore \<Rightarrow> container_ignore list \<Rightarrow> container_ignore list" where
  "save_ignore g gs =
    (if list_ex (\<lambda>h. ig_container h = ig_container g) gs
     then map_where (\<lambda>h. ig_container h = ig_container g) (\<lambda>_. g) gs
     else gs @ [g])"

definition ignore_body :: "instant \<Rightarrow> container_ignore \<Rightarrow> ('z sec_world_scheme, err, unit) prog" where
  "ignore_body audit_now g =
    andthen (update_instance ''classifying ignored container'' (ig_container g)
       (\<lambda>r. r\<lparr>ci_class := ClassIgnored\<rparr>))
    (andthen (stmt (ErrOther ''saving container ignore''))
    (andthen (modify (\<lambda>w. w\<lparr>sw_ignores := save_ignore g (sw_ignores w)\<rparr>))
    (andthen (insertSecurityAudit audit_now (ig_actor g) ''container_ignore''
        (''container_id='' @ ig_container g @ '' ignore=recorded''))
     (stmt (ErrOther ''committing container ignore'')))))"

definition security_Ignore ::
  "instant \<Rightarrow> instant \<Rightarrow> container_ignore \<Rightarrow> ('z sec_world_scheme, err, container_ignore) prog" where
  "security_Ignore now audit_now g0 =
    (let g1 = g0\<lparr>ig_reason := trim_space (ig_reason g0)\<rparr>;
         g = (if is_zero_time (ig_created g1) then g1\<lparr>ig_created := now\<rparr> else g1)
     in
     andthen (guardE (ig_container g \<noteq> [] \<and> ig_reason g \<noteq> [] \<and> trim_space (ig_actor g) \<noteq> [])
       (ErrOther ''ignoring container: id, reason, and actor are required''))
     (andthen (guardE (ig_non_expiring g \<noteq> (ig_expires g \<noteq> None))
       (ErrOther ''ignoring container: choose expiry or explicit non-expiring''))
     (andthen (guardE (case ig_expires g of None \<Rightarrow> True | Some e \<Rightarrow> ig_created g < e)
       (ErrOther ''ignoring container: expiry must be in the future''))
     (andthen (stmt (ErrOther ''beginning container ignore''))
     (andthen (tx (ignore_body audit_now g)) (ret g))))))"

definition ignore_of :: "gostring \<Rightarrow> 'z sec_world_scheme \<Rightarrow> container_ignore option" where
  "ignore_of cid w = first_where (\<lambda>g. ig_container g = cid) (sw_ignores w)"

definition ignore_active :: "instant \<Rightarrow> container_ignore \<Rightarrow> bool" where
  "ignore_active now g \<longleftrightarrow>
    ig_non_expiring g \<or> (case ig_expires g of None \<Rightarrow> False | Some e \<Rightarrow> now < e)"

definition baseline_matches :: "instance_row \<Rightarrow> baseline \<Rightarrow> bool" where
  "baseline_matches i b \<longleftrightarrow>
    bl_container b = ci_id i \<and> bl_active b \<and> bl_image_fp b = ci_image_fp i \<and> bl_config_fp b = ci_config_fp i"

definition security_Classify ::
  "instance_row \<Rightarrow> instant \<Rightarrow> ('z sec_world_scheme, err, gostring) prog" where
  "security_Classify i now =
    (if ci_service i \<noteq> [] then ret ClassManaged
     else
       andthen (stmt (ErrOther ''reading container ignore''))
       (bindE (gets (ignore_of (ci_id i))) (\<lambda>g.
        if (case g of None \<Rightarrow> False | Some h \<Rightarrow> ignore_active now h) then ret ClassIgnored
        else
          andthen (stmt (ErrOther ''matching container baseline''))
          (bindE (gets (\<lambda>w. t_count (baseline_matches i) (sw_baselines w))) (\<lambda>n.
           ret (if 0 < n then ClassApproved else ClassUnknown))))))"

end
