(* ===== verification/Findings.thy ===== *)
theory Findings
  imports Security
begin

text \<open>
  The episodes of the security findings (\<open>internal/store/security.go\<close>): an observation opens,
  updates, reopens or recovers the one active finding of its fingerprint; operators acknowledge,
  suppress and resolve; suppressions expire.  Also the policies, the listings and the summary.
  \<open>LIMIT 1\<close> without an order takes the first row of the table.
\<close>

section \<open>Observations\<close>

record evaluation =
  se_obs :: observation
  se_baseline :: gostring
  se_service :: gostring

text \<open>\<open>None\<close> is the zero finding of Go, which no caller reads.\<close>

record eval_result =
  er_finding :: "finding option"
  er_opened :: bool
  er_recovered :: bool

definition validateObservation :: "observation \<Rightarrow> err + unit" where
  "validateObservation v =
    (if ob_container v = [] \<or> ob_rule v = [] \<or> ob_category v = [] \<or> ob_severity v = [] \<or>
        ob_confidence v = []
     then Inl (ErrOther ''evaluating security: required bounded fields are missing'')
     else if 128 < length (ob_container v) \<or> 128 < length (ob_rule v) \<or> 32 < length (ob_evidence v)
     then Inl (ErrOther ''evaluating security: bounded fields exceed limits'')
     else if list_ex (\<lambda>(k, i). 64 < length k \<or> 256 < length i) (ob_evidence v)
     then Inl (ErrOther ''evaluating security: evidence exceeds limits'')
     else Inr ())"

definition MaximumSecurityEvidenceBytes :: nat where "MaximumSecurityEvidenceBytes = 32768"

definition update_finding :: "int \<Rightarrow> (finding \<Rightarrow> finding) \<Rightarrow> 'z sec_world_scheme \<Rightarrow> 'z sec_world_scheme" where
  "update_finding i f w = w\<lparr>sw_findings := t_update (\<lambda>r. fd_id r = i) f (sw_findings w)\<rparr>"

definition active_finding :: "gostring \<Rightarrow> 'z sec_world_scheme \<Rightarrow> finding option" where
  "active_finding fp w = t_find (\<lambda>r. fd_fingerprint r = fp \<and> is_active r) (sw_findings w)"

definition findOpenFinding :: "gostring \<Rightarrow> ('z sec_world_scheme, err, finding option) prog" where
  "findOpenFinding fp =
    andthen (stmt (ErrOther ''reading the open finding'')) (gets (active_finding fp))"

definition elapsed :: "instant \<Rightarrow> finding \<Rightarrow> bool" where
  "elapsed moment f \<longleftrightarrow>
    fd_status f = FindingSuppressed \<and> (case fd_until f of None \<Rightarrow> False | Some u \<Rightarrow> \<not> moment < u)"

definition reopen_elapsed ::
  "instant \<Rightarrow> finding option \<Rightarrow> ('z sec_world_scheme, err, finding option \<times> bool) prog" where
  "reopen_elapsed moment opn =
    (case opn of
       None \<Rightarrow> ret (None, False)
     | Some f \<Rightarrow>
        if elapsed moment f then
          andthen (stmt (ErrOther ''expiring finding suppression''))
          (andthen (modify (update_finding (fd_id f)
              (\<lambda>r. r\<lparr>fd_status := FindingOpen, fd_last := moment\<rparr>)))
           (ret (Some (f\<lparr>fd_status := FindingOpen\<rparr>), True)))
        else ret (Some f, False))"

definition seen_again :: "observation \<Rightarrow> finding \<Rightarrow> finding" where
  "seen_again v f =
    f\<lparr>fd_count := fd_count f + 1, fd_last := ob_at v, fd_severity := ob_severity v,
      fd_confidence := ob_confidence v, fd_evidence := ob_evidence v\<rparr>"

definition recovered :: "observation \<Rightarrow> finding \<Rightarrow> finding" where
  "recovered v f =
    f\<lparr>fd_status := FindingResolved, fd_resolved_at := Some (ob_at v), fd_resolved_by := ''collector'',
      fd_last := ob_at v\<rparr>"

definition new_finding :: "gostring \<Rightarrow> int \<Rightarrow> observation \<Rightarrow> finding" where
  "new_finding fp episode v =
    \<lparr>fd_id = 0, fd_fingerprint = fp, fd_episode = episode, fd_container = ob_container v,
     fd_rule = ob_rule v, fd_category = ob_category v, fd_severity = ob_severity v,
     fd_confidence = ob_confidence v, fd_status = FindingOpen, fd_count = 1, fd_opened = ob_at v,
     fd_last = ob_at v, fd_evidence = ob_evidence v, fd_ack_at = None, fd_ack_by = [],
     fd_resolved_at = None, fd_resolved_by = [], fd_until = None, fd_reason = [], fd_actor = [],
     fd_notified = []\<rparr>"

definition next_episode :: "gostring \<Rightarrow> 'z sec_world_scheme \<Rightarrow> int" where
  "next_episode fp w =
    fold max (map fd_episode (filter (\<lambda>r. fd_fingerprint r = fp) (rows (sw_findings w)))) 0 + 1"

definition finding_insert_ok :: "finding \<Rightarrow> 'z sec_world_scheme \<Rightarrow> bool" where
  "finding_insert_ok f w \<longleftrightarrow>
    (\<forall>r\<in>set (rows (sw_findings w)). fd_fingerprint r = fd_fingerprint f \<longrightarrow>
      fd_episode r \<noteq> fd_episode f \<and> \<not> is_active r)"

definition insertFinding ::
  "gostring \<Rightarrow> int \<Rightarrow> observation \<Rightarrow> ('z sec_world_scheme, err, finding) prog" where
  "insertFinding fp episode v =
    andthen (stmt (ErrOther ''opening security finding''))
    (bindE (gets (finding_insert_ok (new_finding fp episode v))) (\<lambda>ok.
     andthen (guardE ok (ErrOther ''opening security finding''))
    (andthen (modify (\<lambda>w. w\<lparr>sw_findings :=
        t_insert (\<lambda>i r. r\<lparr>fd_id := i\<rparr>) (new_finding fp episode v) (sw_findings w)\<rparr>))
    (andthen (stmt (ErrOther ''reading finding id''))
     (gets (\<lambda>w. (new_finding fp episode v)\<lparr>fd_id := seq (sw_findings w)\<rparr>))))))"

definition open_episode :: "gostring \<Rightarrow> observation \<Rightarrow> ('z sec_world_scheme, err, finding) prog" where
  "open_episode fp v =
    andthen (stmt (ErrOther ''selecting finding episode''))
     (bindE (gets (next_episode fp)) (\<lambda>episode. insertFinding fp episode v))"

definition apply_observation ::
  "gostring \<Rightarrow> observation \<Rightarrow> finding option \<Rightarrow> bool \<Rightarrow> ('z sec_world_scheme, err, eval_result) prog" where
  "apply_observation fp v opn reopened =
    (if ob_detected v then
       (case opn of
          Some f \<Rightarrow>
            andthen (stmt (ErrOther ''updating security episode''))
            (andthen (modify (update_finding (fd_id f) (seen_again v)))
             (ret \<lparr>er_finding = Some (seen_again v f), er_opened = reopened, er_recovered = False\<rparr>))
        | None \<Rightarrow>
            bindE (open_episode fp v) (\<lambda>f.
              ret \<lparr>er_finding = Some f, er_opened = True, er_recovered = False\<rparr>))
     else
       (case opn of
          Some f \<Rightarrow>
            if ob_complete v then
              andthen (stmt (ErrOther ''resolving recovered finding''))
              (andthen (modify (update_finding (fd_id f) (recovered v)))
               (ret \<lparr>er_finding = Some (recovered v f), er_opened = False, er_recovered = True\<rparr>))
            else ret \<lparr>er_finding = None, er_opened = False, er_recovered = False\<rparr>
        | None \<Rightarrow> ret \<lparr>er_finding = None, er_opened = False, er_recovered = False\<rparr>))"

definition record_transition :: "observation \<Rightarrow> eval_result \<Rightarrow> ('z sec_world_scheme, err, unit) prog" where
  "record_transition v r =
    (if er_opened r \<or> er_recovered r then
       andthen (stmt (ErrOther ''inserting security observation transition''))
        (modify (\<lambda>w. w\<lparr>sw_observations := t_insert (\<lambda>i (j, x). (i, x)) (0, v) (sw_observations w)\<rparr>))
     else ret ())"

definition evaluate_body ::
  "gostring \<Rightarrow> observation \<Rightarrow> ('z sec_world_scheme, err, eval_result) prog" where
  "evaluate_body fp v =
    bindE (findOpenFinding fp) (\<lambda>opn.
    bindE (reopen_elapsed (ob_at v) opn) (\<lambda>(opn', reopened).
    bindE (apply_observation fp v opn' reopened) (\<lambda>r.
    andthen (record_transition v r)
    (andthen (stmt (ErrOther ''committing security evaluation'')) (ret r)))))"

definition observed :: "instant \<Rightarrow> observation \<Rightarrow> observation" where
  "observed now v = (if is_zero_time (ob_at v) then v\<lparr>ob_at := now\<rparr> else v)"

definition evaluation_fingerprint :: "evaluation \<Rightarrow> gostring" where
  "evaluation_fingerprint e =
    findingFingerprint (ob_container (se_obs e)) (ob_rule (se_obs e)) (se_baseline e)"

definition store_Evaluate :: "instant \<Rightarrow> evaluation \<Rightarrow> ('z sec_world_scheme, err, eval_result) prog" where
  "store_Evaluate now e =
    andthen (of_result (validateObservation (se_obs e)))
    (andthen (guardE (length (json_map (ob_evidence (se_obs e))) \<le> MaximumSecurityEvidenceBytes)
       (ErrOther ''evaluating security: evidence metadata exceeds 32 KiB''))
    (andthen (stmt (ErrOther ''beginning security evaluation''))
     (tx (evaluate_body (evaluation_fingerprint e) (observed now (se_obs e))))))"

section \<open>Suppressions that run out\<close>

text \<open>The statements compare the stored text of the deadline.\<close>

definition expired :: "instant \<Rightarrow> finding \<Rightarrow> bool" where
  "expired now f \<longleftrightarrow>
    fd_status f = FindingSuppressed \<and>
    (case fd_until f of None \<Rightarrow> False | Some u \<Rightarrow> text_le (formatTime u) (formatTime now))"

definition finding_by_id :: "int \<Rightarrow> 'z sec_world_scheme \<Rightarrow> finding option" where
  "finding_by_id i w = t_find (\<lambda>r. fd_id r = i) (sw_findings w)"

definition findingByID :: "int \<Rightarrow> ('z sec_world_scheme, err, finding) prog" where
  "findingByID i =
    andthen (stmt (ErrOther ''reading finding'')) (bindE (gets (finding_by_id i)) (of_option ErrNoRows))"

definition expiredSuppressionIDs :: "instant \<Rightarrow> ('z sec_world_scheme, err, int list) prog" where
  "expiredSuppressionIDs now =
    andthen (stmt (ErrOther ''listing expired suppressions''))
    (andthen (stmt (ErrOther ''iterating expired suppressions''))
     (gets (\<lambda>w. map fd_id (filter (expired now) (rows (sw_findings w))))))"

definition expire_one :: "instant \<Rightarrow> int \<Rightarrow> ('z sec_world_scheme, err, int option) prog" where
  "expire_one now i =
    andthen (stmt (ErrOther ''expiring suppression''))
    (bindE (gets (\<lambda>w. t_count (\<lambda>r. fd_id r = i \<and> expired now r) (sw_findings w))) (\<lambda>n.
     andthen (modify (\<lambda>w. w\<lparr>sw_findings :=
        t_update (\<lambda>r. fd_id r = i \<and> expired now r) (\<lambda>r. r\<lparr>fd_status := FindingOpen\<rparr>) (sw_findings w)\<rparr>))
      (ret (if 0 < n then Some i else None))))"

fun somes :: "'a option list \<Rightarrow> 'a list" where
  "somes [] = []"
| "somes (None # xs) = somes xs"
| "somes (Some x # xs) = x # somes xs"

definition ExpireSuppressions :: "instant \<Rightarrow> ('z sec_world_scheme, err, finding list) prog" where
  "ExpireSuppressions now =
    bindE (expiredSuppressionIDs now) (\<lambda>ids.
    if ids = [] then ret []
    else
      andthen (stmt (ErrOther ''beginning suppression expiry''))
      (bindE (tx (bindE (map_each (expire_one now) ids) (\<lambda>done_ids.
          andthen (stmt (ErrOther ''committing suppression expiry'')) (ret (somes done_ids))))) (\<lambda>moved.
       bindE (map_each findingByID moved) (\<lambda>fs.
        ret (filter (\<lambda>f. fd_status f = FindingOpen) fs)))))"

section \<open>Operator actions\<close>

text \<open>An operator action: one guarded UPDATE, its audit row, one commit, then the row read back.\<close>

definition finding_action ::
  "instant \<Rightarrow> gostring \<Rightarrow> gostring \<Rightarrow> (finding \<Rightarrow> bool) \<Rightarrow> (finding \<Rightarrow> finding) \<Rightarrow> int \<Rightarrow>
    ('z sec_world_scheme, err, finding) prog" where
  "finding_action audit_now actor action P f i =
    andthen (stmt (ErrOther ''beginning finding update''))
    (andthen (tx
      (andthen (stmt (ErrOther ''updating finding''))
      (bindE (gets (\<lambda>w. t_count (\<lambda>r. fd_id r = i \<and> P r) (sw_findings w))) (\<lambda>n.
       andthen (modify (\<lambda>w. w\<lparr>sw_findings := t_update (\<lambda>r. fd_id r = i \<and> P r) f (sw_findings w)\<rparr>))
      (andthen (guardE (0 < n) ErrNoRows)
      (andthen (insertSecurityAudit audit_now actor action (''security object '' @ itoa i))
       (stmt (ErrOther ''committing finding update''))))))))
     (findingByID i))"

definition Acknowledge ::
  "instant \<Rightarrow> instant \<Rightarrow> int \<Rightarrow> gostring \<Rightarrow> ('z sec_world_scheme, err, finding) prog" where
  "Acknowledge now audit_now i actor =
    andthen (guardE (trim_space actor \<noteq> []) (ErrOther ''updating finding: actor is required''))
     (finding_action audit_now actor ''security_acknowledge''
       (\<lambda>f. fd_status f = FindingOpen)
       (\<lambda>f. f\<lparr>fd_status := FindingAcknowledged, fd_ack_at := Some now, fd_ack_by := actor\<rparr>) i)"

definition Resolve ::
  "instant \<Rightarrow> instant \<Rightarrow> int \<Rightarrow> gostring \<Rightarrow> ('z sec_world_scheme, err, finding) prog" where
  "Resolve now audit_now i actor =
    andthen (guardE (trim_space actor \<noteq> []) (ErrOther ''updating finding: actor is required''))
     (finding_action audit_now actor ''security_resolve'' is_active
       (\<lambda>f. f\<lparr>fd_status := FindingResolved, fd_resolved_at := Some now, fd_resolved_by := actor\<rparr>) i)"

record suppression =
  sp_actor :: gostring
  sp_reason :: gostring
  sp_until :: "instant option"

definition Suppress ::
  "instant \<Rightarrow> instant \<Rightarrow> int \<Rightarrow> suppression \<Rightarrow> ('z sec_world_scheme, err, finding) prog" where
  "Suppress now audit_now i s =
    andthen (guardE (trim_space (sp_actor s) \<noteq> [] \<and> trim_space (sp_reason s) \<noteq> [])
      (ErrOther ''suppressing finding: actor and reason are required''))
    (andthen (guardE (case sp_until s of None \<Rightarrow> True | Some u \<Rightarrow> now < u)
      (ErrOther ''suppressing finding: until must be in the future''))
     (finding_action audit_now (sp_actor s) ''security_suppress''
       (\<lambda>f. fd_status f \<in> {FindingOpen, FindingAcknowledged})
       (\<lambda>f. f\<lparr>fd_status := FindingSuppressed, fd_until := sp_until s, fd_reason := sp_reason s,
             fd_actor := sp_actor s\<rparr>) i))"

definition SetNotificationStatus :: "int \<Rightarrow> gostring \<Rightarrow> ('z sec_world_scheme, err, unit) prog" where
  "SetNotificationStatus i st =
    andthen (stmt (ErrOther ''updating finding notification status''))
     (modify (update_finding i (\<lambda>r. r\<lparr>fd_notified := st\<rparr>)))"

end
