(* ===== verification/Policies.thy ===== *)
theory Policies
  imports Findings
begin

text \<open>
  The rest of the security store (\<open>internal/store/security.go\<close>): policies by scope, the
  listings and the summary of the findings; and the cursors of the collectors
  (\<open>internal/store/maintenance.go\<close>).  A policy is stored as the JSON of its body, so a row
  is the body with the columns id, scope, scope id, author and time.
\<close>

section \<open>Policies\<close>

definition no_policy :: policy where
  "no_policy =
    \<lparr>po_id = 0, po_scope = [], po_scope_id = [], po_privileged = False, po_host_pid = False,
     po_host_network = False, po_socket = False, po_root = False, po_writable_root = False,
     po_caps = [], po_ports = [], po_executables = [], po_writable = [], po_by = [], po_at = zero_time\<rparr>"

text \<open>What \<open>encodePolicy\<close> writes: the body alone.\<close>

definition encodePolicy :: "policy \<Rightarrow> policy" where
  "encodePolicy p = p\<lparr>po_id := 0, po_scope := [], po_scope_id := [], po_by := [], po_at := zero_time\<rparr>"

definition policy_row :: "gostring \<Rightarrow> gostring \<Rightarrow> 'z sec_world_scheme \<Rightarrow> policy option" where
  "policy_row scope sid w = t_find (\<lambda>p. po_scope p = scope \<and> po_scope_id p = sid) (sw_policies w)"

fun first_policy :: "(gostring \<times> gostring) list \<Rightarrow> ('z sec_world_scheme, err, policy) prog" where
  "first_policy [] = ret no_policy"
| "first_policy ((scope, sid) # qs) =
    (if scope \<noteq> ''global'' \<and> sid = [] then first_policy qs
     else
       andthen (stmt (ErrOther ''reading security policy''))
       (bindE (gets (policy_row scope sid)) (\<lambda>p.
        case p of None \<Rightarrow> first_policy qs | Some q \<Rightarrow> ret (encodePolicy q))))"

definition PolicyFor :: "gostring \<Rightarrow> gostring \<Rightarrow> ('z sec_world_scheme, err, policy) prog" where
  "PolicyFor service cid = first_policy [(''container'', cid), (''service'', service), (''global'', [])]"

definition Policy :: "gostring \<Rightarrow> ('z sec_world_scheme, err, policy) prog" where
  "Policy service = PolicyFor service []"

definition PolicyList :: "('z sec_world_scheme, err, policy list) prog" where
  "PolicyList =
    andthen (stmt (ErrOther ''listing security policies''))
    (andthen (stmt (ErrOther ''iterating security policies''))
     (gets (\<lambda>w. sort_key po_scope (sort_key po_scope_id (rows (sw_policies w))))))"

definition SecurityPolicy :: "int \<Rightarrow> ('z sec_world_scheme, err, policy) prog" where
  "SecurityPolicy i =
    andthen (stmt (ErrOther ''reading security policy''))
     (bindE (gets (\<lambda>w. t_find (\<lambda>p. po_id p = i) (sw_policies w))) (of_option ErrNoRows))"

definition bad_allowed :: "gostring \<Rightarrow> bool" where
  "bad_allowed v \<longleftrightarrow>
    trim_space v = [] \<or> 256 < length v \<or> list_ex (\<lambda>c. code c \<in> {13, 10, 0}) v"

fun check_allowlists :: "gostring list list \<Rightarrow> err + unit" where
  "check_allowlists [] = Inr ()"
| "check_allowlists (vs # rest) =
    (if 128 < length vs then Inl (ErrOther ''security policy allowlist is too large'')
     else if list_ex bad_allowed vs
     then Inl (ErrOther ''security policy contains an invalid allowlist value'')
     else check_allowlists rest)"

definition validatePolicy :: "policy \<Rightarrow> gostring \<Rightarrow> err + unit" where
  "validatePolicy p actor =
    (if trim_space actor = [] then Inl (ErrOther ''security policy actor is required'')
     else if po_scope p = ''global'' \<and> po_scope_id p \<noteq> []
     then Inl (ErrOther ''global security policy must not have a scope id'')
     else if po_scope p \<in> {''service'', ''container''} \<and> trim_space (po_scope_id p) = []
     then Inl (ErrOther ''scoped security policy requires a scope id'')
     else if po_scope p \<notin> {''global'', ''service'', ''container''}
     then Inl (ErrOther ''security policy scope must be global, service, or container'')
     else check_allowlists [po_caps p, po_ports p, po_executables p, po_writable p])"

definition policy_insert_ok :: "policy \<Rightarrow> 'z sec_world_scheme \<Rightarrow> bool" where
  "policy_insert_ok p w \<longleftrightarrow> policy_row (po_scope p) (po_scope_id p) w = None"

definition stored_policy :: "instant \<Rightarrow> gostring \<Rightarrow> policy \<Rightarrow> policy" where
  "stored_policy now actor p =
    (encodePolicy p)\<lparr>po_scope := po_scope p, po_scope_id := po_scope_id p, po_by := actor, po_at := now\<rparr>"

definition create_policy_body ::
  "instant \<Rightarrow> instant \<Rightarrow> policy \<Rightarrow> gostring \<Rightarrow> ('z sec_world_scheme, err, int) prog" where
  "create_policy_body now audit_now p actor =
    andthen (stmt (ErrOther ''creating security policy''))
    (bindE (gets (policy_insert_ok p)) (\<lambda>ok.
     andthen (guardE ok (ErrOther ''creating security policy''))
    (andthen (modify (\<lambda>w. w\<lparr>sw_policies :=
        t_insert (\<lambda>i r. r\<lparr>po_id := i\<rparr>) (stored_policy now actor p) (sw_policies w)\<rparr>))
    (andthen (stmt (ErrOther ''reading policy id''))
    (bindE (gets (\<lambda>w. seq (sw_policies w))) (\<lambda>i.
     andthen (insertSecurityAudit audit_now actor ''security_policy_create'' (''security object '' @ itoa i))
    (andthen (stmt (ErrOther ''committing security policy creation'')) (ret i))))))))"

definition CreatePolicy ::
  "instant \<Rightarrow> instant \<Rightarrow> policy \<Rightarrow> gostring \<Rightarrow> ('z sec_world_scheme, err, policy) prog" where
  "CreatePolicy now audit_now p actor =
    andthen (of_result (validatePolicy p actor))
    (andthen (stmt (ErrOther ''beginning security policy creation''))
    (bindE (tx (create_policy_body now audit_now p actor)) SecurityPolicy))"

definition replace_body :: "instant \<Rightarrow> gostring \<Rightarrow> policy \<Rightarrow> policy \<Rightarrow> policy" where
  "replace_body now actor p old =
    (encodePolicy p)\<lparr>po_id := po_id old, po_scope := po_scope old, po_scope_id := po_scope_id old,
      po_by := actor, po_at := now\<rparr>"

definition update_policy_body ::
  "instant \<Rightarrow> instant \<Rightarrow> int \<Rightarrow> policy \<Rightarrow> gostring \<Rightarrow> ('z sec_world_scheme, err, unit) prog" where
  "update_policy_body now audit_now i p actor =
    andthen (stmt (ErrOther ''updating security policy''))
    (andthen (modify (\<lambda>w. w\<lparr>sw_policies :=
        t_update (\<lambda>r. po_id r = i) (replace_body now actor p) (sw_policies w)\<rparr>))
    (andthen (insertSecurityAudit audit_now actor ''security_policy_update'' (''security object '' @ itoa i))
     (stmt (ErrOther ''committing security policy update''))))"

definition UpdatePolicy ::
  "instant \<Rightarrow> instant \<Rightarrow> int \<Rightarrow> policy \<Rightarrow> gostring \<Rightarrow> ('z sec_world_scheme, err, policy) prog" where
  "UpdatePolicy now audit_now i p0 actor =
    bindE (SecurityPolicy i) (\<lambda>current.
    let p = p0\<lparr>po_scope := po_scope current, po_scope_id := po_scope_id current\<rparr> in
    andthen (of_result (validatePolicy p actor))
    (andthen (stmt (ErrOther ''beginning security policy update''))
    (andthen (tx (update_policy_body now audit_now i p actor))
     (SecurityPolicy i))))"

definition DeletePolicy :: "instant \<Rightarrow> int \<Rightarrow> gostring \<Rightarrow> ('z sec_world_scheme, err, unit) prog" where
  "DeletePolicy audit_now i actor =
    andthen (guardE (trim_space actor \<noteq> []) (ErrOther ''deleting security policy: actor is required''))
    (andthen (stmt (ErrOther ''beginning security policy deletion''))
     (tx
      (andthen (stmt (ErrOther ''deleting security policy''))
      (bindE (gets (\<lambda>w. t_count (\<lambda>p. po_id p = i) (sw_policies w))) (\<lambda>n.
       andthen (modify (\<lambda>w. w\<lparr>sw_policies := t_delete (\<lambda>p. po_id p = i) (sw_policies w)\<rparr>))
      (andthen (guardE (0 < n) ErrNoRows)
      (andthen (insertSecurityAudit audit_now actor ''security_policy_delete'' (''security object '' @ itoa i))
       (stmt (ErrOther ''committing security policy deletion'')))))))))"

section \<open>Listing and counting findings\<close>

record finding_query =
  fq_status :: gostring
  fq_severity :: gostring
  fq_container :: gostring
  fq_sort :: gostring
  fq_limit :: int
  fq_offset :: int

definition finding_matches :: "finding_query \<Rightarrow> finding \<Rightarrow> bool" where
  "finding_matches q f \<longleftrightarrow>
    (fq_status q = [] \<or> fd_status f = fq_status q) \<and>
    (fq_severity q = [] \<or> fd_severity f = fq_severity q) \<and>
    (fq_container q = [] \<or> fd_container f = fq_container q)"

definition severity_rank :: "gostring \<Rightarrow> nat" where
  "severity_rank s =
    (if s = ''critical'' then 4 else if s = ''high'' then 3 else if s = ''medium'' then 2
     else if s = ''low'' then 1 else 0)"

definition finding_order :: "gostring \<Rightarrow> finding list \<Rightarrow> finding list" where
  "finding_order srt fs =
    (if srt = ''opened'' then time_desc fd_opened (rev fs)
     else if srt = ''severity'' then desc_by (\<lambda>f. severity_rank (fd_severity f)) (time_desc fd_last (rev fs))
     else time_desc fd_last (rev fs))"

definition FindingList :: "finding_query \<Rightarrow> ('z sec_world_scheme, err, finding list) prog" where
  "FindingList q =
    andthen (stmt (ErrOther ''listing security findings''))
    (andthen (stmt (ErrOther ''iterating security findings''))
     (gets (\<lambda>w. take (nat (securityLimit (fq_limit q)))
        (drop (nat (max (fq_offset q) 0))
          (finding_order (fq_sort q) (filter (finding_matches q) (rows (sw_findings w))))))))"

definition needs_attention :: "finding \<Rightarrow> bool" where
  "needs_attention f \<longleftrightarrow> fd_status f \<in> {FindingOpen, FindingAcknowledged}"

record security_summary =
  ss_open :: int
  ss_critical :: int
  ss_high :: int
  ss_suppressed :: int
  ss_complete :: bool
  ss_observed :: "instant option"

definition security_sources :: "gostring list" where
  "security_sources = [''security_posture'', ''security_process'', ''security_diff'']"

text \<open>A cursor counts as covered while it is not older than two of its intervals.\<close>

definition cursor_covered :: "instant \<Rightarrow> cursor \<Rightarrow> bool" where
  "cursor_covered now c \<longleftrightarrow>
    cu_complete c \<and> \<not> is_zero_time (cu_recorded c) \<and> 0 < cu_interval c \<and>
    time_sub now (cu_recorded c) \<le> wrap64 (wrap64 (2 * cu_interval c) * second)"

definition latest_record :: "cursor list \<Rightarrow> instant option" where
  "latest_record cs =
    (let t = fold max (map cu_recorded cs) zero_time in if is_zero_time t then None else Some t)"

definition security_Summary :: "instant \<Rightarrow> ('z sec_world_scheme, err, security_summary) prog" where
  "security_Summary now =
    andthen (stmt (ErrOther ''summarizing security findings''))
    (andthen (stmt (ErrOther ''reading security coverage''))
    (andthen (stmt (ErrOther ''iterating security coverage''))
     (gets (\<lambda>w.
       let count = (\<lambda>P. int (t_count P (sw_findings w)));
           cs = filter (\<lambda>c. cu_source c \<in> set security_sources) (sw_cursors w)
       in \<lparr>ss_open = count needs_attention,
           ss_critical = count (\<lambda>f. needs_attention f \<and> fd_severity f = ''critical''),
           ss_high = count (\<lambda>f. needs_attention f \<and> fd_severity f = ''high''),
           ss_suppressed = count (\<lambda>f. fd_status f = FindingSuppressed),
           ss_complete = (length cs = 3 \<and> list_all (cursor_covered now) cs),
           ss_observed = latest_record cs\<rparr>))))"

text \<open>The counts by container and severity, as the entries of the two maps.\<close>

definition ActiveRiskCounts ::
  "gostring list \<Rightarrow> ('z sec_world_scheme, err, ((gostring \<times> gostring) \<times> int) list) prog" where
  "ActiveRiskCounts cids =
    (if cids = [] then ret []
     else
       andthen (stmt (ErrOther ''counting active container risks''))
       (andthen (stmt (ErrOther ''scanning active container risks''))
        (gets (\<lambda>w.
          let fs = filter (\<lambda>f. needs_attention f \<and> fd_container f \<in> set cids) (rows (sw_findings w));
              key = (\<lambda>f. (fd_container f, fd_severity f))
          in map (\<lambda>k. (k, int (length (filter (\<lambda>f. key f = k) fs)))) (remdups (map key fs))))))"

section \<open>Cursors\<close>

definition cursor_of :: "gostring \<Rightarrow> 'z sec_world_scheme \<Rightarrow> cursor option" where
  "cursor_of source w = first_where (\<lambda>c. cu_source c = source) (sw_cursors w)"

definition cursor_Get :: "gostring \<Rightarrow> ('z sec_world_scheme, err, cursor) prog" where
  "cursor_Get source =
    andthen (stmt (ErrOther ''getting collector cursor''))
     (bindE (gets (cursor_of source)) (of_option (ErrCollectorCursorNotFound source)))"

definition save_cursor :: "cursor \<Rightarrow> cursor list \<Rightarrow> cursor list" where
  "save_cursor c cs =
    (if list_ex (\<lambda>d. cu_source d = cu_source c) cs
     then map_where (\<lambda>d. cu_source d = cu_source c) (\<lambda>_. c) cs
     else cs @ [c])"

definition cursor_Upsert :: "cursor \<Rightarrow> ('z sec_world_scheme, err, unit) prog" where
  "cursor_Upsert c =
    andthen (guardE (cu_source c \<noteq> []) (ErrOther ''upserting collector cursor: source is required''))
    (andthen (stmt (ErrOther ''upserting collector cursor''))
     (modify (\<lambda>w. w\<lparr>sw_cursors := save_cursor c (sw_cursors w)\<rparr>)))"

lemma cursor_saved:
  assumes "cu_source c = s"
  shows "cursor_of s (w\<lparr>sw_cursors := save_cursor c (sw_cursors w)\<rparr>) = Some c"
proof -
  have "first_where (\<lambda>d. cu_source d = cu_source c) (save_cursor c cs) = Some c" for cs
    by (induction cs) (auto simp: save_cursor_def map_where_def)
  then show ?thesis using assms by (simp add: cursor_of_def)
qed

lemma cursor_of_blind [simp]: "cursor_of src (w\<lparr>faults := fs\<rparr>) = cursor_of src w"
  by (simp add: cursor_of_def)

end
