(* ===== verification/Findings_Laws.thy ===== *)
theory Findings_Laws
  imports Policies
begin

text \<open>
  The life of a finding.  The abstract machine \<open>episode_step\<close> says how episodes may open, move
  and end; the store refines it: whatever an operation does, on any fault, is a sequence
  of its steps.  So a resolved episode never changes, and a fingerprint has at most one active episode.
\<close>

section \<open>The abstract machine\<close>

datatype episode_state = EOpen | EAcknowledged | ESuppressed | EResolved

type_synonym episodes = "int \<Rightarrow> (gostring \<times> int \<times> episode_state) option"

inductive edge :: "episode_state \<Rightarrow> episode_state \<Rightarrow> bool" where
  "edge EOpen EAcknowledged"
| "edge EOpen ESuppressed"
| "edge EAcknowledged ESuppressed"
| "edge ESuppressed EOpen"
| "s \<noteq> EResolved \<Longrightarrow> edge s EResolved"

inductive_simps edge_iff: "edge s s'"

lemma no_edge [simp]: "\<not> edge EResolved s"
  by (simp add: edge_iff)

inductive episode_step :: "episodes \<Rightarrow> episodes \<Rightarrow> bool" where
  opens: "m i = None \<Longrightarrow> \<forall>j fp' e' s. m j = Some (fp', e', s) \<and> fp' = fp \<longrightarrow> e' < e \<and> s = EResolved \<Longrightarrow>
    episode_step m (m(i \<mapsto> (fp, e, EOpen)))"
| moves: "m i = Some (fp, e, s) \<Longrightarrow> edge s s' \<Longrightarrow> episode_step m (m(i \<mapsto> (fp, e, s')))"

text \<open>What the machine promises by itself.\<close>

definition one_active :: "episodes \<Rightarrow> bool" where
  "one_active m \<longleftrightarrow>
    (\<forall>i j fp e e' s s'. m i = Some (fp, e, s) \<and> m j = Some (fp, e', s') \<and>
      s \<noteq> EResolved \<and> s' \<noteq> EResolved \<longrightarrow> i = j)"

lemma edge_active: "edge s s' \<Longrightarrow> s \<noteq> EResolved"
  by auto

lemma resolved_is_final:
  "episode_step\<^sup>*\<^sup>* m m' \<Longrightarrow> m i = Some (fp, e, EResolved) \<Longrightarrow> m' i = Some (fp, e, EResolved)"
proof (induction rule: rtranclp_induct)
  case (step y z)
  then have y: "y i = Some (fp, e, EResolved)" by blast
  from step.hyps(2) show ?case
    by cases (use y in auto)
qed simp

lemma episodes_stay:
  "episode_step\<^sup>*\<^sup>* m m' \<Longrightarrow> m i = Some (fp, e, s) \<Longrightarrow> \<exists>s'. m' i = Some (fp, e, s')"
proof (induction rule: rtranclp_induct)
  case (step y z)
  then obtain s1 where y: "y i = Some (fp, e, s1)" by blast
  from step.hyps(2) show ?case by cases (use y in auto)
qed simp

lemma one_active_step: "episode_step m m' \<Longrightarrow> one_active m \<Longrightarrow> one_active m'"
proof (induction rule: episode_step.induct)
  case (opens m i fp e)
  then show ?case unfolding one_active_def by (auto split: if_splits)
next
  case (moves m i fp e s s')
  then have "s \<noteq> EResolved" by auto
  then have alone: "j = i" if "m j = Some (fp, e', s1)" "s1 \<noteq> EResolved" for j e' s1
    using that moves unfolding one_active_def by blast
  have old: "j = k" if "m j = Some (fp', e1, s1)" "m k = Some (fp', e2, s2)" "s1 \<noteq> EResolved" "s2 \<noteq> EResolved"
    for j k fp' e1 e2 s1 s2
    using that moves.prems unfolding one_active_def by blast
  show ?case unfolding one_active_def
  proof (intro allI impI, elim conjE)
    fix j k fp' e1 e2 s1 s2
    assume a: "(m(i \<mapsto> (fp, e, s'))) j = Some (fp', e1, s1)" "(m(i \<mapsto> (fp, e, s'))) k = Some (fp', e2, s2)"
      "s1 \<noteq> EResolved" "s2 \<noteq> EResolved"
    show "j = k"
      by (cases "j = i"; cases "k = i") (use a alone old in auto)
  qed
qed

section \<open>The abstraction\<close>

definition abs_status :: "gostring \<Rightarrow> episode_state" where
  "abs_status s =
    (if s = FindingOpen then EOpen else if s = FindingAcknowledged then EAcknowledged
     else if s = FindingSuppressed then ESuppressed else EResolved)"

definition abs_finding :: "finding \<Rightarrow> gostring \<times> int \<times> episode_state" where
  "abs_finding f = (fd_fingerprint f, fd_episode f, abs_status (fd_status f))"

definition episodes :: "'z sec_world_scheme \<Rightarrow> episodes" where
  "episodes w i = map_option abs_finding (finding_by_id i w)"

lemma abs_active: "abs_status (fd_status f) \<noteq> EResolved \<longleftrightarrow> is_active f"
  by (simp add: abs_status_def is_active_def)

lemma abs_statuses [simp]:
  "abs_status FindingOpen = EOpen" "abs_status FindingAcknowledged = EAcknowledged"
  "abs_status FindingSuppressed = ESuppressed" "abs_status FindingResolved = EResolved"
  by (simp_all add: abs_status_def)

definition findings_ok :: "'z sec_world_scheme \<Rightarrow> bool" where
  "findings_ok w \<longleftrightarrow>
    table_ok fd_id (sw_findings w) \<and>
    distinct (map fd_fingerprint (filter is_active (rows (sw_findings w)))) \<and>
    distinct (map (\<lambda>f. (fd_fingerprint f, fd_episode f)) (rows (sw_findings w)))"

definition lifecycle :: "episodes \<Rightarrow> 'z sec_world_scheme \<Rightarrow> bool" where
  "lifecycle m w \<longleftrightarrow> findings_ok w \<and> episode_step\<^sup>*\<^sup>* m (episodes w)"

lemma findings_ok_faults [simp]: "findings_ok (w\<lparr>faults := fs\<rparr>) = findings_ok w"
  by (simp add: findings_ok_def)

lemma episodes_frame: "sw_findings w' = sw_findings w \<Longrightarrow> episodes w' = episodes w"
  by (simp add: episodes_def finding_by_id_def fun_eq_iff)

lemma lifecycle_frame: "sw_findings w' = sw_findings w \<Longrightarrow> lifecycle m w' = lifecycle m w"
  using episodes_frame [of w' w] by (simp add: lifecycle_def findings_ok_def)

interpretation lifecycle_db: db_invariant "lifecycle m" for m
  by unfold_locales (rule lifecycle_frame, simp)

section \<open>Updates move along edges\<close>

lemma first_where_map_where:
  "(\<And>x. Q x \<Longrightarrow> k (f x) = k x) \<Longrightarrow>
    first_where (\<lambda>x. k x = j) (map_where Q f xs) =
      map_option (\<lambda>x. if Q x then f x else x) (first_where (\<lambda>x. k x = j) xs)"
  unfolding map_where_def by (induction xs) auto

text \<open>An update of a row: it stays the same episode, and its status keeps or follows an edge.\<close>

definition row_moves :: "finding \<Rightarrow> finding \<Rightarrow> bool" where
  "row_moves f g \<longleftrightarrow>
    fd_id g = fd_id f \<and> fd_fingerprint g = fd_fingerprint f \<and> fd_episode g = fd_episode f \<and>
    (abs_status (fd_status g) = abs_status (fd_status f) \<or>
     edge (abs_status (fd_status f)) (abs_status (fd_status g)))"

lemma edge_keeps_active: "edge s s' \<Longrightarrow> s' \<noteq> EResolved \<Longrightarrow> s \<noteq> EResolved"
  by (auto dest: edge_active)

lemma row_moves_active: "row_moves f g \<Longrightarrow> is_active g \<Longrightarrow> is_active f"
  unfolding row_moves_def abs_active [symmetric] by (auto dest: edge_active)

lemma findings_ok_update:
  assumes ok: "findings_ok w" and f: "\<And>r. Q r \<Longrightarrow> row_moves r (f r)"
  shows "findings_ok (w\<lparr>sw_findings := t_update Q f (sw_findings w)\<rparr>)"
  unfolding findings_ok_def
proof (intro conjI)
  let ?f = "\<lambda>r. if Q r then f r else r"
  have q: "map_where Q f xs = map_where Q ?f xs" for xs by (simp add: map_where_def)
  have keep: "fd_id (?f r) = fd_id r" "fd_fingerprint (?f r) = fd_fingerprint r"
    "fd_episode (?f r) = fd_episode r" for r
    using f [of r] by (simp_all add: row_moves_def)
  have t: "t_update Q f (sw_findings w) = t_update Q ?f (sw_findings w)" by (simp add: t_update_def q)
  show "table_ok fd_id (sw_findings (w\<lparr>sw_findings := t_update Q f (sw_findings w)\<rparr>))"
    unfolding t using ok by (simp add: findings_ok_def finding_rows.ok_update keep)
  show "distinct (map fd_fingerprint (filter is_active (rows (sw_findings (w\<lparr>sw_findings := t_update Q f (sw_findings w)\<rparr>)))))"
  proof -
    have "distinct (map fd_fingerprint (filter is_active (map_where Q f (rows (sw_findings w)))))"
    proof (rule distinct_filter_map_where)
      fix r assume "Q r" "is_active (f r)"
      then show "is_active r \<and> fd_fingerprint (f r) = fd_fingerprint r"
        using f row_moves_active by (auto simp: row_moves_def)
    qed (use ok in \<open>simp add: findings_ok_def\<close>)
    then show ?thesis by simp
  qed
  show "distinct (map (\<lambda>f. (fd_fingerprint f, fd_episode f))
      (rows (sw_findings (w\<lparr>sw_findings := t_update Q f (sw_findings w)\<rparr>))))"
    using ok f by (simp add: findings_ok_def) (rule distinct_map_where, auto simp: row_moves_def)
qed

lemma episodes_update:
  assumes "\<And>r. Q r \<Longrightarrow> fd_id (f r) = fd_id r"
  shows "episodes (w\<lparr>sw_findings := t_update Q f (sw_findings w)\<rparr>) j =
    map_option (\<lambda>r. abs_finding (if Q r then f r else r)) (finding_by_id j w)"
  using assms
  by (simp add: episodes_def finding_by_id_def t_find_def first_where_map_where option.map_comp o_def)

lemma update_one:
  assumes ok: "findings_ok w" and f: "\<And>r. Q r \<Longrightarrow> fd_id r = i \<and> row_moves r (f r)"
  shows "episode_step\<^sup>*\<^sup>* (episodes w) (episodes (w\<lparr>sw_findings := t_update Q f (sw_findings w)\<rparr>))"
    (is "episode_step\<^sup>*\<^sup>* ?m ?m'")
proof -
  have ids: "\<And>r. Q r \<Longrightarrow> fd_id (f r) = fd_id r" using f by (auto simp: row_moves_def)
  have m': "?m' j = map_option (\<lambda>r. abs_finding (if Q r then f r else r)) (finding_by_id j w)" for j
    by (rule episodes_update) (rule ids)
  have other: "?m' j = ?m j" if "j \<noteq> i" for j
  proof (cases "finding_by_id j w")
    case None show ?thesis unfolding m' by (simp add: None episodes_def)
  next
    case (Some r)
    then have "fd_id r = j" unfolding finding_by_id_def t_find_def by (auto dest: first_where_SomeD)
    then have "\<not> Q r" using f that by blast
    then show ?thesis unfolding m' by (simp add: Some episodes_def)
  qed
  show ?thesis
  proof (cases "finding_by_id i w")
    case None
    then have "?m' i = ?m i" unfolding m' by (simp add: episodes_def)
    then have "?m' = ?m" using other by (intro ext) metis
    then show ?thesis by simp
  next
    case (Some r)
    show ?thesis
    proof (cases "Q r")
      case False
      then have "?m' i = ?m i" unfolding m' by (simp add: Some episodes_def)
      then have "?m' = ?m" using other by (intro ext) metis
      then show ?thesis by simp
    next
      case True
      let ?s = "abs_status (fd_status r)" and ?s' = "abs_status (fd_status (f r))"
      have mv: "row_moves r (f r)" using f True by blast
      have mi: "?m i = Some (fd_fingerprint r, fd_episode r, ?s)"
        using Some by (simp add: episodes_def abs_finding_def)
      have m'i: "?m' i = Some (fd_fingerprint r, fd_episode r, ?s')"
        unfolding m' using True mv by (simp add: Some abs_finding_def row_moves_def)
      have upd: "?m' = ?m(i \<mapsto> (fd_fingerprint r, fd_episode r, ?s'))"
        using other m'i by (intro ext) simp
      show ?thesis
      proof (cases "?s' = ?s")
        case True
        then have "?m' = ?m" using upd mi by (simp add: fun_upd_idem)
        then show ?thesis by simp
      next
        case False
        then have e: "edge ?s ?s'" using mv by (simp add: row_moves_def)
        show ?thesis unfolding upd by (rule r_into_rtranclp) (rule episode_step.moves, rule mi, rule e)
      qed
    qed
  qed
qed

lemma lifecycle_update:
  assumes l: "lifecycle m w"
    and f: "\<And>r. r \<in> set (rows (sw_findings w)) \<Longrightarrow> Q r \<Longrightarrow> fd_id r = i \<and> row_moves r (f r)"
  shows "lifecycle m (w\<lparr>sw_findings := t_update Q f (sw_findings w)\<rparr>)"
proof -
  let ?Q = "\<lambda>r. r \<in> set (rows (sw_findings w)) \<and> Q r"
  have q: "t_update Q f (sw_findings w) = t_update ?Q f (sw_findings w)"
    by (simp add: t_update_def map_where_def)
  have f': "?Q r \<Longrightarrow> fd_id r = i \<and> row_moves r (f r)" for r using f by blast
  show ?thesis
    using l findings_ok_update [of w ?Q f] update_one [of w ?Q i f] f'
    unfolding lifecycle_def q by (auto intro: rtranclp_trans)
qed

section \<open>Inserts open an episode\<close>

lemma fold_max_bound: "x \<in> set xs \<Longrightarrow> x \<le> fold max xs (a :: int)" "a \<le> fold max xs a"
proof -
  have a: "b \<le> fold max ys b" for b and ys :: "int list"
    by (induction ys arbitrary: b) (simp, metis fold_simps(2) max.bounded_iff order_trans)
  show "a \<le> fold max xs a" by (rule a)
  show "x \<in> set xs \<Longrightarrow> x \<le> fold max xs a"
    by (induction xs arbitrary: a) (auto intro: order_trans [OF _ a])
qed

lemma next_episode_above:
  "r \<in> set (rows (sw_findings w)) \<Longrightarrow> fd_fingerprint r = fp \<Longrightarrow> fd_episode r < next_episode fp w"
  unfolding next_episode_def using fold_max_bound(1) [of "fd_episode r"] by fastforce

definition with_finding :: "finding \<Rightarrow> 'z sec_world_scheme \<Rightarrow> 'z sec_world_scheme" where
  "with_finding f w = w\<lparr>sw_findings := t_insert (\<lambda>i r. r\<lparr>fd_id := i\<rparr>) f (sw_findings w)\<rparr>"

lemma lifecycle_insert:
  assumes l: "lifecycle m w" and ok: "finding_insert_ok f w" and st: "fd_status f = FindingOpen"
    and top: "\<forall>r\<in>set (rows (sw_findings w)). fd_fingerprint r = fd_fingerprint f \<longrightarrow> fd_episode r < fd_episode f"
  shows "lifecycle m (with_finding f w)"
proof -
  let ?i = "seq (sw_findings w) + 1" and ?w = "with_finding f w"
  have t: "table_ok fd_id (sw_findings w)" and fok: "findings_ok w"
    using l by (simp_all add: lifecycle_def findings_ok_def)
  have act: "is_active (f\<lparr>fd_id := i\<rparr>) = is_active f" for i by (simp add: is_active_def)
  have new: "finding_by_id j ?w = (if j = ?i then Some (f\<lparr>fd_id := ?i\<rparr>) else finding_by_id j w)" for j
    using finding_rows.find_inserted [OF t, of f] finding_rows.find_other [of j "sw_findings w" f]
    by (simp add: finding_by_id_def with_finding_def)
  have m': "episodes ?w = (episodes w)(?i \<mapsto> (fd_fingerprint f, fd_episode f, EOpen))"
    by (rule ext) (simp add: episodes_def new abs_finding_def st)
  have "\<forall>r\<in>set (rows (sw_findings w)). fd_id r \<noteq> ?i"
    using finding_rows.fresh_id [OF t] by (metis less_irrefl)
  then have none: "episodes w ?i = None"
    by (simp add: episodes_def finding_by_id_def t_find_def)
  have earlier: "e' < fd_episode f \<and> s = EResolved"
    if ep: "episodes w j = Some (fp', e', s)" and fp: "fp' = fd_fingerprint f" for j fp' e' s
  proof -
    obtain r where r: "finding_by_id j w = Some r" "abs_finding r = (fp', e', s)"
      using ep by (auto simp: episodes_def)
    then have "r \<in> set (rows (sw_findings w))"
      unfolding finding_by_id_def t_find_def by (auto dest: first_where_SomeD)
    then show ?thesis using r(2) fp ok top
      by (auto simp: finding_insert_ok_def abs_finding_def) (metis abs_active)
  qed
  have "episode_step (episodes w) (episodes ?w)"
    unfolding m' using none earlier by (intro episode_step.opens) blast+
  moreover have "findings_ok ?w"
    using fok ok top unfolding findings_ok_def with_finding_def finding_insert_ok_def
    by (auto simp: finding_rows.ok_insert act)
  ultimately show ?thesis using l by (auto simp: lifecycle_def)
qed

section \<open>The operations\<close>

lemmas lifecycle_rules = keeps_rules lifecycle_db.keeps_stmt lifecycle_db.keeps_tx

text \<open>The active finding of a fingerprint, as the code holds it while it works on it.\<close>

definition holds :: "gostring \<Rightarrow> finding option \<Rightarrow> 'z sec_world_scheme \<Rightarrow> bool" where
  "holds fp opn w \<longleftrightarrow>
    (case opn of
       None \<Rightarrow> \<forall>r\<in>set (rows (sw_findings w)). fd_fingerprint r = fp \<longrightarrow> \<not> is_active r
     | Some f \<Rightarrow> is_active f \<and> finding_by_id (fd_id f) w \<noteq> None \<and>
        (\<forall>r\<in>set (rows (sw_findings w)). fd_id r = fd_id f \<longrightarrow> fd_status r = fd_status f))"

lemma holds_frame: "sw_findings w' = sw_findings w \<Longrightarrow> holds fp opn w' = holds fp opn w"
  by (simp add: holds_def finding_by_id_def split: option.split)

lemma active_finding_holds:
  assumes "findings_ok w" shows "holds fp (active_finding fp w) w"
proof (cases "active_finding fp w")
  case None
  then show ?thesis by (simp only: holds_def option.case) (simp add: active_finding_def t_find_def)
next
  case (Some f)
  then have f: "f \<in> set (rows (sw_findings w))" "is_active f"
    unfolding active_finding_def t_find_def by (auto dest: first_where_SomeD)
  have t: "table_ok fd_id (sw_findings w)" using assms by (simp add: findings_ok_def)
  have "finding_by_id (fd_id f) w \<noteq> None"
    unfolding finding_by_id_def t_find_def first_where_None using f(1) by blast
  moreover have "\<forall>r\<in>set (rows (sw_findings w)). fd_id r = fd_id f \<longrightarrow> fd_status r = fd_status f"
    using finding_rows.row_unique [OF t _ f(1)] by metis
  ultimately show ?thesis using Some f(2) by (simp add: holds_def)
qed

definition working :: "episodes \<Rightarrow> gostring \<Rightarrow> finding option \<Rightarrow> 'z sec_world_scheme \<Rightarrow> bool" where
  "working m fp opn w \<longleftrightarrow> lifecycle m w \<and> holds fp opn w"

lemma working_frame: "sw_findings w' = sw_findings w \<Longrightarrow> working m fp opn w' = working m fp opn w"
  using lifecycle_frame [of w' w] holds_frame [of w' w] by (simp add: working_def)

interpretation working_db: db_invariant "working m fp opn" for m fp opn
  by unfold_locales (rule working_frame, simp)

lemma working_lifecycle: "working m fp opn w \<Longrightarrow> lifecycle m w"
  by (simp add: working_def)

lemma find_wp:
  "lifecycle m w \<Longrightarrow> wp (findOpenFinding fp) (onE (\<lambda>e. lifecycle m) (working m fp)) w"
  unfolding findOpenFinding_def wp_andthen
proof (rule wp_stmt_all; simp add: wp_gets)
  fix fs assume l: "lifecycle m w"
  show "lifecycle m (w\<lparr>faults := fs\<rparr>)" using l by (simp add: lifecycle_frame [of "w\<lparr>faults := fs\<rparr>" w])
  then show "working m fp (active_finding fp (w\<lparr>faults := fs\<rparr>)) (w\<lparr>faults := fs\<rparr>)"
    unfolding working_def by (intro conjI active_finding_holds) (simp_all add: lifecycle_def)
qed

lemma active_edges:
  "is_active f \<Longrightarrow> edge (abs_status (fd_status f)) EResolved"
  by (simp add: edge_iff abs_active)

lemma holds_row:
  "holds fp (Some f) w \<Longrightarrow> r \<in> set (rows (sw_findings w)) \<Longrightarrow> fd_id r = fd_id f \<Longrightarrow>
    fd_status r = fd_status f \<and> is_active f"
  by (simp add: holds_def)

text \<open>An update of the finding at hand.\<close>

lemma working_update:
  assumes w: "working m fp (Some f) w"
    and g: "\<And>r. fd_id r = fd_id f \<Longrightarrow> fd_status r = fd_status f \<Longrightarrow> is_active f \<Longrightarrow> row_moves r (g r)"
  shows "lifecycle m (update_finding (fd_id f) g w)"
  unfolding update_finding_def
proof (rule lifecycle_update)
  show "lifecycle m w" using w by (rule working_lifecycle)
  show "fd_id r = fd_id f \<and> row_moves r (g r)" if "r \<in> set (rows (sw_findings w))" "fd_id r = fd_id f" for r
    using g holds_row [of fp f w r] that w by (simp add: working_def)
qed

lemma working_reopen:
  assumes w: "working m fp (Some f) w" and e: "elapsed moment f"
  shows "working m fp (Some (f\<lparr>fd_status := FindingOpen\<rparr>))
    (update_finding (fd_id f) (\<lambda>r. r\<lparr>fd_status := FindingOpen, fd_last := moment\<rparr>) w)"
  unfolding working_def
proof (intro conjI)
  let ?g = "\<lambda>r. r\<lparr>fd_status := FindingOpen, fd_last := moment\<rparr>"
  have s: "fd_status f = FindingSuppressed" using e by (simp add: elapsed_def)
  show "lifecycle m (update_finding (fd_id f) ?g w)"
    using w by (rule working_update) (simp add: row_moves_def s edge_iff)
  have "first_where (\<lambda>r. fd_id r = fd_id f) (map_where (\<lambda>r. fd_id r = fd_id f) ?g (rows (sw_findings w))) =
      map_option (\<lambda>x. if fd_id x = fd_id f then ?g x else x) (first_where (\<lambda>r. fd_id r = fd_id f) (rows (sw_findings w)))"
    by (rule first_where_map_where) simp
  moreover have "first_where (\<lambda>r. fd_id r = fd_id f) (rows (sw_findings w)) \<noteq> None"
    using w by (simp add: working_def holds_def finding_by_id_def t_find_def)
  ultimately have "finding_by_id (fd_id f) (update_finding (fd_id f) ?g w) \<noteq> None"
    unfolding finding_by_id_def t_find_def update_finding_def by simp
  then show "holds fp (Some (f\<lparr>fd_status := FindingOpen\<rparr>)) (update_finding (fd_id f) ?g w)"
    unfolding holds_def option.case finding.simps
    by (simp add: is_active_def update_finding_def ball_mw)
qed

lemma reopen_wp:
  assumes "working m fp opn w"
  shows "wp (reopen_elapsed moment opn) (onE (\<lambda>e. lifecycle m) (\<lambda>(opn', b). working m fp opn')) w"
proof (cases opn)
  case None
  then show ?thesis using assms by (simp add: reopen_elapsed_def wp_rules)
next
  case (Some f)
  show ?thesis
  proof (cases "elapsed moment f")
    case True
    then show ?thesis using assms unfolding reopen_elapsed_def Some option.case if_P [OF True]
      by (intro working_db.wp_stmt_then [of m fp "Some f"]) (simp_all add: wp_rules working_reopen working_lifecycle)
  next
    case False
    then show ?thesis using assms by (simp add: reopen_elapsed_def wp_rules Some)
  qed
qed

text \<open>Opening an episode: the number is above every earlier one.\<close>

definition fresh_episode :: "episodes \<Rightarrow> gostring \<Rightarrow> int \<Rightarrow> 'z sec_world_scheme \<Rightarrow> bool" where
  "fresh_episode m fp e w \<longleftrightarrow>
    working m fp None w \<and> (\<forall>r\<in>set (rows (sw_findings w)). fd_fingerprint r = fp \<longrightarrow> fd_episode r < e)"

lemma fresh_frame: "sw_findings w' = sw_findings w \<Longrightarrow> fresh_episode m fp e w' = fresh_episode m fp e w"
  using working_frame [of w' w] by (simp add: fresh_episode_def)

interpretation fresh_db: db_invariant "fresh_episode m fp e" for m fp e
  by unfold_locales (rule fresh_frame, simp)

lemma fresh_lifecycle: "fresh_episode m fp e w \<Longrightarrow> lifecycle m w"
  by (simp add: fresh_episode_def working_def)

lemma fresh_insert:
  "fresh_episode m fp e w \<Longrightarrow> finding_insert_ok (new_finding fp e v) w \<Longrightarrow>
    lifecycle m (with_finding (new_finding fp e v) w)"
  by (intro lifecycle_insert) (simp_all add: fresh_episode_def working_def new_finding_def)

lemma insertFinding_wp:
  assumes "fresh_episode m fp e w" shows "wp (insertFinding fp e v) (\<lambda>r. lifecycle m) w"
  unfolding insertFinding_def
proof (rule fresh_db.wp_stmt_then [OF assms])
  fix u assume u: "fresh_episode m fp e u"
  let ?f = "new_finding fp e v"
  show "wp (bindE (gets (finding_insert_ok ?f)) (\<lambda>ok.
        andthen (guardE ok (ErrOther ''opening security finding''))
        (andthen (modify (\<lambda>w. w\<lparr>sw_findings := t_insert (\<lambda>i r. r\<lparr>fd_id := i\<rparr>) ?f (sw_findings w)\<rparr>))
        (andthen (stmt (ErrOther ''reading finding id''))
         (gets (\<lambda>w. ?f\<lparr>fd_id := seq (sw_findings w)\<rparr>)))))) (\<lambda>r. lifecycle m) u"
    unfolding wp_bindE wp_gets onE_simps
  proof (rule wp_guard_then)
    assume "finding_insert_ok ?f u"
    then have "lifecycle m (with_finding ?f u)" using u by (intro fresh_insert)
    then show "wp (andthen (modify (\<lambda>w. w\<lparr>sw_findings := t_insert (\<lambda>i r. r\<lparr>fd_id := i\<rparr>) ?f (sw_findings w)\<rparr>))
        (andthen (stmt (ErrOther ''reading finding id''))
         (gets (\<lambda>w. ?f\<lparr>fd_id := seq (sw_findings w)\<rparr>)))) (\<lambda>r. lifecycle m) u"
      unfolding wp_andthen [of "modify _"] wp_modify onE_simps with_finding_def
      by (rule lifecycle_db.wp_stmt_then) (simp_all add: wp_gets)
  qed (use u fresh_lifecycle in blast)
qed (rule fresh_lifecycle)

lemma open_wp:
  assumes "working m fp None w"
  shows "wp (open_episode fp v) (\<lambda>r. lifecycle m) w"
  unfolding open_episode_def
proof (rule working_db.wp_stmt_then [OF assms])
  fix u assume "working m fp None u"
  then have "fresh_episode m fp (next_episode fp u) u"
    by (simp add: fresh_episode_def next_episode_above)
  then show "wp (bindE (gets (next_episode fp)) (\<lambda>episode. insertFinding fp episode v)) (\<lambda>r. lifecycle m) u"
    unfolding wp_bindE wp_gets onE_simps by (rule insertFinding_wp)
qed (rule working_lifecycle)

lemma apply_wp:
  assumes "working m fp opn w"
  shows "wp (apply_observation fp v opn b) (\<lambda>r. lifecycle m) w"
proof (cases opn)
  case None
  show ?thesis
  proof (cases "ob_detected v")
    case True
    then show ?thesis using open_wp [of m fp w v] assms None unfolding apply_observation_def
      by (simp add: wp_bindE) (erule wp_mono, simp add: onE_def wp_ret split: sum.split)
  next
    case False
    then show ?thesis using assms None by (simp add: apply_observation_def wp_rules working_lifecycle)
  qed
next
  case (Some f)
  have seen: "lifecycle m (update_finding (fd_id f) (seen_again v) u)" if "working m fp (Some f) u" for u
    using that by (rule working_update) (simp add: row_moves_def seen_again_def)
  have rec: "lifecycle m (update_finding (fd_id f) (recovered v) u)" if "working m fp (Some f) u" for u
    using that by (rule working_update) (simp add: row_moves_def recovered_def active_edges)
  note then_stmt = working_db.wp_stmt_then [of m fp "Some f"]
  show ?thesis
  proof (cases "ob_detected v")
    case True
    then show ?thesis using assms unfolding apply_observation_def Some option.case if_P [OF True]
      by (intro then_stmt) (simp_all add: wp_rules seen working_lifecycle)
  next
    case False
    then show ?thesis using assms unfolding apply_observation_def Some option.case if_not_P [OF False]
      by (intro wp_if_prog then_stmt) (simp_all add: wp_rules rec working_lifecycle)
  qed
qed

lemma keeps_record_transition: "keeps (lifecycle m) (record_transition v r)"
  unfolding record_transition_def
  by (intro lifecycle_rules) (simp add: lifecycle_frame [of "_\<lparr>sw_observations := _\<rparr>"])

lemma keeps_evaluate_body: "keeps (lifecycle m) (evaluate_body fp v)"
  unfolding keeps_wp evaluate_body_def
proof (intro allI impI)
  fix w :: "'z sec_world_scheme" assume w: "lifecycle m w"
  show "wp (bindE (findOpenFinding fp) (\<lambda>opn. bindE (reopen_elapsed (ob_at v) opn) (\<lambda>(opn', reopened).
      bindE (apply_observation fp v opn' reopened) (\<lambda>r. andthen (record_transition v r)
      (andthen (stmt (ErrOther ''committing security evaluation'')) (ret r)))))) (\<lambda>r. lifecycle m) w"
  proof (rule wp_bind [OF find_wp [OF w]])
    fix opn u assume u: "working m fp opn u"
    show "wp (bindE (reopen_elapsed (ob_at v) opn) (\<lambda>(opn', reopened).
      bindE (apply_observation fp v opn' reopened) (\<lambda>r. andthen (record_transition v r)
      (andthen (stmt (ErrOther ''committing security evaluation'')) (ret r))))) (\<lambda>r. lifecycle m) u"
    proof (rule wp_bind [OF reopen_wp [OF u]])
      fix p :: "finding option \<times> bool" and v' assume "(\<lambda>(opn', b). working m fp opn') p v'"
      then obtain opn' b where p: "p = (opn', b)" and v': "working m fp opn' v'" by (cases p) auto
      have tail: "keeps (lifecycle m) (andthen (record_transition v r)
          (andthen (stmt (ErrOther ''committing security evaluation'')) (ret r)))" for r
        by (intro lifecycle_rules keeps_record_transition)
      show "wp (case p of (opn', reopened) \<Rightarrow> bindE (apply_observation fp v opn' reopened)
          (\<lambda>r. andthen (record_transition v r)
            (andthen (stmt (ErrOther ''committing security evaluation'')) (ret r)))) (\<lambda>r. lifecycle m) v'"
        unfolding p prod.case wp_bindE
        by (rule wp_mono [OF apply_wp [OF v']])
          (use tail in \<open>auto simp: onE_def keeps_wp split: sum.split\<close>)
    qed
  qed
qed

lemma keeps_Evaluate: "keeps (lifecycle m) (store_Evaluate now e)"
  unfolding store_Evaluate_def by (intro lifecycle_rules keeps_evaluate_body)

lemma keeps_security_audit: "keeps (lifecycle m) (insertSecurityAudit now actor action d)"
  unfolding insertSecurityAudit_def
  by (intro keeps_andthen lifecycle_db.keeps_stmt keeps_checked_last)
    (simp add: lifecycle_frame [of "_\<lparr>audits := _\<rparr>"])

lemma keeps_findingByID: "keeps (lifecycle m) (findingByID i)"
  unfolding findingByID_def by (intro lifecycle_rules)

lemma keeps_finding_action:
  assumes "\<And>r. P r \<Longrightarrow> row_moves r (f r)"
  shows "keeps (lifecycle m) (finding_action now actor action P f i)"
  unfolding finding_action_def
  by (intro lifecycle_rules keeps_security_audit keeps_findingByID)
    (erule lifecycle_update [where i = i], simp add: assms)

lemma keeps_Acknowledge: "keeps (lifecycle m) (Acknowledge now now' i actor)"
  unfolding Acknowledge_def
  by (intro lifecycle_rules keeps_finding_action) (simp add: row_moves_def edge_iff)

lemma keeps_Resolve: "keeps (lifecycle m) (Resolve now now' i actor)"
  unfolding Resolve_def
  by (intro lifecycle_rules keeps_finding_action) (simp add: row_moves_def active_edges)

lemma keeps_Suppress: "keeps (lifecycle m) (Suppress now now' i s)"
  unfolding Suppress_def
  by (intro lifecycle_rules keeps_finding_action) (auto simp: row_moves_def edge_iff)

lemma keeps_SetNotificationStatus: "keeps (lifecycle m) (SetNotificationStatus i st)"
  unfolding SetNotificationStatus_def update_finding_def
  by (intro lifecycle_rules) (erule lifecycle_update [where i = i], simp add: row_moves_def)

lemma keeps_expire_one: "keeps (lifecycle m) (expire_one now i)"
  unfolding expire_one_def
  by (intro lifecycle_rules)
    (erule lifecycle_update [where i = i], auto simp: row_moves_def expired_def edge_iff)

lemma keeps_ExpireSuppressions: "keeps (lifecycle m) (ExpireSuppressions now)"
  unfolding ExpireSuppressions_def expiredSuppressionIDs_def
  by (intro lifecycle_rules keeps_expire_one keeps_findingByID)

definition refines :: "('z sec_world_scheme, err, 'a) prog \<Rightarrow> bool" where
  "refines p \<longleftrightarrow>
    (\<forall>w. findings_ok w \<longrightarrow>
      findings_ok (snd (p w)) \<and> episode_step\<^sup>*\<^sup>* (episodes w) (episodes (snd (p w))))"

lemma refinesI: "(\<And>m. keeps (lifecycle m) p) \<Longrightarrow> refines p"
  unfolding refines_def keeps_def lifecycle_def by blast

text \<open>C4: The findings store refines the machine of episodes.  Whatever statement fails, each of
  its operations keeps ids, episode numbers and active fingerprints unique and moves the table by
  a sequence of the machine's steps: an episode opens fresh and numbered above the earlier ones of its
  fingerprint, which have all ended; then it is acknowledged, suppressed, reopened from a suppression, or
  ended for good.\<close>

theorem findings_refine_episodes:
  "refines (store_Evaluate now e) \<and> refines (ExpireSuppressions now) \<and>
   refines (Acknowledge now now' i actor) \<and> refines (Resolve now now' i actor) \<and>
   refines (Suppress now now' i s) \<and> refines (SetNotificationStatus i st)"
  by (intro conjI refinesI keeps_Evaluate keeps_ExpireSuppressions keeps_Acknowledge keeps_Resolve
      keeps_Suppress keeps_SetNotificationStatus)

text \<open>Sequences of operations on the findings, by any clients, with any faults.\<close>

inductive findings_run :: "'z sec_world_scheme \<Rightarrow> 'z sec_world_scheme \<Rightarrow> bool" where
  start: "findings_run w w"
| evaluate: "findings_run w u \<Longrightarrow> store_Evaluate now e u = (r, v) \<Longrightarrow> findings_run w v"
| expire: "findings_run w u \<Longrightarrow> ExpireSuppressions now u = (rs, v) \<Longrightarrow> findings_run w v"
| acknowledge: "findings_run w u \<Longrightarrow> Acknowledge now now' i actor u = (f, v) \<Longrightarrow> findings_run w v"
| resolve: "findings_run w u \<Longrightarrow> Resolve now now' i actor u = (f, v) \<Longrightarrow> findings_run w v"
| suppress: "findings_run w u \<Longrightarrow> Suppress now now' i s u = (f, v) \<Longrightarrow> findings_run w v"
| notified: "findings_run w u \<Longrightarrow> SetNotificationStatus i st u = (x, v) \<Longrightarrow> findings_run w v"
| fault: "findings_run w u \<Longrightarrow> findings_run w (u\<lparr>faults := fs\<rparr>)"

lemma findings_run_lifecycle: "findings_run w w' \<Longrightarrow> lifecycle m w \<Longrightarrow> lifecycle m w'"
proof (induction rule: findings_run.induct)
  case (start w) then show ?case .
next
  case (evaluate w u now e r v)
  then show ?case using keepsD [OF keeps_Evaluate] by blast
next
  case (expire w u now rs v)
  then show ?case using keepsD [OF keeps_ExpireSuppressions] by blast
next
  case (acknowledge w u now now' i actor f v)
  then show ?case using keepsD [OF keeps_Acknowledge] by blast
next
  case (resolve w u now now' i actor f v)
  then show ?case using keepsD [OF keeps_Resolve] by blast
next
  case (suppress w u now now' i s f v)
  then show ?case using keepsD [OF keeps_Suppress] by blast
next
  case (notified w u i st x v)
  then show ?case using keepsD [OF keeps_SetNotificationStatus] by blast
next
  case (fault w u fs)
  then show ?case using lifecycle_frame [of "u\<lparr>faults := fs\<rparr>" u] by simp
qed

lemma episodes_row:
  assumes "episodes w i = Some (fp, e, s)"
  obtains r where "r \<in> set (rows (sw_findings w))" "fd_id r = i" "fd_fingerprint r = fp"
    "s \<noteq> EResolved \<longleftrightarrow> is_active r"
proof -
  from assms obtain r where r: "finding_by_id i w = Some r" "abs_finding r = (fp, e, s)"
    by (auto simp: episodes_def)
  from r(1) have "r \<in> set (rows (sw_findings w)) \<and> fd_id r = i"
    unfolding finding_by_id_def t_find_def by (rule first_where_SomeD)
  then show ?thesis using that r(2) abs_active [of r] by (auto simp: abs_finding_def)
qed

lemma findings_one_active:
  assumes "findings_ok w" shows "one_active (episodes w)"
  unfolding one_active_def
proof (intro allI impI, elim conjE)
  fix i j fp e e' s s'
  assume i: "episodes w i = Some (fp, e, s)" "s \<noteq> EResolved" and j: "episodes w j = Some (fp, e', s')" "s' \<noteq> EResolved"
  obtain r where r: "r \<in> set (rows (sw_findings w))" "fd_id r = i" "fd_fingerprint r = fp" "is_active r"
    using episodes_row [OF i(1)] i(2) by metis
  obtain q where q: "q \<in> set (rows (sw_findings w))" "fd_id q = j" "fd_fingerprint q = fp" "is_active q"
    using episodes_row [OF j(1)] j(2) by metis
  have "distinct (map fd_fingerprint (filter is_active (rows (sw_findings w))))"
    using assms by (simp add: findings_ok_def)
  then have "r = q" by (rule distinct_map_inj) (use r q in simp_all)
  then show "i = j" using r q by simp
qed


section \<open>Samples\<close>

definition sample_observation :: "bool \<Rightarrow> bool \<Rightarrow> observation" where
  "sample_observation detected full =
    \<lparr>ob_container = ''c'', ob_rule = ''r'', ob_category = ''drift'', ob_severity = ''high'',
     ob_confidence = ''high'', ob_detected = detected, ob_complete = full, ob_evidence = [],
     ob_at = 9\<rparr>"

definition sample_evaluation :: "bool \<Rightarrow> bool \<Rightarrow> evaluation" where
  "sample_evaluation detected full =
    \<lparr>se_obs = sample_observation detected full, se_baseline = [], se_service = []\<rparr>"

definition sample_finding :: "gostring \<Rightarrow> instant option \<Rightarrow> finding" where
  "sample_finding st until =
    (new_finding (evaluation_fingerprint (sample_evaluation True True)) 1 (sample_observation True True))
      \<lparr>fd_id := 1, fd_status := st, fd_until := until\<rparr>"

definition sample_findings_world :: "gostring \<Rightarrow> instant option \<Rightarrow> sec_world" where
  "sample_findings_world st until =
    sample_sec_world\<lparr>sw_findings := \<lparr>rows = [sample_finding st until], seq = 1\<rparr>\<rparr>"

lemma sample_findings_ok: "findings_ok (sample_findings_world st until)"
  by (simp add: findings_ok_def table_ok_def sample_findings_world_def sample_finding_def)

lemma sample_rows [simp]: "sw_findings (sample_findings_world st until) = \<lparr>rows = [sample_finding st until], seq = 1\<rparr>"
  by (simp add: sample_findings_world_def)

lemma sample_finding_sel [simp]:
  "fd_id (sample_finding st u) = 1" "fd_status (sample_finding st u) = st"
  "fd_fingerprint (sample_finding st u) = evaluation_fingerprint (sample_evaluation True True)"
  "fd_episode (sample_finding st u) = 1" "fd_until (sample_finding st u) = u"
  by (simp_all add: sample_finding_def new_finding_def)


end
