(* ===== verification/Security_Flow.thy ===== *)
theory Security_Flow
  imports Policies
begin

text \<open>
  The security workflow service (\<open>internal/service/security.go\<close>): observations in, findings,
  notifications and events out.  A Go interface or function field that may be nil is a flag of
  \<open>sec_config\<close>.  The readings of the clock for one finding's notification and event are functions
  of its id; errors that are only logged are \<open>attempt\<close>.
\<close>

record sec_config =
  sc_notifications :: bool
  sc_cursors :: bool
  sc_notify_high :: bool

record sec_clock =
  ck_now :: instant
  ck_note :: "int \<Rightarrow> instant"
  ck_event :: "int \<Rightarrow> instant"

section \<open>Messages\<close>

text \<open>The first runes of a string, where a byte that is no UTF-8 is a rune of its own.\<close>

fun take_runes :: "nat \<Rightarrow> gostring \<Rightarrow> gostring" where
  "take_runes 0 s = []"
| "take_runes (Suc n) s =
    (if s = [] then []
     else (let k = max 1 (rune_len s) in take k s @ take_runes n (drop k s)))"

definition middle_dot :: gostring where
  "middle_dot = [CHR 0x20, CHR 0xC2, CHR 0xB7, CHR 0x20]"

definition securityEventMessage :: "finding \<Rightarrow> gostring" where
  "securityEventMessage f =
    ''Finding #'' @ itoa (fd_id f) @ middle_dot @ fd_severity f @ middle_dot @ fd_rule f @ middle_dot @
    ''container '' @ take_runes 12 (fd_container f)"

abbreviation EventSecurityFinding :: gostring where "EventSecurityFinding \<equiv> ''security_finding''"
abbreviation EventSecurityRecovery :: gostring where "EventSecurityRecovery \<equiv> ''security_recovery''"

definition security_event :: "sec_clock \<Rightarrow> gostring \<Rightarrow> gostring \<Rightarrow> finding \<Rightarrow> event" where
  "security_event ck kind service f =
    \<lparr>ev_type = kind, ev_service = service, ev_message = securityEventMessage f,
     ev_at = ck_event ck (fd_id f)\<rparr>"

section \<open>Notifications\<close>

definition shouldNotify :: "sec_config \<Rightarrow> finding \<Rightarrow> bool" where
  "shouldNotify cfg f \<longleftrightarrow>
    fd_severity f = ''critical'' \<or> (sc_notify_high cfg \<and> fd_severity f = ''high'')"

definition notifyOpened ::
  "sec_config \<Rightarrow> sec_clock \<Rightarrow> gostring \<Rightarrow> finding \<Rightarrow> ('z sec_world_scheme, err, unit) prog" where
  "notifyOpened cfg ck service f =
    (if \<not> sc_notifications cfg \<or> \<not> shouldNotify cfg f then ret ()
     else
       bindE (attempt (notification_insert (ck_note ck (fd_id f)) service ''security''
           ''Container security finding'' (securityEventMessage f))) (\<lambda>r.
       andthen (attempt (SetNotificationStatus (fd_id f)
           (case r of Inl _ \<Rightarrow> ''degraded'' | Inr _ \<Rightarrow> ''delivered'')))
        (ret ())))"

definition announce ::
  "sec_config \<Rightarrow> sec_clock \<Rightarrow> gostring \<Rightarrow> finding \<Rightarrow> ('z sec_world_scheme, err, unit) prog" where
  "announce cfg ck service f =
    andthen (notifyOpened cfg ck service f)
     (emit_event (security_event ck EventSecurityFinding service f))"

section \<open>Observations\<close>

definition effects_of ::
  "sec_config \<Rightarrow> sec_clock \<Rightarrow> gostring \<Rightarrow> eval_result \<Rightarrow> ('z sec_world_scheme, err, unit) prog" where
  "effects_of cfg ck service r =
    (case er_finding r of
       None \<Rightarrow> ret ()
     | Some f \<Rightarrow>
        andthen (if er_opened r then announce cfg ck service f else ret ())
         (if er_recovered r then emit_event (security_event ck EventSecurityRecovery service f)
          else ret ()))"

definition flow_Evaluate ::
  "sec_config \<Rightarrow> sec_clock \<Rightarrow> evaluation \<Rightarrow> ('z sec_world_scheme, err, finding option) prog" where
  "flow_Evaluate cfg ck e =
    bindE (store_Evaluate (ck_now ck) e) (\<lambda>r.
    andthen (effects_of cfg ck (se_service e) r) (ret (er_finding r)))"

definition expireSuppressions :: "sec_config \<Rightarrow> sec_clock \<Rightarrow> ('z sec_world_scheme, err, unit) prog" where
  "expireSuppressions cfg ck =
    bindE (ExpireSuppressions (ck_now ck)) (for_each (announce cfg ck []))"

section \<open>Collector health\<close>

definition unsafe_category :: "gostring \<Rightarrow> bool" where
  "unsafe_category c \<longleftrightarrow> 128 < length c \<or> list_ex (\<lambda>x. code x \<in> {13, 10, 0}) c"

definition no_cursor :: cursor where
  "no_cursor =
    \<lparr>cu_source = [], cu_identity = [], cu_offset = 0, cu_recorded = zero_time, cu_success = zero_time,
     cu_error = [], cu_dropped = 0, cu_complete = False, cu_interval = 0\<rparr>"

definition interval_secs :: "duration \<Rightarrow> int" where
  "interval_secs d = go_quot d second"

definition health_cursor ::
  "instant \<Rightarrow> gostring \<Rightarrow> bool \<Rightarrow> gostring \<Rightarrow> duration \<Rightarrow> cursor \<Rightarrow> cursor" where
  "health_cursor now source full category interval c =
    c\<lparr>cu_source := source, cu_recorded := now, cu_complete := full,
      cu_interval := interval_secs interval, cu_error := category,
      cu_success := (if full then now else cu_success c)\<rparr>"

definition record_health ::
  "instant \<Rightarrow> gostring \<Rightarrow> bool \<Rightarrow> gostring \<Rightarrow> duration \<Rightarrow> ('z sec_world_scheme, err, unit) prog" where
  "record_health now source full category interval =
    bindE (attempt (cursor_Get source)) (\<lambda>r.
    bindE (case r of
        Inr c \<Rightarrow> ret c
      | Inl e \<Rightarrow> (if e = ErrCollectorCursorNotFound source then ret no_cursor
                else throw (ErrOther ''reading security collector health''))) (\<lambda>c.
     map_error (\<lambda>_. ErrOther ''recording security collector health'')
      (cursor_Upsert (health_cursor now source full category interval c))))"

definition collector_evaluation ::
  "instant \<Rightarrow> gostring \<Rightarrow> bool \<Rightarrow> gostring \<Rightarrow> duration \<Rightarrow> evaluation" where
  "collector_evaluation now source full category interval =
    \<lparr>se_obs =
       \<lparr>ob_container = ''collector:'' @ source, ob_rule = ''collector.'' @ source @ ''.failure'',
        ob_category = ''drift'', ob_severity = ''high'', ob_confidence = ''high'',
        ob_detected = (\<not> full), ob_complete = full,
        ob_evidence =
          [(''source'', source), (''error_category'', category),
           (''effective_interval_secs'', itoa (interval_secs interval))],
        ob_at = now\<rparr>,
     se_baseline = source, se_service = []\<rparr>"

definition RecordCollector ::
  "sec_config \<Rightarrow> sec_clock \<Rightarrow> gostring \<Rightarrow> bool \<Rightarrow> gostring \<Rightarrow> duration \<Rightarrow>
    ('z sec_world_scheme, err, unit) prog" where
  "RecordCollector cfg ck source full category interval =
    andthen (guardE (source \<in> set security_sources) (ErrInvalidInput ''unknown security collector''))
    (andthen (guardE (\<not> unsafe_category category) (ErrInvalidInput ''unsafe collector error category''))
    (andthen (if sc_cursors cfg then record_health (ck_now ck) source full category interval else ret ())
    (bindE (map_error (\<lambda>_. ErrOther ''reading security activation for collector'') security_Activation)
      (\<lambda>(moment, by).
      if moment = None then ret ()
      else andthen (flow_Evaluate cfg ck
          (collector_evaluation (ck_now ck) source full category interval)) (ret ())))))"

section \<open>Reads and operator actions\<close>

definition flow_Summary :: "sec_config \<Rightarrow> sec_clock \<Rightarrow> instant \<Rightarrow>
    ('z sec_world_scheme, err, security_summary) prog" where
  "flow_Summary cfg ck now = andthen (expireSuppressions cfg ck) (security_Summary now)"

definition flow_Findings :: "sec_config \<Rightarrow> sec_clock \<Rightarrow> finding_query \<Rightarrow>
    ('z sec_world_scheme, err, finding list) prog" where
  "flow_Findings cfg ck q = andthen (expireSuppressions cfg ck) (FindingList q)"

definition flow_Finding :: "sec_config \<Rightarrow> sec_clock \<Rightarrow> int \<Rightarrow> ('z sec_world_scheme, err, finding) prog" where
  "flow_Finding cfg ck i = andthen (expireSuppressions cfg ck) (findingByID i)"

definition flow_Suppress ::
  "instant \<Rightarrow> instant \<Rightarrow> int \<Rightarrow> suppression \<Rightarrow> ('z sec_world_scheme, err, finding) prog" where
  "flow_Suppress now audit_now i s =
    andthen (guardE (trim_space (sp_actor s) \<noteq> [] \<and> trim_space (sp_reason s) \<noteq> [])
      (ErrInvalidInput ''actor and reason are required''))
     (Suppress now audit_now i s)"

definition flow_DeletePolicy :: "instant \<Rightarrow> int \<Rightarrow> gostring \<Rightarrow> ('z sec_world_scheme, err, unit) prog" where
  "flow_DeletePolicy audit_now i actor =
    andthen (guardE (trim_space actor \<noteq> []) (ErrInvalidInput ''actor is required''))
     (DeletePolicy audit_now i actor)"

section \<open>Posture rules\<close>

text \<open>
  The posture rules (\<open>internal/service/security_posture.go\<close>): fifteen observations for a
  container, from its inspection and the policy that applies.  \<open>strings.ToUpper\<close> of a string
  that is not ASCII is a parameter (it needs the Unicode tables).
\<close>

definition is_ascii :: "char \<Rightarrow> bool" where "is_ascii c = (code c < 128)"

definition ascii_upper :: "char \<Rightarrow> char" where
  "ascii_upper c = (if is_lower c then char_of (code c - 32) else c)"

definition to_upper :: "(gostring \<Rightarrow> gostring) \<Rightarrow> gostring \<Rightarrow> gostring" where
  "to_upper uni s = (if list_all is_ascii s then map ascii_upper s else uni s)"

text \<open>No other rune folds to a letter of \<open>root\<close>.\<close>

definition is_root_name :: "gostring \<Rightarrow> bool" where
  "is_root_name u \<longleftrightarrow> map ascii_lower u = ''root''"

definition boolEvidence :: "gostring \<Rightarrow> bool \<Rightarrow> (gostring \<times> gostring) list" where
  "boolEvidence k v = [(k, if v then ''true'' else ''false'')]"

definition valueEvidence :: "gostring \<Rightarrow> gostring \<Rightarrow> (gostring \<times> gostring) list" where
  "valueEvidence k v = [(k, v)]"

definition folded :: "(gostring \<Rightarrow> gostring) \<Rightarrow> gostring \<Rightarrow> gostring" where
  "folded uni v = to_upper uni (trim_space v)"

definition differenceFold :: "(gostring \<Rightarrow> gostring) \<Rightarrow> gostring list \<Rightarrow> gostring list \<Rightarrow> gostring list" where
  "differenceFold uni values allowed =
    sort (filter (\<lambda>v. folded uni v \<notin> set (map (folded uni) allowed)) values)"

definition postureCategory :: "gostring \<Rightarrow> gostring" where
  "postureCategory rule = (if has_suffix rule ''.drift'' then ''drift'' else ''posture'')"

definition posture_observation ::
  "gostring \<Rightarrow> gostring \<times> gostring \<times> bool \<times> (gostring \<times> gostring) list \<Rightarrow> observation" where
  "posture_observation cid x =
    (case x of (rule, severity, detected, evidence) \<Rightarrow>
      \<lparr>ob_container = cid, ob_rule = rule, ob_category = postureCategory rule, ob_severity = severity,
       ob_confidence = ''high'', ob_detected = detected, ob_complete = True, ob_evidence = evidence,
       ob_at = zero_time\<rparr>)"

definition caps_of :: "inspection \<Rightarrow> gostring list" where
  "caps_of v = (case in_caps v of None \<Rightarrow> [] | Some cs \<Rightarrow> cs)"

definition EvaluatePosture ::
  "(gostring \<Rightarrow> gostring) \<Rightarrow> instance_row \<Rightarrow> inspection \<Rightarrow> policy \<Rightarrow> observation list" where
  "EvaluatePosture uni i v p =
    (let root = (in_user v = [] \<or> in_user v = ''0'' \<or> is_root_name (in_user v));
         caps = differenceFold uni (caps_of v) (po_caps p);
         no_pids = (case in_pids v of None \<Rightarrow> True | Some n \<Rightarrow> n \<le> 0);
         ports = differenceFold uni (in_ports v) (po_ports p);
         mutable_tag = (ci_image i \<noteq> [] \<and> \<not> contains (ci_image i) ''@sha256:'');
         image_drift = (ci_image_fp i \<noteq> [] \<and> ci_image_fp i \<noteq> ci_image_id i);
         config_drift = (ci_config_fp i \<noteq> [] \<and> ci_config_fp i \<noteq> FingerprintInspection v)
     in
     map (posture_observation (ci_id i))
      [(''posture.privileged'', ''critical'', in_privileged v \<and> \<not> po_privileged p,
          boolEvidence ''privileged'' (in_privileged v)),
       (''posture.host_pid'', ''critical'', in_pid v = ''host'' \<and> \<not> po_host_pid p,
          valueEvidence ''pid_mode'' (in_pid v)),
       (''posture.host_ipc'', ''high'', in_ipc v = ''host'', valueEvidence ''ipc_mode'' (in_ipc v)),
       (''posture.host_network'', ''high'', in_network v = ''host'' \<and> \<not> po_host_network p,
          valueEvidence ''network_mode'' (in_network v)),
       (''posture.docker_socket'', ''critical'', in_socket v \<and> \<not> po_socket p,
          boolEvidence ''docker_socket'' (in_socket v)),
       (''posture.root_user'', ''high'', root \<and> \<not> po_root p, boolEvidence ''root_user'' root),
       (''posture.writable_rootfs'', ''medium'', \<not> in_readonly v \<and> \<not> po_writable_root p,
          boolEvidence ''writable_rootfs'' (\<not> in_readonly v)),
       (''posture.capabilities'', ''high'', caps \<noteq> [],
          valueEvidence ''unexpected_capabilities'' (join_with '','' caps)),
       (''posture.memory_unlimited'', ''medium'', in_memory v \<le> 0,
          boolEvidence ''memory_limit_missing'' (in_memory v \<le> 0)),
       (''posture.cpu_unlimited'', ''medium'', in_cpus v \<le> 0,
          boolEvidence ''cpu_limit_missing'' (in_cpus v \<le> 0)),
       (''posture.pids_unlimited'', ''medium'', no_pids, boolEvidence ''pids_limit_missing'' no_pids),
       (''posture.published_ports'', ''high'', ports \<noteq> [],
          valueEvidence ''unexpected_ports'' (join_with '','' ports)),
       (''image.mutable_tag'', ''medium'', mutable_tag, boolEvidence ''mutable_tag'' mutable_tag),
       (''image.drift'', ''high'', image_drift, boolEvidence ''image_fingerprint_changed'' image_drift),
       (''configuration.drift'', ''high'', config_drift,
          boolEvidence ''configuration_fingerprint_changed'' config_drift)])"

end
