(* ===== verification/Evaluate_Laws.thy ===== *)
theory Evaluate_Laws
  imports Findings_Laws Security_Flow
begin

text \<open>
  What one observation does when no statement fails: the decision table of \<open>Evaluate\<close>, the
  side effects that the workflow adds, and the reopening that nobody hears of.
\<close>

text \<open>The finding as it stands after its suppression, if any, ran out.\<close>

definition reopened :: "instant \<Rightarrow> finding \<Rightarrow> finding" where
  "reopened moment f = (if elapsed moment f then f\<lparr>fd_status := FindingOpen\<rparr> else f)"

definition evaluated :: "gostring \<Rightarrow> observation \<Rightarrow> 'z sec_world_scheme \<Rightarrow> eval_result" where
  "evaluated fp v w =
    (case active_finding fp w of
       None \<Rightarrow>
         if ob_detected v
         then \<lparr>er_finding = Some ((new_finding fp (next_episode fp w) v)\<lparr>fd_id := seq (sw_findings w) + 1\<rparr>),
               er_opened = True, er_recovered = False\<rparr>
         else \<lparr>er_finding = None, er_opened = False, er_recovered = False\<rparr>
     | Some f \<Rightarrow>
         if ob_detected v
         then \<lparr>er_finding = Some (seen_again v (reopened (ob_at v) f)),
               er_opened = elapsed (ob_at v) f, er_recovered = False\<rparr>
         else if ob_complete v
         then \<lparr>er_finding = Some (recovered v (reopened (ob_at v) f)), er_opened = False, er_recovered = True\<rparr>
         else \<lparr>er_finding = None, er_opened = False, er_recovered = False\<rparr>)"

lemma reopen_run:
  "faults w = [] \<Longrightarrow> reopen_elapsed moment (Some f) w =
    (Inr (Some (reopened moment f), elapsed moment f),
     if elapsed moment f then update_finding (fd_id f) (\<lambda>r. r\<lparr>fd_status := FindingOpen, fd_last := moment\<rparr>) w else w)"
  by (simp add: reopen_elapsed_def reopened_def andthen_def bindE_def modify_def ret_def)

lemma update_finding_sel [simp]:
  "faults (update_finding i f w) = faults w"
  "audits (update_finding i f w) = audits w" "events (update_finding i f w) = events w"
  "notifications (update_finding i f w) = notifications w"
  "sw_observations (update_finding i f w) = sw_observations w"
  by (simp_all add: update_finding_def)

lemma reopened_id [simp]: "fd_id (reopened moment f) = fd_id f"
  by (simp add: reopened_def)

lemma seen_again_id [simp]: "fd_id (seen_again v f) = fd_id f" "fd_status (seen_again v f) = fd_status f"
  "fd_count (seen_again v f) = fd_count f + 1"
  by (simp_all add: seen_again_def)

lemma recovered_id [simp]: "fd_id (recovered v f) = fd_id f" "fd_status (recovered v f) = FindingResolved"
  by (simp_all add: recovered_def)

definition log_transition :: "observation \<Rightarrow> eval_result \<Rightarrow> 'z sec_world_scheme \<Rightarrow> 'z sec_world_scheme" where
  "log_transition v r w =
    (if er_opened r \<or> er_recovered r
     then w\<lparr>sw_observations := t_insert (\<lambda>i (j, x). (i, x)) (0, v) (sw_observations w)\<rparr> else w)"

lemma log_transition_sel [simp]:
  "faults (log_transition v r w) = faults w" "sw_findings (log_transition v r w) = sw_findings w"
  "events (log_transition v r w) = events w" "notifications (log_transition v r w) = notifications w"
  "audits (log_transition v r w) = audits w"
  by (simp_all add: log_transition_def)

lemma record_run: "faults w = [] \<Longrightarrow> record_transition v r w = (Inr (), log_transition v r w)"
  by (simp add: record_transition_def log_transition_def andthen_def bindE_def modify_def ret_def)

text \<open>The table after the observation.\<close>

definition findings_after :: "gostring \<Rightarrow> observation \<Rightarrow> 'z sec_world_scheme \<Rightarrow> finding table" where
  "findings_after fp v w =
    (case active_finding fp w of
       None \<Rightarrow>
         if ob_detected v then sw_findings (with_finding (new_finding fp (next_episode fp w) v) w) else sw_findings w
     | Some f \<Rightarrow>
         (let t = (if elapsed (ob_at v) f
                   then t_update (\<lambda>r. fd_id r = fd_id f)
                     (\<lambda>r. r\<lparr>fd_status := FindingOpen, fd_last := ob_at v\<rparr>) (sw_findings w)
                   else sw_findings w) in
          if ob_detected v then t_update (\<lambda>r. fd_id r = fd_id f) (seen_again v) t
          else if ob_complete v then t_update (\<lambda>r. fd_id r = fd_id f) (recovered v) t
          else t))"

lemma insert_allowed:
  assumes "findings_ok w" "active_finding fp w = None"
  shows "finding_insert_ok (new_finding fp (next_episode fp w) v) w"
proof -
  have "\<forall>r\<in>set (rows (sw_findings w)). fd_fingerprint r = fp \<longrightarrow> \<not> is_active r"
    using assms(2) by (simp add: active_finding_def t_find_def)
  then show ?thesis
    using next_episode_above [of _ w fp] by (force simp: finding_insert_ok_def new_finding_def)
qed

lemma open_run:
  assumes "faults w = []" "findings_ok w" "active_finding fp w = None"
  shows "open_episode fp v w =
    (Inr ((new_finding fp (next_episode fp w) v)\<lparr>fd_id := seq (sw_findings w) + 1\<rparr>),
     with_finding (new_finding fp (next_episode fp w) v) w)"
  using assms insert_allowed [OF assms(2,3), of v]
  by (simp add: open_episode_def insertFinding_def andthen_def bindE_def modify_def ret_def gets_def
      guardE_def with_finding_def)

lemma find_run: "faults w = [] \<Longrightarrow> findOpenFinding fp w = (Inr (active_finding fp w), w)"
  by (simp add: findOpenFinding_def andthen_def bindE_def gets_def)

text \<open>The whole state after the observation, as far as it concerns the findings.\<close>

definition same_rest :: "'z sec_world_scheme \<Rightarrow> 'z sec_world_scheme \<Rightarrow> bool" where
  "same_rest w w' \<longleftrightarrow>
    faults w' = faults w \<and> audits w' = audits w \<and> events w' = events w \<and> notifications w' = notifications w"

lemma evaluate_run:
  assumes f: "faults w = []" and ok: "findings_ok w"
  shows "\<exists>w'. evaluate_body fp v w = (Inr (evaluated fp v w), w') \<and>
    sw_findings w' = findings_after fp v w \<and> same_rest w w'"
proof (cases "active_finding fp w")
  case None
  have r0: "reopen_elapsed (ob_at v) None w = (Inr (None, False), w)"
    by (simp add: reopen_elapsed_def ret_def)
  show ?thesis
  proof (cases "ob_detected v")
    case True
    have a: "apply_observation fp v None False w =
        (Inr (evaluated fp v w), with_finding (new_finding fp (next_episode fp w) v) w)"
      using open_run [OF f ok None, of v] True None
      by (simp add: apply_observation_def evaluated_def bindE_def ret_def)
    have fw: "faults (with_finding g w) = []" for g using f by (simp add: with_finding_def)
    show ?thesis
      by (simp add: evaluate_body_def bindE_def find_run f None r0 a andthen_def record_run fw ret_def
          findings_after_def True same_rest_def) (simp add: with_finding_def f)
  next
    case False
    have a: "apply_observation fp v None False w = (Inr (evaluated fp v w), w)"
      using False None by (simp add: apply_observation_def evaluated_def ret_def)
    show ?thesis
      by (simp add: evaluate_body_def bindE_def find_run f None r0 a andthen_def record_run ret_def
          findings_after_def False same_rest_def)
  qed
next
  case (Some g)
  let ?u = "if elapsed (ob_at v) g
    then update_finding (fd_id g) (\<lambda>r. r\<lparr>fd_status := FindingOpen, fd_last := ob_at v\<rparr>) w else w"
  let ?u' = "if ob_detected v then update_finding (fd_id g) (seen_again v) ?u
    else if ob_complete v then update_finding (fd_id g) (recovered v) ?u else ?u"
  have fu: "faults ?u = []" "faults ?u' = []" using f by simp_all
  have a: "apply_observation fp v (Some (reopened (ob_at v) g)) (elapsed (ob_at v) g) ?u =
      (Inr (evaluated fp v w), ?u')"
    using fu(1)
    by (simp add: apply_observation_def evaluated_def Some ret_def andthen_def bindE_def modify_def)
  have "evaluate_body fp v w = (Inr (evaluated fp v w), log_transition v (evaluated fp v w) ?u')"
    using f fu by (simp only: evaluate_body_def bindE_def find_run Some reopen_run prod.case sum.case a
        andthen_def record_run stmt_no_fault log_transition_sel ret_def)
  moreover have "sw_findings ?u' = findings_after fp v w"
    by (simp add: findings_after_def Some update_finding_def Let_def)
  ultimately show ?thesis by (simp add: same_rest_def)
qed

section \<open>The decision table\<close>

lemma active_finding_facts:
  assumes "findings_ok w" "active_finding fp w = Some f"
  shows "f \<in> set (rows (sw_findings w))" "fd_fingerprint f = fp" "is_active f"
    "finding_by_id (fd_id f) w = Some f"
proof -
  show f: "f \<in> set (rows (sw_findings w))" "fd_fingerprint f = fp" "is_active f"
    using assms(2) unfolding active_finding_def t_find_def by (auto dest: first_where_SomeD)
  have t: "table_ok fd_id (sw_findings w)" using assms(1) by (simp add: findings_ok_def)
  have "finding_by_id (fd_id f) w \<noteq> None"
    unfolding finding_by_id_def t_find_def first_where_None using f(1) by blast
  then obtain g where g: "finding_by_id (fd_id f) w = Some g" by blast
  then have "g \<in> set (rows (sw_findings w)) \<and> fd_id g = fd_id f"
    unfolding finding_by_id_def t_find_def by (rule first_where_SomeD)
  then show "finding_by_id (fd_id f) w = Some f"
    using g finding_rows.row_unique [OF t _ f(1)] by metis
qed

definition row_of :: "int \<Rightarrow> finding table \<Rightarrow> finding option" where
  "row_of i t = t_find (\<lambda>r. fd_id r = i) t"

lemma finding_by_id_row: "finding_by_id i w = row_of i (sw_findings w)"
  by (simp add: finding_by_id_def row_of_def)

lemma row_of_update:
  "(\<And>r. fd_id (g r) = fd_id r) \<Longrightarrow> row_of i (t_update (\<lambda>r. fd_id r = i) g t) = map_option g (row_of i t)"
  unfolding row_of_def t_find_def rows_t_update
  by (subst first_where_map_where [where k = fd_id])
    (auto intro!: option.map_cong0 dest: first_where_SomeD split: option.split simp: map_option_case)

lemma row_after:
  assumes "findings_ok w" "active_finding fp w = Some f"
  shows "row_of (fd_id f) (findings_after fp v w) = Some
    (if ob_detected v then seen_again v (reopened (ob_at v) f)
     else if ob_complete v then recovered v (reopened (ob_at v) f)
     else if elapsed (ob_at v) f then f\<lparr>fd_status := FindingOpen, fd_last := ob_at v\<rparr> else f)"
proof -
  have "row_of (fd_id f) (sw_findings w) = Some f"
    using active_finding_facts(4) [OF assms] by (simp add: finding_by_id_row)
  then show ?thesis
    by (simp add: findings_after_def assms(2) row_of_update reopened_def seen_again_def recovered_def)
qed

text \<open>The rows of an evaluation, from the table.\<close>

lemma Evaluate_run:
  assumes "faults w = []" "findings_ok w" "validateObservation (se_obs e) = Inr ()"
    and "length (json_map (ob_evidence (se_obs e))) \<le> MaximumSecurityEvidenceBytes"
  shows "\<exists>w'. store_Evaluate now e w = (Inr (evaluated (evaluation_fingerprint e) (observed now (se_obs e)) w), w') \<and>
    sw_findings w' = findings_after (evaluation_fingerprint e) (observed now (se_obs e)) w \<and> same_rest w w'"
proof -
  obtain w' where w': "evaluate_body (evaluation_fingerprint e) (observed now (se_obs e)) w =
      (Inr (evaluated (evaluation_fingerprint e) (observed now (se_obs e)) w), w')"
    "sw_findings w' = findings_after (evaluation_fingerprint e) (observed now (se_obs e)) w" "same_rest w w'"
    using evaluate_run [OF assms(1,2)] by blast
  have "store_Evaluate now e w = (Inr (evaluated (evaluation_fingerprint e) (observed now (se_obs e)) w), w')"
    unfolding store_Evaluate_def
    by (simp add: andthen_def bindE_def of_result_def assms ret_def guardE_def tx_def w'(1))
  then show ?thesis using w' by blast
qed

text \<open>C5: When no statement fails an observation within the bounds is decided by the active finding
  of its fingerprint.  None and detected: a new episode is opened with the next number.  One and
  detected: it is counted once more, and reported as opened again exactly when its suppression has
  run out.  One, not detected, seen completely: it is resolved by the collector, and
  nothing of the fingerprint is active.  One, not detected and not seen completely: it stays
  active.  None and not detected: nothing changes.\<close>

theorem Evaluate_decides:
  fixes w :: "'z sec_world_scheme"
  assumes "faults w = []" "findings_ok w" "validateObservation (se_obs e) = Inr ()"
    and "length (json_map (ob_evidence (se_obs e))) \<le> MaximumSecurityEvidenceBytes"
    and "v = observed now (se_obs e)" "fp = evaluation_fingerprint e"
  shows "\<exists>r w'. store_Evaluate now e w = (Inr r, w') \<and>
    (case active_finding fp w of
       None \<Rightarrow>
         er_opened r = ob_detected v \<and> \<not> er_recovered r \<and>
         (if ob_detected v
          then \<exists>f. er_finding r = Some f \<and> finding_by_id (fd_id f) w' = Some f \<and> fd_fingerprint f = fp \<and>
            fd_status f = FindingOpen \<and> fd_count f = 1 \<and> fd_episode f = next_episode fp w
          else sw_findings w' = sw_findings w)
     | Some f \<Rightarrow>
         (er_opened r \<longleftrightarrow> ob_detected v \<and> elapsed (ob_at v) f) \<and>
         (er_recovered r \<longleftrightarrow> \<not> ob_detected v \<and> ob_complete v) \<and>
         (\<exists>g. finding_by_id (fd_id f) w' = Some g \<and>
           fd_count g = (if ob_detected v then fd_count f + 1 else fd_count f) \<and>
           fd_status g = (if \<not> ob_detected v \<and> ob_complete v then FindingResolved
             else if elapsed (ob_at v) f then FindingOpen else fd_status f)))"
proof -
  obtain w' where run: "store_Evaluate now e w = (Inr (evaluated fp v w), w')"
    and t: "sw_findings w' = findings_after fp v w"
    using Evaluate_run [OF assms(1-4), of now] unfolding assms(5,6) by blast
  show ?thesis
  proof (cases "active_finding fp w")
    case None
    let ?f = "(new_finding fp (next_episode fp w) v)\<lparr>fd_id := seq (sw_findings w) + 1\<rparr>"
    have "row_of (seq (sw_findings w) + 1) (sw_findings (with_finding (new_finding fp (next_episode fp w) v) w)) = Some ?f"
      using finding_rows.find_inserted [of "sw_findings w" "new_finding fp (next_episode fp w) v"] assms(2)
      by (simp add: row_of_def with_finding_def findings_ok_def)
    then show ?thesis using run t None
      by (cases "ob_detected v")
        (simp_all add: evaluated_def findings_after_def finding_by_id_row new_finding_def)
  next
    case (Some f)
    have "row_of (fd_id f) (sw_findings w') = Some
      (if ob_detected v then seen_again v (reopened (ob_at v) f)
       else if ob_complete v then recovered v (reopened (ob_at v) f)
       else if elapsed (ob_at v) f then f\<lparr>fd_status := FindingOpen, fd_last := ob_at v\<rparr> else f)"
      using row_after [OF assms(2) Some] by (simp add: t)
    then show ?thesis using run Some
      by (cases "ob_detected v"; cases "ob_complete v"; cases "elapsed (ob_at v) f")
        (simp_all add: evaluated_def finding_by_id_row reopened_def seen_again_def recovered_def)
  qed
qed

section \<open>Side effects\<close>

definition unmark :: "finding \<Rightarrow> finding" where
  "unmark f = f\<lparr>fd_notified := []\<rparr>"

text \<open>The findings but for the delivery mark, and the events, are as they were.\<close>

definition quiet :: "'z sec_world_scheme \<Rightarrow> 'z sec_world_scheme \<Rightarrow> bool" where
  "quiet u w \<longleftrightarrow>
    events w = events u \<and> map unmark (rows (sw_findings w)) = map unmark (rows (sw_findings u)) \<and>
    seq (sw_findings w) = seq (sw_findings u)"

interpretation quiet_db: db_invariant "quiet u" for u
  by unfold_locales (simp add: quiet_def)

lemma quiet_refl [simp]: "quiet u u"
  by (simp add: quiet_def)

lemma quiet_mark: "quiet u w \<Longrightarrow> quiet u (update_finding i (\<lambda>r. r\<lparr>fd_notified := st\<rparr>) w)"
proof -
  have "map unmark (map_where (\<lambda>r. fd_id r = i) (\<lambda>r. r\<lparr>fd_notified := st\<rparr>) xs) = map unmark xs" for xs
    by (rule map_where_keep) (simp add: unmark_def)
  then show "quiet u w \<Longrightarrow> ?thesis" by (simp add: quiet_def update_finding_def)
qed

lemma keeps_quiet_mark: "keeps (quiet u) (SetNotificationStatus i st)"
  unfolding SetNotificationStatus_def
  by (intro keeps_rules quiet_db.keeps_stmt quiet_mark)

lemma keeps_quiet_notification: "keeps (quiet u) (notification_insert now sid k ti b)"
  unfolding notification_insert_def Let_def
  by (intro keeps_rules quiet_db.keeps_stmt) (simp add: quiet_def)

lemma notifyOpened_returns: "fst (notifyOpened cfg ck s f w) = Inr ()"
  by (simp add: notifyOpened_def run_defs split: prod.split)

lemma keeps_quiet_notifyOpened: "keeps (quiet u) (notifyOpened cfg ck s f)"
  unfolding notifyOpened_def
  by (intro keeps_rules keeps_quiet_mark keeps_quiet_notification)

lemma notifyOpened_run: "\<exists>v. notifyOpened cfg ck s f w = (Inr (), v) \<and> quiet w v"
proof -
  obtain x v where n: "notifyOpened cfg ck s f w = (x, v)" by fastforce
  then show ?thesis
    using notifyOpened_returns [of cfg ck s f w] keepsD [OF keeps_quiet_notifyOpened quiet_refl n] by simp
qed

lemma emit_run: "emit_event e w = (Inr (), w\<lparr>events := events w @ [e]\<rparr>)"
  by (simp add: emit_event_def modify_def)

lemma announce_run:
  "\<exists>v. announce cfg ck s f w = (Inr (), v) \<and>
    quiet (w\<lparr>events := events w @ [security_event ck EventSecurityFinding s f]\<rparr>) v"
proof -
  obtain v where "notifyOpened cfg ck s f w = (Inr (), v)" "quiet w v" using notifyOpened_run by blast
  then show ?thesis
    by (simp add: announce_def andthen_def bindE_def emit_run quiet_def)
qed

definition ev_is :: "event list \<Rightarrow> 'z sec_world_scheme \<Rightarrow> bool" where
  "ev_is es w \<longleftrightarrow> events w = es"

interpretation ev_db: db_invariant "ev_is es" for es
  by unfold_locales (simp add: ev_is_def)

lemma keeps_ev_Evaluate: "keeps (ev_is es) (store_Evaluate now e)"
  unfolding store_Evaluate_def evaluate_body_def findOpenFinding_def reopen_elapsed_def
    apply_observation_def open_episode_def insertFinding_def record_transition_def option.case_eq_if
  by (intro keeps_rules ev_db.keeps_stmt ev_db.keeps_tx) (simp_all add: ev_is_def)

definition announced_events :: "sec_clock \<Rightarrow> gostring \<Rightarrow> eval_result \<Rightarrow> event list" where
  "announced_events ck service r =
    (case er_finding r of
       None \<Rightarrow> []
     | Some f \<Rightarrow>
        (if er_opened r then [security_event ck EventSecurityFinding service f] else []) @
        (if er_recovered r then [security_event ck EventSecurityRecovery service f] else []))"

text \<open>Whatever statements fail, the workflow returns what the store decided: an
  observation that the store refused is refused, otherwise there is one event for an opened finding
  and one for a recovered finding and none besides, and no failed delivery undoes or alters the
  stored findings but for the delivery mark.\<close>

theorem transitions_announced:
  fixes w :: "'z sec_world_scheme"
  shows "\<exists>w'. flow_Evaluate cfg ck e w =
      (map_sum id er_finding (fst (store_Evaluate (ck_now ck) e w)), w') \<and>
    map unmark (rows (sw_findings w')) = map unmark (rows (sw_findings (snd (store_Evaluate (ck_now ck) e w)))) \<and>
    events w' = events w @
      (case fst (store_Evaluate (ck_now ck) e w) of
         Inl _ \<Rightarrow> [] | Inr r \<Rightarrow> announced_events ck (se_service e) r)"
proof -
  obtain x u where s: "store_Evaluate (ck_now ck) e w = (x, u)" by fastforce
  have ev: "events u = events w"
    using keepsD [OF keeps_ev_Evaluate, of "events w" w "ck_now ck" e x u] s by (simp add: ev_is_def)
  show ?thesis
  proof (cases x)
    case (Inl er)
    then show ?thesis using s ev by (simp add: flow_Evaluate_def bindE_def)
  next
    case (Inr r)
    have "\<exists>v. effects_of cfg ck (se_service e) r u = (Inr (), v) \<and>
        quiet (u\<lparr>events := events u @ announced_events ck (se_service e) r\<rparr>) v"
    proof (cases "er_finding r")
      case None
      then show ?thesis by (simp add: effects_of_def announced_events_def ret_def)
    next
      case (Some f)
      obtain v where "announce cfg ck (se_service e) f u = (Inr (), v)"
        "quiet (u\<lparr>events := events u @ [security_event ck EventSecurityFinding (se_service e) f]\<rparr>) v"
        using announce_run by blast
      then show ?thesis using Some
        by (cases "er_opened r"; cases "er_recovered r")
          (simp_all add: effects_of_def announced_events_def andthen_def bindE_def ret_def emit_run quiet_def)
    qed
    then show ?thesis using s Inr ev
      by (auto simp: flow_Evaluate_def bindE_def andthen_def ret_def quiet_def)
  qed
qed

text \<open>A suppression that has run out when the collector sees its container incompletely, and does not
  detect the finding, is reopened in silence: the row is open again, but there is no
  notification and no event, and the next pass over the run-out suppressions does not find it.\<close>

theorem reopened_in_silence:
  fixes w :: "'z sec_world_scheme"
  assumes "faults w = []" "findings_ok w" "validateObservation (se_obs e) = Inr ()"
    and "length (json_map (ob_evidence (se_obs e))) \<le> MaximumSecurityEvidenceBytes"
    and "active_finding (evaluation_fingerprint e) w = Some f"
    and "elapsed (ob_at (observed (ck_now ck) (se_obs e))) f"
    and "\<not> ob_detected (se_obs e)" "\<not> ob_complete (se_obs e)"
  shows "\<exists>g w'. flow_Evaluate cfg ck e w = (Inr None, w') \<and>
    finding_by_id (fd_id f) w' = Some g \<and> fd_status g = FindingOpen \<and> \<not> expired now g \<and>
    events w' = events w \<and> notifications w' = notifications w"
proof -
  let ?v = "observed (ck_now ck) (se_obs e)" and ?fp = "evaluation_fingerprint e"
  have v: "\<not> ob_detected ?v" "\<not> ob_complete ?v" using assms(7,8) by (simp_all add: observed_def)
  have d: "evaluated ?fp ?v w = \<lparr>er_finding = None, er_opened = False, er_recovered = False\<rparr>"
    using v assms(5) by (simp add: evaluated_def)
  obtain w' where run: "store_Evaluate (ck_now ck) e w = (Inr (evaluated ?fp ?v w), w')"
    and t: "sw_findings w' = findings_after ?fp ?v w" and rest: "same_rest w w'"
    using Evaluate_run [OF assms(1-4), of "ck_now ck"] by blast
  have "row_of (fd_id f) (sw_findings w') = Some (f\<lparr>fd_status := FindingOpen, fd_last := ob_at ?v\<rparr>)"
    using row_after [OF assms(2,5), of ?v] v assms(6) by (simp add: t)
  then show ?thesis using run rest
    by (simp add: flow_Evaluate_def bindE_def d effects_of_def andthen_def ret_def finding_by_id_row
        same_rest_def expired_def)
qed

lemma sample_valid: "validateObservation (sample_observation d c) = Inr ()"
  by (simp add: validateObservation_def sample_observation_def)

lemma sample_small: "length (json_map (ob_evidence (sample_observation d c))) \<le> MaximumSecurityEvidenceBytes"
proof -
  have "length (json_map []) = 2" by code_simp
  then show ?thesis by (simp add: sample_observation_def MaximumSecurityEvidenceBytes_def)
qed

lemma Evaluate_decides_witness:
  "\<exists>r w'. store_Evaluate 5 (sample_evaluation True True) sample_sec_world = (Inr r, w') \<and> er_opened r"
proof -
  have ok: "findings_ok sample_sec_world"
    by (simp add: findings_ok_def sample_sec_world_def empty_table_def table_ok_def)
  have f: "faults sample_sec_world = []" by (simp add: sample_sec_world_def)
  have v: "validateObservation (se_obs (sample_evaluation True True)) = Inr ()"
    "length (json_map (ob_evidence (se_obs (sample_evaluation True True)))) \<le> MaximumSecurityEvidenceBytes"
    using sample_valid sample_small by (simp_all add: sample_evaluation_def)
  have none: "active_finding fp sample_sec_world = None" for fp
    by (simp add: active_finding_def t_find_def sample_sec_world_def empty_table_def)
  have d: "ob_detected (observed 5 (se_obs (sample_evaluation True True)))"
    by (simp add: observed_def sample_evaluation_def sample_observation_def)
  show ?thesis
    using Evaluate_decides [OF f ok v refl refl, of 5] d by (simp add: none) blast
qed

lemma reopened_in_silence_witness:
  "\<exists>g w'. flow_Evaluate \<lparr>sc_notifications = True, sc_cursors = True, sc_notify_high = True\<rparr>
      \<lparr>ck_now = 9, ck_note = (\<lambda>_. 9), ck_event = (\<lambda>_. 9)\<rparr> (sample_evaluation False False)
      (sample_findings_world FindingSuppressed (Some 8)) = (Inr None, w') \<and>
    finding_by_id 1 w' = Some g \<and> fd_status g = FindingOpen"
proof -
  let ?w = "sample_findings_world FindingSuppressed (Some 8)" and ?e = "sample_evaluation False False"
  let ?ck = "\<lparr>ck_now = 9, ck_note = (\<lambda>_. 9), ck_event = (\<lambda>_. 9)\<rparr> :: sec_clock"
  have f: "faults ?w = []" by (simp add: sample_findings_world_def sample_sec_world_def)
  have v: "validateObservation (se_obs ?e) = Inr ()"
    "length (json_map (ob_evidence (se_obs ?e))) \<le> MaximumSecurityEvidenceBytes"
    using sample_valid sample_small by (simp_all add: sample_evaluation_def)
  have fp: "evaluation_fingerprint ?e = evaluation_fingerprint (sample_evaluation True True)"
    by (simp add: evaluation_fingerprint_def sample_evaluation_def sample_observation_def)
  have a: "active_finding (evaluation_fingerprint ?e) ?w = Some (sample_finding FindingSuppressed (Some 8))"
    by (simp add: active_finding_def t_find_def fp is_active_def)
  have el: "elapsed (ob_at (observed (ck_now ?ck) (se_obs ?e))) (sample_finding FindingSuppressed (Some 8))"
    by (simp add: elapsed_def observed_def sample_evaluation_def sample_observation_def is_zero_time_def zero_time_def)
  have nd: "\<not> ob_detected (se_obs ?e)" "\<not> ob_complete (se_obs ?e)"
    by (simp_all add: sample_evaluation_def sample_observation_def)
  show ?thesis
    using reopened_in_silence [OF f sample_findings_ok v a el nd] by (metis sample_finding_sel(1))
qed

end
