(* ===== verification/Security_Laws.thy ===== *)
theory Security_Laws
  imports Evaluate_Laws
begin

text \<open>
  More of what the security store promises: an evaluation touches the findings of its own
  fingerprint only; an approval or an ignore decides the next classification; no operator action
  goes unaudited; the policy of the narrowest scope wins.
\<close>

lemma blind_sec [simp]:
  "blind (instance_of cid)" "blind (active_finding fp)" "blind (next_episode fp)"
  "blind (finding_insert_ok f)" "blind (finding_by_id i)" "blind (audit_insert_ok a)" "blind sw_findings"
  "blind (active_baselines cid)" "blind (ignore_of cid)" "blind (policy_row sc sid)" "blind sw_activation"
  "blind (policy_insert_ok p)"
  by (simp_all add: blind_def instance_of_def active_finding_def next_episode_def finding_insert_ok_def
      finding_by_id_def audit_insert_ok_def has_service_def active_baselines_def ignore_of_def policy_row_def
      policy_insert_ok_def split: option.split)

lemma blind_update_sec [simp]:
  "blind_update (update_finding i f)" "blind_update (with_instances g)"
  by (simp_all add: blind_update_def update_finding_def with_instances_def)

lemma calm_Evaluate: "calm (store_Evaluate now e)"
  unfolding store_Evaluate_def evaluate_body_def findOpenFinding_def reopen_elapsed_def apply_observation_def
    open_episode_def insertFinding_def record_transition_def
  by (intro calm_rules blind_sec blind_update_sec) (simp_all add: blind_def blind_update_def)

lemma atomic_Evaluate: "atomic (store_Evaluate now e)"
  unfolding store_Evaluate_def by (intro atomic_rules)

section \<open>An evaluation stays with its fingerprint\<close>

definition others :: "gostring \<Rightarrow> finding table \<Rightarrow> finding list" where
  "others fp t = filter (\<lambda>r. fd_fingerprint r \<noteq> fp) (rows t)"

lemma others_update:
  assumes "\<And>r. r \<in> set (rows t) \<Longrightarrow> Q r \<Longrightarrow> fd_fingerprint r = fp \<and> fd_fingerprint (f r) = fp"
  shows "others fp (t_update Q f t) = others fp t"
proof -
  have "\<forall>r\<in>set xs. Q r \<longrightarrow> fd_fingerprint r = fp \<and> fd_fingerprint (f r) = fp \<Longrightarrow>
    filter (\<lambda>r. fd_fingerprint r \<noteq> fp) (map_where Q f xs) = filter (\<lambda>r. fd_fingerprint r \<noteq> fp) xs" for xs
    unfolding map_where_def by (induction xs) auto
  then show ?thesis using assms by (simp add: others_def)
qed

lemma others_after:
  assumes ok: "findings_ok w"
  shows "others fp (findings_after fp v w) = others fp (sw_findings w)"
proof (cases "active_finding fp w")
  case None
  then show ?thesis by (simp add: findings_after_def with_finding_def others_def new_finding_def)
next
  case (Some f)
  have t: "table_ok fd_id (sw_findings w)" using ok by (simp add: findings_ok_def)
  have own: "fd_fingerprint r = fp" if "r \<in> set (rows (sw_findings w))" "fd_id r = fd_id f" for r
    using finding_rows.row_unique [OF t that(1) active_finding_facts(1) [OF ok Some] that(2)]
      active_finding_facts(2) [OF ok Some] by simp
  let ?o = "\<lambda>r. r\<lparr>fd_status := FindingOpen, fd_last := ob_at v\<rparr>"
  let ?t1 = "if elapsed (ob_at v) f then t_update (\<lambda>r. fd_id r = fd_id f) ?o (sw_findings w) else sw_findings w"
  have t1: "others fp ?t1 = others fp (sw_findings w)" using own by (simp add: others_update)
  have own1: "fd_fingerprint r = fp" if "r \<in> set (rows ?t1)" "fd_id r = fd_id f" for r
    using that own by (auto simp: set_map_where split: if_splits)
  have "others fp (t_update (\<lambda>r. fd_id r = fd_id f) g ?t1) = others fp ?t1"
    if "\<And>r. fd_fingerprint (g r) = fd_fingerprint r" for g
    using own1 that by (intro others_update) simp
  then show ?thesis using t1 Some
    by (simp add: findings_after_def Let_def seen_again_def recovered_def)
qed

lemma findings_ok_calm: "findings_ok w \<Longrightarrow> findings_ok (w\<lparr>faults := []\<rparr>)"
  by simp

lemma Evaluate_success:
  assumes ok: "findings_ok w" and run: "store_Evaluate now e w = (Inr r, w')"
  shows "r = evaluated (evaluation_fingerprint e) (observed now (se_obs e)) (w\<lparr>faults := []\<rparr>) \<and>
    sw_findings w' = findings_after (evaluation_fingerprint e) (observed now (se_obs e)) (w\<lparr>faults := []\<rparr>) \<and>
    validateObservation (se_obs e) = Inr ()"
proof -
  let ?w = "w\<lparr>faults := []\<rparr>"
  have run0: "store_Evaluate now e ?w = (Inr r, w'\<lparr>faults := []\<rparr>)"
    using calm_Evaluate run by (rule calmD)
  have v: "validateObservation (se_obs e) = Inr ()"
    and l: "length (json_map (ob_evidence (se_obs e))) \<le> MaximumSecurityEvidenceBytes"
    using run unfolding store_Evaluate_def
    by (auto simp: returned of_result_def split: sum.splits)
  obtain u where u: "store_Evaluate now e ?w = (Inr (evaluated (evaluation_fingerprint e) (observed now (se_obs e)) ?w), u)"
    "sw_findings u = findings_after (evaluation_fingerprint e) (observed now (se_obs e)) ?w"
    using Evaluate_run [of ?w e now] ok v l by auto
  then show ?thesis using run0 v by auto
qed

text \<open>Whatever statement fails, an observation leaves every finding of another fingerprint as it
  was.  As the fingerprint hashes the container, the rule and the approved baseline, a finding that was
  opened under one baseline is out of reach of every observation made under a later one.\<close>

theorem Evaluate_local:
  assumes "findings_ok w" and "fp \<noteq> evaluation_fingerprint e"
  shows "filter (\<lambda>r. fd_fingerprint r = fp) (rows (sw_findings (snd (store_Evaluate now e w)))) =
    filter (\<lambda>r. fd_fingerprint r = fp) (rows (sw_findings w))"
proof -
  obtain x w' where run: "store_Evaluate now e w = (x, w')" by fastforce
  have "others (evaluation_fingerprint e) (sw_findings w') = others (evaluation_fingerprint e) (sw_findings w)"
  proof (cases x)
    case (Inl er)
    then have "only_oracle w w'" using run atomicD [OF atomic_Evaluate] by blast
    then show ?thesis by (auto simp: only_oracle_ex)
  next
    case (Inr r)
    then show ?thesis
      using Evaluate_success [OF assms(1)] run others_after [of "w\<lparr>faults := []\<rparr>"] assms(1) by simp
  qed
  then have "filter (\<lambda>r. fd_fingerprint r = fp) (others (evaluation_fingerprint e) (sw_findings w')) =
      filter (\<lambda>r. fd_fingerprint r = fp) (others (evaluation_fingerprint e) (sw_findings w))" by simp
  moreover have "filter (\<lambda>r. fd_fingerprint r = fp) (others (evaluation_fingerprint e) t) =
      filter (\<lambda>r. fd_fingerprint r = fp) (rows t)" for t
    unfolding others_def filter_filter using assms(2) by (intro filter_cong) auto
  ultimately show ?thesis by (simp add: run)
qed

lemma Evaluate_local_witness:
  "filter (\<lambda>r. fd_fingerprint r = [])
      (rows (sw_findings (snd (store_Evaluate 5 (sample_evaluation True True) (sample_findings_world FindingOpen None))))) =
    filter (\<lambda>r. fd_fingerprint r = []) (rows (sw_findings (sample_findings_world FindingOpen None)))"
proof -
  have "[] \<noteq> evaluation_fingerprint (sample_evaluation True True)"
    using sha256_hex_length by (metis evaluation_fingerprint_def findingFingerprint_def list.size(3) zero_neq_numeral)
  then show ?thesis by (rule Evaluate_local [OF sample_findings_ok])
qed

section \<open>Approvals and ignores decide the classification\<close>

lemma update_instance_sel:
  assumes "update_instance what cid f w = (Inr u, w')"
  shows "sw_baselines w' = sw_baselines w \<and> sw_ignores w' = sw_ignores w \<and> audits w' = audits w \<and>
    sw_instances w' = map_where (\<lambda>r. ci_id r = cid) f (sw_instances w)"
  using assms unfolding update_instance_def
  by (auto simp: returned with_instances_def dest!: returned_stmt)

lemma security_audit_sel:
  assumes "insertSecurityAudit now actor action d w = (Inr u, w')"
  shows "sw_baselines w' = sw_baselines w \<and> sw_ignores w' = sw_ignores w \<and> sw_instances w' = sw_instances w \<and>
    audits w' = t_insert (\<lambda>i r. r\<lparr>au_id := i\<rparr>) (security_audit now actor action d) (audits w)"
  using assms unfolding insertSecurityAudit_def
  by (auto simp: returned dest!: returned_stmt)

lemma reading_sel: "reading m \<Longrightarrow> m w = (r, w') \<Longrightarrow>
    sw_baselines w' = sw_baselines w \<and> sw_ignores w' = sw_ignores w \<and> sw_instances w' = sw_instances w \<and>
    audits w' = audits w"
  by (auto simp: only_oracle_ex dest!: readingD)

lemma reading_Baseline [simp]: "reading (security_Baseline cid)"
  unfolding security_Baseline_def by (intro atomic_rules)

lemma Approve_state:
  assumes "security_Approve now audit_now a w = (Inr b, w')"
  shows "\<exists>moment. sw_baselines w' = save_baseline (a\<lparr>ap_at := moment\<rparr>) (retire_baselines (ap_container a) (sw_baselines w)) \<and>
    sw_ignores w' = filter (\<lambda>g. ig_container g \<noteq> ap_container a) (sw_ignores w)"
proof -
  let ?a = "if is_zero_time (ap_at a) then a\<lparr>ap_at := now\<rparr> else a"
  have a: "?a = a\<lparr>ap_at := ap_at ?a\<rparr>" "ap_container ?a = ap_container a" by simp_all
  obtain fs u where b: "approve_body audit_now ?a (w\<lparr>faults := fs\<rparr>) = (Inr (), u)"
    and r: "security_Baseline (ap_container ?a) u = (Inr b, w')"
    using assms unfolding security_Approve_def Let_def
    by (auto simp: returned tx_commit dest!: returned_stmt)
  have "sw_baselines u = save_baseline ?a (retire_baselines (ap_container ?a) (sw_baselines w)) \<and>
      sw_ignores u = filter (\<lambda>g. ig_container g \<noteq> ap_container ?a) (sw_ignores w)"
    using b unfolding approve_body_def
    by (auto simp: returned dest!: returned_stmt update_instance_sel security_audit_sel)
  then show ?thesis
    using reading_sel [OF reading_Baseline r] a by (intro exI [of _ "ap_at ?a"]) simp
qed

lemma save_baseline_matches:
  assumes "ci_id i = ap_container a"
  shows "0 < t_count (baseline_matches i) (save_baseline a (retire_baselines (ap_container a) t)) \<longleftrightarrow>
    ci_image_fp i = ap_image_fp a \<and> ci_config_fp i = ap_config_fp a"
proof -
  let ?r = "retire_baselines (ap_container a) t"
  have "\<forall>b\<in>set (rows ?r). \<not> (bl_container b = ap_container a \<and> bl_active b)"
    by (simp add: retire_baselines_def ball_mw)
  then have retired: "\<not> (bl_container b = ap_container a \<and> bl_active b)" if "b \<in> set (rows ?r)" for b
    using that by blast
  have c: "0 < t_count P s \<longleftrightarrow> (\<exists>b\<in>set (rows s). P b)" for P :: "baseline \<Rightarrow> bool" and s
    by (auto simp: t_count_def filter_empty_conv)
  show ?thesis
  proof (cases "list_ex (same_baseline a) (rows ?r)")
    case True
    then obtain b where "b \<in> set (rows ?r)" "same_baseline a b" by (auto simp: list_ex_iff)
    have "(\<exists>y\<in>set (rows ?r). baseline_matches i (if same_baseline a y
          then y\<lparr>bl_by := ap_actor a, bl_at := ap_at a, bl_active := True\<rparr> else y)) \<longleftrightarrow>
        ci_image_fp i = ap_image_fp a \<and> ci_config_fp i = ap_config_fp a" (is "?L \<longleftrightarrow> ?R")
    proof
      assume ?L
      then obtain y where y: "y \<in> set (rows ?r)" and m: "baseline_matches i (if same_baseline a y
          then y\<lparr>bl_by := ap_actor a, bl_at := ap_at a, bl_active := True\<rparr> else y)" by blast
      then show ?R using retired [OF y] assms
        by (cases "same_baseline a y") (auto simp: baseline_matches_def same_baseline_def)
    next
      assume ?R
      then show ?L using \<open>b \<in> set (rows ?r)\<close> \<open>same_baseline a b\<close> assms
        by (intro bexI [of _ b]) (simp_all add: baseline_matches_def same_baseline_def)
    qed
    then show ?thesis unfolding c save_baseline_def if_P [OF True] rows_t_update bex_mw .
  next
    case False
    then show ?thesis unfolding c save_baseline_def if_not_P [OF False] rows_t_insert
      using retired assms by (auto simp: baseline_matches_def)
  qed
qed

lemma Classify_value:
  assumes "security_Classify i moment w = (Inr c, w')" "ci_service i = []"
  shows "c = (if (case ignore_of (ci_id i) w of None \<Rightarrow> False | Some g \<Rightarrow> ignore_active moment g) then ClassIgnored
    else if 0 < t_count (baseline_matches i) (sw_baselines w) then ClassApproved else ClassUnknown)"
  using assms unfolding security_Classify_def
  by (auto simp: returned ignore_of_def dest!: returned_stmt split: if_splits)

lemma Approve_decisions:
  assumes "security_Approve now audit_now a w = (Inr b, w')" "ci_id i = ap_container a"
  shows "ignore_of (ci_id i) w' = None"
    and "0 < t_count (baseline_matches i) (sw_baselines w') \<longleftrightarrow>
      ci_image_fp i = ap_image_fp a \<and> ci_config_fp i = ap_config_fp a"
proof -
  obtain t0 where b: "sw_baselines w' = save_baseline (a\<lparr>ap_at := t0\<rparr>) (retire_baselines (ap_container a) (sw_baselines w))"
    and g: "sw_ignores w' = filter (\<lambda>g. ig_container g \<noteq> ap_container a) (sw_ignores w)"
    using Approve_state [OF assms(1)] by blast
  show "ignore_of (ci_id i) w' = None" by (simp add: ignore_of_def g assms(2))
  show "0 < t_count (baseline_matches i) (sw_baselines w') \<longleftrightarrow>
      ci_image_fp i = ap_image_fp a \<and> ci_config_fp i = ap_config_fp a"
    using save_baseline_matches [of i "a\<lparr>ap_at := t0\<rparr>"] assms(2) by (simp add: b)
qed

text \<open>After a successful approval, and until the inventory or the decisions change, a container that
  no service owns is classified as approved exactly when its image and its configuration carry the
  approved fingerprints, and as unknown otherwise; an earlier ignore no longer counts.\<close>

theorem Approve_then_Classify:
  assumes "security_Approve now audit_now a w = (Inr b, w')"
    and "security_Classify i moment w' = (Inr c, w'')" and "ci_id i = ap_container a" "ci_service i = []"
  shows "c = (if ci_image_fp i = ap_image_fp a \<and> ci_config_fp i = ap_config_fp a
    then ClassApproved else ClassUnknown)"
  using Approve_decisions [OF assms(1,3)] Classify_value [OF assms(2,4)] by simp

definition sample_approval :: approval where
  "sample_approval =
    \<lparr>ap_container = ''a'', ap_image_fp = ''sha'', ap_config_fp = ''fp'', ap_actor = ''ops'', ap_at = 7\<rparr>"

lemma sample_actor: "trim_space ''ops'' = ''ops''"
  by (rule trim_space_plain) code_simp

lemma sample_columns: "''container_approve'' \<in> set audit_actions_sql" "AuditSuccess \<in> set results_sql"
  by code_simp+

lemma sample_Approve:
  "\<exists>b w'. security_Approve 7 7 sample_approval sample_sec_world = (Inr b, w') \<and> faults w' = []"
  using sample_columns by (simp add: security_Approve_def approve_body_def sample_approval_def sample_sec_world_def sample_actor
      run_defs update_instance_def instance_of_def insertSecurityAudit_def audit_insert_ok_def security_audit_def
      has_service_def with_instances_def map_where_def retire_baselines_def save_baseline_def security_Baseline_def
      active_baselines_def sample_instance_def empty_table_def t_insert_def t_update_def time_desc_def
      is_zero_time_def zero_time_def desc_by_def Let_def)

lemma Classify_runs: "faults w = [] \<Longrightarrow> \<exists>c w'. security_Classify i moment w = (Inr c, w')"
  unfolding security_Classify_def by (cases "ci_service i \<noteq> []") (auto simp: run_defs)

lemma Approve_then_Classify_witness:
  "\<exists>b w'. security_Approve 7 7 sample_approval sample_sec_world = (Inr b, w') \<and>
    fst (security_Classify ((sample_instance ''a'' ''web'' [])\<lparr>ci_config_fp := ''fp''\<rparr>) 9 w') = Inr ClassApproved"
proof -
  let ?i = "(sample_instance ''a'' ''web'' [])\<lparr>ci_config_fp := ''fp''\<rparr>"
  obtain b w' where a: "security_Approve 7 7 sample_approval sample_sec_world = (Inr b, w')"
    and f: "faults w' = []" using sample_Approve by blast
  then obtain c w'' where c: "security_Classify ?i 9 w' = (Inr c, w'')"
    using Classify_runs by blast
  have "c = ClassApproved"
    using Approve_then_Classify [OF a c] by (simp add: sample_approval_def sample_instance_def)
  then show ?thesis using a c by auto
qed

section \<open>Nothing an operator does goes unaudited\<close>

definition aud_is :: "audit table \<Rightarrow> 'z sec_world_scheme \<Rightarrow> bool" where
  "aud_is t w \<longleftrightarrow> audits w = t"

interpretation aud_db: db_invariant "aud_is t" for t
  by unfold_locales (simp add: aud_is_def)

definition one_audit :: "gostring \<Rightarrow> gostring \<Rightarrow> 'z sec_world_scheme \<Rightarrow> 'z sec_world_scheme \<Rightarrow> bool" where
  "one_audit actor action w w' \<longleftrightarrow>
    (\<exists>now d. audits w' = t_insert (\<lambda>i r. r\<lparr>au_id := i\<rparr>) (security_audit now actor action d) (audits w))"

definition adds_audit :: "gostring \<Rightarrow> gostring \<Rightarrow> ('z sec_world_scheme, err, 'a) prog \<Rightarrow> bool" where
  "adds_audit actor action m \<longleftrightarrow> (\<forall>w a w'. m w = (Inr a, w') \<longrightarrow> one_audit actor action w w')"

text \<open>An operation which, whatever fails, leaves all as it was and says so, or writes its audit row.\<close>

definition audited :: "gostring \<Rightarrow> gostring \<Rightarrow> ('z sec_world_scheme, err, 'a) prog \<Rightarrow> bool" where
  "audited actor action m \<longleftrightarrow>
    (\<forall>w r w'. m w = (r, w') \<longrightarrow>
      (only_oracle w w' \<and> (\<exists>e. r = Inl e)) \<or> one_audit actor action w w')"

lemma keeps_aud: "(\<And>t. keeps (aud_is t) m) \<Longrightarrow> m w = (r, w') \<Longrightarrow> audits w' = audits w"
  using keepsD [of "aud_is (audits w)" m w r w'] by (simp add: aud_is_def)

lemma adds_after:
  "(\<And>t. keeps (aud_is t) m) \<Longrightarrow> (\<And>a. adds_audit actor action (k a)) \<Longrightarrow> adds_audit actor action (bindE m k)"
  unfolding adds_audit_def returned_bindE one_audit_def using keeps_aud by (metis (no_types, lifting))

lemma adds_then: "(\<And>t. keeps (aud_is t) m) \<Longrightarrow> adds_audit actor action n \<Longrightarrow> adds_audit actor action (andthen m n)"
  by (simp add: andthen_def adds_after)

lemma adds_before: "adds_audit actor action m \<Longrightarrow> (\<And>t. keeps (aud_is t) n) \<Longrightarrow> adds_audit actor action (andthen m n)"
  unfolding adds_audit_def andthen_def returned_bindE one_audit_def using keeps_aud by (metis (no_types, lifting))

lemma adds_insert: "adds_audit actor action (insertSecurityAudit now actor action d)"
  unfolding adds_audit_def one_audit_def using security_audit_sel by blast

lemma audited_after:
  assumes "reading m" "\<And>a. audited actor action (k a)" shows "audited actor action (bindE m k)"
  unfolding audited_def
proof (intro allI impI)
  fix w r w' assume run: "bindE m k w = (r, w')"
  obtain x u where m: "m w = (x, u)" by fastforce
  have o: "only_oracle w u" using readingD [OF assms(1) m] .
  then have a: "audits u = audits w" by (auto simp: only_oracle_ex)
  show "(only_oracle w w' \<and> (\<exists>e. r = Inl e)) \<or> one_audit actor action w w'"
    using run m o a assms(2) only_oracle_trans [OF o]
    by (cases x) (fastforce simp: bindE_def audited_def one_audit_def)+
qed

lemma audited_then: "reading m \<Longrightarrow> audited actor action n \<Longrightarrow> audited actor action (andthen m n)"
  by (simp add: andthen_def audited_after)

lemma audited_tx_bind:
  assumes m: "adds_audit actor action m" and k: "\<And>a. reading (k a)"
  shows "audited actor action (bindE (tx m) k)"
  unfolding audited_def
proof (intro allI impI)
  fix w r w' assume run: "bindE (tx m) k w = (r, w')"
  from atomic_then_read [OF atomic_tx k run]
  show "(only_oracle w w' \<and> (\<exists>e. r = Inl e)) \<or> one_audit actor action w w'"
    using m by (auto simp: adds_audit_def one_audit_def tx_commit only_oracle_ex)
qed

lemma audited_tx: "adds_audit actor action m \<Longrightarrow> (\<And>a. reading n) \<Longrightarrow> audited actor action (andthen (tx m) n)"
  by (simp add: andthen_def audited_tx_bind)

lemma audited_tx_last: "adds_audit actor action m \<Longrightarrow> audited actor action (tx m)"
  using audited_tx_bind [of actor action m ret] by (simp add: bindE_ret_right)

lemma keeps_aud_modify: "(\<And>w. audits (f w) = audits w) \<Longrightarrow> keeps (aud_is t) (modify f)"
  by (simp add: keeps_def modify_def aud_is_def)

lemma keeps_aud_update_instance: "keeps (aud_is t) (update_instance what cid f)"
  unfolding update_instance_def by (intro keeps_rules aud_db.keeps_stmt) (simp add: aud_is_def with_instances_def)

lemmas aud_rules = adds_then adds_after adds_before adds_insert keeps_aud_modify keeps_aud_update_instance
  keeps_gets keeps_guardE keeps_ret aud_db.keeps_stmt

lemma reading_findingByID [simp]: "reading (findingByID i)"
  unfolding findingByID_def by (intro atomic_rules)

lemma reading_SecurityPolicy [simp]: "reading (SecurityPolicy i)"
  unfolding SecurityPolicy_def by (intro atomic_rules)

lemma finding_action_audited: "audited actor action (finding_action now actor action P f i)"
  unfolding finding_action_def
  by (intro audited_then audited_tx reading_findingByID reading_basic aud_rules) simp_all

lemma approve_body_adds: "adds_audit (ap_actor a) ''container_approve'' (approve_body now a)"
  unfolding approve_body_def
  by (rule adds_then adds_before adds_insert keeps_aud_modify keeps_aud_update_instance aud_db.keeps_stmt; simp?)+

lemma ignore_body_adds: "adds_audit (ig_actor g) ''container_ignore'' (ignore_body now g)"
  unfolding ignore_body_def
  by (rule adds_then adds_before adds_insert keeps_aud_modify keeps_aud_update_instance aud_db.keeps_stmt; simp?)+

lemma adds_bind: "adds_audit actor action m \<Longrightarrow> (\<And>t a. keeps (aud_is t) (k a)) \<Longrightarrow> adds_audit actor action (bindE m k)"
  unfolding adds_audit_def returned_bindE one_audit_def using keeps_aud by (metis (no_types, lifting))

lemma create_policy_adds: "adds_audit actor ''security_policy_create'' (create_policy_body now now' p actor)"
  unfolding create_policy_body_def
  by (rule adds_then adds_after adds_before adds_insert keeps_aud_modify keeps_andthen keeps_ret keeps_gets
      keeps_guardE aud_db.keeps_stmt; simp?)+

lemma update_policy_adds: "adds_audit actor ''security_policy_update'' (update_policy_body now now' i p actor)"
  unfolding update_policy_body_def
  by (rule adds_then adds_after adds_before adds_insert keeps_aud_modify aud_db.keeps_stmt; simp?)+

lemma reading_of_result_then: "(\<And>a. audited actor action (k a)) \<Longrightarrow> audited actor action (bindE (SecurityPolicy i) k)"
  by (intro audited_after reading_SecurityPolicy)

text \<open>C8: No decision of an operator escapes the audit log.  Whatever statement fails, each of
  these actions either leaves the whole database as it was and reports an error, or adds exactly
  one audit row, with its action and its actor; a failure after the commit can hide
  the answer but not the row.\<close>

theorem actions_audited:
  "audited actor ''security_acknowledge'' (Acknowledge now now' i actor) \<and>
   audited actor ''security_resolve'' (Resolve now now' i actor) \<and>
   audited (sp_actor s) ''security_suppress'' (Suppress now now' i s) \<and>
   audited actor ''security_policy_create'' (CreatePolicy now now' p actor) \<and>
   audited actor ''security_policy_update'' (UpdatePolicy now now' i p actor) \<and>
   audited actor ''security_policy_delete'' (DeletePolicy now' i actor) \<and>
   audited (ap_actor a) ''container_approve'' (security_Approve now now' a) \<and>
   audited (ig_actor g) ''container_ignore'' (security_Ignore now now' g)"
proof (intro conjI)
  show "audited actor ''security_acknowledge'' (Acknowledge now now' i actor)"
    "audited actor ''security_resolve'' (Resolve now now' i actor)"
    "audited (sp_actor s) ''security_suppress'' (Suppress now now' i s)"
    unfolding Acknowledge_def Resolve_def Suppress_def
    by (intro audited_then finding_action_audited reading_basic)+
  show "audited actor ''security_policy_create'' (CreatePolicy now now' p actor)"
    unfolding CreatePolicy_def
    by (intro audited_then audited_tx_bind create_policy_adds reading_basic reading_SecurityPolicy)
  show "audited actor ''security_policy_update'' (UpdatePolicy now now' i p actor)"
    unfolding UpdatePolicy_def Let_def
    by (intro audited_after audited_then audited_tx update_policy_adds reading_basic reading_SecurityPolicy)
  show "audited actor ''security_policy_delete'' (DeletePolicy now' i actor)"
    unfolding DeletePolicy_def
    by (intro audited_then audited_tx_last reading_basic)
      (rule adds_then adds_after adds_before adds_insert keeps_aud_modify keeps_gets keeps_guardE
        aud_db.keeps_stmt; simp?)+
  show "audited (ap_actor a) ''container_approve'' (security_Approve now now' a)"
  proof -
    have one: "audited (ap_actor a) ''container_approve'' (andthen (tx (approve_body now' b)) (security_Baseline c))"
      if "ap_actor b = ap_actor a" for b c
      using approve_body_adds [of b now'] that by (intro audited_tx) simp_all
    show ?thesis unfolding security_Approve_def Let_def
      by (rule audited_then, simp, rule audited_then, simp, rule one, simp)
  qed
  show "audited (ig_actor g) ''container_ignore'' (security_Ignore now now' g)"
  proof -
    have one: "audited (ig_actor g) ''container_ignore'' (andthen (tx (ignore_body now' h)) (ret h))"
      if "ig_actor h = ig_actor g" for h
      using ignore_body_adds [of h now'] that by (intro audited_tx) simp_all
    show ?thesis unfolding security_Ignore_def Let_def
      by (rule audited_then, simp, rule audited_then, simp, rule audited_then, simp, rule audited_then, simp,
          rule one, simp)
  qed
qed

section \<open>Policies\<close>

lemma PolicyFor_value:
  "first_policy qs w = (Inr p, w') \<Longrightarrow>
    p = (case first_where (\<lambda>(sc, sid). (sc = ''global'' \<or> sid \<noteq> []) \<and> policy_row sc sid w \<noteq> None) qs of
      None \<Rightarrow> no_policy | Some (sc, sid) \<Rightarrow> encodePolicy (the (policy_row sc sid w)))"
proof (induction qs arbitrary: w rule: first_policy.induct)
  case 1 then show ?case by (simp add: ret_def)
next
  case (2 scope sid qs)
  show ?case
  proof (cases "scope \<noteq> ''global'' \<and> sid = []")
    case True
    then show ?thesis using 2 by simp
  next
    case False
    then obtain fs where s: "(case policy_row scope sid w of None \<Rightarrow> first_policy qs
        | Some q \<Rightarrow> ret (encodePolicy q)) (w\<lparr>faults := fs\<rparr>) = (Inr p, w')"
      using "2.prems" by (auto simp: returned policy_row_def dest!: returned_stmt)
    have blind: "policy_row sc si (w\<lparr>faults := fs\<rparr>) = policy_row sc si w" for sc si
      by (simp add: policy_row_def)
    show ?thesis
    proof (cases "policy_row scope sid w")
      case None
      have "first_policy qs (w\<lparr>faults := fs\<rparr>) = (Inr p, w')" using s None by simp
      from "2.IH"(2) [OF False this] have "p = (case first_where (\<lambda>(sc, sid). (sc = ''global'' \<or> sid \<noteq> []) \<and> policy_row sc sid w \<noteq> None) qs of
          None \<Rightarrow> no_policy | Some (sc, sid) \<Rightarrow> encodePolicy (the (policy_row sc sid w)))"
        unfolding blind .
      then show ?thesis by (simp add: None)
    next
      case (Some q)
      then show ?thesis using s False by (auto simp: ret_def)
    qed
  qed
qed

text \<open>The policy that is applied to a container is its own one, else that of its service, else the
  global one, else the empty policy, which allows nothing; the id, the scope and the author of the
  row do not come with it.\<close>

theorem PolicyFor_narrowest:
  assumes "PolicyFor service cid w = (Inr p, w')"
  shows "p =
    (if cid \<noteq> [] \<and> policy_row ''container'' cid w \<noteq> None then encodePolicy (the (policy_row ''container'' cid w))
     else if service \<noteq> [] \<and> policy_row ''service'' service w \<noteq> None
     then encodePolicy (the (policy_row ''service'' service w))
     else if policy_row ''global'' [] w \<noteq> None then encodePolicy (the (policy_row ''global'' [] w))
     else no_policy)"
  using PolicyFor_value [OF assms [unfolded PolicyFor_def]] by (simp split: if_splits)

lemma PolicyFor_narrowest_witness:
  "\<exists>p w'. PolicyFor [] ''a'' sample_sec_world = (Inr p, w') \<and> p = no_policy"
proof -
  obtain p w' where r: "PolicyFor [] ''a'' sample_sec_world = (Inr p, w')"
    by (simp add: PolicyFor_def run_defs sample_sec_world_def policy_row_def empty_table_def t_find_def)
  show ?thesis using PolicyFor_narrowest [OF r] r
    by (simp add: policy_row_def sample_sec_world_def empty_table_def t_find_def)
qed

end
