(* ===== verification/Fleet_Inventory.thy ===== *)
theory Fleet_Inventory
  imports Security_Flow Service_View
begin

text \<open>
  The reconciler of the container inventory (\<open>internal/service/fleet_inventory.go\<close>).  Docker is a
  parameter: the listing, or its failure, and the outcome of each inspection.  The code inspects in
  parallel and collects the results; the outcomes do not depend on their order, so the model asks
  for them in the order of the listing.  The workflow is wired as in \<open>cmd/touchgrass\<close>: the security
  store and the evaluator are there.  The wake-ups and the ticker only call \<open>fleet_Reconcile\<close>.
\<close>

record published_port =
  pp_host_ip :: gostring
  pp_host_port :: int
  pp_container_port :: int
  pp_proto :: gostring

record listed = container +
  ct_published :: "published_port list"

text \<open>What docker tells of a container; its compose labels are not read here.\<close>

record docker_inspection =
  dk_user :: gostring
  dk_entrypoint :: gostring
  dk_command :: gostring
  dk_privileged :: bool
  dk_readonly :: bool
  dk_caps :: "gostring list option"
  dk_pid :: gostring
  dk_ipc :: gostring
  dk_network :: gostring
  dk_restart :: gostring
  dk_memory :: int
  dk_cpus :: int
  dk_pids :: "int option"
  dk_mounts :: "safe_mount list"
  dk_socket :: bool

text \<open>The zero inspection, which stands for one that failed.\<close>

definition zero_inspection :: docker_inspection where
  "zero_inspection =
    \<lparr>dk_user = [], dk_entrypoint = [], dk_command = [], dk_privileged = False, dk_readonly = False,
     dk_caps = None, dk_pid = [], dk_ipc = [], dk_network = [], dk_restart = [], dk_memory = 0,
     dk_cpus = 0, dk_pids = None, dk_mounts = [], dk_socket = False\<rparr>"

datatype inspect_outcome = Inspected docker_inspection | Vanished | InspectFailed

definition safeInspection :: "docker_inspection \<Rightarrow> inspection" where
  "safeInspection d =
    \<lparr>in_complete = True, in_user = dk_user d, in_entrypoint = dk_entrypoint d,
     in_command = dk_command d, in_privileged = dk_privileged d, in_readonly = dk_readonly d,
     in_caps = dk_caps d, in_pid = dk_pid d, in_ipc = dk_ipc d, in_network = dk_network d,
     in_restart = dk_restart d, in_memory = dk_memory d, in_cpus = dk_cpus d, in_pids = dk_pids d,
     in_mounts = Some (dk_mounts d), in_ports = [], in_socket = dk_socket d\<rparr>"

definition port_text :: "published_port \<Rightarrow> gostring" where
  "port_text p =
    pp_host_ip p @ '':'' @ itoa (pp_host_port p) @ ''->'' @ itoa (pp_container_port p) @ ''/'' @ pp_proto p"

definition publishedPorts :: "published_port list \<Rightarrow> gostring list" where
  "publishedPorts ps = sort (map port_text ps)"

section \<open>Owners\<close>

fun add_owners ::
  "service \<Rightarrow> gostring list \<Rightarrow> listed list \<Rightarrow> (gostring \<rightharpoonup> gostring) \<Rightarrow> (gostring \<rightharpoonup> gostring)" where
  "add_owners def wanted [] m = m"
| "add_owners def wanted (c # cs) m =
    add_owners def wanted cs
     (if belongsTo (container.truncate c) (svc_project def) wanted then m(ct_id c \<mapsto> svc_id def) else m)"

fun containerOwners ::
  "'y outside_scheme \<Rightarrow> service list \<Rightarrow> listed list \<Rightarrow> (gostring \<rightharpoonup> gostring) \<Rightarrow>
    err + (gostring \<rightharpoonup> gostring)" where
  "containerOwners env [] cs m = Inr m"
| "containerOwners env (d # ds) cs m =
    (case serviceNames env d of
       Inl e \<Rightarrow> Inl e
     | Inr names \<Rightarrow> containerOwners env ds cs (add_owners d names cs m))"

definition owner_of :: "(gostring \<rightharpoonup> gostring) \<Rightarrow> gostring \<Rightarrow> gostring" where
  "owner_of m cid = (case m cid of None \<Rightarrow> [] | Some s \<Rightarrow> s)"

section \<open>Inspection\<close>

record docker_env =
  de_list :: "listed list option"
  de_inspect :: "gostring \<Rightarrow> inspect_outcome"

text \<open>A failed inspection falls back on the row of an earlier one, marked as not covered.\<close>

definition inspect_one ::
  "docker_env \<Rightarrow> gostring \<Rightarrow> ('z sec_world_scheme, err, (inspection \<times> bool) option) prog" where
  "inspect_one dk cid =
    (case de_inspect dk cid of
       Vanished \<Rightarrow> ret None
     | Inspected d \<Rightarrow> ret (Some (safeInspection d, True))
     | InspectFailed \<Rightarrow>
         bindE (attempt (containers_Get cid)) (\<lambda>r.
           ret (Some (case r of
               Inr row \<Rightarrow> ((ci_inspection row)\<lparr>in_complete := False\<rparr>, False)
             | Inl _ \<Rightarrow> ((safeInspection zero_inspection)\<lparr>in_complete := False\<rparr>, False)))))"

definition instance_from ::
  "(gostring \<rightharpoonup> gostring) \<Rightarrow> instant \<Rightarrow> listed \<Rightarrow> inspection \<Rightarrow> instance_row" where
  "instance_from owners moment c v =
    \<lparr>ci_id = ct_id c, ci_name = ct_name c, ci_image = ct_image c, ci_image_id = ct_image_id c,
     ci_state = ct_state c, ci_status = ct_status c,
     ci_project = label (container.truncate c) LabelComposeProject,
     ci_compose = label (container.truncate c) LabelComposeService,
     ci_service = owner_of owners (ct_id c),
     ci_class = (if owner_of owners (ct_id c) \<noteq> [] then ClassManaged else ClassUnknown),
     ci_current = True, ci_present = True, ci_first = moment, ci_last = moment, ci_absent = None,
     ci_image_fp = ct_image_id c, ci_config_fp = [],
     ci_inspection = v\<lparr>in_ports := publishedPorts (ct_published c)\<rparr>,
     ci_cpu = None, ci_mem = None, ci_limit = None, ci_restarts = None\<rparr>"

definition inspect_listed ::
  "docker_env \<Rightarrow> (gostring \<rightharpoonup> gostring) \<Rightarrow> instant \<Rightarrow> listed \<Rightarrow>
    ('z sec_world_scheme, err, (instance_row \<times> bool) option) prog" where
  "inspect_listed dk owners moment c =
    bindE (inspect_one dk (ct_id c)) (\<lambda>r.
      ret (map_option (\<lambda>(v, covered). (instance_from owners moment c v, covered)) r))"

definition inspectAll ::
  "docker_env \<Rightarrow> (gostring \<rightharpoonup> gostring) \<Rightarrow> instant \<Rightarrow> listed list \<Rightarrow>
    ('z sec_world_scheme, err, (instance_row \<times> bool) list) prog" where
  "inspectAll dk owners moment cs =
    bindE (map_each (inspect_listed dk owners moment) cs) (\<lambda>rs. ret (somes rs))"

section \<open>Classification and evaluation\<close>

definition classify_one ::
  "instant \<Rightarrow> instance_row \<times> bool \<Rightarrow> ('z sec_world_scheme, err, instance_row \<times> bool) prog" where
  "classify_one moment x =
    (let i = (fst x)\<lparr>ci_config_fp := FingerprintInspection (ci_inspection (fst x))\<rparr> in
     bindE (map_error (\<lambda>_. ErrOther ''classifying container'') (security_Classify i moment)) (\<lambda>cls.
      ret (i\<lparr>ci_class := cls\<rparr>, snd x)))"

definition classificationObservation ::
  "instant \<Rightarrow> instance_row \<Rightarrow> gostring \<Rightarrow> gostring \<Rightarrow> bool \<Rightarrow> observation" where
  "classificationObservation moment i rule severity detected =
    \<lparr>ob_container = ci_id i, ob_rule = rule, ob_category = ''drift'', ob_severity = severity,
     ob_confidence = ''high'', ob_detected = detected, ob_complete = True,
     ob_evidence = [(''classification'', ci_class i)], ob_at = moment\<rparr>"

definition classification_observations :: "instant \<Rightarrow> instance_row \<Rightarrow> observation list" where
  "classification_observations moment i =
    [classificationObservation moment i ''inventory.unknown_container'' ''high''
       (ci_current i \<and> ci_class i = ClassUnknown),
     classificationObservation moment i ''inventory.missing_expected'' ''critical''
       (ci_current i \<and> ci_class i = ClassMissing)]"

definition evaluate_each ::
  "sec_config \<Rightarrow> sec_clock \<Rightarrow> err \<Rightarrow> gostring \<Rightarrow> gostring \<Rightarrow> observation list \<Rightarrow>
    ('z sec_world_scheme, err, unit) prog" where
  "evaluate_each cfg ck e base service obs =
    for_each (\<lambda>v. map_error (\<lambda>_. e)
      (andthen (flow_Evaluate cfg ck \<lparr>se_obs = v, se_baseline = base, se_service = service\<rparr>) (ret ()))) obs"

definition when_active ::
  "('z sec_world_scheme, err, unit) prog \<Rightarrow> ('z sec_world_scheme, err, unit) prog" where
  "when_active m =
    bindE (map_error (\<lambda>_. ErrOther ''reading security activation'') security_Activation) (\<lambda>(moment, by).
      if moment = None then ret () else m)"

definition evaluateClassifications ::
  "sec_config \<Rightarrow> sec_clock \<Rightarrow> instant \<Rightarrow> ('z sec_world_scheme, err, unit) prog" where
  "evaluateClassifications cfg ck moment =
    when_active (bindE ListClassificationCandidates
      (for_each (\<lambda>i. evaluate_each cfg ck (ErrOther ''evaluating inventory classification'') []
         (ci_service i) (classification_observations moment i))))"

text \<open>The baseline of a container, if any; \<open>ErrNoRows\<close> says that there is none.\<close>

definition posture_baseline ::
  "gostring \<Rightarrow> ('z sec_world_scheme, err, baseline option) prog" where
  "posture_baseline cid =
    bindE (attempt (security_Baseline cid)) (\<lambda>r.
      case r of
        Inr b \<Rightarrow> ret (Some b)
      | Inl e \<Rightarrow> (if e = ErrNoRows then ret None else throw (ErrOther ''reading posture baseline'')))"

definition posture_observations ::
  "(gostring \<Rightarrow> gostring) \<Rightarrow> instance_row \<Rightarrow> bool \<Rightarrow> baseline option \<Rightarrow> policy \<Rightarrow> observation list" where
  "posture_observations uni i covered b p =
    (let expected = (case b of
           None \<Rightarrow> i
         | Some bl \<Rightarrow> i\<lparr>ci_image_fp := bl_image_fp bl, ci_config_fp := bl_config_fp bl\<rparr>)
     in map (\<lambda>v. v\<lparr>ob_complete := covered, ob_at := ci_last i\<rparr>)
          (EvaluatePosture uni expected (ci_inspection i) p))"

definition baseline_text :: "baseline option \<Rightarrow> gostring" where
  "baseline_text b = (case b of None \<Rightarrow> [] | Some bl \<Rightarrow> bl_image_fp bl @ '':'' @ bl_config_fp bl)"

definition evaluate_posture_of ::
  "(gostring \<Rightarrow> gostring) \<Rightarrow> sec_config \<Rightarrow> sec_clock \<Rightarrow> instance_row \<times> bool \<Rightarrow>
    ('z sec_world_scheme, err, unit) prog" where
  "evaluate_posture_of uni cfg ck x =
    (case x of (i, covered) \<Rightarrow>
      bindE (PolicyFor (ci_service i) (ci_id i)) (\<lambda>p.
      bindE (posture_baseline (ci_id i)) (\<lambda>b.
       evaluate_each cfg ck (ErrOther ''evaluating posture'') (baseline_text b) (ci_service i)
         (posture_observations uni i covered b p))))"

definition evaluatePosture ::
  "(gostring \<Rightarrow> gostring) \<Rightarrow> sec_config \<Rightarrow> sec_clock \<Rightarrow> (instance_row \<times> bool) list \<Rightarrow>
    ('z sec_world_scheme, err, unit) prog" where
  "evaluatePosture uni cfg ck xs = when_active (for_each (evaluate_posture_of uni cfg ck) xs)"

section \<open>Reconciliation\<close>

record fleet_env =
  fe_docker :: docker_env
  fe_upper :: "gostring \<Rightarrow> gostring"
  fe_cfg :: sec_config
  fe_clock :: sec_clock
  fe_interval :: duration
  fe_at :: instant

definition or_degraded ::
  "fleet_env \<Rightarrow> gostring \<Rightarrow> ('z sec_world_scheme, err, unit) prog \<Rightarrow> ('z sec_world_scheme, err, unit) prog" where
  "or_degraded fe category m =
    bindE (attempt m) (\<lambda>r.
      case r of
        Inr _ \<Rightarrow> ret ()
      | Inl e \<Rightarrow>
         andthen (attempt (RecordCollector (fe_cfg fe) (fe_clock fe) ''security_posture'' False category
           (fe_interval fe))) (throw e))"

definition failed_listing :: "fleet_env \<Rightarrow> ('z sec_world_scheme, err, inventory_summary) prog" where
  "failed_listing fe =
    andthen (attempt (RecordCollector (fe_cfg fe) (fe_clock fe) ''security_posture'' False
        ''docker_inventory_unavailable'' (fe_interval fe)))
    (andthen (map_error (\<lambda>_. ErrOther ''recording failed inventory'')
       (containers_Reconcile (fe_at fe)
         \<lparr>ib_observed = fe_at fe, ib_instances = [], ib_complete = False, ib_grace = 0,
          ib_error = ''docker_inventory_unavailable''\<rparr>))
    (andthen (attempt containers_Summary)
     (throw (ErrOther ''listing complete container inventory''))))"

definition fleet_Reconcile ::
  "'y outside_scheme \<Rightarrow> fleet_env \<Rightarrow> ('z sec_world_scheme, err, inventory_summary) prog" where
  "fleet_Reconcile env fe =
    (case de_list (fe_docker fe) of
       None \<Rightarrow> failed_listing fe
     | Some cs \<Rightarrow>
        bindE (map_error (\<lambda>_. ErrOther ''loading services for inventory'') svc_all) (\<lambda>definitions.
        bindE (of_result (containerOwners env definitions cs (\<lambda>_. None))) (\<lambda>owners.
        bindE (inspectAll (fe_docker fe) owners (fe_at fe) cs) (\<lambda>inspected.
        bindE (map_each (classify_one (fe_at fe)) inspected) (\<lambda>xs.
        andthen (map_error (\<lambda>_. ErrOther ''persisting container inventory'')
          (containers_Reconcile (fe_at fe)
            \<lparr>ib_observed = fe_at fe, ib_instances = map fst xs, ib_complete = True,
             ib_grace = 2 * fe_interval fe, ib_error = []\<rparr>))
        (andthen (or_degraded fe ''classification_evaluation_failed''
            (evaluateClassifications (fe_cfg fe) (fe_clock fe) (fe_at fe)))
        (andthen (or_degraded fe ''evaluation_failed''
            (evaluatePosture (fe_upper fe) (fe_cfg fe) (fe_clock fe) xs))
        (andthen (map_error (\<lambda>_. ErrOther ''recording posture collector health'')
            (RecordCollector (fe_cfg fe) (fe_clock fe) ''security_posture'' (list_all snd xs)
              (if list_all snd xs then [] else ''docker_inspect_unavailable'') (fe_interval fe)))
         containers_Summary))))))))"

section \<open>Reads and operator actions\<close>

definition fleet_Summary ::
  "instant \<Rightarrow> duration \<Rightarrow> ('z sec_world_scheme, err, inventory_summary \<times> bool) prog" where
  "fleet_Summary now interval =
    bindE containers_Summary (\<lambda>s.
      ret (s, case iv_reconciled s of None \<Rightarrow> True | Some t \<Rightarrow> 2 * interval < time_sub now t))"

definition ApproveContainer ::
  "instant \<Rightarrow> instant \<Rightarrow> gostring \<Rightarrow> gostring \<Rightarrow> ('z sec_world_scheme, err, baseline) prog" where
  "ApproveContainer now audit_now cid actor =
    bindE (containers_Get cid) (\<lambda>i.
     security_Approve now audit_now
      \<lparr>ap_container = cid, ap_image_fp = ci_image_id i,
       ap_config_fp = FingerprintInspection (ci_inspection i), ap_actor = actor, ap_at = zero_time\<rparr>)"

definition IgnoreContainer ::
  "instant \<Rightarrow> instant \<Rightarrow> container_ignore \<Rightarrow> ('z sec_world_scheme, err, container_ignore) prog" where
  "IgnoreContainer = security_Ignore"

end
