(* ===== verification/Fleet_Laws.thy ===== *)
theory Fleet_Laws
  imports Security_Laws Fleet_Inventory
begin

text \<open>
  What the reconciler and the operator actions promise together: when an approval is honoured by
  the next scan, and what one oversized piece of evidence does to a whole scan.
\<close>

section \<open>An approval and the next scan\<close>

text \<open>What a scan hands to the store for an inspection of docker, and what the store gives back.\<close>

lemma blindD: "blind f \<Longrightarrow> f (w\<lparr>faults := fs\<rparr>) = f w"
  by (simp add: blind_def)

definition scanned :: "docker_inspection \<Rightarrow> published_port list \<Rightarrow> inspection" where
  "scanned d ps = (safeInspection d)\<lparr>in_ports := publishedPorts ps\<rparr>"

lemma stored_scan:
  "normalizeSafeInspection (scanned d ps) = (scanned d ps)\<lparr>in_caps := slice (dk_caps d)\<rparr>"
  by (simp add: normalizeSafeInspection_def scanned_def safeInspection_def slice_def)

lemma canonical_caps_slice: "canonical_caps (slice cs) = canonical_caps cs \<longleftrightarrow> cs \<noteq> None"
  by (cases cs) (simp_all add: canonical_caps_def slice_def json_nullable_def json_array_def)

lemma canonical_parts [simp]:
  "canonical_head (v\<lparr>in_caps := cs\<rparr>) = canonical_head v"
  "canonical_tail (v\<lparr>in_caps := cs\<rparr>) = canonical_tail v"
  by (simp_all add: canonical_head_def canonical_tail_def)

lemma canonical_scan:
  "canonical_inspection (normalizeSafeInspection (scanned d ps)) = canonical_inspection (scanned d ps) \<longleftrightarrow>
    dk_caps d \<noteq> None"
proof -
  have caps: "in_caps (scanned d ps) = dk_caps d" by (simp add: scanned_def safeInspection_def)
  show ?thesis
  proof (cases "dk_caps d = None")
    case True
    then have "canonical_caps (slice (dk_caps d)) \<noteq> canonical_caps (in_caps (scanned d ps))"
      by (simp add: caps canonical_caps_slice)
    then show ?thesis using True by (simp add: stored_scan canonical_inspection_def json_object_differs)
  next
    case False
    then have "canonical_caps (slice (dk_caps d)) = canonical_caps (in_caps (scanned d ps))"
      by (simp add: caps canonical_caps_slice)
    then show ?thesis using False by (simp add: stored_scan canonical_inspection_def)
  qed
qed

lemma Get_value: "containers_Get cid w = (Inr i, w') \<Longrightarrow> instance_of cid w = Some i \<and> only_oracle w w'"
  by (auto simp: containers_Get_def returned only_oracle_ex blindD [OF blind_sec(1)] dest!: returned_stmt)

lemma ApproveContainer_ran:
  assumes "ApproveContainer now audit_now cid actor w = (Inr b, w')" "instance_of cid w = Some i"
  obtains u where "security_Approve now audit_now
    \<lparr>ap_container = cid, ap_image_fp = ci_image_id i, ap_config_fp = FingerprintInspection (ci_inspection i),
     ap_actor = actor, ap_at = zero_time\<rparr> u = (Inr b, w')"
  using assms unfolding ApproveContainer_def by (auto simp: returned dest!: Get_value)

lemma classify_one_value:
  assumes "classify_one moment (i, covered) w = (Inr (j, c), w')" "ci_service i = []"
  shows "\<exists>u. security_Classify (i\<lparr>ci_config_fp := FingerprintInspection (ci_inspection i)\<rparr>) moment w = (Inr (ci_class j), u)"
  using assms unfolding classify_one_def Let_def by (auto simp: returned)

text \<open>C9: An operator approves a container as the last scan stored it, and the next scan finds the
  very same container.  The approval is honoured when the fingerprint of the stored inspection is the
  fingerprint of the fresh one; the texts which the two fingerprints hash are the same
  exactly when docker reported a list of added capabilities.  For a container without any, docker
  reports null, the fresh text says null, the stored one says an empty array, and the
  container stays unknown unless SHA-256 collides on the two.\<close>

theorem approval_and_rescan:
  assumes "instance_of cid w = Some i" "ci_inspection i = normalizeSafeInspection (scanned d ps)"
    and "ApproveContainer now audit_now cid actor w = (Inr b, w')"
    and "classify_one moment (fresh, covered) w' = (Inr (j, covered'), w'')"
    and "ci_id fresh = cid" "ci_service fresh = []" "ci_image_fp fresh = ci_image_id i"
    and "ci_inspection fresh = scanned d ps"
  shows "ci_class j =
      (if sha256_hex (canonical_inspection (normalizeSafeInspection (scanned d ps))) =
          sha256_hex (canonical_inspection (scanned d ps))
       then ClassApproved else ClassUnknown) \<and>
    (canonical_inspection (normalizeSafeInspection (scanned d ps)) = canonical_inspection (scanned d ps) \<longleftrightarrow>
      dk_caps d \<noteq> None)"
proof -
  let ?f = "fresh\<lparr>ci_config_fp := FingerprintInspection (ci_inspection fresh)\<rparr>"
  obtain u where a: "security_Approve now audit_now
    \<lparr>ap_container = cid, ap_image_fp = ci_image_id i, ap_config_fp = FingerprintInspection (ci_inspection i),
     ap_actor = actor, ap_at = zero_time\<rparr> u = (Inr b, w')" (is "security_Approve _ _ ?a u = _")
    using ApproveContainer_ran [OF assms(3,1)] .
  obtain z where c: "security_Classify ?f moment w' = (Inr (ci_class j), z)"
    using classify_one_value [OF assms(4,6)] by blast
  have "ci_id ?f = ap_container ?a" using assms(5) by simp
  from Approve_decisions [OF a this] Classify_value [OF c] assms(2,6,7,8) canonical_scan
  show ?thesis by (auto simp: FingerprintInspection_def)
qed

definition sample_row :: instance_row where
  "sample_row =
    (sample_instance ''a'' ''web'' [])\<lparr>ci_inspection := normalizeSafeInspection (scanned zero_inspection [])\<rparr>"

definition sample_fresh :: instance_row where
  "sample_fresh = (sample_instance ''a'' ''web'' [])\<lparr>ci_inspection := scanned zero_inspection []\<rparr>"

definition sample_fleet_world :: sec_world where
  "sample_fleet_world = sample_sec_world\<lparr>sw_instances := [sample_row]\<rparr>"

lemma fingerprint_not_empty: "FingerprintInspection v \<noteq> []"
  using sha256_hex_length by (metis FingerprintInspection_def list.size(3) zero_neq_numeral)

lemma sample_ApproveContainer:
  "\<exists>b w'. ApproveContainer 7 7 ''a'' ''ops'' sample_fleet_world = (Inr b, w') \<and> faults w' = []"
  using sample_columns fingerprint_not_empty
  by (simp add: ApproveContainer_def containers_Get_def security_Approve_def approve_body_def sample_fleet_world_def
      sample_sec_world_def sample_actor sample_row_def
      run_defs update_instance_def instance_of_def insertSecurityAudit_def audit_insert_ok_def security_audit_def
      has_service_def with_instances_def map_where_def retire_baselines_def save_baseline_def security_Baseline_def
      active_baselines_def sample_instance_def empty_table_def t_insert_def t_update_def time_desc_def
      is_zero_time_def zero_time_def desc_by_def Let_def)

lemma classify_one_runs:
  assumes "faults w = []" shows "\<exists>y w'. classify_one moment x w = (Inr y, w')"
  using Classify_runs [OF assms] unfolding classify_one_def Let_def by (simp add: returned) metis

lemma approval_and_rescan_witness:
  "\<exists>b w' j covered w''. ApproveContainer 7 7 ''a'' ''ops'' sample_fleet_world = (Inr b, w') \<and>
    classify_one 9 (sample_fresh, True) w' = (Inr (j, covered), w'') \<and>
    (ci_class j = ClassApproved \<longleftrightarrow>
      sha256_hex (canonical_inspection (normalizeSafeInspection (scanned zero_inspection []))) =
      sha256_hex (canonical_inspection (scanned zero_inspection [])))"
proof -
  obtain b w' where a: "ApproveContainer 7 7 ''a'' ''ops'' sample_fleet_world = (Inr b, w')"
    and f: "faults w' = []" using sample_ApproveContainer by blast
  obtain j c w'' where c: "classify_one 9 (sample_fresh, True) w' = (Inr (j, c), w'')"
    using classify_one_runs [OF f] by (metis prod.exhaust)
  have i: "instance_of ''a'' sample_fleet_world = Some sample_row"
    by (simp add: instance_of_def sample_fleet_world_def sample_row_def sample_instance_def)
  have "ci_inspection sample_row = normalizeSafeInspection (scanned zero_inspection [])"
    by (simp add: sample_row_def)
  from approval_and_rescan [OF i this a c] a c show ?thesis
    by (auto simp: sample_fresh_def sample_row_def sample_instance_def)
qed

section \<open>One oversized piece of evidence\<close>

lemma for_each_fails:
  assumes "x \<in> set xs" "\<And>w. \<exists>e u. f x w = (Inl e, u)"
  shows "\<exists>e u. for_each f xs w = (Inl e, u)"
  using assms(1)
proof (induction xs arbitrary: w)
  case (Cons y ys)
  then show ?case
    using assms(2) [of w] by (cases "f y w"; cases "fst (f y w)") (auto simp: andthen_def bindE_def)
qed simp

lemma for_each_stops: "f x w = (Inl e, u) \<Longrightarrow> for_each f (x # xs) w = (Inl e, u)"
  by (simp add: andthen_def bindE_def)

lemma flow_Evaluate_refuses:
  assumes "validateObservation (se_obs e) = Inl er"
  shows "\<exists>x u. flow_Evaluate cfg ck e w = (Inl x, u)"
  using assms by (simp add: flow_Evaluate_def store_Evaluate_def of_result_def run_defs)

lemma bindE_fails:
  "(\<And>a t. \<exists>e u. k a t = (Inl e, u)) \<Longrightarrow> \<exists>e u. bindE m k w = (Inl e, u)"
  by (cases "m w"; cases "fst (m w)") (auto simp: bindE_def)

lemma bindE_Inr: "m w = (Inr a, u) \<Longrightarrow> bindE m k w = k a u"
  by (simp add: bindE_def)

lemma failed_step: "m w = (Inl x, u) \<Longrightarrow> map_error f (andthen m n) w = (Inl (f x), u)"
  by (simp add: map_error_def andthen_def bindE_def)

lemma oversized_refused:
  assumes "(k, s) \<in> set (ob_evidence v)" "256 < length s"
  shows "\<exists>e. validateObservation v = Inl e"
  using assms by (force simp: validateObservation_def list_ex_iff)

lemma ports_observation:
  "(''unexpected_ports'', join_with '','' (differenceFold uni (in_ports v) (po_ports p))) \<in>
    (\<Union>o1\<in>set (EvaluatePosture uni i v p). set (ob_evidence o1))"
  by (simp add: EvaluatePosture_def Let_def posture_observation_def valueEvidence_def)

text \<open>When the published ports of a container which no policy allows take more than 256 bytes
  (twelve ports of the usual form do), the observation of that rule is refused, the evaluation
  of the container fails whatever else happens, and the loop stops there: no container that comes later in the
  listing is evaluated, by this scan or by any other one with the same listing.\<close>

theorem oversized_ports_stop_posture:
  fixes w :: "'z sec_world_scheme"
  assumes "PolicyFor (ci_service i) (ci_id i) w = (Inr p, u)"
    and "256 < length (join_with '','' (differenceFold uni (in_ports (ci_inspection i)) (po_ports p)))"
  shows "\<exists>e w'. evaluate_posture_of uni cfg ck (i, covered) w = (Inl e, w') \<and>
    for_each (evaluate_posture_of uni cfg ck) ((i, covered) # later) w = (Inl e, w')"
proof -
  have each: "\<exists>e w'. evaluate_each cfg ck er base sv (posture_observations uni i covered b p) t = (Inl e, w')"
    for er base sv b and t :: "'z sec_world_scheme"
  proof -
    obtain v where v: "v \<in> set (posture_observations uni i covered b p)"
      and ev: "(''unexpected_ports'', join_with '','' (differenceFold uni (in_ports (ci_inspection i)) (po_ports p)))
        \<in> set (ob_evidence v)"
      using ports_observation [of uni "ci_inspection i" p] by (fastforce simp: posture_observations_def Let_def)
    obtain er' where "validateObservation v = Inl er'" using oversized_refused [OF ev assms(2)] by blast
    then have "\<exists>x z. flow_Evaluate cfg ck \<lparr>se_obs = v, se_baseline = base, se_service = sv\<rparr> y = (Inl x, z)"
      for y :: "'z sec_world_scheme"
      by (intro flow_Evaluate_refuses) simp
    then show ?thesis unfolding evaluate_each_def
      by (intro for_each_fails [OF v]) (metis failed_step)
  qed
  have "\<exists>e w'. evaluate_posture_of uni cfg ck (i, covered) w = (Inl e, w')" (is "\<exists>e w'. ?run = _")
    unfolding evaluate_posture_of_def prod.case
      bindE_Inr [of "PolicyFor (ci_service i) (ci_id i)", OF assms(1)]
    by (intro bindE_fails each)
  then obtain e w' where run: "?run = (Inl e, w')" by (elim exE)
  show ?thesis by (intro exI conjI, rule run, rule for_each_stops, rule run)
qed

text \<open>Twelve published ports of the usual form.\<close>

definition sample_ports :: "gostring list" where
  "sample_ports = replicate 12 ''0.0.0.0:8000->8000/tcp''"

lemma sample_PolicyFor: "\<exists>w'. PolicyFor [] ''a'' sample_sec_world = (Inr no_policy, w')"
  by (simp add: PolicyFor_def run_defs sample_sec_world_def policy_row_def empty_table_def t_find_def)

lemma sample_ports_long: "256 < length (join_with '','' sample_ports)"
  by code_simp

lemma sample_ports_difference: "differenceFold uni sample_ports [] = sample_ports"
  by (simp add: differenceFold_def sample_ports_def sorted_sort_id sorted_replicate)

lemma oversized_ports_stop_posture_witness:
  "\<exists>e w'. for_each (evaluate_posture_of (\<lambda>s. s) \<lparr>sc_notifications = True, sc_cursors = True, sc_notify_high = True\<rparr>
      \<lparr>ck_now = 9, ck_note = (\<lambda>_. 9), ck_event = (\<lambda>_. 9)\<rparr>)
      [(sample_row\<lparr>ci_inspection := sample_inspection\<lparr>in_ports := sample_ports\<rparr>\<rparr>, True), (sample_fresh, True)]
      sample_sec_world = (Inl e, w')"
proof -
  let ?i = "sample_row\<lparr>ci_inspection := sample_inspection\<lparr>in_ports := sample_ports\<rparr>\<rparr>"
  have i: "ci_service ?i = []" "ci_id ?i = ''a''" by (simp_all add: sample_row_def sample_instance_def)
  obtain w' where r: "PolicyFor (ci_service ?i) (ci_id ?i) sample_sec_world = (Inr no_policy, w')"
    using sample_PolicyFor unfolding i by blast
  have "256 < length (join_with '','' (differenceFold (\<lambda>s. s) (in_ports (ci_inspection ?i)) (po_ports no_policy)))"
    using sample_ports_long by (simp add: no_policy_def sample_ports_difference)
  from oversized_ports_stop_posture [OF r this] show ?thesis by blast
qed

end
