(* ===== verification/Maint_Store.thy ===== *)
theory Maint_Store
  imports World "HOL-Library.Product_Lexorder" "HOL-Library.Option_ord"
begin

text \<open>
  The retention pass over the database (\<open>internal/store/maintenance.go\<close>).  It works on
  every table in the same way, so here a table is the list of its rows, and of a row only what the
  statements look at is kept: the key, the time column of the table, the bytes its texts
  take, and the columns of the predicates.  The parents of the foreign keys are
  there too, because SQLite follows them when a row goes: \<open>issue_releases\<close> and the baselines and
  ignores of a container are deleted with it, an occurrence forgets its issue.
  What the PRAGMA statements answer is a parameter.  The full-text index of the log lines is no table
  of its own here: its triggers (\<open>log_lines_ai\<close>, \<open>log_lines_ad\<close> in \<open>0009_logs.sql\<close>) keep it the index of
  the rows that are there, so a row that goes leaves it, and the search (\<open>Log_Lines\<close>) reads the rows.
\<close>

record mrow =
  mr_key :: int
  mr_stamp :: "stored_time option"
  mr_bytes :: int
  mr_type :: gostring
  mr_container :: gostring
  mr_current :: bool
  mr_present :: bool
  mr_parent :: "int option"

type_synonym tables = "gostring \<Rightarrow> mrow list"

record maint = sqldb +
  mt_tables :: tables

record maint_policy =
  mp_now :: instant
  mp_batch :: int
  mp_max :: int
  mp_log_max :: int
  mp_perf_max :: int
  mp_issue_max :: int
  mp_admin_max :: int
  mp_metrics :: duration
  mp_notifications :: duration
  mp_deploys :: duration
  mp_errors :: duration
  mp_logs :: duration
  mp_sdk_logs :: duration
  mp_perf :: duration
  mp_perf_hourly :: duration
  mp_observations :: duration
  mp_events :: duration
  mp_findings :: duration

record maint_result =
  mx_ran :: instant
  mx_deleted :: int
  mx_by_table :: "gostring \<Rightarrow> int"
  mx_bytes :: int
  mx_max :: int
  mx_over :: bool
  mx_classes :: "(gostring \<times> int) list"
  mx_over_classes :: "gostring list"
  mx_attempted :: bool
  mx_wal :: "int \<times> int \<times> int"

record target =
  tg_table :: gostring
  tg_retention :: duration
  tg_pred :: "tables \<Rightarrow> mrow \<Rightarrow> bool"

record storage_class =
  sc_name :: gostring
  sc_limit :: int
  sc_targets :: "target list"

record pragmas =
  pg_wal :: "tables \<Rightarrow> int \<times> int \<times> int"
  pg_count :: "tables \<Rightarrow> int"
  pg_size :: "tables \<Rightarrow> int"

definition day :: duration where "day = 24 * hour"

section \<open>The policy\<close>

definition MaximumMaintenanceBatch :: int where "MaximumMaintenanceBatch = 1000"
definition DefaultSQLiteMaxBytes :: int where "DefaultSQLiteMaxBytes = 2 ^ 30"
definition DefaultLogClassMaxBytes :: int where "DefaultLogClassMaxBytes = 512 * 2 ^ 20"
definition DefaultPerformanceClassMaxBytes :: int where "DefaultPerformanceClassMaxBytes = 256 * 2 ^ 20"
definition DefaultIssueClassMaxBytes :: int where "DefaultIssueClassMaxBytes = 128 * 2 ^ 20"
definition DefaultAdministrativeClassMaxBytes :: int where "DefaultAdministrativeClassMaxBytes = 64 * 2 ^ 20"
definition DefaultSecurityClassMaxBytes :: int where "DefaultSecurityClassMaxBytes = 64 * 2 ^ 20"

definition or_default :: "int \<Rightarrow> int \<Rightarrow> int" where
  "or_default d v = (if v \<le> 0 then d else v)"

definition normalizeMaintenancePolicy :: "instant \<Rightarrow> maint_policy \<Rightarrow> maint_policy" where
  "normalizeMaintenancePolicy now p =
    p\<lparr>mp_now := (if is_zero_time (mp_now p) then now else mp_now p),
      mp_batch := (if mp_batch p \<le> 0 \<or> MaximumMaintenanceBatch < mp_batch p then MaximumMaintenanceBatch
        else mp_batch p),
      mp_max := or_default DefaultSQLiteMaxBytes (mp_max p),
      mp_log_max := or_default DefaultLogClassMaxBytes (mp_log_max p),
      mp_perf_max := or_default DefaultPerformanceClassMaxBytes (mp_perf_max p),
      mp_issue_max := or_default DefaultIssueClassMaxBytes (mp_issue_max p),
      mp_admin_max := or_default DefaultAdministrativeClassMaxBytes (mp_admin_max p)\<rparr>"

section \<open>Targets\<close>

definition any_row :: "tables \<Rightarrow> mrow \<Rightarrow> bool" where "any_row tb r \<longleftrightarrow> True"

definition exec_event :: "tables \<Rightarrow> mrow \<Rightarrow> bool" where
  "exec_event tb r \<longleftrightarrow> mr_type r \<in> {''exec_create'', ''exec_start'', ''exec_die'', ''exec_detach''}"

definition resolved_finding :: "tables \<Rightarrow> mrow \<Rightarrow> bool" where
  "resolved_finding tb r \<longleftrightarrow> mr_type r = ''resolved''"

definition active_row :: "mrow \<Rightarrow> bool" where
  "active_row r \<longleftrightarrow> mr_type r \<in> {''open'', ''acknowledged'', ''suppressed''}"

definition departed_container :: "tables \<Rightarrow> mrow \<Rightarrow> bool" where
  "departed_container tb r \<longleftrightarrow>
    \<not> mr_current r \<and> \<not> mr_present r \<and>
    \<not> list_ex (\<lambda>f. mr_container f = mr_container r \<and> active_row f) (tb ''security_findings'')"

definition tgt :: "gostring \<Rightarrow> duration \<Rightarrow> target" where
  "tgt t d = \<lparr>tg_table = t, tg_retention = d, tg_pred = any_row\<rparr>"

definition findings_target :: "duration \<Rightarrow> target" where
  "findings_target d = \<lparr>tg_table = ''security_findings'', tg_retention = d, tg_pred = resolved_finding\<rparr>"

definition containers_target :: "duration \<Rightarrow> target" where
  "containers_target d =
    \<lparr>tg_table = ''container_instances'', tg_retention = d, tg_pred = departed_container\<rparr>"

definition retention_targets :: "maint_policy \<Rightarrow> target list" where
  "retention_targets p =
    [tgt ''log_lines'' (mp_logs p), tgt ''sdk_logs'' (mp_sdk_logs p), tgt ''occurrences'' (mp_errors p),
     tgt ''issues'' (mp_errors p), tgt ''metrics'' (mp_metrics p), tgt ''host_samples'' (mp_metrics p),
     tgt ''container_samples'' (mp_metrics p), tgt ''notifications'' (mp_notifications p),
     tgt ''deploy_probes'' (mp_deploys p), tgt ''deploys'' (mp_deploys p), tgt ''db_jobs'' (mp_deploys p),
     tgt ''http_metric_buckets'' (mp_perf p), tgt ''postgres_metric_buckets'' (mp_perf p),
     tgt ''postgres_statement_buckets'' (mp_perf p), tgt ''redis_metric_buckets'' (mp_perf p),
     tgt ''log_volume_buckets'' (mp_perf p), tgt ''performance_hourly_rollups'' (mp_perf_hourly p),
     tgt ''security_observations'' (mp_observations p),
     \<lparr>tg_table = ''container_events'', tg_retention = day, tg_pred = exec_event\<rparr>,
     tgt ''container_events'' (mp_events p), findings_target (mp_findings p),
     containers_target (mp_findings p), tgt ''performance_ingest_batches'' (mp_perf p)]"

definition storage_classes :: "maint_policy \<Rightarrow> storage_class list" where
  "storage_classes p =
    [\<lparr>sc_name = ''logs'', sc_limit = mp_log_max p, sc_targets = [tgt ''log_lines'' 0, tgt ''sdk_logs'' 0]\<rparr>,
     \<lparr>sc_name = ''performance'', sc_limit = mp_perf_max p, sc_targets =
       [tgt ''metrics'' 0, tgt ''host_samples'' 0, tgt ''container_samples'' 0, tgt ''http_metric_buckets'' 0,
        tgt ''postgres_metric_buckets'' 0, tgt ''postgres_statement_buckets'' 0,
        tgt ''redis_metric_buckets'' 0, tgt ''log_volume_buckets'' 0, tgt ''performance_hourly_rollups'' 0,
        tgt ''container_events'' 0, tgt ''performance_ingest_batches'' 0]\<rparr>,
     \<lparr>sc_name = ''issues'', sc_limit = mp_issue_max p,
      sc_targets = [tgt ''occurrences'' 0, tgt ''issues'' 0]\<rparr>,
     \<lparr>sc_name = ''administrative'', sc_limit = mp_admin_max p, sc_targets =
       [tgt ''notifications'' 0, tgt ''deploy_probes'' 0, tgt ''deploys'' 0, tgt ''db_jobs'' 0]\<rparr>,
     \<lparr>sc_name = ''security'', sc_limit = DefaultSecurityClassMaxBytes, sc_targets =
       [tgt ''security_observations'' 0, tgt ''container_events'' 0, findings_target 0, containers_target 0]\<rparr>]"

section \<open>Deleting\<close>

definition old_rows :: "target \<Rightarrow> instant \<Rightarrow> tables \<Rightarrow> mrow list" where
  "old_rows g cutoff tb =
    filter (\<lambda>r. (case mr_stamp r of None \<Rightarrow> False | Some t \<Rightarrow> text_less t (formatFixedTime cutoff)) \<and>
        tg_pred g tb r) (tb (tg_table g))"

definition doomed_before :: "target \<Rightarrow> instant \<Rightarrow> int \<Rightarrow> tables \<Rightarrow> int list" where
  "doomed_before g cutoff limit tb = take (nat limit) (sort (map mr_key (old_rows g cutoff tb)))"

text \<open>Ascending, the NULLs first.\<close>

definition doomed_oldest :: "target \<Rightarrow> int \<Rightarrow> tables \<Rightarrow> int list" where
  "doomed_oldest g limit tb =
    map mr_key (take (nat limit)
      (sort_key (\<lambda>r. (mr_stamp r, mr_key r)) (filter (tg_pred g tb) (tb (tg_table g)))))"

definition gone :: "gostring \<Rightarrow> int list \<Rightarrow> tables \<Rightarrow> mrow list" where
  "gone t ks tb = filter (\<lambda>r. mr_key r \<in> set ks) (tb t)"

text \<open>The rows of a table that are left, and what the foreign keys do to the others.\<close>

definition cascade :: "gostring \<Rightarrow> mrow list \<Rightarrow> gostring \<Rightarrow> mrow list \<Rightarrow> mrow list" where
  "cascade t del n rs =
    (if t = ''container_instances'' \<and> n \<in> {''container_security_baselines'', ''container_security_ignores''}
     then filter (\<lambda>r. mr_container r \<notin> set (map mr_container del)) rs
     else if t = ''issues'' \<and> n = ''issue_releases''
     then filter (\<lambda>r. mr_parent r \<notin> set (map (\<lambda>d. Some (mr_key d)) del)) rs
     else if t = ''issues'' \<and> n = ''occurrences''
     then map_where (\<lambda>r. mr_parent r \<in> set (map (\<lambda>d. Some (mr_key d)) del)) (\<lambda>r. r\<lparr>mr_parent := None\<rparr>) rs
     else rs)"

definition drop_rows :: "gostring \<Rightarrow> int list \<Rightarrow> tables \<Rightarrow> tables" where
  "drop_rows t ks tb =
    (\<lambda>n. if n = t then filter (\<lambda>r. mr_key r \<notin> set ks) (tb t) else cascade t (gone t ks tb) n (tb n))"

definition delete_doomed ::
  "gostring \<Rightarrow> gostring \<Rightarrow> (tables \<Rightarrow> int list) \<Rightarrow> ('z maint_scheme, err, int) prog" where
  "delete_doomed what t ks =
    andthen (stmt (ErrOther what))
    (bindE (gets (\<lambda>w. int (length (gone t (ks (mt_tables w)) (mt_tables w))))) (\<lambda>n.
     andthen (modify (\<lambda>w. w\<lparr>mt_tables := drop_rows t (ks (mt_tables w)) (mt_tables w)\<rparr>))
      (ret n)))"

definition deleteBefore :: "target \<Rightarrow> instant \<Rightarrow> int \<Rightarrow> ('z maint_scheme, err, int) prog" where
  "deleteBefore g cutoff limit = delete_doomed ''trimming'' (tg_table g) (doomed_before g cutoff limit)"

definition deleteOldest :: "target \<Rightarrow> int \<Rightarrow> ('z maint_scheme, err, int) prog" where
  "deleteOldest g limit = delete_doomed ''trimming over budget'' (tg_table g) (doomed_oldest g limit)"

section \<open>A pass\<close>

definition count_deleted :: "gostring \<Rightarrow> int \<Rightarrow> maint_result \<Rightarrow> maint_result" where
  "count_deleted t n x =
    (if 0 < n
     then x\<lparr>mx_by_table := (mx_by_table x)(t := mx_by_table x t + n), mx_deleted := mx_deleted x + n\<rparr>
     else x)"

fun applyAgeRetention ::
  "target list \<Rightarrow> maint_policy \<Rightarrow> maint_result \<Rightarrow> ('z maint_scheme, err, maint_result) prog" where
  "applyAgeRetention [] p x = ret x"
| "applyAgeRetention (g # gs) p x =
    (if tg_retention g \<le> 0 then applyAgeRetention gs p x
     else bindE (deleteBefore g (mp_now p - tg_retention g) (mp_batch p)) (\<lambda>n.
       applyAgeRetention gs p (count_deleted (tg_table g) n x)))"

fun trim_targets ::
  "target list \<Rightarrow> int \<Rightarrow> maint_result \<Rightarrow> ('z maint_scheme, err, maint_result) prog" where
  "trim_targets [] batch x = ret x"
| "trim_targets (g # gs) batch x =
    bindE (deleteOldest g batch) (\<lambda>n. trim_targets gs batch (count_deleted (tg_table g) n x))"

definition bytes_of :: "(gostring \<times> int) list \<Rightarrow> gostring \<Rightarrow> int" where
  "bytes_of bs c = (case map_of bs c of None \<Rightarrow> 0 | Some n \<Rightarrow> n)"

fun applyBudgetRetention ::
  "storage_class list \<Rightarrow> (gostring \<times> int) list \<Rightarrow> int \<Rightarrow> maint_result \<Rightarrow>
    ('z maint_scheme, err, maint_result) prog" where
  "applyBudgetRetention [] bs batch x = ret x"
| "applyBudgetRetention (c # cs) bs batch x =
    (if bytes_of bs (sc_name c) \<le> sc_limit c then applyBudgetRetention cs bs batch x
     else bindE (trim_targets (sc_targets c) batch x) (\<lambda>y. applyBudgetRetention cs bs batch y))"

text \<open>What a table adds to the size of its class: the bytes of its texts, or a size per row.\<close>

datatype weight = Bytes | PerRow int

fun table_bytes :: "weight \<Rightarrow> mrow list \<Rightarrow> int" where
  "table_bytes Bytes rs = sum_list (map mr_bytes rs)"
| "table_bytes (PerRow n) rs = int (length rs) * n"

definition class_queries :: "(gostring \<times> (gostring \<times> weight) list) list" where
  "class_queries =
    [(''logs'', [(''log_lines'', Bytes), (''sdk_logs'', Bytes)]),
     (''performance'',
       [(''metrics'', PerRow 128), (''host_samples'', PerRow 96), (''container_samples'', PerRow 128),
        (''http_metric_buckets'', PerRow 256), (''postgres_metric_buckets'', PerRow 96),
        (''postgres_statement_buckets'', PerRow 160), (''redis_metric_buckets'', PerRow 96),
        (''log_volume_buckets'', PerRow 80), (''performance_hourly_rollups'', PerRow 256),
        (''container_events'', PerRow 128), (''performance_ingest_batches'', PerRow 96)]),
     (''issues'', [(''occurrences'', Bytes), (''issues'', Bytes)]),
     (''administrative'',
       [(''notifications'', Bytes), (''deploys'', PerRow 128), (''deploy_probes'', PerRow 48),
        (''db_jobs'', Bytes)]),
     (''security'',
       [(''security_observations'', Bytes), (''security_findings'', Bytes),
        (''container_events'', PerRow 192), (''container_instances'', Bytes)])]"

definition measure_class :: "(gostring \<times> weight) list \<Rightarrow> tables \<Rightarrow> int" where
  "measure_class ts tb = sum_list (map (\<lambda>(t, k). table_bytes k (tb t)) ts)"

definition classBytes :: "('z maint_scheme, err, (gostring \<times> int) list) prog" where
  "classBytes =
    map_each (\<lambda>(c, ts).
      andthen (stmt (ErrOther ''measuring a storage class'')) (gets (\<lambda>w. (c, measure_class ts (mt_tables w)))))
     class_queries"

definition databaseBytes :: "pragmas \<Rightarrow> ('z maint_scheme, err, int) prog" where
  "databaseBytes pg =
    andthen (stmt (ErrOther ''reading sqlite page count''))
    (andthen (stmt (ErrOther ''reading sqlite page size''))
     (gets (\<lambda>w. wrap64 (pg_count pg (mt_tables w) * pg_size pg (mt_tables w)))))"

definition over_classes :: "storage_class list \<Rightarrow> (gostring \<times> int) list \<Rightarrow> gostring list" where
  "over_classes cs bs = sort (map sc_name (filter (\<lambda>c. sc_limit c < bytes_of bs (sc_name c)) cs))"

definition first_result :: "maint_policy \<Rightarrow> maint_result" where
  "first_result p =
    \<lparr>mx_ran = mp_now p, mx_deleted = 0, mx_by_table = (\<lambda>_. 0), mx_bytes = 0, mx_max = mp_max p,
     mx_over = False, mx_classes = [], mx_over_classes = [], mx_attempted = False, mx_wal = (0, 0, 0)\<rparr>"

text \<open>The checkpoint and the sizes, once the rows are gone.\<close>

definition finish_pass ::
  "pragmas \<Rightarrow> maint_policy \<Rightarrow> (gostring \<times> int) list \<Rightarrow> maint_result \<Rightarrow>
    ('z maint_scheme, err, maint_result) prog" where
  "finish_pass pg p bs x =
    andthen (stmt (ErrOther ''checkpointing sqlite WAL''))
    (bindE (gets (\<lambda>w. pg_wal pg (mt_tables w))) (\<lambda>wal.
     bindE (databaseBytes pg) (\<lambda>n.
      ret (x\<lparr>mx_classes := bs, mx_over_classes := over_classes (storage_classes p) bs,
             mx_attempted := True, mx_wal := wal, mx_bytes := n,
             mx_over := (mp_max p < n \<or> over_classes (storage_classes p) bs \<noteq> [])\<rparr>))))"

definition store_Run ::
  "pragmas \<Rightarrow> instant \<Rightarrow> maint_policy \<Rightarrow> ('z maint_scheme, err, maint_result) prog" where
  "store_Run pg now p0 =
    (let p = normalizeMaintenancePolicy now p0 in
     bindE (applyAgeRetention (retention_targets p) p (first_result p)) (\<lambda>x.
     bindE classBytes (\<lambda>bs.
     bindE (applyBudgetRetention (storage_classes p) bs (mp_batch p) x) (\<lambda>y.
     bindE (if 0 < mx_deleted y then classBytes else ret bs) (\<lambda>bs'.
      finish_pass pg p bs' y)))))"

end
