(* ===== verification/Maint_Laws.thy ===== *)
theory Maint_Laws
  imports Maint_Store "HOL-Library.Multiset"
begin

text \<open>
  What a retention pass may take away and what it must leave, on any fault; that the backlog of old
  rows shrinks by a whole batch with every pass until nothing is left; and what a class over its
  budget costs.
\<close>

section \<open>Which tables a pass works on\<close>

definition maintained :: "gostring list" where
  "maintained =
    [''log_lines'', ''sdk_logs'', ''occurrences'', ''issues'', ''metrics'', ''host_samples'', ''container_samples'',
     ''notifications'', ''deploy_probes'', ''deploys'', ''db_jobs'', ''http_metric_buckets'',
     ''postgres_metric_buckets'', ''postgres_statement_buckets'', ''redis_metric_buckets'',
     ''log_volume_buckets'', ''performance_hourly_rollups'', ''security_observations'',
     ''container_events'', ''security_findings'', ''container_instances'', ''performance_ingest_batches'']"

definition decisions :: "gostring list" where
  "decisions = [''container_security_baselines'', ''container_security_ignores'']"

definition touched :: "gostring list" where
  "touched = maintained @ decisions @ [''issue_releases'']"

definition target_ok :: "target \<Rightarrow> bool" where
  "target_ok g \<longleftrightarrow>
    tg_table g \<in> set maintained \<and>
    (tg_pred g = any_row \<and> tg_table g \<noteq> ''security_findings'' \<and> tg_table g \<noteq> ''container_instances'' \<or>
     tg_pred g = exec_event \<and> tg_table g = ''container_events'' \<or>
     tg_pred g = resolved_finding \<and> tg_table g = ''security_findings'' \<or>
     tg_pred g = departed_container \<and> tg_table g = ''container_instances'')"

lemma targets_ok: "\<forall>g\<in>set (retention_targets p). target_ok g"
  by (simp add: retention_targets_def target_ok_def tgt_def findings_target_def containers_target_def
      maintained_def)

lemma class_targets_ok: "\<forall>c\<in>set (storage_classes p). \<forall>g\<in>set (sc_targets c). target_ok g"
  by (simp add: storage_classes_def target_ok_def tgt_def findings_target_def containers_target_def
      maintained_def)

section \<open>One deletion\<close>

definition keys_ok :: "tables \<Rightarrow> bool" where
  "keys_ok tb \<longleftrightarrow> (\<forall>n. distinct (map mr_key (tb n)))"

definition actives :: "tables \<Rightarrow> mrow list" where
  "actives tb = filter active_row (tb ''security_findings'')"

lemma departed_actives:
  "departed_container tb r \<longleftrightarrow>
    \<not> mr_current r \<and> \<not> mr_present r \<and> mr_container r \<notin> set (map mr_container (actives tb))"
  by (auto simp: departed_container_def actives_def list_ex_iff image_iff)

definition chosen :: "target \<Rightarrow> int list \<Rightarrow> tables \<Rightarrow> bool" where
  "chosen g ks tb \<longleftrightarrow> set ks \<subseteq> mr_key ` set (filter (tg_pred g tb) (tb (tg_table g)))"

lemma chosen_before: "chosen g (doomed_before g c n tb) tb"
  by (auto simp: chosen_def doomed_before_def old_rows_def dest!: in_set_takeD)

lemma chosen_oldest: "chosen g (doomed_oldest g n tb) tb"
  by (auto simp: chosen_def doomed_oldest_def dest!: in_set_takeD)

lemma key_unique:
  "keys_ok tb \<Longrightarrow> r \<in> set (tb n) \<Longrightarrow> s \<in> set (tb n) \<Longrightarrow> mr_key r = mr_key s \<Longrightarrow> r = s"
  unfolding keys_ok_def by (metis distinct_map inj_onD)

lemma chosen_pred:
  "keys_ok tb \<Longrightarrow> chosen g ks tb \<Longrightarrow> r \<in> set (tb (tg_table g)) \<Longrightarrow> mr_key r \<in> set ks \<Longrightarrow> tg_pred g tb r"
  unfolding chosen_def using key_unique [of tb r "tg_table g"] by (auto simp: subset_iff image_iff)

text \<open>What holds between the tables before some deletions and after them.\<close>

definition prunes :: "tables \<Rightarrow> tables \<Rightarrow> bool" where
  "prunes tb tb' \<longleftrightarrow>
    keys_ok tb' \<and> actives tb' = actives tb \<and> (\<forall>n. n \<notin> set touched \<longrightarrow> tb' n = tb n) \<and>
    (\<forall>r\<in>set (tb ''security_findings''). mr_type r \<noteq> ''resolved'' \<longrightarrow> r \<in> set (tb' ''security_findings'')) \<and>
    set (tb' ''container_instances'') \<subseteq> set (tb ''container_instances'') \<and>
    (\<forall>r\<in>set (tb ''container_instances''). \<not> departed_container tb r \<longrightarrow> r \<in> set (tb' ''container_instances'')) \<and>
    (\<forall>n\<in>set decisions. \<forall>r\<in>set (tb n).
      (\<forall>i\<in>set (tb ''container_instances''). mr_container i = mr_container r \<longrightarrow> \<not> departed_container tb i) \<longrightarrow>
      r \<in> set (tb' n)) \<and>
    (\<forall>g c. target_ok g \<longrightarrow> length (old_rows g c tb') \<le> length (old_rows g c tb))"

lemma prunes_refl: "keys_ok tb \<Longrightarrow> prunes tb tb"
  by (simp add: prunes_def)

lemma prunes_trans:
  assumes "prunes a b" "prunes b c"
  shows "prunes a c"
proof -
  have d: "departed_container b r \<longleftrightarrow> departed_container a r" for r
    using assms(1) by (simp add: departed_actives prunes_def)
  note p = assms(1) [unfolded prunes_def] and q = assms(2) [unfolded prunes_def d]
  have decided: "r \<in> set (c n)" if "n \<in> set decisions" "r \<in> set (a n)"
    "\<forall>i\<in>set (a ''container_instances''). mr_container i = mr_container r \<longrightarrow> \<not> departed_container a i" for n r
  proof -
    have "r \<in> set (b n)" using p that by blast
    moreover have "\<forall>i\<in>set (b ''container_instances''). mr_container i = mr_container r \<longrightarrow> \<not> departed_container a i"
      using p that(3) by blast
    ultimately show ?thesis using q that(1) by blast
  qed
  have old: "length (old_rows g t c) \<le> length (old_rows g t a)" if "target_ok g" for g t
    using p q that by (meson order_trans)
  have rest: "keys_ok c" "actives c = actives a" "\<forall>n. n \<notin> set touched \<longrightarrow> c n = a n"
    "set (c ''container_instances'') \<subseteq> set (a ''container_instances'')"
    using p q by auto
  have spared: "\<forall>r\<in>set (a ''security_findings''). mr_type r \<noteq> ''resolved'' \<longrightarrow> r \<in> set (c ''security_findings'')"
    "\<forall>r\<in>set (a ''container_instances''). \<not> departed_container a r \<longrightarrow> r \<in> set (c ''container_instances'')"
    using p q by blast+
  show ?thesis unfolding prunes_def using rest spared decided old by blast
qed

lemma length_filter_map_where:
  assumes "\<And>x. P (f x) = P x"
  shows "length (filter P (map_where Q f xs)) = length (filter P xs)"
  unfolding map_where_def by (induction xs) (simp_all add: assms)

lemma map_key_cascade: "distinct (map mr_key rs) \<Longrightarrow> distinct (map mr_key (cascade t del n rs))"
  by (simp add: cascade_def map_where_keep distinct_map_filter)

lemma keys_drop: "keys_ok tb \<Longrightarrow> keys_ok (drop_rows t ks tb)"
  by (simp add: keys_ok_def drop_rows_def map_key_cascade distinct_map_filter)

lemma cascade_other: "n \<notin> set touched \<or> n \<in> {''security_findings'', ''container_instances''} \<Longrightarrow> cascade t del n rs = rs"
  by (auto simp: cascade_def touched_def maintained_def decisions_def)

lemma actives_drop:
  assumes "keys_ok tb" "target_ok g" "chosen g ks tb"
  shows "actives (drop_rows (tg_table g) ks tb) = actives tb"
proof (cases "tg_table g = ''security_findings''")
  case True
  have "mr_key r \<notin> set ks" if "r \<in> set (tb ''security_findings'')" "active_row r" for r
  proof
    assume "mr_key r \<in> set ks"
    then have "tg_pred g tb r" using chosen_pred [OF assms(1,3), of r] that(1) True by simp
    then show False using assms(2) that(2) True by (auto simp: target_ok_def resolved_finding_def active_row_def)
  qed
  then show ?thesis using True by (auto simp: actives_def drop_rows_def intro!: filter_cong)
next
  case False
  then show ?thesis by (simp add: actives_def drop_rows_def cascade_other)
qed

lemma pred_drop:
  assumes "keys_ok tb" "target_ok g" "chosen g ks tb" "target_ok h"
  shows "tg_pred h (drop_rows (tg_table g) ks tb) = tg_pred h tb"
  using assms(4) actives_drop [OF assms(1-3)]
  by (auto simp: target_ok_def departed_actives fun_eq_iff any_row_def exec_event_def resolved_finding_def)

lemma pred_parent: "target_ok h \<Longrightarrow> tg_pred h tb (r\<lparr>mr_parent := x\<rparr>) = tg_pred h tb r"
  by (auto simp: target_ok_def departed_container_def any_row_def exec_event_def resolved_finding_def)

lemma length_filter_twice: "length (filter P (filter Q xs)) \<le> length (filter P xs)"
  by (induction xs) auto

lemma cascade_length:
  assumes "\<And>r x. P (r\<lparr>mr_parent := x\<rparr>) = P r"
  shows "length (filter P (cascade t del n rs)) \<le> length (filter P rs)"
proof -
  have "length (filter P (map_where Q (\<lambda>r. r\<lparr>mr_parent := None\<rparr>) xs)) = length (filter P xs)" for Q xs
    by (rule length_filter_map_where) (rule assms)
  then show ?thesis
    unfolding cascade_def by (simp only: length_filter_twice order_refl simp_thms split: if_split)
qed

lemma old_rows_drop:
  assumes "keys_ok tb" "target_ok g" "chosen g ks tb" "target_ok h"
  shows "length (old_rows h c (drop_rows (tg_table g) ks tb)) \<le> length (old_rows h c tb)"
proof -
  let ?P = "\<lambda>r. (case mr_stamp r of None \<Rightarrow> False | Some t \<Rightarrow> text_less t (formatFixedTime c)) \<and> tg_pred h tb r"
  have "length (filter ?P (drop_rows (tg_table g) ks tb (tg_table h))) \<le> length (filter ?P (tb (tg_table h)))"
  proof (cases "tg_table h = tg_table g")
    case True
    show ?thesis unfolding True drop_rows_def if_P [OF refl] by (rule length_filter_twice)
  next
    case False
    show ?thesis unfolding drop_rows_def if_not_P [OF False]
      by (rule cascade_length) (simp add: pred_parent [OF assms(4)])
  qed
  then show ?thesis unfolding old_rows_def pred_drop [OF assms] .
qed

lemma pred_findings: "target_ok g \<Longrightarrow> tg_table g = ''security_findings'' \<Longrightarrow> tg_pred g = resolved_finding"
  by (auto simp: target_ok_def)

lemma pred_instances: "target_ok g \<Longrightarrow> tg_table g = ''container_instances'' \<Longrightarrow> tg_pred g = departed_container"
  by (auto simp: target_ok_def)

lemma spared:
  assumes "keys_ok tb" "chosen g ks tb" "n \<in> {''security_findings'', ''container_instances''}" "r \<in> set (tb n)"
    and "n = tg_table g \<longrightarrow> \<not> tg_pred g tb r"
  shows "r \<in> set (drop_rows (tg_table g) ks tb n)"
proof (cases "n = tg_table g")
  case True
  then show ?thesis using chosen_pred [OF assms(1,2), of r] assms(4,5) by (auto simp: drop_rows_def)
next
  case False
  then show ?thesis using assms(3,4) cascade_other [of n] by (simp add: drop_rows_def)
qed

lemma drop_instances:
  "set (drop_rows t ks tb ''container_instances'') \<subseteq> set (tb ''container_instances'')"
  using cascade_other [of "''container_instances''"] by (auto simp: drop_rows_def)

lemma decisions_apart: "n \<in> set decisions \<Longrightarrow> n \<notin> set maintained"
  by (auto simp: decisions_def maintained_def)

lemma decided_cascade:
  assumes "n \<in> set decisions" "r \<in> set rs"
    and "t = ''container_instances'' \<Longrightarrow> mr_container r \<notin> set (map mr_container del)"
  shows "r \<in> set (cascade t del n rs)"
  using assms by (auto simp: cascade_def decisions_def)

lemma prunes_drop:
  assumes k: "keys_ok tb" and t: "target_ok g" and c: "chosen g ks tb"
  shows "prunes tb (drop_rows (tg_table g) ks tb)"
proof -
  let ?tb = "drop_rows (tg_table g) ks tb"
  note pred = chosen_pred [OF k c]
  have m: "tg_table g \<in> set maintained" using t by (simp add: target_ok_def)
  have findings: "r \<in> set (?tb ''security_findings'')"
    if "r \<in> set (tb ''security_findings'')" "mr_type r \<noteq> ''resolved''" for r
    using spared [OF k c, of "''security_findings''" r] that pred_findings [OF t]
    by (auto simp: resolved_finding_def)
  have instances: "set (?tb ''container_instances'') \<subseteq> set (tb ''container_instances'')"
    by (simp add: drop_instances)
  have stay: "r \<in> set (?tb ''container_instances'')"
    if "r \<in> set (tb ''container_instances'')" "\<not> departed_container tb r" for r
    using spared [OF k c, of "''container_instances''" r] that pred_instances [OF t] by auto
  have decided: "r \<in> set (?tb n)" if n: "n \<in> set decisions" and r: "r \<in> set (tb n)"
    and no: "\<forall>i\<in>set (tb ''container_instances''). mr_container i = mr_container r \<longrightarrow> \<not> departed_container tb i" for n r
  proof -
    have "mr_container r \<notin> set (map mr_container (gone ''container_instances'' ks tb))"
      if "tg_table g = ''container_instances''"
    proof
      assume "mr_container r \<in> set (map mr_container (gone ''container_instances'' ks tb))"
      then obtain i where i: "i \<in> set (tb ''container_instances'')" "mr_key i \<in> set ks" "mr_container i = mr_container r"
        by (auto simp: gone_def)
      then have "tg_pred g tb i" using pred [of i] that by simp
      then have "departed_container tb i" using pred_instances [OF t that] by simp
      then show False using no i by blast
    qed
    then have "r \<in> set (cascade (tg_table g) (gone (tg_table g) ks tb) n (tb n))"
      using decided_cascade [OF n r, of "tg_table g"] by metis
    moreover have "n \<noteq> tg_table g" using n m decisions_apart by blast
    ultimately show ?thesis by (simp add: drop_rows_def)
  qed
  have other: "?tb n = tb n" if "n \<notin> set touched" for n
    using that m by (auto simp: drop_rows_def cascade_other) (simp add: touched_def)
  show ?thesis
    unfolding prunes_def
    using keys_drop [OF k] actives_drop [OF k t c] other findings instances stay decided old_rows_drop [OF k t c]
    by blast
qed

section \<open>A pass spares what is in use\<close>

definition pruned_from :: "tables \<Rightarrow> 'z maint_scheme \<Rightarrow> bool" where
  "pruned_from tb w \<longleftrightarrow> prunes tb (mt_tables w)"

interpretation pruned: db_invariant "pruned_from tb" for tb
  by unfold_locales (simp add: pruned_from_def)

lemma keeps_delete:
  assumes "target_ok g" "\<And>t. chosen g (ks t) t"
  shows "keeps (pruned_from tb) (delete_doomed what (tg_table g) ks)"
  unfolding delete_doomed_def
proof (intro keeps_rules pruned.keeps_stmt)
  fix w :: "'a maint_scheme"
  assume w: "pruned_from tb w"
  then have "keys_ok (mt_tables w)" by (simp add: pruned_from_def prunes_def)
  from prunes_trans [OF w [unfolded pruned_from_def] prunes_drop [OF this assms(1,2)]]
  show "pruned_from tb (w\<lparr>mt_tables := drop_rows (tg_table g) (ks (mt_tables w)) (mt_tables w)\<rparr>)"
    by (simp add: pruned_from_def)
qed

lemma keeps_deleteBefore: "target_ok g \<Longrightarrow> keeps (pruned_from tb) (deleteBefore g c n)"
  unfolding deleteBefore_def by (rule keeps_delete) (simp_all add: chosen_before)

lemma keeps_deleteOldest: "target_ok g \<Longrightarrow> keeps (pruned_from tb) (deleteOldest g n)"
  unfolding deleteOldest_def by (rule keeps_delete) (simp_all add: chosen_oldest)

lemma keeps_age: "\<forall>g\<in>set gs. target_ok g \<Longrightarrow> keeps (pruned_from tb) (applyAgeRetention gs p x)"
  by (induction gs arbitrary: x) (auto intro!: keeps_rules keeps_deleteBefore)

lemma keeps_trim: "\<forall>g\<in>set gs. target_ok g \<Longrightarrow> keeps (pruned_from tb) (trim_targets gs n x)"
  by (induction gs arbitrary: x) (auto intro!: keeps_rules keeps_deleteOldest)

lemma keeps_budget:
  "\<forall>c\<in>set cs. \<forall>g\<in>set (sc_targets c). target_ok g \<Longrightarrow> keeps (pruned_from tb) (applyBudgetRetention cs bs n x)"
  by (induction cs arbitrary: x) (auto intro!: keeps_rules keeps_trim)

lemma keeps_classBytes: "keeps (pruned_from tb) classBytes"
  unfolding classBytes_def by (intro keeps_map_each) (auto intro!: keeps_rules pruned.keeps_stmt split: prod.split)

lemma keeps_finish: "keeps (pruned_from tb) (finish_pass pg p bs x)"
  unfolding finish_pass_def databaseBytes_def by (intro keeps_rules pruned.keeps_stmt)

lemma keeps_Run: "keeps (pruned_from tb) (store_Run pg now p)"
  unfolding store_Run_def Let_def
  by (intro keeps_rules keeps_age targets_ok keeps_classBytes keeps_budget class_targets_ok keeps_finish)

lemma Run_prunes: "keys_ok (mt_tables w) \<Longrightarrow> prunes (mt_tables w) (mt_tables (snd (store_Run pg now p w)))"
  using keeps_Run [of "mt_tables w" pg now p] prunes_refl by (auto simp: keeps_def pruned_from_def)

text \<open>C10: Whatever statement fails, a retention pass changes no table but those it maintains
  (the audit log, the accounts and the services are none of them), takes no finding that is not
  resolved, no container that is current, present or has an active finding, and no approval or
  ignore of such a container.\<close>

theorem retention_spares:
  fixes w :: "'z maint_scheme"
  assumes "keys_ok (mt_tables w)" "store_Run pg now p w = (x, w')"
  shows "(\<forall>n. n \<notin> set touched \<longrightarrow> mt_tables w' n = mt_tables w n) \<and>
    (\<forall>r\<in>set (mt_tables w ''security_findings''). mr_type r \<noteq> ''resolved'' \<longrightarrow>
      r \<in> set (mt_tables w' ''security_findings'')) \<and>
    (\<forall>r\<in>set (mt_tables w ''container_instances''). \<not> departed_container (mt_tables w) r \<longrightarrow>
      r \<in> set (mt_tables w' ''container_instances'')) \<and>
    (\<forall>n\<in>set decisions. \<forall>r\<in>set (mt_tables w n).
      (\<forall>i\<in>set (mt_tables w ''container_instances''). mr_container i = mr_container r \<longrightarrow>
        \<not> departed_container (mt_tables w) i) \<longrightarrow> r \<in> set (mt_tables w' n))"
  using Run_prunes [OF assms(1), of pg now p] assms(2) by (simp add: prunes_def)

section \<open>The backlog shrinks\<close>

definition steady :: "('z maint_scheme, err, 'a) prog \<Rightarrow> bool" where
  "steady m \<longleftrightarrow> (\<forall>w. faults w = [] \<longrightarrow> (\<exists>a w'. m w = (Inr a, w') \<and> faults w' = []))"

lemma steady_bindE: "steady m \<Longrightarrow> (\<And>a. steady (k a)) \<Longrightarrow> steady (bindE m k)"
  unfolding steady_def bindE_def by (metis (no_types, lifting) case_prod_conv sum.case(2))

lemma steady_andthen: "steady m \<Longrightarrow> steady n \<Longrightarrow> steady (andthen m n)"
  by (simp add: andthen_def steady_bindE)

lemma steady_basic [simp]: "steady (ret a)" "steady (gets f)" "steady (stmt e)"
  by (simp_all add: steady_def ret_def gets_def)

lemma steady_tables [simp]: "steady (modify (\<lambda>w. w\<lparr>mt_tables := f w\<rparr>))"
  by (simp add: steady_def modify_def)

lemma steady_map_each: "(\<And>x. steady (f x)) \<Longrightarrow> steady (map_each f xs)"
  by (induction xs) (auto intro!: steady_bindE)

lemma steady_delete: "steady (delete_doomed what t ks)"
  unfolding delete_doomed_def by (intro steady_andthen steady_bindE steady_basic steady_tables)

lemma steady_age: "steady (applyAgeRetention gs p x)"
  by (induction gs arbitrary: x) (auto simp: deleteBefore_def intro!: steady_bindE steady_delete)

lemma steady_trim: "steady (trim_targets gs n x)"
  by (induction gs arbitrary: x) (auto simp: deleteOldest_def intro!: steady_bindE steady_delete)

lemma steady_budget: "steady (applyBudgetRetention cs bs n x)"
  by (induction cs arbitrary: x) (auto intro!: steady_bindE steady_trim)

lemma steady_classBytes: "steady classBytes"
  unfolding classBytes_def by (intro steady_map_each) (auto intro!: steady_andthen split: prod.split)

lemma steady_finish: "steady (finish_pass pg p bs x)"
  unfolding finish_pass_def databaseBytes_def by (intro steady_bindE steady_andthen steady_basic)


lemma steady_Run: "steady (store_Run pg now p)"
  unfolding store_Run_def Let_def
  by (intro steady_bindE steady_age steady_classBytes steady_budget steady_finish)
    (simp add: steady_classBytes)

lemma doomed_length:
  assumes "distinct (map mr_key rs)"
  shows "length (filter (\<lambda>r. mr_key r \<notin> set (take n (sort (map mr_key rs)))) rs) = length rs - n"
proof -
  let ?ks = "sort (map mr_key rs)" and ?kept = "\<lambda>k. k \<notin> set (take n (sort (map mr_key rs)))"
  have d: "distinct ?ks" using assms by simp
  have drop: "filter ?kept ?ks = drop n ?ks"
  proof -
    have "filter ?kept (take n ?ks @ drop n ?ks) = drop n ?ks"
      using d set_take_disj_set_drop_if_distinct [OF d, of n n]
      by (subst filter_append) (auto simp: filter_id_conv disjoint_iff simp del: append_take_drop_id)
    then show ?thesis by simp
  qed
  have "length (filter (\<lambda>r. ?kept (mr_key r)) rs) = length (filter ?kept (map mr_key rs))"
    by (simp add: filter_map comp_def)
  also have "\<dots> = length (filter ?kept ?ks)"
    by (metis mset_filter mset_sort size_mset)
  also have "\<dots> = length rs - n" by (simp add: drop)
  finally show ?thesis .
qed

lemma old_rows_own:
  assumes k: "keys_ok tb" and t: "target_ok g"
  shows "length (old_rows g c (drop_rows (tg_table g) (doomed_before g c n tb) tb)) =
    length (old_rows g c tb) - nat n"
proof -
  let ?P = "\<lambda>r. (case mr_stamp r of None \<Rightarrow> False | Some t \<Rightarrow> text_less t (formatFixedTime c)) \<and> tg_pred g tb r"
  let ?ks = "doomed_before g c n tb"
  have "old_rows g c (drop_rows (tg_table g) ?ks tb) = filter ?P (filter (\<lambda>r. mr_key r \<notin> set ?ks) (tb (tg_table g)))"
    unfolding old_rows_def pred_drop [OF k t chosen_before t] by (simp add: drop_rows_def)
  also have "\<dots> = filter (\<lambda>r. mr_key r \<notin> set ?ks) (old_rows g c tb)"
    unfolding old_rows_def filter_filter by (intro filter_cong) auto
  finally show ?thesis
    using k doomed_length [of "old_rows g c tb" "nat n"]
    by (simp add: doomed_before_def keys_ok_def old_rows_def distinct_map_filter)
qed

lemma deleteBefore_run:
  "faults w = [] \<Longrightarrow> deleteBefore g c n w =
    (Inr (int (length (gone (tg_table g) (doomed_before g c n (mt_tables w)) (mt_tables w)))),
     w\<lparr>mt_tables := drop_rows (tg_table g) (doomed_before g c n (mt_tables w)) (mt_tables w)\<rparr>)"
  by (simp add: deleteBefore_def delete_doomed_def run_defs)

lemma pruned_le:
  "prunes tb tb' \<Longrightarrow> target_ok g \<Longrightarrow> length (old_rows g c tb') \<le> length (old_rows g c tb)"
  by (simp add: prunes_def)

lemma age_shrinks:
  assumes "\<forall>g\<in>set gs. target_ok g" "keys_ok (mt_tables w)" "faults w = []"
    and "applyAgeRetention gs p x w = (Inr y, w')" "g \<in> set gs" "0 < tg_retention g"
  shows "length (old_rows g (mp_now p - tg_retention g) (mt_tables w')) \<le>
    length (old_rows g (mp_now p - tg_retention g) (mt_tables w)) - nat (mp_batch p)"
  using assms
proof (induction gs arbitrary: w x)
  case Nil
  then show ?case by simp
next
  case (Cons h hs)
  let ?c = "\<lambda>g. mp_now p - tg_retention g"
  have oks: "target_ok h" "target_ok g" "\<forall>g\<in>set hs. target_ok g" using Cons.prems(1,5) by auto
  show ?case
  proof (cases "tg_retention h \<le> 0")
    case True
    then show ?thesis using Cons.IH [of w x] Cons.prems oks by auto
  next
    case False
    let ?w = "w\<lparr>mt_tables := drop_rows (tg_table h) (doomed_before h (?c h) (mp_batch p) (mt_tables w)) (mt_tables w)\<rparr>"
    obtain z where run: "applyAgeRetention hs p z ?w = (Inr y, w')"
      using Cons.prems(4) False by (auto simp: bindE_def deleteBefore_run [OF Cons.prems(3)])
    have step: "prunes (mt_tables w) (mt_tables ?w)"
      using prunes_drop [OF Cons.prems(2) oks(1) chosen_before] by simp
    then have k: "keys_ok (mt_tables ?w)" by (simp add: prunes_def)
    have rest: "prunes (mt_tables ?w) (mt_tables w')"
      using keepsD [OF keeps_age [OF oks(3)] _ run, of "mt_tables ?w"] prunes_refl [OF k]
      by (simp add: pruned_from_def)
    show ?thesis
    proof (cases "g \<in> set hs")
      case True
      have "length (old_rows g (?c g) (mt_tables w')) \<le> length (old_rows g (?c g) (mt_tables ?w)) - nat (mp_batch p)"
        using Cons.IH [OF oks(3) k _ run True Cons.prems(6)] Cons.prems(3) by simp
      also have "\<dots> \<le> length (old_rows g (?c g) (mt_tables w)) - nat (mp_batch p)"
        using pruned_le [OF step oks(2)] by (simp add: diff_le_mono)
      finally show ?thesis .
    next
      case False
      then have "g = h" using Cons.prems(5) by simp
      have "length (old_rows g (?c g) (mt_tables w')) \<le> length (old_rows g (?c g) (mt_tables ?w))"
        using pruned_le [OF rest oks(2)] by simp
      also have "\<dots> = length (old_rows g (?c g) (mt_tables w)) - nat (mp_batch p)"
        using old_rows_own [OF Cons.prems(2) oks(1)] \<open>g = h\<close> by simp
      finally show ?thesis .
    qed
  qed
qed

text \<open>Passes one after the other, at the same instant.\<close>

fun passes :: "pragmas \<Rightarrow> instant \<Rightarrow> maint_policy \<Rightarrow> nat \<Rightarrow> ('z maint_scheme, err, unit) prog" where
  "passes pg now p 0 = ret ()"
| "passes pg now p (Suc k) = bindE (store_Run pg now p) (\<lambda>_. passes pg now p k)"

lemma Run_shrinks:
  assumes "keys_ok (mt_tables w)" "faults w = []"
  shows "\<exists>x w'. store_Run pg now p w = (Inr x, w') \<and> faults w' = [] \<and> keys_ok (mt_tables w') \<and>
    (\<forall>g\<in>set (retention_targets (normalizeMaintenancePolicy now p)). 0 < tg_retention g \<longrightarrow>
      length (old_rows g (mp_now (normalizeMaintenancePolicy now p) - tg_retention g) (mt_tables w')) \<le>
      length (old_rows g (mp_now (normalizeMaintenancePolicy now p) - tg_retention g) (mt_tables w)) -
        nat (mp_batch (normalizeMaintenancePolicy now p)))"
proof -
  let ?p = "normalizeMaintenancePolicy now p"
  obtain x w' where run: "store_Run pg now p w = (Inr x, w')" and f: "faults w' = []"
    using steady_Run assms(2) unfolding steady_def by blast
  obtain y u where age: "applyAgeRetention (retention_targets ?p) ?p (first_result ?p) w = (Inr y, u)"
    and rest: "bindE classBytes (\<lambda>bs. bindE (applyBudgetRetention (storage_classes ?p) bs (mp_batch ?p) y) (\<lambda>y.
      bindE (if 0 < mx_deleted y then classBytes else ret bs) (\<lambda>bs'. finish_pass pg ?p bs' y))) u = (Inr x, w')"
    using run unfolding store_Run_def Let_def by (subst (asm) returned_bindE) blast
  have k: "keys_ok (mt_tables u)"
    using keepsD [OF keeps_age [OF targets_ok] _ age, of "mt_tables w"] prunes_refl [OF assms(1)]
    by (simp add: pruned_from_def prunes_def)
  have "keeps (pruned_from (mt_tables u)) (bindE classBytes (\<lambda>bs. bindE (applyBudgetRetention (storage_classes ?p) bs (mp_batch ?p) y) (\<lambda>y.
      bindE (if 0 < mx_deleted y then classBytes else ret bs) (\<lambda>bs'. finish_pass pg ?p bs' y))))"
    by (intro keeps_rules keeps_classBytes keeps_budget class_targets_ok keeps_finish)
  from keepsD [OF this _ rest] have later: "prunes (mt_tables u) (mt_tables w')"
    using prunes_refl [OF k] by (simp add: pruned_from_def)
  have "length (old_rows g (mp_now ?p - tg_retention g) (mt_tables w')) \<le>
      length (old_rows g (mp_now ?p - tg_retention g) (mt_tables w)) - nat (mp_batch ?p)"
    if g: "g \<in> set (retention_targets ?p)" "0 < tg_retention g" for g
    using age_shrinks [OF targets_ok assms age g] pruned_le [OF later] targets_ok g(1) order_trans by blast
  then show ?thesis using run f later by (auto simp: prunes_def)
qed

text \<open>C11: The backlog goes away: with no failing statement, k passes return, and once k batches cover the
  rows of a target that are older than its retention, none of them is left.  (The batch is the
  configured one, or 1000 when that is out of range.)\<close>

theorem retention_finishes:
  fixes w :: "'z maint_scheme"
  assumes "keys_ok (mt_tables w)" "faults w = []" "mp_now p \<noteq> zero_time"
    and "g \<in> set (retention_targets (normalizeMaintenancePolicy now p))" "0 < tg_retention g"
    and "length (old_rows g (mp_now p - tg_retention g) (mt_tables w)) \<le>
      k * nat (mp_batch (normalizeMaintenancePolicy now p))"
  shows "\<exists>w'. passes pg now p k w = (Inr (), w') \<and> old_rows g (mp_now p - tg_retention g) (mt_tables w') = []"
  using assms(1,2,6)
proof (induction k arbitrary: w)
  case 0
  then show ?case by (auto simp: ret_def)
next
  case (Suc k)
  have now: "mp_now (normalizeMaintenancePolicy now p) = mp_now p"
    using assms(3) by (simp add: normalizeMaintenancePolicy_def is_zero_time_def)
  obtain x u where u: "store_Run pg now p w = (Inr x, u)" "faults u = []" "keys_ok (mt_tables u)"
    and "length (old_rows g (mp_now p - tg_retention g) (mt_tables u)) \<le>
      length (old_rows g (mp_now p - tg_retention g) (mt_tables w)) - nat (mp_batch (normalizeMaintenancePolicy now p))"
    using Run_shrinks [OF Suc.prems(1,2), of pg now p] assms(4,5) unfolding now by blast
  then have "length (old_rows g (mp_now p - tg_retention g) (mt_tables u)) \<le>
      k * nat (mp_batch (normalizeMaintenancePolicy now p))"
    using Suc.prems(3) by simp
  then show ?case using Suc.IH [OF u(3,2)] u(1) by (auto simp: bindE_def)
qed

section \<open>A class over its budget\<close>

lemma emptied:
  assumes "tg_pred g = any_row" "length (tb (tg_table g)) \<le> nat n"
  shows "drop_rows (tg_table g) (doomed_oldest g n tb) tb (tg_table g) = []"
  using assms by (simp add: drop_rows_def doomed_oldest_def any_row_def filter_empty_conv)

lemma cascade_Nil [simp]: "cascade t del n [] = []"
  by (simp add: cascade_def map_where_def)

definition empty_in :: "gostring \<Rightarrow> 'z maint_scheme \<Rightarrow> bool" where
  "empty_in t w \<longleftrightarrow> mt_tables w t = []"

interpretation empty_table: db_invariant "empty_in t" for t
  by unfold_locales (simp add: empty_in_def)

lemma keeps_empty_delete: "keeps (empty_in t) (deleteOldest g n)"
  unfolding deleteOldest_def delete_doomed_def
  by (intro keeps_rules empty_table.keeps_stmt) (auto simp: empty_in_def drop_rows_def)

lemma keeps_empty_trim: "keeps (empty_in t) (trim_targets gs n x)"
  by (induction gs arbitrary: x) (auto intro!: keeps_rules keeps_empty_delete)

lemma keeps_empty_budget: "keeps (empty_in t) (applyBudgetRetention cs bs n x)"
  by (induction cs arbitrary: x) (auto intro!: keeps_rules keeps_empty_trim)

definition few :: "gostring \<Rightarrow> int \<Rightarrow> 'z maint_scheme \<Rightarrow> bool" where
  "few t n w \<longleftrightarrow> length (mt_tables w t) \<le> nat n"

interpretation few_rows: db_invariant "few t n" for t n
  by unfold_locales (simp add: few_def)

lemma cascade_shorter: "length (cascade t del n rs) \<le> length rs"
  by (simp add: cascade_def)

lemma drop_shorter: "length (drop_rows t ks tb n) \<le> length (tb n)"
  by (simp add: drop_rows_def cascade_shorter)

lemma keeps_few_delete: "keeps (few t n) (deleteOldest g m)"
  unfolding deleteOldest_def delete_doomed_def
  by (intro keeps_rules few_rows.keeps_stmt) (auto simp: few_def intro: order_trans [OF drop_shorter])

lemma keeps_few_trim: "keeps (few t n) (trim_targets gs m x)"
  by (induction gs arbitrary: x) (auto intro!: keeps_rules keeps_few_delete)

lemma deleteOldest_empties:
  assumes "deleteOldest g n w = (Inr m, w')" "tg_pred g = any_row" "few (tg_table g) n w"
  shows "empty_in (tg_table g) w'"
  using assms unfolding deleteOldest_def delete_doomed_def
  by (auto simp: returned empty_in_def few_def emptied dest!: returned_stmt)

lemma trim_empties:
  assumes "trim_targets gs n x w = (Inr y, w')" "g \<in> set gs" "tg_pred g = any_row" "few (tg_table g) n w"
  shows "empty_in (tg_table g) w'"
  using assms
proof (induction gs arbitrary: w x)
  case (Cons h hs)
  obtain m u where d: "deleteOldest h n w = (Inr m, u)"
    and rest: "trim_targets hs n (count_deleted (tg_table h) m x) u = (Inr y, w')"
    using Cons.prems(1) by (auto simp: returned)
  show ?case
  proof (cases "g \<in> set hs")
    case True
    then show ?thesis using Cons.IH [OF rest True Cons.prems(3)] keepsD [OF keeps_few_delete Cons.prems(4) d] by simp
  next
    case False
    then have "empty_in (tg_table g) u" using deleteOldest_empties [OF d] Cons.prems(2,3,4) by simp
    then show ?thesis using keepsD [OF keeps_empty_trim _ rest] by simp
  qed
qed simp

text \<open>When a class is over its budget, a budget pass that succeeds empties each of its tables
  that has no more rows than a batch, whatever that table itself weighs: a full notification table takes the whole
  deploy history and every database job with it, the running one included.\<close>

theorem budget_empties:
  fixes w :: "'z maint_scheme"
  assumes "applyBudgetRetention (storage_classes p) bs n x w = (Inr y, w')" "c \<in> set (storage_classes p)"
    and "sc_limit c < bytes_of bs (sc_name c)" "g \<in> set (sc_targets c)" "tg_pred g = any_row"
    and "length (mt_tables w (tg_table g)) \<le> nat n"
  shows "mt_tables w' (tg_table g) = []"
proof -
  have "empty_in (tg_table g) w'"
    if "applyBudgetRetention cs bs n x w = (Inr y, w')" "c \<in> set cs" "few (tg_table g) n w" for cs x
    using that
  proof (induction cs arbitrary: w x)
    case (Cons d ds)
    show ?case
    proof (cases "bytes_of bs (sc_name d) \<le> sc_limit d")
      case True
      then show ?thesis using Cons assms(3) by auto
    next
      case False
      then obtain z u where t: "trim_targets (sc_targets d) n x w = (Inr z, u)"
        and rest: "applyBudgetRetention ds bs n z u = (Inr y, w')"
        using Cons.prems(1) by (auto simp: returned)
      show ?thesis
      proof (cases "c = d")
        case True
        then have "empty_in (tg_table g) u" using trim_empties [OF t] assms(4,5) Cons.prems(3) by simp
        then show ?thesis using keepsD [OF keeps_empty_budget _ rest] by simp
      next
        case False
        then show ?thesis using Cons.IH [OF rest] Cons.prems(2) keepsD [OF keeps_few_trim Cons.prems(3) t] by simp
      qed
    qed
  qed simp
  then show ?thesis using assms(1,2,6) by (simp add: empty_in_def few_def)
qed

section \<open>Samples\<close>

definition sample_mrow :: "int \<Rightarrow> instant \<Rightarrow> int \<Rightarrow> gostring \<Rightarrow> mrow" where
  "sample_mrow i moment n kind =
    \<lparr>mr_key = i, mr_stamp = Some (formatFixedTime moment), mr_bytes = n, mr_type = kind, mr_container = [],
     mr_current = False, mr_present = False, mr_parent = None\<rparr>"

definition sample_tables :: tables where
  "sample_tables =
    (\<lambda>t. if t = ''log_lines'' then [sample_mrow 2 3 1 [], sample_mrow 1 2 1 []]
         else if t = ''db_jobs'' then [sample_mrow 7 100 1 ''running'']
         else if t = ''audit'' then [sample_mrow 1 1 1 []] else [])"

definition sample_maint :: maint where
  "sample_maint = \<lparr>faults = [], mt_tables = sample_tables\<rparr>"

definition sample_policy :: maint_policy where
  "sample_policy =
    \<lparr>mp_now = 100, mp_batch = 1, mp_max = 1, mp_log_max = 1, mp_perf_max = 1, mp_issue_max = 1, mp_admin_max = 1,
     mp_metrics = 0, mp_notifications = 0, mp_deploys = 0, mp_errors = 0, mp_logs = 50, mp_sdk_logs = 0,
     mp_perf = 0, mp_perf_hourly = 0, mp_observations = 0, mp_events = 0, mp_findings = 0\<rparr>"

definition sample_pragmas :: pragmas where
  "sample_pragmas = \<lparr>pg_wal = (\<lambda>_. (0, 0, 0)), pg_count = (\<lambda>_. 1), pg_size = (\<lambda>_. 4096)\<rparr>"

lemma sample_keys: "keys_ok (mt_tables sample_maint)"
  by (simp add: keys_ok_def sample_maint_def sample_tables_def sample_mrow_def)

lemma retention_spares_witness:
  "mt_tables (snd (store_Run sample_pragmas 100 sample_policy sample_maint)) ''audit'' = [sample_mrow 1 1 1 []]"
proof -
  have a: "''audit'' \<notin> set touched" by code_simp
  obtain x w' where run: "store_Run sample_pragmas 100 sample_policy sample_maint = (x, w')" by fastforce
  show ?thesis using retention_spares [OF sample_keys run] a run
    by (simp add: sample_maint_def sample_tables_def)
qed

lemma retention_finishes_witness:
  "\<exists>w'. passes sample_pragmas 100 sample_policy 2 sample_maint = (Inr (), w') \<and>
    old_rows (tgt ''log_lines'' 50) 50 (mt_tables w') = []"
proof -
  have p: "normalizeMaintenancePolicy 100 sample_policy = sample_policy"
    by (simp add: normalizeMaintenancePolicy_def sample_policy_def is_zero_time_def zero_time_def
        MaximumMaintenanceBatch_def or_default_def)
  have "tgt ''log_lines'' 50 \<in> set (retention_targets (normalizeMaintenancePolicy 100 sample_policy))"
    unfolding p by (simp add: retention_targets_def sample_policy_def)
  moreover have "mp_now sample_policy \<noteq> zero_time" "mp_now sample_policy - tg_retention (tgt ''log_lines'' 50) = 50"
    "0 < tg_retention (tgt ''log_lines'' 50)" "faults sample_maint = []"
    by (simp_all add: sample_policy_def zero_time_def tgt_def sample_maint_def)
  moreover have "length (old_rows (tgt ''log_lines'' 50) 50 (mt_tables sample_maint)) \<le>
      2 * nat (mp_batch (normalizeMaintenancePolicy 100 sample_policy))"
    unfolding p by (simp add: old_rows_def sample_maint_def sample_tables_def sample_policy_def tgt_def)
  ultimately show ?thesis
    using retention_finishes [of sample_maint sample_policy "tgt ''log_lines'' 50" 100 2 sample_pragmas] sample_keys
    by simp
qed

lemma budget_empties_witness:
  "\<exists>y w'. applyBudgetRetention (storage_classes sample_policy) [(''administrative'', 2)] 1 (first_result sample_policy)
      sample_maint = (Inr y, w') \<and> mt_tables w' ''db_jobs'' = []"
proof -
  obtain y w' where run: "applyBudgetRetention (storage_classes sample_policy) [(''administrative'', 2)] 1
      (first_result sample_policy) sample_maint = (Inr y, w')"
    using steady_budget unfolding steady_def by (metis sample_maint_def maint.select_convs(1) sqldb.select_convs(1))
  let ?c = "\<lparr>sc_name = ''administrative'', sc_limit = 1, sc_targets =
       [tgt ''notifications'' 0, tgt ''deploy_probes'' 0, tgt ''deploys'' 0, tgt ''db_jobs'' 0]\<rparr>"
  have c: "?c \<in> set (storage_classes sample_policy)" by (simp add: storage_classes_def sample_policy_def)
  have "sc_limit ?c < bytes_of [(''administrative'', 2)] (sc_name ?c)" by (simp add: bytes_of_def)
  from budget_empties [OF run c this, of "tgt ''db_jobs'' 0"]
  have "mt_tables w' ''db_jobs'' = []"
    by (simp add: tgt_def sample_maint_def sample_tables_def)
  then show ?thesis using run by blast
qed

end
