(* ===== verification/Go_Paths.thy ===== *)
theory Go_Paths
  imports Go_Strings
begin

text \<open>
  \<open>path/filepath\<close> on Unix: the lexical \<open>Clean\<close>, \<open>Dir\<close>, \<open>Join\<close> and
  \<open>Abs\<close>, which the confinement checks of the program rely on.
\<close>

abbreviation slash :: char where "slash \<equiv> CHR ''/''"

text \<open>The elements of a path that survive the cleaning, last one first.\<close>

fun clean_parts :: "bool \<Rightarrow> gostring list \<Rightarrow> gostring list \<Rightarrow> gostring list" where
  "clean_parts rooted out [] = rev out"
| "clean_parts rooted out (p # ps) =
    (if p = [] \<or> p = ''.'' then clean_parts rooted out ps
     else if p = ''..'' then
       (case out of
          [] \<Rightarrow> clean_parts rooted (if rooted then [] else [''..'']) ps
        | q # qs \<Rightarrow> clean_parts rooted (if q = ''..'' then ''..'' # out else qs) ps)
     else clean_parts rooted (p # out) ps)"

definition is_abs :: "gostring \<Rightarrow> bool" where "is_abs p = has_prefix p ''/''"

definition path_clean :: "gostring \<Rightarrow> gostring" where
  "path_clean p =
    (if p = [] then ''.''
     else
       let parts = clean_parts (is_abs p) [] (split_char slash p);
           body = join_with ''/'' parts
       in if is_abs p then slash # body else if parts = [] then ''.'' else body)"

definition path_join :: "gostring list \<Rightarrow> gostring" where
  "path_join ps =
    (let qs = filter (\<lambda>p. p \<noteq> []) ps in if qs = [] then [] else path_clean (join_with ''/'' qs))"

text \<open>What comes before the last slash, with it, and what comes after.\<close>

definition dir_part :: "gostring \<Rightarrow> gostring" where
  "dir_part p = rev (dropWhile (\<lambda>c. c \<noteq> slash) (rev p))"

definition base_part :: "gostring \<Rightarrow> gostring" where
  "base_part p = rev (takeWhile (\<lambda>c. c \<noteq> slash) (rev p))"

definition path_dir :: "gostring \<Rightarrow> gostring" where
  "path_dir p = path_clean (dir_part p)"

definition path_abs :: "gostring \<Rightarrow> gostring \<Rightarrow> gostring" where
  "path_abs cwd p = (if is_abs p then path_clean p else path_join [cwd, p])"

lemma dir_base: "dir_part p @ base_part p = p"
  unfolding dir_part_def base_part_def
  by (metis rev_append rev_rev_ident takeWhile_dropWhile_id)

lemma base_part_no_slash: "slash \<notin> set (base_part p)"
  unfolding base_part_def by (metis set_rev set_takeWhileD)

text \<open>The elements of a clean path: none is empty or a dot, and parent steps stand at the front
  only, and only in a path that is not rooted.\<close>

fun parts_ok :: "bool \<Rightarrow> gostring list \<Rightarrow> bool" where
  "parts_ok rooted [] = True"
| "parts_ok rooted (q # qs) =
    (q \<noteq> [] \<and> q \<noteq> ''.'' \<and> slash \<notin> set q \<and>
     (if q = ''..'' then \<not> rooted \<and> list_all (\<lambda>x. x = ''..'') qs else True) \<and> parts_ok rooted qs)"

lemma parts_ok_parents: "list_all (\<lambda>x. x = ''..'') qs \<Longrightarrow> \<not> rooted \<Longrightarrow> parts_ok rooted qs"
  by (induction qs) auto

lemma clean_parts_ok:
  "list_all (\<lambda>p. slash \<notin> set p) ps \<Longrightarrow> parts_ok rooted out \<Longrightarrow>
    \<exists>res. clean_parts rooted out ps = rev res \<and> parts_ok rooted res"
proof (induction rooted out ps rule: clean_parts.induct)
  case (2 rooted out p ps)
  show ?case
  proof (cases "p = [] \<or> p = ''.''")
    case True
    then show ?thesis using 2 by auto
  next
    case False
    show ?thesis
    proof (cases "p = ''..''")
      case False
      then show ?thesis using 2 \<open>\<not> (p = [] \<or> p = ''.'')\<close> by auto
    next
      case True
      show ?thesis using 2 \<open>\<not> (p = [] \<or> p = ''.'')\<close> True by (cases out) auto
    qed
  qed
qed auto

end
