(* ===== verification/Maint_Service.thy ===== *)
theory Maint_Service
  imports Maint_Store Backups Go_Paths Timestamps
begin

text \<open>
  The maintenance scheduler (\<open>internal/service/maintenance.go\<close>) and the snapshot it takes
  (\<open>DB.Backup\<close> in \<open>internal/store/db.go\<close>): the pass, when a snapshot is due, where it may be
  written, which old ones are pruned, and the status.  The directory is absent or a list of its
  entries under distinct names; calls into the file system fail as the oracle says.  A snapshot's
  content is a parameter.  The timer only calls \<open>runOnce\<close>.
\<close>

section \<open>The stamps of snapshot names\<close>

definition defaultSQLiteBackupInterval :: duration where "defaultSQLiteBackupInterval = 24 * hour"
definition defaultSQLiteBackupKeep :: int where "defaultSQLiteBackupKeep = 14"

abbreviation snapshot_prefix :: gostring where "snapshot_prefix \<equiv> ''touchgrass-''"
abbreviation snapshot_suffix :: gostring where "snapshot_suffix \<equiv> ''.db''"

definition stamp_of :: "gostring \<Rightarrow> gostring" where
  "stamp_of name = trim_suffix (trim_prefix name snapshot_prefix) snapshot_suffix"

definition snapshot_time :: "gostring \<Rightarrow> instant option" where
  "snapshot_time name =
    (if has_prefix name snapshot_prefix \<and> has_suffix name snapshot_suffix then parse_stamp (stamp_of name)
     else None)"

definition snapshot_name :: "instant \<Rightarrow> gostring" where
  "snapshot_name moment = snapshot_prefix @ compact_stamp moment @ snapshot_suffix"

section \<open>State\<close>

record maint_config =
  mc_policy :: maint_policy
  mc_interval :: duration
  mc_backup_interval :: duration
  mc_dir :: gostring
  mc_keep :: int
  mc_cwd :: gostring
  mc_snapshot :: "tables \<Rightarrow> gostring"

record maint_service = maint +
  ms_files :: "bfile list option"
  ms_run :: instant
  ms_success :: instant
  ms_error :: "err option"
  ms_result :: "maint_result option"
  ms_backup :: instant

definition snapshot_files :: "bfile list \<Rightarrow> bfile list" where
  "snapshot_files fs = filter (\<lambda>f. \<not> bf_dir f \<and> snapshot_time (bf_name f) \<noteq> None) fs"

definition latest_of :: "instant list \<Rightarrow> instant" where
  "latest_of ts = fold max ts zero_time"

text \<open>A directory that cannot be read counts as one without snapshots.\<close>

definition latestSQLiteBackupAt :: "bfile list option \<Rightarrow> instant" where
  "latestSQLiteBackupAt d =
    (case d of
       None \<Rightarrow> zero_time
     | Some fs \<Rightarrow> latest_of (map (\<lambda>f. the (snapshot_time (bf_name f))) (snapshot_files fs)))"

definition NewMaintenance :: "maint_config \<Rightarrow> 'z maint_service_scheme \<Rightarrow> maint_config \<times> 'z maint_service_scheme" where
  "NewMaintenance c w =
    (c\<lparr>mc_interval := (if mc_interval c \<le> 0 then 5 * minute else mc_interval c),
       mc_backup_interval := (if mc_backup_interval c \<le> 0 then defaultSQLiteBackupInterval else mc_backup_interval c),
       mc_keep := (if mc_keep c \<le> 0 then defaultSQLiteBackupKeep else mc_keep c)\<rparr>,
     w\<lparr>ms_run := zero_time, ms_success := zero_time, ms_error := None, ms_result := None,
       ms_backup := latestSQLiteBackupAt (ms_files w)\<rparr>)"

section \<open>Snapshots\<close>

definition dir_entries :: "'z maint_service_scheme \<Rightarrow> bfile list" where
  "dir_entries w = (case ms_files w of None \<Rightarrow> [] | Some fs \<Rightarrow> fs)"

definition named :: "gostring \<Rightarrow> bfile \<Rightarrow> bool" where
  "named n f \<longleftrightarrow> bf_name f = n"

text \<open>\<open>DB.Backup\<close>, for a destination directly inside the directory: its last element names the file.
  (A VACUUM INTO that fails leaves no file here.)\<close>

definition db_Backup ::
  "maint_config \<Rightarrow> instant \<Rightarrow> gostring \<Rightarrow> ('z maint_service_scheme, err, unit) prog" where
  "db_Backup c moment dest =
    andthen (guardE (dest \<noteq> []) (ErrOther ''destination is required''))
    (andthen (stmt (ErrOther ''checking backup destination''))
    (bindE (gets (\<lambda>w. list_ex (named (base_part dest)) (dir_entries w))) (\<lambda>there.
     andthen (guardE (\<not> there) (ErrOther ''destination already exists''))
     (andthen (stmt (ErrOther ''creating backup directory''))
     (andthen (stmt (ErrOther ''backing up database''))
     (andthen (modify (\<lambda>w. w\<lparr>ms_files := Some (dir_entries w @
         [\<lparr>bf_name = base_part dest, bf_dir = False, bf_data = mc_snapshot c (mt_tables w), bf_mtime = moment\<rparr>])\<rparr>))
      (stmt (ErrOther ''securing database backup''))))))))"

definition maint_Backup ::
  "maint_config \<Rightarrow> instant \<Rightarrow> gostring \<Rightarrow> ('z maint_service_scheme, err, unit) prog" where
  "maint_Backup c moment dest =
    andthen (stmt (ErrOther ''creating sqlite backup directory''))
    (andthen (modify (\<lambda>w. w\<lparr>ms_files := Some (dir_entries w)\<rparr>))
    (let base = path_abs (mc_cwd c) (path_clean (mc_dir c)); d = path_abs (mc_cwd c) (path_clean dest) in
     andthen (guardE (path_dir d = base)
       (ErrOther ''destination must be directly inside the configured backup directory''))
      (db_Backup c moment d)))"

definition remove_snapshot :: "gostring \<Rightarrow> ('z maint_service_scheme, err, unit) prog" where
  "remove_snapshot n =
    andthen (stmt (ErrOther ''removing expired sqlite backup''))
     (modify (\<lambda>w. w\<lparr>ms_files := map_option (filter (\<lambda>f. \<not> named n f)) (ms_files w)\<rparr>))"

definition expired_names :: "int \<Rightarrow> bfile list \<Rightarrow> gostring list" where
  "expired_names keep fs =
    (let names = sort (map bf_name (snapshot_files fs)) in take (nat (int (length names) - keep)) names)"

definition pruneBackups :: "maint_config \<Rightarrow> ('z maint_service_scheme, err, unit) prog" where
  "pruneBackups c =
    andthen (stmt (ErrOther ''reading sqlite backup directory''))
    (bindE (gets ms_files) (\<lambda>d.
      case d of
        None \<Rightarrow> throw (ErrOther ''reading sqlite backup directory'')
      | Some fs \<Rightarrow> for_each remove_snapshot (expired_names (mc_keep c) fs)))"

section \<open>A pass of the scheduler\<close>

definition backup_due :: "maint_config \<Rightarrow> instant \<Rightarrow> 'z maint_service_scheme \<Rightarrow> bool" where
  "backup_due c now w \<longleftrightarrow> is_zero_time (ms_backup w) \<or> mc_backup_interval c \<le> time_sub now (ms_backup w)"

definition note_error :: "err \<Rightarrow> ('z maint_service_scheme, err, unit) prog" where
  "note_error e = modify (\<lambda>w. w\<lparr>ms_error := Some e\<rparr>)"

definition snapshot_step :: "maint_config \<Rightarrow> instant \<Rightarrow> ('z maint_service_scheme, err, unit) prog" where
  "snapshot_step c now =
    bindE (attempt (maint_Backup c now (path_join [mc_dir c, snapshot_name now]))) (\<lambda>b.
      case b of
        Inl e \<Rightarrow> note_error e
      | Inr _ \<Rightarrow>
         bindE (attempt (pruneBackups c)) (\<lambda>q.
           case q of
             Inl e \<Rightarrow> note_error e
           | Inr _ \<Rightarrow> modify (\<lambda>w. w\<lparr>ms_backup := now\<rparr>)))"

definition runOnce :: "pragmas \<Rightarrow> maint_config \<Rightarrow> instant \<Rightarrow> ('z maint_service_scheme, err, unit) prog" where
  "runOnce pg c now =
    bindE (attempt (store_Run pg now ((mc_policy c)\<lparr>mp_now := now\<rparr>))) (\<lambda>r.
    andthen (modify (\<lambda>w. w\<lparr>ms_run := now\<rparr>))
     (case r of
        Inl e \<Rightarrow> note_error e
      | Inr x \<Rightarrow>
         andthen (modify (\<lambda>w. w\<lparr>ms_success := now, ms_error := None, ms_result := Some x\<rparr>))
         (bindE (gets (backup_due c now)) (\<lambda>due. if due then snapshot_step c now else ret ()))))"

definition maint_Status ::
  "maint_config \<Rightarrow> instant \<Rightarrow> 'z maint_service_scheme \<Rightarrow> instant \<times> instant \<times> err option \<times> bool \<times> maint_result option" where
  "maint_Status c now w =
    (ms_run w, ms_success w, ms_error w,
     is_zero_time (ms_success w) \<or> 2 * mc_interval c < time_sub now (ms_success w), ms_result w)"

end
