(* ===== verification/Snapshot_Laws.thy ===== *)
theory Snapshot_Laws
  imports Maint_Service
begin

text \<open>
  The snapshots of the database: which ones a pruning takes, on any fault, and what a pruning that
  fails does to the schedule.
\<close>

section \<open>Pruning\<close>

definition without :: "gostring list \<Rightarrow> bfile list \<Rightarrow> bfile list" where
  "without ns fs = filter (\<lambda>f. bf_name f \<notin> set ns) fs"

lemma without_Nil [simp]: "without [] fs = fs"
  by (simp add: without_def)

lemma without_Cons: "filter (\<lambda>f. \<not> named n f) (without ns fs) = without (ns @ [n]) fs"
  by (auto simp: without_def named_def intro!: filter_cong)

text \<open>A loop of removals stops at the first one that fails.\<close>

lemma removals:
  fixes w :: "'z maint_service_scheme"
  assumes "for_each remove_snapshot ns w = (r, w')" "ms_files w = Some (without done0 fs)"
  shows "\<exists>k\<le>length ns. ms_files w' = Some (without (done0 @ take k ns) fs) \<and> ms_backup w' = ms_backup w \<and>
    ((\<exists>u. r = Inr u) \<longrightarrow> k = length ns)"
  using assms
proof (induction ns arbitrary: w done0)
  case Nil
  then show ?case by (simp add: ret_def)
next
  case (Cons n ns)
  let ?u = "\<lambda>v. v\<lparr>ms_files := map_option (filter (\<lambda>f. \<not> named n f)) (ms_files v)\<rparr> :: 'z maint_service_scheme"
  show ?case
  proof (rule stmt_cases [of "ErrOther ''removing expired sqlite backup''" w])
    fix b assume s: "stmt (ErrOther ''removing expired sqlite backup'') w = (Inr (), w\<lparr>faults := b\<rparr>)"
    then have "remove_snapshot n w = (Inr (), ?u (w\<lparr>faults := b\<rparr>))"
      by (simp add: remove_snapshot_def run_defs)
    then have run: "for_each remove_snapshot ns (?u (w\<lparr>faults := b\<rparr>)) = (r, w')"
      using Cons.prems(1) by (simp add: andthen_def bindE_def)
    have "ms_files (?u (w\<lparr>faults := b\<rparr>)) = Some (without (done0 @ [n]) fs)"
      using Cons.prems(2) by (simp add: without_Cons)
    from Cons.IH [OF run this] obtain k where "k \<le> length ns"
      "ms_files w' = Some (without ((done0 @ [n]) @ take k ns) fs)" "ms_backup w' = ms_backup w"
      "(\<exists>u. r = Inr u) \<longrightarrow> k = length ns" by auto
    then show ?thesis by (intro exI [of _ "Suc k"]) auto
  next
    fix b assume "stmt (ErrOther ''removing expired sqlite backup'') w =
      (Inl (ErrOther ''removing expired sqlite backup''), w\<lparr>faults := b\<rparr>)"
    then have "remove_snapshot n w = (Inl (ErrOther ''removing expired sqlite backup''), w\<lparr>faults := b\<rparr>)"
      by (simp add: remove_snapshot_def run_defs)
    then have "r = Inl (ErrOther ''removing expired sqlite backup'') \<and> w' = w\<lparr>faults := b\<rparr>"
      using Cons.prems(1) by (simp add: andthen_def bindE_def)
    then show ?thesis using Cons.prems(2) by (intro exI [of _ 0]) auto
  qed
qed

lemma prune_ran:
  fixes w :: "'z maint_service_scheme"
  assumes "pruneBackups c w = (r, w')" "ms_files w = Some fs"
  shows "\<exists>k\<le>length (expired_names (mc_keep c) fs).
    ms_files w' = Some (without (take k (expired_names (mc_keep c) fs)) fs) \<and> ms_backup w' = ms_backup w \<and>
    ((\<exists>u. r = Inr u) \<longrightarrow> k = length (expired_names (mc_keep c) fs))"
proof (rule stmt_cases [of "ErrOther ''reading sqlite backup directory''" w])
  fix b assume "stmt (ErrOther ''reading sqlite backup directory'') w = (Inr (), w\<lparr>faults := b\<rparr>)"
  then have "for_each remove_snapshot (expired_names (mc_keep c) fs) (w\<lparr>faults := b\<rparr>) = (r, w')"
    using assms by (simp add: pruneBackups_def andthen_def bindE_def gets_def)
  from removals [OF this, of "[]" fs] show ?thesis using assms(2) by simp
next
  fix b assume "stmt (ErrOther ''reading sqlite backup directory'') w =
      (Inl (ErrOther ''reading sqlite backup directory''), w\<lparr>faults := b\<rparr>)"
  then have "r = Inl (ErrOther ''reading sqlite backup directory'') \<and> w' = w\<lparr>faults := b\<rparr>"
    using assms by (simp add: pruneBackups_def andthen_def bindE_def)
  then show ?thesis using assms(2) by (intro exI [of _ 0]) auto
qed

lemma expired_below:
  assumes "n \<in> set (expired_names keep fs)" "f \<in> set (snapshot_files fs)" "bf_name f \<notin> set (expired_names keep fs)"
  shows "n \<le> bf_name f"
proof -
  let ?ns = "sort (map bf_name (snapshot_files fs))" and ?k = "nat (int (length (snapshot_files fs)) - keep)"
  have e: "expired_names keep fs = take ?k ?ns" by (simp add: expired_names_def Let_def)
  have "sorted (take ?k ?ns @ drop ?k ?ns)" by simp
  then have "\<forall>x\<in>set (take ?k ?ns). \<forall>y\<in>set (drop ?k ?ns). x \<le> y"
    unfolding sorted_append by blast
  moreover have "bf_name f \<in> set (drop ?k ?ns)"
  proof -
    have "bf_name f \<in> set (take ?k ?ns @ drop ?k ?ns)" using assms(2) by simp
    then show ?thesis using assms(3) unfolding e by (metis Un_iff set_append)
  qed
  ultimately show ?thesis using assms(1) unfolding e by blast
qed

lemma expired_count: "0 \<le> keep \<Longrightarrow> length (expired_names keep fs) = length (snapshot_files fs) - nat keep"
  unfolding expired_names_def Let_def length_take length_sort length_map by linarith

lemma snapshots_without:
  assumes "distinct (map bf_name fs)" "0 \<le> keep"
  shows "length (snapshot_files (without (expired_names keep fs) fs)) = min (nat keep) (length (snapshot_files fs))"
proof -
  let ?s = "snapshot_files fs" and ?e = "expired_names keep fs"
  have d: "distinct (map bf_name ?s)" using assms(1) by (simp add: snapshot_files_def distinct_map_filter)
  have sub: "set ?e \<subseteq> set (map bf_name ?s)" by (auto simp: expired_names_def Let_def dest: in_set_takeD)
  have de: "distinct ?e" using d by (simp add: expired_names_def Let_def)
  have "snapshot_files (without ?e fs) = filter (\<lambda>f. bf_name f \<notin> set ?e) ?s"
    by (auto simp: snapshot_files_def without_def intro!: filter_cong)
  then have "length (snapshot_files (without ?e fs)) = length (filter (\<lambda>n. n \<notin> set ?e) (map bf_name ?s))"
    by (simp add: filter_map comp_def)
  also have "\<dots> = card (set (map bf_name ?s) - set ?e)"
    using d by (metis distinct_card distinct_filter set_diff_eq set_filter)
  also have "\<dots> = length ?s - length ?e"
    using sub distinct_card [OF d] distinct_card [OF de] by (simp add: card_Diff_subset del: set_map)
  finally show ?thesis using expired_count [OF assms(2)] by simp
qed

text \<open>A pruning removes nothing but snapshots, the oldest names first, and on a failure stops there; one
  that succeeds leaves as many snapshots as it is told to keep, or all when there are no more, and every
  one that it removed has a name no later than every one that is left.\<close>

theorem prune_keeps_newest:
  fixes w :: "'z maint_service_scheme"
  assumes "pruneBackups c w = (r, w')" "ms_files w = Some fs" "distinct (map bf_name fs)" "0 \<le> mc_keep c"
  shows "\<exists>gone fs'. ms_files w' = Some fs' \<and> fs' = without gone fs \<and>
    set gone \<subseteq> set (map bf_name (snapshot_files fs)) \<and>
    (\<forall>n\<in>set gone. \<forall>f\<in>set (snapshot_files fs). bf_name f \<notin> set (expired_names (mc_keep c) fs) \<longrightarrow> n \<le> bf_name f) \<and>
    ((\<exists>u. r = Inr u) \<longrightarrow> gone = expired_names (mc_keep c) fs \<and>
      length (snapshot_files fs') = min (nat (mc_keep c)) (length (snapshot_files fs)))"
proof -
  let ?e = "expired_names (mc_keep c) fs"
  obtain k where k: "ms_files w' = Some (without (take k ?e) fs)" "(\<exists>u. r = Inr u) \<longrightarrow> k = length ?e"
    using prune_ran [OF assms(1,2)] by blast
  have "set (take k ?e) \<subseteq> set (map bf_name (snapshot_files fs))"
    by (auto simp: expired_names_def Let_def dest!: in_set_takeD)
  moreover have "\<forall>n\<in>set (take k ?e). \<forall>f\<in>set (snapshot_files fs). bf_name f \<notin> set ?e \<longrightarrow> n \<le> bf_name f"
    using expired_below by (blast dest: in_set_takeD)
  ultimately show ?thesis
    using k snapshots_without [OF assms(3,4)] by (intro exI [of _ "take k ?e"]) auto
qed

section \<open>A pruning that fails\<close>

lemma time_sub_mono: "a \<le> b \<Longrightarrow> time_sub a c \<le> time_sub b c"
  by (simp add: time_sub_def min_def max_def)

lemma due_later: "backup_due c now w \<Longrightarrow> now \<le> now' \<Longrightarrow> ms_backup v = ms_backup w \<Longrightarrow> backup_due c now' v"
  using time_sub_mono [of now now' "ms_backup w"] by (auto simp: backup_due_def)

definition new_snapshot :: "maint_config \<Rightarrow> instant \<Rightarrow> 'z maint_service_scheme \<Rightarrow> bfile" where
  "new_snapshot c now w =
    \<lparr>bf_name = base_part (path_abs (mc_cwd c) (path_clean (path_join [mc_dir c, snapshot_name now]))),
     bf_dir = False, bf_data = mc_snapshot c (mt_tables w), bf_mtime = now\<rparr>"

text \<open>When the snapshot of a due pass is written and the removal of the oldest one fails, the pass does not
  record that it took a snapshot: the next pass, minutes later, is due again and writes another one.  As long as
  that file cannot be removed, each pass leaves one more snapshot and prunes none.\<close>

theorem snapshots_pile_up:
  fixes w :: "'z maint_service_scheme"
  assumes "backup_due c now w" "faults w = replicate 6 False @ True # fs"
    and "path_dir (path_abs (mc_cwd c) (path_clean (path_join [mc_dir c, snapshot_name now]))) =
      path_abs (mc_cwd c) (path_clean (mc_dir c))"
    and "path_abs (mc_cwd c) (path_clean (path_join [mc_dir c, snapshot_name now])) \<noteq> []"
    and "\<not> list_ex (named (bf_name (new_snapshot c now w))) (dir_entries w)"
    and "expired_names (mc_keep c) (dir_entries w @ [new_snapshot c now w]) \<noteq> []"
  shows "\<exists>w'. snapshot_step c now w = (Inr (), w') \<and> dir_entries w' = dir_entries w @ [new_snapshot c now w] \<and>
    ms_backup w' = ms_backup w \<and> (\<forall>now'. now \<le> now' \<longrightarrow> backup_due c now' w')"
proof -
  let ?fs = "dir_entries w @ [new_snapshot c now w]"
  have f: "faults w = False # False # False # False # False # False # True # fs"
    using assms(2) by (simp add: numeral_eq_Suc)
  let ?u = "w\<lparr>ms_files := Some ?fs, faults := False # True # fs\<rparr>"
  have b: "maint_Backup c now (path_join [mc_dir c, snapshot_name now]) w = (Inr (), ?u)"
    using assms(3,4,5) f
    by (simp add: maint_Backup_def db_Backup_def run_defs dir_entries_def new_snapshot_def Let_def)
  obtain n ns where e: "expired_names (mc_keep c) ?fs = n # ns" using assms(6) by (cases "expired_names (mc_keep c) ?fs") auto
  have p: "pruneBackups c ?u = (Inl (ErrOther ''removing expired sqlite backup''), ?u\<lparr>faults := fs\<rparr>)"
    by (simp add: pruneBackups_def run_defs e remove_snapshot_def)
  let ?v = "?u\<lparr>faults := fs, ms_error := Some (ErrOther ''removing expired sqlite backup'')\<rparr>"
  have run: "snapshot_step c now w = (Inr (), ?v)"
    by (simp add: snapshot_step_def bindE_def attempt_def b p note_error_def modify_def)
  have "backup_due c now' ?v" if "now \<le> now'" for now'
    using due_later [OF assms(1) that, of ?v] by simp
  then show ?thesis using run by (simp add: dir_entries_def)
qed

section \<open>Samples\<close>

definition old_snapshot :: bfile where
  "old_snapshot = \<lparr>bf_name = ''touchgrass-19690101T000000Z.db'', bf_dir = False, bf_data = [], bf_mtime = 0\<rparr>"

definition sample_service :: "bool list \<Rightarrow> bfile list \<Rightarrow> maint_service" where
  "sample_service fs ds =
    \<lparr>faults = fs, mt_tables = (\<lambda>_. []), ms_files = Some ds, ms_run = 0, ms_success = 0, ms_error = None,
     ms_result = None, ms_backup = zero_time\<rparr>"

definition no_retention :: maint_policy where
  "no_retention =
    \<lparr>mp_now = 0, mp_batch = 0, mp_max = 0, mp_log_max = 0, mp_perf_max = 0, mp_issue_max
     = 0, mp_admin_max = 0, mp_metrics = 0, mp_notifications = 0, mp_deploys = 0, mp_errors =
     0, mp_logs = 0, mp_sdk_logs = 0, mp_perf = 0, mp_perf_hourly = 0, mp_observations = 0,
     mp_events = 0, mp_findings = 0\<rparr>"

definition sample_config :: maint_config where
  "sample_config =
    \<lparr>mc_policy = no_retention, mc_interval = 1, mc_backup_interval = 1, mc_dir = ''/data'', mc_keep = 1, mc_cwd = ''/'',
     mc_snapshot = (\<lambda>_. [])\<rparr>"

lemma sample_name: "snapshot_name 0 = ''touchgrass-19700101T000000Z.db''"
  by code_simp

lemma sample_destination:
  "path_abs ''/'' (path_clean (path_join [''/data'', ''touchgrass-19700101T000000Z.db''])) =
    ''/data/touchgrass-19700101T000000Z.db''"
  "path_dir ''/data/touchgrass-19700101T000000Z.db'' = ''/data''" "path_abs ''/'' (path_clean ''/data'') = ''/data''"
  "base_part ''/data/touchgrass-19700101T000000Z.db'' = ''touchgrass-19700101T000000Z.db''"
  by code_simp+

lemma sample_stamps:
  "snapshot_time ''touchgrass-19690101T000000Z.db'' \<noteq> None" "snapshot_time ''touchgrass-19700101T000000Z.db'' \<noteq> None"
  by code_simp+

lemma sample_new: "new_snapshot sample_config 0 (sample_service fs ds) =
    \<lparr>bf_name = ''touchgrass-19700101T000000Z.db'', bf_dir = False, bf_data = [], bf_mtime = 0\<rparr>"
  using sample_destination by (simp add: new_snapshot_def sample_config_def sample_name)

lemma snapshots_pile_up_witness:
  "\<exists>w'. snapshot_step sample_config 0 (sample_service (replicate 6 False @ [True]) [old_snapshot]) = (Inr (), w') \<and>
    length (dir_entries w') = 2 \<and> backup_due sample_config 300 w'"
proof -
  let ?w = "sample_service (replicate 6 False @ [True]) [old_snapshot]" and ?c = "sample_config"
  have due: "backup_due ?c 0 ?w" by (simp add: backup_due_def sample_service_def is_zero_time_def)
  have f: "faults ?w = replicate 6 False @ True # []" by (simp add: sample_service_def)
  have paths: "path_dir (path_abs (mc_cwd ?c) (path_clean (path_join [mc_dir ?c, snapshot_name 0]))) =
      path_abs (mc_cwd ?c) (path_clean (mc_dir ?c))"
    "path_abs (mc_cwd ?c) (path_clean (path_join [mc_dir ?c, snapshot_name 0])) \<noteq> []"
    using sample_destination by (simp_all add: sample_config_def sample_name)
  have d: "dir_entries ?w = [old_snapshot]" by (simp add: dir_entries_def sample_service_def)
  have new: "\<not> list_ex (named (bf_name (new_snapshot ?c 0 ?w))) (dir_entries ?w)"
    unfolding sample_new d by (simp add: named_def old_snapshot_def)
  have "length (expired_names (mc_keep ?c) (dir_entries ?w @ [new_snapshot ?c 0 ?w])) = 1"
    unfolding sample_new d using sample_stamps
    by (simp add: expired_count snapshot_files_def old_snapshot_def sample_config_def)
  then have "expired_names (mc_keep ?c) (dir_entries ?w @ [new_snapshot ?c 0 ?w]) \<noteq> []" by auto
  from snapshots_pile_up [OF due f paths new this] show ?thesis by (fastforce simp: d)
qed

lemma prune_keeps_newest_witness:
  "\<exists>r w' fs'. pruneBackups sample_config (sample_service [] [old_snapshot]) = (r, w') \<and> ms_files w' = Some fs' \<and>
    length (snapshot_files fs') = 1"
proof -
  let ?w = "sample_service [] [old_snapshot]"
  obtain r w' where run: "pruneBackups sample_config ?w = (r, w')" by fastforce
  have e: "expired_names 1 [old_snapshot] = []" by (simp add: expired_names_def Let_def snapshot_files_def)
  then have "r = Inr ()"
    using run by (simp add: pruneBackups_def run_defs sample_service_def sample_config_def)
  then show ?thesis
    using prune_keeps_newest [OF run, of "[old_snapshot]"] run sample_stamps
    by (simp add: sample_service_def sample_config_def snapshot_files_def old_snapshot_def)
qed

end
