(* ===== verification/Docker_Rows.thy ===== *)
theory Docker_Rows
  imports Security_Flow Go_Paths
begin

text \<open>
  What the client makes of the answers of the Docker daemon (\<open>internal/docker/processes.go\<close>,
  \<open>internal/docker/diff.go\<close>): process rows without their arguments, layer changes with
  clean absolute paths, both bounded.  The answers of the daemon themselves are parameters.
\<close>

section \<open>Control characters and fields\<close>

text \<open>The control runes are the bytes below 32, 127, and the two-byte runes from 128 to 159.\<close>

fun containsUnsafeControl :: "gostring \<Rightarrow> bool" where
  "containsUnsafeControl [] = False"
| "containsUnsafeControl (c # cs) =
    ((code c < 32 \<and> code c \<noteq> 9) \<or> code c = 127 \<or>
     (code c = 194 \<and> cs \<noteq> [] \<and> byte_in 128 159 (hd cs)) \<or> containsUnsafeControl cs)"

fun until_space :: "gostring \<Rightarrow> gostring" where
  "until_space [] = []"
| "until_space (c # cs) = (if strip_any space_encodings (c # cs) \<noteq> None then [] else c # until_space cs)"

text \<open>The first of \<open>strings.Fields\<close>, empty when there is none.\<close>

definition first_field :: "gostring \<Rightarrow> gostring" where
  "first_field s = until_space (trim_any space_encodings s)"

section \<open>Processes\<close>

definition maxProcessRows :: nat where "maxProcessRows = 256"

record process =
  pr_pid :: int
  pr_parent :: int
  pr_user :: gostring
  pr_command :: gostring

record process_snapshot =
  ps_processes :: "process list"
  ps_complete :: bool

record top_response =
  tr_titles :: "gostring list"
  tr_rows :: "gostring list list"

text \<open>The last column with a title.\<close>

definition column :: "(gostring \<Rightarrow> gostring) \<Rightarrow> gostring list \<Rightarrow> gostring \<Rightarrow> nat option" where
  "column uni titles name =
    (case filter (\<lambda>i. folded uni (titles ! i) = name) [0 ..< length titles] of
       [] \<Rightarrow> None | is \<Rightarrow> Some (last is))"

definition command_column :: "(gostring \<Rightarrow> gostring) \<Rightarrow> gostring list \<Rightarrow> nat option" where
  "command_column uni titles =
    (case column uni titles ''COMMAND'' of
       Some i \<Rightarrow> Some i
     | None \<Rightarrow> (case column uni titles ''CMD'' of Some i \<Rightarrow> Some i | None \<Rightarrow> column uni titles ''ARGS''))"

record columns =
  co_pid :: nat
  co_parent :: nat
  co_user :: nat
  co_command :: nat

definition columns_of :: "(gostring \<Rightarrow> gostring) \<Rightarrow> gostring list \<Rightarrow> columns option" where
  "columns_of uni titles =
    Option.bind (column uni titles ''PID'') (\<lambda>p.
    Option.bind (column uni titles ''PPID'') (\<lambda>q.
    Option.bind (column uni titles ''USER'') (\<lambda>u.
    Option.bind (command_column uni titles) (\<lambda>c.
      Some \<lparr>co_pid = p, co_parent = q, co_user = u, co_command = c\<rparr>))))"

definition process_row :: "columns \<Rightarrow> gostring list \<Rightarrow> err + process" where
  "process_row k row =
    (if length row \<le> max (max (co_pid k) (co_parent k)) (max (co_user k) (co_command k))
     then Inl (ErrOther ''malformed columns'')
     else if list_ex containsUnsafeControl [row ! co_pid k, row ! co_parent k, row ! co_user k, row ! co_command k]
     then Inl (ErrOther ''control character rejected'')
     else
       (case parse_int (trim_space (row ! co_pid k)) of
          None \<Rightarrow> Inl (ErrOther ''invalid pid'')
        | Some pid \<Rightarrow>
           if pid \<le> 0 then Inl (ErrOther ''invalid pid'')
           else
             (case parse_int (trim_space (row ! co_parent k)) of
                None \<Rightarrow> Inl (ErrOther ''invalid parent pid'')
              | Some parent \<Rightarrow>
                 if parent < 0 then Inl (ErrOther ''invalid parent pid'')
                 else if first_field (row ! co_command k) = [] then Inl (ErrOther ''command is required'')
                 else Inr \<lparr>pr_pid = pid, pr_parent = parent,
                           pr_user = take 128 (trim_space (row ! co_user k)),
                           pr_command = take 256 (first_field (row ! co_command k))\<rparr>)))"

fun collect_rows :: "('a \<Rightarrow> err + 'b) \<Rightarrow> 'a list \<Rightarrow> err + 'b list" where
  "collect_rows f [] = Inr []"
| "collect_rows f (x # xs) =
    (case f x of
       Inl e \<Rightarrow> Inl e
     | Inr y \<Rightarrow> (case collect_rows f xs of Inl e \<Rightarrow> Inl e | Inr ys \<Rightarrow> Inr (y # ys)))"

definition NormalizeProcesses ::
  "(gostring \<Rightarrow> gostring) \<Rightarrow> top_response \<Rightarrow> nat \<Rightarrow> err + process list" where
  "NormalizeProcesses uni r limit =
    (if limit = 0 then Inl (ErrOther ''positive row limit is required'')
     else
       (case columns_of uni (tr_titles r) of
          None \<Rightarrow> Inl (ErrOther ''required headers are missing'')
        | Some k \<Rightarrow> collect_rows (process_row k) (take limit (tr_rows r))))"

definition docker_Processes ::
  "(gostring \<Rightarrow> gostring) \<Rightarrow> err + top_response \<Rightarrow> err + process_snapshot" where
  "docker_Processes uni r =
    (case r of
       Inl e \<Rightarrow> Inl e
     | Inr t \<Rightarrow>
        (case NormalizeProcesses uni t maxProcessRows of
           Inl e \<Rightarrow> Inl e
         | Inr ps \<Rightarrow> Inr \<lparr>ps_processes = ps, ps_complete = (length (tr_rows t) \<le> maxProcessRows)\<rparr>))"

section \<open>Layer changes\<close>

definition maxLayerChanges :: nat where "maxLayerChanges = 512"
definition maxLayerPath :: nat where "maxLayerPath = 256"

datatype layer_kind = LayerChangeAdded | LayerChangeModified | LayerChangeDeleted

datatype raw_kind = ChangeModify | ChangeAdd | ChangeDelete | ChangeOther

record layer_change =
  lc_kind :: layer_kind
  lc_path :: gostring

record layer_snapshot =
  ls_changes :: "layer_change list"
  ls_complete :: bool

fun layer_kind_of :: "raw_kind \<Rightarrow> layer_kind option" where
  "layer_kind_of ChangeAdd = Some LayerChangeAdded"
| "layer_kind_of ChangeModify = Some LayerChangeModified"
| "layer_kind_of ChangeDelete = Some LayerChangeDeleted"
| "layer_kind_of ChangeOther = None"

definition layer_row :: "nat \<Rightarrow> raw_kind \<times> gostring \<Rightarrow> err + layer_change" where
  "layer_row path_limit x =
    (let cleaned = path_clean (trim_space (snd x)) in
     if containsUnsafeControl (snd x) then Inl (ErrOther ''control character rejected'')
     else if \<not> has_prefix cleaned ''/'' then Inl (ErrOther ''absolute path required'')
     else (case layer_kind_of (fst x) of
         None \<Rightarrow> Inl (ErrOther ''unknown kind'')
       | Some k \<Rightarrow> Inr \<lparr>lc_kind = k, lc_path = take path_limit cleaned\<rparr>))"

definition normalizeLayerChanges ::
  "(raw_kind \<times> gostring) list \<Rightarrow> nat \<Rightarrow> nat \<Rightarrow> err + layer_change list" where
  "normalizeLayerChanges vs row_limit path_limit =
    (if row_limit = 0 \<or> path_limit = 0 then Inl (ErrOther ''positive bounds are required'')
     else collect_rows (layer_row path_limit) (take row_limit vs))"

definition docker_Diff :: "err + (raw_kind \<times> gostring) list \<Rightarrow> err + layer_snapshot" where
  "docker_Diff r =
    (case r of
       Inl e \<Rightarrow> Inl e
     | Inr vs \<Rightarrow>
        (case normalizeLayerChanges vs maxLayerChanges maxLayerPath of
           Inl e \<Rightarrow> Inl e
         | Inr cs \<Rightarrow> Inr \<lparr>ls_changes = cs, ls_complete = (length vs \<le> maxLayerChanges)\<rparr>))"

section \<open>Bounds\<close>

lemma collect_rows_length: "collect_rows f xs = Inr ys \<Longrightarrow> length ys = length xs"
  by (induction xs arbitrary: ys) (auto split: sum.splits)

lemma collect_rows_set: "collect_rows f xs = Inr ys \<Longrightarrow> y \<in> set ys \<Longrightarrow> \<exists>x\<in>set xs. f x = Inr y"
  by (induction xs arbitrary: ys) (auto split: sum.splits)

end
