(* ===== verification/Scanners.thy ===== *)
theory Scanners
  imports Docker_Rows
begin

text \<open>
  The scanners of running containers (\<open>internal/service/security_process.go\<close>,
  \<open>internal/service/security_diff.go\<close>): what the processes and the changes of the writable layer say, the
  correlation of the two, and a scan.  The workers scan containers side by side; as no two containers
  share a finding the model takes them in the order of the listing.  What the daemon answers for a container is
  a parameter, and so is the answer that the client backs off; one clock reading serves a scan.
\<close>

definition daemon_backoff :: err where "daemon_backoff = ErrOther ''docker daemon backoff''"

definition truth :: "bool \<Rightarrow> gostring" where
  "truth b = (if b then ''true'' else ''false'')"

section \<open>Process rules\<close>

definition isHighRiskExecutable :: "gostring \<Rightarrow> bool" where
  "isHighRiskExecutable c \<longleftrightarrow>
    has_prefix c ''/tmp/'' \<or> has_prefix c ''/var/tmp/'' \<or> has_prefix c ''/dev/shm/'' \<or>
    contains c ''/.local/bin/''"

definition isRootProcess :: "gostring \<Rightarrow> bool" where
  "isRootProcess u \<longleftrightarrow> u = ''0'' \<or> is_root_name u"

definition processObservation ::
  "gostring \<Rightarrow> gostring \<Rightarrow> gostring \<Rightarrow> bool \<Rightarrow> bool \<Rightarrow> (gostring \<times> gostring) list \<Rightarrow> observation" where
  "processObservation cid rule severity detected coverage evidence =
    \<lparr>ob_container = cid, ob_rule = rule, ob_category = ''process'', ob_severity = severity,
     ob_confidence = ''high'', ob_detected = detected, ob_complete = coverage,
     ob_evidence = evidence, ob_at = zero_time\<rparr>"

definition kernel_like :: "process \<Rightarrow> bool" where
  "kernel_like p \<longleftrightarrow> has_prefix (pr_command p) ''['' \<and> has_suffix (pr_command p) '']''"

definition risky :: "policy \<Rightarrow> process \<Rightarrow> bool" where
  "risky p x \<longleftrightarrow> isHighRiskExecutable (pr_command x) \<and> pr_command x \<notin> set (po_executables p)"

definition high_risk :: "policy \<Rightarrow> process list \<Rightarrow> gostring" where
  "high_risk p xs = (case first_where (risky p) xs of None \<Rightarrow> [] | Some x \<Rightarrow> pr_command x)"

text \<open>The process with a number: the last one that has it.\<close>

definition process_by_pid :: "int \<Rightarrow> process list \<Rightarrow> process option" where
  "process_by_pid i xs = first_where (\<lambda>x. pr_pid x = i) (rev xs)"

definition parent_mismatch :: "process list \<Rightarrow> process \<Rightarrow> bool" where
  "parent_mismatch xs x \<longleftrightarrow>
    (case process_by_pid (pr_parent x) xs of
       None \<Rightarrow> False
     | Some q \<Rightarrow> isRootProcess (pr_user x) \<and> \<not> isRootProcess (pr_user q))"

definition EvaluateProcesses ::
  "gostring \<Rightarrow> process_snapshot \<Rightarrow> policy \<Rightarrow> int \<Rightarrow> bool \<Rightarrow> observation list" where
  "EvaluateProcesses cid s p base sustained =
    (let xs = ps_processes s; c = ps_complete s;
         kernel = list_ex kernel_like xs; risk = high_risk p xs; mismatch = list_ex (parent_mismatch xs) xs
     in
     [processObservation cid ''process.kernel_like'' ''critical'' kernel c [(''detected'', truth kernel)],
      processObservation cid ''process.high_risk_path'' ''high'' (risk \<noteq> []) c [(''executable'', risk)],
      processObservation cid ''process.parent_child_mismatch'' ''high'' mismatch c [(''detected'', truth mismatch)],
      processObservation cid ''process.pid_spike'' ''high'' sustained c
        [(''process_count'', itoa (int (length xs))), (''baseline_count'', itoa base)]])"

section \<open>The number of processes\<close>

record spike_state =
  sp_baselines :: "gostring \<rightharpoonup> int"
  sp_spikes :: "gostring \<rightharpoonup> int"

definition spike_count :: "gostring \<Rightarrow> spike_state \<Rightarrow> int" where
  "spike_count cid s = (case sp_spikes s cid of None \<Rightarrow> 0 | Some n \<Rightarrow> n)"

definition is_spike :: "int \<Rightarrow> int \<Rightarrow> bool" where
  "is_spike base n \<longleftrightarrow> 0 < base \<and> max (base * 3) (base + 20) \<le> n"

definition observeCount :: "gostring \<Rightarrow> process_snapshot \<Rightarrow> spike_state \<Rightarrow> (int \<times> bool) \<times> spike_state" where
  "observeCount cid snap s =
    (let n = int (length (ps_processes snap)); base = (case sp_baselines s cid of None \<Rightarrow> 0 | Some b \<Rightarrow> b) in
     if \<not> ps_complete snap then ((base, False), s)
     else if sp_baselines s cid = None then ((n, False), s\<lparr>sp_baselines := (sp_baselines s)(cid \<mapsto> n)\<rparr>)
     else
       (let k = (if is_spike base n then spike_count cid s + 1 else 0) in
        ((base, 2 \<le> k), s\<lparr>sp_spikes := (sp_spikes s)(cid \<mapsto> k)\<rparr>)))"

section \<open>Layer rules\<close>

definition pathWithin :: "gostring \<Rightarrow> gostring \<Rightarrow> bool" where
  "pathWithin value prefix =
    (let p = trim_suffix prefix ''/'' in value = p \<or> has_prefix value (p @ ''/''))"

definition pathAllowed :: "gostring \<Rightarrow> gostring list \<Rightarrow> bool" where
  "pathAllowed value allowed = list_ex (pathWithin value) allowed"

definition executableLocation :: "gostring \<Rightarrow> bool" where
  "executableLocation v \<longleftrightarrow>
    contains v ''/.local/bin/'' \<or>
    list_ex (pathWithin v)
      [''/tmp'', ''/var/tmp'', ''/dev/shm'', ''/bin'', ''/sbin'', ''/usr/bin'', ''/usr/sbin'', ''/usr/local/bin'']"

definition runtimeSensitivePath :: "gostring \<Rightarrow> bool" where
  "runtimeSensitivePath v \<longleftrightarrow>
    list_ex (pathWithin v)
      [''/etc'', ''/bin'', ''/sbin'', ''/usr/bin'', ''/usr/sbin'', ''/usr/local/bin'', ''/opt'', ''/app'']"

definition first_path :: "policy \<Rightarrow> (layer_change \<Rightarrow> bool) \<Rightarrow> layer_change list \<Rightarrow> gostring" where
  "first_path p P cs =
    (case first_where (\<lambda>c. \<not> pathAllowed (lc_path c) (po_writable p) \<and> P c) cs of
       None \<Rightarrow> [] | Some c \<Rightarrow> lc_path c)"

definition user_local :: "layer_change \<Rightarrow> bool" where
  "user_local c \<longleftrightarrow>
    lc_kind c \<in> {LayerChangeAdded, LayerChangeModified} \<and>
    (pathWithin (lc_path c) ''/usr/local/bin'' \<or> contains (lc_path c) ''/.local/bin/'')"

definition added_executable :: "layer_change \<Rightarrow> bool" where
  "added_executable c \<longleftrightarrow> lc_kind c = LayerChangeAdded \<and> executableLocation (lc_path c)"

definition runtime_change :: "layer_change \<Rightarrow> bool" where
  "runtime_change c \<longleftrightarrow>
    lc_kind c \<in> {LayerChangeModified, LayerChangeDeleted} \<and> runtimeSensitivePath (lc_path c)"

definition kind_count :: "layer_kind \<Rightarrow> layer_change list \<Rightarrow> gostring" where
  "kind_count k cs = itoa (int (length (filter (\<lambda>c. lc_kind c = k) cs)))"

definition diffObservation ::
  "gostring \<Rightarrow> gostring \<Rightarrow> gostring \<Rightarrow> bool \<Rightarrow> bool \<Rightarrow> (gostring \<times> gostring) list \<Rightarrow> observation" where
  "diffObservation cid rule severity detected coverage evidence =
    \<lparr>ob_container = cid, ob_rule = rule, ob_category = ''drift'', ob_severity = severity,
     ob_confidence = ''high'', ob_detected = detected, ob_complete = coverage,
     ob_evidence = evidence, ob_at = zero_time\<rparr>"

definition EvaluateLayerChanges ::
  "gostring \<Rightarrow> layer_change list \<Rightarrow> policy \<Rightarrow> bool \<Rightarrow> observation list" where
  "EvaluateLayerChanges cid cs p coverage =
    (let counts = [(''added_count'', kind_count LayerChangeAdded cs),
                   (''modified_count'', kind_count LayerChangeModified cs),
                   (''deleted_count'', kind_count LayerChangeDeleted cs)];
         u = first_path p user_local cs; a = first_path p added_executable cs; r = first_path p runtime_change cs
     in
     [diffObservation cid ''diff.user_local_executable'' ''high'' (u \<noteq> []) coverage (counts @ [(''path'', u)]),
      diffObservation cid ''diff.added_executable'' ''high'' (a \<noteq> []) coverage (counts @ [(''path'', a)]),
      diffObservation cid ''diff.runtime_modification'' ''high'' (r \<noteq> []) coverage (counts @ [(''path'', r)])])"

definition evidence_value :: "(gostring \<times> gostring) list \<Rightarrow> gostring \<Rightarrow> gostring" where
  "evidence_value ev k = (case map_of ev k of None \<Rightarrow> [] | Some v \<Rightarrow> v)"

definition evidenceForRule :: "observation list \<Rightarrow> gostring \<Rightarrow> gostring \<Rightarrow> gostring \<times> bool" where
  "evidenceForRule vs rule k =
    (case first_where (\<lambda>v. ob_rule v = rule) vs of
       None \<Rightarrow> ([], False)
     | Some v \<Rightarrow> (if ob_detected v then evidence_value (ob_evidence v) k else [], ob_complete v))"

definition CorrelateProcessAndDiff ::
  "gostring \<Rightarrow> observation list \<Rightarrow> observation list \<Rightarrow> observation list" where
  "CorrelateProcessAndDiff cid procs drift =
    (let (running, pc) = evidenceForRule procs ''process.high_risk_path'' ''executable'';
         (added, dc) = evidenceForRule drift ''diff.added_executable'' ''path'';
         detected = (running \<noteq> [] \<and> running = added)
     in [diffObservation cid ''correlation.added_executable_running'' ''critical'' detected (pc \<and> dc)
          (if detected
           then [(''path'', running), (''contributing_rules'', ''diff.added_executable,process.high_risk_path'')]
           else [])])"

section \<open>Scans\<close>

record scan_world = sec_world +
  sw_spikes :: spike_state

record scan_env =
  se_upper :: "gostring \<Rightarrow> gostring"
  se_top :: "gostring \<Rightarrow> err + top_response"
  se_diff :: "gostring \<Rightarrow> err + (raw_kind \<times> gostring) list"
  se_has_top :: bool
  se_cfg :: sec_config
  se_clock :: sec_clock
  se_interval :: duration

definition no_processes :: process_snapshot where
  "no_processes = \<lparr>ps_processes = [], ps_complete = False\<rparr>"

definition evaluate_scan ::
  "scan_env \<Rightarrow> instance_row \<Rightarrow> observation list \<Rightarrow> ('z sec_world_scheme, err, unit) prog" where
  "evaluate_scan env i obs =
    for_each (\<lambda>v. map_error (\<lambda>_. ErrOther ''evaluating container security'')
      (andthen (flow_Evaluate (se_cfg env) (se_clock env)
         \<lparr>se_obs = v\<lparr>ob_at := ck_now (se_clock env)\<rparr>, se_baseline = ci_config_fp i, se_service = ci_service i\<rparr>)
       (ret ()))) obs"

definition observe_count ::
  "gostring \<Rightarrow> process_snapshot \<Rightarrow> ('z scan_world_scheme, err, int \<times> bool) prog" where
  "observe_count cid snap w =
    (case observeCount cid snap (sw_spikes w) of (r, s) \<Rightarrow> (Inr r, w\<lparr>sw_spikes := s\<rparr>))"

definition process_scanContainer ::
  "scan_env \<Rightarrow> instance_row \<Rightarrow> ('z scan_world_scheme, err, bool) prog" where
  "process_scanContainer env i =
    bindE (PolicyFor (ci_service i) (ci_id i)) (\<lambda>p.
     (let top = docker_Processes (se_upper env) (se_top env (ci_id i)) in
      if top = Inl daemon_backoff then throw daemon_backoff
      else
        (let snap = (case top of Inl _ \<Rightarrow> no_processes | Inr s \<Rightarrow> s) in
         bindE (observe_count (ci_id i) snap) (\<lambda>(base, sustained).
         andthen (evaluate_scan env i (EvaluateProcesses (ci_id i) snap p base sustained))
          (ret (ps_complete snap))))))"

definition layer_scanContainer ::
  "scan_env \<Rightarrow> instance_row \<Rightarrow> ('z scan_world_scheme, err, bool) prog" where
  "layer_scanContainer env i =
    bindE (PolicyFor (ci_service i) (ci_id i)) (\<lambda>p.
     (let d = docker_Diff (se_diff env (ci_id i)); top = docker_Processes (se_upper env) (se_top env (ci_id i)) in
      if d = Inl daemon_backoff then throw daemon_backoff
      else
        (let full = (case d of Inl _ \<Rightarrow> False | Inr s \<Rightarrow> ls_complete s);
             changes = (case d of Inl _ \<Rightarrow> [] | Inr s \<Rightarrow> ls_changes s);
             drift = EvaluateLayerChanges (ci_id i) changes p full
         in
         if se_has_top env \<and> top = Inl daemon_backoff then throw daemon_backoff
         else
           (let snap = (case top of Inl _ \<Rightarrow> no_processes | Inr s \<Rightarrow> s);
                procs = (if se_has_top env
                  then EvaluateProcesses (ci_id i) snap p (int (length (ps_processes snap))) False else [])
            in
            andthen (evaluate_scan env i (drift @ CorrelateProcessAndDiff (ci_id i) procs drift))
             (ret full)))))"

definition scan_result :: "(err + bool) list \<Rightarrow> err + bool" where
  "scan_result rs =
    (case first_where (\<lambda>r. \<exists>e. r = Inl e) rs of
       Some (Inl e) \<Rightarrow> Inl e
     | _ \<Rightarrow> Inr (list_all (\<lambda>r. r = Inr True) rs))"

text \<open>Every container is scanned; the first error is reported, else whether all were complete.\<close>

definition scan_all ::
  "scan_env \<Rightarrow> gostring \<Rightarrow> gostring \<Rightarrow> (scan_env \<Rightarrow> instance_row \<Rightarrow> ('z scan_world_scheme, err, bool) prog) \<Rightarrow>
    ('z scan_world_scheme, err, unit) prog" where
  "scan_all env source unavailable scan =
    bindE (map_error (\<lambda>_. ErrOther ''reading security activation'') security_Activation) (\<lambda>(moment, by).
     if moment = None then ret ()
     else
       bindE (map_error (\<lambda>_. ErrOther ''listing running containers'') ListAllRunning) (\<lambda>is.
       bindE (map_each (\<lambda>i. attempt (scan env i)) (filter (\<lambda>i. ci_state i = ''running'' \<and> ci_present i) is)) (\<lambda>rs.
        case scan_result rs of
          Inl e \<Rightarrow>
            andthen (attempt (RecordCollector (se_cfg env) (se_clock env) source False
              (if e = daemon_backoff then ''docker_daemon_backoff'' else ''evaluation_failed'') (se_interval env)))
             (throw e)
        | Inr full \<Rightarrow>
            RecordCollector (se_cfg env) (se_clock env) source full
             (if full then [] else unavailable) (se_interval env))))"

definition process_Scan :: "scan_env \<Rightarrow> ('z scan_world_scheme, err, unit) prog" where
  "process_Scan env = scan_all env ''security_process'' ''docker_top_unavailable'' process_scanContainer"

definition layer_Scan :: "scan_env \<Rightarrow> ('z scan_world_scheme, err, unit) prog" where
  "layer_Scan env = scan_all env ''security_diff'' ''docker_diff_unavailable'' layer_scanContainer"

end
