(* ===== verification/Scanner_Laws.thy ===== *)
theory Scanner_Laws
  imports Scanners
begin

text \<open>
  What the scanners' rules decide: when processes and layer changes are correlated, and when
  a growth of the number of processes counts as sustained.
\<close>

section \<open>Correlation\<close>

definition correlated :: "policy \<Rightarrow> process list \<Rightarrow> layer_change list \<Rightarrow> bool" where
  "correlated p xs cs \<longleftrightarrow>
    (\<forall>b sustained full coverage.
      list_ex ob_detected
       (CorrelateProcessAndDiff [] (EvaluateProcesses [] \<lparr>ps_processes = xs, ps_complete = full\<rparr> p b sustained)
         (EvaluateLayerChanges [] cs p coverage)))"

lemma process_evidence:
  "evidenceForRule (EvaluateProcesses cid s p b sustained) ''process.high_risk_path'' ''executable'' =
    (high_risk p (ps_processes s), ps_complete s)"
  by (simp add: EvaluateProcesses_def evidenceForRule_def processObservation_def Let_def evidence_value_def)

lemma layer_evidence:
  "evidenceForRule (EvaluateLayerChanges cid cs p coverage) ''diff.added_executable'' ''path'' =
    (first_path p added_executable cs, coverage)"
  by (simp add: EvaluateLayerChanges_def evidenceForRule_def diffObservation_def Let_def evidence_value_def)

lemma correlate_value:
  "list_ex ob_detected
    (CorrelateProcessAndDiff cid (EvaluateProcesses cid s p b sustained) (EvaluateLayerChanges cid cs p coverage)) \<longleftrightarrow>
    high_risk p (ps_processes s) \<noteq> [] \<and> high_risk p (ps_processes s) = first_path p added_executable cs"
  by (simp add: CorrelateProcessAndDiff_def process_evidence layer_evidence diffObservation_def Let_def)

lemma high_risk_from:
  "high_risk p xs \<noteq> [] \<Longrightarrow> \<exists>x\<in>set xs. risky p x \<and> pr_command x = high_risk p xs"
  by (auto simp: high_risk_def dest!: first_where_SomeD split: option.splits)

lemma first_path_from:
  "first_path p P cs \<noteq> [] \<Longrightarrow>
    \<exists>c\<in>set cs. \<not> pathAllowed (lc_path c) (po_writable p) \<and> P c \<and> lc_path c = first_path p P cs"
  by (auto simp: first_path_def dest!: first_where_SomeD split: option.splits)

text \<open>An added executable is running: what the rule is there to report.\<close>

definition added_and_running :: "policy \<Rightarrow> process list \<Rightarrow> layer_change list \<Rightarrow> bool" where
  "added_and_running p xs cs \<longleftrightarrow>
    list_ex (\<lambda>x. risky p x \<and>
      list_ex (\<lambda>c. \<not> pathAllowed (lc_path c) (po_writable p) \<and> added_executable c \<and> lc_path c = pr_command x) cs) xs"

definition sample_process :: "gostring \<Rightarrow> process" where
  "sample_process c = \<lparr>pr_pid = 7, pr_parent = 1, pr_user = ''app'', pr_command = c\<rparr>"

definition sample_added :: "gostring \<Rightarrow> layer_change" where
  "sample_added p = \<lparr>lc_kind = LayerChangeAdded, lc_path = p\<rparr>"

lemma sample_missed:
  "added_and_running no_policy [sample_process ''/tmp/x''] [sample_added ''/bin/a'', sample_added ''/tmp/x'']"
  "high_risk no_policy [sample_process ''/tmp/x''] = ''/tmp/x''"
  "first_path no_policy added_executable [sample_added ''/bin/a'', sample_added ''/tmp/x''] = ''/bin/a''"
  by code_simp+

text \<open>The critical rule never fires without reason: a process runs whose executable the layer
  shows as added.  But it compares only the first risky process with the first added executable,
  so it stays silent about an added and running executable when any other executable was added at a path that
  comes before it in the listing.\<close>

theorem correlation_sound_but_blind:
  "(\<forall>p xs cs. correlated p xs cs \<longrightarrow> added_and_running p xs cs) \<and>
   (\<exists>p xs cs. added_and_running p xs cs \<and> \<not> correlated p xs cs)"
proof (intro conjI allI impI)
  fix p xs cs assume "correlated p xs cs"
  then have h: "high_risk p xs \<noteq> []" "high_risk p xs = first_path p added_executable cs"
    unfolding correlated_def correlate_value process_snapshot.select_convs by (blast, blast)
  obtain x where "x \<in> set xs" "risky p x" "pr_command x = high_risk p xs" using high_risk_from [OF h(1)] by blast
  moreover obtain c where "c \<in> set cs" "\<not> pathAllowed (lc_path c) (po_writable p)" "added_executable c"
    "lc_path c = high_risk p xs"
    using first_path_from [of p added_executable cs] h by auto
  ultimately show "added_and_running p xs cs" unfolding added_and_running_def list_ex_iff by metis
next
  have "\<not> correlated no_policy [sample_process ''/tmp/x''] [sample_added ''/bin/a'', sample_added ''/tmp/x'']"
    unfolding correlated_def correlate_value by (simp add: sample_missed)
  then show "\<exists>p xs cs. added_and_running p xs cs \<and> \<not> correlated p xs cs" using sample_missed(1) by blast
qed

lemma sample_correlated:
  "correlated no_policy [sample_process ''/tmp/x''] [sample_added ''/tmp/x'']"
proof -
  have "high_risk no_policy [sample_process ''/tmp/x''] = ''/tmp/x''"
    and "first_path no_policy added_executable [sample_added ''/tmp/x''] = ''/tmp/x''" by code_simp+
  then show ?thesis unfolding correlated_def correlate_value by simp
qed

theorem correlation_sound_but_blind_witness:
  "correlated no_policy [sample_process ''/tmp/x''] [sample_added ''/tmp/x''] \<and>
   added_and_running no_policy [sample_process ''/tmp/x''] [sample_added ''/tmp/x'']"
  using correlation_sound_but_blind sample_correlated by blast

section \<open>Sustained growth\<close>

definition seen :: "gostring \<Rightarrow> (gostring \<times> process_snapshot) list \<Rightarrow> int list" where
  "seen cid hs = map (\<lambda>h. int (length (ps_processes (snd h)))) (filter (\<lambda>h. fst h = cid \<and> ps_complete (snd h)) hs)"

definition no_spikes :: spike_state where
  "no_spikes = \<lparr>sp_baselines = (\<lambda>_. None), sp_spikes = (\<lambda>_. None)\<rparr>"

definition observe_next :: "gostring \<times> process_snapshot \<Rightarrow> spike_state \<Rightarrow> spike_state" where
  "observe_next h s = snd (observeCount (fst h) (snd h) s)"

definition after_scans :: "(gostring \<times> process_snapshot) list \<Rightarrow> spike_state" where
  "after_scans hs = fold observe_next hs no_spikes"

definition trailing :: "int list \<Rightarrow> nat" where
  "trailing ns = (case ns of [] \<Rightarrow> 0 | b # ms \<Rightarrow> length (takeWhile (is_spike b) (rev ms)))"

lemma seen_snoc [simp]:
  "seen cid (hs @ [h]) = seen cid hs @
    (if fst h = cid \<and> ps_complete (snd h) then [int (length (ps_processes (snd h)))] else [])"
  by (simp add: seen_def)

lemma after_scans_invariant:
  "sp_baselines (after_scans hs) cid = (case seen cid hs of [] \<Rightarrow> None | b # ms \<Rightarrow> Some b) \<and>
   spike_count cid (after_scans hs) = int (trailing (seen cid hs))"
proof (induction hs rule: rev_induct)
  case Nil
  then show ?case by (simp add: after_scans_def no_spikes_def seen_def spike_count_def trailing_def)
next
  case (snoc h hs)
  have step: "after_scans (hs @ [h]) = observe_next h (after_scans hs)" by (simp add: after_scans_def)
  show ?case
  proof (cases "fst h = cid \<and> ps_complete (snd h)")
    case False
    then show ?thesis using snoc unfolding step
      by (auto simp: observe_next_def observeCount_def Let_def spike_count_def)
  next
    case True
    then show ?thesis using snoc unfolding step
      by (cases "seen cid hs")
        (auto simp: observe_next_def observeCount_def Let_def spike_count_def trailing_def)
  qed
qed

lemma two_trailing:
  "2 \<le> length (takeWhile P (rev ms)) \<longleftrightarrow> 2 \<le> length ms \<and> P (last ms) \<and> P (last (butlast ms))"
proof (cases ms rule: rev_cases)
  case (snoc ys y)
  then show ?thesis by (cases ys rule: rev_cases) (auto simp: butlast_append)
qed simp

text \<open>C12: After any interleaving of scans of any containers, a complete snapshot reports sustained growth exactly
  when it and the complete snapshot of the container before it both hold at least three times, and at
  least twenty more than, as many processes as the first complete one; partial snapshots report
  none and count for nothing.\<close>

theorem spikes_by_history:
  "snd (fst (observeCount cid snap (after_scans hs))) \<longleftrightarrow>
    ps_complete snap \<and>
    (case seen cid (hs @ [(cid, snap)]) of
       [] \<Rightarrow> False
     | b # ms \<Rightarrow> 2 \<le> length ms \<and> is_spike b (last ms) \<and> is_spike b (last (butlast ms)))"
proof (cases "ps_complete snap \<and> seen cid hs \<noteq> []")
  case False
  then show ?thesis using after_scans_invariant [of hs cid]
    by (auto simp: observeCount_def Let_def split: list.splits)
next
  case True
  then obtain b ms where s: "seen cid hs = b # ms" by (cases "seen cid hs") auto
  let ?n = "int (length (ps_processes snap))"
  have "snd (fst (observeCount cid snap (after_scans hs))) \<longleftrightarrow> 2 \<le> trailing (seen cid (hs @ [(cid, snap)]))"
    using True s after_scans_invariant [of hs cid]
    by (auto simp: observeCount_def Let_def trailing_def)
  also have "\<dots> \<longleftrightarrow> 2 \<le> length (ms @ [?n]) \<and> is_spike b (last (ms @ [?n])) \<and> is_spike b (last (butlast (ms @ [?n])))"
    using True s unfolding trailing_def by (simp add: two_trailing del: rev_append last_snoc butlast_snoc)
  finally show ?thesis using True s by simp
qed

end
