(* ===== verification/Log_Tailer.thy ===== *)
theory Log_Tailer
  imports Sec_World
begin

text \<open>
  The two tailers of JSON-lines files, of the security events (\<open>internal/securitylog/tailer.go\<close>) and of
  the nginx timings (\<open>internal/nginxlog/tailer.go\<close>).  They differ in the size of their read buffer, in
  the lines of one batch, in the parser, and in what a failing \<open>stat\<close> does to the cursor; these are the fields of
  \<open>tail_kind\<close>.  The file system is what one \<open>Read\<close> finds: the identity of the file (device and inode), its
  bytes, and whether reading ends at the end of the file or with an I/O error.
\<close>

record 'e tail_kind =
  tk_buffer :: nat
  tk_batch :: nat
  tk_parse :: "gostring \<Rightarrow> 'e option"
  tk_at :: "'e \<Rightarrow> instant"
  tk_mark_stat :: bool

record tail_file =
  tf_identity :: gostring
  tf_bytes :: gostring
  tf_broken :: bool

datatype tail_source = CannotOpen | CannotStat | NoIdentity | Opened tail_file

definition maxEventsPerRead :: nat where "maxEventsPerRead = 1000"
definition maxEventLineBytes :: nat where "maxEventLineBytes = 4096"
definition maxRecordsPerRead :: nat where "maxRecordsPerRead = 10000"
definition maxTimingLineBytes :: nat where "maxTimingLineBytes = 64 * 1024"

definition security_tail :: "(gostring \<Rightarrow> 'e option) \<Rightarrow> ('e \<Rightarrow> instant) \<Rightarrow> 'e tail_kind" where
  "security_tail parse moment =
    \<lparr>tk_buffer = maxEventLineBytes, tk_batch = maxEventsPerRead, tk_parse = parse, tk_at = moment, tk_mark_stat = True\<rparr>"

definition nginx_tail :: "(gostring \<Rightarrow> 'e option) \<Rightarrow> ('e \<Rightarrow> instant) \<Rightarrow> 'e tail_kind" where
  "nginx_tail parse moment =
    \<lparr>tk_buffer = maxTimingLineBytes, tk_batch = maxRecordsPerRead, tk_parse = parse, tk_at = moment, tk_mark_stat = False\<rparr>"

text \<open>
  \<open>ReadSlice\<close> fills its buffer before it reports a newline that lies beyond it, so a line is
  oversized when its bytes without the newline fill the buffer.  A line without its newline is not one yet.
\<close>

definition read_line :: "nat \<Rightarrow> gostring \<Rightarrow> ((gostring \<times> bool) \<times> gostring) option" where
  "read_line cap bs =
    (case cut_char newline bs of None \<Rightarrow> None | Some (line, rest) \<Rightarrow> Some ((line, cap \<le> length line), rest))"

definition dropped :: "gostring \<Rightarrow> cursor \<Rightarrow> cursor" where
  "dropped category c = c\<lparr>cu_dropped := cu_dropped c + 1, cu_error := category\<rparr>"

definition recorded :: "instant \<Rightarrow> cursor \<Rightarrow> cursor" where
  "recorded t c = (if cu_recorded c < t then c\<lparr>cu_recorded := t\<rparr> else c)"

definition past_line :: "gostring \<Rightarrow> cursor \<Rightarrow> cursor" where
  "past_line line c = c\<lparr>cu_offset := cu_offset c + int (length line + 1)\<rparr>"

text \<open>The loop over the lines of a batch; it also tells whether it ran out of data.\<close>

fun read_batch :: "'e tail_kind \<Rightarrow> nat \<Rightarrow> gostring \<Rightarrow> cursor \<Rightarrow> ('e list \<times> cursor) \<times> bool" where
  "read_batch k 0 bs c = (([], c), False)"
| "read_batch k (Suc n) bs c =
    (case read_line (tk_buffer k) bs of
       None \<Rightarrow> (([], c), True)
     | Some ((line, oversized), rest) \<Rightarrow>
        if oversized then read_batch k n rest (dropped ''line_too_large'' (past_line line c))
        else (case tk_parse k line of
          None \<Rightarrow> read_batch k n rest (dropped ''parse_error'' (past_line line c))
        | Some e \<Rightarrow>
           (case read_batch k n rest (recorded (tk_at k e) (past_line line c)) of
              ((es, c'), out) \<Rightarrow> ((e # es, c'), out))))"

record 'e tail_result =
  tr_events :: "'e list"
  tr_cursor :: cursor
  tr_error :: "err option"

definition restart :: "cursor \<Rightarrow> cursor" where
  "restart c = c\<lparr>cu_offset := 0, cu_dropped := cu_dropped c + 1\<rparr>"

text \<open>The cursor after the file was identified: another file, or a shorter one, is read from its start.\<close>

definition locate :: "gostring \<Rightarrow> tail_file \<Rightarrow> cursor \<Rightarrow> cursor" where
  "locate source f c =
    (let c1 = c\<lparr>cu_source := source\<rparr>;
         c2 = (if cu_identity c1 \<noteq> [] \<and> cu_identity c1 \<noteq> tf_identity f then restart c1 else c1);
         c3 = c2\<lparr>cu_identity := tf_identity f\<rparr>
     in if int (length (tf_bytes f)) < cu_offset c3 then restart c3 else c3)"

definition tail_Read ::
  "'e tail_kind \<Rightarrow> gostring \<Rightarrow> instant \<Rightarrow> tail_source \<Rightarrow> cursor \<Rightarrow> 'e tail_result" where
  "tail_Read k source now src c =
    (case src of
       CannotOpen \<Rightarrow>
         \<lparr>tr_events = [], tr_cursor = c\<lparr>cu_error := ''source_unavailable''\<rparr>,
          tr_error = Some (ErrOther ''opening source'')\<rparr>
     | CannotStat \<Rightarrow>
         \<lparr>tr_events = [], tr_cursor = (if tk_mark_stat k then c\<lparr>cu_error := ''source_unavailable''\<rparr> else c),
          tr_error = Some (ErrOther ''stating source'')\<rparr>
     | NoIdentity \<Rightarrow> \<lparr>tr_events = [], tr_cursor = c, tr_error = Some (ErrOther ''reading file identity'')\<rparr>
     | Opened f \<Rightarrow>
         (let c1 = locate source f c
          in if cu_offset c1 < 0
             then \<lparr>tr_events = [], tr_cursor = c1, tr_error = Some (ErrOther ''seeking source'')\<rparr>
             else (case read_batch k (tk_batch k) (drop (nat (cu_offset c1)) (tf_bytes f)) (c1\<lparr>cu_error := []\<rparr>) of
               ((es, c2), out) \<Rightarrow>
                 if out \<and> tf_broken f
                 then \<lparr>tr_events = es, tr_cursor = c2\<lparr>cu_error := ''read_error''\<rparr>,
                       tr_error = Some (ErrOther ''reading source'')\<rparr>
                 else \<lparr>tr_events = es, tr_cursor = c2\<lparr>cu_success := now\<rparr>, tr_error = None\<rparr>)))"

text \<open>The two \<open>Read\<close> methods, and the helper of the second one, which repeats that of the first.\<close>

definition security_Read ::
  "(gostring \<Rightarrow> 'e option) \<Rightarrow> ('e \<Rightarrow> instant) \<Rightarrow> gostring \<Rightarrow> instant \<Rightarrow> tail_source \<Rightarrow> cursor \<Rightarrow> 'e tail_result" where
  "security_Read parse moment = tail_Read (security_tail parse moment)"

definition nginx_Read ::
  "(gostring \<Rightarrow> 'e option) \<Rightarrow> ('e \<Rightarrow> instant) \<Rightarrow> gostring \<Rightarrow> instant \<Rightarrow> tail_source \<Rightarrow> cursor \<Rightarrow> 'e tail_result" where
  "nginx_Read parse moment = tail_Read (nginx_tail parse moment)"

definition readTimingLine :: "gostring \<Rightarrow> ((gostring \<times> bool) \<times> gostring) option" where
  "readTimingLine = read_line maxTimingLineBytes"

text \<open>\<open>NewTailer\<close> and \<open>Acknowledge\<close>: the cursor held in memory.\<close>

definition NewTailer :: "gostring \<Rightarrow> cursor \<Rightarrow> cursor" where
  "NewTailer source c = (if cu_source c = [] then c\<lparr>cu_source := source\<rparr> else c)"

definition tail_Acknowledge :: "cursor \<Rightarrow> cursor \<Rightarrow> cursor" where
  "tail_Acknowledge c old = c"

end
