(* ===== verification/Tailer_Laws.thy ===== *)
theory Tailer_Laws
  imports Log_Tailer "HOL-Library.Sublist"
begin

text \<open>
  What the tailers deliver: over a file that only grows, each complete line once and in order.
\<close>

section \<open>Lines\<close>

definition complete_lines :: "gostring \<Rightarrow> gostring list" where
  "complete_lines bs = butlast (split_char newline bs)"

definition deliver :: "'e tail_kind \<Rightarrow> gostring \<Rightarrow> 'e option" where
  "deliver k line = (if tk_buffer k \<le> length line then None else tk_parse k line)"

text \<open>The bytes of so many lines, newlines included.\<close>

definition span :: "gostring list \<Rightarrow> nat" where
  "span ls = sum_list (map (\<lambda>l. length l + 1) ls)"

lemma span_simps [simp]: "span [] = 0" "span (l # ls) = length l + 1 + span ls" "span (xs @ ys) = span xs + span ys"
  by (simp_all add: span_def)

lemma split_char_append: "newline \<notin> set l \<Longrightarrow> split_char newline (l @ newline # r) = l # split_char newline r"
  by (induction l) (auto split: list.splits)

lemma split_char_single: "d \<notin> set bs \<Longrightarrow> split_char d bs = [bs]"
  by (induction bs) auto

lemma complete_lines_None: "cut_char newline bs = None \<Longrightarrow> complete_lines bs = []"
  by (simp add: complete_lines_def cut_char_None split_char_single)

lemma complete_lines_Some:
  "cut_char newline bs = Some (l, r) \<Longrightarrow> complete_lines bs = l # complete_lines r"
  using split_char_append by (auto simp: complete_lines_def split_char_not_Nil dest!: cut_char_SomeD)

lemma cut_length: "cut_char newline bs = Some (l, r) \<Longrightarrow> bs = l @ newline # r"
  by (auto dest: cut_char_SomeD)

lemma complete_lines_drop:
  "complete_lines (drop (span (take n (complete_lines bs))) bs) = drop n (complete_lines bs)"
proof (induction n arbitrary: bs)
  case (Suc n)
  show ?case
  proof (cases "cut_char newline bs")
    case None
    then show ?thesis by (simp add: complete_lines_None)
  next
    case (Some lr)
    then obtain l r where c: "cut_char newline bs = Some (l, r)" by (cases lr) auto
    have d: "drop (length l + 1 + j) bs = drop j r" for j by (simp add: cut_length [OF c])
    show ?thesis unfolding complete_lines_Some [OF c] take_Suc_Cons span_simps d by (simp add: Suc)
  qed
qed simp

lemma complete_lines_append: "prefix bs cs \<Longrightarrow> prefix (complete_lines bs) (complete_lines cs)"
proof (induction "length bs" arbitrary: bs cs rule: less_induct)
  case less
  show ?case
  proof (cases "cut_char newline bs")
    case None
    then show ?thesis by (simp add: complete_lines_None)
  next
    case (Some lr)
    then obtain l r where c: "cut_char newline bs = Some (l, r)" by (cases lr) auto
    obtain x where x: "cs = bs @ x" using less.prems by (auto simp: prefix_def)
    then have d: "cut_char newline cs = Some (l, r @ x)"
      using c by (simp add: cut_char_append [of newline l] cut_length [OF c] cut_char_SomeD [OF c])
    have "prefix (complete_lines r) (complete_lines (r @ x))"
      by (rule less.hyps) (use cut_length [OF c] in auto)
    then show ?thesis by (simp add: complete_lines_Some [OF c] complete_lines_Some [OF d])
  qed
qed

lemma span_bound: "span (complete_lines bs) \<le> length bs"
proof (induction "length bs" arbitrary: bs rule: less_induct)
  case less
  show ?case
  proof (cases "cut_char newline bs")
    case None
    then show ?thesis by (simp add: complete_lines_None)
  next
    case (Some lr)
    then obtain l r where c: "cut_char newline bs = Some (l, r)" by (cases lr) auto
    have "span (complete_lines r) \<le> length r" by (rule less.hyps) (simp add: cut_length [OF c])
    moreover have "length bs = length l + 1 + length r" by (simp add: cut_length [OF c])
    ultimately show ?thesis by (simp add: complete_lines_Some [OF c])
  qed
qed

lemma span_take: "span (take n ls) \<le> span ls"
proof -
  have "span (take n ls @ drop n ls) = span ls" by simp
  then show ?thesis unfolding span_simps(3) by linarith
qed

section \<open>A batch\<close>

lemma cursor_steps [simp]:
  "cu_offset (past_line l c) = cu_offset c + int (length l + 1)" "cu_identity (past_line l c) = cu_identity c"
  "cu_dropped (past_line l c) = cu_dropped c"
  "cu_offset (dropped s c) = cu_offset c" "cu_identity (dropped s c) = cu_identity c"
  "cu_dropped (dropped s c) = cu_dropped c + 1"
  "cu_offset (recorded t c) = cu_offset c" "cu_identity (recorded t c) = cu_identity c"
  "cu_dropped (recorded t c) = cu_dropped c"
  by (simp_all add: past_line_def dropped_def recorded_def)

lemma read_batch_lines:
  assumes "read_batch k n bs c = ((es, c'), out)"
  shows "es = List.map_filter (deliver k) (take n (complete_lines bs)) \<and>
    cu_offset c' = cu_offset c + int (span (take n (complete_lines bs))) \<and>
    cu_dropped c' = cu_dropped c + int (min n (length (complete_lines bs))) - int (length es) \<and>
    cu_identity c' = cu_identity c \<and> (out \<longrightarrow> length (complete_lines bs) < n)"
  using assms
proof (induction n arbitrary: bs c es c' out)
  case (Suc n)
  show ?case
  proof (cases "cut_char newline bs")
    case None
    then show ?thesis
      using Suc.prems by (auto simp: read_line_def complete_lines_None List.map_filter_def)
  next
    case (Some lr)
    then obtain l r where c: "cut_char newline bs = Some (l, r)" by (cases lr) auto
    have lines: "complete_lines bs = l # complete_lines r" by (rule complete_lines_Some [OF c])
    let ?skip = "\<lambda>d. read_batch k n r d = ((es, c'), out) \<and> deliver k l = None \<and>
      (\<exists>s. d = dropped s (past_line l c))"
    have "(\<exists>d. ?skip d) \<or>
      (\<exists>e es'. deliver k l = Some e \<and> es = e # es' \<and>
        read_batch k n r (recorded (tk_at k e) (past_line l c)) = ((es', c'), out))"
      using Suc.prems c
      by (auto simp: read_line_def deliver_def split: if_splits option.splits prod.splits)
    then show ?thesis
    proof (elim disjE exE conjE)
      fix d s assume "read_batch k n r d = ((es, c'), out)" "deliver k l = None" "d = dropped s (past_line l c)"
      then show ?thesis using Suc.IH [of r d es c' out] by (auto simp: lines List.map_filter_def)
    next
      fix e es' assume "deliver k l = Some e" "es = e # es'"
        "read_batch k n r (recorded (tk_at k e) (past_line l c)) = ((es', c'), out)"
      then show ?thesis using Suc.IH [of r _ es' c' out] by (auto simp: lines List.map_filter_def)
    qed
  qed
qed (auto simp: List.map_filter_def)

section \<open>Reads of a growing file\<close>

definition at_line :: "nat \<Rightarrow> gostring \<Rightarrow> cursor \<Rightarrow> bool" where
  "at_line m bs c \<longleftrightarrow> m \<le> length (complete_lines bs) \<and> cu_offset c = int (span (take m (complete_lines bs)))"

definition of_file :: "gostring \<Rightarrow> cursor \<Rightarrow> bool" where
  "of_file ino c \<longleftrightarrow> cu_identity c = [] \<or> cu_identity c = ino"

abbreviation growing :: "gostring \<Rightarrow> gostring \<Rightarrow> tail_source" where
  "growing ino bs \<equiv> Opened \<lparr>tf_identity = ino, tf_bytes = bs, tf_broken = False\<rparr>"

lemma at_line_grows:
  assumes "at_line m bs c" "prefix bs cs"
  shows "at_line m cs c"
proof -
  obtain x where "complete_lines cs = complete_lines bs @ x"
    using complete_lines_append [OF assms(2)] by (auto simp: prefix_def)
  then show ?thesis using assms(1) by (simp add: at_line_def)
qed

lemma located:
  "of_file ino c \<Longrightarrow> cu_offset c \<le> int (length bs) \<Longrightarrow>
    locate s \<lparr>tf_identity = ino, tf_bytes = bs, tf_broken = b\<rparr> c = c\<lparr>cu_source := s, cu_identity := ino\<rparr>"
  by (auto simp: locate_def of_file_def Let_def)

lemma read_step:
  assumes "at_line m bs c" "of_file ino c"
  shows "\<exists>c' es. tail_Read k s now (growing ino bs) c = \<lparr>tr_events = es, tr_cursor = c', tr_error = None\<rparr> \<and>
    es = List.map_filter (deliver k) (take (tk_batch k) (drop m (complete_lines bs))) \<and>
    at_line (min (m + tk_batch k) (length (complete_lines bs))) bs c' \<and> of_file ino c' \<and>
    cu_dropped c' = cu_dropped c + int (min (tk_batch k) (length (complete_lines bs) - m)) - int (length es)"
proof -
  let ?L = "complete_lines bs" and ?d = "c\<lparr>cu_source := s, cu_identity := ino\<rparr>"
  have o: "cu_offset c = int (span (take m ?L))" and m: "m \<le> length ?L" using assms(1) by (simp_all add: at_line_def)
  have "span (take m ?L) \<le> length bs" using span_take [of m ?L] span_bound [of bs] by simp
  then have loc: "locate s \<lparr>tf_identity = ino, tf_bytes = bs, tf_broken = False\<rparr> c = ?d"
    using located [OF assms(2)] o by simp
  obtain es c2 out where r: "read_batch k (tk_batch k) (drop (span (take m ?L)) bs) (?d\<lparr>cu_error := []\<rparr>) = ((es, c2), out)"
    by (metis prod.exhaust)
  have "take (min (m + tk_batch k) (length ?L)) ?L = take m ?L @ take (tk_batch k) (drop m ?L)"
    using m by (simp add: take_add min_def)
  then show ?thesis
    using read_batch_lines [OF r] o m r loc
    by (auto simp: tail_Read_def Let_def complete_lines_drop at_line_def of_file_def)
qed

fun tail_run ::
  "'e tail_kind \<Rightarrow> gostring \<Rightarrow> gostring \<Rightarrow> (instant \<times> gostring) list \<Rightarrow> cursor \<Rightarrow> 'e list \<times> cursor" where
  "tail_run k s ino [] c = ([], c)"
| "tail_run k s ino ((now, bs) # rs) c =
    (let t = tail_Read k s now (growing ino bs) c in
      case tail_run k s ino rs (tail_Acknowledge (tr_cursor t) c) of (es, c') \<Rightarrow> (tr_events t @ es, c'))"

fun lines_read :: "nat \<Rightarrow> nat \<Rightarrow> gostring list \<Rightarrow> nat" where
  "lines_read b m [] = m"
| "lines_read b m (f # fs) = lines_read b (min (m + b) (length (complete_lines f))) fs"

lemma lines_read_mono: "sorted_wrt prefix (f # fs) \<Longrightarrow> m \<le> length (complete_lines f) \<Longrightarrow>
    m \<le> lines_read b m fs \<and> lines_read b m fs \<le> length (complete_lines (last (f # fs)))"
proof (induction fs arbitrary: f m)
  case (Cons g fs)
  have "length (complete_lines f) \<le> length (complete_lines g)"
    using Cons.prems(1) by (simp add: complete_lines_append prefix_length_le)
  moreover have "sorted_wrt prefix (g # fs)" using Cons.prems(1) by simp
  ultimately show ?case using Cons.IH [of g "min (m + b) (length (complete_lines g))"] Cons.prems(2) by fastforce
qed simp

lemma lines_read_append: "lines_read b m (xs @ ys) = lines_read b (lines_read b m xs) ys"
  by (induction xs arbitrary: m) auto

lemma lines_read_same:
  "m \<le> length (complete_lines f) \<Longrightarrow> lines_read b m (replicate n f) = min (m + n * b) (length (complete_lines f))"
  by (induction n arbitrary: m) auto

lemma length_map_filter: "length (List.map_filter f xs) \<le> length xs"
  by (simp add: List.map_filter_def)

lemma drop_take_split:
  assumes "m \<le> n" "n \<le> j" "j \<le> length L"
  shows "drop m (take j L) = drop m (take n L) @ drop n (take j L)"
proof -
  have "take j L = take n L @ drop n (take j L)"
    using assms(2) append_take_drop_id [of n "take j L"] by (simp add: min_def)
  then have "drop m (take j L) = drop m (take n L @ drop n (take j L))" by (rule arg_cong)
  then show ?thesis using assms by simp
qed

lemma tail_run_lines:
  assumes "sorted_wrt prefix (bs # map snd rs)" "at_line m bs c" "of_file ino c"
    and "tail_run k s ino rs c = (es, c')"
  shows "let L = complete_lines (last (bs # map snd rs)); n = lines_read (tk_batch k) m (map snd rs) in
    es = List.map_filter (deliver k) (drop m (take n L)) \<and> at_line n (last (bs # map snd rs)) c' \<and>
    cu_dropped c' = cu_dropped c + int (n - m) - int (length es)"
  using assms
proof (induction rs arbitrary: bs m c es)
  case Nil
  then show ?case by (simp add: Let_def List.map_filter_def at_line_def)
next
  case (Cons r rs)
  obtain now g where r: "r = (now, g)" by (cases r)
  let ?n = "min (m + tk_batch k) (length (complete_lines g))"
  let ?N = "lines_read (tk_batch k) ?n (map snd rs)" and ?L = "complete_lines (last (g # map snd rs))"
  have grow: "prefix bs g" "sorted_wrt prefix (g # map snd rs)" using Cons.prems(1) by (auto simp: r)
  have moment: "at_line m g c" by (rule at_line_grows [OF Cons.prems(2) grow(1)])
  obtain c1 xs where t: "tail_Read k s now (growing ino g) c = \<lparr>tr_events = xs, tr_cursor = c1, tr_error = None\<rparr>"
    and xs: "xs = List.map_filter (deliver k) (take (tk_batch k) (drop m (complete_lines g)))"
    and c1: "at_line ?n g c1" "of_file ino c1"
    and dr: "cu_dropped c1 = cu_dropped c + int (min (tk_batch k) (length (complete_lines g) - m)) - int (length xs)"
    using read_step [OF moment Cons.prems(3), of k s now] by auto
  obtain ys where ys: "tail_run k s ino rs c1 = (ys, c')" "es = xs @ ys"
    using Cons.prems(4) t by (auto simp: r Let_def tail_Acknowledge_def split: prod.splits)
  have ih: "ys = List.map_filter (deliver k) (drop ?n (take ?N ?L))" "at_line ?N (last (g # map snd rs)) c'"
    "cu_dropped c' = cu_dropped c1 + int (?N - ?n) - int (length ys)"
    using Cons.IH [OF grow(2) c1 ys(1)] by (simp_all add: Let_def)
  have m: "m \<le> ?n" using moment by (simp add: at_line_def)
  have N: "?n \<le> ?N" "?N \<le> length ?L"
    using lines_read_mono [OF grow(2), of ?n "tk_batch k"] by simp_all
  have "prefix g (last (g # map snd rs))"
    using grow(2) by (cases "map snd rs" rule: rev_cases) (auto simp: sorted_wrt_append)
  then obtain z where z: "?L = complete_lines g @ z" using complete_lines_append by (blast elim: prefixE)
  have "take (tk_batch k) (drop m (complete_lines g)) = drop m (take ?n ?L)"
    unfolding z by (simp add: take_drop min_def add.commute)
  moreover have "drop m (take ?N ?L) = drop m (take ?n ?L) @ drop ?n (take ?N ?L)"
    by (rule drop_take_split [OF m N])
  ultimately have "es = List.map_filter (deliver k) (drop m (take ?N ?L))"
    using xs ih(1) ys(2) by (simp add: List.map_filter_def)
  moreover have "int (min (tk_batch k) (length (complete_lines g) - m)) = int (?n - m)" by simp
  then have "cu_dropped c' = cu_dropped c + int (?N - m) - int (length es)"
    using ih(3) dr m N(1) ys(2) by simp
  ultimately show ?case using ih(2) by (simp add: r Let_def)
qed

text \<open>C13: Reads of a file that only grows, from its start, each acknowledged, deliver what the parser makes of the
  complete lines, in order and each line once, however the growth and the batches cut the file: the events are
  those of the lines which the cursor has passed, the cursor is at the start of a line, it counts each line that gave no
  event as dropped, and as soon as the reads of the last file have room for its lines nothing is left behind.\<close>

theorem tail_delivers_once:
  assumes "sorted_wrt prefix (map snd rs @ [bs])" "cu_offset c = 0" "of_file ino c"
    and "tail_run k s ino (rs @ map (\<lambda>t. (t, bs)) ts) c = (es, c')" "ts \<noteq> []"
  shows "\<exists>m \<le> length (complete_lines bs).
    es = List.map_filter (deliver k) (take m (complete_lines bs)) \<and>
    cu_offset c' = int (span (take m (complete_lines bs))) \<and>
    cu_dropped c' = cu_dropped c + int (m - length es) \<and>
    (length (complete_lines bs) \<le> length ts * tk_batch k \<longrightarrow> m = length (complete_lines bs))"
proof -
  let ?rs = "rs @ map (\<lambda>t. (t, bs)) ts" and ?L = "complete_lines bs"
  have snds: "map snd ?rs = map snd rs @ replicate (length ts) bs" by (simp add: map_replicate_const comp_def)
  have last: "last ([] # map snd ?rs) = bs" unfolding snds using assms(5) by (simp add: last_replicate)
  have "sorted_wrt prefix (replicate n bs)" for n by (induction n) auto
  then have sorted: "sorted_wrt prefix ([] # map snd ?rs)"
    unfolding snds using assms(1) by (auto simp: sorted_wrt_append)
  have zero: "at_line 0 [] c" using assms(2) by (simp add: at_line_def)
  let ?m = "lines_read (tk_batch k) 0 (map snd ?rs)"
  have run: "es = List.map_filter (deliver k) (take ?m ?L)" "at_line ?m bs c'"
    "cu_dropped c' = cu_dropped c + int ?m - int (length es)"
    using tail_run_lines [OF sorted zero assms(3,4)] by (simp_all only: last Let_def drop_0 minus_nat.diff_0)
  have "length es \<le> length (take ?m ?L)" unfolding run(1) by (rule length_map_filter)
  then have "length es \<le> ?m" by simp
  moreover have "lines_read (tk_batch k) 0 (map snd rs) \<le> length ?L"
  proof -
    have "sorted_wrt prefix ([] # map snd rs)" using assms(1) by (simp add: sorted_wrt_append)
    then have "lines_read (tk_batch k) 0 (map snd rs) \<le> length (complete_lines (last ([] # map snd rs)))"
      using lines_read_mono [of "[]" "map snd rs" 0] by simp
    also have "prefix (last ([] # map snd rs)) bs"
      using assms(1) by (cases rs rule: rev_cases) (simp_all add: sorted_wrt_append)
    then have "length (complete_lines (last ([] # map snd rs))) \<le> length ?L"
      by (simp add: complete_lines_append prefix_length_le)
    finally show ?thesis .
  qed
  then have "length ?L \<le> length ts * tk_batch k \<longrightarrow> ?m = length ?L"
    unfolding snds lines_read_append by (simp add: lines_read_same)
  ultimately show ?thesis using run by (intro exI [of _ ?m]) (auto simp: at_line_def)
qed

section \<open>A sample run\<close>

definition sample_tail :: "gostring tail_kind" where
  "sample_tail = \<lparr>tk_buffer = 4, tk_batch = 1, tk_parse = (\<lambda>l. if l = ''x'' then None else Some l),
    tk_at = (\<lambda>_. 5), tk_mark_stat = True\<rparr>"

definition fresh_cursor :: cursor where
  "fresh_cursor =
    \<lparr>cu_source = [], cu_identity = [], cu_offset = 0, cu_recorded = zero_time, cu_success = zero_time,
     cu_error = [], cu_dropped = 0, cu_complete = False, cu_interval = 0\<rparr>"

lemma tail_delivers_once_witness:
  "\<exists>c'. tail_run sample_tail ''s'' ''1:2'' ([(7, ''a'')] @ map (\<lambda>t. (t, ''ab'' @ [newline])) [8]) fresh_cursor =
      ([''ab''], c') \<and> cu_offset c' = 3"
proof -
  let ?bs = "''ab'' @ [newline]"
  obtain es c' where run: "tail_run sample_tail ''s'' ''1:2'' ([(7, ''a'')] @ map (\<lambda>t. (t, ?bs)) [8]) fresh_cursor = (es, c')"
    by fastforce
  have l: "complete_lines ?bs = [''ab'']" by code_simp
  have d: "deliver sample_tail ''ab'' = Some ''ab''" by code_simp
  have pre: "sorted_wrt prefix (map snd [(7::instant, ''a'')] @ [?bs])" by simp
  have c: "cu_offset fresh_cursor = 0" "of_file ''1:2'' fresh_cursor" by (simp_all add: fresh_cursor_def of_file_def)
  have b: "tk_batch sample_tail = 1" by (simp add: sample_tail_def)
  show ?thesis
    using tail_delivers_once [OF pre c run] unfolding run l by (simp add: b d List.map_filter_def)
qed

end
