(* ===== verification/Security_Events.thy ===== *)
theory Security_Events
  imports Log_Tailer Json_Config Timestamps Security_Flow
begin

text \<open>
  Security events from the edge: the parser of one JSON line (\<open>internal/securitylog/parser.go\<close>) and the
  collector which turns a batch of events into findings
  (\<open>internal/service/security_event_collector.go\<close>).  The JSON grammar is the parameter of \<open>Json_Config\<close>;
  \<open>strings.ToUpper\<close> outside ASCII is a parameter.
\<close>

section \<open>The parser\<close>

record event_record =
  xr_at :: gostring
  xr_type :: gostring
  xr_rule :: gostring
  xr_category :: gostring
  xr_severity :: gostring
  xr_confidence :: gostring
  xr_source :: gostring
  xr_action :: gostring
  xr_method :: gostring
  xr_status :: gostring

definition zero_event_record :: event_record where
  "zero_event_record =
    \<lparr>xr_at = [], xr_type = [], xr_rule = [], xr_category = [], xr_severity = [], xr_confidence = [],
     xr_source = [], xr_action = [], xr_method = [], xr_status = []\<rparr>"

definition event_field :: "gostring \<Rightarrow> json \<Rightarrow> event_record \<Rightarrow> event_record option" where
  "event_field k =
    (if k = ''timestamp'' then str_field (\<lambda>s c. c\<lparr>xr_at := s\<rparr>)
     else if k = ''event_type'' then str_field (\<lambda>s c. c\<lparr>xr_type := s\<rparr>)
     else if k = ''rule_id'' then str_field (\<lambda>s c. c\<lparr>xr_rule := s\<rparr>)
     else if k = ''category'' then str_field (\<lambda>s c. c\<lparr>xr_category := s\<rparr>)
     else if k = ''severity'' then str_field (\<lambda>s c. c\<lparr>xr_severity := s\<rparr>)
     else if k = ''confidence'' then str_field (\<lambda>s c. c\<lparr>xr_confidence := s\<rparr>)
     else if k = ''source'' then str_field (\<lambda>s c. c\<lparr>xr_source := s\<rparr>)
     else if k = ''action'' then str_field (\<lambda>s c. c\<lparr>xr_action := s\<rparr>)
     else if k = ''method'' then str_field (\<lambda>s c. c\<lparr>xr_method := s\<rparr>)
     else if k = ''status'' then str_field (\<lambda>s c. c\<lparr>xr_status := s\<rparr>)
     else (\<lambda>j c. Some c))"

record security_log_event =
  xe_at :: instant
  xe_type :: gostring
  xe_rule :: gostring
  xe_category :: gostring
  xe_severity :: gostring
  xe_confidence :: gostring
  xe_source :: gostring
  xe_action :: gostring
  xe_method :: gostring
  xe_status :: int

definition maxSecurityFieldBytes :: nat where "maxSecurityFieldBytes = 128"

text \<open>The pattern \<open>^[a-z][a-z0-9_.-]{0,127}$\<close>.\<close>

definition identifier_char :: "char \<Rightarrow> bool" where
  "identifier_char c \<longleftrightarrow> is_lower c \<or> is_digit c \<or> c = CHR ''_'' \<or> c = CHR ''.'' \<or> c = CHR ''-''"

definition securityIdentifier :: "gostring \<Rightarrow> bool" where
  "securityIdentifier s \<longleftrightarrow>
    (case s of [] \<Rightarrow> False | c # r \<Rightarrow> is_lower c \<and> length r \<le> 127 \<and> list_all identifier_char r)"

definition good_identifier :: "gostring \<Rightarrow> bool" where
  "good_identifier s \<longleftrightarrow> length s \<le> maxSecurityFieldBytes \<and> securityIdentifier s"

definition event_categories :: "gostring list" where
  "event_categories = [''posture'', ''process'', ''drift'', ''traffic'']"

definition event_severities :: "gostring list" where
  "event_severities = [''low'', ''medium'', ''high'', ''critical'']"

definition event_confidences :: "gostring list" where
  "event_confidences = [''low'', ''medium'', ''high'']"

definition known_methods :: "gostring list" where
  "known_methods = [''GET'', ''HEAD'', ''POST'', ''PUT'', ''PATCH'', ''DELETE'', ''OPTIONS'']"

definition known_method :: "(gostring \<Rightarrow> gostring) \<Rightarrow> gostring \<Rightarrow> gostring" where
  "known_method upper m =
    (let u = upper (trim_space m) in if u \<in> set known_methods then u else ''OTHER'')"

definition event_of_record :: "(gostring \<Rightarrow> gostring) \<Rightarrow> event_record \<Rightarrow> security_log_event option" where
  "event_of_record upper r =
    Option.bind (parse_rfc3339 (xr_at r)) (\<lambda>moment.
      if \<not> list_all good_identifier [xr_type r, xr_rule r, xr_source r, xr_action r] then None
      else if xr_category r \<notin> set event_categories then None
      else if xr_severity r \<notin> set event_severities then None
      else if xr_confidence r \<notin> set event_confidences then None
      else Option.bind (parse_int (xr_status r)) (\<lambda>status.
        if status < 100 \<or> 599 < status then None
        else Some
          \<lparr>xe_at = moment, xe_type = xr_type r, xe_rule = xr_rule r, xe_category = xr_category r,
           xe_severity = xr_severity r, xe_confidence = xr_confidence r, xe_source = xr_source r,
           xe_action = xr_action r, xe_method = known_method upper (xr_method r), xe_status = status\<rparr>))"

definition event_Parse ::
  "json_text \<Rightarrow> (gostring \<Rightarrow> gostring) \<Rightarrow> gostring \<Rightarrow> security_log_event option" where
  "event_Parse jt upper line =
    Option.bind (unmarshal jt event_field zero_event_record line) (event_of_record upper)"

section \<open>The collector\<close>

record event_world = sec_world +
  ew_cursor :: cursor

record event_env =
  ee_service :: gostring
  ee_source :: gostring
  ee_config :: sec_config
  ee_json :: json_text
  ee_upper :: "gostring \<Rightarrow> gostring"

definition event_evaluation :: "gostring \<Rightarrow> security_log_event \<Rightarrow> evaluation" where
  "event_evaluation service e =
    \<lparr>se_obs =
       \<lparr>ob_container = ''source:'' @ xe_source e, ob_rule = xe_rule e, ob_category = xe_category e,
        ob_severity = xe_severity e, ob_confidence = xe_confidence e, ob_detected = True, ob_complete = True,
        ob_evidence =
          [(''event_type'', xe_type e), (''source'', xe_source e), (''action'', xe_action e),
           (''method'', xe_method e), (''status'', itoa (xe_status e))],
        ob_at = xe_at e\<rparr>,
     se_baseline = xe_type e, se_service = service\<rparr>"

definition event_tail :: "event_env \<Rightarrow> security_log_event tail_kind" where
  "event_tail env = security_tail (event_Parse (ee_json env) (ee_upper env)) xe_at"

definition evaluate_event ::
  "event_env \<Rightarrow> sec_clock \<Rightarrow> security_log_event \<Rightarrow> ('z event_world_scheme, err, unit) prog" where
  "evaluate_event env ck e =
    map_error (\<lambda>_. ErrOther ''evaluating security event'')
      (andthen (flow_Evaluate (ee_config env) ck (event_evaluation (ee_service env) e)) (ret ()))"

definition collect ::
  "event_env \<Rightarrow> (security_log_event \<Rightarrow> sec_clock) \<Rightarrow> instant \<Rightarrow> tail_source \<Rightarrow> ('z event_world_scheme, err, unit) prog" where
  "collect env ck now src =
    bindE (gets (\<lambda>w. tail_Read (event_tail env) (ee_source env) now src (ew_cursor w))) (\<lambda>t.
    case tr_error t of
      Some e \<Rightarrow> throw (ErrOther ''reading security events'')
    | None \<Rightarrow>
        andthen (for_each (\<lambda>e. evaluate_event env (ck e) e) (tr_events t))
        (andthen (map_error (\<lambda>_. ErrOther ''persisting security event cursor'') (cursor_Upsert (tr_cursor t)))
         (modify (\<lambda>w. w\<lparr>ew_cursor := tail_Acknowledge (tr_cursor t) (ew_cursor w)\<rparr>))))"

end
