(* ===== verification/Event_Laws.thy ===== *)
theory Event_Laws
  imports Tailer_Laws Security_Events Fleet_Laws
begin

text \<open>
  One event which the parser accepts and the store refuses stops the collector: the cursor
  stays, so the same lines are read again by every later pass.
\<close>

definition cursor_at :: "cursor \<Rightarrow> 'z event_world_scheme \<Rightarrow> bool" where
  "cursor_at c w \<longleftrightarrow> ew_cursor w = c"

interpretation cursor_db: db_invariant "cursor_at c" for c
  by unfold_locales (simp add: cursor_at_def)

lemma keeps_cursor_store: "keeps (cursor_at c) (store_Evaluate now e)"
  unfolding store_Evaluate_def evaluate_body_def findOpenFinding_def reopen_elapsed_def
    apply_observation_def open_episode_def insertFinding_def record_transition_def option.case_eq_if
  by (intro keeps_rules cursor_db.keeps_stmt cursor_db.keeps_tx)
    (simp_all add: cursor_at_def update_finding_def)

lemma keeps_cursor_emit: "keeps (cursor_at c) (emit_event ev)"
  unfolding emit_event_def by (rule keeps_modify) (simp add: cursor_at_def)

lemma keeps_cursor_notification: "keeps (cursor_at c) (notification_insert moment s kind title body)"
  unfolding notification_insert_def Let_def
  by (intro keeps_rules cursor_db.keeps_stmt) (simp_all add: cursor_at_def)

lemma keeps_cursor_mark: "keeps (cursor_at c) (SetNotificationStatus i st)"
  unfolding SetNotificationStatus_def
  by (intro keeps_rules cursor_db.keeps_stmt) (simp_all add: cursor_at_def update_finding_def)

lemma keeps_cursor_flow: "keeps (cursor_at c) (flow_Evaluate cfg ck e)"
  unfolding flow_Evaluate_def effects_of_def announce_def notifyOpened_def option.case_eq_if
  by (intro keeps_rules keeps_cursor_store keeps_cursor_notification keeps_cursor_mark keeps_cursor_emit)

lemma keeps_cursor_event: "keeps (cursor_at c) (evaluate_event env ck e)"
  unfolding evaluate_event_def by (intro keeps_rules keeps_cursor_flow)

lemma oversized_source_refused:
  "121 < length (xe_source e) \<Longrightarrow> \<exists>er. validateObservation (se_obs (event_evaluation s e)) = Inl er"
  by (simp add: validateObservation_def event_evaluation_def)

lemma evaluate_event_refuses:
  assumes "121 < length (xe_source e)"
  shows "\<exists>x u. evaluate_event env ck e w = (Inl x, u)"
proof -
  obtain er where "validateObservation (se_obs (event_evaluation (ee_service env) e)) = Inl er"
    using oversized_source_refused [OF assms] by blast
  then obtain x u where "flow_Evaluate (ee_config env) ck (event_evaluation (ee_service env) e) w = (Inl x, u)"
    using flow_Evaluate_refuses by blast
  then show ?thesis unfolding evaluate_event_def by (blast dest: failed_step)
qed

lemma map_filter_prefix: "prefix xs ys \<Longrightarrow> set (List.map_filter f xs) \<subseteq> set (List.map_filter f ys)"
  by (auto simp: List.map_filter_def prefix_def)

lemma prefix_take_drop: "prefix xs ys \<Longrightarrow> prefix (take n (drop m xs)) (take n (drop m ys))"
  by (auto simp: prefix_def)

definition batch_of :: "event_env \<Rightarrow> nat \<Rightarrow> gostring \<Rightarrow> security_log_event list" where
  "batch_of env m bs = List.map_filter (deliver (event_tail env)) (take maxEventsPerRead (drop m (complete_lines bs)))"

lemma collect_blocked:
  fixes w :: "'z event_world_scheme"
  assumes "at_line m bs (ew_cursor w)" "of_file ino (ew_cursor w)" "prefix bs b"
    and "e \<in> set (batch_of env m bs)" "121 < length (xe_source e)"
  shows "\<exists>x w'. collect env ck now (growing ino b) w = (Inl x, w') \<and> ew_cursor w' = ew_cursor w"
proof -
  have batch: "tk_batch (event_tail env) = maxEventsPerRead" by (simp add: event_tail_def security_tail_def)
  obtain c' where t: "tail_Read (event_tail env) (ee_source env) now (growing ino b) (ew_cursor w) =
      \<lparr>tr_events = batch_of env m b, tr_cursor = c', tr_error = None\<rparr>"
    using read_step [OF at_line_grows [OF assms(1,3)] assms(2), of "event_tail env" "ee_source env" now]
    unfolding batch batch_of_def by blast
  have "e \<in> set (batch_of env m b)"
    unfolding batch_of_def
    by (rule subsetD [OF map_filter_prefix [OF prefix_take_drop [OF complete_lines_append [OF assms(3)]]]
          assms(4) [unfolded batch_of_def]])
  then obtain x u where f: "for_each (\<lambda>e. evaluate_event env (ck e) e) (batch_of env m b) w = (Inl x, u)"
    using for_each_fails [of e "batch_of env m b" "\<lambda>e. evaluate_event env (ck e) e" w]
      evaluate_event_refuses [OF assms(5)] by fastforce
  have "keeps (cursor_at (ew_cursor w)) (for_each (\<lambda>e. evaluate_event env (ck e) e) (batch_of env m b))"
    by (intro keeps_rules keeps_cursor_event)
  then have "cursor_at (ew_cursor w) u" using keepsD f by (metis cursor_at_def)
  then show ?thesis using t f by (simp add: collect_def bindE_def gets_def andthen_def cursor_at_def)
qed

text \<open>Passes of the collector, each over the file as it is then; a failed one is logged.\<close>

definition collect_passes ::
  "event_env \<Rightarrow> gostring \<Rightarrow> ((security_log_event \<Rightarrow> sec_clock) \<times> instant \<times> gostring) list \<Rightarrow>
    ('z event_world_scheme, err, (err + unit) list) prog" where
  "collect_passes env ino ps = map_each (\<lambda>(ck, now, b). attempt (collect env ck now (growing ino b))) ps"

text \<open>A source name may have up to 128 bytes for the parser, but \<open>source:\<close> is put before it, and the
  store refuses identifiers of more than 128 bytes.  So once the next batch holds one event whose source
  has more than 121 bytes, every pass of the collector fails from then on, whatever is appended to the file,
  and the cursor never moves.\<close>

theorem poison_event_blocks:
  fixes w :: "'z event_world_scheme"
  assumes "at_line m bs (ew_cursor w)" "of_file ino (ew_cursor w)"
    and "e \<in> set (batch_of env m bs)" "121 < length (xe_source e)"
    and "list_all (\<lambda>(ck, now, b). prefix bs b) ps"
  shows "\<exists>rs w'. collect_passes env ino ps w = (Inr rs, w') \<and> length rs = length ps \<and> list_all isl rs \<and>
    ew_cursor w' = ew_cursor w"
  using assms(1,2,5)
proof (induction ps arbitrary: w)
  case Nil
  then show ?case by (simp add: collect_passes_def ret_def)
next
  case (Cons p ps)
  obtain ck now b where p: "p = (ck, now, b)" by (cases p)
  have b: "prefix bs b" "list_all (\<lambda>(ck, now, b). prefix bs b) ps" using Cons.prems(3) by (simp_all add: p)
  obtain x u where c: "collect env ck now (growing ino b) w = (Inl x, u)" "ew_cursor u = ew_cursor w"
    using collect_blocked [OF Cons.prems(1,2) b(1) assms(3,4)] by blast
  obtain rs w' where "collect_passes env ino ps u = (Inr rs, w')" "length rs = length ps" "list_all isl rs"
    "ew_cursor w' = ew_cursor u"
    using Cons.IH [of u] Cons.prems(1,2) b(2) unfolding c(2) by blast
  then show ?case using c
    by (intro exI [of _ "Inl x # rs"] exI [of _ w']) (simp add: collect_passes_def p bindE_def attempt_def ret_def)
qed

section \<open>A sample event\<close>

definition long_source :: gostring where "long_source = replicate 122 CHR ''a''"

definition sample_event_json :: json where
  "sample_event_json = JObj
    [(''timestamp'', JStr ''2026-01-02T03:04:05Z''), (''event_type'', JStr ''t''), (''rule_id'', JStr ''r''),
     (''category'', JStr ''traffic''), (''severity'', JStr ''low''), (''confidence'', JStr ''low''),
     (''source'', JStr long_source), (''action'', JStr ''a''), (''method'', JStr ''GET''), (''status'', JStr ''200'')]"

definition sample_event :: security_log_event where
  "sample_event =
    \<lparr>xe_at = 1767323045000000000, xe_type = ''t'', xe_rule = ''r'', xe_category = ''traffic'', xe_severity = ''low'',
     xe_confidence = ''low'', xe_source = long_source, xe_action = ''a'', xe_method = ''GET'', xe_status = 200\<rparr>"

definition sample_event_env :: event_env where
  "sample_event_env =
    \<lparr>ee_service = ''web'', ee_source = ''edge'', ee_config = \<lparr>sc_notifications = True, sc_cursors = True, sc_notify_high = True\<rparr>,
     ee_json = (\<lambda>_. Some sample_event_json), ee_upper = (\<lambda>s. s)\<rparr>"

lemma sample_event_parsed: "event_Parse (\<lambda>_. Some sample_event_json) (\<lambda>s. s) ''e'' = Some sample_event"
  by code_simp

definition sample_event_world :: event_world where
  "sample_event_world = sec_world.extend sample_sec_world (event_world.fields fresh_cursor)"

lemma sample_event_cursor: "ew_cursor sample_event_world = fresh_cursor"
  by (cases sample_sec_world) (simp add: sample_event_world_def sec_world.defs event_world.defs)

lemma poison_event_blocks_witness:
  "\<exists>rs w'. collect_passes sample_event_env ''1:2''
      [(\<lambda>_. \<lparr>ck_now = 9, ck_note = (\<lambda>_. 9), ck_event = (\<lambda>_. 9)\<rparr>, 9, ''e'' @ [newline] @ ''more'' @ [newline])]
      sample_event_world = (Inr rs, w') \<and>
    list_all isl rs \<and> ew_cursor w' = fresh_cursor"
proof -
  let ?bs = "''e'' @ [newline]"
  have l: "complete_lines ?bs = [''e'']" by code_simp
  have "deliver (event_tail sample_event_env) ''e'' = Some sample_event"
    using sample_event_parsed
    by (simp add: deliver_def event_tail_def security_tail_def sample_event_env_def maxEventLineBytes_def)
  then have e: "sample_event \<in> set (batch_of sample_event_env 0 ?bs)"
    unfolding batch_of_def l by (simp add: maxEventsPerRead_def List.map_filter_def)
  have n: "121 < length (xe_source sample_event)" by (simp add: sample_event_def long_source_def)
  have c: "at_line 0 ?bs (ew_cursor sample_event_world)" "of_file ''1:2'' (ew_cursor sample_event_world)"
    unfolding sample_event_cursor by (simp_all add: at_line_def of_file_def fresh_cursor_def)
  have "list_all (\<lambda>(ck, now, b). prefix ?bs b)
    [(\<lambda>_. \<lparr>ck_now = 9, ck_note = (\<lambda>_. 9), ck_event = (\<lambda>_. 9)\<rparr> :: sec_clock, 9 :: instant, ?bs @ ''more'' @ [newline])]"
    by simp
  from poison_event_blocks [OF c e n this] show ?thesis unfolding sample_event_cursor append_assoc by blast
qed

end
