(* ===== verification/Log_Lines.thy ===== *)
theory Log_Lines
  imports Docker_Rows Timestamps Tables
begin

text \<open>
  Container log lines: how the docker answer becomes lines (\<open>internal/docker/logs.go\<close>; the demultiplexing by
  \<open>stdcopy\<close> is a parameter), their level (\<open>internal/service/log_level.go\<close>), and the store
  (\<open>internal/store/logs.go\<close>).  \<open>strings.ToLower\<close> outside ASCII and the full-text index of SQLite, which
  tells whether a line matches a query in its own syntax, are parameters.
\<close>

section \<open>The docker stream\<close>

abbreviation LogStdout :: gostring where "LogStdout \<equiv> ''stdout''"
abbreviation LogStderr :: gostring where "LogStderr \<equiv> ''stderr''"

record docker_line =
  dl_at :: instant
  dl_stream :: gostring
  dl_message :: gostring

definition splitLogLine :: "gostring \<Rightarrow> instant \<times> gostring" where
  "splitLogLine line =
    (let (stamp, message) = (case cut_char (CHR '' '') line of None \<Rightarrow> (line, []) | Some (s, m) \<Rightarrow> (s, m))
     in (case parse_rfc3339 stamp of None \<Rightarrow> (zero_time, line) | Some t \<Rightarrow> (t, message)))"

definition appendLogBuffer :: "docker_line list \<Rightarrow> gostring \<Rightarrow> gostring \<Rightarrow> docker_line list" where
  "appendLogBuffer ls buffer name =
    ls @ map (\<lambda>line. case splitLogLine line of (t, m) \<Rightarrow> \<lparr>dl_at = t, dl_stream = name, dl_message = m\<rparr>)
      (filter (\<lambda>line. line \<noteq> []) (split_char newline buffer))"

text \<open>A stream that does not demultiplex is one of a terminal, all of it standard output.\<close>

definition parseLogStream ::
  "(gostring \<Rightarrow> (gostring \<times> gostring) option) \<Rightarrow> gostring \<Rightarrow> docker_line list" where
  "parseLogStream demux raw =
    (let (out, er) = (case demux raw of None \<Rightarrow> (raw, []) | Some (a, b) \<Rightarrow> (a, b))
     in appendLogBuffer (appendLogBuffer [] out LogStdout) er LogStderr)"

section \<open>Levels\<close>

abbreviation LogLevelError :: gostring where "LogLevelError \<equiv> ''error''"
abbreviation LogLevelWarn :: gostring where "LogLevelWarn \<equiv> ''warn''"
abbreviation LogLevelInfo :: gostring where "LogLevelInfo \<equiv> ''info''"
abbreviation LogLevelDebug :: gostring where "LogLevelDebug \<equiv> ''debug''"

definition errorMarkers :: "gostring list" where
  "errorMarkers =
    [''error'', ''exception'', ''fail'', ''fatal'', ''critical'', ''panic'', ''traceback'', ''unhandled'']"

definition warnMarkers :: "gostring list" where "warnMarkers = [''warn'', ''deprecat'']"
definition debugMarkers :: "gostring list" where "debugMarkers = [''debug'', ''trace'']"

definition marked :: "gostring list \<Rightarrow> gostring \<Rightarrow> bool" where
  "marked ms s = list_ex (contains s) ms"

definition ParseLogLevel :: "(gostring \<Rightarrow> gostring) \<Rightarrow> gostring \<Rightarrow> gostring \<Rightarrow> gostring" where
  "ParseLogLevel lower stream line =
    (let l = lower line
     in if marked errorMarkers l then LogLevelError
        else if marked warnMarkers l then LogLevelWarn
        else if marked debugMarkers l then LogLevelDebug
        else if stream = LogStderr then LogLevelWarn
        else LogLevelInfo)"

definition log_levels :: "gostring list" where
  "log_levels = [LogLevelError, LogLevelWarn, LogLevelInfo, LogLevelDebug]"

fun collect_levels :: "(gostring \<Rightarrow> gostring) \<Rightarrow> gostring list \<Rightarrow> err + gostring list" where
  "collect_levels lower [] = Inr []"
| "collect_levels lower (part # parts) =
    (let level = lower (trim_space part)
     in if level \<in> set log_levels then map_sum id (List.insert level) (collect_levels lower parts)
        else if level = [] then collect_levels lower parts
        else Inl (ErrInvalidInput ''level''))"

text \<open>The set of levels; no level at all asks for every line.\<close>

definition NormalizeLogLevels :: "(gostring \<Rightarrow> gostring) \<Rightarrow> gostring \<Rightarrow> err + gostring list" where
  "NormalizeLogLevels lower raw =
    (if trim_space raw = [] then Inr [] else collect_levels lower (split_char (CHR '','') raw))"

section \<open>The store\<close>

record log_line =
  ll_id :: int
  ll_service :: gostring
  ll_container :: gostring
  ll_stream :: gostring
  ll_level :: gostring
  ll_line :: gostring
  ll_ts :: instant
  ll_created :: instant

record log_filter =
  lf_service :: gostring
  lf_query :: gostring
  lf_stream :: gostring
  lf_since :: "instant option"
  lf_until :: "instant option"
  lf_before :: int
  lf_limit :: int

record log_world = sec_world +
  lg_lines :: "log_line table"

interpretation log_rows: rowid_table ll_id "\<lambda>i r. r\<lparr>ll_id := i\<rparr>"
  by unfold_locales simp

definition streams_sql :: "gostring list" where "streams_sql = [LogStdout, LogStderr]"

definition log_row :: "instant \<Rightarrow> log_line \<Rightarrow> log_line" where
  "log_row now l =
    l\<lparr>ll_id := 0, ll_level := [], ll_ts := (if is_zero_time (ll_ts l) then now else ll_ts l),
      ll_created := (if is_zero_time (ll_created l) then now else ll_created l)\<rparr>"

definition log_insert_ok :: "log_line \<Rightarrow> 'z log_world_scheme \<Rightarrow> bool" where
  "log_insert_ok l w \<longleftrightarrow> has_service (ll_service l) w \<and> ll_stream l \<in> set streams_sql"

definition insert_line :: "instant \<Rightarrow> log_line \<Rightarrow> ('z log_world_scheme, err, unit) prog" where
  "insert_line now l =
    andthen (stmt (ErrOther ''inserting log line''))
    (bindE (gets (log_insert_ok l)) (\<lambda>ok.
     andthen (guardE ok (ErrOther ''inserting log line''))
      (modify (\<lambda>w. w\<lparr>lg_lines := t_insert (\<lambda>i r. r\<lparr>ll_id := i\<rparr>) (log_row now l) (lg_lines w)\<rparr>))))"

definition InsertBatch :: "instant \<Rightarrow> log_line list \<Rightarrow> ('z log_world_scheme, err, int) prog" where
  "InsertBatch now ls =
    (if ls = [] then ret 0
     else
       andthen (stmt (ErrOther ''starting log batch''))
        (tx (andthen (stmt (ErrOther ''preparing log insert''))
            (andthen (for_each (insert_line now) ls)
            (andthen (stmt (ErrOther ''committing log batch'')) (ret (int (length ls))))))))"

text \<open>The bounds of the search: the column holds the fixed layout, so the texts compare as the times do.\<close>

definition last_time :: instant where "last_time = 253402300799999999999"

definition searchBounds :: "log_filter \<Rightarrow> stored_time \<times> stored_time" where
  "searchBounds f =
    (formatFixedTime (case lf_since f of None \<Rightarrow> zero_time | Some t \<Rightarrow> t),
     formatFixedTime (case lf_until f of None \<Rightarrow> last_time | Some t \<Rightarrow> t))"

definition logFilterClauses :: "log_filter \<Rightarrow> log_line \<Rightarrow> bool" where
  "logFilterClauses f r \<longleftrightarrow>
    (lf_stream f = [] \<or> ll_stream r = lf_stream f) \<and> (lf_before f \<le> 0 \<or> ll_id r < lf_before f)"

fun go_fields :: "nat \<Rightarrow> gostring \<Rightarrow> gostring list" where
  "go_fields 0 s = []"
| "go_fields (Suc n) s =
    (let t = trim_any space_encodings s
     in if t = [] then [] else until_space t # go_fields n (drop (length (until_space t)) t))"

definition quote_term :: "gostring \<Rightarrow> gostring" where
  "quote_term s = ''\"'' @ concat (map (\<lambda>c. if c = CHR 0x22 then ''\"\"'' else [c]) s) @ ''\"''"

definition sanitizeFTS :: "gostring \<Rightarrow> gostring option" where
  "sanitizeFTS query =
    (let fields = go_fields (length query) query
     in if fields = [] then None else Some (join_with '' AND '' (map quote_term fields)))"

definition log_matches :: "(gostring \<Rightarrow> gostring \<Rightarrow> bool) \<Rightarrow> log_filter \<Rightarrow> log_line \<Rightarrow> bool" where
  "log_matches fts f r \<longleftrightarrow>
    (case sanitizeFTS (lf_query f) of None \<Rightarrow> True | Some m \<Rightarrow> fts m (ll_line r)) \<and>
    ll_service r = lf_service f \<and>
    text_le (fst (searchBounds f)) (formatFixedTime (ll_ts r)) \<and>
    text_le (formatFixedTime (ll_ts r)) (snd (searchBounds f)) \<and> logFilterClauses f r"

definition defaultSearchLimit :: int where "defaultSearchLimit = 100"

definition logs_Search ::
  "(gostring \<Rightarrow> gostring \<Rightarrow> bool) \<Rightarrow> log_filter \<Rightarrow> ('z log_world_scheme, err, log_line list) prog" where
  "logs_Search fts f =
    andthen (stmt (ErrOther ''querying log lines''))
    (andthen (stmt (ErrOther ''iterating log lines''))
     (gets (\<lambda>w. newest (log_matches fts f)
       (if lf_limit f \<le> 0 then defaultSearchLimit else lf_limit f) (lg_lines w))))"

definition logs_Get :: "int \<Rightarrow> ('z log_world_scheme, err, log_line) prog" where
  "logs_Get i =
    andthen (stmt (ErrOther ''scanning log line''))
     (bindE (gets (\<lambda>w. t_find (\<lambda>r. ll_id r = i) (lg_lines w))) (of_option (ErrOther ''log line not found'')))"

record log_context =
  lc_anchor :: log_line
  lc_before :: "log_line list"
  lc_after :: "log_line list"

definition logs_Context :: "int \<Rightarrow> int \<Rightarrow> int \<Rightarrow> ('z log_world_scheme, err, log_context) prog" where
  "logs_Context i before after =
    bindE (logs_Get i) (\<lambda>a.
    andthen (stmt (ErrOther ''querying log context''))
    (bindE (gets (\<lambda>w. newest (\<lambda>r. ll_service r = ll_service a \<and> ll_id r < i) before (lg_lines w))) (\<lambda>older.
     andthen (stmt (ErrOther ''querying log context''))
    (bindE (gets (\<lambda>w. sql_limit after
        (filter (\<lambda>r. ll_service r = ll_service a \<and> i < ll_id r) (rows (lg_lines w))))) (\<lambda>newer.
     ret \<lparr>lc_anchor = a, lc_before = rev older, lc_after = newer\<rparr>)))))"

definition CountByService :: "gostring \<Rightarrow> ('z log_world_scheme, err, int) prog" where
  "CountByService sid =
    andthen (stmt (ErrOther ''counting log lines''))
     (gets (\<lambda>w. int (t_count (\<lambda>r. ll_service r = sid) (lg_lines w))))"

definition delete_lines :: "(log_line \<Rightarrow> bool) \<Rightarrow> ('z log_world_scheme, err, int) prog" where
  "delete_lines P =
    bindE (gets (\<lambda>w. int (t_count P (lg_lines w)))) (\<lambda>n.
     andthen (modify (\<lambda>w. w\<lparr>lg_lines := t_delete P (lg_lines w)\<rparr>))
      (andthen (stmt (ErrOther ''counting trimmed log lines'')) (ret n)))"

definition TrimBeyondCap :: "gostring \<Rightarrow> int \<Rightarrow> ('z log_world_scheme, err, int) prog" where
  "TrimBeyondCap sid most =
    andthen (stmt (ErrOther ''trimming log lines beyond cap''))
     (bindE (gets (\<lambda>w. map ll_id (newest (\<lambda>r. ll_service r = sid) most (lg_lines w)))) (\<lambda>kept.
      delete_lines (\<lambda>r. ll_service r = sid \<and> ll_id r \<notin> set kept)))"

definition logs_TrimBefore :: "instant \<Rightarrow> ('z log_world_scheme, err, int) prog" where
  "logs_TrimBefore cutoff =
    andthen (stmt (ErrOther ''trimming log lines''))
     (delete_lines (\<lambda>r. text_less (formatFixedTime (ll_ts r)) (formatFixedTime cutoff)))"

end
