(* ===== verification/Log_Collect.thy ===== *)
theory Log_Collect
  imports Log_Lines Service_View "HOL-Library.AList"
begin

text \<open>
  The log collector (\<open>internal/service/log_collector.go\<close>): one cycle tails every container of a service,
  stores the new lines, counts them per minute and level (\<open>UpsertLogVolume\<close> of
  \<open>internal/store/performance.go\<close>), moves the cursors and trims each service to its cap; and the
  search, context and statistics of the stored lines.

  Go maps are association lists; their iteration, random in Go, is in order of insertion here.  What docker
  lists, the bytes of its log answers and how the docker library splits them, the clock (by the name of what is stamped) and the optional collaborators are fields of
  \<open>log_env\<close>.
\<close>

definition maxLinesPerPoll :: nat where "maxLinesPerPoll = 1000"
definition maxLogLineBytes :: nat where "maxLogLineBytes = 8192"
definition maximumDroppedRecords :: int where "maximumDroppedRecords = 1000000000"

text \<open>A string cut to so many bytes before a rune that does not fit.\<close>

function truncate_to :: "nat \<Rightarrow> gostring \<Rightarrow> gostring" where
  "truncate_to n s =
    (if s = [] then []
     else (let k = max 1 (rune_len s)
       in if k \<le> n then take k s @ truncate_to (n - k) (drop k s) else []))"
  by pat_completeness auto
termination by (relation "measure (length \<circ> snd)") auto

declare truncate_to.simps [simp del]

definition go_truncate :: "gostring \<Rightarrow> nat \<Rightarrow> gostring" where
  "go_truncate s most = (if length s \<le> most then s else truncate_to most s)"

section \<open>State\<close>

record log_pos =
  lp_since :: "instant option"
  lp_max :: instant
  lp_boundary :: int

definition no_pos :: log_pos where "no_pos = \<lparr>lp_since = None, lp_max = zero_time, lp_boundary = 0\<rparr>"

record log_loss =
  lo_drops :: int
  lo_truncations :: int

definition no_loss :: log_loss where "no_loss = \<lparr>lo_drops = 0, lo_truncations = 0\<rparr>"

record volume_bucket =
  vb_start :: instant
  vb_service :: gostring
  vb_environment :: gostring
  vb_severity :: gostring
  vb_lines :: int
  vb_dropped :: int
  vb_key :: gostring

record collector_world = log_world +
  lg_positions :: "(gostring \<times> log_pos) list"
  lg_losses :: "(gostring \<times> log_loss) list"
  lg_volume :: "volume_bucket list"
  lg_batches :: "(gostring \<times> gostring) list"

record log_env =
  le_outside :: outside
  le_list :: "err + container list"
  le_raw :: "gostring \<Rightarrow> instant option \<Rightarrow> nat \<Rightarrow> err + gostring"
  le_demux :: "gostring \<Rightarrow> (gostring \<times> gostring) option"
  le_clock :: "gostring \<Rightarrow> instant"
  le_lower :: "gostring \<Rightarrow> gostring"
  le_fts :: "gostring \<Rightarrow> gostring \<Rightarrow> bool"
  le_cursors :: bool
  le_performance :: bool
  le_environment :: gostring
  le_cap :: int

section \<open>Losses\<close>

definition logLossSource :: "gostring \<Rightarrow> gostring \<Rightarrow> gostring" where
  "logLossSource kind sid = ''docker_log_'' @ kind @ '':'' @ sid"

definition logCursorSource :: "gostring \<Rightarrow> gostring" where
  "logCursorSource cid = ''docker_log:'' @ cid"

definition progress_cursor :: "gostring \<Rightarrow> gostring \<Rightarrow> int \<Rightarrow> instant \<Rightarrow> instant \<Rightarrow> cursor" where
  "progress_cursor source identity offset recorded now =
    \<lparr>cu_source = source, cu_identity = identity, cu_offset = offset, cu_recorded = recorded, cu_success = now,
     cu_error = [], cu_dropped = 0, cu_complete = False, cu_interval = 0\<rparr>"

definition persistLoss :: "log_env \<Rightarrow> gostring \<Rightarrow> gostring \<Rightarrow> int \<Rightarrow> ('z collector_world_scheme, err, unit) prog" where
  "persistLoss env kind sid v =
    (if \<not> le_cursors env then ret ()
     else (let source = logLossSource kind sid; now = le_clock env source
       in andthen (attempt (cursor_Upsert (progress_cursor source sid v now now)) ::
            ('z collector_world_scheme, err, err + unit) prog) (ret ())))"

definition losses_of :: "gostring \<Rightarrow> 'z collector_world_scheme \<Rightarrow> log_loss" where
  "losses_of sid w = (case map_of (lg_losses w) sid of None \<Rightarrow> no_loss | Some l \<Rightarrow> l)"

definition save_losses :: "gostring \<Rightarrow> log_loss \<Rightarrow> 'z collector_world_scheme \<Rightarrow> 'z collector_world_scheme" where
  "save_losses sid l w = w\<lparr>lg_losses := AList.update sid l (lg_losses w)\<rparr>"

definition addDrops :: "log_env \<Rightarrow> gostring \<Rightarrow> int \<Rightarrow> ('z collector_world_scheme, err, unit) prog" where
  "addDrops env sid n =
    bindE (gets (losses_of sid)) (\<lambda>l.
    andthen (modify (save_losses sid (l\<lparr>lo_drops := lo_drops l + n\<rparr>)))
     (persistLoss env ''drops'' sid (lo_drops l + n)))"

definition addTruncations :: "log_env \<Rightarrow> gostring \<Rightarrow> int \<Rightarrow> ('z collector_world_scheme, err, unit) prog" where
  "addTruncations env sid n =
    bindE (gets (losses_of sid)) (\<lambda>l.
    andthen (modify (save_losses sid (l\<lparr>lo_truncations := lo_truncations l + n\<rparr>)))
     (persistLoss env ''truncations'' sid (lo_truncations l + n)))"

definition stored_loss :: "gostring \<Rightarrow> gostring \<Rightarrow> ('z collector_world_scheme, err, int) prog" where
  "stored_loss kind sid =
    bindE (attempt (cursor_Get (logLossSource kind sid)) :: ('z collector_world_scheme, err, err + cursor) prog)
     (\<lambda>r. ret (case r of Inl _ \<Rightarrow> 0 | Inr c \<Rightarrow> cu_offset c))"

definition loadLosses :: "log_env \<Rightarrow> gostring \<Rightarrow> ('z collector_world_scheme, err, log_loss) prog" where
  "loadLosses env sid =
    (if \<not> le_cursors env then ret no_loss
     else bindE (stored_loss ''drops'' sid) (\<lambda>d.
       bindE (stored_loss ''truncations'' sid) (\<lambda>t. ret \<lparr>lo_drops = d, lo_truncations = t\<rparr>)))"

definition Drops :: "'z collector_world_scheme \<Rightarrow> int" where
  "Drops w = sum_list (map (lo_drops \<circ> snd) (lg_losses w))"

record log_stats =
  ls_service :: gostring
  ls_lines :: int
  ls_drops :: int
  ls_truncations :: int

definition log_Stats :: "log_env \<Rightarrow> gostring \<Rightarrow> ('z collector_world_scheme, err, log_stats) prog" where
  "log_Stats env sid =
    andthen (svc_get sid)
    (bindE (map_error (\<lambda>_. ErrOther ''counting log lines'') (CountByService sid)) (\<lambda>n.
     bindE (gets (\<lambda>w. map_of (lg_losses w) sid)) (\<lambda>known.
     bindE (case known of
         Some l \<Rightarrow> ret l
       | None \<Rightarrow> bindE (loadLosses env sid) (\<lambda>l. andthen (modify (save_losses sid l)) (ret l))) (\<lambda>l.
      ret \<lparr>ls_service = sid, ls_lines = n, ls_drops = lo_drops l, ls_truncations = lo_truncations l\<rparr>))))"

section \<open>One container\<close>

record tail_keep =
  kp_cursor :: log_pos
  kp_service :: gostring
  kp_container :: gostring
  kp_now :: instant
  kp_max :: instant
  kp_truncated :: int
  kp_seen :: int
  kp_boundary :: int

definition newTailKeep :: "log_pos \<Rightarrow> gostring \<Rightarrow> gostring \<Rightarrow> instant \<Rightarrow> tail_keep" where
  "newTailKeep c sid name now =
    \<lparr>kp_cursor = c, kp_service = sid, kp_container = name, kp_now = now, kp_max = lp_max c,
     kp_truncated = 0, kp_seen = 0, kp_boundary = lp_boundary c\<rparr>"

definition stamp_max :: "instant \<Rightarrow> tail_keep \<Rightarrow> tail_keep" where
  "stamp_max ts k =
    (if is_zero_time (kp_max k) \<or> kp_max k < ts then k\<lparr>kp_max := ts, kp_boundary := 1\<rparr>
     else if ts = kp_max k then k\<lparr>kp_boundary := kp_boundary k + 1\<rparr>
     else k)"

definition keep_line :: "tail_keep \<Rightarrow> docker_line \<Rightarrow> log_line option \<times> tail_keep" where
  "keep_line k line =
    (let ts = (if is_zero_time (dl_at line) then kp_now k else dl_at line)
     in if \<not> is_zero_time (lp_max (kp_cursor k)) \<and> ts < lp_max (kp_cursor k) then (None, k)
        else if ts = lp_max (kp_cursor k) \<and> kp_seen k < lp_boundary (kp_cursor k)
        then (None, k\<lparr>kp_seen := kp_seen k + 1\<rparr>)
        else
          (Some \<lparr>ll_id = 0, ll_service = kp_service k, ll_container = kp_container k, ll_stream = dl_stream line,
             ll_level = [], ll_line = go_truncate (dl_message line) maxLogLineBytes, ll_ts = ts,
             ll_created = zero_time\<rparr>,
           stamp_max ts (if maxLogLineBytes < length (dl_message line)
             then k\<lparr>kp_truncated := kp_truncated k + 1\<rparr> else k)))"

fun keep_lines :: "tail_keep \<Rightarrow> docker_line list \<Rightarrow> log_line list \<times> tail_keep" where
  "keep_lines k [] = ([], k)"
| "keep_lines k (l # ls) =
    (case keep_line k l of (kept, k1) \<Rightarrow>
      (case keep_lines k1 ls of (rest, k2) \<Rightarrow> ((case kept of None \<Rightarrow> rest | Some x \<Rightarrow> x # rest), k2)))"

definition keep_advanced :: "tail_keep \<Rightarrow> log_pos" where
  "keep_advanced k =
    (if is_zero_time (kp_max k) then kp_cursor k
     else \<lparr>lp_since = Some (kp_max k), lp_max = kp_max k, lp_boundary = kp_boundary k\<rparr>)"

definition loadLogCursor :: "log_env \<Rightarrow> gostring \<Rightarrow> ('z collector_world_scheme, err, log_pos) prog" where
  "loadLogCursor env cid =
    bindE (gets (\<lambda>w. map_of (lg_positions w) cid)) (\<lambda>known.
    case known of
      Some p \<Rightarrow> ret p
    | None \<Rightarrow>
        if \<not> le_cursors env then ret no_pos
        else bindE (attempt (cursor_Get (logCursorSource cid)) :: ('z collector_world_scheme, err, err + cursor) prog)
          (\<lambda>r. ret (case r of
             Inl _ \<Rightarrow> no_pos
           | Inr c \<Rightarrow> \<lparr>lp_since = Some (cu_recorded c), lp_max = cu_recorded c, lp_boundary = cu_offset c\<rparr>)))"

text \<open>
  \<open>docker.Client.Logs\<close> (docker/logs.go): the bytes of the daemon, split into the two streams by the docker
  library and parsed, all of standard output first and then all of standard error.
\<close>

definition docker_Logs :: "log_env \<Rightarrow> gostring \<Rightarrow> instant option \<Rightarrow> nat \<Rightarrow> err + docker_line list" where
  "docker_Logs env cid since tail =
    (case le_raw env cid since tail of
       Inl e \<Rightarrow> Inl e
     | Inr raw \<Rightarrow> Inr (parseLogStream (le_demux env) raw))"

definition tailOne ::
  "log_env \<Rightarrow> gostring \<Rightarrow> container \<Rightarrow> log_line list \<Rightarrow>
    ('z collector_world_scheme, err, log_line list \<times> log_pos) prog" where
  "tailOne env sid c batch =
    bindE (loadLogCursor env (ct_id c)) (\<lambda>cursor.
    case docker_Logs env (ct_id c) (lp_since cursor) maxLinesPerPoll of
      Inl _ \<Rightarrow> ret (batch, cursor)
    | Inr lines \<Rightarrow>
        andthen (if maxLinesPerPoll < length lines
          then addDrops env sid (int (length lines - maxLinesPerPoll)) else ret ())
        (case keep_lines (newTailKeep cursor sid (ct_name c) (le_clock env (ct_id c))) (take maxLinesPerPoll lines) of
           (kept, k) \<Rightarrow>
             andthen (if 0 < kp_truncated k then addTruncations env sid (kp_truncated k) else ret ())
              (ret (batch @ kept, keep_advanced k))))"

section \<open>All containers\<close>

record tail_accum =
  ta_batch :: "log_line list"
  ta_seen :: "gostring list"
  ta_touched :: "gostring list"
  ta_pending :: "(gostring \<times> log_pos) list"

definition no_accum :: tail_accum where
  "no_accum = \<lparr>ta_batch = [], ta_seen = [], ta_touched = [], ta_pending = []\<rparr>"

definition tail_container ::
  "log_env \<Rightarrow> gostring \<Rightarrow> container \<Rightarrow> tail_accum \<Rightarrow> ('z collector_world_scheme, err, tail_accum) prog" where
  "tail_container env sid c a =
    bindE (tailOne env sid c (ta_batch a)) (\<lambda>(batch, pos).
      ret \<lparr>ta_batch = batch, ta_seen = List.insert (ct_id c) (ta_seen a),
           ta_touched = List.insert sid (ta_touched a), ta_pending = AList.update (ct_id c) pos (ta_pending a)\<rparr>)"

fun fold_prog :: "('a \<Rightarrow> 'b \<Rightarrow> ('s, 'e, 'b) prog) \<Rightarrow> 'a list \<Rightarrow> 'b \<Rightarrow> ('s, 'e, 'b) prog" where
  "fold_prog f [] b = ret b"
| "fold_prog f (x # xs) b = bindE (f x b) (fold_prog f xs)"

definition tailService ::
  "log_env \<Rightarrow> container list \<Rightarrow> service \<Rightarrow> tail_accum \<Rightarrow> ('z collector_world_scheme, err, tail_accum) prog" where
  "tailService env cs def a =
    bindE (of_result (serviceNames (le_outside env) def)) (\<lambda>names.
      fold_prog (tail_container env (svc_id def)) (filter (\<lambda>c. belongsTo c (svc_project def) names) cs) a)"

definition tailManaged ::
  "log_env \<Rightarrow> service list \<Rightarrow> container list \<Rightarrow> ('z collector_world_scheme, err, tail_accum) prog" where
  "tailManaged env defs cs =
    bindE (fold_prog (tailService env cs) defs no_accum) (\<lambda>a.
    andthen (modify (\<lambda>w. w\<lparr>lg_positions := filter (\<lambda>(cid, _). cid \<in> set (ta_seen a)) (lg_positions w)\<rparr>))
     (ret a))"

definition flush_batch :: "log_env \<Rightarrow> log_line list \<Rightarrow> ('z collector_world_scheme, err, log_line list) prog" where
  "flush_batch env batch =
    (if batch = [] then ret []
     else andthen (map_error (\<lambda>_. ErrOther ''storing log batch'')
         (InsertBatch (le_clock env ''batch'') (sort_key ll_ts batch)))
       (ret (sort_key ll_ts batch)))"

section \<open>Volume\<close>

definition instant_date :: "instant \<Rightarrow> gostring" where
  "instant_date t =
    (case civil (days_of t) of (y, m, d) \<Rightarrow>
      (let s = t div second mod 86400 in
       year_digits y @ ''-'' @ two_digits m @ ''-'' @ two_digits d @ ''T'' @
       two_digits (s div 3600) @ '':'' @ two_digits (s div 60 mod 60) @ '':'' @ two_digits (s mod 60)))"

definition time_text :: "instant \<Rightarrow> gostring" where
  "time_text t = instant_date t @ snd (formatTime t)"

definition fixed_time_text :: "instant \<Rightarrow> gostring" where
  "fixed_time_text t = instant_date t @ snd (formatFixedTime t)"

abbreviation unit_separator :: gostring where "unit_separator \<equiv> [CHR 0x1F]"

definition writeLogIdentity :: "log_line \<Rightarrow> gostring" where
  "writeLogIdentity l =
    join_with unit_separator [ll_service l, ll_container l, ll_stream l, time_text (ll_ts l), ll_line l] @ [newline]"

definition minute_of :: "instant \<Rightarrow> instant" where
  "minute_of t = (t - zero_time) div minute * minute + zero_time"

definition add_to_bucket :: "log_env \<Rightarrow> log_line \<Rightarrow> volume_bucket list \<Rightarrow> volume_bucket list" where
  "add_to_bucket env l bs =
    (let start = minute_of (ll_ts l); severity = ParseLogLevel (le_lower env) (ll_stream l) (ll_line l);
         mine = (\<lambda>b. vb_service b = ll_service l \<and> vb_start b = start \<and> vb_severity b = severity)
     in if list_ex mine bs then map_where mine (\<lambda>b. b\<lparr>vb_lines := vb_lines b + 1\<rparr>) bs
        else bs @ [\<lparr>vb_start = start, vb_service = ll_service l, vb_environment = le_environment env,
          vb_severity = severity, vb_lines = 1, vb_dropped = 0, vb_key = []\<rparr>])"

definition volume_buckets :: "log_env \<Rightarrow> log_line list \<Rightarrow> volume_bucket list" where
  "volume_buckets env batch = fold (add_to_bucket env) batch []"

definition validateNativeMetric ::
  "instant \<Rightarrow> gostring \<Rightarrow> gostring \<Rightarrow> gostring \<Rightarrow> gostring \<Rightarrow> err + unit" where
  "validateNativeMetric moment sid env metric dimension =
    (if is_zero_time moment \<or> sid = [] \<or> env = [] \<or> metric = []
     then Inl (ErrOther ''required bounded fields are missing'')
     else if 128 < length sid \<or> 64 < length env \<or> 128 < length metric \<or> 128 < length dimension
     then Inl (ErrOther ''bounded field is too long'')
     else Inr ())"

definition volume_severities :: "gostring list" where
  "volume_severities = [''debug'', ''info'', ''warn'', ''error'', ''fatal'', ''unknown'']"

definition volume_bucket_key :: "volume_bucket \<Rightarrow> gostring" where
  "volume_bucket_key b =
    sha256_hex (join_with unit_separator
      [fixed_time_text (vb_start b), vb_service b, vb_environment b, vb_severity b])"

definition same_bucket :: "volume_bucket \<Rightarrow> volume_bucket \<Rightarrow> bool" where
  "same_bucket b c \<longleftrightarrow>
    vb_start b = vb_start c \<and> vb_service b = vb_service c \<and> vb_environment b = vb_environment c \<and>
    vb_severity b = vb_severity c"

definition save_volume :: "volume_bucket \<Rightarrow> volume_bucket list \<Rightarrow> volume_bucket list" where
  "save_volume b bs =
    (if list_ex (same_bucket b) bs
     then map_where (same_bucket b)
       (\<lambda>c. c\<lparr>vb_lines := vb_lines c + vb_lines b, vb_dropped := vb_dropped c + vb_dropped b\<rparr>) bs
     else bs @ [b\<lparr>vb_key := []\<rparr>])"

definition UpsertLogVolume :: "volume_bucket \<Rightarrow> ('z collector_world_scheme, err, unit) prog" where
  "UpsertLogVolume b0 =
    andthen (map_error (\<lambda>_. ErrOther ''upserting log volume'')
      (of_result (validateNativeMetric (vb_start b0) (vb_service b0) (vb_environment b0) (vb_severity b0) [])))
    (andthen (guardE (vb_severity b0 \<in> set volume_severities) (ErrOther ''unsupported severity''))
    (andthen (guardE (0 \<le> vb_lines b0 \<and> 0 \<le> vb_dropped b0 \<and> vb_key b0 \<noteq> [] \<and> length (vb_key b0) \<le> 256)
       (ErrOther ''invalid counts''))
    (let b = b0\<lparr>vb_start := minute_of (vb_start b0)\<rparr>; entry = (vb_key b, volume_bucket_key b)
     in andthen (stmt (ErrOther ''starting log volume upsert''))
      (tx (andthen (stmt (ErrOther ''recording log volume ingest''))
          (bindE (gets (\<lambda>w. entry \<in> set (lg_batches w))) (\<lambda>known.
           andthen (modify (\<lambda>w. if known then w else w\<lparr>lg_batches := lg_batches w @ [entry]\<rparr>))
          (andthen (stmt (ErrOther ''checking log volume ingest''))
           (if known then stmt (ErrOther ''committing'')
            else andthen (stmt (ErrOther ''upserting log volume''))
              (andthen (modify (\<lambda>w. w\<lparr>lg_volume := save_volume b (lg_volume w)\<rparr>))
                (stmt (ErrOther ''committing'')))))))))))) "

definition boundedDrops :: "int \<Rightarrow> int \<Rightarrow> int" where
  "boundedDrops current added =
    (if added \<le> 0 then current
     else if maximumDroppedRecords - added \<le> current then maximumDroppedRecords
     else current + added)"

definition volume_cursor :: "instant \<Rightarrow> instant \<Rightarrow> bool \<Rightarrow> cursor \<Rightarrow> cursor" where
  "volume_cursor now moment failed c =
    (if failed
     then c\<lparr>cu_source := ''log_volume'', cu_error := ''log_volume_write_failed'', cu_complete := False,
            cu_dropped := boundedDrops (cu_dropped c) 1\<rparr>
     else c\<lparr>cu_source := ''log_volume'', cu_success := now, cu_recorded := moment, cu_error := [], cu_complete := True\<rparr>)"

definition recordLogVolumeCursor ::
  "log_env \<Rightarrow> instant \<Rightarrow> bool \<Rightarrow> ('z collector_world_scheme, err, unit) prog" where
  "recordLogVolumeCursor env newest_at failed =
    (if \<not> le_cursors env then ret ()
     else bindE (attempt (cursor_Get ''log_volume'') :: ('z collector_world_scheme, err, err + cursor) prog) (\<lambda>r.
       case (case r of
           Inr c \<Rightarrow> Some c
         | Inl e \<Rightarrow> (if e = ErrCollectorCursorNotFound ''log_volume'' then Some no_cursor else None)) of
         None \<Rightarrow> ret ()
       | Some c \<Rightarrow>
           andthen (attempt (cursor_Upsert (volume_cursor (le_clock env ''log_volume'') newest_at failed c)) ::
               ('z collector_world_scheme, err, err + unit) prog) (ret ())))"

definition upsert_failed :: "volume_bucket \<Rightarrow> ('z collector_world_scheme, err, bool) prog" where
  "upsert_failed b =
    bindE (attempt (UpsertLogVolume b) :: ('z collector_world_scheme, err, err + unit) prog) (\<lambda>r. ret (isl r))"

definition flushLogVolume :: "log_env \<Rightarrow> log_line list \<Rightarrow> ('z collector_world_scheme, err, unit) prog" where
  "flushLogVolume env batch =
    (if \<not> le_performance env \<or> batch = [] then ret ()
     else (let key = sha256_hex (concat (map writeLogIdentity batch))
       in bindE (map_each (\<lambda>b. upsert_failed (b\<lparr>vb_key := key\<rparr>)) (volume_buckets env batch)) (\<lambda>fs.
          recordLogVolumeCursor env (fold max (map ll_ts (tl batch)) (ll_ts (hd batch))) (list_ex id fs))))"

section \<open>A cycle\<close>

definition persistLogCursor ::
  "log_env \<Rightarrow> gostring \<Rightarrow> log_pos \<Rightarrow> ('z collector_world_scheme, err, unit) prog" where
  "persistLogCursor env cid p =
    (if \<not> le_cursors env \<or> is_zero_time (lp_max p) then ret ()
     else (let source = logCursorSource cid
       in andthen (attempt (cursor_Upsert
            (progress_cursor source cid (lp_boundary p) (lp_max p) (le_clock env source))) ::
            ('z collector_world_scheme, err, err + unit) prog) (ret ())))"

definition save_position :: "log_env \<Rightarrow> gostring \<times> log_pos \<Rightarrow> ('z collector_world_scheme, err, unit) prog" where
  "save_position env = (\<lambda>(cid, p).
    andthen (modify (\<lambda>w. w\<lparr>lg_positions := AList.update cid p (lg_positions w)\<rparr>)) (persistLogCursor env cid p))"

definition trimService :: "log_env \<Rightarrow> gostring \<Rightarrow> ('z collector_world_scheme, err, unit) prog" where
  "trimService env sid =
    andthen (attempt (TrimBeyondCap sid (le_cap env)) :: ('z collector_world_scheme, err, err + int) prog) (ret ())"

definition logs_collect :: "log_env \<Rightarrow> ('z collector_world_scheme, err, unit) prog" where
  "logs_collect env =
    bindE (map_error (\<lambda>_. ErrOther ''loading services'') svc_all) (\<lambda>defs.
    bindE (map_error (\<lambda>_. ErrOther ''listing containers'') (of_result (le_list env))) (\<lambda>cs.
    bindE (tailManaged env defs cs) (\<lambda>a.
    bindE (flush_batch env (ta_batch a)) (\<lambda>batch.
    andthen (flushLogVolume env batch)
    (andthen (for_each (save_position env) (ta_pending a))
     (for_each (trimService env) (ta_touched a)))))))"

section \<open>Search\<close>

record log_search =
  sr_service :: gostring
  sr_query :: gostring
  sr_stream :: gostring
  sr_level :: gostring
  sr_since :: "instant option"
  sr_until :: "instant option"
  sr_limit :: int

definition levelScanChunk :: int where "levelScanChunk = 1000"
definition levelScanMaxChunks :: nat where "levelScanMaxChunks = 20"

definition with_level :: "(gostring \<Rightarrow> gostring) \<Rightarrow> log_line \<Rightarrow> log_line" where
  "with_level lower l = l\<lparr>ll_level := ParseLogLevel lower (ll_stream l) (ll_line l)\<rparr>"

definition search_filter :: "log_search \<Rightarrow> int \<Rightarrow> int \<Rightarrow> log_filter" where
  "search_filter s before limit =
    \<lparr>lf_service = sr_service s, lf_query = sr_query s, lf_stream = sr_stream s, lf_since = sr_since s,
     lf_until = sr_until s, lf_before = before, lf_limit = limit\<rparr>"

text \<open>The pages from newest to oldest; the first argument is how many may still be read.\<close>

fun searchLevels ::
  "nat \<Rightarrow> log_env \<Rightarrow> log_search \<Rightarrow> gostring list \<Rightarrow> int \<Rightarrow> int \<Rightarrow> log_line list \<Rightarrow>
    ('z collector_world_scheme, err, log_line list) prog" where
  "searchLevels 0 env s levels limit before matched = ret matched"
| "searchLevels (Suc n) env s levels limit before matched =
    (if limit \<le> int (length matched) then ret matched
     else bindE (logs_Search (le_fts env) (search_filter s before levelScanChunk)) (\<lambda>page.
       if page = [] then ret matched
       else
         (let found = filter (\<lambda>l. ll_level l \<in> set levels) (map (with_level (le_lower env)) page);
              matched' = matched @ take (nat (limit - int (length matched))) found
          in if int (length page) < levelScanChunk then ret matched'
             else searchLevels n env s levels limit (ll_id (last page)) matched')))"

definition log_Search :: "log_env \<Rightarrow> log_search \<Rightarrow> ('z collector_world_scheme, err, log_line list) prog" where
  "log_Search env s =
    andthen (svc_get (sr_service s))
    (andthen (guardE (sr_stream s = [] \<or> sr_stream s = LogStdout \<or> sr_stream s = LogStderr)
       (ErrInvalidInput ''stream''))
    (bindE (of_result (NormalizeLogLevels (le_lower env) (sr_level s))) (\<lambda>levels.
     let limit = clampSearchLimit (sr_limit s)
     in if levels = []
        then bindE (logs_Search (le_fts env) (search_filter s 0 limit)) (\<lambda>ls. ret (map (with_level (le_lower env)) ls))
        else searchLevels levelScanMaxChunks env s levels limit 0 [])))"

definition log_Context :: "log_env \<Rightarrow> int \<Rightarrow> int \<Rightarrow> int \<Rightarrow> ('z collector_world_scheme, err, log_context) prog" where
  "log_Context env i before after =
    bindE (logs_Context i (clampContextLines before) (clampContextLines after)) (\<lambda>c.
      ret \<lparr>lc_anchor = with_level (le_lower env) (lc_anchor c),
           lc_before = map (with_level (le_lower env)) (lc_before c),
           lc_after = map (with_level (le_lower env)) (lc_after c)\<rparr>)"

end
