(* ===== verification/Log_Laws.thy ===== *)
theory Log_Laws
  imports Log_Collect "HOL-Library.Multiset"
begin

text \<open>
  What the log collector guarantees: which lines a poll stores, what the search by level returns, and what
  becomes of its loss counters.
\<close>

section \<open>A poll stores the new lines\<close>

text \<open>The latest stamp of some lines, and how many lines carry it.\<close>

definition peak_of :: "docker_line list \<Rightarrow> instant" where
  "peak_of X = fold (\<lambda>l m. max m (dl_at l)) X zero_time"

definition at_peak :: "docker_line list \<Rightarrow> int" where
  "at_peak X = int (length (filter (\<lambda>l. dl_at l = peak_of X) X))"

text \<open>The cursor that stands for the lines stored so far.\<close>

definition pos_of :: "docker_line list \<Rightarrow> log_pos" where
  "pos_of X =
    (if X = [] then no_pos else \<lparr>lp_since = Some (peak_of X), lp_max = peak_of X, lp_boundary = at_peak X\<rparr>)"

text \<open>What docker has to answer: the lines from an instant on, that instant included.\<close>

definition since_lines :: "instant option \<Rightarrow> docker_line list \<Rightarrow> docker_line list" where
  "since_lines s X = (case s of None \<Rightarrow> X | Some t \<Rightarrow> filter (\<lambda>l. t \<le> dl_at l) X)"

text \<open>Lines in the order in which the two streams are parsed.\<close>

definition of_stream :: "gostring \<Rightarrow> docker_line list \<Rightarrow> docker_line list" where
  "of_stream name X = filter (\<lambda>l. dl_stream l = name) X"

definition by_stream :: "docker_line list \<Rightarrow> docker_line list" where
  "by_stream X = of_stream LogStdout X @ of_stream LogStderr X"

definition stored_line :: "gostring \<Rightarrow> gostring \<Rightarrow> docker_line \<Rightarrow> log_line" where
  "stored_line sid name l =
    \<lparr>ll_id = 0, ll_service = sid, ll_container = name, ll_stream = dl_stream l, ll_level = [],
     ll_line = go_truncate (dl_message l) maxLogLineBytes, ll_ts = dl_at l, ll_created = zero_time\<rparr>"

definition stamped :: "docker_line list \<Rightarrow> bool" where
  "stamped X \<longleftrightarrow> (\<forall>l\<in>set X. zero_time < dl_at l \<and> dl_stream l \<in> {LogStdout, LogStderr})"

text \<open>The bytes of an answer: a text for each line which \<open>splitLogLine\<close> takes apart, the lines of each stream in
  a buffer of their own, or, for a terminal, one buffer that does not demultiplex.\<close>

definition written :: "(docker_line \<Rightarrow> gostring) \<Rightarrow> docker_line list \<Rightarrow> bool" where
  "written txt X \<longleftrightarrow>
    (\<forall>l\<in>set X. newline \<notin> set (txt l) \<and> txt l \<noteq> [] \<and> splitLogLine (txt l) = (dl_at l, dl_message l))"

definition answers ::
  "(gostring \<Rightarrow> (gostring \<times> gostring) option) \<Rightarrow> (docker_line \<Rightarrow> gostring) \<Rightarrow> docker_line list \<Rightarrow> gostring \<Rightarrow> bool" where
  "answers demux txt A raw \<longleftrightarrow>
    demux raw = Some (unlines (map txt (of_stream LogStdout A)), unlines (map txt (of_stream LogStderr A))) \<or>
    (demux raw = None \<and> of_stream LogStderr A = [] \<and> raw = unlines (map txt (of_stream LogStdout A)))"

lemma append_written:
  assumes "written txt X"
  shows "appendLogBuffer ls (unlines (map txt (of_stream name X))) name = ls @ of_stream name X"
proof -
  have "\<forall>t\<in>set (map txt (of_stream name X)). newline \<notin> set t"
    using assms by (auto simp: written_def of_stream_def)
  moreover have "filter (\<lambda>t. t \<noteq> []) (map txt (of_stream name X)) = map txt (of_stream name X)"
    using assms by (auto simp: written_def of_stream_def filter_id_conv)
  moreover have "map (\<lambda>line. case splitLogLine line of (t, m) \<Rightarrow> \<lparr>dl_at = t, dl_stream = name, dl_message = m\<rparr>)
      (map txt (of_stream name X)) = of_stream name X"
    using assms by (auto simp: written_def of_stream_def intro!: map_idI)
  ultimately show ?thesis by (simp add: appendLogBuffer_def split_unlines)
qed

lemma parse_answer:
  assumes "written txt A" "answers demux txt A raw"
  shows "parseLogStream demux raw = by_stream A"
proof -
  have "unlines [] = []" by (simp add: unlines_def)
  then have none: "appendLogBuffer ls [] LogStderr = ls" for ls by (simp add: appendLogBuffer_def)
  show ?thesis
    using assms(2) append_written [OF assms(1)] none
    by (auto simp: answers_def parseLogStream_def by_stream_def)
qed

lemma peak_snoc [simp]: "peak_of [] = zero_time" "peak_of (X @ [l]) = max (peak_of X) (dl_at l)"
  by (simp_all add: peak_of_def)

lemma peak_upper: "l \<in> set X \<Longrightarrow> dl_at l \<le> peak_of X"
  by (induction X rule: rev_induct) auto

lemma peak_pos: "stamped X \<Longrightarrow> X \<noteq> [] \<Longrightarrow> zero_time < peak_of X"
  by (induction X rule: rev_induct) (auto simp: stamped_def max_def)

lemma peak_least: "\<forall>l\<in>set Y. dl_at l \<le> m \<Longrightarrow> zero_time \<le> m \<Longrightarrow> peak_of Y \<le> m"
  by (induction Y rule: rev_induct) auto

lemma peak_nonneg: "zero_time \<le> peak_of Y"
  by (induction Y rule: rev_induct) auto

lemma peak_mset:
  assumes "mset X = mset Y" shows "peak_of X = peak_of Y"
  using mset_eq_setD [OF assms] by (intro antisym peak_least peak_nonneg ballI peak_upper) auto

lemma at_peak_mset:
  assumes "mset X = mset Y" shows "at_peak X = at_peak Y"
  unfolding at_peak_def peak_mset [OF assms] using assms by (metis mset_filter size_mset)

definition top_of :: "docker_line list \<Rightarrow> tail_keep \<Rightarrow> bool" where
  "top_of X k \<longleftrightarrow> kp_max k = peak_of X \<and> (X \<noteq> [] \<longrightarrow> kp_boundary k = at_peak X)"

lemma top_snoc:
  assumes "stamped X" "zero_time < dl_at l" "top_of X k"
  shows "top_of (X @ [l]) (stamp_max (dl_at l) k)"
proof (cases "X = []")
  case True
  then show ?thesis
    using assms by (simp add: top_of_def stamp_max_def is_zero_time_def at_peak_def peak_of_def max_def)
next
  case False
  have pos: "zero_time < peak_of X" using peak_pos [OF assms(1) False] .
  have none: "filter (\<lambda>x. dl_at x = dl_at l) X = []" if "peak_of X < dl_at l"
    using peak_upper that by (force simp: filter_empty_conv)
  show ?thesis
    using assms(3) pos False none
    by (auto simp: top_of_def stamp_max_def is_zero_time_def at_peak_def max_def)
qed

lemma stamp_max_fields [simp]:
  "kp_cursor (stamp_max t k) = kp_cursor k" "kp_seen (stamp_max t k) = kp_seen k"
  "kp_service (stamp_max t k) = kp_service k" "kp_container (stamp_max t k) = kp_container k"
  by (simp_all add: stamp_max_def)

lemma top_truncated [simp]: "top_of X (k\<lparr>kp_truncated := n\<rparr>) = top_of X k" "top_of X (k\<lparr>kp_seen := n\<rparr>) = top_of X k"
  by (simp_all add: top_of_def)

text \<open>Lines of one block that are all stored, and lines that are all skipped.\<close>

definition same_tail :: "tail_keep \<Rightarrow> tail_keep \<Rightarrow> bool" where
  "same_tail k k' \<longleftrightarrow> kp_cursor k' = kp_cursor k \<and> kp_service k' = kp_service k \<and> kp_container k' = kp_container k"

lemma keep_new:
  assumes "stamped X" "stamped Y" "top_of X k"
    and "\<forall>l\<in>set Y. lp_max (kp_cursor k) \<le> dl_at l \<and>
      (dl_at l = lp_max (kp_cursor k) \<longrightarrow> lp_boundary (kp_cursor k) \<le> kp_seen k)"
  shows "\<exists>k'. keep_lines k Y = (map (stored_line (kp_service k) (kp_container k)) Y, k') \<and> top_of (X @ Y) k' \<and>
    same_tail k k' \<and> kp_seen k' = kp_seen k"
  using assms
proof (induction Y arbitrary: X k)
  case (Cons l Y)
  let ?k = "stamp_max (dl_at l) (if maxLogLineBytes < length (dl_message l)
    then k\<lparr>kp_truncated := kp_truncated k + 1\<rparr> else k)"
  have l: "zero_time < dl_at l" "stamped (X @ [l])" "stamped Y" using Cons.prems(1,2) by (auto simp: stamped_def)
  have one: "keep_line k l = (Some (stored_line (kp_service k) (kp_container k) l), ?k)"
    using Cons.prems(4) l(1) by (auto simp: keep_line_def stored_line_def Let_def is_zero_time_def)
  have "top_of (X @ [l]) ?k" by (rule top_snoc [OF Cons.prems(1) l(1)]) (use Cons.prems(3) in simp)
  moreover have f: "kp_cursor ?k = kp_cursor k" "kp_seen ?k = kp_seen k" "kp_service ?k = kp_service k"
    "kp_container ?k = kp_container k" by simp_all
  moreover have "\<forall>l\<in>set Y. lp_max (kp_cursor ?k) \<le> dl_at l \<and>
      (dl_at l = lp_max (kp_cursor ?k) \<longrightarrow> lp_boundary (kp_cursor ?k) \<le> kp_seen ?k)"
    using Cons.prems(4) unfolding f by simp
  ultimately obtain k' where "keep_lines ?k Y = (map (stored_line (kp_service k) (kp_container k)) Y, k')"
    "top_of (X @ l # Y) k'" "same_tail ?k k'" "kp_seen k' = kp_seen k"
    using Cons.IH [OF l(2,3), of ?k] by (metis append.assoc append_Cons append_Nil)
  then show ?case using one by (simp add: same_tail_def)
qed (simp add: same_tail_def)

lemma keep_old:
  assumes "\<forall>l\<in>set Z. dl_at l = lp_max (kp_cursor k)" "zero_time < lp_max (kp_cursor k)"
    and "kp_seen k + int (length Z) \<le> lp_boundary (kp_cursor k)"
  shows "keep_lines k Z = ([], k\<lparr>kp_seen := kp_seen k + int (length Z)\<rparr>)"
  using assms
proof (induction Z arbitrary: k)
  case (Cons l Z)
  have "keep_line k l = (None, k\<lparr>kp_seen := kp_seen k + 1\<rparr>)"
    using Cons.prems by (simp add: keep_line_def Let_def is_zero_time_def)
  then show ?case using Cons.IH [of "k\<lparr>kp_seen := kp_seen k + 1\<rparr>"] Cons.prems by (simp add: algebra_simps)
qed simp

lemma keep_lines_append:
  "keep_lines k (X @ Y) =
    (case keep_lines k X of (a, k1) \<Rightarrow> (case keep_lines k1 Y of (b, k2) \<Rightarrow> (a @ b, k2)))"
  by (induction X arbitrary: k) (auto split: prod.splits option.splits)

text \<open>A block: the lines of the cursor's instant that were stored, then the new ones.\<close>

lemma keep_block:
  assumes "stamped X" "stamped N" "top_of X k"
    and old: "\<forall>l\<in>set Z. dl_at l = lp_max (kp_cursor k)" "zero_time < lp_max (kp_cursor k) \<or> Z = []"
    and fit: "kp_seen k + int (length Z) \<le> lp_boundary (kp_cursor k)"
    and new: "\<forall>l\<in>set N. lp_max (kp_cursor k) \<le> dl_at l \<and>
      (dl_at l = lp_max (kp_cursor k) \<longrightarrow> lp_boundary (kp_cursor k) \<le> kp_seen k + int (length Z))"
  shows "\<exists>k'. keep_lines k (Z @ N) = (map (stored_line (kp_service k) (kp_container k)) N, k') \<and> top_of (X @ N) k' \<and>
    same_tail k k' \<and> kp_seen k' = kp_seen k + int (length Z)"
proof -
  let ?k = "k\<lparr>kp_seen := kp_seen k + int (length Z)\<rparr>"
  have z: "keep_lines k Z = ([], ?k)" using keep_old [OF old(1) _ fit] old(2) by auto
  have t: "top_of X ?k" using assms(3) by simp
  have n: "\<forall>l\<in>set N. lp_max (kp_cursor ?k) \<le> dl_at l \<and>
      (dl_at l = lp_max (kp_cursor ?k) \<longrightarrow> lp_boundary (kp_cursor ?k) \<le> kp_seen ?k)" using new by simp
  show ?thesis
    using keep_new [OF assms(1,2) t n] z by (auto simp: keep_lines_append same_tail_def)
qed

text \<open>What one poll needs: stamps, no new line older than a stored one, and of the lines that share the
  last stored stamp no new one on standard output after a stored one on standard error.\<close>

definition pollable :: "docker_line list \<Rightarrow> docker_line list \<Rightarrow> bool" where
  "pollable X Y \<longleftrightarrow>
    stamped (X @ Y) \<and> (\<forall>x\<in>set X. \<forall>y\<in>set Y. dl_at x \<le> dl_at y) \<and>
    (\<forall>x\<in>set X. \<forall>y\<in>set Y. dl_at x = dl_at y \<longrightarrow> \<not> (dl_stream x = LogStderr \<and> dl_stream y = LogStdout))"

lemma by_stream_mset: "stamped X \<Longrightarrow> mset (by_stream X) = mset X"
  by (induction X) (auto simp: by_stream_def of_stream_def stamped_def)

lemma peak_attained: "stamped X \<Longrightarrow> X \<noteq> [] \<Longrightarrow> \<exists>x\<in>set X. dl_at x = peak_of X"
proof (induction X rule: rev_induct)
  case (snoc l X)
  show ?case
  proof (cases "dl_at l < peak_of X")
    case True
    have "X \<noteq> []" "stamped X" using True snoc.prems(1) by (auto simp: stamped_def)
    then show ?thesis using snoc.IH True by (auto simp: max_def)
  next
    case False
    then show ?thesis by (auto simp: max_def)
  qed
qed simp

lemma poll_keeps:
  assumes "pollable X Y"
  shows "\<exists>k. keep_lines (newTailKeep (pos_of X) sid name now) (by_stream (since_lines (lp_since (pos_of X)) (X @ Y))) =
      (map (stored_line sid name) (by_stream Y), k) \<and> keep_advanced k = pos_of (X @ Y)"
proof -
  let ?k = "newTailKeep (pos_of X) sid name now"
  let ?old = "\<lambda>name. of_stream name (filter (\<lambda>l. dl_at l = peak_of X) X)"
  have st: "stamped X" "stamped Y" "stamped (of_stream n Y)" for n
    using assms by (auto simp: pollable_def stamped_def of_stream_def)
  have fields: "kp_service ?k = sid" "kp_container ?k = name" "kp_cursor ?k = pos_of X" "kp_seen ?k = 0"
    by (simp_all add: newTailKeep_def)
  have top: "top_of X ?k" by (auto simp: top_of_def newTailKeep_def pos_of_def no_pos_def)
  have mx: "lp_max (pos_of X) = peak_of X" by (auto simp: pos_of_def no_pos_def)
  have above: "peak_of X \<le> dl_at y" if "y \<in> set Y" for y
  proof (cases "X = []")
    case True
    then show ?thesis using st(2) that by (auto simp: stamped_def)
  next
    case False
    then show ?thesis using peak_attained [OF st(1)] assms that by (force simp: pollable_def)
  qed
  have resp: "by_stream (since_lines (lp_since (pos_of X)) (X @ Y)) =
      (?old LogStdout @ of_stream LogStdout Y) @ (?old LogStderr @ of_stream LogStderr Y)"
  proof (cases "X = []")
    case True
    then show ?thesis by (simp add: since_lines_def pos_of_def no_pos_def by_stream_def of_stream_def)
  next
    case False
    have "filter (\<lambda>l. peak_of X \<le> dl_at l) X = filter (\<lambda>l. dl_at l = peak_of X) X"
      using peak_upper by (intro filter_cong) (auto intro: antisym)
    moreover have "filter (\<lambda>l. peak_of X \<le> dl_at l) Y = Y" using above by (simp add: filter_id_conv)
    ultimately show ?thesis
      using False by (simp add: since_lines_def pos_of_def by_stream_def of_stream_def)
  qed
  have count: "int (length (?old LogStdout)) + int (length (?old LogStderr)) = lp_boundary (pos_of X)"
  proof -
    have "length (by_stream Z) = length Z" if "stamped Z" for Z
      using by_stream_mset [OF that] by (metis size_mset)
    moreover have "stamped (filter (\<lambda>l. dl_at l = peak_of X) X)" using st(1) by (auto simp: stamped_def)
    ultimately have "length (?old LogStdout) + length (?old LogStderr) = length (filter (\<lambda>l. dl_at l = peak_of X) X)"
      by (metis by_stream_def length_append)
    then show ?thesis by (auto simp: pos_of_def no_pos_def at_peak_def)
  qed
  have some: "zero_time < peak_of X \<or> ?old n = []" for n
    using peak_pos [OF st(1)] by (cases "X = []") (auto simp: of_stream_def)
  have olds: "\<forall>l\<in>set (?old n). dl_at l = peak_of X" for n by (auto simp: of_stream_def)
  have swap: "?old LogStderr = []" if "y \<in> set (of_stream LogStdout Y)" "dl_at y = peak_of X" for y
    using assms that by (auto simp: pollable_def of_stream_def filter_empty_conv)
  obtain k1 where k1: "keep_lines ?k (?old LogStdout @ of_stream LogStdout Y) =
      (map (stored_line sid name) (of_stream LogStdout Y), k1)" "top_of (X @ of_stream LogStdout Y) k1"
    "same_tail ?k k1" "kp_seen k1 = int (length (?old LogStdout))"
  proof -
    have "\<forall>l\<in>set (of_stream LogStdout Y). lp_max (kp_cursor ?k) \<le> dl_at l \<and>
      (dl_at l = lp_max (kp_cursor ?k) \<longrightarrow> lp_boundary (kp_cursor ?k) \<le> kp_seen ?k + int (length (?old LogStdout)))"
      using above swap count unfolding fields mx by (fastforce simp: of_stream_def)
    from keep_block [OF st(1) st(3) top, of "?old LogStdout" LogStdout, unfolded fields mx, OF olds some _ this [unfolded fields mx]]
      count that show ?thesis unfolding fields by force
  qed
  have f1: "kp_service k1 = sid" "kp_container k1 = name" "kp_cursor k1 = pos_of X"
    using k1(3) fields by (simp_all add: same_tail_def)
  obtain k2 where k2: "keep_lines k1 (?old LogStderr @ of_stream LogStderr Y) =
      (map (stored_line sid name) (of_stream LogStderr Y), k2)" "top_of ((X @ of_stream LogStdout Y) @ of_stream LogStderr Y) k2"
    "same_tail k1 k2"
  proof -
    have sx: "stamped (X @ of_stream LogStdout Y)" using st by (auto simp: stamped_def)
    have "\<forall>l\<in>set (of_stream LogStderr Y). peak_of X \<le> dl_at l \<and>
      (dl_at l = peak_of X \<longrightarrow> lp_boundary (pos_of X) \<le> kp_seen k1 + int (length (?old LogStderr)))"
      using above count k1(4) by (auto simp: of_stream_def)
    from keep_block [OF sx st(3) k1(2), of "?old LogStderr" LogStderr, unfolded f1 mx, OF olds some _ this]
      count k1(4) that show ?thesis by force
  qed
  have top2: "top_of (X @ Y) k2"
  proof -
    have "mset (X @ by_stream Y) = mset (X @ Y)" using by_stream_mset [OF st(2)] by simp
    then show ?thesis
      using k2(2) peak_mset at_peak_mset unfolding top_of_def by_stream_def by (metis append.assoc mset_zero_iff)
  qed
  have "keep_advanced k2 = pos_of (X @ Y)"
  proof (cases "X @ Y = []")
    case True
    then show ?thesis
      using top2 k2(3) f1(3) by (simp add: keep_advanced_def top_of_def pos_of_def is_zero_time_def same_tail_def)
  next
    case False
    then have "zero_time < peak_of (X @ Y)" using peak_pos assms by (simp add: pollable_def)
    then show ?thesis
      using top2 False unfolding keep_advanced_def top_of_def pos_of_def is_zero_time_def by auto
  qed
  moreover have "keep_lines ?k ((?old LogStdout @ of_stream LogStdout Y) @ (?old LogStderr @ of_stream LogStderr Y)) =
      (map (stored_line sid name) (by_stream Y), k2)"
    by (simp only: keep_lines_append [of ?k "?old LogStdout @ of_stream LogStdout Y"] k1(1) k2(1) prod.case
        by_stream_def map_append)
  ultimately show ?thesis unfolding resp by blast
qed

definition truncates :: "docker_line list \<Rightarrow> bool" where
  "truncates Y \<longleftrightarrow> list_ex (\<lambda>l. maxLogLineBytes < length (dl_message l)) Y"

lemma persistLoss_ok: "\<exists>w'. persistLoss env kind sid v w = (Inr (), w')"
  by (auto simp: persistLoss_def Let_def ret_def andthen_def bindE_def attempt_def split: prod.splits)

lemma addTruncations_ok: "\<exists>w'. addTruncations env sid n w = (Inr (), w')"
  using persistLoss_ok by (auto simp: addTruncations_def run_defs)

text \<open>C14: Let a container have written the lines X and then Y, on standard output or standard error, each with a
  stamp and none of Y older than one of X.  Let docker answer a poll with the bytes of the lines from the asked
  instant on, no more than it asks for, which the parser reads one stream after the other.  When the poll
  starts at the cursor of X, it stores each line of Y once and none of X again, in order within each stream, also
  when lines before and after share one stamp, and leaves the cursor of all lines, from which the same
  holds for the next poll.  One case is excepted: a line of Y on standard output may not share its stamp
  with one of X on standard error.\<close>

theorem tail_stores_new_lines:
  fixes w :: "'z collector_world_scheme"
  assumes "pollable X Y" "loadLogCursor env (ct_id c) w = (Inr (pos_of X), u)"
    and "le_raw env (ct_id c) (lp_since (pos_of X)) maxLinesPerPoll = Inr raw"
    and "written txt (X @ Y)" "answers (le_demux env) txt (since_lines (lp_since (pos_of X)) (X @ Y)) raw"
    and "length (since_lines (lp_since (pos_of X)) (X @ Y)) \<le> maxLinesPerPoll"
  shows "mset (by_stream Y) = mset Y \<and>
    (\<exists>w'. tailOne env sid c batch w =
      (Inr (batch @ map (stored_line sid (ct_name c)) (by_stream Y), pos_of (X @ Y)), w'))"
proof -
  let ?A = "since_lines (lp_since (pos_of X)) (X @ Y)"
  have sub: "set ?A \<subseteq> set (X @ Y)" by (auto simp: since_lines_def split: option.splits)
  then have "written txt ?A" "stamped ?A" using assms(1,4) by (auto simp: written_def pollable_def stamped_def)
  then have logs: "docker_Logs env (ct_id c) (lp_since (pos_of X)) maxLinesPerPoll = Inr (by_stream ?A)"
    and len: "length (by_stream ?A) \<le> maxLinesPerPoll"
    using parse_answer [OF _ assms(5)] assms(3,6) by_stream_mset [of ?A]
    by (simp_all add: docker_Logs_def) (metis size_mset)
  obtain k where k: "keep_lines (newTailKeep (pos_of X) sid (ct_name c) (le_clock env (ct_id c)))
      (by_stream ?A) = (map (stored_line sid (ct_name c)) (by_stream Y), k)" "keep_advanced k = pos_of (X @ Y)"
    using poll_keeps [OF assms(1)] by blast
  obtain w' where t: "addTruncations env sid (kp_truncated k) u = (Inr (), w')" using addTruncations_ok by blast
  have "stamped Y" using assms(1) by (simp add: pollable_def stamped_def)
  then show ?thesis
    using by_stream_mset [of Y] len k t logs by (simp add: tailOne_def bindE_def assms(2) andthen_def ret_def)
qed

text \<open>The excepted case goes wrong: the parser puts the new line of standard output before the stored one of
  standard error, so the first line of that stamp, the new one, is taken for the stored one and skipped,
  and the stored one is stored again.\<close>

lemma same_stamp_swapped:
  fixes old new :: docker_line
  assumes "dl_stream old = LogStderr" "dl_stream new = LogStdout" "dl_at new = dl_at old" "zero_time < dl_at old"
  shows "fst (keep_lines (newTailKeep (pos_of [old]) sid name now)
     (by_stream (since_lines (lp_since (pos_of [old])) [old, new]))) = [stored_line sid name old]"
proof -
  have "by_stream (since_lines (lp_since (pos_of [old])) [old, new]) = [new, old]"
    using assms by (simp add: since_lines_def pos_of_def by_stream_def of_stream_def peak_of_def max_def)
  then show ?thesis
    using assms
    by (simp add: keep_line_def newTailKeep_def pos_of_def peak_of_def at_peak_def Let_def is_zero_time_def
        stored_line_def max_def)
qed

section \<open>Drops are not counted\<close>

definition drops_are :: "gostring \<Rightarrow> int \<Rightarrow> 'z collector_world_scheme \<Rightarrow> bool" where
  "drops_are sid n w \<longleftrightarrow> lo_drops (losses_of sid w) = n"

interpretation drops_db: db_invariant "drops_are sid n" for sid n
  by unfold_locales (simp add: drops_are_def losses_of_def)

lemma losses_save: "losses_of sid (save_losses s l w) = (if s = sid then l else losses_of sid w)"
  by (simp add: losses_of_def save_losses_def update_conv')

lemma keeps_drops_get: "keeps (drops_are sid n) (cursor_Get s)"
  unfolding cursor_Get_def by (intro keeps_rules drops_db.keeps_stmt)

lemma keeps_drops_upsert: "keeps (drops_are sid n) (cursor_Upsert x)"
  unfolding cursor_Upsert_def
  by (intro keeps_rules drops_db.keeps_stmt) (simp_all add: drops_are_def losses_of_def)

lemma keeps_drops_persist: "keeps (drops_are sid n) (persistLoss env kind s v)"
  unfolding persistLoss_def Let_def by (intro keeps_rules keeps_drops_upsert)

lemma addTruncations_run:
  "addTruncations env sid n w =
    persistLoss env ''truncations'' sid (lo_truncations (losses_of sid w) + n)
     (save_losses sid ((losses_of sid w)\<lparr>lo_truncations := lo_truncations (losses_of sid w) + n\<rparr>) w)"
  by (simp add: addTruncations_def run_defs)

lemma keeps_drops_truncations: "keeps (drops_are sid n) (addTruncations env s v)"
proof -
  have "drops_are sid n (save_losses s ((losses_of s w)\<lparr>lo_truncations := t\<rparr>) w)" if "drops_are sid n w" for w t
    using that by (simp add: drops_are_def losses_save)
  then show ?thesis
    using keeps_drops_persist unfolding keeps_def addTruncations_run by blast
qed

lemma keeps_drops_load: "keeps (drops_are sid n) (loadLogCursor env cid)"
  unfolding loadLogCursor_def option.case_eq_if by (intro keeps_rules keeps_drops_get)

lemma keeps_drops_tailOne:
  assumes "\<forall>cid s m ls. docker_Logs env cid s m = Inr ls \<longrightarrow> length ls \<le> m"
  shows "keeps (drops_are sid n) (tailOne env s c b)"
proof -
  have "keeps (drops_are sid n) (case docker_Logs env (ct_id c) (lp_since p) maxLinesPerPoll of
      Inl _ \<Rightarrow> ret (b, p)
    | Inr lines \<Rightarrow>
        andthen (if maxLinesPerPoll < length lines
          then addDrops env s (int (length lines - maxLinesPerPoll)) else ret ())
        (case keep_lines (newTailKeep p s (ct_name c) (le_clock env (ct_id c))) (take maxLinesPerPoll lines) of
           (kept, k) \<Rightarrow>
             andthen (if 0 < kp_truncated k then addTruncations env s (kp_truncated k) else ret ())
              (ret (b @ kept, keep_advanced k))))" for p
    using assms
    by (auto simp: not_less [symmetric] split: sum.split prod.split
        intro!: keeps_rules keeps_drops_truncations)
  then show ?thesis unfolding tailOne_def by (intro keeps_rules keeps_drops_load)
qed

lemma keeps_fold_prog: "(\<And>x b. keeps I (f x b)) \<Longrightarrow> keeps I (fold_prog f xs b)"
  by (induction xs arbitrary: b) (auto intro!: keeps_rules)

lemma keeps_drops_managed:
  assumes "\<forall>cid s m ls. docker_Logs env cid s m = Inr ls \<longrightarrow> length ls \<le> m"
  shows "keeps (drops_are sid n) (tailManaged env defs cs)"
  unfolding tailManaged_def tailService_def tail_container_def
  by (intro keeps_rules keeps_fold_prog keeps_drops_tailOne assms)
    (simp_all add: drops_are_def losses_of_def)

lemma keeps_drops_flush: "keeps (drops_are sid n) (flush_batch env b)"
  unfolding flush_batch_def InsertBatch_def insert_line_def
  by (intro keeps_rules drops_db.keeps_stmt drops_db.keeps_tx) (simp_all add: drops_are_def losses_of_def)

lemma keeps_drops_upsert_volume: "keeps (drops_are sid n) (UpsertLogVolume b)"
  unfolding UpsertLogVolume_def Let_def
  by (intro keeps_rules drops_db.keeps_stmt drops_db.keeps_tx) (simp_all add: drops_are_def losses_of_def)

lemma keeps_drops_volume_cursor: "keeps (drops_are sid n) (recordLogVolumeCursor env moment f)"
  unfolding recordLogVolumeCursor_def option.case_eq_if by (intro keeps_rules keeps_drops_get keeps_drops_upsert)

lemma keeps_drops_volume: "keeps (drops_are sid n) (flushLogVolume env b)"
  unfolding flushLogVolume_def upsert_failed_def Let_def
  by (intro keeps_rules keeps_drops_upsert_volume keeps_drops_volume_cursor)

lemma keeps_drops_position: "keeps (drops_are sid n) (save_position env p)"
  unfolding save_position_def persistLogCursor_def Let_def case_prod_beta
  by (intro keeps_rules keeps_drops_upsert) (simp_all add: drops_are_def losses_of_def)

lemma keeps_drops_trim: "keeps (drops_are sid n) (trimService env s)"
  unfolding trimService_def TrimBeyondCap_def delete_lines_def
  by (intro keeps_rules drops_db.keeps_stmt) (simp_all add: drops_are_def losses_of_def)

lemma keeps_drops_services: "keeps (drops_are sid n) svc_all"
  unfolding svc_all_def by (intro keeps_rules drops_db.keeps_stmt)

text \<open>Docker answers a request for the last so many lines with no more than that, and the collector asks for
  as many as it takes in one poll.  So its check for lines beyond is never true: whatever a cycle does and
  whatever fails in it, the drop counter of every service stays as it was, however many lines docker left out.\<close>

theorem drops_never_counted:
  fixes w :: "'z collector_world_scheme"
  assumes "\<forall>cid s m ls. docker_Logs env cid s m = Inr ls \<longrightarrow> length ls \<le> m"
    and "logs_collect env w = (r, w')"
  shows "lo_drops (losses_of sid w') = lo_drops (losses_of sid w)"
proof -
  have "keeps (drops_are sid n) (logs_collect env)" for n
    unfolding logs_collect_def
    by (intro keeps_rules keeps_drops_services keeps_drops_managed assms(1) keeps_drops_flush keeps_drops_volume
        keeps_drops_position keeps_drops_trim)
  from keepsD [OF this _ assms(2)] show ?thesis by (simp add: drops_are_def)
qed

section \<open>A restart forgets the losses\<close>

lemma progress_cursor_sel [simp]:
  "cu_source (progress_cursor s i n r t) = s" "cu_offset (progress_cursor s i n r t) = n"
  by (simp_all add: progress_cursor_def)

lemma source_not_empty [simp]: "logLossSource kind sid \<noteq> []"
  by (simp add: logLossSource_def)

text \<open>The loss counters are stored so that they outlive a restart, and the statistics load them.  But a
  loss that comes before the first look at the statistics starts from zero and overwrites the stored total: with no
  counter in memory and no failing statement, the stored truncations become the new ones alone.\<close>

theorem restart_forgets_losses:
  fixes w :: "'z collector_world_scheme"
  assumes "le_cursors env" "map_of (lg_losses w) sid = None" "faults w = []"
  shows "\<exists>w' c. addTruncations env sid n w = (Inr (), w') \<and>
    cursor_of (logLossSource ''truncations'' sid) w' = Some c \<and> cu_offset c = n \<and>
    losses_of sid w' = \<lparr>lo_drops = 0, lo_truncations = n\<rparr>"
proof -
  let ?src = "logLossSource ''truncations'' sid"
  let ?c = "progress_cursor ?src sid n (le_clock env ?src) (le_clock env ?src)"
  let ?u = "save_losses sid \<lparr>lo_drops = 0, lo_truncations = n\<rparr> w"
  have none: "losses_of sid w = no_loss" using assms(2) by (simp add: losses_of_def)
  have "faults ?u = []" using assms(3) by (simp add: save_losses_def)
  then have "addTruncations env sid n w = (Inr (), ?u\<lparr>sw_cursors := save_cursor ?c (sw_cursors ?u)\<rparr>)"
    using assms(1) by (simp add: addTruncations_run none no_loss_def persistLoss_def Let_def run_defs cursor_Upsert_def)
  moreover have "losses_of sid (?u\<lparr>sw_cursors := cs\<rparr>) = \<lparr>lo_drops = 0, lo_truncations = n\<rparr>" for cs
    using losses_save [of sid sid] by (simp add: losses_of_def)
  ultimately show ?thesis using cursor_saved [of ?c ?src ?u] by fastforce
qed

section \<open>The search by level\<close>

text \<open>All matching lines, newest first, with their levels.\<close>

definition candidates :: "log_env \<Rightarrow> log_search \<Rightarrow> 'z collector_world_scheme \<Rightarrow> log_line list" where
  "candidates env s w = rev (filter (log_matches (le_fts env) (search_filter s 0 levelScanChunk)) (rows (lg_lines w)))"

definition of_levels :: "log_env \<Rightarrow> gostring list \<Rightarrow> log_line list \<Rightarrow> log_line list" where
  "of_levels env levels ls = filter (\<lambda>l. ll_level l \<in> set levels) (map (with_level (le_lower env)) ls)"

definition page_start :: "log_line list \<Rightarrow> nat \<Rightarrow> int" where
  "page_start M j = (if j = 0 then 0 else ll_id (M ! (j - 1)))"

lemma descending_drop:
  assumes "sorted_wrt (\<lambda>r r'. ll_id r' < ll_id r) M" "0 < j" "j \<le> length M"
  shows "filter (\<lambda>r. ll_id r < ll_id (M ! (j - 1))) M = drop j M"
proof -
  have M: "M = take (j - 1) M @ M ! (j - 1) # drop j M"
    using assms(2,3) id_take_nth_drop [of "j - 1" M] by simp
  then have s: "sorted_wrt (\<lambda>r r'. ll_id r' < ll_id r) (take (j - 1) M @ M ! (j - 1) # drop j M)"
    using assms(1) by metis
  then have "\<forall>r\<in>set (take (j - 1) M). \<not> ll_id r < ll_id (M ! (j - 1))" "\<forall>r\<in>set (drop j M). ll_id r < ll_id (M ! (j - 1))"
    by (auto simp: sorted_wrt_append)
  then have "filter (\<lambda>r. ll_id r < ll_id (M ! (j - 1))) (take (j - 1) M @ M ! (j - 1) # drop j M) = drop j M"
    by (simp add: filter_empty_conv filter_id_conv)
  then show ?thesis using M by metis
qed

lemma candidates_descending:
  "table_ok ll_id (lg_lines w) \<Longrightarrow> sorted_wrt (\<lambda>r r'. ll_id r' < ll_id r) (candidates env s w)"
  by (simp add: candidates_def table_ok_def sorted_wrt_rev sorted_wrt_map sorted_wrt_filter)

lemma matches_before:
  "0 < b \<Longrightarrow> log_matches fts (search_filter s b n) r \<longleftrightarrow>
    log_matches fts (search_filter s 0 n) r \<and> ll_id r < b"
  by (auto simp: log_matches_def search_filter_def logFilterClauses_def searchBounds_def)

lemma page_value:
  assumes "table_ok ll_id (lg_lines w)" "faults w = []" "j \<le> length (candidates env s w)"
  shows "logs_Search (le_fts env) (search_filter s (page_start (candidates env s w) j) levelScanChunk) w =
    (Inr (take 1000 (drop j (candidates env s w))), w)"
proof -
  let ?M = "candidates env s w"
  have rows: "rev (filter (log_matches (le_fts env) (search_filter s (page_start ?M j) levelScanChunk)) (rows (lg_lines w))) = drop j ?M"
  proof (cases "j = 0")
    case True
    then show ?thesis by (simp add: page_start_def candidates_def)
  next
    case False
    let ?b = "ll_id (?M ! (j - 1))"
    have "?M ! (j - 1) \<in> set ?M" using False assms(3) by simp
    then have "0 < ?b" using assms(1) by (simp add: candidates_def table_ok_def list_all_iff)
    then have eq: "log_matches (le_fts env) (search_filter s ?b levelScanChunk) =
        (\<lambda>r. log_matches (le_fts env) (search_filter s 0 levelScanChunk) r \<and> ll_id r < ?b)"
      by (intro ext matches_before)
    have "filter (log_matches (le_fts env) (search_filter s ?b levelScanChunk)) (rows (lg_lines w)) =
        filter (\<lambda>r. ll_id r < ?b) (filter (log_matches (le_fts env) (search_filter s 0 levelScanChunk)) (rows (lg_lines w)))"
      unfolding eq by simp
    then have "rev (filter (log_matches (le_fts env) (search_filter s ?b levelScanChunk)) (rows (lg_lines w))) =
        filter (\<lambda>r. ll_id r < ?b) ?M"
      by (simp add: candidates_def rev_filter)
    also have "\<dots> = drop j ?M"
      using descending_drop [OF candidates_descending [OF assms(1)], of j] False assms(3) by simp
    finally show ?thesis using False by (simp add: page_start_def)
  qed
  have "lf_limit (search_filter s b levelScanChunk) = 1000" for b by (simp add: search_filter_def levelScanChunk_def)
  then show ?thesis
    using assms(2) rows by (simp add: logs_Search_def run_defs newest_def sql_limit_def)
qed

lemma of_levels_append: "of_levels env lv (xs @ ys) = of_levels env lv xs @ of_levels env lv ys"
  by (simp add: of_levels_def)

lemma take_of_levels_beyond:
  "L \<le> length (of_levels env lv (take j M)) \<Longrightarrow> j \<le> i \<Longrightarrow>
    take L (of_levels env lv (take i M)) = take L (of_levels env lv (take j M))"
proof -
  assume h: "L \<le> length (of_levels env lv (take j M))" "j \<le> i"
  have "take i M = take j M @ drop j (take i M)"
    using h(2) append_take_drop_id [of j "take i M"] by (simp add: min_def)
  then have "of_levels env lv (take i M) = of_levels env lv (take j M) @ of_levels env lv (drop j (take i M))"
    using of_levels_append by metis
  then show ?thesis using h(1) by simp
qed

lemma if_apply: "(if b then f else g) x = (if b then f x else g x)"
  by simp

lemma searchLevels_value:
  assumes "table_ok ll_id (lg_lines w)" "faults w = []" "0 \<le> limit"
    and "j \<le> length (candidates env s w)"
  shows "searchLevels n env s lv limit (page_start (candidates env s w) j)
      (take (nat limit) (of_levels env lv (take j (candidates env s w)))) w =
    (Inr (take (nat limit) (of_levels env lv (take (j + n * 1000) (candidates env s w)))), w)"
  using assms(4)
proof (induction n arbitrary: j)
  case 0
  then show ?case by (simp add: ret_def)
next
  case (Suc n)
  let ?M = "candidates env s w" and ?L = "nat limit"
  let ?F = "\<lambda>j. of_levels env lv (take j ?M)"
  let ?page = "take 1000 (drop j ?M)"
  show ?case
  proof (cases "limit \<le> int (length (take ?L (?F j)))")
    case True
    then have "?L \<le> length (?F j)" by simp
    then have "take ?L (?F (j + Suc n * 1000)) = take ?L (?F j)" by (intro take_of_levels_beyond) simp_all
    then show ?thesis using True by (simp add: ret_def)
  next
    case False
    then have short: "length (?F j) < ?L" using assms(3) by simp
    have page: "logs_Search (le_fts env) (search_filter s (page_start ?M j) levelScanChunk) w = (Inr ?page, w)"
      by (rule page_value [OF assms(1,2) Suc.prems])
    have F: "?F (j + 1000) = ?F j @ of_levels env lv ?page"
      using of_levels_append [of env lv "take j ?M" ?page] by (simp only: take_add)
    have found: "take ?L (?F j) @ take (nat (limit - int (length (take ?L (?F j))))) (of_levels env lv ?page) =
        take ?L (?F (j + 1000))"
      using short assms(3) by (simp add: F nat_diff_distrib)
    have step: "searchLevels (Suc n) env s lv limit (page_start ?M j) (take ?L (?F j)) w =
        (if ?page = [] then (Inr (take ?L (?F j)), w)
         else if int (length ?page) < levelScanChunk then (Inr (take ?L (?F (j + 1000))), w)
         else searchLevels n env s lv limit (ll_id (last ?page)) (take ?L (?F (j + 1000))) w)"
      by (simp only: searchLevels.simps(2) False if_False bindE_def page prod.case sum.case Let_def
          of_levels_def [symmetric] found ret_def if_apply)
    show ?thesis
    proof (cases "length ?M < j + 1000")
      case True
      then have "take (j + Suc n * 1000) ?M = ?M" "take (j + 1000) ?M = ?M" by simp_all
      then have all: "?F (j + Suc n * 1000) = ?F (j + 1000)" by simp
      have "?F (j + 1000) = ?F j" if "?page = []" using F that by (simp add: of_levels_def)
      moreover have "int (length ?page) < levelScanChunk" using True by (simp add: levelScanChunk_def)
      ultimately show ?thesis unfolding step all by auto
    next
      case False
      then have len: "length ?page = 1000" by simp
      then have "?page ! 999 = ?M ! (j + 999)" "?page \<noteq> []" using False by (simp, auto)
      then have "ll_id (last ?page) = page_start ?M (j + 1000)"
        using len by (simp add: last_conv_nth page_start_def add.commute)
      moreover have "searchLevels n env s lv limit (page_start ?M (j + 1000)) (take ?L (?F (j + 1000))) w =
          (Inr (take ?L (?F (j + 1000 + n * 1000))), w)"
        by (rule Suc.IH) (use False in simp)
      ultimately show ?thesis unfolding step using len \<open>?page \<noteq> []\<close> by (simp add: levelScanChunk_def add.assoc)
    qed
  qed
qed

text \<open>C15: With no failing statement a search by level is a scan: of the newest twenty thousand lines that match the other
  conditions, the newest ones of the wanted levels, up to the limit.  The paging by id neither skips
  nor repeats a line.\<close>

theorem level_search_scans:
  assumes "table_ok ll_id (lg_lines w)" "faults w = []" "service_row (sr_service s) w \<noteq> None"
    and "sr_stream s = [] \<or> sr_stream s = LogStdout \<or> sr_stream s = LogStderr"
    and "NormalizeLogLevels (le_lower env) (sr_level s) = Inr levels" "levels \<noteq> []"
  shows "log_Search env s w =
    (Inr (take (nat (clampSearchLimit (sr_limit s))) (of_levels env levels (take 20000 (candidates env s w)))), w)"
proof -
  have pos: "0 \<le> clampSearchLimit (sr_limit s)"
    by (simp add: clampSearchLimit_def defaultLogSearch_def maxLogSearchLimit_def)
  have start: "page_start (candidates env s w) 0 = 0" "of_levels env levels (take 0 (candidates env s w)) = []"
    by (simp_all add: page_start_def of_levels_def)
  have "searchLevels levelScanMaxChunks env s levels (clampSearchLimit (sr_limit s)) 0 [] w =
    (Inr (take (nat (clampSearchLimit (sr_limit s))) (of_levels env levels (take 20000 (candidates env s w)))), w)"
    using searchLevels_value [OF assms(1,2) pos, of 0 env s levelScanMaxChunks levels]
    unfolding start by (simp add: levelScanMaxChunks_def)
  then show ?thesis
    using assms(2-6) by (auto simp: log_Search_def svc_get_def run_defs of_result_def Let_def)
qed

section \<open>Samples\<close>

definition sample_service_row :: service where
  "sample_service_row =
    \<lparr>svc_id = ''web'', svc_name = ''web'', svc_strategy = StrategyRecreate, svc_project = ''web'', svc_dir = [], svc_config = []\<rparr>"

definition sample_log :: "int \<Rightarrow> gostring \<Rightarrow> log_line" where
  "sample_log i s =
    \<lparr>ll_id = i, ll_service = ''web'', ll_container = ''c'', ll_stream = LogStdout, ll_level = [], ll_line = s,
     ll_ts = 5, ll_created = 5\<rparr>"

definition sample_logs_world :: collector_world where
  "sample_logs_world =
    \<lparr>faults = [], services = [sample_service_row], deploys = empty_table, probes = empty_table,
     notifications = empty_table, audits = empty_table, child_rows = [], events = [],
     sw_instances = [], sw_inventory = \<lparr>iv_reconciled = None, iv_complete = False, iv_error = [], iv_observed = 0\<rparr>,
     sw_activation = (None, []), sw_baselines = empty_table, sw_ignores = [],
     sw_policies = empty_table, sw_observations = empty_table, sw_findings = empty_table, sw_cursors = [],
     lg_lines = \<lparr>rows = [sample_log 1 ''fail'', sample_log 2 ''ok''], seq = 2\<rparr>,
     lg_positions = [], lg_losses = [], lg_volume = [], lg_batches = []\<rparr>"

definition sample_docker_line :: "gostring \<Rightarrow> instant \<Rightarrow> gostring \<Rightarrow> docker_line" where
  "sample_docker_line name t m = \<lparr>dl_at = t, dl_stream = name, dl_message = m\<rparr>"

text \<open>One stored line, and a new one on each stream, the first with the stamp of the stored one.\<close>

definition sample_old :: "docker_line list" where
  "sample_old = [sample_docker_line LogStdout 3 ''a'']"

definition sample_new :: "docker_line list" where
  "sample_new = [sample_docker_line LogStdout 3 ''b'', sample_docker_line LogStderr 4 ''c'']"

definition sample_text :: "docker_line \<Rightarrow> gostring" where
  "sample_text l =
    (if dl_at l = 3 then ''1970-01-01T00:00:00.000000003Z '' else ''1970-01-01T00:00:00.000000004Z '') @ dl_message l"

definition sample_container :: container where
  "sample_container =
    \<lparr>ct_id = ''c1'', ct_name = ''c'', ct_image = [], ct_image_id = [], ct_state = [], ct_status = [],
     ct_ports = [], ct_labels = (\<lambda>_. None)\<rparr>"

definition sample_log_env :: log_env where
  "sample_log_env =
    \<lparr>le_outside = \<lparr>os_json = (\<lambda>_. None), os_file = (\<lambda>_. None), os_check = (\<lambda>_. Inl [])\<rparr>,
     le_list = Inr [], le_raw = (\<lambda>_ _ _. Inr ''raw''),
     le_demux = (\<lambda>raw. if raw = [] then None
       else Some (unlines (map sample_text (of_stream LogStdout (sample_old @ sample_new))),
                  unlines (map sample_text (of_stream LogStderr (sample_old @ sample_new))))),
     le_clock = (\<lambda>_. 9), le_lower = (\<lambda>s. s), le_fts = (\<lambda>_ _. True), le_cursors = True, le_performance = False,
     le_environment = ''prod'', le_cap = 10\<rparr>"

lemma tail_stores_new_lines_witness:
  "\<exists>w'. tailOne sample_log_env ''web'' sample_container []
      (sample_logs_world\<lparr>lg_positions := [(''c1'', pos_of sample_old)]\<rparr>) =
    (Inr (map (stored_line ''web'' ''c'') sample_new, pos_of (sample_old @ sample_new)), w')"
proof -
  let ?w = "sample_logs_world\<lparr>lg_positions := [(''c1'', pos_of sample_old)]\<rparr>"
  let ?A = "since_lines (lp_since (pos_of sample_old)) (sample_old @ sample_new)"
  note defs = sample_old_def sample_new_def sample_docker_line_def
  have all: "?A = sample_old @ sample_new" and stream: "by_stream sample_new = sample_new"
    by (simp_all add: since_lines_def pos_of_def peak_of_def zero_time_def max_def by_stream_def of_stream_def defs)
  have st: "pollable sample_old sample_new"
    by (simp add: pollable_def stamped_def zero_time_def defs)
  have load: "loadLogCursor sample_log_env (ct_id sample_container) ?w = (Inr (pos_of sample_old), ?w)"
    by (simp add: loadLogCursor_def run_defs sample_container_def)
  have raw: "le_raw sample_log_env (ct_id sample_container) (lp_since (pos_of sample_old)) maxLinesPerPoll = Inr ''raw''"
    by (simp add: sample_log_env_def)
  have "splitLogLine (sample_text l) = (dl_at l, dl_message l)" "newline \<notin> set (sample_text l)" "sample_text l \<noteq> []"
    if "l \<in> set (sample_old @ sample_new)" for l
    using that unfolding defs by (auto; code_simp)+
  then have texts: "written sample_text (sample_old @ sample_new)" by (simp add: written_def)
  have ans: "answers (le_demux sample_log_env) sample_text ?A ''raw''"
    unfolding all by (simp add: answers_def sample_log_env_def)
  have len: "length ?A \<le> maxLinesPerPoll" unfolding all by (simp add: defs maxLinesPerPoll_def)
  have "ct_name sample_container = ''c''" by (simp add: sample_container_def)
  then show ?thesis
    using tail_stores_new_lines [OF st load raw texts ans len, of "''web''" "[]"] by (simp add: stream)
qed

lemma drops_never_counted_witness:
  "lo_drops (losses_of ''web'' (snd (logs_collect (sample_log_env\<lparr>le_raw := (\<lambda>_ _ _. Inr [])\<rparr>) sample_logs_world))) = 0"
proof -
  let ?e = "sample_log_env\<lparr>le_raw := (\<lambda>_ _ _. Inr [])\<rparr>"
  have "\<forall>cid s m ls. docker_Logs ?e cid s m = Inr ls \<longrightarrow> length ls \<le> m"
    by (simp add: docker_Logs_def parseLogStream_def sample_log_env_def appendLogBuffer_def)
  moreover obtain r w' where run: "logs_collect ?e sample_logs_world = (r, w')" by fastforce
  ultimately show ?thesis
    using drops_never_counted [of ?e sample_logs_world r w' "''web''"]
    by (simp add: sample_logs_world_def losses_of_def no_loss_def)
qed

lemma restart_forgets_losses_witness:
  "\<exists>w' c. addTruncations sample_log_env ''web'' 1
      (sample_logs_world\<lparr>sw_cursors := [progress_cursor (logLossSource ''truncations'' ''web'') ''web'' 70 1 1]\<rparr>) =
      (Inr (), w') \<and>
    cursor_of (logLossSource ''truncations'' ''web'') w' = Some c \<and> cu_offset c = 1"
proof -
  let ?w = "sample_logs_world\<lparr>sw_cursors := [progress_cursor (logLossSource ''truncations'' ''web'') ''web'' 70 1 1]\<rparr>"
  have "le_cursors sample_log_env" "map_of (lg_losses ?w) ''web'' = None" "faults ?w = []"
    by (simp_all add: sample_log_env_def sample_logs_world_def)
  from restart_forgets_losses [OF this, of 1] show ?thesis by blast
qed

definition sample_search :: log_search where
  "sample_search =
    \<lparr>sr_service = ''web'', sr_query = [], sr_stream = [], sr_level = ''error'', sr_since = None, sr_until = None,
     sr_limit = 5\<rparr>"

lemma sample_levels: "NormalizeLogLevels (\<lambda>s. s) ''error'' = Inr [''error'']"
proof -
  have "trim_space ''error'' = ''error''" by (rule trim_space_plain) (simp add: plain_def)
  moreover have "split_char (CHR '','') ''error'' = [''error'']" by simp
  moreover have "''error'' \<in> set log_levels" by (simp add: log_levels_def)
  ultimately show ?thesis by (simp add: NormalizeLogLevels_def List.insert_def)
qed

lemma level_search_scans_witness:
  "log_Search sample_log_env sample_search sample_logs_world =
    (Inr (take 5 (of_levels sample_log_env [''error''] (take 20000 (candidates sample_log_env sample_search sample_logs_world)))),
     sample_logs_world)"
proof -
  have ok: "table_ok ll_id (lg_lines sample_logs_world)" "faults sample_logs_world = []"
    "service_row (sr_service sample_search) sample_logs_world \<noteq> None"
    by (simp_all add: sample_logs_world_def table_ok_def sample_log_def service_row_def sample_search_def
        sample_service_row_def)
  have lv: "NormalizeLogLevels (le_lower sample_log_env) (sr_level sample_search) = Inr [''error'']"
    using sample_levels by (simp add: sample_log_env_def sample_search_def)
  have "sr_stream sample_search = [] \<or> sr_stream sample_search = LogStdout \<or> sr_stream sample_search = LogStderr"
    by (simp add: sample_search_def)
  from level_search_scans [OF ok this lv] show ?thesis
    by (simp add: sample_search_def clampSearchLimit_def maxLogSearchLimit_def)
qed

end
