(* ===== verification/Onboarding.thy ===== *)
theory Onboarding
  imports Cutover Fleet_Inventory Audit_Log Go_Paths
begin

text \<open>
  \<open>service.Onboarding\<close> (service/onboarding.go): drafting a service row from a running container,
  and creating and deleting rows.  The listing of docker, the prober and the file system are
  parameters, and so is \<open>strings.ToLower\<close>.  A reason or a warning of a draft is a \<open>draft_note\<close>: what it
  says, not its wording.
\<close>

abbreviation defaultNginxSitesDir :: gostring where "defaultNginxSitesDir \<equiv> ''/etc/nginx/sites-enabled''"
abbreviation colorBlueSuffix :: gostring where "colorBlueSuffix \<equiv> ''-blue''"
abbreviation colorGreenSuffix :: gostring where "colorGreenSuffix \<equiv> ''-green''"
abbreviation dash :: char where "dash \<equiv> CHR ''-''"

definition blueGreenMarker :: gostring where "blueGreenMarker = ''# BLUEGREEN-ACTIVE''"

abbreviation LabelComposeWorkingDir :: gostring where
  "LabelComposeWorkingDir \<equiv> ''com.docker.compose.project.working_dir''"

section \<open>The service\<close>

type_synonym read_dir = "gostring \<Rightarrow> (gostring \<times> bool) list option"
type_synonym read_file = "gostring \<Rightarrow> gostring option"

record onboarding_config =
  oc_scripts_dir :: gostring
  oc_nginx_dir :: gostring
  oc_read_dir :: "read_dir option"
  oc_read_file :: "read_file option"

record onboarding =
  ob_scripts_dir :: gostring
  ob_nginx_dir :: gostring
  ob_read_dir :: read_dir
  ob_read_file :: read_file

definition NewOnboarding :: "read_dir \<Rightarrow> read_file \<Rightarrow> onboarding_config \<Rightarrow> onboarding" where
  "NewOnboarding os_read_dir os_read_file cfg =
    \<lparr>ob_scripts_dir = oc_scripts_dir cfg,
     ob_nginx_dir = (if oc_nginx_dir cfg = [] then defaultNginxSitesDir else oc_nginx_dir cfg),
     ob_read_dir = (case oc_read_dir cfg of None \<Rightarrow> os_read_dir | Some f \<Rightarrow> f),
     ob_read_file = (case oc_read_file cfg of None \<Rightarrow> os_read_file | Some f \<Rightarrow> f)\<rparr>"

section \<open>Service ids\<close>

definition id_char :: "char \<Rightarrow> bool" where "id_char c \<longleftrightarrow> is_lower c \<or> is_digit c"

definition serviceIDPattern :: "gostring \<Rightarrow> bool" where
  "serviceIDPattern s \<longleftrightarrow> s \<noteq> [] \<and> list_all (\<lambda>c. id_char c \<or> c = dash) s"

text \<open>The runes which are no id characters fold to one dash; so do their bytes.\<close>

fun fold_id :: "bool \<Rightarrow> gostring \<Rightarrow> gostring" where
  "fold_id lastDash [] = []"
| "fold_id lastDash (c # cs) =
    (if \<not> id_char c then (if lastDash then fold_id True cs else dash # fold_id True cs)
     else c # fold_id False cs)"

definition trim_dashes :: "gostring \<Rightarrow> gostring" where
  "trim_dashes s = rev (dropWhile (\<lambda>c. c = dash) (rev (dropWhile (\<lambda>c. c = dash) s)))"

definition sanitizeServiceID :: "(gostring \<Rightarrow> gostring) \<Rightarrow> gostring \<Rightarrow> gostring" where
  "sanitizeServiceID lower raw = trim_dashes (fold_id True (lower raw))"

definition joinServiceID :: "gostring \<Rightarrow> gostring \<Rightarrow> gostring" where
  "joinServiceID project svc = (if project = [] \<or> svc = [] then [] else project @ dash # svc)"

section \<open>Containers and ports\<close>

definition lbl :: "listed \<Rightarrow> gostring \<Rightarrow> gostring" where
  "lbl c k = label (container.truncate c) k"

definition zero_listed :: listed where
  "zero_listed =
    \<lparr>ct_id = [], ct_name = [], ct_image = [], ct_image_id = [], ct_state = [], ct_status = [],
     ct_ports = [], ct_labels = (\<lambda>_. None), ct_published = []\<rparr>"

definition findContainer :: "listed list \<Rightarrow> gostring \<Rightarrow> listed option" where
  "findContainer cs name = first_where (\<lambda>c. ct_name c = name) cs"

definition findContainerOr :: "listed list \<Rightarrow> gostring \<Rightarrow> listed" where
  "findContainerOr cs name = (case findContainer cs name of None \<Rightarrow> zero_listed | Some c \<Rightarrow> c)"

definition findServiceContainer :: "listed list \<Rightarrow> gostring \<Rightarrow> gostring \<Rightarrow> listed" where
  "findServiceContainer cs project service =
    (case first_where (\<lambda>c. lbl c LabelComposeProject = project \<and> lbl c LabelComposeService = service) cs of
       None \<Rightarrow> zero_listed | Some c \<Rightarrow> c)"

definition lowestPort :: "listed \<Rightarrow> int option" where
  "lowestPort c =
    (case map pp_host_port (ct_published c) of [] \<Rightarrow> None | p # ps \<Rightarrow> Some (foldl min p ps))"

definition lowestHostIP :: "listed \<Rightarrow> int \<Rightarrow> gostring" where
  "lowestHostIP c port =
    (case first_where (\<lambda>p. pp_host_port p = port) (ct_published c) of
       None \<Rightarrow> [] | Some p \<Rightarrow> pp_host_ip p)"

definition dialHost :: "gostring \<Rightarrow> gostring" where
  "dialHost ip = (if ip = [] \<or> ip = ''0.0.0.0'' \<or> ip = ''::'' then ''127.0.0.1'' else ip)"

text \<open>\<open>net.JoinHostPort\<close>: a host with a colon goes in brackets.\<close>

definition JoinHostPort :: "gostring \<Rightarrow> gostring \<Rightarrow> gostring" where
  "JoinHostPort host port =
    (if CHR '':'' \<in> set host then ''['' @ host @ '']:'' @ port else host @ '':'' @ port)"

definition host_port :: "listed \<Rightarrow> int \<Rightarrow> gostring" where
  "host_port c port = JoinHostPort (dialHost (lowestHostIP c port)) (itoa port)"

section \<open>Colour pairs\<close>

definition colorBase :: "gostring \<Rightarrow> gostring option" where
  "colorBase service =
    (case cut_suffix service colorBlueSuffix of
       Some b \<Rightarrow> Some b
     | None \<Rightarrow> cut_suffix service colorGreenSuffix)"

text \<open>The keys of the Go map, sorted.\<close>

definition project_services :: "listed list \<Rightarrow> gostring \<Rightarrow> gostring list" where
  "project_services cs project =
    sort (remdups (map (\<lambda>c. lbl c LabelComposeService)
      (filter (\<lambda>c. lbl c LabelComposeProject = project) cs)))"

definition paired :: "gostring list \<Rightarrow> gostring \<Rightarrow> gostring option" where
  "paired names service =
    (case colorBase service of
       None \<Rightarrow> None
     | Some b \<Rightarrow>
        (if b @ colorBlueSuffix \<in> set names \<and> b @ colorGreenSuffix \<in> set names then Some b else None))"

fun first_pair :: "gostring list \<Rightarrow> gostring list \<Rightarrow> gostring option" where
  "first_pair names [] = None"
| "first_pair names (s # ss) =
    (case paired names s of None \<Rightarrow> first_pair names ss | Some b \<Rightarrow> Some b)"

definition colorPair :: "listed list \<Rightarrow> gostring \<Rightarrow> gostring \<Rightarrow> gostring option" where
  "colorPair cs project svc =
    (if project = [] then None
     else let names = project_services cs project in
       (case paired names svc of Some b \<Rightarrow> Some b | None \<Rightarrow> first_pair names names))"

fun managedBy :: "'y outside_scheme \<Rightarrow> service list \<Rightarrow> gostring \<Rightarrow> gostring \<Rightarrow> gostring option" where
  "managedBy env [] project svc = None"
| "managedBy env (d # ds) project svc =
    (if svc_project d \<noteq> project then managedBy env ds project svc
     else case serviceNames env d of
       Inl _ \<Rightarrow> managedBy env ds project svc
     | Inr names \<Rightarrow> if svc \<in> set names then Some (svc_id d) else managedBy env ds project svc)"

section \<open>Drafts\<close>

datatype draft_note =
    NoProjectLabel | NoServiceLabel | NoDirLabel
  | FromLabels gostring gostring
  | IdAvailable gostring | NoIdCandidate | IdsTaken "gostring list"
  | NoHostPorts | NoAnswer int | Probed gostring
  | PairDetected gostring gostring
  | ColorNotRunning gostring gostring | ColorNoPort gostring
  | ColorProbed gostring gostring | ColorNoAnswer gostring int
  | ScanSkipped gostring | NoMarkerFound | MarkerFound gostring
  | ForkCutoverScript

record suggestion =
  sg_container :: gostring
  sg_id :: gostring
  sg_strategy :: gostring
  sg_project :: gostring
  sg_dir :: gostring
  sg_service :: gostring
  sg_health_url :: gostring
  sg_deploy_script :: gostring
  sg_rollback_script :: gostring
  sg_blue_service :: gostring
  sg_green_service :: gostring
  sg_blue_target :: gostring
  sg_green_target :: gostring
  sg_blue_url :: gostring
  sg_green_url :: gostring
  sg_nginx_conf :: gostring
  sg_marker :: gostring
  sg_confidence :: gostring
  sg_reasons :: "draft_note list"
  sg_warnings :: "draft_note list"

definition warn :: "draft_note \<Rightarrow> suggestion \<Rightarrow> suggestion" where
  "warn n d = d\<lparr>sg_warnings := sg_warnings d @ [n]\<rparr>"

definition reason :: "draft_note \<Rightarrow> suggestion \<Rightarrow> suggestion" where
  "reason n d = d\<lparr>sg_reasons := sg_reasons d @ [n]\<rparr>"

definition warn_if :: "bool \<Rightarrow> draft_note \<Rightarrow> suggestion \<Rightarrow> suggestion" where
  "warn_if b n d = (if b then warn n d else d)"

definition newDraft :: "gostring \<Rightarrow> listed \<Rightarrow> suggestion" where
  "newDraft name found =
    (let svc = lbl found LabelComposeService; project = lbl found LabelComposeProject;
         dir = lbl found LabelComposeWorkingDir;
         d0 = \<lparr>sg_container = name, sg_id = [], sg_strategy = [], sg_project = project, sg_dir = dir,
               sg_service = svc, sg_health_url = [], sg_deploy_script = [], sg_rollback_script = [],
               sg_blue_service = [], sg_green_service = [], sg_blue_target = [], sg_green_target = [],
               sg_blue_url = [], sg_green_url = [], sg_nginx_conf = [], sg_marker = [],
               sg_confidence = [], sg_reasons = [], sg_warnings = []\<rparr>;
         d1 = warn_if (dir = []) NoDirLabel (warn_if (svc = []) NoServiceLabel
               (warn_if (project = []) NoProjectLabel d0))
     in if project \<noteq> [] \<and> svc \<noteq> [] then reason (FromLabels project svc) d1 else d1)"

definition distinct_candidates :: "(gostring \<Rightarrow> gostring) \<Rightarrow> gostring \<Rightarrow> gostring \<Rightarrow> gostring list" where
  "distinct_candidates lower project svc =
    (let a = sanitizeServiceID lower project; b = sanitizeServiceID lower (joinServiceID project svc) in
     (if a = [] then [] else [a]) @ (if b = [] \<or> b = a then [] else [b]))"

fun first_free :: "gostring list \<Rightarrow> ('z world_scheme, err, gostring option) prog" where
  "first_free [] = ret None"
| "first_free (c # cs) =
    bindE (attempt (svc_get c)) (\<lambda>r.
     case r of
       Inr _ \<Rightarrow> first_free cs
     | Inl (ErrServiceNotFound _) \<Rightarrow> ret (Some c)
     | Inl _ \<Rightarrow> throw (ErrOther ''checking service id''))"

text \<open>The id, empty for none, and the warning.\<close>

definition draftServiceID ::
  "(gostring \<Rightarrow> gostring) \<Rightarrow> gostring \<Rightarrow> gostring \<Rightarrow> ('z world_scheme, err, gostring \<times> draft_note option) prog" where
  "draftServiceID lower project svc =
    (let candidates = distinct_candidates lower project svc in
     if candidates = [] then ret ([], Some NoIdCandidate)
     else bindE (first_free candidates) (\<lambda>r.
       case r of Some c \<Rightarrow> ret (c, None) | None \<Rightarrow> ret ([], Some (IdsTaken candidates))))"

section \<open>Probing\<close>

fun first_answer :: "(gostring \<Rightarrow> gostring + probe_result) \<Rightarrow> gostring list \<Rightarrow> gostring option" where
  "first_answer check [] = None"
| "first_answer check (u # us) =
    (case check u of
       Inl _ \<Rightarrow> first_answer check us
     | Inr r \<Rightarrow> if 200 \<le> status_code r \<and> status_code r \<le> 299 then Some u else first_answer check us)"

text \<open>The answering URL, if any, and the port tried (0 for none).\<close>

definition probeContainer ::
  "(gostring \<Rightarrow> gostring + probe_result) \<Rightarrow> listed \<Rightarrow> gostring option \<times> int" where
  "probeContainer check found =
    (case lowestPort found of
       None \<Rightarrow> (None, 0)
     | Some port \<Rightarrow>
        (let base = ''http://'' @ host_port found port in
         (first_answer check [base @ ''/'', base @ ''/health''], port)))"

definition draftRecreate ::
  "onboarding \<Rightarrow> (gostring \<Rightarrow> gostring + probe_result) \<Rightarrow> listed \<Rightarrow> suggestion \<Rightarrow> suggestion" where
  "draftRecreate ob check found d =
    (let d1 = d\<lparr>sg_strategy := StrategyRecreate,
                sg_deploy_script := path_join [ob_scripts_dir ob, ''recreate-deploy.sh''],
                sg_rollback_script := path_join [ob_scripts_dir ob, ''recreate-rollback.sh'']\<rparr>
     in case probeContainer check found of
          (None, port) \<Rightarrow> if ct_published found = [] then warn NoHostPorts d1 else warn (NoAnswer port) d1
        | (Some url, _) \<Rightarrow> reason (Probed url) (d1\<lparr>sg_health_url := url\<rparr>))"

section \<open>The nginx scan\<close>

definition port_mark :: "int \<Rightarrow> gostring" where "port_mark p = CHR '':'' # itoa p"

definition confHasMarker :: "gostring \<Rightarrow> int list \<Rightarrow> bool" where
  "confHasMarker conf ports \<longleftrightarrow>
    (\<exists>line\<in>set (split_char newline conf). contains line blueGreenMarker \<and>
      (\<exists>port\<in>set ports. contains line (port_mark port)))"

fun scan_files :: "onboarding \<Rightarrow> (gostring \<times> bool) list \<Rightarrow> gostring list \<Rightarrow> int list \<Rightarrow> gostring" where
  "scan_files ob entries [] ports = []"
| "scan_files ob entries (name # names) ports =
    (if map_of (rev entries) name \<noteq> Some False then scan_files ob entries names ports
     else let path = path_join [ob_nginx_dir ob, name] in
       case ob_read_file ob path of
         None \<Rightarrow> scan_files ob entries names ports
       | Some raw \<Rightarrow> if confHasMarker raw ports then path else scan_files ob entries names ports)"

text \<open>The entries are names with whether they are directories.\<close>

definition findNginxConf :: "onboarding \<Rightarrow> int list \<Rightarrow> gostring + gostring" where
  "findNginxConf ob ports =
    (if ports = [] then Inl ''no color ports to match''
     else case ob_read_dir ob (ob_nginx_dir ob) of
       None \<Rightarrow> Inl (''cannot read '' @ ob_nginx_dir ob)
     | Some entries \<Rightarrow> Inr (scan_files ob entries (sort (map fst entries)) ports))"

section \<open>Blue-green drafts\<close>

definition draftColorTarget ::
  "(gostring \<Rightarrow> gostring + probe_result) \<Rightarrow> listed \<Rightarrow> bool \<Rightarrow> suggestion \<Rightarrow> int option \<times> suggestion" where
  "draftColorTarget check found isBlue d =
    (let colour = (if isBlue then colorBlue else colorGreen);
         setTarget = (\<lambda>t d. if isBlue then d\<lparr>sg_blue_target := t\<rparr> else d\<lparr>sg_green_target := t\<rparr>);
         setURL = (\<lambda>u d. if isBlue then d\<lparr>sg_blue_url := u\<rparr> else d\<lparr>sg_green_url := u\<rparr>)
     in if ct_id found = [] then
          (None, warn (ColorNotRunning (if isBlue then sg_blue_service d else sg_green_service d) colour) d)
        else case lowestPort found of
          None \<Rightarrow> (None, warn (ColorNoPort colour) d)
        | Some port \<Rightarrow>
           (let d1 = setTarget (host_port found port) d in
            (Some port,
             case fst (probeContainer check found) of
               Some url \<Rightarrow> reason (ColorProbed colour url) (setURL url d1)
             | None \<Rightarrow> warn (ColorNoAnswer colour port) d1)))"

definition ports_of :: "int option \<Rightarrow> int option \<Rightarrow> int list" where
  "ports_of b g = (case b of None \<Rightarrow> [] | Some p \<Rightarrow> [p]) @ (case g of None \<Rightarrow> [] | Some p \<Rightarrow> [p])"

definition draftBlueGreen ::
  "onboarding \<Rightarrow> (gostring \<Rightarrow> gostring + probe_result) \<Rightarrow> listed list \<Rightarrow> gostring \<Rightarrow> gostring
    \<Rightarrow> suggestion \<Rightarrow> suggestion" where
  "draftBlueGreen ob check cs project base d =
    (let blue_name = base @ colorBlueSuffix; green_name = base @ colorGreenSuffix;
         d0 = reason (PairDetected blue_name green_name)
               (d\<lparr>sg_strategy := StrategyBlueGreen, sg_blue_service := blue_name,
                  sg_green_service := green_name, sg_marker := blueGreenMarker\<rparr>);
         (bluePort, d1) = draftColorTarget check (findServiceContainer cs project blue_name) True d0;
         (greenPort, d2) = draftColorTarget check (findServiceContainer cs project green_name) False d1;
         d3 = (case fst (probeContainer check (findContainerOr cs (sg_container d2))) of
                 Some url \<Rightarrow> reason (Probed url) (d2\<lparr>sg_health_url := url\<rparr>)
               | None \<Rightarrow> d2);
         d4 = (case findNginxConf ob (ports_of bluePort greenPort) of
                 Inl e \<Rightarrow> warn (ScanSkipped e) d3
               | Inr conf \<Rightarrow>
                  (if conf = [] then warn NoMarkerFound d3
                   else reason (MarkerFound conf) (d3\<lparr>sg_nginx_conf := conf\<rparr>)))
     in warn ForkCutoverScript d4)"

abbreviation ConfidenceHigh :: gostring where "ConfidenceHigh \<equiv> ''high''"
abbreviation ConfidenceMedium :: gostring where "ConfidenceMedium \<equiv> ''medium''"
abbreviation ConfidenceLow :: gostring where "ConfidenceLow \<equiv> ''low''"

definition confidence :: "suggestion \<Rightarrow> gostring \<Rightarrow> gostring \<Rightarrow> gostring \<Rightarrow> gostring" where
  "confidence d project svc dir =
    (if project = [] \<or> svc = [] \<or> dir = [] \<or> sg_id d = [] then ConfidenceLow
     else if sg_strategy d = StrategyBlueGreen \<and> sg_nginx_conf d = [] then ConfidenceLow
     else if sg_warnings d \<noteq> [] then ConfidenceMedium else ConfidenceHigh)"

section \<open>Suggest\<close>

text \<open>The draft of a found container whose id and id warning are known.\<close>

definition fill_draft ::
  "onboarding \<Rightarrow> (gostring \<Rightarrow> gostring + probe_result) \<Rightarrow> listed list \<Rightarrow> gostring \<Rightarrow> listed
    \<Rightarrow> gostring \<Rightarrow> draft_note option \<Rightarrow> suggestion" where
  "fill_draft ob check cs name found i warning =
    (let project = lbl found LabelComposeProject; svc = lbl found LabelComposeService;
         d = (newDraft name found)\<lparr>sg_id := i\<rparr>;
         d1 = (case warning of
                 Some n \<Rightarrow> warn n d
               | None \<Rightarrow> if i \<noteq> [] then reason (IdAvailable i) d else d);
         d2 = (case colorPair cs project svc of
                 Some base \<Rightarrow> draftBlueGreen ob check cs project base d1
               | None \<Rightarrow> draftRecreate ob check found d1)
     in d2\<lparr>sg_confidence := confidence d2 project svc (lbl found LabelComposeWorkingDir)\<rparr>)"

definition Suggest ::
  "(gostring \<Rightarrow> gostring) \<Rightarrow> 'y outside_scheme \<Rightarrow> onboarding \<Rightarrow> listed list option \<Rightarrow> gostring
    \<Rightarrow> ('z world_scheme, err, suggestion) prog" where
  "Suggest lower env ob listing name =
    andthen (guardE (name \<noteq> []) (ErrInvalidInput ''container query is required''))
   (bindE (of_option (ErrOther ''listing containers'') listing) (\<lambda>cs.
    bindE (of_option (ErrInvalidInput ''unknown container'') (findContainer cs name)) (\<lambda>found.
    bindE (map_error (\<lambda>_. ErrOther ''loading services'') svc_all) (\<lambda>defs.
    let project = lbl found LabelComposeProject; svc = lbl found LabelComposeService in
    andthen (guardE (project = [] \<or> svc = [] \<or> managedBy env defs project svc = None)
       (ErrConflict ''container already managed''))
   (bindE (draftServiceID lower project svc) (\<lambda>(i, warning).
     ret (fill_draft ob (os_check env) cs name found i warning)))))))"

section \<open>Create and Delete\<close>

record create_input =
  cin_id :: gostring
  cin_name :: gostring
  cin_strategy :: gostring
  cin_project :: gostring
  cin_dir :: gostring
  cin_config :: gostring

definition is_dir :: "host \<Rightarrow> gostring \<Rightarrow> bool" where
  "is_dir env path = (case os_stat env path of None \<Rightarrow> False | Some (dir, _) \<Rightarrow> dir)"

definition checkCreateInput :: "host \<Rightarrow> create_input \<Rightarrow> gostring \<Rightarrow> ('z world_scheme, err, unit) prog" where
  "checkCreateInput env input actor =
    andthen (guardE (actor \<noteq> []) (ErrInvalidInput ''actor is required''))
   (andthen (guardE (serviceIDPattern (cin_id input)) (ErrInvalidInput ''id''))
   (bindE (attempt (svc_get (cin_id input))) (\<lambda>r.
    case r of
      Inr _ \<Rightarrow> throw (ErrConflict ''service id already exists'')
    | Inl (ErrServiceNotFound _) \<Rightarrow>
       andthen (guardE (cin_strategy input = StrategyRecreate \<or> cin_strategy input = StrategyBlueGreen)
          (ErrInvalidInput ''strategy''))
      (andthen (guardE (cin_project input \<noteq> []) (ErrInvalidInput ''compose_project is required''))
      (andthen (guardE (cin_dir input \<noteq> []) (ErrInvalidInput ''compose_dir is required''))
       (guardE (is_dir env (cin_dir input)) (ErrInvalidInput ''compose_dir is not a directory''))))
    | Inl _ \<Rightarrow> throw (ErrOther ''checking service id''))))"

definition first_missing :: "(gostring \<times> gostring) list \<Rightarrow> gostring option" where
  "first_missing fs = map_option fst (first_where (\<lambda>(_, v). v = []) fs)"

definition require_executable :: "host \<Rightarrow> gostring \<Rightarrow> gostring \<Rightarrow> err + unit" where
  "require_executable env what path =
    (if checkExecutable env path then Inr () else Inl (ErrInvalidInput what))"

definition validateRecreateConfig :: "host \<Rightarrow> recreate_config \<Rightarrow> err + unit" where
  "validateRecreateConfig env cfg =
    (case first_missing [(''service'', rc_service cfg), (''health_url'', rc_health_url cfg),
            (''deploy_script'', rc_deploy_script cfg), (''rollback_script'', rc_rollback_script cfg)] of
       Some f \<Rightarrow> Inl (ErrInvalidInput f)
     | None \<Rightarrow>
        (case require_executable env ''deploy script'' (rc_deploy_script cfg) of
           Inl e \<Rightarrow> Inl e
         | Inr _ \<Rightarrow> require_executable env ''rollback script'' (rc_rollback_script cfg)))"

definition validateBlueGreenConfig :: "host \<Rightarrow> blue_green_config \<Rightarrow> err + unit" where
  "validateBlueGreenConfig env cfg =
    (case first_missing [(''blue_service'', bg_blue_service cfg), (''green_service'', bg_green_service cfg),
            (''blue_target'', bg_blue_target cfg), (''green_target'', bg_green_target cfg),
            (''blue_url'', bg_blue_url cfg), (''green_url'', bg_green_url cfg),
            (''nginx_conf'', bg_nginx_conf cfg), (''marker'', bg_marker cfg),
            (''cutover_script'', bg_cutover_script cfg)] of
       Some f \<Rightarrow> Inl (ErrInvalidInput f)
     | None \<Rightarrow>
        (case require_executable env ''cutover script'' (bg_cutover_script cfg) of
           Inl e \<Rightarrow> Inl e
         | Inr _ \<Rightarrow>
            (if bg_restore_script cfg \<noteq> [] then require_executable env ''restore script'' (bg_restore_script cfg)
             else Inr ())))"

definition validateConfig :: "host \<Rightarrow> gostring \<Rightarrow> gostring \<Rightarrow> err + unit" where
  "validateConfig env raw strategy =
    (if strategy = StrategyRecreate then
       (case decodeRecreate (os_json env) raw of
          None \<Rightarrow> Inl (ErrInvalidInput ''invalid recreate config'')
        | Some cfg \<Rightarrow> validateRecreateConfig env cfg)
     else if strategy = StrategyBlueGreen then
       (case decodeBlueGreen (os_json env) raw of
          None \<Rightarrow> Inl (ErrInvalidInput ''invalid blue-green config'')
        | Some cfg \<Rightarrow> validateBlueGreenConfig env cfg)
     else Inl (ErrInvalidInput ''strategy''))"

definition created_service :: "create_input \<Rightarrow> service" where
  "created_service input =
    \<lparr>svc_id = cin_id input, svc_name = (if cin_name input = [] then cin_id input else cin_name input),
     svc_strategy = cin_strategy input, svc_project = cin_project input, svc_dir = cin_dir input,
     svc_config = cin_config input\<rparr>"

definition create_audit :: "create_input \<Rightarrow> gostring \<Rightarrow> audit_record" where
  "create_audit input actor =
    \<lparr>ar_service = cin_id input, ar_actor = actor, ar_action = ''service_create'',
     ar_result = AuditSuccess, ar_detail = ''created with strategy '' @ cin_strategy input\<rparr>"

definition Onboarding_Create ::
  "host \<Rightarrow> instant \<Rightarrow> create_input \<Rightarrow> gostring \<Rightarrow> ('z world_scheme, err, gostring \<times> gostring) prog" where
  "Onboarding_Create env now input actor =
    andthen (checkCreateInput env input actor)
   (andthen (of_result (validateConfig env (cin_config input) (cin_strategy input)))
   (andthen (svc_create (created_service input))
   (andthen (audit_Record now (create_audit input actor))
     (ret (cin_id input, cin_strategy input)))))"

definition delete_audit :: "gostring \<Rightarrow> gostring \<Rightarrow> audit_record" where
  "delete_audit sid actor =
    \<lparr>ar_service = [], ar_actor = actor, ar_action = ''service_delete'', ar_result = AuditSuccess,
     ar_detail = ''deleted service '' @ sid\<rparr>"

text \<open>The errors of the stores and of the audit log are wrapped and keep their identity.\<close>

definition Onboarding_Delete ::
  "instant \<Rightarrow> gostring \<Rightarrow> gostring \<Rightarrow> ('z world_scheme, err, unit) prog" where
  "Onboarding_Delete now sid actor =
    andthen (guardE (actor \<noteq> []) (ErrInvalidInput ''actor is required''))
   (andthen (guardE (serviceIDPattern sid) (ErrInvalidInput ''id''))
   (andthen (svc_delete sid)
   (andthen (audit_Record now (delete_audit sid actor))
     (ret ()))))"

end
