(* ===== verification/Onboarding_Laws.thy ===== *)
theory Onboarding_Laws
  imports Onboarding
begin

text \<open>
  What the onboarding promises: the drafted ids are well formed and free, a draft of high
  confidence has an answering health URL, the nginx scan takes the first file on which the digits
  of a port occur, a creation is not atomic with its audit row, and a deletion takes the audit
  trail of the service with it.
\<close>

section \<open>Ids\<close>

lemma fold_id_chars: "list_all (\<lambda>c. id_char c \<or> c = dash) (fold_id b s)"
  by (induction b s rule: fold_id.induct) auto

lemma list_all_trim: "list_all P s \<Longrightarrow> list_all P (trim_dashes s)"
  unfolding trim_dashes_def by (auto simp: list_all_iff dest!: set_dropWhileD)

lemma sanitized_id:
  "sanitizeServiceID lower raw = [] \<or> serviceIDPattern (sanitizeServiceID lower raw)"
  by (auto simp: sanitizeServiceID_def serviceIDPattern_def intro: list_all_trim [OF fold_id_chars])

lemma candidates_valid: "c \<in> set (distinct_candidates lower p s) \<Longrightarrow> serviceIDPattern c"
  using sanitized_id [of lower] by (auto simp: distinct_candidates_def Let_def split: if_splits)

lemma svc_get_missing:
  "svc_get c w = (Inl (ErrServiceNotFound x), t) \<Longrightarrow> service_row c w = None"
  unfolding svc_get_def
  by (rule stmt_cases [of "ErrOther ''scanning service''" w])
    (auto simp: run_defs service_row_def split: option.splits)

lemma reading_first_free: "reading (first_free cs)"
  by (induction cs) (auto intro!: atomic_rules split: sum.split err.split)

lemma reading_draftServiceID: "reading (draftServiceID lower p s)"
  unfolding draftServiceID_def Let_def
  by (auto intro!: atomic_rules reading_first_free split: option.split)

lemma reading_Suggest: "reading (Suggest lower env ob listing name)"
  unfolding Suggest_def svc_all_def Let_def
  by (intro atomic_rules reading_draftServiceID; simp split: prod.split)

lemma first_free_free:
  "first_free cs w = (Inr (Some c), t) \<Longrightarrow> c \<in> set cs \<and> service_row c w = None"
proof (induction cs arbitrary: w)
  case (Cons x xs)
  obtain r u where g: "svc_get x w = (r, u)" by fastforce
  have u: "only_oracle w u" by (rule readingD [OF reading_svc_get g])
  have run: "(case r of Inr _ \<Rightarrow> first_free xs
     | Inl (ErrServiceNotFound _) \<Rightarrow> ret (Some x)
     | Inl _ \<Rightarrow> throw (ErrOther ''checking service id'')) u = (Inr (Some c), t)"
    using Cons.prems g by (simp add: attempt_def bindE_def)
  show ?case
  proof (cases r)
    case (Inr s)
    then show ?thesis using run Cons.IH [of u] u by (simp add: only_oracle_ex service_row_def)
      (auto simp: service_row_def)
  next
    case (Inl e)
    then obtain y where "e = ErrServiceNotFound y" "c = x"
      using run by (cases e) (auto simp: ret_def throw_def)
    then show ?thesis using svc_get_missing g Inl by simp
  qed
qed (simp add: ret_def)

lemma draftServiceID_free:
  assumes "draftServiceID lower p s w = (Inr (i, n), t)" and "i \<noteq> []"
  shows "serviceIDPattern i \<and> service_row i w = None \<and> n = None"
proof -
  have "first_free (distinct_candidates lower p s) w = (Inr (Some i), t) \<and> n = None"
    using assms by (auto simp: draftServiceID_def Let_def returned split: if_splits option.splits)
  then show ?thesis using first_free_free candidates_valid by blast
qed

section \<open>Confidence\<close>

lemma note_fields [simp]:
  "sg_warnings (warn n d) = sg_warnings d @ [n]" "sg_warnings (reason n d) = sg_warnings d"
  "sg_id (warn n d) = sg_id d" "sg_id (reason n d) = sg_id d"
  "sg_strategy (warn n d) = sg_strategy d" "sg_strategy (reason n d) = sg_strategy d"
  "sg_health_url (warn n d) = sg_health_url d" "sg_health_url (reason n d) = sg_health_url d"
  "sg_container (warn n d) = sg_container d" "sg_container (reason n d) = sg_container d"
  by (simp_all add: warn_def reason_def)

lemma draftColorTarget_keeps:
  "sg_id (snd (draftColorTarget check c b d)) = sg_id d"
  "sg_strategy (snd (draftColorTarget check c b d)) = sg_strategy d"
  by (simp_all add: draftColorTarget_def Let_def split: option.split)

lemma draftBlueGreen_fields:
  "sg_id (draftBlueGreen ob check cs p b d) = sg_id d"
  "sg_strategy (draftBlueGreen ob check cs p b d) = StrategyBlueGreen"
  "sg_warnings (draftBlueGreen ob check cs p b d) \<noteq> []"
  by (simp_all add: draftBlueGreen_def Let_def case_prod_beta draftColorTarget_keeps
      split: option.split sum.split)

lemma draftRecreate_fields:
  "sg_id (draftRecreate ob check c d) = sg_id d"
  "sg_strategy (draftRecreate ob check c d) = StrategyRecreate"
  by (simp_all add: draftRecreate_def Let_def split: prod.split option.split)

lemma draftRecreate_quiet:
  "sg_warnings (draftRecreate ob check c d) = [] \<Longrightarrow>
    fst (probeContainer check c) = Some (sg_health_url (draftRecreate ob check c d))"
  by (auto simp: draftRecreate_def Let_def split: prod.splits option.splits if_splits)

lemma first_answer_2xx:
  "first_answer check us = Some u \<Longrightarrow>
    u \<in> set us \<and> (\<exists>r. check u = Inr r \<and> 200 \<le> status_code r \<and> status_code r \<le> 299)"
  by (induction us) (auto split: sum.splits if_splits)

lemma probeContainer_answers:
  "fst (probeContainer check c) = Some u \<Longrightarrow>
    \<exists>r. check u = Inr r \<and> 200 \<le> status_code r \<and> status_code r \<le> 299"
  by (auto simp: probeContainer_def Let_def simp del: first_answer.simps split: option.splits
      dest!: first_answer_2xx)

lemma fill_draft_id: "sg_id (fill_draft ob check cs name c i n) = i"
  by (simp add: fill_draft_def Let_def draftBlueGreen_fields draftRecreate_fields split: option.split)

lemma confidence_high:
  "confidence d p s w = ConfidenceHigh \<longleftrightarrow>
    p \<noteq> [] \<and> s \<noteq> [] \<and> w \<noteq> [] \<and> sg_id d \<noteq> [] \<and> sg_warnings d = [] \<and>
    \<not> (sg_strategy d = StrategyBlueGreen \<and> sg_nginx_conf d = [])"
  by (simp add: confidence_def)

lemma fill_draft_high:
  assumes "sg_confidence (fill_draft ob check cs name c i n) = ConfidenceHigh"
  defines "d \<equiv> fill_draft ob check cs name c i n"
  shows "i \<noteq> [] \<and> sg_strategy d = StrategyRecreate \<and> sg_warnings d = [] \<and>
    (\<exists>r. check (sg_health_url d) = Inr r \<and> 200 \<le> status_code r \<and> status_code r \<le> 299)"
proof -
  let ?p = "lbl c LabelComposeProject" and ?s = "lbl c LabelComposeService"
  obtain d1 where d: "d = (let d2 = (case colorPair cs ?p ?s of
                 Some base \<Rightarrow> draftBlueGreen ob check cs ?p base d1
               | None \<Rightarrow> draftRecreate ob check c d1)
     in d2\<lparr>sg_confidence := confidence d2 ?p ?s (lbl c LabelComposeWorkingDir)\<rparr>)" and i: "sg_id d = i"
    using fill_draft_id unfolding d_def fill_draft_def Let_def by metis
  show ?thesis
  proof (cases "colorPair cs ?p ?s")
    case None
    let ?r = "draftRecreate ob check c d1"
    have c: "confidence ?r ?p ?s (lbl c LabelComposeWorkingDir) = ConfidenceHigh"
      and f: "sg_warnings d = sg_warnings ?r" "sg_health_url d = sg_health_url ?r"
        "sg_strategy d = StrategyRecreate" "sg_id d = sg_id ?r"
      using assms(1) unfolding d_def [symmetric] by (simp_all add: d None Let_def draftRecreate_fields)
    have "sg_warnings ?r = []" "sg_id ?r \<noteq> []" using c unfolding confidence_high by blast+
    then show ?thesis using f i draftRecreate_quiet probeContainer_answers by metis
  next
    case (Some b)
    then have "sg_warnings (draftBlueGreen ob check cs ?p b d1) = []"
      using assms(1) unfolding d_def [symmetric] by (simp add: d Let_def confidence_high)
    then show ?thesis using draftBlueGreen_fields by blast
  qed
qed

section \<open>What a draft promises\<close>

lemma svc_all_reads: "svc_all w = (r, t) \<Longrightarrow> only_oracle w t"
  by (rule readingD [of svc_all]) (simp_all add: svc_all_def reading_andthen)

lemma Suggest_draft:
  assumes "Suggest lower env ob listing name w = (Inr d, t)"
  shows "\<exists>cs c i n u. listing = Some cs \<and> findContainer cs name = Some c \<and>
    draftServiceID lower (lbl c LabelComposeProject) (lbl c LabelComposeService) u = (Inr (i, n), t) \<and>
    only_oracle w u \<and> d = fill_draft ob (os_check env) cs name c i n"
  using assms unfolding Suggest_def Let_def
  by (auto simp: returned) (blast dest: svc_all_reads)+

text \<open>C21: A draft changes nothing in the store.  The id it proposes is well formed and not in use; a
  draft of high confidence is a recreate draft with such an id, without warnings, whose health URL
  answered with a status of 2xx (a blue-green draft never gets that grade).\<close>

theorem Suggest_sound:
  assumes "Suggest lower env ob listing name w = (Inr d, t)"
  shows "only_oracle w t \<and>
    (sg_id d \<noteq> [] \<longrightarrow> serviceIDPattern (sg_id d) \<and> service_row (sg_id d) w = None) \<and>
    (sg_confidence d = ConfidenceHigh \<longrightarrow>
      sg_id d \<noteq> [] \<and> sg_strategy d = StrategyRecreate \<and> sg_warnings d = [] \<and>
      (\<exists>r. os_check env (sg_health_url d) = Inr r \<and> 200 \<le> status_code r \<and> status_code r \<le> 299))"
proof -
  obtain cs c i n u where run: "draftServiceID lower (lbl c LabelComposeProject)
      (lbl c LabelComposeService) u = (Inr (i, n), t)" "only_oracle w u"
    and d: "d = fill_draft ob (os_check env) cs name c i n"
    using Suggest_draft [OF assms] by blast
  have "service_row i u = service_row i w" using run(2) by (auto simp: only_oracle_ex service_row_def)
  then have "i \<noteq> [] \<Longrightarrow> serviceIDPattern i \<and> service_row i w = None"
    using draftServiceID_free [OF run(1)] by simp
  moreover have "sg_id d = i" by (simp add: d fill_draft_id)
  ultimately show ?thesis
    using readingD [OF reading_Suggest assms]
      fill_draft_high [of ob "os_check env" cs name c i n, folded d] by simp
qed

section \<open>The nginx scan\<close>

lemma confHasMarker_line:
  "line \<in> set (split_char newline conf) \<Longrightarrow> contains line blueGreenMarker \<Longrightarrow>
    contains line (port_mark p) \<Longrightarrow> p \<in> set ports \<Longrightarrow> confHasMarker conf ports"
  by (auto simp: confHasMarker_def)

lemma contains_prefix: "contains s (p @ q) \<Longrightarrow> contains s p"
  unfolding contains_iff by (metis append.assoc)

lemma marker_digits:
  assumes "line \<in> set (split_char newline conf)" "contains line blueGreenMarker"
    and "contains line (port_mark q)" "itoa q = itoa p @ digits"
  shows "confHasMarker conf [p]"
proof -
  have "contains line (port_mark p)"
    using contains_prefix [of line "port_mark p" digits] assms(3,4) by (simp add: port_mark_def)
  then show ?thesis using confHasMarker_line assms(1,2) by simp
qed

text \<open>The nginx scan compares the digits of a port as text.  Where the decimal text of another
  port starts with that of the asked port (80 and 8080), the file of that other service counts as a
  match and, coming first by name, hides the right file.\<close>

theorem nginx_conf_wrong_site:
  assumes "ob_read_dir ob (ob_nginx_dir ob) = Some [(other, False), (right, False)]"
    and "other < right"
    and "ob_read_file ob (path_join [ob_nginx_dir ob, other]) = Some conf"
    and "line \<in> set (split_char newline conf)" "contains line blueGreenMarker"
    and "contains line (port_mark q)" "itoa q = itoa p @ digits"
  shows "findNginxConf ob [p] = Inr (path_join [ob_nginx_dir ob, other])"
proof -
  have "confHasMarker conf [p]" by (rule marker_digits [OF assms(4-7)])
  moreover have "sort [other, right] = [other, right]" "right \<noteq> other" using assms(2) by auto
  ultimately show ?thesis
    by (simp add: findNginxConf_def assms(1,3) Let_def)
qed

definition two_sites :: onboarding where
  "two_sites =
    \<lparr>ob_scripts_dir = ''/s'', ob_nginx_dir = ''/n'',
     ob_read_dir = (\<lambda>_. Some [(''a'', False), (''b'', False)]),
     ob_read_file = (\<lambda>p. Some (if p = ''/n/a'' then ''server 127.0.0.1:8080; # BLUEGREEN-ACTIVE''
                               else ''server 127.0.0.1:80; # BLUEGREEN-ACTIVE''))\<rparr>"

lemma nginx_conf_wrong_site_witness: "findNginxConf two_sites [80] = Inr (path_join [''/n'', ''a''])"
proof -
  let ?line = "''server 127.0.0.1:8080; # BLUEGREEN-ACTIVE''"
  have d: "ob_nginx_dir two_sites = ''/n''" by (simp add: two_sites_def)
  have r: "ob_read_dir two_sites (ob_nginx_dir two_sites) = Some [(''a'', False), (''b'', False)]"
    by (simp add: two_sites_def)
  have j: "path_join [''/n'', ''a''] = ''/n/a''" by code_simp
  have f: "ob_read_file two_sites (path_join [ob_nginx_dir two_sites, ''a'']) = Some ?line"
    unfolding d j by (simp add: two_sites_def)
  have c: "?line \<in> set (split_char newline ?line)" "contains ?line blueGreenMarker"
    by code_simp+
  have i: "itoa 8080 = ''8080''" "itoa 80 = ''80''"
    by (simp_all add: itoa_def digit_char_def show_nat.simps [of 8080] show_nat.simps [of 808]
        show_nat.simps [of 80] show_nat.simps [of 8])
  have m: "contains ?line (CHR '':'' # ''8080'')" by code_simp
  have p: "contains ?line (port_mark 8080)" unfolding port_mark_def i by (rule m)
  have e: "itoa 8080 = itoa 80 @ ''80''" unfolding i by simp
  have o: "''a'' < ''b''" by simp
  show ?thesis
    using nginx_conf_wrong_site [OF r o f c p e] unfolding d .
qed

section \<open>Create and Delete\<close>

text \<open>What the validation of a creation asks for, the row being accepted by the schema.\<close>

definition creatable :: "host \<Rightarrow> create_input \<Rightarrow> gostring \<Rightarrow> 'z world_scheme \<Rightarrow> bool" where
  "creatable env input actor w \<longleftrightarrow>
    actor \<noteq> [] \<and> serviceIDPattern (cin_id input) \<and>
    cin_strategy input \<in> {StrategyRecreate, StrategyBlueGreen} \<and>
    cin_project input \<noteq> [] \<and> cin_dir input \<noteq> [] \<and> is_dir env (cin_dir input) \<and>
    validateConfig env (cin_config input) (cin_strategy input) = Inr () \<and>
    svc_insert_ok (created_service input) w"

definition with_service :: "service \<Rightarrow> 'z world_scheme \<Rightarrow> 'z world_scheme" where
  "with_service svc w = w\<lparr>services := services w @ [svc]\<rparr>"

lemma created_id: "svc_id (created_service input) = cin_id input"
  by (simp add: created_service_def)

lemma creatable_free: "creatable env input actor w \<Longrightarrow> service_row (cin_id input) w = None"
  by (auto simp: creatable_def svc_insert_ok_def service_row_def created_id)

lemma creatable_blind: "creatable env input actor (w\<lparr>faults := fs\<rparr>) = creatable env input actor w"
  by (simp add: creatable_def svc_insert_ok_def)

lemma row_with_service:
  "service_row (svc_id svc) w = None \<Longrightarrow> service_row (svc_id svc) (with_service svc w) = Some svc"
  by (simp add: service_row_def with_service_def first_where_append first_where_None [THEN iffD2])

lemma create_audit_valid: "creatable env input actor w \<Longrightarrow> audit_valid (create_audit input actor)"
  by (simp add: creatable_def audit_valid_def create_audit_def audit_actions_def)

lemma serviceIDPattern_nonempty: "serviceIDPattern s \<Longrightarrow> s \<noteq> []"
  by (simp add: serviceIDPattern_def)

lemma checkCreateInput_run:
  assumes "creatable env input actor w" and "faults w = [] \<or> (\<exists>fs. faults w = False # fs)"
  shows "checkCreateInput env input actor w = (Inr (), w\<lparr>faults := tl (faults w)\<rparr>)"
proof -
  have "service_row (cin_id input) (w\<lparr>faults := fs\<rparr>) = None" for fs
    using creatable_free [OF assms(1)] by (simp add: service_row_def)
  then show ?thesis
    using assms creatable_free [OF assms(1)]
    by (auto simp: checkCreateInput_def creatable_def svc_get_def run_defs split: list.splits)
qed

text \<open>The creation, once the validation is passed.\<close>

lemma Create_run:
  assumes "creatable env input actor w" and "faults w = [] \<or> (\<exists>fs. faults w = False # fs)"
  shows "Onboarding_Create env now input actor w =
    andthen (svc_create (created_service input))
     (andthen (audit_Record now (create_audit input actor)) (ret (cin_id input, cin_strategy input)))
     (w\<lparr>faults := tl (faults w)\<rparr>)"
proof -
  have "validateConfig env (cin_config input) (cin_strategy input) = Inr ()"
    using assms(1) by (simp add: creatable_def)
  then show ?thesis
    unfolding Onboarding_Create_def
    by (simp add: andthen_def bindE_def checkCreateInput_run [OF assms] of_result_def ret_def)
qed

lemma svc_create_run:
  assumes "svc_insert_ok svc w" and "faults w = [] \<or> (\<exists>fs. faults w = False # fs)"
  shows "svc_create svc w = (Inr (), (with_service svc w)\<lparr>faults := tl (faults w)\<rparr>)"
  using assms by (auto simp: svc_create_def run_defs with_service_def svc_insert_ok_def split: list.splits)

lemma Create_quiet:
  assumes ok: "creatable env input actor w" and q: "faults w = []" and now: "\<not> is_zero_time now"
  shows "Onboarding_Create env now input actor w =
    (Inr (cin_id input, cin_strategy input),
     with_audit (audit_entry now (create_audit input actor)) (with_service (created_service input) w))"
proof -
  let ?s = "created_service input"
  let ?w = "with_service ?s w"
  have "svc_create ?s w = (Inr (), ?w\<lparr>faults := []\<rparr>)"
    using svc_create_run [of ?s w] ok q by (simp add: creatable_def)
  moreover have "?w\<lparr>faults := []\<rparr> = ?w" using q by (simp add: with_service_def)
  moreover have "audit_service_known (create_audit input actor) ?w"
    using row_with_service [of ?s w] creatable_free [OF ok]
    by (simp add: audit_service_known_def create_audit_def created_id)
  then have "audit_Record now (create_audit input actor) ?w =
      (Inr (seq (audits ?w) + 1), with_audit (audit_entry now (create_audit input actor)) ?w)"
    using audit_Record_quiet [OF _ create_audit_valid [OF ok] _ now, of ?w]
    by (simp add: with_service_def q)
  moreover have "w = w\<lparr>faults := []\<rparr>" using q by (metis sqldb.surjective sqldb.update_convs(1))
  ultimately have "svc_create ?s (w\<lparr>faults := []\<rparr>) = (Inr (), ?w)"
    "audit_Record now (create_audit input actor) ?w =
      (Inr (seq (audits ?w) + 1), with_audit (audit_entry now (create_audit input actor)) ?w)"
    by argo+
  then show ?thesis
    by (simp add: Create_run [OF ok] q andthen_def bindE_def ret_def)
qed

lemma Create_taken:
  assumes "service_row (cin_id input) w \<noteq> None"
  shows "\<exists>e. fst (Onboarding_Create env now input actor w) = Inl e"
proof -
  obtain r where r: "service_row (cin_id input) w = Some r" using assms by blast
  obtain x u where x: "svc_get (cin_id input) w = (x, u)" by fastforce
  have "x = Inl (ErrOther ''scanning service'') \<or> x = Inr r"
    using x r by (auto simp: svc_get_def run_defs service_row_def split: list.splits if_splits)
  then have "\<exists>e t. checkCreateInput env input actor w = (Inl e, t)"
    by (auto simp: checkCreateInput_def andthen_def bindE_def guardE_def ret_def throw_def attempt_def x)
  then show ?thesis by (auto simp: Onboarding_Create_def andthen_def bindE_def)
qed

text \<open>A creation is not atomic with its audit entry.  When the store refuses the statement after
  the insert, the creation returns an error and the service row stays, without any audit entry, and
  every retry with that id is refused.\<close>

theorem Create_half_done:
  assumes "creatable env input actor w" and "faults w = False # False # True # fs"
  shows "\<exists>e t. Onboarding_Create env now input actor w = (Inl e, t) \<and>
    services t = services w @ [created_service input] \<and> audits t = audits w \<and>
    (\<exists>e'. fst (Onboarding_Create env now' input actor' t) = Inl e')"
proof -
  let ?s = "created_service input"
  let ?t = "(with_service ?s w)\<lparr>faults := fs\<rparr>"
  have insert: "svc_insert_ok ?s (w\<lparr>faults := False # True # fs\<rparr>)"
    using assms(1) by (simp add: creatable_def svc_insert_ok_def)
  have create: "svc_create ?s (w\<lparr>faults := False # True # fs\<rparr>) =
      (Inr (), (with_service ?s w)\<lparr>faults := True # fs\<rparr>)"
    using svc_create_run [OF insert] by (simp add: with_service_def)
  have "cin_id input \<noteq> []" using assms(1) by (simp add: creatable_def serviceIDPattern_def)
  then have audit: "audit_Record now (create_audit input actor) ((with_service ?s w)\<lparr>faults := True # fs\<rparr>) =
      (Inl (ErrOther ''scanning service''), ?t)"
    by (simp add: audit_Record_def create_audit_def svc_get_def run_defs)
  have run: "Onboarding_Create env now input actor w = (Inl (ErrOther ''scanning service''), ?t)"
    by (simp add: Create_run [OF assms(1)] assms(2) andthen_def bindE_def create audit)
  have "service_row (cin_id input) ?t \<noteq> None"
    using row_with_service [of ?s w] creatable_free [OF assms(1)]
    by (simp add: created_id service_row_def)
  then show ?thesis using run Create_taken by (fastforce simp: with_service_def)
qed

text \<open>C23: A creation followed by a deletion of the same service leaves the store as it was before, apart
  from one audit entry without a service that names the deletion: the entry of the creation goes
  with the service.\<close>

theorem Create_then_Delete:
  assumes "creatable env input actor w" and "world_ok w" and "faults w = []"
    and "\<not> is_zero_time now" and "\<not> is_zero_time now'" and "actor' \<noteq> []"
  shows "\<exists>t. Onboarding_Create env now input actor w = (Inr (cin_id input, cin_strategy input), t) \<and>
    Onboarding_Delete now' (cin_id input) actor' t =
      (Inr (), with_audit (audit_entry now' (delete_audit (cin_id input) actor'))
        (w\<lparr>audits := (audits w)\<lparr>seq := seq (audits w) + 1\<rparr>\<rparr>))"
proof -
  let ?s = "created_service input" and ?i = "cin_id input"
  let ?a = "audit_entry now (create_audit input actor)"
  let ?t = "with_audit ?a (with_service ?s w)"
  let ?u = "w\<lparr>audits := (audits w)\<lparr>seq := seq (audits w) + 1\<rparr>\<rparr>"
  have free: "\<not> has_service ?i w"
    using creatable_free [OF assms(1)] by (auto simp: has_service_def service_row_def)
  have refs: "refs_ok w" using assms(2) by (simp add: world_ok_def)
  have kids: "\<forall>p\<in>set (child_rows w). snd p \<noteq> ?i" using refs free by (auto simp: refs_ok_def)
  have known: "schema_children w" using refs by (simp add: refs_ok_def schema_children_def)
  have id: "?i \<noteq> []" "au_service ?a = Some ?i" "serviceIDPattern ?i"
    using assms(1) by (auto simp: creatable_def serviceIDPattern_def audit_entry_def create_audit_def)
  have deleted: "deleted_service ?i ?t = ?u"
  proof -
    have "services w = filter (\<lambda>r. svc_id r \<noteq> ?i) (services w)"
      using free by (auto simp: has_service_def intro!: filter_True [symmetric])
    moreover have "rows (audits w) = filter (\<lambda>r. au_service r \<noteq> Some ?i) (rows (audits w))"
      using refs free by (auto simp: refs_ok_def intro!: filter_True [symmetric])
    moreover have "filter (\<lambda>r. pr_service r \<noteq> ?i) (rows (probes w)) = rows (probes w)"
      using refs free by (auto simp: refs_ok_def intro!: filter_True)
    moreover have "filter (\<lambda>r. dp_service r \<noteq> ?i) (rows (deploys w)) = rows (deploys w)"
      using refs free by (auto simp: refs_ok_def intro!: filter_True)
    moreover have "filter (\<lambda>r. nt_service r \<noteq> ?i) (rows (notifications w)) = rows (notifications w)"
      using refs free id(1) by (force simp: refs_ok_def intro!: filter_True)
    moreover have "child_rows (without_children ?i ?t) = child_rows w"
      using kids by (auto simp: without_children_rows with_audit_def with_service_def intro!: filter_True)
    ultimately show ?thesis
      by (intro world.equality)
        (simp_all add: deleted_service_def without_children_fields without_children_rest with_audit_def
          with_service_def table_defs id(2) created_id)
  qed
  have del: "svc_delete ?i ?t = (Inr (), ?u)"
    using svc_delete_quiet [of ?t ?i] known assms(3)
    by (simp add: deleted)
      (simp add: with_audit_def with_service_def has_service_def created_id schema_children_def)
  have "audit_Record now' (delete_audit ?i actor') ?u =
      (Inr (seq (audits ?u) + 1), with_audit (audit_entry now' (delete_audit ?i actor')) ?u)"
    by (rule audit_Record_quiet)
      (use assms(3,5,6) in \<open>simp_all add: audit_valid_def delete_audit_def audit_actions_def audit_service_known_def\<close>)
  then have "Onboarding_Delete now' ?i actor' ?t =
      (Inr (), with_audit (audit_entry now' (delete_audit ?i actor')) ?u)"
    using assms(6) id(3)
    by (simp add: Onboarding_Delete_def quiet_steps andthen_run [where m = "svc_delete ?i" and w = ?t, OF del]) (simp add: andthen_def bindE_def ret_def)
  then show ?thesis using Create_quiet [OF assms(1,3,4)] by blast
qed

section \<open>Witnesses\<close>

definition sample_recreate :: recreate_config where
  "sample_recreate =
    \<lparr>rc_service = ''api'', rc_health_url = ''u'', rc_public_url = [], rc_deploy_script = ''/d/go'',
     rc_rollback_script = ''/d/back''\<rparr>"

text \<open>Directory \<open>/d\<close>, everything else an executable file; every URL answers.\<close>

definition sample_host :: host where
  "sample_host =
    \<lparr>os_json = (\<lambda>_. Some (recreate_json sample_recreate)), os_file = (\<lambda>_. None),
     os_check = (\<lambda>_. Inr \<lparr>healthy = True, status_code = 200\<rparr>),
     os_stat = (\<lambda>p. Some (p = ''/d'', 493))\<rparr>"

definition sample_input :: create_input where
  "sample_input =
    \<lparr>cin_id = ''shop'', cin_name = [], cin_strategy = StrategyRecreate, cin_project = ''shop'',
     cin_dir = ''/d'', cin_config = ''{}''\<rparr>"

lemma sample_creatable: "creatable sample_host sample_input ''ada'' (empty_world\<lparr>faults := fs\<rparr>)"
proof -
  have "decodeRecreate (os_json sample_host) (cin_config sample_input) = Some sample_recreate"
    by (rule recreate_roundtrip) (simp add: sample_host_def)
  moreover have "checkExecutable sample_host ''/d/go''" "checkExecutable sample_host ''/d/back''"
    by (simp_all add: checkExecutable_def sample_host_def)
  ultimately have "validateConfig sample_host (cin_config sample_input) (cin_strategy sample_input) = Inr ()"
    by (simp add: validateConfig_def validateRecreateConfig_def sample_recreate_def sample_input_def
        first_missing_def require_executable_def)
  moreover have "serviceIDPattern ''shop''" by code_simp
  moreover have "is_dir sample_host ''/d''" by (simp add: is_dir_def sample_host_def)
  ultimately show ?thesis
    by (simp add: creatable_def sample_input_def svc_insert_ok_def created_service_def empty_world_def)
qed

lemma Create_half_done_witness:
  "\<exists>e t. Onboarding_Create sample_host 5 sample_input ''ada''
        (empty_world\<lparr>faults := [False, False, True]\<rparr>) = (Inl e, t) \<and>
      services t = [created_service sample_input] \<and> audits t = empty_table"
  using Create_half_done [OF sample_creatable, of "[False, False, True]" "[]" 5]
  by (simp add: empty_world_def) blast

lemma Create_then_Delete_witness:
  "\<exists>t. Onboarding_Create sample_host 5 sample_input ''ada'' empty_world = (Inr (''shop'', ''recreate''), t) \<and>
    Onboarding_Delete 6 ''shop'' ''bob'' t =
      (Inr (), with_audit (audit_entry 6 (delete_audit ''shop'' ''bob''))
        (empty_world\<lparr>audits := \<lparr>rows = [], seq = 1\<rparr>\<rparr>))"
proof -
  have c: "creatable sample_host sample_input ''ada'' empty_world"
    using sample_creatable [of "[]"] by (simp add: empty_world_def)
  have e: "world_ok empty_world" "faults empty_world = []"
    "\<not> is_zero_time 5" "\<not> is_zero_time 6" "''bob'' \<noteq> []"
    by (simp_all add: world_inv_defs empty_world_def empty_table_def table_ok_def is_zero_time_def zero_time_def)
  have a: "audits empty_world = \<lparr>rows = [], seq = 0\<rparr>" by (simp add: empty_world_def empty_table_def)
  have f: "cin_id sample_input = ''shop''" "cin_strategy sample_input = ''recreate''"
    by (simp_all add: sample_input_def)
  show ?thesis using Create_then_Delete [OF c e] unfolding f a by simp
qed

definition sample_container :: listed where
  "sample_container =
    zero_listed\<lparr>ct_id := ''c1'', ct_name := ''shop-api-1'',
      ct_labels := [LabelComposeProject \<mapsto> ''shop'', LabelComposeService \<mapsto> ''api'',
        LabelComposeWorkingDir \<mapsto> ''/d''],
      ct_published := [\<lparr>pp_host_ip = ''0.0.0.0'', pp_host_port = 80, pp_container_port = 80,
        pp_proto = ''tcp''\<rparr>]\<rparr>"

lemma sample_labels:
  "lbl sample_container LabelComposeProject = ''shop''"
  "lbl sample_container LabelComposeService = ''api''"
  "lbl sample_container LabelComposeWorkingDir = ''/d''"
  by (simp_all add: lbl_def label_def sample_container_def container.truncate_def)

lemma sample_probe: "fst (probeContainer (os_check sample_host) sample_container) \<noteq> None"
  by (simp add: probeContainer_def sample_container_def lowestPort_def sample_host_def Let_def)

lemma sample_unpaired: "colorPair [sample_container] ''shop'' ''api'' = None"
  by (simp add: colorPair_def project_services_def sample_labels paired_def colorBase_def cut_suffix_def
      has_suffix_def has_prefix_def Let_def)

lemma Suggest_sound_witness:
  "\<exists>d t. Suggest (map ascii_lower) sample_host two_sites (Some [sample_container]) ''shop-api-1'' empty_world
      = (Inr d, t) \<and> sg_id d = ''shop'' \<and> serviceIDPattern (sg_id d) \<and> sg_confidence d = ConfidenceHigh"
proof -
  let ?d = "fill_draft two_sites (os_check sample_host) [sample_container] ''shop-api-1'' sample_container
    ''shop'' None"
  have i: "distinct_candidates (map ascii_lower) ''shop'' ''api'' = [''shop'', ''shop-api'']" by code_simp
  have "svc_all empty_world = (Inr [], empty_world)"
    "first_free [''shop'', ''shop-api''] empty_world = (Inr (Some ''shop''), empty_world)"
    by (simp_all add: svc_all_def svc_get_def run_defs empty_world_def service_row_def)
  then have "Suggest (map ascii_lower) sample_host two_sites (Some [sample_container]) ''shop-api-1''
      empty_world = (Inr ?d, empty_world)"
    by (simp add: Suggest_def findContainer_def sample_labels run_defs draftServiceID_def i Let_def)
       (simp add: sample_container_def)
  note run = this
  obtain u p where u: "probeContainer (os_check sample_host) sample_container = (Some u, p)"
    using sample_probe by (cases "probeContainer (os_check sample_host) sample_container") auto
  have i: "sg_id ?d = ''shop''" by (rule fill_draft_id)
  moreover have "sg_confidence ?d = ConfidenceHigh"
    by (simp add: fill_draft_def sample_labels sample_unpaired draftRecreate_def u confidence_high Let_def
        newDraft_def warn_if_def)
  moreover have "serviceIDPattern (sg_id ?d)" using Suggest_sound [OF run] unfolding i by blast
  ultimately show ?thesis using run by blast
qed

end
