(* ===== verification/Duration_Parse.thy ===== *)
theory Duration_Parse
  imports Go_Strings
begin

text \<open>
  The parsers of Go's standard library which the configuration uses: \<open>time.ParseDuration\<close> with its
  overflow checks, \<open>strconv.ParseBool\<close> and the verdict of \<open>net.SplitHostPort\<close>.  The fraction of a
  number is multiplied with its unit in \<open>float64\<close>: that product, rounded towards zero, is the
  parameter \<open>frac\<close> (of the digits, the number of digits and the unit).
\<close>

type_synonym frac_fun = "nat \<Rightarrow> nat \<Rightarrow> nat \<Rightarrow> nat"

definition two63 :: nat where "two63 = 9223372036854775808"

lemma two63_pos [simp]: "0 < two63"
  by (simp add: two63_def)

text \<open>\<open>leadingInt\<close>: the value of the leading digits and the rest, or an overflow.\<close>

fun leading_int :: "nat \<Rightarrow> gostring \<Rightarrow> (nat \<times> gostring) option" where
  "leading_int x [] = Some (x, [])"
| "leading_int x (c # cs) =
    (if \<not> is_digit c then Some (x, c # cs)
     else if x > two63 div 10 then None
     else let y = x * 10 + digit_val c in if y > two63 then None else leading_int y cs)"

text \<open>\<open>leadingFraction\<close>: the value of the leading digits, how many of them count, and the rest; the
  digits after an overflow are dropped.\<close>

fun leading_fraction :: "bool \<Rightarrow> nat \<Rightarrow> nat \<Rightarrow> gostring \<Rightarrow> nat \<times> nat \<times> gostring" where
  "leading_fraction over x k [] = (x, k, [])"
| "leading_fraction over x k (c # cs) =
    (if \<not> is_digit c then (x, k, c # cs)
     else if over \<or> x > (two63 - 1) div 10 then leading_fraction True x k cs
     else let y = x * 10 + digit_val c in
       if y > two63 then leading_fraction True x k cs else leading_fraction False y (k + 1) cs)"

definition unit_map :: "gostring \<Rightarrow> nat option" where
  "unit_map u =
    (if u = ''ns'' then Some 1
     else if u = ''us'' \<or> u = [CHR 0xC2, CHR 0xB5, CHR ''s''] \<or> u = [CHR 0xCE, CHR 0xBC, CHR ''s'']
     then Some 1000
     else if u = ''ms'' then Some 1000000
     else if u = ''s'' then Some 1000000000
     else if u = ''m'' then Some (60 * 1000000000)
     else if u = ''h'' then Some (3600 * 1000000000)
     else None)"

definition number_char :: "char \<Rightarrow> bool" where "number_char c \<longleftrightarrow> c = CHR ''.'' \<or> is_digit c"

text \<open>One group of a number and a unit: its nanoseconds and the rest.\<close>

definition fraction_part :: "gostring \<Rightarrow> nat \<times> nat \<times> bool \<times> gostring" where
  "fraction_part s =
    (case s of
       [] \<Rightarrow> (0, 0, False, [])
     | c # cs \<Rightarrow>
        (if c = CHR ''.'' then
           (let (f, k, r) = leading_fraction False 0 0 cs in (f, k, length r \<noteq> length cs, r))
         else (0, 0, False, s)))"

definition duration_group :: "frac_fun \<Rightarrow> gostring \<Rightarrow> (nat \<times> gostring) option" where
  "duration_group fraction s =
    (if s = [] \<or> \<not> number_char (hd s) then None
     else case leading_int 0 s of
       None \<Rightarrow> None
     | Some (v, s1) \<Rightarrow>
        (let (f, k, post, s2) = fraction_part s1; u = takeWhile (\<lambda>c. \<not> number_char c) s2 in
         if length s1 = length s \<and> \<not> post then None
         else if u = [] then None
         else case unit_map u of
           None \<Rightarrow> None
         | Some un \<Rightarrow>
            (if v > two63 div un then None
             else let w = v * un + (if f > 0 then fraction f k un else 0) in
               if f > 0 \<and> w > two63 then None
               else Some (w, dropWhile (\<lambda>c. \<not> number_char c) s2))))"

lemma leading_int_shorter: "leading_int x s = Some (v, r) \<Longrightarrow> length r \<le> length s"
  by (induction x s rule: leading_int.induct) (auto simp: Let_def split: if_splits)

lemma leading_fraction_shorter: "leading_fraction b x k s = (f, j, r) \<Longrightarrow> length r \<le> length s"
  by (induction b x k s rule: leading_fraction.induct) (auto simp: Let_def split: if_splits)

lemma fraction_part_shorter: "fraction_part s = (f, k, p, r) \<Longrightarrow> length r \<le> length s"
  by (auto simp: fraction_part_def split: list.splits if_splits prod.splits dest!: leading_fraction_shorter)

lemma drop_unit_shorter:
  "takeWhile P s \<noteq> [] \<Longrightarrow> length (dropWhile P s) < length s"
  by (metis add_less_cancel_right length_append length_greater_0_conv less_add_same_cancel2
      takeWhile_dropWhile_id)

lemma duration_group_shorter: "duration_group fraction s = Some (w, r) \<Longrightarrow> length r < length s"
  unfolding duration_group_def Let_def
  by (auto split: option.splits prod.splits if_splits dest!: leading_int_shorter fraction_part_shorter
      drop_unit_shorter)

function duration_groups :: "frac_fun \<Rightarrow> nat \<Rightarrow> gostring \<Rightarrow> nat option" where
  "duration_groups fraction d s =
    (if s = [] then Some d
     else case duration_group fraction s of
       None \<Rightarrow> None
     | Some (w, r) \<Rightarrow> if d + w > two63 then None else duration_groups fraction (d + w) r)"
  by pat_completeness auto
termination by (relation "measure (\<lambda>(_, _, s). length s)") (auto dest: duration_group_shorter)

declare duration_groups.simps [simp del]

definition ParseDuration :: "frac_fun \<Rightarrow> gostring \<Rightarrow> duration option" where
  "ParseDuration fraction s0 =
    (let signed = (s0 \<noteq> [] \<and> (hd s0 = CHR ''-'' \<or> hd s0 = CHR ''+''));
         neg = (s0 \<noteq> [] \<and> hd s0 = CHR ''-'');
         s = (if signed then tl s0 else s0)
     in if s = ''0'' then Some 0
        else if s = [] then None
        else case duration_groups fraction 0 s of
          None \<Rightarrow> None
        | Some d \<Rightarrow>
           (if neg then Some (- int d) else if d > two63 - 1 then None else Some (int d)))"

lemma duration_groups_bound: "duration_groups fraction d s = Some e \<Longrightarrow> d \<le> two63 \<Longrightarrow> e \<le> two63"
proof (induction fraction d s rule: duration_groups.induct)
  case (1 fraction d s)
  then show ?case
    unfolding duration_groups.simps [of fraction d s]
    by (auto split: if_splits option.splits prod.splits)
qed

lemma ParseDuration_fits: "ParseDuration fraction s = Some d \<Longrightarrow> fits_int64 d"
  by (auto simp: ParseDuration_def Let_def int64_defs two63_def split: if_splits option.splits
      dest!: duration_groups_bound)

section \<open>Whole numbers of one unit\<close>

lemma leading_int_digits:
  assumes "list_all is_digit ds" and "r = [] \<or> \<not> is_digit (hd r)"
  shows "leading_int x (ds @ r) =
    (let v = foldl (\<lambda>n c. n * 10 + digit_val c) x ds in
     if ds = [] \<or> v \<le> two63 then Some (v, r) else None)"
  using assms(1)
proof (induction ds arbitrary: x)
  case Nil
  then show ?case using assms(2) by (cases r) auto
next
  case (Cons c cs)
  have grow: "x \<le> foldl (\<lambda>n c. n * 10 + digit_val c) x cs" for x
  proof (induction cs arbitrary: x)
    case (Cons a cs)
    have "x \<le> x * 10 + digit_val a" by simp
    also have "\<dots> \<le> foldl (\<lambda>n c. n * 10 + digit_val c) (x * 10 + digit_val a) cs" by (rule Cons.IH)
    finally show ?case by simp
  qed simp
  let ?y = "x * 10 + digit_val c"
  show ?case
  proof (cases "x > two63 div 10")
    case True
    then have "two63 < ?y" by (simp add: two63_def)
    then show ?thesis using True Cons.prems grow [of ?y] by (simp add: Let_def)
  next
    case False
    then show ?thesis using Cons grow [of ?y]
      by (cases cs) (auto simp: Let_def)
  qed
qed

definition plain_unit :: "gostring \<Rightarrow> bool" where
  "plain_unit u \<longleftrightarrow> unit_map u \<noteq> None"

lemma unit_chars: "unit_map u = Some un \<Longrightarrow> u \<noteq> [] \<and> list_all (\<lambda>c. \<not> number_char c) u \<and> 0 < un"
  by (auto simp: unit_map_def number_char_def is_digit_def split: if_splits)

lemma parse_group:
  assumes "unit_map u = Some un"
  shows "duration_group fraction (show_nat n @ u) = (if n * un \<le> two63 then Some (n * un, []) else None)"
proof -
  have u: "u \<noteq> []" "list_all (\<lambda>c. \<not> number_char c) u" "0 < un" using unit_chars [OF assms] by auto
  then obtain c cs where cs: "u = c # cs" "\<not> number_char c" by (cases u) auto
  obtain d ds where ds: "show_nat n = d # ds" "is_digit d" using show_nat_head by blast
  let ?s = "show_nat n @ u"
  have lead: "leading_int 0 ?s = (if n \<le> two63 then Some (n, u) else None)"
    using leading_int_digits [of "show_nat n" u 0] show_nat_digits [of n] cs digits_val_show_nat [of n]
    by (simp add: digits_val_def Let_def number_char_def)
  have fraction: "fraction_part u = (0, 0, False, u)"
    using cs by (simp add: fraction_part_def number_char_def)
  have split: "takeWhile (\<lambda>c. \<not> number_char c) u = u" "dropWhile (\<lambda>c. \<not> number_char c) u = []"
    using u(2) by (auto simp: list_all_iff)
  have over: "n > two63 div un \<longleftrightarrow> two63 < n * un"
    using u(3) by (simp add: div_less_iff_less_mult mult.commute)
  have le: "n \<le> n * un" using u(3) by simp
  have start: "?s \<noteq> []" "number_char (hd ?s)" "length u \<noteq> length ?s"
    using ds by (simp_all add: number_char_def)
  have "duration_group fraction ?s =
      (if n \<le> two63 then (if n > two63 div un then None else Some (n * un, [])) else None)"
    unfolding duration_group_def lead using start
    by (simp add: fraction split u(1) assms del: append_is_Nil_conv hd_append2 length_append)
  moreover have "n * un \<le> two63 \<Longrightarrow> n \<le> two63" using le by linarith
  ultimately show ?thesis unfolding over by auto
qed

lemma ParseDuration_whole:
  assumes "unit_map u = Some un"
  shows "ParseDuration fraction (show_nat n @ u) =
    (if n * un < two63 then Some (int (n * un)) else None)"
proof -
  obtain d ds where ds: "show_nat n = d # ds" "is_digit d" using show_nat_head by blast
  have d: "d \<noteq> CHR ''-''" "d \<noteq> CHR ''+''" using ds(2) by (auto simp: is_digit_def)
  have u: "u \<noteq> []" using unit_chars [OF assms] by auto
  have "duration_groups fraction 0 (show_nat n @ u) = (if n * un \<le> two63 then Some (n * un) else None)"
    unfolding duration_groups.simps [of fraction 0 "show_nat n @ u"]
    by (simp add: parse_group [OF assms] duration_groups.simps [of _ _ "[]"] u)
  then show ?thesis
    using ds d u two63_pos by (auto simp: ParseDuration_def Let_def)
qed

section \<open>Booleans and addresses\<close>

definition ParseBool :: "gostring \<Rightarrow> bool option" where
  "ParseBool s =
    (if s \<in> {''1'', ''t'', ''T'', ''TRUE'', ''true'', ''True''} then Some True
     else if s \<in> {''0'', ''f'', ''F'', ''FALSE'', ''false'', ''False''} then Some False
     else None)"

abbreviation colon :: char where "colon \<equiv> CHR '':''"
abbreviation open_bracket :: char where "open_bracket \<equiv> CHR ''[''"
abbreviation close_bracket :: char where "close_bracket \<equiv> CHR '']''"

text \<open>What stands before and after the last colon.\<close>

definition last_colon :: "gostring \<Rightarrow> (gostring \<times> gostring) option" where
  "last_colon s =
    (case cut_char colon (rev s) of None \<Rightarrow> None | Some (p, h) \<Rightarrow> Some (rev h, rev p))"

definition SplitHostPort :: "gostring \<Rightarrow> (gostring \<times> gostring) option" where
  "SplitHostPort s =
    (case last_colon s of
       None \<Rightarrow> None
     | Some (before, port) \<Rightarrow>
        (if hd s = open_bracket then
           (case cut_char close_bracket s of
              None \<Rightarrow> None
            | Some (inner, after) \<Rightarrow>
               (if inner @ [close_bracket] \<noteq> before then None
                else if open_bracket \<in> set (tl s) \<or> close_bracket \<in> set after then None
                else Some (tl inner, port)))
         else if colon \<in> set before then None
         else if open_bracket \<in> set s \<or> close_bracket \<in> set s then None
         else Some (before, port)))"

end
