(* ===== verification/Config.thy ===== *)
theory Config
  imports Duration_Parse Go_Paths
begin

text \<open>
  \<open>config.Load\<close> (internal/config/config.go): the validated configuration from the environment, a
  function from names to values in which a variable that is not set is empty.  An error names the
  variable it is about; the quoted value in its text is left out.
\<close>

section \<open>Names and defaults\<close>

definition defaultAddr :: gostring where "defaultAddr = ''127.0.0.1:8080''"
definition defaultDB :: gostring where "defaultDB = ''./touchgrass.db''"
definition defaultEnv :: gostring where "defaultEnv = ''prod''"
definition defaultMetricsInterval :: gostring where "defaultMetricsInterval = ''30s''"
definition defaultInventoryInterval :: gostring where "defaultInventoryInterval = ''2m''"
definition defaultInventoryWorkers :: gostring where "defaultInventoryWorkers = ''2''"
definition defaultSecurityProcessInterval :: gostring where "defaultSecurityProcessInterval = ''2m''"
definition defaultSecurityWorkers :: gostring where "defaultSecurityWorkers = ''2''"
definition defaultSecurityDiffInterval :: gostring where "defaultSecurityDiffInterval = ''0''"
definition defaultRetentionMetrics :: gostring where "defaultRetentionMetrics = ''168h''"
definition defaultRetentionNotifications :: gostring where "defaultRetentionNotifications = ''720h''"
definition defaultRetentionDeploys :: gostring where "defaultRetentionDeploys = ''8760h''"
definition defaultWatchInterval :: gostring where "defaultWatchInterval = ''5s''"
definition defaultCutoverTimeout :: gostring where "defaultCutoverTimeout = ''10m''"
definition defaultRetentionErrors :: gostring where "defaultRetentionErrors = ''720h''"
definition defaultMaxOccurrences :: gostring where "defaultMaxOccurrences = ''10000''"
definition defaultRetentionLogs :: gostring where "defaultRetentionLogs = ''720h''"
definition defaultMaxLogLines :: gostring where "defaultMaxLogLines = ''3000000''"
definition defaultLogPollInterval :: gostring where "defaultLogPollInterval = ''5s''"
definition defaultRetentionSDKLogs :: gostring where "defaultRetentionSDKLogs = ''30''"
definition defaultPostgresUser :: gostring where "defaultPostgresUser = ''postgres''"
definition defaultPostgresDB :: gostring where "defaultPostgresDB = ''postgres''"
definition defaultBackupDir :: gostring where "defaultBackupDir = ''./backups''"
definition defaultBackupKeep :: gostring where "defaultBackupKeep = ''14''"
definition defaultBackupInterval :: gostring where "defaultBackupInterval = ''24h''"
definition defaultScriptsDir :: gostring where "defaultScriptsDir = ''scripts''"
definition defaultMaintenanceInterval :: gostring where "defaultMaintenanceInterval = ''5m''"
definition defaultSQLiteMaxBytes :: gostring where "defaultSQLiteMaxBytes = ''4294967296''"
definition defaultSQLiteBackupDir :: gostring where "defaultSQLiteBackupDir = ''./backups/sqlite''"
definition defaultSQLiteBackupKeep :: gostring where "defaultSQLiteBackupKeep = ''14''"
definition defaultRetentionPerformance :: gostring where "defaultRetentionPerformance = ''168h''"
definition defaultRetentionPerfHourly :: gostring where "defaultRetentionPerfHourly = ''720h''"
definition defaultPerformanceInterval :: gostring where "defaultPerformanceInterval = ''30s''"
definition defaultSecurityEventInterval :: gostring where "defaultSecurityEventInterval = ''5s''"
definition defaultRetentionSecurityObservations :: gostring where "defaultRetentionSecurityObservations = ''24h''"
definition defaultRetentionContainerEvents :: gostring where "defaultRetentionContainerEvents = ''2160h''"
definition defaultRetentionSecurityFindings :: gostring where "defaultRetentionSecurityFindings = ''8760h''"
definition defaultHostRoot :: gostring where "defaultHostRoot = ''/''"
definition addrEnvVar :: gostring where "addrEnvVar = ''TOUCHGRASS_ADDR''"
definition dbEnvVar :: gostring where "dbEnvVar = ''TOUCHGRASS_DB''"
definition envEnvVar :: gostring where "envEnvVar = ''APP_ENV''"
definition hostRootEnvVar :: gostring where "hostRootEnvVar = ''TOUCHGRASS_HOST_ROOT''"
definition metricsIntervalEnvVar :: gostring where "metricsIntervalEnvVar = ''TOUCHGRASS_METRICS_INTERVAL''"
definition inventoryIntervalEnvVar :: gostring where "inventoryIntervalEnvVar = ''TOUCHGRASS_INVENTORY_INTERVAL''"
definition inventoryWorkersEnvVar :: gostring where "inventoryWorkersEnvVar = ''TOUCHGRASS_INVENTORY_WORKERS''"
definition securityProcessIntervalEnvVar :: gostring where "securityProcessIntervalEnvVar = ''TOUCHGRASS_SECURITY_PROCESS_INTERVAL''"
definition securityWorkersEnvVar :: gostring where "securityWorkersEnvVar = ''TOUCHGRASS_SECURITY_WORKERS''"
definition securityDiffIntervalEnvVar :: gostring where "securityDiffIntervalEnvVar = ''TOUCHGRASS_SECURITY_DIFF_INTERVAL''"
definition retentionMetricsEnvVar :: gostring where "retentionMetricsEnvVar = ''TOUCHGRASS_RETENTION_METRICS''"
definition retentionNotificationsEnvVar :: gostring where "retentionNotificationsEnvVar = ''TOUCHGRASS_RETENTION_NOTIFICATIONS''"
definition retentionDeploysEnvVar :: gostring where "retentionDeploysEnvVar = ''TOUCHGRASS_RETENTION_DEPLOYS''"
definition adminPasswordEnvVar :: gostring where "adminPasswordEnvVar = ''TOUCHGRASS_ADMIN_PASSWORD''"
definition cookieSecureEnvVar :: gostring where "cookieSecureEnvVar = ''TOUCHGRASS_COOKIE_SECURE''"
definition watchIntervalEnvVar :: gostring where "watchIntervalEnvVar = ''TOUCHGRASS_WATCH_INTERVAL''"
definition cutoverTimeoutEnvVar :: gostring where "cutoverTimeoutEnvVar = ''TOUCHGRASS_CUTOVER_TIMEOUT''"
definition retentionErrorsEnvVar :: gostring where "retentionErrorsEnvVar = ''TOUCHGRASS_RETENTION_ERRORS''"
definition maxOccurrencesEnvVar :: gostring where "maxOccurrencesEnvVar = ''TOUCHGRASS_INGEST_MAX_OCCURRENCES''"
definition retentionLogsEnvVar :: gostring where "retentionLogsEnvVar = ''TOUCHGRASS_RETENTION_LOGS''"
definition maxLogLinesEnvVar :: gostring where "maxLogLinesEnvVar = ''TOUCHGRASS_LOGS_MAX_LINES''"
definition logPollIntervalEnvVar :: gostring where "logPollIntervalEnvVar = ''TOUCHGRASS_LOG_POLL_INTERVAL''"
definition retentionSDKLogsEnvVar :: gostring where "retentionSDKLogsEnvVar = ''TOUCHGRASS_RETENTION_SDK_LOGS''"
definition postgresContainerEnvVar :: gostring where "postgresContainerEnvVar = ''TOUCHGRASS_POSTGRES_CONTAINER''"
definition postgresUserEnvVar :: gostring where "postgresUserEnvVar = ''TOUCHGRASS_POSTGRES_USER''"
definition postgresDBEnvVar :: gostring where "postgresDBEnvVar = ''TOUCHGRASS_POSTGRES_DB''"
definition backupDirEnvVar :: gostring where "backupDirEnvVar = ''TOUCHGRASS_DB_BACKUP_DIR''"
definition backupKeepEnvVar :: gostring where "backupKeepEnvVar = ''TOUCHGRASS_DB_BACKUP_KEEP''"
definition backupIntervalEnvVar :: gostring where "backupIntervalEnvVar = ''TOUCHGRASS_DB_BACKUP_INTERVAL''"
definition redisContainerEnvVar :: gostring where "redisContainerEnvVar = ''TOUCHGRASS_REDIS_CONTAINER''"
definition scriptsDirEnvVar :: gostring where "scriptsDirEnvVar = ''TOUCHGRASS_SCRIPTS_DIR''"
definition maintenanceIntervalEnvVar :: gostring where "maintenanceIntervalEnvVar = ''TOUCHGRASS_MAINTENANCE_INTERVAL''"
definition sqliteMaxBytesEnvVar :: gostring where "sqliteMaxBytesEnvVar = ''TOUCHGRASS_SQLITE_MAX_BYTES''"
definition sqliteBackupDirEnvVar :: gostring where "sqliteBackupDirEnvVar = ''TOUCHGRASS_SQLITE_BACKUP_DIR''"
definition sqliteBackupKeepEnvVar :: gostring where "sqliteBackupKeepEnvVar = ''TOUCHGRASS_SQLITE_BACKUP_KEEP''"
definition retentionPerformanceEnvVar :: gostring where "retentionPerformanceEnvVar = ''TOUCHGRASS_RETENTION_PERFORMANCE''"
definition retentionPerformanceHourlyEnvVar :: gostring where "retentionPerformanceHourlyEnvVar = ''TOUCHGRASS_RETENTION_PERFORMANCE_HOURLY''"
definition nginxTimingLogEnvVar :: gostring where "nginxTimingLogEnvVar = ''TOUCHGRASS_NGINX_TIMING_LOG''"
definition performanceServiceIDEnvVar :: gostring where "performanceServiceIDEnvVar = ''TOUCHGRASS_PERFORMANCE_SERVICE_ID''"
definition performanceIntervalEnvVar :: gostring where "performanceIntervalEnvVar = ''TOUCHGRASS_PERFORMANCE_INTERVAL''"
definition securityEventLogEnvVar :: gostring where "securityEventLogEnvVar = ''TOUCHGRASS_SECURITY_EVENT_LOG''"
definition securityEventServiceIDEnvVar :: gostring where "securityEventServiceIDEnvVar = ''TOUCHGRASS_SECURITY_EVENT_SERVICE_ID''"
definition securityEventIntervalEnvVar :: gostring where "securityEventIntervalEnvVar = ''TOUCHGRASS_SECURITY_EVENT_INTERVAL''"
definition retentionSecurityObservationsEnvVar :: gostring where "retentionSecurityObservationsEnvVar = ''TOUCHGRASS_RETENTION_SECURITY_OBSERVATIONS''"
definition retentionContainerEventsEnvVar :: gostring where "retentionContainerEventsEnvVar = ''TOUCHGRASS_RETENTION_CONTAINER_EVENTS''"
definition retentionSecurityFindingsEnvVar :: gostring where "retentionSecurityFindingsEnvVar = ''TOUCHGRASS_RETENTION_SECURITY_FINDINGS''"
definition envDev :: gostring where "envDev = ''dev''"
definition envProd :: gostring where "envProd = ''prod''"

section \<open>The configuration\<close>

record config =
  cf_Addr :: gostring
  cf_DB :: gostring
  cf_Env :: gostring
  cf_HostRoot :: gostring
  cf_MetricsInterval :: duration
  cf_InventoryInterval :: duration
  cf_InventoryWorkers :: int
  cf_SecurityProcessInterval :: duration
  cf_SecurityWorkers :: int
  cf_SecurityDiffInterval :: duration
  cf_RetentionMetrics :: duration
  cf_RetentionNotifications :: duration
  cf_RetentionDeploys :: duration
  cf_AdminPassword :: gostring
  cf_CookieSecure :: bool
  cf_WatchInterval :: duration
  cf_CutoverTimeout :: duration
  cf_RetentionErrors :: duration
  cf_MaxOccurrences :: int
  cf_RetentionLogs :: duration
  cf_RetentionSDKLogs :: duration
  cf_MaxLogLines :: int
  cf_LogPollInterval :: duration
  cf_PostgresContainer :: gostring
  cf_PostgresUser :: gostring
  cf_PostgresDB :: gostring
  cf_BackupDir :: gostring
  cf_BackupKeep :: int
  cf_BackupInterval :: duration
  cf_RedisContainer :: gostring
  cf_ScriptsDir :: gostring
  cf_MaintenanceInterval :: duration
  cf_SQLiteMaxBytes :: int
  cf_SQLiteBackupDir :: gostring
  cf_SQLiteBackupKeep :: int
  cf_RetentionPerformance :: duration
  cf_RetentionPerformanceHourly :: duration
  cf_NginxTimingLog :: gostring
  cf_PerformanceServiceID :: gostring
  cf_PerformanceInterval :: duration
  cf_SecurityEventLog :: gostring
  cf_SecurityEventServiceID :: gostring
  cf_SecurityEventInterval :: duration
  cf_RetentionSecurityObservations :: duration
  cf_RetentionContainerEvents :: duration
  cf_RetentionSecurityFindings :: duration

record listen_config =
  li_addr :: gostring
  li_db :: gostring
  li_env :: gostring
  li_hostRoot :: gostring
  li_scriptsDir :: gostring

record schedule_config =
  sc_metrics :: duration
  sc_inventory :: duration
  sc_inventoryWorkers :: int
  sc_securityProcess :: duration
  sc_securityWorkers :: int
  sc_securityDiff :: duration
  sc_retentionMetrics :: duration
  sc_retentionNotifications :: duration
  sc_retentionDeploys :: duration
  sc_retentionErrors :: duration
  sc_watch :: duration
  sc_cutoverTimeout :: duration
  sc_retentionLogs :: duration
  sc_retentionSDKLogs :: duration
  sc_logPoll :: duration

record ingest_config =
  ig_maxOccurrences :: int
  ig_maxLogLines :: int

record admin_config =
  ad_password :: gostring
  ad_secure :: bool

record database_config =
  dc_container :: gostring
  dc_user :: gostring
  dc_dbName :: gostring
  dc_backupDir :: gostring
  dc_backupKeep :: int
  dc_backupInterval :: duration
  dc_redisContainer :: gostring

record storage_config =
  st_maintenanceInterval :: duration
  st_maxBytes :: int
  st_backupDir :: gostring
  st_backupKeep :: int
  st_retentionPerformance :: duration
  st_retentionPerformanceHourly :: duration
  st_retentionSecurityObservations :: duration
  st_retentionContainerEvents :: duration
  st_retentionSecurityFindings :: duration

record performance_config =
  pf_nginxTimingLog :: gostring
  pf_serviceID :: gostring
  pf_interval :: duration

record security_event_config =
  se_path :: gostring
  se_serviceID :: gostring
  se_interval :: duration

datatype config_error =
    BadVar gostring
  | MustBeSet gostring
  | RequiredWithSource gostring
  | TogetherOnly gostring gostring

type_synonym environ = "gostring \<Rightarrow> gostring"

fun chain :: "'e + 'a \<Rightarrow> ('a \<Rightarrow> 'e + 'b) \<Rightarrow> 'e + 'b" where
  "chain (Inl e) k = Inl e"
| "chain (Inr a) k = k a"

definition check :: "bool \<Rightarrow> 'e \<Rightarrow> 'e + unit" where
  "check b e = (if b then Inr () else Inl e)"

definition setting :: "environ \<Rightarrow> gostring \<Rightarrow> gostring \<Rightarrow> gostring" where
  "setting env name fallback = (if env name = [] then fallback else env name)"

section \<open>Single values\<close>

definition parsePositiveInt :: "environ \<Rightarrow> gostring \<Rightarrow> gostring \<Rightarrow> config_error + int" where
  "parsePositiveInt env name fallback =
    (case parse_int (setting env name fallback) of
       None \<Rightarrow> Inl (BadVar name)
     | Some v \<Rightarrow> if v < 1 then Inl (BadVar name) else Inr v)"

definition parsePositiveInt64 :: "environ \<Rightarrow> gostring \<Rightarrow> gostring \<Rightarrow> config_error + int" where
  "parsePositiveInt64 env name fallback =
    (case parse_int (setting env name fallback) of
       None \<Rightarrow> Inl (BadVar name)
     | Some v \<Rightarrow> if v < 1 then Inl (BadVar name) else Inr v)"

definition parseDuration :: "frac_fun \<Rightarrow> environ \<Rightarrow> gostring \<Rightarrow> gostring \<Rightarrow> config_error + duration" where
  "parseDuration fraction env name def =
    (case ParseDuration fraction (setting env name def) of
       None \<Rightarrow> Inl (BadVar name)
     | Some d \<Rightarrow> if d \<le> 0 then Inl (BadVar name) else Inr d)"

definition parseOptionalDuration ::
  "frac_fun \<Rightarrow> environ \<Rightarrow> gostring \<Rightarrow> gostring \<Rightarrow> config_error + duration" where
  "parseOptionalDuration fraction env name def =
    (case ParseDuration fraction (setting env name def) of
       None \<Rightarrow> Inl (BadVar name)
     | Some d \<Rightarrow> if d < 0 then Inl (BadVar name) else Inr d)"

definition parseBackupInterval :: "frac_fun \<Rightarrow> environ \<Rightarrow> config_error + duration" where
  "parseBackupInterval fraction env =
    (case ParseDuration fraction (setting env backupIntervalEnvVar defaultBackupInterval) of
       None \<Rightarrow> Inl (BadVar backupIntervalEnvVar)
     | Some d \<Rightarrow> if d < 0 then Inl (BadVar backupIntervalEnvVar) else Inr d)"

text \<open>The product \<open>time.Duration(days) * 24 * time.Hour\<close> wraps around.\<close>

definition parseRetentionDays :: "frac_fun \<Rightarrow> environ \<Rightarrow> gostring \<Rightarrow> gostring \<Rightarrow> config_error + duration" where
  "parseRetentionDays fraction env name def =
    (let raw = setting env name def in
     case parse_int raw of
       Some days \<Rightarrow> if days < 1 then Inl (BadVar name) else Inr (wrap64 (wrap64 (days * 24) * hour))
     | None \<Rightarrow>
        (case ParseDuration fraction raw of
           None \<Rightarrow> Inl (BadVar name)
         | Some d \<Rightarrow> if d \<le> 0 then Inl (BadVar name) else Inr d))"

section \<open>Groups\<close>

definition loadListen :: "environ \<Rightarrow> config_error + listen_config" where
  "loadListen env =
    (let addr = setting env addrEnvVar defaultAddr;
         db = setting env dbEnvVar defaultDB;
         mode = setting env envEnvVar defaultEnv;
         scripts = setting env scriptsDirEnvVar defaultScriptsDir;
         root = setting env hostRootEnvVar defaultHostRoot
     in chain (check (SplitHostPort addr \<noteq> None) (BadVar addrEnvVar)) (\<lambda>_.
        chain (check (mode = envDev \<or> mode = envProd) (BadVar envEnvVar)) (\<lambda>_.
        chain (check (is_abs root) (BadVar hostRootEnvVar)) (\<lambda>_.
        Inr \<lparr>li_addr = addr, li_db = db, li_env = mode, li_hostRoot = root, li_scriptsDir = scripts\<rparr>))))"

definition loadSchedule :: "frac_fun \<Rightarrow> environ \<Rightarrow> config_error + schedule_config" where
  "loadSchedule fraction env =
    chain (parseDuration fraction env metricsIntervalEnvVar defaultMetricsInterval) (\<lambda>metrics.
    chain (parseDuration fraction env inventoryIntervalEnvVar defaultInventoryInterval) (\<lambda>inventory.
    chain (parsePositiveInt env inventoryWorkersEnvVar defaultInventoryWorkers) (\<lambda>inventoryWorkers.
    chain (check (inventoryWorkers \<le> 32) (BadVar inventoryWorkersEnvVar)) (\<lambda>_.
    chain (parseDuration fraction env securityProcessIntervalEnvVar defaultSecurityProcessInterval) (\<lambda>securityProcess.
    chain (parsePositiveInt env securityWorkersEnvVar defaultSecurityWorkers) (\<lambda>securityWorkers.
    chain (check (securityWorkers \<le> 32) (BadVar securityWorkersEnvVar)) (\<lambda>_.
    chain (parseOptionalDuration fraction env securityDiffIntervalEnvVar defaultSecurityDiffInterval) (\<lambda>securityDiff.
    chain (check (securityDiff = 0 \<or> minute \<le> securityDiff \<and> securityDiff \<le> 24 * hour)
      (BadVar securityDiffIntervalEnvVar)) (\<lambda>_.
    chain (parseDuration fraction env retentionMetricsEnvVar defaultRetentionMetrics) (\<lambda>retentionMetrics.
    chain (parseDuration fraction env retentionNotificationsEnvVar defaultRetentionNotifications) (\<lambda>retentionNotifications.
    chain (parseDuration fraction env retentionDeploysEnvVar defaultRetentionDeploys) (\<lambda>retentionDeploys.
    chain (parseDuration fraction env watchIntervalEnvVar defaultWatchInterval) (\<lambda>watch.
    chain (parseDuration fraction env cutoverTimeoutEnvVar defaultCutoverTimeout) (\<lambda>cutoverTimeout.
    chain (parseDuration fraction env retentionErrorsEnvVar defaultRetentionErrors) (\<lambda>retentionErrors.
    chain (parseDuration fraction env retentionLogsEnvVar defaultRetentionLogs) (\<lambda>retentionLogs.
    chain (parseRetentionDays fraction env retentionSDKLogsEnvVar defaultRetentionSDKLogs) (\<lambda>retentionSDKLogs.
    chain (parseDuration fraction env logPollIntervalEnvVar defaultLogPollInterval) (\<lambda>logPoll.
    Inr
     \<lparr>sc_metrics = metrics,
      sc_inventory = inventory,
      sc_inventoryWorkers = inventoryWorkers,
      sc_securityProcess = securityProcess,
      sc_securityWorkers = securityWorkers,
      sc_securityDiff = securityDiff,
      sc_retentionMetrics = retentionMetrics,
      sc_retentionNotifications = retentionNotifications,
      sc_retentionDeploys = retentionDeploys,
      sc_retentionErrors = retentionErrors,
      sc_watch = watch,
      sc_cutoverTimeout = cutoverTimeout,
      sc_retentionLogs = retentionLogs,
      sc_retentionSDKLogs = retentionSDKLogs,
      sc_logPoll = logPoll\<rparr>))))))))))))))))))"

definition loadIngest :: "environ \<Rightarrow> config_error + ingest_config" where
  "loadIngest env =
    chain (parsePositiveInt env maxOccurrencesEnvVar defaultMaxOccurrences) (\<lambda>maxOccurrences.
    chain (parsePositiveInt env maxLogLinesEnvVar defaultMaxLogLines) (\<lambda>maxLogLines.
    Inr \<lparr>ig_maxOccurrences = maxOccurrences, ig_maxLogLines = maxLogLines\<rparr>))"

definition loadAdmin :: "environ \<Rightarrow> config_error + admin_config" where
  "loadAdmin env =
    (let password = env adminPasswordEnvVar; raw = env cookieSecureEnvVar in
     chain (check (password \<noteq> []) (MustBeSet adminPasswordEnvVar)) (\<lambda>_.
      if raw = [] then Inr \<lparr>ad_password = password, ad_secure = False\<rparr>
      else case ParseBool raw of
        None \<Rightarrow> Inl (BadVar cookieSecureEnvVar)
      | Some b \<Rightarrow> Inr \<lparr>ad_password = password, ad_secure = b\<rparr>))"

definition loadDatabase :: "frac_fun \<Rightarrow> environ \<Rightarrow> config_error + database_config" where
  "loadDatabase fraction env =
    chain (parsePositiveInt env backupKeepEnvVar defaultBackupKeep) (\<lambda>backupKeep.
    chain (parseBackupInterval fraction env) (\<lambda>backupInterval.
    Inr
     \<lparr>dc_container = env postgresContainerEnvVar,
      dc_user = setting env postgresUserEnvVar defaultPostgresUser,
      dc_dbName = setting env postgresDBEnvVar defaultPostgresDB,
      dc_backupDir = setting env backupDirEnvVar defaultBackupDir,
      dc_backupKeep = backupKeep,
      dc_backupInterval = backupInterval,
      dc_redisContainer = env redisContainerEnvVar\<rparr>))"

definition loadStorage :: "frac_fun \<Rightarrow> environ \<Rightarrow> config_error + storage_config" where
  "loadStorage fraction env =
    chain (parseDuration fraction env maintenanceIntervalEnvVar defaultMaintenanceInterval) (\<lambda>interval.
    chain (parsePositiveInt64 env sqliteMaxBytesEnvVar defaultSQLiteMaxBytes) (\<lambda>maxBytes.
    chain (parseDuration fraction env retentionPerformanceEnvVar defaultRetentionPerformance) (\<lambda>retentionPerformance.
    chain (parseDuration fraction env retentionPerformanceHourlyEnvVar defaultRetentionPerfHourly) (\<lambda>retentionHourly.
    chain (parseDuration fraction env retentionSecurityObservationsEnvVar defaultRetentionSecurityObservations) (\<lambda>retentionSecurityObservations.
    chain (parseDuration fraction env retentionContainerEventsEnvVar defaultRetentionContainerEvents) (\<lambda>retentionContainerEvents.
    chain (parseDuration fraction env retentionSecurityFindingsEnvVar defaultRetentionSecurityFindings) (\<lambda>retentionSecurityFindings.
    chain (parsePositiveInt env sqliteBackupKeepEnvVar defaultSQLiteBackupKeep) (\<lambda>backupKeep.
    Inr
     \<lparr>st_maintenanceInterval = interval,
      st_maxBytes = maxBytes,
      st_backupDir = setting env sqliteBackupDirEnvVar defaultSQLiteBackupDir,
      st_backupKeep = backupKeep,
      st_retentionPerformance = retentionPerformance,
      st_retentionPerformanceHourly = retentionHourly,
      st_retentionSecurityObservations = retentionSecurityObservations,
      st_retentionContainerEvents = retentionContainerEvents,
      st_retentionSecurityFindings = retentionSecurityFindings\<rparr>))))))))"

definition loadPerformance ::
  "frac_fun \<Rightarrow> environ \<Rightarrow> database_config \<Rightarrow> config_error + performance_config" where
  "loadPerformance fraction env database =
    chain (parseDuration fraction env performanceIntervalEnvVar defaultPerformanceInterval) (\<lambda>interval.
    let path = env nginxTimingLogEnvVar; serviceID = trim_space (env performanceServiceIDEnvVar) in
    chain (check (path = [] \<or> is_abs path) (BadVar nginxTimingLogEnvVar)) (\<lambda>_.
    chain (check (\<not> ((path \<noteq> [] \<or> dc_container database \<noteq> [] \<or> dc_redisContainer database \<noteq> [])
             \<and> serviceID = []))
       (RequiredWithSource performanceServiceIDEnvVar)) (\<lambda>_.
    Inr \<lparr>pf_nginxTimingLog = path, pf_serviceID = serviceID, pf_interval = interval\<rparr>)))"

definition loadSecurityEvents :: "frac_fun \<Rightarrow> environ \<Rightarrow> config_error + security_event_config" where
  "loadSecurityEvents fraction env =
    chain (parseDuration fraction env securityEventIntervalEnvVar defaultSecurityEventInterval) (\<lambda>interval.
    let path = trim_space (env securityEventLogEnvVar);
        serviceID = trim_space (env securityEventServiceIDEnvVar) in
    chain (check (path = [] \<or> is_abs path) (BadVar securityEventLogEnvVar)) (\<lambda>_.
    chain (check ((path = []) = (serviceID = []))
       (TogetherOnly securityEventLogEnvVar securityEventServiceIDEnvVar)) (\<lambda>_.
    Inr \<lparr>se_path = path, se_serviceID = serviceID, se_interval = interval\<rparr>)))"

definition load_config :: "frac_fun \<Rightarrow> environ \<Rightarrow> config_error + config" where
  "load_config fraction env =
    chain (loadListen env) (\<lambda>listen.
    chain (loadSchedule fraction env) (\<lambda>schedule.
    chain (loadAdmin env) (\<lambda>admin.
    chain (loadIngest env) (\<lambda>ingest.
    chain (loadDatabase fraction env) (\<lambda>database.
    chain (loadStorage fraction env) (\<lambda>storage.
    chain (loadPerformance fraction env database) (\<lambda>performance.
    chain (loadSecurityEvents fraction env) (\<lambda>securityEvents.
    Inr
     \<lparr>cf_Addr = li_addr listen,
      cf_DB = li_db listen,
      cf_Env = li_env listen,
      cf_HostRoot = li_hostRoot listen,
      cf_MetricsInterval = sc_metrics schedule,
      cf_InventoryInterval = sc_inventory schedule,
      cf_InventoryWorkers = sc_inventoryWorkers schedule,
      cf_SecurityProcessInterval = sc_securityProcess schedule,
      cf_SecurityWorkers = sc_securityWorkers schedule,
      cf_SecurityDiffInterval = sc_securityDiff schedule,
      cf_RetentionMetrics = sc_retentionMetrics schedule,
      cf_RetentionNotifications = sc_retentionNotifications schedule,
      cf_RetentionDeploys = sc_retentionDeploys schedule,
      cf_AdminPassword = ad_password admin,
      cf_CookieSecure = ad_secure admin,
      cf_WatchInterval = sc_watch schedule,
      cf_CutoverTimeout = sc_cutoverTimeout schedule,
      cf_RetentionErrors = sc_retentionErrors schedule,
      cf_MaxOccurrences = ig_maxOccurrences ingest,
      cf_RetentionLogs = sc_retentionLogs schedule,
      cf_RetentionSDKLogs = sc_retentionSDKLogs schedule,
      cf_MaxLogLines = ig_maxLogLines ingest,
      cf_LogPollInterval = sc_logPoll schedule,
      cf_PostgresContainer = dc_container database,
      cf_PostgresUser = dc_user database,
      cf_PostgresDB = dc_dbName database,
      cf_BackupDir = dc_backupDir database,
      cf_BackupKeep = dc_backupKeep database,
      cf_BackupInterval = dc_backupInterval database,
      cf_RedisContainer = dc_redisContainer database,
      cf_ScriptsDir = li_scriptsDir listen,
      cf_MaintenanceInterval = st_maintenanceInterval storage,
      cf_SQLiteMaxBytes = st_maxBytes storage,
      cf_SQLiteBackupDir = st_backupDir storage,
      cf_SQLiteBackupKeep = st_backupKeep storage,
      cf_RetentionPerformance = st_retentionPerformance storage,
      cf_RetentionPerformanceHourly = st_retentionPerformanceHourly storage,
      cf_NginxTimingLog = pf_nginxTimingLog performance,
      cf_PerformanceServiceID = pf_serviceID performance,
      cf_PerformanceInterval = pf_interval performance,
      cf_SecurityEventLog = se_path securityEvents,
      cf_SecurityEventServiceID = se_serviceID securityEvents,
      cf_SecurityEventInterval = se_interval securityEvents,
      cf_RetentionSecurityObservations = st_retentionSecurityObservations storage,
      cf_RetentionContainerEvents = st_retentionContainerEvents storage,
      cf_RetentionSecurityFindings = st_retentionSecurityFindings storage\<rparr>))))))))"

end
