(* ===== verification/Config_Laws.thy ===== *)
theory Config_Laws
  imports Config
begin

text \<open>
  What a loaded configuration promises, what the defaults are, and where the day count of the SDK
  log retention leaves the range of a duration.
\<close>

section \<open>Single values\<close>

lemma chain_Inr: "chain m k = Inr b \<longleftrightarrow> (\<exists>a. m = Inr a \<and> k a = Inr b)"
  by (cases m) simp_all

lemma check_Inr: "check b e = Inr u \<longleftrightarrow> b"
  by (simp add: check_def)

lemma parsed_positive:
  "parsePositiveInt env name d = Inr i \<Longrightarrow> 1 \<le> i \<and> fits_int64 i"
  "parsePositiveInt64 env name d = Inr i \<Longrightarrow> 1 \<le> i \<and> fits_int64 i"
  by (auto simp: parsePositiveInt_def parsePositiveInt64_def dest: parse_int_fits split: option.splits if_splits)

lemma parsed_duration: "parseDuration fraction env name d = Inr t \<Longrightarrow> 0 < t \<and> fits_int64 t"
  by (auto simp: parseDuration_def dest: ParseDuration_fits split: option.splits if_splits)

lemma parsed_optional:
  "parseOptionalDuration fraction env name d = Inr t \<Longrightarrow> 0 \<le> t \<and> fits_int64 t"
  "parseBackupInterval fraction env = Inr t \<Longrightarrow> 0 \<le> t \<and> fits_int64 t"
  by (auto simp: parseOptionalDuration_def parseBackupInterval_def dest: ParseDuration_fits
      split: option.splits if_splits)

lemma parsed_days: "parseRetentionDays fraction env name d = Inr t \<Longrightarrow> fits_int64 t"
  by (auto simp: parseRetentionDays_def Let_def wrap64_fits dest: ParseDuration_fits
      split: option.splits if_splits)

text \<open>A setting of a whole number and a unit is taken exactly as it reads, or refused.\<close>

lemma whole_setting:
  assumes "env name = show_nat n @ u" and "unit_map u = Some un"
  shows "parseDuration fraction env name d =
    (if 0 < n \<and> n * un < two63 then Inr (int (n * un)) else Inl (BadVar name))"
proof -
  have "setting env name d = show_nat n @ u" "0 < un"
    using assms show_nat_digits [of n] unit_chars [OF assms(2)] by (auto simp: setting_def)
  then show ?thesis by (simp add: parseDuration_def ParseDuration_whole [OF assms(2)] mult_le_0_iff)
qed

section \<open>What was loaded is in range\<close>

definition schedule_ok :: "schedule_config \<Rightarrow> bool" where
  "schedule_ok s \<longleftrightarrow>
    list_all (\<lambda>d. 0 < d \<and> fits_int64 d)
     [sc_metrics s, sc_inventory s, sc_securityProcess s, sc_retentionMetrics s,
      sc_retentionNotifications s, sc_retentionDeploys s, sc_retentionErrors s, sc_watch s,
      sc_cutoverTimeout s, sc_retentionLogs s, sc_logPoll s] \<and>
    fits_int64 (sc_inventoryWorkers s) \<and> fits_int64 (sc_securityWorkers s) \<and>
    1 \<le> sc_inventoryWorkers s \<and> sc_inventoryWorkers s \<le> 32 \<and>
    1 \<le> sc_securityWorkers s \<and> sc_securityWorkers s \<le> 32 \<and>
    (sc_securityDiff s = 0 \<or> minute \<le> sc_securityDiff s \<and> sc_securityDiff s \<le> 24 * hour) \<and>
    fits_int64 (sc_retentionSDKLogs s)"

lemma loadSchedule_ok: "loadSchedule fraction env = Inr s \<Longrightarrow> schedule_ok s"
  unfolding loadSchedule_def chain_Inr check_Inr
  by (clarsimp simp: schedule_ok_def) (auto dest: parsed_positive parsed_duration parsed_days)

definition config_ok :: "config \<Rightarrow> bool" where
  "config_ok c \<longleftrightarrow>
    SplitHostPort (cf_Addr c) \<noteq> None \<and> cf_Env c \<in> {envDev, envProd} \<and> is_abs (cf_HostRoot c) \<and>
    cf_AdminPassword c \<noteq> [] \<and>
    list_all (\<lambda>d. 0 < d \<and> fits_int64 d)
     [cf_MetricsInterval c, cf_InventoryInterval c, cf_SecurityProcessInterval c, cf_RetentionMetrics c,
      cf_RetentionNotifications c, cf_RetentionDeploys c, cf_WatchInterval c, cf_CutoverTimeout c,
      cf_RetentionErrors c, cf_RetentionLogs c, cf_LogPollInterval c, cf_MaintenanceInterval c,
      cf_RetentionPerformance c, cf_RetentionPerformanceHourly c, cf_PerformanceInterval c,
      cf_SecurityEventInterval c, cf_RetentionSecurityObservations c, cf_RetentionContainerEvents c,
      cf_RetentionSecurityFindings c] \<and>
    list_all (\<lambda>n. 1 \<le> n \<and> fits_int64 n)
     [cf_InventoryWorkers c, cf_SecurityWorkers c, cf_MaxOccurrences c, cf_MaxLogLines c, cf_BackupKeep c,
      cf_SQLiteMaxBytes c, cf_SQLiteBackupKeep c] \<and>
    cf_InventoryWorkers c \<le> 32 \<and> cf_SecurityWorkers c \<le> 32 \<and>
    (cf_SecurityDiffInterval c = 0 \<or>
      minute \<le> cf_SecurityDiffInterval c \<and> cf_SecurityDiffInterval c \<le> 24 * hour) \<and>
    0 \<le> cf_BackupInterval c \<and> fits_int64 (cf_RetentionSDKLogs c) \<and>
    (cf_NginxTimingLog c = [] \<or> is_abs (cf_NginxTimingLog c)) \<and>
    (cf_NginxTimingLog c = [] \<and> cf_PostgresContainer c = [] \<and> cf_RedisContainer c = [] \<or>
      cf_PerformanceServiceID c \<noteq> []) \<and>
    (cf_SecurityEventLog c = [] \<or> is_abs (cf_SecurityEventLog c)) \<and>
    (cf_SecurityEventLog c = []) = (cf_SecurityEventServiceID c = [])"

lemma loadListen_ok:
  "loadListen env = Inr l \<Longrightarrow>
    SplitHostPort (li_addr l) \<noteq> None \<and> li_env l \<in> {envDev, envProd} \<and> is_abs (li_hostRoot l)"
  unfolding loadListen_def Let_def chain_Inr check_Inr by auto

lemma loadAdmin_ok: "loadAdmin env = Inr a \<Longrightarrow> ad_password a \<noteq> []"
  unfolding loadAdmin_def Let_def chain_Inr check_Inr by (auto split: if_splits option.splits)

lemma loadIngest_ok:
  "loadIngest env = Inr i \<Longrightarrow>
    1 \<le> ig_maxOccurrences i \<and> fits_int64 (ig_maxOccurrences i) \<and>
    1 \<le> ig_maxLogLines i \<and> fits_int64 (ig_maxLogLines i)"
  unfolding loadIngest_def chain_Inr by (auto dest: parsed_positive)

lemma loadDatabase_ok:
  "loadDatabase fraction env = Inr d \<Longrightarrow>
    1 \<le> dc_backupKeep d \<and> fits_int64 (dc_backupKeep d) \<and> 0 \<le> dc_backupInterval d"
  unfolding loadDatabase_def chain_Inr by (auto dest: parsed_positive parsed_optional)

lemma loadStorage_ok:
  "loadStorage fraction env = Inr s \<Longrightarrow>
    list_all (\<lambda>d. 0 < d \<and> fits_int64 d)
     [st_maintenanceInterval s, st_retentionPerformance s, st_retentionPerformanceHourly s,
      st_retentionSecurityObservations s, st_retentionContainerEvents s, st_retentionSecurityFindings s] \<and>
    list_all (\<lambda>n. 1 \<le> n \<and> fits_int64 n) [st_maxBytes s, st_backupKeep s]"
  unfolding loadStorage_def chain_Inr by clarsimp (auto dest: parsed_positive parsed_duration)

lemma loadPerformance_ok:
  "loadPerformance fraction env d = Inr p \<Longrightarrow>
    0 < pf_interval p \<and> fits_int64 (pf_interval p) \<and>
    (pf_nginxTimingLog p = [] \<or> is_abs (pf_nginxTimingLog p)) \<and>
    (pf_nginxTimingLog p = [] \<and> dc_container d = [] \<and> dc_redisContainer d = [] \<or> pf_serviceID p \<noteq> [])"
  unfolding loadPerformance_def Let_def chain_Inr check_Inr by (auto dest: parsed_duration)

lemma loadSecurityEvents_ok:
  "loadSecurityEvents fraction env = Inr s \<Longrightarrow>
    0 < se_interval s \<and> fits_int64 (se_interval s) \<and>
    (se_path s = [] \<or> is_abs (se_path s)) \<and> (se_path s = []) = (se_serviceID s = [])"
  unfolding loadSecurityEvents_def Let_def chain_Inr check_Inr by (auto dest: parsed_duration)

text \<open>C22: A configuration that loads is in range: a listen address with a port, a known mode, an
  absolute host root, a password, positive intervals, retentions and caps that fit their types, at
  most 32 workers, a diff interval that is off or between a minute and a day, absolute log paths,
  a service for every enabled performance source (so postgres alone is refused), and the security
  event stream together with its service.  Of the SDK log retention only the width is sure.\<close>

theorem load_in_range:
  assumes "load_config fraction env = Inr c"
  shows "config_ok c"
proof -
  obtain l s a i d t p e where
    ok: "loadListen env = Inr l" "loadSchedule fraction env = Inr s" "loadAdmin env = Inr a"
      "loadIngest env = Inr i" "loadDatabase fraction env = Inr d" "loadStorage fraction env = Inr t"
      "loadPerformance fraction env d = Inr p" "loadSecurityEvents fraction env = Inr e"
    and c: "c = (case load_config fraction env of Inr c \<Rightarrow> c)"
    using assms unfolding load_config_def chain_Inr by auto
  note facts = loadListen_ok [OF ok(1)] loadSchedule_ok [OF ok(2)] loadAdmin_ok [OF ok(3)]
    loadIngest_ok [OF ok(4)] loadDatabase_ok [OF ok(5)] loadStorage_ok [OF ok(6)]
    loadPerformance_ok [OF ok(7)] loadSecurityEvents_ok [OF ok(8)]
  show ?thesis
    using facts unfolding c load_config_def ok chain.simps
    by (simp add: config_ok_def schedule_ok_def) blast
qed

section \<open>The day count\<close>

lemma wrap64_mult: "wrap64 (wrap64 a * b) = wrap64 (a * b)"
proof -
  have "word_of_int (wrap64 a * b) = (word_of_int (a * b) :: 64 word)"
    by (simp add: wrap64_def)
  then show ?thesis by (simp add: wrap64_def)
qed

text \<open>A day count of the SDK log retention is multiplied without a check: it means what it says up
  to 106751 days exactly, above that the product wraps around.\<close>

theorem sdk_days_wrap:
  assumes "env name = show_nat n" and "1 \<le> n" and "int n \<le> int64_max"
  shows "\<exists>d. parseRetentionDays fraction env name def = Inr d \<and> d = wrap64 (int n * (24 * hour)) \<and>
    (d = int n * (24 * hour)) = (n \<le> 106751)"
proof -
  have nonempty: "show_nat n \<noteq> []" using show_nat_digits by blast
  have "parse_int (show_nat n) = Some (int n)"
    using parse_int_itoa [of "int n"] assms(3) by (simp add: itoa_def int64_defs)
  then have run: "parseRetentionDays fraction env name def = Inr (wrap64 (int n * (24 * hour)))"
    using assms(1,2) nonempty
    by (simp add: parseRetentionDays_def setting_def wrap64_mult mult.assoc)
  have "(wrap64 (int n * (24 * hour)) = int n * (24 * hour)) = fits_int64 (int n * (24 * hour))"
    using wrap64_fits wrap64_id by metis
  also have "\<dots> = (n \<le> 106751)" by (simp add: int64_defs hour_def) linarith
  finally show ?thesis using run by blast
qed

lemma sdk_days_wrap_witness:
  "parseRetentionDays (\<lambda>_ _ _. 0) (\<lambda>_. show_nat 213504) retentionSDKLogsEnvVar defaultRetentionSDKLogs =
    Inr 1526290448384"
proof -
  have "wrap64 (int 213504 * (24 * hour)) = 1526290448384" by (simp add: wrap64_eq hour_def)
  then show ?thesis
    using sdk_days_wrap [of "\<lambda>_. show_nat 213504" retentionSDKLogsEnvVar 213504] by (simp add: int64_defs)
qed

section \<open>The defaults\<close>

definition only_password :: "gostring \<Rightarrow> environ" where
  "only_password pw n = (if n = adminPasswordEnvVar then pw else [])"

lemma shown_numbers:
  "show_nat 2 = ''2''"
  "show_nat 5 = ''5''"
  "show_nat 10 = ''10''"
  "show_nat 24 = ''24''"
  "show_nat 30 = ''30''"
  "show_nat 168 = ''168''"
  "show_nat 720 = ''720''"
  "show_nat 2160 = ''2160''"
  "show_nat 8760 = ''8760''"
  by (simp_all add: digit_char_def show_nat.simps [of "Suc 0"] show_nat.simps [of 8760] show_nat.simps [of 2160] show_nat.simps [of 876] show_nat.simps [of 720] show_nat.simps [of 216] show_nat.simps [of 168] show_nat.simps [of 87] show_nat.simps [of 72] show_nat.simps [of 30] show_nat.simps [of 24] show_nat.simps [of 21] show_nat.simps [of 16] show_nat.simps [of 10] show_nat.simps [of 8] show_nat.simps [of 7] show_nat.simps [of 5] show_nat.simps [of 3] show_nat.simps [of 2] show_nat.simps [of 1])

lemma unit_names:
  "unit_map ''s'' = Some 1000000000" "unit_map ''m'' = Some 60000000000" "unit_map ''h'' = Some 3600000000000"
  by (simp_all add: unit_map_def)

lemma default_texts:
  "defaultMetricsInterval = show_nat 30 @ ''s''"
  "defaultInventoryInterval = show_nat 2 @ ''m''"
  "defaultSecurityProcessInterval = show_nat 2 @ ''m''"
  "defaultRetentionMetrics = show_nat 168 @ ''h''"
  "defaultRetentionNotifications = show_nat 720 @ ''h''"
  "defaultRetentionDeploys = show_nat 8760 @ ''h''"
  "defaultWatchInterval = show_nat 5 @ ''s''"
  "defaultCutoverTimeout = show_nat 10 @ ''m''"
  "defaultRetentionErrors = show_nat 720 @ ''h''"
  "defaultRetentionLogs = show_nat 720 @ ''h''"
  "defaultLogPollInterval = show_nat 5 @ ''s''"
  "defaultBackupInterval = show_nat 24 @ ''h''"
  "defaultMaintenanceInterval = show_nat 5 @ ''m''"
  "defaultRetentionPerformance = show_nat 168 @ ''h''"
  "defaultRetentionPerfHourly = show_nat 720 @ ''h''"
  "defaultPerformanceInterval = show_nat 30 @ ''s''"
  "defaultSecurityEventInterval = show_nat 5 @ ''s''"
  "defaultRetentionSecurityObservations = show_nat 24 @ ''h''"
  "defaultRetentionContainerEvents = show_nat 2160 @ ''h''"
  "defaultRetentionSecurityFindings = show_nat 8760 @ ''h''"
  by (simp_all add: shown_numbers defaultMetricsInterval_def
      defaultInventoryInterval_def
      defaultSecurityProcessInterval_def
      defaultRetentionMetrics_def
      defaultRetentionNotifications_def
      defaultRetentionDeploys_def
      defaultWatchInterval_def
      defaultCutoverTimeout_def
      defaultRetentionErrors_def
      defaultRetentionLogs_def
      defaultLogPollInterval_def
      defaultBackupInterval_def
      defaultMaintenanceInterval_def
      defaultRetentionPerformance_def
      defaultRetentionPerfHourly_def
      defaultPerformanceInterval_def
      defaultSecurityEventInterval_def
      defaultRetentionSecurityObservations_def
      defaultRetentionContainerEvents_def
      defaultRetentionSecurityFindings_def)

lemma default_durations:
  "ParseDuration fraction defaultMetricsInterval = Some (30 * second)"
  "ParseDuration fraction defaultInventoryInterval = Some (2 * minute)"
  "ParseDuration fraction defaultSecurityProcessInterval = Some (2 * minute)"
  "ParseDuration fraction defaultRetentionMetrics = Some (168 * hour)"
  "ParseDuration fraction defaultRetentionNotifications = Some (720 * hour)"
  "ParseDuration fraction defaultRetentionDeploys = Some (8760 * hour)"
  "ParseDuration fraction defaultWatchInterval = Some (5 * second)"
  "ParseDuration fraction defaultCutoverTimeout = Some (10 * minute)"
  "ParseDuration fraction defaultRetentionErrors = Some (720 * hour)"
  "ParseDuration fraction defaultRetentionLogs = Some (720 * hour)"
  "ParseDuration fraction defaultLogPollInterval = Some (5 * second)"
  "ParseDuration fraction defaultBackupInterval = Some (24 * hour)"
  "ParseDuration fraction defaultMaintenanceInterval = Some (5 * minute)"
  "ParseDuration fraction defaultRetentionPerformance = Some (168 * hour)"
  "ParseDuration fraction defaultRetentionPerfHourly = Some (720 * hour)"
  "ParseDuration fraction defaultPerformanceInterval = Some (30 * second)"
  "ParseDuration fraction defaultSecurityEventInterval = Some (5 * second)"
  "ParseDuration fraction defaultRetentionSecurityObservations = Some (24 * hour)"
  "ParseDuration fraction defaultRetentionContainerEvents = Some (2160 * hour)"
  "ParseDuration fraction defaultRetentionSecurityFindings = Some (8760 * hour)"
  unfolding default_texts ParseDuration_whole [OF unit_names(1)] ParseDuration_whole [OF unit_names(2)]
    ParseDuration_whole [OF unit_names(3)]
  by (simp_all add: two63_def unit_defs)

lemma default_numbers:
  "parse_int defaultBackupKeep = Some 14"
  "parse_int defaultInventoryWorkers = Some 2"
  "parse_int defaultMaxLogLines = Some 3000000"
  "parse_int defaultMaxOccurrences = Some 10000"
  "parse_int defaultRetentionSDKLogs = Some 30"
  "parse_int defaultSQLiteBackupKeep = Some 14"
  "parse_int defaultSQLiteMaxBytes = Some 4294967296"
  "parse_int defaultSecurityWorkers = Some 2"
  by (simp_all add: parse_int_def Let_def parse_digits_def digits_val_def digit_val_def is_digit_def int64_defs
      defaultBackupKeep_def defaultInventoryWorkers_def defaultMaxLogLines_def defaultMaxOccurrences_def defaultRetentionSDKLogs_def defaultSQLiteBackupKeep_def defaultSQLiteMaxBytes_def defaultSecurityWorkers_def)

lemma other_names:
  "addrEnvVar \<noteq> adminPasswordEnvVar"
  "dbEnvVar \<noteq> adminPasswordEnvVar"
  "envEnvVar \<noteq> adminPasswordEnvVar"
  "hostRootEnvVar \<noteq> adminPasswordEnvVar"
  "metricsIntervalEnvVar \<noteq> adminPasswordEnvVar"
  "inventoryIntervalEnvVar \<noteq> adminPasswordEnvVar"
  "inventoryWorkersEnvVar \<noteq> adminPasswordEnvVar"
  "securityProcessIntervalEnvVar \<noteq> adminPasswordEnvVar"
  "securityWorkersEnvVar \<noteq> adminPasswordEnvVar"
  "securityDiffIntervalEnvVar \<noteq> adminPasswordEnvVar"
  "retentionMetricsEnvVar \<noteq> adminPasswordEnvVar"
  "retentionNotificationsEnvVar \<noteq> adminPasswordEnvVar"
  "retentionDeploysEnvVar \<noteq> adminPasswordEnvVar"
  "cookieSecureEnvVar \<noteq> adminPasswordEnvVar"
  "watchIntervalEnvVar \<noteq> adminPasswordEnvVar"
  "cutoverTimeoutEnvVar \<noteq> adminPasswordEnvVar"
  "retentionErrorsEnvVar \<noteq> adminPasswordEnvVar"
  "maxOccurrencesEnvVar \<noteq> adminPasswordEnvVar"
  "retentionLogsEnvVar \<noteq> adminPasswordEnvVar"
  "maxLogLinesEnvVar \<noteq> adminPasswordEnvVar"
  "logPollIntervalEnvVar \<noteq> adminPasswordEnvVar"
  "retentionSDKLogsEnvVar \<noteq> adminPasswordEnvVar"
  "postgresContainerEnvVar \<noteq> adminPasswordEnvVar"
  "postgresUserEnvVar \<noteq> adminPasswordEnvVar"
  "postgresDBEnvVar \<noteq> adminPasswordEnvVar"
  "backupDirEnvVar \<noteq> adminPasswordEnvVar"
  "backupKeepEnvVar \<noteq> adminPasswordEnvVar"
  "backupIntervalEnvVar \<noteq> adminPasswordEnvVar"
  "redisContainerEnvVar \<noteq> adminPasswordEnvVar"
  "scriptsDirEnvVar \<noteq> adminPasswordEnvVar"
  "maintenanceIntervalEnvVar \<noteq> adminPasswordEnvVar"
  "sqliteMaxBytesEnvVar \<noteq> adminPasswordEnvVar"
  "sqliteBackupDirEnvVar \<noteq> adminPasswordEnvVar"
  "sqliteBackupKeepEnvVar \<noteq> adminPasswordEnvVar"
  "retentionPerformanceEnvVar \<noteq> adminPasswordEnvVar"
  "retentionPerformanceHourlyEnvVar \<noteq> adminPasswordEnvVar"
  "nginxTimingLogEnvVar \<noteq> adminPasswordEnvVar"
  "performanceServiceIDEnvVar \<noteq> adminPasswordEnvVar"
  "performanceIntervalEnvVar \<noteq> adminPasswordEnvVar"
  "securityEventLogEnvVar \<noteq> adminPasswordEnvVar"
  "securityEventServiceIDEnvVar \<noteq> adminPasswordEnvVar"
  "securityEventIntervalEnvVar \<noteq> adminPasswordEnvVar"
  "retentionSecurityObservationsEnvVar \<noteq> adminPasswordEnvVar"
  "retentionContainerEventsEnvVar \<noteq> adminPasswordEnvVar"
  "retentionSecurityFindingsEnvVar \<noteq> adminPasswordEnvVar"
  by (simp_all add: adminPasswordEnvVar_def
      addrEnvVar_def
      dbEnvVar_def
      envEnvVar_def
      hostRootEnvVar_def
      metricsIntervalEnvVar_def
      inventoryIntervalEnvVar_def
      inventoryWorkersEnvVar_def
      securityProcessIntervalEnvVar_def
      securityWorkersEnvVar_def
      securityDiffIntervalEnvVar_def
      retentionMetricsEnvVar_def
      retentionNotificationsEnvVar_def
      retentionDeploysEnvVar_def
      cookieSecureEnvVar_def
      watchIntervalEnvVar_def
      cutoverTimeoutEnvVar_def
      retentionErrorsEnvVar_def
      maxOccurrencesEnvVar_def
      retentionLogsEnvVar_def
      maxLogLinesEnvVar_def
      logPollIntervalEnvVar_def
      retentionSDKLogsEnvVar_def
      postgresContainerEnvVar_def
      postgresUserEnvVar_def
      postgresDBEnvVar_def
      backupDirEnvVar_def
      backupKeepEnvVar_def
      backupIntervalEnvVar_def
      redisContainerEnvVar_def
      scriptsDirEnvVar_def
      maintenanceIntervalEnvVar_def
      sqliteMaxBytesEnvVar_def
      sqliteBackupDirEnvVar_def
      sqliteBackupKeepEnvVar_def
      retentionPerformanceEnvVar_def
      retentionPerformanceHourlyEnvVar_def
      nginxTimingLogEnvVar_def
      performanceServiceIDEnvVar_def
      performanceIntervalEnvVar_def
      securityEventLogEnvVar_def
      securityEventServiceIDEnvVar_def
      securityEventIntervalEnvVar_def
      retentionSecurityObservationsEnvVar_def
      retentionContainerEventsEnvVar_def
      retentionSecurityFindingsEnvVar_def)

definition default_config :: "gostring \<Rightarrow> config" where
  "default_config pw =
     \<lparr>cf_Addr = defaultAddr,
      cf_DB = defaultDB,
      cf_Env = defaultEnv,
      cf_HostRoot = defaultHostRoot,
      cf_MetricsInterval = 30 * second,
      cf_InventoryInterval = 2 * minute,
      cf_InventoryWorkers = 2,
      cf_SecurityProcessInterval = 2 * minute,
      cf_SecurityWorkers = 2,
      cf_SecurityDiffInterval = 0,
      cf_RetentionMetrics = 168 * hour,
      cf_RetentionNotifications = 720 * hour,
      cf_RetentionDeploys = 8760 * hour,
      cf_AdminPassword = pw,
      cf_CookieSecure = False,
      cf_WatchInterval = 5 * second,
      cf_CutoverTimeout = 10 * minute,
      cf_RetentionErrors = 720 * hour,
      cf_MaxOccurrences = 10000,
      cf_RetentionLogs = 720 * hour,
      cf_RetentionSDKLogs = 30 * 24 * hour,
      cf_MaxLogLines = 3000000,
      cf_LogPollInterval = 5 * second,
      cf_PostgresContainer = [],
      cf_PostgresUser = defaultPostgresUser,
      cf_PostgresDB = defaultPostgresDB,
      cf_BackupDir = defaultBackupDir,
      cf_BackupKeep = 14,
      cf_BackupInterval = 24 * hour,
      cf_RedisContainer = [],
      cf_ScriptsDir = defaultScriptsDir,
      cf_MaintenanceInterval = 5 * minute,
      cf_SQLiteMaxBytes = 4294967296,
      cf_SQLiteBackupDir = defaultSQLiteBackupDir,
      cf_SQLiteBackupKeep = 14,
      cf_RetentionPerformance = 168 * hour,
      cf_RetentionPerformanceHourly = 720 * hour,
      cf_NginxTimingLog = [],
      cf_PerformanceServiceID = [],
      cf_PerformanceInterval = 30 * second,
      cf_SecurityEventLog = [],
      cf_SecurityEventServiceID = [],
      cf_SecurityEventInterval = 5 * second,
      cf_RetentionSecurityObservations = 24 * hour,
      cf_RetentionContainerEvents = 2160 * hour,
      cf_RetentionSecurityFindings = 8760 * hour\<rparr>"

lemma default_setting: "name \<noteq> adminPasswordEnvVar \<Longrightarrow> setting (only_password pw) name d = d"
  by (simp add: setting_def only_password_def)

lemma empty_setting: "name \<noteq> adminPasswordEnvVar \<Longrightarrow> only_password pw name = []"
  by (simp add: only_password_def)

lemma default_groups:
  "loadListen (only_password pw) = Inr \<lparr>li_addr = defaultAddr, li_db = defaultDB, li_env = defaultEnv,
      li_hostRoot = defaultHostRoot, li_scriptsDir = defaultScriptsDir\<rparr>"
  "loadAdmin (only_password pw) =
    (if pw = [] then Inl (MustBeSet adminPasswordEnvVar) else Inr \<lparr>ad_password = pw, ad_secure = False\<rparr>)"
proof -
  have "SplitHostPort defaultAddr \<noteq> None" by code_simp
  moreover have "defaultEnv = envProd" "is_abs defaultHostRoot" by code_simp+
  ultimately show "loadListen (only_password pw) = Inr \<lparr>li_addr = defaultAddr, li_db = defaultDB,
      li_env = defaultEnv, li_hostRoot = defaultHostRoot, li_scriptsDir = defaultScriptsDir\<rparr>"
    by (simp add: loadListen_def default_setting other_names check_def)
  show "loadAdmin (only_password pw) =
    (if pw = [] then Inl (MustBeSet adminPasswordEnvVar) else Inr \<lparr>ad_password = pw, ad_secure = False\<rparr>)"
    by (simp add: loadAdmin_def empty_setting other_names check_def only_password_def)
qed

lemma default_values:
  "name \<noteq> adminPasswordEnvVar \<Longrightarrow> parseDuration fraction (only_password pw) name d =
    (case ParseDuration fraction d of None \<Rightarrow> Inl (BadVar name)
     | Some t \<Rightarrow> if t \<le> 0 then Inl (BadVar name) else Inr t)"
  "name \<noteq> adminPasswordEnvVar \<Longrightarrow> parsePositiveInt (only_password pw) name d =
    (case parse_int d of None \<Rightarrow> Inl (BadVar name) | Some v \<Rightarrow> if v < 1 then Inl (BadVar name) else Inr v)"
  "name \<noteq> adminPasswordEnvVar \<Longrightarrow> parsePositiveInt64 (only_password pw) name d =
    (case parse_int d of None \<Rightarrow> Inl (BadVar name) | Some v \<Rightarrow> if v < 1 then Inl (BadVar name) else Inr v)"
  by (simp_all add: parseDuration_def parsePositiveInt_def parsePositiveInt64_def default_setting)

lemma default_special:
  "parseOptionalDuration fraction (only_password pw) securityDiffIntervalEnvVar defaultSecurityDiffInterval = Inr 0"
  "parseBackupInterval fraction (only_password pw) = Inr (24 * hour)"
  "parseRetentionDays fraction (only_password pw) retentionSDKLogsEnvVar defaultRetentionSDKLogs =
    Inr (30 * 24 * hour)"
proof -
  have "ParseDuration fraction defaultSecurityDiffInterval = Some 0"
    by (simp add: ParseDuration_def defaultSecurityDiffInterval_def)
  then show "parseOptionalDuration fraction (only_password pw) securityDiffIntervalEnvVar
      defaultSecurityDiffInterval = Inr 0"
    by (simp add: parseOptionalDuration_def default_setting other_names)
  show "parseBackupInterval fraction (only_password pw) = Inr (24 * hour)"
    by (simp add: parseBackupInterval_def default_setting other_names default_durations)
      (simp add: unit_defs)
  have "wrap64 (30 * (24 * hour)) = 30 * 24 * hour" by (simp add: wrap64_eq hour_def)
  then show "parseRetentionDays fraction (only_password pw) retentionSDKLogsEnvVar defaultRetentionSDKLogs =
      Inr (30 * 24 * hour)"
    by (simp add: parseRetentionDays_def default_setting other_names default_numbers wrap64_mult mult.assoc)
qed

lemmas default_simps = default_values default_special other_names default_durations default_numbers
  default_setting empty_setting

lemma positive_units: "\<not> numeral n * second \<le> 0" "\<not> numeral n * minute \<le> 0" "\<not> numeral n * hour \<le> 0"
  by (simp_all add: unit_defs)

lemma default_schedule:
  "loadSchedule fraction (only_password pw) = Inr
     \<lparr>sc_metrics = 30 * second,
      sc_inventory = 2 * minute,
      sc_inventoryWorkers = 2,
      sc_securityProcess = 2 * minute,
      sc_securityWorkers = 2,
      sc_securityDiff = 0,
      sc_retentionMetrics = 168 * hour,
      sc_retentionNotifications = 720 * hour,
      sc_retentionDeploys = 8760 * hour,
      sc_retentionErrors = 720 * hour,
      sc_watch = 5 * second,
      sc_cutoverTimeout = 10 * minute,
      sc_retentionLogs = 720 * hour,
      sc_retentionSDKLogs = 30 * 24 * hour,
      sc_logPoll = 5 * second\<rparr>"
  unfolding loadSchedule_def by (simp add: default_simps positive_units check_def)

lemma default_ingest:
  "loadIngest (only_password pw) = Inr \<lparr>ig_maxOccurrences = 10000, ig_maxLogLines = 3000000\<rparr>"
  unfolding loadIngest_def by (simp add: default_simps)

lemma default_database:
  "loadDatabase fraction (only_password pw) = Inr
     \<lparr>dc_container = [], dc_user = defaultPostgresUser, dc_dbName = defaultPostgresDB,
      dc_backupDir = defaultBackupDir, dc_backupKeep = 14, dc_backupInterval = 24 * hour,
      dc_redisContainer = []\<rparr>"
  unfolding loadDatabase_def by (simp add: default_simps)

lemma default_storage:
  "loadStorage fraction (only_password pw) = Inr
     \<lparr>st_maintenanceInterval = 5 * minute,
      st_maxBytes = 4294967296,
      st_backupDir = defaultSQLiteBackupDir,
      st_backupKeep = 14,
      st_retentionPerformance = 168 * hour,
      st_retentionPerformanceHourly = 720 * hour,
      st_retentionSecurityObservations = 24 * hour,
      st_retentionContainerEvents = 2160 * hour,
      st_retentionSecurityFindings = 8760 * hour\<rparr>"
  unfolding loadStorage_def by (simp add: default_simps positive_units)

lemma default_sources:
  "dc_container d = [] \<Longrightarrow> dc_redisContainer d = [] \<Longrightarrow> loadPerformance fraction (only_password pw) d =
    Inr \<lparr>pf_nginxTimingLog = [], pf_serviceID = [], pf_interval = 30 * second\<rparr>"
  "loadSecurityEvents fraction (only_password pw) =
    Inr \<lparr>se_path = [], se_serviceID = [], se_interval = 5 * second\<rparr>"
  by (simp_all add: loadPerformance_def loadSecurityEvents_def default_simps positive_units check_def Let_def)

lemma load_with_password:
  "load_config fraction (only_password pw) =
    (if pw = [] then Inl (MustBeSet adminPasswordEnvVar) else Inr (default_config pw))"
  by (simp add: load_config_def default_groups default_schedule default_ingest default_database
      default_storage default_sources default_config_def)

text \<open>Without a password nothing loads; with the password alone every other setting has its documented
  default (SDK and container logs are kept for 30 days, three million lines a service).\<close>

theorem load_defaults:
  "load_config fraction (only_password pw) =
    (if pw = [] then Inl (MustBeSet adminPasswordEnvVar) else Inr (default_config pw))"
  by (rule load_with_password)

lemma load_in_range_witness: "config_ok (default_config ''pw'')"
  by (rule load_in_range [of "\<lambda>_ _ _. 0" "only_password ''pw''"]) (simp add: load_with_password)

end
