(* ===== verification/Watch.thy ===== *)
theory Watch
  imports Cutover Audit_Log
begin

text \<open>
  The watch loop of the live targets (service/watch.go).  A poll reads the nginx target of every
  blue-green service and compares it with the last one it saw; a change emits an event and, when no
  run of the engine is in flight for the service, is reported as an external flip with a
  notification and an audit entry.  The maps \<open>last\<close> and \<open>failed\<close> of the loop are threaded; log
  lines are left out.  The state is the one of the deploy engine, whose run guard the loop reads.
\<close>

abbreviation EventNginxChanged :: gostring where "EventNginxChanged \<equiv> ''nginx_changed''"
abbreviation NotificationDeploy :: gostring where "NotificationDeploy \<equiv> ''deploy''"
abbreviation actorSystem :: gostring where "actorSystem \<equiv> ''system''"

text \<open>The arrow in the messages, U+2192.\<close>

definition arrow :: gostring where
  "arrow = [CHR '' '', CHR 0xE2, CHR 0x86, CHR 0x92, CHR '' '']"

text \<open>What \<open>SetFlipReporter\<close> was given: each field may be nil.\<close>

record flip_reporter =
  fr_notifications :: bool
  fr_audit :: bool
  fr_active :: bool

definition SetFlipReporter :: "bool \<Rightarrow> bool \<Rightarrow> bool \<Rightarrow> flip_reporter" where
  "SetFlipReporter notif audit active =
    \<lparr>fr_notifications = notif, fr_audit = audit, fr_active = active\<rparr>"

record watch_state =
  ws_last :: "gostring \<rightharpoonup> gostring"
  ws_failed :: "gostring \<Rightarrow> bool"

definition watch_start :: watch_state where
  "watch_start = \<lparr>ws_last = Map.empty, ws_failed = (\<lambda>_. False)\<rparr>"

definition colorName :: "blue_green_config \<Rightarrow> gostring \<Rightarrow> gostring" where
  "colorName cfg target =
    (if target = bg_blue_target cfg then colorBlue
     else if target = bg_green_target cfg then colorGreen
     else if target = bg_legacy_target cfg then colorLegacy else target)"

definition flipColors :: "'y outside_scheme \<Rightarrow> service \<Rightarrow> gostring \<Rightarrow> gostring \<Rightarrow> gostring \<times> gostring" where
  "flipColors env def prev target =
    (case decodeBlueGreen (os_json env) (svc_config def) of
       None \<Rightarrow> (prev, target)
     | Some cfg \<Rightarrow> (colorName cfg prev, colorName cfg target))"

definition liveTarget :: "'y outside_scheme \<Rightarrow> service \<Rightarrow> gostring option" where
  "liveTarget env def =
    (case decodeBlueGreen (os_json env) (svc_config def) of
       None \<Rightarrow> None
     | Some cfg \<Rightarrow>
        (case LiveTarget (os_file env (bg_nginx_conf cfg)) (bg_marker cfg) of Inl _ \<Rightarrow> None | Inr t \<Rightarrow> Some t))"

definition flip_title :: "service \<Rightarrow> gostring \<Rightarrow> gostring" where
  "flip_title def to_colour = ''external flip detected: '' @ svc_id def @ arrow @ to_colour"

definition flip_body :: "gostring \<Rightarrow> gostring \<Rightarrow> gostring \<Rightarrow> gostring \<Rightarrow> gostring" where
  "flip_body from_colour prev to_colour target =
    ''live target changed '' @ from_colour @ '' ('' @ prev @ '')'' @ arrow @ to_colour @
    '' ('' @ target @ '') outside touchgrass''"

definition flip_audit :: "service \<Rightarrow> gostring \<Rightarrow> audit_record" where
  "flip_audit def body =
    \<lparr>ar_service = svc_id def, ar_actor = actorSystem, ar_action = ''cutover'',
     ar_result = AuditSuccess, ar_detail = body\<rparr>"

definition reportFlip ::
  "'y outside_scheme \<Rightarrow> flip_reporter \<Rightarrow> instant \<Rightarrow> service \<Rightarrow> gostring \<Rightarrow> gostring
    \<Rightarrow> ('z cutover_world_scheme, err, unit) prog" where
  "reportFlip env rep now def prev target =
    (if \<not> fr_notifications rep \<or> \<not> fr_audit rep then ret ()
     else bindE (gets (\<lambda>w. fr_active rep \<and> Active (svc_id def) w)) (\<lambda>busy.
       if busy then ret ()
       else
        (let (src, dst) = flipColors env def prev target; body = flip_body src prev dst target in
         andthen (attempt (notification_insert now (svc_id def) NotificationDeploy (flip_title def dst) body))
        (andthen (attempt (audit_Record now (flip_audit def body)))
          (ret ())))))"

definition changed_event :: "instant \<Rightarrow> service \<Rightarrow> gostring \<Rightarrow> gostring \<Rightarrow> event" where
  "changed_event now def prev target =
    \<lparr>ev_type = EventNginxChanged, ev_service = svc_id def,
     ev_message = ''live target changed '' @ prev @ arrow @ target, ev_at = now\<rparr>"

definition mark_failed :: "gostring \<Rightarrow> bool \<Rightarrow> watch_state \<Rightarrow> watch_state" where
  "mark_failed sid b ws = ws\<lparr>ws_failed := (ws_failed ws)(sid := b)\<rparr>"

definition mark_seen :: "gostring \<Rightarrow> gostring \<Rightarrow> watch_state \<Rightarrow> watch_state" where
  "mark_seen sid target ws = ws\<lparr>ws_last := (ws_last ws)(sid \<mapsto> target)\<rparr>"

text \<open>\<open>emit\<close> says whether there is somebody to emit to: not on the first poll.\<close>

definition checkTarget ::
  "'y outside_scheme \<Rightarrow> flip_reporter \<Rightarrow> bool \<Rightarrow> instant \<Rightarrow> service \<Rightarrow> watch_state
    \<Rightarrow> ('z cutover_world_scheme, err, watch_state) prog" where
  "checkTarget env rep emit now def ws =
    (case liveTarget env def of
       None \<Rightarrow> ret (mark_failed (svc_id def) True ws)
     | Some target \<Rightarrow>
        (let ws1 = mark_failed (svc_id def) False ws in
         andthen
          (case ws_last ws (svc_id def) of
             None \<Rightarrow> ret ()
           | Some prev \<Rightarrow>
              (if prev = target then ret ()
               else andthen (if emit then emit_event (changed_event now def prev target) else ret ())
                     (reportFlip env rep now def prev target)))
          (ret (mark_seen (svc_id def) target ws1))))"

fun checkTargets ::
  "'y outside_scheme \<Rightarrow> flip_reporter \<Rightarrow> bool \<Rightarrow> instant \<Rightarrow> service list \<Rightarrow> watch_state
    \<Rightarrow> ('z cutover_world_scheme, err, watch_state) prog" where
  "checkTargets env rep emit now [] ws = ret ws"
| "checkTargets env rep emit now (d # ds) ws =
    (if svc_strategy d \<noteq> StrategyBlueGreen then checkTargets env rep emit now ds ws
     else bindE (checkTarget env rep emit now d ws) (checkTargets env rep emit now ds))"

definition pollTargets ::
  "'y outside_scheme \<Rightarrow> flip_reporter \<Rightarrow> bool \<Rightarrow> instant \<Rightarrow> watch_state
    \<Rightarrow> ('z cutover_world_scheme, err, watch_state) prog" where
  "pollTargets env rep emit now ws =
    bindE (attempt svc_all) (\<lambda>r.
      case r of Inl _ \<Rightarrow> ret ws | Inr defs \<Rightarrow> checkTargets env rep emit now defs ws)"

text \<open>The loop over its ticks: what the outside shows at each, the first poll being the baseline.\<close>

fun watch_ticks ::
  "flip_reporter \<Rightarrow> bool \<Rightarrow> ('y outside_scheme \<times> instant) list \<Rightarrow> watch_state
    \<Rightarrow> ('z cutover_world_scheme, err, watch_state) prog" where
  "watch_ticks rep emit [] ws = ret ws"
| "watch_ticks rep emit ((env, now) # ts) ws =
    bindE (pollTargets env rep emit now ws) (watch_ticks rep True ts)"

definition Watch ::
  "flip_reporter \<Rightarrow> ('y outside_scheme \<times> instant) list \<Rightarrow> ('z cutover_world_scheme, err, watch_state) prog" where
  "Watch rep ticks = watch_ticks rep False ticks watch_start"

end
