(* ===== verification/Watch_Laws.thy ===== *)
theory Watch_Laws
  imports Watch Cutover_Laws
begin

text \<open>
  The watch loop: it always goes on, keeps the schema and the run guard, reports a flip exactly when
  the target changed with no run in flight, and, because it polls, it also reports the flips of runs
  that ended between two polls.
\<close>

section \<open>The loop goes on\<close>

lemma total_checkTarget: "total (checkTarget env rep emit now def ws)"
  unfolding checkTarget_def reportFlip_def emit_event_def Let_def
  by (auto intro!: total_rules split: option.split prod.split)

lemma total_checkTargets: "total (checkTargets env rep emit now ds ws)"
  by (induction ds arbitrary: ws) (auto intro!: total_rules total_checkTarget)

lemma total_pollTargets: "total (pollTargets env rep emit now ws)"
  unfolding pollTargets_def by (auto intro!: total_rules total_checkTargets split: sum.split)

lemma total_ticks: "total (watch_ticks rep emit ts ws)"
  by (induction ts arbitrary: emit ws) (auto intro!: total_rules total_pollTargets)

lemma keeps_checkTarget: "keeps world_ok (checkTarget env rep emit now def ws)"
  unfolding checkTarget_def reportFlip_def Let_def
  by (auto intro!: keeps_rules world_keeps split: option.split prod.split)

lemma keeps_checkTargets: "keeps world_ok (checkTargets env rep emit now ds ws)"
  by (induction ds arbitrary: ws) (auto intro!: keeps_rules keeps_checkTarget)

lemma keeps_ticks: "keeps world_ok (watch_ticks rep emit ts ws)"
  by (induction ts arbitrary: emit ws)
    (auto simp: pollTargets_def intro!: keeps_rules world_keeps keeps_checkTargets split: sum.split)

section \<open>One target\<close>

definition with_event :: "event \<Rightarrow> 'z world_scheme \<Rightarrow> 'z world_scheme" where
  "with_event e w = w\<lparr>events := events w @ [e]\<rparr>"

abbreviation all_wired :: flip_reporter where "all_wired \<equiv> SetFlipReporter True True True"

definition flip_text :: "'y outside_scheme \<Rightarrow> service \<Rightarrow> gostring \<Rightarrow> gostring \<Rightarrow> gostring" where
  "flip_text env def prev target =
    flip_body (fst (flipColors env def prev target)) prev (snd (flipColors env def prev target)) target"

text \<open>The world with the notification and the audit entry of an external flip.\<close>

definition with_flip ::
  "'y outside_scheme \<Rightarrow> instant \<Rightarrow> service \<Rightarrow> gostring \<Rightarrow> gostring \<Rightarrow> 'z world_scheme \<Rightarrow> 'z world_scheme" where
  "with_flip env now def prev target w =
    with_audit (audit_entry now (flip_audit def (flip_text env def prev target)))
     (with_notification
       (new_notification now (svc_id def) NotificationDeploy
         (flip_title def (snd (flipColors env def prev target))) (flip_text env def prev target)) w)"

lemma reportFlip_quiet:
  fixes w :: "'z cutover_world_scheme"
  assumes q: "faults w = []" and row: "service_row (svc_id def) w \<noteq> None" and now: "\<not> is_zero_time now"
  shows "reportFlip env all_wired now def prev target w =
    (Inr (), if svc_id def \<in> runs w then w else with_flip env now def prev target w)"
proof -
  obtain src dst where c: "flipColors env def prev target = (src, dst)" by fastforce
  let ?body = "flip_body src prev dst target"
  let ?w = "with_notification (new_notification now (svc_id def) NotificationDeploy (flip_title def dst) ?body) w"
  have has: "has_service (svc_id def) w" using row has_service_row by auto
  have q': "faults ?w = []" using q by (simp add: with_notification_def)
  have known: "audit_service_known (flip_audit def ?body) ?w"
    using row by (simp add: audit_service_known_def flip_audit_def service_row_def with_notification_def)
  have valid: "audit_valid (flip_audit def ?body)"
    by (simp add: audit_valid_def flip_audit_def audit_actions_def)
  obtain r where n: "attempt (notification_insert now (svc_id def) NotificationDeploy
      (flip_title def dst) ?body) w = ((Inr r :: err + _), ?w)"
    using attempt_total notification_insert_quiet [OF q] has by metis
  have a: "attempt (audit_Record now (flip_audit def ?body)) ?w =
      ((Inr (Inr (seq (audits ?w) + 1)) :: err + _), with_audit (audit_entry now (flip_audit def ?body)) ?w)"
    unfolding attempt_def audit_Record_quiet [OF q' valid known now] by simp
  show ?thesis
    by (simp add: reportFlip_def SetFlipReporter_def c with_flip_def flip_text_def Active_def bindE_def
        gets_def ret_def andthen_def n a Let_def)
qed

text \<open>C16: A check of one target, where the database answers: an unreadable target and a first sight
  change nothing but what the loop remembers, an unchanged target neither; a changed one emits the
  event, and it is reported as external, with one notification and one audit entry by the system,
  exactly when no run of the service is in flight.  The loop then remembers the new target.\<close>

theorem flip_reported_exactly:
  fixes w :: "'z cutover_world_scheme"
  assumes "faults w = []" and "service_row (svc_id def) w \<noteq> None" and "\<not> is_zero_time now"
  shows "checkTarget env (SetFlipReporter True True True) True now def ws w =
    (case liveTarget env def of
       None \<Rightarrow> (Inr (mark_failed (svc_id def) True ws), w)
     | Some target \<Rightarrow>
        (Inr (mark_seen (svc_id def) target (mark_failed (svc_id def) False ws)),
         case ws_last ws (svc_id def) of
           None \<Rightarrow> w
         | Some prev \<Rightarrow>
            (if prev = target then w
             else let w' = with_event (changed_event now def prev target) w in
               if svc_id def \<in> runs w then w' else with_flip env now def prev target w')))"
proof (cases "liveTarget env def")
  case (Some target)
  show ?thesis
  proof (cases "ws_last ws (svc_id def)")
    case (Some prev)
    let ?w = "with_event (changed_event now def prev target) w"
    have "faults ?w = []" "service_row (svc_id def) ?w \<noteq> None"
      using assms(1,2) by (simp_all add: with_event_def service_row_def)
    note run = reportFlip_quiet [OF this assms(3), of env prev target]
    have "runs ?w = runs w" by (simp add: with_event_def)
    then show ?thesis
      using run Some \<open>liveTarget env def = Some target\<close>
      by (simp add: checkTarget_def emit_event_def andthen_def bindE_def modify_def ret_def Let_def
          with_event_def)
  qed (simp add: checkTarget_def Some andthen_def bindE_def ret_def Let_def)
qed (simp add: checkTarget_def ret_def)

section \<open>The flips of finished runs\<close>

text \<open>A run frees its service as its last act, and the loop polls.  When the poll after a run finds
  the target that the run itself switched to, no run is in flight any more, so the run's own flip is
  recorded as an external one: an audit entry by the system and a notification that say the
  target changed outside touchgrass.\<close>

theorem own_flip_reported_external:
  fixes w :: "'z cutover_world_scheme"
  assumes "clock_ok obs" and "execute interval obs op w = (r, t)"
    and "svc_id def = svc_id (op_def op)" and "service_row (svc_id def) w \<noteq> None"
    and "liveTarget env def = Some target" and "ws_last ws (svc_id def) = Some prev" and "prev \<noteq> target"
    and "svc_id def \<noteq> []" and "\<not> is_zero_time now"
  shows "\<exists>u n a. checkTarget env (SetFlipReporter True True True) True now def ws (t\<lparr>faults := []\<rparr>) =
      (Inr (mark_seen (svc_id def) target (mark_failed (svc_id def) False ws)), u) \<and>
    rows (audits u) = rows (audits t) @ [a] \<and> rows (notifications u) = rows (notifications t) @ [n] \<and>
    au_actor a = actorSystem \<and> au_service a = Some (svc_id def) \<and> au_action a = ''cutover'' \<and>
    au_detail a = flip_text env def prev target"
proof -
  have done_run: "run_done interval obs op w t"
    using execute_wp [OF assms(1), of interval op w] assms(2)
    by (auto simp: wp_def onE_def never_def split: sum.splits)
  then have free: "svc_id def \<notin> runs t" and same: "services t = services w"
    using assms(3) by (simp_all add: run_done_def)
  let ?w = "with_event (changed_event now def prev target) (t\<lparr>faults := []\<rparr>)"
  have "faults ?w = []" "service_row (svc_id def) ?w \<noteq> None" "runs ?w = runs t"
    using assms(4) same by (simp_all add: with_event_def service_row_def)
  note flip = reportFlip_quiet [OF this(1,2) assms(9), of env prev target, unfolded this(3)]
  have u: "checkTarget env all_wired True now def ws (t\<lparr>faults := []\<rparr>) =
      (Inr (mark_seen (svc_id def) target (mark_failed (svc_id def) False ws)),
       with_flip env now def prev target ?w)"
    using flip free assms(5-7)
    by (simp add: checkTarget_def emit_event_def andthen_def bindE_def modify_def ret_def Let_def
        with_event_def)
  show ?thesis
    unfolding u using assms(8)
    by (simp add: with_flip_def with_fields with_same with_event_def audit_entry_def flip_audit_def)
qed

section \<open>Witnesses\<close>

definition watch_host :: host where
  "watch_host =
    \<lparr>os_json = (\<lambda>_. Some (JObj [(''marker'', JStr ''# live'')])),
     os_file = (\<lambda>_. Some (unlines [''upstream api {'', ''  server 10.0.0.1:80; # live'', ''}''], False)),
     os_check = (\<lambda>_. Inl ''down''), os_stat = (\<lambda>_. None)\<rparr>"

lemma watch_target: "liveTarget watch_host def = Some ''10.0.0.1:80''"
proof -
  have key: "fold_name ''marker'' = ''marker''"
    by (rule fold_name_key) (simp add: ascii_key_def is_upper_def)
  have "decodeBlueGreen (os_json watch_host) (svc_config def) = Some (zero_blue_green\<lparr>bg_marker := ''# live''\<rparr>)"
    by (simp add: decodeBlueGreen_def unmarshal_def watch_host_def key blue_green_field_def str_field_def)
  moreover have "os_file watch_host p = Some (unlines [''upstream api {'', ''  server 10.0.0.1:80; # live'', ''}''], False)" for p
    by (simp add: watch_host_def)
  ultimately show ?thesis
    using LiveTarget_roundtrip_witness by (simp add: liveTarget_def)
qed

definition seen_old :: watch_state where
  "seen_old = mark_seen ''api'' ''10.0.0.2:80'' watch_start"

lemma demo_ids: "svc_id demo_service = ''api''" "service_row ''api'' demo_engine = Some demo_service"
  by (simp_all add: demo_service_def demo_engine_def service_row_def)

lemma flip_reported_exactly_witness:
  "\<exists>u. checkTarget watch_host (SetFlipReporter True True True) True 5 demo_service seen_old demo_engine =
      (Inr (mark_seen ''api'' ''10.0.0.1:80'' (mark_failed ''api'' False seen_old)), u) \<and>
    length (rows (audits u)) = 1"
proof -
  have f: "faults demo_engine = []" "\<not> is_zero_time 5" "svc_id demo_service \<notin> runs demo_engine"
    "rows (audits demo_engine) = []"
    by (simp_all add: demo_engine_def is_zero_time_def zero_time_def empty_table_def)
  have l: "ws_last seen_old ''api'' = Some ''10.0.0.2:80''" by (simp add: seen_old_def mark_seen_def)
  have r: "service_row (svc_id demo_service) demo_engine \<noteq> None" by (simp add: demo_ids)
  show ?thesis
    using flip_reported_exactly [OF f(1) r f(2), of watch_host seen_old] f(3,4)
    by (simp add: watch_target demo_ids l Let_def with_flip_def with_same with_fields with_event_def)
qed

lemma own_flip_reported_external_witness:
  "\<exists>t u a. execute second demo_obs demo_op demo_engine = (Inr (), t) \<and>
    snd (checkTarget watch_host (SetFlipReporter True True True) True 9 demo_service seen_old (t\<lparr>faults := []\<rparr>)) = u \<and>
    rows (audits u) = rows (audits t) @ [a] \<and> au_actor a = ''system''"
proof -
  have f: "faults demo_engine = []" "\<not> is_zero_time 9" "svc_id demo_service \<noteq> []"
    "svc_id demo_service = svc_id (op_def demo_op)"
    by (simp_all add: demo_engine_def is_zero_time_def zero_time_def demo_service_def demo_op_def)
  have l: "ws_last seen_old (svc_id demo_service) = Some ''10.0.0.2:80''"
    by (simp add: seen_old_def mark_seen_def demo_ids)
  have r: "service_row (svc_id demo_service) demo_engine \<noteq> None" by (simp add: demo_ids)
  obtain t where t: "execute second demo_obs demo_op demo_engine = (Inr (), t)"
    using execute_wp [OF demo_clock, of second demo_op demo_engine]
    by (auto simp: wp_def onE_def never_def split: prod.splits sum.splits)
  have "''10.0.0.2:80'' \<noteq> ''10.0.0.1:80''" by simp
  from own_flip_reported_external [OF demo_clock t f(4) r watch_target l this f(3) f(2)] t
  show ?thesis by auto
qed

end
