(* ===== verification/Ingest_Store.thy ===== *)
theory Ingest_Store
  imports Audit_Log Log_Collect Complex_Main
begin

text \<open>
  The tables of the SDK ingestion (store/keys.go, store/occurrences.go, store/issues.go,
  store/issue_rules.go, store/rules.go, store/sdk_logs.go).  They extend the world of the log
  lines; deleting a service is not an operation of these theories.  Stacks, breadcrumbs and
  attributes are stored as the values that their JSON text encodes.  The errors that the stores name
  (\<open>ErrKeyNotFound\<close> and so on) are \<open>ErrOther\<close> with their text.  A \<open>REAL\<close> column holds a rational;
  the \<open>created_at\<close> of an issue, which nothing here reads, is left out.
\<close>

section \<open>Rows\<close>

record api_key =
  ak_id :: int
  ak_service :: gostring
  ak_hash :: gostring
  ak_prefix :: gostring
  ak_rate :: rat
  ak_revoked :: "instant option"
  ak_created :: instant

record stack_frame =
  fr_function :: gostring
  fr_file :: gostring
  fr_line :: int
  fr_column :: int

record breadcrumb =
  bc_at :: gostring
  bc_category :: gostring
  bc_message :: gostring

record occurrence =
  occ_id :: int
  occ_service :: gostring
  occ_type :: gostring
  occ_message :: gostring
  occ_stack :: "stack_frame list"
  occ_crumbs :: "breadcrumb list"
  occ_release :: gostring
  occ_issue :: "int option"
  occ_created :: instant

record issue_row =
  iss_id :: int
  iss_service :: gostring
  iss_fingerprint :: gostring
  iss_title :: gostring
  iss_first :: instant
  iss_last :: instant
  iss_notified :: "instant option"

text \<open>An issue as it is read: with its live count and its releases.\<close>

record issue = issue_row +
  iss_count :: int
  iss_releases :: "gostring list"

record issue_rule =
  ir_id :: int
  ir_service :: gostring
  ir_kind :: gostring
  ir_threshold :: int
  ir_window :: int
  ir_enabled :: bool
  ir_created :: instant

record alert_rule =
  al_id :: int
  al_service :: gostring
  al_metric :: gostring
  al_threshold :: rat
  al_duration :: int
  al_enabled :: bool
  al_created :: instant

datatype attr_value = AStr gostring | ANum rat | ABool bool | AOther

record attribute =
  at_type :: gostring
  at_value :: attr_value

record sdk_log =
  sl_id :: int
  sl_service :: gostring
  sl_ts :: instant
  sl_level :: gostring
  sl_severity :: int
  sl_message :: gostring
  sl_attributes :: "(gostring \<times> attribute) list"
  sl_trace :: gostring
  sl_span :: gostring
  sl_release :: gostring
  sl_created :: instant

record ingest_world = log_world +
  api_keys :: "api_key table"
  issues :: "issue_row table"
  issue_releases :: "(int \<times> gostring) list"
  occurrences :: "occurrence table"
  issue_rules :: "issue_rule table"
  alert_rules :: "alert_rule table"
  sdk_logs :: "sdk_log table"

interpretation key_rows: rowid_table ak_id "\<lambda>i r. r\<lparr>ak_id := i\<rparr>"
  by unfold_locales simp

interpretation issue_rows: rowid_table iss_id "\<lambda>i r. r\<lparr>iss_id := i\<rparr>"
  by unfold_locales simp

interpretation occurrence_rows: rowid_table occ_id "\<lambda>i r. r\<lparr>occ_id := i\<rparr>"
  by unfold_locales simp

interpretation issue_rule_rows: rowid_table ir_id "\<lambda>i r. r\<lparr>ir_id := i\<rparr>"
  by unfold_locales simp

interpretation alert_rule_rows: rowid_table al_id "\<lambda>i r. r\<lparr>al_id := i\<rparr>"
  by unfold_locales simp

interpretation sdk_log_rows: rowid_table sl_id "\<lambda>i r. r\<lparr>sl_id := i\<rparr>"
  by unfold_locales simp

section \<open>store.KeyStore\<close>

definition key_insert_ok :: "api_key \<Rightarrow> 'z ingest_world_scheme \<Rightarrow> bool" where
  "key_insert_ok k w \<longleftrightarrow>
    has_service (ak_service k) w \<and> (\<forall>r\<in>set (rows (api_keys w)). ak_hash r \<noteq> ak_hash k)"

definition key_create :: "instant \<Rightarrow> api_key \<Rightarrow> ('z ingest_world_scheme, err, api_key) prog" where
  "key_create now k0 =
    (let k = (if is_zero_time (ak_created k0) then k0\<lparr>ak_created := now\<rparr> else k0) in
     andthen (stmt (ErrOther ''creating api key''))
      (bindE (gets (key_insert_ok k)) (\<lambda>ok.
       andthen (guardE ok (ErrOther ''creating api key''))
      (andthen (modify (\<lambda>w. w\<lparr>api_keys := t_insert (\<lambda>i r. r\<lparr>ak_id := i\<rparr>) k (api_keys w)\<rparr>))
      (andthen (stmt (ErrOther ''reading api key id''))
      (bindE (gets (\<lambda>w. seq (api_keys w))) (\<lambda>i. ret (k\<lparr>ak_id := i\<rparr>))))))))"

definition key_by_hash :: "gostring \<Rightarrow> ('z ingest_world_scheme, err, api_key) prog" where
  "key_by_hash h =
    andthen (stmt (ErrOther ''scanning api key''))
     (bindE (gets (\<lambda>w. t_find (\<lambda>r. ak_hash r = h) (api_keys w))) (\<lambda>found.
      bindE (of_option (ErrOther ''api key not found'') found) (\<lambda>k.
       andthen (guardE (ak_revoked k = None) (ErrOther ''api key not found'')) (ret k))))"

definition key_list :: "gostring \<Rightarrow> int \<Rightarrow> ('z ingest_world_scheme, err, api_key list) prog" where
  "key_list sid limit =
    andthen (stmt (ErrOther ''querying api keys''))
   (andthen (stmt (ErrOther ''scanning api key''))
     (gets (\<lambda>w. map (\<lambda>k. k\<lparr>ak_hash := []\<rparr>) (newest (\<lambda>r. ak_service r = sid) limit (api_keys w)))))"

definition key_revoke :: "instant \<Rightarrow> int \<Rightarrow> ('z ingest_world_scheme, err, unit) prog" where
  "key_revoke now i =
    andthen (stmt (ErrOther ''revoking api key''))
     (bindE (gets (\<lambda>w. t_count (\<lambda>r. ak_id r = i) (api_keys w))) (\<lambda>affected.
      andthen (modify (\<lambda>w. w\<lparr>api_keys :=
          t_update (\<lambda>r. ak_id r = i) (\<lambda>r. r\<lparr>ak_revoked := Some now\<rparr>) (api_keys w)\<rparr>))
     (andthen (stmt (ErrOther ''counting revoked api keys''))
       (guardE (affected \<noteq> 0) (ErrOther ''api key not found'')))))"

section \<open>store.OccurrenceStore\<close>

definition occurrence_insert_ok :: "occurrence \<Rightarrow> 'z ingest_world_scheme \<Rightarrow> bool" where
  "occurrence_insert_ok c w \<longleftrightarrow>
    has_service (occ_service c) w \<and>
    (case occ_issue c of None \<Rightarrow> True | Some i \<Rightarrow> (\<exists>r\<in>set (rows (issues w)). iss_id r = i))"

definition insertOccurrenceRow :: "occurrence \<Rightarrow> ('z ingest_world_scheme, err, int) prog" where
  "insertOccurrenceRow c =
    andthen (stmt (ErrOther ''inserting occurrence''))
     (bindE (gets (occurrence_insert_ok c)) (\<lambda>ok.
      andthen (guardE ok (ErrOther ''inserting occurrence''))
     (andthen (modify (\<lambda>w. w\<lparr>occurrences := t_insert (\<lambda>i r. r\<lparr>occ_id := i\<rparr>) c (occurrences w)\<rparr>))
     (andthen (stmt (ErrOther ''reading occurrence id''))
       (gets (\<lambda>w. seq (occurrences w)))))))"

definition occurrence_insert :: "instant \<Rightarrow> occurrence \<Rightarrow> ('z ingest_world_scheme, err, occurrence) prog" where
  "occurrence_insert now c0 =
    (let c = (if is_zero_time (occ_created c0) then c0\<lparr>occ_created := now\<rparr> else c0) in
     bindE (insertOccurrenceRow c) (\<lambda>i. ret (c\<lparr>occ_id := i\<rparr>)))"

definition occurrences_count :: "gostring \<Rightarrow> ('z ingest_world_scheme, err, int) prog" where
  "occurrences_count sid =
    andthen (stmt (ErrOther ''counting occurrences''))
     (gets (\<lambda>w. int (t_count (\<lambda>r. occ_service r = sid) (occurrences w))))"

text \<open>A negative \<open>LIMIT\<close> is no limit, as \<open>newest\<close> has it.\<close>

definition beyond_cap :: "gostring \<Rightarrow> int \<Rightarrow> 'z ingest_world_scheme \<Rightarrow> occurrence \<Rightarrow> bool" where
  "beyond_cap sid most w r \<longleftrightarrow>
    occ_service r = sid \<and>
    occ_id r \<notin> occ_id ` set (newest (\<lambda>r. occ_service r = sid) most (occurrences w))"

definition occurrences_TrimBeyondCap :: "gostring \<Rightarrow> int \<Rightarrow> ('z ingest_world_scheme, err, int) prog" where
  "occurrences_TrimBeyondCap sid most =
    andthen (stmt (ErrOther ''trimming occurrences beyond cap''))
     (bindE (gets (\<lambda>w. int (t_count (beyond_cap sid most w) (occurrences w)))) (\<lambda>n.
      andthen (modify (\<lambda>w. w\<lparr>occurrences := t_delete (beyond_cap sid most w) (occurrences w)\<rparr>))
     (andthen (stmt (ErrOther ''counting trimmed occurrences'')) (ret n))))"

definition trim_occurrences :: "instant \<Rightarrow> ('z ingest_world_scheme, err, int) prog" where
  "trim_occurrences cutoff =
    (let old = (\<lambda>r. text_less (formatTime (occ_created r)) (formatTime cutoff)) in
     andthen (stmt (ErrOther ''trimming occurrences''))
      (bindE (gets (\<lambda>w. int (t_count old (occurrences w)))) (\<lambda>n.
       andthen (modify (\<lambda>w. w\<lparr>occurrences := t_delete old (occurrences w)\<rparr>))
      (andthen (stmt (ErrOther ''counting trimmed occurrences'')) (ret n)))))"

definition occurrences_by_service :: "gostring \<Rightarrow> int \<Rightarrow> ('z ingest_world_scheme, err, occurrence list) prog" where
  "occurrences_by_service sid limit =
    andthen (stmt (ErrOther ''querying occurrences''))
   (andthen (stmt (ErrOther ''scanning occurrence''))
     (gets (\<lambda>w. newest (\<lambda>r. occ_service r = sid) limit (occurrences w))))"

definition occurrences_by_issue :: "int \<Rightarrow> int \<Rightarrow> ('z ingest_world_scheme, err, occurrence list) prog" where
  "occurrences_by_issue i limit =
    andthen (stmt (ErrOther ''querying issue occurrences''))
   (andthen (stmt (ErrOther ''scanning occurrence''))
     (gets (\<lambda>w. newest (\<lambda>r. occ_issue r = Some i) limit (occurrences w))))"

definition at_or_after :: "instant \<Rightarrow> instant \<Rightarrow> bool" where
  "at_or_after since t = text_le (formatTime since) (formatTime t)"

definition count_by_issue :: "int \<Rightarrow> instant \<Rightarrow> ('z ingest_world_scheme, err, int) prog" where
  "count_by_issue i since =
    andthen (stmt (ErrOther ''counting issue occurrences''))
     (gets (\<lambda>w. int (t_count (\<lambda>r. occ_issue r = Some i \<and> at_or_after since (occ_created r)) (occurrences w))))"

section \<open>store.IssueStore\<close>

definition same_issue :: "gostring \<Rightarrow> gostring \<Rightarrow> issue_row \<Rightarrow> bool" where
  "same_issue sid fp r \<longleftrightarrow> iss_service r = sid \<and> iss_fingerprint r = fp"

definition new_issue :: "instant \<Rightarrow> gostring \<Rightarrow> gostring \<Rightarrow> gostring \<Rightarrow> issue_row" where
  "new_issue now sid fp title =
    \<lparr>iss_id = 0, iss_service = sid, iss_fingerprint = fp, iss_title = title, iss_first = now,
     iss_last = now, iss_notified = None\<rparr>"

text \<open>\<open>INSERT ... ON CONFLICT (service_id, fingerprint) DO UPDATE SET last_seen\<close>.\<close>

definition upsert_issue :: "instant \<Rightarrow> gostring \<Rightarrow> gostring \<Rightarrow> gostring \<Rightarrow> issue_row table \<Rightarrow> issue_row table" where
  "upsert_issue now sid fp title t =
    (if t_find (same_issue sid fp) t = None
     then t_insert (\<lambda>i r. r\<lparr>iss_id := i\<rparr>) (new_issue now sid fp title) t
     else t_update (same_issue sid fp) (\<lambda>r. r\<lparr>iss_last := now\<rparr>) t)"

definition add_release :: "int \<Rightarrow> gostring \<Rightarrow> (int \<times> gostring) list \<Rightarrow> (int \<times> gostring) list" where
  "add_release i rel rs = (if (i, rel) \<in> set rs then rs else rs @ [(i, rel)])"

text \<open>\<open>now\<close> is read before the upsert, \<open>later\<close> before the insert.\<close>

definition GroupOccurrence ::
  "instant \<Rightarrow> instant \<Rightarrow> gostring \<Rightarrow> gostring \<Rightarrow> gostring \<Rightarrow> gostring \<Rightarrow> occurrence
    \<Rightarrow> ('z ingest_world_scheme, err, occurrence) prog" where
  "GroupOccurrence now later sid fp title release c0 =
    andthen (stmt (ErrOther ''starting group transaction''))
     (tx (andthen (stmt (ErrOther ''upserting issue''))
      (bindE (gets (has_service sid)) (\<lambda>ok.
       andthen (guardE ok (ErrOther ''upserting issue''))
      (andthen (modify (\<lambda>w. w\<lparr>issues := upsert_issue now sid fp title (issues w)\<rparr>))
      (andthen (stmt (ErrOther ''reading issue id''))
      (bindE (gets (\<lambda>w. t_find (same_issue sid fp) (issues w))) (\<lambda>found.
       bindE (of_option (ErrOther ''reading issue id'') (map_option iss_id found)) (\<lambda>i.
       andthen
        (if release \<noteq> []
         then andthen (stmt (ErrOther ''recording issue release''))
               (modify (\<lambda>w. w\<lparr>issue_releases := add_release i release (issue_releases w)\<rparr>))
         else ret ())
       (let c = (if is_zero_time (occ_created c0) then c0\<lparr>occ_created := later\<rparr> else c0)\<lparr>occ_issue := Some i\<rparr> in
        bindE (insertOccurrenceRow c) (\<lambda>j.
        andthen (stmt (ErrOther ''committing group transaction'')) (ret (c\<lparr>occ_id := j\<rparr>)))))))))))))"

definition live_issue :: "'z ingest_world_scheme \<Rightarrow> issue_row \<Rightarrow> issue" where
  "live_issue w r =
    issue_row.extend r
     (issue.fields (int (t_count (\<lambda>c. occ_issue c = Some (iss_id r)) (occurrences w))) [])"

text \<open>\<open>withReleases\<close> reads the releases of every issue of the first one's service, sorted.\<close>

definition withReleases :: "issue list \<Rightarrow> ('z ingest_world_scheme, err, issue list) prog" where
  "withReleases is =
    (if is = [] then ret is
     else andthen (stmt (ErrOther ''querying issue releases''))
         (andthen (stmt (ErrOther ''scanning issue release''))
          (gets (\<lambda>w.
            let found = [(i, rel) \<leftarrow> issue_releases w.
                  (\<exists>r\<in>set (rows (issues w)). iss_id r = i \<and> iss_service r = iss_service (hd is))]
            in map (\<lambda>x. x\<lparr>iss_releases := sort (map snd (filter (\<lambda>p. fst p = iss_id x) found))\<rparr>) is))))"

definition issue_get :: "int \<Rightarrow> ('z ingest_world_scheme, err, issue) prog" where
  "issue_get i =
    andthen (stmt (ErrOther ''scanning issue''))
     (bindE (gets (\<lambda>w. map_option (live_issue w) (t_find (\<lambda>r. iss_id r = i) (issues w)))) (\<lambda>found.
      bindE (of_option (ErrOther ''issue not found'') found) (\<lambda>x.
      bindE (withReleases [x]) (\<lambda>xs. ret (hd xs)))))"

definition issues_by_service :: "gostring \<Rightarrow> int \<Rightarrow> ('z ingest_world_scheme, err, issue list) prog" where
  "issues_by_service sid limit =
    andthen (stmt (ErrOther ''querying issues''))
   (andthen (stmt (ErrOther ''scanning issue''))
    (bindE (gets (\<lambda>w. map (live_issue w)
        (sql_limit limit (time_desc iss_last (rev (filter (\<lambda>r. iss_service r = sid) (rows (issues w))))))))
      withReleases))"

definition UnnotifiedSince :: "gostring \<Rightarrow> instant \<Rightarrow> ('z ingest_world_scheme, err, issue list) prog" where
  "UnnotifiedSince sid since =
    andthen (stmt (ErrOther ''querying unnotified issues''))
   (andthen (stmt (ErrOther ''scanning issue''))
     (gets (\<lambda>w. map (live_issue w)
        (filter (\<lambda>r. iss_service r = sid \<and> at_or_after since (iss_first r) \<and> iss_notified r = None)
          (rows (issues w))))))"

definition ActiveSince :: "gostring \<Rightarrow> instant \<Rightarrow> ('z ingest_world_scheme, err, issue list) prog" where
  "ActiveSince sid since =
    andthen (stmt (ErrOther ''querying active issues''))
   (andthen (stmt (ErrOther ''scanning issue''))
     (gets (\<lambda>w. map (live_issue w)
        (filter (\<lambda>r. iss_service r = sid \<and> at_or_after since (iss_last r)) (rows (issues w))))))"

definition MarkNotified :: "instant \<Rightarrow> int \<Rightarrow> ('z ingest_world_scheme, err, unit) prog" where
  "MarkNotified now i =
    andthen (stmt (ErrOther ''marking issue notified''))
     (modify (\<lambda>w. w\<lparr>issues :=
        t_update (\<lambda>r. iss_id r = i) (\<lambda>r. r\<lparr>iss_notified := Some now\<rparr>) (issues w)\<rparr>))"

text \<open>Deleted issues take their releases and leave their occurrences without an issue.\<close>

definition drop_issues :: "(issue_row \<Rightarrow> bool) \<Rightarrow> 'z ingest_world_scheme \<Rightarrow> 'z ingest_world_scheme" where
  "drop_issues P w =
    (let gone = iss_id ` set (filter P (rows (issues w))) in
     w\<lparr>issues := t_delete P (issues w),
       issue_releases := filter (\<lambda>p. fst p \<notin> gone) (issue_releases w),
       occurrences := t_update (\<lambda>c. \<exists>i\<in>gone. occ_issue c = Some i) (\<lambda>c. c\<lparr>occ_issue := None\<rparr>) (occurrences w)\<rparr>)"

definition trim_issues :: "instant \<Rightarrow> ('z ingest_world_scheme, err, int) prog" where
  "trim_issues cutoff =
    (let old = (\<lambda>r. text_less (formatTime (iss_last r)) (formatTime cutoff)) in
     andthen (stmt (ErrOther ''trimming issues''))
      (bindE (gets (\<lambda>w. int (t_count old (issues w)))) (\<lambda>n.
       andthen (modify (drop_issues old))
      (andthen (stmt (ErrOther ''counting trimmed issues'')) (ret n)))))"

section \<open>store.IssueRuleStore\<close>

abbreviation IssueRuleNewIssue :: gostring where "IssueRuleNewIssue \<equiv> ''new_issue''"
abbreviation IssueRuleSpike :: gostring where "IssueRuleSpike \<equiv> ''spike''"

definition issue_rule_create :: "instant \<Rightarrow> issue_rule \<Rightarrow> ('z ingest_world_scheme, err, issue_rule) prog" where
  "issue_rule_create now r0 =
    (let r = (if is_zero_time (ir_created r0) then r0\<lparr>ir_created := now\<rparr> else r0) in
     andthen (stmt (ErrOther ''creating issue rule''))
      (bindE (gets (\<lambda>w. has_service (ir_service r) w \<and> ir_kind r \<in> {IssueRuleNewIssue, IssueRuleSpike})) (\<lambda>ok.
       andthen (guardE ok (ErrOther ''creating issue rule''))
      (andthen (modify (\<lambda>w. w\<lparr>issue_rules := t_insert (\<lambda>i r. r\<lparr>ir_id := i\<rparr>) r (issue_rules w)\<rparr>))
      (andthen (stmt (ErrOther ''reading issue rule id''))
      (bindE (gets (\<lambda>w. seq (issue_rules w))) (\<lambda>i. ret (r\<lparr>ir_id := i\<rparr>))))))))"

definition issue_rules_where :: "(issue_rule \<Rightarrow> bool) \<Rightarrow> ('z ingest_world_scheme, err, issue_rule list) prog" where
  "issue_rules_where P =
    andthen (stmt (ErrOther ''querying issue rules''))
   (andthen (stmt (ErrOther ''scanning issue rule''))
     (gets (\<lambda>w. filter P (rows (issue_rules w)))))"

definition issue_rules_by_service :: "gostring \<Rightarrow> ('z ingest_world_scheme, err, issue_rule list) prog" where
  "issue_rules_by_service sid = issue_rules_where (\<lambda>r. ir_service r = sid)"

definition issue_rules_enabled :: "('z ingest_world_scheme, err, issue_rule list) prog" where
  "issue_rules_enabled = issue_rules_where ir_enabled"

definition issue_rule_delete :: "int \<Rightarrow> ('z ingest_world_scheme, err, unit) prog" where
  "issue_rule_delete i =
    andthen (stmt (ErrOther ''deleting issue rule''))
     (bindE (gets (\<lambda>w. t_count (\<lambda>r. ir_id r = i) (issue_rules w))) (\<lambda>affected.
      andthen (modify (\<lambda>w. w\<lparr>issue_rules := t_delete (\<lambda>r. ir_id r = i) (issue_rules w)\<rparr>))
     (andthen (stmt (ErrOther ''counting deleted issue rules''))
       (guardE (affected \<noteq> 0) (ErrOther ''issue rule not found'')))))"

section \<open>store.RuleStore\<close>

definition alert_metrics_sql :: "gostring list" where
  "alert_metrics_sql =
    [''cpu'', ''mem'', ''disk'', ''http_p95_ms'', ''http_error_rate'', ''postgres_connection_pct'',
     ''redis_evictions'']"

record rule_create =
  rc_for :: gostring
  rc_metric :: gostring
  rc_threshold :: rat
  rc_duration :: int

definition alert_rule_create :: "instant \<Rightarrow> rule_create \<Rightarrow> ('z ingest_world_scheme, err, alert_rule) prog" where
  "alert_rule_create now c =
    (let r = \<lparr>al_id = 0, al_service = rc_for c, al_metric = rc_metric c, al_threshold = rc_threshold c,
              al_duration = rc_duration c, al_enabled = True, al_created = now\<rparr> in
     andthen (stmt (ErrOther ''inserting alert rule''))
      (bindE (gets (\<lambda>w. has_service (rc_for c) w \<and> rc_metric c \<in> set alert_metrics_sql)) (\<lambda>ok.
       andthen (guardE ok (ErrOther ''inserting alert rule''))
      (andthen (modify (\<lambda>w. w\<lparr>alert_rules := t_insert (\<lambda>i r. r\<lparr>al_id := i\<rparr>) r (alert_rules w)\<rparr>))
      (andthen (stmt (ErrOther ''reading alert rule id''))
      (bindE (gets (\<lambda>w. seq (alert_rules w))) (\<lambda>i. ret (r\<lparr>al_id := i\<rparr>))))))))"

definition alert_rules_where :: "(alert_rule \<Rightarrow> bool) \<Rightarrow> ('z ingest_world_scheme, err, alert_rule list) prog" where
  "alert_rules_where P =
    andthen (stmt (ErrOther ''querying alert rules''))
   (andthen (stmt (ErrOther ''scanning alert rule''))
     (gets (\<lambda>w. filter P (rows (alert_rules w)))))"

definition alert_rules_enabled :: "('z ingest_world_scheme, err, alert_rule list) prog" where
  "alert_rules_enabled = alert_rules_where al_enabled"

definition alert_rules_by_service :: "gostring \<Rightarrow> ('z ingest_world_scheme, err, alert_rule list) prog" where
  "alert_rules_by_service sid = alert_rules_where (\<lambda>r. al_service r = sid)"

definition alert_rule_delete :: "int \<Rightarrow> ('z ingest_world_scheme, err, unit) prog" where
  "alert_rule_delete i =
    andthen (stmt (ErrOther ''deleting alert rule''))
     (bindE (gets (\<lambda>w. t_count (\<lambda>r. al_id r = i) (alert_rules w))) (\<lambda>affected.
      andthen (modify (\<lambda>w. w\<lparr>alert_rules := t_delete (\<lambda>r. al_id r = i) (alert_rules w)\<rparr>))
     (andthen (stmt (ErrOther ''counting deleted alert rules''))
       (guardE (affected \<noteq> 0) (ErrOther ''alert rule not found'')))))"

section \<open>store.SDKLogStore\<close>

definition sdk_levels_sql :: "gostring list" where
  "sdk_levels_sql = [''trace'', ''debug'', ''info'', ''warn'', ''error'', ''fatal'']"

definition sdk_insert_ok :: "sdk_log \<Rightarrow> 'z ingest_world_scheme \<Rightarrow> bool" where
  "sdk_insert_ok l w \<longleftrightarrow>
    has_service (sl_service l) w \<and> sl_level l \<in> set sdk_levels_sql \<and>
    1 \<le> sl_severity l \<and> sl_severity l \<le> 24"

definition stamped :: "instant \<Rightarrow> sdk_log \<Rightarrow> sdk_log" where
  "stamped now l =
    l\<lparr>sl_ts := (if is_zero_time (sl_ts l) then now else sl_ts l),
      sl_created := (if is_zero_time (sl_created l) then now else sl_created l)\<rparr>"

definition insert_sdk :: "instant \<Rightarrow> sdk_log \<Rightarrow> ('z ingest_world_scheme, err, unit) prog" where
  "insert_sdk now l =
    andthen (stmt (ErrOther ''inserting sdk log''))
     (bindE (gets (sdk_insert_ok l)) (\<lambda>ok.
      andthen (guardE ok (ErrOther ''inserting sdk log''))
       (modify (\<lambda>w. w\<lparr>sdk_logs := t_insert (\<lambda>i r. r\<lparr>sl_id := i\<rparr>) (stamped now l) (sdk_logs w)\<rparr>))))"

definition sdk_InsertBatch :: "instant \<Rightarrow> sdk_log list \<Rightarrow> ('z ingest_world_scheme, err, int) prog" where
  "sdk_InsertBatch now ls =
    (if ls = [] then ret 0
     else andthen (stmt (ErrOther ''starting sdk log batch''))
      (tx (andthen (stmt (ErrOther ''preparing sdk log insert''))
          (andthen (for_each (insert_sdk now) ls)
          (andthen (stmt (ErrOther ''committing sdk log batch'')) (ret (int (length ls))))))))"

definition trim_sdk_logs :: "instant \<Rightarrow> ('z ingest_world_scheme, err, int) prog" where
  "trim_sdk_logs cutoff =
    (let old = (\<lambda>r. text_less (formatFixedTime (sl_ts r)) (formatFixedTime cutoff)) in
     andthen (stmt (ErrOther ''trimming sdk logs''))
      (bindE (gets (\<lambda>w. int (t_count old (sdk_logs w)))) (\<lambda>n.
       andthen (modify (\<lambda>w. w\<lparr>sdk_logs := t_delete old (sdk_logs w)\<rparr>))
      (andthen (stmt (ErrOther ''counting trimmed sdk logs'')) (ret n)))))"

record sdk_filter =
  sf_service :: gostring
  sf_query :: gostring
  sf_levels :: "gostring list"
  sf_trace :: gostring
  sf_since :: "instant option"
  sf_until :: "instant option"
  sf_limit :: int

fun escape_chars :: "gostring \<Rightarrow> gostring" where
  "escape_chars [] = []"
| "escape_chars (c # cs) =
    (if c = CHR 0x5C \<or> c = CHR ''%'' \<or> c = CHR ''_'' then CHR 0x5C # c # escape_chars cs
     else c # escape_chars cs)"

text \<open>The three replacements of \<open>escapeLike\<close>, the backslash first.\<close>

definition replace_char :: "char \<Rightarrow> gostring \<Rightarrow> gostring \<Rightarrow> gostring" where
  "replace_char c by_text s = concat (map (\<lambda>x. if x = c then by_text else [x]) s)"

definition escapeLike :: "gostring \<Rightarrow> gostring" where
  "escapeLike q =
    replace_char CHR ''_'' [CHR 0x5C, CHR ''_'']
     (replace_char CHR ''%'' [CHR 0x5C, CHR ''%'']
       (replace_char CHR 0x5C [CHR 0x5C, CHR 0x5C] q))"

text \<open>\<open>like pattern message\<close> is SQLite's \<open>LIKE\<close> with the backslash as the escape.\<close>

definition sdkLogFilterClauses :: "(gostring \<Rightarrow> gostring \<Rightarrow> bool) \<Rightarrow> sdk_filter \<Rightarrow> sdk_log \<Rightarrow> bool" where
  "sdkLogFilterClauses like f r \<longleftrightarrow>
    (sf_trace f = [] \<or> sl_trace r = sf_trace f) \<and>
    (sf_levels f = [] \<or> sl_level r \<in> set (sf_levels f)) \<and>
    (trim_space (sf_query f) = [] \<or> like (''%'' @ escapeLike (sf_query f) @ ''%'') (sl_message r))"

definition sdk_Search ::
  "(gostring \<Rightarrow> gostring \<Rightarrow> bool) \<Rightarrow> sdk_filter \<Rightarrow> ('z ingest_world_scheme, err, sdk_log list) prog" where
  "sdk_Search like f =
    (let lo = formatFixedTime (case sf_since f of None \<Rightarrow> zero_time | Some t \<Rightarrow> t);
         hi = formatFixedTime (case sf_until f of None \<Rightarrow> last_time | Some t \<Rightarrow> t);
         limit = (if sf_limit f \<le> 0 then defaultSearchLimit else sf_limit f) in
     andthen (stmt (ErrOther ''querying sdk logs''))
    (andthen (stmt (ErrOther ''scanning sdk log''))
      (gets (\<lambda>w. newest (\<lambda>r. sl_service r = sf_service f \<and>
           text_le lo (formatFixedTime (sl_ts r)) \<and> text_le (formatFixedTime (sl_ts r)) hi \<and>
           sdkLogFilterClauses like f r) limit (sdk_logs w)))))"

lemma escapeLike_chars: "escapeLike s = escape_chars s"
  by (induction s) (auto simp: escapeLike_def replace_char_def)

section \<open>How reports are grouped\<close>

text \<open>
  How error reports are grouped (\<open>internal/service/fingerprint.go\<close>).  Each pattern is a function from
  the byte before a position and the text at the position to the length of the match there, 0 for none.
  Every pattern matches at least one byte, and its pieces end where their character classes
  end, so the leftmost match that the package \<open>regexp\<close> prefers is the longest one.
\<close>

definition fingerprintLen :: nat where "fingerprintLen = 32"
definition fingerprintTop :: nat where "fingerprintTop = 3"

type_synonym pattern = "char option \<Rightarrow> gostring \<Rightarrow> nat"

text \<open>The classes \<open>\w\<close> and \<open>[0-9a-fA-F]\<close>.\<close>

definition word_char :: "char \<Rightarrow> bool" where
  "word_char c \<longleftrightarrow> is_digit c \<or> is_lower c \<or> is_upper c \<or> c = CHR ''_''"

definition hex_char :: "char \<Rightarrow> bool" where
  "hex_char c \<longleftrightarrow> is_hex c \<or> (65 \<le> code c \<and> code c \<le> 70)"

definition run_length :: "(char \<Rightarrow> bool) \<Rightarrow> gostring \<Rightarrow> nat" where
  "run_length P s = length (takeWhile P s)"

definition quoted :: pattern where
  "quoted prev s =
    (case s of [] \<Rightarrow> 0
     | c # cs \<Rightarrow>
        (let n = run_length (\<lambda>x. x \<noteq> CHR 0x27) cs in
         if c = CHR 0x27 \<and> n < length cs then n + 2 else 0))"

definition hex_group :: "nat \<Rightarrow> gostring \<Rightarrow> bool" where
  "hex_group n s \<longleftrightarrow> n \<le> length s \<and> list_all hex_char (take n s)"

definition dash_at :: "nat \<Rightarrow> gostring \<Rightarrow> bool" where
  "dash_at n s \<longleftrightarrow> n < length s \<and> s ! n = CHR ''-''"

definition uuid :: pattern where
  "uuid prev s =
    (if hex_group 8 s \<and> dash_at 8 s \<and> hex_group 4 (drop 9 s) \<and> dash_at 13 s \<and>
        hex_group 4 (drop 14 s) \<and> dash_at 18 s \<and> hex_group 4 (drop 19 s) \<and> dash_at 23 s \<and>
        hex_group 12 (drop 24 s)
     then 36 else 0)"

definition email :: pattern where
  "email prev s =
    (let a = run_length (\<lambda>c. word_char c \<or> c \<in> {CHR ''.'', CHR ''+'', CHR ''-''}) s;
         s1 = drop a s;
         b = run_length (\<lambda>c. word_char c \<or> c = CHR ''-'') (drop 1 s1);
         s2 = drop b (drop 1 s1);
         d = run_length (\<lambda>c. word_char c \<or> c = CHR ''.'') (drop 1 s2) in
     if 0 < a \<and> take 1 s1 = ''@'' \<and> 0 < b \<and> take 1 s2 = ''.'' \<and> 0 < d then a + 1 + b + 1 + d else 0)"

text \<open>\<open>\b\<close> holds where exactly one side is a word character.\<close>

definition word_at :: "char option \<Rightarrow> bool" where
  "word_at x = (case x of None \<Rightarrow> False | Some c \<Rightarrow> word_char c)"

definition boundary :: "char option \<Rightarrow> char option \<Rightarrow> bool" where
  "boundary x y \<longleftrightarrow> word_at x \<noteq> word_at y"

definition first_char :: "gostring \<Rightarrow> char option" where
  "first_char s = (case s of [] \<Rightarrow> None | c # cs \<Rightarrow> Some c)"

definition long_hex :: pattern where
  "long_hex prev s =
    (let n = run_length hex_char s in
     if 8 \<le> n \<and> boundary prev (first_char s) \<and> boundary (Some (s ! (n - 1))) (first_char (drop n s))
     then n else 0)"

definition number :: pattern where
  "number prev s = run_length is_digit s"

definition templatePatterns :: "(pattern \<times> gostring) list" where
  "templatePatterns =
    [(quoted, [CHR 0x27, CHR ''?'', CHR 0x27]), (uuid, ''#uuid''), (email, ''#email''),
     (long_hex, ''#hex''), (number, ''#'')]"

text \<open>\<open>Regexp.ReplaceAllString\<close>; the first argument is the byte before the text.\<close>

function replace_all :: "pattern \<Rightarrow> gostring \<Rightarrow> char option \<Rightarrow> gostring \<Rightarrow> gostring" where
  "replace_all p tok prev [] = []"
| "replace_all p tok prev (c # cs) =
    (let n = p prev (c # cs) in
     if n = 0 then c # replace_all p tok (Some c) cs
     else tok @ replace_all p tok (Some ((c # cs) ! (n - 1))) (drop n (c # cs)))"
  by pat_completeness auto
termination by (relation "measure (\<lambda>(p, tok, prev, s). length s)") auto

definition templateMessage :: "gostring \<Rightarrow> gostring" where
  "templateMessage message =
    (let templated = fold (\<lambda>(p, tok) s. replace_all p tok None s) templatePatterns message in
     join_with '' '' (go_fields (length templated) templated))"

definition fingerprint_input :: "gostring \<Rightarrow> gostring \<Rightarrow> gostring \<Rightarrow> stack_frame list \<Rightarrow> gostring" where
  "fingerprint_input sid kind message frames =
    join_with [CHR 0x00]
     ([sid, kind, templateMessage message] @
      concat (map (\<lambda>f. [fr_function f, fr_file f]) (take fingerprintTop frames)))"

definition Fingerprint :: "gostring \<Rightarrow> gostring \<Rightarrow> gostring \<Rightarrow> stack_frame list \<Rightarrow> gostring" where
  "Fingerprint sid kind message frames =
    take fingerprintLen (sha256_hex (fingerprint_input sid kind message frames))"

end
