(* ===== verification/Ingest.thy ===== *)
theory Ingest
  imports Ingest_Store Go_Float Auth
begin

text \<open>
  The ingestor (\<open>internal/service/ingest.go\<close>, \<open>issues.go\<close>): keys, error reports, issues, issue rules.
  Random bytes are arguments (\<open>None\<close> when the generator fails), as are the readings of the clock; the
  handlers' JSON decoding is outside.  An error of the store keeps its own name where the service
  passes it on.
\<close>

definition keyTag :: gostring where "keyTag = ''tg_''"
definition keyRandBytes :: nat where "keyRandBytes = 16"
definition keyLen :: nat where "keyLen = 35"
definition keyPrefixLen :: nat where "keyPrefixLen = 11"
definition maxMessageLen :: nat where "maxMessageLen = 4096"
definition maxReleaseLen :: nat where "maxReleaseLen = 128"
definition maxFieldLen :: nat where "maxFieldLen = 1024"
definition maxFrames :: nat where "maxFrames = 100"
definition maxCrumbs :: nat where "maxCrumbs = 100"
definition maxKeysListed :: int where "maxKeysListed = 100"
definition maxIssueTitle :: nat where "maxIssueTitle = 200"
definition maxIssuesListed :: int where "maxIssuesListed = 100"

abbreviation OccurrenceException :: gostring where "OccurrenceException \<equiv> ''exception''"
abbreviation OccurrenceMessage :: gostring where "OccurrenceMessage \<equiv> ''message''"

record ingest_report =
  rp_type :: gostring
  rp_message :: gostring
  rp_stack :: "stack_frame list"
  rp_crumbs :: "breadcrumb list"
  rp_release :: gostring

section \<open>Keys\<close>

definition HashKey :: "gostring \<Rightarrow> gostring" where
  "HashKey plaintext = sha256_hex plaintext"

definition KeyPrefixForLog :: "gostring \<Rightarrow> gostring" where
  "KeyPrefixForLog presented =
    (if keyPrefixLen \<le> length presented \<and> has_prefix presented keyTag then take keyPrefixLen presented
     else ''malformed'')"

record created_key =
  ck_key :: api_key
  ck_plaintext :: gostring

definition new_key :: "gostring \<Rightarrow> rat \<Rightarrow> gostring \<Rightarrow> api_key" where
  "new_key sid rate plaintext =
    \<lparr>ak_id = 0, ak_service = sid, ak_hash = HashKey plaintext, ak_prefix = take keyPrefixLen plaintext,
     ak_rate = rate, ak_revoked = None, ak_created = zero_time\<rparr>"

definition CreateKey ::
  "gostring option \<Rightarrow> instant \<Rightarrow> gostring \<Rightarrow> rat \<Rightarrow> ('z ingest_world_scheme, err, created_key) prog" where
  "CreateKey raw now sid rate =
    andthen (svc_get sid)
   (andthen (guardE (\<not> (rate < 0 \<or> 1 < rate)) (ErrInvalidInput ''sample rate''))
    (bindE (of_option (ErrOther ''minting api key'') raw) (\<lambda>bytes.
      let plaintext = keyTag @ hex_string bytes in
      bindE (map_error (\<lambda>_. ErrOther ''storing api key'') (key_create now (new_key sid rate plaintext)))
        (\<lambda>stored. ret \<lparr>ck_key = stored, ck_plaintext = plaintext\<rparr>))))"

definition ingest_Keys :: "gostring \<Rightarrow> ('z ingest_world_scheme, err, api_key list) prog" where
  "ingest_Keys sid = andthen (svc_get sid) (key_list sid maxKeysListed)"

definition RevokeKey :: "instant \<Rightarrow> int \<Rightarrow> ('z ingest_world_scheme, err, unit) prog" where
  "RevokeKey now i = key_revoke now i"

text \<open>\<open>authenticateKey\<close> of \<open>sdk_logs.go\<close>: every failure is the same refusal.\<close>

definition authenticateKey :: "gostring \<Rightarrow> ('z ingest_world_scheme, err, api_key) prog" where
  "authenticateKey presented =
    andthen (guardE (\<not> (length presented \<noteq> keyLen \<or> \<not> has_prefix presented keyTag)) ErrUnauthorized)
     (map_error (\<lambda>_. ErrUnauthorized) (key_by_hash (HashKey presented)))"

section \<open>Reports\<close>

definition truncate_frame :: "stack_frame \<Rightarrow> stack_frame" where
  "truncate_frame f =
    f\<lparr>fr_function := go_truncate (fr_function f) maxFieldLen, fr_file := go_truncate (fr_file f) maxFieldLen\<rparr>"

definition truncateFrames :: "stack_frame list \<Rightarrow> stack_frame list" where
  "truncateFrames frames = map truncate_frame (take maxFrames frames)"

definition truncate_crumb :: "breadcrumb \<Rightarrow> breadcrumb" where
  "truncate_crumb c =
    \<lparr>bc_at = go_truncate (bc_at c) maxFieldLen, bc_category = go_truncate (bc_category c) maxFieldLen,
     bc_message = go_truncate (bc_message c) maxFieldLen\<rparr>"

definition truncateCrumbs :: "breadcrumb list \<Rightarrow> breadcrumb list" where
  "truncateCrumbs crumbs = map truncate_crumb (take maxCrumbs crumbs)"

definition buildOccurrence :: "gostring \<Rightarrow> ingest_report \<Rightarrow> err + occurrence" where
  "buildOccurrence sid r =
    (if rp_type r \<noteq> OccurrenceException \<and> rp_type r \<noteq> OccurrenceMessage then Inl (ErrInvalidInput ''report type'')
     else if trim_space (rp_message r) = [] then Inl (ErrInvalidInput ''report message is required'')
     else Inr \<lparr>occ_id = 0, occ_service = sid, occ_type = rp_type r,
               occ_message = go_truncate (rp_message r) maxMessageLen,
               occ_stack = truncateFrames (rp_stack r), occ_crumbs = truncateCrumbs (rp_crumbs r),
               occ_release = go_truncate (rp_release r) maxReleaseLen, occ_issue = None,
               occ_created = zero_time\<rparr>)"

definition issueTitle :: "gostring \<Rightarrow> gostring" where
  "issueTitle message =
    (let line = (case cut_char newline message of None \<Rightarrow> message | Some (l, _) \<Rightarrow> l) in
     if line \<noteq> [] then go_truncate line maxIssueTitle else go_truncate message maxIssueTitle)"

text \<open>The draw: 64 random bits as an integer, over the largest such integer.\<close>

definition sampleLessThan :: "rat \<Rightarrow> int \<Rightarrow> bool" where
  "sampleLessThan rate bits = (float_divide (float_of bits) (float_of (2 ^ 64 - 1)) < rate)"

text \<open>A failed draw keeps the report.\<close>

definition sampled_in :: "int option \<Rightarrow> rat \<Rightarrow> bool" where
  "sampled_in draw rate = (case draw of None \<Rightarrow> True | Some bits \<Rightarrow> sampleLessThan rate bits)"

definition report_fingerprint :: "gostring \<Rightarrow> occurrence \<Rightarrow> gostring" where
  "report_fingerprint sid c = Fingerprint sid (occ_type c) (occ_message c) (occ_stack c)"

definition Ingest ::
  "int \<Rightarrow> int option \<Rightarrow> instant \<Rightarrow> instant \<Rightarrow> gostring \<Rightarrow> ingest_report
    \<Rightarrow> ('z ingest_world_scheme, err, bool) prog" where
  "Ingest maxOccurrences draw now later presented report =
    bindE (authenticateKey presented) (\<lambda>key.
    bindE (of_result (buildOccurrence (ak_service key) report)) (\<lambda>c.
     if \<not> sampled_in draw (ak_rate key) then ret False
     else
       andthen (map_error (\<lambda>_. ErrOther ''storing occurrence'')
         (GroupOccurrence now later (ak_service key) (report_fingerprint (ak_service key) c)
           (issueTitle (occ_message c)) (occ_release c) c))
      (bindE (attempt (occurrences_TrimBeyondCap (ak_service key) maxOccurrences)) (\<lambda>r :: err + int.
        ret True))))"

section \<open>Issues\<close>

definition ingest_Issues :: "gostring \<Rightarrow> ('z ingest_world_scheme, err, issue list) prog" where
  "ingest_Issues sid = andthen (svc_get sid) (issues_by_service sid maxIssuesListed)"

definition ingest_Issue :: "int \<Rightarrow> ('z ingest_world_scheme, err, issue) prog" where
  "ingest_Issue i = issue_get i"

definition IssueOccurrences :: "int \<Rightarrow> int \<Rightarrow> ('z ingest_world_scheme, err, occurrence list) prog" where
  "IssueOccurrences i limit = andthen (issue_get i) (occurrences_by_issue i (clampLimit limit))"

definition RecentOccurrences :: "gostring \<Rightarrow> int \<Rightarrow> ('z ingest_world_scheme, err, occurrence list) prog" where
  "RecentOccurrences sid limit = andthen (svc_get sid) (occurrences_by_service sid (clampLimit limit))"

definition defaultIssueLogWindowSecs :: int where "defaultIssueLogWindowSecs = 60"
definition maxIssueLogWindowSecs :: int where "maxIssueLogWindowSecs = 3600"

definition clampIssueLogWindow :: "int \<Rightarrow> duration" where
  "clampIssueLogWindow secs =
    (if secs < 1 then defaultIssueLogWindowSecs * second
     else if maxIssueLogWindowSecs < secs then maxIssueLogWindowSecs * second
     else secs * second)"

definition window_filter :: "gostring \<Rightarrow> instant \<Rightarrow> duration \<Rightarrow> int \<Rightarrow> log_filter" where
  "window_filter sid center window limit =
    \<lparr>lf_service = sid, lf_query = [], lf_stream = [], lf_since = Some (center - window),
     lf_until = Some (center + window), lf_before = 0, lf_limit = limit\<rparr>"

definition IssueLogs ::
  "(gostring \<Rightarrow> gostring) \<Rightarrow> (gostring \<Rightarrow> gostring \<Rightarrow> bool) \<Rightarrow> int \<Rightarrow> int \<Rightarrow> int
    \<Rightarrow> ('z ingest_world_scheme, err, log_line list) prog" where
  "IssueLogs lower fts i windowSecs limit =
    bindE (issue_get i) (\<lambda>issue.
    bindE (map_error (\<lambda>_. ErrOther ''loading newest occurrence'') (occurrences_by_issue i 1)) (\<lambda>recent.
     if recent = [] then ret []
     else
       bindE (logs_Search fts (window_filter (iss_service issue) (occ_created (hd recent))
                (clampIssueLogWindow windowSecs) (clampLimit limit)))
        (\<lambda>ls. ret (map (with_level lower) ls))))"

record issue_rule_request =
  iq_service :: gostring
  iq_kind :: gostring
  iq_threshold :: int
  iq_window :: int

definition rule_threshold :: "issue_rule_request \<Rightarrow> err + int" where
  "rule_threshold c =
    (if iq_kind c = IssueRuleNewIssue then Inr 0
     else if iq_kind c = IssueRuleSpike
     then (if iq_threshold c < 1 then Inl (ErrInvalidInput ''spike threshold must be positive'')
           else Inr (iq_threshold c))
     else Inl (ErrInvalidInput ''rule kind''))"

definition CreateIssueRule :: "instant \<Rightarrow> issue_rule_request \<Rightarrow> ('z ingest_world_scheme, err, issue_rule) prog" where
  "CreateIssueRule now c =
    andthen (svc_get (iq_service c))
    (bindE (of_result (rule_threshold c)) (\<lambda>threshold.
     andthen (guardE (\<not> iq_window c < 1) (ErrInvalidInput ''window must be positive seconds''))
      (issue_rule_create now
        \<lparr>ir_id = 0, ir_service = iq_service c, ir_kind = iq_kind c, ir_threshold = threshold,
         ir_window = iq_window c, ir_enabled = True, ir_created = zero_time\<rparr>)))"

definition ingest_IssueRules :: "gostring \<Rightarrow> ('z ingest_world_scheme, err, issue_rule list) prog" where
  "ingest_IssueRules sid = andthen (svc_get sid) (issue_rules_by_service sid)"

definition DeleteIssueRule :: "int \<Rightarrow> ('z ingest_world_scheme, err, unit) prog" where
  "DeleteIssueRule i = issue_rule_delete i"

end
