(* ===== verification/Sdk_Logs.thy ===== *)
theory Sdk_Logs
  imports Ingest
begin

text \<open>
  Batched SDK logs (\<open>internal/service/sdk_logs.go\<close>): the checks of one item, the batch, the search.  A
  timestamp is a finite \<open>float64\<close>.  A Go map of attributes is an association list with distinct
  keys; its random iteration only decides which of several faults is named.  The messages of the
  item errors are a datatype.
\<close>

definition maxSDKLogItems :: nat where "maxSDKLogItems = 1000"
definition maxSDKLogBody :: nat where "maxSDKLogBody = 8192"
definition maxSDKLogRelease :: nat where "maxSDKLogRelease = 128"
definition maxSDKLogAttributes :: nat where "maxSDKLogAttributes = 64"
definition maxSDKLogAttrKey :: nat where "maxSDKLogAttrKey = 128"
definition maxSDKLogAttrString :: nat where "maxSDKLogAttrString = 4096"
definition maxSDKSeverity :: int where "maxSDKSeverity = 24"
definition minSDKSeverity :: int where "minSDKSeverity = 1"
definition minUnixSeconds :: rat where "minUnixSeconds = 0"
definition maxUnixSeconds :: rat where "maxUnixSeconds = 100000000000"

definition severityByLevel :: "gostring \<rightharpoonup> int" where
  "severityByLevel = map_of
    [(''trace'', 1), (''debug'', 5), (''info'', 9), (''warn'', 13), (''error'', 17), (''fatal'', 21)]"

definition sdkLogLevels :: "gostring list" where
  "sdkLogLevels = [''trace'', ''debug'', ''info'', ''warn'', ''error'', ''fatal'']"

record sdk_item =
  it_timestamp :: rat
  it_level :: gostring
  it_body :: gostring
  it_severity :: "int option"
  it_trace :: gostring
  it_span :: gostring
  it_attributes :: "(gostring \<times> attribute) list"

record sdk_batch =
  ba_release :: gostring
  ba_items :: "sdk_item list"

datatype item_error =
    BadTimestamp
  | BadLevel
  | BadBody
  | BadSeverity
  | BadHexID gostring nat
  | TooManyAttributes
  | BadAttributeKey
  | StringWithNonString
  | LongString
  | IntegerWithNonInteger
  | DoubleWithNonNumber
  | BooleanWithNonBoolean
  | BadAttributeType gostring

datatype log_error =
    Refused err
  | BadItemCount
  | SDKLogItemError nat item_error
  | BadTraceFilter item_error
  | BadLevelFilter gostring

section \<open>One item\<close>

definition checkHexID :: "gostring \<Rightarrow> nat \<Rightarrow> gostring \<Rightarrow> item_error option" where
  "checkHexID value len name =
    (if value = [] then None
     else if length value \<noteq> len then Some (BadHexID name len)
     else if list_all is_hex value then None else Some (BadHexID name len))"

definition checkAttributeValue :: "attribute \<Rightarrow> item_error option" where
  "checkAttributeValue a =
    (if at_type a = ''string''
     then (case at_value a of
             AStr s \<Rightarrow> if maxSDKLogAttrString < length s then Some LongString else None
           | _ \<Rightarrow> Some StringWithNonString)
     else if at_type a = ''integer''
     then (case at_value a of
             ANum q \<Rightarrow> if q = of_int \<lfloor>q\<rfloor> then None else Some IntegerWithNonInteger
           | _ \<Rightarrow> Some IntegerWithNonInteger)
     else if at_type a = ''double''
     then (case at_value a of ANum q \<Rightarrow> None | _ \<Rightarrow> Some DoubleWithNonNumber)
     else if at_type a = ''boolean''
     then (case at_value a of ABool b \<Rightarrow> None | _ \<Rightarrow> Some BooleanWithNonBoolean)
     else Some (BadAttributeType (at_type a)))"

fun check_attributes :: "(gostring \<times> attribute) list \<Rightarrow> item_error option" where
  "check_attributes [] = None"
| "check_attributes ((k, a) # rest) =
    (if k = [] \<or> maxSDKLogAttrKey < length k then Some BadAttributeKey
     else (case checkAttributeValue a of Some e \<Rightarrow> Some e | None \<Rightarrow> check_attributes rest))"

definition buildSDKAttributes ::
  "(gostring \<times> attribute) list \<Rightarrow> item_error + (gostring \<times> attribute) list" where
  "buildSDKAttributes attributes =
    (if maxSDKLogAttributes < length attributes then Inl TooManyAttributes
     else (case check_attributes attributes of Some e \<Rightarrow> Inl e | None \<Rightarrow> Inr attributes))"

text \<open>\<open>time.Unix\<close> of the two parts of the timestamp, the fraction in truncated nanoseconds.\<close>

definition unix_instant :: "rat \<Rightarrow> instant" where
  "unix_instant t = \<lfloor>t\<rfloor> * second + \<lfloor>float_mult (t - of_int \<lfloor>t\<rfloor>) 1000000000\<rfloor>"

definition item_severity :: "int \<Rightarrow> sdk_item \<Rightarrow> item_error + int" where
  "item_severity inferred i =
    (case it_severity i of
       None \<Rightarrow> Inr inferred
     | Some n \<Rightarrow> if n < minSDKSeverity \<or> maxSDKSeverity < n then Inl BadSeverity else Inr n)"

definition item_ids :: "sdk_item \<Rightarrow> item_error option" where
  "item_ids i =
    (case checkHexID (it_trace i) 32 ''trace_id'' of
       Some e \<Rightarrow> Some e
     | None \<Rightarrow> checkHexID (it_span i) 16 ''span_id'')"

definition buildSDKLog :: "gostring \<Rightarrow> gostring \<Rightarrow> sdk_item \<Rightarrow> item_error + sdk_log" where
  "buildSDKLog sid release i =
    (if it_timestamp i \<le> minUnixSeconds \<or> maxUnixSeconds \<le> it_timestamp i then Inl BadTimestamp
     else (case severityByLevel (it_level i) of
       None \<Rightarrow> Inl BadLevel
     | Some inferred \<Rightarrow>
        (if it_body i = [] \<or> maxSDKLogBody < length (it_body i) then Inl BadBody
         else (case item_severity inferred i of
           Inl e \<Rightarrow> Inl e
         | Inr severity \<Rightarrow>
            (case item_ids i of
               Some e \<Rightarrow> Inl e
             | None \<Rightarrow>
                (case buildSDKAttributes (it_attributes i) of
                   Inl e \<Rightarrow> Inl e
                 | Inr attributes \<Rightarrow>
                    Inr \<lparr>sl_id = 0, sl_service = sid, sl_ts = unix_instant (it_timestamp i),
                         sl_level = it_level i, sl_severity = severity, sl_message = it_body i,
                         sl_attributes = attributes, sl_trace = it_trace i, sl_span = it_span i,
                         sl_release = release, sl_created = zero_time\<rparr>))))))"

section \<open>The batch\<close>

fun build_rows :: "gostring \<Rightarrow> gostring \<Rightarrow> nat \<Rightarrow> sdk_item list \<Rightarrow> log_error + sdk_log list" where
  "build_rows sid release n [] = Inr []"
| "build_rows sid release n (i # is) =
    (case buildSDKLog sid release i of
       Inl e \<Rightarrow> Inl (SDKLogItemError n e)
     | Inr row \<Rightarrow> map_sum id ((#) row) (build_rows sid release (Suc n) is))"

definition buildSDKLogs :: "gostring \<Rightarrow> sdk_batch \<Rightarrow> log_error + sdk_log list" where
  "buildSDKLogs sid b =
    (if ba_items b = [] \<or> maxSDKLogItems < length (ba_items b) then Inl BadItemCount
     else build_rows sid (go_truncate (ba_release b) maxSDKLogRelease) 0 (ba_items b))"

definition IngestLogs ::
  "instant \<Rightarrow> gostring \<Rightarrow> sdk_batch \<Rightarrow> ('z ingest_world_scheme, log_error, int) prog" where
  "IngestLogs now presented b =
    bindE (map_error Refused (authenticateKey presented)) (\<lambda>key.
    bindE (of_result (buildSDKLogs (ak_service key) b)) (\<lambda>rows.
     andthen (map_error (\<lambda>_. Refused (ErrOther ''storing sdk logs'')) (sdk_InsertBatch now rows))
      (ret (int (length rows)))))"

section \<open>Search\<close>

record sdk_search =
  ss_service :: gostring
  ss_query :: gostring
  ss_level :: gostring
  ss_trace :: gostring
  ss_since :: "instant option"
  ss_until :: "instant option"
  ss_limit :: int

fun collect_sdk_levels ::
  "(gostring \<Rightarrow> gostring) \<Rightarrow> gostring list \<Rightarrow> gostring list \<Rightarrow> log_error + gostring list" where
  "collect_sdk_levels lower levels [] = Inr levels"
| "collect_sdk_levels lower levels (part # parts) =
    (let level = lower (trim_space part) in
     if level = [] then collect_sdk_levels lower levels parts
     else if level \<notin> set sdkLogLevels then Inl (BadLevelFilter part)
     else collect_sdk_levels lower (if level \<in> set levels then levels else levels @ [level]) parts)"

definition normalizeSDKLogLevels :: "(gostring \<Rightarrow> gostring) \<Rightarrow> gostring \<Rightarrow> log_error + gostring list" where
  "normalizeSDKLogLevels lower raw =
    (if trim_space raw = [] then Inr [] else collect_sdk_levels lower [] (split_char (CHR '','') raw))"

definition SearchLogs ::
  "(gostring \<Rightarrow> gostring) \<Rightarrow> (gostring \<Rightarrow> gostring \<Rightarrow> bool) \<Rightarrow> sdk_search
    \<Rightarrow> ('z ingest_world_scheme, log_error, sdk_log list) prog" where
  "SearchLogs lower like s =
    andthen (map_error Refused (svc_get (ss_service s)))
   (andthen
     (case checkHexID (ss_trace s) 32 ''trace_id'' of None \<Rightarrow> ret () | Some e \<Rightarrow> throw (BadTraceFilter e))
    (bindE (of_result (normalizeSDKLogLevels lower (ss_level s))) (\<lambda>levels.
     map_error Refused
      (sdk_Search like
        \<lparr>sf_service = ss_service s, sf_query = ss_query s, sf_levels = levels, sf_trace = ss_trace s,
         sf_since = ss_since s, sf_until = ss_until s, sf_limit = clampSearchLimit (ss_limit s)\<rparr>))))"

end
