(* ===== verification/Ingest_Laws.thy ===== *)
theory Ingest_Laws
  imports Ingest
begin

text \<open>
  What the ingestor promises: the groups stay sound on any fault, a report is stored whole or not at
  all, a key lives from its creation to its revocation, and how far the template of a message
  abstracts from numbers.
\<close>

section \<open>Groups\<close>

definition group_key :: "issue_row \<Rightarrow> gostring \<times> gostring" where
  "group_key r = (iss_service r, iss_fingerprint r)"

definition issue_with :: "int \<Rightarrow> gostring \<Rightarrow> 'z ingest_world_scheme \<Rightarrow> bool" where
  "issue_with i sid w \<longleftrightarrow> (\<exists>r\<in>set (rows (issues w)). iss_id r = i \<and> iss_service r = sid)"

text \<open>
  One issue for a fingerprint of a service, every occurrence with an issue is in one of
  its own service, every release belongs to an issue and is noted once, and a hash names one key.
\<close>

definition groups_ok :: "'z ingest_world_scheme \<Rightarrow> bool" where
  "groups_ok w \<longleftrightarrow>
    table_ok ak_id (api_keys w) \<and> distinct (map ak_hash (rows (api_keys w))) \<and>
    table_ok iss_id (issues w) \<and> distinct (map group_key (rows (issues w))) \<and>
    table_ok occ_id (occurrences w) \<and>
    (\<forall>c\<in>set (rows (occurrences w)). \<forall>i. occ_issue c = Some i \<longrightarrow> issue_with i (occ_service c) w) \<and>
    distinct (issue_releases w) \<and>
    (\<forall>p\<in>set (issue_releases w). \<exists>r\<in>set (rows (issues w)). iss_id r = fst p)"

lemmas groups_defs = groups_ok_def issue_with_def group_key_def

interpretation groups_db: db_invariant groups_ok
  by unfold_locales (simp add: groups_defs)

lemma t_find_NoneD: "t_find P t = None \<longleftrightarrow> (\<forall>r\<in>set (rows t). \<not> P r)"
  by (simp add: t_find_def)

lemma t_find_SomeD: "t_find P t = Some r \<Longrightarrow> r \<in> set (rows t) \<and> P r"
  by (auto simp: t_find_def dest: first_where_SomeD)

lemma upsert_keeps:
  assumes "table_ok iss_id t" "distinct (map group_key (rows t))"
  shows "table_ok iss_id (upsert_issue now sid fp title t)"
    "distinct (map group_key (rows (upsert_issue now sid fp title t)))"
proof -
  show "table_ok iss_id (upsert_issue now sid fp title t)"
    using assms(1) by (simp add: upsert_issue_def issue_rows.ok_insert issue_rows.ok_update)
  show "distinct (map group_key (rows (upsert_issue now sid fp title t)))"
  proof (cases "t_find (same_issue sid fp) t = None")
    case True
    then have "(sid, fp) \<notin> group_key ` set (rows t)"
      by (auto simp: t_find_NoneD same_issue_def group_key_def)
    then show ?thesis using assms(2) True by (simp add: upsert_issue_def new_issue_def) (simp add: group_key_def)
  next
    case False
    then have u: "rows (upsert_issue now sid fp title t) =
        map_where (same_issue sid fp) (\<lambda>r. r\<lparr>iss_last := now\<rparr>) (rows t)"
      by (auto simp: upsert_issue_def)
    show ?thesis unfolding u by (rule distinct_map_where [OF assms(2)]) (simp add: group_key_def)
  qed
qed

lemma upsert_rows:
  "r \<in> set (rows t) \<Longrightarrow>
    \<exists>r'\<in>set (rows (upsert_issue now sid fp title t)). iss_id r' = iss_id r \<and> iss_service r' = iss_service r"
  by (auto simp: upsert_issue_def bex_mw intro!: bexI [of _ r])

lemma groups_upsert:
  assumes "groups_ok w"
  shows "groups_ok (w\<lparr>issues := upsert_issue now sid fp title (issues w)\<rparr>)"
proof -
  have "issue_with i s (w\<lparr>issues := upsert_issue now sid fp title (issues w)\<rparr>)" if "issue_with i s w" for i s
    using that upsert_rows unfolding issue_with_def by fastforce
  moreover have "\<exists>r\<in>set (rows (upsert_issue now sid fp title (issues w))). iss_id r = i"
    if "\<exists>r\<in>set (rows (issues w)). iss_id r = i" for i
    using that upsert_rows by fastforce
  ultimately show ?thesis
    using assms upsert_keeps [of "issues w"] unfolding groups_ok_def by simp
qed

lemma ok_release:
  "groups_ok w \<Longrightarrow> \<exists>r\<in>set (rows (issues w)). iss_id r = i \<Longrightarrow>
    groups_ok (w\<lparr>issue_releases := add_release i rel (issue_releases w)\<rparr>)"
  by (auto simp: groups_defs add_release_def)

lemma ok_occurrence:
  assumes "groups_ok w" "\<And>i. occ_issue c = Some i \<Longrightarrow> issue_with i (occ_service c) w"
  shows "groups_ok (w\<lparr>occurrences := t_insert (\<lambda>i r. r\<lparr>occ_id := i\<rparr>) c (occurrences w)\<rparr>)"
  using assms by (auto simp: groups_defs occurrence_rows.ok_insert)

lemma ok_fewer_occurrences: "groups_ok w \<Longrightarrow> groups_ok (w\<lparr>occurrences := t_delete P (occurrences w)\<rparr>)"
  by (auto simp: groups_defs occurrence_rows.ok_delete)

lemma ok_notified:
  assumes "groups_ok w"
  shows "groups_ok (w\<lparr>issues := t_update P (\<lambda>r. r\<lparr>iss_notified := x\<rparr>) (issues w)\<rparr>)"
proof -
  have d: "distinct (map group_key (map_where P (\<lambda>r. r\<lparr>iss_notified := x\<rparr>) (rows (issues w))))"
    using assms by (intro distinct_map_where) (simp_all add: groups_ok_def group_key_def)
  show ?thesis
    using assms d unfolding groups_ok_def issue_with_def
    by (simp add: issue_rows.ok_update bex_mw)
qed

lemma ok_new_key:
  "groups_ok w \<Longrightarrow> key_insert_ok k w \<Longrightarrow>
    groups_ok (w\<lparr>api_keys := t_insert (\<lambda>i r. r\<lparr>ak_id := i\<rparr>) k (api_keys w)\<rparr>)"
  by (auto simp: groups_defs key_insert_ok_def key_rows.ok_insert)

lemma ok_revoked:
  "groups_ok w \<Longrightarrow> groups_ok (w\<lparr>api_keys := t_update P (\<lambda>r. r\<lparr>ak_revoked := x\<rparr>) (api_keys w)\<rparr>)"
  by (simp add: groups_defs key_rows.ok_update distinct_map_where)

lemma ok_drop:
  assumes ok: "groups_ok w"
  shows "groups_ok (drop_issues P w)"
proof -
  let ?gone = "iss_id ` set (filter P (rows (issues w)))" and ?w = "drop_issues P w"
  have rows: "rows (issues ?w) = filter (\<lambda>r. \<not> P r) (rows (issues w))"
    "rows (occurrences ?w) =
      map_where (\<lambda>c. \<exists>i\<in>?gone. occ_issue c = Some i) (\<lambda>c. c\<lparr>occ_issue := None\<rparr>) (rows (occurrences w))"
    "issue_releases ?w = filter (\<lambda>p. fst p \<notin> ?gone) (issue_releases w)" "api_keys ?w = api_keys w"
    by (simp_all add: drop_issues_def Let_def)
  have stays: "r \<in> set (rows (issues ?w))" if "r \<in> set (rows (issues w))" "iss_id r \<notin> ?gone" for r
    using that unfolding rows by auto
  have linked: "issue_with i s ?w" if "issue_with i s w" "i \<notin> ?gone" for i s
    using that stays unfolding issue_with_def by blast
  have tables: "table_ok iss_id (issues ?w)" "table_ok occ_id (occurrences ?w)"
    using ok unfolding groups_ok_def drop_issues_def Let_def
    by (simp_all add: issue_rows.ok_delete occurrence_rows.ok_update)
  have keys: "distinct (map group_key (rows (issues ?w)))"
    using ok unfolding groups_ok_def rows by (simp add: distinct_map_filter)
  have occ: "\<forall>c\<in>set (rows (occurrences ?w)). \<forall>i. occ_issue c = Some i \<longrightarrow> issue_with i (occ_service c) ?w"
    unfolding rows(2) ball_mw
  proof (intro ballI allI impI)
    fix c i assume c: "c \<in> set (rows (occurrences w))"
    let ?d = "if \<exists>i\<in>?gone. occ_issue c = Some i then c\<lparr>occ_issue := None\<rparr> else c"
    assume "occ_issue ?d = Some i"
    then have "occ_issue c = Some i" "i \<notin> ?gone" "?d = c" by (auto split: if_splits)
    moreover from this c have "issue_with i (occ_service c) w" using ok unfolding groups_ok_def by blast
    ultimately show "issue_with i (occ_service ?d) ?w" using linked by simp
  qed
  have rel: "\<forall>p\<in>set (issue_releases ?w). \<exists>r\<in>set (rows (issues ?w)). iss_id r = fst p"
  proof
    fix p assume "p \<in> set (issue_releases ?w)"
    then have "p \<in> set (issue_releases w)" "fst p \<notin> ?gone" unfolding rows(3) by auto
    then obtain r where "r \<in> set (rows (issues w))" "iss_id r = fst p" "iss_id r \<notin> ?gone"
      using ok unfolding groups_ok_def by metis
    then show "\<exists>r\<in>set (rows (issues ?w)). iss_id r = fst p" using stays by blast
  qed
  show ?thesis
    using ok tables keys occ rel unfolding groups_ok_def rows(3,4) by (simp add: distinct_map_filter)
qed

section \<open>A stored report\<close>

definition stored_occurrence :: "instant \<Rightarrow> int \<Rightarrow> occurrence \<Rightarrow> occurrence" where
  "stored_occurrence later i c =
    (if is_zero_time (occ_created c) then c\<lparr>occ_created := later\<rparr> else c)\<lparr>occ_issue := Some i\<rparr>"

text \<open>The tables after a report is grouped.\<close>

definition grouped ::
  "instant \<Rightarrow> instant \<Rightarrow> gostring \<Rightarrow> gostring \<Rightarrow> gostring \<Rightarrow> gostring \<Rightarrow> occurrence
    \<Rightarrow> 'z ingest_world_scheme \<Rightarrow> 'z ingest_world_scheme" where
  "grouped now later sid fp title release c w =
    (let t = upsert_issue now sid fp title (issues w);
         i = (case t_find (same_issue sid fp) t of None \<Rightarrow> 0 | Some r \<Rightarrow> iss_id r) in
     w\<lparr>issues := t,
       issue_releases := (if release \<noteq> [] then add_release i release (issue_releases w) else issue_releases w),
       occurrences := t_insert (\<lambda>i r. r\<lparr>occ_id := i\<rparr>) (stored_occurrence later i c) (occurrences w)\<rparr>)"

lemma grouped_blind: "grouped now later sid fp title rel c (w\<lparr>faults := fs\<rparr>) =
    (grouped now later sid fp title rel c w)\<lparr>faults := fs\<rparr>"
  by (simp add: grouped_def Let_def)

lemma upsert_finds: "\<exists>r. t_find (same_issue sid fp) (upsert_issue now sid fp title t) = Some r"
proof -
  have "\<exists>r\<in>set (rows (upsert_issue now sid fp title t)). same_issue sid fp r"
  proof (cases "t_find (same_issue sid fp) t")
    case None then show ?thesis by (simp add: upsert_issue_def new_issue_def same_issue_def)
  next
    case (Some r)
    then have "r \<in> set (rows t)" "same_issue sid fp r" by (auto dest: t_find_SomeD)
    then show ?thesis using Some by (auto simp: upsert_issue_def bex_mw same_issue_def intro!: bexI [of _ r])
  qed
  then show ?thesis by (metis not_None_eq t_find_NoneD)
qed

lemma GroupOccurrence_quiet:
  assumes q: "faults w = []" and same: "occ_service c = sid"
  shows "GroupOccurrence now later sid fp title rel c w =
    (if has_service sid w
     then (Inr ((stored_occurrence later
              (iss_id (the (t_find (same_issue sid fp) (upsert_issue now sid fp title (issues w))))) c)
            \<lparr>occ_id := seq (occurrences w) + 1\<rparr>),
           grouped now later sid fp title rel c w)
     else (Inl (ErrOther ''upserting issue''), w))"
proof (cases "has_service sid w")
  case True
  obtain r where r: "t_find (same_issue sid fp) (upsert_issue now sid fp title (issues w)) = Some r"
    using upsert_finds by blast
  then have mem: "r \<in> set (rows (upsert_issue now sid fp title (issues w)))" by (auto dest: t_find_SomeD)
  have svc: "has_service sid (w\<lparr>issues := x, issue_releases := y\<rparr>)"
    "has_service sid (w\<lparr>issues := x\<rparr>)" for x y
    using True by (simp_all add: has_service_def)
  show ?thesis
    using q True svc mem
    by (simp add: GroupOccurrence_def insertOccurrenceRow_def occurrence_insert_ok_def tx_def run_defs r
        Let_def grouped_def stored_occurrence_def same)
      (auto simp: same)
next
  case False
  then show ?thesis using q by (simp add: GroupOccurrence_def tx_def run_defs)
qed


text \<open>Every operation keeps the groups.\<close>

lemma keeps_key_create: "keeps groups_ok (key_create now k)"
  unfolding key_create_def Let_def
  by (intro keeps_andthen keeps_checked keeps_bindE keeps_gets keeps_ret groups_db.keeps_stmt ok_new_key;
      assumption)+

lemma keeps_group_reads:
  "keeps groups_ok (key_by_hash h)" "keeps groups_ok (svc_get sid)" "keeps groups_ok (issue_get i)"
  unfolding key_by_hash_def svc_get_def issue_get_def withReleases_def
  by (intro keeps_rules groups_db.keeps_stmt)+

lemma ok_grouped:
  assumes "groups_ok w" "occ_service c = sid"
  shows "groups_ok (grouped now later sid fp title rel c w)"
proof -
  let ?t = "upsert_issue now sid fp title (issues w)"
  obtain r where r: "t_find (same_issue sid fp) ?t = Some r" using upsert_finds by blast
  then have mem: "r \<in> set (rows ?t)" "iss_service r = sid" by (auto dest: t_find_SomeD simp: same_issue_def)
  let ?w1 = "w\<lparr>issues := ?t\<rparr>"
  let ?w2 = "?w1\<lparr>issue_releases :=
      (if rel \<noteq> [] then add_release (iss_id r) rel (issue_releases w) else issue_releases w)\<rparr>"
  have 1: "groups_ok ?w1" by (rule groups_upsert [OF assms(1)])
  have 2: "groups_ok ?w2"
  proof (cases "rel = []")
    case False
    have "groups_ok (?w1\<lparr>issue_releases := add_release (iss_id r) rel (issue_releases ?w1)\<rparr>)"
      by (rule ok_release [OF 1]) (use mem in auto)
    then show ?thesis using False by simp
  qed (use 1 in simp)
  have "groups_ok (?w2\<lparr>occurrences :=
      t_insert (\<lambda>i r. r\<lparr>occ_id := i\<rparr>) (stored_occurrence later (iss_id r) c) (occurrences ?w2)\<rparr>)"
    by (rule ok_occurrence [OF 2]) (use mem assms(2) in \<open>auto simp: stored_occurrence_def issue_with_def\<close>)
  then show ?thesis by (cases "rel = []") (simp_all add: grouped_def Let_def r)
qed

lemma calm_GroupOccurrence: "calm (GroupOccurrence now later sid fp title rel c)"
  unfolding GroupOccurrence_def insertOccurrenceRow_def Let_def
  by (intro calm_rules) (auto simp: blind_def blind_update_def has_service_def occurrence_insert_ok_def
      intro!: calm_rules split: option.splits)

lemma GroupOccurrence_cases:
  assumes "occ_service c = sid" and "GroupOccurrence now later sid fp title rel c w = (r, t)"
  shows "case r of
      Inl e \<Rightarrow> only_oracle w t
    | Inr d \<Rightarrow> has_service sid w \<and> only_oracle (grouped now later sid fp title rel c w) t"
proof (cases r)
  case (Inl e)
  have "atomic (GroupOccurrence now later sid fp title rel c :: ('a ingest_world_scheme, err, occurrence) prog)"
    unfolding GroupOccurrence_def by (intro atomic_rules)
  then show ?thesis using assms(2) Inl by (simp add: atomicD)
next
  case (Inr d)
  let ?q = "w\<lparr>faults := []\<rparr>"
  have run: "GroupOccurrence now later sid fp title rel c ?q = (Inr d, t\<lparr>faults := []\<rparr>)"
    using assms(2) unfolding Inr by (rule calmD [OF calm_GroupOccurrence])
  have q: "faults ?q = []" by simp
  note quiet = GroupOccurrence_quiet [OF q assms(1), of now later fp title rel, unfolded run]
  have svc: "has_service sid ?q = has_service sid w" by (simp add: has_service_def)
  have "has_service sid w" "t\<lparr>faults := []\<rparr> = (grouped now later sid fp title rel c w)\<lparr>faults := []\<rparr>"
    using quiet unfolding svc grouped_blind by (auto split: if_splits)
  then have "t = (grouped now later sid fp title rel c w)\<lparr>faults := faults t\<rparr>"
    by (metis sqldb.surjective sqldb.update_convs(1))
  then show ?thesis using Inr \<open>has_service sid w\<close> by (simp add: only_oracle_def)
qed

lemma groups_oracle: "groups_ok w \<Longrightarrow> only_oracle w t \<Longrightarrow> groups_ok t"
  by (auto simp: only_oracle_ex groups_db.oracle_blind)

lemma keeps_GroupOccurrence:
  assumes "occ_service c = sid"
  shows "keeps groups_ok (GroupOccurrence now later sid fp title rel c)"
  unfolding keeps_def
proof (intro allI impI)
  fix w :: "'a ingest_world_scheme" assume ok: "groups_ok w"
  obtain r t where run: "GroupOccurrence now later sid fp title rel c w = (r, t)" by fastforce
  show "groups_ok (snd (GroupOccurrence now later sid fp title rel c w))"
    using GroupOccurrence_cases [OF assms run] groups_oracle [OF ok] groups_oracle [OF ok_grouped [OF ok assms]]
    by (cases r) (auto simp: run)
qed

lemma keeps_bind_result: "(\<And>a. x = Inr a \<Longrightarrow> keeps I (k a)) \<Longrightarrow> keeps I (bindE (of_result x) k)"
  by (cases x) (simp_all add: of_result_def)

lemma built_service: "buildOccurrence sid r = Inr c \<Longrightarrow> occ_service c = sid"
  by (auto simp: buildOccurrence_def split: if_splits)

lemma keeps_occurrence_trim: "keeps groups_ok (occurrences_TrimBeyondCap sid most)"
  unfolding occurrences_TrimBeyondCap_def
  by (intro keeps_rules groups_db.keeps_stmt ok_fewer_occurrences; assumption)

lemma keeps_authenticate: "keeps groups_ok (authenticateKey presented)"
  unfolding authenticateKey_def by (intro keeps_rules keeps_group_reads)

lemma keeps_Ingest: "keeps groups_ok (Ingest most draw now later presented report)"
proof -
  have step: "keeps groups_ok
     (if \<not> sampled_in draw (ak_rate key) then ret False
      else andthen (map_error (\<lambda>_. ErrOther ''storing occurrence'')
           (GroupOccurrence now later (ak_service key) (report_fingerprint (ak_service key) c)
             (issueTitle (occ_message c)) (occ_release c) c))
        (bindE (attempt (occurrences_TrimBeyondCap (ak_service key) most)) (\<lambda>r :: err + int. ret True)))"
    if "occ_service c = ak_service key" for key c
    using that
    by (intro keeps_if keeps_ret keeps_andthen keeps_map_error keeps_bindE keeps_attempt
        keeps_GroupOccurrence keeps_occurrence_trim)
  show ?thesis
    unfolding Ingest_def
    by (rule keeps_bindE [OF keeps_authenticate], rule keeps_bind_result, rule step, rule built_service)
qed

section \<open>Whole or not at all\<close>

lemma reading_authenticate [atomic_rules]: "reading (authenticateKey presented)"
  unfolding authenticateKey_def key_by_hash_def by (intro atomic_rules)

text \<open>The row that a presented key names.\<close>

definition live_key :: "gostring \<Rightarrow> 'z ingest_world_scheme \<Rightarrow> api_key option" where
  "live_key presented w =
    (if length presented = keyLen \<and> has_prefix presented keyTag
     then (case t_find (\<lambda>r. ak_hash r = HashKey presented) (api_keys w) of
             Some k \<Rightarrow> if ak_revoked k = None then Some k else None
           | None \<Rightarrow> None)
     else None)"

lemma live_key_blind [simp]: "live_key presented (w\<lparr>faults := fs\<rparr>) = live_key presented w"
  by (simp add: live_key_def)

lemma authenticate_quiet:
  "faults w = [] \<Longrightarrow> authenticateKey presented w =
    ((case live_key presented w of None \<Rightarrow> Inl ErrUnauthorized | Some k \<Rightarrow> Inr k), w)"
  by (auto simp: authenticateKey_def key_by_hash_def live_key_def run_defs split: option.split)

lemma calm_authenticate: "calm (authenticateKey presented)"
  unfolding authenticateKey_def key_by_hash_def by (intro calm_rules) (simp_all add: blind_def)

lemma authenticate_key:
  assumes "authenticateKey presented w = (Inr k, t)"
  shows "live_key presented w = Some k" "only_oracle w t"
proof -
  have "authenticateKey presented (w\<lparr>faults := []\<rparr>) = (Inr k, t\<lparr>faults := []\<rparr>)"
    using assms by (rule calmD [OF calm_authenticate])
  then show "live_key presented w = Some k"
    using authenticate_quiet [of "w\<lparr>faults := []\<rparr>" presented] by (auto split: option.splits)
  show "only_oracle w t" using assms by (rule readingD [OF reading_authenticate])
qed

lemma authenticate_refuses:
  "authenticateKey presented w = (Inl e, t) \<Longrightarrow> e = ErrUnauthorized"
  by (auto simp: authenticateKey_def andthen_def bindE_def guardE_def ret_def throw_def map_error_def
      split: if_splits prod.splits sum.splits)

definition trimmed_to :: "gostring \<Rightarrow> int \<Rightarrow> 'z ingest_world_scheme \<Rightarrow> 'z ingest_world_scheme" where
  "trimmed_to sid most w = w\<lparr>occurrences := t_delete (beyond_cap sid most w) (occurrences w)\<rparr>"

lemma beyond_cap_blind [simp]: "beyond_cap sid most (w\<lparr>faults := fs\<rparr>) = beyond_cap sid most w"
  by (simp add: beyond_cap_def fun_eq_iff)

lemma trimmed_blind: "trimmed_to sid most (w\<lparr>faults := fs\<rparr>) = (trimmed_to sid most w)\<lparr>faults := fs\<rparr>"
  by (simp add: trimmed_to_def)

lemma trimmed_oracle:
  "only_oracle g v \<Longrightarrow> only_oracle (trimmed_to sid most v) t \<Longrightarrow> only_oracle (trimmed_to sid most g) t"
  by (auto simp: only_oracle_ex trimmed_blind)

lemma trim_outcome: "attempt (occurrences_TrimBeyondCap sid most) w = (Inr r, t) \<Longrightarrow>
    only_oracle w t \<or> only_oracle (trimmed_to sid most w) t"
proof (rule stmt_cases [of "ErrOther ''trimming occurrences beyond cap''" w])
  fix fs
  let ?u = "w\<lparr>faults := fs\<rparr>" and ?count = "ErrOther ''counting trimmed occurrences''"
  assume s: "stmt (ErrOther ''trimming occurrences beyond cap'') w = (Inr (), ?u)"
    and run: "attempt (occurrences_TrimBeyondCap sid most) w = (Inr r, t)"
  have "t = snd (stmt ?count (trimmed_to sid most ?u))"
    using run by (auto simp: occurrences_TrimBeyondCap_def attempt_def andthen_def bindE_def gets_def modify_def
        ret_def s trimmed_to_def split: prod.splits sum.splits)
  then have "only_oracle (trimmed_to sid most ?u) t"
    using readingD [OF reading_basic(7), of ?count "trimmed_to sid most ?u"] by (metis prod.collapse)
  then show ?thesis unfolding trimmed_blind by (auto simp: only_oracle_ex)
next
  fix fs
  assume "stmt (ErrOther ''trimming occurrences beyond cap'') w =
      (Inl (ErrOther ''trimming occurrences beyond cap''), w\<lparr>faults := fs\<rparr>)"
    and "attempt (occurrences_TrimBeyondCap sid most) w = (Inr r, t)"
  then show ?thesis by (auto simp: occurrences_TrimBeyondCap_def attempt_def andthen_def bindE_def only_oracle_ex)
qed

text \<open>C17: Whatever statements fail, a report is stored whole or not at all.  An error, and a report that the
  sampling drops, leave the tables as they were.  An accepted report has a live key and is valid; its issue,
  its release and its occurrence are stored, and at most the oldest occurrences of the service beyond the cap
  are gone.\<close>

theorem Ingest_whole_or_nothing:
  "case Ingest most draw now later presented report w of
     (Inr True, t) \<Rightarrow>
       (\<exists>k c. live_key presented w = Some k \<and> buildOccurrence (ak_service k) report = Inr c \<and>
         sampled_in draw (ak_rate k) \<and> has_service (ak_service k) w \<and>
         (let g = grouped now later (ak_service k) (report_fingerprint (ak_service k) c)
               (issueTitle (occ_message c)) (occ_release c) c w in
          only_oracle g t \<or> only_oracle (trimmed_to (ak_service k) most g) t))
   | (Inr False, t) \<Rightarrow>
       only_oracle w t \<and> (\<exists>k. live_key presented w = Some k \<and> \<not> sampled_in draw (ak_rate k))
   | (Inl e, t) \<Rightarrow> only_oracle w t"
proof -
  obtain x u where a: "authenticateKey presented w = (x, u)" by fastforce
  have u: "only_oracle w u" by (rule readingD [OF reading_authenticate a])
  show ?thesis
  proof (cases x)
    case (Inl e) then show ?thesis using a u by (simp add: Ingest_def bindE_def)
  next
    case (Inr k)
    have key: "live_key presented w = Some k" using a unfolding Inr by (rule authenticate_key)
    show ?thesis
    proof (cases "buildOccurrence (ak_service k) report")
      case (Inl e) then show ?thesis using a u Inr by (simp add: Ingest_def bindE_def of_result_def throw_def)
    next
      case (Inr c)
      have own: "occ_service c = ak_service k" using Inr by (rule built_service)
      let ?fp = "report_fingerprint (ak_service k) c" and ?ti = "issueTitle (occ_message c)"
      let ?G = "GroupOccurrence now later (ak_service k) ?fp ?ti (occ_release c) c u"
      let ?g = "grouped now later (ak_service k) ?fp ?ti (occ_release c) c"
      obtain y v where g: "?G = (y, v)" by fastforce
      obtain z t where t: "attempt (occurrences_TrimBeyondCap (ak_service k) most) v = (Inr z :: err + _, t)"
        using attempt_total [of "occurrences_TrimBeyondCap (ak_service k) most" v] by blast
      have run: "Ingest most draw now later presented report w =
          (if \<not> sampled_in draw (ak_rate k) then (Inr False, u)
           else case y of Inl e \<Rightarrow> (Inl (ErrOther ''storing occurrence''), v) | Inr d \<Rightarrow> (Inr True, t))"
        using a \<open>x = Inr k\<close> Inr g t
        by (simp add: Ingest_def bindE_def of_result_def ret_def andthen_def map_error_def split: sum.split)
      have blind: "has_service sid u = has_service sid w" "?g u = (?g w)\<lparr>faults := faults u\<rparr>" for sid
      proof -
        obtain fs where fs: "u = w\<lparr>faults := fs\<rparr>" using u by (auto simp: only_oracle_ex)
        show "has_service sid u = has_service sid w" by (simp add: fs has_service_def)
        show "?g u = (?g w)\<lparr>faults := faults u\<rparr>" by (simp add: fs grouped_blind)
      qed
      show ?thesis
      proof (cases y)
        case (Inl e)
        then have "only_oracle w v" using GroupOccurrence_cases [OF own g] only_oracle_trans [OF u] by simp
        then show ?thesis using run u key Inl by auto
      next
        case (Inr d)
        then have v: "has_service (ak_service k) w" "only_oracle (?g w) v"
          using GroupOccurrence_cases [OF own g] unfolding blind by (auto simp: only_oracle_ex)
        have "only_oracle v t \<or> only_oracle (trimmed_to (ak_service k) most v) t"
          using t by (rule trim_outcome)
        then have "only_oracle (?g w) t \<or> only_oracle (trimmed_to (ak_service k) most (?g w)) t"
          using only_oracle_trans [OF v(2)] trimmed_oracle [OF v(2)] by blast
        then show ?thesis
          using run u key v(1) Inr \<open>buildOccurrence (ak_service k) report = Inr c\<close> by (auto simp: Let_def)
      qed
    qed
  qed
qed

section \<open>The life of a key\<close>

lemma hex_string_length: "length (hex_string bs) = 2 * length bs"
  by (induction bs) (simp_all add: hex_string_def)

text \<open>The row of a new key.\<close>

definition key_row :: "instant \<Rightarrow> gostring \<Rightarrow> rat \<Rightarrow> gostring \<Rightarrow> int \<Rightarrow> api_key" where
  "key_row now sid rate plaintext i = (new_key sid rate plaintext)\<lparr>ak_created := now, ak_id := i\<rparr>"

definition with_key :: "api_key \<Rightarrow> 'z ingest_world_scheme \<Rightarrow> 'z ingest_world_scheme" where
  "with_key k w = w\<lparr>api_keys := t_insert (\<lambda>i r. r\<lparr>ak_id := i\<rparr>) k (api_keys w)\<rparr>"

lemma CreateKey_run:
  assumes q: "faults w = []" and run: "CreateKey (Some raw) now sid rate w = (Inr ck, w')"
  shows "w' = with_key (key_row now sid rate (ck_plaintext ck) 0) w"
    "ck_key ck = key_row now sid rate (ck_plaintext ck) (seq (api_keys w) + 1)"
    "ck_plaintext ck = keyTag @ hex_string raw" "has_service sid w" "0 \<le> rate \<and> rate \<le> 1"
    "\<forall>r\<in>set (rows (api_keys w)). ak_hash r \<noteq> HashKey (ck_plaintext ck)"
proof -
  let ?p = "keyTag @ hex_string raw"
  have z: "is_zero_time (ak_created (new_key sid rate ?p))" by (simp add: new_key_def is_zero_time_def)
  have cases: "service_row sid w \<noteq> None \<and> 0 \<le> rate \<and> rate \<le> 1 \<and>
      key_insert_ok ((new_key sid rate ?p)\<lparr>ak_created := now\<rparr>) w \<and>
      ck = \<lparr>ck_key = key_row now sid rate ?p (seq (api_keys w) + 1), ck_plaintext = ?p\<rparr> \<and>
      w' = with_key (key_row now sid rate ?p 0) w"
    using run q z
    by (auto simp: CreateKey_def key_create_def svc_get_def run_defs Let_def with_key_def key_row_def new_key_def
        split: option.splits if_splits)
  then show "w' = with_key (key_row now sid rate (ck_plaintext ck) 0) w"
    "ck_key ck = key_row now sid rate (ck_plaintext ck) (seq (api_keys w) + 1)"
    "ck_plaintext ck = ?p" "has_service sid w" "0 \<le> rate \<and> rate \<le> 1"
    "\<forall>r\<in>set (rows (api_keys w)). ak_hash r \<noteq> HashKey (ck_plaintext ck)"
    by (auto simp: key_insert_ok_def new_key_def)
qed

lemma find_with_key:
  "\<forall>r\<in>set (rows (api_keys w)). ak_hash r \<noteq> ak_hash k \<Longrightarrow>
    t_find (\<lambda>r. ak_hash r = ak_hash k) (api_keys (with_key k w)) = Some (k\<lparr>ak_id := seq (api_keys w) + 1\<rparr>)"
  by (auto simp: t_find_def with_key_def first_where_append simp del: first_where_None split: option.splits
      dest: first_where_SomeD)

lemma find_other_key:
  "h \<noteq> ak_hash k \<Longrightarrow>
    t_find (\<lambda>r. ak_hash r = h) (api_keys (with_key k w)) = t_find (\<lambda>r. ak_hash r = h) (api_keys w)"
  by (auto simp: t_find_def with_key_def first_where_append simp del: first_where_None split: option.splits)

definition revoked_key :: "instant \<Rightarrow> int \<Rightarrow> 'z ingest_world_scheme \<Rightarrow> 'z ingest_world_scheme" where
  "revoked_key now i w =
    w\<lparr>api_keys := t_update (\<lambda>r. ak_id r = i) (\<lambda>r. r\<lparr>ak_revoked := Some now\<rparr>) (api_keys w)\<rparr>"

lemma find_revoked:
  "t_find (\<lambda>r. ak_hash r = h) (api_keys (revoked_key now i w)) =
    map_option (\<lambda>r. if ak_id r = i then r\<lparr>ak_revoked := Some now\<rparr> else r)
      (t_find (\<lambda>r. ak_hash r = h) (api_keys w))"
  by (simp add: t_find_def revoked_key_def first_where_update)

lemma RevokeKey_run:
  "faults w = [] \<Longrightarrow> \<exists>r\<in>set (rows (api_keys w)). ak_id r = i \<Longrightarrow>
    RevokeKey now i w = (Inr (), revoked_key now i w)"
  by (auto simp: RevokeKey_def key_revoke_def run_defs revoked_key_def t_count_def filter_empty_conv)

text \<open>Where the database answers, a created key authenticates as itself from then on, and once it is
  revoked it is refused like an unknown one; every other key fares as before the creation.\<close>

theorem key_lives_until_revoked:
  assumes "faults w = []" and "groups_ok w" and "length raw = 16"
    and "CreateKey (Some raw) now sid rate w = (Inr ck, w')"
  shows "authenticateKey (ck_plaintext ck) w' = (Inr (ck_key ck), w') \<and>
    (\<exists>w''. RevokeKey later (ak_id (ck_key ck)) w' = (Inr (), w'') \<and>
      authenticateKey (ck_plaintext ck) w'' = (Inl ErrUnauthorized, w'') \<and>
      (\<forall>p. HashKey p \<noteq> HashKey (ck_plaintext ck) \<longrightarrow>
        fst (authenticateKey p w'') = fst (authenticateKey p w)))"
proof -
  let ?p = "ck_plaintext ck" and ?i = "seq (api_keys w) + 1"
  note made = CreateKey_run [OF assms(1,4)]
  let ?k = "key_row now sid rate ?p 0"
  have shape: "length ?p = keyLen" "has_prefix ?p keyTag"
    unfolding made(3) by (simp_all add: keyLen_def keyTag_def hex_string_length assms(3) has_prefix_iff)
  have hash: "ak_hash ?k = HashKey ?p" by (simp add: key_row_def new_key_def)
  have found: "t_find (\<lambda>r. ak_hash r = HashKey ?p) (api_keys w') = Some (ck_key ck)"
    using find_with_key [of w ?k] made(1,2,6) unfolding hash by (simp add: key_row_def)
  have quiet: "faults w' = []" using assms(1) by (simp add: made(1) with_key_def)
  have live: "ak_revoked (ck_key ck) = None" "ak_id (ck_key ck) = ?i"
    by (simp_all add: made(2) key_row_def new_key_def)
  have now: "authenticateKey ?p w' = (Inr (ck_key ck), w')"
    by (simp add: authenticate_quiet [OF quiet] live_key_def shape found live)
  let ?w = "revoked_key later ?i w'"
  have "ck_key ck \<in> set (rows (api_keys w'))" using found by (auto dest: t_find_SomeD)
  then have run: "RevokeKey later (ak_id (ck_key ck)) w' = (Inr (), ?w)"
    unfolding live(2) by (intro RevokeKey_run [OF quiet]) (use live(2) in blast)
  have q: "faults ?w = []" using quiet by (simp add: revoked_key_def)
  have "live_key ?p ?w = None" by (simp add: live_key_def find_revoked found live)
  then have gone: "authenticateKey ?p ?w = (Inl ErrUnauthorized, ?w)" by (simp add: authenticate_quiet [OF q])
  have other: "live_key p ?w = live_key p w" if "HashKey p \<noteq> HashKey ?p" for p
  proof -
    have same: "t_find (\<lambda>r. ak_hash r = HashKey p) (api_keys w') = t_find (\<lambda>r. ak_hash r = HashKey p) (api_keys w)"
      unfolding made(1) by (rule find_other_key) (use that hash in simp)
    show ?thesis
    proof (cases "t_find (\<lambda>r. ak_hash r = HashKey p) (api_keys w)")
      case (Some r)
      then have "r \<in> set (rows (api_keys w))" by (auto dest: t_find_SomeD)
      then have "ak_id r < ?i" using assms(2) key_rows.fresh_id unfolding groups_ok_def by blast
      then show ?thesis using Some same by (simp add: live_key_def find_revoked)
    qed (simp add: live_key_def find_revoked same)
  qed
  show ?thesis
    using now run gone other
    by (intro conjI exI [of _ ?w]) (simp_all add: authenticate_quiet [OF q] authenticate_quiet [OF assms(1)])
qed

section \<open>Templates\<close>

lemma replace_all_needs:
  assumes "\<And>prev xs. p prev xs \<noteq> 0 \<Longrightarrow> c \<in> set xs" and "c \<notin> set s"
  shows "replace_all p tok prev s = s"
  using assms(2)
proof (induction s arbitrary: prev)
  case (Cons x xs)
  have "p prev (x # xs) = 0" using assms(1) [of prev "x # xs"] Cons.prems by blast
  then show ?case using Cons by simp
qed simp

lemma quoted_needs: "quoted prev xs \<noteq> 0 \<Longrightarrow> CHR 0x27 \<in> set xs"
  by (auto simp: quoted_def Let_def split: list.splits if_splits)

lemma uuid_needs: "uuid prev xs \<noteq> 0 \<Longrightarrow> CHR ''-'' \<in> set xs"
  by (auto simp: uuid_def dash_at_def split: if_splits) (metis nth_mem)

lemma email_needs: "email prev xs \<noteq> 0 \<Longrightarrow> CHR ''@'' \<in> set xs"
proof -
  assume "email prev xs \<noteq> 0"
  then obtain n where "take 1 (drop n xs) = ''@''" by (auto simp: email_def Let_def split: if_splits)
  then have "CHR ''@'' \<in> set (take 1 (drop n xs))" by simp
  then show ?thesis by (meson in_set_dropD in_set_takeD)
qed

text \<open>No match starts in the first part: it stays, and the rest is matched after it.\<close>

lemma replace_all_past:
  assumes "\<And>prev xs c ys. a = xs @ c # ys \<Longrightarrow> p prev (c # ys @ s) = 0" and "a \<noteq> []"
  shows "replace_all p tok prev (a @ s) = a @ replace_all p tok (Some (last a)) s"
  using assms
proof (induction a arbitrary: prev)
  case (Cons c a)
  have "p prev (c # a @ s) = 0" using Cons.prems(1) [of "[]" c a] by simp
  moreover have "replace_all p tok (Some c) (a @ s) = a @ replace_all p tok (Some (last (c # a))) s"
  proof (cases "a = []")
    case False
    have "p q (d # ys @ s) = 0" if "a = xs @ d # ys" for q xs d ys
      using Cons.prems(1) [of "c # xs" d ys q] that by simp
    then show ?thesis using Cons.IH False by simp
  qed simp
  ultimately show ?case by simp
qed simp

lemma run_length_stop: "c \<in> set xs \<Longrightarrow> \<not> P c \<Longrightarrow> run_length P (xs @ s) = run_length P xs"
  by (induction xs) (auto simp: run_length_def)

lemma run_length_all: "list_all P xs \<Longrightarrow> run_length P xs = length xs"
  by (simp add: run_length_def list_all_iff takeWhile_eq_all_conv [THEN iffD2])

lemma run_length_le: "run_length P xs \<le> length xs"
  by (simp add: run_length_def length_takeWhile_le)

lemma char_classes:
  "is_lower c \<Longrightarrow> word_char c \<and> plain c \<and> \<not> is_digit c \<and> c \<noteq> CHR 0x27 \<and> c \<noteq> CHR ''-'' \<and> c \<noteq> CHR ''@''"
  "is_digit c \<Longrightarrow> word_char c \<and> plain c \<and> hex_char c \<and> c \<noteq> CHR 0x27 \<and> c \<noteq> CHR ''-'' \<and> c \<noteq> CHR ''@''"
  by (auto simp: word_char_def plain_def is_lower_def is_digit_def hex_char_def is_hex_def)

lemma blank_classes: "\<not> word_char CHR '' ''" "\<not> hex_char CHR '' ''" "\<not> is_digit CHR '' ''"
  by (simp_all add: word_char_def is_lower_def is_upper_def is_digit_def hex_char_def is_hex_def)

text \<open>A blank ends a run of hexadecimal digits.\<close>

lemma hex_before_blank: "length xs < 8 \<Longrightarrow> long_hex prev (xs @ '' '' @ s) = 0"
proof -
  assume "length xs < 8"
  have "run_length hex_char (xs @ '' '' @ s) = run_length hex_char (xs @ '' '')"
    using run_length_stop [of "CHR '' ''" "xs @ '' ''" hex_char s] blank_classes(2) by simp
  also have "\<dots> \<le> length xs"
    using blank_classes(2) by (simp add: run_length_def takeWhile_tail length_takeWhile_le)
  finally show ?thesis using \<open>length xs < 8\<close> by (simp add: long_hex_def)
qed

lemma hex_of_number:
  assumes "list_all is_digit d" "\<not> word_at prev"
  shows "long_hex prev d = (if 8 \<le> length d then length d else 0)"
proof (cases "8 \<le> length d")
  case True
  have all: "run_length hex_char d = length d"
    using assms(1) by (intro run_length_all) (auto simp: list_all_iff char_classes)
  have "d ! (length d - 1) \<in> set d" "hd d \<in> set d" using True by (auto intro: nth_mem hd_in_set)
  then have "word_char (d ! (length d - 1))" "word_char (hd d)"
    using assms(1) char_classes(2) unfolding list_all_iff by blast+
  then show ?thesis
    using True assms(2) all by (cases d) (simp_all add: long_hex_def boundary_def word_at_def first_char_def)
next
  case False
  then have "run_length hex_char d < 8" using run_length_le [of hex_char d] by linarith
  then show ?thesis using False by (simp add: long_hex_def)
qed

lemma replace_number_word:
  "list_all is_lower a \<Longrightarrow> a \<noteq> [] \<Longrightarrow> replace_all number tok prev (a @ '' '' @ s) =
    a @ '' '' @ replace_all number tok (Some CHR '' '') s"
proof -
  assume a: "list_all is_lower a" "a \<noteq> []"
  have "replace_all number tok prev ((a @ '' '') @ s) = (a @ '' '') @ replace_all number tok (Some (last (a @ '' ''))) s"
  proof (rule replace_all_past)
    fix q xs c ys assume "a @ '' '' = xs @ c # ys"
    then have "c \<in> set (a @ '' '')" by simp
    then have "\<not> is_digit c" using a(1) char_classes(1) blank_classes(3) by (auto simp: list_all_iff)
    then show "number q (c # ys @ s) = 0" by (simp add: number_def run_length_def)
  qed simp
  then show ?thesis by simp
qed

lemma replace_hex_word:
  "length a < 8 \<Longrightarrow> a \<noteq> [] \<Longrightarrow> replace_all long_hex tok prev (a @ '' '' @ s) =
    a @ '' '' @ replace_all long_hex tok (Some CHR '' '') s"
proof -
  assume a: "length a < 8" "a \<noteq> []"
  have "replace_all long_hex tok prev (a @ '' '' @ s) = a @ replace_all long_hex tok (Some (last a)) ('' '' @ s)"
  proof (rule replace_all_past [OF _ a(2)])
    fix q xs c ys assume "a = xs @ c # ys"
    then show "long_hex q (c # ys @ '' '' @ s) = 0" using hex_before_blank [of "c # ys" q s] a(1) by simp
  qed
  moreover have "long_hex q ('' '' @ s) = 0" for q using hex_before_blank [of "[]" q s] by simp
  ultimately show ?thesis by simp
qed

lemma replace_hex_number:
  assumes "list_all is_digit d" "\<not> word_at prev" "d \<noteq> []"
  shows "replace_all long_hex tok prev d = (if 8 \<le> length d then tok else d)"
proof (cases "8 \<le> length d")
  case True
  then show ?thesis using hex_of_number [OF assms(1,2)] assms(3) by (cases d) simp_all
next
  case False
  have "replace_all long_hex tok prev (d @ []) = d @ replace_all long_hex tok (Some (last d)) []"
  proof (rule replace_all_past [OF _ assms(3)])
    fix q xs c ys assume "d = xs @ c # ys"
    then have "run_length hex_char (c # ys) < 8"
      using False run_length_le [of hex_char "c # ys"] by (simp add: not_le le_less_trans)
    then show "long_hex q (c # ys @ []) = 0" by (simp add: long_hex_def)
  qed
  then show ?thesis using False by simp
qed

lemma replace_number_number:
  assumes "list_all is_digit d" "d \<noteq> []"
  shows "replace_all number tok prev d = tok"
  using assms run_length_all [of is_digit d] by (cases d) (simp_all add: number_def)

lemma replace_number_none: "list_all (\<lambda>c. \<not> is_digit c) s \<Longrightarrow> replace_all number tok prev s = s"
  by (induction s arbitrary: prev) (simp_all add: number_def run_length_def)

lemma strip_plain_head:
  "plain c \<Longrightarrow> \<forall>p\<in>set ps. \<forall>x\<in>set p. \<not> plain x \<Longrightarrow> strip_any ps (c # s) = None"
proof (induction ps)
  case (Cons p ps)
  then show ?case by (cases p) (auto simp: has_prefix_def)
qed simp

lemma strip_blank: "strip_any space_encodings (CHR '' '' # s) = Some s"
proof -
  have "space_encodings = '' '' # tl space_encodings" by code_simp
  then obtain ps where ps: "space_encodings = '' '' # ps" by blast
  show ?thesis unfolding ps by (simp add: has_prefix_def)
qed

lemma trim_plain_head: "plain c \<Longrightarrow> trim_any space_encodings (c # s) = c # s"
  using spaces_not_plain by (subst trim_any.simps) (simp add: strip_plain_head)

lemma trim_blank: "trim_any space_encodings (CHR '' '' # s) = trim_any space_encodings s"
  by (subst trim_any.simps) (simp add: strip_blank)

lemma until_space_word: "list_all plain x \<Longrightarrow> until_space (x @ y) = x @ until_space y"
  using spaces_not_plain by (induction x) (simp_all add: strip_plain_head)

lemma until_space_blank: "until_space (CHR '' '' # s) = []"
  by (simp add: strip_blank)

lemma trim_any_Nil: "trim_any ps [] = []"
  using trim_any_length [of ps "[]"] by simp

lemma fields_of_two:
  assumes "list_all plain a" "a \<noteq> []" "list_all plain b" "b \<noteq> []"
  shows "go_fields (length (a @ '' '' @ b)) (a @ '' '' @ b) = [a, b]"
proof -
  obtain n where n: "length (a @ '' '' @ b) = Suc (Suc (Suc n))"
    using assms(2,4) by (cases a; cases b) auto
  have 1: "trim_any space_encodings (a @ CHR '' '' # b) = a @ CHR '' '' # b"
    using assms(1,2) by (cases a) (simp_all add: trim_plain_head)
  have 2: "trim_any space_encodings (CHR '' '' # b) = b"
    using assms(3,4) by (cases b) (simp_all add: trim_blank trim_plain_head)
  have 3: "until_space (a @ CHR '' '' # b) = a" "until_space b = b"
    using until_space_word [OF assms(1), of "CHR '' '' # b"] until_space_word [OF assms(3), of "[]"]
    by (simp_all add: strip_blank)
  show ?thesis unfolding n using assms(2,4) 1 2 by (simp add: Let_def 3 trim_any_Nil del: until_space.simps)
qed

definition number_token :: "gostring \<Rightarrow> gostring" where
  "number_token d = (if 8 \<le> length d then ''#hex'' else ''#'')"

text \<open>A short word and a number.\<close>

lemma template_number:
  assumes a: "list_all is_lower a" "a \<noteq> []" "length a < 8" and d: "list_all is_digit d" "d \<noteq> []"
  shows "templateMessage (a @ '' '' @ d) = a @ '' '' @ number_token d"
proof -
  let ?s = "a @ '' '' @ d"
  have clean: "CHR 0x27 \<notin> set ?s" "CHR ''-'' \<notin> set ?s" "CHR ''@'' \<notin> set ?s"
    using a(1) d(1) char_classes unfolding list_all_iff by auto
  have same: "replace_all quoted t q ?s = ?s" "replace_all uuid t q ?s = ?s" "replace_all email t q ?s = ?s" for t q
    by (rule replace_all_needs [OF _ clean(1)], erule quoted_needs)
      (rule replace_all_needs [OF _ clean(2)], erule uuid_needs,
       rule replace_all_needs [OF _ clean(3)], erule email_needs)
  have hex: "replace_all long_hex ''#hex'' None ?s = a @ '' '' @ (if 8 \<le> length d then ''#hex'' else d)"
    by (simp add: replace_hex_word [OF a(3,2), simplified] replace_hex_number [OF d(1) _ d(2)] word_at_def blank_classes)
  have num: "replace_all number ''#'' None (a @ '' '' @ (if 8 \<le> length d then ''#hex'' else d)) =
      a @ '' '' @ number_token d"
    unfolding replace_number_word [OF a(1,2)] number_token_def
    by (simp add: replace_number_number [OF d]) (simp add: number_def run_length_def is_digit_def)
  have plain: "list_all plain a" "list_all plain (number_token d)" "number_token d \<noteq> []"
    using a(1) char_classes(1) by (auto simp: list_all_iff number_token_def plain_def)
  have "fold (\<lambda>(p, tok) s. replace_all p tok None s) templatePatterns ?s = a @ '' '' @ number_token d"
    unfolding templatePatterns_def by (simp only: fold.simps comp_apply id_apply case_prod_conv same hex num)
  then show ?thesis
    unfolding templateMessage_def Let_def
    by (simp only: fields_of_two [OF plain(1) a(2) plain(2,3)]) simp
qed

lemma join_cancel:
  "join_with s (x # y # m # rest) = join_with s (x # y # m' # rest) \<longleftrightarrow> m = m'"
  by (cases rest) simp_all

text \<open>Reports that differ in a number after a short word fall into one group exactly when both
  numbers are below eight digits, or neither is: a longer number reads as hexadecimal.  One bug whose
  message counts past 9999999 is split in two issues.\<close>

theorem number_width_splits:
  assumes "list_all is_lower a" and "a \<noteq> []" and "length a < 8"
    and "list_all is_digit d" and "d \<noteq> []" and "list_all is_digit d'" and "d' \<noteq> []"
  shows "fingerprint_input sid kind (a @ '' '' @ d) frames = fingerprint_input sid kind (a @ '' '' @ d') frames \<longleftrightarrow>
    (length d < 8 \<longleftrightarrow> length d' < 8)"
  unfolding fingerprint_input_def template_number [OF assms(1-5)] template_number [OF assms(1-3,6,7)]
  by (simp only: append_Cons append_Nil join_cancel) (auto simp: number_token_def)

section \<open>The groups over time\<close>

lemma keeps_other_ops:
  "keeps groups_ok (RevokeKey now i)" "keeps groups_ok (MarkNotified now i)"
  "keeps groups_ok (trim_occurrences t)" "keeps groups_ok (trim_issues t)"
  unfolding RevokeKey_def key_revoke_def MarkNotified_def trim_occurrences_def trim_issues_def Let_def
  by (intro keeps_rules groups_db.keeps_stmt ok_revoked ok_notified ok_fewer_occurrences ok_drop; assumption)+

lemma keeps_CreateKey: "keeps groups_ok (CreateKey raw now sid rate)"
  unfolding CreateKey_def Let_def by (intro keeps_rules keeps_group_reads keeps_key_create)

text \<open>C18: On any fault the groups stay sound: one issue for a fingerprint of a service, every occurrence in
  an issue of its own service or in none, releases of existing issues noted once, one key for a hash.\<close>

theorem groups_stay_sound:
  "keeps groups_ok (Ingest most draw now later presented report) \<and>
   keeps groups_ok (CreateKey raw now sid rate) \<and> keeps groups_ok (RevokeKey now i) \<and>
   keeps groups_ok (MarkNotified now i) \<and> keeps groups_ok (trim_occurrences now) \<and>
   keeps groups_ok (trim_issues now)"
  by (intro conjI keeps_Ingest keeps_CreateKey keeps_other_ops)

section \<open>Witnesses\<close>

definition sample_ingest :: ingest_world where
  "sample_ingest =
    \<lparr>faults = [], services = [\<lparr>svc_id = ''api'', svc_name = ''API'', svc_strategy = ''recreate'',
       svc_project = ''shop'', svc_dir = [], svc_config = []\<rparr>],
     deploys = empty_table, probes = empty_table, notifications = empty_table, audits = empty_table,
     child_rows = [], events = [], sw_instances = [], 
     sw_inventory = \<lparr>iv_reconciled = None, iv_complete = False, iv_error = [], iv_observed = 0\<rparr>,
     sw_activation = (None, []), sw_baselines = empty_table, sw_ignores = [], sw_policies = empty_table,
     sw_observations = empty_table, sw_findings = empty_table, sw_cursors = [], lg_lines = empty_table,
     api_keys = empty_table, issues = empty_table, issue_releases = [], occurrences = empty_table,
     issue_rules = empty_table, alert_rules = empty_table, sdk_logs = empty_table\<rparr>"

lemma sample_ingest_ok:
  "faults sample_ingest = []" "groups_ok sample_ingest" "service_row ''api'' sample_ingest \<noteq> None"
  by (simp_all add: sample_ingest_def groups_defs empty_table_def table_ok_def service_row_def)

lemma sample_created:
  "\<exists>ck w'. CreateKey (Some (replicate 16 CHR ''x'')) 7 ''api'' 1 sample_ingest = (Inr ck, w')"
  using sample_ingest_ok(3)
  by (auto simp: CreateKey_def key_create_def svc_get_def run_defs Let_def key_insert_ok_def has_service_row
      sample_ingest_def empty_table_def new_key_def service_row_def has_service_def)

lemma key_lives_until_revoked_witness:
  "\<exists>ck w'. CreateKey (Some (replicate 16 CHR ''x'')) 7 ''api'' 1 sample_ingest = (Inr ck, w') \<and>
    authenticateKey (ck_plaintext ck) w' = (Inr (ck_key ck), w')"
proof -
  obtain ck w' where run: "CreateKey (Some (replicate 16 CHR ''x'')) 7 ''api'' 1 sample_ingest = (Inr ck, w')"
    using sample_created by blast
  have "length (replicate 16 CHR ''x'') = 16" by simp
  from key_lives_until_revoked [OF sample_ingest_ok(1,2) this run] run show ?thesis by blast
qed

lemma number_width_splits_witness:
  "fingerprint_input ''api'' ''exception'' (''order'' @ '' '' @ ''9999999'') [] \<noteq>
   fingerprint_input ''api'' ''exception'' (''order'' @ '' '' @ ''10000000'') []"
proof -
  have a: "list_all is_lower ''order''" "''order'' \<noteq> []" "length ''order'' < 8" by (simp_all add: is_lower_def)
  have d: "list_all is_digit ''9999999''" "''9999999'' \<noteq> []" "list_all is_digit ''10000000''" "''10000000'' \<noteq> []"
    by (simp_all add: is_digit_def)
  show ?thesis using number_width_splits [OF a d, of "''api''" "''exception''" "[]"] by simp
qed

end
