(* ===== verification/Sdk_Laws.thy ===== *)
theory Sdk_Laws
  imports Sdk_Logs Ingest_Laws
begin

text \<open>
  SDK log batches are stored whole or not at all, a refused batch names its first bad item, and what is
  stored is within the bounds of the wire contract and of the time column.
\<close>

section \<open>Rows within bounds\<close>

lemma fraction_nanos:
  assumes "0 \<le> q" "q < 1"
  shows "0 \<le> float_mult q 1000000000" "float_mult q 1000000000 \<le> 1000000000"
proof -
  let ?x = "q * 1000000000"
  show "0 \<le> float_mult q 1000000000" unfolding float_mult_def using assms by (intro round64_nonneg) simp
  show "float_mult q 1000000000 \<le> 1000000000"
  proof (cases "q = 0")
    case True then show ?thesis by (simp add: float_mult_def round64_def)
  next
    case False
    then have pos: "0 < ?x" using assms by simp
    have less: "2 powi leading_bit ?x < (2::rat) powi 30"
      using leading_bit_bounds(1) [OF pos] assms(2) by (simp add: power_int_def)
    have "leading_bit ?x < 30"
    proof (rule ccontr)
      assume "\<not> ?thesis"
      then have "(2::rat) powi 30 \<le> 2 powi leading_bit ?x" by (intro power_int_increasing) simp_all
      then show False using less by simp
    qed
    then have "round64 ?x \<le> of_int 1953125 * 2 powi 9"
      using assms(2) by (intro round64_le [OF pos]) (simp_all add: power_int_def)
    then show ?thesis by (simp add: float_mult_def power_int_def)
  qed
qed

lemma unix_instant_bounds:
  assumes "0 < t" "t < 100000000000"
  shows "0 \<le> unix_instant t" "unix_instant t \<le> 100000000000 * second"
proof -
  let ?q = "t - of_int \<lfloor>t\<rfloor>" and ?n = "\<lfloor>float_mult (t - of_int \<lfloor>t\<rfloor>) 1000000000\<rfloor>"
  have "0 \<le> ?q" "?q < 1" by linarith+
  note f = fraction_nanos [OF this]
  have n: "0 \<le> ?n" "?n \<le> 1000000000" using f by (simp_all add: floor_le_iff)
  have w: "0 \<le> \<lfloor>t\<rfloor>" "\<lfloor>t\<rfloor> \<le> 99999999999" using assms by (simp, linarith)
  show "0 \<le> unix_instant t" using n w by (simp add: unix_instant_def unit_defs)
  show "unix_instant t \<le> 100000000000 * second" using n w unfolding unix_instant_def unit_defs by linarith
qed

text \<open>What holds of a stored row.\<close>

definition sdk_row_ok :: "sdk_log \<Rightarrow> bool" where
  "sdk_row_ok r \<longleftrightarrow>
    0 \<le> sl_ts r \<and> sl_ts r \<le> 100000000000 * second \<and>
    sl_level r \<in> set sdk_levels_sql \<and> 1 \<le> sl_severity r \<and> sl_severity r \<le> 24 \<and>
    sl_message r \<noteq> [] \<and> length (sl_message r) \<le> 8192 \<and>
    (sl_trace r = [] \<or> length (sl_trace r) = 32 \<and> list_all is_hex (sl_trace r)) \<and>
    (sl_span r = [] \<or> length (sl_span r) = 16 \<and> list_all is_hex (sl_span r)) \<and>
    length (sl_attributes r) \<le> 64 \<and>
    list_all (\<lambda>(k, a). k \<noteq> [] \<and> length k \<le> 128 \<and> checkAttributeValue a = None) (sl_attributes r)"

lemma checkHexID_ok: "checkHexID s n name = None \<Longrightarrow> s = [] \<or> length s = n \<and> list_all is_hex s"
  by (auto simp: checkHexID_def split: if_splits)

lemma check_attributes_ok:
  "check_attributes as = None \<longleftrightarrow>
    list_all (\<lambda>(k, a). k \<noteq> [] \<and> length k \<le> maxSDKLogAttrKey \<and> checkAttributeValue a = None) as"
  by (induction as rule: check_attributes.induct) (auto split: option.splits)

lemma severity_levels: "severityByLevel l = Some n \<Longrightarrow> l \<in> set sdk_levels_sql \<and> 1 \<le> n \<and> n \<le> 24"
  by (auto simp: severityByLevel_def sdk_levels_sql_def split: if_splits)

text \<open>C19: An item that passes the checks becomes a row whose time lies between 1970 and the year 5138, whose
  level and severity the schema accepts, with hexadecimal ids, a bounded body and bounded, well typed
  attributes; the rounding of the fraction never carries the time over its bound.\<close>

theorem sdk_rows_bounded:
  assumes "buildSDKLog sid release i = Inr row"
  shows "sdk_row_ok row \<and> sl_service row = sid \<and> sl_release row = release \<and>
    sl_message row = it_body i \<and> \<lfloor>it_timestamp i\<rfloor> * second \<le> sl_ts row \<and>
    sl_ts row \<le> (\<lfloor>it_timestamp i\<rfloor> + 1) * second"
proof -
  obtain inferred severity where parts:
    "0 < it_timestamp i" "it_timestamp i < 100000000000" "severityByLevel (it_level i) = Some inferred"
    "it_body i \<noteq> []" "length (it_body i) \<le> 8192" "item_severity inferred i = Inr severity" "item_ids i = None"
    "length (it_attributes i) \<le> 64" "check_attributes (it_attributes i) = None"
    and row: "row = \<lparr>sl_id = 0, sl_service = sid, sl_ts = unix_instant (it_timestamp i),
       sl_level = it_level i, sl_severity = severity, sl_message = it_body i,
       sl_attributes = it_attributes i, sl_trace = it_trace i, sl_span = it_span i,
       sl_release = release, sl_created = zero_time\<rparr>"
    using assms
    by (auto simp: buildSDKLog_def minUnixSeconds_def maxUnixSeconds_def maxSDKLogBody_def
        buildSDKAttributes_def maxSDKLogAttributes_def split: if_splits option.splits sum.splits)
  have sev: "1 \<le> severity" "severity \<le> 24"
    using parts(6) severity_levels [OF parts(3)]
    by (auto simp: item_severity_def minSDKSeverity_def maxSDKSeverity_def split: option.splits if_splits)
  have ids: "checkHexID (it_trace i) 32 ''trace_id'' = None" "checkHexID (it_span i) 16 ''span_id'' = None"
    using parts(7) by (auto simp: item_ids_def split: option.splits)
  have lvl: "it_level i \<in> set sdk_levels_sql" using severity_levels [OF parts(3)] by simp
  let ?q = "it_timestamp i - of_int \<lfloor>it_timestamp i\<rfloor>"
  have "0 \<le> ?q" "?q < 1" by linarith+
  note f = fraction_nanos [OF this]
  have n: "0 \<le> \<lfloor>float_mult ?q 1000000000\<rfloor>" "\<lfloor>float_mult ?q 1000000000\<rfloor> \<le> 1000000000"
    using f by (simp_all add: floor_le_iff)
  have ts: "\<lfloor>it_timestamp i\<rfloor> * second \<le> unix_instant (it_timestamp i)"
    "unix_instant (it_timestamp i) \<le> (\<lfloor>it_timestamp i\<rfloor> + 1) * second"
    using n by (simp_all add: unix_instant_def unit_defs algebra_simps)
  show ?thesis
    using unix_instant_bounds [OF parts(1,2)] lvl sev parts(4,5,8) ts
      checkHexID_ok [OF ids(1)] checkHexID_ok [OF ids(2)] parts(9)
    unfolding sdk_row_ok_def row check_attributes_ok by (simp add: maxSDKLogAttrKey_def)
qed

section \<open>The batch\<close>

definition with_sdk :: "instant \<Rightarrow> sdk_log list \<Rightarrow> 'z ingest_world_scheme \<Rightarrow> 'z ingest_world_scheme" where
  "with_sdk now ls w =
    w\<lparr>sdk_logs := fold (\<lambda>l. t_insert (\<lambda>i r. r\<lparr>sl_id := i\<rparr>) (stamped now l)) ls (sdk_logs w)\<rparr>"

lemma with_sdk_blind: "with_sdk now ls (w\<lparr>faults := fs\<rparr>) = (with_sdk now ls w)\<lparr>faults := fs\<rparr>"
  by (simp add: with_sdk_def)

lemma with_sdk_oracle:
  "only_oracle w u \<Longrightarrow> only_oracle (with_sdk now ls u) t \<Longrightarrow> only_oracle (with_sdk now ls w) t"
  by (auto simp: only_oracle_ex with_sdk_blind)

lemma inserts_quiet:
  "faults w = [] \<Longrightarrow> for_each (insert_sdk now) ls w = (Inr (), t) \<Longrightarrow> t = with_sdk now ls w"
proof (induction ls arbitrary: w)
  case Nil then show ?case by (simp add: with_sdk_def ret_def)
next
  case (Cons l ls)
  let ?w = "with_sdk now [l] w"
  have one: "insert_sdk now l w = (Inr (), ?w)"
    using Cons.prems by (auto simp: insert_sdk_def run_defs with_sdk_def split: if_splits)
  have "for_each (insert_sdk now) ls ?w = (Inr (), t)"
    using Cons.prems(2) by (simp add: andthen_run [where m = "insert_sdk now l" and w = w, OF one])
  then have "t = with_sdk now ls ?w" using Cons.IH [of ?w] Cons.prems(1) by (simp add: with_sdk_def)
  then show ?case by (simp add: with_sdk_def)
qed

lemma calm_InsertBatch: "calm (sdk_InsertBatch now ls)"
  unfolding sdk_InsertBatch_def insert_sdk_def
  by (intro calm_rules) (auto simp: blind_def blind_update_def sdk_insert_ok_def has_service_def)

lemma atomic_InsertBatch [atomic_rules]: "atomic (sdk_InsertBatch now ls)"
  unfolding sdk_InsertBatch_def by (intro atomic_rules atomic_reading reading_basic)

lemma InsertBatch_stored:
  assumes "sdk_InsertBatch now ls w = (Inr n, t)"
  shows "only_oracle (with_sdk now ls w) t"
proof -
  let ?q = "w\<lparr>faults := []\<rparr>"
  have q: "faults ?q = []" by simp
  have run: "sdk_InsertBatch now ls ?q = (Inr n, t\<lparr>faults := []\<rparr>)"
    using assms by (rule calmD [OF calm_InsertBatch])
  have "t\<lparr>faults := []\<rparr> = with_sdk now ls ?q"
  proof (cases "ls = []")
    case True then show ?thesis using run by (simp add: sdk_InsertBatch_def with_sdk_def ret_def)
  next
    case False
    obtain r u where each: "for_each (insert_sdk now) ls ?q = (r, u)" by fastforce
    then have ok: "r = Inr ()"
      using run False by (cases r) (auto simp: sdk_InsertBatch_def andthen_def bindE_def tx_def)
    then have u: "u = with_sdk now ls ?q" using each inserts_quiet [OF q] by simp
    then have "faults u = []" by (simp add: with_sdk_def)
    then have "t\<lparr>faults := []\<rparr> = u"
      using run False each ok by (auto simp: sdk_InsertBatch_def andthen_def bindE_def tx_def ret_def)
    then show ?thesis using u by simp
  qed
  then have "t\<lparr>faults := []\<rparr> = (with_sdk now ls w)\<lparr>faults := []\<rparr>" unfolding with_sdk_blind .
  then have "t = (with_sdk now ls w)\<lparr>faults := faults t\<rparr>"
    by (metis sqldb.surjective sqldb.update_convs(1))
  then show ?thesis by (simp add: only_oracle_def)
qed

text \<open>The item at an index is the first that fails, with this error.\<close>

definition first_bad :: "gostring \<Rightarrow> sdk_batch \<Rightarrow> nat \<Rightarrow> item_error \<Rightarrow> bool" where
  "first_bad sid b n e \<longleftrightarrow>
    (let build = buildSDKLog sid (go_truncate (ba_release b) maxSDKLogRelease) in
     n < length (ba_items b) \<and> build (ba_items b ! n) = Inl e \<and>
     (\<forall>j<n. \<exists>row. build (ba_items b ! j) = Inr row))"

lemma build_rows_bad:
  "build_rows sid rel m is = Inl x \<Longrightarrow>
    \<exists>n e. x = SDKLogItemError (m + n) e \<and> n < length is \<and> buildSDKLog sid rel (is ! n) = Inl e \<and>
      (\<forall>j<n. \<exists>row. buildSDKLog sid rel (is ! j) = Inr row)"
proof (induction "is" arbitrary: m)
  case (Cons i "is")
  show ?case
  proof (cases "buildSDKLog sid rel i")
    case (Inl e)
    then have "x = SDKLogItemError (m + 0) e" using Cons.prems by simp
    then show ?thesis using Inl by (intro exI [of _ 0] exI [of _ e]) simp
  next
    case (Inr row)
    then have "build_rows sid rel (Suc m) is = Inl x"
      using Cons.prems by (cases "build_rows sid rel (Suc m) is") simp_all
    then obtain n e where n: "x = SDKLogItemError (Suc m + n) e" "n < length is"
      "buildSDKLog sid rel (is ! n) = Inl e" "\<forall>j<n. \<exists>row. buildSDKLog sid rel (is ! j) = Inr row"
      using Cons.IH by blast
    have "\<exists>row. buildSDKLog sid rel ((i # is) ! j) = Inr row" if "j < Suc n" for j
      using that n(4) Inr by (cases j) auto
    then show ?thesis using n by (intro exI [of _ "Suc n"] exI [of _ e]) simp
  qed
qed simp

lemma build_rows_length: "build_rows sid rel m is = Inr rs \<Longrightarrow> length rs = length is"
proof (induction "is" arbitrary: m rs)
  case (Cons i "is")
  then obtain row where row: "buildSDKLog sid rel i = Inr row" by (cases "buildSDKLog sid rel i") simp_all
  then obtain rest where "build_rows sid rel (Suc m) is = Inr rest" "rs = row # rest"
    using Cons.prems by (cases "build_rows sid rel (Suc m) is") auto
  then show ?case using Cons.IH by auto
qed simp

lemma buildSDKLogs_error:
  "buildSDKLogs sid b = Inl x \<Longrightarrow> x = BadItemCount \<or> (\<exists>n e. x = SDKLogItemError n e \<and> first_bad sid b n e)"
  using build_rows_bad [of sid _ 0 "ba_items b" x]
  by (auto simp: buildSDKLogs_def first_bad_def Let_def split: if_splits)

text \<open>Whatever statements fail, a batch is stored whole or not at all.  A refused batch changes nothing, and
  an item error names the first item that fails; an accepted one has a live key, every item passed and each
  of its rows is appended, in order.\<close>

theorem IngestLogs_whole_or_nothing:
  "case IngestLogs now presented b w of
     (Inr n, t) \<Rightarrow>
       (\<exists>k ls. live_key presented w = Some k \<and> buildSDKLogs (ak_service k) b = Inr ls \<and>
         n = int (length (ba_items b)) \<and> only_oracle (with_sdk now ls w) t)
   | (Inl e, t) \<Rightarrow>
       only_oracle w t \<and>
       (case e of
          Refused _ \<Rightarrow> True
        | SDKLogItemError n x \<Rightarrow> (\<exists>k. live_key presented w = Some k \<and> first_bad (ak_service k) b n x)
        | _ \<Rightarrow> e = BadItemCount \<and> (ba_items b = [] \<or> 1000 < length (ba_items b)))"
proof -
  obtain x u where a: "authenticateKey presented w = (x, u)" by fastforce
  have u: "only_oracle w u" by (rule readingD [OF reading_authenticate a])
  show ?thesis
  proof (cases x)
    case (Inl e) then show ?thesis using a u by (simp add: IngestLogs_def bindE_def map_error_def)
  next
    case (Inr k)
    have key: "live_key presented w = Some k" using a unfolding Inr by (rule authenticate_key)
    show ?thesis
    proof (cases "buildSDKLogs (ak_service k) b")
      case (Inl e)
      then have run: "IngestLogs now presented b w = (Inl e, u)"
        using a Inr by (simp add: IngestLogs_def bindE_def map_error_def of_result_def throw_def)
      have "e = BadItemCount \<Longrightarrow> ba_items b = [] \<or> 1000 < length (ba_items b)"
        using Inl build_rows_bad [of "ak_service k" _ 0 "ba_items b" e]
        by (auto simp: buildSDKLogs_def maxSDKLogItems_def split: if_splits)
      then show ?thesis using run u key buildSDKLogs_error [OF Inl] by auto
    next
      case (Inr ls)
      obtain y t where y: "sdk_InsertBatch now ls u = (y, t)" by fastforce
      have count: "length ls = length (ba_items b)"
        using Inr build_rows_length by (auto simp: buildSDKLogs_def split: if_splits)
      have run: "IngestLogs now presented b w =
          (case y of Inl e \<Rightarrow> (Inl (Refused (ErrOther ''storing sdk logs'')), t) | Inr n \<Rightarrow> (Inr (int (length ls)), t))"
        using a \<open>x = Inr k\<close> Inr y
        by (simp add: IngestLogs_def bindE_def map_error_def of_result_def ret_def andthen_def split: sum.split)
      show ?thesis
      proof (cases y)
        case (Inl e)
        then have "only_oracle u t" using y atomicD [OF atomic_InsertBatch] by blast
        then show ?thesis using run Inl only_oracle_trans [OF u] by simp
      next
        case (Inr n)
        then have "only_oracle (with_sdk now ls u) t" using y InsertBatch_stored by blast
        then have "only_oracle (with_sdk now ls w) t" by (rule with_sdk_oracle [OF u])
        then show ?thesis using run Inr key count \<open>buildSDKLogs (ak_service k) b = Inr ls\<close> by auto
      qed
    qed
  qed
qed

section \<open>Witness\<close>

definition sample_item :: sdk_item where
  "sample_item =
    \<lparr>it_timestamp = 3 / 2, it_level = ''info'', it_body = ''hello'', it_severity = None, it_trace = [],
     it_span = [], it_attributes = []\<rparr>"

lemma sdk_rows_bounded_witness:
  "\<exists>row. buildSDKLog ''api'' [] sample_item = Inr row \<and> sdk_row_ok row \<and> sl_severity row = 9"
proof -
  obtain row where row: "buildSDKLog ''api'' [] sample_item = Inr row" "sl_severity row = 9"
    by (simp add: buildSDKLog_def sample_item_def minUnixSeconds_def maxUnixSeconds_def severityByLevel_def
        maxSDKLogBody_def item_severity_def item_ids_def checkHexID_def buildSDKAttributes_def)
  then show ?thesis using sdk_rows_bounded [OF row(1)] by blast
qed

end
