(* ===== verification/Alerts.thy ===== *)
theory Alerts
  imports Ingest
begin

text \<open>
  The sampler (\<open>internal/service/resources.go\<close>, \<open>issue_alerts.go\<close>, \<open>performance_alerts.go\<close>) over
  \<open>internal/store/metrics.go\<close>: samples of the managed containers, threshold rules with their breach
  episodes, new-issue and spike rules with their latches, and the surface of rules and notifications.

  What docker answers, the fleet sampling at the end of a collection, the completed-minute value of a
  performance metric, the formatting of a float and the readings of the clock (by what is stamped and for
  which row) are fields of \<open>alert_env\<close>.  The goroutines of a collection run one after the other.  The
  latches live in the process: \<open>breaches\<close> and \<open>spikes\<close>.
\<close>

section \<open>State\<close>

record metric =
  me_id :: int
  me_service :: gostring
  me_container :: gostring
  me_at :: instant
  me_cpu :: rat
  me_mem :: int
  me_limit :: int
  me_disk :: int
  me_restarts :: int
  me_uptime :: int

record breach_state =
  br_start :: instant
  br_fired :: bool

record alert_world = ingest_world +
  metrics :: "metric table"
  breaches :: "int \<rightharpoonup> breach_state"
  spikes :: "(int \<times> int) set"

record container_stats =
  cs_cpu :: rat
  cs_mem :: int
  cs_limit :: int
  cs_restarts :: int
  cs_started :: instant

type_synonym clock = "gostring \<Rightarrow> int \<Rightarrow> instant"

record alert_env =
  ae_outside :: outside
  ae_list :: "err + (container \<times> int) list"
  ae_stats :: "gostring \<Rightarrow> err + container_stats"
  ae_fleet :: "err option"
  ae_value :: "(gostring \<Rightarrow> gostring \<Rightarrow> err + rat option) option"
  ae_show :: "rat \<Rightarrow> gostring"
  ae_clock :: clock

interpretation metric_rows: rowid_table me_id "\<lambda>i r. r\<lparr>me_id := i\<rparr>"
  by unfold_locales simp

section \<open>store.MetricStore\<close>

definition metric_insert :: "instant \<Rightarrow> metric \<Rightarrow> ('z alert_world_scheme, err, unit) prog" where
  "metric_insert now m0 =
    (let m = (if is_zero_time (me_at m0) then m0\<lparr>me_at := now\<rparr> else m0) in
     andthen (stmt (ErrOther ''inserting metric''))
      (bindE (gets (has_service (me_service m))) (\<lambda>ok.
       andthen (guardE ok (ErrOther ''inserting metric''))
        (modify (\<lambda>w. w\<lparr>metrics := t_insert (\<lambda>i r. r\<lparr>me_id := i\<rparr>) m (metrics w)\<rparr>)))))"

definition time_asc :: "('a \<Rightarrow> instant) \<Rightarrow> 'a list \<Rightarrow> 'a list" where
  "time_asc f xs = sort_key (\<lambda>r. fst (formatTime (f r))) (sort_key (\<lambda>r. snd (formatTime (f r))) xs)"

definition query_metrics :: "(metric \<Rightarrow> bool) \<Rightarrow> int \<Rightarrow> ('z alert_world_scheme, err, metric list) prog" where
  "query_metrics P limit =
    andthen (stmt (ErrOther ''querying metrics''))
   (andthen (stmt (ErrOther ''scanning metric''))
     (gets (\<lambda>w. sql_limit limit (time_asc me_at (filter P (rows (metrics w)))))))"

definition metrics_by_service :: "gostring \<Rightarrow> instant \<Rightarrow> int \<Rightarrow> ('z alert_world_scheme, err, metric list) prog" where
  "metrics_by_service sid since limit =
    query_metrics (\<lambda>r. me_service r = sid \<and> (is_zero_time since \<or> at_or_after since (me_at r))) limit"

definition metrics_range ::
  "gostring \<Rightarrow> instant \<Rightarrow> instant \<Rightarrow> int \<Rightarrow> ('z alert_world_scheme, err, metric list) prog" where
  "metrics_range sid start stop limit =
    query_metrics
     (\<lambda>r. at_or_after start (me_at r) \<and> text_less (formatTime (me_at r)) (formatTime stop) \<and>
          (sid = [] \<or> me_service r = sid))
     (if limit \<le> 0 \<or> 10000 < limit then 10000 else limit)"

text \<open>The row of the greatest id for every container name.\<close>

definition newest_of_container :: "gostring \<Rightarrow> 'z alert_world_scheme \<Rightarrow> metric \<Rightarrow> bool" where
  "newest_of_container sid w r \<longleftrightarrow>
    me_service r = sid \<and>
    (\<forall>x\<in>set (rows (metrics w)). me_service x = sid \<and> me_container x = me_container r \<longrightarrow> me_id x \<le> me_id r)"

definition LatestByService :: "gostring \<Rightarrow> ('z alert_world_scheme, err, metric list) prog" where
  "LatestByService sid =
    andthen (stmt (ErrOther ''querying latest metrics''))
   (andthen (stmt (ErrOther ''scanning metric''))
     (gets (\<lambda>w. filter (newest_of_container sid w) (rows (metrics w)))))"

definition trim_metrics :: "instant \<Rightarrow> ('z alert_world_scheme, err, int) prog" where
  "trim_metrics cutoff =
    (let old = (\<lambda>r. text_less (formatTime (me_at r)) (formatTime cutoff)) in
     andthen (stmt (ErrOther ''trimming metrics''))
      (bindE (gets (\<lambda>w. int (t_count old (metrics w)))) (\<lambda>n.
       andthen (modify (\<lambda>w. w\<lparr>metrics := t_delete old (metrics w)\<rparr>))
      (andthen (stmt (ErrOther ''counting trimmed metrics'')) (ret n)))))"

section \<open>Collection\<close>

text \<open>The seconds since the start, truncated; what is not positive is 0.\<close>

definition uptime_of :: "instant \<Rightarrow> container_stats \<Rightarrow> int" where
  "uptime_of now s =
    (if is_zero_time (cs_started s) then 0 else max \<lfloor>duration_seconds (time_sub now (cs_started s))\<rfloor> 0)"

definition recordMetric ::
  "alert_env \<Rightarrow> gostring \<Rightarrow> container \<Rightarrow> int \<Rightarrow> container_stats \<Rightarrow> ('z alert_world_scheme, err, unit) prog" where
  "recordMetric env sid c disk s =
    (let now = ae_clock env (ct_id c) 0 in
     bindE (attempt (metric_insert now
       \<lparr>me_id = 0, me_service = sid, me_container = ct_name c, me_at = now, me_cpu = cs_cpu s,
        me_mem = cs_mem s, me_limit = cs_limit s, me_disk = disk, me_restarts = cs_restarts s,
        me_uptime = uptime_of now s\<rparr>)) (\<lambda>r :: err + unit. ret ()))"

text \<open>
  A later container of the same id overwrites the size, as in the Go map; the statistics are
  those of every container that answered.
\<close>

definition disk_of :: "(container \<times> int) list \<Rightarrow> gostring \<Rightarrow> int" where
  "disk_of listed i = (case map_of (rev (map (\<lambda>(c, n). (ct_id c, n)) listed)) i of None \<Rightarrow> 0 | Some n \<Rightarrow> n)"

definition record_service ::
  "alert_env \<Rightarrow> (container \<times> int) list \<Rightarrow> service \<Rightarrow> ('z alert_world_scheme, err, unit) prog" where
  "record_service env listed def =
    bindE (of_result (serviceNames (ae_outside env) def)) (\<lambda>names.
     for_each (\<lambda>(c, n).
       if belongsTo c (svc_project def) names
       then (case ae_stats env (ct_id c) of
               Inl e \<Rightarrow> ret ()
             | Inr s \<Rightarrow> recordMetric env (svc_id def) c (disk_of listed (ct_id c)) s)
       else ret ()) listed)"

definition sampler_collect :: "alert_env \<Rightarrow> ('z alert_world_scheme, err, unit) prog" where
  "sampler_collect env =
    bindE (map_error (\<lambda>_. ErrOther ''loading services'') svc_all) (\<lambda>defs.
    bindE (map_error (\<lambda>_. ErrOther ''listing containers'') (of_result (ae_list env))) (\<lambda>listed.
     andthen (for_each (record_service env listed) defs)
      (case ae_fleet env of None \<Rightarrow> ret () | Some e \<Rightarrow> throw e)))"

section \<open>Threshold rules\<close>

definition isPerformanceMetric :: "gostring \<Rightarrow> bool" where
  "isPerformanceMetric m \<longleftrightarrow>
    m \<in> {''http_p95_ms'', ''http_error_rate'', ''postgres_connection_pct'', ''redis_evictions''}"

definition metricValue :: "gostring \<Rightarrow> metric \<Rightarrow> rat" where
  "metricValue m s =
    (if m = ''cpu'' then me_cpu s
     else if m = ''mem''
     then (if me_limit s = 0 then 0
           else float_mult (float_divide (float_of (me_mem s)) (float_of (me_limit s))) 100)
     else if m = ''disk'' then float_of (me_disk s)
     else 0)"

abbreviation NotificationAlertBreach :: gostring where "NotificationAlertBreach \<equiv> ''alert_breach''"
abbreviation NotificationIssue :: gostring where "NotificationIssue \<equiv> ''issue''"

definition breach_title :: "(rat \<Rightarrow> gostring) \<Rightarrow> alert_rule \<Rightarrow> gostring" where
  "breach_title show_float r =
    al_service r @ '' '' @ al_metric r @ '' above '' @ show_float (al_threshold r)"

definition breach_body :: "alert_rule \<Rightarrow> instant \<Rightarrow> gostring" where
  "breach_body r now =
    ''sustained for '' @ itoa (al_duration r) @ ''s as of '' @ instant_date now @ ''Z''"

definition fire :: "alert_env \<Rightarrow> alert_rule \<Rightarrow> instant \<Rightarrow> ('z alert_world_scheme, err, unit) prog" where
  "fire env r now =
    andthen (map_error (\<lambda>_. ErrOther ''recording breach notification'')
      (notification_insert (ae_clock env ''notification'' (al_id r)) (al_service r) NotificationAlertBreach
        (breach_title (ae_show env) r) (breach_body r now)))
     (ret ())"

text \<open>The duration \<open>time.Duration(secs) * time.Second\<close>, which wraps around.\<close>

definition seconds :: "int \<Rightarrow> duration" where
  "seconds secs = wrap64 (secs * second)"

definition no_breach :: breach_state where
  "no_breach = \<lparr>br_start = zero_time, br_fired = False\<rparr>"

definition breach_of :: "int \<Rightarrow> 'z alert_world_scheme \<Rightarrow> breach_state" where
  "breach_of i w = (case breaches w i of None \<Rightarrow> no_breach | Some s \<Rightarrow> s)"

definition started :: "instant \<Rightarrow> breach_state \<Rightarrow> breach_state" where
  "started now s = (if is_zero_time (br_start s) then s\<lparr>br_start := now\<rparr> else s)"

definition evaluateThreshold ::
  "alert_env \<Rightarrow> alert_rule \<Rightarrow> bool \<Rightarrow> instant \<Rightarrow> ('z alert_world_scheme, err, unit) prog" where
  "evaluateThreshold env r breaching now =
    bindE (gets (breach_of (al_id r))) (\<lambda>s.
     if \<not> breaching then modify (\<lambda>w. w\<lparr>breaches := (breaches w)(al_id r := None)\<rparr>)
     else
       (let s1 = started now s in
        bindE
         (if \<not> br_fired s1 \<and> seconds (al_duration r) \<le> time_sub now (br_start s1)
          then andthen (fire env r now) (ret (s1\<lparr>br_fired := True\<rparr>))
          else ret s1)
         (\<lambda>s2. modify (\<lambda>w. w\<lparr>breaches := (breaches w)(al_id r \<mapsto> s2)\<rparr>))))"

definition evaluatePerformanceRule :: "alert_env \<Rightarrow> alert_rule \<Rightarrow> ('z alert_world_scheme, err, unit) prog" where
  "evaluatePerformanceRule env r =
    (case ae_value env of
       None \<Rightarrow> ret ()
     | Some value \<Rightarrow>
        bindE (of_result (value (al_service r) (al_metric r))) (\<lambda>v.
          case v of
            None \<Rightarrow> ret ()
          | Some x \<Rightarrow> evaluateThreshold env r (al_threshold r < x) (ae_clock env ''rule'' (al_id r))))"

definition evaluateRule :: "alert_env \<Rightarrow> alert_rule \<Rightarrow> ('z alert_world_scheme, err, unit) prog" where
  "evaluateRule env r =
    (if isPerformanceMetric (al_metric r) then evaluatePerformanceRule env r
     else
       bindE (map_error (\<lambda>_. ErrOther ''loading latest metrics'') (LatestByService (al_service r))) (\<lambda>latest.
         evaluateThreshold env r (list_ex (\<lambda>s. al_threshold r < metricValue (al_metric r) s) latest)
           (ae_clock env ''rule'' (al_id r))))"

definition logged :: "('s, err, 'a) prog \<Rightarrow> ('s, err, unit) prog" where
  "logged m = bindE (attempt m) (\<lambda>r :: err + 'a. ret ())"

definition alerts_evaluate :: "alert_env \<Rightarrow> ('z alert_world_scheme, err, unit) prog" where
  "alerts_evaluate env =
    bindE (map_error (\<lambda>_. ErrOther ''loading alert rules'') alert_rules_enabled)
      (for_each (\<lambda>r. logged (evaluateRule env r)))"

section \<open>Issue rules\<close>

definition window_start :: "instant \<Rightarrow> issue_rule \<Rightarrow> instant" where
  "window_start now r = now + wrap64 (- seconds (ir_window r))"

definition issue_body :: "issue \<Rightarrow> gostring" where
  "issue_body x =
    ''first seen '' @ instant_date (iss_first x) @ ''Z, '' @ itoa (iss_count x) @ '' occurrences''"

definition notify_issue :: "alert_env \<Rightarrow> issue_rule \<Rightarrow> issue \<Rightarrow> ('z alert_world_scheme, err, unit) prog" where
  "notify_issue env r x =
    andthen (map_error (\<lambda>_. ErrOther ''recording issue notification'')
      (notification_insert (ae_clock env ''issue notification'' (iss_id x)) (ir_service r) NotificationIssue
        (''New issue: '' @ iss_title x) (issue_body x)))
     (map_error (\<lambda>_. ErrOther ''latching issue notification'')
       (MarkNotified (ae_clock env ''notified'' (iss_id x)) (iss_id x)))"

definition evaluateNewIssue :: "alert_env \<Rightarrow> issue_rule \<Rightarrow> ('z alert_world_scheme, err, unit) prog" where
  "evaluateNewIssue env r =
    bindE (map_error (\<lambda>_. ErrOther ''loading unnotified issues'')
       (UnnotifiedSince (ir_service r) (window_start (ae_clock env ''issue rule'' (ir_id r)) r)))
     (for_each (notify_issue env r))"

definition spikeFired :: "int \<Rightarrow> int \<Rightarrow> 'z alert_world_scheme \<Rightarrow> bool" where
  "spikeFired rid i w \<longleftrightarrow> (rid, i) \<in> spikes w"

definition setSpike :: "int \<Rightarrow> int \<Rightarrow> ('z alert_world_scheme, err, unit) prog" where
  "setSpike rid i = modify (\<lambda>w. w\<lparr>spikes := insert (rid, i) (spikes w)\<rparr>)"

definition clearSpike :: "int \<Rightarrow> int \<Rightarrow> ('z alert_world_scheme, err, unit) prog" where
  "clearSpike rid i = modify (\<lambda>w. w\<lparr>spikes := spikes w - {(rid, i)}\<rparr>)"

definition spike_body :: "int \<Rightarrow> issue_rule \<Rightarrow> gostring" where
  "spike_body n r = itoa n @ '' occurrences in '' @ itoa (ir_window r) @ ''s''"

definition check_spike ::
  "alert_env \<Rightarrow> issue_rule \<Rightarrow> instant \<Rightarrow> issue \<Rightarrow> ('z alert_world_scheme, err, unit) prog" where
  "check_spike env r since x =
    bindE (map_error (\<lambda>_. ErrOther ''counting issue occurrences'') (count_by_issue (iss_id x) since)) (\<lambda>n.
     if n < ir_threshold r then clearSpike (ir_id r) (iss_id x)
     else bindE (gets (spikeFired (ir_id r) (iss_id x))) (\<lambda>fired.
       if fired then ret ()
       else
         andthen (map_error (\<lambda>_. ErrOther ''recording spike notification'')
           (notification_insert (ae_clock env ''spike notification'' (iss_id x)) (ir_service r) NotificationIssue
             (''Spike: '' @ iss_title x) (spike_body n r)))
          (setSpike (ir_id r) (iss_id x))))"

definition evaluateSpike :: "alert_env \<Rightarrow> issue_rule \<Rightarrow> ('z alert_world_scheme, err, unit) prog" where
  "evaluateSpike env r =
    (let since = window_start (ae_clock env ''issue rule'' (ir_id r)) r in
     bindE (map_error (\<lambda>_. ErrOther ''loading active issues'') (ActiveSince (ir_service r) since))
      (for_each (check_spike env r since)))"

definition evaluateIssueRule :: "alert_env \<Rightarrow> issue_rule \<Rightarrow> ('z alert_world_scheme, err, unit) prog" where
  "evaluateIssueRule env r =
    (if ir_kind r = IssueRuleNewIssue then evaluateNewIssue env r
     else if ir_kind r = IssueRuleSpike then evaluateSpike env r
     else throw (ErrOther ''unknown issue rule kind''))"

definition evaluateIssues :: "alert_env \<Rightarrow> ('z alert_world_scheme, err, unit) prog" where
  "evaluateIssues env =
    bindE (map_error (\<lambda>_. ErrOther ''loading issue rules'') issue_rules_enabled)
      (for_each (\<lambda>r. logged (evaluateIssueRule env r)))"

section \<open>The cycle\<close>

definition sample :: "alert_env \<Rightarrow> ('z alert_world_scheme, err, unit) prog" where
  "sample env =
    andthen (logged (sampler_collect env))
   (andthen (logged (alerts_evaluate env)) (logged (evaluateIssues env)))"

text \<open>\<open>Run\<close> over its ticks, the first at once.\<close>

definition sampler_Run :: "alert_env list \<Rightarrow> ('z alert_world_scheme, err, unit) prog" where
  "sampler_Run ticks = for_each sample ticks"

section \<open>The surface\<close>

definition sampler_Metrics :: "gostring \<Rightarrow> instant \<Rightarrow> int \<Rightarrow> ('z alert_world_scheme, err, metric list) prog" where
  "sampler_Metrics sid since limit = andthen (svc_get sid) (metrics_by_service sid since (clampLimit limit))"

definition sampler_Rules :: "gostring \<Rightarrow> ('z alert_world_scheme, err, alert_rule list) prog" where
  "sampler_Rules sid = andthen (svc_get sid) (alert_rules_by_service sid)"

definition CreateRule :: "instant \<Rightarrow> rule_create \<Rightarrow> ('z alert_world_scheme, err, alert_rule) prog" where
  "CreateRule now c =
    andthen (svc_get (rc_for c))
   (andthen (guardE (rc_metric c \<in> set alert_metrics_sql) (ErrInvalidInput ''metric''))
   (andthen (guardE (\<not> rc_threshold c \<le> 0) (ErrInvalidInput ''threshold must be positive''))
   (andthen (guardE (\<not> rc_duration c \<le> 0) (ErrInvalidInput ''duration must be positive''))
     (alert_rule_create now c))))"

definition DeleteRule :: "int \<Rightarrow> ('z alert_world_scheme, err, unit) prog" where
  "DeleteRule i = alert_rule_delete i"

definition sampler_Notifications ::
  "gostring \<Rightarrow> int \<Rightarrow> ('z alert_world_scheme, err, notification list \<times> int) prog" where
  "sampler_Notifications sid limit =
    andthen (if sid \<noteq> [] then andthen (svc_get sid) (ret ()) else ret ())
    (bindE (notification_list sid (clampLimit limit)) (\<lambda>ns.
     bindE (notification_count_unread sid) (\<lambda>n. ret (ns, n))))"

definition MarkNotificationRead :: "instant \<Rightarrow> int \<Rightarrow> ('z alert_world_scheme, err, unit) prog" where
  "MarkNotificationRead now i = notification_mark_read now i"

definition MarkNotificationsRead :: "instant \<Rightarrow> gostring \<Rightarrow> ('z alert_world_scheme, err, int) prog" where
  "MarkNotificationsRead now sid =
    andthen (if sid \<noteq> [] then andthen (svc_get sid) (ret ()) else ret ()) (notification_mark_all_read now sid)"

end
