(* ===== verification/Alerts_Laws.thy ===== *)
theory Alerts_Laws
  imports Alerts Ingest_Laws
begin

text \<open>
  The alerts: a threshold rule fires once in an episode, a new issue is announced once, a spike fires
  on the crossing of its threshold; and where they fall short: durations that wrap around, and
  spikes whose latch outlives a silence.
\<close>

section \<open>Notices\<close>

definition breach_notice :: "alert_env \<Rightarrow> alert_rule \<Rightarrow> instant \<Rightarrow> notification" where
  "breach_notice env r now =
    new_notification (ae_clock env ''notification'' (al_id r)) (al_service r) NotificationAlertBreach
      (breach_title (ae_show env) r) (breach_body r now)"

lemma notify_quiet:
  assumes "faults w = []" "has_service sid w"
  shows "map_error f (notification_insert now sid kind title body) w =
    (Inr ((new_notification now sid kind title body)\<lparr>nt_id := seq (notifications w) + 1\<rparr>),
     with_notification (new_notification now sid kind title body) w)"
  using assms
  by (simp add: notification_insert_def map_error_def run_defs Let_def with_notification_def new_notification_def)

lemma notification_frame [simp]:
  "faults (with_notification n w) = faults w" "services (with_notification n w) = services w"
  "breaches (with_notification n (w2 :: 'z alert_world_scheme)) = breaches w2"
  "spikes (with_notification n w2) = spikes w2" "issues (with_notification n w3) = issues (w3 :: 'y ingest_world_scheme)"
  "occurrences (with_notification n w3) = occurrences w3"
  by (simp_all add: with_notification_def)

section \<open>Breach episodes\<close>

text \<open>One tick of a rule, where the database answers.\<close>

definition with_breach :: "int \<Rightarrow> breach_state option \<Rightarrow> 'z alert_world_scheme \<Rightarrow> 'z alert_world_scheme" where
  "with_breach i s w = w\<lparr>breaches := (breaches w)(i := s)\<rparr>"

lemma evaluateThreshold_quiet:
  fixes w :: "'z alert_world_scheme"
  assumes "faults w = []" "has_service (al_service r) w"
  shows "evaluateThreshold env r b now w =
    (Inr (),
     if \<not> b then with_breach (al_id r) None w
     else let s = started now (breach_of (al_id r) w) in
       if \<not> br_fired s \<and> seconds (al_duration r) \<le> time_sub now (br_start s)
       then with_breach (al_id r) (Some (s\<lparr>br_fired := True\<rparr>)) (with_notification (breach_notice env r now) w)
       else with_breach (al_id r) (Some s) w)"
  by (simp add: evaluateThreshold_def fire_def breach_notice_def bindE_def andthen_def gets_def modify_def ret_def
      Let_def with_breach_def notify_quiet [OF assms])

text \<open>The ticks of one rule: whether it breaches, and when.\<close>

definition threshold_run ::
  "alert_env \<Rightarrow> alert_rule \<Rightarrow> (bool \<times> instant) list \<Rightarrow> ('z alert_world_scheme, err, unit) prog" where
  "threshold_run env r ticks = for_each (\<lambda>(b, now). evaluateThreshold env r b now) ticks"

text \<open>The first tick of the episode that a breaching tick belongs to.\<close>

fun episode_start :: "(bool \<times> instant) list \<Rightarrow> nat \<Rightarrow> nat" where
  "episode_start ticks 0 = 0"
| "episode_start ticks (Suc i) = (if fst (ticks ! i) then episode_start ticks i else Suc i)"

definition sustained :: "duration \<Rightarrow> (bool \<times> instant) list \<Rightarrow> nat \<Rightarrow> bool" where
  "sustained d ticks i \<longleftrightarrow> d \<le> time_sub (snd (ticks ! i)) (snd (ticks ! episode_start ticks i))"

text \<open>A tick at which the reference fires: the first sustained one of its episode.\<close>

definition fires :: "duration \<Rightarrow> (bool \<times> instant) list \<Rightarrow> nat \<Rightarrow> bool" where
  "fires d ticks i \<longleftrightarrow>
    fst (ticks ! i) \<and> sustained d ticks i \<and>
    list_all (\<lambda>j. \<not> sustained d ticks j) [episode_start ticks i ..< i]"

definition fire_times :: "duration \<Rightarrow> (bool \<times> instant) list \<Rightarrow> instant list" where
  "fire_times d ticks = map (\<lambda>i. snd (ticks ! i)) (filter (fires d ticks) [0 ..< length ticks])"

definition final_breach :: "duration \<Rightarrow> (bool \<times> instant) list \<Rightarrow> breach_state option" where
  "final_breach d ticks =
    (if ticks = [] \<or> \<not> fst (last ticks) then None
     else (let s = episode_start ticks (length ticks - 1) in
       Some \<lparr>br_start = snd (ticks ! s), br_fired = list_ex (sustained d ticks) [s ..< length ticks]\<rparr>))"

lemma episode_start_le: "episode_start ticks i \<le> i"
  by (induction i) auto

lemma episode_start_append: "i \<le> length ticks \<Longrightarrow> episode_start (ticks @ us) i = episode_start ticks i"
  by (induction i) (auto simp: nth_append)

lemma sustained_append: "i < length ticks \<Longrightarrow> sustained d (ticks @ us) i = sustained d ticks i"
  using episode_start_le [of ticks i]
  by (simp add: sustained_def episode_start_append nth_append)

lemma fires_append: "i < length ticks \<Longrightarrow> fires d (ticks @ us) i = fires d ticks i"
  by (auto simp: fires_def episode_start_append sustained_append nth_append list_all_iff)

lemma fire_times_snoc:
  "fire_times d (ticks @ [x]) =
    fire_times d ticks @ (if fires d (ticks @ [x]) (length ticks) then [snd x] else [])"
proof -
  have "filter (fires d (ticks @ [x])) [0 ..< length ticks] = filter (fires d ticks) [0 ..< length ticks]"
    by (rule filter_cong) (simp_all add: fires_append)
  moreover have "map (\<lambda>i. snd ((ticks @ [x]) ! i)) (filter (fires d ticks) [0 ..< length ticks]) =
      map (\<lambda>i. snd (ticks ! i)) (filter (fires d ticks) [0 ..< length ticks])"
    by (rule map_cong) (auto simp: nth_append)
  ultimately show ?thesis by (simp add: fire_times_def)
qed

text \<open>What the rule remembers says where the episode of the next tick starts, and whether it fired.\<close>

lemma start_of_next:
  assumes "list_all (\<lambda>(b, t). \<not> is_zero_time t) ticks" "\<not> is_zero_time now"
    and s: "s = (case final_breach d ticks of None \<Rightarrow> no_breach | Some s \<Rightarrow> s)"
  defines "k \<equiv> episode_start (ticks @ [(True, now)]) (length ticks)"
  shows "br_start (started now s) = snd ((ticks @ [(True, now)]) ! k)"
    and "br_fired (started now s) = list_ex (sustained d (ticks @ [(True, now)])) [k ..< length ticks]"
proof -
  have k: "k = episode_start ticks (length ticks)" by (simp add: k_def episode_start_append)
  show "br_start (started now s) = snd ((ticks @ [(True, now)]) ! k)"
    and "br_fired (started now s) = list_ex (sustained d (ticks @ [(True, now)])) [k ..< length ticks]"
  proof (atomize (full), cases "ticks = [] \<or> \<not> fst (last ticks)")
    case True
    then have none: "s = no_breach" by (simp add: s final_breach_def)
    have "k = length ticks"
      unfolding k using True by (cases ticks rule: rev_cases) simp_all
    then show "br_start (started now s) = snd ((ticks @ [(True, now)]) ! k) \<and>
        br_fired (started now s) = list_ex (sustained d (ticks @ [(True, now)])) [k ..< length ticks]"
      by (simp add: none no_breach_def started_def is_zero_time_def)
  next
    case False
    then obtain us b t where ticks: "ticks = us @ [(b, t)]" "b" by (cases ticks rule: rev_cases) auto
    have ks: "k = episode_start ticks (length ticks - 1)"
      unfolding k using ticks by simp
    then have "k < length ticks" using episode_start_le [of ticks "length ticks - 1"] ticks by simp
    moreover have "s = \<lparr>br_start = snd (ticks ! k), br_fired = list_ex (sustained d ticks) [k ..< length ticks]\<rparr>"
      using False by (simp add: s final_breach_def ks Let_def)
    moreover have "\<not> is_zero_time (snd (ticks ! k))"
      using assms(1) \<open>k < length ticks\<close> by (auto simp: list_all_length case_prod_beta)
    moreover have "list_ex (sustained d (ticks @ [(True, now)])) [k ..< length ticks] =
        list_ex (sustained d ticks) [k ..< length ticks]"
      by (auto simp: list_ex_iff sustained_append)
    ultimately show "br_start (started now s) = snd ((ticks @ [(True, now)]) ! k) \<and>
        br_fired (started now s) = list_ex (sustained d (ticks @ [(True, now)])) [k ..< length ticks]"
      by (simp add: started_def nth_append)
  qed
qed

lemma final_breach_snoc:
  "final_breach d (ticks @ [(b, now)]) =
    (if \<not> b then None
     else let us = ticks @ [(b, now)]; k = episode_start us (length ticks) in
       Some \<lparr>br_start = snd (us ! k), br_fired = list_ex (sustained d us) [k ..< Suc (length ticks)]\<rparr>)"
  by (simp add: final_breach_def Let_def)

definition notified :: "notification list \<Rightarrow> 'z world_scheme \<Rightarrow> 'z world_scheme" where
  "notified ns w = fold with_notification ns w"

lemma notified_snoc: "notified (ns @ [n]) w = with_notification n (notified ns w)"
  by (simp add: notified_def)

lemma notified_frame:
  "faults (notified ns w) = faults w" "services (notified ns w) = services w"
  "breaches (notified ns w2) = breaches (w2 :: 'z alert_world_scheme)"
  by (induction ns rule: rev_induct) (simp_all add: notified_def)

lemma notified_breach:
  fixes w :: "'z alert_world_scheme"
  shows "with_notification n (with_breach i s w) = with_breach i s (with_notification n w)"
  by (simp add: with_notification_def with_breach_def)

lemma with_breach_twice: "with_breach i s (with_breach i s' w) = with_breach i s w"
  by (simp add: with_breach_def)

lemma for_each_snoc: "for_each f (xs @ [x]) = andthen (for_each f xs) (f x)"
proof (induction xs)
  case Nil
  have "bindE (f x) (\<lambda>u. ret ()) = f x" using bindE_ret_right [of "f x"] by simp
  then show ?case by (simp add: andthen_def)
next
  case (Cons y ys) then show ?case by (simp add: andthen_def bindE_assoc)
qed

text \<open>C20: Where the database answers, the latch of a threshold rule computes the reference: over any
  sequence of ticks it notifies exactly at the first sustained tick of each episode of consecutive breaches,
  counted from the episode's first tick, and never twice in one.\<close>

theorem fires_once_per_episode:
  fixes w :: "'z alert_world_scheme"
  assumes "faults w = []" and "has_service (al_service r) w" and "breaches w (al_id r) = None"
    and "list_all (\<lambda>(b, t). \<not> is_zero_time t) ticks"
  shows "threshold_run env r ticks w =
    (Inr (), with_breach (al_id r) (final_breach (seconds (al_duration r)) ticks)
      (notified (map (breach_notice env r) (fire_times (seconds (al_duration r)) ticks)) w))"
  using assms(4)
proof (induction ticks rule: rev_induct)
  case Nil
  have "with_breach (al_id r) None w = w" using assms(3) by (simp add: with_breach_def fun_upd_idem)
  then show ?case by (simp add: threshold_run_def ret_def final_breach_def fire_times_def notified_def)
next
  case (snoc x ticks)
  obtain b now where x: "x = (b, now)" by fastforce
  let ?d = "seconds (al_duration r)" and ?i = "al_id r"
  let ?N = "notified (map (breach_notice env r) (fire_times ?d ticks)) w"
  let ?w = "with_breach ?i (final_breach ?d ticks) ?N"
  have times: "list_all (\<lambda>(b, t). \<not> is_zero_time t) ticks" "\<not> is_zero_time now"
    using snoc.prems by (simp_all add: x)
  have run: "threshold_run env r ticks w = (Inr (), ?w)" using snoc.IH times by simp
  have step: "threshold_run env r (ticks @ [x]) w = evaluateThreshold env r b now ?w"
    using run by (simp add: threshold_run_def for_each_snoc x andthen_run)
  have ok: "faults ?w = []" "has_service (al_service r) ?w"
    using assms(1,2) by (simp_all add: with_breach_def notified_frame has_service_def)
  show ?case
  proof (cases b)
    case False
    then show ?thesis
      unfolding step evaluateThreshold_quiet [OF ok]
      by (simp add: with_breach_twice x final_breach_snoc fire_times_snoc fires_def)
  next
    case True
    let ?us = "ticks @ [(True, now)]" and ?s = "started now (breach_of ?i ?w)"
    let ?k = "episode_start ?us (length ticks)"
    have s: "breach_of ?i ?w = (case final_breach ?d ticks of None \<Rightarrow> no_breach | Some s \<Rightarrow> s)"
      by (simp add: breach_of_def with_breach_def)
    note start = start_of_next [OF times s]
    have k: "?k \<le> length ticks" by (rule episode_start_le)
    have sus: "sustained ?d ?us (length ticks) \<longleftrightarrow> ?d \<le> time_sub now (br_start ?s)"
      by (simp add: sustained_def start(1))
    have fire: "fires ?d ?us (length ticks) \<longleftrightarrow> \<not> br_fired ?s \<and> ?d \<le> time_sub now (br_start ?s)"
      by (auto simp: fires_def sus start(2) list_all_iff list_ex_iff)
    have final: "final_breach ?d ?us =
        Some (if fires ?d ?us (length ticks) then ?s\<lparr>br_fired := True\<rparr> else ?s)"
    proof -
      have "[?k ..< Suc (length ticks)] = [?k ..< length ticks] @ [length ticks]" using k by simp
      then have "list_ex (sustained ?d ?us) [?k ..< Suc (length ticks)] \<longleftrightarrow>
          br_fired ?s \<or> ?d \<le> time_sub now (br_start ?s)"
        by (simp add: start(2) sus)
      then show ?thesis
        using start(1) by (auto simp: final_breach_snoc Let_def fire intro!: breach_state.equality)
    qed
    show ?thesis
      unfolding step evaluateThreshold_quiet [OF ok]
      using True fire by (auto simp: with_breach_twice notified_breach x final fire_times_snoc notified_snoc Let_def)
  qed
qed

section \<open>Durations\<close>

lemma seconds_exact: "0 \<le> n \<Longrightarrow> n \<le> 9223372036 \<Longrightarrow> seconds n = n * second"
  by (simp add: seconds_def wrap64_id int64_defs unit_defs)

lemma seconds_wrapped: "9223372036 < n \<Longrightarrow> n \<le> 18446744073 \<Longrightarrow> seconds n < 0"
proof -
  assume n: "9223372036 < n" "n \<le> 18446744073"
  let ?m = "n * 1000000000 + 9223372036854775808"
  have "?m mod 18446744073709551616 = (?m - 18446744073709551616) mod 18446744073709551616"
    by (rule minus_mod_self2 [symmetric])
  also have "\<dots> = ?m - 18446744073709551616"
    using n by (intro mod_pos_pos_trivial) simp_all
  finally have "?m mod 18446744073709551616 = ?m - 18446744073709551616" .
  then show ?thesis using n by (simp add: seconds_def wrap64_eq unit_defs)
qed

text \<open>The duration of a rule is exact up to 9223372036 seconds; a larger one is accepted all the same
  and wraps around to a negative one, so that the rule fires at the first breaching tick.\<close>

theorem long_duration_fires_at_once:
  fixes w :: "'z alert_world_scheme"
  assumes "faults w = []" and "service_row (rc_for c) w \<noteq> None" and "rc_metric c \<in> set alert_metrics_sql"
    and "0 < rc_threshold c" and "9223372036 < rc_duration c" and "rc_duration c \<le> 18446744073"
    and "breaches w (seq (alert_rules w) + 1) = None" and "\<not> is_zero_time at_tick"
  shows "\<exists>r t. CreateRule now c w = (Inr r, t) \<and> al_duration r = rc_duration c \<and>
    evaluateThreshold env r True at_tick t =
      (Inr (), with_breach (al_id r) (Some \<lparr>br_start = at_tick, br_fired = True\<rparr>)
        (with_notification (breach_notice env r at_tick) t))"
proof -
  let ?r = "\<lparr>al_id = seq (alert_rules w) + 1, al_service = rc_for c, al_metric = rc_metric c,
      al_threshold = rc_threshold c, al_duration = rc_duration c, al_enabled = True, al_created = now\<rparr>"
  let ?t = "w\<lparr>alert_rules := t_insert (\<lambda>i r. r\<lparr>al_id := i\<rparr>) (?r\<lparr>al_id := 0\<rparr>) (alert_rules w)\<rparr>"
  obtain s where s: "service_row (rc_for c) w = Some s" using assms(2) by blast
  then have has: "has_service (rc_for c) w" by (auto simp: has_service_row)
  have run: "CreateRule now c w = (Inr ?r, ?t)"
    using assms(1,3-6) has
    by (simp add: CreateRule_def svc_get_def s alert_rule_create_def run_defs Let_def)
  have ok: "faults ?t = []" "has_service (al_service ?r) ?t"
    using assms(1) has by (simp_all add: has_service_def)
  have fresh: "breach_of (al_id ?r) ?t = no_breach" using assms(7) by (simp add: breach_of_def)
  have s: "started at_tick no_breach = \<lparr>br_start = at_tick, br_fired = False\<rparr>"
    by (simp add: started_def no_breach_def is_zero_time_def)
  have neg: "seconds (al_duration ?r) \<le> time_sub at_tick at_tick"
    using seconds_wrapped [OF assms(5,6)] by (simp add: time_sub_def int64_defs)
  have "evaluateThreshold env ?r True at_tick ?t =
      (Inr (), with_breach (al_id ?r) (Some \<lparr>br_start = at_tick, br_fired = True\<rparr>)
        (with_notification (breach_notice env ?r at_tick) ?t))"
    unfolding evaluateThreshold_quiet [OF ok] fresh s Let_def using neg by simp
  then show ?thesis using run by (intro exI [of _ ?r] exI [of _ ?t]) simp
qed

section \<open>Spikes\<close>

definition issue_count :: "int \<Rightarrow> instant \<Rightarrow> 'z ingest_world_scheme \<Rightarrow> int" where
  "issue_count i since w = int (t_count (\<lambda>r. occ_issue r = Some i \<and> at_or_after since (occ_created r)) (occurrences w))"

definition spike_notice :: "alert_env \<Rightarrow> issue_rule \<Rightarrow> issue \<Rightarrow> int \<Rightarrow> notification" where
  "spike_notice env r x n =
    new_notification (ae_clock env ''spike notification'' (iss_id x)) (ir_service r) NotificationIssue
      (''Spike: '' @ iss_title x) (spike_body n r)"

lemma check_spike_quiet:
  fixes w :: "'z alert_world_scheme"
  assumes "faults w = []" "has_service (ir_service r) w"
  shows "check_spike env r since x w =
    (Inr (),
     let n = issue_count (iss_id x) since w; p = (ir_id r, iss_id x) in
     if n < ir_threshold r then w\<lparr>spikes := spikes w - {p}\<rparr>
     else if p \<in> spikes w then w
     else (with_notification (spike_notice env r x n) w)\<lparr>spikes := insert p (spikes w)\<rparr>)"
proof -
  have count: "map_error f (count_by_issue (iss_id x) since) w = (Inr (issue_count (iss_id x) since w), w)" for f :: "err \<Rightarrow> err"
    using assms(1) by (simp add: count_by_issue_def map_error_def run_defs issue_count_def)
  show ?thesis
    by (simp add: check_spike_def bindE_def andthen_def gets_def ret_def count clearSpike_def setSpike_def
        spikeFired_def modify_def Let_def spike_notice_def notify_quiet [OF assms])
qed

text \<open>A tick of a spike rule keeps the latches of the issues that it does not list.\<close>

definition latched :: "int \<Rightarrow> int \<Rightarrow> 'z alert_world_scheme \<Rightarrow> bool" where
  "latched rid i w \<longleftrightarrow> (rid, i) \<in> spikes w"

interpretation latch_db: db_invariant "latched rid i"
  by unfold_locales (simp add: latched_def)

lemma keeps_latch_insert: "keeps (latched rid i) (notification_insert now sid kind title body)"
  unfolding notification_insert_def Let_def
  by (intro keeps_rules latch_db.keeps_stmt) (simp add: latched_def)

lemma keeps_latch_check:
  "rid \<noteq> ir_id r \<or> i \<noteq> iss_id x \<Longrightarrow> keeps (latched rid i) (check_spike env r since x)"
  unfolding check_spike_def count_by_issue_def clearSpike_def setSpike_def
  by (intro keeps_rules latch_db.keeps_stmt keeps_latch_insert) (auto simp: latched_def)

text \<open>The issues that a tick lists.\<close>

definition active_in :: "gostring \<Rightarrow> instant \<Rightarrow> int \<Rightarrow> 'z ingest_world_scheme \<Rightarrow> bool" where
  "active_in sid since i w \<longleftrightarrow>
    (\<exists>y\<in>set (rows (issues w)). iss_id y = i \<and> iss_service y = sid \<and> at_or_after since (iss_last y))"

lemma live_issue_fields [simp]: "iss_id (live_issue w y) = iss_id y"
  by (simp add: live_issue_def issue_row.defs issue.defs)

lemma ActiveSince_quiet:
  "faults w = [] \<Longrightarrow> ActiveSince sid since w =
    (Inr (map (live_issue w)
      (filter (\<lambda>r. iss_service r = sid \<and> at_or_after since (iss_last r)) (rows (issues w)))), w)"
  by (simp add: ActiveSince_def run_defs)

lemma calm_ActiveSince: "calm (ActiveSince sid since)"
  unfolding ActiveSince_def by (intro calm_rules) (simp add: blind_def live_issue_def)

lemma ActiveSince_lists:
  assumes "ActiveSince sid since w = (Inr xs, t)" "x \<in> set xs"
  shows "active_in sid since (iss_id x) w"
proof -
  let ?w = "w\<lparr>faults := []\<rparr>"
  have run: "ActiveSince sid since ?w = (Inr xs, t\<lparr>faults := []\<rparr>)"
    using assms(1) by (rule calmD [OF calm_ActiveSince])
  have "faults ?w = []" by simp
  note quiet = ActiveSince_quiet [OF this, of sid since]
  have "map (live_issue ?w)
      (filter (\<lambda>r. iss_service r = sid \<and> at_or_after since (iss_last r)) (rows (issues ?w))) = xs"
    using arg_cong [OF run, of fst] unfolding quiet fst_conv by (rule sum.inject(2) [THEN iffD1])
  then have "x \<in> set (map (live_issue ?w)
      (filter (\<lambda>r. iss_service r = sid \<and> at_or_after since (iss_last r)) (rows (issues ?w))))"
    using assms(2) by (simp only:)
  then show ?thesis unfolding active_in_def by auto
qed

lemma quiet_tick_keeps_latch:
  fixes w :: "'z alert_world_scheme"
  assumes "latched (ir_id r) i w"
    and "\<not> active_in (ir_service r) (window_start (ae_clock env ''issue rule'' (ir_id r)) r) i w"
    and "evaluateSpike env r w = (res, t)"
  shows "latched (ir_id r) i t"
proof -
  let ?since = "window_start (ae_clock env ''issue rule'' (ir_id r)) r"
  obtain y u where u: "ActiveSince (ir_service r) ?since w = (y, u)" by fastforce
  have "reading (ActiveSince (ir_service r) ?since)" unfolding ActiveSince_def by (intro atomic_rules)
  then have "only_oracle w u" using u by (rule readingD)
  then have lu: "latched (ir_id r) i u" using assms(1) by (auto simp: only_oracle_ex latched_def)
  show ?thesis
  proof (cases y)
    case (Inl e)
    then show ?thesis using assms(3) u lu by (simp add: evaluateSpike_def bindE_def map_error_def Let_def)
  next
    case (Inr xs)
    have "keeps (latched (ir_id r) i) (for_each (check_spike env r ?since) xs)"
      using ActiveSince_lists [OF u [unfolded Inr]] assms(2) by (intro keeps_for_each keeps_latch_check) auto
    then have kept: "keeps (latched (ir_id r) i) (for_each (check_spike env r ?since) xs)" .
    have run: "for_each (check_spike env r ?since) xs u = (res, t)"
      using assms(3) u Inr by (simp add: evaluateSpike_def bindE_def map_error_def Let_def)
    show ?thesis by (rule keepsD [OF kept lu run])
  qed
qed

text \<open>Ticks at which the issue is not listed, the world changing between them as it likes.\<close>

inductive quiet_ticks :: "issue_rule \<Rightarrow> int \<Rightarrow> 'z alert_world_scheme \<Rightarrow> 'z alert_world_scheme \<Rightarrow> bool"
  for r i where
  quiet_done: "quiet_ticks r i w w"
| quiet_tick: "quiet_ticks r i w u \<Longrightarrow>
    \<not> active_in (ir_service r) (window_start (ae_clock env ''issue rule'' (ir_id r)) r) i u \<Longrightarrow>
    evaluateSpike env r u = (res, v) \<Longrightarrow> quiet_ticks r i w v"
| quiet_world: "quiet_ticks r i w u \<Longrightarrow> spikes v = spikes u \<Longrightarrow> quiet_ticks r i w v"

lemma quiet_ticks_latch: "quiet_ticks r i w v \<Longrightarrow> latched (ir_id r) i w \<Longrightarrow> latched (ir_id r) i v"
proof (induction rule: quiet_ticks.induct)
  case (quiet_tick w u env res v) then show ?case using quiet_tick_keeps_latch by blast
next
  case (quiet_world w u v) then show ?case by (simp add: latched_def)
qed

text \<open>A check of a listed issue, where the database answers: below its threshold it frees the latch, above
  it notifies and latches when it was not latched.  An issue whose spike fired and that then falls
  silent is not listed any more, so its latch stays through any number of ticks on any fault, and its next
  spike, however large, is not notified.\<close>

theorem spike_after_silence_unnoticed:
  fixes w v :: "'z alert_world_scheme"
  assumes "faults w = []" and "has_service (ir_service r) w" and "spikes w = {}"
    and "ir_threshold r \<le> issue_count (iss_id x) since w"
    and "check_spike env r since x w = (Inr (), u)"
    and "quiet_ticks r (iss_id x) u v"
    and "faults v = []" and "has_service (ir_service r) v"
    and "ir_threshold r \<le> issue_count (iss_id x) since' v"
  shows "u = (with_notification (spike_notice env r x (issue_count (iss_id x) since w)) w)
      \<lparr>spikes := {(ir_id r, iss_id x)}\<rparr> \<and>
    check_spike env' r since' x v = (Inr (), v)"
proof -
  have u: "u = (with_notification (spike_notice env r x (issue_count (iss_id x) since w)) w)
      \<lparr>spikes := {(ir_id r, iss_id x)}\<rparr>"
    using assms(3,4,5) unfolding check_spike_quiet [OF assms(1,2)] by (simp add: Let_def split: if_splits)
  then have "latched (ir_id r) (iss_id x) u" by (simp add: latched_def)
  then have "(ir_id r, iss_id x) \<in> spikes v" using quiet_ticks_latch [OF assms(6)] by (simp add: latched_def)
  then show ?thesis
    using u assms(9) unfolding check_spike_quiet [OF assms(7,8)] by (simp add: Let_def)
qed

section \<open>New issues\<close>

definition pending :: "gostring \<Rightarrow> instant \<Rightarrow> issue_row \<Rightarrow> bool" where
  "pending sid since y \<longleftrightarrow> iss_service y = sid \<and> at_or_after since (iss_first y) \<and> iss_notified y = None"

definition fresh_issues :: "gostring \<Rightarrow> instant \<Rightarrow> 'z ingest_world_scheme \<Rightarrow> issue list" where
  "fresh_issues sid since w = map (live_issue w) (filter (pending sid since) (rows (issues w)))"

lemma fresh_none:
  "fresh_issues sid since w = [] \<longleftrightarrow> (\<forall>y\<in>set (rows (issues w)). \<not> pending sid since y)"
  by (simp add: fresh_issues_def filter_empty_conv)

definition issue_notice :: "alert_env \<Rightarrow> issue_rule \<Rightarrow> issue \<Rightarrow> notification" where
  "issue_notice env r x =
    new_notification (ae_clock env ''issue notification'' (iss_id x)) (ir_service r) NotificationIssue
      (''New issue: '' @ iss_title x) (issue_body x)"

definition marked_issue :: "alert_env \<Rightarrow> issue \<Rightarrow> 'z alert_world_scheme \<Rightarrow> 'z alert_world_scheme" where
  "marked_issue env x w =
    w\<lparr>issues := t_update (\<lambda>y. iss_id y = iss_id x)
      (\<lambda>y. y\<lparr>iss_notified := Some (ae_clock env ''notified'' (iss_id x))\<rparr>) (issues w)\<rparr>"

definition announced :: "alert_env \<Rightarrow> issue_rule \<Rightarrow> issue list \<Rightarrow> 'z alert_world_scheme \<Rightarrow> 'z alert_world_scheme" where
  "announced env r xs w = fold (\<lambda>x w. marked_issue env x (with_notification (issue_notice env r x) w)) xs w"

lemma notify_issue_quiet:
  fixes w :: "'z alert_world_scheme"
  assumes "faults w = []" "has_service (ir_service r) w"
  shows "notify_issue env r x w = (Inr (), marked_issue env x (with_notification (issue_notice env r x) w))"
  by (simp add: notify_issue_def andthen_def bindE_def notify_quiet [OF assms])
    (simp add: MarkNotified_def map_error_def run_defs assms marked_issue_def issue_notice_def)

lemma announce_quiet:
  fixes w :: "'z alert_world_scheme"
  shows "faults w = [] \<Longrightarrow> has_service (ir_service r) w \<Longrightarrow>
    for_each (notify_issue env r) xs w = (Inr (), announced env r xs w)"
proof (induction xs arbitrary: w)
  case Nil then show ?case by (simp add: announced_def ret_def)
next
  case (Cons x xs)
  let ?w = "marked_issue env x (with_notification (issue_notice env r x) w)"
  have "faults ?w = []" "has_service (ir_service r) ?w"
    using Cons.prems by (simp_all add: marked_issue_def has_service_def)
  then have "for_each (notify_issue env r) xs ?w = (Inr (), announced env r xs ?w)" by (rule Cons.IH)
  then show ?case
    by (simp add: announced_def
        andthen_run [where m = "notify_issue env r x" and w = w, OF notify_issue_quiet [OF Cons.prems, of env x]])
qed

lemma announced_Nil: "announced env r [] w = w"
  by (simp add: announced_def)

lemma announced_notifications:
  "notifications (announced env r xs w) = notifications (notified (map (issue_notice env r) xs) w)"
proof (induction xs rule: rev_induct)
  case (snoc x xs)
  then show ?case by (simp add: announced_def notified_def marked_issue_def with_notification_def)
qed (simp add: announced_def notified_def)

lemma announced_pending:
  "y \<in> set (rows (issues (announced env r xs w))) \<Longrightarrow> pending sid since y \<Longrightarrow>
    y \<in> set (rows (issues w)) \<and> iss_id y \<notin> iss_id ` set xs"
proof (induction xs arbitrary: w)
  case Nil then show ?case by (simp add: announced_def)
next
  case (Cons x xs)
  let ?w = "marked_issue env x (with_notification (issue_notice env r x) w)"
  have y: "y \<in> set (rows (issues ?w))" "iss_id y \<notin> iss_id ` set xs"
    using Cons.IH [of ?w] Cons.prems by (simp_all add: announced_def)
  have "iss_notified y = None" using Cons.prems(2) by (simp add: pending_def)
  then have "y \<in> set (rows (issues w)) \<and> iss_id y \<noteq> iss_id x"
    using y(1) by (auto simp: marked_issue_def set_map_where split: if_splits dest: arg_cong [of _ _ iss_notified])
  then show ?case using y(2) by simp
qed

lemma evaluateNewIssue_quiet:
  fixes w :: "'z alert_world_scheme" and env :: alert_env and r :: issue_rule
  defines "since \<equiv> window_start (ae_clock env ''issue rule'' (ir_id r)) r"
  assumes "faults w = []" "has_service (ir_service r) w"
  shows "evaluateNewIssue env r w = (Inr (), announced env r (fresh_issues (ir_service r) since w) w)"
proof -
  have "map_error f (UnnotifiedSince (ir_service r) since) w = (Inr (fresh_issues (ir_service r) since w), w)" for f :: "err \<Rightarrow> err"
    using assms(2) by (simp add: UnnotifiedSince_def run_defs fresh_issues_def pending_def [abs_def])
  then show ?thesis
    using announce_quiet [OF assms(2,3)] by (simp add: evaluateNewIssue_def bindE_def since_def)
qed

text \<open>A tick of a new-issue rule, where the database answers, sends one notification for each issue of its
  window that was never announced, in order of their ids, and after it none is left: a second tick
  with the same window changes nothing.\<close>

theorem new_issue_announced_once:
  fixes w :: "'z alert_world_scheme"
  assumes "faults w = []" and "has_service (ir_service r) w"
  shows "\<exists>t. evaluateNewIssue env r w = (Inr (), t) \<and>
    notifications t = notifications (notified (map (issue_notice env r)
      (fresh_issues (ir_service r) (window_start (ae_clock env ''issue rule'' (ir_id r)) r) w)) w) \<and>
    evaluateNewIssue env r t = (Inr (), t)"
proof -
  let ?since = "window_start (ae_clock env ''issue rule'' (ir_id r)) r"
  let ?xs = "fresh_issues (ir_service r) ?since w"
  let ?t = "announced env r ?xs w"
  have run: "evaluateNewIssue env r w = (Inr (), ?t)" by (rule evaluateNewIssue_quiet [OF assms])
  have frame: "faults (announced env r xs u) = faults u" "services (announced env r xs u) = services u"
    for xs and u :: "'z alert_world_scheme"
    by (induction xs arbitrary: u) (simp_all add: announced_def marked_issue_def)
  have ok: "faults ?t = []" "has_service (ir_service r) ?t" using assms by (simp_all add: frame has_service_def)
  have none: "\<not> pending (ir_service r) ?since y" if y: "y \<in> set (rows (issues ?t))" for y
  proof
    assume p: "pending (ir_service r) ?since y"
    then have "y \<in> set (rows (issues w))" "iss_id y \<notin> iss_id ` set ?xs" using announced_pending [OF y] by blast+
    then show False using p by (auto simp: fresh_issues_def image_iff)
  qed
  have left: "fresh_issues (ir_service r) ?since ?t = []"
    unfolding fresh_none by (intro ballI none)
  have "evaluateNewIssue env r ?t = (Inr (), ?t)"
    using evaluateNewIssue_quiet [OF ok, of env] unfolding left announced_Nil .
  then show ?thesis using run by (intro exI [of _ ?t] conjI announced_notifications)
qed

section \<open>Witnesses\<close>

definition sample_alerts :: alert_world where
  "sample_alerts = ingest_world.extend sample_ingest
     \<lparr>metrics = empty_table, breaches = (\<lambda>_. None), spikes = {}\<rparr>"

definition sample_alert_env :: alert_env where
  "sample_alert_env =
    \<lparr>ae_outside = \<lparr>os_json = (\<lambda>_. None), os_file = (\<lambda>_. None), os_check = (\<lambda>_. Inl [])\<rparr>,
     ae_list = Inr [], ae_stats = (\<lambda>_. Inl (ErrOther [])), ae_fleet = None, ae_value = None,
     ae_show = (\<lambda>_. ''80''), ae_clock = (\<lambda>_ _. 100 * second)\<rparr>"

definition sample_rule :: alert_rule where
  "sample_rule =
    \<lparr>al_id = 1, al_service = ''api'', al_metric = ''cpu'', al_threshold = 80, al_duration = 2, al_enabled = True,
     al_created = 1\<rparr>"

definition sample_spike :: issue_rule where
  "sample_spike =
    \<lparr>ir_id = 1, ir_service = ''api'', ir_kind = IssueRuleSpike, ir_threshold = 1, ir_window = 60,
     ir_enabled = True, ir_created = 1\<rparr>"

definition sample_issue :: issue where
  "sample_issue = live_issue sample_ingest (new_issue 5 ''api'' ''fp'' ''boom'')"

lemma sample_alerts_fields:
  "faults sample_alerts = []" "services sample_alerts = services sample_ingest" "breaches sample_alerts = (\<lambda>_. None)"
  "spikes sample_alerts = {}" "alert_rules sample_alerts = empty_table" "issues sample_alerts = empty_table"
  "occurrences sample_alerts = empty_table"
  by (simp_all add: sample_alerts_def sample_ingest_def ingest_world.defs)

lemma sample_alerts_service: "has_service ''api'' sample_alerts" "service_row ''api'' sample_alerts \<noteq> None"
proof -
  have "service_row ''api'' sample_alerts = service_row ''api'' sample_ingest"
    by (simp add: service_row_def sample_alerts_fields)
  then show "service_row ''api'' sample_alerts \<noteq> None" using sample_ingest_ok(3) by simp
  then show "has_service ''api'' sample_alerts" by (simp add: has_service_row)
qed

text \<open>Two breaches of three seconds with a recovery between them: one notice each.\<close>

lemma fires_once_per_episode_witness:
  "threshold_run sample_alert_env sample_rule
      [(True, 1 * second), (True, 3 * second), (True, 4 * second), (False, 5 * second), (True, 6 * second),
       (True, 8 * second)] sample_alerts =
    (Inr (), with_breach 1 (Some \<lparr>br_start = 6 * second, br_fired = True\<rparr>)
      (notified [breach_notice sample_alert_env sample_rule (3 * second),
         breach_notice sample_alert_env sample_rule (8 * second)] sample_alerts))"
proof -
  let ?ticks = "[(True, 1 * second), (True, 3 * second), (True, 4 * second), (False, 5 * second), (True, 6 * second),
       (True, 8 * second)]"
  have ok: "faults sample_alerts = []" "has_service (al_service sample_rule) sample_alerts"
    "breaches sample_alerts (al_id sample_rule) = None" "list_all (\<lambda>(b, t). \<not> is_zero_time t) ?ticks"
    using sample_alerts_service
    by (simp_all add: sample_alerts_fields sample_rule_def is_zero_time_def zero_time_def unit_defs)
  have d: "seconds (al_duration sample_rule) = 2 * second" by (simp add: seconds_exact sample_rule_def)
  have start: "map (episode_start ?ticks) [0 ..< 6] = [0, 0, 0, 0, 4, 4]" by code_simp
  have "map (fires (2 * second) ?ticks) [0 ..< 6] = [False, True, False, False, False, True]" by code_simp
  have times: "fire_times (2 * second) ?ticks = [3 * second, 8 * second]" by code_simp
  have final: "final_breach (2 * second) ?ticks = Some \<lparr>br_start = 6 * second, br_fired = True\<rparr>" by code_simp
  show ?thesis
    using fires_once_per_episode [OF ok, of sample_alert_env] unfolding d times final
    by (simp add: sample_rule_def)
qed

lemma new_issue_announced_once_witness:
  "\<exists>t. evaluateNewIssue sample_alert_env sample_spike sample_alerts = (Inr (), t) \<and>
    evaluateNewIssue sample_alert_env sample_spike t = (Inr (), t)"
proof -
  have "has_service (ir_service sample_spike) sample_alerts" using sample_alerts_service by (simp add: sample_spike_def)
  from new_issue_announced_once [OF sample_alerts_fields(1) this, of sample_alert_env] show ?thesis by blast
qed

lemma long_duration_fires_at_once_witness:
  "\<exists>r t. CreateRule 1 \<lparr>rc_for = ''api'', rc_metric = ''cpu'', rc_threshold = 80, rc_duration = 10000000000\<rparr>
      sample_alerts = (Inr r, t) \<and>
    evaluateThreshold sample_alert_env r True (9 * second) t =
      (Inr (), with_breach (al_id r) (Some \<lparr>br_start = 9 * second, br_fired = True\<rparr>)
        (with_notification (breach_notice sample_alert_env r (9 * second)) t))"
proof -
  let ?c = "\<lparr>rc_for = ''api'', rc_metric = ''cpu'', rc_threshold = 80, rc_duration = 10000000000\<rparr>"
  have "service_row (rc_for ?c) sample_alerts \<noteq> None" "rc_metric ?c \<in> set alert_metrics_sql" "0 < rc_threshold ?c"
    "9223372036 < rc_duration ?c" "rc_duration ?c \<le> 18446744073" "breaches sample_alerts (seq (alert_rules sample_alerts) + 1) = None"
    "\<not> is_zero_time (9 * second)"
    using sample_alerts_service
    by (simp_all add: alert_metrics_sql_def sample_alerts_fields is_zero_time_def zero_time_def unit_defs)
  from long_duration_fires_at_once [OF sample_alerts_fields(1) this, of 1 sample_alert_env] show ?thesis by blast
qed

definition sample_occurrence :: occurrence where
  "sample_occurrence =
    \<lparr>occ_id = 1, occ_service = ''api'', occ_type = OccurrenceException, occ_message = ''boom'', occ_stack = [],
     occ_crumbs = [], occ_release = [], occ_issue = Some 0, occ_created = 50 * second\<rparr>"

definition spike_world :: alert_world where
  "spike_world = sample_alerts\<lparr>occurrences := \<lparr>rows = [sample_occurrence], seq = 1\<rparr>\<rparr>"

text \<open>A spike, a silent tick, a spike.\<close>

lemma spike_after_silence_unnoticed_witness:
  "check_spike sample_alert_env sample_spike 0 sample_issue (spike_world\<lparr>spikes := {(1, 0)}\<rparr>) =
   (Inr (), spike_world\<lparr>spikes := {(1, 0)}\<rparr>)"
proof -
  let ?w = spike_world and ?r = sample_spike and ?x = sample_issue and ?env = sample_alert_env
  let ?v = "?w\<lparr>spikes := {(1, 0)}\<rparr>"
  let ?u = "snd (check_spike ?env ?r 0 ?x ?w)"
  have w: "faults ?w = []" "spikes ?w = {}" "issues ?w = empty_table"
    by (simp_all add: spike_world_def sample_alerts_fields)
  have ids: "ir_id ?r = 1" "iss_id ?x = 0"
    by (simp_all add: sample_spike_def sample_issue_def new_issue_def)
  have svc: "has_service (ir_service ?r) ?w" "has_service (ir_service ?r) ?v"
    using sample_alerts_service by (simp_all add: sample_spike_def spike_world_def has_service_def)
  have late: "at_or_after 0 (50 * second)"
    by (simp add: at_or_after_def text_le_def text_less_def formatTime_def unit_defs)
  have count: "ir_threshold ?r \<le> issue_count (iss_id ?x) 0 ?w" "ir_threshold ?r \<le> issue_count (iss_id ?x) 0 ?v"
    using late by (simp_all add: ids issue_count_def t_count_def spike_world_def sample_occurrence_def sample_spike_def)
  note first = check_spike_quiet [OF w(1) svc(1), of ?env 0 ?x]
  have run: "check_spike ?env ?r 0 ?x ?w = (Inr (), ?u)" by (simp add: first)
  have u: "spikes ?u = {(1, 0)}" "issues ?u = empty_table"
    using count(1) by (simp_all add: first Let_def w ids not_less)
  obtain res v1 where tick: "evaluateSpike ?env ?r ?u = (res, v1)" by fastforce
  have idle: "\<not> active_in (ir_service ?r) (window_start (ae_clock ?env ''issue rule'' (ir_id ?r)) ?r) (iss_id ?x) ?u"
    by (simp add: active_in_def u empty_table_def)
  have q1: "quiet_ticks ?r (iss_id ?x) ?u v1" by (rule quiet_tick [OF quiet_done idle tick])
  have "v1 = ?u"
    using tick u(2) count(1)
    by (simp add: evaluateSpike_def ActiveSince_def run_defs first Let_def w ids empty_table_def)
  then have "spikes ?v = spikes v1" using u(1) by simp
  then have quiet: "quiet_ticks ?r (iss_id ?x) ?u ?v" by (rule quiet_world [OF q1])
  have "faults ?v = []" by (simp add: w)
  from spike_after_silence_unnoticed [OF w(1) svc(1) w(2) count(1) run quiet this svc(2) count(2)]
  show ?thesis by blast
qed

end
