(* ===== verification/Sampling.thy ===== *)
theory Sampling
  imports Ingest
begin

text \<open>
  The sampling draw (\<open>sampleLessThan\<close>): what the two roundings of a 64-bit draw mean for the rates 0 and 1.
\<close>

lemma top_of_range: "float_of (2 ^ 64 - 1) = 2 ^ 64"
  by code_simp

lemma round64_int_le:
  assumes "0 < n" "n \<le> 18446744073709550591"
  shows "round64 (of_int n) \<le> 9007199254740991 * 2048"
proof (cases "leading_bit (of_int n) \<le> 62")
  case True
  have "of_int n < (2::rat) * 2 powi leading_bit (of_int n)" using assms(1) by (intro leading_bit_bounds(2)) simp
  also have "\<dots> \<le> 2 * 2 powi 62" using True by (intro mult_left_mono power_int_increasing) simp_all
  finally have "of_int n \<le> of_int 1 * (2::rat) powi 63" by (simp add: power_int_def)
  moreover have "leading_bit (of_int n) \<le> 63 + 52" using True by simp
  ultimately have "round64 (of_int n) \<le> of_int 1 * (2::rat) powi 63"
    using assms(1) by (intro round64_le) simp_all
  then show ?thesis by (simp add: power_int_def)
next
  case False
  let ?q = "of_int n :: rat"
  have small: "?q < 2 powi 64"
  proof -
    have "?q \<le> of_int 18446744073709550591" using assms(2) by (simp only: of_int_le_iff)
    then show ?thesis by (simp add: power_int_def)
  qed
  have "leading_bit ?q < 64"
  proof (rule ccontr)
    assume "\<not> ?thesis"
    then have "(2::rat) powi 64 \<le> 2 powi leading_bit ?q" by (intro power_int_increasing) simp_all
    also have "\<dots> \<le> ?q" using assms(1) by (intro leading_bit_bounds(1)) simp
    finally show False using small by simp
  qed
  then have e: "leading_bit ?q = 63" using False by simp
  have "round_even (?q / 2048) \<le> 9007199254740991"
  proof -
    have "?q \<le> of_int 18446744073709550591" using assms(2) by (simp only: of_int_le_iff)
    then have "?q / 2048 + 1 / 2 < of_int (9007199254740991 + 1)" by simp
    then have "of_int (round_even (?q / 2048)) < (of_int (9007199254740991 + 1) :: rat)"
      using round_even_bounds(2) [of "?q / 2048"] by linarith
    then show ?thesis by (simp only: of_int_less_iff)
  qed
  then have r: "(of_int (round_even (?q / 2048)) :: rat) \<le> of_int 9007199254740991" by (simp only: of_int_le_iff)
  have "round64 ?q = of_int (round_even (?q / 2048)) * 2048"
    using assms(1) by (simp add: round64_def e power_int_def)
  then show ?thesis using r by simp
qed

lemma draw_below_one:
  assumes "0 \<le> n" "n \<le> 18446744073709550591"
  shows "float_divide (float_of n) (float_of (2 ^ 64 - 1)) < 1"
proof (cases "float_of n = 0")
  case True then show ?thesis by (simp add: float_divide_def round64_def)
next
  case False
  then have n: "0 < n" using assms(1) by (cases "n = 0") (simp_all add: float_of_def round64_def)
  let ?x = "float_of n / 2 ^ 64"
  have f: "0 < float_of n" using False round64_nonneg [of "of_int n"] n by (simp add: float_of_def)
  have le: "float_of n \<le> 9007199254740991 * 2048" using round64_int_le [OF n assms(2)] by (simp add: float_of_def)
  have x: "0 < ?x" "?x \<le> of_int 9007199254740991 * 2 powi (- 53)" using f le by (simp_all add: power_int_def power_one_over)
  have "leading_bit ?x \<le> - 53 + 52"
  proof (rule ccontr)
    assume "\<not> ?thesis"
    then have "(2::rat) powi 0 \<le> 2 powi leading_bit ?x" by (intro power_int_increasing) simp_all
    also have "\<dots> \<le> ?x" using x(1) by (rule leading_bit_bounds(1))
    finally show False using x(2) by (simp add: power_int_def power_one_over)
  qed
  then have "round64 ?x \<le> of_int 9007199254740991 * 2 powi (- 53)" by (intro round64_le x)
  also have "\<dots> < 1" by (simp add: power_int_def power_one_over)
  finally show ?thesis by (simp add: float_divide_def top_of_range [simplified])
qed

lemma draw_at_top:
  assumes "18446744073709550592 \<le> n" "n < 18446744073709551616"
  shows "float_of n = 2 ^ 64"
proof -
  let ?q = "of_int n :: rat"
  have n: "0 < n" "of_int 18446744073709550592 \<le> ?q" "?q < of_int 18446744073709551616"
    using assms by (simp, simp_all only: of_int_le_iff of_int_less_iff)
  have "2 powi leading_bit ?q \<le> ?q" "?q < 2 * 2 powi leading_bit ?q"
    using n(1) by (intro leading_bit_bounds; simp)+
  then have "leading_bit ?q < 64" "62 < leading_bit ?q"
  proof -
    assume b: "2 powi leading_bit ?q \<le> ?q" "?q < 2 * 2 powi leading_bit ?q"
    show "leading_bit ?q < 64"
    proof (rule ccontr)
      assume "\<not> ?thesis"
      then have "(2::rat) powi 64 \<le> 2 powi leading_bit ?q" by (intro power_int_increasing) simp_all
      then show False using b(1) n(3) by (simp add: power_int_def)
    qed
    show "62 < leading_bit ?q"
    proof (rule ccontr)
      assume "\<not> ?thesis"
      then have "(2::rat) powi leading_bit ?q \<le> 2 powi 62" by (intro power_int_increasing) simp_all
      then show False using b(2) n(2) by (simp add: power_int_def)
    qed
  qed
  then have e: "leading_bit ?q = 63" by simp
  have "round_even (?q / 2048) = 9007199254740992"
  proof -
    let ?d = "?q / 2048 - 9007199254740991"
    have d: "1 / 2 \<le> ?d" "?d < 1" using n(2,3) by simp_all
    have fl: "\<lfloor>?q / 2048\<rfloor> = 9007199254740991" using d by (intro floor_unique) simp_all
    show ?thesis using d by (simp add: round_even_def fl Let_def)
  qed
  then show ?thesis using n(1) by (simp add: float_of_def round64_def e power_int_def)
qed

text \<open>A rate of 0 drops every report.  A rate of 1 keeps a report except on the 1024 largest of the \<open>2 ^ 64\<close>
  draws: \<open>float64\<close> rounds them up to \<open>2 ^ 64\<close>, the quotient is 1 and not less than the rate, so a rate that
  means every report can lose one.\<close>

theorem sampling_extremes:
  assumes "0 \<le> bits" and "bits < 2 ^ 64"
  shows "\<not> sampleLessThan 0 bits \<and> (sampleLessThan 1 bits \<longleftrightarrow> bits < 2 ^ 64 - 1024)"
proof -
  have "0 \<le> float_of bits" unfolding float_of_def using assms(1) by (intro round64_nonneg) simp
  then have "0 \<le> float_divide (float_of bits) (float_of (2 ^ 64 - 1))"
    unfolding float_divide_def top_of_range by (intro round64_nonneg) simp
  then have zero: "\<not> sampleLessThan 0 bits" by (simp add: sampleLessThan_def)
  have one: "float_divide 18446744073709551616 18446744073709551616 = 1" by code_simp
  show ?thesis
  proof (cases "bits \<le> 18446744073709550591")
    case True
    then show ?thesis using zero draw_below_one [OF assms(1) True] by (simp add: sampleLessThan_def)
  next
    case False
    then have "float_of bits = 2 ^ 64" using assms(2) by (intro draw_at_top) simp_all
    then have "sampleLessThan 1 bits \<longleftrightarrow> False" by (simp add: sampleLessThan_def top_of_range [simplified] one)
    then show ?thesis using zero False by simp
  qed
qed

lemma sampling_extremes_witness: "\<not> sampleLessThan 1 (2 ^ 64 - 1) \<and> sampleLessThan 1 5"
  using sampling_extremes [of "2 ^ 64 - 1"] sampling_extremes [of 5] by simp

end
