(* ===== verification/Docker_Guard.thy ===== *)
theory Docker_Guard
  imports Effects
begin

text \<open>
  The guard of the docker client (\<open>internal/docker/guard.go\<close>): at most so many calls at a time, and a
  circuit breaker which pauses them after repeated failures.  The fields under the mutex form the
  record \<open>breaker\<close>; a critical section is a function of the time it reads.  The calls that run
  concurrently are a pool, stepped one critical section or channel operation at a time.
\<close>

section \<open>The breaker\<close>

record breaker =
  bk_limit :: int
  bk_cooldown :: duration
  bk_failures :: int
  bk_window :: instant
  bk_open :: instant

record guard_config =
  gc_max :: int
  gc_limit :: int
  gc_cooldown :: duration

definition defaultDockerMaxConcurrent :: int where "defaultDockerMaxConcurrent = 2"
definition defaultDockerFailureLimit :: int where "defaultDockerFailureLimit = 3"
definition defaultDockerCooldown :: duration where "defaultDockerCooldown = minute"

definition newRequestGuard :: "guard_config \<Rightarrow> nat \<times> breaker" where
  "newRequestGuard cfg =
    (nat (if gc_max cfg \<le> 0 then defaultDockerMaxConcurrent else gc_max cfg),
     \<lparr>bk_limit = (if gc_limit cfg \<le> 0 then defaultDockerFailureLimit else gc_limit cfg),
      bk_cooldown = (if gc_cooldown cfg \<le> 0 then defaultDockerCooldown else gc_cooldown cfg),
      bk_failures = 0, bk_window = zero_time, bk_open = zero_time\<rparr>)"

definition isOpen :: "instant \<Rightarrow> breaker \<Rightarrow> bool \<times> breaker" where
  "isOpen now b =
    (if is_zero_time (bk_open b)
     then (False,
       if \<not> is_zero_time (bk_window b) \<and> bk_window b + bk_cooldown b \<le> now
       then b\<lparr>bk_failures := 0, bk_window := zero_time\<rparr> else b)
     else if now < bk_open b then (True, b)
     else (False, b\<lparr>bk_open := zero_time, bk_failures := 0, bk_window := zero_time\<rparr>))"

text \<open>The bookkeeping of a finished call: whether it failed, and whether its context was cancelled.\<close>

definition record_call :: "bool \<Rightarrow> bool \<Rightarrow> instant \<Rightarrow> breaker \<Rightarrow> breaker" where
  "record_call failed cancelled now b =
    (if \<not> failed then b
     else if cancelled then b
     else
      (let b1 = (if is_zero_time (bk_window b) \<or> bk_window b + bk_cooldown b \<le> now
                 then b\<lparr>bk_failures := 0, bk_window := now\<rparr> else b);
           b2 = b1\<lparr>bk_failures := bk_failures b1 + 1\<rparr>
       in if bk_limit b2 \<le> bk_failures b2 then b2\<lparr>bk_open := now + bk_cooldown b2\<rparr> else b2))"

section \<open>The pool of calls\<close>

text \<open>Where a call of \<open>guardedCall\<close> stands: between the checks, with a permit, in the daemon, with its outcome
  recorded, gone.\<close>

datatype phase = Idle | Waiting | Holding | Running | Recorded | Refused | Given_Up | Finished

record pool =
  pl_max :: nat
  pl_used :: nat
  pl_breaker :: breaker
  pl_phase :: "nat \<Rightarrow> phase"

definition move :: "nat \<Rightarrow> phase \<Rightarrow> pool \<Rightarrow> pool" where
  "move c p s = s\<lparr>pl_phase := (pl_phase s)(c := p)\<rparr>"

definition new_pool :: "guard_config \<Rightarrow> pool" where
  "new_pool cfg =
    \<lparr>pl_max = fst (newRequestGuard cfg), pl_used = 0, pl_breaker = snd (newRequestGuard cfg),
     pl_phase = (\<lambda>_. Idle)\<rparr>"

inductive guard_step :: "pool \<Rightarrow> pool \<Rightarrow> bool" where
  enter: "pl_phase s c = Idle \<Longrightarrow> isOpen now (pl_breaker s) = (opened, b) \<Longrightarrow>
    guard_step s (move c (if opened then Refused else Waiting) (s\<lparr>pl_breaker := b\<rparr>))"
| take_permit: "pl_phase s c = Waiting \<Longrightarrow> pl_used s < pl_max s \<Longrightarrow>
    guard_step s (move c Holding (s\<lparr>pl_used := pl_used s + 1\<rparr>))"
| give_up: "pl_phase s c = Waiting \<Longrightarrow> guard_step s (move c Given_Up s)"
| recheck_open: "pl_phase s c = Holding \<Longrightarrow> isOpen now (pl_breaker s) = (True, b) \<Longrightarrow>
    guard_step s (move c Refused (s\<lparr>pl_breaker := b, pl_used := pl_used s - 1\<rparr>))"
| recheck_closed: "pl_phase s c = Holding \<Longrightarrow> isOpen now (pl_breaker s) = (False, b) \<Longrightarrow>
    guard_step s (move c Running (s\<lparr>pl_breaker := b\<rparr>))"
| record_outcome: "pl_phase s c = Running \<Longrightarrow>
    guard_step s (move c Recorded (s\<lparr>pl_breaker := record_call failed cancelled now (pl_breaker s)\<rparr>))"
| release: "pl_phase s c = Recorded \<Longrightarrow>
    guard_step s (move c Finished (s\<lparr>pl_used := pl_used s - 1\<rparr>))"

inductive guard_reachable :: "guard_config \<Rightarrow> pool \<Rightarrow> bool" for cfg where
  start: "guard_reachable cfg (new_pool cfg)"
| step: "guard_reachable cfg s \<Longrightarrow> guard_step s t \<Longrightarrow> guard_reachable cfg t"

text \<open>A call with no other in its way: the two checks, the daemon's answer, the bookkeeping.\<close>

definition guardedCall ::
  "instant \<Rightarrow> instant \<Rightarrow> instant \<Rightarrow> bool \<Rightarrow> (string + 'a) \<Rightarrow> breaker \<Rightarrow> (string + 'a) \<times> breaker" where
  "guardedCall entered rechecked returned cancelled answer b =
    (case isOpen entered b of
       (True, b1) \<Rightarrow> (Inl ''docker daemon requests temporarily paused'', b1)
     | (False, b1) \<Rightarrow>
        (case isOpen rechecked b1 of
           (True, b2) \<Rightarrow> (Inl ''docker daemon requests temporarily paused'', b2)
         | (False, b2) \<Rightarrow>
            (answer, record_call (case answer of Inl _ \<Rightarrow> True | Inr _ \<Rightarrow> False) cancelled returned b2)))"

section \<open>The permits\<close>

definition has_permit :: "phase \<Rightarrow> bool" where
  "has_permit p \<longleftrightarrow> p = Holding \<or> p = Running \<or> p = Recorded"

definition holders :: "pool \<Rightarrow> nat set" where
  "holders s = {c. has_permit (pl_phase s c)}"

lemma holders_move:
  "holders (move c p s) = (if has_permit p then insert c (holders s) else holders s - {c})"
  by (auto simp: holders_def move_def)

lemma holders_more [simp]:
  "holders (s\<lparr>pl_breaker := b\<rparr>) = holders s" "holders (s\<lparr>pl_used := n\<rparr>) = holders s"
  by (simp_all add: holders_def)

definition pool_ok :: "pool \<Rightarrow> bool" where
  "pool_ok s \<longleftrightarrow> finite (holders s) \<and> card (holders s) = pl_used s \<and> pl_used s \<le> pl_max s"

lemma pool_ok_step:
  assumes "pool_ok s" "guard_step s t"
  shows "pool_ok t \<and> pl_max t = pl_max s"
  using assms(2,1)
proof (induction rule: guard_step.induct)
  case (recheck_open s c now b)
  then have "c \<in> holders s" by (simp add: holders_def has_permit_def)
  with recheck_open show ?case
    by (simp add: pool_ok_def holders_move has_permit_def card_Diff_singleton) (simp add: move_def, linarith?)
next
  case (release s c)
  then have "c \<in> holders s" by (simp add: holders_def has_permit_def)
  with release show ?case
    by (simp add: pool_ok_def holders_move has_permit_def card_Diff_singleton) (simp add: move_def, linarith?)
next
  case (enter s c now opened b)
  then have "c \<notin> holders s" by (simp add: holders_def has_permit_def)
  with enter show ?case by (simp add: pool_ok_def holders_move has_permit_def) (simp add: move_def)
next
  case (take_permit s c)
  then have "c \<notin> holders s" by (simp add: holders_def has_permit_def)
  with take_permit show ?case by (simp add: pool_ok_def holders_move has_permit_def) (simp add: move_def)
next
  case (give_up s c)
  then have "c \<notin> holders s" by (simp add: holders_def has_permit_def)
  with give_up show ?case by (simp add: pool_ok_def holders_move has_permit_def) (simp add: move_def)
next
  case (recheck_closed s c now b)
  then have "c \<in> holders s" by (simp add: holders_def has_permit_def)
  with recheck_closed show ?case
    by (simp add: pool_ok_def holders_move has_permit_def insert_absorb) (simp add: move_def)
next
  case (record_outcome s c failed cancelled now)
  then have "c \<in> holders s" by (simp add: holders_def has_permit_def)
  with record_outcome show ?case
    by (simp add: pool_ok_def holders_move has_permit_def insert_absorb) (simp add: move_def)
qed

lemma reachable_pool_ok:
  "guard_reachable cfg s \<Longrightarrow> pool_ok s \<and> pl_max s = fst (newRequestGuard cfg)"
proof (induction rule: guard_reachable.induct)
  case start
  then show ?case by (simp add: pool_ok_def new_pool_def holders_def has_permit_def)
next
  case (step s t)
  then show ?case using pool_ok_step by auto
qed

text \<open>C31: In every interleaving of calls at most the configured number of them is in the daemon at once, and the
  count of taken permits is that of the calls that hold one.\<close>

theorem guard_bounds_calls:
  assumes "guard_reachable cfg s"
  shows "card {c. pl_phase s c = Running} \<le> fst (newRequestGuard cfg) \<and> pl_used s = card (holders s)"
proof -
  have ok: "pool_ok s" "pl_max s = fst (newRequestGuard cfg)" using reachable_pool_ok [OF assms] by auto
  have "card {c. pl_phase s c = Running} \<le> card (holders s)"
    using ok(1) by (intro card_mono) (auto simp: pool_ok_def holders_def has_permit_def)
  then show ?thesis using ok by (simp add: pool_ok_def)
qed

lemma guard_bounds_calls_witness:
  "\<exists>s. card {c. pl_phase s c = Running} \<le> 1 \<and> pl_used s = 1 \<and> pl_phase s 7 = Running \<and>
    pl_used s = card (holders s)"
proof -
  let ?cfg = "\<lparr>gc_max = 1, gc_limit = 3, gc_cooldown = 60\<rparr>"
  let ?b = "pl_breaker (new_pool ?cfg)"
  have shut: "isOpen 5 ?b = (False, ?b)"
    by (simp add: isOpen_def new_pool_def newRequestGuard_def is_zero_time_def)
  let ?s1 = "move 7 Waiting (new_pool ?cfg\<lparr>pl_breaker := ?b\<rparr>)"
  let ?s2 = "move 7 Holding (?s1\<lparr>pl_used := pl_used ?s1 + 1\<rparr>)"
  let ?s3 = "move 7 Running (?s2\<lparr>pl_breaker := ?b\<rparr>)"
  have r1: "guard_reachable ?cfg ?s1"
    using guard_step.enter [of "new_pool ?cfg" 7, OF _ shut]
    by (auto simp: new_pool_def intro: guard_reachable.intros)
  have r2: "guard_reachable ?cfg ?s2"
    by (rule guard_reachable.step [OF r1 guard_step.take_permit])
      (simp_all add: move_def new_pool_def newRequestGuard_def)
  have r3: "guard_reachable ?cfg ?s3"
    by (rule guard_reachable.step [OF r2 guard_step.recheck_closed [where now = 5]])
      (simp_all add: move_def shut [unfolded new_pool_def, simplified] new_pool_def)
  have "pl_used ?s3 = 1" "pl_phase ?s3 7 = Running" by (simp_all add: move_def new_pool_def)
  with guard_bounds_calls [OF r3] show ?thesis by (intro exI [of _ ?s3]) (simp add: newRequestGuard_def)
qed

section \<open>When the breaker opens\<close>

text \<open>What happens to a breaker under its mutex: a check, or the bookkeeping of a call.\<close>

datatype breaker_event = Check (event_at: instant) | Outcome (event_at: instant) bool bool

fun breaker_step :: "breaker_event \<Rightarrow> breaker \<Rightarrow> breaker" where
  "breaker_step (Check now) b = snd (isOpen now b)"
| "breaker_step (Outcome now failed cancelled) b = record_call failed cancelled now b"

definition breaker_run :: "breaker_event list \<Rightarrow> breaker \<Rightarrow> breaker" where
  "breaker_run es b = fold breaker_step es b"

text \<open>The failures that count: of calls whose context was not cancelled.\<close>

fun counted :: "breaker_event \<Rightarrow> bool" where
  "counted (Check now) = False"
| "counted (Outcome now failed cancelled) = (failed \<and> \<not> cancelled)"

definition failure_times :: "breaker_event list \<Rightarrow> instant list" where
  "failure_times es = map event_at (filter counted es)"

definition burst :: "breaker_event list \<Rightarrow> breaker \<Rightarrow> instant \<Rightarrow> int" where
  "burst es b t = int (length (filter (\<lambda>u. t - bk_cooldown b < u \<and> u \<le> t) (failure_times es)))"

definition breaker_sound :: "breaker_event list \<Rightarrow> breaker \<Rightarrow> bool" where
  "breaker_sound es b \<longleftrightarrow>
    (\<not> is_zero_time (bk_open b) \<longrightarrow>
      (\<exists>t\<in>set (failure_times es). bk_open b = t + bk_cooldown b \<and> bk_limit b \<le> burst es b t)) \<and>
    (is_zero_time (bk_window b) \<longrightarrow> bk_failures b = 0) \<and>
    (\<not> is_zero_time (bk_window b) \<longrightarrow>
      bk_window b \<in> set (failure_times es) \<and> bk_failures b \<le> int (length (filter (\<lambda>u. bk_window b \<le> u) (failure_times es))))"

lemma failure_times_snoc:
  "failure_times (es @ [e]) = failure_times es @ (if counted e then [event_at e] else [])"
  by (simp add: failure_times_def)

lemma burst_cong:
  "bk_cooldown b' = bk_cooldown b \<Longrightarrow> failure_times es' = failure_times es \<Longrightarrow> burst es' b' t = burst es b t"
  by (simp add: burst_def)

lemma isOpen_fields:
  "bk_cooldown (snd (isOpen now b)) = bk_cooldown b" "bk_limit (snd (isOpen now b)) = bk_limit b"
  by (simp_all add: isOpen_def)

lemma record_fields:
  "bk_cooldown (record_call f c now b) = bk_cooldown b" "bk_limit (record_call f c now b) = bk_limit b"
  by (simp_all add: record_call_def Let_def)

lemma breaker_run_fields:
  "bk_cooldown (breaker_run es b) = bk_cooldown b \<and> bk_limit (breaker_run es b) = bk_limit b"
proof (induction es rule: rev_induct)
  case (snoc e es)
  then show ?case by (cases e) (simp_all add: breaker_run_def isOpen_fields record_fields)
qed (simp add: breaker_run_def)

lemma zero_is_zero: "is_zero_time zero_time"
  by (simp add: is_zero_time_def)

lemma length_filter_weaken:
  "(\<And>x. x \<in> set xs \<Longrightarrow> P x \<Longrightarrow> Q x) \<Longrightarrow> length (filter P xs) \<le> length (filter Q xs)"
  by (induction xs) (auto simp: le_SucI)

lemma sound_check:
  assumes "breaker_sound es b"
  shows "breaker_sound (es @ [Check now]) (snd (isOpen now b))"
  using assms by (auto simp: breaker_sound_def isOpen_def failure_times_snoc burst_def zero_is_zero)

lemma burst_snoc: "burst es b t \<le> burst (es @ [e]) b t"
  by (simp add: burst_def failure_times_snoc)

lemma sound_uncounted:
  assumes "breaker_sound es b" and "\<not> counted e"
  shows "breaker_sound (es @ [e]) b"
  using assms by (simp add: breaker_sound_def failure_times_snoc burst_def)

text \<open>One more counted failure, once the window is settled.\<close>

definition count_failure :: "instant \<Rightarrow> breaker \<Rightarrow> breaker" where
  "count_failure now b =
    (let b2 = b\<lparr>bk_failures := bk_failures b + 1\<rparr>
     in if bk_limit b2 \<le> bk_failures b2 then b2\<lparr>bk_open := now + bk_cooldown b2\<rparr> else b2)"

lemma record_counts:
  "record_call True False now b =
    count_failure now (if is_zero_time (bk_window b) \<or> bk_window b + bk_cooldown b \<le> now
      then b\<lparr>bk_failures := 0, bk_window := now\<rparr> else b)"
  by (simp add: record_call_def count_failure_def)

lemma sound_count:
  assumes F: "failure_times es' = F @ [now]"
    and old: "\<not> is_zero_time (bk_open b) \<Longrightarrow>
      \<exists>t\<in>set (failure_times es'). bk_open b = t + bk_cooldown b \<and> bk_limit b \<le> burst es' b t"
    and window: "\<not> is_zero_time (bk_window b)" "bk_window b \<in> set (failure_times es')"
    and n: "bk_failures b + 1 \<le> int (length (filter (\<lambda>u. bk_window b \<le> u) (failure_times es')))"
    and last: "bk_failures b + 1 \<le> burst es' b now"
  shows "breaker_sound es' (count_failure now b)"
proof (cases "bk_limit b \<le> bk_failures b + 1")
  case True
  then have "bk_limit b \<le> burst es' b now" using last by simp
  then show ?thesis using True window n F
    by (simp add: breaker_sound_def count_failure_def Let_def burst_def)
next
  case False
  then show ?thesis using old window n
    by (simp add: breaker_sound_def count_failure_def Let_def burst_def)
qed

lemma sound_failure:
  assumes sound: "breaker_sound es b" and past: "\<forall>u\<in>set (failure_times es). u \<le> now"
    and time: "\<not> is_zero_time now" and cool: "0 < bk_cooldown b"
  shows "breaker_sound (es @ [Outcome now True False]) (record_call True False now b)"
proof -
  let ?es = "es @ [Outcome now True False]" and ?c = "bk_cooldown b" and ?F = "failure_times es"
  have F: "failure_times ?es = ?F @ [now]" by (simp add: failure_times_snoc)
  have old: "\<exists>t\<in>set (failure_times ?es). bk_open b = t + ?c \<and> bk_limit b \<le> burst ?es b t"
    if "\<not> is_zero_time (bk_open b)"
  proof -
    obtain t where "t \<in> set ?F" "bk_open b = t + ?c" "bk_limit b \<le> burst es b t"
      using sound \<open>\<not> is_zero_time (bk_open b)\<close> by (auto simp: breaker_sound_def)
    moreover have "burst es b t \<le> burst ?es b t" by (rule burst_snoc)
    ultimately have "t \<in> set (failure_times ?es) \<and> bk_open b = t + ?c \<and> bk_limit b \<le> burst ?es b t"
      by (simp add: F)
    then show ?thesis by blast
  qed
  show ?thesis
  proof (cases "is_zero_time (bk_window b) \<or> bk_window b + ?c \<le> now")
    case True
    have last: "1 \<le> burst ?es b now" using cool by (simp add: burst_def F)
    have "breaker_sound ?es (count_failure now (b\<lparr>bk_failures := 0, bk_window := now\<rparr>))"
      by (rule sound_count [OF F]) (use old last time in \<open>simp_all add: burst_def F\<close>)
    then show ?thesis using True by (simp add: record_counts)
  next
    case False
    have n: "bk_failures b \<le> int (length (filter (\<lambda>u. bk_window b \<le> u) ?F))"
      using sound False by (simp add: breaker_sound_def)
    have "length (filter (\<lambda>u. bk_window b \<le> u) ?F) \<le> length (filter (\<lambda>u. now - ?c < u \<and> u \<le> now) ?F)"
      using False past by (intro length_filter_weaken) auto
    then have last: "bk_failures b + 1 \<le> burst ?es b now" using n cool by (simp add: burst_def F)
    have "breaker_sound ?es (count_failure now b)"
    proof (rule sound_count [OF F old])
      show "\<not> is_zero_time (bk_window b)" using False by simp
      show w: "bk_window b \<in> set (failure_times ?es)" using False sound by (simp add: breaker_sound_def F)
      show "bk_failures b + 1 \<le> int (length (filter (\<lambda>u. bk_window b \<le> u) (failure_times ?es)))"
        using n False sound past by (auto simp: F breaker_sound_def)
    qed (use last in simp_all)
    then show ?thesis using False by (simp add: record_counts)
  qed
qed

lemma breaker_run_sound:
  assumes "sorted (map event_at es)" and "\<forall>e\<in>set es. zero_time < event_at e"
    and "0 < bk_cooldown b" and "bk_failures b = 0" "bk_window b = zero_time" "bk_open b = zero_time"
  shows "breaker_sound es (breaker_run es b)"
  using assms(1,2)
proof (induction es rule: rev_induct)
  case Nil
  then show ?case using assms(4-6) by (simp add: breaker_run_def breaker_sound_def zero_is_zero)
next
  case (snoc e es)
  then have IH: "breaker_sound es (breaker_run es b)" by (simp add: sorted_append)
  have cool: "0 < bk_cooldown (breaker_run es b)" using breaker_run_fields assms(3) by auto
  have run: "breaker_run (es @ [e]) b = breaker_step e (breaker_run es b)" by (simp add: breaker_run_def)
  show ?case
  proof (cases e)
    case (Check now)
    then show ?thesis using sound_check [OF IH, of now] run by simp
  next
    case (Outcome now failed cancelled)
    show ?thesis
    proof (cases "counted e")
      case True
      have "\<forall>u\<in>set (failure_times es). u \<le> now"
        using snoc.prems(1) Outcome by (auto simp: failure_times_def sorted_append)
      moreover have "zero_time < now" using snoc.prems(2) Outcome by simp
      ultimately show ?thesis using sound_failure [OF IH _ _ cool] True Outcome
        unfolding run by (auto simp: is_zero_time_def)
    next
      case False
      then have "record_call failed cancelled now (breaker_run es b) = breaker_run es b"
        using Outcome by (auto simp: record_call_def)
      then show ?thesis using sound_uncounted [OF IH False] Outcome run by simp
    qed
  qed
qed

text \<open>C32: The breaker pauses calls only within one cooldown after a failure that was, with its predecessors of
  the last cooldown, at least the limit of failures: neither successes nor cancelled calls open it, and
  without a new failure it closes again.\<close>

theorem breaker_opens_on_burst:
  assumes "sorted (map event_at es)" and "\<forall>e\<in>set es. zero_time < event_at e" and "0 < gc_cooldown cfg"
    and "fst (isOpen now (breaker_run es (snd (newRequestGuard cfg))))"
  shows "\<exists>t\<in>set (failure_times es). now < t + gc_cooldown cfg \<and>
    bk_limit (snd (newRequestGuard cfg)) \<le>
      int (length (filter (\<lambda>u. t - gc_cooldown cfg < u \<and> u \<le> t) (failure_times es)))"
proof -
  let ?fresh = "snd (newRequestGuard cfg)" let ?b = "breaker_run es ?fresh"
  have c: "bk_cooldown ?fresh = gc_cooldown cfg" using assms(3) by (simp add: newRequestGuard_def)
  note f = breaker_run_fields [of es ?fresh]
  have fields: "bk_cooldown ?b = gc_cooldown cfg" "bk_limit ?b = bk_limit ?fresh"
    unfolding f [THEN conjunct1] f [THEN conjunct2] by (rule c refl)+
  have "breaker_sound es ?b"
    by (rule breaker_run_sound [OF assms(1,2)]) (use assms(3) c in \<open>simp_all add: newRequestGuard_def\<close>)
  moreover have "\<not> is_zero_time (bk_open ?b)" "now < bk_open ?b"
    using assms(4) by (auto simp: isOpen_def split: if_splits)
  ultimately show ?thesis by (auto simp: breaker_sound_def burst_def fields)
qed

lemma breaker_opens_on_burst_witness:
  "fst (isOpen 9 (breaker_run [Outcome 1 True False, Outcome 2 False False, Check 3, Outcome 4 True False]
      (snd (newRequestGuard \<lparr>gc_max = 2, gc_limit = 2, gc_cooldown = 60\<rparr>)))) \<and>
   (\<exists>t\<in>set (failure_times [Outcome 1 True False, Outcome 2 False False, Check 3, Outcome 4 True False]).
      9 < t + 60)"
proof -
  let ?es = "[Outcome 1 True False, Outcome 2 False False, Check 3, Outcome 4 True False]"
  let ?cfg = "\<lparr>gc_max = 2, gc_limit = 2, gc_cooldown = 60\<rparr>"
  have opened: "fst (isOpen 9 (breaker_run ?es (snd (newRequestGuard ?cfg))))" by code_simp
  have "sorted (map event_at ?es)" "\<forall>e\<in>set ?es. zero_time < event_at e" "0 < gc_cooldown ?cfg"
    by (simp_all add: zero_time_def)
  from breaker_opens_on_burst [OF this opened] show ?thesis using opened by auto
qed

end
