(* ===== verification/Host_System.thy ===== *)
theory Host_System
  imports Go_Float Timestamps "HOL-Library.Product_Lexorder"
begin

text \<open>
  The host and the daemon: \<open>internal/service/system.go\<close> with its parsers of \<open>/proc\<close>, the resource figures of
  \<open>internal/docker/stats.go\<close> and the images of \<open>internal/docker/images.go\<close>.  Files, the file system's
  block counts, the host name and the daemon's answers are parameters.  \<open>uint64\<close> values are 64-bit words.
  Converting a float beyond \<open>int64\<close> is implementation-defined in Go: a parameter.
\<close>

type_synonym u64 = "64 word"

section \<open>Files of the kernel\<close>

definition before_blank :: "gostring \<Rightarrow> gostring" where
  "before_blank s = (case cut_char (CHR '' '') s of None \<Rightarrow> s | Some (f, _) \<Rightarrow> f)"

definition float_to_int64 :: "(float_value \<Rightarrow> int) \<Rightarrow> float_value \<Rightarrow> int" where
  "float_to_int64 beyond v =
    (case v of
       Finite q \<Rightarrow>
        (let n = (if 0 \<le> q then \<lfloor>q\<rfloor> else \<lceil>q\<rceil>) in if fits_int64 n then n else beyond v)
     | _ \<Rightarrow> beyond v)"

definition parseUptime :: "(float_value \<Rightarrow> int) \<Rightarrow> gostring \<Rightarrow> int option" where
  "parseUptime beyond raw = map_option (float_to_int64 beyond) (ParseFloat (before_blank (trim_space raw)))"

definition parseLoadAvg :: "gostring \<Rightarrow> float_value option" where
  "parseLoadAvg raw = ParseFloat (before_blank (trim_space raw))"

record cpu_sample =
  cp_idle :: u64
  cp_total :: u64

fun parse_all :: "('a \<Rightarrow> 'b option) \<Rightarrow> 'a list \<Rightarrow> 'b list option" where
  "parse_all f [] = Some []"
| "parse_all f (x # xs) =
    (case f x of None \<Rightarrow> None | Some y \<Rightarrow> map_option ((#) y) (parse_all f xs))"

definition first_line :: "gostring \<Rightarrow> gostring" where
  "first_line raw = (case cut_char newline raw of None \<Rightarrow> raw | Some (l, _) \<Rightarrow> l)"

definition parseCPUStat :: "gostring \<Rightarrow> cpu_sample option" where
  "parseCPUStat raw =
    (let fs = all_fields (first_line raw) in
     if length fs < 5 \<or> hd fs \<noteq> ''cpu'' then None
     else (case parse_all (map_option (of_nat :: nat \<Rightarrow> u64) \<circ> parse_uint64) (tl fs) of
       None \<Rightarrow> None
     | Some counters \<Rightarrow>
        Some \<lparr>cp_idle = counters ! 3 + (if 4 < length counters then counters ! 4 else 0),
              cp_total = sum_list counters\<rparr>))"

definition cpuUsage :: "cpu_sample option \<Rightarrow> cpu_sample \<Rightarrow> rat option" where
  "cpuUsage prev current =
    (case prev of
       None \<Rightarrow> None
     | Some l \<Rightarrow>
        if cp_total current \<le> cp_total l then None
        else (let idleDelta = cp_idle current - cp_idle l; totalDelta = cp_total current - cp_total l in
          if totalDelta < idleDelta then None
          else Some (float_mult
            (float_sub 1 (float_divide (float_of (uint idleDelta)) (float_of (uint totalDelta)))) 100)))"

text \<open>One line of \<open>/proc/meminfo\<close>; \<open>strings.Lines\<close> keeps the newline, which the trimming and the fields drop.\<close>

definition meminfo_line :: "gostring \<Rightarrow> int option \<times> int option \<Rightarrow> int option \<times> int option" where
  "meminfo_line line seen =
    (let (name, value) = (case cut_char (CHR '':'') line of None \<Rightarrow> (line, []) | Some p \<Rightarrow> p) in
     case all_fields value of
       [] \<Rightarrow> seen
     | f # _ \<Rightarrow>
        (case parse_int f of
           None \<Rightarrow> seen
         | Some kb \<Rightarrow>
            if trim_space name = ''MemTotal'' then (Some (wrap64 (kb * 1024)), snd seen)
            else if trim_space name = ''MemAvailable'' then (fst seen, Some (wrap64 (kb * 1024)))
            else seen))"

definition parseMeminfo :: "gostring \<Rightarrow> (int \<times> int) option" where
  "parseMeminfo raw =
    (case fold meminfo_line (split_char newline (trim_space raw)) (None, None) of
       (Some all, Some free) \<Rightarrow> if all < free then None else Some (wrap64 (all - free), all)
     | _ \<Rightarrow> None)"

section \<open>Disks\<close>

definition u64_max :: u64 where "u64_max = - 1"

definition saturate :: "u64 \<Rightarrow> int" where
  "saturate v = (if int64_max < uint v then int64_max else uint v)"

definition multiply :: "u64 \<Rightarrow> u64 \<Rightarrow> u64" where
  "multiply a b = (if a \<noteq> 0 \<and> u64_max div a < b then u64_max else a * b)"

definition diskUsage :: "u64 \<Rightarrow> u64 \<Rightarrow> u64 \<Rightarrow> int \<times> int" where
  "diskUsage blocks bavail bsize =
    (let bavail = (if blocks < bavail then blocks else bavail) in
     (saturate (multiply (blocks - bavail) bsize), saturate (multiply blocks bsize)))"

section \<open>The host\<close>

record host_env =
  he_goos :: gostring
  he_goarch :: gostring
  he_hostname :: "gostring option"
  he_file :: "gostring \<Rightarrow> gostring option"
  he_size :: "gostring \<Rightarrow> int option"
  he_statfs :: "gostring \<Rightarrow> (u64 \<times> u64 \<times> int) option"
  he_beyond :: "float_value \<Rightarrow> int"

definition goosLinux :: gostring where "goosLinux = ''linux''"

definition proc_file :: "host_env \<Rightarrow> gostring \<Rightarrow> gostring option" where
  "proc_file h path = (if he_goos h \<noteq> goosLinux then None else he_file h path)"

definition databaseBytes_of :: "host_env \<Rightarrow> gostring \<Rightarrow> int" where
  "databaseBytes_of h path =
    wrap64 (sum_list (map (\<lambda>suffix. case he_size h (path @ suffix) of None \<Rightarrow> 0 | Some n \<Rightarrow> n)
      [[], ''-wal'', ''-shm'']))"

definition hostUptimeSecs :: "host_env \<Rightarrow> int option" where
  "hostUptimeSecs h = Option.bind (proc_file h ''/proc/uptime'') (parseUptime (he_beyond h))"

definition hostLoad1 :: "host_env \<Rightarrow> float_value option" where
  "hostLoad1 h = Option.bind (proc_file h ''/proc/loadavg'') parseLoadAvg"

text \<open>The usage since the sample before; the new sample is remembered even when there is no usage.\<close>

definition hostCPUPercent :: "host_env \<Rightarrow> cpu_sample option \<Rightarrow> rat option \<times> cpu_sample option" where
  "hostCPUPercent h prev =
    (case Option.bind (proc_file h ''/proc/stat'') parseCPUStat of
       None \<Rightarrow> (None, prev)
     | Some current \<Rightarrow> (cpuUsage prev current, Some current))"

definition hostMem :: "host_env \<Rightarrow> (int \<times> int) option" where
  "hostMem h = Option.bind (proc_file h ''/proc/meminfo'') parseMeminfo"

definition hostDisk :: "host_env \<Rightarrow> gostring \<Rightarrow> (int \<times> int) option" where
  "hostDisk h dir =
    (if dir = [] then None
     else (case he_statfs h dir of
       None \<Rightarrow> None
     | Some (blocks, bavail, bsize) \<Rightarrow>
        if bsize \<le> 0 then None else Some (diskUsage blocks bavail (word_of_int bsize))))"

section \<open>Resource figures of a container\<close>

record stats_response =
  sr_total :: u64
  sr_pretotal :: u64
  sr_system :: u64
  sr_presystem :: u64
  sr_online :: nat
  sr_percpu :: nat
  sr_usage :: u64
  sr_memory :: "gostring \<rightharpoonup> u64"

definition cpuPercent :: "stats_response \<Rightarrow> rat" where
  "cpuPercent s =
    (let cpuDelta = float_of (uint (sr_total s - sr_pretotal s));
         systemDelta = float_of (uint (sr_system s - sr_presystem s))
     in if cpuDelta \<le> 0 \<or> systemDelta \<le> 0 then 0
        else
         (let online = float_of (int (sr_online s));
              percpu = (if online \<le> 0 then float_of (int (sr_percpu s)) else online);
              cpus = (if percpu \<le> 0 then 1 else percpu)
          in float_mult (float_mult (float_divide cpuDelta systemDelta) cpus) 100))"

definition memory_stat :: "stats_response \<Rightarrow> gostring \<Rightarrow> u64" where
  "memory_stat s k = (case sr_memory s k of None \<Rightarrow> 0 | Some n \<Rightarrow> n)"

definition memUsage :: "stats_response \<Rightarrow> u64" where
  "memUsage s =
    (let cache = memory_stat s ''inactive_file'';
         cache = (if cache = 0 then memory_stat s ''total_inactive_file'' else cache)
     in if sr_usage s \<le> cache then 0 else sr_usage s - cache)"

text \<open>The start time of a container: no state, or a text that is no time, is the zero time.\<close>

definition startedAt :: "gostring option \<Rightarrow> instant" where
  "startedAt shown =
    (case shown of None \<Rightarrow> zero_time
     | Some t \<Rightarrow> (case parse_rfc3339 t of None \<Rightarrow> zero_time | Some u \<Rightarrow> u))"

section \<open>Images\<close>

record image_summary =
  im_id :: gostring
  im_tags :: "gostring list"
  im_size :: int
  im_created :: int
  im_containers :: int

record image = image_summary +
  im_dangling :: bool

definition isDangling :: "image_summary \<Rightarrow> bool" where
  "isDangling i \<longleftrightarrow>
    im_tags i = [] \<or> list_all (\<lambda>t. t = ''<none>:<none>'' \<or> has_prefix t ''<none>'') (im_tags i)"

definition image_of :: "image_summary \<Rightarrow> image" where
  "image_of i = image_summary.extend i (image.fields (isDangling i))"

definition summarizeImages :: "image_summary list \<Rightarrow> image list" where
  "summarizeImages xs = sort_key (\<lambda>i. (- im_created i, im_id i)) (map image_of xs)"

record image_view =
  iv_id :: gostring
  iv_tags :: "gostring list"
  iv_size :: int
  iv_created :: instant
  iv_containers :: int
  iv_dangling :: bool

definition image_view_of :: "image \<Rightarrow> image_view" where
  "image_view_of i =
    \<lparr>iv_id = im_id i, iv_tags = im_tags i, iv_size = im_size i, iv_created = im_created i * second,
     iv_containers = im_containers i, iv_dangling = im_dangling i\<rparr>"

definition system_Images :: "string + image_summary list \<Rightarrow> string + image_view list" where
  "system_Images answer =
    (case answer of Inl e \<Rightarrow> Inl e | Inr xs \<Rightarrow> Inr (map image_view_of (summarizeImages xs)))"

record prune_view =
  pv_deleted :: nat
  pv_reclaimed :: int

text \<open>The daemon's report is the list of deleted images and the reclaimed bytes, an unsigned number.\<close>

definition PruneImages :: "string + (gostring list \<times> u64) \<Rightarrow> string + prune_view" where
  "PruneImages answer =
    (case answer of Inl e \<Rightarrow> Inl e
     | Inr (deleted, space) \<Rightarrow>
        Inr \<lparr>pv_deleted = length deleted, pv_reclaimed = min (uint space) int64_max\<rparr>)"

section \<open>The snapshot\<close>

record daemon_info =
  di_version :: gostring
  di_arch :: gostring
  di_os :: gostring
  di_kernel :: gostring
  di_ncpu :: int
  di_mem :: int
  di_running :: int
  di_stopped :: int
  di_images :: int

record system_config =
  sy_version :: gostring
  sy_db :: gostring
  sy_root :: gostring
  sy_started :: instant

definition NewSystem :: "system_config \<Rightarrow> system_config" where
  "NewSystem cfg = cfg\<lparr>sy_root := (if sy_root cfg = [] then ''/'' else sy_root cfg)\<rparr>"

record system_snapshot =
  ss_hostname :: gostring
  ss_os :: gostring
  ss_arch :: gostring
  ss_uptime :: "int option"
  ss_load1 :: "float_value option"
  ss_cpu :: "rat option"
  ss_mem :: "(int \<times> int) option"
  ss_disk :: "(int \<times> int) option"
  ss_version :: gostring
  ss_self_uptime :: int
  ss_database :: int
  ss_docker :: "daemon_info option"

definition Snapshot ::
  "host_env \<Rightarrow> system_config \<Rightarrow> instant \<Rightarrow> string + daemon_info \<Rightarrow> cpu_sample option
    \<Rightarrow> system_snapshot \<times> cpu_sample option" where
  "Snapshot h sys now daemon prev =
    (let (cpu, prev') = hostCPUPercent h prev in
     (\<lparr>ss_hostname = (case he_hostname h of None \<Rightarrow> [] | Some n \<Rightarrow> n),
       ss_os = he_goos h, ss_arch = he_goarch h, ss_uptime = hostUptimeSecs h, ss_load1 = hostLoad1 h,
       ss_cpu = cpu, ss_mem = hostMem h, ss_disk = hostDisk h (sy_root sys), ss_version = sy_version sys,
       ss_self_uptime =
         float_to_int64 (he_beyond h) (Finite (duration_seconds (time_sub now (sy_started sys)))),
       ss_database = databaseBytes_of h (sy_db sys),
       ss_docker = (case daemon of Inl _ \<Rightarrow> None | Inr i \<Rightarrow> Some i)\<rparr>, prev'))"

section \<open>Laws of the host figures\<close>

text \<open>
  What the host figures promise: a percentage of host CPU is one, disk sizes are exact up to the largest
  \<open>int64\<close>; and what a container's CPU percentage becomes when its counter goes back.
\<close>

subsection \<open>Host CPU\<close>

lemma float_ratio:
  assumes "0 \<le> a" "a \<le> b" "0 < b"
  shows "0 \<le> float_divide a b" "float_divide a b \<le> 1"
proof -
  have "0 \<le> a / b" "a / b \<le> 1" using assms by (simp_all add: divide_le_eq)
  then show "0 \<le> float_divide a b" "float_divide a b \<le> 1"
    using round64_nonneg [of "a / b"] round64_mono [of "a / b" 1] by (simp_all add: float_divide_def)
qed

lemma float_percent:
  assumes "0 \<le> x" "x \<le> 1"
  shows "0 \<le> float_mult x 100" "float_mult x 100 \<le> 100"
proof -
  have "round64 100 = 100" using round64_exact_pos [of 100 100 0] by simp
  then show "0 \<le> float_mult x 100" "float_mult x 100 \<le> 100"
    using round64_nonneg [of "x * 100"] round64_mono [of "x * 100" 100] assms by (simp_all add: float_mult_def)
qed

lemma float_complement:
  assumes "0 \<le> x" "x \<le> 1"
  shows "0 \<le> float_sub 1 x" "float_sub 1 x \<le> 1"
  using round64_nonneg [of "1 - x"] round64_mono [of "1 - x" 1] assms by (simp_all add: float_sub_def)

text \<open>A usage that is derived from two samples of \<open>/proc/stat\<close> is between 0 and 100 percent, whatever the
  counters say: what would leave the range yields no usage.\<close>

theorem cpuUsage_percent:
  fixes prev :: "cpu_sample option" and current :: cpu_sample
  assumes "cpuUsage prev current = Some p"
  shows "0 \<le> p \<and> p \<le> 100"
proof -
  obtain l where prev: "prev = Some l" using assms by (cases prev) (simp_all add: cpuUsage_def)
  note run = assms [unfolded cpuUsage_def prev Let_def, simplified, unfolded not_le not_less]
  have l: "cp_total l < cp_total current" using run by (auto split: if_splits)
  have le: "cp_idle current - cp_idle l \<le> cp_total current - cp_total l" using run by (auto split: if_splits)
  have p: "p = float_mult (float_sub 1 (float_divide (float_of (uint (cp_idle current - cp_idle l)))
      (float_of (uint (cp_total current - cp_total l))))) 100" using run by (auto split: if_splits)
  let ?i = "uint (cp_idle current - cp_idle l)" and ?t = "uint (cp_total current - cp_total l)"
  have "?t \<noteq> 0" using l by (simp add: unsigned_eq_0_iff)
  then have t: "0 < ?t" using uint_ge_0 [of "cp_total current - cp_total l"] by linarith
  have i: "0 \<le> ?i" "?i \<le> ?t" using le by (simp_all add: word_le_def)
  have "0 \<le> float_of ?i" "float_of ?i \<le> float_of ?t" "0 < float_of ?t"
    using float_of_mono [of 0 ?i] float_of_mono [OF i] float_of_pos [OF t] i by (simp_all add: float_of_def round64_def)
  from float_ratio [OF this] show ?thesis
    unfolding p by (intro conjI float_percent float_complement)
qed

lemma cpuUsage_percent_witness:
  "cpuUsage (Some \<lparr>cp_idle = 10, cp_total = 100\<rparr>) \<lparr>cp_idle = 20, cp_total = 140\<rparr> = Some 75 \<and>
    (0::rat) \<le> 75 \<and> (75::rat) \<le> 100"
proof -
  have "cpuUsage (Some \<lparr>cp_idle = 10, cp_total = 100\<rparr>) \<lparr>cp_idle = 20, cp_total = 140\<rparr> = Some 75" by code_simp
  with cpuUsage_percent [OF this] show ?thesis by simp
qed

subsection \<open>Disks\<close>

lemma saturate_min: "saturate v = min int64_max (uint v)"
  by (simp add: saturate_def min_def)

lemma multiply_saturates: "uint (multiply a b) = min (2 ^ 64 - 1) (uint a * uint b)"
proof -
  have max: "uint u64_max = 2 ^ 64 - 1" by (simp add: u64_max_def unsigned_minus_1_eq_mask mask_eq_exp_minus_1)
  have le: "uint a * uint b \<le> 2 ^ 64 - 1 \<longleftrightarrow> uint b \<le> (2 ^ 64 - 1) div uint a" if "a \<noteq> 0"
  proof -
    have "uint a \<noteq> 0" using \<open>a \<noteq> 0\<close> by (simp add: unsigned_eq_0_iff)
    then have "0 < uint a" using uint_ge_0 [of a] by linarith
    have "uint b \<le> n div uint a \<Longrightarrow> uint a * uint b \<le> n" for n
      using mult_left_mono [of "uint b" "n div uint a" "uint a"] \<open>0 < uint a\<close>
        pos_mod_sign [of "uint a" n] mult_div_mod_eq [of "uint a" n] by linarith
    moreover have "uint a * uint b \<le> n \<Longrightarrow> uint b \<le> n div uint a" for n
      using zdiv_mono1 [of "uint a * uint b" n "uint a"] \<open>0 < uint a\<close> by simp
    ultimately show ?thesis by blast
  qed
  have div: "uint (u64_max div a) = (2 ^ 64 - 1) div uint a" by (simp add: uint_div_distrib max)
  show ?thesis
  proof (cases "a \<noteq> 0 \<and> u64_max div a < b")
    case True
    then have "\<not> uint a * uint b \<le> 2 ^ 64 - 1" using le div by (simp add: word_less_def)
    then show ?thesis using True by (simp add: multiply_def max)
  next
    case False
    then have small: "uint a * uint b \<le> 2 ^ 64 - 1" using le div by (cases "a = 0") (auto simp: word_less_def)
    then have "uint (a * b) = uint a * uint b" by (simp add: uint_word_ariths(3))
    then show ?thesis using False small by (auto simp: multiply_def)
  qed
qed

text \<open>The used and the total size of a disk are the exact products of the block counts and the block size,
  cut off at the largest \<open>int64\<close>, also where a 64-bit product wraps around.  More free blocks than
  blocks count as all of them.\<close>

theorem diskUsage_exact:
  "diskUsage blocks bavail bsize =
    (min int64_max ((uint blocks - min (uint bavail) (uint blocks)) * uint bsize),
     min int64_max (uint blocks * uint bsize))"
proof -
  let ?a = "if blocks < bavail then blocks else bavail"
  have a: "uint ?a = min (uint bavail) (uint blocks)" "?a \<le> blocks"
    by (auto simp: word_less_def word_le_def min_def)
  have "uint (blocks - ?a) = uint blocks - uint ?a" using a(2) by (simp only: uint_minus_simple_alt)
  then have "uint (blocks - ?a) = uint blocks - min (uint bavail) (uint blocks)" by (simp only: a(1))
  then show ?thesis
    unfolding diskUsage_def Let_def by (simp only: saturate_min multiply_saturates) (simp add: int64_max_def min_def)
qed

subsection \<open>The CPU of a container\<close>

lemma round64_at_least: "of_int m * 2 powi k \<le> q \<Longrightarrow> 0 < m \<Longrightarrow> m < 2 ^ 53 \<Longrightarrow> of_int m * 2 powi k \<le> round64 q"
  using round64_mono [of "of_int m * 2 powi k" q] round64_exact_pos [of _ m k] by simp

text \<open>The check for a counter that went back never applies, because the difference is taken in 64 bits without
  a sign: a container whose CPU counter restarted between the two readings of one snapshot shows at least
  838,860,800 percent, for any system time below \<open>2 ^ 40\<close> nanoseconds between them.\<close>

theorem cpu_counter_restart:
  assumes "uint (sr_total s) < uint (sr_pretotal s)" and "uint (sr_pretotal s) \<le> 2 ^ 63"
    and "0 < uint (sr_system s - sr_presystem s)" and "uint (sr_system s - sr_presystem s) \<le> 2 ^ 40"
  shows "838860800 \<le> cpuPercent s"
proof -
  let ?c = "uint (sr_total s - sr_pretotal s)" and ?d = "uint (sr_system s - sr_presystem s)"
  have c: "2 ^ 63 \<le> ?c" 
  proof -
    have "0 \<le> uint (sr_total s)" by simp
    then have "2 ^ 63 \<le> uint (sr_total s) - uint (sr_pretotal s) + 2 * 2 ^ 63" using assms(2) by linarith
    then show ?thesis using assms(1) unfolding uint_sub_if' by simp
  qed
  have fc: "of_int 1 * 2 powi 63 \<le> float_of ?c"
  proof -
    have "of_int 1 * (2::rat) powi 63 = of_int (2 ^ 63)" by (simp add: power_int_def)
    also have "\<dots> \<le> of_int ?c" using c by (simp only: of_int_le_iff)
    finally show ?thesis unfolding float_of_def by (rule round64_at_least) simp_all
  qed
  have fd: "0 < float_of ?d" "float_of ?d \<le> 2 ^ 40"
    using float_of_pos [OF assms(3)] float_of_mono [OF _ assms(4)] float_of_exact [of "2 ^ 40"] by simp_all
  have "of_int 1 * 2 powi 23 * float_of ?d \<le> of_int 1 * 2 powi 23 * (2 ^ 40)"
    using fd by (intro mult_left_mono) simp_all
  also have "\<dots> \<le> float_of ?c" using fc by (simp add: power_int_def)
  finally have ratio: "of_int 1 * 2 powi 23 \<le> float_divide (float_of ?c) (float_of ?d)"
    unfolding float_divide_def using fd by (intro round64_at_least) (simp_all add: le_divide_eq)
  define online where "online = float_of (int (sr_online s))"
  define percpu where "percpu = (if online \<le> 0 then float_of (int (sr_percpu s)) else online)"
  define cpus where "cpus = (if percpu \<le> 0 then 1 else percpu)"
  have one: "1 \<le> float_of (int n)" if "0 < float_of (int n)" for n
    using that float_of_mono [of 1 "int n"] float_of_exact [of 1] by (cases n) (simp_all add: float_of_def round64_def)
  have cpus: "1 \<le> cpus" using one unfolding cpus_def percpu_def online_def by auto
  have "of_int 1 * 2 powi 23 * 1 \<le> float_divide (float_of ?c) (float_of ?d) * cpus"
    using ratio cpus by (intro mult_mono) simp_all
  then have "of_int 1 * 2 powi 23 \<le> float_mult (float_divide (float_of ?c) (float_of ?d)) cpus"
    unfolding float_mult_def by (intro round64_at_least) simp_all
  then have "of_int 100 * 2 powi 23 \<le> float_mult (float_mult (float_divide (float_of ?c) (float_of ?d)) cpus) 100"
    unfolding float_mult_def [of _ 100] by (intro round64_at_least) simp_all
  moreover have "\<not> float_of ?c \<le> 0" using fc by (auto simp: power_int_def)
  ultimately show ?thesis
    using fd(1) unfolding cpuPercent_def Let_def cpus_def percpu_def online_def
    by (simp add: power_int_def)
qed

lemma cpu_counter_restart_witness:
  "838860800 \<le> cpuPercent \<lparr>sr_total = 5, sr_pretotal = 1000000000, sr_system = 9000000000, sr_presystem = 1000000000,
     sr_online = 8, sr_percpu = 0, sr_usage = 0, sr_memory = Map.empty\<rparr>"
  by (rule cpu_counter_restart) simp_all

end
