(* ===== verification/Docker_Client.thy ===== *)
theory Docker_Client
  imports Fleet_Inventory Docker_Rows
begin

text \<open>
  What the docker client makes of the daemon's answers: the listing (\<open>internal/docker/client.go\<close>), the
  secret-safe inspection (\<open>inventory.go\<close>) and the events (\<open>events.go\<close>).  A Go map of labels is a map; a field that
  the daemon left out (a nil pointer) is \<open>None\<close>.
\<close>

section \<open>The listing\<close>

record raw_port =
  rp_ip :: gostring
  rp_private :: int
  rp_public :: int
  rp_type :: gostring

record container_summary =
  sm_id :: gostring
  sm_names :: "gostring list"
  sm_image :: gostring
  sm_image_id :: gostring
  sm_state :: gostring
  sm_status :: gostring
  sm_ports :: "raw_port list"
  sm_labels :: "gostring \<rightharpoonup> gostring"

definition formatPort :: "raw_port \<Rightarrow> gostring" where
  "formatPort p =
    (if 0 < rp_public p \<and> rp_ip p \<noteq> []
     then rp_ip p @ '':'' @ itoa (rp_public p) @ ''->'' @ itoa (rp_private p) @ ''/'' @ rp_type p
     else itoa (rp_private p) @ ''/'' @ rp_type p)"

definition published_of :: "raw_port \<Rightarrow> published_port" where
  "published_of p =
    \<lparr>pp_host_ip = rp_ip p, pp_host_port = rp_public p, pp_container_port = rp_private p, pp_proto = rp_type p\<rparr>"

definition first_name :: "gostring list \<Rightarrow> gostring" where
  "first_name names = (case names of [] \<Rightarrow> [] | n # _ \<Rightarrow> n)"

definition fromSummary :: "container_summary \<Rightarrow> listed" where
  "fromSummary s =
    \<lparr>ct_id = sm_id s, ct_name = trim_prefix (first_name (sm_names s)) ''/'', ct_image = sm_image s,
     ct_image_id = sm_image_id s, ct_state = sm_state s, ct_status = sm_status s,
     ct_ports = map formatPort (sm_ports s), ct_labels = sm_labels s,
     ct_published = map published_of (filter (\<lambda>p. 0 < rp_public p) (sm_ports s))\<rparr>"

definition docker_List :: "err + container_summary list \<Rightarrow> err + listed list" where
  "docker_List answer =
    (case answer of Inl _ \<Rightarrow> Inl (ErrOther ''listing containers'') | Inr ss \<Rightarrow> Inr (map fromSummary ss))"

definition docker_ListAll :: "err + container_summary list \<Rightarrow> err + listed list" where
  "docker_ListAll answer =
    (case answer of Inl _ \<Rightarrow> Inl (ErrOther ''listing all containers'') | Inr ss \<Rightarrow> Inr (map fromSummary ss))"

section \<open>The inspection\<close>

record raw_mount =
  rm_type :: gostring
  rm_source :: gostring
  rm_destination :: gostring
  rm_rw :: bool

record raw_config =
  rc_user :: gostring
  rc_entrypoint :: "gostring list"
  rc_cmd :: "gostring list"
  rc_labels :: "gostring \<rightharpoonup> gostring"

record raw_host =
  rh_privileged :: bool
  rh_readonly :: bool
  rh_caps :: "gostring list option"
  rh_pid :: gostring
  rh_ipc :: gostring
  rh_network :: gostring
  rh_restart :: gostring
  rh_memory :: int
  rh_cpus :: int
  rh_pids :: "int option"

text \<open>The answer: the base with its id, image and host configuration, the configuration, the mounts.\<close>

record inspect_response =
  ir_base :: "(gostring \<times> gostring \<times> raw_host option) option"
  ir_config :: "raw_config option"
  ir_mounts :: "raw_mount list"

record inspected = docker_inspection +
  nq_id :: gostring
  nq_image :: gostring
  nq_labels :: "gostring \<rightharpoonup> gostring"

definition hashArguments :: "gostring list \<Rightarrow> gostring" where
  "hashArguments arguments =
    (if arguments = [] then [] else sha256_hex (join_with [CHR 0x00] arguments))"

definition isDockerSocket :: "gostring \<Rightarrow> bool" where
  "isDockerSocket path \<longleftrightarrow> path = ''/var/run/docker.sock'' \<or> path = ''/run/docker.sock''"

definition copyComposeLabel ::
  "gostring \<Rightarrow> (gostring \<rightharpoonup> gostring) \<Rightarrow> (gostring \<rightharpoonup> gostring) \<Rightarrow> (gostring \<rightharpoonup> gostring)" where
  "copyComposeLabel key source destination =
    (case source key of None \<Rightarrow> destination | Some v \<Rightarrow> destination(key \<mapsto> v))"

definition mount_of :: "raw_mount \<Rightarrow> safe_mount" where
  "mount_of m = \<lparr>mt_type = rm_type m, mt_destination = rm_destination m, mt_writable = rm_rw m\<rparr>"

definition with_config :: "raw_config option \<Rightarrow> inspected \<Rightarrow> inspected" where
  "with_config cfg i =
    (case cfg of
       None \<Rightarrow> i
     | Some c \<Rightarrow> i\<lparr>dk_user := rc_user c, dk_entrypoint := hashArguments (rc_entrypoint c),
         dk_command := hashArguments (rc_cmd c),
         nq_labels := copyComposeLabel LabelComposeService (rc_labels c)
           (copyComposeLabel LabelComposeProject (rc_labels c) (nq_labels i))\<rparr>)"

definition with_host :: "raw_host option \<Rightarrow> inspected \<Rightarrow> inspected" where
  "with_host host i =
    (case host of
       None \<Rightarrow> i
     | Some h \<Rightarrow> i\<lparr>dk_privileged := rh_privileged h, dk_readonly := rh_readonly h, dk_caps := rh_caps h,
         dk_pid := rh_pid h, dk_ipc := rh_ipc h, dk_network := rh_network h, dk_restart := rh_restart h,
         dk_memory := rh_memory h, dk_cpus := rh_cpus h, dk_pids := rh_pids h\<rparr>)"

definition NormalizeInspection :: "inspect_response \<Rightarrow> inspected" where
  "NormalizeInspection r =
    (let zero = docker_inspection.extend zero_inspection (inspected.fields [] [] Map.empty);
         based = (case ir_base r of None \<Rightarrow> zero | Some (i, img, _) \<Rightarrow> zero\<lparr>nq_id := i, nq_image := img\<rparr>);
         configured = with_config (ir_config r) based;
         hosted = with_host (case ir_base r of None \<Rightarrow> None | Some (_, _, h) \<Rightarrow> h) configured
     in hosted\<lparr>dk_mounts := map mount_of (ir_mounts r),
          dk_socket := list_ex (\<lambda>m. isDockerSocket (rm_source m) \<or> isDockerSocket (rm_destination m))
            (ir_mounts r)\<rparr>)"

definition docker_Inspect :: "err + inspect_response \<Rightarrow> err + inspected" where
  "docker_Inspect answer =
    (case answer of Inl _ \<Rightarrow> Inl (ErrOther ''inspecting container'') | Inr r \<Rightarrow> Inr (NormalizeInspection r))"

section \<open>Events\<close>

record event_message =
  em_type :: gostring
  em_action :: gostring
  em_actor :: gostring
  em_attributes :: "gostring \<rightharpoonup> gostring"
  em_time :: int
  em_nanos :: int

record docker_event =
  de_source :: gostring
  de_at :: instant
  de_action :: gostring
  de_container :: gostring
  de_name :: gostring
  de_project :: gostring
  de_service :: gostring

text \<open>A docker action and the bounded name under which it is stored.\<close>

definition event_actions :: "(gostring \<times> gostring) list" where
  "event_actions =
    [(''create'', ''create''), (''start'', ''start''), (''stop'', ''stop''), (''die'', ''die''),
     (''restart'', ''restart''), (''pause'', ''pause''), (''unpause'', ''unpause''), (''kill'', ''kill''),
     (''rename'', ''rename''), (''destroy'', ''destroy''), (''remove'', ''remove''),
     (''exec_create'', ''exec_create''), (''exec_start'', ''exec_start''), (''exec_die'', ''exec_die''),
     (''exec_detach'', ''exec_detach''), (''oom'', ''oom''),
     (''health_status: running'', ''health_running''), (''health_status: healthy'', ''health_healthy''),
     (''health_status: unhealthy'', ''health_unhealthy'')]"

definition boundedEventAction :: "gostring \<Rightarrow> gostring option" where
  "boundedEventAction action =
    (let bounded = (case cut_char (CHR '':'') action of
         Some (prefix, _) \<Rightarrow> if has_prefix prefix ''exec_'' then trim_space prefix else action
       | None \<Rightarrow> action)
     in map_of event_actions bounded)"

fun contains_control :: "gostring \<Rightarrow> bool" where
  "contains_control [] = False"
| "contains_control (c # cs) =
    (code c < 32 \<or> code c = 127 \<or> (code c = 194 \<and> cs \<noteq> [] \<and> byte_in 128 159 (hd cs)) \<or> contains_control cs)"

definition boundedEventField :: "gostring option \<Rightarrow> nat \<Rightarrow> gostring" where
  "boundedEventField value maximum =
    (let v = trim_space (case value of None \<Rightarrow> [] | Some v \<Rightarrow> v) in
     if maximum < length v \<or> contains_control v then [] else v)"

definition event_nanos :: "event_message \<Rightarrow> int" where
  "event_nanos m = (if em_nanos m = 0 then wrap64 (em_time m * second) else em_nanos m)"

definition fromEventMessage :: "event_message \<Rightarrow> docker_event option" where
  "fromEventMessage m =
    (case boundedEventAction (em_action m) of
       None \<Rightarrow> None
     | Some action \<Rightarrow>
        if em_type m \<noteq> ''container'' \<or> em_actor m = [] then None
        else Some
         \<lparr>de_source = sha256_hex (join_with [CHR 0x1F] [em_actor m, action, itoa (event_nanos m)]),
          de_at = event_nanos m, de_action = action,
          de_container = boundedEventField (Some (em_actor m)) 128,
          de_name = boundedEventField (em_attributes m ''name'') 128,
          de_project = boundedEventField (em_attributes m LabelComposeProject) 128,
          de_service = boundedEventField (em_attributes m LabelComposeService) 128\<rparr>)"

text \<open>The projection of a stream: what is not kept leaves no trace.\<close>

definition EventStream :: "event_message list \<Rightarrow> docker_event list" where
  "EventStream ms = List.map_filter fromEventMessage ms"

lemma boundedEventField_bounds:
  "length (boundedEventField v n) \<le> n" "\<not> contains_control (boundedEventField v n)"
  by (auto simp: boundedEventField_def Let_def)

end
