(* ===== verification/Perf_Store.thy ===== *)
theory Perf_Store
  imports Log_Collect Go_Float "HOL-Library.Product_Lexorder"
begin

text \<open>
  \<open>internal/store/performance.go\<close>: the buckets of the HTTP timings, their hourly rollups, the samples of
  PostgreSQL and Redis, and the container events.  The integer columns of a bucket form a commutative
  monoid, which is what the additive upserts and the rollup rest on; the \<open>REAL\<close> columns add with
  rounding.  The integer sums stay below \<open>2 ^ 63\<close>, where SQLite would turn them into reals.  The
  \<open>updated_at\<close> columns, which nothing reads, are left out.  The rows of a table are in the order of insertion.
\<close>

section \<open>The histogram and the counters of a bucket\<close>

text \<open>The counts of the durations up to 10, 25, 50, 100, 250, 500, 1000, 2500, 5000 milliseconds, and beyond.\<close>

datatype histogram = Histogram int int int int int int int int int int

fun hist_counts :: "histogram \<Rightarrow> int list" where
  "hist_counts (Histogram a b c d e f g h i j) = [a, b, c, d, e, f, g, h, i, j]"

instantiation histogram :: comm_monoid_add
begin

definition zero_histogram :: histogram where "0 = Histogram 0 0 0 0 0 0 0 0 0 0"

fun plus_histogram :: "histogram \<Rightarrow> histogram \<Rightarrow> histogram" where
  "Histogram a b c d e f g h i j + Histogram a' b' c' d' e' f' g' h' i' j' =
    Histogram (a + a') (b + b') (c + c') (d + d') (e + e') (f + f') (g + g') (h + h') (i + i') (j + j')"

instance
proof
  fix x y z :: histogram
  show "x + y + z = x + (y + z)" by (cases x; cases y; cases z) simp
  show "x + y = y + x" by (cases x; cases y) simp
  show "0 + x = x" by (cases x) (simp add: zero_histogram_def)
qed

end

definition hist_bounds :: "rat list" where "hist_bounds = [10, 25, 50, 100, 250, 500, 1000, 2500, 5000]"

definition bucket_index :: "rat \<Rightarrow> nat" where
  "bucket_index ms = length (takeWhile (\<lambda>b. b < ms) hist_bounds)"

definition hist_one :: "nat \<Rightarrow> histogram" where
  "hist_one n = (let tm = (\<lambda>k. of_bool (n = k)) in
    Histogram (tm 0) (tm 1) (tm 2) (tm 3) (tm 4) (tm 5) (tm 6) (tm 7) (tm 8) (tm 9))"

definition Observe :: "rat \<Rightarrow> histogram \<Rightarrow> histogram" where
  "Observe ms h = h + hist_one (bucket_index ms)"

definition Merge :: "histogram \<Rightarrow> histogram \<Rightarrow> histogram" where "Merge other h = h + other"

datatype http_counts = Counts (requests: int) (errors: int) (sent: int) (received: int) (hist: histogram)

instantiation http_counts :: comm_monoid_add
begin

definition zero_http_counts :: http_counts where "0 = Counts 0 0 0 0 0"

definition plus_http_counts :: "http_counts \<Rightarrow> http_counts \<Rightarrow> http_counts" where
  "x + y = Counts (requests x + requests y) (errors x + errors y) (sent x + sent y) (received x + received y)
    (hist x + hist y)"

instance
  by standard (simp_all add: plus_http_counts_def zero_http_counts_def ac_simps)

end

lemma requests_add [simp]: "requests (x + y) = requests x + requests y" "requests 0 = 0"
  by (simp_all add: plus_http_counts_def zero_http_counts_def)

lemma requests_sum_list: "requests (sum_list xs) = sum_list (map requests xs)"
  by (induction xs) simp_all

section \<open>Rows\<close>

record http_dims =
  hd_service :: gostring
  hd_environment :: gostring
  hd_method :: gostring
  hd_family :: gostring
  hd_upstream :: gostring
  hd_class :: int

record http_bucket =
  hb_start :: instant
  hb_dims :: http_dims
  hb_counts :: http_counts
  hb_duration :: rat
  hb_connect :: rat
  hb_header :: rat
  hb_response :: rat

record native_bucket =
  nb_start :: instant
  nb_service :: gostring
  nb_environment :: gostring
  nb_metric :: gostring
  nb_family :: gostring
  nb_value :: rat
  nb_delta :: rat
  nb_reset :: bool

record statement_numbers =
  sn_calls :: rat
  sn_exec :: rat
  sn_rows :: rat
  sn_hit :: rat
  sn_read :: rat
  sn_temp_read :: rat
  sn_temp_written :: rat

record statement_bucket =
  sb_start :: instant
  sb_service :: gostring
  sb_environment :: gostring
  sb_query :: gostring
  sb_numbers :: statement_numbers
  sb_reset :: bool

record container_event =
  ce_source :: gostring
  ce_at :: instant
  ce_container :: gostring
  ce_service :: gostring
  ce_environment :: gostring
  ce_type :: gostring
  ce_name :: gostring
  ce_compose :: gostring
  ce_expected :: bool

record ingest_mark =
  im_key :: gostring
  im_bucket :: gostring
  im_start :: instant

record perf_world = collector_world +
  pf_minutes :: "http_bucket list"
  pf_hours :: "http_bucket list"
  pf_marks :: "ingest_mark list"
  pf_postgres :: "native_bucket list"
  pf_statements :: "statement_bucket list"
  pf_redis :: "native_bucket list"
  pf_events :: "container_event list"

record perf_range =
  rg_service :: gostring
  rg_start :: instant
  rg_end :: instant
  rg_limit :: int

section \<open>HTTP buckets\<close>

definition hour_of :: "instant \<Rightarrow> instant" where
  "hour_of t = (t - zero_time) div hour * hour + zero_time"

definition same_row :: "http_bucket \<Rightarrow> http_bucket \<Rightarrow> bool" where
  "same_row b c \<longleftrightarrow> hb_start b = hb_start c \<and> hb_dims b = hb_dims c"

definition add_row :: "http_bucket \<Rightarrow> http_bucket \<Rightarrow> http_bucket" where
  "add_row b c = c\<lparr>hb_counts := hb_counts c + hb_counts b,
     hb_duration := float_add (hb_duration c) (hb_duration b),
     hb_connect := float_add (hb_connect c) (hb_connect b),
     hb_header := float_add (hb_header c) (hb_header b),
     hb_response := float_add (hb_response c) (hb_response b)\<rparr>"

definition merge_http :: "http_bucket \<Rightarrow> http_bucket list \<Rightarrow> http_bucket list" where
  "merge_http b bs = (if list_ex (same_row b) bs then map_where (same_row b) (add_row b) bs else bs @ [b])"

text \<open>Fields and ingest key that a bucket must have.\<close>

definition validateHTTPBucket :: "gostring \<Rightarrow> http_bucket \<Rightarrow> err + unit" where
  "validateHTTPBucket key b =
    (let d = hb_dims b in
     if is_zero_time (hb_start b) \<or> hd_service d = [] \<or> hd_environment d = [] \<or> hd_method d = [] \<or>
        hd_family d = [] \<or> hd_upstream d = [] \<or> hd_class d < 1 \<or> 5 < hd_class d \<or> key = []
     then Inl (ErrOther ''required bounded fields are missing'')
     else if 256 < length key \<or> requests (hb_counts b) < 0 \<or> errors (hb_counts b) < 0
     then Inl (ErrOther ''invalid counts or ingest key'')
     else Inr ())"

definition httpBucketKey :: "http_bucket \<Rightarrow> gostring" where
  "httpBucketKey b =
    (let d = hb_dims b in
     sha256_hex (join_with unit_separator
       [fixed_time_text (minute_of (hb_start b)), hd_service d, hd_environment d, hd_method d, hd_family d,
        hd_upstream d, itoa (hd_class d)]))"

definition ingest_marked :: "gostring \<Rightarrow> gostring \<Rightarrow> 'z perf_world_scheme \<Rightarrow> bool" where
  "ingest_marked key bucket w \<longleftrightarrow> list_ex (\<lambda>m. im_key m = key \<and> im_bucket m = bucket) (pf_marks w)"

definition UpsertHTTP :: "gostring \<Rightarrow> http_bucket \<Rightarrow> ('z perf_world_scheme, err, unit) prog" where
  "UpsertHTTP key b0 =
    andthen (of_result (validateHTTPBucket key b0))
    (let b = b0\<lparr>hb_start := minute_of (hb_start b0)\<rparr>; bucket = httpBucketKey b
     in andthen (stmt (ErrOther ''starting HTTP bucket upsert''))
      (tx (andthen (stmt (ErrOther ''recording HTTP ingest batch''))
          (bindE (gets (ingest_marked key bucket)) (\<lambda>known.
           andthen (modify (\<lambda>w. if known then w else
             w\<lparr>pf_marks := pf_marks w @ [\<lparr>im_key = key, im_bucket = bucket, im_start = hb_start b\<rparr>]\<rparr>))
          (andthen (stmt (ErrOther ''checking HTTP ingest batch''))
           (if known then stmt (ErrOther ''committing duplicate HTTP bucket'')
            else andthen (stmt (ErrOther ''upserting HTTP bucket''))
             (andthen (modify (\<lambda>w. w\<lparr>pf_minutes := merge_http b (pf_minutes w)\<rparr>))
             (andthen (stmt (ErrOther ''upserting HTTP hourly rollup''))
             (andthen (modify (\<lambda>w. w\<lparr>pf_hours :=
                merge_http (b\<lparr>hb_start := hour_of (hb_start b)\<rparr>) (pf_hours w)\<rparr>))
               (stmt (ErrOther ''committing HTTP bucket''))))))))))))"

definition in_range :: "perf_range \<Rightarrow> instant \<Rightarrow> gostring \<Rightarrow> bool" where
  "in_range q t sid \<longleftrightarrow>
    text_le (formatFixedTime (rg_start q)) (formatFixedTime t) \<and>
    text_less (formatFixedTime t) (formatFixedTime (rg_end q)) \<and> (rg_service q = [] \<or> sid = rg_service q)"

definition nativeLimit :: "int \<Rightarrow> nat" where
  "nativeLimit n = nat (if n \<le> 0 \<or> 10000 < n then 1000 else n)"

definition http_order :: "http_bucket \<Rightarrow> instant \<times> gostring \<times> gostring \<times> gostring \<times> gostring \<times> int" where
  "http_order b = (hb_start b, hd_service (hb_dims b), hd_method (hb_dims b), hd_family (hb_dims b),
     hd_upstream (hb_dims b), hd_class (hb_dims b))"

definition select_http :: "perf_range \<Rightarrow> http_bucket list \<Rightarrow> http_bucket list" where
  "select_http q bs =
    take (nativeLimit (rg_limit q))
      (sort_key http_order (filter (\<lambda>b. in_range q (hb_start b) (hd_service (hb_dims b))) bs))"

definition listHTTP ::
  "('z perf_world_scheme \<Rightarrow> http_bucket list) \<Rightarrow> perf_range \<Rightarrow> ('z perf_world_scheme, err, http_bucket list) prog" where
  "listHTTP table q =
    andthen (stmt (ErrOther ''listing HTTP buckets''))
   (andthen (stmt (ErrOther ''scanning HTTP bucket'')) (gets (\<lambda>w. select_http q (table w))))"

definition ListHTTP :: "perf_range \<Rightarrow> ('z perf_world_scheme, err, http_bucket list) prog" where
  "ListHTTP = listHTTP pf_minutes"

definition ListHTTPHourly :: "perf_range \<Rightarrow> ('z perf_world_scheme, err, http_bucket list) prog" where
  "ListHTTPHourly = listHTTP pf_hours"

text \<open>The rollup of minute rows, one row per hour and dimensions.  How SQLite adds up a \<open>REAL\<close> column is a
  parameter.\<close>

definition hour_row :: "http_bucket \<Rightarrow> instant \<times> http_dims" where
  "hour_row b = (hour_of (hb_start b), hb_dims b)"

definition rollup_row :: "(rat list \<Rightarrow> rat) \<Rightarrow> http_bucket list \<Rightarrow> instant \<times> http_dims \<Rightarrow> http_bucket" where
  "rollup_row sum_real bs k =
    (let g = filter (\<lambda>b. hour_row b = k) bs in
     \<lparr>hb_start = fst k, hb_dims = snd k, hb_counts = sum_list (map hb_counts g),
      hb_duration = sum_real (map hb_duration g), hb_connect = sum_real (map hb_connect g),
      hb_header = sum_real (map hb_header g), hb_response = sum_real (map hb_response g)\<rparr>)"

definition rollup_rows :: "(rat list \<Rightarrow> rat) \<Rightarrow> http_bucket list \<Rightarrow> http_bucket list" where
  "rollup_rows sum_real bs = map (rollup_row sum_real bs) (remdups (map hour_row bs))"

definition between :: "instant \<Rightarrow> instant \<Rightarrow> http_bucket \<Rightarrow> bool" where
  "between lo hi b \<longleftrightarrow> text_le (formatFixedTime lo) (formatFixedTime (hb_start b)) \<and>
     text_less (formatFixedTime (hb_start b)) (formatFixedTime hi)"

definition RollupHTTP :: "(rat list \<Rightarrow> rat) \<Rightarrow> instant \<Rightarrow> instant \<Rightarrow> ('z perf_world_scheme, err, unit) prog" where
  "RollupHTTP sum_real start0 end0 =
    (let lo = hour_of start0; hi = hour_of end0 in
     andthen (guardE (lo < hi) (ErrOther ''rolling up HTTP buckets: end must be after start''))
    (andthen (stmt (ErrOther ''starting HTTP rollup''))
      (tx (andthen (stmt (ErrOther ''clearing HTTP rollups''))
          (andthen (modify (\<lambda>w. w\<lparr>pf_hours := filter (\<lambda>b. \<not> between lo hi b) (pf_hours w)\<rparr>))
          (andthen (stmt (ErrOther ''writing HTTP rollups''))
          (andthen (modify (\<lambda>w. w\<lparr>pf_hours := pf_hours w @ rollup_rows sum_real (filter (between lo hi) (pf_minutes w))\<rparr>))
            (stmt (ErrOther ''committing HTTP rollups''))))))))) "

definition maximumMaintenanceBatch :: int where "maximumMaintenanceBatch = 1000"

text \<open>The oldest minute rows go; a failure to delete their batch marks is ignored.  The cutoff is written with
  \<open>formatTime\<close>, the columns with \<open>formatFixedTime\<close>.\<close>

definition TrimHTTPBefore :: "instant \<Rightarrow> int \<Rightarrow> ('z perf_world_scheme, err, int) prog" where
  "TrimHTTPBefore cutoff limit0 =
    (let limit = nat (if limit0 \<le> 0 \<or> maximumMaintenanceBatch < limit0 then maximumMaintenanceBatch else limit0);
         old = (\<lambda>t. text_less (formatFixedTime t) (formatTime cutoff))
     in andthen (stmt (ErrOther ''trimming HTTP buckets''))
      (bindE (gets (\<lambda>w. take limit (sort_key hb_start (filter (\<lambda>b. old (hb_start b)) (pf_minutes w))))) (\<lambda>gone.
       andthen (modify (\<lambda>w. w\<lparr>pf_minutes := filter (\<lambda>b. \<not> list_ex (same_row b) gone) (pf_minutes w)\<rparr>))
      (andthen (stmt (ErrOther ''counting trimmed HTTP buckets''))
      (andthen (attempt (andthen (stmt (ErrOther ''trimming batches''))
          (modify (\<lambda>w. w\<lparr>pf_marks := filter (\<lambda>m. \<not> old (im_start m)) (pf_marks w)\<rparr>))) ::
            ('z perf_world_scheme, err, err + unit) prog)
        (ret (int (length gone))))))))"

section \<open>Samples of the databases\<close>

definition same_native :: "native_bucket \<Rightarrow> native_bucket \<Rightarrow> bool" where
  "same_native b c \<longleftrightarrow> nb_start b = nb_start c \<and> nb_service b = nb_service c \<and>
     nb_environment b = nb_environment c \<and> nb_metric b = nb_metric c \<and> nb_family b = nb_family c"

definition put_native :: "native_bucket \<Rightarrow> native_bucket list \<Rightarrow> native_bucket list" where
  "put_native b bs =
    (if list_ex (same_native b) bs
     then map_where (same_native b) (\<lambda>c. c\<lparr>nb_value := nb_value b, nb_delta := nb_delta b, nb_reset := nb_reset b\<rparr>) bs
     else bs @ [b])"

definition UpsertPostgres :: "native_bucket \<Rightarrow> ('z perf_world_scheme, err, unit) prog" where
  "UpsertPostgres b0 =
    andthen (map_error (\<lambda>_. ErrOther ''upserting postgres metric'')
      (of_result (validateNativeMetric (nb_start b0) (nb_service b0) (nb_environment b0) (nb_metric b0) [])))
    (let b = b0\<lparr>nb_start := minute_of (nb_start b0), nb_family := []\<rparr> in
     andthen (stmt (ErrOther ''upserting postgres metric''))
      (modify (\<lambda>w. w\<lparr>pf_postgres := put_native b (pf_postgres w)\<rparr>)))"

definition same_statement :: "statement_bucket \<Rightarrow> statement_bucket \<Rightarrow> bool" where
  "same_statement b c \<longleftrightarrow> sb_start b = sb_start c \<and> sb_service b = sb_service c \<and>
     sb_environment b = sb_environment c \<and> sb_query b = sb_query c"

definition put_statement :: "statement_bucket \<Rightarrow> statement_bucket list \<Rightarrow> statement_bucket list" where
  "put_statement b bs =
    (if list_ex (same_statement b) bs
     then map_where (same_statement b) (\<lambda>c. c\<lparr>sb_numbers := sb_numbers b, sb_reset := sb_reset b\<rparr>) bs
     else bs @ [b])"

definition UpsertPostgresStatement :: "statement_bucket \<Rightarrow> ('z perf_world_scheme, err, unit) prog" where
  "UpsertPostgresStatement b0 =
    andthen (map_error (\<lambda>_. ErrOther ''upserting postgres statement'')
      (of_result (validateNativeMetric (sb_start b0) (sb_service b0) (sb_environment b0) ''statement'' (sb_query b0))))
    (let b = b0\<lparr>sb_start := minute_of (sb_start b0)\<rparr> in
     andthen (stmt (ErrOther ''upserting postgres statement''))
      (modify (\<lambda>w. w\<lparr>pf_statements := put_statement b (pf_statements w)\<rparr>)))"

definition validRedisFamily :: "gostring \<Rightarrow> bool" where
  "validRedisFamily f \<longleftrightarrow>
    f \<in> {[], ''read'', ''write'', ''script'', ''pubsub'', ''transaction'', ''other''}"

definition UpsertRedis :: "native_bucket \<Rightarrow> ('z perf_world_scheme, err, unit) prog" where
  "UpsertRedis b0 =
    andthen (map_error (\<lambda>_. ErrOther ''upserting redis metric'')
      (of_result (validateNativeMetric (nb_start b0) (nb_service b0) (nb_environment b0) (nb_metric b0) (nb_family b0))))
    (andthen (guardE (validRedisFamily (nb_family b0)) (ErrOther ''unsupported command family''))
    (let b = b0\<lparr>nb_start := minute_of (nb_start b0)\<rparr> in
     andthen (stmt (ErrOther ''upserting redis metric''))
      (modify (\<lambda>w. w\<lparr>pf_redis := put_native b (pf_redis w)\<rparr>))))"

text \<open>The lists of the native tables differ in their table and their order only.\<close>

definition select_native ::
  "('b \<Rightarrow> instant \<times> gostring) \<Rightarrow> ('b \<Rightarrow> 'k :: linorder) \<Rightarrow> perf_range \<Rightarrow> 'b list \<Rightarrow> 'b list" where
  "select_native tm order q bs =
    take (nativeLimit (rg_limit q))
      (sort_key (\<lambda>b. (tm b, order b)) (filter (\<lambda>b. in_range q (fst (tm b)) (snd (tm b))) bs))"

definition list_native ::
  "gostring \<Rightarrow> ('z perf_world_scheme \<Rightarrow> 'b list) \<Rightarrow> ('b \<Rightarrow> instant \<times> gostring) \<Rightarrow> ('b \<Rightarrow> 'k :: linorder) \<Rightarrow> perf_range
    \<Rightarrow> ('z perf_world_scheme, err, 'b list) prog" where
  "list_native what table tm order q =
    andthen (stmt (ErrOther what)) (andthen (stmt (ErrOther what)) (gets (\<lambda>w. select_native tm order q (table w))))"

definition native_at :: "native_bucket \<Rightarrow> instant \<times> gostring" where
  "native_at b = (nb_start b, nb_service b)"

definition ListPostgres :: "perf_range \<Rightarrow> ('z perf_world_scheme, err, native_bucket list) prog" where
  "ListPostgres = list_native ''listing postgres metrics'' pf_postgres native_at nb_metric"

definition ListRedis :: "perf_range \<Rightarrow> ('z perf_world_scheme, err, native_bucket list) prog" where
  "ListRedis = list_native ''listing redis metrics'' pf_redis native_at (\<lambda>b. (nb_metric b, nb_family b))"

definition ListPostgresStatements :: "perf_range \<Rightarrow> ('z perf_world_scheme, err, statement_bucket list) prog" where
  "ListPostgresStatements =
    list_native ''listing postgres statements'' pf_statements (\<lambda>b. (sb_start b, sb_service b)) sb_query"

definition ListLogVolume :: "perf_range \<Rightarrow> ('z perf_world_scheme, err, volume_bucket list) prog" where
  "ListLogVolume = list_native ''listing log volume'' lg_volume (\<lambda>b. (vb_start b, vb_service b)) vb_severity"

section \<open>Container events\<close>

definition UpsertContainerEvent :: "container_event \<Rightarrow> ('z perf_world_scheme, err, unit) prog" where
  "UpsertContainerEvent e =
    andthen (guardE (\<not> (ce_source e = [] \<or> is_zero_time (ce_at e) \<or> ce_environment e = [] \<or> ce_type e = [] \<or>
        128 < length (ce_source e) \<or> 128 < length (ce_name e) \<or> 128 < length (ce_compose e)))
      (ErrOther ''upserting container event: invalid bounded fields''))
   (andthen (stmt (ErrOther ''upserting container event''))
     (modify (\<lambda>w. if list_ex (\<lambda>d. ce_source d = ce_source e) (pf_events w) then w
        else w\<lparr>pf_events := pf_events w @ [e]\<rparr>)))"

text \<open>The service filters the events as it does the buckets; they are ordered by time and identity.\<close>

definition ListContainerEvents :: "perf_range \<Rightarrow> ('z perf_world_scheme, err, container_event list) prog" where
  "ListContainerEvents q =
    andthen (stmt (ErrOther ''listing container events''))
   (andthen (stmt (ErrOther ''scanning container event''))
     (gets (\<lambda>w. take (nativeLimit (rg_limit q))
       (sort_key (\<lambda>e. (ce_at e, ce_source e)) (filter (\<lambda>e. in_range q (ce_at e) (ce_service e)) (pf_events w))))))"

end
