(* ===== verification/Perf_Collect.thy ===== *)
theory Perf_Collect
  imports Perf_Store
begin

text \<open>
  \<open>internal/service/performance_collector.go\<close>: one pass over the sources of performance data, each of which may
  fail without stopping the others.  What a source reads is a parameter of the pass; the snapshots hold
  finite numbers.  The baselines of the counters live in the process.  Go maps are association lists, whose
  order of iteration, random in Go, is that of the list.  \<open>Acknowledge\<close>, which moves the nginx tailer to
  the saved cursor, is the returned cursor.
\<close>

section \<open>State and sources\<close>

record numeric_sample =
  ns_value :: rat
  ns_cumulative :: bool

record postgres_snapshot =
  ps_at :: instant
  ps_metrics :: "(gostring \<times> numeric_sample) list"
  ps_statements :: "(gostring \<times> statement_numbers) list"
  ps_errors :: "gostring list"

record redis_snapshot =
  rr_at :: instant
  rr_metrics :: "(gostring \<times> numeric_sample) list"
  rr_commands :: "(gostring \<times> rat \<times> rat) list"
  rr_errors :: "gostring list"

record http_observation =
  ob_at :: instant
  ob_method :: gostring
  ob_family :: gostring
  ob_status :: int
  ob_upstream_status :: int
  ob_duration :: rat
  ob_connect :: rat
  ob_header :: rat
  ob_response :: rat
  ob_sent :: int
  ob_received :: int
  ob_connection_requests :: int
  ob_upstream :: gostring

record baselines =
  ba_postgres :: "gostring \<rightharpoonup> rat"
  ba_statements :: "gostring \<rightharpoonup> statement_numbers"
  ba_redis :: "gostring \<rightharpoonup> rat"

record collector_world2 = perf_world +
  cw_base :: baselines

record perf_config =
  pc_service :: gostring
  pc_environment :: gostring
  pc_interval :: duration

record perf_sources =
  so_http :: "(err + http_observation list \<times> cursor) option"
  so_postgres :: "(err + postgres_snapshot) option"
  so_redis :: "(err + redis_snapshot) option"
  so_volume :: "(err + volume_bucket list \<times> cursor) option"
  so_now :: instant

definition defaultPerformanceInterval :: duration where "defaultPerformanceInterval = minute"

definition NewPerformanceCollector :: "perf_config \<Rightarrow> perf_config" where
  "NewPerformanceCollector cfg =
    cfg\<lparr>pc_interval := (if pc_interval cfg \<le> 0 then defaultPerformanceInterval else pc_interval cfg)\<rparr>"

section \<open>Deltas of counters\<close>

definition CounterDelta :: "rat \<Rightarrow> rat option \<Rightarrow> rat \<times> bool \<times> bool" where
  "CounterDelta current previous =
    (case previous of
       None \<Rightarrow> (0, False, False)
     | Some p \<Rightarrow> if current < p then (0, True, False) else (float_sub current p, False, True))"

definition metricDelta :: "(gostring \<rightharpoonup> rat) \<Rightarrow> gostring \<Rightarrow> numeric_sample \<Rightarrow> rat \<times> bool" where
  "metricDelta base key s =
    (if \<not> ns_cumulative s then (0, False)
     else (case CounterDelta (ns_value s) (base key) of
       (d, reset, valid) \<Rightarrow> if \<not> valid then (0, reset) else (d, False)))"

definition zero_numbers :: statement_numbers where
  "zero_numbers =
    \<lparr>sn_calls = 0, sn_exec = 0, sn_rows = 0, sn_hit = 0, sn_read = 0, sn_temp_read = 0, sn_temp_written = 0\<rparr>"

definition statementReset :: "statement_numbers \<Rightarrow> statement_numbers \<Rightarrow> bool" where
  "statementReset c p \<longleftrightarrow>
    sn_calls c < sn_calls p \<or> sn_exec c < sn_exec p \<or> sn_rows c < sn_rows p \<or> sn_hit c < sn_hit p \<or>
    sn_read c < sn_read p \<or> sn_temp_read c < sn_temp_read p \<or> sn_temp_written c < sn_temp_written p"

definition numbers_delta :: "statement_numbers \<Rightarrow> statement_numbers \<Rightarrow> statement_numbers" where
  "numbers_delta c p =
    \<lparr>sn_calls = float_sub (sn_calls c) (sn_calls p), sn_exec = float_sub (sn_exec c) (sn_exec p),
     sn_rows = float_sub (sn_rows c) (sn_rows p), sn_hit = float_sub (sn_hit c) (sn_hit p),
     sn_read = float_sub (sn_read c) (sn_read p), sn_temp_read = float_sub (sn_temp_read c) (sn_temp_read p),
     sn_temp_written = float_sub (sn_temp_written c) (sn_temp_written p)\<rparr>"

definition statementBucket ::
  "perf_config \<Rightarrow> instant \<Rightarrow> statement_numbers option \<Rightarrow> gostring \<Rightarrow> statement_numbers \<Rightarrow> statement_bucket" where
  "statementBucket cfg tm previous queryID current =
    (let reset = (case previous of None \<Rightarrow> False | Some p \<Rightarrow> statementReset current p) in
     \<lparr>sb_start = tm, sb_service = pc_service cfg, sb_environment = pc_environment cfg, sb_query = queryID,
      sb_numbers = (case previous of
          None \<Rightarrow> zero_numbers
        | Some p \<Rightarrow> if reset then zero_numbers else numbers_delta current p),
      sb_reset = reset\<rparr>)"

section \<open>The outcome of a source\<close>

definition cursor_or_zero :: "gostring \<Rightarrow> ('z perf_world_scheme, err, cursor) prog" where
  "cursor_or_zero source =
    bindE (attempt (cursor_Get source)) (\<lambda>r :: err + cursor. ret (case r of Inl _ \<Rightarrow> no_cursor | Inr c \<Rightarrow> c))"

definition save_quietly :: "cursor \<Rightarrow> ('z perf_world_scheme, err, unit) prog" where
  "save_quietly c = bindE (attempt (cursor_Upsert c)) (\<lambda>r :: err + unit. ret ())"

definition recordFailure :: "gostring \<Rightarrow> gostring \<Rightarrow> ('z perf_world_scheme, err, unit) prog" where
  "recordFailure source category =
    bindE (cursor_or_zero source) (\<lambda>c.
      save_quietly (c\<lparr>cu_source := source, cu_error := category, cu_complete := False,
        cu_dropped := boundedDrops (cu_dropped c) 1\<rparr>))"

definition recordSuccess ::
  "gostring \<Rightarrow> instant \<Rightarrow> instant \<Rightarrow> gostring list \<Rightarrow> int \<Rightarrow> ('z perf_world_scheme, err, unit) prog" where
  "recordSuccess source now at0 partial lost =
    bindE (cursor_or_zero source) (\<lambda>c.
      save_quietly (c\<lparr>cu_source := source, cu_recorded := (if is_zero_time at0 then now else at0), cu_success := now,
        cu_error := join_with '','' partial, cu_complete := (partial = []),
        cu_dropped := boundedDrops (cu_dropped c) lost\<rparr>))"

text \<open>The writes of a source stop at the first that fails.\<close>

definition writing ::
  "gostring \<Rightarrow> ('z perf_world_scheme, err, unit) prog \<Rightarrow> ('z perf_world_scheme, err, unit) prog
    \<Rightarrow> ('z perf_world_scheme, err, unit) prog" where
  "writing source writes finish =
    bindE (attempt writes) (\<lambda>r :: err + unit.
      case r of Inl _ \<Rightarrow> recordFailure source (source @ ''_write_failed'') | Inr _ \<Rightarrow> finish)"

section \<open>PostgreSQL and Redis\<close>

definition metric_bucket ::
  "perf_config \<Rightarrow> instant \<Rightarrow> gostring \<Rightarrow> gostring \<Rightarrow> rat \<Rightarrow> rat \<times> bool \<Rightarrow> native_bucket" where
  "metric_bucket cfg tm m family v dr =
    \<lparr>nb_start = tm, nb_service = pc_service cfg, nb_environment = pc_environment cfg, nb_metric = m,
     nb_family = family, nb_value = v, nb_delta = fst dr, nb_reset = snd dr\<rparr>"

definition postgres_metric ::
  "perf_config \<Rightarrow> instant \<Rightarrow> gostring \<times> numeric_sample \<Rightarrow> ('z collector_world2_scheme, err, unit) prog" where
  "postgres_metric cfg tm = (\<lambda>(m, s).
    bindE (gets (\<lambda>w. metricDelta (ba_postgres (cw_base w)) m s)) (\<lambda>dr.
     andthen (UpsertPostgres (metric_bucket cfg tm m [] (ns_value s) dr))
      (if ns_cumulative s
       then modify (\<lambda>w. w\<lparr>cw_base := (cw_base w)\<lparr>ba_postgres := (ba_postgres (cw_base w))(m \<mapsto> ns_value s)\<rparr>\<rparr>)
       else ret ())))"

definition postgres_statement ::
  "perf_config \<Rightarrow> instant \<Rightarrow> gostring \<times> statement_numbers \<Rightarrow> ('z collector_world2_scheme, err, unit) prog" where
  "postgres_statement cfg tm = (\<lambda>(k, s).
    bindE (gets (\<lambda>w. ba_statements (cw_base w) k)) (\<lambda>previous.
     andthen (UpsertPostgresStatement (statementBucket cfg tm previous k s))
      (modify (\<lambda>w. w\<lparr>cw_base := (cw_base w)\<lparr>ba_statements := (ba_statements (cw_base w))(k \<mapsto> s)\<rparr>\<rparr>))))"

definition collectPostgres ::
  "perf_config \<Rightarrow> instant \<Rightarrow> instant \<Rightarrow> err + postgres_snapshot \<Rightarrow> ('z collector_world2_scheme, err, unit) prog" where
  "collectPostgres cfg tm now answer =
    (case answer of
       Inl _ \<Rightarrow> recordFailure ''postgres'' ''postgres_unavailable''
     | Inr s \<Rightarrow>
        writing ''postgres''
         (andthen (for_each (postgres_metric cfg tm) (ps_metrics s)) (for_each (postgres_statement cfg tm) (ps_statements s)))
         (recordSuccess ''postgres'' now (ps_at s) (ps_errors s) 0))"

text \<open>A Redis sample under its baseline key; all figures of a command family are cumulative.\<close>

definition redis_sample ::
  "perf_config \<Rightarrow> instant \<Rightarrow> gostring \<Rightarrow> gostring \<Rightarrow> gostring \<Rightarrow> numeric_sample \<Rightarrow> ('z collector_world2_scheme, err, unit) prog" where
  "redis_sample cfg tm m family key s =
    bindE (gets (\<lambda>w. metricDelta (ba_redis (cw_base w)) key s)) (\<lambda>dr.
     andthen (UpsertRedis (metric_bucket cfg tm m family (ns_value s) dr))
      (if ns_cumulative s
       then modify (\<lambda>w. w\<lparr>cw_base := (cw_base w)\<lparr>ba_redis := (ba_redis (cw_base w))(key \<mapsto> ns_value s)\<rparr>\<rparr>)
       else ret ()))"

definition redis_metric ::
  "perf_config \<Rightarrow> instant \<Rightarrow> gostring \<times> numeric_sample \<Rightarrow> ('z collector_world2_scheme, err, unit) prog" where
  "redis_metric cfg tm = (\<lambda>(m, s). redis_sample cfg tm m [] m s)"

definition redis_command ::
  "perf_config \<Rightarrow> instant \<Rightarrow> gostring \<times> rat \<times> rat \<Rightarrow> ('z collector_world2_scheme, err, unit) prog" where
  "redis_command cfg tm = (\<lambda>(family, calls, usec).
    for_each (\<lambda>(m, v). redis_sample cfg tm m family (m @ '':'' @ family) \<lparr>ns_value = v, ns_cumulative = True\<rparr>)
      [(''command_calls'', calls), (''command_usec'', usec)])"

definition collectRedis ::
  "perf_config \<Rightarrow> instant \<Rightarrow> instant \<Rightarrow> err + redis_snapshot \<Rightarrow> ('z collector_world2_scheme, err, unit) prog" where
  "collectRedis cfg tm now answer =
    (case answer of
       Inl _ \<Rightarrow> recordFailure ''redis'' ''redis_unavailable''
     | Inr s \<Rightarrow>
        writing ''redis''
         (andthen (for_each (redis_metric cfg tm) (rr_metrics s)) (for_each (redis_command cfg tm) (rr_commands s)))
         (recordSuccess ''redis'' now (rr_at s) (rr_errors s) 0))"

section \<open>HTTP timings\<close>

definition observation_row :: "perf_config \<Rightarrow> instant \<Rightarrow> http_observation \<Rightarrow> http_bucket" where
  "observation_row cfg tm x =
    (let start = minute_of (ob_at x) in
     \<lparr>hb_start = (if is_zero_time start then tm else start),
      hb_dims = \<lparr>hd_service = pc_service cfg, hd_environment = pc_environment cfg, hd_method = ob_method x,
        hd_family = ob_family x, hd_upstream = ob_upstream x, hd_class = go_quot (ob_status x) 100\<rparr>,
      hb_counts = Counts 1 (if 500 \<le> ob_status x then 1 else 0) (ob_sent x) (ob_received x)
        (hist_one (bucket_index (ob_duration x))),
      hb_duration = ob_duration x, hb_connect = ob_connect x, hb_header = ob_header x, hb_response = ob_response x\<rparr>)"

text \<open>The buckets of the observations: an observation is added to the bucket of its key.  The key of the Go map has
  the start in seconds; the starts are whole minutes.\<close>

definition aggregateHTTP :: "perf_config \<Rightarrow> instant \<Rightarrow> http_observation list \<Rightarrow> http_bucket list" where
  "aggregateHTTP cfg tm obs = fold merge_http (map (observation_row cfg tm) obs) []"

definition ingest_key :: "cursor \<Rightarrow> gostring" where
  "ingest_key c = cu_identity c @ '':'' @ itoa (cu_offset c)"

definition boundedCursor :: "cursor \<Rightarrow> cursor" where
  "boundedCursor c = c\<lparr>cu_dropped := min (cu_dropped c) maximumDroppedRecords\<rparr>"

definition mergePersistedDrops :: "cursor \<Rightarrow> ('z perf_world_scheme, err, cursor) prog" where
  "mergePersistedDrops c =
    bindE (attempt (cursor_Get (cu_source c))) (\<lambda>r :: err + cursor.
      ret (case r of
        Inl _ \<Rightarrow> c
      | Inr p \<Rightarrow> if cu_dropped c < cu_dropped p then c\<lparr>cu_dropped := cu_dropped p\<rparr> else c))"

text \<open>The cursor that the tailer acknowledges, when there is one.\<close>

definition collectHTTP ::
  "perf_config \<Rightarrow> instant \<Rightarrow> err + http_observation list \<times> cursor \<Rightarrow> ('z perf_world_scheme, err, cursor option) prog" where
  "collectHTTP cfg tm answer =
    (case answer of
       Inl _ \<Rightarrow> andthen (recordFailure ''nginx'' ''nginx_unavailable'') (ret None)
     | Inr (obs, c) \<Rightarrow>
        bindE (attempt (for_each (UpsertHTTP (ingest_key c)) (aggregateHTTP cfg tm obs))) (\<lambda>r :: err + unit.
          case r of
            Inl _ \<Rightarrow> andthen (recordFailure ''nginx'' ''nginx_write_failed'') (ret None)
          | Inr _ \<Rightarrow>
             bindE (mergePersistedDrops (boundedCursor c)) (\<lambda>c1.
              let c2 = c1\<lparr>cu_complete := True\<rparr> in
              bindE (attempt (cursor_Upsert c2)) (\<lambda>saved :: err + unit.
                ret (case saved of Inl _ \<Rightarrow> None | Inr _ \<Rightarrow> Some c2)))))"

section \<open>Log volume and the pass\<close>

definition collectLogVolume ::
  "err + volume_bucket list \<times> cursor \<Rightarrow> ('z perf_world_scheme, err, unit) prog" where
  "collectLogVolume answer =
    (case answer of
       Inl _ \<Rightarrow> recordFailure ''log_volume'' ''log_volume_unavailable''
     | Inr (bs, c) \<Rightarrow>
        writing ''log_volume'' (for_each UpsertLogVolume bs)
          (save_quietly (boundedCursor (c\<lparr>cu_complete := True\<rparr>))))"

definition optionally :: "('a \<Rightarrow> ('s, 'e, unit) prog) \<Rightarrow> 'a option \<Rightarrow> ('s, 'e, unit) prog" where
  "optionally f x = (case x of None \<Rightarrow> ret () | Some a \<Rightarrow> f a)"

text \<open>One pass; it returns the acknowledged cursor of the timing log.\<close>

definition perf_collect ::
  "perf_config \<Rightarrow> perf_sources \<Rightarrow> ('z collector_world2_scheme, err, cursor option) prog" where
  "perf_collect cfg so =
    (let tm = minute_of (so_now so) in
     bindE (case so_http so of None \<Rightarrow> ret None | Some a \<Rightarrow> collectHTTP cfg tm a) (\<lambda>ack.
      andthen (optionally (collectPostgres cfg tm (so_now so)) (so_postgres so))
     (andthen (optionally (collectRedis cfg tm (so_now so)) (so_redis so))
     (andthen (optionally collectLogVolume (so_volume so)) (ret ack)))))"

end
