(* ===== verification/Nginx_Timing.thy ===== *)
theory Nginx_Timing
  imports Perf_Collect Security_Events
begin

text \<open>
  The parser of one line of the nginx timing log (\<open>internal/nginxlog/parser.go\<close>).  The JSON grammar is the
  parameter of \<open>Json_Config\<close>; \<open>strings.ToUpper\<close> and \<open>unicode.IsLetter\<close> or \<open>unicode.IsDigit\<close> outside ASCII are
  parameters, the latter on the bytes of one rune.
\<close>

record timing_record =
  tr_timestamp :: gostring
  tr_method :: gostring
  tr_status :: gostring
  tr_family :: gostring
  tr_request :: gostring
  tr_connect :: gostring
  tr_header :: gostring
  tr_response :: gostring
  tr_upstream_status :: gostring
  tr_address :: gostring
  tr_sent :: gostring
  tr_length :: gostring
  tr_connections :: gostring

definition zero_timing :: timing_record where
  "zero_timing =
    \<lparr>tr_timestamp = [], tr_method = [], tr_status = [], tr_family = [], tr_request = [], tr_connect = [],
     tr_header = [], tr_response = [], tr_upstream_status = [], tr_address = [], tr_sent = [], tr_length = [],
     tr_connections = []\<rparr>"

definition timing_field :: "gostring \<Rightarrow> json \<Rightarrow> timing_record \<Rightarrow> timing_record option" where
  "timing_field k =
    (if k = ''timestamp'' then str_field (\<lambda>s c. c\<lparr>tr_timestamp := s\<rparr>)
     else if k = ''method'' then str_field (\<lambda>s c. c\<lparr>tr_method := s\<rparr>)
     else if k = ''status'' then str_field (\<lambda>s c. c\<lparr>tr_status := s\<rparr>)
     else if k = ''route_family'' then str_field (\<lambda>s c. c\<lparr>tr_family := s\<rparr>)
     else if k = ''request_time'' then str_field (\<lambda>s c. c\<lparr>tr_request := s\<rparr>)
     else if k = ''upstream_connect_time'' then str_field (\<lambda>s c. c\<lparr>tr_connect := s\<rparr>)
     else if k = ''upstream_header_time'' then str_field (\<lambda>s c. c\<lparr>tr_header := s\<rparr>)
     else if k = ''upstream_response_time'' then str_field (\<lambda>s c. c\<lparr>tr_response := s\<rparr>)
     else if k = ''upstream_status'' then str_field (\<lambda>s c. c\<lparr>tr_upstream_status := s\<rparr>)
     else if k = ''upstream_addr'' then str_field (\<lambda>s c. c\<lparr>tr_address := s\<rparr>)
     else if k = ''bytes_sent'' then str_field (\<lambda>s c. c\<lparr>tr_sent := s\<rparr>)
     else if k = ''request_length'' then str_field (\<lambda>s c. c\<lparr>tr_length := s\<rparr>)
     else if k = ''connection_requests'' then str_field (\<lambda>s c. c\<lparr>tr_connections := s\<rparr>)
     else (\<lambda>j c. Some c))"

section \<open>Fields\<close>

definition route_families :: "(gostring \<times> gostring) list" where
  "route_families =
    [(''health'', ''health''), (''auth'', ''auth''), (''public_events'', ''public_events''),
     (''account_orders'', ''account_orders''), (''checkout'', ''checkout''), (''callbacks'', ''callbacks''),
     (''admin'', ''admin''), (''organization'', ''organization''), (''static'', ''static''),
     (''static_assets'', ''static''), (''other'', ''other'')]"

fun has_control :: "gostring \<Rightarrow> bool" where
  "has_control [] = False"
| "has_control (c # cs) =
    (code c < 32 \<or> code c = 127 \<or> (code c = 194 \<and> cs \<noteq> [] \<and> byte_in 128 159 (hd cs)) \<or> has_control cs)"

definition normalizeRouteFamily :: "gostring \<Rightarrow> gostring" where
  "normalizeRouteFamily v =
    (if has_control v \<or> list_ex (\<lambda>c. c \<in> set [CHR ''%'', CHR ''?'', CHR ''/'', CHR ''#'', CHR 0x5C]) v then ''other''
     else (case map_of route_families v of Some f \<Rightarrow> f | None \<Rightarrow> ''other''))"

definition upstream_char :: "char \<Rightarrow> bool" where
  "upstream_char c \<longleftrightarrow> is_digit c \<or> is_lower c \<or> is_upper c \<or>
     c \<in> set [CHR ''.'', CHR ''_'', CHR '':'', CHR ''-'', CHR ''['', CHR '']'']"

function upstream_runes :: "(gostring \<Rightarrow> bool) \<Rightarrow> gostring \<Rightarrow> bool" where
  "upstream_runes letter s =
    (case s of
       [] \<Rightarrow> True
     | c # cs \<Rightarrow>
        (let k = rune_len s in
         if k = 0 then False
         else if k = 1 then upstream_char c \<and> upstream_runes letter cs
         else letter (take k s) \<and> upstream_runes letter (drop k s)))"
  by pat_completeness auto
termination by (relation "measure (length \<circ> snd)") auto

declare upstream_runes.simps [simp del]

definition normalizeUpstream :: "(gostring \<Rightarrow> bool) \<Rightarrow> gostring \<Rightarrow> gostring" where
  "normalizeUpstream letter raw =
    (let v = trim_space raw in
     if v = [] \<or> v = ''-'' then ''none''
     else if 64 < length v \<or> list_ex (\<lambda>c. c \<in> set [CHR '','', CHR '';'', CHR '' '']) v \<or> has_control v then ''multiple''
     else if upstream_runes letter v then v else ''other'')"

definition separators :: "gostring list" where
  "separators = space_encodings @ ['','', '':'']"

definition timing_seconds :: "gostring \<Rightarrow> rat option" where
  "timing_seconds part =
    (case ParseFloat part of
       Some (Finite q) \<Rightarrow> if q < 0 \<or> 3600 < q then None else Some q
     | _ \<Rightarrow> None)"

text \<open>The sum of the parts of a timing, in milliseconds; whether a part was found decides only when one is
  required.\<close>

fun timing_sum :: "gostring list \<Rightarrow> rat \<times> bool \<Rightarrow> (rat \<times> bool) option" where
  "timing_sum [] acc = Some acc"
| "timing_sum (p # ps) acc =
    (if p = [] \<or> p = ''-'' then timing_sum ps acc
     else (case timing_seconds p of
       None \<Rightarrow> None
     | Some q \<Rightarrow> timing_sum ps (float_add (fst acc) (float_mult q 1000), True)))"

definition timingMilliseconds :: "gostring \<Rightarrow> bool \<Rightarrow> rat option" where
  "timingMilliseconds raw required =
    (if raw = [] \<or> raw = ''-'' then (if required then None else Some 0)
     else (case timing_sum (fields_by separators raw) (0, False) of
       None \<Rightarrow> None
     | Some (ms, found) \<Rightarrow> if \<not> found \<and> required then None else Some ms))"

definition boundedInt :: "gostring \<Rightarrow> int \<Rightarrow> int \<Rightarrow> int option" where
  "boundedInt raw lo hi =
    (case parse_int raw of None \<Rightarrow> None | Some v \<Rightarrow> if v < lo \<or> hi < v then None else Some v)"

fun first_status :: "gostring list \<Rightarrow> int option" where
  "first_status [] = Some 0"
| "first_status (p # ps) = (if p = [] \<or> p = ''-'' then first_status ps else boundedInt p 100 599)"

definition firstStatus :: "gostring \<Rightarrow> int option" where
  "firstStatus raw = first_status (fields_by separators raw)"

section \<open>The line\<close>

definition timing_of_record ::
  "(gostring \<Rightarrow> gostring) \<Rightarrow> (gostring \<Rightarrow> bool) \<Rightarrow> timing_record \<Rightarrow> http_observation option" where
  "timing_of_record upper letter r =
    Option.bind (parse_rfc3339 (tr_timestamp r)) (\<lambda>t.
    Option.bind (boundedInt (tr_status r) 100 599) (\<lambda>status.
    Option.bind (if tr_upstream_status r \<noteq> [] \<and> tr_upstream_status r \<noteq> ''-''
      then firstStatus (tr_upstream_status r) else Some 0) (\<lambda>upstream_status.
    Option.bind (timingMilliseconds (tr_request r) True) (\<lambda>request.
    Option.bind (timingMilliseconds (tr_connect r) False) (\<lambda>connect.
    Option.bind (timingMilliseconds (tr_header r) False) (\<lambda>header.
    Option.bind (timingMilliseconds (tr_response r) False) (\<lambda>response.
    Option.bind (boundedInt (tr_sent r) 0 (2 ^ 50)) (\<lambda>sent_bytes.
    Option.bind (boundedInt (tr_length r) 0 (2 ^ 40)) (\<lambda>request_bytes.
    Option.bind (boundedInt (tr_connections r) 0 (2 ^ 31)) (\<lambda>connections.
      Some \<lparr>ob_at = t, ob_method = known_method upper (tr_method r), ob_family = normalizeRouteFamily (tr_family r),
        ob_status = status, ob_upstream_status = upstream_status, ob_duration = request, ob_connect = connect,
        ob_header = header, ob_response = response, ob_sent = sent_bytes, ob_received = request_bytes,
        ob_connection_requests = connections, ob_upstream = normalizeUpstream letter (tr_address r)\<rparr>))))))))))"

definition timing_Parse ::
  "json_text \<Rightarrow> (gostring \<Rightarrow> gostring) \<Rightarrow> (gostring \<Rightarrow> bool) \<Rightarrow> gostring \<Rightarrow> http_observation option" where
  "timing_Parse jt upper letter line =
    Option.bind (unmarshal jt timing_field zero_timing line) (timing_of_record upper letter)"

end
