(* ===== verification/Perf_Query.thy ===== *)
theory Perf_Query
  imports Perf_Store
begin

text \<open>
  \<open>internal/service/performance.go\<close> and the completed-minute value of
  \<open>internal/service/performance_alerts.go\<close>: bounded windows over the buckets, their percentiles, the comparison with
  the window before, the timeline that aligns the signals, and the freshness of the collectors.  The rows of
  the metrics and the deploys come from stores with another world: the timeline takes what they answer.
  Go iterates over its maps in any order: the routes and the points are in order of first occurrence.
\<close>

section \<open>The query\<close>

definition defaultPerformanceRange :: duration where "defaultPerformanceRange = hour"
definition maxMinuteRange :: duration where "maxMinuteRange = 7 * 24 * hour"
definition maxHourlyRange :: duration where "maxHourlyRange = 30 * 24 * hour"
definition maxPerformancePoints :: nat where "maxPerformancePoints = 1500"
definition maxPerformanceRows :: int where "maxPerformanceRows = 100"
definition collectorStaleAfter :: duration where "collectorStaleAfter = 3 * minute"

definition performanceRouteFamilies :: "gostring list" where
  "performanceRouteFamilies =
    [''health'', ''auth'', ''public_events'', ''account_orders'', ''checkout'', ''callbacks'', ''admin'',
     ''organization'', ''static'', ''other'']"

definition performanceSorts :: "gostring list" where
  "performanceSorts = [''p95_ms'', ''request_count'', ''error_rate'', ''route_family'']"

definition collectorSources :: "gostring list" where
  "collectorSources =
    [''nginx'', ''postgres'', ''redis'', ''log_volume'', ''docker_events'', ''security_posture'',
     ''security_process'', ''security_diff'']"

record perf_query =
  pq_service :: gostring
  pq_start :: instant
  pq_end :: instant
  pq_resolution :: gostring
  pq_family :: gostring
  pq_sort :: gostring
  pq_limit :: int

definition ResolutionAuto :: gostring where "ResolutionAuto = ''auto''"
definition ResolutionMinute :: gostring where "ResolutionMinute = ''minute''"
definition ResolutionHour :: gostring where "ResolutionHour = ''hour''"

definition fill_window :: "instant \<Rightarrow> perf_query \<Rightarrow> perf_query" where
  "fill_window now q =
    (let stop = (if is_zero_time (pq_end q) then now else pq_end q);
         start = (if is_zero_time (pq_start q) then stop - defaultPerformanceRange else pq_start q)
     in q\<lparr>pq_start := start, pq_end := stop\<rparr>)"

definition fill_resolution :: "duration \<Rightarrow> perf_query \<Rightarrow> perf_query" where
  "fill_resolution d q =
    (if pq_resolution q = [] \<or> pq_resolution q = ResolutionAuto
     then q\<lparr>pq_resolution := (if int maxPerformancePoints * minute < d then ResolutionHour else ResolutionMinute)\<rparr>
     else q)"

definition check_resolution :: "duration \<Rightarrow> gostring \<Rightarrow> err + unit" where
  "check_resolution d r =
    (if r = ResolutionMinute
     then (if maxMinuteRange < d then Inl (ErrInvalidInput ''minute range exceeds 7 days'') else Inr ())
     else if r = ResolutionHour
     then (if maxHourlyRange < d then Inl (ErrInvalidInput ''hourly range exceeds 30 days'') else Inr ())
     else Inl (ErrInvalidInput ''invalid resolution''))"

definition normalize :: "instant \<Rightarrow> perf_query \<Rightarrow> ('z perf_world_scheme, err, perf_query) prog" where
  "normalize now q0 =
    (let q1 = fill_window now q0; d = time_sub (pq_end q1) (pq_start q1);
         q2 = fill_resolution d q1;
         q3 = q2\<lparr>pq_sort := (if pq_sort q2 = [] then ''p95_ms'' else pq_sort q2)\<rparr>;
         q4 = q3\<lparr>pq_limit := (if pq_limit q3 = 0 then maxPerformanceRows else pq_limit q3)\<rparr>
     in andthen (guardE (pq_start q1 < pq_end q1) (ErrInvalidInput ''end must be after start''))
       (andthen (of_result (check_resolution d (pq_resolution q2)))
       (andthen (guardE (pq_sort q3 \<in> set performanceSorts) (ErrInvalidInput ''invalid sort''))
       (andthen (guardE (pq_family q3 = [] \<or> pq_family q3 \<in> set performanceRouteFamilies)
          (ErrInvalidInput ''invalid route family''))
       (andthen (guardE (1 \<le> pq_limit q4 \<and> pq_limit q4 \<le> maxPerformanceRows) (ErrInvalidInput ''limit must be 1-100''))
       (if pq_service q4 = [] then ret q4
        else bindE (svc_get (pq_service q4)) (\<lambda>_. ret q4)))))))"

definition performanceRange :: "perf_query \<Rightarrow> int \<Rightarrow> perf_range" where
  "performanceRange q limit =
    \<lparr>rg_service = pq_service q, rg_start = pq_start q, rg_end = pq_end q, rg_limit = limit\<rparr>"

definition httpBuckets :: "perf_query \<Rightarrow> ('z perf_world_scheme, err, http_bucket list) prog" where
  "httpBuckets q =
    bindE (map_error (\<lambda>_. ErrOther ''loading HTTP performance'')
       ((if pq_resolution q = ResolutionHour then ListHTTPHourly else ListHTTP) (performanceRange q 10000)))
     (\<lambda>found. ret (if pq_family q = [] then found else filter (\<lambda>b. hd_family (hb_dims b) = pq_family q) found))"

section \<open>Aggregates\<close>

record snapshot_row =
  sp_requests :: int
  sp_errors :: int
  sp_error_rate :: rat
  sp_average :: rat
  sp_p50 :: rat
  sp_p95 :: rat
  sp_p99 :: rat

definition percent :: "int \<Rightarrow> int \<Rightarrow> rat" where
  "percent part whole =
    (if whole \<le> 0 then 0 else float_mult (float_divide (float_of part) (float_of whole)) 100)"

text \<open>The upper bounds by which a percentile is reported; the last counter has that of the one before it.\<close>

definition report_bounds :: "rat list" where
  "report_bounds = [10, 25, 50, 100, 250, 500, 1000, 2500, 5000, 5000]"

fun percentile_from :: "int \<Rightarrow> int \<Rightarrow> (int \<times> rat) list \<Rightarrow> rat" where
  "percentile_from target seen [] = last report_bounds"
| "percentile_from target seen ((n, b) # rest) =
    (if target \<le> seen + n then b else percentile_from target (seen + n) rest)"

definition histogramPercentile :: "rat \<Rightarrow> histogram \<Rightarrow> rat" where
  "histogramPercentile quantile h =
    (let all = sum_list (hist_counts h) in
     if all = 0 then 0
     else percentile_from \<lceil>float_mult (float_of all) quantile\<rceil> 0 (zip (hist_counts h) report_bounds))"

text \<open>The constants 0.50, 0.95 and 0.99 as \<open>float64\<close>.\<close>

definition q50 :: rat where "q50 = round64 (1 / 2)"
definition q95 :: rat where "q95 = round64 (95 / 100)"
definition q99 :: rat where "q99 = round64 (99 / 100)"

definition summarizeHTTP :: "http_bucket list \<Rightarrow> snapshot_row" where
  "summarizeHTTP found =
    (let total = sum_list (map hb_counts found);
         ms = fold (\<lambda>b a. float_add a (hb_duration b)) found 0
     in \<lparr>sp_requests = requests total, sp_errors = errors total,
         sp_error_rate = percent (errors total) (requests total),
         sp_average = (if 0 < requests total then float_divide ms (float_of (requests total)) else ms),
         sp_p50 = histogramPercentile q50 (hist total), sp_p95 = histogramPercentile q95 (hist total),
         sp_p99 = histogramPercentile q99 (hist total)\<rparr>)"

record anomaly =
  an_kind :: gostring
  an_score :: rat

definition rankAnomalies :: "snapshot_row \<Rightarrow> snapshot_row \<Rightarrow> anomaly list" where
  "rankAnomalies current previous =
    (let latency =
       (if 0 < sp_p95 previous \<and> sp_p95 previous < sp_p95 current
        then [\<lparr>an_kind = ''latency'', an_score =
          float_mult (float_divide (float_sub (sp_p95 current) (sp_p95 previous)) (sp_p95 previous)) 100\<rparr>] else []);
       errs =
       (if sp_error_rate previous < sp_error_rate current \<and> 0 < sp_error_rate current
        then [\<lparr>an_kind = ''errors'', an_score = float_sub (sp_error_rate current) (sp_error_rate previous)\<rparr>] else [])
     in sort_key (\<lambda>a. - an_score a) (latency @ errs))"

record summary_view =
  sv_start :: instant
  sv_end :: instant
  sv_resolution :: gostring
  sv_current :: snapshot_row
  sv_previous :: snapshot_row
  sv_anomalies :: "anomaly list"

definition previous_window :: "perf_query \<Rightarrow> perf_query" where
  "previous_window q = q\<lparr>pq_start := pq_start q - time_sub (pq_end q) (pq_start q), pq_end := pq_start q\<rparr>"

definition Summary :: "instant \<Rightarrow> perf_query \<Rightarrow> ('z perf_world_scheme, err, summary_view) prog" where
  "Summary now q0 =
    bindE (normalize now q0) (\<lambda>q.
    bindE (httpBuckets q) (\<lambda>current.
    bindE (httpBuckets (previous_window q)) (\<lambda>previous.
     let c = summarizeHTTP current; p = summarizeHTTP previous in
     ret \<lparr>sv_start = pq_start q, sv_end = pq_end q, sv_resolution = pq_resolution q, sv_current = c,
          sv_previous = p, sv_anomalies = rankAnomalies c p\<rparr>)))"

section \<open>Routes\<close>

record route_view =
  rv_method :: gostring
  rv_family :: gostring
  rv_current :: snapshot_row
  rv_previous :: snapshot_row

definition route_of :: "http_bucket \<Rightarrow> gostring \<times> gostring" where
  "route_of b = (hd_method (hb_dims b), hd_family (hb_dims b))"

definition groupRoutes :: "http_bucket list \<Rightarrow> gostring \<times> gostring \<Rightarrow> http_bucket list" where
  "groupRoutes found k = filter (\<lambda>b. route_of b = k) found"

definition sortRoutes :: "gostring \<Rightarrow> route_view list \<Rightarrow> route_view list" where
  "sortRoutes field found =
    (if field = ''request_count'' then sort_key (\<lambda>r. - sp_requests (rv_current r)) found
     else if field = ''error_rate'' then sort_key (\<lambda>r. - sp_error_rate (rv_current r)) found
     else if field = ''route_family'' then sort_key (\<lambda>r. (rv_family r, rv_method r)) found
     else sort_key (\<lambda>r. - sp_p95 (rv_current r)) found)"

definition Routes :: "instant \<Rightarrow> perf_query \<Rightarrow> ('z perf_world_scheme, err, route_view list) prog" where
  "Routes now q0 =
    bindE (normalize now q0) (\<lambda>q.
    bindE (httpBuckets q) (\<lambda>current.
    bindE (httpBuckets (previous_window q)) (\<lambda>previous.
     ret (take (nat (pq_limit q)) (sortRoutes (pq_sort q)
       (map (\<lambda>k. \<lparr>rv_method = fst k, rv_family = snd k, rv_current = summarizeHTTP (groupRoutes current k),
              rv_previous = summarizeHTTP (groupRoutes previous k)\<rparr>) (remdups (map route_of current))))))))"

definition perf_Postgres :: "instant \<Rightarrow> perf_query \<Rightarrow> ('z perf_world_scheme, err, native_bucket list) prog" where
  "perf_Postgres now q0 = bindE (normalize now q0) (\<lambda>q. ListPostgres (performanceRange q (pq_limit q)))"

definition perf_Redis :: "instant \<Rightarrow> perf_query \<Rightarrow> ('z perf_world_scheme, err, native_bucket list) prog" where
  "perf_Redis now q0 = bindE (normalize now q0) (\<lambda>q. ListRedis (performanceRange q (pq_limit q)))"

section \<open>The timeline\<close>

text \<open>A resource sample, as the metrics store lists it.\<close>

record resource_sample =
  rs_at :: instant
  rs_cpu :: rat
  rs_mem :: int
  rs_limit :: int

record timeline_point =
  tp_at :: instant
  tp_requests :: int
  tp_errors :: int
  tp_error_rate :: rat
  tp_p50 :: rat
  tp_p95 :: rat
  tp_p99 :: rat
  tp_log_errors :: int
  tp_log_warnings :: int
  tp_cpu :: "rat option"
  tp_memory :: "rat option"
  tp_connections :: "rat option"
  tp_evictions :: "rat option"

definition truncatePerformanceTime :: "instant \<Rightarrow> gostring \<Rightarrow> instant" where
  "truncatePerformanceTime t resolution = (if resolution = ResolutionHour then hour_of t else minute_of t)"

definition float_mean :: "rat list \<Rightarrow> rat option" where
  "float_mean xs =
    (if xs = [] then None else Some (float_divide (fold (\<lambda>x a. float_add a x) xs 0) (float_of (int (length xs)))))"

definition last_value :: "('a \<Rightarrow> bool) \<Rightarrow> ('a \<Rightarrow> 'b) \<Rightarrow> 'a list \<Rightarrow> 'b option" where
  "last_value P f xs = map_option f (first_where P (rev xs))"

text \<open>The rows of one point: those whose time truncates to it.\<close>

definition timeline_point_of ::
  "gostring \<Rightarrow> http_bucket list \<Rightarrow> volume_bucket list \<Rightarrow> native_bucket list \<Rightarrow> native_bucket list
    \<Rightarrow> resource_sample list \<Rightarrow> instant \<Rightarrow> timeline_point" where
  "timeline_point_of res https logs pgs redis mets tm =
    (let mine = (\<lambda>t. truncatePerformanceTime t res = tm);
         counts = sum_list (map hb_counts (filter (\<lambda>b. mine (hb_start b)) https));
         lines = (\<lambda>level. sum_list (map vb_lines (filter (\<lambda>b. mine (vb_start b) \<and> vb_severity b = level) logs)));
         pg = (\<lambda>m. last_value (\<lambda>b. mine (nb_start b) \<and> nb_metric b = m) nb_value pgs);
         samples = filter (\<lambda>s. mine (rs_at s)) mets;
         limited = filter (\<lambda>s. 0 < rs_limit s) samples
     in \<lparr>tp_at = tm, tp_requests = requests counts, tp_errors = errors counts,
         tp_error_rate = percent (errors counts) (requests counts),
         tp_p50 = histogramPercentile q50 (hist counts), tp_p95 = histogramPercentile q95 (hist counts),
         tp_p99 = histogramPercentile q99 (hist counts),
         tp_log_errors = lines ''error'', tp_log_warnings = lines ''warn'',
         tp_cpu = float_mean (map rs_cpu samples),
         tp_memory = float_mean (map (\<lambda>s. float_mult (float_divide (float_of (rs_mem s)) (float_of (rs_limit s))) 100) limited),
         tp_connections = (case pg ''connections_total'' of
             None \<Rightarrow> None
           | Some used \<Rightarrow> (case pg ''max_connections'' of
               None \<Rightarrow> None
             | Some most \<Rightarrow> if 0 < most then Some (float_mult (float_divide used most) 100) else None)),
         tp_evictions = last_value (\<lambda>b. mine (nb_start b) \<and> nb_metric b = ''evicted_keys'') nb_delta redis\<rparr>)"

text \<open>The times at which there is a point: those of the rows, in which of the Redis rows only evictions count.\<close>

definition timeline_times ::
  "gostring \<Rightarrow> http_bucket list \<Rightarrow> volume_bucket list \<Rightarrow> native_bucket list \<Rightarrow> native_bucket list
    \<Rightarrow> resource_sample list \<Rightarrow> instant list" where
  "timeline_times res https logs pgs redis mets =
    remdups (map (\<lambda>t. truncatePerformanceTime t res)
      (map hb_start https @ map vb_start logs @ map nb_start pgs @
       map nb_start (filter (\<lambda>b. nb_metric b = ''evicted_keys'') redis) @ map rs_at mets))"

definition last_points :: "timeline_point list \<Rightarrow> timeline_point list" where
  "last_points ps = drop (length ps - maxPerformancePoints) ps"

record 'd timeline_view =
  tv_start :: instant
  tv_end :: instant
  tv_resolution :: gostring
  tv_points :: "timeline_point list"
  tv_events :: "container_event list"
  tv_deploys :: "'d list"

definition Timeline ::
  "(perf_range \<Rightarrow> err + resource_sample list) \<Rightarrow> (perf_range \<Rightarrow> err + 'd list) \<Rightarrow> instant \<Rightarrow> perf_query
    \<Rightarrow> ('z perf_world_scheme, err, 'd timeline_view) prog" where
  "Timeline list_metrics list_deploys now q0 =
    bindE (normalize now q0) (\<lambda>q.
    bindE (httpBuckets q) (\<lambda>https.
    bindE (map_error (\<lambda>_. ErrOther ''loading log volume'') (ListLogVolume (performanceRange q 10000))) (\<lambda>logs.
    bindE (map_error (\<lambda>_. ErrOther ''loading postgres timeline'') (ListPostgres (performanceRange q 10000))) (\<lambda>pgs.
    bindE (map_error (\<lambda>_. ErrOther ''loading redis timeline'') (ListRedis (performanceRange q 10000))) (\<lambda>redis.
    bindE (map_error (\<lambda>_. ErrOther ''loading resource timeline'') (of_result (list_metrics (performanceRange q 10000)))) (\<lambda>mets.
    bindE (map_error (\<lambda>_. ErrOther ''loading runtime events'') (ListContainerEvents (performanceRange q 1000))) (\<lambda>events.
    bindE (map_error (\<lambda>_. ErrOther ''loading deployments'') (of_result (list_deploys (performanceRange q 1000)))) (\<lambda>deploys.
     let r = pq_resolution q in
     ret \<lparr>tv_start = pq_start q, tv_end = pq_end q, tv_resolution = r,
          tv_points = last_points (sort_key tp_at
            (map (timeline_point_of r https logs pgs redis mets) (timeline_times r https logs pgs redis mets))),
          tv_events = events, tv_deploys = deploys\<rparr>))))))))"

section \<open>The collectors\<close>

record collector_status =
  st_source :: gostring
  st_success :: instant
  st_recorded :: instant
  st_error :: gostring
  st_dropped :: int
  st_complete :: bool
  st_interval :: int
  st_stale :: bool

definition stale_success :: "instant \<Rightarrow> cursor \<Rightarrow> bool" where
  "stale_success now c \<longleftrightarrow> is_zero_time (cu_success c) \<or> collectorStaleAfter < time_sub now (cu_success c)"

definition status_of :: "instant \<Rightarrow> gostring \<Rightarrow> cursor \<Rightarrow> collector_status" where
  "status_of now source c =
    \<lparr>st_source = source, st_success = cu_success c, st_recorded = cu_recorded c, st_error = cu_error c,
     st_dropped = cu_dropped c, st_complete = cu_complete c, st_interval = cu_interval c,
     st_stale = (if source = ''docker_events'' \<and> cu_error c = [] \<and> \<not> is_zero_time (cu_success c) then False
       else stale_success now c)\<rparr>"

definition never_run :: "gostring \<Rightarrow> collector_status" where
  "never_run source =
    \<lparr>st_source = source, st_success = zero_time, st_recorded = zero_time, st_error = [], st_dropped = 0,
     st_complete = False, st_interval = 0, st_stale = True\<rparr>"

definition one_status :: "instant \<Rightarrow> gostring \<Rightarrow> ('z perf_world_scheme, err, collector_status) prog" where
  "one_status now source =
    bindE (attempt (cursor_Get source)) (\<lambda>r :: err + cursor.
      case r of
        Inr c \<Rightarrow> ret (status_of now source c)
      | Inl e \<Rightarrow> if e = ErrCollectorCursorNotFound source then ret (never_run source)
               else throw (ErrOther ''loading collector status''))"

definition CollectorStatus :: "instant \<Rightarrow> ('z perf_world_scheme, err, collector_status list) prog" where
  "CollectorStatus now = map_each (one_status now) collectorSources"

section \<open>The value of an alert\<close>

definition performanceMetricSource :: "gostring \<Rightarrow> gostring" where
  "performanceMetricSource m =
    (if m = ''http_p95_ms'' \<or> m = ''http_error_rate'' then ''nginx''
     else if m = ''postgres_connection_pct'' then ''postgres''
     else if m = ''redis_evictions'' then ''redis'' else [])"

definition completed_minute :: "instant \<Rightarrow> gostring \<Rightarrow> perf_range" where
  "completed_minute now sid =
    \<lparr>rg_service = sid, rg_start = minute_of now - minute, rg_end = minute_of now, rg_limit = 100\<rparr>"

definition last_or_zero :: "gostring \<Rightarrow> native_bucket list \<Rightarrow> rat" where
  "last_or_zero m found = (case last_value (\<lambda>b. nb_metric b = m) nb_value found of None \<Rightarrow> 0 | Some v \<Rightarrow> v)"

definition minute_value ::
  "gostring \<Rightarrow> perf_range \<Rightarrow> ('z perf_world_scheme, err, rat option) prog" where
  "minute_value m q =
    (if m = ''http_p95_ms'' \<or> m = ''http_error_rate'' then
       bindE (map_error (\<lambda>_. ErrOther ''loading completed HTTP bucket'') (ListHTTP q)) (\<lambda>found.
        ret (if found = [] then None
          else Some (if m = ''http_p95_ms'' then sp_p95 (summarizeHTTP found) else sp_error_rate (summarizeHTTP found))))
     else if m = ''postgres_connection_pct'' then
       bindE (map_error (\<lambda>_. ErrOther ''loading completed postgres bucket'') (ListPostgres q)) (\<lambda>found.
        let used = last_or_zero ''connections_total'' found; most = last_or_zero ''max_connections'' found in
        ret (if most \<le> 0 then None else Some (float_mult (float_divide used most) 100)))
     else
       bindE (map_error (\<lambda>_. ErrOther ''loading completed redis bucket'') (ListRedis q)) (\<lambda>found.
        ret (map_option nb_delta (first_where (\<lambda>b. nb_metric b = ''evicted_keys'' \<and> \<not> nb_reset b) found))))"

definition AlertValue :: "instant \<Rightarrow> gostring \<Rightarrow> gostring \<Rightarrow> ('z perf_world_scheme, err, rat option) prog" where
  "AlertValue now sid m =
    bindE (svc_get sid) (\<lambda>_.
     let source = performanceMetricSource m in
     andthen (guardE (source \<noteq> []) (ErrInvalidInput ''invalid performance metric''))
    (bindE (attempt (cursor_Get source)) (\<lambda>r :: err + cursor.
      case r of
        Inl e \<Rightarrow> if e = ErrCollectorCursorNotFound source then ret None
                else throw (ErrOther ''loading collector status'')
      | Inr c \<Rightarrow>
         if stale_success now c then ret None else minute_value m (completed_minute now sid))))"

end
