(* ===== verification/Perf_Laws.thy ===== *)
theory Perf_Laws
  imports Nginx_Timing Perf_Query
begin

text \<open>
  The hourly rollup of the HTTP timings is the sum of the minutes, on any fault: what one upsert does, and that
  every write of the collector and a rollup of a range keep the sums.
\<close>

section \<open>Additive rows\<close>

definition row_key :: "http_bucket \<Rightarrow> instant \<times> http_dims" where
  "row_key b = (hb_start b, hb_dims b)"

lemma same_row_key: "same_row b c \<longleftrightarrow> row_key b = row_key c"
  by (simp add: same_row_def row_key_def)

lemma add_row_fields [simp]:
  "row_key (add_row b c) = row_key c" "hb_counts (add_row b c) = hb_counts c + hb_counts b"
  "hb_start (add_row b c) = hb_start c" "hb_dims (add_row b c) = hb_dims c"
  by (simp_all add: add_row_def row_key_def)

lemma keys_merge:
  "map row_key (merge_http b bs) = map row_key bs @ (if row_key b \<in> row_key ` set bs then [] else [row_key b])"
  by (auto simp: merge_http_def map_where_def list_ex_iff same_row_key)

lemma distinct_merge: "distinct (map row_key bs) \<Longrightarrow> distinct (map row_key (merge_http b bs))"
  by (simp add: keys_merge)

text \<open>The counters of the rows that a property of their key selects.\<close>

definition counts_where :: "(instant \<times> http_dims \<Rightarrow> bool) \<Rightarrow> http_bucket list \<Rightarrow> http_counts" where
  "counts_where P bs = sum_list (map hb_counts (filter (\<lambda>b. P (row_key b)) bs))"

lemma counts_where_simps [simp]:
  "counts_where P [] = 0"
  "counts_where P (b # bs) = (if P (row_key b) then hb_counts b else 0) + counts_where P bs"
  "counts_where P (bs @ cs) = counts_where P bs + counts_where P cs"
  by (simp_all add: counts_where_def)

lemma counts_untouched:
  "row_key b \<notin> row_key ` set bs \<Longrightarrow> map_where (same_row b) f bs = bs"
  by (induction bs) (auto simp: map_where_def same_row_key)

lemma counts_updated:
  "distinct (map row_key bs) \<Longrightarrow> row_key b \<in> row_key ` set bs \<Longrightarrow>
    counts_where P (map_where (same_row b) (add_row b) bs) =
      counts_where P bs + (if P (row_key b) then hb_counts b else 0)"
proof (induction bs)
  case (Cons c bs)
  show ?case
  proof (cases "row_key b = row_key c")
    case True
    then have "map_where (same_row b) (add_row b) (c # bs) = add_row b c # bs"
      using Cons.prems(1) counts_untouched [of b bs] by (simp add: map_where_def same_row_key)
    then show ?thesis using True by (simp add: ac_simps)
  next
    case False
    then have "map_where (same_row b) (add_row b) (c # bs) = c # map_where (same_row b) (add_row b) bs"
      by (simp add: map_where_def same_row_key)
    then show ?thesis using Cons False by (auto simp: ac_simps)
  qed
qed simp

lemma counts_merge:
  assumes "distinct (map row_key bs)"
  shows "counts_where P (merge_http b bs) = counts_where P bs + (if P (row_key b) then hb_counts b else 0)"
proof (cases "row_key b \<in> row_key ` set bs")
  case True
  then have "list_ex (same_row b) bs" by (auto simp: list_ex_iff same_row_key)
  then show ?thesis using counts_updated [OF assms True] by (simp add: merge_http_def)
next
  case False
  then have "\<not> list_ex (same_row b) bs" by (auto simp: list_ex_iff same_row_key)
  then show ?thesis by (simp add: merge_http_def)
qed

section \<open>What an upsert does\<close>

definition on_minute :: "http_bucket \<Rightarrow> http_bucket" where
  "on_minute b = b\<lparr>hb_start := minute_of (hb_start b)\<rparr>"

definition on_hour :: "http_bucket \<Rightarrow> http_bucket" where
  "on_hour b = b\<lparr>hb_start := hour_of (hb_start b)\<rparr>"

definition upserted :: "gostring \<Rightarrow> http_bucket \<Rightarrow> 'z perf_world_scheme \<Rightarrow> 'z perf_world_scheme" where
  "upserted key b0 w =
    (let b = on_minute b0 in
     if ingest_marked key (httpBucketKey b) w then w
     else w\<lparr>pf_marks := pf_marks w @ [\<lparr>im_key = key, im_bucket = httpBucketKey b, im_start = hb_start b\<rparr>],
            pf_minutes := merge_http b (pf_minutes w), pf_hours := merge_http (on_hour b) (pf_hours w)\<rparr>)"

lemma upserted_blind [simp]: "upserted key b (w\<lparr>faults := fs\<rparr>) = (upserted key b w)\<lparr>faults := fs\<rparr>"
  by (simp add: upserted_def Let_def ingest_marked_def)

lemma UpsertHTTP_quiet:
  assumes "faults w = []" "validateHTTPBucket key b = Inr ()"
  shows "UpsertHTTP key b w = (Inr (), upserted key b w)"
  using assms
  by (simp add: UpsertHTTP_def upserted_def Let_def run_defs of_result_def tx_def on_minute_def on_hour_def)

lemma calm_UpsertHTTP: "calm (UpsertHTTP key b)"
  unfolding UpsertHTTP_def Let_def
  by (intro calm_rules) (auto simp: blind_def blind_update_def ingest_marked_def)

lemma atomic_UpsertHTTP: "atomic (UpsertHTTP key b)"
  unfolding UpsertHTTP_def Let_def by (intro atomic_rules)

lemma validated: "UpsertHTTP key b w = (Inr u, t) \<Longrightarrow> validateHTTPBucket key b = Inr ()"
  by (auto simp: UpsertHTTP_def returned of_result_def throw_def split: sum.splits)

lemma quiet_oracle: "t\<lparr>faults := []\<rparr> = u\<lparr>faults := []\<rparr> \<Longrightarrow> only_oracle u t"
  unfolding only_oracle_def by (metis sqldb.surjective sqldb.update_convs(1))

lemma UpsertHTTP_cases:
  assumes "UpsertHTTP key b w = (r, t)"
  shows "case r of Inl e \<Rightarrow> only_oracle w t | Inr u \<Rightarrow> only_oracle (upserted key b w) t"
proof (cases r)
  case (Inl e)
  then show ?thesis using assms atomicD [OF atomic_UpsertHTTP] by auto
next
  case (Inr u)
  let ?q = "w\<lparr>faults := []\<rparr>"
  have "UpsertHTTP key b ?q = (Inr u, t\<lparr>faults := []\<rparr>)"
    using assms Inr by (simp add: calmD [OF calm_UpsertHTTP])
  moreover have "UpsertHTTP key b ?q = (Inr (), upserted key b ?q)"
    by (rule UpsertHTTP_quiet) (use assms Inr validated in auto)
  ultimately have "t\<lparr>faults := []\<rparr> = (upserted key b w)\<lparr>faults := []\<rparr>" by simp
  then show ?thesis using Inr quiet_oracle by simp
qed

section \<open>The hourly rollup\<close>

definition in_hour :: "instant \<times> http_dims \<Rightarrow> instant \<times> http_dims \<Rightarrow> bool" where
  "in_hour k = (\<lambda>(t, d). (hour_of t, d) = k)"

definition hour_sum :: "instant \<times> http_dims \<Rightarrow> http_bucket list \<Rightarrow> http_counts" where
  "hour_sum k = counts_where (in_hour k)"

definition rollup_ok :: "'z perf_world_scheme \<Rightarrow> bool" where
  "rollup_ok w \<longleftrightarrow>
    distinct (map row_key (pf_minutes w)) \<and> distinct (map row_key (pf_hours w)) \<and>
    (\<forall>b\<in>set (pf_hours w). hour_of (hb_start b) = hb_start b) \<and>
    (\<forall>k. hour_sum k (pf_hours w) = hour_sum k (pf_minutes w))"

interpretation rollup_db: db_invariant rollup_ok
  by unfold_locales (simp add: rollup_ok_def)

lemma hour_of_idem [simp]: "hour_of (hour_of t) = hour_of t"
  by (simp add: hour_of_def hour_def)

lemma in_hour_on_hour: "in_hour k (row_key (on_hour b)) = in_hour k (row_key b)"
  by (simp add: in_hour_def row_key_def on_hour_def)

lemma merge_starts:
  "b' \<in> set (merge_http b bs) \<Longrightarrow> hb_start b' = hb_start b \<or> hb_start b' \<in> hb_start ` set bs"
  by (auto simp: merge_http_def map_where_def split: if_splits)

lemma on_hour_fields [simp]:
  "hb_start (on_hour b) = hour_of (hb_start b)" "hb_counts (on_hour b) = hb_counts b"
  by (simp_all add: on_hour_def)

lemma ok_upserted: "rollup_ok w \<Longrightarrow> rollup_ok (upserted key b w)"
  unfolding rollup_ok_def upserted_def Let_def hour_sum_def
  by (auto simp: distinct_merge counts_merge in_hour_on_hour dest!: merge_starts)

lemma rollup_oracle: "rollup_ok w \<Longrightarrow> only_oracle w t \<Longrightarrow> rollup_ok t"
  by (auto simp: only_oracle_ex rollup_db.oracle_blind)

lemma keeps_UpsertHTTP: "keeps rollup_ok (UpsertHTTP key b)"
  unfolding keeps_def
proof (intro allI impI)
  fix w :: "'a perf_world_scheme" assume ok: "rollup_ok w"
  obtain r t where run: "UpsertHTTP key b w = (r, t)" by fastforce
  show "rollup_ok (snd (UpsertHTTP key b w))"
    using UpsertHTTP_cases [OF run] rollup_oracle [OF ok] rollup_oracle [OF ok_upserted [OF ok]]
    by (cases r) (auto simp: run)
qed

lemma rollup_others [simp]:
  "rollup_ok (w\<lparr>pf_postgres := a\<rparr>) = rollup_ok w" "rollup_ok (w\<lparr>pf_redis := a\<rparr>) = rollup_ok w"
  "rollup_ok (w\<lparr>pf_statements := s\<rparr>) = rollup_ok w" "rollup_ok (w\<lparr>sw_cursors := cs\<rparr>) = rollup_ok w"
  "rollup_ok (w\<lparr>lg_batches := l\<rparr>) = rollup_ok w" "rollup_ok (w\<lparr>lg_volume := v\<rparr>) = rollup_ok w"
  by (simp_all add: rollup_ok_def)

lemma rollup_base [simp]: "rollup_ok (w\<lparr>cw_base := b\<rparr>) = rollup_ok w"
  by (simp add: rollup_ok_def)

named_theorems rollup_keeps \<open>operations that keep the rollup\<close>

lemma keeps_cursors [rollup_keeps]:
  "keeps rollup_ok (cursor_Get s)" "keeps rollup_ok (cursor_Upsert c)"
  unfolding cursor_Get_def cursor_Upsert_def by (intro keeps_rules rollup_db.keeps_stmt; simp)+

lemma keeps_record [rollup_keeps]:
  "keeps rollup_ok (recordFailure s e)" "keeps rollup_ok (recordSuccess s n a p l)" "keeps rollup_ok (save_quietly c)"
  unfolding recordFailure_def recordSuccess_def cursor_or_zero_def save_quietly_def
  by (intro keeps_rules rollup_keeps)+

lemma keeps_writing [rollup_keeps]:
  "keeps rollup_ok m \<Longrightarrow> keeps rollup_ok n \<Longrightarrow> keeps rollup_ok (writing s m n)"
  unfolding writing_def by (intro keeps_rules rollup_keeps) (auto intro: rollup_keeps split: sum.split)

lemma keeps_native [rollup_keeps]:
  "keeps rollup_ok (UpsertPostgres b)" "keeps rollup_ok (UpsertRedis b)" "keeps rollup_ok (UpsertPostgresStatement sb)"
  unfolding UpsertPostgres_def UpsertRedis_def UpsertPostgresStatement_def Let_def
  by (intro keeps_rules rollup_db.keeps_stmt; simp)+

lemma keeps_volume [rollup_keeps]: "keeps rollup_ok (UpsertLogVolume b)"
  unfolding UpsertLogVolume_def Let_def
  by (intro keeps_rules rollup_db.keeps_stmt rollup_db.keeps_tx; simp)

lemma keeps_collectHTTP [rollup_keeps]: "keeps rollup_ok (collectHTTP cfg tm a)"
  unfolding collectHTTP_def mergePersistedDrops_def Let_def
  by (auto intro!: keeps_rules rollup_keeps keeps_UpsertHTTP split: sum.split)

lemma keeps_collectPostgres [rollup_keeps]: "keeps rollup_ok (collectPostgres cfg tm now a)"
  unfolding collectPostgres_def postgres_metric_def postgres_statement_def
  by (auto intro!: keeps_rules rollup_keeps split: sum.split)

lemma keeps_collectRedis [rollup_keeps]: "keeps rollup_ok (collectRedis cfg tm now a)"
  unfolding collectRedis_def redis_metric_def redis_command_def redis_sample_def
  by (auto intro!: keeps_rules rollup_keeps split: sum.split)

lemma keeps_collectLogVolume [rollup_keeps]: "keeps rollup_ok (collectLogVolume a)"
  unfolding collectLogVolume_def by (auto intro!: keeps_rules rollup_keeps split: sum.split)

lemma keeps_perf_collect: "keeps rollup_ok (perf_collect cfg so)"
  unfolding perf_collect_def optionally_def Let_def
  by (auto intro!: keeps_rules rollup_keeps split: option.split)

section \<open>The rollup of a range\<close>

definition rolled :: "(rat list \<Rightarrow> rat) \<Rightarrow> instant \<Rightarrow> instant \<Rightarrow> 'z perf_world_scheme \<Rightarrow> 'z perf_world_scheme" where
  "rolled sum_real lo hi w =
    w\<lparr>pf_hours := filter (\<lambda>b. \<not> between lo hi b) (pf_hours w)
       @ rollup_rows sum_real (filter (between lo hi) (pf_minutes w))\<rparr>"

lemma hour_of_le: "hour_of t \<le> t"
  using minus_mod_eq_div_mult [of "t - zero_time" hour] pos_mod_sign [of hour "t - zero_time"]
  by (simp add: hour_of_def hour_def minute_def second_def)

lemma hour_of_mono: "t \<le> u \<Longrightarrow> hour_of t \<le> hour_of u"
  by (simp add: hour_of_def hour_def minute_def second_def zdiv_mono1)

lemma hour_of_between: "hour_of l \<le> hour_of t \<longleftrightarrow> hour_of l \<le> t"
  using hour_of_mono [of "hour_of l" t] hour_of_le [of t] by auto

lemma fixed_inject: "formatFixedTime t = formatFixedTime u \<longleftrightarrow> t = u"
  using text_less_fixed [of t u] text_less_fixed [of u t] text_less_fixed [of t t] by auto

lemma between_hour: "between (hour_of l) (hour_of h) b \<longleftrightarrow> hour_of l \<le> hour_of (hb_start b) \<and> hour_of (hb_start b) < hour_of h"
  using hour_of_between [of l "hb_start b"] hour_of_between [of h "hb_start b"]
  by (auto simp: between_def text_less_fixed text_le_def fixed_inject)

lemma rollup_row_key [simp]:
  "row_key (rollup_row f bs k) = k" "hb_start (rollup_row f bs k) = fst k"
  by (simp_all add: rollup_row_def row_key_def Let_def)

lemma keys_rollup: "map row_key (rollup_rows f bs) = remdups (map hour_row bs)"
  by (simp add: rollup_rows_def comp_def)

lemma sum_of_key:
  fixes F :: "'k \<Rightarrow> 'a :: comm_monoid_add"
  shows "distinct ks \<Longrightarrow> sum_list (map F (filter (\<lambda>j. j = k) ks)) = (if k \<in> set ks then F k else 0)"
  by (induction ks) auto

lemma in_hour_row: "in_hour k (row_key b) \<longleftrightarrow> hour_row b = k"
  by (simp add: in_hour_def row_key_def hour_row_def)

lemma whole_hour_key: "j \<in> hour_row ` set bs \<Longrightarrow> in_hour k j \<longleftrightarrow> j = k"
  by (auto simp: in_hour_def hour_row_def)

lemma hour_sum_rollup: "hour_sum k (rollup_rows f bs) = hour_sum k bs"
proof -
  have "filter (\<lambda>b. in_hour k (row_key b)) (rollup_rows f bs)
      = map (rollup_row f bs) (filter (\<lambda>j. j = k) (remdups (map hour_row bs)))"
    by (simp add: rollup_rows_def filter_map comp_def) (rule arg_cong [where f = "map _"], rule filter_cong, auto simp: whole_hour_key)
  then have "hour_sum k (rollup_rows f bs) =
      sum_list (map (\<lambda>j. hb_counts (rollup_row f bs j)) (filter (\<lambda>j. j = k) (remdups (map hour_row bs))))"
    by (simp add: hour_sum_def counts_where_def comp_def)
  also have "\<dots> = (if k \<in> hour_row ` set bs then hb_counts (rollup_row f bs k) else 0)"
    by (simp add: sum_of_key)
  also have "\<dots> = hour_sum k bs"
  proof (cases "k \<in> hour_row ` set bs")
    case True
    then show ?thesis by (simp add: hour_sum_def counts_where_def rollup_row_def in_hour_row Let_def)
  next
    case False
    then have "filter (\<lambda>b. hour_row b = k) bs = []" by (auto simp: filter_empty_conv)
    then show ?thesis using False by (simp add: hour_sum_def counts_where_def in_hour_row)
  qed
  finally show ?thesis .
qed

lemma counts_where_filter:
  "counts_where P (filter Q bs) = counts_where P bs" if "\<And>b. b \<in> set bs \<Longrightarrow> P (row_key b) \<Longrightarrow> Q b"
  using that by (induction bs) auto

lemma counts_where_none:
  "counts_where P bs = 0" if "\<And>b. b \<in> set bs \<Longrightarrow> \<not> P (row_key b)"
  using that by (induction bs) auto

lemma ok_rolled:
  assumes ok: "rollup_ok w"
  shows "rollup_ok (rolled f (hour_of l) (hour_of h) w)"
proof -
  let ?in = "between (hour_of l) (hour_of h)"
  let ?kept = "filter (\<lambda>b. \<not> ?in b) (pf_hours w)" and ?mine = "filter ?in (pf_minutes w)"
  have whole: "\<And>b. b \<in> set (pf_hours w) \<Longrightarrow> hour_of (hb_start b) = hb_start b"
    using ok by (simp add: rollup_ok_def)
  have "distinct (map row_key (?kept @ rollup_rows f ?mine))"
    using ok whole
    by (auto simp: rollup_ok_def keys_rollup distinct_map inj_on_def row_key_def hour_row_def between_hour)
  moreover have "\<forall>b\<in>set (rollup_rows f ?mine). hour_of (hb_start b) = hb_start b"
    by (auto simp: rollup_rows_def hour_row_def)
  moreover have "hour_sum k (?kept @ rollup_rows f ?mine) = hour_sum k (pf_minutes w)" for k
  proof (cases "hour_of l \<le> fst k \<and> fst k < hour_of h")
    case True
    have "hour_sum k ?kept = 0"
      unfolding hour_sum_def using True by (intro counts_where_none) (auto simp: in_hour_row hour_row_def between_hour)
    moreover have "hour_sum k ?mine = hour_sum k (pf_minutes w)"
      unfolding hour_sum_def using True by (intro counts_where_filter) (auto simp: in_hour_row hour_row_def between_hour)
    ultimately show ?thesis using hour_sum_rollup [of k f ?mine] by (simp add: hour_sum_def)
  next
    case False
    have "hour_sum k ?kept = hour_sum k (pf_hours w)"
      unfolding hour_sum_def using False by (intro counts_where_filter) (auto simp: in_hour_row hour_row_def between_hour)
    moreover have "hour_sum k ?mine = 0"
      unfolding hour_sum_def using False by (intro counts_where_none) (auto simp: in_hour_row hour_row_def between_hour)
    moreover have "hour_sum k (pf_hours w) = hour_sum k (pf_minutes w)" using ok unfolding rollup_ok_def by blast
    ultimately show ?thesis using hour_sum_rollup [of k f ?mine] by (simp add: hour_sum_def)
  qed
  ultimately show ?thesis using ok by (auto simp: rollup_ok_def rolled_def)
qed

lemma RollupHTTP_quiet:
  assumes "faults w = []" "hour_of l < hour_of h"
  shows "RollupHTTP f l h w = (Inr (), rolled f (hour_of l) (hour_of h) w)"
  using assms by (simp add: RollupHTTP_def Let_def rolled_def run_defs tx_def)

lemma RollupHTTP_run:
  fixes w :: "'z perf_world_scheme"
  assumes "RollupHTTP f l h w = (r, t)"
  shows "only_oracle w t \<or> only_oracle (rolled f (hour_of l) (hour_of h) w) t"
proof (cases r)
  case (Inl e)
  have "atomic (RollupHTTP f l h :: ('z perf_world_scheme, err, unit) prog)"
    unfolding RollupHTTP_def Let_def by (intro atomic_rules)
  then have "only_oracle w t" by (rule atomicD) (use assms Inl in simp)
  then show ?thesis ..
next
  case (Inr u)
  have "calm (RollupHTTP f l h :: ('z perf_world_scheme, err, unit) prog)"
    unfolding RollupHTTP_def Let_def by (intro calm_rules) (auto simp: blind_def blind_update_def)
  then have "RollupHTTP f l h (w\<lparr>faults := []\<rparr>) = (Inr u, t\<lparr>faults := []\<rparr>)"
    using assms Inr by (simp add: calmD)
  moreover have "hour_of l < hour_of h"
    using assms Inr by (auto simp: RollupHTTP_def Let_def guardE_def run_defs split: if_splits)
  ultimately have "t\<lparr>faults := []\<rparr> = rolled f (hour_of l) (hour_of h) (w\<lparr>faults := []\<rparr>)"
    by (simp add: RollupHTTP_quiet)
  then have "t\<lparr>faults := []\<rparr> = (rolled f (hour_of l) (hour_of h) w)\<lparr>faults := []\<rparr>" by (simp add: rolled_def)
  then show ?thesis using quiet_oracle by blast
qed

text \<open>C33: Whatever faults occur, a pass of the collector and a rollup of a range leave, for every hour and set of
  dimensions, hourly counters that are the sum of those of the minutes; keys stay unique.\<close>

theorem hourly_is_sum:
  "keeps rollup_ok (perf_collect cfg so) \<and> keeps rollup_ok (RollupHTTP sum_real l h)"
proof
  show "keeps rollup_ok (perf_collect cfg so)" by (rule keeps_perf_collect)
  show "keeps rollup_ok (RollupHTTP sum_real l h)"
    unfolding keeps_def
  proof (intro allI impI)
    fix w :: "'d perf_world_scheme" assume "rollup_ok w"
    then show "rollup_ok (snd (RollupHTTP sum_real l h w))"
      using RollupHTTP_run [of sum_real l h w, OF surjective_pairing] by (auto intro: rollup_oracle ok_rolled)
  qed
qed

end
