(* ===== verification/Perf_Faults.thy ===== *)
theory Perf_Faults
  imports Perf_Laws "HOL-Library.Multiset"
begin

text \<open>
  A batch of timings that is written twice: under the same key it counts once; when its cursor was not saved
  and the log has grown, the key is another and it counts twice.  The samples of one minute: the row keeps
  the delta of the last one only.  Which rank a reported percentile has, and which rows of a window a summary reads.
\<close>

section \<open>A batch under a key\<close>

definition http_tables :: "'z perf_world_scheme \<Rightarrow> http_bucket list \<times> http_bucket list \<times> ingest_mark list" where
  "http_tables w = (pf_minutes w, pf_hours w, pf_marks w)"

lemma tables_blind [simp]: "http_tables (w\<lparr>faults := fs\<rparr>) = http_tables w"
  by (simp add: http_tables_def)

lemma tables_oracle: "only_oracle w t \<Longrightarrow> http_tables t = http_tables w"
  by (auto simp: only_oracle_ex)

definition marked_in :: "gostring \<Rightarrow> http_bucket \<Rightarrow> 'z perf_world_scheme \<Rightarrow> bool" where
  "marked_in key b w \<longleftrightarrow> ingest_marked key (httpBucketKey (on_minute b)) w"

lemma marked_tables: "http_tables w = http_tables w' \<Longrightarrow> marked_in key b w = marked_in key b w'"
  by (simp add: http_tables_def marked_in_def ingest_marked_def)

lemma upserted_marks [simp]: "marked_in key b (upserted key b w)"
  by (simp add: upserted_def Let_def marked_in_def ingest_marked_def)

lemma upserted_keeps_marks: "marked_in k c w \<Longrightarrow> marked_in k c (upserted key b w)"
  by (simp add: upserted_def Let_def marked_in_def ingest_marked_def)

lemma upserted_known: "marked_in key b w \<Longrightarrow> upserted key b w = w"
  by (simp add: upserted_def Let_def marked_in_def)

lemma upserted_tables:
  "http_tables w = http_tables w' \<Longrightarrow> http_tables (upserted key b w) = http_tables (upserted key b w')"
  by (simp add: upserted_def Let_def http_tables_def ingest_marked_def)

definition upserted_all :: "gostring \<Rightarrow> http_bucket list \<Rightarrow> 'z perf_world_scheme \<Rightarrow> 'z perf_world_scheme" where
  "upserted_all key = fold (upserted key)"

lemma upserted_all_simps [simp]:
  "upserted_all key [] w = w" "upserted_all key (b # bs) w = upserted_all key bs (upserted key b w)"
  by (simp_all add: upserted_all_def)

lemma upserted_all_marks: "b \<in> set bs \<or> marked_in key b w \<Longrightarrow> marked_in key b (upserted_all key bs w)"
  by (induction bs arbitrary: w) (auto simp: upserted_keeps_marks)

lemma upserted_all_tables:
  "http_tables w = http_tables w' \<Longrightarrow> http_tables (upserted_all key bs w) = http_tables (upserted_all key bs w')"
  by (induction bs arbitrary: w w') (auto dest: upserted_tables)

lemma UpsertHTTP_tables:
  assumes "UpsertHTTP key b w = (r, t)"
  shows "http_tables t = http_tables w \<or> http_tables t = http_tables (upserted key b w)"
    and "r = Inr u \<Longrightarrow> http_tables t = http_tables (upserted key b w)"
  using UpsertHTTP_cases [OF assms] tables_oracle by (auto split: sum.splits)

lemma batch_written:
  "for_each (UpsertHTTP key) bs w = (Inr (), t) \<Longrightarrow> http_tables t = http_tables (upserted_all key bs w)"
proof (induction bs arbitrary: w)
  case (Cons b bs)
  then obtain v where v: "UpsertHTTP key b w = (Inr (), v)" and rest: "for_each (UpsertHTTP key) bs v = (Inr (), t)"
    by (auto simp: returned)
  have "http_tables t = http_tables (upserted_all key bs v)" by (rule Cons.IH [OF rest])
  also have "\<dots> = http_tables (upserted_all key bs (upserted key b w))"
    by (rule upserted_all_tables) (rule UpsertHTTP_tables(2) [OF v refl])
  finally show ?case by simp
qed (simp add: run_defs)

lemma known_batch:
  assumes "\<And>b. b \<in> set bs \<Longrightarrow> marked_in key b w" "for_each (UpsertHTTP key) bs w = (r, t)"
  shows "http_tables t = http_tables w"
  using assms
proof (induction bs arbitrary: w)
  case (Cons b bs)
  obtain x v where v: "UpsertHTTP key b w = (x, v)" by fastforce
  have same: "http_tables v = http_tables w"
    using UpsertHTTP_tables(1) [OF v] upserted_known [of key b w] Cons.prems(1) by auto
  show ?case
  proof (cases x)
    case (Inl e)
    then show ?thesis using Cons.prems(2) v same by (simp add: andthen_def bindE_def)
  next
    case (Inr u)
    then have "for_each (UpsertHTTP key) bs v = (r, t)" using Cons.prems(2) v by (simp add: andthen_run)
    then show ?thesis using Cons.IH [of v] Cons.prems(1) marked_tables [OF same] same by auto
  qed
qed (simp add: run_defs)

text \<open>C34: A batch of timings that was written counts once: writing it again under its key, as the collector does when
  the cursor was not saved and the log has not grown, changes no bucket, no hourly rollup and no batch mark,
  whatever faults occur.\<close>

theorem retry_counts_once:
  assumes "for_each (UpsertHTTP key) batch w = (Inr (), w1)" "http_tables w2 = http_tables w1"
    and "for_each (UpsertHTTP key) batch w2 = (r, w3)"
  shows "http_tables w3 = http_tables w1"
proof -
  have "marked_in key b w2" if "b \<in> set batch" for b
    using marked_tables [of w2 "upserted_all key batch w"] upserted_all_marks [of b batch key w] that
      batch_written [OF assms(1)] assms(2) by simp
  then show ?thesis using known_batch [OF _ assms(3)] assms(2) by simp
qed

section \<open>A batch under two keys\<close>

definition http_total :: "'z perf_world_scheme \<Rightarrow> int" where
  "http_total w = requests (sum_list (map hb_counts (pf_minutes w)))"

lemma http_total_counts: "http_total w = requests (counts_where (\<lambda>k. True) (pf_minutes w))"
  by (simp add: http_total_def counts_where_def)

lemma http_total_tables: "http_tables w = http_tables w' \<Longrightarrow> http_total w = http_total w'"
  by (simp add: http_total_def http_tables_def)

definition bucket_requests :: "http_bucket list \<Rightarrow> int" where
  "bucket_requests bs = sum_list (map (\<lambda>b. requests (hb_counts b)) bs)"

lemma upserted_total:
  assumes "distinct (map row_key (pf_minutes w))" "\<not> marked_in key b w"
  shows "http_total (upserted key b w) = http_total w + requests (hb_counts b)"
    and "distinct (map row_key (pf_minutes (upserted key b w)))"
  using assms
  by (simp_all add: http_total_counts upserted_def Let_def marked_in_def counts_merge distinct_merge)
     (simp add: on_minute_def)

lemma upserted_other_mark:
  "httpBucketKey (on_minute c) \<noteq> httpBucketKey (on_minute b) \<Longrightarrow>
    marked_in key c (upserted key b w) = marked_in key c w"
  by (simp add: upserted_def Let_def marked_in_def ingest_marked_def)

lemma upserted_all_total:
  assumes "distinct (map row_key (pf_minutes w))" "distinct (map (httpBucketKey \<circ> on_minute) bs)"
    and "\<And>b. b \<in> set bs \<Longrightarrow> \<not> marked_in key b w"
  shows "http_total (upserted_all key bs w) = http_total w + bucket_requests bs
    \<and> distinct (map row_key (pf_minutes (upserted_all key bs w)))"
  using assms
proof (induction bs arbitrary: w)
  case (Cons b bs)
  have "\<not> marked_in key c (upserted key b w)" if "c \<in> set bs" for c
    using Cons.prems that by (subst upserted_other_mark) (force simp: image_iff)+
  then show ?case
    using Cons upserted_total [of w key b] by (auto simp: bucket_requests_def)
qed (simp add: bucket_requests_def)

lemma other_key_unmarked:
  "k \<noteq> key \<Longrightarrow> \<not> marked_in k c w \<Longrightarrow> \<not> marked_in k c (upserted_all key bs w)"
  by (induction bs arbitrary: w) (auto simp: upserted_def Let_def marked_in_def ingest_marked_def)

lemma requests_merge:
  "distinct (map row_key bs) \<Longrightarrow> bucket_requests (merge_http b bs) = bucket_requests bs + requests (hb_counts b)"
  using arg_cong [OF counts_merge [of bs "\<lambda>k. True" b], of requests]
  by (simp add: counts_where_def bucket_requests_def requests_sum_list comp_def)

lemma requests_fold:
  "distinct (map row_key acc) \<Longrightarrow>
    bucket_requests (fold merge_http (map (observation_row cfg tm) obs) acc) = bucket_requests acc + int (length obs)"
  by (induction obs arbitrary: acc) (simp_all add: distinct_merge requests_merge observation_row_def Let_def)

lemma requests_aggregate: "bucket_requests (aggregateHTTP cfg tm obs) = int (length obs)"
  using requests_fold [of "[]" cfg tm obs] by (simp add: aggregateHTTP_def bucket_requests_def)

definition tables_are ::
  "http_bucket list \<times> http_bucket list \<times> ingest_mark list \<Rightarrow> 'z perf_world_scheme \<Rightarrow> bool" where
  "tables_are x w \<longleftrightarrow> http_tables w = x"

interpretation tables_db: db_invariant "tables_are x"
  by unfold_locales (simp add: tables_are_def)

lemma keeps_tables_cursors:
  "keeps (tables_are x) (cursor_Get src)" "keeps (tables_are x) (cursor_Upsert c)"
  unfolding cursor_Get_def cursor_Upsert_def
  by (intro keeps_rules tables_db.keeps_stmt; simp add: tables_are_def http_tables_def)+

lemma collectHTTP_acknowledged:
  assumes "collectHTTP cfg tm (Inr (obs, c)) w = (Inr (Some c'), t)"
  shows "http_tables t = http_tables (upserted_all (ingest_key c) (aggregateHTTP cfg tm obs) w)"
proof -
  let ?m = "for_each (UpsertHTTP (ingest_key c)) (aggregateHTTP cfg tm obs)"
  obtain r v where v: "?m w = (r, v)" by fastforce
  have ok: "r = Inr ()"
  proof (cases r)
    case (Inl e)
    then show ?thesis using assms v
      by (auto simp: collectHTTP_def bindE_def attempt_def andthen_def ret_def split: prod.splits sum.splits)
  qed simp
  let ?k = "bindE (mergePersistedDrops (boundedCursor c)) (\<lambda>c1. let c2 = c1\<lparr>cu_complete := True\<rparr> in
      bindE (attempt (cursor_Upsert c2)) (\<lambda>saved :: err + unit.
        ret (case saved of Inl _ \<Rightarrow> None | Inr _ \<Rightarrow> Some c2)))"
  have "collectHTTP cfg tm (Inr (obs, c)) w = ?k v"
    using v ok by (simp add: collectHTTP_def bindE_def attempt_def)
  then have "?k v = (Inr (Some c'), t)" using assms by simp
  moreover have "keeps (tables_are (http_tables v)) ?k"
    unfolding mergePersistedDrops_def Let_def by (intro keeps_rules keeps_tables_cursors)
  ultimately have "http_tables t = http_tables v"
    using keepsD [of "tables_are (http_tables v)" ?k v] by (auto simp: tables_are_def)
  then show ?thesis using batch_written [of "ingest_key c" _ w v] v ok by simp
qed

lemma collectHTTP_quiet:
  assumes "for_each (UpsertHTTP (ingest_key c)) (aggregateHTTP cfg tm obs) w = (Inr (), v)"
    and "faults v = []" "cu_source c \<noteq> []"
  shows "\<exists>c' t. collectHTTP cfg tm (Inr (obs, c)) w = (Inr (Some c'), t)"
  using assms
  by (simp add: collectHTTP_def mergePersistedDrops_def cursor_Get_def cursor_Upsert_def boundedCursor_def attempt_def
      run_defs of_option_def Let_def split: option.split)

text \<open>C38: When the batch of a pass was written but its cursor was not saved, and the log has grown before the next
  pass reads it from the same place, the next batch has another key and its cursor is saved: then every observation of
  the first batch is counted twice.  The keys of the buckets within a batch are assumed not to collide.\<close>

theorem retry_counts_again:
  assumes "for_each (UpsertHTTP (ingest_key c1)) (aggregateHTTP cfg tm1 obs) w = (Inr (), w1)"
    and "http_tables w2 = http_tables w1"
    and "collectHTTP cfg tm2 (Inr (obs @ grown, c2)) w2 = (Inr (Some c), w3)"
    and "ingest_key c1 \<noteq> ingest_key c2" "distinct (map row_key (pf_minutes w))"
    and "\<forall>m\<in>set (pf_marks w). im_key m \<noteq> ingest_key c1 \<and> im_key m \<noteq> ingest_key c2"
    and "distinct (map (httpBucketKey \<circ> on_minute) (aggregateHTTP cfg tm1 obs))"
    and "distinct (map (httpBucketKey \<circ> on_minute) (aggregateHTTP cfg tm2 (obs @ grown)))"
  shows "http_total w3 = http_total w + 2 * int (length obs) + int (length grown)"
proof -
  let ?v = "upserted_all (ingest_key c1) (aggregateHTTP cfg tm1 obs) w"
  have fresh: "\<not> marked_in (ingest_key c1) b w" "\<not> marked_in (ingest_key c2) b w" for b
    using assms(6) by (auto simp: marked_in_def ingest_marked_def list_ex_iff)
  have one: "http_total ?v = http_total w + int (length obs)" "distinct (map row_key (pf_minutes ?v))"
    using upserted_all_total [OF assms(5,7) fresh(1)] by (simp_all add: requests_aggregate)
  have two: "http_total (upserted_all (ingest_key c2) (aggregateHTTP cfg tm2 (obs @ grown)) ?v)
      = http_total ?v + int (length (obs @ grown))"
    using upserted_all_total [OF one(2) assms(8) other_key_unmarked [OF _ fresh(2)]] assms(4)
    by (auto simp: requests_aggregate)
  have "http_tables w2 = http_tables ?v" using batch_written [OF assms(1)] assms(2) by simp
  then have "http_tables w3 = http_tables (upserted_all (ingest_key c2) (aggregateHTTP cfg tm2 (obs @ grown)) ?v)"
    using collectHTTP_acknowledged [OF assms(3)] upserted_all_tables by metis
  then show ?thesis using http_total_tables one(1) two by fastforce
qed

definition sample_perf_world :: collector_world2 where
  "sample_perf_world =
    \<lparr>faults = [], services = [], deploys = empty_table, probes = empty_table,
     notifications = empty_table, audits = empty_table, child_rows = [], events = [],
     sw_instances = [], sw_inventory = \<lparr>iv_reconciled = None, iv_complete = False, iv_error = [], iv_observed = 0\<rparr>,
     sw_activation = (None, []), sw_baselines = empty_table, sw_ignores = [],
     sw_policies = empty_table, sw_observations = empty_table, sw_findings = empty_table, sw_cursors = [],
     lg_lines = empty_table, lg_positions = [], lg_losses = [], lg_volume = [], lg_batches = [],
     pf_minutes = [], pf_hours = [], pf_marks = [], pf_postgres = [], pf_statements = [], pf_redis = [], pf_events = [],
     cw_base = \<lparr>ba_postgres = (\<lambda>_. None), ba_statements = (\<lambda>_. None), ba_redis = [''evicted_keys'' \<mapsto> 100]\<rparr>\<rparr>"

definition sample_perf_config :: perf_config where
  "sample_perf_config = \<lparr>pc_service = ''web'', pc_environment = ''production'', pc_interval = 30 * second\<rparr>"

definition sample_timing :: http_observation where
  "sample_timing =
    \<lparr>ob_at = 60 * second, ob_method = ''GET'', ob_family = ''auth'', ob_status = 200, ob_upstream_status = 0,
     ob_duration = 20, ob_connect = 0, ob_header = 0, ob_response = 0, ob_sent = 10, ob_received = 20,
     ob_connection_requests = 1, ob_upstream = ''none''\<rparr>"

definition sample_timing_cursor :: "int \<Rightarrow> cursor" where
  "sample_timing_cursor n = no_cursor\<lparr>cu_source := ''nginx'', cu_identity := ''log'', cu_offset := n\<rparr>"

lemma retry_counts_once_witness:
  "let b = observation_row sample_perf_config (60 * second) sample_timing;
       run = (\<lambda>w. snd (for_each (UpsertHTTP ''log:1'') [b] w))
   in http_tables (run (run sample_perf_world)) = http_tables (run sample_perf_world)"
proof -
  let ?b = "observation_row sample_perf_config (60 * second) sample_timing"
  have valid: "validateHTTPBucket ''log:1'' ?b = Inr ()" by code_simp
  have first: "for_each (UpsertHTTP ''log:1'') [?b] sample_perf_world = (Inr (), upserted ''log:1'' ?b sample_perf_world)"
    using UpsertHTTP_quiet [OF _ valid, of sample_perf_world] by (simp add: sample_perf_world_def run_defs)
  show ?thesis
    unfolding Let_def first snd_conv by (rule retry_counts_once [OF first refl surjective_pairing])
qed

lemma retry_counts_again_witness:
  "let b = observation_row sample_perf_config (60 * second) sample_timing;
       w1 = upserted (ingest_key (sample_timing_cursor 1)) b sample_perf_world
   in http_total (snd (collectHTTP sample_perf_config (60 * second)
        (Inr ([sample_timing] @ [], sample_timing_cursor 2)) w1)) = 0 + 2 * 1 + 0"
proof -
  let ?b = "observation_row sample_perf_config (60 * second) sample_timing"
  let ?k = "\<lambda>n. ingest_key (sample_timing_cursor n)"
  let ?w1 = "upserted (?k 1) ?b sample_perf_world"
  have one: "aggregateHTTP sample_perf_config (60 * second) [sample_timing] = [?b]"
    by (simp add: aggregateHTTP_def merge_http_def)
  have keys: "?k 1 = ''log:1''" "?k 2 = ''log:2''"
    by (simp_all add: ingest_key_def sample_timing_cursor_def) code_simp+
  have valid: "validateHTTPBucket (?k n) ?b = Inr ()" if "n = 1 \<or> n = 2" for n
    using that unfolding keys by (auto simp: keys) (code_simp+)
  have calm: "faults ?w1 = []" by (simp add: upserted_def sample_perf_world_def Let_def)
  have first: "for_each (UpsertHTTP (?k 1)) [?b] sample_perf_world = (Inr (), ?w1)"
    using UpsertHTTP_quiet [OF _ valid, of sample_perf_world 1] by (simp add: sample_perf_world_def run_defs)
  obtain c w3 where second: "collectHTTP sample_perf_config (60 * second)
      (Inr ([sample_timing] @ [], sample_timing_cursor 2)) ?w1 = (Inr (Some c), w3)"
  proof (atomize_elim, rule collectHTTP_quiet)
    show "for_each (UpsertHTTP (?k 2)) (aggregateHTTP sample_perf_config (60 * second) ([sample_timing] @ [])) ?w1
        = (Inr (), upserted (?k 2) ?b ?w1)"
      using UpsertHTTP_quiet [OF calm valid, of 2] one by (simp add: run_defs)
  qed (simp_all add: upserted_def Let_def sample_timing_cursor_def sample_perf_world_def)
  show ?thesis
    using retry_counts_again [OF first [unfolded one [symmetric]] refl second] second
    by (simp add: one keys sample_perf_world_def http_total_def)
qed

section \<open>Two samples of a counter in one minute\<close>

definition native_key :: "native_bucket \<Rightarrow> instant \<times> gostring \<times> gostring \<times> gostring \<times> gostring" where
  "native_key b = (nb_start b, nb_service b, nb_environment b, nb_metric b, nb_family b)"

definition cell_is ::
  "instant \<times> gostring \<times> gostring \<times> gostring \<times> gostring \<Rightarrow> rat \<Rightarrow> rat \<Rightarrow> native_bucket list \<Rightarrow> bool" where
  "cell_is k d v bs \<longleftrightarrow>
    (\<exists>b\<in>set bs. native_key b = k) \<and> (\<forall>b\<in>set bs. native_key b = k \<longrightarrow> nb_delta b = d \<and> nb_value b = v)"

lemma same_native_key: "same_native b c \<longleftrightarrow> native_key b = native_key c"
  by (simp add: same_native_def native_key_def)

lemma native_key_set [simp]:
  "native_key (c\<lparr>nb_value := v, nb_delta := d, nb_reset := r\<rparr>) = native_key c"
  by (simp add: native_key_def)

lemma put_own: "cell_is (native_key b) (nb_delta b) (nb_value b) (put_native b bs)"
  by (auto simp: cell_is_def put_native_def map_where_def same_native_key list_ex_iff bex_Un)

lemma put_other:
  "native_key b \<noteq> k \<Longrightarrow> cell_is k d v bs \<Longrightarrow> cell_is k d v (put_native b bs)"
  by (auto simp: cell_is_def put_native_def map_where_def same_native_key list_ex_iff)

definition metric_key :: "perf_config \<Rightarrow> instant \<Rightarrow> gostring \<Rightarrow> instant \<times> gostring \<times> gostring \<times> gostring \<times> gostring" where
  "metric_key cfg tm m = (minute_of tm, pc_service cfg, pc_environment cfg, m, [])"

text \<open>The row of a metric and its baseline.\<close>

definition metric_is ::
  "perf_config \<Rightarrow> instant \<Rightarrow> gostring \<Rightarrow> rat \<Rightarrow> rat \<Rightarrow> 'z collector_world2_scheme \<Rightarrow> bool" where
  "metric_is cfg tm m d v w \<longleftrightarrow> cell_is (metric_key cfg tm m) d v (pf_redis w) \<and> ba_redis (cw_base w) m = Some v"

definition base_is :: "gostring \<Rightarrow> rat \<Rightarrow> 'z collector_world2_scheme \<Rightarrow> bool" where
  "base_is m v w \<longleftrightarrow> ba_redis (cw_base w) m = Some v"

interpretation metric_db: db_invariant "metric_is cfg tm m d v"
  by unfold_locales (simp add: metric_is_def)

interpretation base_db: db_invariant "base_is m v"
  by unfold_locales (simp add: base_is_def)

lemma keeps_other_metric:
  assumes "fst x \<noteq> m"
  shows "keeps (metric_is cfg tm m d v) (redis_metric cfg tm x)" "keeps (base_is m v) (redis_metric cfg tm x)"
  using assms unfolding redis_metric_def redis_sample_def UpsertRedis_def Let_def
  by (cases x; auto intro!: keeps_rules metric_db.keeps_stmt base_db.keeps_stmt put_other
      simp: metric_is_def base_is_def native_key_def metric_bucket_def metric_key_def)+

lemma returned_of_result: "of_result y s = (Inr u, t) \<longleftrightarrow> y = Inr u \<and> t = s"
  by (auto simp: of_result_def run_defs split: sum.splits)

lemma own_metric:
  assumes run: "redis_metric cfg tm (m, s) w = (Inr (), t)"
    and "base_is m p w" "ns_cumulative s" "p \<le> ns_value s"
  shows "metric_is cfg tm m (float_sub (ns_value s) p) (ns_value s) t"
proof -
  have delta: "metricDelta (ba_redis (cw_base w)) m s = (float_sub (ns_value s) p, False)"
    using assms(2-4) by (simp add: metricDelta_def CounterDelta_def base_is_def)
  let ?b = "metric_bucket cfg tm m [] (ns_value s) (float_sub (ns_value s) p, False)"
  obtain fs where "t = (w\<lparr>faults := fs, pf_redis := put_native (?b\<lparr>nb_start := minute_of tm\<rparr>) (pf_redis w),
      cw_base := (cw_base w)\<lparr>ba_redis := (ba_redis (cw_base w))(m \<mapsto> ns_value s)\<rparr>\<rparr>)"
    using run delta assms(3)
    by (auto simp: redis_metric_def redis_sample_def UpsertRedis_def Let_def returned returned_of_result metric_bucket_def
        dest!: returned_stmt)
  then show ?thesis
    using put_own [of "?b\<lparr>nb_start := minute_of tm\<rparr>" "pf_redis w"]
    by (simp add: metric_is_def metric_key_def native_key_def metric_bucket_def)
qed

lemma sampled:
  assumes "for_each (redis_metric cfg tm) ms w = (Inr (), t)" "distinct (map fst ms)" "(m, s) \<in> set ms"
    and "base_is m p w" "ns_cumulative s" "p \<le> ns_value s"
  shows "metric_is cfg tm m (float_sub (ns_value s) p) (ns_value s) t"
  using assms(1-4)
proof (induction ms arbitrary: w)
  case (Cons x ms)
  then obtain u where u: "redis_metric cfg tm x w = (Inr (), u)" and rest: "for_each (redis_metric cfg tm) ms u = (Inr (), t)"
    by (auto simp: returned)
  show ?case
  proof (cases "x = (m, s)")
    case True
    then have "metric_is cfg tm m (float_sub (ns_value s) p) (ns_value s) u"
      using own_metric u Cons.prems(4) assms(5,6) by blast
    moreover have "keeps (metric_is cfg tm m (float_sub (ns_value s) p) (ns_value s)) (for_each (redis_metric cfg tm) ms)"
      using Cons.prems(2) True by (intro keeps_rules keeps_other_metric) force
    ultimately show ?thesis by (metis rest keepsD)
  next
    case False
    then have other: "fst x \<noteq> m"
      using Cons.prems(2,3) image_eqI [of m fst "(m, s)" "set ms"] by auto
    then have "base_is m p u" using keepsD [OF keeps_other_metric(2) Cons.prems(4) u] by simp
    then show ?thesis using Cons.IH [OF rest] Cons.prems(2,3) False by simp
  qed
qed simp

text \<open>C39: When a counter is sampled twice in a minute, as it is with the default interval of 30 seconds, the row of the
  minute holds the increase since the first of the two samples, and the baseline has moved on: the increase
  up to the first sample, a part of the total, is in no row.\<close>

theorem half_minute_lost:
  assumes "for_each (redis_metric cfg tm) ms1 w = (Inr (), w1)" "for_each (redis_metric cfg tm) ms2 w2 = (Inr (), w3)"
    and "ba_redis (cw_base w) m = Some v0" "cw_base w2 = cw_base w1"
    and "distinct (map fst ms1)" "(m, \<lparr>ns_value = v1, ns_cumulative = True\<rparr>) \<in> set ms1" "v0 \<le> v1"
    and "distinct (map fst ms2)" "(m, \<lparr>ns_value = v2, ns_cumulative = True\<rparr>) \<in> set ms2" "v1 \<le> v2"
  shows "cell_is (metric_key cfg tm m) (float_sub v1 v0) v1 (pf_redis w1)
    \<and> cell_is (metric_key cfg tm m) (float_sub v2 v1) v2 (pf_redis w3) \<and> ba_redis (cw_base w3) m = Some v2"
proof -
  have "metric_is cfg tm m (float_sub v1 v0) v1 w1"
    using sampled [OF assms(1,5,6), of v0] assms(3,7) by (simp add: base_is_def)
  moreover from this have "metric_is cfg tm m (float_sub v2 v1) v2 w3"
    using sampled [OF assms(2,8,9), of v1] assms(4,10) by (simp add: base_is_def metric_is_def)
  ultimately show ?thesis by (simp add: metric_is_def)
qed

definition evictions :: "rat \<Rightarrow> gostring \<times> numeric_sample" where
  "evictions v = (''evicted_keys'', \<lparr>ns_value = v, ns_cumulative = True\<rparr>)"

lemma half_minute_lost_witness:
  "let run = (\<lambda>v w. snd (for_each (redis_metric sample_perf_config (90 * second)) [evictions v] w)) in
    cell_is (metric_key sample_perf_config (90 * second) ''evicted_keys'') 1 161
      (pf_redis (run 161 (run 160 sample_perf_world)))"
proof -
  let ?m = "\<lambda>v. for_each (redis_metric sample_perf_config (90 * second)) [evictions v]"
  have quiet_run: "\<exists>t. ?m v w = (Inr (), t) \<and> faults t = []" if "faults w = []" for v and w :: collector_world2
    using that
    by (auto simp: redis_metric_def redis_sample_def UpsertRedis_def evictions_def Let_def run_defs of_result_def
        map_error_def validateNativeMetric_def metric_bucket_def sample_perf_config_def validRedisFamily_def
        zero_time_def is_zero_time_def unit_defs)
  obtain w1 where 1: "?m 160 sample_perf_world = (Inr (), w1)" "faults w1 = []"
    using quiet_run [of sample_perf_world 160] by (auto simp: sample_perf_world_def)
  obtain w3 where 2: "?m 161 w1 = (Inr (), w3)" using quiet_run [OF 1(2), of 161] by blast
  have "float_sub 161 160 = 1" by code_simp
  then show ?thesis
    using half_minute_lost [OF 1(1) 2, of "''evicted_keys''" 100 160 161] 1 2
    by (simp add: evictions_def sample_perf_world_def)
qed

section \<open>Percentiles and windows\<close>

definition counted :: "(rat \<Rightarrow> bool) \<Rightarrow> (int \<times> rat) list \<Rightarrow> int" where
  "counted P xs = sum_list (map fst (filter (\<lambda>x. P (snd x)) xs))"

lemma counted_simps [simp]:
  "counted P [] = 0" "counted P (x # xs) = (if P (snd x) then fst x else 0) + counted P xs"
  by (simp_all add: counted_def)

lemma counted_none: "(\<And>x. x \<in> set xs \<Longrightarrow> \<not> P (snd x)) \<Longrightarrow> counted P xs = 0"
  by (induction xs) auto

lemma counted_nonneg: "(\<And>x. x \<in> set xs \<Longrightarrow> 0 \<le> fst x) \<Longrightarrow> 0 \<le> counted P xs"
  by (induction xs) auto

lemma percentile_from_rank:
  assumes "sorted (map snd xs)" "\<And>x. x \<in> set xs \<Longrightarrow> 0 \<le> fst x" "seen < T" "T \<le> seen + sum_list (map fst xs)"
  shows "percentile_from T seen xs \<in> snd ` set xs
    \<and> seen + counted (\<lambda>b. b < percentile_from T seen xs) xs < T
    \<and> T \<le> seen + counted (\<lambda>b. b \<le> percentile_from T seen xs) xs"
  using assms
proof (induction xs arbitrary: seen)
  case (Cons x xs)
  obtain n b where x: "x = (n, b)" by fastforce
  show ?case
  proof (cases "T \<le> seen + n")
    case True
    have "counted (\<lambda>c. c < b) xs = 0" using Cons.prems(1) x by (intro counted_none) auto
    moreover have "0 \<le> counted (\<lambda>c. c \<le> b) xs" using Cons.prems(2) by (intro counted_nonneg) simp
    ultimately show ?thesis using True x Cons.prems(3) by simp
  next
    case False
    let ?p = "percentile_from T (seen + n) xs"
    have ih: "?p \<in> snd ` set xs" "seen + n + counted (\<lambda>b. b < ?p) xs < T" "T \<le> seen + n + counted (\<lambda>b. b \<le> ?p) xs"
      using Cons.IH [of "seen + n"] Cons.prems False x by auto
    moreover have "b \<le> ?p" using ih(1) Cons.prems(1) x by auto
    moreover have "0 \<le> n" using Cons.prems(2) x by force
    ultimately show ?thesis using False x by auto
  qed
qed simp

text \<open>The counters of a histogram with the bounds by which they are reported.\<close>

definition bound_counts :: "histogram \<Rightarrow> (int \<times> rat) list" where
  "bound_counts h = zip (hist_counts h) report_bounds"

lemma bound_counts_sum: "sum_list (map fst (bound_counts h)) = sum_list (hist_counts h)"
  by (cases h) (simp add: bound_counts_def report_bounds_def)

lemma bound_counts_sorted: "sorted (map snd (bound_counts h))"
  by (cases h) (simp add: bound_counts_def report_bounds_def)

text \<open>C35: A reported percentile is the bound of a bucket of that rank: the observations in the buckets below the
  reported bound are fewer than the rank, those up to it reach the rank.  The rank is the rounded product
  of the count and the quantile, rounded up, and lies between 1 and the count.\<close>

theorem percentile_rank:
  fixes h :: histogram
  defines "n \<equiv> sum_list (hist_counts h)"
  assumes "\<forall>c\<in>set (hist_counts h). 0 \<le> c" "0 < n" "n < 2 ^ 53" "0 < q" "q \<le> 1"
  shows "1 \<le> \<lceil>float_mult (float_of n) q\<rceil> \<and> \<lceil>float_mult (float_of n) q\<rceil> \<le> n
    \<and> counted (\<lambda>b. b < histogramPercentile q h) (bound_counts h) < \<lceil>float_mult (float_of n) q\<rceil>
    \<and> \<lceil>float_mult (float_of n) q\<rceil> \<le> counted (\<lambda>b. b \<le> histogramPercentile q h) (bound_counts h)"
proof -
  let ?T = "\<lceil>float_mult (float_of n) q\<rceil>"
  have exact: "float_of n = of_int n" using assms(3,4) by (simp add: float_of_exact)
  have pos: "0 < of_int n * q" using assms(3,5) by simp
  have "(0::rat) < 2 powi leading_bit (of_int n * q)" by (simp add: zero_less_power_int)
  then have "0 < round64 (of_int n * q)" using round64_range(1) [OF pos] by linarith
  then have "0 < float_mult (float_of n) q" using exact by (simp add: float_mult_def)
  then have low: "0 < ?T" by simp
  have "round64 (of_int n * q) \<le> round64 (of_int n)"
    using pos assms(3,6) by (intro round64_mono) (auto simp: mult_left_le)
  then have "float_mult (float_of n) q \<le> of_int n"
    using exact by (simp add: float_mult_def float_of_def)
  then have high: "?T \<le> n" by (simp add: ceiling_le_iff)
  have "0 \<le> fst x" if "x \<in> set (bound_counts h)" for x
    using set_zip_leftD [of "fst x" "snd x" "hist_counts h" report_bounds] that assms(2)
    by (simp add: bound_counts_def)
  then show ?thesis
    using percentile_from_rank [of "bound_counts h" 0 ?T] low high assms(3)
    by (simp add: bound_counts_sorted bound_counts_sum histogramPercentile_def Let_def n_def [symmetric])
       (simp add: bound_counts_def)
qed

lemma percentile_rank_witness:
  "let h = Histogram 3 0 0 5 0 0 0 0 0 1 in
    1 \<le> \<lceil>float_mult (float_of 9) q50\<rceil> \<and> counted (\<lambda>b. b < histogramPercentile q50 h) (bound_counts h) < 5
    \<and> 5 \<le> counted (\<lambda>b. b \<le> histogramPercentile q50 h) (bound_counts h)"
proof -
  have "\<lceil>float_mult (float_of 9) q50\<rceil> = 5" "0 < q50" "q50 \<le> 1" by code_simp+
  then show ?thesis using percentile_rank [of "Histogram 3 0 0 5 0 0 0 0 0 1" q50] by simp
qed

definition window_rows :: "perf_query \<Rightarrow> http_bucket list \<Rightarrow> http_bucket list" where
  "window_rows q bs =
    filter (\<lambda>b. pq_start q \<le> hb_start b \<and> hb_start b < pq_end q \<and> (pq_service q = [] \<or> hd_service (hb_dims b) = pq_service q)) bs"

lemma in_window: "in_range (performanceRange q n) t s \<longleftrightarrow> pq_start q \<le> t \<and> t < pq_end q \<and> (pq_service q = [] \<or> s = pq_service q)"
  by (auto simp: in_range_def performanceRange_def text_le_def text_less_fixed fixed_inject)

text \<open>The rows a query reads, of which rows of a table.\<close>

definition table_rows :: "perf_query \<Rightarrow> 'z perf_world_scheme \<Rightarrow> http_bucket list" where
  "table_rows q w = window_rows q (if pq_resolution q = ResolutionHour then pf_hours w else pf_minutes w)"

definition earliest_of :: "http_bucket list \<Rightarrow> http_bucket list \<Rightarrow> bool" where
  "earliest_of win found \<longleftrightarrow>
    length found = min 10000 (length win) \<and>
    (\<exists>cut. mset (found @ cut) = mset win \<and> (\<forall>x\<in>set found. \<forall>y\<in>set cut. hb_start x \<le> hb_start y))"

lemma take_earliest: "earliest_of win (take 10000 (sort_key http_order win))"
proof -
  let ?all = "sort_key http_order win"
  have "sorted (map http_order (take 10000 ?all @ drop 10000 ?all))" by simp
  then have "http_order x \<le> http_order y" if "x \<in> set (take 10000 ?all)" "y \<in> set (drop 10000 ?all)" for x y
    using that unfolding map_append sorted_append by auto
  then have "hb_start x \<le> hb_start y" if "x \<in> set (take 10000 ?all)" "y \<in> set (drop 10000 ?all)" for x y
    using that by (fastforce simp: http_order_def)
  moreover have "mset (take 10000 ?all @ drop 10000 ?all) = mset win" by (simp only: append_take_drop_id mset_sort)
  moreover have "length (take 10000 ?all) = min 10000 (length win)" by simp
  ultimately show ?thesis unfolding earliest_of_def by blast
qed

lemma select_window: "select_http (performanceRange q 10000) bs = take 10000 (sort_key http_order (window_rows q bs))"
  by (simp add: select_http_def in_window window_rows_def nativeLimit_def) (simp add: performanceRange_def)

text \<open>What a query reads of its window, and what it then keeps of that.\<close>

lemma httpBuckets_reads:
  assumes "httpBuckets q w = (Inr kept, t)"
  shows "\<exists>found. earliest_of (table_rows q w) found \<and>
    kept = filter (\<lambda>b. pq_family q = [] \<or> hd_family (hb_dims b) = pq_family q) found"
proof -
  have "kept = filter (\<lambda>b. pq_family q = [] \<or> hd_family (hb_dims b) = pq_family q)
      (take 10000 (sort_key http_order (table_rows q w)))"
    using assms
    by (cases "pq_family q = []"; cases "pq_resolution q = ResolutionHour")
      (auto simp: httpBuckets_def ListHTTPHourly_def ListHTTP_def listHTTP_def returned table_rows_def select_window
        dest!: returned_stmt)
  then show ?thesis using take_earliest by blast
qed

lemma reading_if: "reading m \<Longrightarrow> reading n \<Longrightarrow> reading (if b then m else n)"
  by simp

lemma reading_normalize: "reading (normalize now q)"
  unfolding normalize_def Let_def by (intro atomic_rules reading_if)

lemma reading_httpBuckets: "reading (httpBuckets q)"
  unfolding httpBuckets_def ListHTTPHourly_def ListHTTP_def listHTTP_def
  by (cases "pq_resolution q = ResolutionHour") (auto intro!: atomic_rules)

lemma table_rows_oracle: "only_oracle w t \<Longrightarrow> table_rows q t = table_rows q w"
  by (auto simp: only_oracle_ex table_rows_def)

text \<open>C36: A summary is computed from the earliest 10000 rows of its window, and compared with the earliest
  10000 of the window before: what is left out starts no earlier than any row that was read, and something
  is left out exactly when the window holds more rows.  The rows of one route family are picked only
  afterwards, so its rows may be left out although they are few.\<close>

theorem window_reads_earliest:
  assumes "Summary now q0 w = (Inr v, t)"
  shows "\<exists>q found before.
    fst (normalize now q0 w) = Inr q \<and>
    earliest_of (table_rows q w) found \<and>
    earliest_of (table_rows (previous_window q) w) before \<and>
    sv_current v = summarizeHTTP (filter (\<lambda>b. pq_family q = [] \<or> hd_family (hb_dims b) = pq_family q) found) \<and>
    sv_previous v = summarizeHTTP (filter (\<lambda>b. pq_family q = [] \<or> hd_family (hb_dims b) = pq_family q) before)"
proof -
  obtain q u1 cur u2 prev u3 where run: "normalize now q0 w = (Inr q, u1)" "httpBuckets q u1 = (Inr cur, u2)"
    "httpBuckets (previous_window q) u2 = (Inr prev, u3)" and v: "sv_current v = summarizeHTTP cur"
    "sv_previous v = summarizeHTTP prev"
    using assms by (auto simp: Summary_def returned Let_def)
  have rows: "table_rows p u1 = table_rows p w" "table_rows p u2 = table_rows p w" for p
    using table_rows_oracle readingD [OF reading_normalize run(1)] readingD [OF reading_httpBuckets run(2)] by metis+
  have fam: "pq_family (previous_window q) = pq_family q" by (simp add: previous_window_def)
  show ?thesis
    using httpBuckets_reads [OF run(2)] httpBuckets_reads [OF run(3)] run(1) v unfolding rows fam by auto
qed

lemma window_reads_earliest_witness:
  "let b = observation_row sample_perf_config (60 * second) sample_timing;
       w = upserted ''log:1'' b sample_perf_world;
       q = \<lparr>pq_service = [], pq_start = second, pq_end = 120 * second, pq_resolution = ResolutionMinute,
            pq_family = ''other'', pq_sort = [], pq_limit = 100\<rparr>
   in \<exists>v t found. Summary 0 q w = (Inr v, t) \<and> earliest_of [b] found \<and>
     sv_current v = summarizeHTTP (filter (\<lambda>b. hd_family (hb_dims b) = ''other'') found)"
proof -
  let ?b = "observation_row sample_perf_config (60 * second) sample_timing"
  let ?w = "upserted ''log:1'' ?b sample_perf_world"
  let ?q = "\<lparr>pq_service = [], pq_start = second, pq_end = 120 * second, pq_resolution = ResolutionMinute,
    pq_family = ''other'', pq_sort = [], pq_limit = 100\<rparr>"
  let ?r = "?q\<lparr>pq_sort := ''p95_ms''\<rparr>"
  have start: "hb_start ?b = 60 * second" "on_minute ?b = ?b" by code_simp+
  have one: "pf_minutes ?w = [?b]"
    by (simp add: upserted_def Let_def sample_perf_world_def ingest_marked_def merge_http_def start)
  have calm: "faults ?w = []" by (simp add: upserted_def Let_def sample_perf_world_def)
  have n: "normalize 0 ?q ?w = (Inr ?r, ?w)" if "\<not> is_zero_time second" "\<not> is_zero_time (120 * second)"
    using that by (simp add: normalize_def Let_def fill_window_def fill_resolution_def check_resolution_def run_defs
        ResolutionMinute_def ResolutionAuto_def ResolutionHour_def performanceSorts_def performanceRouteFamilies_def
        maxPerformanceRows_def maxMinuteRange_def time_sub_def int64_defs second_def minute_def hour_def of_result_def)
  have nz: "\<not> is_zero_time second" "\<not> is_zero_time (120 * second)" by code_simp+
  have h: "\<exists>c. httpBuckets p ?w = (Inr c, ?w)" for p
    using calm by (simp add: httpBuckets_def ListHTTP_def ListHTTPHourly_def listHTTP_def run_defs map_error_def)
  obtain v where v: "Summary 0 ?q ?w = (Inr v, ?w)"
    using n [OF nz] h [of ?r] h [of "previous_window ?r"] by (auto simp: Summary_def run_defs Let_def)
  have t: "table_rows ?r ?w = [?b]"
    using start one by (simp add: table_rows_def window_rows_def second_def ResolutionHour_def ResolutionMinute_def)
  show ?thesis
    using window_reads_earliest [OF v] v n [OF nz] t by (auto simp: Let_def)
qed

end
