(* ===== verification/Fleet_Sampling.thy ===== *)
theory Fleet_Sampling
  imports Docker_Client Host_System Perf_Store
begin

text \<open>
  The sampling of the whole fleet and of the host, and the follower of the docker events
  (\<open>internal/service/fleet.go\<close>), over \<open>internal/store/fleet.go\<close>.  The samples of one cycle are inserted one after the
  other; in the code they run side by side and none depends on another.  The bits of a \<open>float64\<close> column of the
  inventory and two functions of SQLite are parameters.
\<close>

section \<open>Tables\<close>

record host_sample =
  ho_id :: int
  ho_at :: instant
  ho_cpu :: "rat option"
  ho_mem :: "(int \<times> int) option"
  ho_disk :: "(int \<times> int) option"
  ho_load :: "float_value option"

record container_sample =
  fs_id :: int
  fs_at :: instant
  fs_container :: "gostring option"
  fs_name :: gostring
  fs_project :: gostring
  fs_managed :: bool
  fs_service :: gostring
  fs_state :: gostring
  fs_cpu :: rat
  fs_mem :: int
  fs_limit :: int
  fs_restarts :: int

text \<open>\<open>fl_cpu\<close> is the sampler's last reading of \<open>/proc/stat\<close>, \<open>fl_requests\<close> counts the calls of \<open>requestReconcile\<close>.\<close>

record fleet_world = perf_world +
  fl_hosts :: "host_sample table"
  fl_samples :: "container_sample table"
  fl_cpu :: "cpu_sample option"
  fl_requests :: nat

interpretation host_rows: rowid_table ho_id "\<lambda>i r. r\<lparr>ho_id := i\<rparr>"
  by unfold_locales simp

interpretation sample_rows: rowid_table fs_id "\<lambda>i r. r\<lparr>fs_id := i\<rparr>"
  by unfold_locales simp

text \<open>A sample without a time gets that of the clock.\<close>

definition stamp_or_now :: "instant \<Rightarrow> instant \<Rightarrow> instant" where
  "stamp_or_now now t = (if is_zero_time t then now else t)"

definition InsertHost :: "instant \<Rightarrow> host_sample \<Rightarrow> ('z fleet_world_scheme, err, unit) prog" where
  "InsertHost now s =
    andthen (stmt (ErrOther ''inserting host sample''))
      (modify (\<lambda>w. w\<lparr>fl_hosts :=
        t_insert (\<lambda>i r. r\<lparr>ho_id := i\<rparr>) (s\<lparr>ho_at := stamp_or_now now (ho_at s)\<rparr>) (fl_hosts w)\<rparr>))"

definition known_instance :: "gostring \<Rightarrow> 'z fleet_world_scheme \<Rightarrow> gostring option" where
  "known_instance cid w = (if list_ex (\<lambda>i. ci_id i = cid) (sw_instances w) then Some cid else None)"

definition live_row :: "gostring \<Rightarrow> instance_row \<Rightarrow> bool" where
  "live_row cid i \<longleftrightarrow> ci_id i = cid \<and> ci_current i \<and> ci_state i = ''running''"

text \<open>The driver refuses an unsigned number beyond \<open>int64\<close>.\<close>

definition InsertContainer ::
  "(rat \<Rightarrow> 64 word) \<Rightarrow> instant \<Rightarrow> gostring \<Rightarrow> container_sample \<Rightarrow> ('z fleet_world_scheme, err, unit) prog" where
  "InsertContainer bits now cid s0 =
    (let s = s0\<lparr>fs_at := stamp_or_now now (fs_at s0)\<rparr> in
     andthen (stmt (ErrOther ''beginning container sample''))
      (tx (andthen (guardE (fs_mem s \<le> int64_max \<and> fs_limit s \<le> int64_max) (ErrOther ''inserting container sample''))
          (andthen (stmt (ErrOther ''inserting container sample''))
          (andthen (modify (\<lambda>w. w\<lparr>fl_samples :=
              t_insert (\<lambda>i r. r\<lparr>fs_id := i\<rparr>) (s\<lparr>fs_container := known_instance cid w\<rparr>) (fl_samples w)\<rparr>))
          (andthen
            (if cid = [] then ret ()
             else andthen (stmt (ErrOther ''updating live container metrics''))
               (modify (\<lambda>w. w\<lparr>sw_instances := map_where (live_row cid)
                 (\<lambda>i. i\<lparr>ci_cpu := Some (bits (fs_cpu s)), ci_mem := Some (fs_mem s), ci_limit := Some (fs_limit s),
                        ci_restarts := Some (fs_restarts s)\<rparr>) (sw_instances w)\<rparr>)))
            (stmt (ErrOther ''committing container sample''))))))))"

definition sample_key :: "container_sample \<Rightarrow> gostring" where
  "sample_key s =
    (case fs_container s of None \<Rightarrow> fs_name s | Some c \<Rightarrow> if c = [] then fs_name s else c)"

definition newest_samples :: "container_sample list \<Rightarrow> container_sample list" where
  "newest_samples ss = filter (\<lambda>s. list_all (\<lambda>u. sample_key u = sample_key s \<longrightarrow> fs_id u \<le> fs_id s) ss) ss"

definition LatestContainers :: "('z fleet_world_scheme, err, container_sample list) prog" where
  "LatestContainers =
    andthen (stmt (ErrOther ''querying latest containers''))
   (andthen (stmt (ErrOther ''scanning fleet container''))
     (gets (\<lambda>w. sort_key (\<lambda>s. (- fs_cpu s, fs_name s)) (newest_samples (rows (fl_samples w))))))"

text \<open>The column of a history metric; SQLite stores NaN as null.\<close>

definition column_value :: "float_value option \<Rightarrow> float_value option" where
  "column_value v = (if v = Some NaN then None else v)"

definition history_column :: "gostring \<Rightarrow> (host_sample \<Rightarrow> float_value option) option" where
  "history_column m =
    (if m = ''cpu'' then Some (\<lambda>h. map_option Finite (ho_cpu h))
     else if m = ''mem'' then Some (\<lambda>h. map_option (\<lambda>p. Finite (of_int (fst p))) (ho_mem h))
     else if m = ''load'' then Some (\<lambda>h. column_value (ho_load h))
     else None)"

text \<open>\<open>epoch\<close> is SQLite's \<open>strftime('%s', \<dots>)\<close>, \<open>avg\<close> its \<open>AVG\<close>.\<close>

definition history_bucket :: "(instant \<Rightarrow> int) \<Rightarrow> int \<Rightarrow> host_sample \<Rightarrow> int" where
  "history_bucket epoch secs h = go_quot (epoch (ho_at h)) secs * secs"

definition History ::
  "(instant \<Rightarrow> int) \<Rightarrow> (float_value list \<Rightarrow> float_value) \<Rightarrow> gostring \<Rightarrow> instant \<Rightarrow> int
    \<Rightarrow> ('z fleet_world_scheme, err, (instant \<times> float_value) list) prog" where
  "History epoch avg metric since secs0 =
    bindE (of_option (ErrOther ''unknown history metric'') (history_column metric)) (\<lambda>column.
     let secs = max 1 secs0 in
     andthen (stmt (ErrOther ''querying host history''))
    (andthen (stmt (ErrOther ''scanning history point''))
      (gets (\<lambda>w.
        let hs = filter (\<lambda>h. text_le (formatTime since) (formatTime (ho_at h))) (rows (fl_hosts w));
            value = (\<lambda>b. List.map_filter column (filter (\<lambda>h. history_bucket epoch secs h = b) hs))
        in map (\<lambda>b. (b * second, avg (value b)))
             (filter (\<lambda>b. value b \<noteq> []) (sort (remdups (map (history_bucket epoch secs) hs))))))))"

definition TrimHostsBefore :: "instant \<Rightarrow> ('z fleet_world_scheme, err, int) prog" where
  "TrimHostsBefore cutoff =
    (let old = (\<lambda>h. text_less (formatTime (ho_at h)) (formatTime cutoff)) in
     andthen (stmt (ErrOther ''trimming host samples''))
      (bindE (gets (\<lambda>w. length (filter old (rows (fl_hosts w))))) (\<lambda>n.
       andthen (modify (\<lambda>w. w\<lparr>fl_hosts := t_delete old (fl_hosts w)\<rparr>))
       (andthen (stmt (ErrOther ''counting trimmed host samples'')) (ret (int n))))))"

definition TrimContainersBefore :: "instant \<Rightarrow> ('z fleet_world_scheme, err, int) prog" where
  "TrimContainersBefore cutoff =
    (let old = (\<lambda>s. text_less (formatTime (fs_at s)) (formatTime cutoff)) in
     andthen (stmt (ErrOther ''trimming container samples''))
      (bindE (gets (\<lambda>w. length (filter old (rows (fl_samples w))))) (\<lambda>n.
       andthen (modify (\<lambda>w. w\<lparr>fl_samples := t_delete old (fl_samples w)\<rparr>))
       (andthen (stmt (ErrOther ''counting trimmed container samples'')) (ret (int n))))))"

section \<open>The sampler\<close>

record fleet_stats =
  ft_cpu :: rat
  ft_mem :: int
  ft_limit :: int
  ft_restarts :: int

record fleet_env =
  fe_outside :: outside
  fe_host :: host_env
  fe_root :: gostring
  fe_bits :: "rat \<Rightarrow> 64 word"
  fe_now :: instant

text \<open>The owner of a container is the last service it belongs to; a broken configuration ends the cycle.\<close>

fun fleet_owners :: "'y outside_scheme \<Rightarrow> service list \<Rightarrow> container list \<Rightarrow> err + (gostring \<rightharpoonup> gostring)" where
  "fleet_owners env [] cs = Inr Map.empty"
| "fleet_owners env (d # ds) cs =
    (case serviceNames env d of
       Inl e \<Rightarrow> Inl e
     | Inr names \<Rightarrow>
        (case fleet_owners env ds cs of
           Inl e \<Rightarrow> Inl e
         | Inr later \<Rightarrow>
            Inr (map_of (map (\<lambda>c. (ct_id c, svc_id d)) (filter (\<lambda>c. belongsTo c (svc_project d) names) cs)) ++ later)))"

definition fleet_row :: "instant \<Rightarrow> gostring \<Rightarrow> container \<Rightarrow> fleet_stats \<Rightarrow> container_sample" where
  "fleet_row now sid c st =
    \<lparr>fs_id = 0, fs_at = now, fs_container = None, fs_name = ct_name c, fs_project = label c LabelComposeProject,
     fs_managed = (sid \<noteq> []), fs_service = sid, fs_state = ct_state c, fs_cpu = ft_cpu st, fs_mem = ft_mem st,
     fs_limit = ft_limit st, fs_restarts = ft_restarts st\<rparr>"

definition recordFleetSample ::
  "fleet_env \<Rightarrow> (gostring \<rightharpoonup> gostring) \<Rightarrow> container \<Rightarrow> fleet_stats \<Rightarrow> ('z fleet_world_scheme, err, unit) prog" where
  "recordFleetSample env owners c st =
    (let sid = (case owners (ct_id c) of None \<Rightarrow> [] | Some s \<Rightarrow> s) in
     bindE (attempt (InsertContainer (fe_bits env) (fe_now env) (ct_id c) (fleet_row (fe_now env) sid c st)))
      (\<lambda>r :: err + unit. ret ()))"

definition sampleHostCPU :: "host_env \<Rightarrow> ('z fleet_world_scheme, err, rat option) prog" where
  "sampleHostCPU h =
    bindE (gets (\<lambda>w. hostCPUPercent h (fl_cpu w))) (\<lambda>(usage, seen).
     andthen (modify (\<lambda>w. w\<lparr>fl_cpu := seen\<rparr>)) (ret usage))"

definition sampleHost :: "fleet_env \<Rightarrow> ('z fleet_world_scheme, err, unit) prog" where
  "sampleHost env =
    bindE (sampleHostCPU (fe_host env)) (\<lambda>cpu.
     bindE (attempt (InsertHost (fe_now env)
        \<lparr>ho_id = 0, ho_at = fe_now env, ho_cpu = cpu, ho_mem = hostMem (fe_host env),
         ho_disk = hostDisk (fe_host env) (fe_root env), ho_load = hostLoad1 (fe_host env)\<rparr>))
      (\<lambda>r :: err + unit. ret ()))"

definition sampleFleet ::
  "fleet_env \<Rightarrow> service list \<Rightarrow> container list \<Rightarrow> (gostring \<rightharpoonup> fleet_stats) \<Rightarrow> ('z fleet_world_scheme, err, unit) prog" where
  "sampleFleet env defs cs stats =
    bindE (of_result (fleet_owners (fe_outside env) defs cs)) (\<lambda>owners.
     andthen (for_each (\<lambda>c. case stats (ct_id c) of None \<Rightarrow> ret () | Some st \<Rightarrow> recordFleetSample env owners c st) cs)
      (sampleHost env))"

definition FleetContainers :: "('z fleet_world_scheme, err, container_sample list) prog" where
  "FleetContainers = LatestContainers"

definition defaultHistoryHours :: int where "defaultHistoryHours = 24"
definition maxHistoryHours :: int where "maxHistoryHours = 168"
definition maxHistoryPoints :: int where "maxHistoryPoints = 1500"

definition history_hours :: "int \<Rightarrow> int" where
  "history_hours hours = min maxHistoryHours (if hours \<le> 0 then defaultHistoryHours else hours)"

definition history_seconds :: "int \<Rightarrow> int" where
  "history_seconds hours = (history_hours hours * 3600 + maxHistoryPoints - 1) div maxHistoryPoints"

definition HostHistory ::
  "(instant \<Rightarrow> int) \<Rightarrow> (float_value list \<Rightarrow> float_value) \<Rightarrow> instant \<Rightarrow> gostring \<Rightarrow> int
    \<Rightarrow> ('z fleet_world_scheme, err, (instant \<times> float_value) list) prog" where
  "HostHistory epoch avg now metric hours =
    andthen (guardE (metric \<in> {''cpu'', ''mem'', ''load''}) (ErrInvalidInput ''metric (want cpu, mem, or load)''))
      (History epoch avg metric (now - history_hours hours * hour) (history_seconds hours))"

section \<open>The follower of the docker events\<close>

definition dockerEventCursorSource :: gostring where "dockerEventCursorSource = ''docker_events''"

text \<open>What comes out of the two channels of a stream, with the reading of the clock; at the end both are closed.\<close>

datatype stream_item = Stream_Event docker_event instant | Stream_Error | Stream_Cancelled

record follow_env =
  fo_outside :: outside
  fo_environment :: gostring
  fo_expected :: "gostring \<Rightarrow> bool"
  fo_stream :: "instant option \<Rightarrow> stream_item list"

definition event_container :: "docker_event \<Rightarrow> container" where
  "event_container e =
    \<lparr>ct_id = [], ct_name = de_name e, ct_image = [], ct_image_id = [], ct_state = [], ct_status = [], ct_ports = [],
     ct_labels = [LabelComposeProject \<mapsto> de_project e, LabelComposeService \<mapsto> de_service e]\<rparr>"

fun ownerForDockerEvent :: "'y outside_scheme \<Rightarrow> service list \<Rightarrow> docker_event \<Rightarrow> gostring" where
  "ownerForDockerEvent env [] e = []"
| "ownerForDockerEvent env (d # ds) e =
    (case serviceNames env d of
       Inl x \<Rightarrow> ownerForDockerEvent env ds e
     | Inr names \<Rightarrow> if belongsTo (event_container e) (svc_project d) names then svc_id d else ownerForDockerEvent env ds e)"

definition eventRequiresReconcile :: "gostring \<Rightarrow> bool" where
  "eventRequiresReconcile a \<longleftrightarrow>
    a \<in> set [''create'', ''start'', ''stop'', ''die'', ''restart'', ''pause'', ''unpause'', ''kill'', ''rename'',
      ''update'', ''destroy'', ''remove'', ''oom'']"

definition requestReconcile :: "('z fleet_world_scheme, err, unit) prog" where
  "requestReconcile = modify (\<lambda>w. w\<lparr>fl_requests := fl_requests w + 1\<rparr>)"

definition stored_event :: "follow_env \<Rightarrow> service list \<Rightarrow> docker_event \<Rightarrow> container_event" where
  "stored_event env defs e =
    (let sid = ownerForDockerEvent (fo_outside env) defs e in
     \<lparr>ce_source = de_source e, ce_at = de_at e, ce_container = de_container e, ce_service = sid,
      ce_environment = fo_environment env, ce_type = de_action e, ce_name = de_name e, ce_compose = de_service e,
      ce_expected = (sid \<noteq> [] \<and> fo_expected env sid)\<rparr>)"

definition event_cursor :: "docker_event \<Rightarrow> instant \<Rightarrow> cursor \<Rightarrow> cursor" where
  "event_cursor e now c =
    c\<lparr>cu_source := dockerEventCursorSource, cu_identity := de_source e,
      cu_recorded := (if cu_recorded c < de_at e then de_at e else cu_recorded c),
      cu_success := now, cu_error := [], cu_complete := True\<rparr>"

text \<open>The event and the moved cursor; the cursor of the caller moves before it is saved.\<close>

definition persistEvent ::
  "follow_env \<Rightarrow> service list \<Rightarrow> docker_event \<Rightarrow> instant \<Rightarrow> cursor \<Rightarrow> ('z fleet_world_scheme, err, cursor) prog" where
  "persistEvent env defs e now c =
    andthen (map_error (\<lambda>_. ErrOther ''persisting docker event'') (UpsertContainerEvent (stored_event env defs e)))
   (andthen (map_error (\<lambda>_. ErrOther ''persisting docker event cursor'') (cursor_Upsert (event_cursor e now c)))
   (andthen (if eventRequiresReconcile (de_action e) then requestReconcile else ret ())
     (ret (event_cursor e now c))))"

definition broken_cursor :: "cursor \<Rightarrow> cursor" where
  "broken_cursor c = c\<lparr>cu_source := dockerEventCursorSource, cu_error := ''docker_events_unavailable'', cu_complete := False\<rparr>"

fun follow :: "follow_env \<Rightarrow> service list \<Rightarrow> stream_item list \<Rightarrow> cursor \<Rightarrow> ('z fleet_world_scheme, err, unit) prog" where
  "follow env defs [] c = requestReconcile"
| "follow env defs (Stream_Event e now # xs) c = bindE (persistEvent env defs e now c) (follow env defs xs)"
| "follow env defs (Stream_Error # xs) c =
    bindE (attempt (cursor_Upsert (broken_cursor c))) (\<lambda>r :: err + unit.
     andthen requestReconcile (throw (ErrOther ''docker event stream unavailable'')))"
| "follow env defs (Stream_Cancelled # xs) c = throw (ErrOther ''context canceled'')"

definition runStream :: "follow_env \<Rightarrow> ('z fleet_world_scheme, err, unit) prog" where
  "runStream env =
    bindE (map_error (\<lambda>_. ErrOther ''loading services for docker events'') svc_all) (\<lambda>defs.
    bindE (attempt (cursor_Get dockerEventCursorSource)) (\<lambda>r :: err + cursor.
     case r of
       Inr c \<Rightarrow>
         follow env defs (fo_stream env (if is_zero_time (cu_recorded c) then None else Some (cu_recorded c))) c
     | Inl e \<Rightarrow>
         if e = ErrCollectorCursorNotFound dockerEventCursorSource then follow env defs (fo_stream env None) no_cursor
         else throw (ErrOther ''loading docker event cursor'')))"

section \<open>Resuming the stream\<close>

definition resume_time :: "'z fleet_world_scheme \<Rightarrow> instant" where
  "resume_time w = (case cursor_of dockerEventCursorSource w of None \<Rightarrow> zero_time | Some c \<Rightarrow> cu_recorded c)"

definition event_stored :: "'z fleet_world_scheme \<Rightarrow> docker_event \<Rightarrow> bool" where
  "event_stored w e \<longleftrightarrow> de_source e \<in> ce_source ` set (pf_events w)"

lemma resume_blind [simp]:
  "resume_time (w\<lparr>faults := fs\<rparr>) = resume_time w" "resume_time (w\<lparr>pf_events := es\<rparr>) = resume_time w"
  "resume_time (w\<lparr>fl_requests := n\<rparr>) = resume_time w"
  by (simp_all add: resume_time_def cursor_of_def)

lemma stored_blind [simp]:
  "event_stored (w\<lparr>faults := fs\<rparr>) e = event_stored w e" "event_stored (w\<lparr>sw_cursors := cs\<rparr>) e = event_stored w e"
  "event_stored (w\<lparr>fl_requests := n\<rparr>) e = event_stored w e"
  by (simp_all add: event_stored_def)

lemma resume_saved:
  "cu_source c = dockerEventCursorSource \<Longrightarrow>
    resume_time (w\<lparr>sw_cursors := save_cursor c (sw_cursors w)\<rparr>) = cu_recorded c"
  by (simp add: resume_time_def cursor_saved)

fun stream_events :: "stream_item list \<Rightarrow> docker_event list" where
  "stream_events [] = []"
| "stream_events (Stream_Event e now # xs) = e # stream_events xs"
| "stream_events (_ # xs) = stream_events xs"

text \<open>Every event is stored or not behind the place from which the next stream resumes; after an end without an error
  all are stored; nothing stored is lost, and no identity is stored twice.\<close>

definition resumable ::
  "docker_event list \<Rightarrow> 'z fleet_world_scheme \<Rightarrow> err + unit \<Rightarrow> 'z fleet_world_scheme \<Rightarrow> bool" where
  "resumable es w r t \<longleftrightarrow>
    (r = Inr () \<longrightarrow> (\<forall>e\<in>set es. event_stored t e)) \<and>
    (\<forall>e\<in>set es. event_stored t e \<or> resume_time t \<le> de_at e) \<and> (\<forall>e. event_stored w e \<longrightarrow> event_stored t e) \<and>
    (distinct (map ce_source (pf_events w)) \<longrightarrow> distinct (map ce_source (pf_events t)))"

definition insert_event :: "container_event \<Rightarrow> 'z fleet_world_scheme \<Rightarrow> 'z fleet_world_scheme" where
  "insert_event d w =
    (if list_ex (\<lambda>x. ce_source x = ce_source d) (pf_events w) then w else w\<lparr>pf_events := pf_events w @ [d]\<rparr>)"

lemma insert_event_props [simp]:
  "resume_time (insert_event d w) = resume_time w"
  "event_stored (insert_event d w) e \<longleftrightarrow> event_stored w e \<or> de_source e = ce_source d"
  "distinct (map ce_source (pf_events w)) \<Longrightarrow> distinct (map ce_source (pf_events (insert_event d w)))"
  by (auto simp: insert_event_def event_stored_def list_ex_iff image_iff) (metis+)?

lemma wp_insert_event:
  assumes "\<And>fs e. Q (Inl e) (w\<lparr>faults := fs\<rparr>)" "\<And>fs. Q (Inr ()) ((insert_event d w)\<lparr>faults := fs\<rparr>)"
  shows "wp (UpsertContainerEvent d) Q w"
proof -
  have eq: "UpsertContainerEvent d =
      andthen (guardE (\<not> (ce_source d = [] \<or> is_zero_time (ce_at d) \<or> ce_environment d = [] \<or> ce_type d = [] \<or>
        128 < length (ce_source d) \<or> 128 < length (ce_name d) \<or> 128 < length (ce_compose d)))
      (ErrOther ''upserting container event: invalid bounded fields''))
     (andthen (stmt (ErrOther ''upserting container event'')) (modify (insert_event d)))"
    by (simp add: UpsertContainerEvent_def insert_event_def [abs_def])
  have "insert_event d (w\<lparr>faults := fs\<rparr>) = (insert_event d w)\<lparr>faults := fs\<rparr>" for fs
    by (simp add: insert_event_def)
  moreover have "Q (Inl e) w" for e using assms(1) [of e "faults w"] by simp
  ultimately show ?thesis
    unfolding eq by (auto simp: wp_rules intro!: wp_stmt_all assms)
qed

lemma wp_cursor_Upsert:
  assumes "\<And>fs e. Q (Inl e) (w\<lparr>faults := fs\<rparr>)"
    and "\<And>fs. Q (Inr ()) (w\<lparr>faults := fs, sw_cursors := save_cursor c (sw_cursors w)\<rparr>)"
  shows "wp (cursor_Upsert c) Q w"
proof -
  have "Q (Inl e) w" for e using assms(1) [of e "faults w"] by simp
  then show ?thesis
    unfolding cursor_Upsert_def by (auto simp: wp_rules intro!: wp_stmt_all assms)
qed

lemma event_cursor_source [simp]: "cu_source (event_cursor e now c) = dockerEventCursorSource"
  by (simp add: event_cursor_def)

lemma resume_saved_faults:
  "cu_source c = dockerEventCursorSource \<Longrightarrow>
    resume_time (w\<lparr>faults := fs, sw_cursors := save_cursor c (sw_cursors w)\<rparr>) = cu_recorded c"
  using resume_saved [of c "w\<lparr>faults := fs\<rparr>"] by simp

lemma wp_persistEvent:
  fixes w :: "'z fleet_world_scheme"
  assumes d: "d = stored_event env defs e"
    and failed: "\<And>u x. pf_events u = pf_events w \<or> pf_events u = pf_events (insert_event d w) \<Longrightarrow>
      resume_time u = resume_time w \<Longrightarrow> Q (Inl x) u"
    and saved: "\<And>u. pf_events u = pf_events (insert_event d w) \<Longrightarrow>
      resume_time u = cu_recorded (event_cursor e now c) \<Longrightarrow> Q (Inr (event_cursor e now c)) u"
  shows "wp (persistEvent env defs e now c) Q w"
  unfolding persistEvent_def d [symmetric] wp_andthen wp_map_error
  apply (rule wp_insert_event; simp only: onE_simps)
   apply (rule failed; simp)
  apply (rule wp_cursor_Upsert; simp only: onE_simps)
   apply (rule failed; simp)
  apply (simp add: wp_rules requestReconcile_def saved resume_saved_faults)
  done

lemma follow_resumes:
  fixes w :: "'z fleet_world_scheme"
  assumes "sorted (map de_at (stream_events items))"
    and "\<forall>e\<in>set (stream_events items). resume_time w \<le> de_at e \<and> cu_recorded c \<le> de_at e"
  shows "wp (follow env defs items c) (resumable (stream_events items) w) w"
  using assms
proof (induction items arbitrary: w c)
  case Nil
  then show ?case by (simp add: requestReconcile_def wp_rules resumable_def event_stored_def)
next
  case (Cons item items)
  show ?case
  proof (cases item)
    case (Stream_Event e now)
    let ?d = "stored_event env defs e" and ?c = "event_cursor e now c"
    have source: "ce_source ?d = de_source e" by (simp add: stored_event_def Let_def)
    have rec: "cu_recorded ?c = de_at e"
      using Cons.prems(2) Stream_Event by (simp add: event_cursor_def)
    have later: "\<forall>x\<in>set (stream_events items). de_at e \<le> de_at x" and rest: "sorted (map de_at (stream_events items))"
      using Cons.prems(1) Stream_Event by auto
    have failed: "resumable (e # stream_events items) w (Inl x) u"
      if "pf_events u = pf_events w \<or> pf_events u = pf_events (insert_event ?d w)" "resume_time u = resume_time w"
      for u :: "'z fleet_world_scheme" and x
    proof -
      have "event_stored w x \<Longrightarrow> event_stored u x" for x
        using that(1) insert_event_props(2) [of ?d w x] by (auto simp: event_stored_def)
      then show ?thesis using that Cons.prems(2) Stream_Event by (auto simp: resumable_def)
    qed
    have next_step: "wp (follow env defs items ?c) (resumable (e # stream_events items) w) u"
      if u: "resume_time u = de_at e" "pf_events u = pf_events (insert_event ?d w)" for u :: "'z fleet_world_scheme"
    proof -
      have "wp (follow env defs items ?c) (resumable (stream_events items) u) u"
        using later rec u by (intro Cons.IH [OF rest]) simp
      moreover have "event_stored u x \<longleftrightarrow> event_stored w x \<or> de_source x = de_source e" for x
        using insert_event_props(2) [of ?d w x] source by (simp add: event_stored_def [of u] u(2) flip: event_stored_def)
      ultimately show ?thesis
        by (elim wp_mono) (auto simp: resumable_def u(2))
    qed
    show ?thesis
      unfolding Stream_Event follow.simps stream_events.simps wp_bindE
      by (rule wp_persistEvent [OF refl]; simp only: onE_simps) (auto intro: failed next_step simp: rec)
  qed (use Cons.prems in \<open>auto simp: wp_rules requestReconcile_def broken_cursor_def resumable_def event_stored_def
      resume_saved_faults intro!: wp_cursor_Upsert\<close>)
qed

text \<open>C37: Whatever faults occur and however a stream of events ends, the place from which the next stream
  resumes is not behind an event that was not stored, so the next stream delivers it again; an end without an
  error means that every event is stored.  The daemon delivers from the asked time on, in the order of time.\<close>

theorem stream_resumes:
  fixes w :: "'z fleet_world_scheme"
  defines "from_time \<equiv> (if is_zero_time (resume_time w) then None else Some (resume_time w))"
  assumes "runStream env w = (r, t)" "sorted (map de_at (stream_events (fo_stream env from_time)))"
    and "\<forall>e\<in>set (stream_events (fo_stream env from_time)). resume_time w \<le> de_at e"
  shows "(r = Inr () \<longrightarrow> (\<forall>e\<in>set (stream_events (fo_stream env from_time)). event_stored t e))
    \<and> (\<forall>e\<in>set (stream_events (fo_stream env from_time)). event_stored t e \<or> resume_time t \<le> de_at e)
    \<and> (\<forall>e. event_stored w e \<longrightarrow> event_stored t e)
    \<and> (distinct (map ce_source (pf_events w)) \<longrightarrow> distinct (map ce_source (pf_events t)))"
proof -
  let ?es = "stream_events (fo_stream env from_time)"
  have idle: "resumable ?es w (Inl x) (w\<lparr>faults := fs\<rparr>)" for x fs
    using assms(4) by (simp add: resumable_def)
  have run: "wp (follow env defs (fo_stream env from_time) c) (resumable ?es w) (w\<lparr>faults := fs\<rparr>)"
    if "cu_recorded c = resume_time w" for defs c fs
  proof -
    have "wp (follow env defs (fo_stream env from_time) c) (resumable ?es (w\<lparr>faults := fs\<rparr>)) (w\<lparr>faults := fs\<rparr>)"
      using assms(3,4) that by (intro follow_resumes) auto
    then show ?thesis by (simp add: resumable_def [abs_def])
  qed
  have "wp (runStream env) (resumable ?es w) w"
  proof (cases "cursor_of dockerEventCursorSource w")
    case None
    then have f: "from_time = None" "resume_time w = zero_time"
      by (simp_all add: from_time_def resume_time_def is_zero_time_def)
    show ?thesis
      unfolding runStream_def svc_all_def cursor_Get_def
      by (auto simp: wp_rules None f(1) no_cursor_def f(2) intro!: wp_stmt_all idle [unfolded f(1)] run [unfolded f(1)])
  next
    case (Some c)
    then have f: "from_time = (if is_zero_time (cu_recorded c) then None else Some (cu_recorded c))"
        "resume_time w = cu_recorded c"
      by (simp_all add: from_time_def resume_time_def)
    show ?thesis
    proof (cases "is_zero_time (cu_recorded c)")
      case True
      then have "from_time = None" using f by simp
      note g = this
      show ?thesis
        unfolding runStream_def svc_all_def cursor_Get_def
        by (auto simp: wp_rules Some True g f(2) intro!: wp_stmt_all idle [unfolded g] run [unfolded g])
    next
      case False
      then have "from_time = Some (cu_recorded c)" using f by simp
      note g = this
      show ?thesis
        unfolding runStream_def svc_all_def cursor_Get_def
        by (auto simp: wp_rules Some False g f(2) intro!: wp_stmt_all idle [unfolded g] run [unfolded g])
    qed
  qed
  then have "resumable ?es w r t" using assms(2) by (rule wp_run)
  then show ?thesis by (simp add: resumable_def)
qed

definition sample_docker_event :: "gostring \<Rightarrow> instant \<Rightarrow> docker_event" where
  "sample_docker_event i tm =
    \<lparr>de_source = i, de_at = tm, de_action = ''start'', de_container = ''c'', de_name = ''web'', de_project = [],
     de_service = []\<rparr>"

definition sample_fleet_state :: fleet_world where
  "sample_fleet_state =
    \<lparr>faults = [False, False, False, False, False, True], services = [], deploys = empty_table, probes = empty_table,
     notifications = empty_table, audits = empty_table, child_rows = [], events = [],
     sw_instances = [], sw_inventory = \<lparr>iv_reconciled = None, iv_complete = False, iv_error = [], iv_observed = 0\<rparr>,
     sw_activation = (None, []), sw_baselines = empty_table, sw_ignores = [],
     sw_policies = empty_table, sw_observations = empty_table, sw_findings = empty_table, sw_cursors = [],
     lg_lines = empty_table, lg_positions = [], lg_losses = [], lg_volume = [], lg_batches = [],
     pf_minutes = [], pf_hours = [], pf_marks = [], pf_postgres = [], pf_statements = [], pf_redis = [], pf_events = [],
     fl_hosts = empty_table, fl_samples = empty_table, fl_cpu = None, fl_requests = 0\<rparr>"

definition sample_follow :: "outside \<Rightarrow> follow_env" where
  "sample_follow out =
    \<lparr>fo_outside = out, fo_environment = ''production'', fo_expected = (\<lambda>_. False),
     fo_stream = (\<lambda>_. [Stream_Event (sample_docker_event ''a'' 1) 5, Stream_Event (sample_docker_event ''b'' 2) 5])\<rparr>"

lemma stream_resumes_witness:
  "\<forall>out. \<exists>t. runStream (sample_follow out) sample_fleet_state = (Inl (ErrOther ''persisting docker event''), t)
    \<and> \<not> event_stored t (sample_docker_event ''b'' 2) \<and> resume_time t \<le> 2"
proof
  fix out :: outside
  let ?e = "sample_docker_event"
  obtain t where t: "runStream (sample_follow out) sample_fleet_state = (Inl (ErrOther ''persisting docker event''), t)"
      "\<not> event_stored t (?e ''b'' 2)"
    by (simp add: runStream_def sample_follow_def sample_fleet_state_def svc_all_def cursor_Get_def cursor_of_def
        persistEvent_def UpsertContainerEvent_def cursor_Upsert_def stored_event_def sample_docker_event_def Let_def
        run_defs stmt_def map_error_def attempt_def of_option_def no_cursor_def event_cursor_def event_stored_def
        dockerEventCursorSource_def requestReconcile_def eventRequiresReconcile_def is_zero_time_def zero_time_def)
  have "resume_time sample_fleet_state = zero_time"
    by (simp add: resume_time_def cursor_of_def sample_fleet_state_def)
  then have "event_stored t (?e ''b'' 2) \<or> resume_time t \<le> 2"
    using stream_resumes [OF t(1)] by (simp add: sample_follow_def sample_docker_event_def zero_time_def)
  then show "\<exists>t. runStream (sample_follow out) sample_fleet_state = (Inl (ErrOther ''persisting docker event''), t)
      \<and> \<not> event_stored t (?e ''b'' 2) \<and> resume_time t \<le> 2"
    using t by blast
qed

end
