(* ===== verification/Spec2Isabelle.thy ===== *)
theory Spec2Isabelle
  imports Cutover_Laws Auth_Laws Db_Health Containers_Laws Fleet_Laws Maint_Laws Snapshot_Laws Scanner_Laws
    Event_Laws Log_Laws Onboarding_Laws Config_Laws Watch_Laws Sdk_Laws Alerts_Laws Sampling
    Docker_Guard Host_System Docker_Client Perf_Faults Fleet_Sampling
begin

text \<open>
  A model of touchgrass, a self-hosted monitor and deploy tool written in Go (under \<open>src/\<close>), and the theorems that
  make its core correct.  Paths below are relative to \<open>src/internal/\<close>.

  \<^bold>\<open>The program.\<close>  One process watches the containers of a host.  The deploy engine (\<open>service/cutover.go\<close>) runs the
  scripts that move a service from one colour to the other; the watch (\<open>service/watch.go\<close>) notices moves from outside.
  The security side keeps an inventory of containers (\<open>service/fleet_inventory.go\<close>), scans them and keeps findings
  (\<open>store/security.go\<close>).  Collectors gather container logs, nginx timings, security events and figures of the databases
  and the host.  Applications send error reports and logs (\<open>service/ingest.go\<close>, \<open>sdk_logs.go\<close>).  Alerts compare
  samples with rules.  Database jobs take and restore backups; a maintenance pass enforces retention.  Everything is
  stored in one SQLite database (\<open>store/\<close>), and every surface is behind the session layer (\<open>http/auth.go\<close>).

  \<^bold>\<open>State and effects.\<close>  A computation (\<open>prog\<close>, theory \<open>Effects\<close>) maps a state
  to an error or a value and the new state.
  The bottom of the state is \<open>sqldb\<close>: a list of booleans, the faults, that says which of the coming SQL statements
  fail; \<open>stmt\<close> consumes one, \<open>tx\<close> rolls back, \<open>attempt\<close> is Go code that logs an error
  and goes on.  So "whatever faults
  occur" is a quantifier over that list.  The records extend one another as the components do:
  \<open>world\<close> (services, deploys, probes, notifications, audit log; theory \<open>World\<close>) is extended by \<open>cutover_world\<close>,
  \<open>users_world\<close> with \<open>auth_world\<close>, \<open>db_world\<close> and \<open>sec_world\<close> (inventory,
  baselines, findings, policies, cursors).  On
  \<open>sec_world\<close> rest \<open>scan_world\<close>, \<open>event_world\<close> and \<open>log_world\<close>; on the
  log lines \<open>ingest_world\<close> with \<open>alert_world\<close>, and
  \<open>collector_world\<close> with \<open>perf_world\<close>, and on that \<open>collector_world2\<close> and
  \<open>fleet_world\<close>.  The watch, the breaker of the docker client and the database
  files have records of their own.  A record of what a handler reads from outside (clock, docker, files) is an argument.

  \<^bold>\<open>Which theory models what.\<close>
  \<^item> \<open>Prelude\<close>, \<open>Effects\<close>, \<open>Tables\<close>, \<open>Go_Strings\<close>,
    \<open>Go_Paths\<close>, \<open>Go_Float\<close>, \<open>Duration_Parse\<close>, \<open>Json_Text\<close>,
    \<open>Json_Config\<close>,
    \<open>Sha256\<close>: collections, effects, SQL tables with page bounds, and what is used of Go's library (strings, paths, float64 with
    its rounding, durations, JSON texts and decoding, SHA-256).  \<open>Timestamps\<close>: \<open>store/time.go\<close>, the calendar and
    \<open>time.Parse\<close>.
  \<^item> \<open>World\<close>, \<open>Store_Laws\<close>: the deploy-side stores, the schema as an invariant, and the
    deletion of a service against the
    foreign keys of the migrations.  \<open>Audit_Log\<close>, \<open>Deploy_History\<close>:
    \<open>service/audit.go\<close>, \<open>deploys.go\<close>.  \<open>Live_Target\<close>, \<open>Service_View\<close>:
    \<open>probe/\<close>, \<open>service/deploy.go\<close>.  \<open>Cutover\<close>,
    \<open>Cutover_Laws\<close>: the engine.  \<open>Watch\<close>, \<open>Watch_Laws\<close>: the watch.
    \<open>Onboarding\<close>, \<open>Onboarding_Laws\<close>: \<open>service/onboarding.go\<close>.
  \<^item> \<open>Users\<close>, \<open>Users_Laws\<close>, \<open>Auth\<close>, \<open>Auth_Laws\<close>: accounts, sessions, rate limit, routes; a
    login is three lock sections, which \<open>login_step\<close> interleaves with those of other requests.
    \<open>Config\<close>, \<open>Config_Laws\<close>:
    \<open>config/config.go\<close>.
  \<^item> \<open>Backups\<close>, \<open>Db_Jobs\<close>, \<open>Db_Jobs_Laws\<close>, \<open>Backup_Laws\<close>,
    \<open>Restore_Laws\<close>, \<open>Db_Health\<close>: \<open>service/database.go\<close>,
    \<open>store/database.go\<close>; \<open>db_step\<close> interleaves the jobs with the retention that deletes their rows.
    \<open>Maint_Store\<close>, \<open>Maint_Service\<close>, \<open>Maint_Laws\<close>, \<open>Snapshot_Laws\<close>:
    retention and snapshots.
  \<^item> \<open>Sec_World\<close>, \<open>Containers\<close>, \<open>Containers_Laws\<close>, \<open>Security\<close>,
    \<open>Findings\<close>, \<open>Findings_Laws\<close>, \<open>Policies\<close>, \<open>Security_Flow\<close>,
    \<open>Evaluate_Laws\<close>, \<open>Security_Laws\<close>, \<open>Fleet_Inventory\<close>, \<open>Fleet_Laws\<close>:
    inventory, findings, workflow and posture rules.
    \<open>Docker_Rows\<close>, \<open>Scanners\<close>, \<open>Scanner_Laws\<close>: the process and layer scanners.
    \<open>Log_Tailer\<close>, \<open>Tailer_Laws\<close>,
    \<open>Security_Events\<close>, \<open>Event_Laws\<close>: the two tailers and the security events.
  \<^item> \<open>Docker_Guard\<close>, \<open>Docker_Client\<close>, \<open>Host_System\<close>:
    \<open>docker/guard.go\<close>, the answers of the daemon (\<open>docker/client.go\<close>,
    \<open>inventory.go\<close>, \<open>events.go\<close>, \<open>stats.go\<close>, \<open>images.go\<close>) and \<open>service/system.go\<close>.
    \<open>Fleet_Sampling\<close>: \<open>service/fleet.go\<close>, \<open>store/fleet.go\<close>, with the follower of the docker events.
  \<^item> \<open>Log_Lines\<close>, \<open>Log_Collect\<close>, \<open>Log_Laws\<close>: container logs; the daemon sends
    the raw answer, which \<open>docker_Logs\<close> reads as
    the code does, the lines of stdout before those of stderr.  \<open>Ingest_Store\<close>, \<open>Ingest\<close>, \<open>Ingest_Laws\<close>,
    \<open>Sampling\<close>, \<open>Sdk_Logs\<close>, \<open>Sdk_Laws\<close>: error reports and SDK logs.
    \<open>Alerts\<close>, \<open>Alerts_Laws\<close>: samples and alert rules.
  \<^item> \<open>Perf_Store\<close>, \<open>Perf_Query\<close>, \<open>Perf_Collect\<close>, \<open>Nginx_Timing\<close>,
    \<open>Perf_Laws\<close>, \<open>Perf_Faults\<close>: \<open>store/performance.go\<close>,
    \<open>service/performance.go\<close>, \<open>performance_collector.go\<close>, \<open>nginxlog/parser.go\<close>.

  \<^bold>\<open>What the lemmas show.\<close>  Three kinds carry most proofs.  A predicate that a computation keeps on any fault is an
  instance of the locale \<open>db_invariant\<close> with the rules \<open>keeps_rules\<close> (schema, accounts, inventory,
  groups, rollups).  A computation
  that is \<open>calm\<close> and returned did what it does without faults, and one that is \<open>atomic\<close> and failed did nothing, so a
  functional description without faults gives the whole-or-nothing theorems.  State machines are inductive step relations with
  invariants by rule induction (the runs of the engine, the login attempts, the database jobs, the episodes of a finding, the
  permits of the docker client).  The other locales
  (\<open>rowid_table\<close>, \<open>run_guard\<close>, \<open>page_bound\<close>) are interpreted where the code provides them.
  Where the program does not do what it means to, a theorem says what it does: for instance that a batch of timings whose cursor
  was lost counts twice, that the restore of an old backup deletes it, that the watch reports the engine's own flip, that
  simultaneous logins get past the limit of guesses, or that of
  two log lines with one stamp on two streams one may be lost and the other doubled.

  \<^bold>\<open>Bounds and fuel.\<close>  Loops over lists are structural.  The searches for matches, runes and paths end by the length of the
  text.  The search of log lines by level reads at most 20 chunks of 1000 rows, as the code does.  \<open>Log_Lines.go_fields\<close>
  takes the length of the text as fuel, of which each step needs one byte.  Retention passes end by the
  number of doomed rows.

  \<^bold>\<open>Parameters.\<close>  The answers of docker, of scripts, of HTTP probes and of the file system; bcrypt; random bytes; the clock; the
  JSON grammar (from text to tree); \<open>strings.ToUpper\<close>, \<open>ToLower\<close> and
  \<open>unicode.IsLetter\<close> outside ASCII; the full-text match,
  LIKE and PRAGMA answers of SQLite and how it adds a REAL column; the float64 product inside \<open>time.ParseDuration\<close>; the
  conversion of a float beyond int64.  Nothing is assumed of them but what a theorem names.

  \<^bold>\<open>Not modelled.\<close>  The decoding of HTTP requests, JSON rendering and status codes, the served pages and their assets, process
  start-up (\<open>cmd/\<close>), migrations and opening of the database, log lines, and tickers, whose single pass is modelled: they are glue
  or input and output.  The commands that read PostgreSQL and Redis (\<open>dbstats/\<close>) are left out; what they deliver enters as
  snapshots.  Parallel workers are sequential where their outcomes do not depend on the order.  The web
  client and the SDKs are other languages.
\<close>

end
